(* ===== verification/Auth_Prelude.thy ===== *)
theory Auth_Prelude
  imports Main "HOL-Library.Finite_Map" "HOL-Library.Char_ord" "HOL-Library.List_Lexorder"
    "HOL-Library.Multiset" "HOL-Library.Sublist"
begin

text \<open>
  What every component of the model shares. A Go \<open>map[K]V\<close> is a finite map
  (\<open>fmap\<close>); a \<open>map[K]struct{}\<close> is a finite set; a Go string is the list of its
  bytes (\<open>string\<close>), compared bytewise as Go compares strings; a \<open>time.Time\<close> is the
  number of nanoseconds since the Unix epoch; a \<open>time.Duration\<close> is a number of
  nanoseconds; a Go \<open>int\<close> is an \<open>int\<close> with the 64-bit wrap-around written out where it
  can be reached. A call that returns \<open>(T, error)\<close> returns \<open>error + T\<close>; a call that also
  changes a store returns the store beside it.
\<close>

named_theorems store_intros \<open>a store operation keeps the store's invariant\<close>
named_theorems store_simps \<open>what a store answers after an operation\<close>

type_synonym time = int
type_synonym duration = int

abbreviation second :: duration where "second \<equiv> 1000000000"
abbreviation minute :: duration where "minute \<equiv> 60 * second"
abbreviation hour :: duration where "hour \<equiv> 60 * minute"

text \<open>A call that may panic.\<close>

datatype 'a outcome = Returns 'a | Panics

text \<open>The slice expression \<open>xs[low:high]\<close>, which panics where the bounds are out of range. (A bound between the
  length and the capacity, which the runtime would admit, is a panic here: the capacity is not modelled.)\<close>

definition go_slice :: "'a list \<Rightarrow> int \<Rightarrow> int \<Rightarrow> 'a list outcome" where
  "go_slice xs low high =
     (if 0 \<le> low \<and> low \<le> high \<and> high \<le> int (length xs)
      then Returns (take (nat (high - low)) (drop (nat low) xs)) else Panics)"

lemma go_slice_Returns:
  "go_slice xs low high = Returns ys \<Longrightarrow> \<exists>i n. ys = take n (drop i xs)"
  by (auto simp: go_slice_def split: if_splits)

lemma go_slice_panics: "go_slice xs low high = Panics \<longleftrightarrow> \<not> (0 \<le> low \<and> low \<le> high \<and> high \<le> int (length xs))"
  by (auto simp: go_slice_def)

text \<open>\<open>append([]T(nil), xs...)\<close>: the empty result is the nil slice. \<open>None\<close> is the nil slice.\<close>

definition append_nil :: "'a list \<Rightarrow> 'a list option" where
  "append_nil xs = (if xs = [] then None else Some xs)"

abbreviation slice_elems :: "'a list option \<Rightarrow> 'a list" where
  "slice_elems xs \<equiv> (case xs of None \<Rightarrow> [] | Some ys \<Rightarrow> ys)"

text \<open>\<open>time.Time.Unix\<close> and \<open>time.Unix(sec, 0)\<close>.\<close>

definition unix_of :: "time \<Rightarrow> int" where
  "unix_of t = t div second"

definition time_of_unix :: "int \<Rightarrow> time" where
  "time_of_unix s = s * second"

lemma time_of_unix_le: "time_of_unix (unix_of t) \<le> t"
proof -
  have "t div second * second + t mod second = t" by (rule div_mult_mod_eq)
  moreover have "0 \<le> t mod second" by simp
  ultimately show ?thesis unfolding time_of_unix_def unix_of_def by linarith
qed

lemma time_of_unix_gt: "t < time_of_unix (unix_of t) + second"
proof -
  have "t div second * second + t mod second = t" by (rule div_mult_mod_eq)
  moreover have "t mod second < second" by simp
  ultimately show ?thesis unfolding time_of_unix_def unix_of_def by linarith
qed

text \<open>The 64-bit two's complement value of an \<open>int\<close> result (Go's \<open>int\<close> and \<open>int64\<close>).\<close>

definition wrap64 :: "int \<Rightarrow> int" where
  "wrap64 z = (z + 2 ^ 63) mod 2 ^ 64 - 2 ^ 63"

abbreviation max_int64 :: int where "max_int64 \<equiv> 2 ^ 63 - 1"
abbreviation min_int64 :: int where "min_int64 \<equiv> - (2 ^ 63)"

definition is_int64 :: "int \<Rightarrow> bool" where
  "is_int64 z \<longleftrightarrow> min_int64 \<le> z \<and> z \<le> max_int64"

lemma wrap64_id: "is_int64 z \<Longrightarrow> wrap64 z = z"
  by (simp add: wrap64_def is_int64_def)

lemma wrap64_overflow:
  "max_int64 < z \<Longrightarrow> z < 2 ^ 64 \<Longrightarrow> wrap64 z = z - 2 ^ 64"
proof -
  assume lo: "max_int64 < z" and hi: "z < 2 ^ 64"
  have "z + 2 ^ 63 = (z - 2 ^ 63) + 2 ^ 64" by simp
  also have "\<dots> mod 2 ^ 64 = (z - 2 ^ 63) mod 2 ^ 64" by (rule mod_add_self2)
  also have "\<dots> = z - 2 ^ 63" using lo hi by (intro mod_pos_pos_trivial) auto
  finally show ?thesis by (simp only: wrap64_def) simp
qed

text \<open>
  The values of a Go map in one iteration order: the order of the keys. Go's own order is
  unspecified; the operations that range over a map sort what they collect or fold a
  commutative update, and the lemmas about them say that the order does not matter.
\<close>

definition range_keys :: "('k::linorder, 'v) fmap \<Rightarrow> 'k list" where
  "range_keys m = map fst (sorted_list_of_fmap m)"

definition range_values :: "('k::linorder, 'v) fmap \<Rightarrow> 'v list" where
  "range_values m = map snd (sorted_list_of_fmap m)"

lemma set_sorted_list_of_fmap [simp]:
  "set (sorted_list_of_fmap m) = {(k, v). fmlookup m k = Some v}"
  by (auto simp: sorted_list_of_fmap_def fmlookup_dom_iff image_iff)

lemma set_range_keys [simp]: "set (range_keys m) = fmdom' m"
  by (auto simp: range_keys_def sorted_list_of_fmap_def fmdom'_alt_def)

lemma distinct_range_keys [simp]: "distinct (range_keys m)"
  by (simp add: range_keys_def sorted_list_of_fmap_def sorted_list_of_fset.rep_eq comp_def)

lemma distinct_sorted_list_of_fmap: "distinct (sorted_list_of_fmap m)"
  using distinct_range_keys[of m] unfolding range_keys_def by (simp add: distinct_map)

lemma sorted_range_keys [simp]: "sorted (range_keys m)"
  by (simp add: range_keys_def sorted_list_of_fmap_def sorted_list_of_fset.rep_eq comp_def)

lemma set_range_values [simp]: "v \<in> set (range_values m) \<longleftrightarrow> (\<exists>k. fmlookup m k = Some v)"
  by (auto simp: range_values_def image_iff)

lemma range_values_conv: "range_values m = map (\<lambda>k. the (fmlookup m k)) (range_keys m)"
  by (simp add: range_values_def range_keys_def sorted_list_of_fmap_def comp_def)

lemma length_range_values: "length (range_values m) = card (fmdom' m)"
  by (simp add: range_values_conv)
     (metis distinct_card distinct_range_keys set_range_keys)

text \<open>
  When every value of a map carries its own key (as every record store keeps it), sorting
  the values by that key is the key order, whatever order they were collected in.
\<close>

definition keyed :: "('v \<Rightarrow> 'k) \<Rightarrow> ('k, 'v) fmap \<Rightarrow> bool" where
  "keyed f m \<longleftrightarrow> fmpred (\<lambda>k v. f v = k) m"

lemma keyedD: "keyed f m \<Longrightarrow> fmlookup m k = Some v \<Longrightarrow> f v = k"
  by (auto simp: keyed_def)

lemma keyed_empty [simp]: "keyed f fmempty"
  by (simp add: keyed_def)

lemma keyed_upd [simp, intro]: "keyed f m \<Longrightarrow> f v = k \<Longrightarrow> keyed f (fmupd k v m)"
  by (auto simp: keyed_def)

lemma keyed_upd_same:
  "keyed f m \<Longrightarrow> fmlookup m k = Some v \<Longrightarrow> f v' = f v \<Longrightarrow> keyed f (fmupd k v' m)"
  by (auto simp: keyed_def)

lemma keyed_drop [simp, intro]: "keyed f m \<Longrightarrow> keyed f (fmdrop k m)"
  by (auto simp: keyed_def)

lemma keyed_filter [simp, intro]: "keyed f m \<Longrightarrow> keyed f (fmfilter P m)"
  by (auto simp: keyed_def)

lemma keyed_map_key: "keyed f m \<Longrightarrow> map f (range_values m) = range_keys m"
  by (simp add: range_values_conv comp_def)
     (rule map_idI, auto simp: keyed_def fmlookup_dom'_iff)

lemma keyed_distinct: "keyed f m \<Longrightarrow> distinct (range_values m)"
  using distinct_map[of f "range_values m"] by (simp add: keyed_map_key)

lemma keyed_inj: "keyed f m \<Longrightarrow> inj_on f (set (range_values m))"
  by (metis distinct_map distinct_range_keys keyed_map_key)

lemma keyed_sort_key: "keyed f m \<Longrightarrow> sort_key f (range_values m) = range_values m"
  by (rule sort_key_id_if_sorted) (simp add: keyed_map_key)

lemma sort_key_perm_eq:
  "mset xs = mset ys \<Longrightarrow> inj_on f (set ys) \<Longrightarrow> sort_key f xs = sort_key f ys"
  by (rule sort_key_inj_key_eq) (auto dest: mset_eq_setD)

lemma keyed_sort_key_any_order:
  "keyed f m \<Longrightarrow> mset vs = mset (range_values m) \<Longrightarrow> sort_key f vs = range_values m"
  using sort_key_perm_eq[of vs "range_values m" f] by (simp add: keyed_inj keyed_sort_key)

end
