(* ===== verification/Go_Strings.thy ===== *)
theory Go_Strings
  imports Auth_Prelude
begin

text \<open>
  The functions of Go's \<open>strings\<close> package the code calls, over byte strings.
  \<open>strings.TrimSpace\<close> is exact: it strips the UTF-8 encodings of all 25 runes with
  \<open>unicode.IsSpace\<close>. \<open>strings.ToLower\<close> is exact on ASCII strings; a letter outside ASCII is
  left as it is (the case tables of package \<open>unicode\<close> are not reproduced).
\<close>

section \<open>White space\<close>

definition white_space :: "string list" where
  "white_space =
    map (\<lambda>c. [c]) [CHR 0x20, CHR 0x09, CHR 0x0A, CHR 0x0B, CHR 0x0C, CHR 0x0D] @
    [[CHR 0xC2, CHR 0x85], [CHR 0xC2, CHR 0xA0], [CHR 0xE1, CHR 0x9A, CHR 0x80],
     [CHR 0xE2, CHR 0x80, CHR 0xA8], [CHR 0xE2, CHR 0x80, CHR 0xA9], [CHR 0xE2, CHR 0x80, CHR 0xAF],
     [CHR 0xE2, CHR 0x81, CHR 0x9F], [CHR 0xE3, CHR 0x80, CHR 0x80]] @
    map (\<lambda>c. [CHR 0xE2, CHR 0x80, c])
      [CHR 0x80, CHR 0x81, CHR 0x82, CHR 0x83, CHR 0x84, CHR 0x85, CHR 0x86, CHR 0x87,
       CHR 0x88, CHR 0x89, CHR 0x8A]"

lemma white_space_nonempty: "w \<in> set white_space \<Longrightarrow> w \<noteq> []"
  by (auto simp: white_space_def)

function trim_left :: "string \<Rightarrow> string" where
  "trim_left s = (case find (\<lambda>w. prefix w s) white_space of
     None \<Rightarrow> s | Some w \<Rightarrow> trim_left (drop (length w) s))"
  by pat_completeness auto
termination
  by (relation "measure length")
     (auto dest!: white_space_nonempty simp: find_Some_iff in_set_conv_nth,
      metis length_greater_0_conv nth_mem prefix_length_le prefix_bot.extremum_unique
        white_space_nonempty diff_less less_le_trans)

declare trim_left.simps [simp del]

function trim_right :: "string \<Rightarrow> string" where
  "trim_right s = (case find (\<lambda>w. suffix w s) white_space of
     None \<Rightarrow> s | Some w \<Rightarrow> trim_right (take (length s - length w) s))"
  by pat_completeness auto
termination
  by (relation "measure length")
     (auto dest!: white_space_nonempty simp: find_Some_iff in_set_conv_nth,
      metis length_greater_0_conv nth_mem suffix_length_le suffix_bot.extremum_unique
        white_space_nonempty diff_less less_le_trans)

declare trim_right.simps [simp del]

definition trim_space :: "string \<Rightarrow> string" where
  "trim_space s = trim_right (trim_left s)"

definition starts_white :: "string \<Rightarrow> bool" where
  "starts_white s \<longleftrightarrow> (\<exists>w\<in>set white_space. prefix w s)"

definition ends_white :: "string \<Rightarrow> bool" where
  "ends_white s \<longleftrightarrow> (\<exists>w\<in>set white_space. suffix w s)"

lemma find_ex_conv: "(\<forall>x\<in>set xs. \<not> P x) \<longleftrightarrow> find P xs = None"
  by (auto simp: find_None_iff)

lemma trim_left_id: "\<not> starts_white s \<Longrightarrow> trim_left s = s"
  by (subst trim_left.simps) (simp add: starts_white_def find_ex_conv)

lemma trim_right_id: "\<not> ends_white s \<Longrightarrow> trim_right s = s"
  by (subst trim_right.simps) (simp add: ends_white_def find_ex_conv)

lemma trim_left_not_white: "\<not> starts_white (trim_left s)"
proof (induction s rule: trim_left.induct)
  case (1 s)
  show ?case
  proof (cases "find (\<lambda>w. prefix w s) white_space")
    case None
    then have "\<not> starts_white s" by (auto simp: starts_white_def find_None_iff)
    then show ?thesis by (simp add: trim_left_id)
  next
    case (Some w)
    then show ?thesis using 1 by (subst trim_left.simps) simp
  qed
qed

lemma trim_right_not_white: "\<not> ends_white (trim_right s)"
proof (induction s rule: trim_right.induct)
  case (1 s)
  show ?case
  proof (cases "find (\<lambda>w. suffix w s) white_space")
    case None
    then have "\<not> ends_white s" by (auto simp: ends_white_def find_None_iff)
    then show ?thesis by (simp add: trim_right_id)
  next
    case (Some w)
    then show ?thesis using 1 by (subst trim_right.simps) simp
  qed
qed

lemma trim_right_prefix: "prefix (trim_right s) s"
proof (induction s rule: trim_right.induct)
  case (1 s)
  show ?case
  proof (cases "find (\<lambda>w. suffix w s) white_space")
    case None
    then show ?thesis by (subst trim_right.simps) simp
  next
    case (Some w)
    then show ?thesis using 1
      by (subst trim_right.simps) (simp, meson prefix_order.trans take_is_prefix)
  qed
qed

lemma trim_space_not_white:
  "\<not> starts_white (trim_space s)" "\<not> ends_white (trim_space s)"
  using trim_left_not_white[of s] trim_right_prefix[of "trim_left s"]
  by (auto simp: trim_space_def starts_white_def trim_right_not_white
      dest: prefix_order.trans)

lemma trim_space_id: "\<not> starts_white s \<Longrightarrow> \<not> ends_white s \<Longrightarrow> trim_space s = s"
  by (simp add: trim_space_def trim_left_id trim_right_id)

lemma trim_space_idem [simp]: "trim_space (trim_space s) = trim_space s"
  by (simp add: trim_space_id trim_space_not_white)

section \<open>Case\<close>

definition to_lower_byte :: "char \<Rightarrow> char" where
  "to_lower_byte c = (let n = of_char c :: nat in
     if 65 \<le> n \<and> n \<le> 90 then char_of (n + 32) else c)"

definition to_lower :: "string \<Rightarrow> string" where
  "to_lower s = map to_lower_byte s"

lemma to_lower_byte_code:
  "of_char (to_lower_byte c) =
     (if 65 \<le> (of_char c :: nat) \<and> (of_char c :: nat) \<le> 90 then of_char c + 32 else (of_char c :: nat))"
  by (simp add: to_lower_byte_def Let_def of_char_of take_bit_eq_mod)

lemma to_lower_byte_idem [simp]: "to_lower_byte (to_lower_byte c) = to_lower_byte c"
  by (auto simp: to_lower_byte_def Let_def of_char_of take_bit_eq_mod)

lemma to_lower_idem [simp]: "to_lower (to_lower s) = to_lower s"
  by (simp add: to_lower_def comp_def)

lemma to_lower_Nil [simp]: "to_lower s = [] \<longleftrightarrow> s = []"
  by (simp add: to_lower_def)

text \<open>No byte of a white-space rune is a letter, so lower-casing neither makes nor removes one.\<close>

definition not_letter :: "char \<Rightarrow> bool" where
  "not_letter c \<longleftrightarrow> \<not> (65 \<le> (of_char c :: nat) \<and> (of_char c :: nat) \<le> 90)
     \<and> \<not> (97 \<le> (of_char c :: nat) \<and> (of_char c :: nat) \<le> 122)"

lemma to_lower_byte_eq:
  "not_letter d \<Longrightarrow> to_lower_byte c = d \<longleftrightarrow> c = d"
  "not_letter d \<Longrightarrow> d = to_lower_byte c \<longleftrightarrow> d = c"
  by (auto simp: not_letter_def to_lower_byte_def Let_def of_char_of take_bit_eq_mod)

lemma white_space_not_letter: "w \<in> set white_space \<Longrightarrow> c \<in> set w \<Longrightarrow> not_letter c"
  by (auto simp: white_space_def not_letter_def)

lemma prefix_to_lower:
  "\<forall>c\<in>set w. not_letter c \<Longrightarrow> prefix w (to_lower s) \<longleftrightarrow> prefix w s"
  by (induction w arbitrary: s; case_tac s) (auto simp: to_lower_def to_lower_byte_eq)

lemma rev_to_lower: "rev (to_lower s) = to_lower (rev s)"
  by (simp add: to_lower_def rev_map)

lemma suffix_to_lower:
  "\<forall>c\<in>set w. not_letter c \<Longrightarrow> suffix w (to_lower s) \<longleftrightarrow> suffix w s"
  using prefix_to_lower[of "rev w" "rev s"] by (simp add: suffix_to_prefix rev_to_lower)

lemma starts_white_to_lower: "starts_white (to_lower s) \<longleftrightarrow> starts_white s"
  by (auto simp: starts_white_def prefix_to_lower white_space_not_letter)

lemma ends_white_to_lower: "ends_white (to_lower s) \<longleftrightarrow> ends_white s"
  by (auto simp: ends_white_def suffix_to_lower white_space_not_letter)

lemma trim_to_lower_trim [simp]:
  "trim_space (to_lower (trim_space s)) = to_lower (trim_space s)"
  by (simp add: trim_space_id starts_white_to_lower ends_white_to_lower trim_space_not_white)

section \<open>Splitting and joining\<close>

text \<open>\<open>strings.Split(s, sep)\<close> for a one-byte separator, and \<open>strings.Join\<close>.\<close>

fun split_on :: "char \<Rightarrow> string \<Rightarrow> string list" where
  "split_on c [] = [[]]"
| "split_on c (x # xs) =
     (if x = c then [] # split_on c xs
      else (case split_on c xs of [] \<Rightarrow> [[x]] | p # ps \<Rightarrow> (x # p) # ps))"

fun join :: "string \<Rightarrow> string list \<Rightarrow> string" where
  "join sep [] = []"
| "join sep [p] = p"
| "join sep (p # q # ps) = p @ sep @ join sep (q # ps)"

lemma split_on_not_Nil [simp]: "split_on c s \<noteq> []"
  by (induction s) (auto split: list.splits)

lemma split_on_parts: "p \<in> set (split_on c s) \<Longrightarrow> c \<notin> set p"
  by (induction s arbitrary: p) (auto split: if_splits list.splits)

lemma split_on_clean: "c \<notin> set p \<Longrightarrow> split_on c p = [p]"
  by (induction p) auto

lemma split_on_append: "c \<notin> set p \<Longrightarrow> split_on c (p @ c # s) = p # split_on c s"
  by (induction p) auto

lemma split_on_join:
  "ps \<noteq> [] \<Longrightarrow> \<forall>p\<in>set ps. c \<notin> set p \<Longrightarrow> split_on c (join [c] ps) = ps"
  by (induction "[c]" ps rule: join.induct) (auto simp: split_on_clean split_on_append)

lemma join_split_on: "join [c] (split_on c s) = s"
proof (induction s)
  case (Cons x xs)
  obtain p ps where "split_on c xs = p # ps" by (cases "split_on c xs") auto
  then show ?case using Cons by (cases ps) auto
qed simp

text \<open>\<open>strings.LastIndex\<close> of one byte, as the part after it (the whole string without one).\<close>

definition after_last :: "char \<Rightarrow> string \<Rightarrow> string" where
  "after_last c s = last (split_on c s)"

lemma split_on_append_any: "split_on c (a @ c # s) = split_on c a @ split_on c s"
proof (induction a)
  case (Cons x a)
  then show ?case by (cases "split_on c a") simp_all
qed simp

lemma after_last_clean: "c \<notin> set s \<Longrightarrow> after_last c s = s"
  by (simp add: after_last_def split_on_clean)

lemma after_last_at: "c \<notin> set z \<Longrightarrow> after_last c (a @ c # z) = z"
  by (simp add: after_last_def split_on_append_any split_on_clean)

lemma after_last_not_in: "c \<notin> set (after_last c s)"
  unfolding after_last_def using split_on_parts[of _ c s] last_in_set[OF split_on_not_Nil] by blast

lemma after_last_suffix: "\<exists>a. s = a @ after_last c s"
proof (cases "c \<in> set s")
  case True
  then obtain a z where "s = a @ c # z" "c \<notin> set z" by (auto dest: split_list_last)
  then have "s = (a @ [c]) @ after_last c s" by (simp add: after_last_at)
  then show ?thesis by blast
qed (simp add: after_last_clean)

lemma after_last_append:
  assumes "c \<notin> set y"
  shows "\<exists>b. after_last c (a @ y) = b @ y"
proof (cases "c \<in> set a")
  case True
  then obtain a1 a2 where "a = a1 @ c # a2" "c \<notin> set a2" by (auto dest: split_list_last)
  then have "after_last c (a @ y) = a2 @ y" using assms by (simp add: after_last_at)
  then show ?thesis by blast
next
  case False
  then have "after_last c (a @ y) = a @ y" using assms by (simp add: after_last_clean)
  then show ?thesis by blast
qed

text \<open>\<open>strings.Index\<close> of one byte, as the parts around its first occurrence.\<close>

fun cut_at :: "char \<Rightarrow> string \<Rightarrow> (string \<times> string) option" where
  "cut_at c [] = None"
| "cut_at c (x # xs) = (if x = c then Some ([], xs)
     else (case cut_at c xs of None \<Rightarrow> None | Some (a, b) \<Rightarrow> Some (x # a, b)))"

lemma cut_at_Some: "cut_at c s = Some (a, b) \<Longrightarrow> s = a @ c # b \<and> c \<notin> set a"
  by (induction s arbitrary: a) (auto split: if_splits option.splits)

text \<open>
  \<open>strings.EqualFold\<close> against an ASCII string, and the field-name folding of
  \<open>encoding/json\<close>: beside the ASCII letters, U+017F folds to s and U+212A to k.
\<close>

fun fold_name :: "string \<Rightarrow> string" where
  "fold_name [] = []"
| "fold_name (c # s) =
     (if c = CHR 0xC5 \<and> s \<noteq> [] \<and> hd s = CHR 0xBF then CHR ''s'' # fold_name (tl s)
      else if c = CHR 0xE2 \<and> length s \<ge> 2 \<and> take 2 s = [CHR 0x84, CHR 0xAA]
        then CHR ''k'' # fold_name (drop 2 s)
      else to_lower_byte c # fold_name s)"

definition equal_fold :: "string \<Rightarrow> string \<Rightarrow> bool" where
  "equal_fold s t \<longleftrightarrow> fold_name s = fold_name t"

text \<open>\<open>security.go: secureEqual\<close>: a length check, then \<open>subtle.ConstantTimeCompare\<close>.\<close>

fun constant_time_diff :: "string \<Rightarrow> string \<Rightarrow> nat \<Rightarrow> nat" where
  "constant_time_diff (a # as) (b # bs) v =
     constant_time_diff as bs (or v (xor (of_char a) (of_char b)))"
| "constant_time_diff _ _ v = v"

definition secureEqual :: "string \<Rightarrow> string \<Rightarrow> bool" where
  "secureEqual a b = (if length a \<noteq> length b then False else constant_time_diff a b 0 = 0)"

lemma or_nat_eq_0: "or (m::nat) n = 0 \<longleftrightarrow> m = 0 \<and> n = 0"
  by (simp add: bit_eq_iff bit_or_iff) blast

lemma xor_nat_eq_0: "xor (m::nat) n = 0 \<longleftrightarrow> m = n"
  by (simp add: bit_eq_iff bit_xor_iff)

lemma constant_time_diff_0:
  "length a = length b \<Longrightarrow> constant_time_diff a b v = 0 \<longleftrightarrow> v = 0 \<and> a = b"
  by (induction a b arbitrary: v rule: list_induct2) (auto simp: or_nat_eq_0 xor_nat_eq_0)

lemma secureEqual_iff [simp]: "secureEqual a b \<longleftrightarrow> a = b"
  by (auto simp: secureEqual_def constant_time_diff_0)

end
