(* ===== verification/Auth_Errors.thy ===== *)
theory Auth_Errors
  imports Go_Strings
begin

text \<open>
  The package's sentinel errors (\<open>errors.go\<close> and the sentinels beside the components that own
  them), \<open>fmt.Errorf\<close> with \<open>%w\<close>, \<open>errors.Is\<close>, and the mappers of \<open>wire.go\<close>,
  \<open>passwordless.go\<close> and \<open>wire_password_email.go\<close> that turn a service error into the HTTP
  envelope.
\<close>

section \<open>Sentinels\<close>

datatype sentinel =
    ErrInvalidCredentials | ErrUserExists | ErrInvalidToken | ErrSessionNotFound
  | ErrSessionRevoked | ErrWeakPassword | ErrFeatureNotSupported | ErrEmailNotVerified
  | ErrInvalidCode | ErrTwoFactorRequired | ErrAlreadyExists | ErrTenantNotFound
  | ErrRoleNotFound | ErrInvalidInput | ErrEmailNotConfigured | ErrSMSNotConfigured
  | ErrAPIKeyNotFound | ErrUploadNotFound | ErrDeliveryFailed | ErrMagicLinkOwnerMismatch
  | ErrOAuthAccountConflict | ErrContextCanceled | ErrContextDeadline

text \<open>
  An error value: a sentinel, an \<open>errors.New\<close> made on the spot (\<open>Message\<close>), an error wrapped by
  \<open>fmt.Errorf("...: %w", e)\<close>, and one that wraps two (\<open>%w: %w\<close>, \<open>errors.Join\<close>).
\<close>

datatype error =
    Sentinel sentinel
  | Message string
  | Wrapped string error
  | Joined string error error

fun errors_is :: "error \<Rightarrow> sentinel \<Rightarrow> bool" where
  "errors_is (Sentinel s) t \<longleftrightarrow> s = t"
| "errors_is (Message m) t \<longleftrightarrow> False"
| "errors_is (Wrapped m e) t \<longleftrightarrow> errors_is e t"
| "errors_is (Joined m e f) t \<longleftrightarrow> errors_is e t \<or> errors_is f t"

type_synonym 'a result = "error + 'a"

abbreviation Err :: "sentinel \<Rightarrow> 'a result" where "Err s \<equiv> Inl (Sentinel s)"
abbreviation Ok :: "'a \<Rightarrow> 'a result" where "Ok x \<equiv> Inr x"

abbreviation is_ok :: "'a result \<Rightarrow> bool" where "is_ok r \<equiv> \<not> isl r"

text \<open>The \<open>errors.New("user not found")\<close> of the user store.\<close>

definition errUserNotFound :: error where
  "errUserNotFound = Message ''user not found''"

lemma errUserNotFound_is [simp]: "\<not> errors_is errUserNotFound s"
  by (simp add: errUserNotFound_def)

section \<open>The HTTP envelope\<close>

record HTTPError =
  he_Status :: int
  he_Message :: string
  he_Code :: string

definition http_error :: "int \<Rightarrow> string \<Rightarrow> string \<Rightarrow> HTTPError" where
  "http_error st m c = \<lparr>he_Status = st, he_Message = m, he_Code = c\<rparr>"

definition HTTPErrSessionRevoked :: HTTPError where
  "HTTPErrSessionRevoked = http_error 401 ''Session has been revoked'' ''SESSION_REVOKED''"
definition HTTPErrInvalidAccessToken :: HTTPError where
  "HTTPErrInvalidAccessToken = http_error 403 ''Invalid or expired access token'' []"
definition HTTPErrInvalidRefreshToken :: HTTPError where
  "HTTPErrInvalidRefreshToken = http_error 401 ''Invalid refresh token'' []"
definition HTTPErrExpiredRefreshToken :: HTTPError where
  "HTTPErrExpiredRefreshToken =
     http_error 401 ''Invalid or expired refresh token'' ''INVALID_REFRESH_TOKEN''"
definition HTTPErrInvalidCredentials :: HTTPError where
  "HTTPErrInvalidCredentials = http_error 401 ''Invalid credentials'' ''INVALID_CREDENTIALS''"
definition HTTPErrEmailNotVerified :: HTTPError where
  "HTTPErrEmailNotVerified = http_error 403 ''Email address is not verified'' ''EMAIL_NOT_VERIFIED''"
definition HTTPErrTwoFactorRequired :: HTTPError where
  "HTTPErrTwoFactorRequired = http_error 403 ''Two-factor authentication required'' ''2FA_REQUIRED''"
definition HTTPErrInvalidToken :: HTTPError where
  "HTTPErrInvalidToken = http_error 401 ''Invalid or expired token'' ''INVALID_TOKEN''"
definition HTTPErrUserNotFound :: HTTPError where
  "HTTPErrUserNotFound = http_error 404 ''User not found'' []"
definition HTTPErrNotImplemented :: HTTPError where
  "HTTPErrNotImplemented =
     http_error 501 ''Feature not supported by the configured stores'' ''NOT_IMPLEMENTED''"
definition HTTPErrInternal :: HTTPError where
  "HTTPErrInternal = http_error 500 ''Internal server error'' []"
definition HTTPErrUserExists :: HTTPError where
  "HTTPErrUserExists = http_error 409 ''User already exists'' ''USER_EXISTS''"
definition HTTPErrWeakPassword :: HTTPError where
  "HTTPErrWeakPassword = http_error 400 ''Password is too weak'' ''WEAK_PASSWORD''"
definition HTTPErrInvalidInput :: HTTPError where
  "HTTPErrInvalidInput = http_error 400 ''Email and password are required'' ''INVALID_INPUT''"
definition HTTPErrEmailNotConfigured :: HTTPError where
  "HTTPErrEmailNotConfigured = http_error 500 ''Email not configured'' ''EMAIL_NOT_CONFIGURED''"
definition HTTPErrSMSNotConfigured :: HTTPError where
  "HTTPErrSMSNotConfigured = http_error 500 ''SMS is not configured'' ''SMS_NOT_CONFIGURED''"
definition HTTPErrTokenMismatch :: HTTPError where
  "HTTPErrTokenMismatch = http_error 401 ''Token mismatch'' ''TOKEN_MISMATCH''"
definition HTTPErrInvalidMagicLink :: HTTPError where
  "HTTPErrInvalidMagicLink = http_error 401 ''Invalid magic link token'' ''INVALID_MAGIC_LINK''"
definition HTTPErrInvalidSMSCode :: HTTPError where
  "HTTPErrInvalidSMSCode = http_error 401 ''Invalid or expired SMS code'' []"
definition HTTPErrInvalidTOTPCode :: HTTPError where
  "HTTPErrInvalidTOTPCode = http_error 401 ''Invalid TOTP code'' []"
definition HTTPErrInvalidTOTPSetupCode :: HTTPError where
  "HTTPErrInvalidTOTPSetupCode = http_error 400 ''Invalid TOTP code'' []"
definition HTTPErrTOTPNotSetUp :: HTTPError where
  "HTTPErrTOTPNotSetUp = http_error 400 ''User not found or 2FA not set up'' []"
definition HTTPErrResetTokenStoreMissing :: HTTPError where
  "HTTPErrResetTokenStoreMissing =
     http_error 500 ''UserStore does not implement findByResetToken'' []"
definition HTTPErrEmailVerificationStoreMissing :: HTTPError where
  "HTTPErrEmailVerificationStoreMissing =
     http_error 500 ''UserStore does not implement email verification'' []"
definition HTTPErrChangeEmailStoreMissing :: HTTPError where
  "HTTPErrChangeEmailStoreMissing =
     http_error 500 ''UserStore does not implement change-email'' []"
definition HTTPErrInvalidResetToken :: HTTPError where
  "HTTPErrInvalidResetToken = http_error 400 ''Invalid reset token'' []"
definition HTTPErrInvalidVerifyToken :: HTTPError where
  "HTTPErrInvalidVerifyToken = http_error 400 ''Invalid verification token'' []"
definition HTTPErrInvalidEmailChangeToken :: HTTPError where
  "HTTPErrInvalidEmailChangeToken = http_error 400 ''Invalid email-change token'' []"
definition HTTPErrCurrentPasswordIncorrect :: HTTPError where
  "HTTPErrCurrentPasswordIncorrect = http_error 401 ''Current password is incorrect'' []"
definition HTTPErrNewPasswordRequired :: HTTPError where
  "HTTPErrNewPasswordRequired = http_error 400 ''New password is required'' []"
definition HTTPErrEmailInUse :: HTTPError where
  "HTTPErrEmailInUse = http_error 409 ''Email address is already in use'' []"
definition HTTPErrPasswordRequired :: HTTPError where
  "HTTPErrPasswordRequired = http_error 403
     ''You must set a password before you can change your email address.'' ''PASSWORD_REQUIRED''"

lemmas catalog =
  HTTPErrSessionRevoked_def HTTPErrInvalidAccessToken_def HTTPErrInvalidRefreshToken_def
  HTTPErrExpiredRefreshToken_def HTTPErrInvalidCredentials_def HTTPErrEmailNotVerified_def
  HTTPErrTwoFactorRequired_def HTTPErrInvalidToken_def HTTPErrUserNotFound_def
  HTTPErrNotImplemented_def HTTPErrInternal_def HTTPErrUserExists_def HTTPErrWeakPassword_def
  HTTPErrInvalidInput_def HTTPErrEmailNotConfigured_def HTTPErrSMSNotConfigured_def
  HTTPErrTokenMismatch_def HTTPErrInvalidMagicLink_def HTTPErrInvalidSMSCode_def
  HTTPErrInvalidTOTPCode_def HTTPErrInvalidTOTPSetupCode_def HTTPErrTOTPNotSetUp_def
  HTTPErrResetTokenStoreMissing_def HTTPErrEmailVerificationStoreMissing_def
  HTTPErrChangeEmailStoreMissing_def HTTPErrInvalidResetToken_def HTTPErrInvalidVerifyToken_def
  HTTPErrInvalidEmailChangeToken_def HTTPErrCurrentPasswordIncorrect_def
  HTTPErrNewPasswordRequired_def HTTPErrEmailInUse_def HTTPErrPasswordRequired_def
  http_error_def

section \<open>The mappers\<close>

text \<open>\<open>HTTPErrorFor\<close> takes an \<open>error\<close> that may be nil (\<open>None\<close>).\<close>

definition HTTPErrorFor :: "error option \<Rightarrow> HTTPError" where
  "HTTPErrorFor err = (case err of
     None \<Rightarrow> http_error 0 [] []
   | Some e \<Rightarrow>
       if errors_is e ErrSessionRevoked then HTTPErrSessionRevoked
       else if errors_is e ErrInvalidCredentials then HTTPErrInvalidCredentials
       else if errors_is e ErrEmailNotVerified then HTTPErrEmailNotVerified
       else if errors_is e ErrTwoFactorRequired then HTTPErrTwoFactorRequired
       else if errors_is e ErrUserExists \<or> errors_is e ErrAlreadyExists then HTTPErrUserExists
       else if errors_is e ErrInvalidInput then HTTPErrInvalidInput
       else if errors_is e ErrWeakPassword then HTTPErrWeakPassword
       else if errors_is e ErrFeatureNotSupported then HTTPErrNotImplemented
       else if errors_is e ErrEmailNotConfigured then HTTPErrEmailNotConfigured
       else if errors_is e ErrSMSNotConfigured then HTTPErrSMSNotConfigured
       else if errors_is e ErrSessionNotFound \<or> errors_is e ErrInvalidToken
         then HTTPErrInvalidToken
       else HTTPErrInternal)"

definition RefreshHTTPError :: "error \<Rightarrow> HTTPError" where
  "RefreshHTTPError e =
     (if errors_is e ErrSessionRevoked then HTTPErrSessionRevoked
      else if errors_is e ErrInvalidToken then HTTPErrExpiredRefreshToken
      else if errors_is e ErrSessionNotFound then HTTPErrInvalidRefreshToken
      else HTTPErrorFor (Some e))"

definition AccessHTTPError :: "error \<Rightarrow> HTTPError" where
  "AccessHTTPError e =
     (if errors_is e ErrSessionRevoked then HTTPErrSessionRevoked else HTTPErrInvalidAccessToken)"

definition MagicLinkVerifyHTTPError :: "error \<Rightarrow> HTTPError" where
  "MagicLinkVerifyHTTPError e =
     (if errors_is e ErrMagicLinkOwnerMismatch then HTTPErrTokenMismatch
      else if errors_is e ErrInvalidToken then HTTPErrInvalidMagicLink
      else HTTPErrorFor (Some e))"

definition SMSVerifyHTTPError :: "error \<Rightarrow> HTTPError" where
  "SMSVerifyHTTPError e =
     (if errors_is e ErrInvalidCode \<or> errors_is e ErrInvalidCredentials then HTTPErrInvalidSMSCode
      else HTTPErrorFor (Some e))"

definition TOTPVerifyHTTPError :: "error \<Rightarrow> HTTPError" where
  "TOTPVerifyHTTPError e =
     (if errors_is e ErrInvalidCode then HTTPErrInvalidTOTPCode
      else if errors_is e ErrInvalidCredentials then HTTPErrTOTPNotSetUp
      else HTTPErrorFor (Some e))"

definition TOTPSetupHTTPError :: "error \<Rightarrow> HTTPError" where
  "TOTPSetupHTTPError e =
     (if errors_is e ErrInvalidCode then HTTPErrInvalidTOTPSetupCode else HTTPErrorFor (Some e))"

definition ForgotPasswordHTTPError :: "error \<Rightarrow> HTTPError" where
  "ForgotPasswordHTTPError e = HTTPErrInternal"

definition ResetPasswordHTTPError :: "error \<Rightarrow> HTTPError" where
  "ResetPasswordHTTPError e =
     (if errors_is e ErrFeatureNotSupported then HTTPErrResetTokenStoreMissing
      else if errors_is e ErrInvalidToken then HTTPErrInvalidResetToken
      else if errors_is e ErrWeakPassword then HTTPErrWeakPassword
      else HTTPErrInternal)"

definition ChangePasswordHTTPError :: "error \<Rightarrow> HTTPError" where
  "ChangePasswordHTTPError e =
     (if errors_is e ErrInvalidCredentials then HTTPErrCurrentPasswordIncorrect
      else if errors_is e ErrWeakPassword then HTTPErrWeakPassword
      else HTTPErrInternal)"

definition SendVerificationEmailHTTPError :: "error \<Rightarrow> HTTPError" where
  "SendVerificationEmailHTTPError e =
     (if errors_is e ErrDeliveryFailed then HTTPErrInternal
      else if errors_is e ErrFeatureNotSupported then HTTPErrEmailVerificationStoreMissing
      else if errors_is e ErrInvalidCredentials then HTTPErrUserNotFound
      else HTTPErrInternal)"

definition VerifyEmailHTTPError :: "error \<Rightarrow> HTTPError" where
  "VerifyEmailHTTPError e =
     (if errors_is e ErrFeatureNotSupported then HTTPErrEmailVerificationStoreMissing
      else if errors_is e ErrInvalidToken then HTTPErrInvalidVerifyToken
      else HTTPErrInternal)"

definition ChangeEmailRequestHTTPError :: "error \<Rightarrow> HTTPError" where
  "ChangeEmailRequestHTTPError e =
     (if errors_is e ErrDeliveryFailed then HTTPErrInternal
      else if errors_is e ErrFeatureNotSupported then HTTPErrChangeEmailStoreMissing
      else if errors_is e ErrUserExists \<or> errors_is e ErrAlreadyExists then HTTPErrEmailInUse
      else if errors_is e ErrInvalidCredentials then HTTPErrUserNotFound
      else HTTPErrInternal)"

definition ChangeEmailConfirmHTTPError :: "error \<Rightarrow> HTTPError" where
  "ChangeEmailConfirmHTTPError e =
     (if errors_is e ErrFeatureNotSupported then HTTPErrChangeEmailStoreMissing
      else if errors_is e ErrInvalidToken then HTTPErrInvalidEmailChangeToken
      else HTTPErrInternal)"

section \<open>Laws of the mappers\<close>

text \<open>
  A revoked session is the clients' fast-logout signal: on the refresh route and on the access
  gate the envelope with that code appears exactly for errors that are \<open>ErrSessionRevoked\<close>.
\<close>

lemma session_revoked_code_iff:
  "he_Code (HTTPErrorFor (Some e)) = ''SESSION_REVOKED'' \<longleftrightarrow> errors_is e ErrSessionRevoked"
  "he_Code (RefreshHTTPError e) = ''SESSION_REVOKED'' \<longleftrightarrow> errors_is e ErrSessionRevoked"
  "he_Code (AccessHTTPError e) = ''SESSION_REVOKED'' \<longleftrightarrow> errors_is e ErrSessionRevoked"
  by (simp_all add: HTTPErrorFor_def RefreshHTTPError_def AccessHTTPError_def catalog)

lemma HTTPErrorFor_status:
  "he_Status (HTTPErrorFor (Some e)) \<in> {400, 401, 403, 409, 500, 501}"
  by (simp add: HTTPErrorFor_def catalog)

lemma refresh_status_unauthorized:
  "errors_is e ErrSessionRevoked \<or> errors_is e ErrInvalidToken \<or> errors_is e ErrSessionNotFound
   \<Longrightarrow> he_Status (RefreshHTTPError e) = 401"
  by (auto simp: RefreshHTTPError_def catalog)

text \<open>A transport's own error cannot choose the wire answer of a send that failed.\<close>

lemma delivery_failed_is_internal:
  "errors_is e ErrDeliveryFailed \<Longrightarrow> SendVerificationEmailHTTPError e = HTTPErrInternal"
  "errors_is e ErrDeliveryFailed \<Longrightarrow> ChangeEmailRequestHTTPError e = HTTPErrInternal"
  by (simp_all add: SendVerificationEmailHTTPError_def ChangeEmailRequestHTTPError_def)

end
