(* ===== verification/Auth_Models.thy ===== *)
theory Auth_Models
  imports Auth_Errors
begin

text \<open>
  The data of \<open>models.go\<close>: the user, the tenant, the session and their response-safe
  projections. A record has one field per struct field, under the field's name with the
  struct's prefix; a pointer is an option; a nil slice and an empty slice, a nil map and an
  empty map are one value here, because the code that reads these fields does not tell them
  apart. Maps and slices inside a record are values: the code never writes through one that it
  has handed out.
\<close>

section \<open>JSON values\<close>

text \<open>A decoded \<open>any\<close>. A number keeps its literal text (\<open>json.Number\<close>).\<close>

datatype json =
    JNull
  | JBool bool
  | JNum string
  | JStr string
  | JArr "json list"
  | JObj "(string \<times> json) list"

type_synonym json_object = "(string, json) fmap"

text \<open>\<open>time.Time{}\<close>: the first instant of year 1, in nanoseconds from the Unix epoch.\<close>

definition zero_time :: time where
  "zero_time = - 62135596800 * second"

section \<open>Tenants\<close>

record Tenant =
  t_ID :: string
  t_Name :: string
  t_IsActive :: bool
  t_Config :: json_object
  t_CreatedAt :: time

definition zero_tenant :: Tenant where
  "zero_tenant = \<lparr>t_ID = [], t_Name = [], t_IsActive = False, t_Config = fmempty,
     t_CreatedAt = zero_time\<rparr>"

section \<open>Users\<close>

record User =
  u_ID :: string
  u_Email :: string
  u_PasswordHash :: string
  u_TenantID :: string
  u_PhoneNumber :: string
  u_FirstName :: string
  u_LastName :: string
  u_Role :: string
  u_IsAdmin :: bool
  u_LoginProvider :: string
  u_IsEmailVerified :: bool
  u_Require2FA :: bool
  u_IsTOTPEnabled :: bool
  u_TOTPSecret :: string
  u_ResetTokenHash :: string
  u_ResetTokenExpiresAt :: "time option"
  u_MagicLinkTokenHash :: string
  u_MagicLinkTokenExpiresAt :: "time option"
  u_SMSCodeHash :: string
  u_SMSCodeExpiresAt :: "time option"
  u_EmailVerificationTokenHash :: string
  u_EmailVerificationTokenExpiry :: "time option"
  u_PendingEmail :: string
  u_EmailChangeTokenHash :: string
  u_EmailChangeTokenExpiry :: "time option"
  u_Metadata :: json_object
  u_Roles :: "string list"
  u_Permissions :: "string list"
  u_Tenants :: "Tenant list"
  u_CustomClaims :: json_object
  u_CreatedAt :: time
  u_UpdatedAt :: time

definition zero_user :: User where
  "zero_user = \<lparr>u_ID = [], u_Email = [], u_PasswordHash = [], u_TenantID = [],
     u_PhoneNumber = [], u_FirstName = [], u_LastName = [], u_Role = [], u_IsAdmin = False,
     u_LoginProvider = [], u_IsEmailVerified = False, u_Require2FA = False,
     u_IsTOTPEnabled = False, u_TOTPSecret = [], u_ResetTokenHash = [],
     u_ResetTokenExpiresAt = None, u_MagicLinkTokenHash = [], u_MagicLinkTokenExpiresAt = None,
     u_SMSCodeHash = [], u_SMSCodeExpiresAt = None, u_EmailVerificationTokenHash = [],
     u_EmailVerificationTokenExpiry = None, u_PendingEmail = [], u_EmailChangeTokenHash = [],
     u_EmailChangeTokenExpiry = None, u_Metadata = fmempty, u_Roles = [], u_Permissions = [],
     u_Tenants = [], u_CustomClaims = fmempty, u_CreatedAt = zero_time,
     u_UpdatedAt = zero_time\<rparr>"

definition LoginProviderLocal :: string where
  "LoginProviderLocal = ''local''"

definition loginProviderOrLocal :: "User \<Rightarrow> string" where
  "loginProviderOrLocal u =
     (if u_LoginProvider u = [] then LoginProviderLocal else u_LoginProvider u)"

section \<open>Public projections\<close>

record PublicTenant =
  pt_ID :: string
  pt_Name :: string
  pt_IsActive :: bool
  pt_CreatedAt :: time

record PublicUser =
  pu_Sub :: string
  pu_ID :: string
  pu_Email :: string
  pu_Role :: string
  pu_LoginProvider :: string
  pu_TenantID :: string
  pu_FirstName :: string
  pu_LastName :: string
  pu_PhoneNumber :: string
  pu_IsEmailVerified :: bool
  pu_IsTOTPEnabled :: bool
  pu_Roles :: "string list"
  pu_Permissions :: "string list"
  pu_Tenants :: "PublicTenant list"
  pu_Metadata :: json_object
  pu_CustomClaims :: json_object
  pu_CreatedAt :: time

definition public_tenant :: "Tenant \<Rightarrow> PublicTenant" where
  "public_tenant t = \<lparr>pt_ID = t_ID t, pt_Name = t_Name t, pt_IsActive = t_IsActive t,
     pt_CreatedAt = t_CreatedAt t\<rparr>"

definition NewPublicUser :: "User \<Rightarrow> PublicUser" where
  "NewPublicUser u = \<lparr>
     pu_Sub = u_ID u,
     pu_ID = u_ID u,
     pu_Email = u_Email u,
     pu_Role = u_Role u,
     pu_LoginProvider = loginProviderOrLocal u,
     pu_TenantID = u_TenantID u,
     pu_FirstName = u_FirstName u,
     pu_LastName = u_LastName u,
     pu_PhoneNumber = u_PhoneNumber u,
     pu_IsEmailVerified = u_IsEmailVerified u,
     pu_IsTOTPEnabled = u_IsTOTPEnabled u,
     pu_Roles = u_Roles u,
     pu_Permissions = u_Permissions u,
     pu_Tenants = map public_tenant (u_Tenants u),
     pu_Metadata = u_Metadata u,
     pu_CustomClaims = u_CustomClaims u,
     pu_CreatedAt = u_CreatedAt u\<rparr>"

section \<open>Sessions and tokens\<close>

record Session =
  s_ID :: string
  s_UserID :: string
  s_TenantID :: string
  s_RefreshTokenHash :: string
  s_CreatedAt :: time
  s_ExpiresAt :: time
  s_RevokedAt :: "time option"

record AuthTokens =
  at_AccessToken :: string
  at_RefreshToken :: string
  at_ExpiresIn :: duration

record PublicSession =
  ps_SessionHandle :: string
  ps_UserID :: string
  ps_TenantID :: string
  ps_CreatedAt :: time
  ps_ExpiresAt :: time

text \<open>\<open>account.go\<close>: the response-safe session.\<close>

definition NewPublicSession :: "Session \<Rightarrow> PublicSession" where
  "NewPublicSession s = \<lparr>ps_SessionHandle = s_ID s, ps_UserID = s_UserID s,
     ps_TenantID = s_TenantID s, ps_CreatedAt = s_CreatedAt s, ps_ExpiresAt = s_ExpiresAt s\<rparr>"

definition NewPublicSessions :: "Session list \<Rightarrow> PublicSession list" where
  "NewPublicSessions ss = map NewPublicSession ss"

text \<open>
  Non-interference of the projections: what a response carries does not depend on any secret
  field of the record.
\<close>

definition scrub :: "User \<Rightarrow> User" where
  "scrub u = u\<lparr>u_PasswordHash := [], u_IsAdmin := False, u_Require2FA := False,
     u_TOTPSecret := [], u_ResetTokenHash := [], u_ResetTokenExpiresAt := None,
     u_MagicLinkTokenHash := [], u_MagicLinkTokenExpiresAt := None, u_SMSCodeHash := [],
     u_SMSCodeExpiresAt := None, u_EmailVerificationTokenHash := [],
     u_EmailVerificationTokenExpiry := None, u_PendingEmail := [], u_EmailChangeTokenHash := [],
     u_EmailChangeTokenExpiry := None,
     u_Tenants := map (\<lambda>t. t\<lparr>t_Config := fmempty\<rparr>) (u_Tenants u)\<rparr>"

lemma NewPublicUser_scrub: "NewPublicUser (scrub u) = NewPublicUser u"
  by (simp add: NewPublicUser_def scrub_def loginProviderOrLocal_def public_tenant_def comp_def)

lemma NewPublicSession_hash: "NewPublicSession (s\<lparr>s_RefreshTokenHash := h\<rparr>) = NewPublicSession s"
  by (simp add: NewPublicSession_def)

end
