(* ===== verification/One_Time_Token.thy ===== *)
theory One_Time_Token
  imports Auth_Models
begin

text \<open>
  The interface of \<open>store.go\<close> behind every emailed credential: \<open>UserPasswordStore\<close>,
  \<open>MagicLinkStore\<close>, \<open>EmailVerificationStore\<close> and \<open>EmailChangeStore\<close> each hold one hashed token
  per user, look a user up by it, and clear it. The laws are what the in-memory store keeps for
  all four; the lemmas are what the service relies on: a token works once, a newer one
  supersedes it, and a live token is the last one issued to its user.
\<close>

datatype token_op =
    Issue (op_user: string) (op_tenant: string) string time
  | Clear (op_user: string) (op_tenant: string)

locale one_time_token =
  fixes ok :: "'s \<Rightarrow> bool"
    and look :: "'s \<Rightarrow> string \<Rightarrow> User option"
    and update :: "string \<Rightarrow> string \<Rightarrow> string \<Rightarrow> time \<Rightarrow> 's \<Rightarrow> unit result \<times> 's"
    and get :: "string \<Rightarrow> 's \<Rightarrow> User result"
    and clear :: "string \<Rightarrow> string \<Rightarrow> 's \<Rightarrow> unit result \<times> 's"
    and hash_of :: "User \<Rightarrow> string"
    and expiry :: "User \<Rightarrow> time option"
    and stamp :: "string \<Rightarrow> time \<Rightarrow> User \<Rightarrow> User"
  assumes update_ok: "ok s \<Longrightarrow> h \<noteq> [] \<Longrightarrow> ok (snd (update i t h e s))"
    and clear_ok: "ok s \<Longrightarrow> ok (snd (clear i t s))"
    and stamp_law: "hash_of (stamp h e u) = h" "expiry (stamp h e u) = Some e"
      "u_ID (stamp h e u) = u_ID u" "u_TenantID (stamp h e u) = u_TenantID u"
    and look_id: "ok s \<Longrightarrow> look s i = Some u \<Longrightarrow> u_ID u = i"
    and get_sound: "ok s \<Longrightarrow> get h s = Ok u \<Longrightarrow> look s (u_ID u) = Some u \<and> hash_of u = h \<and> h \<noteq> []"
    and get_error: "get h s = Inl err \<Longrightarrow> err = Sentinel ErrInvalidToken"
    and update_refused: "(\<nexists>u. look s i = Some u \<and> u_TenantID u = t) \<Longrightarrow>
      update i t h e s = (Inl errUserNotFound, s)"
    and clear_refused: "(\<nexists>u. look s i = Some u \<and> u_TenantID u = t) \<Longrightarrow>
      clear i t s = (Inl errUserNotFound, s)"
    and update_accepted: "look s i = Some u \<Longrightarrow> u_TenantID u = t \<Longrightarrow> fst (update i t h e s) = Ok ()"
    and clear_accepted: "look s i = Some u \<Longrightarrow> u_TenantID u = t \<Longrightarrow> fst (clear i t s) = Ok ()"
    and update_get: "ok s \<Longrightarrow> h \<noteq> [] \<Longrightarrow> look s i = Some u \<Longrightarrow> u_TenantID u = t \<Longrightarrow>
      get h' (snd (update i t h e s)) =
        (if h' = h then Ok (stamp h e u) else if h' = hash_of u then Err ErrInvalidToken
         else get h' s)"
    and clear_get: "ok s \<Longrightarrow> look s i = Some u \<Longrightarrow> u_TenantID u = t \<Longrightarrow>
      get h' (snd (clear i t s)) = (if h' = hash_of u then Err ErrInvalidToken else get h' s)"
begin

lemma single_use:
  assumes "ok s" "get h s = Ok u"
  shows "fst (clear (u_ID u) (u_TenantID u) s) = Ok ()"
    and "get h (snd (clear (u_ID u) (u_TenantID u) s)) = Err ErrInvalidToken"
proof -
  have u: "look s (u_ID u) = Some u" "hash_of u = h" using get_sound[OF assms] by auto
  show "fst (clear (u_ID u) (u_TenantID u) s) = Ok ()" by (rule clear_accepted[OF u(1) refl])
  show "get h (snd (clear (u_ID u) (u_TenantID u) s)) = Err ErrInvalidToken"
    using u(2) by (simp add: clear_get[OF assms(1) u(1) refl])
qed

lemma issued_is_live:
  assumes "ok s" "h \<noteq> []" "update i t h e s = (Ok (), s')"
  shows "\<exists>u. look s i = Some u \<and> u_TenantID u = t \<and> get h s' = Ok (stamp h e u)"
proof (cases "\<exists>u. look s i = Some u \<and> u_TenantID u = t")
  case True
  then obtain u where u: "look s i = Some u" "u_TenantID u = t" by blast
  then show ?thesis using update_get[OF assms(1,2) u, of h e] assms(3) by simp
qed (use update_refused assms(3) in simp)

lemma superseded:
  assumes "ok s" "get h s = Ok u" "h' \<noteq> []" "h' \<noteq> h"
  shows "get h (snd (update (u_ID u) (u_TenantID u) h' e s)) = Err ErrInvalidToken"
proof -
  have u: "look s (u_ID u) = Some u" "hash_of u = h" using get_sound[OF assms(1,2)] by auto
  have "get h (snd (update (u_ID u) (u_TenantID u) h' e s)) =
      (if h = h' then Ok (stamp h' e u) else if h = hash_of u then Err ErrInvalidToken else get h s)"
    by (rule update_get[OF assms(1,3) u(1) refl])
  also have "\<dots> = Err ErrInvalidToken" using u(2) assms(4) by simp
  finally show ?thesis .
qed

lemma one_live_token_per_user:
  assumes "ok s" "get h s = Ok u" "get h' s = Ok v" "u_ID u = u_ID v"
  shows "h = h'"
proof -
  have "look s (u_ID u) = Some u" "hash_of u = h" using get_sound[OF assms(1,2)] by auto
  moreover have "look s (u_ID v) = Some v" "hash_of v = h'" using get_sound[OF assms(1,3)] by auto
  ultimately show ?thesis using assms(4) by (metis option.inject)
qed

text \<open>Any sequence of issues and clears.\<close>

fun token_step :: "token_op \<Rightarrow> 's \<Rightarrow> 's" where
  "token_step (Issue i t h e) s = snd (update i t h e s)"
| "token_step (Clear i t) s = snd (clear i t s)"

fun fresh_op :: "token_op \<Rightarrow> bool" where
  "fresh_op (Issue i t h e) \<longleftrightarrow> h \<noteq> []"
| "fresh_op (Clear i t) \<longleftrightarrow> True"

lemma token_steps_ok:
  "ok s \<Longrightarrow> list_all fresh_op ops \<Longrightarrow> ok (fold token_step ops s)"
proof (induction ops arbitrary: s)
  case (Cons op ops)
  then show ?case by (cases op) (auto intro: update_ok clear_ok)
qed simp

lemma kept_token:
  assumes "ok s" "get h s = Ok u" "look s i = Some v" "h \<noteq> hash_of v"
  shows "i \<noteq> u_ID u"
  using get_sound[OF assms(1,2)] assms(3,4) by auto

lemma refused_token:
  assumes "ok s" "get h s = Ok u" "\<nexists>v. look s i = Some v \<and> u_TenantID v = t"
  shows "i \<noteq> u_ID u \<or> t \<noteq> u_TenantID u"
  using get_sound[OF assms(1,2)] assms(3) by auto

lemma token_step_live:
  assumes ok: "ok s" and fresh: "fresh_op op" and live: "get h (token_step op s) = Ok u"
  shows "(\<exists>e. op = Issue (u_ID u) (u_TenantID u) h e \<and> expiry u = Some e) \<or>
     (get h s = Ok u \<and> (op_user op \<noteq> u_ID u \<or> op_tenant op \<noteq> u_TenantID u))"
proof (cases op)
  case op: (Issue i t h' e)
  have h': "h' \<noteq> []" using fresh op by simp
  show ?thesis
  proof (cases "\<exists>v. look s i = Some v \<and> u_TenantID v = t")
    case True
    then obtain v where v: "look s i = Some v" "u_TenantID v = t" by blast
    have live: "(if h = h' then Ok (stamp h' e v) else if h = hash_of v then Err ErrInvalidToken
        else get h s) = Ok u"
      using live by (simp only: op token_step.simps update_get[OF ok h' v])
    show ?thesis
    proof (cases "h = h'")
      case True
      then have u: "stamp h' e v = u" using live by simp
      have "u_ID u = i" "u_TenantID u = t" "expiry u = Some e"
        using stamp_law[of h' e v] look_id[OF ok v(1)] v(2) unfolding u by simp_all
      then show ?thesis using op True by blast
    next
      case False
      then have "h \<noteq> hash_of v" "get h s = Ok u" using live by (auto split: if_splits)
      then show ?thesis using kept_token[OF ok _ v(1)] op by simp
    qed
  next
    case False
    then have "get h s = Ok u" using live op update_refused[OF False] by simp
    then show ?thesis using refused_token[OF ok _ False] op by simp
  qed
next
  case op: (Clear i t)
  show ?thesis
  proof (cases "\<exists>v. look s i = Some v \<and> u_TenantID v = t")
    case True
    then obtain v where v: "look s i = Some v" "u_TenantID v = t" by blast
    have "h \<noteq> hash_of v" "get h s = Ok u"
      using live op clear_get[OF ok v, of h] by (auto split: if_splits)
    then show ?thesis using kept_token[OF ok _ v(1)] op by simp
  next
    case False
    then have "get h s = Ok u" using live op clear_refused[OF False] by simp
    then show ?thesis using refused_token[OF ok _ False] op by simp
  qed
qed

text \<open>From a store without live tokens, a token is live only if it is its user's last issue.\<close>

theorem live_is_last_issue:
  assumes "ok s" "\<And>h u. get h s \<noteq> Ok u" "list_all fresh_op ops"
    and "get h (fold token_step ops s) = Ok u"
  shows "\<exists>before e after. ops = before @ Issue (u_ID u) (u_TenantID u) h e # after
     \<and> expiry u = Some e
     \<and> (\<forall>op\<in>set after. op_user op \<noteq> u_ID u \<or> op_tenant op \<noteq> u_TenantID u)"
  using assms(3,4)
proof (induction ops rule: rev_induct)
  case Nil
  then show ?case using assms(2) by simp
next
  case (snoc op ops)
  let ?s = "fold token_step ops s"
  have "ok ?s" "fresh_op op" using snoc.prems assms(1) token_steps_ok by auto
  then consider (issued) e where "op = Issue (u_ID u) (u_TenantID u) h e" "expiry u = Some e"
    | (kept) "get h ?s = Ok u" "op_user op \<noteq> u_ID u \<or> op_tenant op \<noteq> u_TenantID u"
    using token_step_live[of ?s op h u] snoc.prems(2) by auto
  then show ?case
  proof cases
    case issued
    then show ?thesis by (metis append_Nil2 empty_iff list.set(1))
  next
    case kept
    obtain before e after where "ops = before @ Issue (u_ID u) (u_TenantID u) h e # after"
      "expiry u = Some e"
      "\<forall>op\<in>set after. op_user op \<noteq> u_ID u \<or> op_tenant op \<noteq> u_TenantID u"
      using snoc.IH snoc.prems kept(1) by auto
    then show ?thesis using kept(2)
      by (intro exI[of _ before] exI[of _ e] exI[of _ "after @ [op]"]) auto
  qed
qed

end

end
