(* ===== verification/Paging.thy ===== *)
theory Paging
  imports Auth_Prelude
begin

text \<open>
  \<open>memory_store.go: pageOf\<close>, the limit/offset contract the listers share, with its \<open>int\<close>
  arithmetic at 64 bits and its slice expression that may panic, and the interface of a lister: a page of one fixed, ordered,
  duplicate-free sequence.
\<close>

definition pageOf :: "'a list \<Rightarrow> int \<Rightarrow> int \<Rightarrow> 'a list outcome" where
  "pageOf items limit offset =
     (if limit \<le> 0 \<or> offset \<ge> int (length items) then Returns []
      else
        let offset = (if offset < 0 then 0 else offset);
            end = wrap64 (offset + limit);
            end = (if end > int (length items) \<or> end < 0 then int (length items) else end)
        in go_slice items offset end)"

lemma wrap64_add_cases:
  assumes "0 \<le> a" "a \<le> max_int64" "0 < b" "b \<le> max_int64"
  shows "(a + b \<le> max_int64 \<and> wrap64 (a + b) = a + b) \<or>
         (max_int64 < a + b \<and> wrap64 (a + b) < 0)"
proof (cases "a + b \<le> max_int64")
  case True
  then show ?thesis using assms by (simp add: wrap64_id is_int64_def)
next
  case False
  then have "wrap64 (a + b) = a + b - 2 ^ 64" using assms by (intro wrap64_overflow) auto
  then show ?thesis using False assms by auto
qed

text \<open>For any limit and offset of the width of an \<open>int\<close> the page is what the contract says, and no bound is out of
  range.\<close>

theorem pageOf_take_drop:
  assumes "is_int64 limit" "is_int64 offset" "int (length items) \<le> max_int64"
  shows "pageOf items limit offset = Returns (take (nat limit) (drop (nat offset) items))"
proof (cases "limit \<le> 0 \<or> offset \<ge> int (length items)")
  case True
  then show ?thesis by (auto simp: pageOf_def)
next
  case False
  define off where "off = (if offset < 0 then 0 else offset)"
  have off: "0 \<le> off" "off \<le> int (length items)" "nat off = nat offset"
    using False by (auto simp: off_def)
  have lim: "0 < limit" "limit \<le> max_int64" using False assms by (auto simp: is_int64_def)
  have page: "pageOf items limit offset = go_slice items off (if wrap64 (off + limit) > int (length items)
      \<or> wrap64 (off + limit) < 0 then int (length items) else wrap64 (off + limit))"
    using False by (simp add: pageOf_def off_def Let_def)
  have all: "go_slice items off (int (length items)) = Returns (take (nat limit) (drop (nat offset) items))"
    if "int (length items) \<le> off + limit"
  proof -
    have "length (drop (nat off) items) \<le> nat limit" "length (drop (nat off) items) \<le> nat (int (length items) - off)"
      using that off(1) by auto
    then show ?thesis using off by (simp add: go_slice_def)
  qed
  have "off \<le> max_int64" using off assms by simp
  then consider "off + limit \<le> max_int64" "wrap64 (off + limit) = off + limit"
    | "max_int64 < off + limit" "wrap64 (off + limit) < 0"
    using wrap64_add_cases[of off limit] off lim by auto
  then show ?thesis
  proof cases
    case 1
    then show ?thesis using page all off lim by (cases "off + limit > int (length items)") (simp_all add: go_slice_def)
  next
    case 2
    then show ?thesis using page all assms(3) by simp
  qed
qed

lemma pageOf_nonpositive [simp]: "limit \<le> 0 \<Longrightarrow> pageOf items limit offset = Returns []"
  by (simp add: pageOf_def)

lemma pageOf_slice: "pageOf items limit offset = Returns page \<Longrightarrow> \<exists>i n. page = take n (drop i items)"
  by (auto simp: pageOf_def Let_def split: if_splits dest: go_slice_Returns intro: exI[of _ 0])

section \<open>The interface of a lister\<close>

locale lister =
  fixes ok :: "'s \<Rightarrow> bool"
    and page :: "'s \<Rightarrow> int \<Rightarrow> int \<Rightarrow> 'a list outcome"
    and items :: "'s \<Rightarrow> 'a list"
    and key :: "'a \<Rightarrow> 'k::linorder"
  assumes page_def: "page s l n = pageOf (items s) l n"
    and ordered: "ok s \<Longrightarrow> sorted (map key (items s))"
    and unique: "ok s \<Longrightarrow> distinct (map key (items s))"
begin

lemma page_take_drop:
  "is_int64 l \<Longrightarrow> is_int64 n \<Longrightarrow> int (length (items s)) \<le> max_int64 \<Longrightarrow>
   page s l n = Returns (take (nat l) (drop (nat n) (items s)))"
  by (simp add: page_def pageOf_take_drop)

lemma page_slice: "page s l n = Returns xs \<Longrightarrow> \<exists>i m. xs = take m (drop i (items s))"
  unfolding page_def by (rule pageOf_slice)

lemma page_sorted: "ok s \<Longrightarrow> page s l n = Returns xs \<Longrightarrow> sorted (map key xs)"
  using ordered[of s] page_slice[of s l n xs]
  by (auto simp: sorted_wrt_take sorted_wrt_drop simp flip: take_map drop_map)

lemma page_unique: "ok s \<Longrightarrow> page s l n = Returns xs \<Longrightarrow> distinct (map key xs)"
  using unique[of s] page_slice[of s l n xs] by (auto simp flip: take_map drop_map)

lemma page_subset: "page s l n = Returns xs \<Longrightarrow> set xs \<subseteq> set (items s)"
  using page_slice[of s l n xs] by (auto dest!: in_set_takeD in_set_dropD)

lemma page_short: "page s l n = Returns xs \<Longrightarrow> is_int64 l \<Longrightarrow> is_int64 n \<Longrightarrow> int (length (items s)) \<le> max_int64 \<Longrightarrow>
   length xs = min (length (items s) - nat n) (nat l)"
  by (auto simp: page_take_drop)

end

end
