(* ===== verification/User_Store.thy ===== *)
theory User_Store
  imports One_Time_Token Paging
begin

text \<open>
  \<open>memory_store.go: MemoryUserStore\<close> (and \<open>UpdatePhoneNumber\<close> of \<open>account.go\<close>): users by id,
  the email index and the four one-time-token indexes. Every operation holds the store's mutex
  from its first to its last line, so it is one step from a store to a store; \<open>time.Now()\<close> is
  an argument. An operation of the form "look the user up, refuse a foreign tenant, change the
  record" goes through \<open>user_in\<close>.
\<close>

section \<open>State and operations\<close>

definition normalizeEmail :: "string \<Rightarrow> string" where
  "normalizeEmail email = to_lower (trim_space email)"

lemma normalizeEmail_idem [simp]: "normalizeEmail (normalizeEmail e) = normalizeEmail e"
  by (simp add: normalizeEmail_def)

lemma normalizeEmail_trim [simp]: "normalizeEmail (trim_space e) = normalizeEmail e"
  by (simp add: normalizeEmail_def)

record MemoryUserStore =
  us_byID :: "(string, User) fmap"
  us_byEmail :: "(string, string) fmap"
  us_byResetToken :: "(string, string) fmap"
  us_byMagicToken :: "(string, string) fmap"
  us_byVerifyToken :: "(string, string) fmap"
  us_byEmailChangeToken :: "(string, string) fmap"

definition NewMemoryUserStore :: MemoryUserStore where
  "NewMemoryUserStore = \<lparr>us_byID = fmempty, us_byEmail = fmempty, us_byResetToken = fmempty,
     us_byMagicToken = fmempty, us_byVerifyToken = fmempty, us_byEmailChangeToken = fmempty\<rparr>"

definition userEmailKey :: "string \<Rightarrow> string \<Rightarrow> string" where
  "userEmailKey email tenantID = tenantID @ '':'' @ normalizeEmail email"

definition CreateUser :: "User \<Rightarrow> MemoryUserStore \<Rightarrow> User result \<times> MemoryUserStore" where
  "CreateUser user s =
     (if fmlookup (us_byID s) (u_ID user) \<noteq> None then (Err ErrUserExists, s)
      else
        let key = userEmailKey (u_Email user) (u_TenantID user) in
        if fmlookup (us_byEmail s) key \<noteq> None then (Err ErrUserExists, s)
        else (Ok user, s\<lparr>us_byID := fmupd (u_ID user) user (us_byID s),
                         us_byEmail := fmupd key (u_ID user) (us_byEmail s)\<rparr>))"

definition GetUserByEmail :: "string \<Rightarrow> string \<Rightarrow> MemoryUserStore \<Rightarrow> User result" where
  "GetUserByEmail email tenantID s =
     (case fmlookup (us_byEmail s) (userEmailKey email tenantID) of
        None \<Rightarrow> Inl errUserNotFound
      | Some uid \<Rightarrow> (case fmlookup (us_byID s) uid of
            None \<Rightarrow> Inl errUserNotFound
          | Some u \<Rightarrow> Ok u))"

text \<open>The lookup every per-user operation starts with: \<open>!ok || u.TenantID != tenantID\<close>.\<close>

definition user_in :: "MemoryUserStore \<Rightarrow> string \<Rightarrow> string \<Rightarrow> User option" where
  "user_in s userID tenantID =
     (case fmlookup (us_byID s) userID of
        None \<Rightarrow> None
      | Some u \<Rightarrow> if u_TenantID u \<noteq> tenantID then None else Some u)"

definition GetUserByID :: "string \<Rightarrow> string \<Rightarrow> MemoryUserStore \<Rightarrow> User result" where
  "GetUserByID userID tenantID s =
     (case user_in s userID tenantID of None \<Rightarrow> Inl errUserNotFound | Some u \<Rightarrow> Ok u)"

definition put_user :: "string \<Rightarrow> User \<Rightarrow> MemoryUserStore \<Rightarrow> MemoryUserStore" where
  "put_user userID u s = s\<lparr>us_byID := fmupd userID u (us_byID s)\<rparr>"

definition UpdateProfile ::
    "time \<Rightarrow> string \<Rightarrow> string \<Rightarrow> string \<Rightarrow> string \<Rightarrow> MemoryUserStore \<Rightarrow> User result \<times> MemoryUserStore" where
  "UpdateProfile now userID tenantID firstName lastName s =
     (case user_in s userID tenantID of
        None \<Rightarrow> (Inl errUserNotFound, s)
      | Some u \<Rightarrow>
          let u = u\<lparr>u_FirstName := firstName, u_LastName := lastName, u_UpdatedAt := now\<rparr>
          in (Ok u, put_user userID u s))"

definition UpdatePhoneNumber ::
    "time \<Rightarrow> string \<Rightarrow> string \<Rightarrow> string \<Rightarrow> MemoryUserStore \<Rightarrow> User result \<times> MemoryUserStore" where
  "UpdatePhoneNumber now userID tenantID phoneNumber s =
     (case user_in s userID tenantID of
        None \<Rightarrow> (Inl errUserNotFound, s)
      | Some u \<Rightarrow>
          let u = u\<lparr>u_PhoneNumber := phoneNumber, u_UpdatedAt := now\<rparr>
          in (Ok u, put_user userID u s))"

text \<open>\<open>if h != "" { delete(index, h) }\<close>.\<close>

definition drop_token :: "string \<Rightarrow> (string, string) fmap \<Rightarrow> (string, string) fmap" where
  "drop_token h ix = (if h \<noteq> [] then fmdrop h ix else ix)"

definition DeleteUser :: "string \<Rightarrow> string \<Rightarrow> MemoryUserStore \<Rightarrow> unit result \<times> MemoryUserStore" where
  "DeleteUser userID tenantID s =
     (case user_in s userID tenantID of
        None \<Rightarrow> (Inl errUserNotFound, s)
      | Some u \<Rightarrow> (Ok (), s\<lparr>
          us_byID := fmdrop userID (us_byID s),
          us_byEmail := fmdrop (userEmailKey (u_Email u) (u_TenantID u)) (us_byEmail s),
          us_byResetToken := drop_token (u_ResetTokenHash u) (us_byResetToken s),
          us_byMagicToken := drop_token (u_MagicLinkTokenHash u) (us_byMagicToken s),
          us_byVerifyToken := drop_token (u_EmailVerificationTokenHash u) (us_byVerifyToken s),
          us_byEmailChangeToken := drop_token (u_EmailChangeTokenHash u) (us_byEmailChangeToken s)\<rparr>))"

definition UpdatePassword ::
    "string \<Rightarrow> string \<Rightarrow> string \<Rightarrow> MemoryUserStore \<Rightarrow> unit result \<times> MemoryUserStore" where
  "UpdatePassword userID tenantID passwordHash s =
     (case user_in s userID tenantID of
        None \<Rightarrow> (Inl errUserNotFound, s)
      | Some u \<Rightarrow> (Ok (), put_user userID (u\<lparr>u_PasswordHash := passwordHash\<rparr>) s))"

definition UpdateResetToken ::
    "string \<Rightarrow> string \<Rightarrow> string \<Rightarrow> time \<Rightarrow> MemoryUserStore \<Rightarrow> unit result \<times> MemoryUserStore" where
  "UpdateResetToken userID tenantID tokenHash expiry s =
     (case user_in s userID tenantID of
        None \<Rightarrow> (Inl errUserNotFound, s)
      | Some u \<Rightarrow> (Ok (),
          put_user userID (u\<lparr>u_ResetTokenHash := tokenHash, u_ResetTokenExpiresAt := Some expiry\<rparr>)
            (s\<lparr>us_byResetToken := fmupd tokenHash userID (drop_token (u_ResetTokenHash u) (us_byResetToken s))\<rparr>)))"

definition GetUserByResetTokenHash :: "string \<Rightarrow> MemoryUserStore \<Rightarrow> User result" where
  "GetUserByResetTokenHash tokenHash s =
     (case fmlookup (us_byResetToken s) tokenHash of
        None \<Rightarrow> Err ErrInvalidToken
      | Some uid \<Rightarrow> (case fmlookup (us_byID s) uid of
            None \<Rightarrow> Err ErrInvalidToken
          | Some u \<Rightarrow> Ok u))"

definition ClearResetToken :: "string \<Rightarrow> string \<Rightarrow> MemoryUserStore \<Rightarrow> unit result \<times> MemoryUserStore" where
  "ClearResetToken userID tenantID s =
     (case user_in s userID tenantID of
        None \<Rightarrow> (Inl errUserNotFound, s)
      | Some u \<Rightarrow> (Ok (),
          put_user userID (u\<lparr>u_ResetTokenHash := [], u_ResetTokenExpiresAt := None\<rparr>)
            (s\<lparr>us_byResetToken := drop_token (u_ResetTokenHash u) (us_byResetToken s)\<rparr>)))"

definition UpdateMagicLinkToken ::
    "string \<Rightarrow> string \<Rightarrow> string \<Rightarrow> time \<Rightarrow> MemoryUserStore \<Rightarrow> unit result \<times> MemoryUserStore" where
  "UpdateMagicLinkToken userID tenantID tokenHash expiry s =
     (case user_in s userID tenantID of
        None \<Rightarrow> (Inl errUserNotFound, s)
      | Some u \<Rightarrow> (Ok (),
          put_user userID (u\<lparr>u_MagicLinkTokenHash := tokenHash, u_MagicLinkTokenExpiresAt := Some expiry\<rparr>)
            (s\<lparr>us_byMagicToken := fmupd tokenHash userID (drop_token (u_MagicLinkTokenHash u) (us_byMagicToken s))\<rparr>)))"

definition GetUserByMagicLinkTokenHash :: "string \<Rightarrow> MemoryUserStore \<Rightarrow> User result" where
  "GetUserByMagicLinkTokenHash tokenHash s =
     (case fmlookup (us_byMagicToken s) tokenHash of
        None \<Rightarrow> Err ErrInvalidToken
      | Some uid \<Rightarrow> (case fmlookup (us_byID s) uid of
            None \<Rightarrow> Err ErrInvalidToken
          | Some u \<Rightarrow> Ok u))"

definition ClearMagicLinkToken :: "string \<Rightarrow> string \<Rightarrow> MemoryUserStore \<Rightarrow> unit result \<times> MemoryUserStore" where
  "ClearMagicLinkToken userID tenantID s =
     (case user_in s userID tenantID of
        None \<Rightarrow> (Inl errUserNotFound, s)
      | Some u \<Rightarrow> (Ok (),
          put_user userID (u\<lparr>u_MagicLinkTokenHash := [], u_MagicLinkTokenExpiresAt := None\<rparr>)
            (s\<lparr>us_byMagicToken := drop_token (u_MagicLinkTokenHash u) (us_byMagicToken s)\<rparr>)))"

definition UpdateSMSCode ::
    "string \<Rightarrow> string \<Rightarrow> string \<Rightarrow> time \<Rightarrow> MemoryUserStore \<Rightarrow> unit result \<times> MemoryUserStore" where
  "UpdateSMSCode userID tenantID codeHash expiry s =
     (case user_in s userID tenantID of
        None \<Rightarrow> (Inl errUserNotFound, s)
      | Some u \<Rightarrow> (Ok (),
          put_user userID (u\<lparr>u_SMSCodeHash := codeHash, u_SMSCodeExpiresAt := Some expiry\<rparr>) s))"

definition GetUserBySMSCodeHash ::
    "string \<Rightarrow> string \<Rightarrow> string \<Rightarrow> MemoryUserStore \<Rightarrow> User result" where
  "GetUserBySMSCodeHash userID tenantID codeHash s =
     (case user_in s userID tenantID of
        None \<Rightarrow> Err ErrInvalidCode
      | Some u \<Rightarrow> if \<not> secureEqual (u_SMSCodeHash u) codeHash then Err ErrInvalidCode else Ok u)"

definition ClearSMSCode :: "string \<Rightarrow> string \<Rightarrow> MemoryUserStore \<Rightarrow> unit result \<times> MemoryUserStore" where
  "ClearSMSCode userID tenantID s =
     (case user_in s userID tenantID of
        None \<Rightarrow> (Inl errUserNotFound, s)
      | Some u \<Rightarrow> (Ok (),
          put_user userID (u\<lparr>u_SMSCodeHash := [], u_SMSCodeExpiresAt := None\<rparr>) s))"

definition UpdateTOTPSecret ::
    "string \<Rightarrow> string \<Rightarrow> string \<Rightarrow> bool \<Rightarrow> MemoryUserStore \<Rightarrow> unit result \<times> MemoryUserStore" where
  "UpdateTOTPSecret userID tenantID secret enabled s =
     (case user_in s userID tenantID of
        None \<Rightarrow> (Inl errUserNotFound, s)
      | Some u \<Rightarrow> (Ok (),
          put_user userID (u\<lparr>u_TOTPSecret := secret, u_IsTOTPEnabled := enabled\<rparr>) s))"

definition UpdateRequire2FA ::
    "string \<Rightarrow> string \<Rightarrow> bool \<Rightarrow> MemoryUserStore \<Rightarrow> unit result \<times> MemoryUserStore" where
  "UpdateRequire2FA userID tenantID required s =
     (case user_in s userID tenantID of
        None \<Rightarrow> (Inl errUserNotFound, s)
      | Some u \<Rightarrow> (Ok (), put_user userID (u\<lparr>u_Require2FA := required\<rparr>) s))"

definition UpdateIsAdmin ::
    "string \<Rightarrow> string \<Rightarrow> bool \<Rightarrow> MemoryUserStore \<Rightarrow> unit result \<times> MemoryUserStore" where
  "UpdateIsAdmin userID tenantID isAdmin s =
     (case user_in s userID tenantID of
        None \<Rightarrow> (Inl errUserNotFound, s)
      | Some u \<Rightarrow> (Ok (), put_user userID (u\<lparr>u_IsAdmin := isAdmin\<rparr>) s))"

definition UpdateEmailVerificationToken ::
    "string \<Rightarrow> string \<Rightarrow> string \<Rightarrow> time \<Rightarrow> MemoryUserStore \<Rightarrow> unit result \<times> MemoryUserStore" where
  "UpdateEmailVerificationToken userID tenantID tokenHash expiry s =
     (case user_in s userID tenantID of
        None \<Rightarrow> (Inl errUserNotFound, s)
      | Some u \<Rightarrow> (Ok (),
          put_user userID (u\<lparr>u_EmailVerificationTokenHash := tokenHash, u_EmailVerificationTokenExpiry := Some expiry\<rparr>)
            (s\<lparr>us_byVerifyToken := fmupd tokenHash userID (drop_token (u_EmailVerificationTokenHash u) (us_byVerifyToken s))\<rparr>)))"

definition GetUserByEmailVerificationTokenHash :: "string \<Rightarrow> MemoryUserStore \<Rightarrow> User result" where
  "GetUserByEmailVerificationTokenHash tokenHash s =
     (case fmlookup (us_byVerifyToken s) tokenHash of
        None \<Rightarrow> Err ErrInvalidToken
      | Some uid \<Rightarrow> (case fmlookup (us_byID s) uid of
            None \<Rightarrow> Err ErrInvalidToken
          | Some u \<Rightarrow> Ok u))"

definition MarkEmailVerified ::
    "string \<Rightarrow> string \<Rightarrow> bool \<Rightarrow> MemoryUserStore \<Rightarrow> unit result \<times> MemoryUserStore" where
  "MarkEmailVerified userID tenantID verified s =
     (case user_in s userID tenantID of
        None \<Rightarrow> (Inl errUserNotFound, s)
      | Some u \<Rightarrow> (Ok (), put_user userID (u\<lparr>u_IsEmailVerified := verified\<rparr>) s))"

definition ClearEmailVerificationToken :: "string \<Rightarrow> string \<Rightarrow> MemoryUserStore \<Rightarrow> unit result \<times> MemoryUserStore" where
  "ClearEmailVerificationToken userID tenantID s =
     (case user_in s userID tenantID of
        None \<Rightarrow> (Inl errUserNotFound, s)
      | Some u \<Rightarrow> (Ok (),
          put_user userID (u\<lparr>u_EmailVerificationTokenHash := [], u_EmailVerificationTokenExpiry := None\<rparr>)
            (s\<lparr>us_byVerifyToken := drop_token (u_EmailVerificationTokenHash u) (us_byVerifyToken s)\<rparr>)))"

definition UpdateEmailChangeToken ::
    "string \<Rightarrow> string \<Rightarrow> string \<Rightarrow> string \<Rightarrow> time \<Rightarrow> MemoryUserStore \<Rightarrow> unit result \<times> MemoryUserStore" where
  "UpdateEmailChangeToken userID tenantID pendingEmail tokenHash expiry s =
     (case user_in s userID tenantID of
        None \<Rightarrow> (Inl errUserNotFound, s)
      | Some u \<Rightarrow> (Ok (),
          put_user userID (u\<lparr>u_PendingEmail := normalizeEmail pendingEmail, u_EmailChangeTokenHash := tokenHash, u_EmailChangeTokenExpiry := Some expiry\<rparr>)
            (s\<lparr>us_byEmailChangeToken := fmupd tokenHash userID (drop_token (u_EmailChangeTokenHash u) (us_byEmailChangeToken s))\<rparr>)))"

definition GetUserByEmailChangeTokenHash :: "string \<Rightarrow> MemoryUserStore \<Rightarrow> User result" where
  "GetUserByEmailChangeTokenHash tokenHash s =
     (case fmlookup (us_byEmailChangeToken s) tokenHash of
        None \<Rightarrow> Err ErrInvalidToken
      | Some uid \<Rightarrow> (case fmlookup (us_byID s) uid of
            None \<Rightarrow> Err ErrInvalidToken
          | Some u \<Rightarrow> Ok u))"

definition ApplyEmailChange :: "string \<Rightarrow> string \<Rightarrow> MemoryUserStore \<Rightarrow> unit result \<times> MemoryUserStore" where
  "ApplyEmailChange userID tenantID s =
     (case user_in s userID tenantID of
        None \<Rightarrow> (Inl errUserNotFound, s)
      | Some u \<Rightarrow>
          let oldKey = userEmailKey (u_Email u) (u_TenantID u);
              newKey = userEmailKey (u_PendingEmail u) (u_TenantID u)
          in if fmlookup (us_byEmail s) newKey \<noteq> None then (Err ErrUserExists, s)
             else (Ok (), put_user userID (u\<lparr>u_Email := u_PendingEmail u, u_PendingEmail := []\<rparr>)
                    (s\<lparr>us_byEmail := fmupd newKey (u_ID u) (fmdrop oldKey (us_byEmail s))\<rparr>)))"

definition ClearEmailChangeToken :: "string \<Rightarrow> string \<Rightarrow> MemoryUserStore \<Rightarrow> unit result \<times> MemoryUserStore" where
  "ClearEmailChangeToken userID tenantID s =
     (case user_in s userID tenantID of
        None \<Rightarrow> (Inl errUserNotFound, s)
      | Some u \<Rightarrow> (Ok (),
          put_user userID (u\<lparr>u_EmailChangeTokenHash := [], u_EmailChangeTokenExpiry := None, u_PendingEmail := []\<rparr>)
            (s\<lparr>us_byEmailChangeToken := drop_token (u_EmailChangeTokenHash u) (us_byEmailChangeToken s)\<rparr>)))"

definition ListUsers :: "string \<Rightarrow> int \<Rightarrow> int \<Rightarrow> MemoryUserStore \<Rightarrow> User list outcome" where
  "ListUsers tenantID limit offset s =
     pageOf (sort_key u_ID (filter (\<lambda>u. \<not> (tenantID \<noteq> [] \<and> u_TenantID u \<noteq> tenantID))
       (range_values (us_byID s)))) limit offset"

lemmas user_op_defs =
  CreateUser_def UpdateProfile_def UpdatePhoneNumber_def DeleteUser_def UpdatePassword_def
  UpdateResetToken_def ClearResetToken_def UpdateMagicLinkToken_def ClearMagicLinkToken_def
  UpdateSMSCode_def ClearSMSCode_def UpdateTOTPSecret_def UpdateRequire2FA_def UpdateIsAdmin_def
  UpdateEmailVerificationToken_def MarkEmailVerified_def ClearEmailVerificationToken_def
  UpdateEmailChangeToken_def ApplyEmailChange_def ClearEmailChangeToken_def

section \<open>The store's invariant\<close>

text \<open>
  Users are kept under their id; the email index names exactly the key of every user; an entry
  of a token index names a user whose record carries that hash, and no entry is under the empty
  hash.
\<close>

definition email_index_ok :: "(string, User) fmap \<Rightarrow> (string, string) fmap \<Rightarrow> bool" where
  "email_index_ok m ix \<longleftrightarrow> (\<forall>k i. fmlookup ix k = Some i \<longleftrightarrow>
     (\<exists>u. fmlookup m i = Some u \<and> userEmailKey (u_Email u) (u_TenantID u) = k))"

definition index_sound ::
    "(User \<Rightarrow> string) \<Rightarrow> (string, User) fmap \<Rightarrow> (string, string) fmap \<Rightarrow> bool" where
  "index_sound f m ix \<longleftrightarrow> (\<forall>h i. fmlookup ix h = Some i \<longrightarrow>
     h \<noteq> [] \<and> (\<exists>u. fmlookup m i = Some u \<and> f u = h))"

definition user_store_ok :: "MemoryUserStore \<Rightarrow> bool" where
  "user_store_ok s \<longleftrightarrow> keyed u_ID (us_byID s) \<and> email_index_ok (us_byID s) (us_byEmail s)
     \<and> index_sound u_ResetTokenHash (us_byID s) (us_byResetToken s)
     \<and> index_sound u_MagicLinkTokenHash (us_byID s) (us_byMagicToken s)
     \<and> index_sound u_EmailVerificationTokenHash (us_byID s) (us_byVerifyToken s)
     \<and> index_sound u_EmailChangeTokenHash (us_byID s) (us_byEmailChangeToken s)"

lemma index_soundD:
  "index_sound f m ix \<Longrightarrow> fmlookup ix h = Some i \<Longrightarrow> h \<noteq> [] \<and> (\<exists>u. fmlookup m i = Some u \<and> f u = h)"
  by (simp add: index_sound_def)

lemma user_in_Some:
  "user_in s i t = Some u \<longleftrightarrow> fmlookup (us_byID s) i = Some u \<and> u_TenantID u = t"
  by (auto simp: user_in_def split: option.splits)

lemma email_index_put:
  "email_index_ok m ix \<Longrightarrow> fmlookup m i = Some u \<Longrightarrow> u_Email u' = u_Email u \<Longrightarrow>
   u_TenantID u' = u_TenantID u \<Longrightarrow> email_index_ok (fmupd i u' m) ix"
  by (simp add: email_index_ok_def)

lemma email_index_unique:
  "email_index_ok m ix \<Longrightarrow> fmlookup m i = Some u \<Longrightarrow> fmlookup m j = Some v \<Longrightarrow>
   userEmailKey (u_Email u) (u_TenantID u) = userEmailKey (u_Email v) (u_TenantID v) \<Longrightarrow> i = j"
  by (metis email_index_ok_def option.inject)

lemma email_index_new:
  "email_index_ok m ix \<Longrightarrow> fmlookup m i = None \<Longrightarrow>
   fmlookup ix (userEmailKey (u_Email u) (u_TenantID u)) = None \<Longrightarrow>
   email_index_ok (fmupd i u m) (fmupd (userEmailKey (u_Email u) (u_TenantID u)) i ix)"
  unfolding email_index_ok_def by (auto, metis option.distinct(1))

lemma email_index_drop:
  "email_index_ok m ix \<Longrightarrow> fmlookup m i = Some u \<Longrightarrow>
   email_index_ok (fmdrop i m) (fmdrop (userEmailKey (u_Email u) (u_TenantID u)) ix)"
  using email_index_unique[of m ix]
  by (auto simp: email_index_ok_def)

lemma email_index_move:
  assumes "email_index_ok m ix" "fmlookup m i = Some u"
    and "fmlookup ix (userEmailKey (u_Email u') (u_TenantID u')) = None"
  shows "email_index_ok (fmupd i u' m) (fmupd (userEmailKey (u_Email u') (u_TenantID u')) i
           (fmdrop (userEmailKey (u_Email u) (u_TenantID u)) ix))"
proof -
  have "fmlookup (fmdrop i m) i = None" by simp
  moreover have "fmlookup (fmdrop (userEmailKey (u_Email u) (u_TenantID u)) ix)
      (userEmailKey (u_Email u') (u_TenantID u')) = None"
    using assms(3) by simp
  moreover have "fmupd i u' (fmdrop i m) = fmupd i u' m"
    by (rule fmap_ext) simp
  ultimately show ?thesis using email_index_new[OF email_index_drop[OF assms(1,2)]] by metis
qed

lemma index_sound_put:
  "index_sound f m ix \<Longrightarrow> fmlookup m i = Some u \<Longrightarrow> f u' = f u \<Longrightarrow>
   index_sound f (fmupd i u' m) ix"
  by (fastforce simp: index_sound_def)

lemma index_sound_new:
  "index_sound f m ix \<Longrightarrow> fmlookup m i = None \<Longrightarrow> index_sound f (fmupd i u m) ix"
  by (fastforce simp: index_sound_def)

lemma index_sound_set:
  "index_sound f m ix \<Longrightarrow> fmlookup m i = Some u \<Longrightarrow> h \<noteq> [] \<Longrightarrow> f u' = h \<Longrightarrow>
   index_sound f (fmupd i u' m) (fmupd h i (drop_token (f u) ix))"
  by (fastforce simp: index_sound_def drop_token_def)

lemma index_sound_clear:
  "index_sound f m ix \<Longrightarrow> fmlookup m i = Some u \<Longrightarrow>
   index_sound f (fmupd i u' m) (drop_token (f u) ix)"
  by (fastforce simp: index_sound_def drop_token_def)

lemma index_sound_drop:
  "index_sound f m ix \<Longrightarrow> fmlookup m i = Some u \<Longrightarrow>
   index_sound f (fmdrop i m) (drop_token (f u) ix)"
  by (fastforce simp: index_sound_def drop_token_def)

lemma put_user_ok:
  assumes "user_store_ok s" "user_in s i t = Some u"
    and "u_ID u' = u_ID u" "u_Email u' = u_Email u" "u_TenantID u' = u_TenantID u"
    and "u_ResetTokenHash u' = u_ResetTokenHash u" "u_MagicLinkTokenHash u' = u_MagicLinkTokenHash u"
    and "u_EmailVerificationTokenHash u' = u_EmailVerificationTokenHash u"
    and "u_EmailChangeTokenHash u' = u_EmailChangeTokenHash u"
  shows "user_store_ok (put_user i u' s)"
proof -
  have u: "fmlookup (us_byID s) i = Some u" using assms(2) by (simp add: user_in_Some)
  have "index_sound f (fmupd i u' (us_byID s)) ix"
    if "index_sound f (us_byID s) ix" "f u' = f u" for f ix
    using that u by (intro index_sound_put)
  moreover have "email_index_ok (fmupd i u' (us_byID s)) (us_byEmail s)"
    using assms u by (intro email_index_put) (auto simp: user_store_ok_def)
  moreover have "keyed u_ID (fmupd i u' (us_byID s))"
    using assms u by (auto simp: user_store_ok_def dest: keyedD)
  ultimately show ?thesis using assms by (simp add: user_store_ok_def put_user_def)
qed

text \<open>
  Issuing and clearing a token change one index beside the record; the lemma covers the four
  kinds at once: each index is either left alone under an unchanged hash, or set, or cleared.
\<close>

definition index_move ::
    "(User \<Rightarrow> string) \<Rightarrow> User \<Rightarrow> User \<Rightarrow> string \<Rightarrow> (string, string) fmap \<Rightarrow> (string, string) fmap \<Rightarrow> bool" where
  "index_move f u u' i ix ix' \<longleftrightarrow>
     (ix' = ix \<and> f u' = f u) \<or>
     (f u' \<noteq> [] \<and> ix' = fmupd (f u') i (drop_token (f u) ix)) \<or>
     ix' = drop_token (f u) ix"

lemma index_move_sound:
  "index_sound f m ix \<Longrightarrow> fmlookup m i = Some u \<Longrightarrow> index_move f u u' i ix ix' \<Longrightarrow>
   index_sound f (fmupd i u' m) ix'"
  unfolding index_move_def
  by (elim disjE conjE) (simp_all add: index_sound_put index_sound_set index_sound_clear)

lemma token_move_ok:
  assumes "user_store_ok s" "user_in s i t = Some u"
    and "u_ID u' = u_ID u" "u_Email u' = u_Email u" "u_TenantID u' = u_TenantID u"
    and "us_byEmail s' = us_byEmail s" "us_byID s' = us_byID s"
    and "index_move u_ResetTokenHash u u' i (us_byResetToken s) (us_byResetToken s')"
    and "index_move u_MagicLinkTokenHash u u' i (us_byMagicToken s) (us_byMagicToken s')"
    and "index_move u_EmailVerificationTokenHash u u' i (us_byVerifyToken s) (us_byVerifyToken s')"
    and "index_move u_EmailChangeTokenHash u u' i (us_byEmailChangeToken s) (us_byEmailChangeToken s')"
  shows "user_store_ok (put_user i u' s')"
proof -
  have u: "fmlookup (us_byID s) i = Some u" using assms(2) by (simp add: user_in_Some)
  have "email_index_ok (fmupd i u' (us_byID s)) (us_byEmail s)"
    using assms(1-5) u by (intro email_index_put) (auto simp: user_store_ok_def)
  moreover have "keyed u_ID (fmupd i u' (us_byID s))"
    using assms(1-5) u by (auto simp: user_store_ok_def dest: keyedD)
  ultimately show ?thesis
    using assms(1) assms(6-7) index_move_sound[OF _ u assms(8)] index_move_sound[OF _ u assms(9)]
      index_move_sound[OF _ u assms(10)] index_move_sound[OF _ u assms(11)]
    by (simp add: user_store_ok_def put_user_def)
qed

lemma CreateUser_ok: "user_store_ok s \<Longrightarrow> user_store_ok (snd (CreateUser u s))"
  by (simp add: user_store_ok_def CreateUser_def Let_def email_index_new index_sound_new)

lemma DeleteUser_ok: "user_store_ok s \<Longrightarrow> user_store_ok (snd (DeleteUser i t s))"
  by (auto simp: user_store_ok_def DeleteUser_def user_in_Some email_index_drop index_sound_drop
      split: option.split)

lemma ApplyEmailChange_ok:
  assumes ok: "user_store_ok s"
  shows "user_store_ok (snd (ApplyEmailChange i t s))"
proof (cases "user_in s i t")
  case (Some u)
  note ok = ok[unfolded user_store_ok_def]
  have u: "fmlookup (us_byID s) i = Some u" "u_ID u = i"
    using Some ok by (auto simp: user_in_Some dest: keyedD)
  let ?u = "u\<lparr>u_Email := u_PendingEmail u, u_PendingEmail := []\<rparr>"
  have "index_sound f (fmupd i ?u (us_byID s)) ix"
    if "index_sound f (us_byID s) ix" "f ?u = f u" for f ix
    using that u by (intro index_sound_put)
  moreover have "keyed u_ID (fmupd i ?u (us_byID s))" using ok u by simp
  moreover have "email_index_ok (fmupd i ?u (us_byID s))
      (fmupd (userEmailKey (u_PendingEmail u) (u_TenantID u)) i
        (fmdrop (userEmailKey (u_Email u) (u_TenantID u)) (us_byEmail s)))"
    if "fmlookup (us_byEmail s) (userEmailKey (u_PendingEmail u) (u_TenantID u)) = None"
    using that ok email_index_move[of "us_byID s" "us_byEmail s" i u ?u] u by simp
  ultimately show ?thesis using ok u(2)
    by (simp add: ApplyEmailChange_def Some Let_def put_user_def user_store_ok_def)
qed (use ok in \<open>simp add: ApplyEmailChange_def\<close>)

lemma user_store_ok_new: "user_store_ok NewMemoryUserStore"
  by (simp add: user_store_ok_def NewMemoryUserStore_def email_index_ok_def index_sound_def)

text \<open>One step of the store: any operation that can change it, whatever it answers.\<close>

inductive user_step :: "MemoryUserStore \<Rightarrow> MemoryUserStore \<Rightarrow> bool" where
  create: "user_step s (snd (CreateUser u s))"
| profile: "user_step s (snd (UpdateProfile now i t f l s))"
| phone: "user_step s (snd (UpdatePhoneNumber now i t p s))"
| delete: "user_step s (snd (DeleteUser i t s))"
| password: "user_step s (snd (UpdatePassword i t p s))"
| reset: "h \<noteq> [] \<Longrightarrow> user_step s (snd (UpdateResetToken i t h e s))"
| clear_reset: "user_step s (snd (ClearResetToken i t s))"
| magic: "h \<noteq> [] \<Longrightarrow> user_step s (snd (UpdateMagicLinkToken i t h e s))"
| clear_magic: "user_step s (snd (ClearMagicLinkToken i t s))"
| sms: "user_step s (snd (UpdateSMSCode i t h e s))"
| clear_sms: "user_step s (snd (ClearSMSCode i t s))"
| totp: "user_step s (snd (UpdateTOTPSecret i t sec b s))"
| require2fa: "user_step s (snd (UpdateRequire2FA i t b s))"
| is_admin: "user_step s (snd (UpdateIsAdmin i t b s))"
| verification: "h \<noteq> [] \<Longrightarrow> user_step s (snd (UpdateEmailVerificationToken i t h e s))"
| verified: "user_step s (snd (MarkEmailVerified i t b s))"
| clear_verification: "user_step s (snd (ClearEmailVerificationToken i t s))"
| change: "h \<noteq> [] \<Longrightarrow> user_step s (snd (UpdateEmailChangeToken i t p h e s))"
| apply_change: "user_step s (snd (ApplyEmailChange i t s))"
| clear_change: "user_step s (snd (ClearEmailChangeToken i t s))"

lemma flag_ops_ok:
  "user_store_ok s \<Longrightarrow> user_store_ok (snd (UpdateProfile now i t f l s))"
  "user_store_ok s \<Longrightarrow> user_store_ok (snd (UpdatePhoneNumber now i t p s))"
  "user_store_ok s \<Longrightarrow> user_store_ok (snd (UpdatePassword i t p s))"
  "user_store_ok s \<Longrightarrow> user_store_ok (snd (UpdateSMSCode i t h e s))"
  "user_store_ok s \<Longrightarrow> user_store_ok (snd (ClearSMSCode i t s))"
  "user_store_ok s \<Longrightarrow> user_store_ok (snd (UpdateTOTPSecret i t sec b s))"
  "user_store_ok s \<Longrightarrow> user_store_ok (snd (UpdateRequire2FA i t b s))"
  "user_store_ok s \<Longrightarrow> user_store_ok (snd (UpdateIsAdmin i t b s))"
  "user_store_ok s \<Longrightarrow> user_store_ok (snd (MarkEmailVerified i t b s))"
  by (auto simp: UpdateProfile_def UpdatePhoneNumber_def UpdatePassword_def UpdateSMSCode_def ClearSMSCode_def UpdateTOTPSecret_def UpdateRequire2FA_def UpdateIsAdmin_def MarkEmailVerified_def
      Let_def split: option.split elim!: put_user_ok)

lemma update_token_ok:
  "h \<noteq> [] \<Longrightarrow> user_store_ok s \<Longrightarrow> user_store_ok (snd (UpdateResetToken i t h e s))"
  "h \<noteq> [] \<Longrightarrow> user_store_ok s \<Longrightarrow> user_store_ok (snd (UpdateMagicLinkToken i t h e s))"
  "h \<noteq> [] \<Longrightarrow> user_store_ok s \<Longrightarrow> user_store_ok (snd (UpdateEmailVerificationToken i t h e s))"
  "h \<noteq> [] \<Longrightarrow> user_store_ok s \<Longrightarrow> user_store_ok (snd (UpdateEmailChangeToken i t p h e s))"
  by (auto simp: UpdateResetToken_def UpdateMagicLinkToken_def UpdateEmailVerificationToken_def UpdateEmailChangeToken_def
      Let_def index_move_def split: option.split elim!: token_move_ok)

lemma clear_token_ok:
  "user_store_ok s \<Longrightarrow> user_store_ok (snd (ClearResetToken i t s))"
  "user_store_ok s \<Longrightarrow> user_store_ok (snd (ClearMagicLinkToken i t s))"
  "user_store_ok s \<Longrightarrow> user_store_ok (snd (ClearEmailVerificationToken i t s))"
  "user_store_ok s \<Longrightarrow> user_store_ok (snd (ClearEmailChangeToken i t s))"
  by (auto simp: ClearResetToken_def ClearMagicLinkToken_def ClearEmailVerificationToken_def ClearEmailChangeToken_def
      Let_def index_move_def split: option.split elim!: token_move_ok)

lemma user_step_ok: "user_step s s' \<Longrightarrow> user_store_ok s \<Longrightarrow> user_store_ok s'"
  by (induction rule: user_step.induct)
     (simp_all add: CreateUser_ok DeleteUser_ok ApplyEmailChange_ok flag_ops_ok update_token_ok
       clear_token_ok)

lemmas user_op_ok [store_intros] = user_step.intros[THEN user_step_ok]

inductive user_reachable :: "MemoryUserStore \<Rightarrow> bool" where
  start: "user_reachable NewMemoryUserStore"
| step: "user_reachable s \<Longrightarrow> user_step s s' \<Longrightarrow> user_reachable s'"

lemma user_reachable_ok: "user_reachable s \<Longrightarrow> user_store_ok s"
  by (induction rule: user_reachable.induct) (auto intro: user_store_ok_new user_step_ok)

section \<open>The four one-time tokens\<close>

definition user_at :: "MemoryUserStore \<Rightarrow> string \<Rightarrow> User option" where
  "user_at s i = fmlookup (us_byID s) i"

lemma user_in_user_at: "user_in s i t = Some u \<longleftrightarrow> user_at s i = Some u \<and> u_TenantID u = t"
  by (simp add: user_in_Some user_at_def)

lemma user_in_None: "user_in s i t = None \<longleftrightarrow> (\<nexists>u. user_at s i = Some u \<and> u_TenantID u = t)"
  by (metis not_None_eq user_in_user_at)

lemma user_at_id: "user_store_ok s \<Longrightarrow> user_at s i = Some u \<Longrightarrow> u_ID u = i"
  by (auto simp: user_store_ok_def user_at_def dest: keyedD)

lemma user_store_ok_index:
  "user_store_ok s \<Longrightarrow> index_sound u_ResetTokenHash (us_byID s) (us_byResetToken s)"
  "user_store_ok s \<Longrightarrow> index_sound u_MagicLinkTokenHash (us_byID s) (us_byMagicToken s)"
  "user_store_ok s \<Longrightarrow> index_sound u_EmailVerificationTokenHash (us_byID s) (us_byVerifyToken s)"
  "user_store_ok s \<Longrightarrow> index_sound u_EmailChangeTokenHash (us_byID s) (us_byEmailChangeToken s)"
  by (simp_all add: user_store_ok_def)

text \<open>The laws, once for the shape the four groups of operations share.\<close>

lemma token_store_laws:
  fixes hash :: "User \<Rightarrow> string" and ix :: "MemoryUserStore \<Rightarrow> (string, string) fmap"
  assumes upd: "\<And>i t h e s. update i t h e s = (case user_in s i t of
        None \<Rightarrow> (Inl errUserNotFound, s)
      | Some u \<Rightarrow> (Ok (), put_user i (stamp h e u)
          (put_ix (fmupd h i (drop_token (hash u) (ix s))) s)))"
    and get: "\<And>h s. get h s = (case fmlookup (ix s) h of
        None \<Rightarrow> Err ErrInvalidToken
      | Some i \<Rightarrow> (case fmlookup (us_byID s) i of None \<Rightarrow> Err ErrInvalidToken | Some u \<Rightarrow> Ok u))"
    and clr: "\<And>i t s. clear i t s = (case user_in s i t of
        None \<Rightarrow> (Inl errUserNotFound, s)
      | Some u \<Rightarrow> (Ok (), put_user i (unstamp u) (put_ix (drop_token (hash u) (ix s)) s)))"
    and sound: "\<And>s. user_store_ok s \<Longrightarrow> index_sound hash (us_byID s) (ix s)"
    and upd_ok: "\<And>s h i t e. user_store_ok s \<Longrightarrow> h \<noteq> [] \<Longrightarrow> user_store_ok (snd (update i t h e s))"
    and clr_ok: "\<And>s i t. user_store_ok s \<Longrightarrow> user_store_ok (snd (clear i t s))"
    and stamp: "\<And>h e u. hash (stamp h e u) = h" "\<And>h e u. expiry (stamp h e u) = Some e"
      "\<And>h e u. u_ID (stamp h e u) = u_ID u" "\<And>h e u. u_TenantID (stamp h e u) = u_TenantID u"
    and put_ix: "\<And>x s. us_byID (put_ix x s) = us_byID s" "\<And>x s. ix (put_ix x s) = x"
      "\<And>i u s. ix (put_user i u s) = ix s"
  shows "one_time_token user_store_ok user_at update get clear hash expiry stamp"
proof
  have byID: "us_byID (put_user i u s) = fmupd i u (us_byID s)" for i u s
    by (simp add: put_user_def)
  have look: "get h s = Ok u \<longleftrightarrow> (\<exists>i. fmlookup (ix s) h = Some i \<and> user_at s i = Some u)" for h s u
    by (auto simp: get user_at_def split: option.splits)
  show "get h s = Inl err \<Longrightarrow> err = Sentinel ErrInvalidToken" for h s err
    by (auto simp: get split: option.splits)
  show "user_at s (u_ID u) = Some u \<and> hash u = h \<and> h \<noteq> []"
    if ok: "user_store_ok s" and got: "get h s = Ok u" for s h u
  proof -
    obtain i where i: "fmlookup (ix s) h = Some i" "user_at s i = Some u"
      using got by (auto simp: look)
    moreover have "h \<noteq> [] \<and> (\<exists>u. user_at s i = Some u \<and> hash u = h)"
      using sound[OF ok] i(1) by (simp add: index_sound_def user_at_def)
    ultimately show ?thesis using user_at_id[OF ok i(2)] by simp
  qed
  show "update i t h e s = (Inl errUserNotFound, s)"
    if "\<nexists>u. user_at s i = Some u \<and> u_TenantID u = t" for s i t h e
    by (simp add: upd iffD2[OF user_in_None that])
  show "clear i t s = (Inl errUserNotFound, s)"
    if "\<nexists>u. user_at s i = Some u \<and> u_TenantID u = t" for s i t
    by (simp add: clr iffD2[OF user_in_None that])
  show "fst (update i t h e s) = Ok ()" if "user_at s i = Some u" "u_TenantID u = t" for s i u t h e
    using that by (simp add: upd iffD2[OF user_in_user_at])
  show "fst (clear i t s) = Ok ()" if "user_at s i = Some u" "u_TenantID u = t" for s i u t
    using that by (simp add: clr iffD2[OF user_in_user_at])
  show "get h' (snd (update i t h e s)) = (if h' = h then Ok (stamp h e u)
      else if h' = hash u then Err ErrInvalidToken else get h' s)"
    if ok: "user_store_ok s" "h \<noteq> []" and u: "user_at s i = Some u" "u_TenantID u = t"
    for s h i u t e h'
  proof -
    have "fmlookup (ix s) h' = Some i \<Longrightarrow> h' = hash u" "fmlookup (ix s) [] = None"
      using index_soundD[OF sound[OF ok(1)]] u(1) by (fastforce simp: user_at_def, cases "fmlookup (ix s) []", auto)
    then show ?thesis using u
      by (auto simp: upd iffD2[OF user_in_user_at] get put_ix byID drop_token_def split: option.split)
  qed
  show "get h' (snd (clear i t s)) = (if h' = hash u then Err ErrInvalidToken else get h' s)"
    if ok: "user_store_ok s" and u: "user_at s i = Some u" "u_TenantID u = t" for s i u t h'
  proof -
    have "fmlookup (ix s) h' = Some i \<Longrightarrow> h' = hash u" "fmlookup (ix s) [] = None"
      using index_soundD[OF sound[OF ok(1)]] u(1) by (fastforce simp: user_at_def, cases "fmlookup (ix s) []", auto)
    then show ?thesis using u
      by (auto simp: clr iffD2[OF user_in_user_at] get put_ix byID drop_token_def split: option.split)
  qed
qed (use user_at_id upd_ok clr_ok stamp in auto)

interpretation reset_token: one_time_token user_store_ok user_at UpdateResetToken GetUserByResetTokenHash ClearResetToken u_ResetTokenHash u_ResetTokenExpiresAt
    "\<lambda>h e u. u\<lparr>u_ResetTokenHash := h, u_ResetTokenExpiresAt := Some e\<rparr>"
  by (rule token_store_laws[where ix = us_byResetToken and put_ix = "\<lambda>x. us_byResetToken_update (\<lambda>_. x)"
        and unstamp = "\<lambda>u. u\<lparr>u_ResetTokenHash := [], u_ResetTokenExpiresAt := None\<rparr>"])
     (simp_all add: user_store_ok_index update_token_ok clear_token_ok,
      simp_all add: UpdateResetToken_def GetUserByResetTokenHash_def ClearResetToken_def put_user_def)

interpretation magic_token: one_time_token user_store_ok user_at UpdateMagicLinkToken GetUserByMagicLinkTokenHash ClearMagicLinkToken u_MagicLinkTokenHash u_MagicLinkTokenExpiresAt
    "\<lambda>h e u. u\<lparr>u_MagicLinkTokenHash := h, u_MagicLinkTokenExpiresAt := Some e\<rparr>"
  by (rule token_store_laws[where ix = us_byMagicToken and put_ix = "\<lambda>x. us_byMagicToken_update (\<lambda>_. x)"
        and unstamp = "\<lambda>u. u\<lparr>u_MagicLinkTokenHash := [], u_MagicLinkTokenExpiresAt := None\<rparr>"])
     (simp_all add: user_store_ok_index update_token_ok clear_token_ok,
      simp_all add: UpdateMagicLinkToken_def GetUserByMagicLinkTokenHash_def ClearMagicLinkToken_def put_user_def)

interpretation verify_token: one_time_token user_store_ok user_at UpdateEmailVerificationToken GetUserByEmailVerificationTokenHash ClearEmailVerificationToken u_EmailVerificationTokenHash u_EmailVerificationTokenExpiry
    "\<lambda>h e u. u\<lparr>u_EmailVerificationTokenHash := h, u_EmailVerificationTokenExpiry := Some e\<rparr>"
  by (rule token_store_laws[where ix = us_byVerifyToken and put_ix = "\<lambda>x. us_byVerifyToken_update (\<lambda>_. x)"
        and unstamp = "\<lambda>u. u\<lparr>u_EmailVerificationTokenHash := [], u_EmailVerificationTokenExpiry := None\<rparr>"])
     (simp_all add: user_store_ok_index update_token_ok clear_token_ok,
      simp_all add: UpdateEmailVerificationToken_def GetUserByEmailVerificationTokenHash_def ClearEmailVerificationToken_def put_user_def)

interpretation change_token: one_time_token user_store_ok user_at "\<lambda>i t h e. UpdateEmailChangeToken i t p h e" GetUserByEmailChangeTokenHash ClearEmailChangeToken u_EmailChangeTokenHash u_EmailChangeTokenExpiry
    "\<lambda>h e u. u\<lparr>u_PendingEmail := normalizeEmail p, u_EmailChangeTokenHash := h, u_EmailChangeTokenExpiry := Some e\<rparr>"
  by (rule token_store_laws[where ix = us_byEmailChangeToken and put_ix = "\<lambda>x. us_byEmailChangeToken_update (\<lambda>_. x)"
        and unstamp = "\<lambda>u. u\<lparr>u_EmailChangeTokenHash := [], u_EmailChangeTokenExpiry := None, u_PendingEmail := []\<rparr>"])
     (simp_all add: user_store_ok_index update_token_ok clear_token_ok,
      simp_all add: UpdateEmailChangeToken_def GetUserByEmailChangeTokenHash_def ClearEmailChangeToken_def put_user_def)

section \<open>Listing\<close>

definition listed_users :: "string \<Rightarrow> MemoryUserStore \<Rightarrow> User list" where
  "listed_users tenantID s =
     sort_key u_ID (filter (\<lambda>u. \<not> (tenantID \<noteq> [] \<and> u_TenantID u \<noteq> tenantID))
       (range_values (us_byID s)))"

lemma listed_users_filter:
  "user_store_ok s \<Longrightarrow> listed_users t s =
     filter (\<lambda>u. \<not> (t \<noteq> [] \<and> u_TenantID u \<noteq> t)) (range_values (us_byID s))"
  unfolding listed_users_def filter_sort[symmetric]
  by (simp add: keyed_sort_key user_store_ok_def)

interpretation user_lister: lister user_store_ok "\<lambda>s l n. ListUsers t l n s" "listed_users t" u_ID
proof
  fix s assume ok: "user_store_ok s"
  have "map u_ID (range_values (us_byID s)) = range_keys (us_byID s)"
    using ok by (simp add: user_store_ok_def keyed_map_key)
  then show "distinct (map u_ID (listed_users t s))"
    by (simp add: listed_users_filter[OF ok] distinct_map_filter)
qed (simp_all add: ListUsers_def listed_users_def)

section \<open>Lookup by address\<close>

lemma GetUserByEmail_iff:
  assumes "user_store_ok s"
  shows "GetUserByEmail e t s = Ok u \<longleftrightarrow> user_at s (u_ID u) = Some u \<and>
     userEmailKey (u_Email u) (u_TenantID u) = userEmailKey e t"
proof -
  have ix: "email_index_ok (us_byID s) (us_byEmail s)" using assms by (simp add: user_store_ok_def)
  show ?thesis
  proof
    assume "GetUserByEmail e t s = Ok u"
    then obtain i where i: "fmlookup (us_byEmail s) (userEmailKey e t) = Some i" "user_at s i = Some u"
      by (auto simp: GetUserByEmail_def user_at_def split: option.splits)
    then show "user_at s (u_ID u) = Some u \<and>
        userEmailKey (u_Email u) (u_TenantID u) = userEmailKey e t"
      using ix user_at_id[OF assms i(2)] by (auto simp: email_index_ok_def user_at_def)
  next
    assume u: "user_at s (u_ID u) = Some u \<and>
        userEmailKey (u_Email u) (u_TenantID u) = userEmailKey e t"
    then have "fmlookup (us_byEmail s) (userEmailKey e t) = Some (u_ID u)"
      using ix by (auto simp: email_index_ok_def user_at_def)
    then show "GetUserByEmail e t s = Ok u"
      using u by (simp add: GetUserByEmail_def user_at_def)
  qed
qed

lemma userEmailKey_inj:
  "CHR '':'' \<notin> set t \<Longrightarrow> CHR '':'' \<notin> set t' \<Longrightarrow> userEmailKey e t = userEmailKey e' t' \<Longrightarrow>
   t = t' \<and> normalizeEmail e = normalizeEmail e'"
  using split_on_append[of "CHR '':''" t "normalizeEmail e"]
    split_on_append[of "CHR '':''" t' "normalizeEmail e'"]
  by (auto simp: userEmailKey_def)

lemma GetUserByEmail_normalize: "GetUserByEmail (normalizeEmail e) t s = GetUserByEmail e t s"
  by (simp add: GetUserByEmail_def userEmailKey_def)

lemma GetUserByID_iff:
  "GetUserByID i t s = Ok u \<longleftrightarrow> user_at s i = Some u \<and> u_TenantID u = t"
  by (auto simp: GetUserByID_def user_in_user_at user_in_None split: option.splits)

lemma GetUserByEmail_create:
  assumes "CreateUser u s = (Ok v, s')"
  shows "v = u \<and> GetUserByEmail (u_Email u) (u_TenantID u) s' = Ok u
     \<and> GetUserByID (u_ID u) (u_TenantID u) s' = Ok u"
  using assms
  by (auto simp: CreateUser_def GetUserByEmail_def GetUserByID_def user_in_def Let_def
      split: if_splits)

lemma email_taken:
  "GetUserByEmail (u_Email x) (u_TenantID x) s = Ok u \<Longrightarrow> CreateUser x s = (Err ErrUserExists, s)"
  by (auto simp: GetUserByEmail_def CreateUser_def Let_def split: option.splits)

end
