(* ===== verification/Session_Store.thy ===== *)
theory Session_Store
  imports Auth_Models Paging
begin

text \<open>
  \<open>memory_store.go: MemorySessionStore\<close>: sessions by id and by the hash of their refresh token.
  A revoked session stays (a tombstone), so that a refresh with its token can be told apart
  from an unknown one. The loop of \<open>DeleteExpiredSessions\<close> ranges over a Go map while deleting
  from it; it is a fold over any order of the entries, and the result is shown not to depend
  on that order.
\<close>

section \<open>State and operations\<close>

record MemorySessionStore =
  ss_byID :: "(string, Session) fmap"
  ss_byTokenHashed :: "(string, string) fmap"

definition NewMemorySessionStore :: MemorySessionStore where
  "NewMemorySessionStore = \<lparr>ss_byID = fmempty, ss_byTokenHashed = fmempty\<rparr>"

definition CreateSession :: "Session \<Rightarrow> MemorySessionStore \<Rightarrow> Session result \<times> MemorySessionStore" where
  "CreateSession session s =
     (Ok session, s\<lparr>ss_byID := fmupd (s_ID session) session (ss_byID s),
        ss_byTokenHashed := fmupd (s_RefreshTokenHash session) (s_ID session) (ss_byTokenHashed s)\<rparr>)"

definition GetSessionByRefreshTokenHash :: "string \<Rightarrow> MemorySessionStore \<Rightarrow> Session result" where
  "GetSessionByRefreshTokenHash tokenHash s =
     (case fmlookup (ss_byTokenHashed s) tokenHash of
        None \<Rightarrow> Err ErrSessionNotFound
      | Some sid \<Rightarrow> (case fmlookup (ss_byID s) sid of
            None \<Rightarrow> Err ErrSessionNotFound
          | Some session \<Rightarrow> Ok session))"

definition GetSessionByID :: "string \<Rightarrow> MemorySessionStore \<Rightarrow> Session result" where
  "GetSessionByID sessionID s =
     (case fmlookup (ss_byID s) sessionID of
        None \<Rightarrow> Err ErrSessionNotFound
      | Some session \<Rightarrow> Ok session)"

definition UpdateSession :: "Session \<Rightarrow> MemorySessionStore \<Rightarrow> unit result \<times> MemorySessionStore" where
  "UpdateSession session s =
     (case fmlookup (ss_byID s) (s_ID session) of
        None \<Rightarrow> (Err ErrSessionNotFound, s)
      | Some current \<Rightarrow>
          let ix = (if s_RefreshTokenHash current \<noteq> s_RefreshTokenHash session
                    then fmupd (s_RefreshTokenHash session) (s_ID session)
                           (fmdrop (s_RefreshTokenHash current) (ss_byTokenHashed s))
                    else ss_byTokenHashed s)
          in (Ok (), s\<lparr>ss_byTokenHashed := ix,
                       ss_byID := fmupd (s_ID session) session (ss_byID s)\<rparr>))"

definition ListSessionsForUser :: "string \<Rightarrow> string \<Rightarrow> MemorySessionStore \<Rightarrow> Session list" where
  "ListSessionsForUser userID tenantID s =
     sort_key s_ID (filter (\<lambda>x. s_UserID x = userID \<and> s_TenantID x = tenantID)
       (range_values (ss_byID s)))"

definition RevokeSessionByID ::
    "time \<Rightarrow> string \<Rightarrow> MemorySessionStore \<Rightarrow> unit result \<times> MemorySessionStore" where
  "RevokeSessionByID now sessionID s =
     (case fmlookup (ss_byID s) sessionID of
        None \<Rightarrow> (Err ErrSessionNotFound, s)
      | Some session \<Rightarrow>
          (Ok (), s\<lparr>ss_byID := fmupd sessionID (session\<lparr>s_RevokedAt := Some now\<rparr>) (ss_byID s)\<rparr>))"

text \<open>One turn of the loop of \<open>DeleteExpiredSessions\<close>, on the entry \<open>(i, x)\<close>.\<close>

fun delete_if_expired ::
    "time \<Rightarrow> string \<times> Session \<Rightarrow> nat \<times> MemorySessionStore \<Rightarrow> nat \<times> MemorySessionStore" where
  "delete_if_expired now (i, x) (deleted, s) =
     (if now > s_ExpiresAt x
      then (Suc deleted, s\<lparr>ss_byID := fmdrop i (ss_byID s),
                           ss_byTokenHashed := fmdrop (s_RefreshTokenHash x) (ss_byTokenHashed s)\<rparr>)
      else (deleted, s))"

definition DeleteExpiredSessions :: "time \<Rightarrow> MemorySessionStore \<Rightarrow> nat \<times> MemorySessionStore" where
  "DeleteExpiredSessions now s =
     fold (delete_if_expired now) (sorted_list_of_fmap (ss_byID s)) (0, s)"

definition all_sessions :: "MemorySessionStore \<Rightarrow> Session list" where
  "all_sessions s = sort_key s_ID (range_values (ss_byID s))"

definition GetAllSessions :: "int \<Rightarrow> int \<Rightarrow> MemorySessionStore \<Rightarrow> Session list outcome" where
  "GetAllSessions limit offset s = pageOf (sort_key s_ID (range_values (ss_byID s))) limit offset"

section \<open>Invariant\<close>

text \<open>
  Sessions are kept under their id, and an entry of the token index names a session that
  carries that hash (so a lookup by hash finds the session the token was issued for).
\<close>

definition session_store_ok :: "MemorySessionStore \<Rightarrow> bool" where
  "session_store_ok s \<longleftrightarrow> keyed s_ID (ss_byID s) \<and>
     (\<forall>h i. fmlookup (ss_byTokenHashed s) h = Some i \<longrightarrow>
        (\<exists>x. fmlookup (ss_byID s) i = Some x \<and> s_RefreshTokenHash x = h))"

lemma session_store_ok_new: "session_store_ok NewMemorySessionStore"
  by (simp add: session_store_ok_def NewMemorySessionStore_def)

lemma session_index:
  "session_store_ok s \<Longrightarrow> fmlookup (ss_byTokenHashed s) h = Some i \<Longrightarrow>
   \<exists>x. fmlookup (ss_byID s) i = Some x \<and> s_RefreshTokenHash x = h \<and> s_ID x = i"
  unfolding session_store_ok_def by (meson keyedD)

lemma session_keyed: "session_store_ok s \<Longrightarrow> fmlookup (ss_byID s) i = Some x \<Longrightarrow> s_ID x = i"
  by (auto simp: session_store_ok_def dest: keyedD)

text \<open>
  \<open>CreateSession\<close> overwrites: with an id already in use, the old session's hash would keep an
  index entry that names the new record. The service draws ids at random; the store's own
  guarantee needs the id to be new.
\<close>

lemma CreateSession_ok:
  assumes "session_store_ok s" "fmlookup (ss_byID s) (s_ID x) = None"
  shows "session_store_ok (snd (CreateSession x s))"
  using assms unfolding session_store_ok_def CreateSession_def
  by (auto, metis option.distinct(1))

lemma UpdateSession_ok:
  assumes ok: "session_store_ok s"
  shows "session_store_ok (snd (UpdateSession x s))"
proof (cases "fmlookup (ss_byID s) (s_ID x)")
  case (Some c)
  have "\<exists>y. fmlookup (fmupd (s_ID x) x (ss_byID s)) i = Some y \<and> s_RefreshTokenHash y = h"
    if "fmlookup (ss_byTokenHashed s) h = Some i"
      "s_RefreshTokenHash c \<noteq> s_RefreshTokenHash x \<longrightarrow> h \<noteq> s_RefreshTokenHash c" for h i
    using session_index[OF ok that(1)] that(2) Some by (cases "i = s_ID x") auto
  then show ?thesis using ok Some
    by (auto simp: UpdateSession_def Let_def session_store_ok_def split: if_splits)
qed (use ok in \<open>simp add: UpdateSession_def\<close>)

lemma RevokeSessionByID_ok:
  assumes ok: "session_store_ok s"
  shows "session_store_ok (snd (RevokeSessionByID now i s))"
proof (cases "fmlookup (ss_byID s) i")
  case (Some c)
  have "\<exists>x. fmlookup (fmupd i (c\<lparr>s_RevokedAt := Some now\<rparr>) (ss_byID s)) j = Some x
      \<and> s_RefreshTokenHash x = h" if "fmlookup (ss_byTokenHashed s) h = Some j" for h j
    using session_index[OF ok that] Some by (cases "j = i") auto
  moreover have "s_ID c = i" by (rule session_keyed[OF ok Some])
  ultimately show ?thesis using ok Some by (simp add: RevokeSessionByID_def session_store_ok_def)
qed (use ok in \<open>simp add: RevokeSessionByID_def\<close>)

text \<open>The expiry loop, in whatever order the entries come.\<close>

definition live_sessions :: "time \<Rightarrow> MemorySessionStore \<Rightarrow> MemorySessionStore" where
  "live_sessions now s = s\<lparr>
     ss_byID := fmfilter (\<lambda>i. \<forall>x. fmlookup (ss_byID s) i = Some x \<longrightarrow> now \<le> s_ExpiresAt x) (ss_byID s),
     ss_byTokenHashed := fmfilter (\<lambda>h. \<forall>i x. fmlookup (ss_byID s) i = Some x \<and> now > s_ExpiresAt x \<longrightarrow>
        s_RefreshTokenHash x \<noteq> h) (ss_byTokenHashed s)\<rparr>"

lemma fold_delete_if_expired:
  "fst (fold (delete_if_expired now) es (n, s)) =
     n + length (filter (\<lambda>(i, x). now > s_ExpiresAt x) es)"
  "fmlookup (ss_byID (snd (fold (delete_if_expired now) es (n, s)))) i =
     (if \<exists>x. (i, x) \<in> set es \<and> now > s_ExpiresAt x then None else fmlookup (ss_byID s) i)"
  "fmlookup (ss_byTokenHashed (snd (fold (delete_if_expired now) es (n, s)))) h =
     (if \<exists>i x. (i, x) \<in> set es \<and> now > s_ExpiresAt x \<and> s_RefreshTokenHash x = h then None
      else fmlookup (ss_byTokenHashed s) h)"
proof (induction es arbitrary: n s)
  case (Cons e es)
  obtain j y where e: "e = (j, y)" by (cases e)
  { case 1 show ?case using Cons.IH(1) by (simp add: e) }
  { case 2 show ?case using Cons.IH(2) by (auto simp: e) }
  { case 3 show ?case using Cons.IH(3) by (auto simp: e) }
qed simp_all

lemma delete_expired_any_order:
  assumes "set es = set (sorted_list_of_fmap (ss_byID s))" "distinct es"
  shows "fold (delete_if_expired now) es (0, s) = DeleteExpiredSessions now s"
proof -
  let ?es = "sorted_list_of_fmap (ss_byID s)"
  have "distinct ?es" by (rule distinct_sorted_list_of_fmap)
  then have "mset es = mset ?es" using assms set_eq_iff_mset_eq_distinct by blast
  then have "mset (filter (\<lambda>(i, x). now > s_ExpiresAt x) es) =
      mset (filter (\<lambda>(i, x). now > s_ExpiresAt x) ?es)" by simp
  then have "fst (fold (delete_if_expired now) es (0, s)) = fst (fold (delete_if_expired now) ?es (0, s))"
    unfolding fold_delete_if_expired(1) by (metis size_mset)
  moreover have "snd (fold (delete_if_expired now) es (0, s)) = snd (fold (delete_if_expired now) ?es (0, s))"
    by (rule MemorySessionStore.equality)
       (auto intro!: fmap_ext simp: fold_delete_if_expired assms(1) simp del: set_sorted_list_of_fmap)
  ultimately show ?thesis by (simp add: DeleteExpiredSessions_def prod_eq_iff)
qed

lemma deleted_lookup:
  "fmlookup (ss_byID (snd (DeleteExpiredSessions now s))) i =
     (case fmlookup (ss_byID s) i of None \<Rightarrow> None
      | Some x \<Rightarrow> if now > s_ExpiresAt x then None else Some x)"
  by (auto simp: DeleteExpiredSessions_def fold_delete_if_expired(2) split: option.split)

lemma deleted_count:
  "fst (DeleteExpiredSessions now s) =
     length (filter (\<lambda>x. now > s_ExpiresAt x) (range_values (ss_byID s)))"
  by (simp add: DeleteExpiredSessions_def fold_delete_if_expired(1) range_values_def filter_map comp_def
      case_prod_unfold)

lemma DeleteExpiredSessions_ok:
  assumes ok: "session_store_ok s"
  shows "session_store_ok (snd (DeleteExpiredSessions now s))"
proof -
  let ?s = "snd (DeleteExpiredSessions now s)"
  have "keyed s_ID (ss_byID ?s)"
    using session_keyed[OF ok] by (auto simp: keyed_def deleted_lookup split: option.splits if_splits)
  moreover have "\<exists>x. fmlookup (ss_byID ?s) i = Some x \<and> s_RefreshTokenHash x = h"
    if ix: "fmlookup (ss_byTokenHashed ?s) h = Some i" for h i
  proof -
    have kept: "\<not> (\<exists>i x. fmlookup (ss_byID s) i = Some x \<and> now > s_ExpiresAt x \<and> s_RefreshTokenHash x = h)"
      and "fmlookup (ss_byTokenHashed s) h = Some i"
      using ix by (auto simp: DeleteExpiredSessions_def fold_delete_if_expired(3) split: if_splits)
    then obtain x where "fmlookup (ss_byID s) i = Some x" "s_RefreshTokenHash x = h"
      using session_index[OF ok] by blast
    then show ?thesis using kept by (auto simp: deleted_lookup)
  qed
  ultimately show ?thesis by (simp add: session_store_ok_def)
qed

section \<open>What the lookups answer\<close>

definition session_at :: "MemorySessionStore \<Rightarrow> string \<Rightarrow> Session option" where
  "session_at s i = fmlookup (ss_byID s) i"

lemma GetSessionByRefreshTokenHash_sound:
  assumes "session_store_ok s" "GetSessionByRefreshTokenHash h s = Ok x"
  shows "session_at s (s_ID x) = Some x \<and> s_RefreshTokenHash x = h"
proof -
  obtain i where i: "fmlookup (ss_byTokenHashed s) h = Some i" "fmlookup (ss_byID s) i = Some x"
    using assms(2) by (auto simp: GetSessionByRefreshTokenHash_def split: option.splits)
  then show ?thesis using session_index[OF assms(1) i(1)] by (auto simp: session_at_def)
qed

lemma GetSessionByRefreshTokenHash_error:
  "GetSessionByRefreshTokenHash h s = Inl e \<Longrightarrow> e = Sentinel ErrSessionNotFound"
  by (auto simp: GetSessionByRefreshTokenHash_def split: option.splits)

lemma ListSessionsForUser_set:
  "x \<in> set (ListSessionsForUser u t s) \<longleftrightarrow>
     (\<exists>i. session_at s i = Some x) \<and> s_UserID x = u \<and> s_TenantID x = t"
  by (auto simp: ListSessionsForUser_def session_at_def)

interpretation session_lister:
  lister session_store_ok "\<lambda>s l n. GetAllSessions l n s" all_sessions s_ID
proof
  fix s assume ok: "session_store_ok s"
  then have key: "keyed s_ID (ss_byID s)" by (simp add: session_store_ok_def)
  show "sorted (map s_ID (all_sessions s))" by (simp add: all_sessions_def)
  show "distinct (map s_ID (all_sessions s))"
    by (simp add: all_sessions_def keyed_sort_key[OF key] keyed_map_key[OF key])
qed (simp add: GetAllSessions_def all_sessions_def)

section \<open>The interface behind refresh-token rotation\<close>

text \<open>
  What the refresh route relies on in \<open>SessionStore\<close>: writing a session back under a new hash
  makes that hash find it and the old hash find nothing.
\<close>

locale session_tokens =
  fixes ok :: "'s \<Rightarrow> bool"
    and by_hash :: "string \<Rightarrow> 's \<Rightarrow> Session result"
    and update :: "Session \<Rightarrow> 's \<Rightarrow> unit result \<times> 's"
  assumes update_ok: "ok s \<Longrightarrow> ok (snd (update x s))"
    and by_hash_sound: "ok s \<Longrightarrow> by_hash h s = Ok x \<Longrightarrow> s_RefreshTokenHash x = h"
    and by_hash_error: "by_hash h s = Inl e \<Longrightarrow> e = Sentinel ErrSessionNotFound"
    and update_rotates: "ok s \<Longrightarrow> by_hash h s = Ok c \<Longrightarrow> s_ID x = s_ID c \<Longrightarrow>
      s_RefreshTokenHash x \<noteq> h \<Longrightarrow>
      fst (update x s) = Ok () \<and> by_hash (s_RefreshTokenHash x) (snd (update x s)) = Ok x
      \<and> by_hash h (snd (update x s)) = Err ErrSessionNotFound"
    and update_same: "ok s \<Longrightarrow> by_hash h s = Ok c \<Longrightarrow> s_ID x = s_ID c \<Longrightarrow>
      s_RefreshTokenHash x = h \<Longrightarrow>
      fst (update x s) = Ok () \<and> by_hash h (snd (update x s)) = Ok x"
    and update_dead: "by_hash g s = Err ErrSessionNotFound \<Longrightarrow> g \<noteq> s_RefreshTokenHash x \<Longrightarrow>
      by_hash g (snd (update x s)) = Err ErrSessionNotFound"
begin

text \<open>One session rotated through a sequence of hashes.\<close>

fun rotate :: "Session \<Rightarrow> string list \<Rightarrow> 's \<Rightarrow> 's" where
  "rotate x [] s = s"
| "rotate x (h # hs) s =
     (let x = x\<lparr>s_RefreshTokenHash := h\<rparr> in rotate x hs (snd (update x s)))"

lemma rotate_dead:
  "by_hash g s = Err ErrSessionNotFound \<Longrightarrow> g \<notin> set hs \<Longrightarrow>
   by_hash g (rotate x hs s) = Err ErrSessionNotFound"
  by (induction hs arbitrary: x s) (simp_all add: Let_def update_dead)

lemma only_last_token_lives:
  assumes "ok s" "by_hash h s = Ok x" "distinct (h # hs)"
  shows "by_hash (last (h # hs)) (rotate x hs s)
         = Ok (x\<lparr>s_RefreshTokenHash := last (h # hs)\<rparr>)"
    and "g \<in> set (butlast (h # hs)) \<Longrightarrow> by_hash g (rotate x hs s) = Err ErrSessionNotFound"
  using assms
proof (induction hs arbitrary: h x s)
  case Nil
  { case 1 then show ?case using by_hash_sound[of s h x] by simp }
  { case 2 then show ?case by simp }
next
  case (Cons h' hs)
  { case 1
    let ?x = "x\<lparr>s_RefreshTokenHash := h'\<rparr>"
    have u: "by_hash h' (snd (update ?x s)) = Ok ?x"
      using update_rotates[OF 1(1,2), of ?x] 1(3) by auto
    then show ?case using Cons.IH(1)[OF update_ok[OF 1(1)] u] 1(3) by (simp add: Let_def) }
  { case 2
    let ?x = "x\<lparr>s_RefreshTokenHash := h'\<rparr>"
    have u: "by_hash h' (snd (update ?x s)) = Ok ?x"
        "by_hash h (snd (update ?x s)) = Err ErrSessionNotFound"
      using update_rotates[OF 2(2,3), of ?x] 2(4) by auto
    show ?case
    proof (cases "g = h")
      case True
      then show ?thesis using rotate_dead[OF u(2)] 2(4) by (simp add: Let_def)
    next
      case False
      then show ?thesis using Cons.IH(2)[OF _ update_ok[OF 2(2)] u(1)] 2(1,4)
        by (simp add: Let_def)
    qed }
qed

end

interpretation session_rotation:
  session_tokens session_store_ok GetSessionByRefreshTokenHash UpdateSession
proof
  fix s and x :: Session assume "session_store_ok s" then show "session_store_ok (snd (UpdateSession x s))"
    by (rule UpdateSession_ok)
next
  fix s h x assume "session_store_ok s" "GetSessionByRefreshTokenHash h s = Ok x"
  then show "s_RefreshTokenHash x = h" using GetSessionByRefreshTokenHash_sound by blast
next
  fix h s e assume "GetSessionByRefreshTokenHash h s = Inl e"
  then show "e = Sentinel ErrSessionNotFound" by (rule GetSessionByRefreshTokenHash_error)
next
  fix s h c and x :: Session
  assume ok: "session_store_ok s" and got: "GetSessionByRefreshTokenHash h s = Ok c"
    and x: "s_ID x = s_ID c"
  have c: "fmlookup (ss_byID s) (s_ID c) = Some c" "s_RefreshTokenHash c = h"
    using GetSessionByRefreshTokenHash_sound[OF ok got] by (auto simp: session_at_def)
  have "fmlookup (ss_byTokenHashed s) h = Some (s_ID c)"
    using got session_keyed[OF ok]
    by (auto simp: GetSessionByRefreshTokenHash_def split: option.splits)
  then show "s_RefreshTokenHash x = h \<Longrightarrow>
      fst (UpdateSession x s) = Ok () \<and> GetSessionByRefreshTokenHash h (snd (UpdateSession x s)) = Ok x"
    and "s_RefreshTokenHash x \<noteq> h \<Longrightarrow> fst (UpdateSession x s) = Ok ()
      \<and> GetSessionByRefreshTokenHash (s_RefreshTokenHash x) (snd (UpdateSession x s)) = Ok x
      \<and> GetSessionByRefreshTokenHash h (snd (UpdateSession x s)) = Err ErrSessionNotFound"
    using c x by (simp_all add: UpdateSession_def GetSessionByRefreshTokenHash_def Let_def)
next
  fix g s and x :: Session
  assume "GetSessionByRefreshTokenHash g s = Err ErrSessionNotFound" "g \<noteq> s_RefreshTokenHash x"
  then show "GetSessionByRefreshTokenHash g (snd (UpdateSession x s)) = Err ErrSessionNotFound"
    by (auto simp: UpdateSession_def GetSessionByRefreshTokenHash_def Let_def split: option.splits)
qed

end
