(* ===== verification/Feature_Stores.thy ===== *)
theory Feature_Stores
  imports Auth_Models
begin

text \<open>
  \<open>feature_stores.go\<close>: the authorization-code store of the identity provider, user metadata,
  roles and permissions, and tenants with their memberships. A Go \<open>map[string]struct{}\<close> is a
  finite set; a missing and an empty inner map read alike in the code, and the models keep the
  outer entry where the code keeps it. Roles and tenants have an abstract specification as
  relations, with a refinement lemma per operation.
\<close>

section \<open>Authorization codes\<close>

record AuthCode =
  ac_CodeHash :: string
  ac_UserID :: string
  ac_TenantID :: string
  ac_ClientID :: string
  ac_Nonce :: string
  ac_RedirectURI :: string
  ac_CodeChallenge :: string
  ac_CodeChallengeMethod :: string
  ac_Scope :: string
  ac_ExpiresAt :: time

type_synonym MemoryAuthCodeStore = "(string, AuthCode) fmap"

text \<open>Saving sweeps the entries that have expired at \<open>now\<close> first.\<close>

definition SaveCode :: "time \<Rightarrow> AuthCode \<Rightarrow> MemoryAuthCodeStore \<Rightarrow> MemoryAuthCodeStore" where
  "SaveCode now code s =
     fmupd (ac_CodeHash code) code
       (fmfilter (\<lambda>h. \<not> (now > ac_ExpiresAt (the (fmlookup s h)))) s)"

definition ConsumeCode ::
    "time \<Rightarrow> string \<Rightarrow> MemoryAuthCodeStore \<Rightarrow> AuthCode result \<times> MemoryAuthCodeStore" where
  "ConsumeCode now codeHash s =
     (case fmlookup s codeHash of
        None \<Rightarrow> (Err ErrInvalidCode, s)
      | Some code \<Rightarrow>
          let s = fmdrop codeHash s in
          if now > ac_ExpiresAt code then (Err ErrInvalidCode, s) else (Ok code, s))"

lemma SaveCode_lookup:
  "fmlookup (SaveCode now c s) h =
     (if h = ac_CodeHash c then Some c
      else (case fmlookup s h of None \<Rightarrow> None | Some d \<Rightarrow> if now > ac_ExpiresAt d then None else Some d))"
  by (auto simp: SaveCode_def split: option.split)

lemma ConsumeCode_result:
  "fst (ConsumeCode now h s) = Ok c \<longleftrightarrow> fmlookup s h = Some c \<and> now \<le> ac_ExpiresAt c"
  by (auto simp: ConsumeCode_def Let_def split: option.split)

lemma ConsumeCode_store: "snd (ConsumeCode now h s) = fmdrop h s"
  by (auto simp: ConsumeCode_def Let_def split: option.split intro!: fmap_ext)

text \<open>The operations of the store in any order, with the clock of each.\<close>

datatype code_op = Save time AuthCode | Consume time string

fun code_step :: "code_op \<Rightarrow> MemoryAuthCodeStore \<Rightarrow> MemoryAuthCodeStore" where
  "code_step (Save now c) s = SaveCode now c s"
| "code_step (Consume now h) s = snd (ConsumeCode now h s)"

fun saves :: "string \<Rightarrow> code_op \<Rightarrow> bool" where
  "saves h (Save now c) \<longleftrightarrow> ac_CodeHash c = h"
| "saves h (Consume now g) \<longleftrightarrow> False"

lemma code_stays_gone:
  "fmlookup s h = None \<Longrightarrow> list_all (\<lambda>op. \<not> saves h op) ops \<Longrightarrow>
   fmlookup (fold code_step ops s) h = None"
proof (induction ops arbitrary: s)
  case (Cons op ops)
  have "fmlookup (code_step op s) h = None"
    using Cons.prems by (cases op) (auto simp: SaveCode_lookup ConsumeCode_store)
  then show ?case using Cons by simp
qed simp

section \<open>Metadata\<close>

type_synonym MemoryMetadataStore = "(string, json_object) fmap"

definition GetMetadata :: "string \<Rightarrow> MemoryMetadataStore \<Rightarrow> json_object" where
  "GetMetadata userID s = (case fmlookup s userID of None \<Rightarrow> fmempty | Some m \<Rightarrow> m)"

definition UpdateMetadata :: "string \<Rightarrow> json_object \<Rightarrow> MemoryMetadataStore \<Rightarrow> MemoryMetadataStore" where
  "UpdateMetadata userID metadata s =
     fmupd userID ((case fmlookup s userID of None \<Rightarrow> fmempty | Some m \<Rightarrow> m) ++\<^sub>f metadata) s"

definition ClearMetadata :: "string \<Rightarrow> MemoryMetadataStore \<Rightarrow> MemoryMetadataStore" where
  "ClearMetadata userID s = fmdrop userID s"

lemma GetMetadata_update:
  "fmlookup (GetMetadata u (UpdateMetadata v m s)) k =
     (if u = v \<and> k \<in> fmdom' m then fmlookup m k else fmlookup (GetMetadata u s) k)"
  by (auto simp: GetMetadata_def UpdateMetadata_def fmlookup_dom'_iff split: option.split)

lemma GetMetadata_clear:
  "GetMetadata u (ClearMetadata v s) = (if u = v then fmempty else GetMetadata u s)"
  by (simp add: GetMetadata_def ClearMetadata_def)

section \<open>Roles and permissions\<close>

record MemoryRolesPermissionsStore =
  rp_rolePermissions :: "(string, string fset) fmap"
  rp_userRoles :: "(string, (string, string fset) fmap) fmap"

definition NewMemoryRolesPermissionsStore :: MemoryRolesPermissionsStore where
  "NewMemoryRolesPermissionsStore = \<lparr>rp_rolePermissions = fmempty, rp_userRoles = fmempty\<rparr>"

text \<open>An index expression \<open>m[k]\<close> on a map of maps or of sets: nil reads as empty.\<close>

abbreviation at_map :: "('a, ('b, 'c) fmap) fmap \<Rightarrow> 'a \<Rightarrow> ('b, 'c) fmap" where
  "at_map m k \<equiv> (case fmlookup m k of None \<Rightarrow> fmempty | Some x \<Rightarrow> x)"

abbreviation at_set :: "('a, 'b fset) fmap \<Rightarrow> 'a \<Rightarrow> 'b fset" where
  "at_set m k \<equiv> (case fmlookup m k of None \<Rightarrow> {||} | Some x \<Rightarrow> x)"

definition AddRoleToUser ::
    "string \<Rightarrow> string \<Rightarrow> string \<Rightarrow> MemoryRolesPermissionsStore \<Rightarrow> unit result \<times> MemoryRolesPermissionsStore" where
  "AddRoleToUser userID role tenantID s =
     (if fmlookup (rp_rolePermissions s) role = None then (Err ErrRoleNotFound, s)
      else
        let byTenant = at_map (rp_userRoles s) userID;
            roles = at_set byTenant tenantID
        in (Ok (), s\<lparr>rp_userRoles :=
              fmupd userID (fmupd tenantID (finsert role roles) byTenant) (rp_userRoles s)\<rparr>))"

definition RemoveRoleFromUser ::
    "string \<Rightarrow> string \<Rightarrow> string \<Rightarrow> MemoryRolesPermissionsStore \<Rightarrow> unit result \<times> MemoryRolesPermissionsStore" where
  "RemoveRoleFromUser userID role tenantID s =
     (case fmlookup (rp_userRoles s) userID of
        None \<Rightarrow> (Ok (), s)
      | Some byTenant \<Rightarrow> (case fmlookup byTenant tenantID of
            None \<Rightarrow> (Ok (), s)
          | Some roles \<Rightarrow> (Ok (), s\<lparr>rp_userRoles :=
              fmupd userID (fmupd tenantID (roles |-| {|role|}) byTenant) (rp_userRoles s)\<rparr>)))"

definition GetRolesForUser ::
    "string \<Rightarrow> string \<Rightarrow> MemoryRolesPermissionsStore \<Rightarrow> string list" where
  "GetRolesForUser userID tenantID s =
     (case fmlookup (rp_userRoles s) userID of
        None \<Rightarrow> []
      | Some userScoped \<Rightarrow> sorted_list_of_fset (at_set userScoped tenantID))"

definition CreateRole ::
    "string \<Rightarrow> string list \<Rightarrow> MemoryRolesPermissionsStore \<Rightarrow> MemoryRolesPermissionsStore" where
  "CreateRole role permissions s =
     s\<lparr>rp_rolePermissions := fmupd role (fset_of_list permissions) (rp_rolePermissions s)\<rparr>"

definition DeleteRole :: "string \<Rightarrow> MemoryRolesPermissionsStore \<Rightarrow> MemoryRolesPermissionsStore" where
  "DeleteRole role s = s\<lparr>
     rp_rolePermissions := fmdrop role (rp_rolePermissions s),
     rp_userRoles := fmmap (fmmap (\<lambda>roles. roles |-| {|role|})) (rp_userRoles s)\<rparr>"

definition AddPermissionToRole ::
    "string \<Rightarrow> string \<Rightarrow> MemoryRolesPermissionsStore \<Rightarrow> MemoryRolesPermissionsStore" where
  "AddPermissionToRole role permission s = s\<lparr>rp_rolePermissions :=
     fmupd role (finsert permission (at_set (rp_rolePermissions s) role)) (rp_rolePermissions s)\<rparr>"

definition RemovePermissionFromRole ::
    "string \<Rightarrow> string \<Rightarrow> MemoryRolesPermissionsStore \<Rightarrow> MemoryRolesPermissionsStore" where
  "RemovePermissionFromRole role permission s =
     (case fmlookup (rp_rolePermissions s) role of
        None \<Rightarrow> s
      | Some perms \<Rightarrow> s\<lparr>rp_rolePermissions :=
          fmupd role (perms |-| {|permission|}) (rp_rolePermissions s)\<rparr>)"

definition GetPermissionsForRole :: "string \<Rightarrow> MemoryRolesPermissionsStore \<Rightarrow> string list" where
  "GetPermissionsForRole role s = sorted_list_of_fset (at_set (rp_rolePermissions s) role)"

text \<open>The inner loop of \<open>GetPermissionsForUser\<close>: append what has not been seen.\<close>

fun add_unseen :: "string \<Rightarrow> string fset \<times> string list \<Rightarrow> string fset \<times> string list" where
  "add_unseen p (seen, out) = (if p |\<in>| seen then (seen, out) else (finsert p seen, out @ [p]))"

definition GetPermissionsForUser ::
    "string \<Rightarrow> string \<Rightarrow> MemoryRolesPermissionsStore \<Rightarrow> string list" where
  "GetPermissionsForUser userID tenantID s =
     sort (snd (fold (\<lambda>role. fold add_unseen (GetPermissionsForRole role s))
       (GetRolesForUser userID tenantID s) ({||}, [])))"

definition UserHasPermission ::
    "string \<Rightarrow> string \<Rightarrow> string \<Rightarrow> MemoryRolesPermissionsStore \<Rightarrow> bool" where
  "UserHasPermission userID permission tenantID s =
     list_ex (\<lambda>current. current = permission) (GetPermissionsForUser userID tenantID s)"

definition GetAllRoles :: "MemoryRolesPermissionsStore \<Rightarrow> string list" where
  "GetAllRoles s = range_keys (rp_rolePermissions s)"

subsection \<open>Specification: two relations\<close>

definition defined_roles :: "MemoryRolesPermissionsStore \<Rightarrow> string set" where
  "defined_roles s = fmdom' (rp_rolePermissions s)"

definition grants :: "MemoryRolesPermissionsStore \<Rightarrow> (string \<times> string) set" where
  "grants s = {(r, p). p |\<in>| at_set (rp_rolePermissions s) r}"

definition holds :: "MemoryRolesPermissionsStore \<Rightarrow> (string \<times> string \<times> string) set" where
  "holds s = {(u, t, r). r |\<in>| at_set (at_map (rp_userRoles s) u) t}"

lemmas rbac_abs = defined_roles_def grants_def holds_def

lemma AddRoleToUser_spec [store_simps]:
  "fst (AddRoleToUser u r t s) = (if r \<in> defined_roles s then Ok () else Err ErrRoleNotFound)"
  "defined_roles (snd (AddRoleToUser u r t s)) = defined_roles s"
  "grants (snd (AddRoleToUser u r t s)) = grants s"
  "holds (snd (AddRoleToUser u r t s)) = holds s \<union> (if r \<in> defined_roles s then {(u, t, r)} else {})"
  by (auto simp: AddRoleToUser_def rbac_abs fmlookup_dom'_iff Let_def split: option.splits if_splits)

lemma RemoveRoleFromUser_spec [store_simps]:
  "fst (RemoveRoleFromUser u r t s) = Ok ()"
  "defined_roles (snd (RemoveRoleFromUser u r t s)) = defined_roles s"
  "grants (snd (RemoveRoleFromUser u r t s)) = grants s"
  "holds (snd (RemoveRoleFromUser u r t s)) = holds s - {(u, t, r)}"
  by (auto simp: RemoveRoleFromUser_def rbac_abs split: option.splits if_splits)

lemma CreateRole_spec [store_simps]:
  "defined_roles (CreateRole r ps s) = insert r (defined_roles s)"
  "grants (CreateRole r ps s) = {(r', p) \<in> grants s. r' \<noteq> r} \<union> {r} \<times> set ps"
  "holds (CreateRole r ps s) = holds s"
  by (auto simp: CreateRole_def rbac_abs fset_of_list_elem split: if_splits)

lemma DeleteRole_spec [store_simps]:
  "defined_roles (DeleteRole r s) = defined_roles s - {r}"
  "grants (DeleteRole r s) = {(r', p) \<in> grants s. r' \<noteq> r}"
  "holds (DeleteRole r s) = {(u, t, r') \<in> holds s. r' \<noteq> r}"
  by (auto simp: DeleteRole_def rbac_abs split: option.splits if_splits)

lemma AddPermissionToRole_spec [store_simps]:
  "defined_roles (AddPermissionToRole r p s) = insert r (defined_roles s)"
  "grants (AddPermissionToRole r p s) = insert (r, p) (grants s)"
  "holds (AddPermissionToRole r p s) = holds s"
  by (auto simp: AddPermissionToRole_def rbac_abs split: option.splits if_splits)

lemma RemovePermissionFromRole_spec [store_simps]:
  "defined_roles (RemovePermissionFromRole r p s) = defined_roles s"
  "grants (RemovePermissionFromRole r p s) = grants s - {(r, p)}"
  "holds (RemovePermissionFromRole r p s) = holds s"
  by (auto simp: RemovePermissionFromRole_def rbac_abs fmlookup_dom'_iff split: option.splits if_splits)

lemma GetRolesForUser_spec:
  "set (GetRolesForUser u t s) = {r. (u, t, r) \<in> holds s}"
  "sorted (GetRolesForUser u t s)" "distinct (GetRolesForUser u t s)"
  by (auto simp: GetRolesForUser_def rbac_abs sorted_list_of_fset.rep_eq split: option.splits)

lemma GetPermissionsForRole_spec:
  "set (GetPermissionsForRole r s) = {p. (r, p) \<in> grants s}"
  by (auto simp: GetPermissionsForRole_def rbac_abs)

lemma fold_add_unseen:
  assumes "fset seen = set out" "distinct out"
  shows "fset (fst (fold add_unseen ps (seen, out))) = set out \<union> set ps
     \<and> set (snd (fold add_unseen ps (seen, out))) = set out \<union> set ps
     \<and> distinct (snd (fold add_unseen ps (seen, out)))"
  using assms
proof (induction ps arbitrary: seen out)
  case (Cons p ps)
  show ?case
  proof (cases "p |\<in>| seen")
    case True
    then have "p \<in> set out" using Cons.prems by auto
    then show ?thesis using Cons.IH[OF Cons.prems] True by auto
  next
    case False
    then have "p \<notin> set out" using Cons.prems by auto
    then show ?thesis using Cons.IH[of "finsert p seen" "out @ [p]"] Cons.prems False by auto
  qed
qed simp

lemma fold_roles_unseen:
  assumes "fset seen = set out" "distinct out"
  shows "set (snd (fold (\<lambda>r. fold add_unseen (f r)) rs (seen, out))) = set out \<union> (\<Union>r\<in>set rs. set (f r))
     \<and> distinct (snd (fold (\<lambda>r. fold add_unseen (f r)) rs (seen, out)))"
  using assms
proof (induction rs arbitrary: seen out)
  case (Cons r rs)
  obtain seen' out' where st: "fold add_unseen (f r) (seen, out) = (seen', out')" by fastforce
  then have "fset seen' = set out'" "distinct out'" "set out' = set out \<union> set (f r)"
    using fold_add_unseen[OF Cons.prems, of "f r"] by auto
  then show ?case using Cons.IH[of seen' out'] by (auto simp: st)
qed simp

lemma GetPermissionsForUser_spec:
  "set (GetPermissionsForUser u t s) = {p. \<exists>r. (u, t, r) \<in> holds s \<and> (r, p) \<in> grants s}"
  "sorted (GetPermissionsForUser u t s)" "distinct (GetPermissionsForUser u t s)"
  using fold_roles_unseen[of "{||}" "[]" "\<lambda>r. GetPermissionsForRole r s" "GetRolesForUser u t s"]
  by (auto simp: GetPermissionsForUser_def GetRolesForUser_spec GetPermissionsForRole_spec)

lemma UserHasPermission_iff:
  "UserHasPermission u p t s \<longleftrightarrow> (\<exists>r. (u, t, r) \<in> holds s \<and> (r, p) \<in> grants s)"
  using GetPermissionsForUser_spec(1)[of u t s] by (auto simp: UserHasPermission_def list_ex_iff)

lemma GetAllRoles_spec:
  "set (GetAllRoles s) = defined_roles s" "sorted (GetAllRoles s)" "distinct (GetAllRoles s)"
  by (simp_all add: GetAllRoles_def rbac_abs)

subsection \<open>No dangling assignment\<close>

definition rbac_ok :: "MemoryRolesPermissionsStore \<Rightarrow> bool" where
  "rbac_ok s \<longleftrightarrow> (\<forall>u t r. (u, t, r) \<in> holds s \<longrightarrow> r \<in> defined_roles s)"

inductive rbac_step :: "MemoryRolesPermissionsStore \<Rightarrow> MemoryRolesPermissionsStore \<Rightarrow> bool" where
  "rbac_step s (snd (AddRoleToUser u r t s))"
| "rbac_step s (snd (RemoveRoleFromUser u r t s))"
| "rbac_step s (CreateRole r ps s)"
| "rbac_step s (DeleteRole r s)"
| "rbac_step s (AddPermissionToRole r p s)"
| "rbac_step s (RemovePermissionFromRole r p s)"

inductive_cases rbac_stepE: "rbac_step s s'"

lemma rbac_ok_new: "rbac_ok NewMemoryRolesPermissionsStore"
  by (simp add: rbac_ok_def rbac_abs NewMemoryRolesPermissionsStore_def)

lemma rbac_step_ok: "rbac_step s s' \<Longrightarrow> rbac_ok s \<Longrightarrow> rbac_ok s'"
  by (induction rule: rbac_step.induct) (auto simp: rbac_ok_def store_simps split: if_splits)

inductive rbac_reachable :: "MemoryRolesPermissionsStore \<Rightarrow> bool" where
  start: "rbac_reachable NewMemoryRolesPermissionsStore"
| step: "rbac_reachable s \<Longrightarrow> rbac_step s s' \<Longrightarrow> rbac_reachable s'"

lemma rbac_reachable_ok: "rbac_reachable s \<Longrightarrow> rbac_ok s"
  by (induction rule: rbac_reachable.induct) (auto intro: rbac_ok_new rbac_step_ok)

end
