(* ===== verification/Tenant_Store.thy ===== *)
theory Tenant_Store
  imports Auth_Models
begin

text \<open>
  \<open>feature_stores.go: MemoryTenantStore\<close>: tenants by id and the membership relation, kept in
  both directions. The specification is one relation; the invariant says that the two maps are
  each other's inverse and that only existing tenants have members.
\<close>

record MemoryTenantStore =
  ts_byID :: "(string, Tenant) fmap"
  ts_userTenants :: "(string, string fset) fmap"
  ts_tenantUsers :: "(string, string fset) fmap"

definition NewMemoryTenantStore :: MemoryTenantStore where
  "NewMemoryTenantStore = \<lparr>ts_byID = fmempty, ts_userTenants = fmempty, ts_tenantUsers = fmempty\<rparr>"

text \<open>An index expression \<open>m[k]\<close> on a map of sets: a missing entry reads as the empty set.\<close>

definition members_at :: "(string, string fset) fmap \<Rightarrow> string \<Rightarrow> string fset" where
  "members_at m k = (case fmlookup m k of None \<Rightarrow> {||} | Some x \<Rightarrow> x)"

text \<open>\<open>if m[k] != nil { delete(m[k], e) }\<close>.\<close>

definition delete_member :: "string \<Rightarrow> string \<Rightarrow> (string, string fset) fmap \<Rightarrow> (string, string fset) fmap" where
  "delete_member k e m = (case fmlookup m k of None \<Rightarrow> m | Some x \<Rightarrow> fmupd k (x |-| {|e|}) m)"

lemma members_at_simps [simp]:
  "members_at fmempty j = {||}"
  "members_at (fmupd k x m) j = (if j = k then x else members_at m j)"
  "members_at (fmdrop k m) j = (if j = k then {||} else members_at m j)"
  "members_at (fmmap (\<lambda>x. x |-| {|e|}) m) j = members_at m j |-| {|e|}"
  "members_at (delete_member k e m) j = (if j = k then members_at m j |-| {|e|} else members_at m j)"
  by (auto simp: members_at_def delete_member_def split: option.splits)

definition CreateTenant :: "Tenant \<Rightarrow> MemoryTenantStore \<Rightarrow> Tenant result \<times> MemoryTenantStore" where
  "CreateTenant tenant s =
     (if fmlookup (ts_byID s) (t_ID tenant) \<noteq> None then (Err ErrAlreadyExists, s)
      else (Ok tenant, s\<lparr>ts_byID := fmupd (t_ID tenant) tenant (ts_byID s)\<rparr>))"

definition GetTenantByID :: "string \<Rightarrow> MemoryTenantStore \<Rightarrow> Tenant result" where
  "GetTenantByID tid s =
     (case fmlookup (ts_byID s) tid of None \<Rightarrow> Err ErrTenantNotFound | Some t \<Rightarrow> Ok t)"

definition GetAllTenants :: "MemoryTenantStore \<Rightarrow> Tenant list" where
  "GetAllTenants s = sort_key t_ID (range_values (ts_byID s))"

definition UpdateTenant :: "string \<Rightarrow> Tenant \<Rightarrow> MemoryTenantStore \<Rightarrow> unit result \<times> MemoryTenantStore" where
  "UpdateTenant tid update s =
     (case fmlookup (ts_byID s) tid of
        None \<Rightarrow> (Err ErrTenantNotFound, s)
      | Some current \<Rightarrow> (Ok (), s\<lparr>ts_byID := fmupd tid
          (current\<lparr>t_Name := t_Name update, t_IsActive := t_IsActive update,
                   t_Config := t_Config update\<rparr>) (ts_byID s)\<rparr>))"

definition DeleteTenant :: "string \<Rightarrow> MemoryTenantStore \<Rightarrow> MemoryTenantStore" where
  "DeleteTenant tid s = s\<lparr>
     ts_byID := fmdrop tid (ts_byID s),
     ts_tenantUsers := fmdrop tid (ts_tenantUsers s),
     ts_userTenants := fmmap (\<lambda>ts. ts |-| {|tid|}) (ts_userTenants s)\<rparr>"

definition AssociateUserWithTenant ::
    "string \<Rightarrow> string \<Rightarrow> MemoryTenantStore \<Rightarrow> unit result \<times> MemoryTenantStore" where
  "AssociateUserWithTenant userID tenantID s =
     (if fmlookup (ts_byID s) tenantID = None then (Err ErrTenantNotFound, s)
      else (Ok (), s\<lparr>
        ts_userTenants := fmupd userID (finsert tenantID (members_at (ts_userTenants s) userID))
          (ts_userTenants s),
        ts_tenantUsers := fmupd tenantID (finsert userID (members_at (ts_tenantUsers s) tenantID))
          (ts_tenantUsers s)\<rparr>))"

definition DisassociateUserFromTenant ::
    "string \<Rightarrow> string \<Rightarrow> MemoryTenantStore \<Rightarrow> MemoryTenantStore" where
  "DisassociateUserFromTenant userID tenantID s = s\<lparr>
     ts_userTenants := delete_member userID tenantID (ts_userTenants s),
     ts_tenantUsers := delete_member tenantID userID (ts_tenantUsers s)\<rparr>"

definition GetTenantsForUser :: "string \<Rightarrow> MemoryTenantStore \<Rightarrow> Tenant list" where
  "GetTenantsForUser userID s =
     sort_key t_ID (List.map_filter (\<lambda>tenantID. fmlookup (ts_byID s) tenantID)
       (sorted_list_of_fset (members_at (ts_userTenants s) userID)))"

definition GetUsersForTenant :: "string \<Rightarrow> MemoryTenantStore \<Rightarrow> string list" where
  "GetUsersForTenant tenantID s = sorted_list_of_fset (members_at (ts_tenantUsers s) tenantID)"

section \<open>Specification\<close>

definition tenant_ids :: "MemoryTenantStore \<Rightarrow> string set" where
  "tenant_ids s = fmdom' (ts_byID s)"

definition member :: "MemoryTenantStore \<Rightarrow> (string \<times> string) set" where
  "member s = {(u, t). t |\<in>| members_at (ts_userTenants s) u}"

definition tenant_store_ok :: "MemoryTenantStore \<Rightarrow> bool" where
  "tenant_store_ok s \<longleftrightarrow> keyed t_ID (ts_byID s)
     \<and> (\<forall>u t. u |\<in>| members_at (ts_tenantUsers s) t \<longleftrightarrow> (u, t) \<in> member s)
     \<and> (\<forall>u t. (u, t) \<in> member s \<longrightarrow> t \<in> tenant_ids s)"

lemmas tenant_abs = tenant_ids_def member_def

lemma CreateTenant_spec [store_simps]:
  "fst (CreateTenant x s) = (if t_ID x \<in> tenant_ids s then Err ErrAlreadyExists else Ok x)"
  "tenant_ids (snd (CreateTenant x s)) = insert (t_ID x) (tenant_ids s)"
  "member (snd (CreateTenant x s)) = member s"
  by (auto simp: CreateTenant_def tenant_abs fmlookup_dom'_iff)

lemma UpdateTenant_spec [store_simps]:
  "fst (UpdateTenant i x s) = (if i \<in> tenant_ids s then Ok () else Err ErrTenantNotFound)"
  "tenant_ids (snd (UpdateTenant i x s)) = tenant_ids s"
  "member (snd (UpdateTenant i x s)) = member s"
  by (auto simp: UpdateTenant_def tenant_abs fmlookup_dom'_iff split: option.splits)

lemma DeleteTenant_spec [store_simps]:
  "tenant_ids (DeleteTenant i s) = tenant_ids s - {i}"
  "member (DeleteTenant i s) = {(u, t) \<in> member s. t \<noteq> i}"
  by (auto simp: DeleteTenant_def tenant_abs split: option.splits)

lemma AssociateUserWithTenant_spec [store_simps]:
  "fst (AssociateUserWithTenant u t s) = (if t \<in> tenant_ids s then Ok () else Err ErrTenantNotFound)"
  "tenant_ids (snd (AssociateUserWithTenant u t s)) = tenant_ids s"
  "member (snd (AssociateUserWithTenant u t s)) =
     member s \<union> (if t \<in> tenant_ids s then {(u, t)} else {})"
  by (auto simp: AssociateUserWithTenant_def tenant_abs fmlookup_dom'_iff split: option.splits if_splits)

lemma DisassociateUserFromTenant_spec [store_simps]:
  "tenant_ids (DisassociateUserFromTenant u t s) = tenant_ids s"
  "member (DisassociateUserFromTenant u t s) = member s - {(u, t)}"
  by (auto simp: DisassociateUserFromTenant_def tenant_abs split: option.splits if_splits)

lemma GetUsersForTenant_spec:
  "tenant_store_ok s \<Longrightarrow> set (GetUsersForTenant t s) = {u. (u, t) \<in> member s}"
  by (auto simp: GetUsersForTenant_def tenant_store_ok_def)

lemma set_map_filter_some:
  "set (List.map_filter f xs) = {y. \<exists>x\<in>set xs. f x = Some y}"
  by (auto simp: List.map_filter_def image_iff) force

lemma GetTenantsForUser_spec:
  assumes "tenant_store_ok s"
  shows "t_ID ` set (GetTenantsForUser u s) = {t. (u, t) \<in> member s}"
proof -
  have key: "fmlookup (ts_byID s) t = Some x \<Longrightarrow> t_ID x = t" for t x
    using assms by (auto simp: tenant_store_ok_def dest: keyedD)
  have "set (GetTenantsForUser u s) =
      {x. \<exists>t. (u, t) \<in> member s \<and> fmlookup (ts_byID s) t = Some x}"
    by (auto simp: GetTenantsForUser_def set_map_filter_some member_def)
  moreover have "\<exists>x. fmlookup (ts_byID s) t = Some x \<and> t_ID x = t" if "(u, t) \<in> member s" for t
    using assms that key unfolding tenant_store_ok_def tenant_ids_def fmlookup_dom'_iff by blast
  ultimately show ?thesis using key by (auto simp: image_iff) blast+
qed

section \<open>Invariant\<close>

inductive tenant_step :: "MemoryTenantStore \<Rightarrow> MemoryTenantStore \<Rightarrow> bool" where
  "tenant_step s (snd (CreateTenant x s))"
| "tenant_step s (snd (UpdateTenant i x s))"
| "tenant_step s (DeleteTenant i s)"
| "tenant_step s (snd (AssociateUserWithTenant u t s))"
| "tenant_step s (DisassociateUserFromTenant u t s)"

lemma tenant_store_ok_new: "tenant_store_ok NewMemoryTenantStore"
  by (simp add: tenant_store_ok_def tenant_abs NewMemoryTenantStore_def)

lemma tenant_keyed_step:
  "tenant_step s s' \<Longrightarrow> keyed t_ID (ts_byID s) \<Longrightarrow> keyed t_ID (ts_byID s')"
  by (induction rule: tenant_step.induct)
     (auto simp: CreateTenant_def UpdateTenant_def DeleteTenant_def AssociateUserWithTenant_def
       DisassociateUserFromTenant_def intro: keyed_upd_same split: option.split)

lemma tenant_inverse_step:
  assumes "tenant_step s s'" "tenant_store_ok s"
  shows "u |\<in>| members_at (ts_tenantUsers s') t \<longleftrightarrow> (u, t) \<in> member s'"
proof -
  have inv: "u |\<in>| members_at (ts_tenantUsers s) t \<longleftrightarrow> t |\<in>| members_at (ts_userTenants s) u" for u t
    using assms(2) by (simp add: tenant_store_ok_def member_def)
  show ?thesis using assms(1)
    by (cases rule: tenant_step.cases)
       (auto simp: member_def inv CreateTenant_def UpdateTenant_def DeleteTenant_def
         AssociateUserWithTenant_def DisassociateUserFromTenant_def split: option.split)
qed

lemma tenant_defined_step:
  "tenant_step s s' \<Longrightarrow> tenant_store_ok s \<Longrightarrow> (u, t) \<in> member s' \<Longrightarrow> t \<in> tenant_ids s'"
  by (induction rule: tenant_step.induct)
     (auto simp: tenant_store_ok_def store_simps split: if_splits)

lemma tenant_step_ok: "tenant_step s s' \<Longrightarrow> tenant_store_ok s \<Longrightarrow> tenant_store_ok s'"
  using tenant_keyed_step[of s s'] tenant_inverse_step[of s s'] tenant_defined_step[of s s']
  by (simp add: tenant_store_ok_def)

inductive tenant_reachable :: "MemoryTenantStore \<Rightarrow> bool" where
  start: "tenant_reachable NewMemoryTenantStore"
| step: "tenant_reachable s \<Longrightarrow> tenant_step s s' \<Longrightarrow> tenant_reachable s'"

lemma tenant_reachable_ok: "tenant_reachable s \<Longrightarrow> tenant_store_ok s"
  by (induction rule: tenant_reachable.induct) (auto intro: tenant_store_ok_new tenant_step_ok)

end
