(* ===== verification/Events.thy ===== *)
theory Events
  imports Auth_Models
begin

text \<open>
  \<open>events.go\<close>, \<open>event_context.go\<close> and \<open>event_names.go\<close>: the event record, its request
  context, the catalogue of names and the in-process bus. A handler is a label; what
  \<open>Publish\<close> returns is the sequence of calls it makes, which a panicking handler does not
  change (\<open>safeCall\<close> recovers). The subscription counter is a natural number (Go's wraps after
  2^64 subscriptions).
\<close>

section \<open>Events\<close>

record Event =
  ev_Name :: string
  ev_UserID :: string
  ev_TenantID :: string
  ev_Timestamp :: time
  ev_Data :: "json_object option"
  ev_SessionID :: string
  ev_CorrelationID :: string
  ev_IP :: string
  ev_UserAgent :: string

record EventContext =
  ec_CorrelationID :: string
  ec_IP :: string
  ec_UserAgent :: string

definition zero_event :: Event where
  "zero_event = \<lparr>ev_Name = [], ev_UserID = [], ev_TenantID = [], ev_Timestamp = zero_time,
     ev_Data = None, ev_SessionID = [], ev_CorrelationID = [], ev_IP = [], ev_UserAgent = []\<rparr>"

text \<open>The context argument is what \<open>EventContextFromContext\<close> finds on the call's context.\<close>

definition WithRequestContext :: "EventContext option \<Rightarrow> Event \<Rightarrow> Event" where
  "WithRequestContext ctx e = (case ctx of
     None \<Rightarrow> e
   | Some ec \<Rightarrow> e\<lparr>
       ev_CorrelationID := (if ev_CorrelationID e = [] then ec_CorrelationID ec else ev_CorrelationID e),
       ev_IP := (if ev_IP e = [] then ec_IP ec else ev_IP e),
       ev_UserAgent := (if ev_UserAgent e = [] then ec_UserAgent ec else ev_UserAgent e)\<rparr>)"

definition put_nonempty :: "string \<Rightarrow> string \<Rightarrow> json_object \<Rightarrow> json_object" where
  "put_nonempty k v m = (if v \<noteq> [] then fmupd k (JStr v) m else m)"

text \<open>The envelope's metadata: \<open>None\<close> is the nil map.\<close>

definition WebhookMetadata :: "Event \<Rightarrow> json_object option" where
  "WebhookMetadata e =
     (let meta = put_nonempty ''correlationId'' (ev_CorrelationID e)
          (put_nonempty ''sessionId'' (ev_SessionID e)
          (put_nonempty ''tenantId'' (ev_TenantID e)
          (put_nonempty ''userId'' (ev_UserID e) fmempty)))
      in if fmdom' meta = {} then None else Some meta)"

lemma WebhookMetadata_None:
  "WebhookMetadata e = None \<longleftrightarrow>
     ev_UserID e = [] \<and> ev_TenantID e = [] \<and> ev_SessionID e = [] \<and> ev_CorrelationID e = []"
  by (auto simp: WebhookMetadata_def put_nonempty_def Let_def)

section \<open>Names\<close>

definition EventUserCreated :: string where "EventUserCreated = ''identity.user.created''"
definition EventUserDeleted :: string where "EventUserDeleted = ''identity.user.deleted''"
definition EventUserEmailChanged :: string where
  "EventUserEmailChanged = ''identity.user.email.changed''"
definition EventUserEmailVerified :: string where
  "EventUserEmailVerified = ''identity.user.email.verified''"
definition EventUserPasswordChanged :: string where
  "EventUserPasswordChanged = ''identity.user.password.changed''"
definition EventUser2FAEnabled :: string where
  "EventUser2FAEnabled = ''identity.user.2fa.enabled''"
definition EventUser2FADisabled :: string where
  "EventUser2FADisabled = ''identity.user.2fa.disabled''"
definition EventSessionRotated :: string where
  "EventSessionRotated = ''identity.session.rotated''"
definition EventAuthLoginSuccess :: string where
  "EventAuthLoginSuccess = ''identity.auth.login.success''"
definition EventAuthLoginFailed :: string where
  "EventAuthLoginFailed = ''identity.auth.login.failed''"
definition EventAuthLogout :: string where "EventAuthLogout = ''identity.auth.logout''"

lemmas event_name_defs =
  EventUserCreated_def EventUserDeleted_def EventUserEmailChanged_def EventUserEmailVerified_def
  EventUserPasswordChanged_def EventUser2FAEnabled_def EventUser2FADisabled_def
  EventSessionRotated_def EventAuthLoginSuccess_def EventAuthLoginFailed_def EventAuthLogout_def

definition eventNames :: "string list" where
  "eventNames = [
     EventUserCreated, EventUserDeleted, EventUserEmailChanged, EventUserEmailVerified,
     EventUserPasswordChanged, EventUser2FAEnabled, EventUser2FADisabled,
     ''identity.user.linked'', ''identity.user.unlinked'',
     ''identity.session.created'', ''identity.session.revoked'', ''identity.session.expired'',
     EventSessionRotated,
     EventAuthLoginSuccess, EventAuthLoginFailed, EventAuthLogout,
     ''identity.auth.oauth.success'', ''identity.auth.oauth.conflict'',
     ''identity.tenant.created'', ''identity.tenant.deleted'',
     ''identity.tenant.user.added'', ''identity.tenant.user.removed'',
     ''identity.role.assigned'', ''identity.role.revoked'',
     ''identity.permission.granted'', ''identity.permission.revoked'']"

definition IsEventName :: "string \<Rightarrow> bool" where
  "IsEventName name \<longleftrightarrow> list_ex (\<lambda>known. known = name) eventNames"

lemma eventNames_distinct: "distinct eventNames"
  by (simp add: eventNames_def event_name_defs)

section \<open>The bus\<close>

type_synonym 'h subscription = "nat \<times> 'h"

record 'h EventBus =
  eb_nextID :: nat
  eb_subscribers :: "(string, 'h subscription list) fmap"

definition NewEventBus :: "'h EventBus" where
  "NewEventBus = \<lparr>eb_nextID = 0, eb_subscribers = fmempty\<rparr>"

definition subs_of :: "'h EventBus \<Rightarrow> string \<Rightarrow> 'h subscription list" where
  "subs_of b e = (case fmlookup (eb_subscribers b) e of None \<Rightarrow> [] | Some xs \<Rightarrow> xs)"

text \<open>The returned id stands for the cancel function, which is \<open>unsubscribe event id\<close>.\<close>

definition Subscribe :: "string \<Rightarrow> 'h \<Rightarrow> 'h EventBus \<Rightarrow> nat \<times> 'h EventBus" where
  "Subscribe event handler b =
     (let sid = Suc (eb_nextID b)
      in (sid, b\<lparr>eb_nextID := sid,
                 eb_subscribers := fmupd event (subs_of b event @ [(sid, handler)]) (eb_subscribers b)\<rparr>))"

text \<open>The scan: the first subscription with the id is taken out.\<close>

fun remove_sub :: "nat \<Rightarrow> 'h subscription list \<Rightarrow> 'h subscription list" where
  "remove_sub i [] = []"
| "remove_sub i (s # ss) = (if fst s = i then ss else s # remove_sub i ss)"

definition unsubscribe :: "string \<Rightarrow> nat \<Rightarrow> 'h EventBus \<Rightarrow> 'h EventBus" where
  "unsubscribe event sid b =
     (let subs = subs_of b event in
      if sid \<notin> fst ` set subs then b
      else if length subs = 1 then b\<lparr>eb_subscribers := fmdrop event (eb_subscribers b)\<rparr>
      else b\<lparr>eb_subscribers := fmupd event (remove_sub sid subs) (eb_subscribers b)\<rparr>)"

definition EventBusWildcard :: string where "EventBusWildcard = ''*''"

text \<open>The calls of a publish at \<open>now\<close>, in order: those for the name, then the wildcard's.\<close>

definition Publish :: "time \<Rightarrow> Event \<Rightarrow> 'h EventBus \<Rightarrow> ('h \<times> Event) list" where
  "Publish now ev b =
     (let ev = (if ev_Timestamp ev = zero_time then ev\<lparr>ev_Timestamp := now\<rparr> else ev)
      in map (\<lambda>s. (snd s, ev)) (subs_of b (ev_Name ev) @ subs_of b EventBusWildcard))"

definition PublishContext :: "EventContext option \<Rightarrow> time \<Rightarrow> Event \<Rightarrow> 'h EventBus \<Rightarrow> ('h \<times> Event) list" where
  "PublishContext ctx now ev b = Publish now (WithRequestContext ctx ev) b"

subsection \<open>Laws\<close>

definition bus_ok :: "'h EventBus \<Rightarrow> bool" where
  "bus_ok b \<longleftrightarrow> (\<forall>e. distinct (map fst (subs_of b e)) \<and> (\<forall>s\<in>set (subs_of b e). fst s \<le> eb_nextID b))"

lemma bus_ok_new: "bus_ok NewEventBus"
  by (simp add: bus_ok_def NewEventBus_def subs_of_def)

lemma remove_sub_filter:
  "distinct (map fst xs) \<Longrightarrow> remove_sub i xs = filter (\<lambda>s. fst s \<noteq> i) xs"
proof (induction xs)
  case (Cons s xs)
  have "fst s = i \<Longrightarrow> filter (\<lambda>s. fst s \<noteq> i) xs = xs"
    using Cons.prems by (intro filter_True) (force simp: image_iff)
  with Cons show ?case by simp
qed simp

lemma subs_of_subscribe:
  "subs_of (snd (Subscribe e h b)) f =
     (if f = e then subs_of b e @ [(Suc (eb_nextID b), h)] else subs_of b f)"
  by (simp add: Subscribe_def subs_of_def Let_def)

lemma subs_of_unsubscribe:
  assumes "bus_ok b"
  shows "subs_of (unsubscribe e i b) f =
     (if f = e then filter (\<lambda>s. fst s \<noteq> i) (subs_of b e) else subs_of b f)"
proof -
  have d: "distinct (map fst (subs_of b e))" using assms by (simp add: bus_ok_def)
  consider "i \<notin> fst ` set (subs_of b e)" | "i \<in> fst ` set (subs_of b e)" "length (subs_of b e) = 1"
    | "i \<in> fst ` set (subs_of b e)" "length (subs_of b e) \<noteq> 1" by blast
  then show ?thesis
  proof cases
    case 1
    then have "filter (\<lambda>s. fst s \<noteq> i) (subs_of b e) = subs_of b e"
      by (intro filter_True) force
    then show ?thesis using 1 by (simp add: unsubscribe_def Let_def)
  next
    case 2
    then obtain s where s: "subs_of b e = [s]" "fst s = i" by (cases "subs_of b e") auto
    have "unsubscribe e i b = b\<lparr>eb_subscribers := fmdrop e (eb_subscribers b)\<rparr>"
      using 2 by (simp add: unsubscribe_def Let_def)
    then show ?thesis using s by (simp add: subs_of_def)
  next
    case 3
    then have "unsubscribe e i b = b\<lparr>eb_subscribers := fmupd e (remove_sub i (subs_of b e)) (eb_subscribers b)\<rparr>"
      by (simp add: unsubscribe_def Let_def)
    then show ?thesis using remove_sub_filter[OF d] by (simp add: subs_of_def)
  qed
qed

lemma Subscribe_ok: "bus_ok b \<Longrightarrow> bus_ok (snd (Subscribe e h b))"
  by (auto simp: bus_ok_def subs_of_subscribe) (auto simp: Subscribe_def Let_def, (fastforce)+)

lemma unsubscribe_nextID [simp]: "eb_nextID (unsubscribe e i b) = eb_nextID b"
  by (simp add: unsubscribe_def Let_def)

lemma unsubscribe_ok: "bus_ok b \<Longrightarrow> bus_ok (unsubscribe e i b)"
  unfolding bus_ok_def[of "unsubscribe e i b"]
  by (simp add: subs_of_unsubscribe, simp add: bus_ok_def distinct_map_filter) fastforce

text \<open>A handler is called for an event exactly when a subscription of it to the name or the
  wildcard is live; cancelling one subscription leaves every other where it was.\<close>

lemma Publish_calls:
  "map fst (Publish now ev b) = map snd (subs_of b (ev_Name ev) @ subs_of b EventBusWildcard)"
  by (simp add: Publish_def Let_def comp_def)

lemma cancel_restores:
  assumes "bus_ok b" "Subscribe e h b = (i, b')"
  shows "Publish now ev (unsubscribe e i b') = Publish now ev b"
proof -
  have b': "b' = snd (Subscribe e h b)" "i = Suc (eb_nextID b)"
    using assms(2) by (auto simp: Subscribe_def Let_def)
  have old: "\<forall>s\<in>set (subs_of b e). fst s \<noteq> i" using assms(1) b'(2) by (fastforce simp: bus_ok_def)
  have "subs_of (unsubscribe e i b') f = subs_of b f" for f
    using old b'(2)
    by (simp add: subs_of_unsubscribe[OF Subscribe_ok[OF assms(1)]] b'(1) subs_of_subscribe filter_id_conv)
  then show ?thesis by (simp add: Publish_def)
qed

lemma unsubscribe_idem:
  assumes "bus_ok b"
  shows "unsubscribe e i (unsubscribe e i b) = unsubscribe e i b"
proof -
  have "i \<notin> fst ` set (subs_of (unsubscribe e i b) e)"
    by (auto simp: subs_of_unsubscribe[OF assms])
  then show ?thesis by (simp add: unsubscribe_def[of e i "unsubscribe e i b"] Let_def)
qed

end
