(* ===== verification/Codec.thy ===== *)
theory Codec
  imports Go_Strings
begin

text \<open>
  The byte encodings the code uses from the standard library: \<open>encoding/hex\<close>,
  \<open>base64.RawURLEncoding\<close> and unpadded \<open>base32.StdEncoding\<close>, each with its decoder and the
  round trip. The decoders accept what Go's accept: CR and LF are skipped, the unused bits of a
  last partial group are ignored.
\<close>

abbreviation byte :: "char \<Rightarrow> nat" where "byte c \<equiv> of_char c"
abbreviation chr :: "nat \<Rightarrow> char" where "chr n \<equiv> char_of n"

lemma byte_less [simp]: "byte c < 256"
  using of_char_mod_256[of c] by (metis mod_less_divisor zero_less_numeral)

lemma chr_byte [simp]: "chr (byte c) = c"
  by (rule char_of_char)

lemma byte_chr [simp]: "n < 256 \<Longrightarrow> byte (chr n) = n"
  by simp

section \<open>Alphabets\<close>

text \<open>A decoding step looks a character up in the alphabet.\<close>

fun index_of :: "char \<Rightarrow> string \<Rightarrow> nat option" where
  "index_of c [] = None"
| "index_of c (x # xs) = (if x = c then Some 0 else map_option Suc (index_of c xs))"

lemma index_of_nth: "distinct a \<Longrightarrow> i < length a \<Longrightarrow> index_of (a ! i) a = Some i"
  by (induction a arbitrary: i) (auto simp: less_Suc_eq_0_disj)

lemma index_of_less: "index_of c a = Some i \<Longrightarrow> i < length a \<and> a ! i = c"
  by (induction a arbitrary: i) (auto split: if_splits)

section \<open>Hexadecimal\<close>

definition hex_alphabet :: string where
  "hex_alphabet = ''0123456789abcdef''"

definition hex_encode :: "string \<Rightarrow> string" where
  "hex_encode bs = concat (map (\<lambda>b. [hex_alphabet ! (byte b div 16), hex_alphabet ! (byte b mod 16)]) bs)"

lemma length_hex_encode [simp]: "length (hex_encode bs) = 2 * length bs"
  by (induction bs) (simp_all add: hex_encode_def)

lemma hex_alphabet_props: "distinct hex_alphabet" "length hex_alphabet = 16"
  by (simp_all add: hex_alphabet_def)

lemma hex_nth_inj: "i < 16 \<Longrightarrow> j < 16 \<Longrightarrow> hex_alphabet ! i = hex_alphabet ! j \<Longrightarrow> i = j"
  using hex_alphabet_props by (simp add: nth_eq_iff_index_eq)

lemma hex_encode_inj: "hex_encode a = hex_encode b \<Longrightarrow> a = b"
proof (induction a arbitrary: b)
  case Nil
  then show ?case by (cases b) (simp_all add: hex_encode_def)
next
  case (Cons x xs)
  then obtain y ys where b: "b = y # ys" by (cases b) (simp_all add: hex_encode_def)
  have "byte x div 16 = byte y div 16" "byte x mod 16 = byte y mod 16" "hex_encode xs = hex_encode ys"
    using Cons.prems hex_nth_inj
    by (auto simp: b hex_encode_def less_mult_imp_div_less)
  then have "byte x = byte y" by (metis div_mult_mod_eq)
  then show ?case using Cons.IH \<open>hex_encode xs = hex_encode ys\<close> b by simp
qed

lemma hex_encode_chars: "c \<in> set (hex_encode bs) \<Longrightarrow> c \<in> set hex_alphabet"
  by (auto simp: hex_encode_def hex_alphabet_props less_mult_imp_div_less intro!: nth_mem)

section \<open>Base 64, URL alphabet, no padding\<close>

definition b64_alphabet :: string where
  "b64_alphabet = ''ABCDEFGHIJKLMNOPQRSTUVWXYZabcdefghijklmnopqrstuvwxyz0123456789-_''"

lemma b64_alphabet_props: "distinct b64_alphabet" "length b64_alphabet = 64"
  by (simp_all add: b64_alphabet_def)

text \<open>Bytes to sextets and back.\<close>

fun to_sextets :: "nat list \<Rightarrow> nat list" where
  "to_sextets [] = []"
| "to_sextets [a] = [a div 4, a mod 4 * 16]"
| "to_sextets [a, b] = [a div 4, a mod 4 * 16 + b div 16, b mod 16 * 4]"
| "to_sextets (a # b # c # r) =
     a div 4 # (a mod 4 * 16 + b div 16) # (b mod 16 * 4 + c div 64) # c mod 64 # to_sextets r"

fun of_sextets :: "nat list \<Rightarrow> nat list option" where
  "of_sextets [] = Some []"
| "of_sextets [x] = None"
| "of_sextets [x, y] = Some [x * 4 + y div 16]"
| "of_sextets [x, y, z] = Some [x * 4 + y div 16, y mod 16 * 16 + z div 4]"
| "of_sextets (x # y # z # w # r) =
     map_option (\<lambda>bs. (x * 4 + y div 16) # (y mod 16 * 16 + z div 4) # (z mod 4 * 64 + w) # bs)
       (of_sextets r)"

lemma pack_unpack:
  fixes x y k :: nat
  assumes "y < k"
  shows "(x * k + y) div k = x" "(x * k + y) mod k = y"
  using assms by simp_all

lemma byte_pieces:
  fixes b :: nat
  shows "b div 8 * 8 + b mod 8 = b" "b div 64 * 64 + b div 2 mod 32 * 2 + b mod 2 = b"
    "b div 16 * 16 + b mod 16 = b" "b div 128 * 128 + b div 4 mod 32 * 4 + b mod 4 = b"
    "b div 32 * 32 + b mod 32 = b" "b div 4 * 4 + b mod 4 = b" "b div 64 * 64 + b mod 64 = b"
proof -
  have "c div 32 * 64 + c mod 32 * 2 = c * 2" "c div 32 * 128 + c mod 32 * 4 = c * 4" for c :: nat
    using div_mult_mod_eq[of c 32] by linarith+
  then show "b div 64 * 64 + b div 2 mod 32 * 2 + b mod 2 = b"
    "b div 128 * 128 + b div 4 mod 32 * 4 + b mod 4 = b"
    using div_mult2_eq[of b 2 32] div_mult2_eq[of b 4 32] by simp_all
qed simp_all

lemma of_to_sextets: "\<forall>b\<in>set bs. b < 256 \<Longrightarrow> of_sextets (to_sextets bs) = Some bs"
proof (induction bs rule: to_sextets.induct)
  case (4 a b c r)
  have "b div 16 < 16" "c div 64 < 4" using 4(2) by (auto simp: less_mult_imp_div_less)
  then show ?case using 4 by (simp add: pack_unpack byte_pieces)
next
  case (3 a b)
  have "b div 16 < 16" using 3 by (auto simp: less_mult_imp_div_less)
  then show ?case by (simp add: pack_unpack byte_pieces)
qed (simp_all add: byte_pieces)

lemma to_sextets_less: "\<forall>b\<in>set bs. b < 256 \<Longrightarrow> x \<in> set (to_sextets bs) \<Longrightarrow> x < 64"
  by (induction bs rule: to_sextets.induct) auto

definition base64url_encode :: "string \<Rightarrow> string" where
  "base64url_encode bs = map (\<lambda>i. b64_alphabet ! i) (to_sextets (map byte bs))"

text \<open>\<open>DecodeString\<close>: skip CR and LF, fail on a byte outside the alphabet.\<close>

definition decode_chars :: "string \<Rightarrow> string \<Rightarrow> nat list option" where
  "decode_chars alphabet s =
     those (map (\<lambda>c. index_of c alphabet) (filter (\<lambda>c. c \<noteq> CHR 0x0A \<and> c \<noteq> CHR 0x0D) s))"

definition base64url_decode :: "string \<Rightarrow> string option" where
  "base64url_decode s = (case decode_chars b64_alphabet s of
     None \<Rightarrow> None | Some xs \<Rightarrow> map_option (map chr) (of_sextets xs))"

lemma those_map_Some: "\<forall>x\<in>set xs. f x = Some (g x) \<Longrightarrow> those (map f xs) = Some (map g xs)"
  by (induction xs) simp_all

lemma decode_chars_nth:
  assumes "distinct a" "CHR 0x0A \<notin> set a" "CHR 0x0D \<notin> set a" "\<forall>x\<in>set xs. x < length a"
  shows "decode_chars a (map (\<lambda>i. a ! i) xs) = Some xs"
proof -
  have "filter (\<lambda>c. c \<noteq> CHR 0x0A \<and> c \<noteq> CHR 0x0D) (map (\<lambda>i. a ! i) xs) = map (\<lambda>i. a ! i) xs"
    using assms by (intro filter_True) (metis (no_types, lifting) in_set_conv_nth length_map nth_map nth_mem)
  then show ?thesis using assms those_map_Some[of xs "\<lambda>i. index_of (a ! i) a" "\<lambda>i. i"]
    by (simp add: decode_chars_def comp_def index_of_nth)
qed

lemma base64url_round_trip: "base64url_decode (base64url_encode bs) = Some bs"
proof -
  have small: "\<forall>b\<in>set (map byte bs). b < 256" by auto
  have "decode_chars b64_alphabet (base64url_encode bs) = Some (to_sextets (map byte bs))"
    unfolding base64url_encode_def
    by (rule decode_chars_nth)
       (use to_sextets_less[OF small] in \<open>simp_all add: b64_alphabet_props, simp_all add: b64_alphabet_def\<close>)
  then show ?thesis by (simp add: base64url_decode_def of_to_sextets[OF small] comp_def)
qed

lemma base64url_encode_inj: "base64url_encode a = base64url_encode b \<Longrightarrow> a = b"
  by (metis base64url_round_trip option.inject)

lemma base64url_encode_chars: "c \<in> set (base64url_encode bs) \<Longrightarrow> c \<in> set b64_alphabet"
  using to_sextets_less[of "map byte bs"]
  by (auto simp: base64url_encode_def b64_alphabet_props intro!: nth_mem)

lemma base64url_no_dot: "CHR ''.'' \<notin> set (base64url_encode bs)"
  using base64url_encode_chars[of "CHR ''.''" bs] by (auto simp: b64_alphabet_def)

lemma length_to_sextets: "length (to_sextets bs) = (4 * length bs + 2) div 3"
  by (induction bs rule: to_sextets.induct) simp_all

lemma length_base64url_encode: "length (base64url_encode bs) = (4 * length bs + 2) div 3"
  by (simp add: base64url_encode_def length_to_sextets)

section \<open>Base 32, standard alphabet, no padding\<close>

definition b32_alphabet :: string where
  "b32_alphabet = ''ABCDEFGHIJKLMNOPQRSTUVWXYZ234567''"

lemma b32_alphabet_props: "distinct b32_alphabet" "length b32_alphabet = 32"
  by (simp_all add: b32_alphabet_def)

fun to_quintets :: "nat list \<Rightarrow> nat list" where
  "to_quintets [] = []"
| "to_quintets [a] = [a div 8, a mod 8 * 4]"
| "to_quintets [a, b] = [a div 8, a mod 8 * 4 + b div 64, b div 2 mod 32, b mod 2 * 16]"
| "to_quintets [a, b, c] = [a div 8, a mod 8 * 4 + b div 64, b div 2 mod 32,
     b mod 2 * 16 + c div 16, c mod 16 * 2]"
| "to_quintets [a, b, c, d] = [a div 8, a mod 8 * 4 + b div 64, b div 2 mod 32,
     b mod 2 * 16 + c div 16, c mod 16 * 2 + d div 128, d div 4 mod 32, d mod 4 * 8]"
| "to_quintets (a # b # c # d # e # r) = a div 8 # (a mod 8 * 4 + b div 64) # b div 2 mod 32 #
     (b mod 2 * 16 + c div 16) # (c mod 16 * 2 + d div 128) # d div 4 mod 32 #
     (d mod 4 * 8 + e div 32) # e mod 32 # to_quintets r"

text \<open>
  A last group of 2, 4, 5 or 7 characters holds 1, 2, 3 or 4 bytes; Go's unpadded decoder
  accepts a last group of 1, 3 or 6 characters and takes no byte from it. (The byte 0xFF, which
  Go compares with \<open>byte(NoPadding)\<close> near the end of its input, is outside the alphabet here.)
\<close>

fun of_quintets :: "nat list \<Rightarrow> nat list" where
  "of_quintets [p, q] = [p * 8 + q div 4]"
| "of_quintets [p, q, r, s] = [p * 8 + q div 4, q mod 4 * 64 + r * 2 + s div 16]"
| "of_quintets [p, q, r, s, t] =
     [p * 8 + q div 4, q mod 4 * 64 + r * 2 + s div 16, s mod 16 * 16 + t div 2]"
| "of_quintets [p, q, r, s, t, u, v] =
     [p * 8 + q div 4, q mod 4 * 64 + r * 2 + s div 16, s mod 16 * 16 + t div 2,
      t mod 2 * 128 + u * 4 + v div 8]"
| "of_quintets (p # q # r # s # t # u # v # w # xs) =
     (p * 8 + q div 4) # (q mod 4 * 64 + r * 2 + s div 16) # (s mod 16 * 16 + t div 2) #
     (t mod 2 * 128 + u * 4 + v div 8) # (v mod 8 * 32 + w) # of_quintets xs"
| "of_quintets _ = []"

lemma of_to_quintets: "\<forall>b\<in>set bs. b < 256 \<Longrightarrow> of_quintets (to_quintets bs) = bs"
proof (induction bs rule: to_quintets.induct)
  case (6 a b c d e r)
  have "b div 64 < 4" "c div 16 < 16" "d div 128 < 2" "e div 32 < 8"
    using 6(2) by (auto simp: less_mult_imp_div_less)
  then show ?case using 6 by (simp add: pack_unpack byte_pieces)
next
  case (3 a b)
  have "b div 64 < 4" using 3 by (auto simp: less_mult_imp_div_less)
  then show ?case by (simp add: pack_unpack byte_pieces)
next
  case (4 a b c)
  have "b div 64 < 4" "c div 16 < 16" using 4 by (auto simp: less_mult_imp_div_less)
  then show ?case by (simp add: pack_unpack byte_pieces)
next
  case (5 a b c d)
  have "b div 64 < 4" "c div 16 < 16" "d div 128 < 2" using 5 by (auto simp: less_mult_imp_div_less)
  then show ?case by (simp add: pack_unpack byte_pieces)
qed (simp_all add: byte_pieces)

lemma to_quintets_less: "\<forall>b\<in>set bs. b < 256 \<Longrightarrow> x \<in> set (to_quintets bs) \<Longrightarrow> x < 32"
  by (induction bs rule: to_quintets.induct) auto

definition base32_encode :: "string \<Rightarrow> string" where
  "base32_encode bs = map (\<lambda>i. b32_alphabet ! i) (to_quintets (map byte bs))"

definition base32_decode :: "string \<Rightarrow> string option" where
  "base32_decode s = map_option (\<lambda>xs. map chr (of_quintets xs)) (decode_chars b32_alphabet s)"

lemma base32_round_trip: "base32_decode (base32_encode bs) = Some bs"
proof -
  have small: "\<forall>b\<in>set (map byte bs). b < 256" by auto
  have "decode_chars b32_alphabet (base32_encode bs) = Some (to_quintets (map byte bs))"
    unfolding base32_encode_def
    by (rule decode_chars_nth)
       (use to_quintets_less[OF small] in \<open>simp_all add: b32_alphabet_props, simp_all add: b32_alphabet_def\<close>)
  then show ?thesis by (simp add: base32_decode_def of_to_quintets[OF small] comp_def)
qed

end
