(* ===== verification/Security.thy ===== *)
theory Security
  imports Codec Auth_Errors
begin

text \<open>
  \<open>security.go\<close>. The cryptographic primitives are parameters, collected in a record: the
  system's random source (read by read), bcrypt (\<open>golang.org/x/crypto\<close>), SHA-256 and the two
  HMACs as functions on byte strings. A definition that reads randomness takes the number of
  reads made so far and returns it advanced, so two calls never share a read. What a theorem
  needs of a primitive is a named predicate: \<open>rand_length\<close>, \<open>bcrypt_correct\<close>, \<open>sha256_size\<close>.
\<close>

record crypto =
  c_rand :: "nat \<Rightarrow> nat \<Rightarrow> string result"
  c_digit :: "nat \<Rightarrow> nat result"
  c_bcrypt_generate :: "nat \<Rightarrow> string \<Rightarrow> int \<Rightarrow> string result"
  c_bcrypt_compare :: "string \<Rightarrow> string \<Rightarrow> bool"
  c_sha256 :: "string \<Rightarrow> string"
  c_hmac_sha256 :: "string \<Rightarrow> string \<Rightarrow> string"
  c_hmac_sha1 :: "string \<Rightarrow> string \<Rightarrow> string"

text \<open>
  \<open>c_rand k n\<close> is what the \<open>k\<close>-th read of \<open>n\<close> bytes answers, \<open>c_digit k\<close> the \<open>k\<close>-th
  \<open>rand.Int(rand.Reader, 10)\<close>, \<open>c_bcrypt_generate k pw cost\<close> the hash with the salt drawn at \<open>k\<close>,
  \<open>c_bcrypt_compare hash pw\<close> whether \<open>CompareHashAndPassword\<close> returns nil, and \<open>c_hmac_* key msg\<close>
  the MAC.
\<close>

type_synonym 'a draws = "nat \<Rightarrow> 'a result \<times> nat"

definition newID :: "crypto \<Rightarrow> string \<Rightarrow> string draws" where
  "newID c idPrefix k = (case c_rand c k 16 of
     Inl e \<Rightarrow> (Inl (Wrapped ''auth: random id'' e), Suc k)
   | Inr b \<Rightarrow> (Ok (idPrefix @ ''_'' @ hex_encode b), Suc k))"

definition bcrypt_DefaultCost :: int where "bcrypt_DefaultCost = 10"

definition hashPassword :: "crypto \<Rightarrow> string \<Rightarrow> int \<Rightarrow> string draws" where
  "hashPassword c password cost k =
     (let cost = (if cost = 0 then bcrypt_DefaultCost else cost) in
      case c_bcrypt_generate c k password cost of
        Inl e \<Rightarrow> (Inl (Wrapped ''auth: hash password'' e), Suc k)
      | Inr h \<Rightarrow> (Ok h, Suc k))"

definition verifyPassword :: "crypto \<Rightarrow> string \<Rightarrow> string \<Rightarrow> bool" where
  "verifyPassword c password h = c_bcrypt_compare c h password"

definition hashToken :: "crypto \<Rightarrow> string \<Rightarrow> string" where
  "hashToken c token = hex_encode (c_sha256 c token)"

definition randomToken :: "crypto \<Rightarrow> nat \<Rightarrow> string draws" where
  "randomToken c byteLen k = (case c_rand c k byteLen of
     Inl e \<Rightarrow> (Inl (Wrapped ''auth: random token'' e), Suc k)
   | Inr b \<Rightarrow> (Ok (base64url_encode b), Suc k))"

text \<open>The loop of \<open>randomNumericCode\<close>: one digit per read.\<close>

fun random_digits :: "crypto \<Rightarrow> nat \<Rightarrow> string draws" where
  "random_digits c 0 k = (Ok [], k)"
| "random_digits c (Suc n) k = (case c_digit c k of
     Inl e \<Rightarrow> (Inl (Wrapped ''auth: random code'' e), Suc k)
   | Inr d \<Rightarrow> (case random_digits c n (Suc k) of
       (Inl e, k') \<Rightarrow> (Inl e, k')
     | (Inr ds, k') \<Rightarrow> (Ok ((''0123456789'' ! d) # ds), k')))"

definition randomNumericCode :: "crypto \<Rightarrow> int \<Rightarrow> string draws" where
  "randomNumericCode c len k =
     (if len \<le> 0 then (Inl (Message ''invalid code length''), k)
      else random_digits c (nat len) k)"

definition sign :: "crypto \<Rightarrow> string \<Rightarrow> string \<Rightarrow> string" where
  "sign c input secret = base64url_encode (c_hmac_sha256 c secret input)"

definition splitToken :: "string \<Rightarrow> (string \<times> string \<times> string) result" where
  "splitToken token = (case split_on (CHR ''.'') token of
     [a, b, c] \<Rightarrow> Ok (a, b, c)
   | _ \<Rightarrow> Inl (Message ''invalid token format''))"

section \<open>What the primitives promise\<close>

text \<open>A read returns the number of bytes asked for; bcrypt accepts the password it hashed;
  SHA-256 has a 32-byte result.\<close>

definition rand_length :: "crypto \<Rightarrow> bool" where
  "rand_length c \<longleftrightarrow> (\<forall>k n b. c_rand c k n = Inr b \<longrightarrow> length b = n)"

definition bcrypt_correct :: "crypto \<Rightarrow> bool" where
  "bcrypt_correct c \<longleftrightarrow> (\<forall>k p cost h. c_bcrypt_generate c k p cost = Inr h \<longrightarrow> c_bcrypt_compare c h p)"

definition sha256_size :: "crypto \<Rightarrow> bool" where
  "sha256_size c \<longleftrightarrow> (\<forall>x. length (c_sha256 c x) = 32)"

text \<open>Two reads of 16 random bytes differ.\<close>

definition fresh_draws :: "crypto \<Rightarrow> bool" where
  "fresh_draws c \<longleftrightarrow> (\<forall>j k b. j \<noteq> k \<longrightarrow> c_rand c j 16 = Inr b \<longrightarrow> c_rand c k 16 \<noteq> Inr b)"

lemma hashToken_nonempty: "sha256_size c \<Longrightarrow> hashToken c t \<noteq> []"
  by (metis hashToken_def length_0_conv length_hex_encode mult_eq_0_iff sha256_size_def
      zero_neq_numeral)

lemma hashToken_eq: "hashToken c s = hashToken c t \<longleftrightarrow> c_sha256 c s = c_sha256 c t"
  by (auto simp: hashToken_def dest: hex_encode_inj)

lemma newID_advances: "newID c p k = (r, k') \<Longrightarrow> k' = Suc k"
  by (auto simp: newID_def split: sum.splits)

lemma newID_Ok:
  "newID c p k = (Ok i, k') \<longleftrightarrow> k' = Suc k \<and> (\<exists>b. c_rand c k 16 = Inr b \<and> i = p @ ''_'' @ hex_encode b)"
  by (auto simp: newID_def split: sum.splits)

lemma newID_distinct:
  assumes "newID c p k = (Ok i, k')" "newID c p j = (Ok i', j')" "c_rand c k 16 \<noteq> c_rand c j 16"
  shows "i \<noteq> i'"
  using assms by (auto simp: newID_Ok dest: hex_encode_inj)

lemma newID_fresh:
  "fresh_draws c \<Longrightarrow> newID c p k = (Ok i, k') \<Longrightarrow> newID c p j = (Ok i, j') \<Longrightarrow> j = k"
  by (metis fresh_draws_def newID_Ok newID_distinct)

lemma randomToken_Ok:
  "randomToken c n k = (Ok t, k') \<longleftrightarrow> k' = Suc k \<and> (\<exists>b. c_rand c k n = Inr b \<and> t = base64url_encode b)"
  by (auto simp: randomToken_def split: sum.splits)

lemma randomToken_length:
  "rand_length c \<Longrightarrow> randomToken c n k = (Ok t, k') \<Longrightarrow> length t = (4 * n + 2) div 3"
  by (auto simp: randomToken_Ok rand_length_def length_base64url_encode)

lemma randomToken_no_dot: "randomToken c n k = (Ok t, k') \<Longrightarrow> CHR ''.'' \<notin> set t"
  by (auto simp: randomToken_Ok base64url_no_dot)

lemma hashPassword_verify:
  "bcrypt_correct c \<Longrightarrow> hashPassword c p cost k = (Ok h, k') \<Longrightarrow> verifyPassword c p h"
  by (auto simp: hashPassword_def bcrypt_correct_def verifyPassword_def Let_def split: sum.splits)

lemma random_digits_shape:
  assumes "\<forall>k d. c_digit c k = Inr d \<longrightarrow> d < 10"
  shows "random_digits c n k = (Ok ds, k') \<Longrightarrow>
    length ds = n \<and> set ds \<subseteq> set ''0123456789'' \<and> k' = k + n"
proof (induction n arbitrary: k ds k')
  case (Suc n)
  then obtain d rest where d: "c_digit c k = Inr d" and rest: "random_digits c n (Suc k) = (Ok rest, k')"
    and ds: "ds = (''0123456789'' ! d) # rest"
    by (auto split: sum.splits prod.splits)
  have ten: "length ''0123456789'' = 10" by simp
  have "d < length ''0123456789''" unfolding ten using assms d by blast
  then have "''0123456789'' ! d \<in> set ''0123456789''" by (rule nth_mem)
  then show ?case using Suc.IH[OF rest] ds by simp
qed simp

lemma splitToken_parts:
  assumes "CHR ''.'' \<notin> set a" "CHR ''.'' \<notin> set b" "CHR ''.'' \<notin> set c"
  shows "splitToken (a @ ''.'' @ b @ ''.'' @ c) = Ok (a, b, c)"
  using assms by (simp add: splitToken_def split_on_append split_on_clean)

lemma splitToken_Ok:
  "splitToken t = Ok (a, b, c) \<Longrightarrow> t = a @ ''.'' @ b @ ''.'' @ c"
  using join_split_on[of "CHR ''.''" t]
  by (auto simp: splitToken_def split: list.splits)

end
