(* ===== verification/Config.thy ===== *)
theory Config
  imports Security
begin

text \<open>
  The scalar settings of \<open>config.go\<close>. The hooks, senders and stores that share the Go struct
  are in the service's environment (\<open>Environment\<close>). A TTL is a number of nanoseconds.
\<close>

definition SessionCheckOnAllCalls :: string where "SessionCheckOnAllCalls = ''allcalls''"
definition SessionCheckOnRefresh :: string where "SessionCheckOnRefresh = ''refresh''"
definition SessionCheckOnNone :: string where "SessionCheckOnNone = ''none''"

definition EmailVerificationModeNone :: string where "EmailVerificationModeNone = ''none''"
definition EmailVerificationModeLazy :: string where "EmailVerificationModeLazy = ''lazy''"
definition EmailVerificationModeStrict :: string where "EmailVerificationModeStrict = ''strict''"

lemmas mode_defs = SessionCheckOnAllCalls_def SessionCheckOnRefresh_def SessionCheckOnNone_def
  EmailVerificationModeNone_def EmailVerificationModeLazy_def EmailVerificationModeStrict_def

record Config =
  cf_Secret :: string
  cf_Issuer :: string
  cf_AccessTokenTTL :: duration
  cf_RefreshTokenTTL :: duration
  cf_SessionCheckOn :: string
  cf_ClockSkew :: duration
  cf_MinPasswordLen :: int
  cf_BcryptCost :: int
  cf_ResetTokenTTL :: duration
  cf_MagicLinkTTL :: duration
  cf_SMSCodeTTL :: duration
  cf_EmailVerificationTTL :: duration
  cf_EmailVerificationMode :: string
  cf_EmailChangeTTL :: duration
  cf_TempTokenTTL :: duration
  cf_Require2FA :: bool
  cf_TwoFactorAppName :: string

definition bcrypt_MinCost :: int where "bcrypt_MinCost = 4"
definition bcrypt_MaxCost :: int where "bcrypt_MaxCost = 31"

definition DefaultConfig :: "string \<Rightarrow> Config" where
  "DefaultConfig secret = \<lparr>
     cf_Secret = secret,
     cf_Issuer = ''awesome-go-auth'',
     cf_AccessTokenTTL = 15 * minute,
     cf_RefreshTokenTTL = 30 * 24 * hour,
     cf_SessionCheckOn = SessionCheckOnRefresh,
     cf_ClockSkew = 30 * second,
     cf_MinPasswordLen = 8,
     cf_BcryptCost = bcrypt_DefaultCost,
     cf_ResetTokenTTL = 1 * hour,
     cf_MagicLinkTTL = 15 * minute,
     cf_SMSCodeTTL = 10 * minute,
     cf_EmailVerificationTTL = 24 * hour,
     cf_EmailVerificationMode = EmailVerificationModeNone,
     cf_EmailChangeTTL = 1 * hour,
     cf_TempTokenTTL = 5 * minute,
     cf_Require2FA = False,
     cf_TwoFactorAppName = []\<rparr>"

definition totpIssuer :: "Config \<Rightarrow> string" where
  "totpIssuer c = (if cf_TwoFactorAppName c \<noteq> [] then cf_TwoFactorAppName c else cf_Issuer c)"

definition validate_config :: "Config \<Rightarrow> error option" where
  "validate_config c =
    (if length (cf_Secret c) < 32 then Some (Message ''auth: secret must be at least 32 chars'')
     else if cf_AccessTokenTTL c \<le> 0 then Some (Message ''auth: access token ttl must be > 0'')
     else if cf_RefreshTokenTTL c \<le> 0 then Some (Message ''auth: refresh token ttl must be > 0'')
     else if to_lower (trim_space (cf_SessionCheckOn c)) \<notin>
         {'''', SessionCheckOnAllCalls, SessionCheckOnRefresh, SessionCheckOnNone}
       then Some (Message ''auth: session check mode must be one of allcalls|refresh|none'')
     else if to_lower (trim_space (cf_EmailVerificationMode c)) \<notin>
         {'''', EmailVerificationModeNone, EmailVerificationModeLazy, EmailVerificationModeStrict}
       then Some (Message ''auth: email verification mode must be one of none|lazy|strict'')
     else if cf_MinPasswordLen c < 8 then Some (Message ''auth: min password len must be >= 8'')
     else if cf_BcryptCost c \<noteq> 0 \<and>
         (cf_BcryptCost c < bcrypt_MinCost \<or> cf_BcryptCost c > bcrypt_MaxCost)
       then Some (Message
         ''auth: bcrypt cost must be between 4 and 31, or 0 for the default (10)'')
     else if cf_ResetTokenTTL c \<le> 0 \<or> cf_MagicLinkTTL c \<le> 0 \<or> cf_SMSCodeTTL c \<le> 0
       then Some (Message ''auth: reset token, magic link, and sms code ttl must be > 0'')
     else if cf_EmailVerificationTTL c \<le> 0 \<or> cf_EmailChangeTTL c \<le> 0 \<or> cf_TempTokenTTL c \<le> 0
       then Some (Message ''auth: email and temp token ttl must be > 0'')
     else None)"

text \<open>What a validated configuration guarantees the service: no lifetime is zero or negative,
  the secret is long enough and the hash cost passed to bcrypt is one bcrypt accepts.\<close>

lemma validated_lifetimes:
  assumes "validate_config c = None"
  shows "0 < cf_AccessTokenTTL c" "0 < cf_RefreshTokenTTL c" "0 < cf_ResetTokenTTL c"
    "0 < cf_MagicLinkTTL c" "0 < cf_SMSCodeTTL c" "0 < cf_EmailVerificationTTL c"
    "0 < cf_EmailChangeTTL c" "0 < cf_TempTokenTTL c" "8 \<le> cf_MinPasswordLen c"
    "32 \<le> length (cf_Secret c)"
  using assms by (auto simp: validate_config_def not_le not_less split: if_split_asm)

lemma validated_cost:
  assumes "validate_config c = None"
  shows "let cost = (if cf_BcryptCost c = 0 then bcrypt_DefaultCost else cf_BcryptCost c)
         in bcrypt_MinCost \<le> cost \<and> cost \<le> bcrypt_MaxCost"
  using assms
  by (auto simp: validate_config_def bcrypt_DefaultCost_def bcrypt_MinCost_def bcrypt_MaxCost_def
      split: if_split_asm)

lemma DefaultConfig_valid: "32 \<le> length secret \<Longrightarrow> validate_config (DefaultConfig secret) = None"
proof -
  have t: "to_lower (trim_space ''refresh'') = ''refresh''" "to_lower (trim_space ''none'') = ''none''"
    by code_simp+
  show "32 \<le> length secret \<Longrightarrow> validate_config (DefaultConfig secret) = None"
    by (simp add: validate_config_def DefaultConfig_def mode_defs t bcrypt_DefaultCost_def
        bcrypt_MinCost_def bcrypt_MaxCost_def)
qed

end
