(* ===== verification/Environment.thy ===== *)
theory Environment
  imports User_Store Session_Store Feature_Stores Tenant_Store Events Config
begin

text \<open>
  What a \<open>Service\<close> (\<open>service.go\<close>) holds and acts on. The \<open>env\<close> record is everything fixed at
  construction: the configuration, the primitives, the clocks and the host's hooks. The \<open>world\<close>
  record is everything a call may change: the stores, the events handed to the bus, what the
  host's senders were given. A clock, a random source, a hook or a sender may answer
  differently every time: each is a function of the number of such calls made so far
  (\<open>w_tick\<close>). A service method is an \<open>action\<close>: it takes the world and returns its result and the
  world it leaves, on the error paths too. Logging is not modelled.
\<close>

section \<open>What senders are handed\<close>

record LinkDelivery =
  ld_UserID :: string
  ld_TenantID :: string
  ld_Email :: string
  ld_Token :: string
  ld_ExpiresAt :: time
  ld_LinkBase :: string
  ld_Lang :: string

record SMSCodeDelivery =
  sd_UserID :: string
  sd_TenantID :: string
  sd_Phone :: string
  sd_Code :: string
  sd_ExpiresAt :: time

record EmailChangedDelivery =
  ec_UserID :: string
  ec_TenantID :: string
  ec_OldEmail :: string
  ec_NewEmail :: string
  ec_Lang :: string

text \<open>The four link deliveries have the same fields (the change's recipient is \<open>NewEmail\<close>).\<close>

datatype delivery =
    MagicLinkDelivery LinkDelivery
  | PasswordResetDelivery LinkDelivery
  | EmailVerificationDelivery LinkDelivery
  | EmailChangeDelivery LinkDelivery
  | SMSDelivery SMSCodeDelivery
  | ChangedDelivery EmailChangedDelivery

type_synonym sender = "(nat \<Rightarrow> delivery \<Rightarrow> error option) option"

section \<open>Environment and world\<close>

text \<open>Which optional interfaces the configured stores implement (the service asks by type
  assertion). The in-memory stores implement all of them: \<open>memory_caps\<close>.\<close>

record caps =
  has_UserPasswordStore :: bool
  has_MagicLinkStore :: bool
  has_SMSStore :: bool
  has_EmailVerificationStore :: bool
  has_EmailChangeStore :: bool
  has_TOTPStore :: bool
  has_UserAccountStore :: bool
  has_UserPhoneStore :: bool
  has_AdminUserStore :: bool
  has_SessionAdminStore :: bool
  has_SessionLookupStore :: bool
  has_SessionLister :: bool
  has_RoleLister :: bool

definition memory_caps :: caps where
  "memory_caps = \<lparr>has_UserPasswordStore = True, has_MagicLinkStore = True, has_SMSStore = True,
     has_EmailVerificationStore = True, has_EmailChangeStore = True, has_TOTPStore = True,
     has_UserAccountStore = True, has_UserPhoneStore = True, has_AdminUserStore = True,
     has_SessionAdminStore = True, has_SessionLookupStore = True, has_SessionLister = True,
     has_RoleLister = True\<rparr>"

text \<open>\<open>e_clock\<close> is the service's \<open>now\<close>, \<open>e_wall\<close> the \<open>time.Now\<close> the stores read; \<open>e_claims\<close> is
  \<open>BuildTokenClaims\<close>, \<open>e_verifier\<close> is \<open>PasswordVerifier\<close> (ok, migrated); \<open>e_settings\<close> is what
  \<open>Settings.GetSettings\<close> answers for \<open>Require2FA\<close>; \<open>e_bus\<close> says whether a bus is configured;
  \<open>e_ctx\<close> is the request context of the calls.\<close>

record env =
  e_cfg :: Config
  e_crypto :: crypto
  e_clock :: "nat \<Rightarrow> time"
  e_wall :: "nat \<Rightarrow> time"
  e_claims :: "(nat \<Rightarrow> User \<Rightarrow> json_object result) option"
  e_verifier :: "(nat \<Rightarrow> User \<Rightarrow> string \<Rightarrow> (bool \<times> bool) result) option"
  e_SendMagicLink :: sender
  e_SendSMSCode :: sender
  e_SendPasswordReset :: sender
  e_SendEmailVerification :: sender
  e_SendEmailChange :: sender
  e_SendEmailChanged :: sender
  e_settings :: "(nat \<Rightarrow> bool option result) option"
  e_bus :: bool
  e_ctx :: "EventContext option"
  e_caps :: caps

record world =
  w_users :: MemoryUserStore
  w_sessions :: MemorySessionStore
  w_metadata :: "MemoryMetadataStore option"
  w_rbac :: "MemoryRolesPermissionsStore option"
  w_tenants :: "MemoryTenantStore option"
  w_events :: "Event list"
  w_outbox :: "delivery list"
  w_tick :: nat

section \<open>Actions\<close>

type_synonym 'a action = "world \<Rightarrow> 'a result \<times> world"

definition ret :: "'a \<Rightarrow> 'a action" where
  "ret x w = (Ok x, w)"

definition failWith :: "error \<Rightarrow> 'a action" where
  "failWith e w = (Inl e, w)"

abbreviation failS :: "sentinel \<Rightarrow> 'a action" where
  "failS s \<equiv> failWith (Sentinel s)"

text \<open>\<open>x, err := m(); if err != nil \{ return err \}; ...\<close>\<close>

definition thenDo :: "'a action \<Rightarrow> ('a \<Rightarrow> 'b action) \<Rightarrow> 'b action" where
  "thenDo m f w = (case m w of (Inl e, w') \<Rightarrow> (Inl e, w') | (Inr x, w') \<Rightarrow> f x w')"

text \<open>The error inspected by the caller, or replaced.\<close>

definition attempt :: "'a action \<Rightarrow> 'a result action" where
  "attempt m w = (case m w of (r, w') \<Rightarrow> (Ok r, w'))"

definition mapErr :: "(error \<Rightarrow> error) \<Rightarrow> 'a action \<Rightarrow> 'a action" where
  "mapErr g m w = (case m w of (Inl e, w') \<Rightarrow> (Inl (g e), w') | (Inr x, w') \<Rightarrow> (Inr x, w'))"

definition guardS :: "bool \<Rightarrow> sentinel \<Rightarrow> unit action" where
  "guardS ok s = (if ok then ret () else failS s)"

definition draw :: "'a draws \<Rightarrow> 'a action" where
  "draw d w = (case d (w_tick w) of (r, k) \<Rightarrow> (r, w\<lparr>w_tick := k\<rparr>))"

definition tick :: "(nat \<Rightarrow> 'a) \<Rightarrow> 'a action" where
  "tick f w = (Ok (f (w_tick w)), w\<lparr>w_tick := Suc (w_tick w)\<rparr>)"

definition clock :: "env \<Rightarrow> time action" where
  "clock v = tick (e_clock v)"

definition wall :: "env \<Rightarrow> time action" where
  "wall v = tick (e_wall v)"

definition hook :: "(nat \<Rightarrow> 'a result) \<Rightarrow> 'a action" where
  "hook h w = (h (w_tick w), w\<lparr>w_tick := Suc (w_tick w)\<rparr>)"

definition users_get :: "(MemoryUserStore \<Rightarrow> 'a result) \<Rightarrow> 'a action" where
  "users_get f w = (f (w_users w), w)"

definition users_do :: "(MemoryUserStore \<Rightarrow> 'a result \<times> MemoryUserStore) \<Rightarrow> 'a action" where
  "users_do f w = (case f (w_users w) of (r, s) \<Rightarrow> (r, w\<lparr>w_users := s\<rparr>))"

definition sessions_get :: "(MemorySessionStore \<Rightarrow> 'a result) \<Rightarrow> 'a action" where
  "sessions_get f w = (f (w_sessions w), w)"

definition sessions_do ::
    "(MemorySessionStore \<Rightarrow> 'a result \<times> MemorySessionStore) \<Rightarrow> 'a action" where
  "sessions_do f w = (case f (w_sessions w) of (r, s) \<Rightarrow> (r, w\<lparr>w_sessions := s\<rparr>))"

text \<open>\<open>Service.publish\<close>: nothing at all without a bus; otherwise the event with the request's
  provenance goes to the bus (what the bus calls is \<open>Events.Publish\<close>).\<close>

definition publish :: "env \<Rightarrow> Event \<Rightarrow> unit action" where
  "publish v ev w =
     (if \<not> e_bus v then (Ok (), w)
      else (Ok (), w\<lparr>w_events := w_events w @ [WithRequestContext (e_ctx v) ev]\<rparr>))"

text \<open>A call of a configured sender.\<close>

definition send_through :: "(nat \<Rightarrow> delivery \<Rightarrow> error option) \<Rightarrow> delivery \<Rightarrow> unit action" where
  "send_through f d w =
     ((case f (w_tick w) d of None \<Rightarrow> Ok () | Some e \<Rightarrow> Inl e),
      w\<lparr>w_tick := Suc (w_tick w), w_outbox := w_outbox w @ [d]\<rparr>)"

section \<open>Laws of the actions\<close>

lemma thenDo_Ok:
  "thenDo m f w = (Ok y, w'') \<longleftrightarrow> (\<exists>x w'. m w = (Ok x, w') \<and> f x w' = (Ok y, w''))"
  by (auto simp: thenDo_def split: prod.splits sum.splits)

lemma thenDo_Inl:
  "thenDo m f w = (Inl e, w'') \<longleftrightarrow>
     m w = (Inl e, w'') \<or> (\<exists>x w'. m w = (Ok x, w') \<and> f x w' = (Inl e, w''))"
  by (auto simp: thenDo_def split: prod.splits sum.splits)

lemma thenDo_assoc: "thenDo (thenDo m f) g = thenDo m (\<lambda>x. thenDo (f x) g)"
  by (rule ext) (simp add: thenDo_def split: prod.splits sum.splits)

lemma thenDo_ret [simp]: "thenDo (ret x) f = f x"
  by (rule ext) (simp add: thenDo_def ret_def)

lemma thenDo_fail [simp]: "thenDo (failWith e) f = failWith e"
  by (rule ext) (simp add: thenDo_def failWith_def)

lemma thenDo_lookup [simp]:
  "thenDo (attempt (users_get f)) g w = g (f (w_users w)) w"
  by (simp add: thenDo_def attempt_def users_get_def)

lemma mapErr_Ok: "mapErr g m w = (Ok y, w') \<longleftrightarrow> m w = (Ok y, w')"
  by (auto simp: mapErr_def split: prod.splits sum.splits)

lemma guardS_Ok: "guardS b s w = (Ok y, w') \<longleftrightarrow> b \<and> w' = w"
  by (auto simp: guardS_def ret_def failWith_def)

lemma attempt_Ok: "attempt m w = (Ok r, w') \<longleftrightarrow> m w = (r, w')"
  by (auto simp: attempt_def split: prod.splits)

lemma ret_Ok: "ret x w = (Ok y, w') \<longleftrightarrow> y = x \<and> w' = w"
  by (auto simp: ret_def)

lemma failWith_Ok: "failWith e w = (Ok y, w') \<longleftrightarrow> False"
  by (simp add: failWith_def)

lemma tick_Ok: "tick f w = (Ok x, w') \<longleftrightarrow> x = f (w_tick w) \<and> w' = w\<lparr>w_tick := Suc (w_tick w)\<rparr>"
  by (auto simp: tick_def)

lemma draw_Ok: "draw d w = (Ok x, w') \<longleftrightarrow> (\<exists>k. d (w_tick w) = (Ok x, k) \<and> w' = w\<lparr>w_tick := k\<rparr>)"
  by (auto simp: draw_def split: prod.splits)

lemma hook_Ok: "hook h w = (Ok x, w') \<longleftrightarrow> h (w_tick w) = Ok x \<and> w' = w\<lparr>w_tick := Suc (w_tick w)\<rparr>"
  by (auto simp: hook_def)

lemma users_get_Ok: "users_get f w = (Ok x, w') \<longleftrightarrow> f (w_users w) = Ok x \<and> w' = w"
  by (auto simp: users_get_def)

lemma users_do_Ok:
  "users_do f w = (Ok x, w') \<longleftrightarrow> (\<exists>s. f (w_users w) = (Ok x, s) \<and> w' = w\<lparr>w_users := s\<rparr>)"
  by (auto simp: users_do_def split: prod.splits)

lemma sessions_get_Ok: "sessions_get f w = (Ok x, w') \<longleftrightarrow> f (w_sessions w) = Ok x \<and> w' = w"
  by (auto simp: sessions_get_def)

lemma sessions_do_Ok:
  "sessions_do f w = (Ok x, w') \<longleftrightarrow> (\<exists>s. f (w_sessions w) = (Ok x, s) \<and> w' = w\<lparr>w_sessions := s\<rparr>)"
  by (auto simp: sessions_do_def split: prod.splits)

lemma publish_Ok:
  "publish v ev w = (Ok x, w') \<longleftrightarrow>
     w' = (if e_bus v then w\<lparr>w_events := w_events w @ [WithRequestContext (e_ctx v) ev]\<rparr> else w)"
  by (auto simp: publish_def)

lemmas action_Ok = thenDo_Ok mapErr_Ok guardS_Ok attempt_Ok ret_Ok failWith_Ok tick_Ok draw_Ok
  hook_Ok users_get_Ok users_do_Ok sessions_get_Ok sessions_do_Ok publish_Ok

section \<open>Frames\<close>

text \<open>
  What an action leaves alone on every path: \<open>keeps f m\<close> says the part \<open>f\<close> of the world is the
  same after \<open>m\<close>, whether it failed or not; \<open>preserves P m\<close> that \<open>m\<close> keeps the invariant \<open>P\<close>;
  \<open>quiet_on_error m\<close> that a failing \<open>m\<close> has published nothing.
\<close>

named_theorems frames \<open>what an action leaves alone\<close>

definition keeps :: "(world \<Rightarrow> 'b) \<Rightarrow> 'a action \<Rightarrow> bool" where
  "keeps f m \<longleftrightarrow> (\<forall>w. f (snd (m w)) = f w)"

definition preserves :: "(world \<Rightarrow> bool) \<Rightarrow> 'a action \<Rightarrow> bool" where
  "preserves P m \<longleftrightarrow> (\<forall>w. P w \<longrightarrow> P (snd (m w)))"

definition quiet_on_error :: "'a action \<Rightarrow> bool" where
  "quiet_on_error m \<longleftrightarrow> (\<forall>w e w'. m w = (Inl e, w') \<longrightarrow> w_events w' = w_events w)"

lemma keepsD: "keeps f m \<Longrightarrow> m w = (r, w') \<Longrightarrow> f w' = f w"
  unfolding keeps_def by (metis snd_conv)

lemma preservesD: "preserves P m \<Longrightarrow> P w \<Longrightarrow> m w = (r, w') \<Longrightarrow> P w'"
  unfolding preserves_def by (metis snd_conv)

lemma quiet_on_errorD: "quiet_on_error m \<Longrightarrow> m w = (Inl e, w') \<Longrightarrow> w_events w' = w_events w"
  by (simp add: quiet_on_error_def)

lemma keeps_thenDo [frames]:
  "keeps f m \<Longrightarrow> (\<And>x. keeps f (g x)) \<Longrightarrow> keeps f (thenDo m g)"
  by (auto simp: keeps_def thenDo_def split: prod.splits sum.splits) (metis snd_conv)+

lemma keeps_ret [frames]: "keeps f (ret x)"
  by (simp add: keeps_def ret_def)

lemma keeps_fail [frames]: "keeps f (failWith e)"
  by (simp add: keeps_def failWith_def)

lemma keeps_guard [frames]: "keeps f (guardS b s)"
  by (simp add: guardS_def keeps_ret keeps_fail)

lemma keeps_attempt [frames]: "keeps f m \<Longrightarrow> keeps f (attempt m)"
  by (auto simp: keeps_def attempt_def split: prod.splits)  (metis snd_conv)

lemma keeps_mapErr [frames]: "keeps f m \<Longrightarrow> keeps f (mapErr g m)"
  by (auto simp: keeps_def mapErr_def split: prod.splits sum.splits)  (metis snd_conv)+

lemma keeps_if [frames]: "keeps f a \<Longrightarrow> keeps f b \<Longrightarrow> keeps f (if c then a else b)"
  by simp

lemma keeps_option [frames]:
  "keeps f a \<Longrightarrow> (\<And>x. keeps f (b x)) \<Longrightarrow> keeps f (case c of None \<Rightarrow> a | Some x \<Rightarrow> b x)"
  by (cases c) auto

lemma keeps_sum [frames]:
  "(\<And>x. keeps f (a x)) \<Longrightarrow> (\<And>x. keeps f (b x)) \<Longrightarrow> keeps f (case c of Inl x \<Rightarrow> a x | Inr x \<Rightarrow> b x)"
  by (cases c) auto

lemma keeps_prod [frames]:
  "(\<And>x y. keeps f (a x y)) \<Longrightarrow> keeps f (case c of (x, y) \<Rightarrow> a x y)"
  by (cases c) auto

lemma keeps_ticks [frames]:
  assumes "\<And>w k. f (w\<lparr>w_tick := k\<rparr>) = f w"
  shows "keeps f (tick h)" "keeps f (draw d)" "keeps f (hook h')" "keeps f (clock v)" "keeps f (wall v)"
  by (auto simp: keeps_def tick_def draw_def hook_def clock_def wall_def assms split: prod.splits)

lemma keeps_gets [frames]: "keeps f (users_get g)" "keeps f (sessions_get g')"
  by (simp_all add: keeps_def users_get_def sessions_get_def)

lemma keeps_users_do [frames]:
  "(\<And>w s. f (w\<lparr>w_users := s\<rparr>) = f w) \<Longrightarrow> keeps f (users_do g)"
  by (auto simp: keeps_def users_do_def split: prod.splits)

lemma keeps_sessions_do [frames]:
  "(\<And>w s. f (w\<lparr>w_sessions := s\<rparr>) = f w) \<Longrightarrow> keeps f (sessions_do g)"
  by (auto simp: keeps_def sessions_do_def split: prod.splits)

lemma keeps_publish [frames]:
  "(\<And>w es. f (w\<lparr>w_events := es\<rparr>) = f w) \<Longrightarrow> keeps f (publish v ev)"
  by (auto simp: keeps_def publish_def)

lemma keeps_send [frames]:
  "(\<And>w k ds. f (w\<lparr>w_tick := k, w_outbox := ds\<rparr>) = f w) \<Longrightarrow> keeps f (send_through h d)"
  by (auto simp: keeps_def send_through_def)

lemma quiet_keeps: "keeps w_events m \<Longrightarrow> quiet_on_error m"
  unfolding quiet_on_error_def by (auto dest: keepsD)

lemma quiet_thenDo:
  "keeps w_events m \<Longrightarrow> (\<And>x. quiet_on_error (f x)) \<Longrightarrow> quiet_on_error (thenDo m f)"
  unfolding quiet_on_error_def thenDo_Inl by (metis keepsD)

lemma quiet_publish: "quiet_on_error (thenDo (publish v ev) (\<lambda>_. ret x))"
  by (simp add: quiet_on_error_def thenDo_def publish_def ret_def)

lemma preserves_keeps:
  assumes "keeps f m" "\<And>w w'. f w = f w' \<Longrightarrow> P w = P w'"
  shows "preserves P m"
  using assms unfolding keeps_def preserves_def by blast

lemma preserves_thenDo:
  "preserves P m \<Longrightarrow> (\<And>x. preserves P (g x)) \<Longrightarrow> preserves P (thenDo m g)"
  unfolding preserves_def thenDo_def
  by (auto split: prod.splits sum.splits)

end
