(* ===== verification/Json.thy ===== *)
theory Json
  imports Codec Auth_Models
begin

text \<open>
  \<open>encoding/json\<close> as the code uses it: \<open>json.Marshal\<close> of maps, strings, numbers and nested
  \<open>any\<close> values (sorted keys, HTML-safe escapes, invalid UTF-8 replaced), and \<open>json.Unmarshal\<close>
  (the full grammar, \<open>\u\<close> escapes with surrogates, invalid UTF-8 replaced, nesting bounded by
  10000, struct fields matched case-insensitively, the last duplicate wins). A number is its
  literal text.
\<close>

section \<open>UTF-8\<close>

definition cont :: "char \<Rightarrow> bool" where
  "cont c \<longleftrightarrow> 128 \<le> byte c \<and> byte c \<le> 191"

definition in_bytes :: "nat \<Rightarrow> nat \<Rightarrow> char \<Rightarrow> bool" where
  "in_bytes lo hi c \<longleftrightarrow> lo \<le> byte c \<and> byte c \<le> hi"

text \<open>The width of the rune a string starts with; 0 when it starts with an invalid byte.\<close>

definition second_ok :: "nat \<Rightarrow> char \<Rightarrow> bool" where
  "second_ok b c1 \<longleftrightarrow>
     (if b = 224 then in_bytes 160 191 c1 else if b = 237 then in_bytes 128 159 c1
      else if b = 240 then in_bytes 144 191 c1 else if b = 244 then in_bytes 128 143 c1
      else cont c1)"

definition rune_size :: "string \<Rightarrow> nat" where
  "rune_size s = (case s of [] \<Rightarrow> 0
   | c # t \<Rightarrow> let b = byte c in
      if b < 128 then 1
      else if 194 \<le> b \<and> b \<le> 223 then (case t of c1 # _ \<Rightarrow> if cont c1 then 2 else 0 | _ \<Rightarrow> 0)
      else if 224 \<le> b \<and> b \<le> 239 then
        (case t of c1 # c2 # _ \<Rightarrow> if second_ok b c1 \<and> cont c2 then 3 else 0 | _ \<Rightarrow> 0)
      else if 240 \<le> b \<and> b \<le> 244 then
        (case t of c1 # c2 # c3 # _ \<Rightarrow> if second_ok b c1 \<and> cont c2 \<and> cont c3 then 4 else 0 | _ \<Rightarrow> 0)
      else 0)"

lemma rune_size_le: "rune_size s \<le> length s"
  by (auto simp: rune_size_def Let_def split: list.split)

lemma rune_size_ascii: "byte c < 128 \<Longrightarrow> rune_size (c # s) = 1"
  by (simp add: rune_size_def)

lemma rune_size_append:
  assumes "rune_size s = n" "n > 0"
  shows "rune_size (take n s @ r) = n"
proof -
  obtain c t where s: "s = c # t" using assms by (cases s) (auto simp: rune_size_def)
  define b where "b = byte c"
  note def = rune_size_def s Let_def b_def[symmetric]
  consider "b < 128" | "\<not> b < 128" "194 \<le> b \<and> b \<le> 223" | "\<not> b < 128" "224 \<le> b \<and> b \<le> 239"
    | "\<not> b < 128" "240 \<le> b \<and> b \<le> 244"
    | "\<not> b < 128" "\<not> (194 \<le> b \<and> b \<le> 223)" "\<not> (224 \<le> b \<and> b \<le> 239)" "\<not> (240 \<le> b \<and> b \<le> 244)"
    by blast
  then show ?thesis
  proof cases
    case 2
    then obtain c1 u where "t = c1 # u" "cont c1" "n = 2"
      using assms by (cases t) (auto simp: def split: if_splits)
    then show ?thesis using 2 by (simp add: def)
  next
    case 3
    then obtain c1 c2 u where "t = c1 # c2 # u" "second_ok b c1 \<and> cont c2" "n = 3"
      using assms by (cases t rule: remdups_adj.cases) (auto simp: def split: if_splits)
    then show ?thesis using 3 by (simp add: def)
  next
    case 4
    then have "\<exists>c1 c2 c3 u. t = c1 # c2 # c3 # u \<and> second_ok b c1 \<and> cont c2 \<and> cont c3 \<and> n = 4"
      using assms by (auto simp: def split: if_splits list.splits)
    then show ?thesis using 4 by (auto simp: def)
  next
    case 1
    then have "n = 1" using assms by (simp add: def)
    then show ?thesis using 1 by (simp add: def)
  next
    case 5
    have "rune_size s = 0" by (simp only: def list.case 5 if_False)
    then show ?thesis using assms by simp
  qed
qed

definition utf8_encode :: "nat \<Rightarrow> string" where
  "utf8_encode r =
     (if r < 128 then [chr r]
      else if r < 2048 then [chr (192 + r div 64), chr (128 + r mod 64)]
      else if 55296 \<le> r \<and> r \<le> 57343 \<or> 1114111 < r then [CHR 0xEF, CHR 0xBF, CHR 0xBD]
      else if r < 65536
        then [chr (224 + r div 4096), chr (128 + r div 64 mod 64), chr (128 + r mod 64)]
      else [chr (240 + r div 262144), chr (128 + r div 4096 mod 64), chr (128 + r div 64 mod 64),
            chr (128 + r mod 64)])"

definition replacement :: string where
  "replacement = [CHR 0xEF, CHR 0xBF, CHR 0xBD]"

section \<open>Printing\<close>

definition hex4 :: "nat \<Rightarrow> string" where
  "hex4 n = [hex_alphabet ! (n div 4096 mod 16), hex_alphabet ! (n div 256 mod 16),
     hex_alphabet ! (n div 16 mod 16), hex_alphabet ! (n mod 16)]"

definition escape_ascii :: "char \<Rightarrow> string" where
  "escape_ascii c =
     (if c = CHR 0x22 \<or> c = CHR 0x5C then [CHR 0x5C, c]
      else if c = CHR 0x08 then [CHR 0x5C, CHR ''b'']
      else if c = CHR 0x0C then [CHR 0x5C, CHR ''f'']
      else if c = CHR 0x0A then [CHR 0x5C, CHR ''n'']
      else if c = CHR 0x0D then [CHR 0x5C, CHR ''r'']
      else if c = CHR 0x09 then [CHR 0x5C, CHR ''t'']
      else if byte c < 32 \<or> c = CHR ''<'' \<or> c = CHR ''>'' \<or> c = CHR ''&''
        then CHR 0x5C # CHR ''u'' # hex4 (byte c)
      else [c])"

function json_escape :: "string \<Rightarrow> string" where
  "json_escape [] = []"
| "json_escape (c # s) =
     (if byte c < 128 then escape_ascii c @ json_escape s
      else let n = rune_size (c # s) in
        if n = 0 then CHR 0x5C # ''ufffd'' @ json_escape s
        else if take 3 (c # s) = [CHR 0xE2, CHR 0x80, CHR 0xA8]
          then CHR 0x5C # ''u2028'' @ json_escape (drop n (c # s))
        else if take 3 (c # s) = [CHR 0xE2, CHR 0x80, CHR 0xA9]
          then CHR 0x5C # ''u2029'' @ json_escape (drop n (c # s))
        else take n (c # s) @ json_escape (drop n (c # s)))"
  by pat_completeness auto
termination by (relation "measure length") auto

declare json_escape.simps(2) [simp del]

definition json_quote :: "string \<Rightarrow> string" where
  "json_quote s = CHR 0x22 # json_escape s @ [CHR 0x22]"

fun json_print :: "json \<Rightarrow> string" where
  "json_print JNull = ''null''"
| "json_print (JBool b) = (if b then ''true'' else ''false'')"
| "json_print (JNum n) = n"
| "json_print (JStr s) = json_quote s"
| "json_print (JArr vs) = ''['' @ join '','' (map json_print vs) @ '']''"
| "json_print (JObj kvs) =
     ''{'' @ join '','' (map (\<lambda>(k, v). json_quote k @ '':'' @ v)
       (sort_key fst (map (\<lambda>(k, v). (k, json_print v)) kvs))) @ ''}''"

text \<open>\<open>strconv.AppendInt\<close>, base 10.\<close>

fun decimal_nat :: "nat \<Rightarrow> string" where
  "decimal_nat n = (if n < 10 then [''0123456789'' ! n]
     else decimal_nat (n div 10) @ [''0123456789'' ! (n mod 10)])"

declare decimal_nat.simps [simp del]

definition decimal :: "int \<Rightarrow> string" where
  "decimal z = (if z < 0 then ''-'' @ decimal_nat (nat (- z)) else decimal_nat (nat z))"

definition json_of_object :: "json_object \<Rightarrow> json" where
  "json_of_object m = JObj (sorted_list_of_fmap m)"

section \<open>Parsing\<close>

definition json_space :: "char \<Rightarrow> bool" where
  "json_space c \<longleftrightarrow> c = CHR 0x20 \<or> c = CHR 0x09 \<or> c = CHR 0x0D \<or> c = CHR 0x0A"

abbreviation skip :: "string \<Rightarrow> string" where "skip s \<equiv> dropWhile json_space s"

definition ascii_digit :: "char \<Rightarrow> bool" where
  "ascii_digit c \<longleftrightarrow> 48 \<le> byte c \<and> byte c \<le> 57"

definition hex_value :: "char \<Rightarrow> nat option" where
  "hex_value c = (let b = byte c in
     if 48 \<le> b \<and> b \<le> 57 then Some (b - 48) else if 97 \<le> b \<and> b \<le> 102 then Some (b - 87)
     else if 65 \<le> b \<and> b \<le> 70 then Some (b - 55) else None)"

text \<open>\<open>getu4\<close>: the four digits after \<open>\u\<close>.\<close>

definition unhex4 :: "string \<Rightarrow> nat option" where
  "unhex4 s = (case those (map hex_value (take 4 s)) of
     Some [a, b, c, d] \<Rightarrow> Some (a * 4096 + b * 256 + c * 16 + d) | _ \<Rightarrow> None)"

text \<open>A \<open>\u\<close> escape, given the text after \<open>\u\<close>: the bytes it stands for and what follows.\<close>

definition unescape_u :: "string \<Rightarrow> (string \<times> string) option" where
  "unescape_u s = (case unhex4 s of
     None \<Rightarrow> None
   | Some r \<Rightarrow>
       let s = drop 4 s in
       if 55296 \<le> r \<and> r \<le> 57343 then
         (case (if take 2 s = [CHR 0x5C, CHR ''u''] then unhex4 (drop 2 s) else None) of
            Some r2 \<Rightarrow>
              if r \<le> 56319 \<and> 56320 \<le> r2 \<and> r2 \<le> 57343
              then Some (utf8_encode ((r - 55296) * 1024 + (r2 - 56320) + 65536), drop 6 s)
              else Some (replacement, s)
          | None \<Rightarrow> Some (replacement, s))
       else Some (utf8_encode r, s))"

definition unescape_simple :: "char \<Rightarrow> char option" where
  "unescape_simple c =
     (if c = CHR 0x22 \<or> c = CHR 0x5C \<or> c = CHR ''/'' then Some c
      else if c = CHR ''b'' then Some (CHR 0x08) else if c = CHR ''f'' then Some (CHR 0x0C)
      else if c = CHR ''n'' then Some (CHR 0x0A) else if c = CHR ''r'' then Some (CHR 0x0D)
      else if c = CHR ''t'' then Some (CHR 0x09) else None)"

definition prepend :: "string \<Rightarrow> (string \<times> string) option \<Rightarrow> (string \<times> string) option" where
  "prepend p r = map_option (\<lambda>(s, t). (p @ s, t)) r"

text \<open>The body of a string literal, after its opening quote.\<close>

function parse_string :: "string \<Rightarrow> (string \<times> string) option" where
  "parse_string [] = None"
| "parse_string (c # s) =
     (if c = CHR 0x22 then Some ([], s)
      else if c = CHR 0x5C then
        (case s of [] \<Rightarrow> None
         | e # t \<Rightarrow>
            if e = CHR ''u'' then
              (case unescape_u t of None \<Rightarrow> None
               | Some (p, r) \<Rightarrow> if length r \<le> length t then prepend p (parse_string r) else None)
            else (case unescape_simple e of None \<Rightarrow> None | Some d \<Rightarrow> prepend [d] (parse_string t)))
      else if byte c < 32 then None
      else if byte c < 128 then prepend [c] (parse_string s)
      else let n = rune_size (c # s) in
        if n = 0 then prepend replacement (parse_string s)
        else prepend (take n (c # s)) (parse_string (drop n (c # s))))"
  by pat_completeness auto
termination by (relation "measure length") auto

declare parse_string.simps(2) [simp del]

text \<open>A number literal: its text and what follows.\<close>

definition scan_digits :: "string \<Rightarrow> (string \<times> string) option" where
  "scan_digits s = (if takeWhile ascii_digit s = [] then None
     else Some (takeWhile ascii_digit s, dropWhile ascii_digit s))"

definition scan_int :: "string \<Rightarrow> (string \<times> string) option" where
  "scan_int s = (case s of
     c # t \<Rightarrow> if c = CHR ''0'' then Some ([c], t) else scan_digits s
   | [] \<Rightarrow> None)"

definition scan_frac :: "string \<Rightarrow> (string \<times> string) option" where
  "scan_frac s = (case s of
     c # t \<Rightarrow> if c = CHR ''.'' then prepend [c] (scan_digits t) else Some ([], s)
   | [] \<Rightarrow> Some ([], []))"

definition scan_exp :: "string \<Rightarrow> (string \<times> string) option" where
  "scan_exp s = (case s of
     c # t \<Rightarrow> if c = CHR ''e'' \<or> c = CHR ''E''
       then (case t of
           d # u \<Rightarrow> if d = CHR ''+'' \<or> d = CHR ''-'' then prepend [c, d] (scan_digits u)
                    else prepend [c] (scan_digits t)
         | [] \<Rightarrow> None)
       else Some ([], s)
   | [] \<Rightarrow> Some ([], []))"

definition scan_number :: "string \<Rightarrow> (string \<times> string) option" where
  "scan_number s =
     (let neg = (case s of c # _ \<Rightarrow> c = CHR ''-'' | [] \<Rightarrow> False);
          s = (if neg then tl s else s)
      in case scan_int s of None \<Rightarrow> None
       | Some (i, s) \<Rightarrow> (case scan_frac s of None \<Rightarrow> None
       | Some (f, s) \<Rightarrow> (case scan_exp s of None \<Rightarrow> None
       | Some (e, s) \<Rightarrow> Some ((if neg then ''-'' else []) @ i @ f @ e, s))))"

definition max_nesting :: nat where "max_nesting = 10000"

text \<open>
  The values: \<open>n\<close> bounds the recursion (every call but one per value consumes a byte, so
  \<open>2 * length s + 2\<close> is enough), \<open>d\<close> is the nesting depth.
\<close>

fun parse_value :: "nat \<Rightarrow> nat \<Rightarrow> string \<Rightarrow> (json \<times> string) option"
and parse_elems :: "nat \<Rightarrow> nat \<Rightarrow> string \<Rightarrow> (json list \<times> string) option"
and parse_members :: "nat \<Rightarrow> nat \<Rightarrow> string \<Rightarrow> ((string \<times> json) list \<times> string) option" where
  "parse_value 0 d s = None"
| "parse_value (Suc n) d s = (case skip s of
     [] \<Rightarrow> None
   | c # t \<Rightarrow>
      if c = CHR 0x22 then map_option (\<lambda>(x, r). (JStr x, r)) (parse_string t)
      else if c = CHR ''['' then
        (if d \<ge> max_nesting then None
         else if take 1 (skip t) = '']'' then Some (JArr [], tl (skip t))
         else map_option (\<lambda>(vs, r). (JArr vs, r)) (parse_elems n (Suc d) t))
      else if c = CHR ''{'' then
        (if d \<ge> max_nesting then None
         else if take 1 (skip t) = ''}'' then Some (JObj [], tl (skip t))
         else map_option (\<lambda>(kvs, r). (JObj kvs, r)) (parse_members n (Suc d) t))
      else if prefix ''null'' (c # t) then Some (JNull, drop 4 (c # t))
      else if prefix ''true'' (c # t) then Some (JBool True, drop 4 (c # t))
      else if prefix ''false'' (c # t) then Some (JBool False, drop 5 (c # t))
      else map_option (\<lambda>(x, r). (JNum x, r)) (scan_number (c # t)))"
| "parse_elems 0 d s = None"
| "parse_elems (Suc n) d s = (case parse_value n d s of
     None \<Rightarrow> None
   | Some (v, r) \<Rightarrow> (case skip r of
        [] \<Rightarrow> None
      | c # t \<Rightarrow>
          if c = CHR '']'' then Some ([v], t)
          else if c = CHR '','' then map_option (\<lambda>(vs, r). (v # vs, r)) (parse_elems n d t)
          else None))"
| "parse_members 0 d s = None"
| "parse_members (Suc n) d s = (case skip s of
     [] \<Rightarrow> None
   | q # t \<Rightarrow>
      if q \<noteq> CHR 0x22 then None
      else (case parse_string t of
        None \<Rightarrow> None
      | Some (k, r) \<Rightarrow> (case skip r of
          [] \<Rightarrow> None
        | c # t \<Rightarrow>
            if c \<noteq> CHR '':'' then None
            else (case parse_value n d t of
              None \<Rightarrow> None
            | Some (v, r) \<Rightarrow> (case skip r of
                [] \<Rightarrow> None
              | c # t \<Rightarrow>
                  if c = CHR ''}'' then Some ([(k, v)], t)
                  else if c = CHR '','' then
                    map_option (\<lambda>(kvs, r). ((k, v) # kvs, r)) (parse_members n d t)
                  else None)))))"

definition json_parse :: "string \<Rightarrow> json option" where
  "json_parse s = (case parse_value (2 * length s + 2) 0 s of
     Some (v, r) \<Rightarrow> if skip r = [] then Some v else None
   | None \<Rightarrow> None)"

section \<open>The round trip\<close>

text \<open>Strings of valid UTF-8 come back as they went in.\<close>

function valid_utf8 :: "string \<Rightarrow> bool" where
  "valid_utf8 [] = True"
| "valid_utf8 (c # s) = (if rune_size (c # s) = 0 then False
     else valid_utf8 (drop (rune_size (c # s)) (c # s)))"
  by pat_completeness auto
termination by (relation "measure length") auto

declare valid_utf8.simps(2) [simp del]

lemma valid_utf8_ascii: "byte c < 128 \<Longrightarrow> valid_utf8 (c # s) \<longleftrightarrow> valid_utf8 s"
  by (simp add: valid_utf8.simps(2) rune_size_ascii)

lemma ascii_valid: "\<forall>c\<in>set s. byte c < 128 \<Longrightarrow> valid_utf8 s"
  by (induction s) (simp_all add: valid_utf8_ascii)

lemma hex_value_nth: "i < 16 \<Longrightarrow> hex_value (hex_alphabet ! i) = Some i"
proof -
  assume "i < 16"
  then have "i \<in> set [0..<16]" by simp
  then show ?thesis
    by (simp add: upt_rec[of 0] upt_rec[of "Suc _"] hex_alphabet_def) (auto simp: hex_value_def)
qed

lemma unhex4_hex4:
  assumes "n < 65536"
  shows "unhex4 (hex4 n @ r) = Some n"
proof -
  define q p z where "q = n div 16" and "p = q div 16" and "z = p div 16"
  have d: "n div 256 = p" "n div 4096 = z"
    using div_mult2_eq[of n 16 16] div_mult2_eq[of n 256 16] by (simp_all add: q_def p_def z_def)
  have "z mod 16 = z" using assms d(2) by auto
  have "q * 16 + n mod 16 = n" "p * 16 + q mod 16 = q" "z * 16 + p mod 16 = p"
    by (simp_all add: q_def p_def z_def)
  then have "n div 4096 * 4096 + n div 256 mod 16 * 256 + n div 16 mod 16 * 16 + n mod 16 = n"
    unfolding d q_def[symmetric] by linarith
  then show ?thesis using assms by (simp add: unhex4_def hex4_def hex_value_nth)
qed

lemma escape_cases:
  assumes "byte c < 128"
  obtains (quoted) "escape_ascii c = [CHR 0x5C, c]" "c = CHR 0x22 \<or> c = CHR 0x5C"
  | (named) e where "escape_ascii c = [CHR 0x5C, e]" "e \<noteq> CHR ''u''" "unescape_simple e = Some c"
  | (hex) "escape_ascii c = CHR 0x5C # CHR ''u'' # hex4 (byte c)"
  | (plain) "escape_ascii c = [c]" "c \<noteq> CHR 0x22" "c \<noteq> CHR 0x5C" "32 \<le> byte c"
proof (cases "c = CHR 0x22 \<or> c = CHR 0x5C")
  case True
  then show ?thesis by (intro quoted) (auto simp: escape_ascii_def)
next
  case nq: False
  let ?pairs = "[(CHR 0x08, CHR ''b''), (CHR 0x0C, CHR ''f''), (CHR 0x0A, CHR ''n''),
    (CHR 0x0D, CHR ''r''), (CHR 0x09, CHR ''t'')]"
  show ?thesis
  proof (cases "\<exists>e. (c, e) \<in> set ?pairs")
    case True
    then obtain e where "(c, e) \<in> set ?pairs" by blast
    then show ?thesis by (intro named[of e]) (auto simp: escape_ascii_def unescape_simple_def)
  next
    case False
    then have "c \<notin> {CHR 0x08, CHR 0x0C, CHR 0x0A, CHR 0x0D, CHR 0x09}" by auto
    then have e: "escape_ascii c = (if byte c < 32 \<or> c = CHR ''<'' \<or> c = CHR ''>'' \<or> c = CHR ''&''
        then CHR 0x5C # CHR ''u'' # hex4 (byte c) else [c])"
      using nq by (simp add: escape_ascii_def)
    show ?thesis
    proof (cases "byte c < 32 \<or> c = CHR ''<'' \<or> c = CHR ''>'' \<or> c = CHR ''&''")
      case True
      then show ?thesis using e by (intro hex) simp
    next
      case False
      then show ?thesis using e nq by (intro plain) auto
    qed
  qed
qed

lemma parse_escape_ascii:
  assumes "byte c < 128"
  shows "parse_string (escape_ascii c @ r) = prepend [c] (parse_string r)"
  using assms
proof (cases rule: escape_cases)
  case quoted
  then show ?thesis by (auto simp: parse_string.simps(2) unescape_simple_def)
next
  case (named e)
  then show ?thesis by (simp add: parse_string.simps(2))
next
  case hex
  have "unescape_u (hex4 (byte c) @ r) = Some ([c], r)"
  proof -
    have "drop 4 (hex4 (byte c) @ r) = r" by (simp add: hex4_def)
    then show ?thesis using assms by (simp add: unescape_u_def unhex4_hex4 utf8_encode_def Let_def)
  qed
  then show ?thesis using hex by (simp add: parse_string.simps(2) hex4_def)
next
  case plain
  then show ?thesis using assms by (simp add: parse_string.simps(2))
qed

lemma parse_escape:
  "valid_utf8 s \<Longrightarrow> parse_string (json_escape s @ r) = prepend s (parse_string r)"
proof (induction s rule: valid_utf8.induct)
  case 1
  then show ?case by (cases "parse_string r") (simp_all add: prepend_def)
next
  case (2 c s)
  have comp: "prepend a (prepend b x) = prepend (a @ b) x" for a b x
    by (cases x) (auto simp: prepend_def)
  let ?n = "rune_size (c # s)"
  have n: "?n \<noteq> 0" and v: "valid_utf8 (drop ?n (c # s))"
    using 2(2) by (auto simp: valid_utf8.simps(2) split: if_splits)
  note IH = 2(1)[OF n v]
  show ?case
  proof (cases "byte c < 128")
    case True
    then show ?thesis using IH by (simp add: json_escape.simps(2) parse_escape_ascii comp rune_size_ascii)
  next
    case high: False
    have c: "c \<noteq> CHR 0x22" "c \<noteq> CHR 0x5C" using high by auto
    have sep: "parse_string (CHR 0x5C # CHR ''u'' # h @ json_escape (drop ?n (c # s)) @ r)
        = prepend (c # s) (parse_string r)"
      if u: "\<And>x. unescape_u (h @ x) = Some (take ?n (c # s), x)" for h
      using IH comp by (simp add: parse_string.simps(2) u)
    have u28: "unescape_u (''2028'' @ x) = Some ([CHR 0xE2, CHR 0x80, CHR 0xA8], x)"
      "unescape_u (''2029'' @ x) = Some ([CHR 0xE2, CHR 0x80, CHR 0xA9], x)" for x
      using chr_byte[of "CHR 0xE2"] chr_byte[of "CHR 0x80"] chr_byte[of "CHR 0xA8"] chr_byte[of "CHR 0xA9"]
      by (simp_all add: unescape_u_def unhex4_def hex_value_def utf8_encode_def)
    have three: "?n = 3" if "take 3 (c # s) = [CHR 0xE2, CHR 0x80, x]" "cont x" for x
      using that by (cases s; cases "tl s") (auto simp: rune_size_def second_ok_def cont_def)
    show ?thesis
    proof (cases "take 3 (c # s) = [CHR 0xE2, CHR 0x80, CHR 0xA8]")
      case True
      then have "?n = 3" by (rule three) (simp add: cont_def)
      then show ?thesis using high True sep[of "''2028''"] u28(1) n by (simp add: json_escape.simps(2) Let_def)
    next
      case F28: False
      show ?thesis
      proof (cases "take 3 (c # s) = [CHR 0xE2, CHR 0x80, CHR 0xA9]")
        case True
        then have "?n = 3" by (rule three) (simp add: cont_def)
        then show ?thesis using high True F28 sep[of "''2029''"] u28(2) n by (simp add: json_escape.simps(2) Let_def)
      next
        case F29: False
        let ?t = "json_escape (drop ?n (c # s)) @ r"
        have esc: "json_escape (c # s) @ r = take ?n (c # s) @ ?t"
          using high F28 F29 n by (simp only: json_escape.simps(2) Let_def if_False append_assoc)
        obtain t' where t': "take ?n (c # s) @ ?t = c # t'" using n by (cases ?n) auto
        have "rune_size (c # t') = ?n" unfolding t'[symmetric] using n by (intro rune_size_append) auto
        then have parse: "parse_string (c # t') = prepend (take ?n (c # t')) (parse_string (drop ?n (c # t')))"
          using high c n by (simp add: parse_string.simps(2) Let_def)
        have "take ?n (c # t') = take ?n (c # s)" "drop ?n (c # t') = ?t"
          unfolding t'[symmetric] using rune_size_le[of "c # s"] by simp_all
        then have "parse_string (json_escape (c # s) @ r) =
            prepend (take ?n (c # s)) (prepend (drop ?n (c # s)) (parse_string r))"
          using parse esc t' IH by simp
        then show ?thesis by (simp only: comp append_take_drop_id)
      qed
    qed
  qed
qed

lemma parse_quoted: "valid_utf8 s \<Longrightarrow> parse_string (json_escape s @ CHR 0x22 # r) = Some (s, r)"
  by (simp add: parse_escape parse_string.simps(2) prepend_def)

text \<open>A number literal followed by something that cannot continue it.\<close>

definition delim :: "string \<Rightarrow> bool" where
  "delim r \<longleftrightarrow> (case r of [] \<Rightarrow> True | c # _ \<Rightarrow> c = CHR '','' \<or> c = CHR '']'' \<or> c = CHR ''}'')"

lemma delim_not_digit: "delim r \<Longrightarrow> r \<noteq> [] \<Longrightarrow> \<not> ascii_digit (hd r)"
  by (cases r) (auto simp: delim_def ascii_digit_def)

lemma scan_digits_append:
  assumes "scan_digits s = Some (a, b)" "delim r"
  shows "scan_digits (s @ r) = Some (a, b @ r)"
proof -
  have a: "a = takeWhile ascii_digit s" "b = dropWhile ascii_digit s" "a \<noteq> []"
    using assms(1) by (auto simp: scan_digits_def split: if_splits)
  have "takeWhile ascii_digit (s @ r) = a \<and> dropWhile ascii_digit (s @ r) = b @ r"
  proof (cases "\<forall>x\<in>set s. ascii_digit x")
    case True
    have r: "takeWhile ascii_digit r = []" "dropWhile ascii_digit r = r"
      using delim_not_digit[OF assms(2)] by (cases r; simp)+
    have "takeWhile ascii_digit s = s" "dropWhile ascii_digit s = []"
      using True by (simp_all add: takeWhile_eq_all_conv)
    then have "a = s" "b = []" using a(1,2) by simp_all
    then show ?thesis using True r by (simp add: takeWhile_append2 dropWhile_append2)
  next
    case False
    then obtain x where "x \<in> set s" "\<not> ascii_digit x" by blast
    then show ?thesis using a by (simp add: takeWhile_append1 dropWhile_append1)
  qed
  then show ?thesis using a(3) by (simp add: scan_digits_def)
qed

lemma prepend_append:
  "prepend p (scan_digits s) = Some (a, b) \<Longrightarrow> delim r \<Longrightarrow>
   prepend p (scan_digits (s @ r)) = Some (a, b @ r)"
  by (cases "scan_digits s") (auto simp: prepend_def scan_digits_append)

lemma scan_int_append:
  "scan_int s = Some (a, b) \<Longrightarrow> delim r \<Longrightarrow> scan_int (s @ r) = Some (a, b @ r)"
  by (cases s) (auto simp: scan_int_def scan_digits_append[of "_ # _", simplified] split: if_splits)

lemma scan_frac_append:
  assumes "scan_frac s = Some (a, b)" "delim r"
  shows "scan_frac (s @ r) = Some (a, b @ r)"
proof (cases s)
  case Nil
  then show ?thesis using assms by (cases r) (auto simp: scan_frac_def delim_def)
qed (use assms in \<open>auto simp: scan_frac_def prepend_append split: if_splits\<close>)

lemma scan_exp_append:
  assumes "scan_exp s = Some (a, b)" "delim r"
  shows "scan_exp (s @ r) = Some (a, b @ r)"
proof (cases s)
  case Nil
  then show ?thesis using assms by (cases r) (auto simp: scan_exp_def delim_def)
next
  case (Cons c t)
  then show ?thesis
    using assms prepend_append[of "[c]" t a b r]
    by (cases t) (auto simp: scan_exp_def prepend_append split: if_splits)
qed

lemma scan_number_append:
  assumes "scan_number s = Some (a, b)" "delim r"
  shows "scan_number (s @ r) = Some (a, b @ r)"
proof -
  define neg where "neg = (case s of c # _ \<Rightarrow> c = CHR ''-'' | [] \<Rightarrow> False)"
  let ?s = "if neg then tl s else s"
  obtain i s1 f s2 e s3 where i: "scan_int ?s = Some (i, s1)" and f: "scan_frac s1 = Some (f, s2)"
    and e: "scan_exp s2 = Some (e, s3)" and ab: "a = (if neg then ''-'' else []) @ i @ f @ e" "b = s3"
    using assms(1) by (auto simp: scan_number_def neg_def[symmetric] Let_def split: option.splits)
  have ne: "s \<noteq> []" using i by (cases s) (auto simp: scan_int_def neg_def)
  then have "(if neg then tl (s @ r) else s @ r) = ?s @ r"
    "(case s @ r of c # _ \<Rightarrow> c = CHR ''-'' | [] \<Rightarrow> False) = neg"
    by (auto simp: neg_def split: list.split)
  then show ?thesis
    using scan_int_append[OF i assms(2)] scan_frac_append[OF f assms(2)] scan_exp_append[OF e assms(2)]
    by (simp add: scan_number_def Let_def ab)
qed

definition number_literal :: "string \<Rightarrow> bool" where
  "number_literal x \<longleftrightarrow> scan_number x = Some (x, [])"

lemma number_literal_head:
  assumes "number_literal x"
  shows "\<exists>c t. x = c # t \<and> (ascii_digit c \<or> c = CHR ''-'')"
proof (cases x)
  case (Cons c t)
  have "ascii_digit c" if "c \<noteq> CHR ''-''"
  proof -
    have "scan_int x \<noteq> None" using assms that Cons
      by (auto simp: number_literal_def scan_number_def split: option.splits)
    then show ?thesis using Cons
      by (auto simp: scan_int_def scan_digits_def ascii_digit_def split: if_splits)
  qed
  then show ?thesis using Cons by blast
qed (use assms in \<open>simp add: number_literal_def scan_number_def scan_int_def\<close>)

lemma decimal_nat_length: "n < 10 ^ Suc w \<Longrightarrow> length (decimal_nat n) \<le> Suc w"
proof (induction w arbitrary: n)
  case 0 then show ?case by (simp add: decimal_nat.simps[of n])
next
  case (Suc w)
  show ?case
  proof (cases "n < 10")
    case True then show ?thesis by (simp add: decimal_nat.simps[of n])
  next
    case False
    have "n div 10 < 10 ^ Suc w" using Suc.prems by (simp add: less_mult_imp_div_less)
    from Suc.IH[OF this] show ?thesis using False by (simp add: decimal_nat.simps[of n])
  qed
qed

lemma decimal_nat_digits: "decimal_nat n \<noteq> [] \<and> list_all ascii_digit (decimal_nat n)"
proof (induction n rule: decimal_nat.induct)
  case (1 n)
  have d: "ascii_digit (''0123456789'' ! i)" if "i < 10" for i :: nat
  proof -
    have "i \<in> set [0..<10]" using that by simp
    then show ?thesis by (simp add: upt_rec[of 0] upt_rec[of "Suc _"]) (auto simp: ascii_digit_def)
  qed
  show ?case
    by (subst (1 2) decimal_nat.simps) (use 1 d in auto)
qed

lemma decimal_nat_no_zero: "n > 0 \<Longrightarrow> hd (decimal_nat n) \<noteq> CHR ''0''"
proof (induction n rule: decimal_nat.induct)
  case (1 n)
  show ?case
  proof (cases "n < 10")
    case True
    then have "n \<in> set [1..<10]" using 1(2) by simp
    then show ?thesis by (subst decimal_nat.simps) (simp add: upt_rec[of 1] upt_rec[of "Suc _"] True, auto)
  next
    case False
    then have "hd (decimal_nat (n div 10)) \<noteq> CHR ''0''" using 1 by auto
    then show ?thesis using False decimal_nat_digits[of "n div 10"] by (subst decimal_nat.simps) simp
  qed
qed

lemma decimal_nat_literal: "number_literal (decimal_nat n)"
proof -
  have d: "decimal_nat n \<noteq> []" "\<forall>x\<in>set (decimal_nat n). ascii_digit x"
    using decimal_nat_digits[of n] by (auto simp: list_all_iff)
  obtain c t where ct: "decimal_nat n = c # t" using d(1) by (cases "decimal_nat n") auto
  have c: "ascii_digit c" "\<forall>x\<in>set t. ascii_digit x" using d(2) ct by auto
  have "scan_int (c # t) = Some (c # t, [])"
  proof (cases "c = CHR ''0''")
    case True
    then have "n = 0" using decimal_nat_no_zero[of n] ct by (cases "n = 0") auto
    then show ?thesis using ct True by (subst (asm) decimal_nat.simps) (simp add: scan_int_def)
  next
    case False
    then show ?thesis using c
      by (simp add: scan_int_def scan_digits_def takeWhile_eq_all_conv)
  qed
  moreover have "c \<noteq> CHR ''-''" using c(1) by (auto simp: ascii_digit_def)
  ultimately show ?thesis
    by (simp add: number_literal_def ct scan_number_def scan_frac_def scan_exp_def Let_def)
qed

lemma decimal_literal: "number_literal (decimal z)"
proof (cases "z < 0")
  case True
  obtain c t where ct: "decimal_nat (nat (- z)) = c # t" "ascii_digit c"
    using decimal_nat_digits[of "nat (- z)"] by (cases "decimal_nat (nat (- z))") auto
  then have "c \<noteq> CHR ''-''" by (auto simp: ascii_digit_def)
  then show ?thesis using True decimal_nat_literal[of "nat (- z)"] ct(1)
    by (auto simp: decimal_def number_literal_def scan_number_def Let_def split: option.splits)
qed (simp add: decimal_def decimal_nat_literal)

text \<open>
  The values a Go program can hold: valid UTF-8, number literals, the members of an object
  under distinct keys (listed in key order), nesting within the parser's bound.
\<close>

fun clean :: "json \<Rightarrow> bool" where
  "clean (JStr s) \<longleftrightarrow> valid_utf8 s"
| "clean (JNum x) \<longleftrightarrow> number_literal x"
| "clean (JArr vs) \<longleftrightarrow> list_all clean vs"
| "clean (JObj kvs) \<longleftrightarrow> sorted (map fst kvs) \<and> list_all (\<lambda>(k, v). valid_utf8 k \<and> clean v) kvs"
| "clean _ \<longleftrightarrow> True"

fun depth :: "json \<Rightarrow> nat" where
  "depth (JArr vs) = Suc (foldr max (map depth vs) 0)"
| "depth (JObj kvs) = Suc (foldr max (map (\<lambda>(k, v). depth v) kvs) 0)"
| "depth _ = 0"

definition print_members :: "(string \<times> json) list \<Rightarrow> string" where
  "print_members kvs = join '','' (map (\<lambda>(k, v). json_quote k @ '':'' @ json_print v) kvs)"

lemma json_print_obj:
  assumes "sorted (map fst kvs)"
  shows "json_print (JObj kvs) = ''{'' @ print_members kvs @ ''}''"
proof -
  let ?ps = "map (\<lambda>(k, v). (k, json_print v)) kvs"
  have "map fst ?ps = map fst kvs" by (simp add: comp_def case_prod_unfold)
  then have "sort_key fst ?ps = ?ps" using assms by (intro sort_key_id_if_sorted) (simp only:)
  moreover have "map (\<lambda>(k, v). json_quote k @ '':'' @ v) ?ps =
      map (\<lambda>(k, v). json_quote k @ '':'' @ json_print v) kvs"
    by (simp add: comp_def case_prod_unfold)
  ultimately show ?thesis by (simp only: json_print.simps print_members_def)
qed

text \<open>Every printed value starts with a byte that is neither a space nor a closing bracket.\<close>

lemma json_print_head:
  "clean v \<Longrightarrow> \<exists>c t. json_print v = c # t \<and> \<not> json_space c \<and> c \<noteq> CHR '']''"
proof (cases v)
  case (JNum x)
  moreover assume "clean v"
  ultimately show ?thesis using number_literal_head[of x]
    by (auto simp: json_space_def ascii_digit_def)
qed (auto simp: json_space_def json_quote_def)

definition print_elems :: "json list \<Rightarrow> string" where
  "print_elems vs = join '','' (map json_print vs)"

lemma print_elems_Cons:
  "print_elems (v # w # vs) = json_print v @ CHR '','' # print_elems (w # vs)"
  "print_elems [v] = json_print v"
  by (simp_all add: print_elems_def)

lemma print_members_Cons:
  "print_members ((k, v) # w # kvs) =
     CHR 0x22 # json_escape k @ CHR 0x22 # CHR '':'' # json_print v @ CHR '','' # print_members (w # kvs)"
  "print_members [(k, v)] = CHR 0x22 # json_escape k @ CHR 0x22 # CHR '':'' # json_print v"
  by (simp_all add: print_members_def json_quote_def)

definition parses :: "json \<Rightarrow> bool" where
  "parses v \<longleftrightarrow> (\<forall>n d r. 2 * length (json_print v) \<le> Suc n \<and> d + depth v \<le> max_nesting \<and> delim r \<longrightarrow>
     parse_value n d (json_print v @ r) = Some (v, r))"

lemma skip_head [simp]: "\<not> json_space c \<Longrightarrow> skip (c # s) = c # s"
  by simp

lemma parse_elems_print:
  assumes "vs \<noteq> []" "\<forall>v\<in>set vs. parses v \<and> clean v"
    and "2 * length (print_elems vs) \<le> n" "\<forall>v\<in>set vs. d + depth v \<le> max_nesting"
  shows "parse_elems n d (print_elems vs @ CHR '']'' # r) = Some (vs, r)"
  using assms
proof (induction vs arbitrary: n)
  case (Cons v vs)
  obtain c t where head: "json_print v = c # t" using json_print_head Cons.prems(2) by fastforce
  show ?case
  proof (cases vs)
    case Nil
    then obtain m where n: "n = Suc m" "2 * length (json_print v) \<le> Suc m"
      using Cons.prems(3) head by (cases n) (auto simp: print_elems_Cons)
    then have "parse_value m d (json_print v @ CHR '']'' # r) = Some (v, CHR '']'' # r)"
      using Cons.prems by (auto simp: parses_def delim_def)
    then show ?thesis using n Nil by (simp add: print_elems_Cons json_space_def)
  next
    case (Cons w ws)
    then obtain m where n: "n = Suc m" "2 * length (json_print v) \<le> Suc m"
        "2 * length (print_elems vs) \<le> m"
      using Cons.prems(3) head by (cases n) (auto simp: print_elems_Cons)
    then have "parse_value m d (json_print v @ CHR '','' # print_elems vs @ CHR '']'' # r) =
        Some (v, CHR '','' # print_elems vs @ CHR '']'' # r)"
      using Cons.prems by (auto simp: parses_def delim_def)
    moreover have "parse_elems m d (print_elems vs @ CHR '']'' # r) = Some (vs, r)"
      using Cons.IH[OF _ _ n(3)] Cons Cons.prems by simp
    ultimately show ?thesis using n Cons by (simp add: print_elems_Cons json_space_def)
  qed
qed simp

lemma parse_members_print:
  assumes "kvs \<noteq> []" "\<forall>(k, v)\<in>set kvs. parses v \<and> clean v \<and> valid_utf8 k"
    and "2 * length (print_members kvs) \<le> n" "\<forall>(k, v)\<in>set kvs. d + depth v \<le> max_nesting"
  shows "parse_members n d (print_members kvs @ CHR ''}'' # r) = Some (kvs, r)"
  using assms
proof (induction kvs arbitrary: n)
  case (Cons kv kvs)
  obtain k v where kv: "kv = (k, v)" by (cases kv)
  have k: "valid_utf8 k" using Cons.prems(2) kv by simp
  show ?case
  proof (cases kvs)
    case Nil
    then obtain m where n: "n = Suc m" "2 * length (json_print v) \<le> Suc m"
      using Cons.prems(3) by (cases n) (auto simp: print_members_Cons kv)
    then have "parse_value m d (json_print v @ CHR ''}'' # r) = Some (v, CHR ''}'' # r)"
      using Cons.prems by (auto simp: parses_def delim_def kv)
    then show ?thesis using n Nil k
      by (simp add: print_members_Cons json_space_def kv parse_quoted)
  next
    case (Cons w ws)
    then obtain m where n: "n = Suc m" "2 * length (json_print v) \<le> Suc m"
        "2 * length (print_members kvs) \<le> m"
      using Cons.prems(3) by (cases n) (auto simp: print_members_Cons kv)
    then have "parse_value m d (json_print v @ CHR '','' # print_members kvs @ CHR ''}'' # r) =
        Some (v, CHR '','' # print_members kvs @ CHR ''}'' # r)"
      using Cons.prems by (auto simp: parses_def delim_def kv)
    moreover have "parse_members m d (print_members kvs @ CHR ''}'' # r) = Some (kvs, r)"
      using Cons.IH[OF _ _ n(3)] Cons Cons.prems by simp
    ultimately show ?thesis using n Cons k
      by (simp add: print_members_Cons json_space_def kv parse_quoted)
  qed
qed simp

lemma depth_arr: "v \<in> set vs \<Longrightarrow> Suc (depth v) \<le> depth (JArr vs)"
  by (induction vs) auto

lemma depth_obj: "(k, v) \<in> set kvs \<Longrightarrow> Suc (depth v) \<le> depth (JObj kvs)"
  by (induction kvs) auto

lemma print_elems_head:
  assumes "vs \<noteq> []" "\<forall>v\<in>set vs. clean v"
  shows "\<exists>c t. print_elems vs = c # t \<and> \<not> json_space c \<and> c \<noteq> CHR '']''"
proof -
  obtain v ws where vs: "vs = v # ws" using assms(1) by (cases vs) auto
  then obtain c t where "json_print v = c # t" "\<not> json_space c" "c \<noteq> CHR '']''"
    using json_print_head assms(2) by fastforce
  then show ?thesis using vs by (cases ws) (auto simp: print_elems_Cons)
qed

lemma parse_print_step:
  "clean v \<Longrightarrow> parses v"
proof (induction v)
  case JNull
  show ?case unfolding parses_def
    by (intro allI impI, case_tac n) (auto simp: json_space_def)
next
  case (JBool b)
  show ?case unfolding parses_def
    by (intro allI impI, case_tac n) (auto simp: json_space_def split: if_splits)
next
  case (JNum x)
  show ?case unfolding parses_def
  proof (intro allI impI)
    fix n d r assume n: "2 * length (json_print (JNum x)) \<le> Suc n \<and> d + depth (JNum x) \<le> max_nesting \<and> delim r"
    have lit: "number_literal x" using JNum by simp
    obtain c t where x: "x = c # t" "ascii_digit c \<or> c = CHR ''-''" using number_literal_head[OF lit] by blast
    have c: "\<not> json_space c" "c \<noteq> CHR 0x22" "c \<noteq> CHR ''[''" "c \<noteq> CHR ''{''" "c \<noteq> CHR ''n''"
        "c \<noteq> CHR ''t''" "c \<noteq> CHR ''f''"
      using x(2) by (auto simp: json_space_def ascii_digit_def)
    have "scan_number (c # t @ r) = Some (c # t, r)"
      using scan_number_append[of x x "[]" r] lit n x(1) by (simp add: number_literal_def)
    then show "parse_value n d (json_print (JNum x) @ r) = Some (JNum x, r)"
      using n c x(1) by (cases n) simp_all
  qed
next
  case (JStr s)
  then show ?case unfolding parses_def
    by (intro allI impI, case_tac n)
       (auto simp: json_space_def json_quote_def parse_quoted)
next
  case (JArr vs)
  show ?case unfolding parses_def
  proof (intro allI impI)
    fix n d r
    assume n: "2 * length (json_print (JArr vs)) \<le> Suc n \<and> d + depth (JArr vs) \<le> max_nesting \<and> delim r"
    then obtain m where m: "n = Suc m" by (cases n) auto
    have all: "\<forall>v\<in>set vs. parses v \<and> clean v" using JArr by (auto simp: list_all_iff)
    have pr: "json_print (JArr vs) = CHR ''['' # print_elems vs @ '']''" by (simp add: print_elems_def)
    have d: "d < max_nesting" "\<forall>v\<in>set vs. Suc d + depth v \<le> max_nesting"
      using n depth_arr[of _ vs] by fastforce+
    show "parse_value n d (json_print (JArr vs) @ r) = Some (JArr vs, r)"
    proof (cases "vs = []")
      case True
      then show ?thesis using m d by (simp add: json_space_def)
    next
      case False
      obtain c t where h: "print_elems vs = c # t" "\<not> json_space c" "c \<noteq> CHR '']''"
        using print_elems_head[OF False] all by blast
      have "parse_elems m (Suc d) (print_elems vs @ CHR '']'' # r) = Some (vs, r)"
        using n m pr d(2) by (intro parse_elems_print[OF False all]) auto
      then show ?thesis using h m d(1) unfolding pr by (simp add: json_space_def)
    qed
  qed
next
  case (JObj kvs)
  show ?case unfolding parses_def
  proof (intro allI impI)
    fix n d r
    assume n: "2 * length (json_print (JObj kvs)) \<le> Suc n \<and> d + depth (JObj kvs) \<le> max_nesting \<and> delim r"
    then obtain m where m: "n = Suc m" by (cases n) auto
    have all: "\<forall>(k, v)\<in>set kvs. parses v \<and> clean v \<and> valid_utf8 k"
      using JObj by (fastforce simp: list_all_iff)
    have pr: "json_print (JObj kvs) = CHR ''{'' # print_members kvs @ ''}''"
      using JObj.prems json_print_obj[of kvs] by simp
    have d: "d < max_nesting" "\<forall>(k, v)\<in>set kvs. Suc d + depth v \<le> max_nesting"
      using n depth_obj[of _ _ kvs] by fastforce+
    show "parse_value n d (json_print (JObj kvs) @ r) = Some (JObj kvs, r)"
    proof (cases "kvs = []")
      case True
      then show ?thesis using m d by (simp add: json_space_def)
    next
      case False
      obtain t where h: "print_members kvs = CHR 0x22 # t"
        using False by (cases kvs rule: remdups_adj.cases) (auto simp: print_members_Cons)
      have "parse_members m (Suc d) (print_members kvs @ CHR ''}'' # r) = Some (kvs, r)"
        using n m pr d(2) by (intro parse_members_print[OF False all]) auto
      then show ?thesis using h m d(1) unfolding pr by (simp add: json_space_def)
    qed
  qed
qed

theorem json_round_trip:
  assumes "clean v" "depth v \<le> max_nesting"
  shows "json_parse (json_print v) = Some v"
proof -
  have "parse_value (2 * length (json_print v) + 2) 0 (json_print v @ []) = Some (v, [])"
    using parse_print_step[OF assms(1), unfolded parses_def, rule_format,
        of "2 * length (json_print v) + 2" 0 "[]"] assms(2) by (simp only: delim_def) simp
  then show ?thesis by (simp add: json_parse_def)
qed

section \<open>Decoding into Go types\<close>

text \<open>\<open>map[string]json.RawMessage\<close>: the member under a name, compared exactly; the last wins.
  A top-level null leaves the map nil.\<close>

definition object_members :: "json \<Rightarrow> (string \<times> json) list option" where
  "object_members v = (case v of JObj kvs \<Rightarrow> Some kvs | JNull \<Rightarrow> Some [] | _ \<Rightarrow> None)"

definition last_member :: "string \<Rightarrow> (string \<times> json) list \<Rightarrow> json option" where
  "last_member name kvs = map_of (rev kvs) name"

text \<open>A string target: null leaves it as it was.\<close>

definition decode_string :: "json \<Rightarrow> string \<Rightarrow> string option" where
  "decode_string v old = (case v of JStr s \<Rightarrow> Some s | JNull \<Rightarrow> Some old | _ \<Rightarrow> None)"

text \<open>An \<open>int64\<close> target: a plain decimal literal in range.\<close>

definition digits_value :: "string \<Rightarrow> nat" where
  "digits_value ds = foldl (\<lambda>n c. n * 10 + (byte c - 48)) 0 ds"

definition parse_int64 :: "string \<Rightarrow> int option" where
  "parse_int64 x =
     (let neg = (case x of c # _ \<Rightarrow> c = CHR ''-'' | [] \<Rightarrow> False);
          ds = (if neg then tl x else x);
          n = (if neg then - int (digits_value ds) else int (digits_value ds))
      in if ds = [] \<or> \<not> list_all ascii_digit ds \<or> \<not> is_int64 n then None else Some n)"

definition decode_int64 :: "json \<Rightarrow> int \<Rightarrow> int option" where
  "decode_int64 v old = (case v of JNum x \<Rightarrow> parse_int64 x | JNull \<Rightarrow> Some old | _ \<Rightarrow> None)"

text \<open>The struct field a member goes to: an exact match first, else the first that folds alike.\<close>

definition struct_field :: "string list \<Rightarrow> string \<Rightarrow> string option" where
  "struct_field names k = (if k \<in> set names then Some k
     else find (\<lambda>f. fold_name f = fold_name k) names)"

lemma digits_value_snoc: "digits_value (ds @ [c]) = digits_value ds * 10 + (byte c - 48)"
  by (simp add: digits_value_def)

lemma digit_char: "i < 10 \<Longrightarrow> byte (''0123456789'' ! i) = 48 + i"
proof -
  assume "i < 10"
  then have "i \<in> set [0..<10]" by simp
  then have "i = 0 \<or> i = 1 \<or> i = 2 \<or> i = 3 \<or> i = 4 \<or> i = 5 \<or> i = 6 \<or> i = 7 \<or> i = 8 \<or> i = 9"
    by auto
  then show ?thesis by (elim disjE) simp_all
qed

lemma digits_value_decimal: "digits_value (decimal_nat n) = n"
proof (induction n rule: decimal_nat.induct)
  case (1 n)
  show ?case
  proof (cases "n < 10")
    case True
    have "digits_value [''0123456789'' ! n] = n"
      unfolding digits_value_def using digit_char[OF True] by simp
    then show ?thesis using True by (subst decimal_nat.simps) (simp only: if_True)
  next
    case False
    have "digits_value (decimal_nat (n div 10) @ [''0123456789'' ! (n mod 10)]) = n"
      unfolding digits_value_snoc using 1[OF False] digit_char[of "n mod 10"] by simp
    then show ?thesis using False by (subst decimal_nat.simps) (simp only: if_False)
  qed
qed

lemma parse_int64_decimal: "is_int64 z \<Longrightarrow> parse_int64 (decimal z) = Some z"
proof -
  assume z: "is_int64 z"
  obtain c t where ct: "decimal_nat (nat z) = c # t" "ascii_digit c"
    using decimal_nat_digits[of "nat z"] by (cases "decimal_nat (nat z)") auto
  then have "c \<noteq> CHR ''-''" by (auto simp: ascii_digit_def)
  then show ?thesis
    using z ct decimal_nat_digits[of "nat z"] decimal_nat_digits[of "nat (- z)"]
      digits_value_decimal[of "nat z"] digits_value_decimal[of "nat (- z)"]
    by (auto simp: parse_int64_def decimal_def Let_def)
qed

end
