(* ===== verification/Token.thy ===== *)
theory Token
  imports Environment Json "HOL-Library.Monad_Syntax"
begin

text \<open>
  \<open>token.go\<close>: the HS256 tokens. Claims travel as a JSON object; decoding into the
  \<open>tokenClaims\<close> struct follows \<open>encoding/json\<close>, whose field matching is case-insensitive. What a
  \<open>BuildTokenClaims\<close> hook returns is a JSON object (a Go value \<open>json.Marshal\<close> refuses, such as a
  channel, is not modelled). Instants are unbounded; \<open>time.Unix\<close> wraps as in Go.
\<close>

definition tokenAlg :: string where "tokenAlg = ''HS256''"
definition tokenTypeTemp :: string where "tokenTypeTemp = ''temp''"
definition tokenTypeAccess :: string where "tokenTypeAccess = ''access''"
definition tokenTypeRefresh :: string where "tokenTypeRefresh = ''refresh''"

record tokenClaims =
  tc_Sub :: string
  tc_Sid :: string
  tc_Tid :: string
  tc_Jti :: string
  tc_Typ :: string
  tc_Iss :: string
  tc_Iat :: int
  tc_Exp :: int

definition reservedClaimNames :: "string list" where
  "reservedClaimNames = [''sid'', ''tid'', ''jti'', ''typ'', ''iss'', ''iat'', ''exp'']"

definition isReservedClaim :: "string \<Rightarrow> bool" where
  "isReservedClaim name = list_ex (\<lambda>reserved. name = reserved) reservedClaimNames"

section \<open>Issuing\<close>

definition jwt_header :: string where
  "jwt_header = json_print (JObj [(''alg'', JStr tokenAlg), (''typ'', JStr ''JWT'')])"

definition buildHS256JWT :: "crypto \<Rightarrow> json_object \<Rightarrow> string \<Rightarrow> string" where
  "buildHS256JWT c claims secret =
     (let header = base64url_encode jwt_header;
          payload = base64url_encode (json_print (json_of_object claims));
          sigInput = header @ ''.'' @ payload
      in sigInput @ ''.'' @ sign c sigInput secret)"

definition base_claims :: "User \<Rightarrow> json_object" where
  "base_claims user = fmap_of_list [
     (''sub'', JStr (u_ID user)),
     (''email'', JStr (u_Email user)),
     (''role'', JStr (u_Role user)),
     (''loginProvider'', JStr (loginProviderOrLocal user)),
     (''isEmailVerified'', JBool (u_IsEmailVerified user)),
     (''isTotpEnabled'', JBool (u_IsTOTPEnabled user))]"

text \<open>The base claims, the hook's spread over them, the reserved ones written last.\<close>

definition payload_claims ::
    "Config \<Rightarrow> User \<Rightarrow> json_object \<Rightarrow> string \<Rightarrow> string \<Rightarrow> string \<Rightarrow> time \<Rightarrow> time \<Rightarrow> json_object" where
  "payload_claims cfg user custom sid jti typ now expiresAt =
     fmupd ''exp'' (JNum (decimal (unix_of expiresAt)))
    (fmupd ''iat'' (JNum (decimal (unix_of now)))
    (fmupd ''iss'' (JStr (cf_Issuer cfg))
    (fmupd ''typ'' (JStr typ)
    (fmupd ''jti'' (JStr jti)
    (fmupd ''tid'' (JStr (u_TenantID user))
    (fmupd ''sid'' (JStr sid)
      (fmadd (base_claims user) custom)))))))"

definition custom_claims :: "env \<Rightarrow> User \<Rightarrow> json_object action" where
  "custom_claims v user = (case e_claims v of
     None \<Rightarrow> ret fmempty
   | Some h \<Rightarrow> mapErr (Wrapped ''auth: build token claims'') (hook (\<lambda>k. h k user)))"

definition issueToken ::
    "env \<Rightarrow> User \<Rightarrow> string \<Rightarrow> string \<Rightarrow> duration \<Rightarrow> (string \<times> time) action" where
  "issueToken v user sessionID tokenType ttl =
     thenDo (clock v) (\<lambda>now.
     let expiresAt = now + ttl in
     thenDo (draw (newID (e_crypto v) ''jti'')) (\<lambda>jti.
     thenDo (custom_claims v user) (\<lambda>custom.
     ret (buildHS256JWT (e_crypto v)
            (payload_claims (e_cfg v) user custom sessionID jti tokenType now expiresAt)
            (cf_Secret (e_cfg v)), expiresAt))))"

section \<open>Parsing\<close>

text \<open>The \<open>alg\<close> member of the header, matched exactly.\<close>

definition headerAlg :: "string \<Rightarrow> string option" where
  "headerAlg rawHeader = do {
     h \<leftarrow> json_parse rawHeader;
     members \<leftarrow> object_members h;
     rawAlg \<leftarrow> last_member ''alg'' members;
     decode_string rawAlg []
   }"

definition claim_names :: "string list" where
  "claim_names = [''sub'', ''sid'', ''tid'', ''jti'', ''typ'', ''iss'', ''iat'', ''exp'']"

text \<open>The members that land in a struct field, in document order; each overwrites the last.\<close>

definition values_for :: "string \<Rightarrow> (string \<times> json) list \<Rightarrow> json list" where
  "values_for f kvs = map snd (filter (\<lambda>kv. struct_field claim_names (fst kv) = Some f) kvs)"

fun decode_each :: "(json \<Rightarrow> 'a \<Rightarrow> 'a option) \<Rightarrow> json list \<Rightarrow> 'a \<Rightarrow> 'a option" where
  "decode_each d [] x = Some x"
| "decode_each d (v # vs) x = (case d v x of None \<Rightarrow> None | Some y \<Rightarrow> decode_each d vs y)"

definition decode_claims :: "(string \<times> json) list \<Rightarrow> tokenClaims option" where
  "decode_claims kvs = do {
     sub \<leftarrow> decode_each decode_string (values_for ''sub'' kvs) [];
     sid \<leftarrow> decode_each decode_string (values_for ''sid'' kvs) [];
     tid \<leftarrow> decode_each decode_string (values_for ''tid'' kvs) [];
     jti \<leftarrow> decode_each decode_string (values_for ''jti'' kvs) [];
     typ \<leftarrow> decode_each decode_string (values_for ''typ'' kvs) [];
     iss \<leftarrow> decode_each decode_string (values_for ''iss'' kvs) [];
     iat \<leftarrow> decode_each decode_int64 (values_for ''iat'' kvs) 0;
     ex \<leftarrow> decode_each decode_int64 (values_for ''exp'' kvs) 0;
     Some \<lparr>tc_Sub = sub, tc_Sid = sid, tc_Tid = tid, tc_Jti = jti, tc_Typ = typ, tc_Iss = iss,
           tc_Iat = iat, tc_Exp = ex\<rparr>
   }"

definition unmarshal_claims :: "string \<Rightarrow> tokenClaims option" where
  "unmarshal_claims raw = do {
     v \<leftarrow> json_parse raw;
     kvs \<leftarrow> object_members v;
     decode_claims kvs
   }"

text \<open>The steps before the clock is read: shape, algorithm, signature, payload.\<close>

definition verified_claims :: "crypto \<Rightarrow> Config \<Rightarrow> string \<Rightarrow> tokenClaims option" where
  "verified_claims c cfg token = (case splitToken token of
     Inl _ \<Rightarrow> None
   | Inr (header, payload, sig) \<Rightarrow> do {
       rawHeader \<leftarrow> base64url_decode header;
       alg \<leftarrow> headerAlg rawHeader;
       if alg \<noteq> tokenAlg then None
       else if \<not> secureEqual (sign c (header @ ''.'' @ payload) (cf_Secret cfg)) sig then None
       else do {
         raw \<leftarrow> base64url_decode payload;
         unmarshal_claims raw
       }
     })"

text \<open>\<open>time.Unix(sec, 0)\<close>: the seconds are counted from year 1 in 64 bits.\<close>

definition unix_time :: "int \<Rightarrow> time" where
  "unix_time sec = time_of_unix (wrap64 (sec + 62135596800) - 62135596800)"

definition expired :: "Config \<Rightarrow> time \<Rightarrow> tokenClaims \<Rightarrow> bool" where
  "expired cfg now claims \<longleftrightarrow> now > unix_time (tc_Exp claims) + cf_ClockSkew cfg"

definition parseToken :: "env \<Rightarrow> string \<Rightarrow> string \<Rightarrow> tokenClaims action" where
  "parseToken v token expectedType = (case verified_claims (e_crypto v) (e_cfg v) token of
     None \<Rightarrow> failS ErrInvalidToken
   | Some claims \<Rightarrow>
       thenDo (clock v) (\<lambda>now.
       if tc_Iss claims \<noteq> cf_Issuer (e_cfg v) \<or> tc_Typ claims \<noteq> expectedType then failS ErrInvalidToken
       else if expired (e_cfg v) now claims then failS ErrInvalidToken
       else ret claims))"

section \<open>What a parsed token is\<close>

lemma parseToken_Ok:
  "parseToken v token ty w = (Ok claims, w') \<longleftrightarrow>
     verified_claims (e_crypto v) (e_cfg v) token = Some claims \<and>
     tc_Iss claims = cf_Issuer (e_cfg v) \<and> tc_Typ claims = ty \<and>
     \<not> expired (e_cfg v) (e_clock v (w_tick w)) claims \<and> w' = w\<lparr>w_tick := Suc (w_tick w)\<rparr>"
  by (auto simp: parseToken_def clock_def action_Ok split: option.splits)

lemma parseToken_error: "parseToken v token ty w = (Inl e, w') \<Longrightarrow> e = Sentinel ErrInvalidToken"
  by (auto simp: parseToken_def thenDo_def clock_def tick_def failWith_def ret_def
      split: option.splits if_splits)

lemma keeps_parseToken [frames]:
  "(\<And>w k. f (w\<lparr>w_tick := k\<rparr>) = f w) \<Longrightarrow> keeps f (parseToken v token ty)"
  unfolding parseToken_def Let_def by (intro frames) auto

lemma keeps_issueToken [frames]:
  "(\<And>w k. f (w\<lparr>w_tick := k\<rparr>) = f w) \<Longrightarrow> keeps f (issueToken v u sid ty ttl)"
  unfolding issueToken_def custom_claims_def Let_def by (intro frames) auto

text \<open>A verified token carries the MAC of its own header and payload under the configured
  secret, and a header whose \<open>alg\<close> member is HS256: \<open>none\<close> is never accepted.\<close>

lemma verified_claims_sound:
  assumes "verified_claims c cfg token = Some claims"
  shows "\<exists>h p. token = h @ ''.'' @ p @ ''.'' @ sign c (h @ ''.'' @ p) (cf_Secret cfg) \<and>
    Option.bind (base64url_decode h) headerAlg = Some tokenAlg \<and>
    Option.bind (base64url_decode p) unmarshal_claims = Some claims"
proof -
  obtain h p s where t: "splitToken token = Ok (h, p, s)"
    using assms by (auto simp: verified_claims_def split: sum.splits)
  then have "s = sign c (h @ ''.'' @ p) (cf_Secret cfg)"
    "Option.bind (base64url_decode h) headerAlg = Some tokenAlg"
    "Option.bind (base64url_decode p) unmarshal_claims = Some claims"
    using assms by (auto simp: verified_claims_def split: sum.splits Option.bind_splits if_splits)
  then show ?thesis using splitToken_Ok[OF t] by auto
qed

section \<open>Issued tokens parse back\<close>

text \<open>What a hook may return without reaching a field of the parsed claims: no name that the
  struct decoding would fold onto one.\<close>

definition harmless :: "json_object \<Rightarrow> bool" where
  "harmless m \<longleftrightarrow>
     fmpred (\<lambda>k _. k \<in> set reservedClaimNames \<or> struct_field claim_names k = None) m"

text \<open>Values \<open>json.Marshal\<close> reproduces: valid UTF-8, nesting within the decoder's bound.\<close>

definition printable :: "json_object \<Rightarrow> bool" where
  "printable m \<longleftrightarrow> fmpred (\<lambda>k x. valid_utf8 k \<and> clean x \<and> depth x < max_nesting) m"

lemma foldr_max_le: "foldr max xs (0::nat) \<le> n \<longleftrightarrow> (\<forall>x\<in>set xs. x \<le> n)"
  by (induction xs) auto

lemma printable_round_trip:
  assumes "printable m"
  shows "json_parse (json_print (json_of_object m)) = Some (JObj (sorted_list_of_fmap m))"
proof -
  have k: "fmlookup m k = Some x \<Longrightarrow> valid_utf8 k \<and> clean x \<and> depth x < max_nesting" for k x
    using assms by (auto simp: printable_def)
  have "clean (json_of_object m)"
    using k sorted_range_keys[of m] by (auto simp: json_of_object_def range_keys_def list_all_iff)
  moreover have "depth (json_of_object m) \<le> max_nesting"
    using k by (fastforce simp: json_of_object_def max_nesting_def foldr_max_le Suc_le_eq less_Suc_eq_le
        simp flip: Suc_le_eq)
  ultimately have "json_parse (json_print (json_of_object m)) = Some (json_of_object m)"
    by (rule json_round_trip)
  then show ?thesis by (simp only: json_of_object_def)
qed

lemma map_of_sorted_fmap: "map_of (sorted_list_of_fmap m) k = fmlookup m k"
proof (cases "fmlookup m k")
  case None
  then show ?thesis by (auto simp: map_of_eq_None_iff image_iff)
next
  case (Some x)
  then show ?thesis
    using distinct_range_keys[of m] by (simp add: range_keys_def)
qed

lemma filter_key:
  "distinct (map fst xs) \<Longrightarrow>
   map snd (filter (\<lambda>kv. fst kv = k) xs) = (case map_of xs k of None \<Rightarrow> [] | Some x \<Rightarrow> [x])"
proof (induction xs)
  case (Cons kv xs)
  have "fst kv \<notin> fst ` set xs \<Longrightarrow> filter (\<lambda>p. fst p = fst kv) xs = []"
    by (induction xs) auto
  with Cons show ?case by auto
qed simp

lemma values_for_fmap:
  assumes "fmpred (\<lambda>k _. struct_field claim_names k = Some f \<longleftrightarrow> k = f) m"
  shows "values_for f (sorted_list_of_fmap m) = (case fmlookup m f of None \<Rightarrow> [] | Some x \<Rightarrow> [x])"
proof -
  have "filter (\<lambda>kv. struct_field claim_names (fst kv) = Some f) (sorted_list_of_fmap m)
      = filter (\<lambda>kv. fst kv = f) (sorted_list_of_fmap m)"
    using assms by (intro filter_cong) auto
  then show ?thesis
    using distinct_range_keys[of m]
    by (simp add: values_for_def filter_key range_keys_def map_of_sorted_fmap)
qed

lemma struct_field_exact: "f \<in> set claim_names \<Longrightarrow> struct_field claim_names f = Some f"
  by (simp add: struct_field_def)

lemma base_names_not_fields:
  "struct_field claim_names ''email'' = None" "struct_field claim_names ''role'' = None"
  "struct_field claim_names ''loginProvider'' = None"
  "struct_field claim_names ''isEmailVerified'' = None"
  "struct_field claim_names ''isTotpEnabled'' = None"
  by code_simp+

lemma lookup_other: "k \<noteq> f \<Longrightarrow> fmlookup (fmupd f x m) k = fmlookup m k"
  by simp

lemma payload_fields:
  assumes "harmless custom" "f \<in> set claim_names"
  shows "fmpred (\<lambda>k _. struct_field claim_names k = Some f \<longleftrightarrow> k = f)
           (payload_claims cfg user custom sid jti typ now ex)"
proof -
  have names: "k \<in> set claim_names \<or> struct_field claim_names k = None"
    if "fmlookup (payload_claims cfg user custom sid jti typ now ex) k \<noteq> None" for k
  proof -
    have dom: "k \<notin> set claim_names \<Longrightarrow> fmlookup (fmadd (base_claims user) custom) k \<noteq> None"
      using that unfolding payload_claims_def claim_names_def
      by (simp add: lookup_other del: fmupd_lookup fmlookup_add)
    consider "k \<in> set claim_names" | "fmlookup (base_claims user) k \<noteq> None" | "fmlookup custom k \<noteq> None"
      using dom by (cases "k \<in> set claim_names") (auto split: if_split_asm)
    then show ?thesis
    proof cases
      case 2
      then have "k \<in> {''sub'', ''email'', ''role'', ''loginProvider'', ''isEmailVerified'', ''isTotpEnabled''}"
        unfolding base_claims_def fmlookup_of_list map_of_eq_None_iff by auto
      moreover have "''sub'' \<in> set claim_names" by (simp add: claim_names_def)
      ultimately show ?thesis using base_names_not_fields by auto
    next
      case 3
      then have "k \<in> set reservedClaimNames \<or> struct_field claim_names k = None"
        using assms(1) by (auto simp: harmless_def fmpred_iff)
      moreover have "set reservedClaimNames \<subseteq> set claim_names"
        by (simp add: reservedClaimNames_def claim_names_def)
      ultimately show ?thesis by (auto dest: subsetD)
    qed simp
  qed
  have "struct_field claim_names k = Some f \<longleftrightarrow> k = f"
    if "fmlookup (payload_claims cfg user custom sid jti typ now ex) k = Some x" for k x
  proof -
    have "k \<in> set claim_names \<or> struct_field claim_names k = None"
      by (rule names) (simp add: that)
    then show ?thesis using assms(2) struct_field_exact[of k] struct_field_exact[of f] by auto
  qed
  then show ?thesis by (simp add: fmpred_iff)
qed


text \<open>The claims an issued token carries.\<close>

definition issued_claims :: "Config \<Rightarrow> User \<Rightarrow> string \<Rightarrow> string \<Rightarrow> string \<Rightarrow> time \<Rightarrow> time \<Rightarrow> tokenClaims" where
  "issued_claims cfg user sid jti typ now ex = \<lparr>tc_Sub = u_ID user, tc_Sid = sid,
     tc_Tid = u_TenantID user, tc_Jti = jti, tc_Typ = typ, tc_Iss = cf_Issuer cfg,
     tc_Iat = unix_of now, tc_Exp = unix_of ex\<rparr>"

lemma harmless_sub: "harmless m \<Longrightarrow> fmlookup m ''sub'' = None"
proof (rule ccontr)
  assume h: "harmless m" and "fmlookup m ''sub'' \<noteq> None"
  then have "''sub'' \<in> set reservedClaimNames \<or> struct_field claim_names ''sub'' = None"
    by (auto simp: harmless_def fmpred_iff)
  then show False
    using struct_field_exact[of "''sub''"] by (simp add: reservedClaimNames_def claim_names_def)
qed

lemma decode_payload:
  assumes h: "harmless custom" and n: "is_int64 (unix_of now)" "is_int64 (unix_of ex)"
  shows "decode_claims (sorted_list_of_fmap (payload_claims cfg user custom sid jti typ now ex))
    = Some (issued_claims cfg user sid jti typ now ex)"
proof -
  let ?m = "payload_claims cfg user custom sid jti typ now ex"
  have "fmlookup (fmadd (base_claims user) custom) ''sub'' = Some (JStr (u_ID user))"
    using harmless_sub[OF h] by (simp add: base_claims_def fmlookup_dom_iff fmlookup_of_list)
  then have m: "fmlookup ?m ''sub'' = Some (JStr (u_ID user))" "fmlookup ?m ''sid'' = Some (JStr sid)"
    "fmlookup ?m ''tid'' = Some (JStr (u_TenantID user))" "fmlookup ?m ''jti'' = Some (JStr jti)"
    "fmlookup ?m ''typ'' = Some (JStr typ)" "fmlookup ?m ''iss'' = Some (JStr (cf_Issuer cfg))"
    "fmlookup ?m ''iat'' = Some (JNum (decimal (unix_of now)))"
    "fmlookup ?m ''exp'' = Some (JNum (decimal (unix_of ex)))"
    by (simp_all add: payload_claims_def del: fmlookup_add)
  have v: "values_for f (sorted_list_of_fmap ?m) = (case fmlookup ?m f of None \<Rightarrow> [] | Some x \<Rightarrow> [x])"
    if "f \<in> set claim_names" for f
    by (rule values_for_fmap[OF payload_fields[OF h that]])
  show ?thesis
    using n unfolding decode_claims_def issued_claims_def
    by (simp add: v m claim_names_def decode_string_def decode_int64_def parse_int64_decimal)
qed

lemma header_parses: "Option.bind (base64url_decode (base64url_encode jwt_header)) headerAlg = Some tokenAlg"
proof -
  have "clean (JObj [(''alg'', JStr tokenAlg), (''typ'', JStr ''JWT'')])" by code_simp
  moreover have "depth (JObj [(''alg'', JStr tokenAlg), (''typ'', JStr ''JWT'')]) \<le> max_nesting"
    by (simp add: max_nesting_def)
  ultimately have "json_parse jwt_header = Some (JObj [(''alg'', JStr tokenAlg), (''typ'', JStr ''JWT'')])"
    unfolding jwt_header_def by (rule json_round_trip)
  then show ?thesis
    by (simp add: base64url_round_trip headerAlg_def object_members_def last_member_def decode_string_def)
qed

lemma verified_built:
  assumes "printable m"
  shows "verified_claims c cfg (buildHS256JWT c m (cf_Secret cfg)) = decode_claims (sorted_list_of_fmap m)"
proof -
  have "splitToken (buildHS256JWT c m (cf_Secret cfg)) =
      Ok (base64url_encode jwt_header, base64url_encode (json_print (json_of_object m)),
        sign c (base64url_encode jwt_header @ ''.'' @ base64url_encode (json_print (json_of_object m)))
          (cf_Secret cfg))"
    using splitToken_parts[OF base64url_no_dot base64url_no_dot, of _ jwt_header]
    by (simp add: buildHS256JWT_def Let_def sign_def base64url_no_dot)
  then show ?thesis
    using header_parses printable_round_trip[OF assms]
    by (simp add: verified_claims_def base64url_round_trip unmarshal_claims_def object_members_def)
qed

text \<open>An issue that succeeded: the instant it read, the id it drew, what the hook answered.\<close>

lemma issueToken_Ok:
  "issueToken v user sid typ ttl w = (Ok (token, ex), w') \<longleftrightarrow>
     (\<exists>jti k custom. newID (e_crypto v) ''jti'' (Suc (w_tick w)) = (Ok jti, k) \<and>
        custom_claims v user (w\<lparr>w_tick := k\<rparr>) = (Ok custom, w') \<and>
        ex = e_clock v (w_tick w) + ttl \<and>
        token = buildHS256JWT (e_crypto v) (payload_claims (e_cfg v) user custom sid jti typ
          (e_clock v (w_tick w)) ex) (cf_Secret (e_cfg v)))"
  by (auto simp: issueToken_def action_Ok Let_def clock_def)

text \<open>The hook's answers are harmless and printable, and so are the user's own strings.\<close>

definition hook_ok :: "env \<Rightarrow> User \<Rightarrow> bool" where
  "hook_ok v user \<longleftrightarrow> (\<forall>h. e_claims v = Some h \<longrightarrow>
     (\<forall>k custom. h k user = Ok custom \<longrightarrow> harmless custom \<and> printable custom))"

definition user_printable :: "User \<Rightarrow> bool" where
  "user_printable u \<longleftrightarrow> valid_utf8 (u_ID u) \<and> valid_utf8 (u_Email u) \<and> valid_utf8 (u_Role u) \<and>
     valid_utf8 (u_LoginProvider u) \<and> valid_utf8 (u_TenantID u)"

text \<open>Instants within reach of \<open>time.Unix\<close>.\<close>

definition plausible :: "time \<Rightarrow> bool" where
  "plausible t \<longleftrightarrow> is_int64 (unix_of t + 62135596800) \<and> is_int64 (unix_of t)"

lemma unix_time_plausible: "plausible t \<Longrightarrow> unix_time (unix_of t) = time_of_unix (unix_of t)"
  by (simp add: plausible_def unix_time_def wrap64_id)

lemma custom_claims_ok:
  assumes "hook_ok v user" "custom_claims v user w = (Ok custom, w')"
  shows "harmless custom" "printable custom"
  using assms
  by (auto simp: custom_claims_def hook_ok_def action_Ok harmless_def printable_def split: option.splits)

lemma hex_digit_ascii: "i < 16 \<Longrightarrow> byte (hex_alphabet ! i) < 128"
proof -
  assume "i < 16"
  then have "i \<in> set [0..<16]" by simp
  moreover have "list_all (\<lambda>i. byte (hex_alphabet ! i) < 128) [0..<16]" by code_simp
  ultimately show ?thesis by (simp only: list_all_iff)
qed

lemma hex_encode_below_128: "c \<in> set (hex_encode bs) \<Longrightarrow> byte c < 128"
proof -
  assume "c \<in> set (hex_encode bs)"
  then obtain b where "c = hex_alphabet ! (byte b div 16) \<or> c = hex_alphabet ! (byte b mod 16)"
    by (auto simp: hex_encode_def)
  moreover have "byte b div 16 < 16" by (rule less_mult_imp_div_less) simp
  ultimately show ?thesis using hex_digit_ascii by fastforce
qed

lemma valid_utf8_jti: "newID c ''jti'' k = (Ok jti, k') \<Longrightarrow> valid_utf8 jti"
  by (rule ascii_valid) (auto simp: newID_Ok hex_encode_below_128)


lemma printable_payload:
  assumes "user_printable user" "valid_utf8 sid" "valid_utf8 jti" "valid_utf8 typ"
    "valid_utf8 (cf_Issuer cfg)" "printable custom"
  shows "printable (payload_claims cfg user custom sid jti typ now ex)"
proof -
  have names: "list_all valid_utf8 [''sub'', ''email'', ''role'', ''loginProvider'',
      ''isEmailVerified'', ''isTotpEnabled'', ''sid'', ''tid'', ''jti'', ''typ'', ''iss'', ''iat'', ''exp'']"
    by code_simp
  have s: "clean (JStr x) \<and> depth (JStr x) < max_nesting" if "valid_utf8 x" for x
    using that by (simp add: max_nesting_def)
  have n: "clean (JNum (decimal z)) \<and> depth (JNum (decimal z)) < max_nesting" for z
    by (simp add: max_nesting_def decimal_literal)
  have b: "clean (JBool x) \<and> depth (JBool x) < max_nesting" for x
    by (simp add: max_nesting_def)
  have l: "valid_utf8 (loginProviderOrLocal user)"
    using assms(1) ascii_valid[of "''local''"]
    by (simp add: loginProviderOrLocal_def user_printable_def LoginProviderLocal_def)
  have "printable (base_claims user)"
    using assms(1) names l s b
    unfolding printable_def base_claims_def user_printable_def
    by (auto simp del: clean.simps depth.simps intro!: fmpred_upd)
  then show ?thesis
    using assms names s n
    unfolding printable_def payload_claims_def user_printable_def
    by (auto simp del: clean.simps depth.simps intro!: fmpred_upd fmpred_add)
qed

text \<open>An issued token carries exactly the claims of its issue; so two issues whose ids come from
  different reads of randomness never give the same token.\<close>

lemma verified_issued:
  assumes issue: "issueToken v user sid typ ttl w = (Ok (token, ex), w1)"
    and ok: "hook_ok v user" "user_printable user" "valid_utf8 sid" "valid_utf8 typ"
      "valid_utf8 (cf_Issuer (e_cfg v))"
    and times: "plausible (e_clock v (w_tick w))" "plausible ex"
  obtains jti k where "newID (e_crypto v) ''jti'' (Suc (w_tick w)) = (Ok jti, k)"
    "verified_claims (e_crypto v) (e_cfg v) token =
      Some (issued_claims (e_cfg v) user sid jti typ (e_clock v (w_tick w)) ex)"
proof -
  obtain jti k custom where jti: "newID (e_crypto v) ''jti'' (Suc (w_tick w)) = (Ok jti, k)"
    and custom: "custom_claims v user (w\<lparr>w_tick := k\<rparr>) = (Ok custom, w1)"
    and token: "token = buildHS256JWT (e_crypto v) (payload_claims (e_cfg v) user custom sid jti typ
      (e_clock v (w_tick w)) ex) (cf_Secret (e_cfg v))"
    using issue by (auto simp: issueToken_Ok)
  note c = custom_claims_ok[OF ok(1) custom]
  have "verified_claims (e_crypto v) (e_cfg v) token =
      Some (issued_claims (e_cfg v) user sid jti typ (e_clock v (w_tick w)) ex)"
    unfolding token verified_built[OF printable_payload[OF ok(2,3) valid_utf8_jti[OF jti] ok(4,5) c(2)]]
    using times by (intro decode_payload[OF c(1)]) (auto simp: plausible_def)
  then show thesis by (rule that[OF jti])
qed

lemma issued_tokens_differ:
  assumes a: "issueToken v user sid typ ttl w = (Ok (token, ex), w1)"
      "hook_ok v user" "user_printable user" "valid_utf8 sid" "valid_utf8 typ"
      "plausible (e_clock v (w_tick w))" "plausible ex"
    and b: "issueToken v user' sid' typ' ttl' w' = (Ok (token', ex'), w2)"
      "hook_ok v user'" "user_printable user'" "valid_utf8 sid'" "valid_utf8 typ'"
      "plausible (e_clock v (w_tick w'))" "plausible ex'"
    and iss: "valid_utf8 (cf_Issuer (e_cfg v))"
    and fresh: "c_rand (e_crypto v) (Suc (w_tick w)) 16 \<noteq> c_rand (e_crypto v) (Suc (w_tick w')) 16"
  shows "token \<noteq> token'"
proof (rule verified_issued[OF a(1-5) iss a(6,7)], rule verified_issued[OF b(1-5) iss b(6,7)])
  fix j k j' k'
  assume "newID (e_crypto v) ''jti'' (Suc (w_tick w)) = (Ok j, k)"
    "newID (e_crypto v) ''jti'' (Suc (w_tick w')) = (Ok j', k')"
  then have "j \<noteq> j'" using newID_distinct fresh by blast
  moreover assume "verified_claims (e_crypto v) (e_cfg v) token =
      Some (issued_claims (e_cfg v) user sid j typ (e_clock v (w_tick w)) ex)"
    "verified_claims (e_crypto v) (e_cfg v) token' =
      Some (issued_claims (e_cfg v) user' sid' j' typ' (e_clock v (w_tick w')) ex')"
  ultimately show ?thesis by (auto simp: issued_claims_def)
qed

text \<open>
  What the verifier answers for a token the service issued: the claims of the issue, refused
  only under another type, or once its lifetime and the clock skew are over.
\<close>

lemma parse_issued:
  assumes issue: "issueToken v user sid typ ttl w = (Ok (token, ex), w1)"
    and ok: "hook_ok v user" "user_printable user" "valid_utf8 sid" "valid_utf8 typ"
      "valid_utf8 (cf_Issuer (e_cfg v))"
    and times: "plausible (e_clock v (w_tick w))" "plausible ex"
  shows "\<exists>jti now. parseToken v token ty w2 =
    (if ty \<noteq> typ \<or> e_clock v (w_tick w2) > time_of_unix (unix_of ex) + cf_ClockSkew (e_cfg v)
     then Err ErrInvalidToken
     else Ok (issued_claims (e_cfg v) user sid jti typ now ex), w2\<lparr>w_tick := Suc (w_tick w2)\<rparr>)"
proof (rule verified_issued[OF issue ok times])
  fix jti k
  assume "verified_claims (e_crypto v) (e_cfg v) token =
      Some (issued_claims (e_cfg v) user sid jti typ (e_clock v (w_tick w)) ex)"
  then show ?thesis
    using times(2)
    by (intro exI[of _ jti] exI[of _ "e_clock v (w_tick w)"])
       (simp add: parseToken_def expired_def thenDo_def clock_def tick_def failWith_def ret_def
          issued_claims_def unix_time_plausible)
qed

end
