(* ===== verification/Totp.thy ===== *)
theory Totp
  imports Security Json "HOL-Library.Word" "HOL-Library.Signed_Division"
begin

text \<open>
  \<open>totp.go\<close>: six-digit time-based codes. The counter is an \<open>int64\<close> written as eight big-endian
  bytes of its two's complement; the truncated MAC is a 32-bit word; Go's \<open>/\<close> truncates.
\<close>

definition TOTPDigits :: nat where "TOTPDigits = 6"
definition TOTPPeriod :: duration where "TOTPPeriod = 30 * second"
definition TOTPSkew :: int where "TOTPSkew = 1"

definition generateTOTPSecret :: "crypto \<Rightarrow> string draws" where
  "generateTOTPSecret c k = (case randomToken c 20 k of
     (Inl e, k') \<Rightarrow> (Inl e, k')
   | (Inr raw, k') \<Rightarrow> (Ok (base32_encode raw), k'))"

text \<open>\<open>binary.BigEndian.PutUint64(buf, uint64(counter))\<close>.\<close>

definition big_endian64 :: "int \<Rightarrow> string" where
  "big_endian64 z = map (\<lambda>i. char_of (nat (z mod 2 ^ 64 div 256 ^ i) mod 256)) [7, 6, 5, 4, 3, 2, 1, 0]"

text \<open>\<open>fmt.Sprintf("%0*d", width, n)\<close> of an unsigned number.\<close>

definition zero_padded :: "nat \<Rightarrow> nat \<Rightarrow> string" where
  "zero_padded width n = replicate (width - length (decimal_nat n)) (CHR ''0'') @ decimal_nat n"

definition truncated_mac :: "string \<Rightarrow> 32 word" where
  "truncated_mac mac =
     (let offset = and (byte (last mac)) 0x0f;
          b = (\<lambda>i. word_of_nat (byte (mac ! (offset + i))) :: 32 word)
      in or (or (or (push_bit 24 (and (b 0) 0x7f)) (push_bit 16 (and (b 1) 0xff)))
                (push_bit 8 (and (b 2) 0xff)))
            (and (b 3) 0xff))"

text \<open>The loop that computes the modulus, in 32-bit arithmetic.\<close>

fun modulus_loop :: "nat \<Rightarrow> 32 word \<Rightarrow> 32 word" where
  "modulus_loop 0 m = m"
| "modulus_loop (Suc i) m = modulus_loop i (m * 10)"

definition generateTOTPCode :: "crypto \<Rightarrow> string \<Rightarrow> int \<Rightarrow> string option" where
  "generateTOTPCode c secret counter = (case base32_decode secret of
     None \<Rightarrow> None
   | Some key \<Rightarrow>
       let binCode = truncated_mac (c_hmac_sha1 c key (big_endian64 counter))
       in Some (zero_padded TOTPDigits (unat (binCode mod modulus_loop TOTPDigits 1))))"

text \<open>\<open>strconv.Atoi\<close> accepts a sign before the digits.\<close>

definition atoi_ok :: "string \<Rightarrow> bool" where
  "atoi_ok s = (let ds = (case s of c # r \<Rightarrow> if c = CHR ''-'' \<or> c = CHR ''+'' then r else s | [] \<Rightarrow> s)
     in ds \<noteq> [] \<and> list_all ascii_digit ds)"

definition validateTOTPCode :: "crypto \<Rightarrow> string \<Rightarrow> string \<Rightarrow> time \<Rightarrow> bool" where
  "validateTOTPCode c secret code now =
     (if length code \<noteq> TOTPDigits then False
      else if \<not> atoi_ok code then False
      else
        let step = TOTPPeriod sdiv second
        in list_ex (\<lambda>offset. generateTOTPCode c secret (unix_of now sdiv step + offset) = Some code)
             [- TOTPSkew..TOTPSkew])"

section \<open>Shape of a code\<close>

lemma modulus_loop_6: "modulus_loop TOTPDigits 1 = 1000000"
  by (simp add: TOTPDigits_def eval_nat_numeral)

lemma zero_padded_shape:
  assumes "n < 10 ^ w" "0 < w"
  shows "length (zero_padded w n) = w \<and> list_all ascii_digit (zero_padded w n)"
proof -
  obtain v where w: "w = Suc v" using assms(2) by (cases w) auto
  have "length (decimal_nat n) \<le> w" using decimal_nat_length assms(1) unfolding w by blast
  then show ?thesis
    using decimal_nat_digits[of n]
    by (auto simp: zero_padded_def list_all_iff ascii_digit_def)
qed

lemma generated_code_shape:
  assumes "generateTOTPCode c secret counter = Some code"
  shows "length code = TOTPDigits" "list_all ascii_digit code"
proof -
  obtain key where code: "code = zero_padded TOTPDigits
      (unat (truncated_mac (c_hmac_sha1 c key (big_endian64 counter)) mod 1000000))"
    using assms by (auto simp: generateTOTPCode_def modulus_loop_6 Let_def split: option.splits)
  have "unat (truncated_mac (c_hmac_sha1 c key (big_endian64 counter)) mod (1000000 :: 32 word)) < 10 ^ TOTPDigits"
    by (simp add: unat_mod TOTPDigits_def)
  from zero_padded_shape[OF this]
  show "length code = TOTPDigits" "list_all ascii_digit code"
    by (simp_all add: code TOTPDigits_def)
qed

lemma atoi_digits: "list_all ascii_digit s \<Longrightarrow> s \<noteq> [] \<Longrightarrow> atoi_ok s"
  by (cases s) (auto simp: atoi_ok_def Let_def ascii_digit_def)

section \<open>The window\<close>

text \<open>The two guards refuse nothing a generator could produce, so a code is accepted exactly when
  it is the code of the current step or of one next to it.\<close>

lemma validateTOTPCode_iff:
  "validateTOTPCode c secret code now \<longleftrightarrow>
     (\<exists>d\<in>{-1, 0, 1}. generateTOTPCode c secret (unix_of now sdiv 30 + d) = Some code)"
proof -
  have w: "[- TOTPSkew..TOTPSkew] = [-1, 0, 1]" "TOTPPeriod sdiv second = 30"
    by (simp add: TOTPSkew_def upto.simps, simp add: TOTPPeriod_def)
  have "generateTOTPCode c secret n = Some code \<Longrightarrow> length code = TOTPDigits \<and> atoi_ok code" for n
    using generated_code_shape[of c secret n code] atoi_digits[of code]
    by (force simp: TOTPDigits_def)
  then show ?thesis unfolding validateTOTPCode_def w Let_def by auto
qed

lemma unix_steps:
  assumes "0 \<le> t" "0 \<le> t'" "\<bar>t - t'\<bar> \<le> TOTPPeriod"
  shows "\<exists>d\<in>{-1, 0, 1}. unix_of t' sdiv 30 + d = unix_of t sdiv 30"
proof -
  have e: "unix_of x sdiv 30 = x div TOTPPeriod" if "0 \<le> x" for x
  proof -
    have p: "0 \<le> x div second" using that by (simp add: pos_imp_zdiv_nonneg_iff)
    have "x div second sdiv 30 = x div second div 30"
      using p by (cases "x div second = 0") (simp_all add: signed_divide_int_def)
    also have "\<dots> = x div TOTPPeriod" by (simp add: TOTPPeriod_def zdiv_zmult2_eq[symmetric])
    finally show ?thesis by (simp add: unix_of_def)
  qed
  have "t div TOTPPeriod \<le> t' div TOTPPeriod + 1" "t' div TOTPPeriod \<le> t div TOTPPeriod + 1"
    using assms zdiv_mono1[of t "t' + TOTPPeriod" TOTPPeriod] zdiv_mono1[of t' "t + TOTPPeriod" TOTPPeriod]
    by (simp_all add: TOTPPeriod_def)
  then show ?thesis unfolding e[OF assms(1)] e[OF assms(2)] by auto
qed

lemma code_accepted_nearby:
  assumes "generateTOTPCode c secret (unix_of t sdiv 30) = Some code"
    "0 \<le> t" "0 \<le> t'" "\<bar>t - t'\<bar> \<le> TOTPPeriod"
  shows "validateTOTPCode c secret code t'"
  unfolding validateTOTPCode_iff using unix_steps[OF assms(2-4)] assms(1) by metis

lemma generated_secret_decodes:
  "generateTOTPSecret c k = (Ok s, k') \<Longrightarrow> \<exists>key. base32_decode s = Some key"
  by (auto simp: generateTOTPSecret_def base32_round_trip split: prod.splits sum.splits)

lemma generated_secret_has_codes:
  assumes "generateTOTPSecret c k = (Ok s, k')"
  shows "\<exists>code. generateTOTPCode c s n = Some code"
  using generated_secret_decodes[OF assms] by (auto simp: generateTOTPCode_def Let_def)

end
