(* ===== verification/Service_Session.thy ===== *)
theory Service_Session
  imports Token Totp
begin

text \<open>
  The session half of \<open>service.go\<close> with \<open>login_2fa.go\<close> and \<open>password_verifier.go\<close>: opening a
  session, registration, the password login with its second-factor challenge and its migration
  hook, refresh, logout, and the check of an access token. An input struct is its fields, in
  their order.
\<close>

section \<open>Settings and events\<close>

definition emailVerificationMode :: "Config \<Rightarrow> string" where
  "emailVerificationMode cfg =
     (let mode = to_lower (trim_space (cf_EmailVerificationMode cfg))
      in if mode = [] then EmailVerificationModeNone else mode)"

definition sessionCheckMode :: "Config \<Rightarrow> string" where
  "sessionCheckMode cfg =
     (let mode = to_lower (trim_space (cf_SessionCheckOn cfg))
      in if mode = [] then SessionCheckOnRefresh else mode)"

definition requiresTwoFactor :: "Config \<Rightarrow> User \<Rightarrow> bool" where
  "requiresTwoFactor cfg user =
     (let hasTOTP = u_IsTOTPEnabled user \<and> trim_space (u_TOTPSecret user) \<noteq> []
      in cf_Require2FA cfg \<or> u_Require2FA user \<or> hasTOTP)"

definition loginMethodLocal :: string where "loginMethodLocal = ''local''"
definition loginMethodTOTP :: string where "loginMethodTOTP = ''totp''"
definition loginMethodMagicLink :: string where "loginMethodMagicLink = ''magic-link''"
definition loginMethodSMS :: string where "loginMethodSMS = ''sms''"

definition login_success :: "User \<Rightarrow> string \<Rightarrow> string \<Rightarrow> Event" where
  "login_success user sessionID method = zero_event\<lparr>ev_Name := EventAuthLoginSuccess,
     ev_UserID := u_ID user, ev_SessionID := sessionID,
     ev_Data := Some (fmap_of_list [(''method'', JStr method)])\<rparr>"

section \<open>Opening a session\<close>

definition issueSession :: "env \<Rightarrow> User \<Rightarrow> (AuthTokens \<times> string) action" where
  "issueSession v user =
     thenDo (draw (newID (e_crypto v) ''ses'')) (\<lambda>sessionID.
     thenDo (issueToken v user sessionID ''refresh'' (cf_RefreshTokenTTL (e_cfg v)))
       (\<lambda>(refreshToken, refreshExp).
     thenDo (issueToken v user sessionID ''access'' (cf_AccessTokenTTL (e_cfg v)))
       (\<lambda>(accessToken, _).
     thenDo (clock v) (\<lambda>now.
     thenDo (sessions_do (CreateSession \<lparr>s_ID = sessionID, s_UserID = u_ID user,
         s_TenantID = u_TenantID user, s_RefreshTokenHash = hashToken (e_crypto v) refreshToken,
         s_CreatedAt = now, s_ExpiresAt = refreshExp, s_RevokedAt = None\<rparr>)) (\<lambda>_.
     ret (\<lparr>at_AccessToken = accessToken, at_RefreshToken = refreshToken,
           at_ExpiresIn = cf_AccessTokenTTL (e_cfg v)\<rparr>, sessionID))))))"

definition newSessionTokens :: "env \<Rightarrow> User \<Rightarrow> AuthTokens action" where
  "newSessionTokens v user = thenDo (issueSession v user) (\<lambda>(tokens, _). ret tokens)"

definition completeLocalLogin :: "env \<Rightarrow> User \<Rightarrow> AuthTokens action" where
  "completeLocalLogin v user =
     thenDo (issueSession v user) (\<lambda>(tokens, sessionID).
     thenDo (publish v (login_success user sessionID loginMethodLocal)) (\<lambda>_.
     ret tokens))"

definition sessionIDOf :: "env \<Rightarrow> AuthTokens \<Rightarrow> string action" where
  "sessionIDOf v tokens =
     thenDo (attempt (parseToken v (at_AccessToken tokens) ''access'')) (\<lambda>r.
     ret (case r of Inl _ \<Rightarrow> [] | Inr claims \<Rightarrow> tc_Sid claims))"

section \<open>Register\<close>

text \<open>Arguments: \<open>Email\<close>, \<open>Password\<close>, \<open>TenantID\<close>.\<close>

definition Register :: "env \<Rightarrow> string \<Rightarrow> string \<Rightarrow> string \<Rightarrow> (User \<times> AuthTokens) action" where
  "Register v email0 password tenantID =
     (let email = normalizeEmail email0 in
     if email = [] \<or> password = [] then failS ErrInvalidInput
     else if int (length password) < cf_MinPasswordLen (e_cfg v) then failS ErrWeakPassword
     else
     thenDo (attempt (users_get (GetUserByEmail email tenantID))) (\<lambda>existing.
     if is_ok existing then failS ErrUserExists
     else
     thenDo (draw (hashPassword (e_crypto v) password (cf_BcryptCost (e_cfg v)))) (\<lambda>pwHash.
     thenDo (draw (newID (e_crypto v) ''usr'')) (\<lambda>userID.
     thenDo (clock v) (\<lambda>now.
     thenDo (mapErr (Wrapped ''auth: create user'') (users_do (CreateUser (zero_user\<lparr>
         u_ID := userID, u_Email := email, u_PasswordHash := pwHash, u_TenantID := tenantID,
         u_IsEmailVerified := (emailVerificationMode (e_cfg v) = EmailVerificationModeNone),
         u_CreatedAt := now, u_UpdatedAt := now\<rparr>)))) (\<lambda>created.
     thenDo (newSessionTokens v created) (\<lambda>tokens.
     thenDo (publish v (zero_event\<lparr>ev_Name := EventUserCreated, ev_UserID := u_ID created,
         ev_Data := Some (fmap_of_list [(''email'', JStr (u_Email created)), (''method'', JStr ''default'')])\<rparr>))
       (\<lambda>_.
     ret (created, tokens)))))))))"

section \<open>The password login\<close>

text \<open>\<open>%v\<close> instead of \<open>%w\<close>: the cause is text and nothing matches it any more (the text itself is
  not modelled).\<close>

definition verifyThroughPasswordVerifier :: "env \<Rightarrow> User \<Rightarrow> string \<Rightarrow> User action" where
  "verifyThroughPasswordVerifier v user password = (case e_verifier v of
     None \<Rightarrow> failS ErrInvalidCredentials
   | Some verify \<Rightarrow>
     thenDo (mapErr (\<lambda>err. if errors_is err ErrContextCanceled \<or> errors_is err ErrContextDeadline
              then Wrapped ''auth: password verifier'' err
              else Message ''auth: password verifier'')
            (hook (\<lambda>k. verify k user password))) (\<lambda>(good, migrated).
     if \<not> good then failS ErrInvalidCredentials
     else if \<not> migrated \<or> password = [] then ret user
     else if \<not> has_UserPasswordStore (e_caps v)
       then failWith (Message ''auth: password verifier asked to migrate a password, but the configured user store is not a UserPasswordStore'')
     else
     thenDo (mapErr (\<lambda>_. Message ''auth: password verifier migration'')
       (draw (hashPassword (e_crypto v) password (cf_BcryptCost (e_cfg v))))) (\<lambda>h.
     thenDo (mapErr (\<lambda>_. Message ''auth: password verifier migration'')
       (users_do (UpdatePassword (u_ID user) (u_TenantID user) h))) (\<lambda>_.
     ret (user\<lparr>u_PasswordHash := h\<rparr>)))))"

definition loginFailed :: "env \<Rightarrow> string \<Rightarrow> error \<Rightarrow> 'a action" where
  "loginFailed v submittedEmail err =
     (if he_Status (HTTPErrorFor (Some err)) \<noteq> 401 then failWith err
      else thenDo (publish v (zero_event\<lparr>ev_Name := EventAuthLoginFailed,
             ev_Data := Some (fmap_of_list [(''method'', JStr loginMethodLocal),
                                      (''email'', JStr submittedEmail)])\<rparr>)) (\<lambda>_.
           failWith err))"

definition loginPassword :: "env \<Rightarrow> string \<Rightarrow> string \<Rightarrow> string \<Rightarrow> (User \<times> bool) action" where
  "loginPassword v submitted password tenantID =
     (let email = normalizeEmail submitted in
     thenDo (attempt (users_get (GetUserByEmail email tenantID))) (\<lambda>found.
     case found of Inl _ \<Rightarrow> loginFailed v submitted (Sentinel ErrInvalidCredentials)
     | Inr user0 \<Rightarrow>
     thenDo (if verifyPassword (e_crypto v) password (u_PasswordHash user0) then ret (Ok user0)
             else attempt (verifyThroughPasswordVerifier v user0 password)) (\<lambda>verified.
     case verified of Inl err \<Rightarrow> loginFailed v submitted err
     | Inr user \<Rightarrow>
     if \<not> u_IsEmailVerified user \<and>
        emailVerificationMode (e_cfg v) \<noteq> EmailVerificationModeLazy
     then loginFailed v submitted (Sentinel ErrEmailNotVerified)
     else ret (user, requiresTwoFactor (e_cfg v) user))))"

definition Login :: "env \<Rightarrow> string \<Rightarrow> string \<Rightarrow> string \<Rightarrow> (User \<times> AuthTokens) action" where
  "Login v email password tenantID =
     thenDo (loginPassword v email password tenantID) (\<lambda>(user, secondFactor).
     if secondFactor then failS ErrTwoFactorRequired
     else thenDo (completeLocalLogin v user) (\<lambda>tokens. ret (user, tokens)))"

subsection \<open>The challenge\<close>

record TwoFactorChallenge =
  tf_TempToken :: string
  tf_Methods :: "string list"
  tf_SetupRequired :: bool

text \<open>\<open>LoginResult\<close>: \<open>Tokens\<close> is zero when \<open>Challenge\<close> is set, so the two are one sum.\<close>

record LoginResult =
  lr_User :: User
  lr_Outcome :: "TwoFactorChallenge + AuthTokens"

definition IssueTempToken :: "env \<Rightarrow> User \<Rightarrow> string action" where
  "IssueTempToken v user =
     thenDo (issueToken v user [] tokenTypeTemp (cf_TempTokenTTL (e_cfg v))) (\<lambda>(token, _). ret token)"

definition availableTwoFactorMethods :: "env \<Rightarrow> User \<Rightarrow> string list" where
  "availableTwoFactorMethods v user =
     (if u_IsTOTPEnabled user \<and> trim_space (u_TOTPSecret user) \<noteq> [] then [''totp''] else []) @
     (if has_SMSStore (e_caps v) \<and> e_SendSMSCode v \<noteq> None \<and> trim_space (u_PhoneNumber user) \<noteq> []
      then [''sms''] else []) @
     (if has_MagicLinkStore (e_caps v) \<and> e_SendMagicLink v \<noteq> None then [''magic-link''] else [])"

definition twoFactorChallenge :: "env \<Rightarrow> User \<Rightarrow> TwoFactorChallenge action" where
  "twoFactorChallenge v user =
     (let methods = availableTwoFactorMethods v user in
     thenDo (IssueTempToken v user) (\<lambda>token.
     ret \<lparr>tf_TempToken = token, tf_Methods = methods, tf_SetupRequired = (length methods = 0)\<rparr>))"

definition LoginWithChallenge :: "env \<Rightarrow> string \<Rightarrow> string \<Rightarrow> string \<Rightarrow> LoginResult action" where
  "LoginWithChallenge v email password tenantID =
     thenDo (loginPassword v email password tenantID) (\<lambda>(user, secondFactor).
     if secondFactor then
       thenDo (twoFactorChallenge v user) (\<lambda>challenge.
       ret \<lparr>lr_User = user, lr_Outcome = Inl challenge\<rparr>)
     else
       thenDo (completeLocalLogin v user) (\<lambda>tokens.
       ret \<lparr>lr_User = user, lr_Outcome = Inr tokens\<rparr>))"

section \<open>Refresh and logout\<close>

definition Refresh :: "env \<Rightarrow> string \<Rightarrow> AuthTokens action" where
  "Refresh v refreshToken =
     thenDo (parseToken v refreshToken ''refresh'') (\<lambda>claims.
     thenDo (mapErr (\<lambda>_. Sentinel ErrSessionNotFound)
       (sessions_get (GetSessionByRefreshTokenHash (hashToken (e_crypto v) refreshToken)))) (\<lambda>session.
     if s_RevokedAt session \<noteq> None then failS ErrSessionRevoked
     else
     thenDo (clock v) (\<lambda>now.
     if now > s_ExpiresAt session + cf_ClockSkew (e_cfg v) then failS ErrInvalidToken
     else if s_ID session \<noteq> tc_Sid claims \<or> s_UserID session \<noteq> tc_Sub claims
       then failS ErrInvalidToken
     else
     thenDo (mapErr (\<lambda>_. Sentinel ErrInvalidToken)
       (users_get (GetUserByID (tc_Sub claims) (tc_Tid claims)))) (\<lambda>user.
     thenDo (issueToken v user (s_ID session) ''refresh'' (cf_RefreshTokenTTL (e_cfg v)))
       (\<lambda>(newRefresh, refreshExp).
     thenDo (issueToken v user (s_ID session) ''access'' (cf_AccessTokenTTL (e_cfg v)))
       (\<lambda>(newAccess, _).
     thenDo (sessions_do (UpdateSession (session\<lparr>
         s_RefreshTokenHash := hashToken (e_crypto v) newRefresh, s_ExpiresAt := refreshExp\<rparr>))) (\<lambda>_.
     thenDo (publish v (zero_event\<lparr>ev_Name := EventSessionRotated, ev_UserID := u_ID user,
         ev_SessionID := s_ID session,
         ev_Data := Some (fmap_of_list [(''previousSessionId'', JStr (tc_Sid claims))])\<rparr>)) (\<lambda>_.
     ret \<lparr>at_AccessToken = newAccess, at_RefreshToken = newRefresh,
          at_ExpiresIn = cf_AccessTokenTTL (e_cfg v)\<rparr>))))))))"

definition Logout :: "env \<Rightarrow> string \<Rightarrow> unit action" where
  "Logout v refreshToken =
     thenDo (parseToken v refreshToken ''refresh'') (\<lambda>claims.
     thenDo (mapErr (\<lambda>_. Sentinel ErrSessionNotFound)
       (sessions_get (GetSessionByRefreshTokenHash (hashToken (e_crypto v) refreshToken)))) (\<lambda>session.
     if s_ID session \<noteq> tc_Sid claims then failS ErrInvalidToken
     else
     thenDo (clock v) (\<lambda>now.
     thenDo (sessions_do (UpdateSession (session\<lparr>s_RevokedAt := Some now\<rparr>))) (\<lambda>_.
     publish v (zero_event\<lparr>ev_Name := EventAuthLogout, ev_UserID := tc_Sub claims,
       ev_SessionID := tc_Sid claims\<rparr>)))))"

section \<open>Access tokens\<close>

definition validateSessionState :: "env \<Rightarrow> Session \<Rightarrow> tokenClaims \<Rightarrow> unit action" where
  "validateSessionState v session claims =
     (if s_ID session \<noteq> tc_Sid claims then failS ErrInvalidToken
      else if s_UserID session \<noteq> tc_Sub claims then failS ErrInvalidToken
      else if s_TenantID session \<noteq> tc_Tid claims then failS ErrInvalidToken
      else if s_RevokedAt session \<noteq> None then failS ErrSessionRevoked
      else thenDo (clock v) (\<lambda>now.
        if now > s_ExpiresAt session + cf_ClockSkew (e_cfg v) then failS ErrInvalidToken
        else ret ()))"

definition validateSessionForAccess :: "env \<Rightarrow> tokenClaims \<Rightarrow> unit action" where
  "validateSessionForAccess v claims =
     (if sessionCheckMode (e_cfg v) \<noteq> SessionCheckOnAllCalls then ret ()
      else if trim_space (tc_Sid claims) = [] then failS ErrInvalidToken
      else if has_SessionLookupStore (e_caps v) then
        thenDo (mapErr (\<lambda>_. Sentinel ErrSessionNotFound) (sessions_get (GetSessionByID (tc_Sid claims))))
          (\<lambda>session. validateSessionState v session claims)
      else if has_SessionAdminStore (e_caps v) then
        thenDo (sessions_get (\<lambda>s. Ok (ListSessionsForUser (tc_Sub claims) (tc_Tid claims) s)))
          (\<lambda>sessions. case find (\<lambda>x. s_ID x = tc_Sid claims) sessions of
             Some session \<Rightarrow> validateSessionState v session claims
           | None \<Rightarrow> failS ErrSessionNotFound)
      else ret ())"

text \<open>The in-memory optional stores answer every read, so the enrichment skips nothing.\<close>

definition enrichFromStores :: "User \<Rightarrow> world \<Rightarrow> User" where
  "enrichFromStores user w =
     (let u1 = (case w_metadata w of None \<Rightarrow> user
                | Some s \<Rightarrow> user\<lparr>u_Metadata := GetMetadata (u_ID user) s\<rparr>);
          u2 = (case w_rbac w of None \<Rightarrow> u1
                | Some s \<Rightarrow> u1\<lparr>u_Roles := GetRolesForUser (u_ID user) (u_TenantID user) s,
                               u_Permissions := GetPermissionsForUser (u_ID user) (u_TenantID user) s\<rparr>)
      in case w_tenants w of None \<Rightarrow> u2
         | Some s \<Rightarrow> u2\<lparr>u_Tenants := GetTenantsForUser (u_ID user) s\<rparr>)"

definition enrich_action :: "User \<Rightarrow> User action" where
  "enrich_action user w = (Ok (enrichFromStores user w), w)"

definition enrichCustomClaims :: "env \<Rightarrow> User \<Rightarrow> User action" where
  "enrichCustomClaims v user = (case e_claims v of
     None \<Rightarrow> ret user
   | Some h \<Rightarrow> thenDo (attempt (hook (\<lambda>k. h k user))) (\<lambda>r.
       ret (case r of Inl _ \<Rightarrow> user | Inr claims \<Rightarrow> user\<lparr>u_CustomClaims := claims\<rparr>)))"

definition enrichUser :: "env \<Rightarrow> User \<Rightarrow> User action" where
  "enrichUser v user = thenDo (enrich_action user) (enrichCustomClaims v)"

definition Authenticate :: "env \<Rightarrow> string \<Rightarrow> User action" where
  "Authenticate v accessToken =
     thenDo (parseToken v accessToken ''access'') (\<lambda>claims.
     thenDo (validateSessionForAccess v claims) (\<lambda>_.
     thenDo (mapErr (\<lambda>_. Sentinel ErrInvalidToken)
       (users_get (GetUserByID (tc_Sub claims) (tc_Tid claims)))) (\<lambda>user.
     enrich_action user)))"

definition Me :: "env \<Rightarrow> string \<Rightarrow> User action" where
  "Me v accessToken = thenDo (Authenticate v accessToken) (enrichCustomClaims v)"

end
