(* ===== verification/Service_Credentials.thy ===== *)
theory Service_Credentials
  imports Service_Session
begin

text \<open>
  The flows of \<open>service.go\<close> that mint or spend a one-time credential, with
  \<open>delivery_password_email.go\<close> and \<open>passwordless.go\<close>: password reset and change, magic links,
  SMS codes, email verification and change, the TOTP second factor and the step-up token.
\<close>

section \<open>Resolving and delivering\<close>

definition resolveUser :: "string \<Rightarrow> string \<Rightarrow> string \<Rightarrow> User action" where
  "resolveUser userID email tenantID =
     (let trimmedUserID = trim_space userID; trimmedEmail = trim_space email in
      if trimmedUserID \<noteq> [] then users_get (GetUserByID trimmedUserID tenantID)
      else if trimmedEmail \<noteq> [] then users_get (GetUserByEmail (normalizeEmail trimmedEmail) tenantID)
      else failS ErrInvalidCredentials)"

text \<open>\<open>fmt.Errorf("...: %w: %w", ErrDeliveryFailed, err)\<close>; an absent sender is silence.\<close>

definition deliver :: "string \<Rightarrow> sender \<Rightarrow> delivery \<Rightarrow> unit action" where
  "deliver what s d = (case s of
     None \<Rightarrow> ret ()
   | Some f \<Rightarrow> mapErr (Joined what (Sentinel ErrDeliveryFailed)) (send_through f d))"

definition deliverPasswordReset ::
    "env \<Rightarrow> User \<Rightarrow> string \<Rightarrow> time \<Rightarrow> string \<Rightarrow> string \<Rightarrow> unit action" where
  "deliverPasswordReset v user token expiresAt linkBase lang =
     deliver ''auth: deliver password reset'' (e_SendPasswordReset v) (PasswordResetDelivery
       \<lparr>ld_UserID = u_ID user, ld_TenantID = u_TenantID user, ld_Email = u_Email user,
        ld_Token = token, ld_ExpiresAt = expiresAt, ld_LinkBase = linkBase, ld_Lang = lang\<rparr>)"

definition deliverEmailVerification ::
    "env \<Rightarrow> User \<Rightarrow> string \<Rightarrow> time \<Rightarrow> string \<Rightarrow> string \<Rightarrow> unit action" where
  "deliverEmailVerification v user token expiresAt linkBase lang =
     deliver ''auth: deliver email verification'' (e_SendEmailVerification v) (EmailVerificationDelivery
       \<lparr>ld_UserID = u_ID user, ld_TenantID = u_TenantID user, ld_Email = u_Email user,
        ld_Token = token, ld_ExpiresAt = expiresAt, ld_LinkBase = linkBase, ld_Lang = lang\<rparr>)"

definition deliverEmailChange ::
    "env \<Rightarrow> User \<Rightarrow> string \<Rightarrow> string \<Rightarrow> time \<Rightarrow> string \<Rightarrow> string \<Rightarrow> unit action" where
  "deliverEmailChange v user newEmail token expiresAt linkBase lang =
     deliver ''auth: deliver email change'' (e_SendEmailChange v) (EmailChangeDelivery
       \<lparr>ld_UserID = u_ID user, ld_TenantID = u_TenantID user, ld_Email = newEmail,
        ld_Token = token, ld_ExpiresAt = expiresAt, ld_LinkBase = linkBase, ld_Lang = lang\<rparr>)"

definition deliverEmailChanged ::
    "env \<Rightarrow> User \<Rightarrow> string \<Rightarrow> string \<Rightarrow> string \<Rightarrow> unit action" where
  "deliverEmailChanged v user oldEmail newEmail lang =
     deliver ''auth: deliver email changed'' (e_SendEmailChanged v) (ChangedDelivery
       \<lparr>ec_UserID = u_ID user, ec_TenantID = u_TenantID user, ec_OldEmail = oldEmail,
        ec_NewEmail = newEmail, ec_Lang = lang\<rparr>)"

text \<open>The check every redeeming method makes: \<open>err != nil || expiry == nil || now > expiry + skew\<close>
  (the clock is read only when the first two pass).\<close>

definition live_until :: "env \<Rightarrow> (User \<Rightarrow> time option) \<Rightarrow> sentinel \<Rightarrow> User action \<Rightarrow> User action" where
  "live_until v expiry bad m =
     thenDo (mapErr (\<lambda>_. Sentinel bad) m) (\<lambda>user.
     case expiry user of None \<Rightarrow> failS bad
     | Some t \<Rightarrow> thenDo (clock v) (\<lambda>now.
         if now > t + cf_ClockSkew (e_cfg v) then failS bad else ret user))"

definition if_supported :: "env \<Rightarrow> (caps \<Rightarrow> bool) \<Rightarrow> 'a action \<Rightarrow> 'a action" where
  "if_supported v cap m = (if cap (e_caps v) then m else failS ErrFeatureNotSupported)"

section \<open>Passwords\<close>

text \<open>Arguments: \<open>Email\<close>, \<open>TenantID\<close>, \<open>LinkBase\<close>, \<open>Lang\<close>. An unknown address is silence.\<close>

definition ForgotPassword :: "env \<Rightarrow> string \<Rightarrow> string \<Rightarrow> string \<Rightarrow> string \<Rightarrow> string action" where
  "ForgotPassword v email tenantID linkBase lang =
     thenDo (attempt (users_get (GetUserByEmail (normalizeEmail email) tenantID))) (\<lambda>found.
     case found of Inl _ \<Rightarrow> ret []
     | Inr user \<Rightarrow>
     if_supported v has_UserPasswordStore (
     thenDo (draw (randomToken (e_crypto v) 32)) (\<lambda>resetToken.
     thenDo (clock v) (\<lambda>now.
     let expiresAt = now + cf_ResetTokenTTL (e_cfg v) in
     thenDo (users_do (UpdateResetToken (u_ID user) (u_TenantID user)
               (hashToken (e_crypto v) resetToken) expiresAt)) (\<lambda>_.
     thenDo (deliverPasswordReset v user resetToken expiresAt linkBase lang) (\<lambda>_.
     ret resetToken))))))"

text \<open>Arguments: \<open>Token\<close>, \<open>NewPassword\<close>.\<close>

definition ResetPassword :: "env \<Rightarrow> string \<Rightarrow> string \<Rightarrow> unit action" where
  "ResetPassword v token newPassword =
     (if int (length newPassword) < cf_MinPasswordLen (e_cfg v) then failS ErrWeakPassword
      else if_supported v has_UserPasswordStore (
      thenDo (live_until v u_ResetTokenExpiresAt ErrInvalidToken
                (users_get (GetUserByResetTokenHash (hashToken (e_crypto v) token)))) (\<lambda>user.
      thenDo (draw (hashPassword (e_crypto v) newPassword (cf_BcryptCost (e_cfg v)))) (\<lambda>pwHash.
      thenDo (users_do (UpdatePassword (u_ID user) (u_TenantID user) pwHash)) (\<lambda>_.
      users_do (ClearResetToken (u_ID user) (u_TenantID user)))))))"

text \<open>Arguments: \<open>UserID\<close>, \<open>TenantID\<close>, \<open>CurrentPassword\<close>, \<open>NewPassword\<close>.\<close>

definition ChangePassword :: "env \<Rightarrow> string \<Rightarrow> string \<Rightarrow> string \<Rightarrow> string \<Rightarrow> unit action" where
  "ChangePassword v userID tenantID currentPassword newPassword =
     (if int (length newPassword) < cf_MinPasswordLen (e_cfg v) then failS ErrWeakPassword
      else
      thenDo (mapErr (\<lambda>_. Sentinel ErrInvalidCredentials) (users_get (GetUserByID userID tenantID))) (\<lambda>user.
      if \<not> verifyPassword (e_crypto v) currentPassword (u_PasswordHash user)
      then failS ErrInvalidCredentials
      else if_supported v has_UserPasswordStore (
      thenDo (draw (hashPassword (e_crypto v) newPassword (cf_BcryptCost (e_cfg v)))) (\<lambda>pwHash.
      thenDo (users_do (UpdatePassword (u_ID user) (u_TenantID user) pwHash)) (\<lambda>_.
      publish v (zero_event\<lparr>ev_Name := EventUserPasswordChanged, ev_UserID := u_ID user\<rparr>))))))"

section \<open>Magic links\<close>

text \<open>Arguments: \<open>Email\<close>, \<open>TenantID\<close>, \<open>LinkBase\<close>, \<open>Lang\<close>.\<close>

definition SendMagicLink :: "env \<Rightarrow> string \<Rightarrow> string \<Rightarrow> string \<Rightarrow> string \<Rightarrow> string action" where
  "SendMagicLink v email tenantID linkBase lang =
     if_supported v has_MagicLinkStore (case e_SendMagicLink v of
       None \<Rightarrow> failS ErrEmailNotConfigured
     | Some f \<Rightarrow>
     thenDo (attempt (users_get (GetUserByEmail (normalizeEmail email) tenantID))) (\<lambda>found.
     case found of Inl _ \<Rightarrow> ret []
     | Inr user \<Rightarrow>
     thenDo (draw (randomToken (e_crypto v) 32)) (\<lambda>magicToken.
     thenDo (clock v) (\<lambda>now.
     let expiresAt = now + cf_MagicLinkTTL (e_cfg v) in
     thenDo (users_do (UpdateMagicLinkToken (u_ID user) (u_TenantID user)
               (hashToken (e_crypto v) magicToken) expiresAt)) (\<lambda>_.
     thenDo (mapErr (Wrapped ''auth: deliver magic link'') (send_through f (MagicLinkDelivery
       \<lparr>ld_UserID = u_ID user, ld_TenantID = u_TenantID user, ld_Email = u_Email user,
        ld_Token = magicToken, ld_ExpiresAt = expiresAt, ld_LinkBase = linkBase, ld_Lang = lang\<rparr>))) (\<lambda>_.
     ret magicToken))))))"

text \<open>\<open>verifyMagicLink\<close>: the link is cleared first; a link of another user than \<open>requireUserID\<close> is
  refused before a session exists; the address is marked verified on the login path only.\<close>

definition verifyMagicLink :: "env \<Rightarrow> string \<Rightarrow> string \<Rightarrow> (User \<times> AuthTokens) action" where
  "verifyMagicLink v token requireUserID =
     if_supported v has_MagicLinkStore (
     thenDo (live_until v u_MagicLinkTokenExpiresAt ErrInvalidToken
               (users_get (GetUserByMagicLinkTokenHash (hashToken (e_crypto v) token)))) (\<lambda>user0.
     thenDo (users_do (ClearMagicLinkToken (u_ID user0) (u_TenantID user0))) (\<lambda>_.
     if requireUserID \<noteq> [] \<and> u_ID user0 \<noteq> requireUserID then failS ErrMagicLinkOwnerMismatch
     else
     thenDo (if requireUserID = [] \<and> \<not> u_IsEmailVerified user0
             then thenDo (if has_EmailVerificationStore (e_caps v)
                    then thenDo (attempt (users_do (MarkEmailVerified (u_ID user0) (u_TenantID user0) True)))
                           (\<lambda>_. ret ())
                    else ret ()) (\<lambda>_. ret (user0\<lparr>u_IsEmailVerified := True\<rparr>))
             else ret user0) (\<lambda>user.
     thenDo (issueSession v user) (\<lambda>(tokens, sessionID).
     thenDo (publish v (login_success user sessionID loginMethodMagicLink)) (\<lambda>_.
     ret (user, tokens)))))))"

definition VerifyMagicLink :: "env \<Rightarrow> string \<Rightarrow> (User \<times> AuthTokens) action" where
  "VerifyMagicLink v token = verifyMagicLink v token []"

definition VerifyMagicLinkForUser :: "env \<Rightarrow> string \<Rightarrow> string \<Rightarrow> (User \<times> AuthTokens) action" where
  "VerifyMagicLinkForUser v token userID = verifyMagicLink v token userID"

section \<open>SMS codes\<close>

text \<open>Arguments: \<open>UserID\<close>, \<open>Email\<close>, \<open>TenantID\<close>.\<close>

definition SendSMSCode :: "env \<Rightarrow> string \<Rightarrow> string \<Rightarrow> string \<Rightarrow> string action" where
  "SendSMSCode v userID email tenantID =
     if_supported v has_SMSStore (case e_SendSMSCode v of
       None \<Rightarrow> failS ErrSMSNotConfigured
     | Some f \<Rightarrow>
     thenDo (attempt (resolveUser userID email tenantID)) (\<lambda>found.
     case found of Inl _ \<Rightarrow> ret []
     | Inr user \<Rightarrow> if u_PhoneNumber user = [] then ret [] else
     thenDo (draw (randomNumericCode (e_crypto v) 6)) (\<lambda>code.
     thenDo (clock v) (\<lambda>now.
     let expiresAt = now + cf_SMSCodeTTL (e_cfg v) in
     thenDo (users_do (UpdateSMSCode (u_ID user) (u_TenantID user)
               (hashToken (e_crypto v) code) expiresAt)) (\<lambda>_.
     thenDo (mapErr (Wrapped ''auth: deliver sms code'') (send_through f (SMSDelivery
       \<lparr>sd_UserID = u_ID user, sd_TenantID = u_TenantID user, sd_Phone = u_PhoneNumber user,
        sd_Code = code, sd_ExpiresAt = expiresAt\<rparr>))) (\<lambda>_.
     ret code))))))"

text \<open>Arguments: \<open>UserID\<close>, \<open>Email\<close>, \<open>TenantID\<close>, \<open>Code\<close>.\<close>

definition VerifySMSCode ::
    "env \<Rightarrow> string \<Rightarrow> string \<Rightarrow> string \<Rightarrow> string \<Rightarrow> (User \<times> AuthTokens) action" where
  "VerifySMSCode v userID email tenantID code =
     if_supported v has_SMSStore (
     thenDo (mapErr (\<lambda>_. Sentinel ErrInvalidCredentials) (resolveUser userID email tenantID)) (\<lambda>user.
     thenDo (live_until v u_SMSCodeExpiresAt ErrInvalidCode
               (users_get (GetUserBySMSCodeHash (u_ID user) (u_TenantID user)
                 (hashToken (e_crypto v) code)))) (\<lambda>matched.
     thenDo (users_do (ClearSMSCode (u_ID matched) (u_TenantID matched))) (\<lambda>_.
     thenDo (issueSession v matched) (\<lambda>(tokens, sessionID).
     thenDo (publish v (login_success matched sessionID loginMethodSMS)) (\<lambda>_.
     ret (matched, tokens)))))))"

section \<open>Email verification and change\<close>

text \<open>Arguments: \<open>UserID\<close>, \<open>TenantID\<close>, \<open>LinkBase\<close>, \<open>Lang\<close>.\<close>

definition SendVerificationEmailToken ::
    "env \<Rightarrow> string \<Rightarrow> string \<Rightarrow> string \<Rightarrow> string \<Rightarrow> string action" where
  "SendVerificationEmailToken v userID tenantID linkBase lang =
     if_supported v has_EmailVerificationStore (
     thenDo (mapErr (\<lambda>_. Sentinel ErrInvalidCredentials) (users_get (GetUserByID userID tenantID))) (\<lambda>user.
     if u_IsEmailVerified user then ret []
     else
     thenDo (draw (randomToken (e_crypto v) 32)) (\<lambda>token.
     thenDo (clock v) (\<lambda>now.
     let expiresAt = now + cf_EmailVerificationTTL (e_cfg v) in
     thenDo (users_do (UpdateEmailVerificationToken (u_ID user) (u_TenantID user)
               (hashToken (e_crypto v) token) expiresAt)) (\<lambda>_.
     thenDo (deliverEmailVerification v user token expiresAt linkBase lang) (\<lambda>_.
     ret token))))))"

definition VerifyEmail :: "env \<Rightarrow> string \<Rightarrow> unit action" where
  "VerifyEmail v token =
     if_supported v has_EmailVerificationStore (
     thenDo (live_until v u_EmailVerificationTokenExpiry ErrInvalidToken
               (users_get (GetUserByEmailVerificationTokenHash (hashToken (e_crypto v) token)))) (\<lambda>user.
     thenDo (users_do (MarkEmailVerified (u_ID user) (u_TenantID user) True)) (\<lambda>_.
     thenDo (users_do (ClearEmailVerificationToken (u_ID user) (u_TenantID user))) (\<lambda>_.
     publish v (zero_event\<lparr>ev_Name := EventUserEmailVerified, ev_UserID := u_ID user\<rparr>)))))"

text \<open>Arguments: \<open>UserID\<close>, \<open>TenantID\<close>, \<open>NewEmail\<close>, \<open>LinkBase\<close>, \<open>Lang\<close>.\<close>

definition RequestEmailChange ::
    "env \<Rightarrow> string \<Rightarrow> string \<Rightarrow> string \<Rightarrow> string \<Rightarrow> string \<Rightarrow> string action" where
  "RequestEmailChange v userID tenantID newEmail0 linkBase lang =
     if_supported v has_EmailChangeStore (
     let newEmail = normalizeEmail newEmail0 in
     thenDo (attempt (users_get (GetUserByEmail newEmail tenantID))) (\<lambda>taken.
     if is_ok taken then failS ErrUserExists
     else
     thenDo (mapErr (\<lambda>_. Sentinel ErrInvalidCredentials) (users_get (GetUserByID userID tenantID))) (\<lambda>user.
     thenDo (draw (randomToken (e_crypto v) 32)) (\<lambda>token.
     thenDo (clock v) (\<lambda>now.
     let expiresAt = now + cf_EmailChangeTTL (e_cfg v) in
     thenDo (users_do (UpdateEmailChangeToken (u_ID user) (u_TenantID user) newEmail
               (hashToken (e_crypto v) token) expiresAt)) (\<lambda>_.
     thenDo (deliverEmailChange v user newEmail token expiresAt linkBase lang) (\<lambda>_.
     ret token)))))))"

text \<open>Arguments: \<open>Token\<close>, \<open>Lang\<close>.\<close>

definition ConfirmEmailChange :: "env \<Rightarrow> string \<Rightarrow> string \<Rightarrow> unit action" where
  "ConfirmEmailChange v token lang =
     if_supported v has_EmailChangeStore (
     thenDo (live_until v u_EmailChangeTokenExpiry ErrInvalidToken
               (users_get (GetUserByEmailChangeTokenHash (hashToken (e_crypto v) token)))) (\<lambda>user.
     let oldEmail = u_Email user; newEmail = u_PendingEmail user in
     thenDo (users_do (ApplyEmailChange (u_ID user) (u_TenantID user))) (\<lambda>_.
     thenDo (users_do (ClearEmailChangeToken (u_ID user) (u_TenantID user))) (\<lambda>_.
     thenDo (deliverEmailChanged v user oldEmail newEmail lang) (\<lambda>_.
     publish v (zero_event\<lparr>ev_Name := EventUserEmailChanged, ev_UserID := u_ID user,
       ev_Data := Some (fmap_of_list [(''oldEmail'', JStr oldEmail), (''newEmail'', JStr newEmail)])\<rparr>))))))"

section \<open>The TOTP factor and the step-up token\<close>

definition SetupTOTP :: "env \<Rightarrow> string \<Rightarrow> string \<Rightarrow> string action" where
  "SetupTOTP v userID tenantID =
     thenDo (mapErr (\<lambda>_. Sentinel ErrInvalidCredentials) (users_get (GetUserByID userID tenantID))) (\<lambda>_.
     draw (generateTOTPSecret (e_crypto v)))"

definition VerifyTOTPSetup ::
    "env \<Rightarrow> string \<Rightarrow> string \<Rightarrow> string \<Rightarrow> string \<Rightarrow> unit action" where
  "VerifyTOTPSetup v userID tenantID secret code =
     if_supported v has_TOTPStore (
     thenDo (clock v) (\<lambda>now.
     if \<not> validateTOTPCode (e_crypto v) secret code now then failS ErrInvalidCode
     else
     thenDo (users_do (UpdateTOTPSecret userID tenantID secret True)) (\<lambda>_.
     publish v (zero_event\<lparr>ev_Name := EventUser2FAEnabled, ev_UserID := userID\<rparr>))))"

definition VerifyTOTP :: "env \<Rightarrow> string \<Rightarrow> string \<Rightarrow> string \<Rightarrow> (User \<times> AuthTokens) action" where
  "VerifyTOTP v userID tenantID code =
     thenDo (mapErr (\<lambda>_. Sentinel ErrInvalidCredentials) (users_get (GetUserByID userID tenantID))) (\<lambda>user.
     if \<not> u_IsTOTPEnabled user \<or> u_TOTPSecret user = [] then failS ErrInvalidCredentials
     else
     thenDo (clock v) (\<lambda>now.
     if \<not> validateTOTPCode (e_crypto v) (u_TOTPSecret user) code now then failS ErrInvalidCode
     else
     thenDo (issueSession v user) (\<lambda>(tokens, sessionID).
     thenDo (publish v (login_success user sessionID loginMethodTOTP)) (\<lambda>_.
     ret (user, tokens)))))"

definition DisableTOTP :: "env \<Rightarrow> string \<Rightarrow> string \<Rightarrow> unit action" where
  "DisableTOTP v userID tenantID =
     if_supported v has_TOTPStore (
     thenDo (users_do (UpdateTOTPSecret userID tenantID [] False)) (\<lambda>_.
     publish v (zero_event\<lparr>ev_Name := EventUser2FADisabled, ev_UserID := userID\<rparr>)))"

definition VerifyTempToken :: "env \<Rightarrow> string \<Rightarrow> (string \<times> string) action" where
  "VerifyTempToken v token =
     thenDo (parseToken v token tokenTypeTemp) (\<lambda>claims. ret (tc_Sub claims, tc_Tid claims))"

text \<open>\<open>Auth.StepUpSubject\<close>: the subject, or the envelope to write.\<close>

definition StepUpSubject ::
    "env \<Rightarrow> string \<Rightarrow> HTTPError \<Rightarrow> HTTPError \<Rightarrow> (HTTPError + string \<times> string) action" where
  "StepUpSubject v tempToken missing invalid =
     (if trim_space tempToken = [] then ret (Inl missing)
      else thenDo (attempt (VerifyTempToken v tempToken)) (\<lambda>r.
        ret (case r of Inl _ \<Rightarrow> Inl invalid | Inr subject \<Rightarrow> Inr subject)))"

definition TwoFactorMode :: "string \<Rightarrow> bool" where
  "TwoFactorMode mode \<longleftrightarrow> mode = ''2fa''"

definition twoFactorPolicy :: "env \<Rightarrow> bool action" where
  "twoFactorPolicy v =
     (if cf_Require2FA (e_cfg v) then ret True
      else case e_settings v of
        None \<Rightarrow> ret False
      | Some f \<Rightarrow> thenDo (hook f) (\<lambda>require. ret (require = Some True)))"

subsection \<open>The provisioning URI\<close>

definition unreserved :: "char \<Rightarrow> bool" where
  "unreserved c \<longleftrightarrow> 65 \<le> byte c \<and> byte c \<le> 90 \<or> 97 \<le> byte c \<and> byte c \<le> 122 \<or>
     48 \<le> byte c \<and> byte c \<le> 57 \<or> c \<in> set ''-_.!~*'' \<or> c = CHR 0x27 \<or> c \<in> set ''()''"

definition escapeURIComponent :: "string \<Rightarrow> string" where
  "escapeURIComponent s = concat (map (\<lambda>c. if unreserved c then [c]
     else [CHR ''%'', ''0123456789ABCDEF'' ! (byte c div 16), ''0123456789ABCDEF'' ! (byte c mod 16)]) s)"

definition escapeOTPAuthLabel :: "string \<Rightarrow> string" where
  "escapeOTPAuthLabel s = join '':'' (map escapeURIComponent (split_on (CHR '':'') s))"

definition totpProvisioningURI :: "string \<Rightarrow> string \<Rightarrow> string \<Rightarrow> string" where
  "totpProvisioningURI secret account issuer =
     (let label = escapeOTPAuthLabel account;
          label = (if issuer \<noteq> [] then escapeOTPAuthLabel issuer @ '':'' @ label else label)
      in ''otpauth://totp/'' @ label @ ''?algorithm=SHA1'' @ ''&digits='' @ decimal (int TOTPDigits) @
         (if issuer \<noteq> [] then ''&issuer='' @ escapeURIComponent issuer else []) @
         ''&period='' @ decimal (TOTPPeriod sdiv second) @ ''&secret='' @ escapeURIComponent secret)"

definition StartTOTPEnrolment :: "env \<Rightarrow> string \<Rightarrow> string \<Rightarrow> (string \<times> string) action" where
  "StartTOTPEnrolment v userID tenantID =
     thenDo (mapErr (\<lambda>_. Sentinel ErrInvalidCredentials) (users_get (GetUserByID userID tenantID))) (\<lambda>user.
     thenDo (draw (generateTOTPSecret (e_crypto v))) (\<lambda>secret.
     ret (secret, totpProvisioningURI secret (u_Email user) (totpIssuer (e_cfg v)))))"

end
