(* ===== verification/Service_Account.thy ===== *)
theory Service_Account
  imports Service_Credentials
begin

text \<open>
  The account half of \<open>service.go\<close>, with \<open>account.go\<close> and the \<open>Auth\<close> methods of
  \<open>wire_password_email.go\<close>: the profile, the sessions a user can see and revoke, the deletion of
  an account across every store, and the delegations to the optional stores.
\<close>

section \<open>Profile\<close>

text \<open>Arguments: \<open>UserID\<close>, \<open>TenantID\<close>, \<open>FirstName\<close>, \<open>LastName\<close>; a nil field keeps what is stored.\<close>

definition UpdateProfile_service ::
    "env \<Rightarrow> string \<Rightarrow> string \<Rightarrow> string option \<Rightarrow> string option \<Rightarrow> User action" where
  "UpdateProfile_service v userID tenantID firstName lastName =
     if_supported v has_UserAccountStore (
     thenDo (if firstName = None \<or> lastName = None
       then thenDo (mapErr (Wrapped ''auth: update profile'') (users_get (GetUserByID userID tenantID)))
         (\<lambda>current. ret (case firstName of None \<Rightarrow> u_FirstName current | Some f \<Rightarrow> f,
                         case lastName of None \<Rightarrow> u_LastName current | Some l \<Rightarrow> l))
       else ret (the firstName, the lastName)) (\<lambda>(f, l).
     thenDo (wall v) (\<lambda>now.
     thenDo (mapErr (Wrapped ''auth: update profile'')
       (users_do (UpdateProfile now userID tenantID (trim_space f) (trim_space l)))) (\<lambda>updated.
     enrichUser v updated))))"

definition UpdatePhoneNumber_service :: "env \<Rightarrow> string \<Rightarrow> string \<Rightarrow> string \<Rightarrow> User action" where
  "UpdatePhoneNumber_service v userID tenantID phoneNumber =
     if_supported v has_UserPhoneStore (
     thenDo (wall v) (\<lambda>now.
     thenDo (mapErr (Wrapped ''auth: update phone number'')
       (users_do (UpdatePhoneNumber now userID tenantID (trim_space phoneNumber)))) (\<lambda>updated.
     enrichUser v updated)))"

section \<open>Sessions\<close>

definition ListSessions :: "env \<Rightarrow> string \<Rightarrow> string \<Rightarrow> Session list action" where
  "ListSessions v userID tenantID = if_supported v has_SessionAdminStore
     (sessions_get (\<lambda>s. Ok (ListSessionsForUser userID tenantID s)))"

text \<open>\<open>Auth.ListSessions\<close>: the sessions that are not revoked.\<close>

definition Auth_ListSessions :: "env \<Rightarrow> string \<Rightarrow> string \<Rightarrow> Session list action" where
  "Auth_ListSessions v userID tenantID =
     thenDo (ListSessions v userID tenantID) (\<lambda>sessions.
     ret (filter (\<lambda>x. s_RevokedAt x = None) sessions))"

definition RevokeSessionByID_service :: "env \<Rightarrow> string \<Rightarrow> unit action" where
  "RevokeSessionByID_service v sessionID = if_supported v has_SessionAdminStore
     (thenDo (wall v) (\<lambda>now. sessions_do (RevokeSessionByID now sessionID)))"

definition CleanupExpiredSessions :: "env \<Rightarrow> nat action" where
  "CleanupExpiredSessions v = if_supported v has_SessionAdminStore
     (thenDo (clock v) (\<lambda>now.
      sessions_do (\<lambda>s. case DeleteExpiredSessions now s of (n, s') \<Rightarrow> (Ok n, s'))))"

definition RevokeUserSession :: "env \<Rightarrow> string \<Rightarrow> string \<Rightarrow> string \<Rightarrow> unit action" where
  "RevokeUserSession v userID tenantID sessionID = if_supported v has_SessionAdminStore (
     let handle = trim_space sessionID in
     if handle = [] then failS ErrSessionNotFound
     else
     thenDo (sessions_get (\<lambda>s. Ok (ListSessionsForUser userID tenantID s))) (\<lambda>sessions.
     thenDo (clock v) (\<lambda>now.
     case find (\<lambda>x. s_ID x = handle) sessions of
       None \<Rightarrow> failS ErrSessionNotFound
     | Some session \<Rightarrow>
         if s_RevokedAt session \<noteq> None \<or> now > s_ExpiresAt session then failS ErrSessionNotFound
         else thenDo (wall v) (\<lambda>t. sessions_do (RevokeSessionByID t handle)))))"

section \<open>Deleting an account\<close>

text \<open>The loops of \<open>DeleteAccount\<close>; an error of a turn is dropped.\<close>

fun revoke_all :: "env \<Rightarrow> Session list \<Rightarrow> unit action" where
  "revoke_all v [] = ret ()"
| "revoke_all v (x # xs) =
     thenDo (wall v) (\<lambda>now.
     thenDo (attempt (sessions_do (RevokeSessionByID now (s_ID x)))) (\<lambda>_.
     revoke_all v xs))"

definition remove_roles :: "string \<Rightarrow> string \<Rightarrow> MemoryRolesPermissionsStore \<Rightarrow> MemoryRolesPermissionsStore" where
  "remove_roles userID tenantID s =
     fold (\<lambda>role t. snd (RemoveRoleFromUser userID role tenantID t)) (GetRolesForUser userID tenantID s) s"

definition leave_tenants :: "string \<Rightarrow> MemoryTenantStore \<Rightarrow> MemoryTenantStore" where
  "leave_tenants userID s =
     fold (\<lambda>t. DisassociateUserFromTenant userID (t_ID t)) (GetTenantsForUser userID s) s"

definition clean_optional_stores :: "string \<Rightarrow> string \<Rightarrow> unit action" where
  "clean_optional_stores userID tenantID w = (Ok (), w\<lparr>
     w_rbac := map_option (remove_roles userID tenantID) (w_rbac w),
     w_tenants := map_option (leave_tenants userID) (w_tenants w),
     w_metadata := map_option (ClearMetadata userID) (w_metadata w)\<rparr>)"

definition DeleteAccount :: "env \<Rightarrow> string \<Rightarrow> string \<Rightarrow> unit action" where
  "DeleteAccount v userID tenantID = if_supported v has_UserAccountStore (
     thenDo (if has_SessionAdminStore (e_caps v)
             then thenDo (sessions_get (\<lambda>s. Ok (ListSessionsForUser userID tenantID s))) (revoke_all v)
             else ret ()) (\<lambda>_.
     thenDo (clean_optional_stores userID tenantID) (\<lambda>_.
     thenDo (mapErr (Wrapped ''auth: delete account'') (users_do (DeleteUser userID tenantID))) (\<lambda>_.
     publish v (zero_event\<lparr>ev_Name := EventUserDeleted, ev_UserID := userID\<rparr>)))))"

section \<open>Delegations\<close>

text \<open>A call on an optional store that is not configured is refused.\<close>

definition metadata_call :: "(MemoryMetadataStore \<Rightarrow> 'a \<times> MemoryMetadataStore) \<Rightarrow> 'a action" where
  "metadata_call f w = (case w_metadata w of None \<Rightarrow> (Err ErrFeatureNotSupported, w)
     | Some s \<Rightarrow> (case f s of (r, s') \<Rightarrow> (Ok r, w\<lparr>w_metadata := Some s'\<rparr>)))"

definition rbac_call ::
    "(MemoryRolesPermissionsStore \<Rightarrow> 'a result \<times> MemoryRolesPermissionsStore) \<Rightarrow> 'a action" where
  "rbac_call f w = (case w_rbac w of None \<Rightarrow> (Err ErrFeatureNotSupported, w)
     | Some s \<Rightarrow> (case f s of (r, s') \<Rightarrow> (r, w\<lparr>w_rbac := Some s'\<rparr>)))"

definition tenants_call :: "(MemoryTenantStore \<Rightarrow> 'a result \<times> MemoryTenantStore) \<Rightarrow> 'a action" where
  "tenants_call f w = (case w_tenants w of None \<Rightarrow> (Err ErrFeatureNotSupported, w)
     | Some s \<Rightarrow> (case f s of (r, s') \<Rightarrow> (r, w\<lparr>w_tenants := Some s'\<rparr>)))"

definition GetMetadata_service :: "string \<Rightarrow> json_object action" where
  "GetMetadata_service userID = metadata_call (\<lambda>s. (GetMetadata userID s, s))"

definition UpdateMetadata_service :: "string \<Rightarrow> json_object \<Rightarrow> unit action" where
  "UpdateMetadata_service userID m = metadata_call (\<lambda>s. ((), UpdateMetadata userID m s))"

definition CreateRole_service :: "string \<Rightarrow> string list \<Rightarrow> unit action" where
  "CreateRole_service role permissions = rbac_call (\<lambda>s. (Ok (), CreateRole role permissions s))"

definition AssignRole :: "string \<Rightarrow> string \<Rightarrow> string \<Rightarrow> unit action" where
  "AssignRole userID role tenantID = rbac_call (AddRoleToUser userID role tenantID)"

definition UserHasPermission_service :: "string \<Rightarrow> string \<Rightarrow> string \<Rightarrow> bool action" where
  "UserHasPermission_service userID permission tenantID =
     rbac_call (\<lambda>s. (Ok (UserHasPermission userID permission tenantID s), s))"

definition CreateTenant_service :: "env \<Rightarrow> string \<Rightarrow> json_object \<Rightarrow> Tenant action" where
  "CreateTenant_service v name config w = (case w_tenants w of
     None \<Rightarrow> (Err ErrFeatureNotSupported, w)
   | Some _ \<Rightarrow>
       thenDo (draw (newID (e_crypto v) ''tnt'')) (\<lambda>tid.
       thenDo (clock v) (\<lambda>now.
       tenants_call (CreateTenant \<lparr>t_ID = tid, t_Name = name, t_IsActive = True,
         t_Config = config, t_CreatedAt = now\<rparr>))) w)"

definition AddUserToTenant :: "string \<Rightarrow> string \<Rightarrow> unit action" where
  "AddUserToTenant userID tenantID = tenants_call (AssociateUserWithTenant userID tenantID)"

definition ListUsers_service :: "env \<Rightarrow> string \<Rightarrow> int \<Rightarrow> int \<Rightarrow> User list outcome action" where
  "ListUsers_service v tenantID limit offset = if_supported v has_AdminUserStore
     (users_get (\<lambda>s. Ok (ListUsers tenantID limit offset s)))"

definition ListAllSessions :: "env \<Rightarrow> int \<Rightarrow> int \<Rightarrow> Session list outcome action" where
  "ListAllSessions v limit offset = if_supported v has_SessionLister
     (sessions_get (\<lambda>s. Ok (GetAllSessions limit offset s)))"

definition ListAllRoles :: "env \<Rightarrow> string list action" where
  "ListAllRoles v w = (case w_rbac w of
     None \<Rightarrow> (Err ErrFeatureNotSupported, w)
   | Some s \<Rightarrow> if has_RoleLister (e_caps v) then (Ok (GetAllRoles s), w)
                else (Err ErrFeatureNotSupported, w))"

section \<open>The methods of Auth that are more than a delegation\<close>

text \<open>A failed delivery does not change the answer of \<open>/forgot-password\<close>.\<close>

definition Auth_ForgotPassword :: "env \<Rightarrow> string \<Rightarrow> string \<Rightarrow> string \<Rightarrow> string \<Rightarrow> string action" where
  "Auth_ForgotPassword v email tenantID linkBase lang w =
     (case ForgotPassword v email tenantID linkBase lang w of
        (Inl err, w') \<Rightarrow> if errors_is err ErrDeliveryFailed then (Ok [], w') else (Inl err, w')
      | (Inr token, w') \<Rightarrow> (Ok token, w'))"

text \<open>Arguments: \<open>UserID\<close>, \<open>TenantID\<close>, \<open>CurrentPassword\<close>, \<open>NewPassword\<close>. An account without a
  password sets its first one.\<close>

definition Auth_ChangePassword :: "env \<Rightarrow> string \<Rightarrow> string \<Rightarrow> string \<Rightarrow> string \<Rightarrow> unit action" where
  "Auth_ChangePassword v userID tenantID currentPassword newPassword =
     thenDo (mapErr (\<lambda>_. Sentinel ErrInvalidCredentials) (users_get (GetUserByID userID tenantID))) (\<lambda>user.
     if u_PasswordHash user \<noteq> [] then ChangePassword v userID tenantID currentPassword newPassword
     else if int (length newPassword) < cf_MinPasswordLen (e_cfg v) then failS ErrWeakPassword
     else if_supported v has_UserPasswordStore (
     thenDo (draw (hashPassword (e_crypto v) newPassword (cf_BcryptCost (e_cfg v)))) (\<lambda>pwHash.
     users_do (UpdatePassword (u_ID user) (u_TenantID user) pwHash))))"

definition ChangePasswordInlineError :: "User \<Rightarrow> string \<Rightarrow> string \<Rightarrow> HTTPError option" where
  "ChangePasswordInlineError user currentPassword newPassword =
     (if u_PasswordHash user = [] \<and> currentPassword = [] \<and> newPassword = []
      then Some HTTPErrNewPasswordRequired else None)"

definition ChangeEmailInlineError :: "User \<Rightarrow> HTTPError option" where
  "ChangeEmailInlineError user =
     (if u_PasswordHash user = [] then Some HTTPErrPasswordRequired else None)"

end
