(* ===== verification/Service_Invariants.thy ===== *)
theory Service_Invariants
  imports Service_Account
begin

text \<open>
  What every service call keeps. \<open>world_ok\<close> joins the invariants of the stores with the origin of
  the session ids; \<open>service_step\<close> is one call of the service, on whatever arguments and with
  whatever answer, and \<open>service_reachable\<close> the worlds a sequence of calls reaches from empty
  stores. A call is one step (calls that overlap in time are not interleaved).
\<close>

named_theorems invs \<open>an action preserves the world's invariant\<close>

section \<open>The invariant\<close>

definition session_ids_drawn :: "crypto \<Rightarrow> world \<Rightarrow> bool" where
  "session_ids_drawn c w \<longleftrightarrow> (\<forall>i x. session_at (w_sessions w) i = Some x \<longrightarrow>
     (\<exists>k b. k < w_tick w \<and> c_rand c k 16 = Inr b \<and> i = ''ses_'' @ hex_encode b))"

definition world_ok :: "crypto \<Rightarrow> world \<Rightarrow> bool" where
  "world_ok c w \<longleftrightarrow> user_store_ok (w_users w) \<and> session_store_ok (w_sessions w) \<and>
     (\<forall>s. w_rbac w = Some s \<longrightarrow> rbac_ok s) \<and> (\<forall>s. w_tenants w = Some s \<longrightarrow> tenant_store_ok s) \<and>
     session_ids_drawn c w"

lemma inv_thenDo [invs]:
  "preserves P m \<Longrightarrow> (\<And>x. preserves P (g x)) \<Longrightarrow> preserves P (thenDo m g)"
  by (rule preserves_thenDo)

lemma inv_simple [invs]:
  "preserves P (ret x)" "preserves P (failWith e)" "preserves P (users_get f)"
  "preserves P (sessions_get g)"
  by (simp_all add: preserves_def ret_def failWith_def users_get_def sessions_get_def)

lemma inv_attempt [invs]: "preserves P m \<Longrightarrow> preserves P (attempt m)"
  by (auto simp: preserves_def attempt_def split: prod.splits)

lemma inv_mapErr [invs]: "preserves P m \<Longrightarrow> preserves P (mapErr g m)"
  by (auto simp: preserves_def mapErr_def split: prod.splits sum.splits)

lemma inv_branches [invs]:
  "preserves P a \<Longrightarrow> preserves P b \<Longrightarrow> preserves P (if c then a else b)"
  "preserves P a \<Longrightarrow> (\<And>x. preserves P (f x)) \<Longrightarrow> preserves P (case y of None \<Rightarrow> a | Some x \<Rightarrow> f x)"
  "(\<And>x. preserves P (l x)) \<Longrightarrow> (\<And>x. preserves P (r x)) \<Longrightarrow>
     preserves P (case z of Inl x \<Rightarrow> l x | Inr x \<Rightarrow> r x)"
  "(\<And>x1 x2. preserves P (p x1 x2)) \<Longrightarrow> preserves P (case q of (x1, x2) \<Rightarrow> p x1 x2)"
  "preserves P a \<Longrightarrow> preserves P (if_supported v cap a)"
  by (auto simp: if_supported_def inv_simple split: option.splits sum.splits prod.splits)

lemma world_ok_tick: "world_ok c w \<Longrightarrow> w_tick w \<le> k \<Longrightarrow> world_ok c (w\<lparr>w_tick := k\<rparr>)"
  by (simp add: world_ok_def session_ids_drawn_def) (meson order_less_le_trans)

lemma inv_ticks [invs]:
  "preserves (world_ok c) (tick f)" "preserves (world_ok c) (hook h)"
  "preserves (world_ok c) (clock v)" "preserves (world_ok c) (wall v)"
  by (auto simp: preserves_def tick_def hook_def clock_def wall_def world_ok_tick)

lemma inv_draw [invs]: "(\<And>k. k \<le> snd (d k)) \<Longrightarrow> preserves (world_ok c) (draw d)"
  by (auto simp: preserves_def draw_def split: prod.splits) (metis snd_conv world_ok_tick)

lemma draws_advance [invs]:
  "k \<le> snd (newID c p k)" "k \<le> snd (hashPassword c pw cost k)" "k \<le> snd (randomToken c n k)"
  by (simp_all add: newID_def hashPassword_def randomToken_def Let_def split: sum.splits)

lemma random_digits_advance: "k \<le> snd (random_digits c n k)"
proof (induction n arbitrary: k)
  case (Suc n)
  show ?case
    using Suc[of "Suc k"] by (auto split: sum.splits prod.splits)
qed simp

lemma more_draws_advance [invs]:
  "k \<le> snd (randomNumericCode c i k)" "k \<le> snd (generateTOTPSecret c k)"
  using draws_advance(3)[of k c 20]
  by (auto simp: randomNumericCode_def random_digits_advance generateTOTPSecret_def
      split: sum.splits prod.splits)

lemma inv_publish [invs]: "preserves (world_ok c) (publish v e)"
  by (auto simp: preserves_def publish_def world_ok_def session_ids_drawn_def)

lemma inv_send [invs]: "preserves (world_ok c) (send_through f d)"
proof -
  have "world_ok c (w\<lparr>w_tick := k, w_outbox := ds\<rparr>) = world_ok c (w\<lparr>w_tick := k\<rparr>)" for w k ds
    by (simp add: world_ok_def session_ids_drawn_def)
  then show ?thesis by (simp add: preserves_def send_through_def world_ok_tick)
qed

lemma inv_users_do [invs]:
  "(\<And>s. user_store_ok s \<Longrightarrow> user_store_ok (snd (f s))) \<Longrightarrow> preserves (world_ok c) (users_do f)"
  by (auto simp: preserves_def users_do_def world_ok_def session_ids_drawn_def split: prod.splits)
     (metis snd_conv)

text \<open>A session-store operation that invents no id.\<close>

lemma inv_sessions_do:
  assumes "\<And>s. session_store_ok s \<Longrightarrow> session_store_ok (snd (f s))"
    and "\<And>s i. session_at (snd (f s)) i \<noteq> None \<Longrightarrow> session_at s i \<noteq> None"
  shows "preserves (world_ok c) (sessions_do f)"
  unfolding preserves_def
proof (intro allI impI)
  fix w assume ok: "world_ok c w"
  obtain r s where f: "f (w_sessions w) = (r, s)" by fastforce
  have "session_store_ok s" using assms(1)[of "w_sessions w"] ok f by (simp add: world_ok_def)
  moreover have "\<exists>x. session_at (w_sessions w) i = Some x" if "session_at s i = Some x" for i x
    using assms(2)[of "w_sessions w" i] that f by auto
  ultimately show "world_ok c (snd (sessions_do f w))"
    using ok unfolding world_ok_def session_ids_drawn_def sessions_do_def f by simp
qed

lemma session_ops_ids:
  "session_at (snd (UpdateSession x s)) i \<noteq> None \<Longrightarrow> session_at s i \<noteq> None"
  "session_at (snd (RevokeSessionByID now j s)) i \<noteq> None \<Longrightarrow> session_at s i \<noteq> None"
  by (auto simp: session_at_def UpdateSession_def RevokeSessionByID_def Let_def
      split: option.splits if_splits)

lemma inv_session_ops [invs]:
  "preserves (world_ok c) (sessions_do (UpdateSession x))"
  "preserves (world_ok c) (sessions_do (RevokeSessionByID now j))"
  by (rule inv_sessions_do, erule UpdateSession_ok RevokeSessionByID_ok, erule session_ops_ids)+

section \<open>Opening a session\<close>

text \<open>What \<open>issueSession\<close> does: reads, then one \<open>CreateSession\<close> when nothing failed.\<close>

lemma issueToken_effect:
  assumes "issueToken v u sid ty ttl w = (r, w')"
  shows "w_tick w < w_tick w' \<and> w' = w\<lparr>w_tick := w_tick w'\<rparr>"
  using assms
  by (auto simp: issueToken_def custom_claims_def thenDo_def clock_def tick_def draw_def newID_def
      mapErr_def hook_def ret_def Let_def
      split: sum.splits prod.splits option.splits)

lemma issueSession_Ok:
  assumes "issueSession v u w = (Ok (tokens, sid), w')"
  shows "\<exists>b w1 w2 w3 refreshExp accessExp now.
    c_rand (e_crypto v) (w_tick w) 16 = Inr b \<and> sid = ''ses_'' @ hex_encode b \<and>
    w1 = w\<lparr>w_tick := Suc (w_tick w)\<rparr> \<and>
    issueToken v u sid ''refresh'' (cf_RefreshTokenTTL (e_cfg v)) w1
      = (Ok (at_RefreshToken tokens, refreshExp), w2) \<and>
    issueToken v u sid ''access'' (cf_AccessTokenTTL (e_cfg v)) w2
      = (Ok (at_AccessToken tokens, accessExp), w3) \<and>
    at_ExpiresIn tokens = cf_AccessTokenTTL (e_cfg v) \<and>
    w' = w3\<lparr>w_tick := Suc (w_tick w3), w_sessions := snd (CreateSession \<lparr>s_ID = sid,
      s_UserID = u_ID u, s_TenantID = u_TenantID u,
      s_RefreshTokenHash = hashToken (e_crypto v) (at_RefreshToken tokens),
      s_CreatedAt = now, s_ExpiresAt = refreshExp, s_RevokedAt = None\<rparr> (w_sessions w))\<rparr>"
proof -
  obtain k w2 w3 rt rexp at aexp s where
    1: "newID (e_crypto v) ''ses'' (w_tick w) = (Ok sid, k)"
    and 2: "issueToken v u sid ''refresh'' (cf_RefreshTokenTTL (e_cfg v)) (w\<lparr>w_tick := k\<rparr>) = (Ok (rt, rexp), w2)"
    and 3: "issueToken v u sid ''access'' (cf_AccessTokenTTL (e_cfg v)) w2 = (Ok (at, aexp), w3)"
    and 4: "s = snd (CreateSession \<lparr>s_ID = sid, s_UserID = u_ID u, s_TenantID = u_TenantID u,
        s_RefreshTokenHash = hashToken (e_crypto v) rt, s_CreatedAt = e_clock v (w_tick w3),
        s_ExpiresAt = rexp, s_RevokedAt = None\<rparr> (w_sessions w3))"
    and 5: "w' = w3\<lparr>w_tick := Suc (w_tick w3), w_sessions := s\<rparr>"
    and 6: "tokens = \<lparr>at_AccessToken = at, at_RefreshToken = rt, at_ExpiresIn = cf_AccessTokenTTL (e_cfg v)\<rparr>"
    using assms unfolding issueSession_def by (auto simp: action_Ok clock_def CreateSession_def)
  have "w_sessions w2 = w_sessions w" "w_sessions w3 = w_sessions w2"
    using arg_cong[OF conjunct2[OF issueToken_effect[OF 2]], of w_sessions]
      arg_cong[OF conjunct2[OF issueToken_effect[OF 3]], of w_sessions] by simp_all
  then show ?thesis
    using 1 2 3 4 5 6 by (auto simp: newID_Ok)
qed

lemma only_ticks_trans:
  assumes "w_tick a \<le> w_tick b \<and> b = a\<lparr>w_tick := w_tick b\<rparr>"
    and "w_tick b \<le> w_tick c \<and> c = b\<lparr>w_tick := w_tick c\<rparr>"
  shows "w_tick a \<le> w_tick c \<and> c = a\<lparr>w_tick := w_tick c\<rparr>"
proof -
  have "c = a\<lparr>w_tick := w_tick b\<rparr>\<lparr>w_tick := w_tick c\<rparr>" using assms by metis
  then have "c = a\<lparr>w_tick := w_tick c\<rparr>" by simp
  then show ?thesis using assms by linarith
qed

lemma draw_ticks:
  "draw (newID c p) w = (r, w') \<Longrightarrow> w_tick w \<le> w_tick w' \<and> w' = w\<lparr>w_tick := w_tick w'\<rparr>"
  by (auto simp: draw_def newID_def split: sum.splits)

lemma weaken_ticks:
  "w_tick w < w_tick w' \<and> w' = w\<lparr>w_tick := w_tick w'\<rparr> \<Longrightarrow>
   w_tick w \<le> w_tick w' \<and> w' = w\<lparr>w_tick := w_tick w'\<rparr>"
  by simp

lemma issueSession_error:
  assumes "issueSession v u w = (Inl e, w')"
  shows "w_tick w \<le> w_tick w' \<and> w' = w\<lparr>w_tick := w_tick w'\<rparr>"
  using assms unfolding issueSession_def thenDo_Inl
proof (elim disjE exE conjE)
  assume "draw (newID (e_crypto v) ''ses'') w = (Inl e, w')"
  then show ?thesis by (auto simp: draw_def newID_def split: sum.splits prod.splits)
next
  fix x w1
  assume 1: "draw (newID (e_crypto v) ''ses'') w = (Ok x, w1)"
    and "issueToken v u x ''refresh'' (cf_RefreshTokenTTL (e_cfg v)) w1 = (Inl e, w')"
  then show ?thesis
    using only_ticks_trans[OF draw_ticks[OF 1] weaken_ticks[OF issueToken_effect]] by blast
next
  fix x w1 y w2
  assume 1: "draw (newID (e_crypto v) ''ses'') w = (Ok x, w1)"
    and 2: "issueToken v u x ''refresh'' (cf_RefreshTokenTTL (e_cfg v)) w1 = (Ok y, w2)"
    and 3: "(case y of (refreshToken, refreshExp) \<Rightarrow>
       thenDo (issueToken v u x ''access'' (cf_AccessTokenTTL (e_cfg v)))
        (\<lambda>(accessToken, _). thenDo (clock v) (\<lambda>now.
          thenDo (sessions_do (CreateSession \<lparr>s_ID = x, s_UserID = u_ID u,
            s_TenantID = u_TenantID u, s_RefreshTokenHash = hashToken (e_crypto v) refreshToken,
            s_CreatedAt = now, s_ExpiresAt = refreshExp, s_RevokedAt = None\<rparr>)) (\<lambda>_.
          ret (\<lparr>at_AccessToken = accessToken, at_RefreshToken = refreshToken,
            at_ExpiresIn = cf_AccessTokenTTL (e_cfg v)\<rparr>, x))))) w2 = (Inl e, w')"
  have "issueToken v u x ''access'' (cf_AccessTokenTTL (e_cfg v)) w2 = (Inl e, w')"
    using 3 by (auto simp: thenDo_Inl clock_def tick_def sessions_do_def CreateSession_def ret_def
        split: prod.splits)
  then show ?thesis
    using only_ticks_trans[OF only_ticks_trans[OF draw_ticks[OF 1] weaken_ticks[OF issueToken_effect[OF 2]]]
        weaken_ticks[OF issueToken_effect]] by blast
qed

lemma new_session_id:
  assumes "fresh_draws c" "session_ids_drawn c w" "c_rand c (w_tick w) 16 = Inr b"
  shows "session_at (w_sessions w) (''ses_'' @ hex_encode b) = None"
proof (rule ccontr)
  assume "session_at (w_sessions w) (''ses_'' @ hex_encode b) \<noteq> None"
  then obtain k b' where "k < w_tick w" "c_rand c k 16 = Inr b'" "hex_encode b = hex_encode b'"
    using assms(2) by (auto simp: session_ids_drawn_def)
  then show False using assms(1,3) hex_encode_inj unfolding fresh_draws_def by (metis less_irrefl)
qed

lemma inv_issueSession [invs]:
  assumes "fresh_draws (e_crypto v)"
  shows "preserves (world_ok (e_crypto v)) (issueSession v u)"
  unfolding preserves_def
proof (intro allI impI)
  fix w assume ok: "world_ok (e_crypto v) w"
  show "world_ok (e_crypto v) (snd (issueSession v u w))"
  proof (cases "issueSession v u w")
    case (Pair r w')
    show ?thesis
    proof (cases r)
      case (Inl e)
      then have e: "issueSession v u w = (Inl e, w')" using Pair by simp
      then show ?thesis
        using issueSession_error[OF e] world_ok_tick[OF ok, of "w_tick w'"] by simp
    next
      case (Inr x)
      then obtain tokens sid where "issueSession v u w = (Ok (tokens, sid), w')"
        using Pair by (cases x) auto
      from issueSession_Ok[OF this] obtain b w1 w2 w3 rexp aexp now where
        b: "c_rand (e_crypto v) (w_tick w) 16 = Inr b" "sid = ''ses_'' @ hex_encode b"
        and w1: "w1 = w\<lparr>w_tick := Suc (w_tick w)\<rparr>"
        and i2: "issueToken v u sid ''refresh'' (cf_RefreshTokenTTL (e_cfg v)) w1 = (Ok (at_RefreshToken tokens, rexp), w2)"
        and i3: "issueToken v u sid ''access'' (cf_AccessTokenTTL (e_cfg v)) w2 = (Ok (at_AccessToken tokens, aexp), w3)"
        and w': "w' = w3\<lparr>w_tick := Suc (w_tick w3), w_sessions := snd (CreateSession \<lparr>s_ID = sid,
          s_UserID = u_ID u, s_TenantID = u_TenantID u,
          s_RefreshTokenHash = hashToken (e_crypto v) (at_RefreshToken tokens),
          s_CreatedAt = now, s_ExpiresAt = rexp, s_RevokedAt = None\<rparr> (w_sessions w))\<rparr>"
        by blast
      have k: "w_tick w < w_tick w3" "w3 = w\<lparr>w_tick := w_tick w3\<rparr>"
        using only_ticks_trans[OF weaken_ticks[OF issueToken_effect[OF i2]] weaken_ticks[OF issueToken_effect[OF i3]]] w1
        by auto
      have new: "fmlookup (ss_byID (w_sessions w)) sid = None"
        using new_session_id[OF assms _ b(1)] ok b(2) by (simp add: world_ok_def session_at_def)
      have parts: "w_users w3 = w_users w" "w_rbac w3 = w_rbac w" "w_tenants w3 = w_tenants w"
        by (subst k(2), simp)+
      have drawn: "\<exists>j b'. j < Suc (w_tick w3) \<and> c_rand (e_crypto v) j 16 = Inr b' \<and> i = ''ses_'' @ hex_encode b'"
        if "session_at (w_sessions w) i = Some x" for i x
        using ok that k(1) unfolding world_ok_def session_ids_drawn_def
        by (meson less_SucI less_trans)
      have new_id: "\<exists>j b'. j < Suc (w_tick w3) \<and> c_rand (e_crypto v) j 16 = Inr b' \<and> sid = ''ses_'' @ hex_encode b'"
        using b k(1) less_SucI by blast
      have "session_ids_drawn (e_crypto v) w'"
        unfolding session_ids_drawn_def w'
        using drawn new_id by (auto simp: CreateSession_def session_at_def split: if_split_asm)
      then show ?thesis
        using ok CreateSession_ok new parts unfolding Pair world_ok_def by (simp add: w')
    qed
  qed
qed

section \<open>Every call keeps the invariant\<close>

lemma inv_parseToken [invs]: "preserves (world_ok c) (parseToken v t ty)"
  unfolding parseToken_def by (intro invs)

lemma inv_issueToken [invs]: "preserves (world_ok c) (issueToken v u sid ty ttl)"
  unfolding issueToken_def custom_claims_def Let_def by (intro invs)

lemma inv_enrich [invs]: "preserves (world_ok c) (enrichUser v u)" "preserves (world_ok c) (enrich_action u)"
    "preserves (world_ok c) (enrichCustomClaims v u)"
proof -
  show e: "preserves (world_ok c) (enrich_action u)" for u
    by (simp add: preserves_def enrich_action_def)
  show x: "preserves (world_ok c) (enrichCustomClaims v u)" for u
    unfolding enrichCustomClaims_def by (intro invs)
  show "preserves (world_ok c) (enrichUser v u)" unfolding enrichUser_def by (intro invs e x)
qed

lemma inv_live_until [invs]:
  "preserves (world_ok c) m \<Longrightarrow> preserves (world_ok c) (live_until v ex s m)"
  unfolding live_until_def by (intro invs)

lemma inv_deliver [invs]: "preserves (world_ok c) (deliver what s d)"
  unfolding deliver_def by (intro invs)

lemma inv_resolveUser [invs]: "preserves (world_ok c) (resolveUser i e t)"
  unfolding resolveUser_def Let_def by (intro invs)

lemma inv_loginFailed [invs]: "preserves (world_ok c) (loginFailed v e err)"
  unfolding loginFailed_def by (intro invs)

text \<open>One call of the service, whatever it answers.\<close>

inductive service_step :: "env \<Rightarrow> world \<Rightarrow> world \<Rightarrow> bool" for v where
  Register_step: "service_step v w (snd (Register v e p t w))"
| Login_step: "service_step v w (snd (Login v e p t w))"
| LoginWithChallenge_step: "service_step v w (snd (LoginWithChallenge v e p t w))"
| Refresh_step: "service_step v w (snd (Refresh v rt w))"
| Logout_step: "service_step v w (snd (Logout v rt w))"
| Authenticate_step: "service_step v w (snd (Authenticate v at w))"
| Me_step: "service_step v w (snd (Me v at w))"
| IssueTempToken_step: "service_step v w (snd (IssueTempToken v u w))"
| ForgotPassword_step: "service_step v w (snd (ForgotPassword v e t b l w))"
| ResetPassword_step: "service_step v w (snd (ResetPassword v tok p w))"
| ChangePassword_step: "service_step v w (snd (ChangePassword v i t p q w))"
| SendMagicLink_step: "service_step v w (snd (SendMagicLink v e t b l w))"
| verifyMagicLink_step: "service_step v w (snd (verifyMagicLink v tok i w))"
| SendSMSCode_step: "service_step v w (snd (SendSMSCode v i e t w))"
| VerifySMSCode_step: "service_step v w (snd (VerifySMSCode v i e t code w))"
| SendVerificationEmailToken_step: "service_step v w (snd (SendVerificationEmailToken v i t b l w))"
| VerifyEmail_step: "service_step v w (snd (VerifyEmail v tok w))"
| RequestEmailChange_step: "service_step v w (snd (RequestEmailChange v i t e b l w))"
| ConfirmEmailChange_step: "service_step v w (snd (ConfirmEmailChange v tok l w))"
| SetupTOTP_step: "service_step v w (snd (SetupTOTP v i t w))"
| VerifyTOTPSetup_step: "service_step v w (snd (VerifyTOTPSetup v i t sec code w))"
| VerifyTOTP_step: "service_step v w (snd (VerifyTOTP v i t code w))"
| DisableTOTP_step: "service_step v w (snd (DisableTOTP v i t w))"
| VerifyTempToken_step: "service_step v w (snd (VerifyTempToken v tok w))"
| twoFactorPolicy_step: "service_step v w (snd (twoFactorPolicy v w))"
| StartTOTPEnrolment_step: "service_step v w (snd (StartTOTPEnrolment v i t w))"
| UpdateProfile_service_step: "service_step v w (snd (UpdateProfile_service v i t f n w))"
| UpdatePhoneNumber_service_step: "service_step v w (snd (UpdatePhoneNumber_service v i t p w))"
| ListSessions_step: "service_step v w (snd (ListSessions v i t w))"
| RevokeSessionByID_service_step: "service_step v w (snd (RevokeSessionByID_service v sid w))"
| CleanupExpiredSessions_step: "service_step v w (snd (CleanupExpiredSessions v w))"
| RevokeUserSession_step: "service_step v w (snd (RevokeUserSession v i t sid w))"
| DeleteAccount_step: "service_step v w (snd (DeleteAccount v i t w))"
| UpdateMetadata_service_step: "service_step v w (snd (UpdateMetadata_service i m w))"
| CreateRole_service_step: "service_step v w (snd (CreateRole_service r ps w))"
| AssignRole_step: "service_step v w (snd (AssignRole i r t w))"
| CreateTenant_service_step: "service_step v w (snd (CreateTenant_service v n cf w))"
| AddUserToTenant_step: "service_step v w (snd (AddUserToTenant i t w))"
| Auth_ForgotPassword_step: "service_step v w (snd (Auth_ForgotPassword v e t b l w))"
| Auth_ChangePassword_step: "service_step v w (snd (Auth_ChangePassword v i t p q w))"

lemma inv_verifier [invs]: "preserves (world_ok c) (verifyThroughPasswordVerifier v u p)"
  unfolding verifyThroughPasswordVerifier_def by (intro invs store_intros)

lemma inv_loginPassword [invs]: "preserves (world_ok c) (loginPassword v e p t)"
  unfolding loginPassword_def Let_def by (intro invs)

text \<open>The calls that open sessions or store token hashes need the primitives' promises.\<close>

lemma inv_session_calls:
  assumes "fresh_draws (e_crypto v)"
  shows "preserves (world_ok (e_crypto v)) (Register v e p t)"
    "preserves (world_ok (e_crypto v)) (Login v e p t)"
    "preserves (world_ok (e_crypto v)) (LoginWithChallenge v e p t)"
    "preserves (world_ok (e_crypto v)) (Refresh v rt)"
    "preserves (world_ok (e_crypto v)) (Logout v rt)"
    "preserves (world_ok (e_crypto v)) (verifyMagicLink v tok i)"
    "preserves (world_ok (e_crypto v)) (VerifySMSCode v i e t code)"
    "preserves (world_ok (e_crypto v)) (VerifyTOTP v i t code)"
  unfolding Register_def newSessionTokens_def Login_def completeLocalLogin_def LoginWithChallenge_def
    twoFactorChallenge_def IssueTempToken_def Refresh_def Logout_def verifyMagicLink_def
    VerifySMSCode_def VerifyTOTP_def Let_def
  by ((intro invs store_intros assms | assumption)+)

lemma inv_token_calls:
  assumes "sha256_size (e_crypto v)"
  shows "preserves (world_ok (e_crypto v)) (ForgotPassword v e t b l)"
    "preserves (world_ok (e_crypto v)) (SendMagicLink v e t b l)"
    "preserves (world_ok (e_crypto v)) (SendVerificationEmailToken v i t b l)"
    "preserves (world_ok (e_crypto v)) (RequestEmailChange v i t e b l)"
    "preserves (world_ok (e_crypto v)) (SendSMSCode v i e t)"
  unfolding ForgotPassword_def deliverPasswordReset_def SendMagicLink_def SendVerificationEmailToken_def
    deliverEmailVerification_def RequestEmailChange_def deliverEmailChange_def SendSMSCode_def Let_def
  by ((intro invs store_intros hashToken_nonempty assms | assumption)+)

lemma inv_plain_calls [invs]:
  "preserves (world_ok c) (Authenticate v at)"
  "preserves (world_ok c) (IssueTempToken v u)"
  "preserves (world_ok c) (ResetPassword v tok p)"
  "preserves (world_ok c) (ChangePassword v i t p q)"
  "preserves (world_ok c) (VerifyEmail v tok)"
  "preserves (world_ok c) (ConfirmEmailChange v tok l)"
  "preserves (world_ok c) (SetupTOTP v i t)"
  "preserves (world_ok c) (VerifyTOTPSetup v i t sec code)"
  "preserves (world_ok c) (DisableTOTP v i t)"
  "preserves (world_ok c) (VerifyTempToken v tok)"
  "preserves (world_ok c) (twoFactorPolicy v)"
  "preserves (world_ok c) (StartTOTPEnrolment v i t)"
  "preserves (world_ok c) (UpdateProfile_service v i t f n)"
  "preserves (world_ok c) (UpdatePhoneNumber_service v i t p)"
  "preserves (world_ok c) (ListSessions v i t)"
  "preserves (world_ok c) (RevokeSessionByID_service v sid)"
  "preserves (world_ok c) (RevokeUserSession v i t sid)"
  "preserves (world_ok c) (Auth_ChangePassword v i t p q)"
  unfolding Authenticate_def validateSessionForAccess_def validateSessionState_def IssueTempToken_def
    ResetPassword_def ChangePassword_def VerifyEmail_def ConfirmEmailChange_def deliverEmailChanged_def
    SetupTOTP_def VerifyTOTPSetup_def DisableTOTP_def VerifyTempToken_def twoFactorPolicy_def
    StartTOTPEnrolment_def UpdateProfile_service_def UpdatePhoneNumber_service_def ListSessions_def
    RevokeSessionByID_service_def RevokeUserSession_def Auth_ChangePassword_def ChangePassword_def Let_def
  by ((intro invs store_intros | assumption)+)

lemma inv_revoke_all [invs]: "preserves (world_ok c) (revoke_all v xs)"
  by (induction xs) (simp_all, (intro invs | assumption)+)

lemmas rbac_op_ok = rbac_step.intros[THEN rbac_step_ok]
lemmas tenant_op_ok = tenant_step.intros[THEN tenant_step_ok]

lemma remove_roles_ok: "rbac_ok s \<Longrightarrow> rbac_ok (remove_roles u t s)"
  unfolding remove_roles_def
  by (rule fold_invariant[of _ "\<lambda>_. True" rbac_ok]) (auto intro: rbac_step_ok rbac_step.intros)

lemma leave_tenants_ok: "tenant_store_ok s \<Longrightarrow> tenant_store_ok (leave_tenants u s)"
  unfolding leave_tenants_def
  by (rule fold_invariant[of _ "\<lambda>_. True" tenant_store_ok]) (auto intro: tenant_step_ok tenant_step.intros)

lemma inv_optional_stores [invs]:
  "preserves (world_ok c) (clean_optional_stores u t)"
  "preserves (world_ok c) (metadata_call f)"
  "(\<And>s. rbac_ok s \<Longrightarrow> rbac_ok (snd (g s))) \<Longrightarrow> preserves (world_ok c) (rbac_call g)"
  "(\<And>s. tenant_store_ok s \<Longrightarrow> tenant_store_ok (snd (h s))) \<Longrightarrow> preserves (world_ok c) (tenants_call h)"
proof -
  show "preserves (world_ok c) (clean_optional_stores u t)"
    by (auto simp: preserves_def clean_optional_stores_def world_ok_def session_ids_drawn_def
        remove_roles_ok leave_tenants_ok)
  show "preserves (world_ok c) (metadata_call f)"
    by (auto simp: preserves_def metadata_call_def world_ok_def session_ids_drawn_def
        split: option.splits prod.splits)
  show "preserves (world_ok c) (rbac_call g)" if "\<And>s. rbac_ok s \<Longrightarrow> rbac_ok (snd (g s))"
    unfolding preserves_def
  proof (intro allI impI)
    fix w assume "world_ok c w"
    then show "world_ok c (snd (rbac_call g w))"
      using that by (cases "w_rbac w")
        (auto simp: rbac_call_def world_ok_def session_ids_drawn_def split: prod.splits, metis snd_conv)
  qed
  show "preserves (world_ok c) (tenants_call h)" if "\<And>s. tenant_store_ok s \<Longrightarrow> tenant_store_ok (snd (h s))"
    unfolding preserves_def
  proof (intro allI impI)
    fix w assume "world_ok c w"
    then show "world_ok c (snd (tenants_call h w))"
      using that by (cases "w_tenants w")
        (auto simp: tenants_call_def world_ok_def session_ids_drawn_def split: prod.splits, metis snd_conv)
  qed
qed

lemma inv_account_calls [invs]:
  "preserves (world_ok c) (Me v at)"
  "preserves (world_ok c) (DeleteAccount v i t)"
  "preserves (world_ok c) (UpdateMetadata_service i m)"
  "preserves (world_ok c) (CreateRole_service r ps)"
  "preserves (world_ok c) (AssignRole i r t)"
  "preserves (world_ok c) (AddUserToTenant i t)"
  unfolding Me_def DeleteAccount_def UpdateMetadata_service_def CreateRole_service_def AssignRole_def
    AddUserToTenant_def
  by ((intro invs store_intros rbac_op_ok tenant_op_ok | assumption | (simp only: snd_conv))+)

lemma inv_cleanup [invs]: "preserves (world_ok c) (CleanupExpiredSessions v)"
proof -
  have s: "snd (case DeleteExpiredSessions now s of (n, s') \<Rightarrow> (Ok n, s')) = snd (DeleteExpiredSessions now s)" for now s
    by (simp split: prod.splits)
  have "preserves (world_ok c) (sessions_do (\<lambda>s. case DeleteExpiredSessions now s of (n, s') \<Rightarrow> (Ok n, s')))" for now
    by (rule inv_sessions_do)
       (auto simp: s DeleteExpiredSessions_ok session_at_def deleted_lookup split: if_splits option.splits)
  then show ?thesis unfolding CleanupExpiredSessions_def by (intro invs)
qed

lemma inv_create_tenant [invs]: "preserves (world_ok c) (CreateTenant_service v n cf)"
proof -
  have "preserves (world_ok c) (thenDo (draw (newID (e_crypto v) ''tnt'')) (\<lambda>tid.
       thenDo (clock v) (\<lambda>now. tenants_call (CreateTenant \<lparr>t_ID = tid, t_Name = n, t_IsActive = True,
         t_Config = cf, t_CreatedAt = now\<rparr>))))"
    by ((intro invs tenant_op_ok | assumption)+)
  then show ?thesis by (auto simp: preserves_def CreateTenant_service_def split: option.split)
qed

lemma inv_forgot:
  "sha256_size (e_crypto v) \<Longrightarrow> preserves (world_ok (e_crypto v)) (Auth_ForgotPassword v e t b l)"
  using inv_token_calls(1)[of v e t b l]
  by (auto simp: preserves_def Auth_ForgotPassword_def split: prod.splits sum.splits)

lemma preserves_snd: "preserves P m \<Longrightarrow> P w \<Longrightarrow> P (snd (m w))"
  by (simp add: preserves_def)

lemma service_step_ok:
  assumes "service_step v w w'" "fresh_draws (e_crypto v)" "sha256_size (e_crypto v)"
    "world_ok (e_crypto v) w"
  shows "world_ok (e_crypto v) w'"
  using assms(1)
  by cases (hypsubst, rule preserves_snd[where P = "world_ok (e_crypto v)"],
    (rule inv_session_calls[OF assms(2)] inv_token_calls[OF assms(3)] inv_forgot[OF assms(3)]
      inv_plain_calls inv_account_calls inv_cleanup inv_create_tenant), rule assms(4))+

section \<open>Reachable worlds\<close>

definition empty_world :: world where
  "empty_world = \<lparr>w_users = NewMemoryUserStore, w_sessions = NewMemorySessionStore,
     w_metadata = Some fmempty, w_rbac = Some NewMemoryRolesPermissionsStore,
     w_tenants = Some NewMemoryTenantStore, w_events = [], w_outbox = [], w_tick = 0\<rparr>"

inductive service_reachable :: "env \<Rightarrow> world \<Rightarrow> bool" for v where
  start: "service_reachable v empty_world"
| step: "service_reachable v w \<Longrightarrow> service_step v w w' \<Longrightarrow> service_reachable v w'"

lemma world_ok_empty: "world_ok c empty_world"
proof -
  have "session_ids_drawn c empty_world"
    by (simp add: session_ids_drawn_def session_at_def empty_world_def NewMemorySessionStore_def)
  then show ?thesis
    by (simp add: world_ok_def) (simp add: empty_world_def user_store_ok_new session_store_ok_new
        rbac_ok_new tenant_store_ok_new)
qed

lemma service_reachable_ok:
  assumes "service_reachable v w" "fresh_draws (e_crypto v)" "sha256_size (e_crypto v)"
  shows "world_ok (e_crypto v) w"
  using assms(1) by (induction) (auto intro: world_ok_empty service_step_ok[OF _ assms(2,3)])

end
