(* ===== verification/Session_Laws.thy ===== *)
theory Session_Laws
  imports Service_Invariants
begin

text \<open>
  What the session half of the service guarantees: who gets tokens at login, what refresh and
  logout do to a session, what an access token is good for, and what the events say.
\<close>

section \<open>Frames of the session calls\<close>

lemma keeps_issueSession [frames]:
  assumes "\<And>w k. f (w\<lparr>w_tick := k\<rparr>) = f w" "\<And>w s. f (w\<lparr>w_sessions := s\<rparr>) = f w"
  shows "keeps f (issueSession v u)"
  unfolding issueSession_def by (intro frames assms)

lemma keeps_verifier [frames]:
  assumes "\<And>w k. f (w\<lparr>w_tick := k\<rparr>) = f w" "\<And>w s. f (w\<lparr>w_users := s\<rparr>) = f w"
  shows "keeps f (verifyThroughPasswordVerifier v u p)"
  unfolding verifyThroughPasswordVerifier_def by (intro frames assms)

lemma keeps_loginPassword [frames]:
  assumes "\<And>w k. f (w\<lparr>w_tick := k\<rparr>) = f w" "\<And>w s. f (w\<lparr>w_users := s\<rparr>) = f w"
    "\<And>w s. f (w\<lparr>w_events := s\<rparr>) = f w"
  shows "keeps f (loginPassword v e p t)"
  unfolding loginPassword_def loginFailed_def Let_def by (intro frames assms)

lemma quiet_if: "quiet_on_error a \<Longrightarrow> quiet_on_error b \<Longrightarrow> quiet_on_error (if c then a else b)"
  by simp

lemma quiet_fail: "quiet_on_error (failWith e)"
  by (simp add: quiet_on_error_def failWith_def)

lemma quiet_prod: "(\<And>x y. quiet_on_error (f x y)) \<Longrightarrow> quiet_on_error (case q of (x, y) \<Rightarrow> f x y)"
  by (cases q) simp

lemma quiet_option:
  "quiet_on_error a \<Longrightarrow> (\<And>x. quiet_on_error (f x)) \<Longrightarrow> quiet_on_error (case q of None \<Rightarrow> a | Some x \<Rightarrow> f x)"
  by (cases q) simp_all

lemmas quiet_rules = quiet_fail quiet_if quiet_prod quiet_option quiet_thenDo

section \<open>Login\<close>

lemma loginFailed_never_Ok [simp]: "loginFailed v e err w \<noteq> (Ok x, w')"
  by (simp add: loginFailed_def thenDo_def publish_def failWith_def)

lemma loginPassword_Ok:
  assumes "loginPassword v e p t w = (Ok (u, b), w')"
  shows "\<exists>u0. GetUserByEmail e t (w_users w) = Ok u0 \<and> b = requiresTwoFactor (e_cfg v) u \<and>
    (u_IsEmailVerified u \<or> emailVerificationMode (e_cfg v) = EmailVerificationModeLazy) \<and>
    (if verifyPassword (e_crypto v) p (u_PasswordHash u0) then u = u0 \<and> w' = w
     else verifyThroughPasswordVerifier v u0 p w = (Ok u, w'))"
proof -
  obtain found where f: "GetUserByEmail (normalizeEmail e) t (w_users w) = found" by simp
  then obtain u0 where u0: "found = Ok u0"
    using assms
    by (cases found) (auto simp: loginPassword_def Let_def action_Ok)
  obtain verified w1 where ver: "(if verifyPassword (e_crypto v) p (u_PasswordHash u0) then ret (Ok u0)
      else attempt (verifyThroughPasswordVerifier v u0 p)) w = (Ok verified, w1)"
    and rest: "(case verified of Inl err \<Rightarrow> loginFailed v e err
       | Inr user \<Rightarrow> if \<not> u_IsEmailVerified user \<and> emailVerificationMode (e_cfg v) \<noteq> EmailVerificationModeLazy
           then loginFailed v e (Sentinel ErrEmailNotVerified)
           else ret (user, requiresTwoFactor (e_cfg v) user)) w1 = (Ok (u, b), w')"
    using assms f u0 by (auto simp: loginPassword_def Let_def action_Ok)
  have "verified = Ok u" "w1 = w'" "b = requiresTwoFactor (e_cfg v) u"
    "u_IsEmailVerified u \<or> emailVerificationMode (e_cfg v) = EmailVerificationModeLazy"
    using rest by (auto simp: ret_Ok split: sum.splits if_splits)
  then show ?thesis
    using ver f u0 by (auto simp: GetUserByEmail_normalize ret_Ok attempt_Ok split: if_splits)
qed

text \<open>Without a migration hook, tokens come out of \<open>Login\<close> only for the stored user of that
  address and tenant, with the password their hash verifies, a verified address (or lazy mode)
  and no second factor owed; the call opens one session, that user's, and changes no account.\<close>

lemma Login_sound:
  assumes hook: "e_verifier v = None" and ok: "Login v e p t w = (Ok (u, tokens), w')"
  shows "GetUserByEmail e t (w_users w) = Ok u" "verifyPassword (e_crypto v) p (u_PasswordHash u)"
    "u_IsEmailVerified u \<or> emailVerificationMode (e_cfg v) = EmailVerificationModeLazy"
    "\<not> requiresTwoFactor (e_cfg v) u" "w_users w' = w_users w"
    "\<exists>sid now ex. w_sessions w' = snd (CreateSession \<lparr>s_ID = sid, s_UserID = u_ID u,
       s_TenantID = u_TenantID u, s_RefreshTokenHash = hashToken (e_crypto v) (at_RefreshToken tokens),
       s_CreatedAt = now, s_ExpiresAt = ex, s_RevokedAt = None\<rparr> (w_sessions w))"
proof -
  obtain w1 w2 sid where lp: "loginPassword v e p t w = (Ok (u, False), w1)"
    and issue: "issueSession v u w1 = (Ok (tokens, sid), w2)"
    and pub: "w' = snd (publish v (login_success u sid loginMethodLocal) w2)"
    using ok by (auto simp: Login_def completeLocalLogin_def action_Ok split: prod.splits if_splits)
       (auto simp: publish_def)
  have no_hook: "verifyThroughPasswordVerifier v x p w \<noteq> (Ok y, z)" for x y z
    using hook by (simp add: verifyThroughPasswordVerifier_def failWith_def)
  from loginPassword_Ok[OF lp] show "GetUserByEmail e t (w_users w) = Ok u"
    "verifyPassword (e_crypto v) p (u_PasswordHash u)"
    "u_IsEmailVerified u \<or> emailVerificationMode (e_cfg v) = EmailVerificationModeLazy"
    "\<not> requiresTwoFactor (e_cfg v) u"
    using no_hook by (auto split: if_splits)
  have w1: "w1 = w" using loginPassword_Ok[OF lp] no_hook by (auto split: if_splits)
  have "keeps w_users (issueSession v u)" by (intro frames) simp_all
  then show "w_users w' = w_users w"
    using issue w1 pub by (auto simp: publish_def dest: keepsD)
  have "w_sessions w' = w_sessions w2" using pub by (simp add: publish_def)
  then show "\<exists>sid now ex. w_sessions w' = snd (CreateSession \<lparr>s_ID = sid, s_UserID = u_ID u,
       s_TenantID = u_TenantID u, s_RefreshTokenHash = hashToken (e_crypto v) (at_RefreshToken tokens),
       s_CreatedAt = now, s_ExpiresAt = ex, s_RevokedAt = None\<rparr> (w_sessions w))"
    using issueSession_Ok[OF issue] w1 by (elim exE conjE, intro exI) simp
qed

text \<open>An unknown address and a wrong password are one answer: the same error, the same event, the
  same world.\<close>

lemma loginFailed_credentials:
  "loginFailed v e (Sentinel ErrInvalidCredentials) w =
     (Err ErrInvalidCredentials, w\<lparr>w_events := w_events w @
        (if e_bus v
         then [WithRequestContext (e_ctx v) (zero_event\<lparr>ev_Name := EventAuthLoginFailed,
                 ev_Data := Some (fmap_of_list [(''method'', JStr loginMethodLocal), (''email'', JStr e)])\<rparr>)]
         else [])\<rparr>)"
proof -
  have "he_Status (HTTPErrorFor (Some (Sentinel ErrInvalidCredentials))) = 401" by code_simp
  then show ?thesis by (simp add: loginFailed_def thenDo_def publish_def failWith_def)
qed

lemma loginPassword_known:
  assumes "GetUserByEmail e t (w_users w) = Ok u" "verifyPassword (e_crypto v) p (u_PasswordHash u)"
    and "u_IsEmailVerified u"
  shows "loginPassword v e p t w = (Ok (u, requiresTwoFactor (e_cfg v) u), w)"
  using assms
  by (simp add: loginPassword_def Let_def thenDo_def attempt_def users_get_def GetUserByEmail_normalize ret_def)

lemma loginPassword_refused:
  assumes "e_verifier v = None"
    and "GetUserByEmail e t (w_users w) = Inl err \<or>
      (\<exists>u. GetUserByEmail e t (w_users w) = Ok u \<and> \<not> verifyPassword (e_crypto v) p (u_PasswordHash u))"
  shows "loginPassword v e p t w = loginFailed v e (Sentinel ErrInvalidCredentials) w"
  using assms
  by (auto simp: loginPassword_def Let_def thenDo_def attempt_def users_get_def failWith_def
      GetUserByEmail_normalize verifyThroughPasswordVerifier_def ret_def)

section \<open>The second factor\<close>

lemma LoginWithChallenge_Inl:
  assumes "LoginWithChallenge v e p t w = (Ok r, w')" "lr_Outcome r = Inl challenge"
  shows "\<exists>w1 ex. loginPassword v e p t w = (Ok (lr_User r, True), w1) \<and>
    issueToken v (lr_User r) [] tokenTypeTemp (cf_TempTokenTTL (e_cfg v)) w1
      = (Ok (tf_TempToken challenge, ex), w') \<and>
    challenge = \<lparr>tf_TempToken = tf_TempToken challenge,
      tf_Methods = availableTwoFactorMethods v (lr_User r),
      tf_SetupRequired = (availableTwoFactorMethods v (lr_User r) = [])\<rparr>"
proof -
  obtain u b w1 where lp: "loginPassword v e p t w = (Ok (u, b), w1)"
    and rest: "(if b then thenDo (twoFactorChallenge v u) (\<lambda>challenge. ret \<lparr>lr_User = u, lr_Outcome = Inl challenge\<rparr>)
       else thenDo (completeLocalLogin v u) (\<lambda>tokens. ret \<lparr>lr_User = u, lr_Outcome = Inr tokens\<rparr>)) w1 = (Ok r, w')"
    using assms(1) by (auto simp: LoginWithChallenge_def thenDo_Ok)
  have b: "b" using rest assms(2) by (cases b) (auto simp: thenDo_Ok ret_Ok)
  then have tf: "twoFactorChallenge v u w1 = (Ok challenge, w')" and r: "lr_User r = u"
    using rest assms(2) by (auto simp: thenDo_Ok ret_Ok)
  obtain token ex where it: "issueToken v u [] tokenTypeTemp (cf_TempTokenTTL (e_cfg v)) w1 = (Ok (token, ex), w')"
    and ch: "challenge = \<lparr>tf_TempToken = token, tf_Methods = availableTwoFactorMethods v u,
      tf_SetupRequired = (length (availableTwoFactorMethods v u) = 0)\<rparr>"
    using tf unfolding twoFactorChallenge_def IssueTempToken_def Let_def
    by (fastforce simp only: thenDo_Ok ret_Ok split: prod.splits)
  show ?thesis
    using lp b it r by (intro exI[of _ w1] exI[of _ ex]) (simp add: ch)
qed

text \<open>Whoever owes a second factor leaves the password step without a session and with a token no
  access check accepts, now or later.\<close>

lemma Authenticate_needs_access:
  assumes "fst (parseToken v tok ''access'' w) = Inl e"
  shows "fst (Authenticate v tok w) = Inl e"
  using assms by (auto simp: Authenticate_def thenDo_def split: prod.splits)

lemma challenge_is_no_session:
  assumes login: "LoginWithChallenge v e p t w = (Ok r, w')" "lr_Outcome r = Inl challenge"
    and ok: "hook_ok v (lr_User r)" "user_printable (lr_User r)" "valid_utf8 (cf_Issuer (e_cfg v))"
    and times: "\<And>k. plausible (e_clock v k)" "\<And>k. plausible (e_clock v k + cf_TempTokenTTL (e_cfg v))"
  shows "w_sessions w' = w_sessions w"
    and "fst (Authenticate v (tf_TempToken challenge) w2) = Err ErrInvalidToken"
    and "fst (Refresh v (tf_TempToken challenge) w2) = Err ErrInvalidToken"
proof -
  obtain w1 ex where lp: "loginPassword v e p t w = (Ok (lr_User r, True), w1)"
    and it: "issueToken v (lr_User r) [] tokenTypeTemp (cf_TempTokenTTL (e_cfg v)) w1
      = (Ok (tf_TempToken challenge, ex), w')"
    using LoginWithChallenge_Inl[OF login] by (elim exE conjE) (rule that)
  have "keeps w_sessions (loginPassword v e p t)" by (intro frames) simp_all
  then show "w_sessions w' = w_sessions w"
    using lp arg_cong[OF conjunct2[OF issueToken_effect[OF it]], of w_sessions]
    by (auto dest: keepsD)
  have ex: "ex = e_clock v (w_tick w1) + cf_TempTokenTTL (e_cfg v)"
    using it by (auto simp: issueToken_Ok)
  have utf8: "valid_utf8 []" "valid_utf8 tokenTypeTemp"
    by (simp, simp add: tokenTypeTemp_def ascii_valid)
  have no: "fst (parseToken v (tf_TempToken challenge) ty w2) = Err ErrInvalidToken" if "ty \<noteq> tokenTypeTemp" for ty
    using parse_issued[OF it ok(1,2) utf8 ok(3) times(1) times(2)[of "w_tick w1", folded ex], of ty w2] that
    by auto
  show "fst (Authenticate v (tf_TempToken challenge) w2) = Err ErrInvalidToken"
    by (rule Authenticate_needs_access, rule no) (simp add: tokenTypeTemp_def)
  have "fst (parseToken v (tf_TempToken challenge) ''refresh'' w2) = Err ErrInvalidToken"
    by (rule no) (simp add: tokenTypeTemp_def)
  then show "fst (Refresh v (tf_TempToken challenge) w2) = Err ErrInvalidToken"
    by (auto simp: Refresh_def thenDo_def split: prod.splits)
qed

section \<open>Refresh and logout\<close>

text \<open>The steps of a refresh that succeeded, one by one.\<close>

lemma Refresh_steps:
  assumes "Refresh v rt w = (Ok tokens, w')"
  obtains claims w1 session user rf rexp w2 ac aexp w3 s where
    "parseToken v rt ''refresh'' w = (Ok claims, w1)"
    "GetSessionByRefreshTokenHash (hashToken (e_crypto v) rt) (w_sessions w1) = Ok session"
    "s_RevokedAt session = None" "s_ID session = tc_Sid claims" "s_UserID session = tc_Sub claims"
    "\<not> s_ExpiresAt session + cf_ClockSkew (e_cfg v) < e_clock v (w_tick w1)"
    "GetUserByID (tc_Sub claims) (tc_Tid claims) (w_users w1) = Ok user"
    "issueToken v user (tc_Sid claims) ''refresh'' (cf_RefreshTokenTTL (e_cfg v))
      (w1\<lparr>w_tick := Suc (w_tick w1)\<rparr>) = (Ok (rf, rexp), w2)"
    "issueToken v user (tc_Sid claims) ''access'' (cf_AccessTokenTTL (e_cfg v)) w2 = (Ok (ac, aexp), w3)"
    "UpdateSession (session\<lparr>s_RefreshTokenHash := hashToken (e_crypto v) rf,
      s_ExpiresAt := rexp\<rparr>) (w_sessions w3) = (Ok (), s)"
    "publish v (zero_event\<lparr>ev_Name := EventSessionRotated, ev_UserID := u_ID user,
      ev_SessionID := tc_Sid claims,
      ev_Data := Some (fmap_of_list [(''previousSessionId'', JStr (tc_Sid claims))])\<rparr>)
      (w3\<lparr>w_sessions := s\<rparr>) = (Ok (), w')"
    "tokens = \<lparr>at_AccessToken = ac, at_RefreshToken = rf, at_ExpiresIn = cf_AccessTokenTTL (e_cfg v)\<rparr>"
  using assms
  by (clarsimp simp: Refresh_def thenDo_Ok mapErr_Ok sessions_get_Ok users_get_Ok clock_def tick_Ok
      failWith_Ok sessions_do_Ok ret_Ok split: if_split_asm prod.splits)

lemma issueToken_keeps:
  assumes "issueToken v u sid ty ttl w = (r, w')"
  shows "w_sessions w' = w_sessions w" "w_users w' = w_users w" "w_events w' = w_events w"
  using arg_cong[OF conjunct2[OF issueToken_effect[OF assms]], of w_sessions]
    arg_cong[OF conjunct2[OF issueToken_effect[OF assms]], of w_users]
    arg_cong[OF conjunct2[OF issueToken_effect[OF assms]], of w_events] by simp_all

lemma Refresh_Ok:
  assumes "Refresh v rt w = (Ok tokens, w')"
  obtains claims session user rexp where
    "fst (parseToken v rt ''refresh'' w) = Ok claims"
    "GetSessionByRefreshTokenHash (hashToken (e_crypto v) rt) (w_sessions w) = Ok session"
    "s_RevokedAt session = None" "s_ID session = tc_Sid claims" "s_UserID session = tc_Sub claims"
    "GetUserByID (tc_Sub claims) (tc_Tid claims) (w_users w) = Ok user"
    "w_sessions w' = snd (UpdateSession (session\<lparr>
      s_RefreshTokenHash := hashToken (e_crypto v) (at_RefreshToken tokens), s_ExpiresAt := rexp\<rparr>)
      (w_sessions w))" "w_users w' = w_users w"
  using assms
proof (rule Refresh_steps)
  fix claims w1 session user rf rexp w2 ac aexp w3 s
  assume p: "parseToken v rt ''refresh'' w = (Ok claims, w1)"
    and st: "GetSessionByRefreshTokenHash (hashToken (e_crypto v) rt) (w_sessions w1) = Ok session"
      "s_RevokedAt session = None" "s_ID session = tc_Sid claims" "s_UserID session = tc_Sub claims"
      "GetUserByID (tc_Sub claims) (tc_Tid claims) (w_users w1) = Ok user"
    and i2: "issueToken v user (tc_Sid claims) ''refresh'' (cf_RefreshTokenTTL (e_cfg v))
      (w1\<lparr>w_tick := Suc (w_tick w1)\<rparr>) = (Ok (rf, rexp), w2)"
    and i3: "issueToken v user (tc_Sid claims) ''access'' (cf_AccessTokenTTL (e_cfg v)) w2 = (Ok (ac, aexp), w3)"
    and up: "UpdateSession (session\<lparr>s_RefreshTokenHash := hashToken (e_crypto v) rf,
      s_ExpiresAt := rexp\<rparr>) (w_sessions w3) = (Ok (), s)"
    and pub: "publish v (zero_event\<lparr>ev_Name := EventSessionRotated, ev_UserID := u_ID user,
      ev_SessionID := tc_Sid claims,
      ev_Data := Some (fmap_of_list [(''previousSessionId'', JStr (tc_Sid claims))])\<rparr>)
      (w3\<lparr>w_sessions := s\<rparr>) = (Ok (), w')"
    and toks: "tokens = \<lparr>at_AccessToken = ac, at_RefreshToken = rf, at_ExpiresIn = cf_AccessTokenTTL (e_cfg v)\<rparr>"
  have w1: "w_sessions w1 = w_sessions w" "w_users w1 = w_users w" using p by (auto simp: parseToken_Ok)
  have w3: "w_sessions w3 = w_sessions w" "w_users w3 = w_users w"
    using issueToken_keeps[OF i2] issueToken_keeps[OF i3] w1 by simp_all
  have w': "w_sessions w' = s" "w_users w' = w_users w"
    using pub w3 by (auto simp: publish_def split: if_split_asm)
  show thesis
    by (rule that[of claims session user rexp]) (use p st w1 w3 w' up toks in simp_all)
qed

lemma Refresh_unknown:
  assumes "GetSessionByRefreshTokenHash (hashToken (e_crypto v) rt) (w_sessions w) = Inl e"
  shows "fst (Refresh v rt w) \<in> {Err ErrSessionNotFound, Err ErrInvalidToken}"
proof (cases "parseToken v rt ''refresh'' w")
  case (Pair r w1)
  have s: "w_sessions w1 = w_sessions w"
    using Pair keepsD[OF keeps_parseToken[of w_sessions]] by simp
  show ?thesis
    using Pair assms parseToken_error[of v rt "''refresh''" w _ w1] s
    by (cases r) (auto simp: Refresh_def thenDo_def mapErr_def sessions_get_def)
qed

text \<open>Rotation: the token just presented is dead in every world with these sessions, the one handed
  back finds the same session of the same user.\<close>

lemma refresh_rotates:
  assumes ok: "world_ok c w" and r: "Refresh v rt w = (Ok tokens, w')"
    and fresh: "hashToken (e_crypto v) (at_RefreshToken tokens) \<noteq> hashToken (e_crypto v) rt"
  shows "w_sessions w2 = w_sessions w' \<Longrightarrow>
      fst (Refresh v rt w2) \<in> {Err ErrSessionNotFound, Err ErrInvalidToken}"
    and "\<exists>old new. GetSessionByRefreshTokenHash (hashToken (e_crypto v) rt) (w_sessions w) = Ok old \<and>
      GetSessionByRefreshTokenHash (hashToken (e_crypto v) (at_RefreshToken tokens)) (w_sessions w') = Ok new \<and>
      s_ID new = s_ID old \<and> s_UserID new = s_UserID old \<and> s_RevokedAt new = None"
proof -
  obtain session rexp where
    s: "GetSessionByRefreshTokenHash (hashToken (e_crypto v) rt) (w_sessions w) = Ok session"
      "s_RevokedAt session = None"
    and w': "w_sessions w' = snd (UpdateSession (session\<lparr>s_RefreshTokenHash :=
      hashToken (e_crypto v) (at_RefreshToken tokens), s_ExpiresAt := rexp\<rparr>) (w_sessions w))"
    by (rule Refresh_Ok[OF r])
  have so: "session_store_ok (w_sessions w)" using ok by (simp add: world_ok_def)
  note rot = session_rotation.update_rotates[OF so s(1), of "session\<lparr>s_RefreshTokenHash :=
      hashToken (e_crypto v) (at_RefreshToken tokens), s_ExpiresAt := rexp\<rparr>"]
  show "w_sessions w2 = w_sessions w' \<Longrightarrow>
      fst (Refresh v rt w2) \<in> {Err ErrSessionNotFound, Err ErrInvalidToken}"
    by (rule Refresh_unknown[of v rt w2 "Sentinel ErrSessionNotFound"]) (use rot fresh w' in simp)
  show "\<exists>old new. GetSessionByRefreshTokenHash (hashToken (e_crypto v) rt) (w_sessions w) = Ok old \<and>
      GetSessionByRefreshTokenHash (hashToken (e_crypto v) (at_RefreshToken tokens)) (w_sessions w') = Ok new \<and>
      s_ID new = s_ID old \<and> s_UserID new = s_UserID old \<and> s_RevokedAt new = None"
    using rot fresh w' s by simp
qed

lemma Logout_Ok:
  assumes "Logout v rt w = (Ok x, w')"
  obtains claims session now where
    "fst (parseToken v rt ''refresh'' w) = Ok claims"
    "GetSessionByRefreshTokenHash (hashToken (e_crypto v) rt) (w_sessions w) = Ok session"
    "s_ID session = tc_Sid claims"
    "w_sessions w' = snd (UpdateSession (session\<lparr>s_RevokedAt := Some now\<rparr>) (w_sessions w))"
  using assms
  by (clarsimp simp: Logout_def thenDo_Ok mapErr_Ok sessions_get_Ok clock_def tick_Ok parseToken_Ok
      failWith_Ok sessions_do_Ok split: if_split_asm)
     (rule that[where now = "e_clock v (Suc (w_tick w))"], (auto simp: publish_def parseToken_def clock_def thenDo_def tick_def ret_def split: if_split_asm))

text \<open>After a logout the session is revoked under its id, and its refresh token answers the
  fast-logout signal wherever it still parses.\<close>

lemma logout_revokes:
  assumes ok: "world_ok c w" and l: "Logout v rt w = (Ok x, w')"
  shows "\<exists>session now. session_at (w_sessions w) (s_ID session) = Some session \<and>
      s_RefreshTokenHash session = hashToken (e_crypto v) rt \<and>
      session_at (w_sessions w') (s_ID session) = Some (session\<lparr>s_RevokedAt := Some now\<rparr>)"
    and "w_sessions w2 = w_sessions w' \<Longrightarrow> fst (Refresh v rt w2) =
      (if is_ok (fst (parseToken v rt ''refresh'' w2)) then Err ErrSessionRevoked else Err ErrInvalidToken)"
proof -
  obtain session now where
    s: "GetSessionByRefreshTokenHash (hashToken (e_crypto v) rt) (w_sessions w) = Ok session"
    and w': "w_sessions w' = snd (UpdateSession (session\<lparr>s_RevokedAt := Some now\<rparr>) (w_sessions w))"
    by (rule Logout_Ok[OF l])
  have so: "session_store_ok (w_sessions w)" using ok by (simp add: world_ok_def)
  note sound = GetSessionByRefreshTokenHash_sound[OF so s]
  have upd: "GetSessionByRefreshTokenHash (hashToken (e_crypto v) rt) (w_sessions w')
      = Ok (session\<lparr>s_RevokedAt := Some now\<rparr>)"
    using session_rotation.update_same[OF so s, of "session\<lparr>s_RevokedAt := Some now\<rparr>"] sound
    by (simp add: w')
  then have "session_at (w_sessions w') (s_ID session) = Some (session\<lparr>s_RevokedAt := Some now\<rparr>)"
    using GetSessionByRefreshTokenHash_sound[OF UpdateSession_ok[OF so], of "hashToken (e_crypto v) rt"]
    by (fastforce simp: w')
  then show "\<exists>session now. session_at (w_sessions w) (s_ID session) = Some session \<and>
      s_RefreshTokenHash session = hashToken (e_crypto v) rt \<and>
      session_at (w_sessions w') (s_ID session) = Some (session\<lparr>s_RevokedAt := Some now\<rparr>)"
    using sound by blast
  assume w2: "w_sessions w2 = w_sessions w'"
  show "fst (Refresh v rt w2) =
      (if is_ok (fst (parseToken v rt ''refresh'' w2)) then Err ErrSessionRevoked else Err ErrInvalidToken)"
  proof (cases "parseToken v rt ''refresh'' w2")
    case (Pair r w3)
    have "w_sessions w3 = w_sessions w2" using Pair keepsD[OF keeps_parseToken[of w_sessions]] by simp
    then show ?thesis
      using Pair upd parseToken_error[of v rt "''refresh''" w2 _ w3] w2
      by (cases r) (auto simp: Refresh_def thenDo_def mapErr_def sessions_get_def failWith_def)
  qed
qed

section \<open>Access tokens\<close>

lemma validateSessionState_Ok:
  "validateSessionState v x claims w = (Ok y, w') \<longleftrightarrow>
     s_ID x = tc_Sid claims \<and> s_UserID x = tc_Sub claims \<and> s_TenantID x = tc_Tid claims \<and>
     s_RevokedAt x = None \<and> e_clock v (w_tick w) \<le> s_ExpiresAt x + cf_ClockSkew (e_cfg v) \<and>
     w' = w\<lparr>w_tick := Suc (w_tick w)\<rparr>"
  by (auto simp: validateSessionState_def failWith_Ok clock_def thenDo_Ok tick_Ok ret_Ok)

text \<open>In the all-calls mode an access token opens a route only while the session it names exists,
  is the token's user's, and is neither revoked nor expired.\<close>

lemma Authenticate_all_calls:
  assumes mode: "sessionCheckMode (e_cfg v) = SessionCheckOnAllCalls" "has_SessionLookupStore (e_caps v)"
    and ok: "Authenticate v tok w = (Ok u, w')"
  shows "\<exists>claims x. verified_claims (e_crypto v) (e_cfg v) tok = Some claims \<and>
    tc_Typ claims = ''access'' \<and> session_at (w_sessions w) (tc_Sid claims) = Some x \<and>
    s_RevokedAt x = None \<and> s_UserID x = tc_Sub claims \<and> s_TenantID x = tc_Tid claims \<and>
    (\<exists>u0. GetUserByID (tc_Sub claims) (tc_Tid claims) (w_users w) = Ok u0 \<and> u = enrichFromStores u0 w)"
proof -
  have en: "enrichFromStores u0 (w\<lparr>w_tick := k\<rparr>) = enrichFromStores u0 w" for u0 k
    by (simp add: enrichFromStores_def)
  show ?thesis
    using ok
    by (auto simp: Authenticate_def validateSessionForAccess_def mode thenDo_Ok mapErr_Ok parseToken_Ok
        sessions_get_Ok users_get_Ok failWith_Ok validateSessionState_Ok enrich_action_def en
        GetSessionByID_def session_at_def split: if_split_asm option.splits)
qed

section \<open>A fresh access token authenticates\<close>

lemma trim_right_letters: "set s \<subseteq> set (trim_right s) \<union> {c. not_letter c}"
proof (induction s rule: trim_right.induct)
  case (1 s)
  show ?case
  proof (cases "find (\<lambda>w. suffix w s) white_space")
    case None
    then show ?thesis by (simp add: trim_right.simps)
  next
    case (Some w)
    then have w: "w \<in> set white_space" "suffix w s" by (auto simp: find_Some_iff)
    then obtain p where s: "s = p @ w" by (auto simp: suffix_def)
    have "set p \<subseteq> set (trim_right p) \<union> {c. not_letter c}" using 1[OF Some] s by simp
    moreover have "trim_right s = trim_right p"
      using Some by (subst trim_right.simps) (simp add: s)
    ultimately show ?thesis using s white_space_not_letter[OF w(1)] by auto
  qed
qed

lemma trim_space_letter:
  assumes "\<not> not_letter c"
  shows "trim_space (c # s) \<noteq> []"
proof -
  have "\<not> starts_white (c # s)"
  proof
    assume "starts_white (c # s)"
    then obtain w where w: "w \<in> set white_space" "prefix w (c # s)" by (auto simp: starts_white_def)
    then obtain w' where "w = c # w'"
      using white_space_nonempty[OF w(1)] w(2) by (metis neq_Nil_conv prefix_Cons)
    then show False using white_space_not_letter[OF w(1), of c] assms by simp
  qed
  then have "trim_space (c # s) = trim_right (c # s)" by (simp add: trim_space_def trim_left_id)
  then show ?thesis using trim_right_letters[of "c # s"] assms by auto
qed

lemma session_id_not_blank: "trim_space (''ses_'' @ h) \<noteq> []"
  using trim_space_letter[of "CHR ''s''" "''es_'' @ h"] by (simp add: not_letter_def)

lemma session_id_utf8: "valid_utf8 (''ses_'' @ hex_encode b)"
  by (rule ascii_valid) (auto simp: hex_encode_below_128)

lemma second_grid: "t - second \<le> time_of_unix (unix_of t)"
  using time_of_unix_gt[of t] by simp

text \<open>Clocks that stay within \<open>time.Unix\<close>'s reach for the lifetimes configured.\<close>

definition sane_clock :: "env \<Rightarrow> bool" where
  "sane_clock v \<longleftrightarrow> (\<forall>k. plausible (e_clock v k) \<and> plausible (e_clock v k + cf_AccessTokenTTL (e_cfg v)) \<and>
     plausible (e_clock v k + cf_RefreshTokenTTL (e_cfg v)) \<and>
     plausible (e_clock v k + cf_TempTokenTTL (e_cfg v)))"

lemma opened_session_authenticates:
  assumes issue: "issueSession v u w = (Ok (tokens, sid), w')"
    and ok: "hook_ok v u" "user_printable u" "valid_utf8 (cf_Issuer (e_cfg v))" "sane_clock v"
    and stores: "w_sessions w2 = w_sessions w'" "w_users w2 = w_users w'"
    and stored: "GetUserByID (u_ID u) (u_TenantID u) (w_users w) = Ok u0"
    and lookup: "has_SessionLookupStore (e_caps v)"
    and clocks: "\<And>k. w_tick w \<le> k \<Longrightarrow> T \<le> e_clock v k"
      "\<And>k. e_clock v k \<le> T + cf_AccessTokenTTL (e_cfg v) - second + cf_ClockSkew (e_cfg v)"
      "\<And>k. e_clock v k \<le> T + cf_RefreshTokenTTL (e_cfg v) + cf_ClockSkew (e_cfg v)"
  shows "fst (Authenticate v (at_AccessToken tokens) w2) = Ok (enrichFromStores u0 w2)"
proof -
  obtain b w1 wa wb rexp aexp now where
    b: "sid = ''ses_'' @ hex_encode b"
    and w1: "w1 = w\<lparr>w_tick := Suc (w_tick w)\<rparr>"
    and i2: "issueToken v u sid ''refresh'' (cf_RefreshTokenTTL (e_cfg v)) w1 = (Ok (at_RefreshToken tokens, rexp), wa)"
    and i3: "issueToken v u sid ''access'' (cf_AccessTokenTTL (e_cfg v)) wa = (Ok (at_AccessToken tokens, aexp), wb)"
    and w': "w' = wb\<lparr>w_tick := Suc (w_tick wb), w_sessions := snd (CreateSession \<lparr>s_ID = sid,
      s_UserID = u_ID u, s_TenantID = u_TenantID u,
      s_RefreshTokenHash = hashToken (e_crypto v) (at_RefreshToken tokens),
      s_CreatedAt = now, s_ExpiresAt = rexp, s_RevokedAt = None\<rparr> (w_sessions w))\<rparr>"
    using issueSession_Ok[OF issue] by (elim exE conjE) (rule that)
  have users: "w_users w2 = w_users w"
    using issueToken_keeps(2)[OF i2] issueToken_keeps(2)[OF i3] stores w1 w' by simp
  have ticks: "w_tick w \<le> w_tick wa" using issueToken_effect[OF i2] w1 by simp
  have ex: "rexp = e_clock v (Suc (w_tick w)) + cf_RefreshTokenTTL (e_cfg v)"
    "aexp = e_clock v (w_tick wa) + cf_AccessTokenTTL (e_cfg v)"
    using i2 i3 w1 by (auto simp: issueToken_Ok)
  have utf8: "valid_utf8 sid" "valid_utf8 ''access''" unfolding b by (rule session_id_utf8) (simp add: ascii_valid)
  obtain jti t where parsed: "parseToken v (at_AccessToken tokens) ''access'' w2 =
     (Ok (issued_claims (e_cfg v) u sid jti ''access'' t aexp), w2\<lparr>w_tick := Suc (w_tick w2)\<rparr>)"
    using parse_issued[OF i3 ok(1,2) utf8 ok(3), of "''access''" w2]
      clocks(1)[OF ticks] clocks(2)[of "w_tick w2"] second_grid[of aexp] ok(4)
    unfolding ex by (auto simp: sane_clock_def split: if_split_asm)
  have found: "GetSessionByID sid (w_sessions w2) = Ok \<lparr>s_ID = sid, s_UserID = u_ID u,
      s_TenantID = u_TenantID u, s_RefreshTokenHash = hashToken (e_crypto v) (at_RefreshToken tokens),
      s_CreatedAt = now, s_ExpiresAt = rexp, s_RevokedAt = None\<rparr>"
    by (simp add: stores w' GetSessionByID_def CreateSession_def)
  have live: "\<not> e_clock v k > rexp + cf_ClockSkew (e_cfg v)" for k
    using clocks(3)[of k] clocks(1)[of "Suc (w_tick w)"] ex(1) by simp
  have en: "enrichFromStores u0 (w2\<lparr>w_tick := k\<rparr>) = enrichFromStores u0 w2" for k
    by (simp add: enrichFromStores_def)
  have "\<exists>k. validateSessionForAccess v (issued_claims (e_cfg v) u sid jti ''access'' t aexp)
      (w2\<lparr>w_tick := Suc (w_tick w2)\<rparr>) = (Ok (), w2\<lparr>w_tick := k\<rparr>)"
    using found live session_id_not_blank[of "hex_encode b"] lookup
    by (auto simp: validateSessionForAccess_def issued_claims_def b thenDo_def mapErr_def sessions_get_def
        validateSessionState_def clock_def tick_def ret_def)
  then obtain k where "validateSessionForAccess v (issued_claims (e_cfg v) u sid jti ''access'' t aexp)
      (w2\<lparr>w_tick := Suc (w_tick w2)\<rparr>) = (Ok (), w2\<lparr>w_tick := k\<rparr>)" by blast
  then show ?thesis
    using parsed stored users
    by (simp add: Authenticate_def thenDo_def mapErr_def users_get_def issued_claims_def enrich_action_def en)
qed

section \<open>Registration\<close>

lemma Register_steps:
  assumes "Register v e p t w = (Ok (u, tokens), w')"
  obtains h uid s sid now k w2 where
    "normalizeEmail e \<noteq> []" "isl (GetUserByEmail (normalizeEmail e) t (w_users w))"
    "hashPassword (e_crypto v) p (cf_BcryptCost (e_cfg v)) (w_tick w) = (Ok h, k)"
    "CreateUser (zero_user\<lparr>u_ID := uid, u_Email := normalizeEmail e, u_PasswordHash := h,
       u_TenantID := t, u_IsEmailVerified := (emailVerificationMode (e_cfg v) = EmailVerificationModeNone),
       u_CreatedAt := now, u_UpdatedAt := now\<rparr>) (w_users w) = (Ok u, s)"
    "issueSession v u (w\<lparr>w_tick := Suc (Suc k), w_users := s\<rparr>) = (Ok (tokens, sid), w2)"
    "publish v (zero_event\<lparr>ev_Name := EventUserCreated, ev_UserID := u_ID u,
       ev_Data := Some (fmap_of_list [(''email'', JStr (u_Email u)), (''method'', JStr ''default'')])\<rparr>) w2
       = (Ok (), w')"
  using assms
  by (clarsimp simp: Register_def Let_def thenDo_Ok mapErr_Ok draw_Ok newID_Ok clock_def tick_Ok
      failWith_Ok users_do_Ok ret_Ok newSessionTokens_def split: if_split_asm prod.splits)

text \<open>Registering stores the account: its own password logs it in (a second factor is owed only when
  the deployment demands one of everybody), wherever these users are stored.\<close>

lemma register_then_login:
  assumes bc: "bcrypt_correct (e_crypto v)"
    and mode: "emailVerificationMode (e_cfg v) \<in> {EmailVerificationModeNone, EmailVerificationModeLazy}"
    and reg: "Register v e p t w = (Ok (u, tokens), w')"
    and w2: "w_users w2 = w_users w'"
  shows "loginPassword v e p t w2 = (Ok (u, cf_Require2FA (e_cfg v)), w2)"
proof (rule Register_steps[OF reg])
  fix h uid s sid now k wa
  assume h: "hashPassword (e_crypto v) p (cf_BcryptCost (e_cfg v)) (w_tick w) = (Ok h, k)"
    and c: "CreateUser (zero_user\<lparr>u_ID := uid, u_Email := normalizeEmail e, u_PasswordHash := h,
       u_TenantID := t, u_IsEmailVerified := (emailVerificationMode (e_cfg v) = EmailVerificationModeNone),
       u_CreatedAt := now, u_UpdatedAt := now\<rparr>) (w_users w) = (Ok u, s)"
    and i: "issueSession v u (w\<lparr>w_tick := Suc (Suc k), w_users := s\<rparr>) = (Ok (tokens, sid), wa)"
    and pub: "publish v (zero_event\<lparr>ev_Name := EventUserCreated, ev_UserID := u_ID u,
       ev_Data := Some (fmap_of_list [(''email'', JStr (u_Email u)), (''method'', JStr ''default'')])\<rparr>) wa
       = (Ok (), w')"
  have "keeps w_users (issueSession v u)" by (intro frames) simp_all
  then have "w_users w' = s" using i pub by (auto simp: publish_def dest: keepsD split: if_split_asm)
  then have found: "GetUserByEmail (normalizeEmail e) t (w_users w2) = Ok u"
    using GetUserByEmail_create[OF c] w2 by simp
  have u: "u = zero_user\<lparr>u_ID := uid, u_Email := normalizeEmail e, u_PasswordHash := h,
       u_TenantID := t, u_IsEmailVerified := (emailVerificationMode (e_cfg v) = EmailVerificationModeNone),
       u_CreatedAt := now, u_UpdatedAt := now\<rparr>"
    using GetUserByEmail_create[OF c] by simp
  have "verifyPassword (e_crypto v) p (u_PasswordHash u)"
    using hashPassword_verify[OF bc h] by (simp add: u)
  moreover have "u_IsEmailVerified u \<or> emailVerificationMode (e_cfg v) = EmailVerificationModeLazy"
    using mode by (auto simp: u)
  moreover have "requiresTwoFactor (e_cfg v) u = cf_Require2FA (e_cfg v)"
    by (simp add: u requiresTwoFactor_def zero_user_def)
  ultimately show ?thesis
    by (auto simp: loginPassword_def Let_def found ret_def)
qed

section \<open>Events\<close>

text \<open>A call that fails has published nothing; the one exception is the refused login, whose event
  is the only one a failing login publishes, and only when the answer is a 401.\<close>

lemma quiet_session_calls:
  "quiet_on_error (Register v e p t)" "quiet_on_error (Refresh v rt)" "quiet_on_error (Logout v rt)"
  "quiet_on_error (completeLocalLogin v u)"
proof -
  have pub: "quiet_on_error (publish v ev)" for ev
    by (simp add: quiet_on_error_def publish_def)
  have k: "keeps w_events (issueSession v u)" "keeps w_events (newSessionTokens v u)"
    "keeps w_events (parseToken v tok ty)" "keeps w_events (issueToken v u sid ty ttl)" for u tok ty sid ttl
    unfolding newSessionTokens_def by (intro frames; simp)+
  show "quiet_on_error (Register v e p t)"
    unfolding Register_def Let_def
    by (intro quiet_rules quiet_publish; (intro frames k; simp)?)
  show "quiet_on_error (Refresh v rt)"
    unfolding Refresh_def by (intro quiet_rules quiet_publish; (intro frames k; simp)?)
  show "quiet_on_error (Logout v rt)"
    unfolding Logout_def by (intro quiet_rules quiet_publish pub; (intro frames k; simp)?)
  show "quiet_on_error (completeLocalLogin v u)"
    unfolding completeLocalLogin_def by (intro quiet_rules quiet_publish; (intro frames k; simp)?)
qed

end
