(* ===== verification/Credential_Laws.thy ===== *)
theory Credential_Laws
  imports Session_Laws
begin

text \<open>
  What the credential and account calls guarantee: a one-time credential works until it is spent
  and never again, a link on the wrong account is burnt without a session, a user revokes only
  their own sessions, and a deleted account leaves nothing behind.
\<close>

section \<open>Redeeming\<close>

lemma live_until_Ok:
  "live_until v expiry bad (users_get f) w = (Ok u, w') \<longleftrightarrow>
     f (w_users w) = Ok u \<and> (\<exists>t. expiry u = Some t \<and> e_clock v (w_tick w) \<le> t + cf_ClockSkew (e_cfg v)) \<and>
     w' = w\<lparr>w_tick := Suc (w_tick w)\<rparr>"
  by (auto simp: live_until_def thenDo_Ok mapErr_Ok users_get_Ok failWith_Ok clock_def tick_Ok ret_Ok
      split: option.splits if_split_asm)

lemma live_until_error:
  assumes "live_until v expiry bad (users_get f) w = (Inl e, w')"
  shows "e = Sentinel bad \<and> w' = w\<lparr>w_tick := w_tick w'\<rparr>"
  using assms
  by (auto simp: live_until_def thenDo_def mapErr_def users_get_def failWith_def clock_def tick_def ret_def
      split: option.splits if_split_asm sum.splits)

lemma live_until_unknown:
  "f (w_users w) = Inl e \<Longrightarrow> live_until v expiry bad (users_get f) w = (Err bad, w)"
  by (simp add: live_until_def thenDo_def mapErr_def users_get_def)

lemma if_supported_Ok:
  "if_supported v cap m w = (Ok x, w') \<longleftrightarrow> cap (e_caps v) \<and> m w = (Ok x, w')"
  by (simp add: if_supported_def failWith_def)

lemma token_stored:
  assumes "user_store_ok s" "GetUserByResetTokenHash h s = Ok u"
  shows "user_at s (u_ID u) = Some u"
  using reset_token.get_sound[OF assms] by simp

section \<open>Passwords\<close>

lemma ResetPassword_steps:
  assumes "ResetPassword v tok p w = (Ok x, w')"
  obtains u h k s1 s2 where
    "has_UserPasswordStore (e_caps v)"
    "GetUserByResetTokenHash (hashToken (e_crypto v) tok) (w_users w) = Ok u"
    "hashPassword (e_crypto v) p (cf_BcryptCost (e_cfg v)) (Suc (w_tick w)) = (Ok h, k)"
    "UpdatePassword (u_ID u) (u_TenantID u) h (w_users w) = (Ok (), s1)"
    "ClearResetToken (u_ID u) (u_TenantID u) s1 = (Ok (), s2)" "w_users w' = s2"
    "w_sessions w' = w_sessions w"
  using assms
  by (clarsimp simp: ResetPassword_def if_supported_Ok thenDo_Ok live_until_Ok draw_Ok users_do_Ok
      failWith_Ok split: if_split_asm)

lemma UpdatePassword_get:
  assumes ok: "user_store_ok s" and u: "user_at s (u_ID u) = Some u"
    and up: "UpdatePassword (u_ID u) (u_TenantID u) h s = (Ok (), s1)"
  shows "user_at s1 i = (if i = u_ID u then Some (u\<lparr>u_PasswordHash := h\<rparr>) else user_at s i)"
    and "GetUserByResetTokenHash g s = Ok u \<Longrightarrow> GetUserByResetTokenHash g s1 = Ok (u\<lparr>u_PasswordHash := h\<rparr>)"
    and "user_store_ok s1"
proof -
  have s1: "s1 = put_user (u_ID u) (u\<lparr>u_PasswordHash := h\<rparr>) s"
    using up u by (auto simp: UpdatePassword_def user_in_def user_at_def split: option.splits)
  show "user_at s1 i = (if i = u_ID u then Some (u\<lparr>u_PasswordHash := h\<rparr>) else user_at s i)"
    by (simp add: s1 put_user_def user_at_def)
  show "user_store_ok s1" using user_op_ok(5)[OF ok, of "u_ID u" "u_TenantID u" h] up by simp
  show "GetUserByResetTokenHash g s = Ok u \<Longrightarrow> GetUserByResetTokenHash g s1 = Ok (u\<lparr>u_PasswordHash := h\<rparr>)"
    using reset_token.get_sound[OF ok, of g u] ok
    by (auto simp: GetUserByResetTokenHash_def s1 put_user_def user_store_ok_def
        split: option.splits dest: index_soundD keyedD)
qed

text \<open>A reset writes the new password into the account of the token and spends the token: with
  these users stored, the same token resets nothing again.\<close>

lemma reset_password_once:
  assumes ok: "world_ok c w" and bc: "bcrypt_correct (e_crypto v)"
    and r: "ResetPassword v tok p w = (Ok x, w')"
  shows "\<exists>u u'. GetUserByResetTokenHash (hashToken (e_crypto v) tok) (w_users w) = Ok u \<and>
      user_at (w_users w') (u_ID u) = Some u' \<and> u_Email u' = u_Email u \<and>
      verifyPassword (e_crypto v) p (u_PasswordHash u')"
    and "w_users w2 = w_users w' \<Longrightarrow>
      fst (ResetPassword v tok q w2) \<in> {Err ErrInvalidToken, Err ErrWeakPassword}"
proof -
  obtain u h k s1 s2 where cap: "has_UserPasswordStore (e_caps v)"
    and g: "GetUserByResetTokenHash (hashToken (e_crypto v) tok) (w_users w) = Ok u"
    and h: "hashPassword (e_crypto v) p (cf_BcryptCost (e_cfg v)) (Suc (w_tick w)) = (Ok h, k)"
    and s1: "UpdatePassword (u_ID u) (u_TenantID u) h (w_users w) = (Ok (), s1)"
    and s2: "ClearResetToken (u_ID u) (u_TenantID u) s1 = (Ok (), s2)" "w_users w' = s2"
    by (rule ResetPassword_steps[OF r])
  have us: "user_store_ok (w_users w)" using ok by (simp add: world_ok_def)
  note up = UpdatePassword_get[OF us token_stored[OF us g] s1]
  have at: "user_at s1 (u_ID u) = Some (u\<lparr>u_PasswordHash := h\<rparr>)" by (simp add: up(1))
  have "user_at s2 (u_ID u) = Some (u\<lparr>u_PasswordHash := h, u_ResetTokenHash := [], u_ResetTokenExpiresAt := None\<rparr>)"
    using s2(1) at by (auto simp: ClearResetToken_def user_in_def user_at_def put_user_def split: option.splits)
  then show "\<exists>u u'. GetUserByResetTokenHash (hashToken (e_crypto v) tok) (w_users w) = Ok u \<and>
      user_at (w_users w') (u_ID u) = Some u' \<and> u_Email u' = u_Email u \<and>
      verifyPassword (e_crypto v) p (u_PasswordHash u')"
    using g s2(2) hashPassword_verify[OF bc h] by auto
  have "GetUserByResetTokenHash (hashToken (e_crypto v) tok) s2 = Err ErrInvalidToken"
    using reset_token.single_use(2)[OF up(3) up(2)[OF g]] s2(1) by simp
  then show "w_users w2 = w_users w' \<Longrightarrow>
      fst (ResetPassword v tok q w2) \<in> {Err ErrInvalidToken, Err ErrWeakPassword}"
    by (simp add: ResetPassword_def if_supported_def cap thenDo_def live_until_unknown s2(2) failWith_def)
qed

text \<open>The token a forgotten password is answered with is the live one of that account, until
  \<open>ResetTokenTTL\<close> from the moment it was minted.\<close>

lemma forgot_password_live:
  assumes ok: "world_ok c w" and sz: "sha256_size (e_crypto v)"
    and f: "ForgotPassword v e t b l w = (Ok tok, w')" "tok \<noteq> []"
  shows "\<exists>u now. GetUserByEmail e t (w_users w) = Ok u \<and>
    GetUserByResetTokenHash (hashToken (e_crypto v) tok) (w_users w') =
      Ok (u\<lparr>u_ResetTokenHash := hashToken (e_crypto v) tok,
            u_ResetTokenExpiresAt := Some (now + cf_ResetTokenTTL (e_cfg v))\<rparr>)"
proof -
  have us: "user_store_ok (w_users w)" using ok by (simp add: world_ok_def)
  obtain u where u: "GetUserByEmail e t (w_users w) = Ok u"
    using f by (cases "GetUserByEmail e t (w_users w)")
      (auto simp: ForgotPassword_def GetUserByEmail_normalize ret_def)
  obtain now s w1 where up: "UpdateResetToken (u_ID u) (u_TenantID u) (hashToken (e_crypto v) tok)
      (now + cf_ResetTokenTTL (e_cfg v)) (w_users w) = (Ok (), s)"
    and d: "deliverPasswordReset v u tok (now + cf_ResetTokenTTL (e_cfg v)) b l w1 = (Ok (), w')"
    and w1: "w_users w1 = s"
    using f(1) u
    by (clarsimp simp: ForgotPassword_def GetUserByEmail_normalize if_supported_Ok thenDo_Ok draw_Ok
        randomToken_Ok clock_def tick_Ok users_do_Ok ret_Ok Let_def)
  have "keeps w_users (deliverPasswordReset v u tok (now + cf_ResetTokenTTL (e_cfg v)) b l)"
    unfolding deliverPasswordReset_def deliver_def by (intro frames) simp_all
  then have w': "w_users w' = s" using d w1 by (auto dest: keepsD)
  have at: "user_at (w_users w) (u_ID u) = Some u" using u GetUserByEmail_iff[OF us] by blast
  have "GetUserByResetTokenHash (hashToken (e_crypto v) tok) s =
      Ok (u\<lparr>u_ResetTokenHash := hashToken (e_crypto v) tok,
            u_ResetTokenExpiresAt := Some (now + cf_ResetTokenTTL (e_cfg v))\<rparr>)"
    using reset_token.issued_is_live[OF us hashToken_nonempty[OF sz] up] at by auto
  then show ?thesis using u w' by blast
qed


section \<open>Magic links\<close>

lemma verifyMagicLink_steps:
  assumes "verifyMagicLink v tok req w = (Ok (u, tokens), w')"
  obtains u0 s1 w2 sid w3 where
    "has_MagicLinkStore (e_caps v)"
    "GetUserByMagicLinkTokenHash (hashToken (e_crypto v) tok) (w_users w) = Ok u0"
    "ClearMagicLinkToken (u_ID u0) (u_TenantID u0) (w_users w) = (Ok (), s1)"
    "req = [] \<or> u_ID u0 = req" "u_ID u = u_ID u0"
    "issueSession v u w2 = (Ok (tokens, sid), w3)"
    "publish v (login_success u sid loginMethodMagicLink) w3 = (Ok (), w')"
    "w_users w2 = s1 \<or> w_users w2 = snd (MarkEmailVerified (u_ID u0) (u_TenantID u0) True s1)"
    "w_sessions w2 = w_sessions w"
proof -
  have do_any: "attempt (users_do f) w = (Ok r, w') \<longleftrightarrow>
      r = fst (f (w_users w)) \<and> w' = w\<lparr>w_users := snd (f (w_users w))\<rparr>"
    for f :: "MemoryUserStore \<Rightarrow> unit result \<times> MemoryUserStore" and r w w'
    by (auto simp: attempt_Ok users_do_def split: prod.splits)
  show thesis
    using assms that
    by (fastforce simp: verifyMagicLink_def if_supported_Ok thenDo_Ok live_until_Ok users_do_Ok failWith_Ok
          do_any ret_Ok split: if_split_asm)
qed

text \<open>As a second factor a link of somebody else is burnt: no session, no event, and the link is dead
  from then on.\<close>

lemma magic_link_mismatch:
  assumes ok: "world_ok c w" and cap: "has_MagicLinkStore (e_caps v)"
    and g: "GetUserByMagicLinkTokenHash (hashToken (e_crypto v) tok) (w_users w) = Ok u"
    and live: "u_MagicLinkTokenExpiresAt u = Some t" "e_clock v (w_tick w) \<le> t + cf_ClockSkew (e_cfg v)"
    and req: "req \<noteq> []" "u_ID u \<noteq> req"
    and run: "verifyMagicLink v tok req w = (r, w')"
  shows "r = Err ErrMagicLinkOwnerMismatch" "w_sessions w' = w_sessions w" "w_events w' = w_events w"
    "GetUserByMagicLinkTokenHash (hashToken (e_crypto v) tok) (w_users w') = Err ErrInvalidToken"
proof -
  have us: "user_store_ok (w_users w)" using ok by (simp add: world_ok_def)
  obtain s where s: "ClearMagicLinkToken (u_ID u) (u_TenantID u) (w_users w) = (Ok (), s)"
    and dead: "GetUserByMagicLinkTokenHash (hashToken (e_crypto v) tok) s = Err ErrInvalidToken"
    using magic_token.single_use[OF us g]
    by (cases "ClearMagicLinkToken (u_ID u) (u_TenantID u) (w_users w)") auto
  have lu: "live_until v u_MagicLinkTokenExpiresAt ErrInvalidToken
      (users_get (GetUserByMagicLinkTokenHash (hashToken (e_crypto v) tok))) w
      = (Ok u, w\<lparr>w_tick := Suc (w_tick w)\<rparr>)"
    using g live by (simp add: live_until_Ok)
  have "verifyMagicLink v tok req w =
      (Err ErrMagicLinkOwnerMismatch, w\<lparr>w_tick := Suc (w_tick w), w_users := s\<rparr>)"
    using lu s req cap
    by (simp add: verifyMagicLink_def if_supported_def thenDo_def users_do_def failWith_def)
  then show "r = Err ErrMagicLinkOwnerMismatch" "w_sessions w' = w_sessions w" "w_events w' = w_events w"
    "GetUserByMagicLinkTokenHash (hashToken (e_crypto v) tok) (w_users w') = Err ErrInvalidToken"
    using run dead by auto
qed

lemma MarkEmailVerified_get:
  assumes "user_store_ok s"
  shows "GetUserByMagicLinkTokenHash h (snd (MarkEmailVerified i t b s)) = Err ErrInvalidToken \<longleftrightarrow>
    GetUserByMagicLinkTokenHash h s = Err ErrInvalidToken"
  by (auto simp: GetUserByMagicLinkTokenHash_def MarkEmailVerified_def put_user_def user_in_def
      split: option.splits)

text \<open>A link that opened a session opens no other.\<close>

lemma magic_link_once:
  assumes ok: "world_ok c w" and r: "verifyMagicLink v tok req w = (Ok (u, tokens), w')"
    and w2: "w_users w2 = w_users w'"
  shows "fst (verifyMagicLink v tok req' w2) = Err ErrInvalidToken"
proof (rule verifyMagicLink_steps[OF r])
  fix u0 s1 wa sid wb
  assume cap: "has_MagicLinkStore (e_caps v)"
    and g: "GetUserByMagicLinkTokenHash (hashToken (e_crypto v) tok) (w_users w) = Ok u0"
    and cl: "ClearMagicLinkToken (u_ID u0) (u_TenantID u0) (w_users w) = (Ok (), s1)"
    and wa: "w_users wa = s1 \<or> w_users wa = snd (MarkEmailVerified (u_ID u0) (u_TenantID u0) True s1)"
    and i: "issueSession v u wa = (Ok (tokens, sid), wb)"
    and pub: "publish v (login_success u sid loginMethodMagicLink) wb = (Ok (), w')"
  have us: "user_store_ok (w_users w)" using ok by (simp add: world_ok_def)
  have us1: "user_store_ok s1" using clear_token_ok(2)[OF us, of "u_ID u0" "u_TenantID u0"] cl by simp
  have dead: "GetUserByMagicLinkTokenHash (hashToken (e_crypto v) tok) s1 = Err ErrInvalidToken"
    using magic_token.single_use(2)[OF us g] cl by simp
  have "keeps w_users (issueSession v u)" by (intro frames) simp_all
  then have "w_users w' = w_users wa" using i pub by (auto simp: publish_def dest: keepsD split: if_split_asm)
  then have "GetUserByMagicLinkTokenHash (hashToken (e_crypto v) tok) (w_users w2) = Err ErrInvalidToken"
    using wa dead w2 MarkEmailVerified_get[OF us1] by auto
  then show ?thesis
    by (simp add: verifyMagicLink_def if_supported_def cap thenDo_def live_until_unknown)
qed

section \<open>A user's own sessions\<close>

text \<open>What \<open>RevokeUserSession\<close> accepts: the handle of a live session of that user in that tenant; it
  revokes that one and touches no other. Every other handle is answered alike.\<close>

lemma find_session:
  assumes ok: "session_store_ok s"
  shows "find (\<lambda>x. s_ID x = h) (ListSessionsForUser u t s) =
    (case session_at s h of None \<Rightarrow> None
     | Some x \<Rightarrow> if s_UserID x = u \<and> s_TenantID x = t then Some x else None)"
proof -
  have mem: "x \<in> set (ListSessionsForUser u t s) \<and> s_ID x = h \<longleftrightarrow>
      session_at s h = Some x \<and> s_UserID x = u \<and> s_TenantID x = t" for x
    using session_keyed[OF ok, of _ x] unfolding ListSessionsForUser_set session_at_def by blast
  show ?thesis
  proof (cases "find (\<lambda>x. s_ID x = h) (ListSessionsForUser u t s)")
    case None
    then have "\<not> (session_at s h = Some x \<and> s_UserID x = u \<and> s_TenantID x = t)" for x
      using mem[of x] by (auto simp: find_None_iff)
    then show ?thesis using None by (cases "session_at s h") auto
  next
    case (Some x)
    then have "x \<in> set (ListSessionsForUser u t s) \<and> s_ID x = h" by (auto simp: find_Some_iff)
    then have "session_at s h = Some x \<and> s_UserID x = u \<and> s_TenantID x = t" using mem by blast
    then show ?thesis using Some by simp
  qed
qed

lemma revoke_own_session:
  assumes ok: "world_ok c w" and cap: "has_SessionAdminStore (e_caps v)" "trim_space h \<noteq> []"
    and run: "RevokeUserSession v i t h w = (r, w')"
  shows "r = (case session_at (w_sessions w) (trim_space h) of None \<Rightarrow> Err ErrSessionNotFound
      | Some x \<Rightarrow> if s_UserID x = i \<and> s_TenantID x = t \<and> s_RevokedAt x = None \<and>
                    e_clock v (w_tick w) \<le> s_ExpiresAt x
                 then Ok () else Err ErrSessionNotFound)"
    and "r = Ok () \<Longrightarrow> \<exists>x now. session_at (w_sessions w) (trim_space h) = Some x \<and>
      (\<forall>j. session_at (w_sessions w') j = (if j = trim_space h then Some (x\<lparr>s_RevokedAt := Some now\<rparr>)
        else session_at (w_sessions w) j))"
    and "r \<noteq> Ok () \<Longrightarrow> w_sessions w' = w_sessions w"
proof -
  have so: "session_store_ok (w_sessions w)" using ok by (simp add: world_ok_def)
  let ?w1 = "w\<lparr>w_tick := Suc (w_tick w)\<rparr>"
  have eval: "(r, w') = (case session_at (w_sessions w) (trim_space h) of None \<Rightarrow> (Err ErrSessionNotFound, ?w1)
      | Some x \<Rightarrow> if s_UserID x = i \<and> s_TenantID x = t then
          if s_RevokedAt x \<noteq> None \<or> e_clock v (w_tick w) > s_ExpiresAt x then (Err ErrSessionNotFound, ?w1)
          else (Ok (), ?w1\<lparr>w_tick := Suc (Suc (w_tick w)), w_sessions :=
            snd (RevokeSessionByID (e_wall v (Suc (w_tick w))) (trim_space h) (w_sessions w))\<rparr>)
        else (Err ErrSessionNotFound, ?w1))"
    unfolding run[symmetric] using cap
    by (simp add: RevokeUserSession_def if_supported_def Let_def thenDo_def sessions_get_def find_session[OF so]
        clock_def wall_def tick_def failWith_def sessions_do_def RevokeSessionByID_def session_at_def
        split: option.split)
  show "r = (case session_at (w_sessions w) (trim_space h) of None \<Rightarrow> Err ErrSessionNotFound
      | Some x \<Rightarrow> if s_UserID x = i \<and> s_TenantID x = t \<and> s_RevokedAt x = None \<and>
                    e_clock v (w_tick w) \<le> s_ExpiresAt x
                 then Ok () else Err ErrSessionNotFound)"
    using eval by (cases "session_at (w_sessions w) (trim_space h)") (auto split: if_split_asm)
  show "r = Ok () \<Longrightarrow> \<exists>x now. session_at (w_sessions w) (trim_space h) = Some x \<and>
      (\<forall>j. session_at (w_sessions w') j = (if j = trim_space h then Some (x\<lparr>s_RevokedAt := Some now\<rparr>)
        else session_at (w_sessions w) j))"
    using eval
    by (cases "session_at (w_sessions w) (trim_space h)")
       (auto simp: RevokeSessionByID_def session_at_def split: if_split_asm)
  show "r \<noteq> Ok () \<Longrightarrow> w_sessions w' = w_sessions w"
    using eval by (cases "session_at (w_sessions w) (trim_space h)") (simp_all split: if_split_asm)
qed

section \<open>Deleting an account\<close>

lemma revoke_all_effect:
  "\<exists>w'. revoke_all v xs w = (Ok (), w') \<and> w_users w' = w_users w \<and> w_rbac w' = w_rbac w \<and>
     w_tenants w' = w_tenants w \<and> w_metadata w' = w_metadata w \<and>
     (\<forall>j x'. session_at (w_sessions w') j = Some x' \<longrightarrow>
       (\<exists>x. session_at (w_sessions w) j = Some x \<and> s_UserID x' = s_UserID x \<and> s_TenantID x' = s_TenantID x \<and>
          (s_RevokedAt x \<noteq> None \<or> j \<in> s_ID ` set xs \<longrightarrow> s_RevokedAt x' \<noteq> None)))"
proof (induction xs arbitrary: w)
  case Nil
  then show ?case by (simp add: ret_def)
next
  case (Cons a xs)
  let ?w1 = "w\<lparr>w_tick := Suc (w_tick w), w_sessions :=
    snd (RevokeSessionByID (e_wall v (w_tick w)) (s_ID a) (w_sessions w))\<rparr>"
  have step: "revoke_all v (a # xs) w = revoke_all v xs ?w1"
    by (simp add: thenDo_def wall_def tick_def attempt_def sessions_do_def split: prod.splits)
  obtain w' where w': "revoke_all v xs ?w1 = (Ok (), w')" "w_users w' = w_users w" "w_rbac w' = w_rbac w"
     "w_tenants w' = w_tenants w" "w_metadata w' = w_metadata w"
    and s: "\<And>j x'. session_at (w_sessions w') j = Some x' \<Longrightarrow>
       \<exists>x. session_at (w_sessions ?w1) j = Some x \<and> s_UserID x' = s_UserID x \<and> s_TenantID x' = s_TenantID x \<and>
          (s_RevokedAt x \<noteq> None \<or> j \<in> s_ID ` set xs \<longrightarrow> s_RevokedAt x' \<noteq> None)"
    using Cons.IH[of ?w1] by auto
  have one: "\<exists>x. session_at (w_sessions w) j = Some x \<and> s_UserID y = s_UserID x \<and> s_TenantID y = s_TenantID x \<and>
      (s_RevokedAt x \<noteq> None \<or> j = s_ID a \<longrightarrow> s_RevokedAt y \<noteq> None)"
    if "session_at (w_sessions ?w1) j = Some y" for j y
    using that by (auto simp: RevokeSessionByID_def session_at_def split: option.splits if_split_asm)
  have "\<exists>x. session_at (w_sessions w) j = Some x \<and> s_UserID x' = s_UserID x \<and> s_TenantID x' = s_TenantID x \<and>
          (s_RevokedAt x \<noteq> None \<or> j \<in> s_ID ` set (a # xs) \<longrightarrow> s_RevokedAt x' \<noteq> None)"
    if x': "session_at (w_sessions w') j = Some x'" for j x'
  proof -
    obtain y where "session_at (w_sessions ?w1) j = Some y" "s_UserID x' = s_UserID y" "s_TenantID x' = s_TenantID y"
      "s_RevokedAt y \<noteq> None \<or> j \<in> s_ID ` set xs \<longrightarrow> s_RevokedAt x' \<noteq> None"
      using s[OF x'] by blast
    then show ?thesis using one[of j y] by (metis image_insert insert_iff list.simps(15))
  qed
  then show ?case unfolding step using w' by (intro exI[of _ w']) simp
qed

text \<open>The loops over roles and tenants leave the user with none.\<close>

lemma fold_remove_roles:
  "holds (fold (\<lambda>role t. snd (RemoveRoleFromUser u role tn t)) rs s) = holds s - (\<lambda>r. (u, tn, r)) ` set rs"
  by (induction rs arbitrary: s) (auto simp: RemoveRoleFromUser_spec)

lemma remove_roles_holds:
  "holds (remove_roles u tn s) = {(u', tn', r) \<in> holds s. \<not> (u' = u \<and> tn' = tn)}"
  by (auto simp: remove_roles_def fold_remove_roles GetRolesForUser_spec(1))

lemma fold_leave:
  "member (fold (\<lambda>t. DisassociateUserFromTenant u (t_ID t)) ts s) = member s - (\<lambda>t. (u, t_ID t)) ` set ts"
  by (induction ts arbitrary: s) (auto simp: DisassociateUserFromTenant_spec)

lemma leave_tenants_member:
  assumes "tenant_store_ok s"
  shows "member (leave_tenants u s) = {(u', t) \<in> member s. u' \<noteq> u}"
proof -
  have "(\<lambda>t. (u, t_ID t)) ` set (GetTenantsForUser u s) = Pair u ` {t. (u, t) \<in> member s}"
    by (simp add: GetTenantsForUser_spec[OF assms, symmetric] image_image)
  then show ?thesis by (auto simp: leave_tenants_def fold_leave)
qed

lemma DeleteUser_gone:
  "DeleteUser i t s = (Ok (), s') \<Longrightarrow> user_at s' i = None"
  "DeleteUser i t s = (Ok (), s') \<Longrightarrow> j \<noteq> i \<Longrightarrow> user_at s' j = user_at s j"
  by (auto simp: DeleteUser_def user_at_def split: option.splits)

text \<open>What a completed \<open>DeleteAccount\<close> leaves of the user: no record, no live session, no role in the
  tenant, no membership, no metadata; other users keep theirs.\<close>

lemma delete_account_wipes:
  assumes ok: "world_ok c w" and cap: "has_SessionAdminStore (e_caps v)"
    and run: "DeleteAccount v i tn w = (Ok (), w')"
  shows "user_at (w_users w') i = None"
    and "\<And>j. j \<noteq> i \<Longrightarrow> user_at (w_users w') j = user_at (w_users w) j"
    and "\<And>j x. session_at (w_sessions w') j = Some x \<Longrightarrow> s_UserID x = i \<Longrightarrow> s_TenantID x = tn \<Longrightarrow>
           s_RevokedAt x \<noteq> None"
    and "\<And>s s'. w_rbac w = Some s \<Longrightarrow> w_rbac w' = Some s' \<Longrightarrow>
           holds s' = {(u, t, r) \<in> holds s. \<not> (u = i \<and> t = tn)}"
    and "\<And>s s'. w_tenants w = Some s \<Longrightarrow> w_tenants w' = Some s' \<Longrightarrow>
           member s' = {(u, t) \<in> member s. u \<noteq> i}"
    and "\<And>s s' u. w_metadata w = Some s \<Longrightarrow> w_metadata w' = Some s' \<Longrightarrow>
           GetMetadata u s' = (if u = i then fmempty else GetMetadata u s)"
proof -
  have so: "session_store_ok (w_sessions w)"
    and ts: "\<And>s. w_tenants w = Some s \<Longrightarrow> tenant_store_ok s" using ok by (auto simp: world_ok_def)
  let ?xs = "ListSessionsForUser i tn (w_sessions w)"
  obtain w1 where w1: "revoke_all v ?xs w = (Ok (), w1)" "w_users w1 = w_users w" "w_rbac w1 = w_rbac w"
      "w_tenants w1 = w_tenants w" "w_metadata w1 = w_metadata w"
    and s1: "\<And>j x'. session_at (w_sessions w1) j = Some x' \<Longrightarrow>
       \<exists>x. session_at (w_sessions w) j = Some x \<and> s_UserID x' = s_UserID x \<and> s_TenantID x' = s_TenantID x \<and>
          (s_RevokedAt x \<noteq> None \<or> j \<in> s_ID ` set ?xs \<longrightarrow> s_RevokedAt x' \<noteq> None)"
    using revoke_all_effect[of v ?xs w] by blast
  let ?w2 = "w1\<lparr>w_rbac := map_option (remove_roles i tn) (w_rbac w1),
     w_tenants := map_option (leave_tenants i) (w_tenants w1), w_metadata := map_option (ClearMetadata i) (w_metadata w1)\<rparr>"
  have "DeleteAccount v i tn w = (Ok (), w') \<Longrightarrow>
    thenDo (mapErr (Wrapped ''auth: delete account'') (users_do (DeleteUser i tn)))
       (\<lambda>_. publish v (zero_event\<lparr>ev_Name := EventUserDeleted, ev_UserID := i\<rparr>)) ?w2 = (Ok (), w')"
    by (simp add: DeleteAccount_def if_supported_def thenDo_def sessions_get_def clean_optional_stores_def cap w1(1)
        failWith_def split: if_split_asm)
  note run = this[OF run]
  obtain s where d: "DeleteUser i tn (w_users w1) = (Ok (), s)"
    and "w_users w' = s \<and> w_sessions w' = w_sessions w1 \<and> w_rbac w' = map_option (remove_roles i tn) (w_rbac w1) \<and>
      w_tenants w' = map_option (leave_tenants i) (w_tenants w1) \<and>
      w_metadata w' = map_option (ClearMetadata i) (w_metadata w1)"
    using run by (cases "e_bus v") (clarsimp simp: thenDo_Ok mapErr_Ok users_do_Ok publish_Ok; assumption?)+
  then have w': "w_users w' = s" "w_sessions w' = w_sessions w1"
      "w_rbac w' = map_option (remove_roles i tn) (w_rbac w)"
      "w_tenants w' = map_option (leave_tenants i) (w_tenants w)"
      "w_metadata w' = map_option (ClearMetadata i) (w_metadata w)"
    unfolding w1(3-5) by blast+
  show "user_at (w_users w') i = None" "\<And>j. j \<noteq> i \<Longrightarrow> user_at (w_users w') j = user_at (w_users w) j"
    using DeleteUser_gone[OF d] w'(1) w1(2) by simp_all
  show "s_RevokedAt x \<noteq> None"
    if x: "session_at (w_sessions w') j = Some x" "s_UserID x = i" "s_TenantID x = tn" for j x
  proof -
    obtain y where y: "session_at (w_sessions w) j = Some y" "s_UserID y = i" "s_TenantID y = tn"
      "j \<in> s_ID ` set ?xs \<longrightarrow> s_RevokedAt x \<noteq> None"
      using s1[of j x] x w'(2) by auto
    have "s_ID y = j" using session_keyed[OF so] y(1) by (simp add: session_at_def)
    then have "j \<in> s_ID ` set ?xs" using y by (force simp: ListSessionsForUser_set)
    then show ?thesis using y by blast
  qed
  show "holds s' = {(u, t, r) \<in> holds s. \<not> (u = i \<and> t = tn)}"
    if "w_rbac w = Some s" "w_rbac w' = Some s'" for s s'
    using that w' by (auto simp: remove_roles_holds)
  show "member s' = {(u, t) \<in> member s. u \<noteq> i}"
    if "w_tenants w = Some s" "w_tenants w' = Some s'" for s s'
    using that w' ts by (auto simp: leave_tenants_member)
  show "GetMetadata u s' = (if u = i then fmempty else GetMetadata u s)"
    if "w_metadata w = Some s" "w_metadata w' = Some s'" for s s' u
    using that w' by (auto simp: GetMetadata_clear)
qed

end
