(* ===== verification/Net_IP.thy ===== *)
theory Net_IP
  imports Go_Strings
begin

text \<open>
  The part of package \<open>net\<close> that the address allow-list of an API key uses: \<open>net.ParseIP\<close>
  (IPv4 dotted quads without leading zeros; IPv6 with an ellipsis or an embedded IPv4 tail; no
  zone), \<open>net.ParseCIDR\<close> and \<open>IPNet.Contains\<close>. An address is its 16-byte form, as \<open>ParseIP\<close>
  returns it.
\<close>

section \<open>Numbers\<close>

definition digit_value :: "char \<Rightarrow> nat" where
  "digit_value c = (let n = of_char c :: nat in
     if 48 \<le> n \<and> n \<le> 57 then n - 48 else if 97 \<le> n \<and> n \<le> 102 then n - 87
     else if 65 \<le> n \<and> n \<le> 70 then n - 55 else 16)"

definition is_digit :: "char \<Rightarrow> bool" where
  "is_digit c \<longleftrightarrow> digit_value c < 10"

definition is_hex :: "char \<Rightarrow> bool" where
  "is_hex c \<longleftrightarrow> digit_value c < 16"

definition number :: "nat \<Rightarrow> string \<Rightarrow> nat" where
  "number base ds = foldl (\<lambda>n c. n * base + digit_value c) 0 ds"

section \<open>IPv4\<close>

definition octet :: "string \<Rightarrow> nat option" where
  "octet s =
     (if s = [] \<or> \<not> list_all is_digit s \<or> (length s > 1 \<and> hd s = CHR ''0'') \<or> number 10 s > 255
      then None else Some (number 10 s))"

definition parse_ipv4_fields :: "string \<Rightarrow> nat list option" where
  "parse_ipv4_fields s = (case split_on (CHR ''.'') s of
     [a, b, c, d] \<Rightarrow> those [octet a, octet b, octet c, octet d]
   | _ \<Rightarrow> None)"

definition v4_in_v6 :: "nat list" where
  "v4_in_v6 = replicate 10 0 @ [255, 255]"

section \<open>IPv6\<close>

text \<open>
  The group loop of \<open>netip.parseIPv6\<close>: \<open>n\<close> groups of room left, the bytes so far, where the
  ellipsis stood, the rest of the text.
\<close>

fun parse_groups ::
    "nat \<Rightarrow> nat list \<Rightarrow> nat option \<Rightarrow> string \<Rightarrow> (nat list \<times> nat option \<times> string) option" where
  "parse_groups 0 bs el s = Some (bs, el, s)"
| "parse_groups (Suc n) bs el s =
     (let ds = takeWhile is_hex s; r = dropWhile is_hex s in
      if ds = [] \<or> length ds > 4 then None
      else if r \<noteq> [] \<and> hd r = CHR ''.'' then
        (if el = None \<and> length bs \<noteq> 12 then None
         else if length bs + 4 > 16 then None
         else map_option (\<lambda>v4. (bs @ v4, el, [])) (parse_ipv4_fields s))
      else
        let bs = bs @ [number 16 ds div 256, number 16 ds mod 256] in
        if r = [] then Some (bs, el, [])
        else if hd r \<noteq> CHR '':'' \<or> tl r = [] then None
        else
          let s = tl r in
          if hd s = CHR '':'' then
            (if el \<noteq> None then None
             else if tl s = [] then Some (bs, Some (length bs), [])
             else parse_groups n bs (Some (length bs)) (tl s))
          else parse_groups n bs el s)"

definition expand_ellipsis :: "nat list \<Rightarrow> nat option \<Rightarrow> nat list option" where
  "expand_ellipsis bs el =
     (if length bs < 16 then
        (case el of None \<Rightarrow> None
         | Some e \<Rightarrow> Some (take e bs @ replicate (16 - length bs) 0 @ drop e bs))
      else if el \<noteq> None then None else Some bs)"

definition parse_ipv6 :: "string \<Rightarrow> nat list option" where
  "parse_ipv6 s =
     (let lead = (take 2 s = ''::''); rest = (if lead then drop 2 s else s) in
      if lead \<and> rest = [] then Some (replicate 16 0)
      else case parse_groups 8 [] (if lead then Some 0 else None) rest of
          None \<Rightarrow> None
        | Some (bs, el, left) \<Rightarrow> if left \<noteq> [] then None else expand_ellipsis bs el)"

text \<open>
  \<open>netip.ParseAddr\<close> decides by the first \<open>.\<close>, \<open>:\<close> or \<open>%\<close>; a zone is refused by both callers. The
  result carries the bit length of the textual form.
\<close>

definition parse_addr :: "string \<Rightarrow> (nat \<times> nat list) option" where
  "parse_addr s = (case find (\<lambda>c. c = CHR ''.'' \<or> c = CHR '':'' \<or> c = CHR ''%'') s of
     None \<Rightarrow> None
   | Some c \<Rightarrow>
       if c = CHR ''.'' then map_option (\<lambda>v4. (32, v4_in_v6 @ v4)) (parse_ipv4_fields s)
       else if c = CHR '':'' \<and> CHR ''%'' \<notin> set s then map_option (\<lambda>v6. (128, v6)) (parse_ipv6 s)
       else None)"

definition ParseIP :: "string \<Rightarrow> nat list option" where
  "ParseIP s = map_option snd (parse_addr s)"

section \<open>Networks\<close>

definition byte_bits :: "nat \<Rightarrow> bool list" where
  "byte_bits b = map (\<lambda>i. b div 2 ^ (7 - i) mod 2 = 1) [0..<8]"

definition addr_bits :: "nat list \<Rightarrow> bool list" where
  "addr_bits bs = concat (map byte_bits bs)"

definition to4 :: "nat list \<Rightarrow> nat list option" where
  "to4 ip = (if take 12 ip = v4_in_v6 then Some (drop 12 ip) else None)"

text \<open>\<open>IPNet\<close>: the network number and the number of leading ones of the mask, or no network.\<close>

definition ParseCIDR :: "string \<Rightarrow> (nat list \<times> nat) option" where
  "ParseCIDR s = (case cut_at (CHR ''/'') s of
     None \<Rightarrow> None
   | Some (addr, plen) \<Rightarrow> (case parse_addr addr of
         None \<Rightarrow> None
       | Some (bits, ip) \<Rightarrow>
           if plen = [] \<or> \<not> list_all is_digit plen \<or> number 10 plen > bits then None
           else Some (if bits = 32 then drop 12 ip else ip, number 10 plen)))"

text \<open>
  \<open>Contains\<close> compares under the mask. A 128-bit network whose masked number is IPv4-mapped is
  compared with the 4-byte form of an IPv4 address, anything else in its own length.
\<close>

definition net_contains :: "nat list \<times> nat \<Rightarrow> nat list \<Rightarrow> bool" where
  "net_contains net ip = (case net of (nip, n) \<Rightarrow>
     if length nip = 4 then
       (case to4 ip of None \<Rightarrow> False
        | Some v4 \<Rightarrow> take n (addr_bits v4) = take n (addr_bits nip))
     else if 96 \<le> n \<and> to4 nip \<noteq> None then
       (case to4 ip of None \<Rightarrow> False
        | Some v4 \<Rightarrow> take (n - 96) (addr_bits v4) = take (n - 96) (addr_bits (the (to4 nip))))
     else to4 ip = None \<and> take n (addr_bits ip) = take n (addr_bits nip))"

end
