(* ===== verification/API_Keys.thy ===== *)
theory API_Keys
  imports Security Net_IP "HOL-Library.Product_Lexorder"
begin

text \<open>
  \<open>memory_api_key_store.go\<close> and \<open>api_keys.go\<close>: the in-memory key store and the service that
  mints and verifies keys. A nil slice is \<open>None\<close> here, because the store's copying treats nil and
  empty differently. A listing that slices out of range is the outcome \<open>Panics\<close>.
\<close>

section \<open>Records\<close>

record APIKeyRecord =
  ak_ID :: string
  ak_Prefix :: string
  ak_Name :: string
  ak_ServiceID :: string
  ak_KeyHash :: string
  ak_Scopes :: "string list option"
  ak_AllowedIPs :: "string list option"
  ak_IsActive :: bool
  ak_ExpiresAt :: "time option"
  ak_CreatedAt :: time
  ak_LastUsedAt :: "time option"

record APIKeyAuditEntry =
  ae_KeyID :: string
  ae_Timestamp :: time
  ae_IP :: string
  ae_UserAgent :: string
  ae_Path :: string
  ae_Method :: string
  ae_Success :: bool
  ae_FailureReason :: string

record MemoryAPIKeyStore =
  ks_byID :: "(string, APIKeyRecord) fmap"
  ks_byPrefix :: "(string, string) fmap"
  ks_usage :: "APIKeyAuditEntry list"

definition NewMemoryAPIKeyStore :: MemoryAPIKeyStore where
  "NewMemoryAPIKeyStore = \<lparr>ks_byID = fmempty, ks_byPrefix = fmempty, ks_usage = []\<rparr>"

definition cloneAPIKeyRecord :: "APIKeyRecord \<Rightarrow> APIKeyRecord" where
  "cloneAPIKeyRecord r = r\<lparr>
     ak_Scopes := (case ak_Scopes r of None \<Rightarrow> None | Some xs \<Rightarrow> append_nil xs),
     ak_AllowedIPs := (case ak_AllowedIPs r of None \<Rightarrow> None | Some xs \<Rightarrow> append_nil xs)\<rparr>"

section \<open>The store\<close>

text \<open>Newest first, then by id: an ascending sort on this key.\<close>

definition api_key_order :: "APIKeyRecord \<Rightarrow> int \<times> string" where
  "api_key_order r = (- ak_CreatedAt r, ak_ID r)"

definition sortAPIKeyRecords :: "APIKeyRecord list \<Rightarrow> APIKeyRecord list" where
  "sortAPIKeyRecords rs = sort_key api_key_order rs"

definition key_Save :: "APIKeyRecord \<Rightarrow> MemoryAPIKeyStore \<Rightarrow> MemoryAPIKeyStore" where
  "key_Save key s =
     (let ix = (case fmlookup (ks_byID s) (ak_ID key) of
          None \<Rightarrow> ks_byPrefix s
        | Some previous \<Rightarrow> if ak_Prefix previous \<noteq> ak_Prefix key
            then fmdrop (ak_Prefix previous) (ks_byPrefix s) else ks_byPrefix s)
      in s\<lparr>ks_byID := fmupd (ak_ID key) (cloneAPIKeyRecord key) (ks_byID s),
           ks_byPrefix := fmupd (ak_Prefix key) (ak_ID key) ix\<rparr>)"

definition FindByPrefix :: "string \<Rightarrow> MemoryAPIKeyStore \<Rightarrow> APIKeyRecord result" where
  "FindByPrefix keyPrefix s = (case fmlookup (ks_byPrefix s) keyPrefix of
     None \<Rightarrow> Err ErrAPIKeyNotFound
   | Some i \<Rightarrow> (case fmlookup (ks_byID s) i of
         None \<Rightarrow> Err ErrAPIKeyNotFound
       | Some r \<Rightarrow> if \<not> ak_IsActive r then Err ErrAPIKeyNotFound else Ok (cloneAPIKeyRecord r)))"

definition FindByID :: "string \<Rightarrow> MemoryAPIKeyStore \<Rightarrow> APIKeyRecord result" where
  "FindByID i s = (case fmlookup (ks_byID s) i of
     None \<Rightarrow> Err ErrAPIKeyNotFound | Some r \<Rightarrow> Ok (cloneAPIKeyRecord r))"

definition key_Revoke :: "string \<Rightarrow> MemoryAPIKeyStore \<Rightarrow> MemoryAPIKeyStore" where
  "key_Revoke i s = (case fmlookup (ks_byID s) i of
     None \<Rightarrow> s
   | Some r \<Rightarrow> s\<lparr>ks_byID := fmupd i (r\<lparr>ak_IsActive := False\<rparr>) (ks_byID s)\<rparr>)"

definition UpdateLastUsed :: "string \<Rightarrow> time \<Rightarrow> MemoryAPIKeyStore \<Rightarrow> MemoryAPIKeyStore" where
  "UpdateLastUsed i when s = (case fmlookup (ks_byID s) i of
     None \<Rightarrow> s
   | Some r \<Rightarrow> s\<lparr>ks_byID := fmupd i (r\<lparr>ak_LastUsedAt := Some when\<rparr>) (ks_byID s)\<rparr>)"

definition key_Delete :: "string \<Rightarrow> MemoryAPIKeyStore \<Rightarrow> MemoryAPIKeyStore" where
  "key_Delete i s = (case fmlookup (ks_byID s) i of
     None \<Rightarrow> s
   | Some r \<Rightarrow> s\<lparr>
       ks_byPrefix := (if fmlookup (ks_byPrefix s) (ak_Prefix r) = Some i
                       then fmdrop (ak_Prefix r) (ks_byPrefix s) else ks_byPrefix s),
       ks_byID := fmdrop i (ks_byID s)\<rparr>)"

definition key_snapshot :: "(APIKeyRecord \<Rightarrow> bool) \<Rightarrow> MemoryAPIKeyStore \<Rightarrow> APIKeyRecord list" where
  "key_snapshot keep s =
     sortAPIKeyRecords (map cloneAPIKeyRecord (filter keep (range_values (ks_byID s))))"

definition key_ListAll :: "int \<Rightarrow> int \<Rightarrow> MemoryAPIKeyStore \<Rightarrow> APIKeyRecord list outcome" where
  "key_ListAll limit offset s =
     (let limit = (if limit < 0 then 0 else limit);
          offset = (if offset < 0 then 0 else offset);
          records = key_snapshot (\<lambda>_. True) s
      in if offset \<ge> int (length records) then Returns []
         else
           let end = wrap64 (offset + limit);
               end = (if end > int (length records) then int (length records) else end)
           in go_slice records offset end)"

definition ListByServiceID :: "string \<Rightarrow> MemoryAPIKeyStore \<Rightarrow> APIKeyRecord list" where
  "ListByServiceID serviceID s = key_snapshot (\<lambda>r. ak_ServiceID r = serviceID) s"

definition LogUsage :: "APIKeyAuditEntry \<Rightarrow> MemoryAPIKeyStore \<Rightarrow> MemoryAPIKeyStore" where
  "LogUsage entry s = s\<lparr>ks_usage := ks_usage s @ [entry]\<rparr>"

definition key_Usage :: "MemoryAPIKeyStore \<Rightarrow> APIKeyAuditEntry list option" where
  "key_Usage s = append_nil (ks_usage s)"

section \<open>The service\<close>

definition alphanumeric :: "char \<Rightarrow> bool" where
  "alphanumeric c \<longleftrightarrow> (let n = of_char c :: nat in
     (48 \<le> n \<and> n \<le> 57) \<or> (65 \<le> n \<and> n \<le> 90) \<or> (97 \<le> n \<and> n \<le> 122))"

definition apiKeyBodySanitizer :: "string \<Rightarrow> string" where
  "apiKeyBodySanitizer s = filter alphanumeric s"

text \<open>The top-up loop of \<open>Create\<close>: at most four more reads while the body is under 48 bytes.\<close>

fun top_up :: "crypto \<Rightarrow> nat \<Rightarrow> string \<Rightarrow> string draws" where
  "top_up c 0 body k = (Ok body, k)"
| "top_up c (Suc n) body k =
     (if length body < 48 then
        (case randomToken c 48 k of
           (Inl e, k) \<Rightarrow> (Inl e, k)
         | (Inr fallback, k) \<Rightarrow> top_up c n (body @ apiKeyBodySanitizer fallback) k)
      else (Ok body, k))"

definition key_Create ::
    "crypto \<Rightarrow> int \<Rightarrow> time \<Rightarrow> string \<Rightarrow> string \<Rightarrow> string list \<Rightarrow> string list \<Rightarrow> time option \<Rightarrow>
     nat \<times> MemoryAPIKeyStore \<Rightarrow> (string \<times> APIKeyRecord) result \<times> nat \<times> MemoryAPIKeyStore" where
  "key_Create c bcryptCost now name serviceID scopes allowedIPs expiresAt = (\<lambda>(k, s).
     case randomToken c 36 k of
       (Inl e, k) \<Rightarrow> (Inl e, k, s)
     | (Inr raw, k) \<Rightarrow> (case top_up c 4 (apiKeyBodySanitizer raw) k of
       (Inl e, k) \<Rightarrow> (Inl e, k, s)
     | (Inr body, k) \<Rightarrow>
       if length body < 48 then (Inl (Message ''auth: api key entropy generation failed''), k, s)
       else
         let rawKey = ''ak_'' @ take 48 body in
         (case newID c ''key'' k of
            (Inl e, k) \<Rightarrow> (Inl e, k, s)
          | (Inr keyID, k) \<Rightarrow> (case hashPassword c rawKey bcryptCost k of
            (Inl e, k) \<Rightarrow> (Inl e, k, s)
          | (Inr h, k) \<Rightarrow>
              let r = \<lparr>ak_ID = keyID, ak_Prefix = take 11 rawKey, ak_Name = name,
                       ak_ServiceID = serviceID, ak_KeyHash = h, ak_Scopes = append_nil scopes,
                       ak_AllowedIPs = append_nil allowedIPs, ak_IsActive = True,
                       ak_ExpiresAt = expiresAt, ak_CreatedAt = now, ak_LastUsedAt = None\<rparr>
              in (Ok (rawKey, r), k, key_Save r s)))))"

definition hasScopes :: "string list \<Rightarrow> string list \<Rightarrow> bool" where
  "hasScopes got required =
     (if required = [] then True else list_all (\<lambda>x. x |\<in>| fset_of_list got) required)"

text \<open>\<open>net.IP.Equal\<close> on two 16-byte addresses; a nil address equals none of them.\<close>

definition ip_entry_matches :: "nat list \<Rightarrow> string \<Rightarrow> bool" where
  "ip_entry_matches ip v =
     (if CHR ''/'' \<in> set v
      then (case ParseCIDR v of None \<Rightarrow> False | Some n \<Rightarrow> net_contains n ip)
      else ParseIP v = Some ip)"

definition ipAllowed :: "string \<Rightarrow> string list \<Rightarrow> bool" where
  "ipAllowed ip allowed =
     (if allowed = [] then True
      else case ParseIP ip of None \<Rightarrow> False | Some parsed \<Rightarrow> list_ex (ip_entry_matches parsed) allowed)"

definition key_Verify ::
    "crypto \<Rightarrow> time \<Rightarrow> string \<Rightarrow> string \<Rightarrow> string list \<Rightarrow> MemoryAPIKeyStore \<Rightarrow>
     APIKeyRecord result \<times> MemoryAPIKeyStore" where
  "key_Verify c now rawKey ip requiredScopes s =
     (if \<not> prefix ''ak_'' rawKey \<or> length rawKey < 11 then (Err ErrInvalidCredentials, s)
      else case FindByPrefix (take 11 rawKey) s of
        Inl e \<Rightarrow> (Err ErrInvalidCredentials, s)
      | Inr r \<Rightarrow>
          if \<not> verifyPassword c rawKey (ak_KeyHash r) then (Err ErrInvalidCredentials, s)
          else if \<not> ak_IsActive r then (Err ErrInvalidCredentials, s)
          else if (case ak_ExpiresAt r of None \<Rightarrow> False | Some e \<Rightarrow> now > e)
            then (Err ErrInvalidCredentials, s)
          else if \<not> ipAllowed ip (slice_elems (ak_AllowedIPs r)) then (Err ErrInvalidCredentials, s)
          else if \<not> hasScopes (slice_elems (ak_Scopes r)) requiredScopes
            then (Err ErrInvalidCredentials, s)
          else (Ok r, UpdateLastUsed (ak_ID r) now s))"

text \<open>\<open>http.Header.Get\<close> is a function of the header's name.\<close>

definition extractAPIKey :: "(string \<Rightarrow> string) \<Rightarrow> string" where
  "extractAPIKey h =
     (let v = trim_space (h ''X-Api-Key'') in
      if v \<noteq> [] then v
      else
        let auth = trim_space (h ''Authorization'') in
        if auth = [] then []
        else case cut_at (CHR '' '') auth of
            None \<Rightarrow> []
          | Some (scheme, tok) \<Rightarrow> if \<not> equal_fold scheme ''ApiKey'' then [] else trim_space tok)"

section \<open>Invariant and listings\<close>

text \<open>Records are kept under their id, and an entry of the prefix index names a record that has
  that prefix.\<close>

definition api_keys_ok :: "MemoryAPIKeyStore \<Rightarrow> bool" where
  "api_keys_ok s \<longleftrightarrow> keyed ak_ID (ks_byID s) \<and>
     (\<forall>p i. fmlookup (ks_byPrefix s) p = Some i \<longrightarrow>
        (\<exists>r. fmlookup (ks_byID s) i = Some r \<and> ak_Prefix r = p))"

lemma clone_fields [simp]:
  "ak_ID (cloneAPIKeyRecord r) = ak_ID r" "ak_Prefix (cloneAPIKeyRecord r) = ak_Prefix r"
  "ak_KeyHash (cloneAPIKeyRecord r) = ak_KeyHash r" "ak_IsActive (cloneAPIKeyRecord r) = ak_IsActive r"
  "ak_ExpiresAt (cloneAPIKeyRecord r) = ak_ExpiresAt r"
  "ak_CreatedAt (cloneAPIKeyRecord r) = ak_CreatedAt r"
  "slice_elems (ak_Scopes (cloneAPIKeyRecord r)) = slice_elems (ak_Scopes r)"
  "slice_elems (ak_AllowedIPs (cloneAPIKeyRecord r)) = slice_elems (ak_AllowedIPs r)"
  by (auto simp: cloneAPIKeyRecord_def append_nil_def split: option.split)

lemma clone_idem [simp]: "cloneAPIKeyRecord (cloneAPIKeyRecord r) = cloneAPIKeyRecord r"
  by (auto simp: cloneAPIKeyRecord_def append_nil_def split: option.split)

lemma api_keys_ok_new: "api_keys_ok NewMemoryAPIKeyStore"
  by (simp add: api_keys_ok_def NewMemoryAPIKeyStore_def)

lemma prefix_index: "api_keys_ok s \<Longrightarrow> fmlookup (ks_byPrefix s) p = Some i \<Longrightarrow>
  \<exists>r. fmlookup (ks_byID s) i = Some r \<and> ak_Prefix r = p \<and> ak_ID r = i"
  unfolding api_keys_ok_def by (meson keyedD)

lemma key_Save_ok [store_intros]:
  assumes ok: "api_keys_ok s"
  shows "api_keys_ok (key_Save r s)"
proof -
  have "\<exists>x. fmlookup (ks_byID (key_Save r s)) i = Some x \<and> ak_Prefix x = p"
    if ix: "fmlookup (ks_byPrefix (key_Save r s)) p = Some i" for p i
  proof (cases "p = ak_Prefix r")
    case True
    then show ?thesis using ix by (simp add: key_Save_def Let_def)
  next
    case False
    then have old: "fmlookup (ks_byPrefix s) p = Some i"
      and kept: "\<forall>q. fmlookup (ks_byID s) (ak_ID r) = Some q \<longrightarrow> ak_Prefix q \<noteq> p"
      using ix by (auto simp: key_Save_def Let_def split: option.splits if_splits)
    then show ?thesis using prefix_index[OF ok old] by (auto simp: key_Save_def Let_def)
  qed
  moreover have "keyed ak_ID (ks_byID (key_Save r s))"
    using ok by (simp add: key_Save_def Let_def api_keys_ok_def)
  ultimately show ?thesis by (simp add: api_keys_ok_def)
qed

lemma api_keys_put:
  assumes ok: "api_keys_ok s" and r: "fmlookup (ks_byID s) i = Some r"
    and "ak_ID r' = ak_ID r" "ak_Prefix r' = ak_Prefix r"
  shows "api_keys_ok (s\<lparr>ks_byID := fmupd i r' (ks_byID s)\<rparr>)"
proof -
  have "\<exists>x. fmlookup (fmupd i r' (ks_byID s)) j = Some x \<and> ak_Prefix x = p"
    if "fmlookup (ks_byPrefix s) p = Some j" for p j
    using prefix_index[OF ok that] r assms(4) by (cases "j = i") auto
  then show ?thesis using assms by (auto simp: api_keys_ok_def intro: keyed_upd_same)
qed

lemma key_Revoke_ok [store_intros]: "api_keys_ok s \<Longrightarrow> api_keys_ok (key_Revoke i s)"
  by (auto simp: key_Revoke_def intro: api_keys_put split: option.split)

lemma UpdateLastUsed_ok [store_intros]: "api_keys_ok s \<Longrightarrow> api_keys_ok (UpdateLastUsed i w s)"
  by (auto simp: UpdateLastUsed_def intro: api_keys_put split: option.split)

lemma key_Delete_ok [store_intros]:
  assumes ok: "api_keys_ok s"
  shows "api_keys_ok (key_Delete i s)"
proof (cases "fmlookup (ks_byID s) i")
  case (Some r)
  have "\<exists>x. fmlookup (ks_byID (key_Delete i s)) j = Some x \<and> ak_Prefix x = p"
    if ix: "fmlookup (ks_byPrefix (key_Delete i s)) p = Some j" for p j
  proof -
    have old: "fmlookup (ks_byPrefix s) p = Some j"
      and kept: "fmlookup (ks_byPrefix s) (ak_Prefix r) = Some i \<longrightarrow> p \<noteq> ak_Prefix r"
      using ix Some by (auto simp: key_Delete_def split: if_splits)
    then show ?thesis using prefix_index[OF ok old] Some by (auto simp: key_Delete_def)
  qed
  then show ?thesis using ok Some by (simp add: api_keys_ok_def key_Delete_def)
qed (use ok in \<open>simp add: key_Delete_def\<close>)

lemma FindByPrefix_Ok:
  assumes "api_keys_ok s" "FindByPrefix p s = Ok r"
  shows "ak_IsActive r \<and> ak_Prefix r = p \<and>
    (\<exists>x. fmlookup (ks_byID s) (ak_ID r) = Some x \<and> r = cloneAPIKeyRecord x)"
proof -
  obtain i x where x: "fmlookup (ks_byPrefix s) p = Some i" "fmlookup (ks_byID s) i = Some x"
    "ak_IsActive x" "r = cloneAPIKeyRecord x"
    using assms(2) by (auto simp: FindByPrefix_def split: option.splits if_splits)
  then show ?thesis using prefix_index[OF assms(1) x(1)] by auto
qed

lemma api_key_order_inj: "keyed ak_ID m \<Longrightarrow> inj_on api_key_order (set (range_values m))"
  using keyed_inj[of ak_ID m] by (auto simp: inj_on_def api_key_order_def)

text \<open>The listing is a function of the records alone, whatever order the map yields them in.\<close>

lemma snapshot_any_order:
  assumes "api_keys_ok s" "mset vs = mset (range_values (ks_byID s))"
  shows "sortAPIKeyRecords (map cloneAPIKeyRecord (filter keep vs)) = key_snapshot keep s"
proof -
  let ?rs = "map cloneAPIKeyRecord (filter keep (range_values (ks_byID s)))"
  have "mset (map cloneAPIKeyRecord (filter keep vs)) = mset ?rs" using assms(2) by simp
  moreover have "inj_on api_key_order (set ?rs)"
  proof (rule inj_onI)
    fix a b assume ab: "a \<in> set ?rs" "b \<in> set ?rs" "api_key_order a = api_key_order b"
    then obtain x y where xy: "x \<in> set (range_values (ks_byID s))" "a = cloneAPIKeyRecord x"
      "y \<in> set (range_values (ks_byID s))" "b = cloneAPIKeyRecord y" by auto
    then have "ak_ID x = ak_ID y" using ab(3) by (simp add: api_key_order_def)
    then have "x = y" using assms(1) keyed_inj[of ak_ID "ks_byID s"] xy(1,3)
      by (metis api_keys_ok_def inj_onD)
    then show "a = b" using xy by simp
  qed
  ultimately show ?thesis by (simp add: key_snapshot_def sortAPIKeyRecords_def sort_key_perm_eq)
qed

lemma key_snapshot_sorted: "sorted (map api_key_order (key_snapshot keep s))"
  by (simp add: key_snapshot_def sortAPIKeyRecords_def)

lemma length_key_snapshot: "length (key_snapshot (\<lambda>_. True) s) = card (fmdom' (ks_byID s))"
  by (simp add: key_snapshot_def sortAPIKeyRecords_def length_range_values)

text \<open>A page is the slice asked for, as long as \<open>offset + limit\<close> does not overflow; where it does,
  and the offset is inside the list, the slice expression panics.\<close>

lemma key_ListAll_page:
  assumes "0 \<le> limit" "0 \<le> offset" "offset + limit \<le> max_int64"
  shows "key_ListAll limit offset s =
    Returns (take (nat limit) (drop (nat offset) (key_snapshot (\<lambda>_. True) s)))"
proof (cases "offset \<ge> int (length (key_snapshot (\<lambda>_. True) s))")
  case False
  let ?rs = "key_snapshot (\<lambda>_. True) s"
  have w: "wrap64 (offset + limit) = offset + limit"
    using assms by (intro wrap64_id) (auto simp: is_int64_def)
  have "length (drop (nat offset) ?rs) \<le> nat (int (length ?rs) - offset)" using False by auto
  moreover have "nat (offset + limit - offset) = nat limit" by simp
  ultimately show ?thesis using False assms by (auto simp: key_ListAll_def Let_def w go_slice_def)
qed (use assms in \<open>auto simp: key_ListAll_def Let_def\<close>)

lemma key_ListAll_overflow:
  assumes "is_int64 limit" "is_int64 offset" "0 \<le> offset" "0 \<le> limit" "max_int64 < offset + limit"
    and "offset < int (length (key_snapshot (\<lambda>_. True) s))"
  shows "key_ListAll limit offset s = Panics"
proof -
  have "wrap64 (offset + limit) = offset + limit - 2 ^ 64"
    using assms by (intro wrap64_overflow) (auto simp: is_int64_def)
  then have "wrap64 (offset + limit) < 0" using assms by (auto simp: is_int64_def)
  then show ?thesis using assms by (simp add: key_ListAll_def Let_def go_slice_def)
qed

section \<open>Minting and verifying\<close>

lemma key_Verify_iff:
  "fst (key_Verify c now raw ip req s) = Ok r \<longleftrightarrow>
     prefix ''ak_'' raw \<and> 11 \<le> length raw \<and> FindByPrefix (take 11 raw) s = Ok r
     \<and> verifyPassword c raw (ak_KeyHash r) \<and> ak_IsActive r
     \<and> (case ak_ExpiresAt r of None \<Rightarrow> True | Some e \<Rightarrow> now \<le> e)
     \<and> ipAllowed ip (slice_elems (ak_AllowedIPs r))
     \<and> set req \<subseteq> set (slice_elems (ak_Scopes r))"
  by (auto simp: key_Verify_def hasScopes_def list_all_iff fset_of_list_elem not_less not_le
      split: sum.splits option.splits)

lemma key_Verify_refused:
  "fst (key_Verify c now raw ip req s) = Inl e \<Longrightarrow>
   e = Sentinel ErrInvalidCredentials \<and> snd (key_Verify c now raw ip req s) = s"
  by (auto simp: key_Verify_def split: sum.splits if_splits)

lemma top_up_alphanumeric:
  "top_up c n body k = (Ok b, k') \<Longrightarrow> list_all alphanumeric body \<Longrightarrow> list_all alphanumeric b"
proof (induction n arbitrary: body k)
  case (Suc n)
  show ?case
  proof (cases "length body < 48")
    case True
    then obtain f k1 where f: "randomToken c 48 k = (Ok f, k1)"
      "top_up c n (body @ apiKeyBodySanitizer f) k1 = (Ok b, k')"
      using Suc.prems(1) by (auto split: prod.splits sum.splits)
    have "list_all alphanumeric (body @ apiKeyBodySanitizer f)"
      using Suc.prems(2) by (auto simp: apiKeyBodySanitizer_def list_all_iff)
    then show ?thesis by (rule Suc.IH[OF f(2)])
  qed (use Suc.prems in simp)
qed simp

lemma key_Create_Ok:
  assumes "key_Create c cost now name svc scopes ips expiry (k, s) = (Ok (raw, r), k', s')"
  shows "s' = key_Save r s \<and> length raw = 51 \<and> prefix ''ak_'' raw
     \<and> list_all alphanumeric (drop 3 raw) \<and> ak_Prefix r = take 11 raw \<and> ak_IsActive r
     \<and> ak_ExpiresAt r = expiry \<and> ak_Scopes r = append_nil scopes
     \<and> ak_AllowedIPs r = append_nil ips
     \<and> (\<exists>k k'. hashPassword c raw cost k = (Ok (ak_KeyHash r), k'))"
proof -
  obtain tok k1 where tok: "randomToken c 36 k = (Ok tok, k1)"
    using assms by (auto simp: key_Create_def split: prod.splits sum.splits)
  obtain body k2 where body: "top_up c 4 (apiKeyBodySanitizer tok) k1 = (Ok body, k2)" "48 \<le> length body"
    using assms tok by (auto simp: key_Create_def split: prod.splits sum.splits if_splits)
  define raw' where "raw' = ''ak_'' @ take 48 body"
  obtain keyID k3 where keyID: "newID c ''key'' k2 = (Ok keyID, k3)"
    using assms tok body by (auto simp: key_Create_def Let_def split: prod.splits sum.splits)
  obtain h k4 where h: "hashPassword c raw' cost k3 = (Ok h, k4)"
    using assms tok body keyID
    unfolding raw'_def by (auto simp: key_Create_def Let_def split: prod.splits sum.splits)
  have raw: "raw = raw'" and r: "s' = key_Save r s" "ak_Prefix r = take 11 raw'" "ak_IsActive r"
    "ak_ExpiresAt r = expiry" "ak_Scopes r = append_nil scopes" "ak_AllowedIPs r = append_nil ips"
    "ak_KeyHash r = h"
    using assms tok body keyID h unfolding raw'_def by (auto simp: key_Create_def Let_def)
  have "list_all alphanumeric body"
    by (rule top_up_alphanumeric[OF body(1)]) (auto simp: apiKeyBodySanitizer_def list_all_iff)
  then have "list_all alphanumeric (drop 3 raw)" "length raw = 51" "prefix ''ak_'' raw"
    using body(2) by (auto simp: raw raw'_def list_all_iff dest: in_set_takeD)
  then show ?thesis using r h raw by blast
qed

lemma FindByPrefix_saved:
  "ak_IsActive r \<Longrightarrow> FindByPrefix (ak_Prefix r) (key_Save r s) = Ok (cloneAPIKeyRecord r)"
  by (simp add: FindByPrefix_def key_Save_def Let_def)

lemma slice_elems_append_nil [simp]: "slice_elems (append_nil xs) = xs"
  by (simp add: append_nil_def)

text \<open>
  \<open>Save\<close> under a new prefix unhooks the old prefix even where the index entry belongs to
  another record (\<open>Delete\<close> checks that, \<open>Save\<close> does not): an active key stops resolving.
\<close>

lemma save_unhooks_other_key:
  assumes "fmlookup (ks_byID s) a = Some ra" "ak_Prefix ra = p" "ak_ID r = a" "ak_Prefix r \<noteq> p"
  shows "FindByPrefix p (key_Save r s) = Err ErrAPIKeyNotFound"
  using assms by (auto simp: FindByPrefix_def key_Save_def Let_def)

section \<open>The life of a key\<close>

text \<open>The calls a key store sees, in any order and with any arguments; the draws of the host move on between
  them.\<close>

inductive key_step :: "crypto \<Rightarrow> nat \<times> MemoryAPIKeyStore \<Rightarrow> nat \<times> MemoryAPIKeyStore \<Rightarrow> bool" for c where
  key_created: "key_Create c cost now name svc scopes ips expiry ks = (res, ks') \<Longrightarrow> key_step c ks ks'"
| key_presented: "key_step c (k, s) (k, snd (key_Verify c now raw ip req s))"
| key_revoked: "key_step c (k, s) (k, key_Revoke i s)"
| key_deleted: "key_step c (k, s) (k, key_Delete i s)"
| key_used: "key_step c (k, s) (k, UpdateLastUsed i when s)"
| key_logged: "key_step c (k, s) (k, LogUsage entry s)"
| key_idle: "k \<le> k' \<Longrightarrow> key_step c (k, s) (k', s)"

lemma top_up_advances: "top_up c n body k = (res, k') \<Longrightarrow> k \<le> k'"
proof (induction n arbitrary: body k)
  case (Suc n)
  obtain f k1 where f: "randomToken c 48 k = (f, k1)" by fastforce
  then have "k1 = Suc k" by (auto simp: randomToken_def split: sum.splits)
  then show ?case using Suc f by (cases f) (fastforce split: if_splits)+
qed simp

lemma hashPassword_advances: "hashPassword c p cost k = (res, k') \<Longrightarrow> k \<le> k'"
  by (auto simp: hashPassword_def Let_def split: sum.splits)

text \<open>A creation either fails and leaves the store alone, or saves a record under an id drawn just then.\<close>

lemma key_Create_draws:
  assumes "key_Create c cost now name svc scopes ips expiry (k, s) = (res, k', s')"
  shows "k \<le> k' \<and> (case res of Inl e \<Rightarrow> s' = s
     | Inr (raw, r) \<Rightarrow> s' = key_Save r s \<and>
         (\<exists>j j'. k \<le> j \<and> j < k' \<and> newID c ''key'' j = (Ok (ak_ID r), j')))"
proof -
  obtain t k1 where t: "randomToken c 36 k = (t, k1)" by fastforce
  then have k1: "k1 = Suc k" by (auto simp: randomToken_def split: sum.splits)
  show ?thesis
  proof (cases t)
    case (Inl e)
    then show ?thesis using assms t k1 by (auto simp: key_Create_def)
  next
    case (Inr tok)
    obtain b k2 where b: "top_up c 4 (apiKeyBodySanitizer tok) k1 = (b, k2)" by fastforce
    note k2 = top_up_advances[OF b]
    obtain i k3 where i: "newID c ''key'' k2 = (i, k3)" by fastforce
    note k3 = newID_advances[OF i]
    obtain h k4 where h: "hashPassword c (''ak_'' @ take 48 (projr b)) cost k3 = (h, k4)" by fastforce
    note k4 = hashPassword_advances[OF h]
    have "\<exists>j j'. k \<le> j \<and> j < k4 \<and> newID c ''key'' j = (Ok x, j')" if "i = Ok x" for x
      using i that k1 k2 k3 k4 by (intro exI[of _ k2] exI[of _ k3]) auto
    then show ?thesis using assms t b i h Inr k1 k2 k3 k4
      by (cases b; cases i; cases h) (fastforce simp: key_Create_def Let_def split: if_splits)+
  qed
qed

text \<open>What stays true once a key is revoked or deleted: no active record has its id, and the id is not drawn
  again.\<close>

definition key_dead :: "crypto \<Rightarrow> string \<Rightarrow> nat \<times> MemoryAPIKeyStore \<Rightarrow> bool" where
  "key_dead c i = (\<lambda>(k, s). api_keys_ok s \<and>
     (\<forall>r. fmlookup (ks_byID s) i = Some r \<longrightarrow> \<not> ak_IsActive r) \<and>
     (\<forall>j j'. k \<le> j \<longrightarrow> newID c ''key'' j \<noteq> (Ok i, j')))"

lemma LogUsage_ok [store_intros]: "api_keys_ok s \<Longrightarrow> api_keys_ok (LogUsage e s)"
  by (simp add: api_keys_ok_def LogUsage_def)

lemma key_Verify_ok [store_intros]: "api_keys_ok s \<Longrightarrow> api_keys_ok (snd (key_Verify c now raw ip req s))"
  by (auto simp: key_Verify_def intro: UpdateLastUsed_ok split: sum.splits)

lemma key_step_ok: "key_step c ks ks' \<Longrightarrow> api_keys_ok (snd ks) \<Longrightarrow> api_keys_ok (snd ks')"
proof (induction rule: key_step.induct)
  case (key_created cost now name svc scopes ips expiry ks res ks')
  then show ?case using key_Create_draws[of c cost now name svc scopes ips expiry "fst ks" "snd ks" res "fst ks'" "snd ks'"]
    by (auto intro: key_Save_ok split: sum.splits)
qed (simp_all add: store_intros)

lemma key_step_time: "key_step c ks ks' \<Longrightarrow> fst ks \<le> fst ks'"
proof (induction rule: key_step.induct)
  case (key_created cost now name svc scopes ips expiry ks res ks')
  then show ?case using key_Create_draws[of c cost now name svc scopes ips expiry "fst ks" "snd ks" res "fst ks'" "snd ks'"]
    by auto
qed simp_all

lemma key_step_dead:
  assumes "key_step c ks ks'" "key_dead c i ks"
  shows "key_dead c i ks'"
proof -
  have inactive: "\<not> ak_IsActive r" if "fmlookup (ks_byID (snd ks')) i = Some r" for r
    using assms that
  proof (induction rule: key_step.induct)
    case (key_created cost now name svc scopes ips expiry ks res ks')
    then have "case res of Inl e \<Rightarrow> snd ks' = snd ks | Inr (raw, x) \<Rightarrow> snd ks' = key_Save x (snd ks) \<and> ak_ID x \<noteq> i"
      using key_Create_draws[of c cost now name svc scopes ips expiry "fst ks" "snd ks" res "fst ks'" "snd ks'"]
      by (auto simp: key_dead_def split: sum.splits)
    then show ?case using key_created.prems
      by (auto simp: key_dead_def key_Save_def Let_def split: sum.splits prod.splits)
  qed (auto simp: key_dead_def key_Verify_def UpdateLastUsed_def key_Revoke_def key_Delete_def LogUsage_def
      split: sum.splits option.splits if_splits)
  then show ?thesis using assms key_step_ok[OF assms(1)] key_step_time[OF assms(1)]
    by (auto simp: key_dead_def split: prod.splits)
qed

lemma key_run_dead: "(key_step c)\<^sup>*\<^sup>* ks ks' \<Longrightarrow> key_dead c i ks \<Longrightarrow> key_dead c i ks'"
  by (induction rule: rtranclp_induct) (auto intro: key_step_dead)

lemma dead_key_refused:
  assumes "key_dead c i (k, s)" "fst (key_Verify c now raw ip req s) = Ok r"
  shows "ak_ID r \<noteq> i"
  using assms FindByPrefix_Ok[of s "take 11 raw" r] by (auto simp: key_dead_def key_Verify_iff)

lemma revoked_key_dead:
  assumes "api_keys_ok s" "\<forall>j j'. k \<le> j \<longrightarrow> newID c ''key'' j \<noteq> (Ok i, j')"
    and "s' \<in> {key_Revoke i s, key_Delete i s}"
  shows "key_dead c i (k, s')"
proof -
  have "api_keys_ok s'" using assms(1,3) by (auto intro: key_Revoke_ok key_Delete_ok)
  moreover have "\<not> ak_IsActive r" if "fmlookup (ks_byID s') i = Some r" for r
    using assms(3) that by (auto simp: key_Revoke_def key_Delete_def split: option.splits)
  ultimately show ?thesis using assms(2) by (simp add: key_dead_def)
qed

lemma key_run_ok: "(key_step c)\<^sup>*\<^sup>* ks ks' \<Longrightarrow> api_keys_ok (snd ks) \<Longrightarrow> api_keys_ok (snd ks') \<and> fst ks \<le> fst ks'"
  by (induction rule: rtranclp_induct) (auto dest: key_step_ok key_step_time)

lemma created_id_not_redrawn:
  assumes "fresh_draws c" "key_Create c cost now name svc scopes ips expiry (k, s) = (Ok (raw, r), k', s')" "k' \<le> l"
  shows "\<forall>j j'. l \<le> j \<longrightarrow> newID c ''key'' j \<noteq> (Ok (ak_ID r), j')"
  using key_Create_draws[OF assms(2)] newID_fresh[OF assms(1)] assms(3) by fastforce

lemma ip_entry_iff:
  "ip_entry_matches a v \<longleftrightarrow>
     (if CHR ''/'' \<in> set v then \<exists>n. ParseCIDR v = Some n \<and> net_contains n a else ParseIP v = Some a)"
  by (simp add: ip_entry_matches_def split: option.splits)

lemma ip_allowed_iff:
  "ipAllowed ip allowed \<longleftrightarrow>
     allowed = [] \<or> (\<exists>a. ParseIP ip = Some a \<and> (\<exists>v\<in>set allowed. ip_entry_matches a v))"
  by (auto simp: ipAllowed_def list_ex_iff split: option.splits)

text \<open>A key as \<open>Create\<close> leaves it: verified exactly while it lasts, from where and for what it was made for, and
  a use is noted in its record.\<close>

lemma created_key_exact:
  assumes bc: "bcrypt_correct c"
    and mk: "key_Create c cost now name svc scopes ips expiry (k, s) = (Ok (raw, r), k', s')"
  shows "key_Verify c later raw ip req s' =
    (if (\<forall>e. expiry = Some e \<longrightarrow> later \<le> e) \<and> ipAllowed ip ips \<and> set req \<subseteq> set scopes
     then (Ok (cloneAPIKeyRecord r),
       s'\<lparr>ks_byID := fmupd (ak_ID r) (cloneAPIKeyRecord r\<lparr>ak_LastUsedAt := Some later\<rparr>) (ks_byID s')\<rparr>)
     else (Err ErrInvalidCredentials, s'))"
proof -
  note r = key_Create_Ok[OF mk]
  obtain k1 k2 where "hashPassword c raw cost k1 = (Ok (ak_KeyHash r), k2)" using r by blast
  then have "verifyPassword c raw (ak_KeyHash r)" by (rule hashPassword_verify[OF bc])
  moreover have "FindByPrefix (take 11 raw) s' = Ok (cloneAPIKeyRecord r)" using r FindByPrefix_saved[of r s] by simp
  moreover have "fmlookup (ks_byID s') (ak_ID r) = Some (cloneAPIKeyRecord r)"
    using r by (simp add: key_Save_def Let_def)
  ultimately show ?thesis using r
    by (auto simp: key_Verify_def hasScopes_def list_all_iff fset_of_list_elem UpdateLastUsed_def
        split: option.splits)
qed

end
