(* ===== verification/Spent_Tokens.thy ===== *)
theory Spent_Tokens
  imports Session_Laws
begin

text \<open>
  A refresh token whose hash finds no session finds none for ever: no call of the service brings the hash
  back, unless a token with that very hash is issued again. \<open>from_on\<close> is a property of the session store from
  a tick on; the calls are gone through once for any such property that the writes of the store keep.
\<close>

section \<open>Properties of the session store\<close>

definition from_on :: "nat \<Rightarrow> (MemorySessionStore \<Rightarrow> bool) \<Rightarrow> world \<Rightarrow> bool" where
  "from_on k A w \<longleftrightarrow> k \<le> w_tick w \<and> A (w_sessions w)"

text \<open>No token issued from tick \<open>k\<close> on has the hash \<open>h\<close>.\<close>

definition never_issued :: "env \<Rightarrow> string \<Rightarrow> nat \<Rightarrow> bool" where
  "never_issued v h k \<longleftrightarrow> (\<forall>u sid ty ttl w t e w'.
     k \<le> w_tick w \<and> issueToken v u sid ty ttl w = (Ok (t, e), w') \<longrightarrow> hashToken (e_crypto v) t \<noteq> h)"

definition unhashed :: "string \<Rightarrow> MemorySessionStore \<Rightarrow> bool" where
  "unhashed h s \<longleftrightarrow> session_store_ok s \<and> fmlookup (ss_byTokenHashed s) h = None"

lemma from_on_ticks [invs]:
  "preserves (from_on k A) (tick f)" "preserves (from_on k A) (hook h)" "preserves (from_on k A) (clock v)"
  "preserves (from_on k A) (wall v)" "preserves (from_on k A) (publish v e)" "preserves (from_on k A) (send_through sf d)"
  "preserves (from_on k A) (users_do g)" "preserves (from_on k A) (enrich_action u)"
  by (auto simp: preserves_def from_on_def tick_def hook_def clock_def wall_def publish_def send_through_def
      users_do_def enrich_action_def split: prod.splits)

lemma from_on_draw [invs]: "(\<And>j. j \<le> snd (d j)) \<Longrightarrow> preserves (from_on k A) (draw d)"
  by (auto simp: preserves_def draw_def from_on_def split: prod.splits) (metis le_trans snd_conv)

lemma from_on_optional [invs]:
  "preserves (from_on k A) (clean_optional_stores u t)" "preserves (from_on k A) (metadata_call f)"
  "preserves (from_on k A) (rbac_call g)" "preserves (from_on k A) (tenants_call h)"
  by (auto simp: preserves_def from_on_def clean_optional_stores_def metadata_call_def rbac_call_def tenants_call_def
      split: option.splits prod.splits)

lemma from_on_sessions_do: "(\<And>s. A s \<Longrightarrow> A (snd (f s))) \<Longrightarrow> preserves (from_on k A) (sessions_do f)"
  by (auto simp: preserves_def from_on_def sessions_do_def split: prod.splits) (metis snd_conv)

lemma from_on_parts [invs]:
  "preserves (from_on k A) (parseToken v t ty)" "preserves (from_on k A) (issueToken v u sid ty ttl)"
  "preserves (from_on k A) (enrichCustomClaims v u)" "preserves (from_on k A) (enrichUser v u)"
  "preserves (from_on k A) (deliver what s d)" "preserves (from_on k A) (resolveUser i e t)"
  "preserves (from_on k A) (loginFailed v e err)" "preserves (from_on k A) (verifyThroughPasswordVerifier v u p)"
  "preserves (from_on k A) m \<Longrightarrow> preserves (from_on k A) (live_until v ex st m)"
  unfolding parseToken_def issueToken_def custom_claims_def enrichCustomClaims_def enrichUser_def deliver_def
    resolveUser_def loginFailed_def verifyThroughPasswordVerifier_def live_until_def Let_def
  by ((intro invs | assumption)+)

lemma from_on_loginPassword [invs]: "preserves (from_on k A) (loginPassword v e p t)"
  unfolding loginPassword_def Let_def by (intro invs)

section \<open>The writes of the store\<close>

lemma unindexed_CreateSession:
  "fmlookup (ss_byTokenHashed s) h = None \<Longrightarrow> s_RefreshTokenHash x \<noteq> h \<Longrightarrow>
   fmlookup (ss_byTokenHashed (snd (CreateSession x s))) h = None"
  by (simp add: CreateSession_def)

lemma unindexed_UpdateSession:
  "fmlookup (ss_byTokenHashed s) h = None \<Longrightarrow> s_RefreshTokenHash x \<noteq> h \<Longrightarrow>
   fmlookup (ss_byTokenHashed (snd (UpdateSession x s))) h = None"
  by (simp add: UpdateSession_def Let_def split: option.split)

lemma unindexed_others:
  "ss_byTokenHashed (snd (RevokeSessionByID now i s)) = ss_byTokenHashed s"
  "fmlookup (ss_byTokenHashed s) h = None \<Longrightarrow> fmlookup (ss_byTokenHashed (snd (DeleteExpiredSessions now s))) h = None"
proof -
  show "ss_byTokenHashed (snd (RevokeSessionByID now i s)) = ss_byTokenHashed s"
    by (simp add: RevokeSessionByID_def split: option.split)
  have "fmlookup (ss_byTokenHashed (snd (fold (delete_if_expired now) xs (n, s)))) h = None"
    if "fmlookup (ss_byTokenHashed s) h = None" for xs n and s :: MemorySessionStore
    using that by (induction xs arbitrary: n s) auto
  then show "fmlookup (ss_byTokenHashed s) h = None \<Longrightarrow>
      fmlookup (ss_byTokenHashed (snd (DeleteExpiredSessions now s))) h = None"
    by (simp add: DeleteExpiredSessions_def)
qed

abbreviation unindexed :: "string \<Rightarrow> MemorySessionStore \<Rightarrow> bool" where
  "unindexed h s \<equiv> fmlookup (ss_byTokenHashed s) h = None"

lemma from_on_revoke [invs]: "preserves (from_on k (unindexed h)) (sessions_do (RevokeSessionByID now i))"
  by (rule from_on_sessions_do) (simp add: unindexed_others)

text \<open>A token handed on by \<open>issueToken\<close> has another hash.\<close>

lemma from_on_issue:
  assumes "never_issued v h k"
    and "\<And>t e. hashToken (e_crypto v) t \<noteq> h \<Longrightarrow> preserves (from_on k A) (g t e)"
  shows "preserves (from_on k A) (thenDo (issueToken v u sid ty ttl) (\<lambda>(t, e). g t e))"
  unfolding preserves_def
proof (intro allI impI)
  fix w assume w: "from_on k A w"
  obtain r w1 where i: "issueToken v u sid ty ttl w = (r, w1)" by fastforce
  have w1: "from_on k A w1" using preserves_snd[OF from_on_parts(2) w, of v u sid ty ttl] i by simp
  show "from_on k A (snd (thenDo (issueToken v u sid ty ttl) (\<lambda>(t, e). g t e) w))"
  proof (cases r)
    case (Inr x)
    obtain t e where x: "x = (t, e)" by (cases x)
    have "hashToken (e_crypto v) t \<noteq> h"
      using assms(1) w i unfolding Inr x never_issued_def from_on_def by blast
    then show ?thesis using assms(2) w1 i Inr x by (simp add: thenDo_def preserves_def)
  qed (use w1 i in \<open>simp add: thenDo_def\<close>)
qed

lemma from_on_issueSession:
  assumes "never_issued v h k"
  shows "preserves (from_on k (unindexed h)) (issueSession v u)"
  unfolding issueSession_def
  by ((rule from_on_issue[OF assms] invs from_on_sessions_do unindexed_CreateSession | assumption | simp)+)

section \<open>Every call but the two that write a session back\<close>

lemma from_on_session_calls:
  assumes "never_issued v h k"
  shows "preserves (from_on k (unindexed h)) (Register v e p t)"
    "preserves (from_on k (unindexed h)) (Login v e p t)"
    "preserves (from_on k (unindexed h)) (LoginWithChallenge v e p t)"
    "preserves (from_on k (unindexed h)) (verifyMagicLink v tok i)"
    "preserves (from_on k (unindexed h)) (VerifySMSCode v i e t code)"
    "preserves (from_on k (unindexed h)) (VerifyTOTP v i t code)"
  unfolding Register_def newSessionTokens_def Login_def completeLocalLogin_def LoginWithChallenge_def
    twoFactorChallenge_def IssueTempToken_def verifyMagicLink_def VerifySMSCode_def VerifyTOTP_def Let_def
  by ((intro invs from_on_issueSession[OF assms] | assumption)+)

lemma from_on_plain_calls:
  "preserves (from_on k (unindexed h)) (ForgotPassword v e t b l)"
  "preserves (from_on k (unindexed h)) (SendMagicLink v e t b l)"
  "preserves (from_on k (unindexed h)) (SendVerificationEmailToken v i t b l)"
  "preserves (from_on k (unindexed h)) (RequestEmailChange v i t e b l)"
  "preserves (from_on k (unindexed h)) (SendSMSCode v i e t)"
  "preserves (from_on k (unindexed h)) (Authenticate v at)"
  "preserves (from_on k (unindexed h)) (IssueTempToken v u)"
  "preserves (from_on k (unindexed h)) (ResetPassword v tok p)"
  "preserves (from_on k (unindexed h)) (ChangePassword v i t p q)"
  "preserves (from_on k (unindexed h)) (VerifyEmail v tok)"
  "preserves (from_on k (unindexed h)) (ConfirmEmailChange v tok l)"
  "preserves (from_on k (unindexed h)) (SetupTOTP v i t)"
  "preserves (from_on k (unindexed h)) (VerifyTOTPSetup v i t sec code)"
  "preserves (from_on k (unindexed h)) (DisableTOTP v i t)"
  "preserves (from_on k (unindexed h)) (VerifyTempToken v tok)"
  "preserves (from_on k (unindexed h)) (twoFactorPolicy v)"
  "preserves (from_on k (unindexed h)) (StartTOTPEnrolment v i t)"
  "preserves (from_on k (unindexed h)) (UpdateProfile_service v i t f n)"
  "preserves (from_on k (unindexed h)) (UpdatePhoneNumber_service v i t p)"
  "preserves (from_on k (unindexed h)) (ListSessions v i t)"
  "preserves (from_on k (unindexed h)) (RevokeSessionByID_service v sid)"
  "preserves (from_on k (unindexed h)) (RevokeUserSession v i t sid)"
  "preserves (from_on k (unindexed h)) (Auth_ChangePassword v i t p q)"
  unfolding ForgotPassword_def deliverPasswordReset_def SendMagicLink_def SendVerificationEmailToken_def
    deliverEmailVerification_def RequestEmailChange_def deliverEmailChange_def SendSMSCode_def
    Authenticate_def validateSessionForAccess_def validateSessionState_def IssueTempToken_def
    ResetPassword_def ChangePassword_def VerifyEmail_def ConfirmEmailChange_def deliverEmailChanged_def
    SetupTOTP_def VerifyTOTPSetup_def DisableTOTP_def VerifyTempToken_def twoFactorPolicy_def
    StartTOTPEnrolment_def UpdateProfile_service_def UpdatePhoneNumber_service_def ListSessions_def
    RevokeSessionByID_service_def RevokeUserSession_def Auth_ChangePassword_def ChangePassword_def Let_def
  by ((intro invs | assumption)+)

lemma from_on_revoke_all [invs]: "preserves (from_on k (unindexed h)) (revoke_all v xs)"
  by (induction xs) (simp_all, (intro invs | assumption)+)

lemma from_on_account_calls:
  "preserves (from_on k (unindexed h)) (DeleteAccount v i t)"
  "preserves (from_on k (unindexed h)) (UpdateMetadata_service i m)"
  "preserves (from_on k (unindexed h)) (CreateRole_service r ps)"
  "preserves (from_on k (unindexed h)) (AssignRole i r t)"
  "preserves (from_on k (unindexed h)) (AddUserToTenant i t)"
  unfolding DeleteAccount_def UpdateMetadata_service_def CreateRole_service_def AssignRole_def
    AddUserToTenant_def
  by ((intro invs | assumption)+)

lemma from_on_Me: "preserves (from_on k (unindexed h)) (Me v at)"
  unfolding Me_def by (intro invs from_on_plain_calls)

lemma from_on_cleanup: "preserves (from_on k (unindexed h)) (CleanupExpiredSessions v)"
proof -
  have "snd (case DeleteExpiredSessions now s of (n, s') \<Rightarrow> (Ok n, s')) = snd (DeleteExpiredSessions now s)" for now s
    by (simp split: prod.splits)
  then have "preserves (from_on k (unindexed h)) (sessions_do (\<lambda>s. case DeleteExpiredSessions now s of (n, s') \<Rightarrow> (Ok n, s')))"
    for now by (intro from_on_sessions_do) (simp add: unindexed_others)
  then show ?thesis unfolding CleanupExpiredSessions_def by (intro invs)
qed

lemma from_on_create_tenant: "preserves (from_on k (unindexed h)) (CreateTenant_service v n cf)"
proof -
  have "preserves (from_on k (unindexed h)) (thenDo (draw (newID (e_crypto v) ''tnt'')) (\<lambda>tid.
       thenDo (clock v) (\<lambda>now. tenants_call (CreateTenant \<lparr>t_ID = tid, t_Name = n, t_IsActive = True,
         t_Config = cf, t_CreatedAt = now\<rparr>))))" by (intro invs)
  then show ?thesis by (auto simp: preserves_def CreateTenant_service_def split: option.split)
qed

lemma from_on_forgot: "preserves (from_on k (unindexed h)) (Auth_ForgotPassword v e t b l)"
  using from_on_plain_calls(1)[of k h v e t b l]
  by (auto simp: preserves_def Auth_ForgotPassword_def split: prod.splits sum.splits)

section \<open>The two that do\<close>

text \<open>A session found by its hash carries that hash; so what is written back does not carry \<open>h\<close>.\<close>

lemma from_on_lookup:
  assumes "\<And>s. s_RefreshTokenHash s \<noteq> h \<Longrightarrow> preserves (from_on k (unhashed h)) (g s)"
  shows "preserves (from_on k (unhashed h)) (thenDo (mapErr f (sessions_get (GetSessionByRefreshTokenHash h'))) g)"
  unfolding preserves_def
proof (intro allI impI)
  fix w assume w: "from_on k (unhashed h) w"
  show "from_on k (unhashed h) (snd (thenDo (mapErr f (sessions_get (GetSessionByRefreshTokenHash h'))) g w))"
  proof (cases "GetSessionByRefreshTokenHash h' (w_sessions w)")
    case (Inr s)
    have "session_store_ok (w_sessions w)" "unindexed h (w_sessions w)" using w by (simp_all add: from_on_def unhashed_def)
    then have "s_RefreshTokenHash s \<noteq> h"
      using session_rotation.by_hash_sound[OF _ Inr] Inr by (auto simp: GetSessionByRefreshTokenHash_def)
    then show ?thesis using assms w Inr by (simp add: thenDo_def mapErr_def sessions_get_def preserves_def)
  qed (use w in \<open>simp add: thenDo_def mapErr_def sessions_get_def\<close>)
qed

lemma from_on_update:
  "s_RefreshTokenHash x \<noteq> h \<Longrightarrow> preserves (from_on k (unhashed h)) (sessions_do (UpdateSession x))"
  by (rule from_on_sessions_do) (simp add: unhashed_def unindexed_UpdateSession UpdateSession_ok)

lemma from_on_Refresh:
  assumes "never_issued v h k"
  shows "preserves (from_on k (unhashed h)) (Refresh v rt)"
  unfolding Refresh_def
  by ((rule from_on_issue[OF assms] from_on_lookup invs from_on_update | assumption | simp)+)

lemma from_on_Logout: "preserves (from_on k (unhashed h)) (Logout v rt)"
  unfolding Logout_def by ((rule from_on_lookup invs from_on_update | assumption | simp)+)

section \<open>Every run of calls\<close>

lemma unhashed_step:
  assumes "service_step v w w'" "never_issued v h k" "fresh_draws (e_crypto v)" "sha256_size (e_crypto v)"
    and "world_ok (e_crypto v) w" "from_on k (unhashed h) w"
  shows "from_on k (unhashed h) w'"
proof -
  have "from_on k (unindexed h) w" using assms(6) by (simp add: from_on_def unhashed_def)
  moreover have "world_ok (e_crypto v) w'" using service_step_ok[OF assms(1,3-5)] .
  moreover have "from_on k (unindexed h) w' \<Longrightarrow> world_ok (e_crypto v) w' \<Longrightarrow> from_on k (unhashed h) w'"
    by (simp add: from_on_def unhashed_def world_ok_def)
  moreover have "from_on k (unindexed h) w \<Longrightarrow> from_on k (unindexed h) w'" using assms(1)
  proof cases
    case Refresh_step
    then show ?thesis using preserves_snd[OF from_on_Refresh[OF assms(2)] assms(6)] by (simp add: from_on_def unhashed_def)
  next
    case Logout_step
    then show ?thesis using preserves_snd[OF from_on_Logout assms(6)] by (simp add: from_on_def unhashed_def)
  qed (hypsubst, erule preserves_snd[rotated], rule from_on_session_calls[OF assms(2)] from_on_plain_calls
      from_on_account_calls from_on_Me from_on_cleanup from_on_create_tenant from_on_forgot)+
  ultimately show ?thesis by blast
qed

lemma unhashed_run:
  assumes "(service_step v)\<^sup>*\<^sup>* w w'" "never_issued v h k" "fresh_draws (e_crypto v)" "sha256_size (e_crypto v)"
    and "world_ok (e_crypto v) w" "from_on k (unhashed h) w"
  shows "from_on k (unhashed h) w'"
proof -
  from assms(1) have "world_ok (e_crypto v) w' \<and> from_on k (unhashed h) w'"
    by (induction rule: rtranclp_induct) (use assms service_step_ok unhashed_step in blast)+
  then show ?thesis ..
qed

lemma unhashed_not_found: "from_on k (unhashed h) w \<Longrightarrow> GetSessionByRefreshTokenHash h (w_sessions w) = Err ErrSessionNotFound"
  by (simp add: from_on_def unhashed_def GetSessionByRefreshTokenHash_def)

lemma refreshed_unhashed:
  assumes "fresh_draws (e_crypto v)" "world_ok (e_crypto v) w" "Refresh v rt w = (Ok tokens, w')"
    and "hashToken (e_crypto v) (at_RefreshToken tokens) \<noteq> hashToken (e_crypto v) rt"
  shows "world_ok (e_crypto v) w' \<and> from_on (w_tick w') (unhashed (hashToken (e_crypto v) rt)) w'"
proof -
  have ok: "world_ok (e_crypto v) w'"
    using preserves_snd[OF inv_session_calls(4)[OF assms(1)] assms(2), of rt] assms(3) by simp
  obtain session rexp where
    s: "GetSessionByRefreshTokenHash (hashToken (e_crypto v) rt) (w_sessions w) = Ok session"
    and w': "w_sessions w' = snd (UpdateSession (session\<lparr>s_RefreshTokenHash :=
      hashToken (e_crypto v) (at_RefreshToken tokens), s_ExpiresAt := rexp\<rparr>) (w_sessions w))"
    by (rule Refresh_Ok[OF assms(3)])
  have "session_store_ok (w_sessions w)" "session_store_ok (w_sessions w')"
    using assms(2) ok by (simp_all add: world_ok_def)
  moreover from this have "GetSessionByRefreshTokenHash (hashToken (e_crypto v) rt) (w_sessions w') = Err ErrSessionNotFound"
    using session_rotation.update_rotates[OF _ s, of "session\<lparr>s_RefreshTokenHash :=
      hashToken (e_crypto v) (at_RefreshToken tokens), s_ExpiresAt := rexp\<rparr>"] assms(4) w' by simp
  ultimately have "unhashed (hashToken (e_crypto v) rt) (w_sessions w')"
    using session_index[of "w_sessions w'" "hashToken (e_crypto v) rt"]
    by (auto simp: unhashed_def GetSessionByRefreshTokenHash_def split: option.splits)
  then show ?thesis using ok by (simp add: from_on_def)
qed

end
