(* ===== verification/Demo_World.thy ===== *)
theory Demo_World
  imports Credential_Laws API_Keys Spent_Tokens
begin

text \<open>
  A concrete host, used to show that the hypotheses of the properties can hold: primitives that are
  lawful (not secure), the default configuration, a clock that stands still, no hooks, an event bus
  and the in-memory stores. SHA-256 is replaced by a function that tells one chosen token from all
  others. Nothing here models code.
\<close>

section \<open>The host\<close>

definition demo_bytes :: "nat \<Rightarrow> nat \<Rightarrow> string" where
  "demo_bytes k n = take n (chr k # replicate n (chr 0))"

definition demo_crypto :: "string \<Rightarrow> crypto" where
  "demo_crypto marked = \<lparr>
     c_rand = (\<lambda>k n. if k < 256 then Ok (demo_bytes k n) else Inl (Message ''no entropy'')),
     c_digit = (\<lambda>k. Ok (k mod 10)),
     c_bcrypt_generate = (\<lambda>k p cost. Ok (''hash:'' @ p)),
     c_bcrypt_compare = (\<lambda>h p. h = ''hash:'' @ p),
     c_sha256 = (\<lambda>t. replicate 32 (if t = marked then CHR ''m'' else CHR ''n'')),
     c_hmac_sha256 = (\<lambda>k m. replicate 32 (CHR ''h'')),
     c_hmac_sha1 = (\<lambda>k m. replicate 20 (CHR ''h''))\<rparr>"

definition demo_cfg :: Config where
  "demo_cfg = DefaultConfig (replicate 32 (CHR ''s''))\<lparr>cf_SessionCheckOn := SessionCheckOnAllCalls\<rparr>"

definition demo_now :: time where
  "demo_now = 1700000000 * second"

definition demo_env :: "string \<Rightarrow> env" where
  "demo_env marked = \<lparr>e_cfg = demo_cfg, e_crypto = demo_crypto marked,
     e_clock = (\<lambda>k. demo_now), e_wall = (\<lambda>k. demo_now), e_claims = None, e_verifier = None,
     e_SendMagicLink = None, e_SendSMSCode = None, e_SendPasswordReset = None,
     e_SendEmailVerification = None, e_SendEmailChange = None, e_SendEmailChanged = None,
     e_settings = None, e_bus = True, e_ctx = None, e_caps = memory_caps\<rparr>"

lemmas demo_defs = demo_env_def demo_cfg_def DefaultConfig_def

lemma demo_env_simps [simp]:
  "e_cfg (demo_env m) = demo_cfg" "e_crypto (demo_env m) = demo_crypto m" "e_clock (demo_env m) k = demo_now"
  "e_wall (demo_env m) k = demo_now" "e_claims (demo_env m) = None" "e_verifier (demo_env m) = None"
  "e_bus (demo_env m)" "e_ctx (demo_env m) = None" "e_caps (demo_env m) = memory_caps"
  by (simp_all add: demo_env_def)

lemma demo_bytes_16: "demo_bytes k 16 = chr k # replicate 15 (chr 0)"
  by (simp add: demo_bytes_def take_replicate)

lemma demo_fresh: "fresh_draws (demo_crypto m)"
proof -
  have "j = k" if "demo_bytes j 16 = demo_bytes k 16" "j < 256" "k < 256" for j k
    using that by (metis byte_chr demo_bytes_16 list.inject)
  then show ?thesis by (auto simp: fresh_draws_def demo_crypto_def split: if_split_asm)
qed

lemma demo_lawful:
  "bcrypt_correct (demo_crypto m)" "sha256_size (demo_crypto m)" "rand_length (demo_crypto m)"
  by (auto simp: bcrypt_correct_def sha256_size_def rand_length_def demo_crypto_def demo_bytes_def)

lemma demo_hash: "hashToken (demo_crypto m) t = hashToken (demo_crypto m) m \<longleftrightarrow> t = m"
  by (auto simp: hashToken_eq demo_crypto_def)

lemma demo_sane: "sane_clock (demo_env m)"
  by (simp add: sane_clock_def plausible_def demo_now_def demo_defs unix_of_def is_int64_def)

lemma demo_issuer: "valid_utf8 (cf_Issuer demo_cfg)"
  by (rule ascii_valid) (simp add: demo_defs)

lemma demo_hook: "hook_ok (demo_env m) u"
  by (simp add: hook_ok_def)

section \<open>A registered user\<close>

definition demo_user :: User where
  "demo_user = zero_user\<lparr>u_ID := ''usr_1'', u_Email := ''a@b.c'', u_PasswordHash := ''hash:password'',
     u_IsEmailVerified := True\<rparr>"

definition demo_world :: world where
  "demo_world = empty_world\<lparr>w_users := snd (CreateUser demo_user NewMemoryUserStore)\<rparr>"

lemma demo_user_simps [simp]:
  "u_ID demo_user = ''usr_1''" "u_TenantID demo_user = []" "u_Email demo_user = ''a@b.c''"
  "u_PasswordHash demo_user = ''hash:password''" "u_IsEmailVerified demo_user" "\<not> u_IsTOTPEnabled demo_user"
  "\<not> u_Require2FA demo_user"
  by (simp_all add: demo_user_def zero_user_def)

lemma demo_user_printable: "user_printable demo_user"
proof -
  have "valid_utf8 ''usr_1''" "valid_utf8 ''a@b.c''" "valid_utf8 []" by code_simp+
  then show ?thesis by (simp add: user_printable_def demo_user_def zero_user_def)
qed

lemma demo_created: "CreateUser demo_user NewMemoryUserStore = (Ok demo_user, w_users demo_world)"
  by (simp add: demo_world_def CreateUser_def NewMemoryUserStore_def)

lemma demo_lookup [simp]:
  "GetUserByEmail ''a@b.c'' [] (w_users demo_world) = Ok demo_user"
  "GetUserByID ''usr_1'' [] (w_users demo_world) = Ok demo_user"
  using GetUserByEmail_create[OF demo_created] by simp_all

lemma demo_world_simps [simp]:
  "w_sessions demo_world = NewMemorySessionStore" "w_tick demo_world = 0"
  "w_metadata demo_world = Some fmempty" "w_rbac demo_world = Some NewMemoryRolesPermissionsStore"
  "w_tenants demo_world = Some NewMemoryTenantStore"
  by (simp_all add: demo_world_def empty_world_def)

lemma demo_world_ok: "world_ok c demo_world"
proof -
  have "user_store_ok (w_users demo_world)"
    using CreateUser_ok[OF user_store_ok_new, of demo_user] by (simp add: demo_created)
  then show ?thesis
    using world_ok_empty[of c] by (simp add: world_ok_def demo_world_def session_ids_drawn_def empty_world_def)
qed

section \<open>A session of that user\<close>

definition demo_token :: "User \<Rightarrow> string \<Rightarrow> nat \<Rightarrow> string \<Rightarrow> duration \<Rightarrow> string" where
  "demo_token u sid k typ ttl = buildHS256JWT (demo_crypto []) (payload_claims demo_cfg u fmempty sid
     (''jti_'' @ hex_encode (demo_bytes k 16)) typ demo_now (demo_now + ttl)) (cf_Secret demo_cfg)"

lemma demo_newID:
  "k < 256 \<Longrightarrow> newID (demo_crypto m) p k = (Ok (p @ ''_'' @ hex_encode (demo_bytes k 16)), Suc k)"
  by (simp add: newID_def demo_crypto_def)

lemma demo_issueToken:
  assumes "w_tick w < 255"
  shows "issueToken (demo_env m) u sid typ ttl w =
    (Ok (demo_token u sid (Suc (w_tick w)) typ ttl, demo_now + ttl), w\<lparr>w_tick := Suc (Suc (w_tick w))\<rparr>)"
proof -
  have "sign (demo_crypto m) = sign (demo_crypto [])" by (intro ext) (simp add: sign_def demo_crypto_def)
  then have "buildHS256JWT (demo_crypto m) = buildHS256JWT (demo_crypto [])"
    by (intro ext) (simp add: buildHS256JWT_def)
  then show ?thesis using assms
    by (simp add: issueToken_def Let_def thenDo_def clock_def tick_def draw_def demo_newID custom_claims_def ret_def
        demo_token_def)
qed

definition demo_sid :: "nat \<Rightarrow> string" where
  "demo_sid k = ''ses_'' @ hex_encode (demo_bytes k 16)"

definition demo_tokens :: "User \<Rightarrow> nat \<Rightarrow> AuthTokens" where
  "demo_tokens u k = \<lparr>
     at_AccessToken = demo_token u (demo_sid k) (k + 4) ''access'' (cf_AccessTokenTTL demo_cfg),
     at_RefreshToken = demo_token u (demo_sid k) (k + 2) ''refresh'' (cf_RefreshTokenTTL demo_cfg),
     at_ExpiresIn = cf_AccessTokenTTL demo_cfg\<rparr>"

definition demo_session :: "string \<Rightarrow> User \<Rightarrow> nat \<Rightarrow> Session" where
  "demo_session m u k = \<lparr>s_ID = demo_sid k, s_UserID = u_ID u, s_TenantID = u_TenantID u,
     s_RefreshTokenHash = hashToken (demo_crypto m) (at_RefreshToken (demo_tokens u k)),
     s_CreatedAt = demo_now, s_ExpiresAt = demo_now + cf_RefreshTokenTTL demo_cfg, s_RevokedAt = None\<rparr>"

lemma demo_issueSession:
  assumes "w_tick w < 250"
  shows "issueSession (demo_env m) u w = (Ok (demo_tokens u (w_tick w), demo_sid (w_tick w)),
    w\<lparr>w_tick := w_tick w + 6,
      w_sessions := snd (CreateSession (demo_session m u (w_tick w)) (w_sessions w))\<rparr>)"
  using assms
  by (simp add: issueSession_def thenDo_def draw_def demo_newID demo_issueToken clock_def tick_def
      sessions_do_def CreateSession_def ret_def demo_tokens_def demo_session_def demo_sid_def eval_nat_numeral)

lemma demo_parse:
  assumes "k < 255" "typ = ''access'' \<and> ttl = cf_AccessTokenTTL demo_cfg \<or>
    typ = ''refresh'' \<and> ttl = cf_RefreshTokenTTL demo_cfg"
  shows "\<exists>claims. parseToken (demo_env m) (demo_token demo_user (demo_sid j) (Suc k) typ ttl) typ w =
      (Ok claims, w\<lparr>w_tick := Suc (w_tick w)\<rparr>) \<and>
      tc_Sid claims = demo_sid j \<and> tc_Sub claims = ''usr_1'' \<and> tc_Tid claims = []"
proof -
  let ?w = "demo_world\<lparr>w_tick := k\<rparr>"
  have i: "issueToken (demo_env m) demo_user (demo_sid j) typ ttl ?w =
      (Ok (demo_token demo_user (demo_sid j) (Suc k) typ ttl, demo_now + ttl), ?w\<lparr>w_tick := Suc (Suc k)\<rparr>)"
    using demo_issueToken[of ?w m] assms(1) by simp
  have utf: "valid_utf8 typ" using assms(2) ascii_valid[of "''access''"] ascii_valid[of "''refresh''"] by auto
  have times: "plausible demo_now" "plausible (demo_now + ttl)"
    using demo_sane[of m] assms(2) by (auto simp: sane_clock_def)
  have sid: "valid_utf8 (demo_sid j)" unfolding demo_sid_def by (rule session_id_utf8)
  have live: "\<not> time_of_unix (unix_of (demo_now + ttl)) + cf_ClockSkew demo_cfg < demo_now"
    using assms(2) by (auto simp: time_of_unix_def unix_of_def demo_now_def demo_defs)
  obtain jti now where "parseToken (demo_env m) (demo_token demo_user (demo_sid j) (Suc k) typ ttl) typ w =
      (Ok (issued_claims demo_cfg demo_user (demo_sid j) jti typ now (demo_now + ttl)), w\<lparr>w_tick := Suc (w_tick w)\<rparr>)"
    using parse_issued[OF i demo_hook demo_user_printable sid utf, of "typ" w] demo_issuer times live by auto
  then show ?thesis by (simp add: issued_claims_def)
qed

lemma demo_tokens_differ:
  assumes "j < 255" "k < 255" "j \<noteq> k"
  shows "demo_token demo_user (demo_sid i) (Suc j) ''refresh'' (cf_RefreshTokenTTL demo_cfg) \<noteq>
    demo_token demo_user (demo_sid i) (Suc k) ''refresh'' (cf_RefreshTokenTTL demo_cfg)"
proof -
  have run: "issueToken (demo_env []) demo_user (demo_sid i) ''refresh'' (cf_RefreshTokenTTL demo_cfg)
      (demo_world\<lparr>w_tick := n\<rparr>) = (Ok (demo_token demo_user (demo_sid i) (Suc n) ''refresh''
        (cf_RefreshTokenTTL demo_cfg), demo_now + cf_RefreshTokenTTL demo_cfg),
        demo_world\<lparr>w_tick := Suc (Suc n)\<rparr>)" if "n < 255" for n
    using demo_issueToken[of "demo_world\<lparr>w_tick := n\<rparr>" "[]"] that by simp
  have "plausible demo_now" "plausible (demo_now + cf_RefreshTokenTTL demo_cfg)"
    using demo_sane[of "[]"] by (auto simp: sane_clock_def)
  moreover have "valid_utf8 (demo_sid i)" "valid_utf8 ''refresh''"
    unfolding demo_sid_def by (rule session_id_utf8, rule ascii_valid, simp)
  moreover have "c_rand (demo_crypto []) (Suc j) 16 \<noteq> c_rand (demo_crypto []) (Suc k) 16"
    using demo_fresh[of "[]", unfolded fresh_draws_def, rule_format, of "Suc j" "Suc k" "demo_bytes (Suc j) 16"] assms
    by (auto simp: demo_crypto_def)
  ultimately show ?thesis
    using issued_tokens_differ[OF run[OF assms(1)] demo_hook demo_user_printable _ _ _ _ run[OF assms(2)] demo_hook
        demo_user_printable] demo_issuer by simp
qed

text \<open>The refresh token of that session, and the world in which the session is open.\<close>

definition demo_refresh_token :: string where
  "demo_refresh_token = at_RefreshToken (demo_tokens demo_user 0)"

abbreviation "demo_host \<equiv> demo_env demo_refresh_token"

definition demo_open :: world where
  "demo_open = snd (issueSession demo_host demo_user demo_world)"

lemma demo_opened: "issueSession demo_host demo_user demo_world =
    (Ok (demo_tokens demo_user 0, demo_sid 0), demo_open)"
  by (simp add: demo_open_def demo_issueSession)

lemma demo_open_simps [simp]:
  "w_users demo_open = w_users demo_world" "w_tick demo_open = 6"
  by (simp_all add: demo_open_def demo_issueSession)

lemma demo_open_sessions:
  "w_sessions demo_open = snd (CreateSession (demo_session demo_refresh_token demo_user 0) NewMemorySessionStore)"
  by (simp_all add: demo_open_def demo_issueSession)

lemma demo_open_ok: "world_ok (e_crypto demo_host) demo_open"
  using inv_issueSession[of demo_host demo_user] demo_world_ok demo_fresh
  by (simp add: demo_open_def preserves_snd)

lemma demo_session_simps [simp]:
  "s_ID (demo_session m u k) = demo_sid k" "s_UserID (demo_session m u k) = u_ID u"
  "s_TenantID (demo_session m u k) = u_TenantID u" "s_RevokedAt (demo_session m u k) = None"
  "s_ExpiresAt (demo_session m u k) = demo_now + cf_RefreshTokenTTL demo_cfg"
  by (simp_all add: demo_session_def)

lemma demo_open_session [simp]:
  "GetSessionByRefreshTokenHash (hashToken (demo_crypto demo_refresh_token) demo_refresh_token) (w_sessions demo_open)
     = Ok (demo_session demo_refresh_token demo_user 0)"
  "session_at (w_sessions demo_open) (demo_sid 0) = Some (demo_session demo_refresh_token demo_user 0)"
  by (simp_all add: demo_open_sessions GetSessionByRefreshTokenHash_def session_at_def CreateSession_def NewMemorySessionStore_def)
     (simp add: demo_session_def demo_refresh_token_def)

lemma demo_parse_refresh:
  "\<exists>claims. parseToken demo_host demo_refresh_token ''refresh'' w = (Ok claims, w\<lparr>w_tick := Suc (w_tick w)\<rparr>) \<and>
      tc_Sid claims = demo_sid 0 \<and> tc_Sub claims = ''usr_1'' \<and> tc_Tid claims = []"
  using demo_parse[of 1 "''refresh''" "cf_RefreshTokenTTL demo_cfg" demo_refresh_token 0]
  by (simp add: demo_refresh_token_def demo_tokens_def numeral_2_eq_2)

lemma demo_parse_access:
  "\<exists>claims. parseToken demo_host (at_AccessToken (demo_tokens demo_user 0)) ''access'' w =
        (Ok claims, w\<lparr>w_tick := Suc (w_tick w)\<rparr>) \<and>
      tc_Sid claims = demo_sid 0 \<and> tc_Sub claims = ''usr_1'' \<and> tc_Tid claims = []"
  using demo_parse[of 3 "''access''" "cf_AccessTokenTTL demo_cfg" demo_refresh_token 0]
  by (simp add: demo_tokens_def eval_nat_numeral)

lemma demo_logs_out: "\<exists>w. Logout demo_host demo_refresh_token demo_open = (Ok (), w)"
proof -
  obtain claims where "parseToken demo_host demo_refresh_token ''refresh'' demo_open =
        (Ok claims, demo_open\<lparr>w_tick := 7\<rparr>)" "tc_Sid claims = demo_sid 0" "tc_Sub claims = ''usr_1''"
    using demo_parse_refresh[of demo_open] by auto
  moreover have "fst (UpdateSession (demo_session demo_refresh_token demo_user 0\<lparr>s_RevokedAt := Some demo_now\<rparr>)
      (w_sessions demo_open)) = Ok ()"
    using demo_open_session(2) by (simp add: UpdateSession_def session_at_def Let_def split: option.splits)
  ultimately show ?thesis
    by (auto simp: Logout_def thenDo_def mapErr_def sessions_get_def clock_def tick_def sessions_do_def
        publish_def split: prod.splits)
qed

lemma demo_refreshes:
  "\<exists>tokens w. Refresh demo_host demo_refresh_token demo_open = (Ok tokens, w) \<and>
     at_RefreshToken tokens \<noteq> demo_refresh_token"
proof -
  obtain claims where c: "parseToken demo_host demo_refresh_token ''refresh'' demo_open =
        (Ok claims, demo_open\<lparr>w_tick := 7\<rparr>)" "tc_Sid claims = demo_sid 0" "tc_Sub claims = ''usr_1''" "tc_Tid claims = []"
    using demo_parse_refresh[of demo_open] by auto
  let ?new = "demo_token demo_user (demo_sid 0) 9 ''refresh'' (cf_RefreshTokenTTL demo_cfg)"
  let ?x = "demo_session demo_refresh_token demo_user 0\<lparr>
     s_RefreshTokenHash := hashToken (demo_crypto demo_refresh_token) ?new,
     s_ExpiresAt := demo_now + cf_RefreshTokenTTL demo_cfg\<rparr>"
  have skew: "\<not> demo_now + cf_RefreshTokenTTL demo_cfg + cf_ClockSkew demo_cfg < demo_now" by (simp add: demo_defs)
  have up: "fst (UpdateSession ?x (w_sessions demo_open)) = Ok ()"
    using demo_open_session(2) by (simp add: UpdateSession_def session_at_def Let_def split: option.splits)
  have "\<exists>tokens w. Refresh demo_host demo_refresh_token demo_open = (Ok tokens, w) \<and> at_RefreshToken tokens = ?new"
    using c up skew
    by (auto simp: Refresh_def thenDo_def mapErr_def sessions_get_def clock_def tick_def sessions_do_def
        users_get_def publish_def ret_def demo_issueToken split: prod.splits)
  moreover have "?new \<noteq> demo_refresh_token"
    using demo_tokens_differ[of 8 1 0] by (simp add: demo_refresh_token_def demo_tokens_def eval_nat_numeral)
  ultimately show ?thesis by metis
qed

section \<open>Calls that succeed\<close>

lemma demo_email: "normalizeEmail ''a@b.c'' = ''a@b.c''"
  by code_simp

lemma demo_modes:
  "emailVerificationMode demo_cfg = EmailVerificationModeNone" "sessionCheckMode demo_cfg = SessionCheckOnAllCalls"
  by (code_simp, code_simp)

lemma demo_password: "verifyPassword (demo_crypto m) ''password'' ''hash:password''"
  by (simp add: verifyPassword_def demo_crypto_def)

lemma demo_no_second_factor: "\<not> requiresTwoFactor demo_cfg demo_user"
  by (simp add: requiresTwoFactor_def demo_defs)

lemma demo_login_password:
  "loginPassword (demo_env m) ''a@b.c'' ''password'' [] demo_world = (Ok (demo_user, False), demo_world)"
  by (simp add: loginPassword_def demo_email demo_password demo_no_second_factor thenDo_def ret_def attempt_def
      users_get_def)

lemma demo_logs_in: "\<exists>w. Login demo_host ''a@b.c'' ''password'' [] demo_world =
    (Ok (demo_user, demo_tokens demo_user 0), w)"
  by (simp add: Login_def thenDo_def demo_login_password completeLocalLogin_def demo_opened publish_def ret_def)

lemma demo_authenticates:
  "\<exists>u w. Authenticate demo_host (at_AccessToken (demo_tokens demo_user 0)) demo_open = (Ok u, w)"
proof -
  obtain claims where c: "parseToken demo_host (at_AccessToken (demo_tokens demo_user 0)) ''access'' demo_open =
        (Ok claims, demo_open\<lparr>w_tick := 7\<rparr>)" "tc_Sid claims = demo_sid 0" "tc_Sub claims = ''usr_1''" "tc_Tid claims = []"
    using demo_parse_access[of demo_open] by auto
  have "GetSessionByID (demo_sid 0) (w_sessions demo_open) = Ok (demo_session demo_refresh_token demo_user 0)"
    using demo_open_session(2) by (simp add: GetSessionByID_def session_at_def)
  moreover have "\<not> demo_now + cf_RefreshTokenTTL demo_cfg + cf_ClockSkew demo_cfg < demo_now" by (simp add: demo_defs)
  moreover have "trim_space (demo_sid 0) \<noteq> []" unfolding demo_sid_def by (rule session_id_not_blank)
  ultimately show ?thesis using c
    by (simp add: Authenticate_def thenDo_def validateSessionForAccess_def demo_modes memory_caps_def mapErr_def
        sessions_get_def validateSessionState_def clock_def tick_def users_get_def enrich_action_def ret_def)
qed

section \<open>Links and codes in flight\<close>

definition demo_hashed :: string where
  "demo_hashed = hashToken (e_crypto demo_host) ''link''"

lemma demo_hashed_link: "hashToken (demo_crypto demo_refresh_token) ''link'' = demo_hashed"
  by (simp add: demo_hashed_def)

lemma demo_hashPassword: "hashPassword (demo_crypto m) p cost k = (Ok (''hash:'' @ p), Suc k)"
  by (simp add: hashPassword_def demo_crypto_def)

lemma demo_min_len [simp]: "cf_MinPasswordLen demo_cfg = 8"
  by (simp add: demo_defs)

lemma demo_hashed_nonempty: "demo_hashed \<noteq> []"
  unfolding demo_hashed_def by (rule hashToken_nonempty) (simp add: demo_lawful)

text \<open>The user was sent a magic link, and a password-reset link.\<close>

definition demo_linked :: world where
  "demo_linked = demo_world\<lparr>w_users :=
     snd (UpdateMagicLinkToken ''usr_1'' [] demo_hashed demo_now (w_users demo_world))\<rparr>"

definition demo_reset :: world where
  "demo_reset = demo_world\<lparr>w_users :=
     snd (UpdateResetToken ''usr_1'' [] demo_hashed demo_now (w_users demo_world))\<rparr>"

abbreviation "demo_linked_user \<equiv> demo_user\<lparr>u_MagicLinkTokenHash := demo_hashed,
  u_MagicLinkTokenExpiresAt := Some demo_now\<rparr>"

abbreviation "demo_reset_user \<equiv> demo_user\<lparr>u_ResetTokenHash := demo_hashed,
  u_ResetTokenExpiresAt := Some demo_now\<rparr>"

lemma demo_users_ok: "user_store_ok (w_users demo_world)"
  using demo_world_ok by (simp add: world_ok_def)

lemma demo_user_at [simp]: "user_at (w_users demo_world) ''usr_1'' = Some demo_user"
  using demo_lookup(2) by (simp only: GetUserByID_iff)

lemma demo_with_users_ok: "user_store_ok s \<Longrightarrow> world_ok c (demo_world\<lparr>w_users := s\<rparr>)"
  using demo_world_ok[of c] by (simp add: world_ok_def session_ids_drawn_def)

lemma demo_linked_ok: "world_ok c demo_linked"
  unfolding demo_linked_def by (intro demo_with_users_ok update_token_ok demo_hashed_nonempty demo_users_ok)

lemma demo_reset_ok: "world_ok c demo_reset"
  unfolding demo_reset_def by (intro demo_with_users_ok update_token_ok demo_hashed_nonempty demo_users_ok)

lemma demo_linked_get: "GetUserByMagicLinkTokenHash demo_hashed (w_users demo_linked) = Ok demo_linked_user"
  using magic_token.update_get[OF demo_users_ok demo_hashed_nonempty demo_user_at] by (simp add: demo_linked_def)

lemma demo_reset_get: "GetUserByResetTokenHash demo_hashed (w_users demo_reset) = Ok demo_reset_user"
  using reset_token.update_get[OF demo_users_ok demo_hashed_nonempty demo_user_at] by (simp add: demo_reset_def)

lemma demo_skew [simp]: "0 \<le> cf_ClockSkew demo_cfg"
  by (simp add: demo_defs)

lemma demo_link_opens: "\<exists>u tokens w. verifyMagicLink demo_host ''link'' [] demo_linked = (Ok (u, tokens), w)"
proof -
  have "live_until demo_host u_MagicLinkTokenExpiresAt ErrInvalidToken
      (users_get (GetUserByMagicLinkTokenHash demo_hashed)) demo_linked
      = (Ok demo_linked_user, demo_linked\<lparr>w_tick := Suc (w_tick demo_linked)\<rparr>)"
    by (simp add: live_until_Ok demo_linked_get)
  moreover have "fst (ClearMagicLinkToken ''usr_1'' [] (w_users demo_linked)) = Ok ()"
    using magic_token.single_use(1)[OF _ demo_linked_get] demo_linked_ok by (simp add: world_ok_def)
  moreover have "w_tick demo_linked = 0" by (simp add: demo_linked_def)
  ultimately show ?thesis
    by (auto simp: verifyMagicLink_def if_supported_def memory_caps_def demo_hashed_link thenDo_def
        users_do_def ret_def demo_issueSession publish_def split: prod.splits)
qed

lemma demo_resets: "\<exists>w. ResetPassword demo_host ''link'' ''new password'' demo_reset = (Ok (), w)"
proof -
  let ?h = "''hash:new password''"
  have live: "live_until demo_host u_ResetTokenExpiresAt ErrInvalidToken
      (users_get (GetUserByResetTokenHash demo_hashed)) demo_reset
      = (Ok demo_reset_user, demo_reset\<lparr>w_tick := Suc (w_tick demo_reset)\<rparr>)"
    by (simp add: live_until_Ok demo_reset_get)
  have us: "user_store_ok (w_users demo_reset)" using demo_reset_ok by (simp add: world_ok_def)
  have at: "user_at (w_users demo_reset) (u_ID demo_reset_user) = Some demo_reset_user"
    using token_stored[OF us demo_reset_get] by simp
  obtain s1 where up: "UpdatePassword ''usr_1'' [] ?h (w_users demo_reset) = (Ok (), s1)"
    using at by (auto simp: UpdatePassword_def user_in_def user_at_def split: option.splits)
  note p = UpdatePassword_get[OF us at, simplified, OF up]
  have "fst (ClearResetToken ''usr_1'' [] s1) = Ok ()"
    using reset_token.single_use(1)[OF p(3) p(2)[OF demo_reset_get]] by simp
  then show ?thesis using live up
    by (auto simp: ResetPassword_def if_supported_def memory_caps_def demo_hashed_link thenDo_def draw_def
        demo_hashPassword users_do_def
        split: prod.splits)
qed

section \<open>A user who must give a second factor\<close>

abbreviation "demo_strict_user \<equiv> demo_user\<lparr>u_Require2FA := True\<rparr>"

definition demo_strict :: world where
  "demo_strict = demo_world\<lparr>w_users := snd (UpdateRequire2FA ''usr_1'' [] True (w_users demo_world))\<rparr>"

lemma demo_strict_lookup: "GetUserByEmail ''a@b.c'' [] (w_users demo_strict) = Ok demo_strict_user"
proof -
  have us: "user_store_ok (w_users demo_strict)"
    using flag_ops_ok(7)[OF demo_users_ok] by (simp add: demo_strict_def)
  have "user_at (w_users demo_strict) ''usr_1'' = Some demo_strict_user"
    using demo_user_at
    by (simp add: demo_strict_def UpdateRequire2FA_def user_in_def user_at_def put_user_def split: option.splits)
  then show ?thesis using GetUserByEmail_iff[OF us] by simp
qed

lemma demo_challenged: "\<exists>r w challenge. LoginWithChallenge demo_host ''a@b.c'' ''password'' [] demo_strict = (Ok r, w) \<and>
    lr_Outcome r = Inl challenge \<and> lr_User r = demo_strict_user"
proof -
  have "loginPassword demo_host ''a@b.c'' ''password'' [] demo_strict = (Ok (demo_strict_user, True), demo_strict)"
    by (simp add: loginPassword_def demo_email demo_password requiresTwoFactor_def thenDo_def ret_def attempt_def
        users_get_def demo_strict_lookup)
  moreover have "w_tick demo_strict = 0" by (simp add: demo_strict_def)
  ultimately show ?thesis
    by (auto simp: LoginWithChallenge_def Let_def thenDo_def twoFactorChallenge_def IssueTempToken_def demo_issueToken ret_def)
qed

section \<open>A registration\<close>

lemma demo_registers: "\<exists>u tokens w. Register demo_host ''c@d.e'' ''password'' [] demo_world = (Ok (u, tokens), w)"
proof -
  have e: "normalizeEmail ''c@d.e'' = ''c@d.e''" by code_simp
  have free: "fmlookup (us_byEmail (w_users demo_world)) (userEmailKey ''c@d.e'' []) = None"
    "user_at (w_users demo_world) (''usr_'' @ hex_encode (demo_bytes k 16)) = None" for k
  proof -
    have "userEmailKey ''c@d.e'' [] \<noteq> userEmailKey ''a@b.c'' []" by code_simp
    then show "fmlookup (us_byEmail (w_users demo_world)) (userEmailKey ''c@d.e'' []) = None"
      by (simp add: demo_world_def CreateUser_def NewMemoryUserStore_def)
    have "length (hex_encode (demo_bytes k 16)) = 32" by (simp add: demo_bytes_16)
    then have "''usr_'' @ hex_encode (demo_bytes k 16) \<noteq> ''usr_1''" by (auto dest: arg_cong[of _ _ length])
    then show "user_at (w_users demo_world) (''usr_'' @ hex_encode (demo_bytes k 16)) = None"
      by (simp add: demo_world_def CreateUser_def NewMemoryUserStore_def user_at_def)
  qed
  then show ?thesis
    by (simp add: Register_def e Let_def thenDo_def attempt_def users_get_def GetUserByEmail_def draw_def demo_hashPassword
        demo_newID clock_def tick_def mapErr_def users_do_def CreateUser_def zero_user_def user_at_def
        newSessionTokens_def demo_issueSession publish_def ret_def)
qed

lemma demo_forgets: "\<exists>tok w. ForgotPassword demo_host ''a@b.c'' [] [] [] demo_world = (Ok tok, w) \<and> tok \<noteq> []"
proof -
  obtain s where "UpdateResetToken ''usr_1'' [] (hashToken (demo_crypto demo_refresh_token)
      (base64url_encode (demo_bytes 0 32))) (demo_now + cf_ResetTokenTTL demo_cfg) (w_users demo_world) = (Ok (), s)"
    using reset_token.update_accepted[OF demo_user_at, of "[]"] by (metis demo_user_simps(2) prod.collapse)
  moreover have "randomToken (demo_crypto m) 32 0 = (Ok (base64url_encode (demo_bytes 0 32)), 1)" for m
    by (simp add: randomToken_def demo_crypto_def)
  moreover have "base64url_encode (demo_bytes 0 32) \<noteq> []"
    using length_base64url_encode[of "demo_bytes 0 32"] by (auto simp: demo_bytes_def)
  ultimately show ?thesis
    by (auto simp: ForgotPassword_def demo_email thenDo_def attempt_def users_get_def if_supported_def memory_caps_def
        draw_def clock_def tick_def Let_def users_do_def deliverPasswordReset_def deliver_def ret_def demo_env_def
        split: prod.splits)
qed

section \<open>The account\<close>

lemma demo_two_resets:
  "\<exists>u. GetUserByResetTokenHash ''h2''
     (fold reset_token.token_step [Issue ''usr_1'' [] ''h1'' 5, Issue ''usr_1'' [] ''h2'' 6] (w_users demo_world)) = Ok u \<and>
     u_ID u = ''usr_1'' \<and> u_TenantID u = []"
proof -
  let ?s = "snd (UpdateResetToken ''usr_1'' [] ''h1'' 5 (w_users demo_world))"
  have ok: "user_store_ok ?s" by (intro update_token_ok demo_users_ok) simp
  have at: "user_at ?s ''usr_1'' = Some (demo_user\<lparr>u_ResetTokenHash := ''h1'', u_ResetTokenExpiresAt := Some 5\<rparr>)"
    using demo_user_at
    by (simp add: UpdateResetToken_def user_in_def user_at_def put_user_def split: option.splits)
  show ?thesis using reset_token.update_get[OF ok _ at, of "''h2''" "[]" "''h2''" 6] by simp
qed

lemma demo_sid_trim: "trim_space (demo_sid 0) = demo_sid 0"
  by code_simp

lemma demo_sid_nonempty: "demo_sid 0 \<noteq> []"
  by (simp add: demo_sid_def)

lemma demo_lifetimes: "0 \<le> cf_RefreshTokenTTL demo_cfg" "0 \<le> cf_AccessTokenTTL demo_cfg"
  by (simp_all add: demo_defs)

lemma demo_deletes: "\<exists>w. DeleteAccount demo_host ''usr_1'' [] demo_open = (Ok (), w)"
proof -
  obtain w1 where w1: "revoke_all demo_host (ListSessionsForUser ''usr_1'' [] (w_sessions demo_open)) demo_open = (Ok (), w1)"
    "w_users w1 = w_users demo_world" using revoke_all_effect[of demo_host _ demo_open] by fastforce
  obtain s where "DeleteUser ''usr_1'' [] (w_users demo_world) = (Ok (), s)"
    using demo_user_at by (auto simp: DeleteUser_def user_in_def user_at_def split: option.splits)
  then show ?thesis using w1
    by (simp add: DeleteAccount_def if_supported_def memory_caps_def thenDo_def sessions_get_def
        clean_optional_stores_def mapErr_def users_do_def publish_def)
qed

definition demo_code :: AuthCode where
  "demo_code = \<lparr>ac_CodeHash = ''h'', ac_UserID = ''usr_1'', ac_TenantID = [], ac_ClientID = ''web'', ac_Nonce = [],
     ac_RedirectURI = ''https://app/cb'', ac_CodeChallenge = [], ac_CodeChallengeMethod = [], ac_Scope = ''openid'',
     ac_ExpiresAt = 10\<rparr>"

definition demo_key :: "string \<Rightarrow> APIKeyRecord" where
  "demo_key i = \<lparr>ak_ID = i, ak_Prefix = i, ak_Name = i, ak_ServiceID = [], ak_KeyHash = [], ak_Scopes = None,
     ak_AllowedIPs = None, ak_IsActive = True, ak_ExpiresAt = None, ak_CreatedAt = 0, ak_LastUsedAt = None\<rparr>"

section \<open>A refresh token that is never issued again\<close>

text \<open>
  The same claims under a header with no \<open>typ\<close>, signed with the host's secret: the
  parser takes it, and \<open>issueToken\<close> never writes that header. The marked token is this one; the open session
  carries its hash.
\<close>

definition other_header :: string where
  "other_header = json_print (JObj [(''alg'', JStr tokenAlg)])"

definition other_token :: string where
  "other_token = (let input = base64url_encode other_header @ ''.'' @
       base64url_encode (json_print (json_of_object (payload_claims demo_cfg demo_user fmempty (demo_sid 0)
         (''jti_'' @ hex_encode (demo_bytes 2 16)) ''refresh'' demo_now (demo_now + cf_RefreshTokenTTL demo_cfg))))
     in input @ ''.'' @ sign (demo_crypto []) input (cf_Secret demo_cfg))"

abbreviation "other_host \<equiv> demo_env other_token"

lemma other_header_parses: "headerAlg other_header = Some tokenAlg"
proof -
  have "clean (JObj [(''alg'', JStr tokenAlg)])" by code_simp
  moreover have "depth (JObj [(''alg'', JStr tokenAlg)]) \<le> max_nesting"
    by (simp add: max_nesting_def)
  ultimately have "json_parse other_header = Some (JObj [(''alg'', JStr tokenAlg)])"
    unfolding other_header_def by (rule json_round_trip)
  then show ?thesis by (simp add: headerAlg_def object_members_def last_member_def decode_string_def)
qed

lemma other_header_differs: "other_header \<noteq> jwt_header"
  by (simp add: other_header_def jwt_header_def tokenAlg_def)

lemma sign_demo: "sign (demo_crypto m) = sign (demo_crypto [])"
  by (intro ext) (simp add: sign_def demo_crypto_def)

lemma other_verified:
  "verified_claims (demo_crypto m) demo_cfg other_token = verified_claims (demo_crypto m) demo_cfg demo_refresh_token"
proof -
  have cut: "splitToken (base64url_encode a @ ''.'' @ base64url_encode b @ ''.'' @ sign (demo_crypto []) i k) =
      Ok (base64url_encode a, base64url_encode b, sign (demo_crypto []) i k)" for a b i k
    unfolding sign_def by (rule splitToken_parts) (rule base64url_no_dot)+
  show ?thesis
    using header_parses cut
    by (simp add: verified_claims_def other_token_def demo_refresh_token_def demo_tokens_def demo_token_def
        buildHS256JWT_def Let_def base64url_round_trip other_header_parses sign_demo[of m] numeral_2_eq_2)
qed

lemma other_parses:
  "\<exists>claims. parseToken other_host other_token ''refresh'' w = (Ok claims, w\<lparr>w_tick := Suc (w_tick w)\<rparr>) \<and>
      tc_Sid claims = demo_sid 0 \<and> tc_Sub claims = ''usr_1'' \<and> tc_Tid claims = []"
  using demo_parse[of 1 "''refresh''" "cf_RefreshTokenTTL demo_cfg" other_token 0 w]
    other_verified[of other_token]
  by (simp add: demo_refresh_token_def demo_tokens_def numeral_2_eq_2 parseToken_def)

lemma other_not_built: "buildHS256JWT c m k \<noteq> other_token"
proof
  assume "buildHS256JWT c m k = other_token"
  then have "takeWhile (\<lambda>x. x \<noteq> CHR ''.'') (buildHS256JWT c m k) = takeWhile (\<lambda>x. x \<noteq> CHR ''.'') other_token" by simp
  moreover have "takeWhile (\<lambda>x. x \<noteq> CHR ''.'') (base64url_encode a @ ''.'' @ r) = base64url_encode a" for a r
    using base64url_no_dot[of a] by (subst takeWhile_append2) auto
  ultimately have "base64url_encode jwt_header = base64url_encode other_header"
    by (simp add: buildHS256JWT_def other_token_def Let_def)
  then show False using base64url_encode_inj other_header_differs by metis
qed

lemma other_never_issued: "never_issued other_host (hashToken (demo_crypto other_token) other_token) k"
  by (auto simp: never_issued_def demo_hash issueToken_Ok other_not_built)

lemma other_open_ok: "world_ok (demo_crypto other_token) demo_open"
  using demo_open_ok by (simp add: world_ok_def session_ids_drawn_def demo_crypto_def)

lemma other_hash: "hashToken (demo_crypto other_token) other_token = hashToken (demo_crypto demo_refresh_token) demo_refresh_token"
  by (simp add: hashToken_def demo_crypto_def)

lemma other_refreshes:
  "\<exists>tokens w. Refresh other_host other_token demo_open = (Ok tokens, w) \<and> at_RefreshToken tokens \<noteq> other_token"
proof -
  obtain claims where c: "parseToken other_host other_token ''refresh'' demo_open =
        (Ok claims, demo_open\<lparr>w_tick := 7\<rparr>)" "tc_Sid claims = demo_sid 0" "tc_Sub claims = ''usr_1''" "tc_Tid claims = []"
    using other_parses[of demo_open] by auto
  let ?new = "demo_token demo_user (demo_sid 0) 9 ''refresh'' (cf_RefreshTokenTTL demo_cfg)"
  let ?x = "demo_session demo_refresh_token demo_user 0\<lparr>
     s_RefreshTokenHash := hashToken (demo_crypto other_token) ?new,
     s_ExpiresAt := demo_now + cf_RefreshTokenTTL demo_cfg\<rparr>"
  have skew: "\<not> demo_now + cf_RefreshTokenTTL demo_cfg + cf_ClockSkew demo_cfg < demo_now" by (simp add: demo_defs)
  have up: "fst (UpdateSession ?x (w_sessions demo_open)) = Ok ()"
    using demo_open_session(2) by (simp add: UpdateSession_def session_at_def Let_def split: option.splits)
  have "\<exists>tokens w. Refresh other_host other_token demo_open = (Ok tokens, w) \<and> at_RefreshToken tokens = ?new"
    using c up skew
    by (auto simp: Refresh_def other_hash thenDo_def mapErr_def sessions_get_def clock_def tick_def sessions_do_def
        users_get_def publish_def ret_def demo_issueToken split: prod.splits)
  then show ?thesis using other_not_built by (metis demo_token_def)
qed

end
