(* ===== verification/Go_Paths.thy ===== *)
theory Go_Paths
  imports Go_Strings
begin

text \<open>
  The substring functions of Go's \<open>strings\<close> package that the request wiring calls:
  \<open>TrimPrefix\<close>, \<open>TrimSuffix\<close>, \<open>Trim\<close> with a one-byte cutset, and \<open>Index\<close>.
\<close>

definition trim_suffix :: "string \<Rightarrow> string \<Rightarrow> string" where
  "trim_suffix p s = (if suffix p s then take (length s - length p) s else s)"

definition trim_prefix :: "string \<Rightarrow> string \<Rightarrow> string" where
  "trim_prefix p s = (if prefix p s then drop (length p) s else s)"

definition trim_byte :: "char \<Rightarrow> string \<Rightarrow> string" where
  "trim_byte c s = rev (dropWhile (\<lambda>x. x = c) (rev (dropWhile (\<lambda>x. x = c) s)))"

fun string_index :: "string \<Rightarrow> string \<Rightarrow> nat option" where
  "string_index p [] = (if p = [] then Some 0 else None)"
| "string_index p (x # xs) = (if prefix p (x # xs) then Some 0 else map_option Suc (string_index p xs))"

lemma trim_suffix_append [simp]: "trim_suffix p (s @ p) = s"
  by (simp add: trim_suffix_def suffix_def)

lemma trim_prefix_append [simp]: "trim_prefix p (p @ s) = s"
  by (simp add: trim_prefix_def)

lemma trim_suffix_prefix: "prefix (trim_suffix p s) s"
  by (simp add: trim_suffix_def take_is_prefix)

lemma trim_byte_ends:
  "trim_byte c s = [] \<or> hd (trim_byte c s) \<noteq> c \<and> last (trim_byte c s) \<noteq> c"
proof (cases "trim_byte c s = []")
  case False
  define t where "t = dropWhile (\<lambda>x. x = c) s"
  define u where "u = dropWhile (\<lambda>x. x = c) (rev t)"
  have u: "trim_byte c s = rev u" "u \<noteq> []" using False by (auto simp: trim_byte_def t_def u_def)
  then have "t \<noteq> []" by (auto simp: u_def)
  then have ht: "hd t \<noteq> c" using hd_dropWhile[of "\<lambda>x. x = c" s] by (auto simp: t_def)
  have hu: "hd u \<noteq> c" using hd_dropWhile[of "\<lambda>x. x = c" "rev t"] u(2) by (auto simp: u_def)
  have "suffix u (rev t)" unfolding u_def by (rule suffix_dropWhile)
  then obtain z where "rev t = z @ u" by (auto simp: suffix_def)
  then have "last u = hd t" using u(2) by (metis last_appendR last_rev)
  then show ?thesis using u ht hu by (simp add: hd_rev last_rev)
qed simp

lemma trim_byte_id: "s = [] \<or> hd s \<noteq> c \<and> last s \<noteq> c \<Longrightarrow> trim_byte c s = s"
proof (cases "s = []")
  case False
  assume "s = [] \<or> hd s \<noteq> c \<and> last s \<noteq> c"
  then have h: "hd s \<noteq> c" and l: "last s \<noteq> c" using False by auto
  have "dropWhile (\<lambda>x. x = c) s = s" using h False by (cases s) auto
  moreover have "dropWhile (\<lambda>x. x = c) (rev s) = rev s" using l False by (cases s rule: rev_cases) auto
  ultimately show ?thesis by (simp add: trim_byte_def)
qed (simp add: trim_byte_def)

lemma trim_byte_idem [simp]: "trim_byte c (trim_byte c s) = trim_byte c s"
  by (rule trim_byte_id) (rule trim_byte_ends)

lemma string_index_Some:
  "string_index p s = Some i \<Longrightarrow> prefix p (drop i s) \<and> i + length p \<le> length s \<and> (\<forall>j<i. \<not> prefix p (drop j s))"
proof (induction s arbitrary: i)
  case (Cons x xs)
  show ?case
  proof (cases "prefix p (x # xs)")
    case True
    then show ?thesis using Cons.prems prefix_length_le[OF True] by simp
  next
    case False
    then obtain k where "string_index p xs = Some k" "i = Suc k" using Cons.prems by auto
    then show ?thesis using Cons.IH[of k] False by (auto simp: less_Suc_eq_0_disj)
  qed
qed (auto split: if_splits)

lemma string_index_None: "string_index p s = None \<Longrightarrow> \<not> prefix p (drop j s)"
proof (induction s arbitrary: j)
  case (Cons x xs)
  then show ?case by (cases j) (auto split: if_splits)
qed (auto split: if_splits)

lemma trim_space_within:
  assumes "list_all (\<lambda>w. \<not> list_all (\<lambda>c. c \<in> set alphabet) w) white_space" "set s \<subseteq> set alphabet"
  shows "trim_space s = s"
proof -
  have "\<not> set w \<subseteq> set s" if "w \<in> set white_space" for w
    using that assms unfolding list_all_iff by blast
  then have "\<not> starts_white s" "\<not> ends_white s"
    by (auto simp: starts_white_def ends_white_def dest: set_mono_prefix set_mono_suffix)
  then show ?thesis by (rule trim_space_id)
qed

end
