(* ===== verification/Http_Request.thy ===== *)
theory Http_Request
  imports Go_Paths
begin

text \<open>
  What the library reads of an \<open>http.Request\<close>, and the readers of \<open>wire.go\<close> that decide which
  credential a request presents. A request is its method, its \<open>URL.Path\<close>, its header lines in
  order and the cookies \<open>net/http\<close> parsed from it, in order. \<open>Header.Get\<close> answers the first line
  whose name agrees up to case; \<open>Request.Cookie\<close> the first cookie of that exact name.
\<close>

record http_request =
  rq_Method :: string
  rq_Path :: string
  rq_Headers :: "(string \<times> string) list"
  rq_Cookies :: "(string \<times> string) list"

definition header_get :: "http_request \<Rightarrow> string \<Rightarrow> string" where
  "header_get rq name =
     (case find (\<lambda>(k, v). to_lower k = to_lower name) (rq_Headers rq) of None \<Rightarrow> [] | Some (k, v) \<Rightarrow> v)"

definition request_cookie :: "http_request \<Rightarrow> string \<Rightarrow> string option" where
  "request_cookie rq name = (if name = [] then None else map_of (rq_Cookies rq) name)"

section \<open>Names\<close>

definition DefaultAPIPrefix :: string where "DefaultAPIPrefix = ''/auth''"
definition AuthStrategyHeader :: string where "AuthStrategyHeader = ''X-Auth-Strategy''"
definition AuthStrategyBearer :: string where "AuthStrategyBearer = ''bearer''"
definition CSRFHeaderName :: string where "CSRFHeaderName = ''X-CSRF-Token''"
definition AccessTokenCookieName :: string where "AccessTokenCookieName = ''accessToken''"
definition RefreshTokenCookieName :: string where "RefreshTokenCookieName = ''refreshToken''"
definition CSRFTokenCookieName :: string where "CSRFTokenCookieName = ''csrf-token''"
definition hostCookiePrefix :: string where "hostCookiePrefix = ''__Host-''"
definition secureCookiePrefix :: string where "secureCookiePrefix = ''__Secure-''"

lemmas cookie_names = AccessTokenCookieName_def RefreshTokenCookieName_def CSRFTokenCookieName_def
  hostCookiePrefix_def secureCookiePrefix_def

section \<open>Reading credentials\<close>

definition IsBearerRequest :: "http_request \<Rightarrow> bool" where
  "IsBearerRequest rq \<longleftrightarrow> header_get rq AuthStrategyHeader = AuthStrategyBearer"

definition BearerToken :: "string \<Rightarrow> string" where
  "BearerToken header =
     (let header = trim_space header in
      if header = [] then []
      else case cut_at (CHR '' '') header of
        None \<Rightarrow> []
      | Some (scheme, token) \<Rightarrow>
          if \<not> equal_fold scheme ''Bearer'' then [] else trim_space token)"

fun first_cookie :: "http_request \<Rightarrow> string list \<Rightarrow> string" where
  "first_cookie rq [] = []"
| "first_cookie rq (name # names) = (case request_cookie rq name of
     None \<Rightarrow> first_cookie rq names
   | Some c \<Rightarrow> (let v = trim_space c in if v \<noteq> [] then v else first_cookie rq names))"

definition CookieValue :: "http_request \<Rightarrow> string \<Rightarrow> string" where
  "CookieValue rq base = first_cookie rq [hostCookiePrefix @ base, secureCookiePrefix @ base, base]"

definition AccessTokenFromRequest :: "http_request \<Rightarrow> string" where
  "AccessTokenFromRequest rq =
     (let token = BearerToken (header_get rq ''Authorization'') in
      if token \<noteq> [] then token else CookieValue rq AccessTokenCookieName)"

text \<open>\<open>RefreshTokenFromRequest\<close>: \<open>body\<close> is the \<open>refreshToken\<close> member decoded from the body, empty
  when there is none.\<close>

definition RefreshTokenFromRequest :: "http_request \<Rightarrow> string \<Rightarrow> string" where
  "RefreshTokenFromRequest rq body =
     (let token = trim_space body in
      if token \<noteq> [] then token else CookieValue rq RefreshTokenCookieName)"

section \<open>Laws\<close>

lemma first_cookie_trimmed: "trim_space (first_cookie rq ns) = first_cookie rq ns"
proof (induction ns)
  case Nil
  have "trim_space [] = []" by code_simp
  then show ?case by simp
qed (simp add: Let_def split: option.splits)

lemma first_cookie_Nil_iff:
  "first_cookie rq ns = [] \<longleftrightarrow> (\<forall>n\<in>set ns. \<forall>c. request_cookie rq n = Some c \<longrightarrow> trim_space c = [])"
  by (induction ns) (auto simp: Let_def split: option.splits)

lemma first_cookie_append:
  "first_cookie rq (ms @ ns) = (if first_cookie rq ms = [] then first_cookie rq ns else first_cookie rq ms)"
  by (induction ms) (auto simp: Let_def split: option.splits)

text \<open>A value under the strictest name wins over the others.\<close>

lemma CookieValue_host:
  "request_cookie rq (hostCookiePrefix @ base) = Some v \<Longrightarrow> trim_space v \<noteq> [] \<Longrightarrow>
   CookieValue rq base = trim_space v"
  by (simp add: CookieValue_def)

lemma CookieValue_absent:
  "CookieValue rq base = [] \<longleftrightarrow>
   (\<forall>n\<in>{hostCookiePrefix @ base, secureCookiePrefix @ base, base}.
      \<forall>c. request_cookie rq n = Some c \<longrightarrow> trim_space c = [])"
  unfolding CookieValue_def first_cookie_Nil_iff by simp

text \<open>The three names a cookie can be read under.\<close>

abbreviation cookie_variants :: "string \<Rightarrow> string set" where
  "cookie_variants base \<equiv> {hostCookiePrefix @ base, secureCookiePrefix @ base, base}"

lemma cookie_variants_distinct:
  "hostCookiePrefix @ base \<noteq> secureCookiePrefix @ base" "hostCookiePrefix @ base \<noteq> base"
  "secureCookiePrefix @ base \<noteq> base"
  by (simp_all add: hostCookiePrefix_def secureCookiePrefix_def)

lemma first_cookie_only:
  assumes "n \<in> set ns" "request_cookie rq n = Some v" "trim_space v \<noteq> []"
    "\<And>m. m \<in> set ns \<Longrightarrow> m \<noteq> n \<Longrightarrow> request_cookie rq m = None"
  shows "first_cookie rq ns = trim_space v"
  using assms
proof (induction ns)
  case (Cons m ns)
  show ?case
  proof (cases "m = n")
    case False
    then have "request_cookie rq m = None" "n \<in> set ns" using Cons.prems by auto
    then show ?thesis using Cons by simp
  qed (use Cons.prems in simp)
qed simp

lemma CookieValue_only:
  assumes "n \<in> cookie_variants base" "request_cookie rq n = Some v" "trim_space v \<noteq> []"
    "\<And>m. m \<in> cookie_variants base \<Longrightarrow> m \<noteq> n \<Longrightarrow> request_cookie rq m = None"
  shows "CookieValue rq base = trim_space v"
  unfolding CookieValue_def
proof (rule first_cookie_only[of n])
  show "n \<in> set [hostCookiePrefix @ base, secureCookiePrefix @ base, base]"
    using assms(1) by simp
  show "request_cookie rq n = Some v" "trim_space v \<noteq> []" using assms(2,3) .
  show "request_cookie rq m = None"
    if "m \<in> set [hostCookiePrefix @ base, secureCookiePrefix @ base, base]" "m \<noteq> n" for m
    using assms(4)[of m] that by simp
qed

lemma BearerToken_trimmed: "trim_space (BearerToken h) = BearerToken h"
proof -
  have "trim_space [] = []" by code_simp
  then show ?thesis by (simp add: BearerToken_def Let_def split: option.splits)
qed

end
