(* ===== verification/Cookies.thy ===== *)
theory Cookies
  imports Http_Request
begin

text \<open>
  \<open>wire.go: CookieOptions\<close> - how the auth cookies are named, scoped, written and expired, and the
  part of \<open>HTTPConfig\<close> those settings are derived from. A handler's response is the list of
  cookies handed to \<open>http.SetCookie\<close>, in order. \<open>cookie_accepted\<close> is the documented condition of
  RFC 6265bis under which a browser stores a cookie with one of the two name prefixes.
\<close>

datatype SameSite = SameSiteUnset | SameSiteDefaultMode | SameSiteLaxMode | SameSiteStrictMode
  | SameSiteNoneMode

record CookieOptions =
  co_Secure :: bool
  co_SameSite :: SameSite
  co_Path :: string
  co_Domain :: string
  co_RefreshTokenPath :: string
  co_AccessTokenMaxAge :: duration
  co_RefreshTokenMaxAge :: duration
  co_CSRFTokenMaxAge :: duration

record set_cookie =
  sc_Name :: string
  sc_Value :: string
  sc_Path :: string
  sc_Domain :: string
  sc_MaxAge :: int
  sc_HttpOnly :: bool
  sc_Secure :: bool
  sc_SameSite :: SameSite

definition DefaultCookieOptions :: CookieOptions where
  "DefaultCookieOptions = \<lparr>co_Secure = True, co_SameSite = SameSiteLaxMode, co_Path = ''/'',
     co_Domain = [], co_RefreshTokenPath = [], co_AccessTokenMaxAge = 0, co_RefreshTokenMaxAge = 0,
     co_CSRFTokenMaxAge = 15 * minute\<rparr>"

definition CookieName :: "CookieOptions \<Rightarrow> string \<Rightarrow> string" where
  "CookieName opts base =
     (if \<not> co_Secure opts then base
      else if (co_Path opts = [] \<or> co_Path opts = ''/'') \<and> co_Domain opts = []
        then hostCookiePrefix @ base
      else secureCookiePrefix @ base)"

definition basePath :: "CookieOptions \<Rightarrow> string" where
  "basePath opts = (let p = trim_space (co_Path opts) in if p \<noteq> [] then p else ''/'')"

definition refreshPath :: "CookieOptions \<Rightarrow> string" where
  "refreshPath opts = (let p = trim_space (co_RefreshTokenPath opts) in if p \<noteq> [] then p else basePath opts)"

text \<open>
  \<open>CookieOptions.cookie\<close>. \<open>int(maxAge.Seconds())\<close> truncates a floating-point number of
  seconds; for a positive duration that is a whole number of seconds, and for any below 97
  days, it is the integer quotient.
\<close>

definition cookie :: "CookieOptions \<Rightarrow> string \<Rightarrow> string \<Rightarrow> string \<Rightarrow> duration \<Rightarrow> bool \<Rightarrow> set_cookie" where
  "cookie opts name value path maxAge httpOnly =
     (let c = \<lparr>sc_Name = name, sc_Value = value, sc_Path = path, sc_Domain = co_Domain opts,
                sc_MaxAge = 0, sc_HttpOnly = httpOnly, sc_Secure = co_Secure opts,
                sc_SameSite = co_SameSite opts\<rparr>;
          c = (if sc_Path c = [] then c\<lparr>sc_Path := ''/''\<rparr> else c);
          c = (if prefix hostCookiePrefix name
               then c\<lparr>sc_Domain := [], sc_Path := ''/'', sc_Secure := True\<rparr> else c)
      in if maxAge > 0 then c\<lparr>sc_MaxAge := maxAge div second\<rparr> else c)"

section \<open>Writing and clearing\<close>

definition SetAccessTokenCookie :: "CookieOptions \<Rightarrow> string \<Rightarrow> set_cookie list \<Rightarrow> set_cookie list" where
  "SetAccessTokenCookie opts value w =
     w @ [cookie opts (CookieName opts AccessTokenCookieName) value (basePath opts) (co_AccessTokenMaxAge opts) True]"

definition SetRefreshTokenCookie :: "CookieOptions \<Rightarrow> string \<Rightarrow> set_cookie list \<Rightarrow> set_cookie list" where
  "SetRefreshTokenCookie opts value w =
     w @ [cookie opts (CookieName opts RefreshTokenCookieName) value (refreshPath opts) (co_RefreshTokenMaxAge opts) True]"

definition SetCSRFTokenCookie :: "CookieOptions \<Rightarrow> string \<Rightarrow> set_cookie list \<Rightarrow> set_cookie list" where
  "SetCSRFTokenCookie opts value w =
     w @ [cookie opts (CookieName opts CSRFTokenCookieName) value (basePath opts) (co_CSRFTokenMaxAge opts) False]"

fun clear_names :: "CookieOptions \<Rightarrow> string \<Rightarrow> bool \<Rightarrow> string list \<Rightarrow> string list \<Rightarrow> set_cookie list \<Rightarrow> set_cookie list" where
  "clear_names opts path httpOnly seen [] w = w"
| "clear_names opts path httpOnly seen (name # names) w =
     (if name \<in> set seen then clear_names opts path httpOnly seen names w
      else clear_names opts path httpOnly (name # seen) names
             (w @ [(cookie opts name [] path 0 httpOnly)\<lparr>sc_MaxAge := -1\<rparr>]))"

definition clearVariants :: "CookieOptions \<Rightarrow> string \<Rightarrow> string \<Rightarrow> bool \<Rightarrow> set_cookie list \<Rightarrow> set_cookie list" where
  "clearVariants opts base path httpOnly w =
     clear_names opts path httpOnly []
       [CookieName opts base, hostCookiePrefix @ base, secureCookiePrefix @ base, base] w"

definition ClearAuthCookies :: "CookieOptions \<Rightarrow> bool \<Rightarrow> set_cookie list \<Rightarrow> set_cookie list" where
  "ClearAuthCookies opts includeCSRF w =
     (let w = clearVariants opts AccessTokenCookieName (basePath opts) True w;
          w = clearVariants opts RefreshTokenCookieName (refreshPath opts) True w
      in if includeCSRF then clearVariants opts CSRFTokenCookieName (basePath opts) False w else w)"

section \<open>What a browser stores\<close>

definition cookie_accepted :: "set_cookie \<Rightarrow> bool" where
  "cookie_accepted c \<longleftrightarrow>
     (prefix hostCookiePrefix (sc_Name c) \<longrightarrow> sc_Secure c \<and> sc_Domain c = [] \<and> sc_Path c = ''/'') \<and>
     (prefix secureCookiePrefix (sc_Name c) \<longrightarrow> sc_Secure c)"

lemma cookie_name [simp]: "sc_Name (cookie opts name v p a h) = name"
  by (simp add: cookie_def Let_def)

lemma cookie_value [simp]: "sc_Value (cookie opts name v p a h) = v"
  by (simp add: cookie_def Let_def)

lemma cookie_http_only [simp]: "sc_HttpOnly (cookie opts name v p a h) = h"
  by (simp add: cookie_def Let_def)

lemma cookie_path_nonempty: "sc_Path (cookie opts name v p a h) \<noteq> []"
  by (simp add: cookie_def Let_def)

lemma host_cookie_accepted: "prefix hostCookiePrefix n \<Longrightarrow> cookie_accepted (cookie opts n v p a h)"
  by (auto simp: cookie_accepted_def cookie_def Let_def)

lemma secure_cookie_accepted: "co_Secure opts \<Longrightarrow> cookie_accepted (cookie opts n v p a h)"
  by (auto simp: cookie_accepted_def cookie_def Let_def)

text \<open>The names the options choose are always ones the browser takes, with the attributes the
  options write beside them.\<close>

lemma named_cookie_accepted:
  assumes "\<not> prefix hostCookiePrefix base" "\<not> prefix secureCookiePrefix base"
  shows "cookie_accepted (cookie opts (CookieName opts base) v p a h)"
proof (cases "co_Secure opts")
  case True
  then show ?thesis by (rule secure_cookie_accepted)
next
  case False
  then have "CookieName opts base = base" by (simp add: CookieName_def)
  then show ?thesis using assms by (simp add: cookie_accepted_def)
qed

lemma base_names_plain:
  "n \<in> {AccessTokenCookieName, RefreshTokenCookieName, CSRFTokenCookieName} \<Longrightarrow>
     \<not> prefix hostCookiePrefix n \<and> \<not> prefix secureCookiePrefix n"
  by (auto simp: cookie_names)

lemma CookieName_variant:
  "CookieName opts base \<in> {hostCookiePrefix @ base, secureCookiePrefix @ base, base}"
  by (simp add: CookieName_def)

section \<open>Laws of clearing\<close>

definition expiring :: "CookieOptions \<Rightarrow> string \<Rightarrow> bool \<Rightarrow> string \<Rightarrow> set_cookie" where
  "expiring opts path httpOnly name = (cookie opts name [] path 0 httpOnly)\<lparr>sc_MaxAge := -1\<rparr>"

lemma clear_names_covers:
  "set (clear_names opts path h seen names w) =
   set w \<union> expiring opts path h ` (set names - set seen)"
  by (induction opts path h seen names w rule: clear_names.induct)
     (auto simp: expiring_def)

lemma set_clearVariants:
  "set (clearVariants opts base path h w) =
   set w \<union> expiring opts path h ` {hostCookiePrefix @ base, secureCookiePrefix @ base, base}"
proof -
  have "set [CookieName opts base, hostCookiePrefix @ base, secureCookiePrefix @ base, base] =
      {hostCookiePrefix @ base, secureCookiePrefix @ base, base}"
    unfolding list.set by (rule insert_absorb) (rule CookieName_variant)
  then show ?thesis unfolding clearVariants_def clear_names_covers by simp
qed

lemma clear_names_distinct:
  "distinct (map sc_Name w) \<Longrightarrow> sc_Name ` set w \<subseteq> set seen \<Longrightarrow>
   distinct (map sc_Name (clear_names opts path h seen names w))"
  by (induction opts path h seen names w rule: clear_names.induct) auto

text \<open>
  The cookie written for a token and the one that expires it agree in name, path and domain,
  which is what a browser matches them by.
\<close>

definition cookie_key :: "set_cookie \<Rightarrow> string \<times> string \<times> string" where
  "cookie_key c = (sc_Name c, sc_Path c, sc_Domain c)"

lemma expiring_key [simp]: "cookie_key (expiring opts p h n) = cookie_key (cookie opts n v p a h')"
  by (simp add: cookie_key_def expiring_def cookie_def Let_def)

lemma expiring_age [simp]: "sc_MaxAge (expiring opts p h n) = -1"
  by (simp add: expiring_def)

lemma cleared_by:
  "n \<in> {hostCookiePrefix @ base, secureCookiePrefix @ base, base} \<Longrightarrow>
   \<exists>c\<in>set (clearVariants opts base p h w). cookie_key c = cookie_key (cookie opts n v p a h') \<and> sc_MaxAge c = -1"
  by (auto simp: set_clearVariants intro!: bexI[of _ "expiring opts p h n"])

lemma clearVariants_keeps: "c \<in> set w \<Longrightarrow> c \<in> set (clearVariants opts base p h w)"
  by (simp add: set_clearVariants)

text \<open>Every cookie the three writers can emit is expired by \<open>ClearAuthCookies\<close>.\<close>

lemma ClearAuthCookies_expires:
  assumes "c \<in> set (SetAccessTokenCookie opts v [] @ SetRefreshTokenCookie opts v' [] @ SetCSRFTokenCookie opts v'' [])"
  shows "\<exists>d\<in>set (ClearAuthCookies opts True w). cookie_key d = cookie_key c \<and> sc_MaxAge d = -1"
proof -
  have *: "\<exists>d\<in>set (clearVariants opts base p h w').
       cookie_key d = cookie_key (cookie opts (CookieName opts base) v p a h') \<and> sc_MaxAge d = -1"
    for base p h w' v a h'
    by (rule cleared_by) (rule CookieName_variant)
  let ?wa = "clearVariants opts AccessTokenCookieName (basePath opts) True w"
  let ?wr = "clearVariants opts RefreshTokenCookieName (refreshPath opts) True ?wa"
  have wc: "ClearAuthCookies opts True w = clearVariants opts CSRFTokenCookieName (basePath opts) False ?wr"
    by (simp add: ClearAuthCookies_def)
  have sub: "set ?wa \<subseteq> set (ClearAuthCookies opts True w)" "set ?wr \<subseteq> set (ClearAuthCookies opts True w)"
    unfolding wc by (auto intro: clearVariants_keeps)
  consider
      "c = cookie opts (CookieName opts AccessTokenCookieName) v (basePath opts) (co_AccessTokenMaxAge opts) True"
    | "c = cookie opts (CookieName opts RefreshTokenCookieName) v' (refreshPath opts) (co_RefreshTokenMaxAge opts) True"
    | "c = cookie opts (CookieName opts CSRFTokenCookieName) v'' (basePath opts) (co_CSRFTokenMaxAge opts) False"
    using assms
    by (auto simp only: SetAccessTokenCookie_def SetRefreshTokenCookie_def SetCSRFTokenCookie_def
        set_append list.set append_Nil Un_iff insert_iff empty_iff)
  then show ?thesis
  proof cases
    case 1
    show ?thesis unfolding 1 using *[where w' = w] sub(1) by blast
  next
    case 2
    show ?thesis unfolding 2 using *[where w' = ?wa] sub(2) by blast
  next
    case 3
    show ?thesis unfolding 3 wc by (rule *)
  qed
qed

text \<open>
  With \<open>Secure\<close> off, the expiring \<open>__Secure-\<close> cookie is itself refused by a browser: a cookie
  left from a deployment that had \<open>Secure\<close> on and was not host-scoped is not removed.
\<close>

lemma expiring_name [simp]: "sc_Name (expiring opts p h n) = n"
  by (simp add: expiring_def)

lemma ClearAuthCookies_expiring:
  "c \<in> set (ClearAuthCookies opts b []) \<Longrightarrow> \<exists>p h. c = expiring opts p h (sc_Name c)"
  by (auto simp: ClearAuthCookies_def Let_def set_clearVariants split: if_splits) blast+

lemma expiring_insecure:
  "\<not> co_Secure opts \<Longrightarrow> prefix secureCookiePrefix n \<Longrightarrow> \<not> sc_Secure (expiring opts p h n)"
  by (auto simp: expiring_def cookie_def hostCookiePrefix_def secureCookiePrefix_def prefix_def Let_def
      split: if_splits)

lemma insecure_clear_keeps_secure_cookie:
  assumes "\<not> co_Secure opts" "c \<in> set (ClearAuthCookies opts b [])"
    "prefix secureCookiePrefix (sc_Name c)"
  shows "\<not> cookie_accepted c"
proof -
  obtain p h where c: "c = expiring opts p h (sc_Name c)" using ClearAuthCookies_expiring[OF assms(2)] by blast
  have "\<not> sc_Secure (expiring opts p h (sc_Name c))" by (rule expiring_insecure[OF assms(1,3)])
  then have "\<not> sc_Secure c" unfolding c[symmetric] .
  then show ?thesis using assms(3) by (simp add: cookie_accepted_def)
qed

end
