(* ===== verification/CSRF.thy ===== *)
theory CSRF
  imports Cookies Security
begin

text \<open>
  \<open>csrf.go\<close>: the double-submit protection, with the part of \<open>HTTPConfig\<close> it reads. A middleware
  is modelled by what it does to one request: the cookies it sets on the response and whether
  it answers with an error or calls the next handler.
\<close>

record CSRFConfig =
  cs_Enabled :: bool
  cs_CookieName :: string
  cs_HeaderName :: string

definition DefaultCSRFConfig :: CSRFConfig where
  "DefaultCSRFConfig = \<lparr>cs_Enabled = True, cs_CookieName = CSRFTokenCookieName, cs_HeaderName = CSRFHeaderName\<rparr>"

definition HTTPErrCSRFInvalid :: HTTPError where
  "HTTPErrCSRFInvalid = http_error 403 ''CSRF token validation failed'' ''CSRF_INVALID''"

definition csrfTokenBytes :: nat where "csrfTokenBytes = 16"

definition randomHex :: "crypto \<Rightarrow> nat \<Rightarrow> string draws" where
  "randomHex c byteLen k = (case c_rand c k byteLen of
     Inl e \<Rightarrow> (Inl (Wrapped ''auth: random hex'' e), Suc k)
   | Inr b \<Rightarrow> (Ok (hex_encode b), Suc k))"

section \<open>HTTPConfig\<close>

text \<open>The fields of \<open>HTTPConfig\<close> that the wiring of requests and links reads.\<close>

record HTTPConfig =
  hc_APIPrefix :: string
  hc_Cookies :: CookieOptions
  hc_CSRF :: CSRFConfig
  hc_UI_Enabled :: bool
  hc_UIEnabled :: bool
  hc_Admin_Path :: string
  hc_Tools_Path :: string

definition DefaultHTTPConfig :: HTTPConfig where
  "DefaultHTTPConfig = \<lparr>hc_APIPrefix = DefaultAPIPrefix, hc_Cookies = DefaultCookieOptions,
     hc_CSRF = DefaultCSRFConfig, hc_UI_Enabled = False, hc_UIEnabled = False, hc_Admin_Path = [],
     hc_Tools_Path = []\<rparr>"

definition Prefix :: "HTTPConfig \<Rightarrow> string" where
  "Prefix cfg =
     (let p = trim_space (hc_APIPrefix cfg) in
      if p = [] then DefaultAPIPrefix else ''/'' @ trim_byte (CHR ''/'') p)"

definition DefaultAdminPath :: string where "DefaultAdminPath = ''/admin''"
definition DefaultToolsPath :: string where "DefaultToolsPath = ''/tools''"

definition AdminPath :: "HTTPConfig \<Rightarrow> string" where
  "AdminPath cfg =
     (let p = trim_space (hc_Admin_Path cfg) in
      if p = [] then DefaultAdminPath else ''/'' @ trim_byte (CHR ''/'') p)"

definition ToolsPath :: "HTTPConfig \<Rightarrow> string" where
  "ToolsPath cfg =
     (let p = trim_space (hc_Tools_Path cfg) in
      if p = [] then DefaultToolsPath else ''/'' @ trim_byte (CHR ''/'') p)"

definition uiEnabled :: "HTTPConfig \<Rightarrow> bool" where
  "uiEnabled cfg \<longleftrightarrow> hc_UI_Enabled cfg \<or> hc_UIEnabled cfg"

definition resolve_cookies :: "string \<Rightarrow> duration \<Rightarrow> duration \<Rightarrow> CookieOptions \<Rightarrow> CookieOptions" where
  "resolve_cookies api accessTTL refreshTTL opts =
     (let opts = (if trim_space (co_RefreshTokenPath opts) = []
                  then opts\<lparr>co_RefreshTokenPath := api @ ''/refresh''\<rparr> else opts);
          opts = (if co_Path opts = [] then opts\<lparr>co_Path := ''/''\<rparr> else opts);
          opts = (if co_AccessTokenMaxAge opts \<le> 0 then opts\<lparr>co_AccessTokenMaxAge := accessTTL\<rparr> else opts);
          opts = (if co_RefreshTokenMaxAge opts \<le> 0 then opts\<lparr>co_RefreshTokenMaxAge := refreshTTL\<rparr> else opts)
      in if co_CSRFTokenMaxAge opts \<le> 0
         then opts\<lparr>co_CSRFTokenMaxAge := co_CSRFTokenMaxAge DefaultCookieOptions\<rparr> else opts)"

definition resolve :: "HTTPConfig \<Rightarrow> duration \<Rightarrow> duration \<Rightarrow> HTTPConfig" where
  "resolve cfg accessTTL refreshTTL =
     (let cfg = cfg\<lparr>hc_APIPrefix := Prefix cfg\<rparr>;
          cfg = cfg\<lparr>hc_Admin_Path := AdminPath cfg\<rparr>;
          cfg = cfg\<lparr>hc_Tools_Path := ToolsPath cfg\<rparr>;
          cfg = cfg\<lparr>hc_Cookies := resolve_cookies (hc_APIPrefix cfg) accessTTL refreshTTL (hc_Cookies cfg)\<rparr>;
          csrf = hc_CSRF cfg;
          csrf = (if trim_space (cs_CookieName csrf) = [] then csrf\<lparr>cs_CookieName := CSRFTokenCookieName\<rparr> else csrf);
          csrf = (if trim_space (cs_HeaderName csrf) = [] then csrf\<lparr>cs_HeaderName := CSRFHeaderName\<rparr> else csrf);
          cfg = cfg\<lparr>hc_CSRF := csrf\<rparr>
      in if uiEnabled cfg then cfg\<lparr>hc_UI_Enabled := True, hc_UIEnabled := True\<rparr> else cfg)"

section \<open>Which requests are checked\<close>

definition usingBearerCredential :: "http_request \<Rightarrow> bool" where
  "usingBearerCredential rq \<longleftrightarrow> BearerToken (header_get rq ''Authorization'') \<noteq> []"

definition isBearerClient :: "http_request \<Rightarrow> bool" where
  "isBearerClient rq \<longleftrightarrow> IsBearerRequest rq \<or> usingBearerCredential rq"

definition isMutatingMethod :: "string \<Rightarrow> bool" where
  "isMutatingMethod m \<longleftrightarrow> m \<notin> {''GET'', ''HEAD'', ''OPTIONS''}"

definition csrfExemptRoutes :: "(string \<times> string) list" where
  "csrfExemptRoutes =
     [(''POST'', ''/login''), (''POST'', ''/register''), (''POST'', ''/refresh''), (''POST'', ''/logout''),
      (''POST'', ''/forgot-password''), (''POST'', ''/reset-password''), (''GET'', ''/verify-email''),
      (''POST'', ''/change-email/confirm''), (''POST'', ''/magic-link/send''),
      (''POST'', ''/magic-link/verify''), (''POST'', ''/sms/send''), (''POST'', ''/sms/verify''),
      (''POST'', ''/2fa/verify''), (''POST'', ''/link-verify''), (''POST'', ''/sessions/cleanup'')]"

definition csrfManualCheckRoutes :: "(string \<times> string) list" where
  "csrfManualCheckRoutes = [(''POST'', ''/link-request'')]"

text \<open>The loop of \<open>csrfRelativePaths\<close> at index \<open>i\<close>, with the routes found so far.\<close>

definition at_boundary :: "string \<Rightarrow> bool" where
  "at_boundary rest \<longleftrightarrow> rest = [] \<or> prefix ''/'' rest"

function scan_mounts :: "string \<Rightarrow> string \<Rightarrow> nat \<Rightarrow> string list \<Rightarrow> string list" where
  "scan_mounts path pfx i rels =
     (if i + length pfx \<le> length path then
        (case string_index pfx (drop i path) of
           None \<Rightarrow> rels
         | Some offset \<Rightarrow>
             (let i = i + offset; rest = drop (i + length pfx) path in
              scan_mounts path pfx (Suc i)
                (if at_boundary rest then rels @ [trim_suffix ''/'' rest] else rels)))
      else rels)"
  by pat_completeness auto
termination
  by (relation "measure (\<lambda>(path, pfx, i, rels). Suc (length path) - i)") auto

declare scan_mounts.simps [simp del]

definition csrfRelativePaths :: "string \<Rightarrow> string \<Rightarrow> string list \<times> bool" where
  "csrfRelativePaths path pfx =
     (if pfx = [] \<or> pfx = ''/'' then ([trim_suffix ''/'' path], True)
      else (let rels = scan_mounts path pfx 0 [] in
            if rels = [] then ([], False) else (rels, True)))"

definition csrfEnforced :: "http_request \<Rightarrow> string \<Rightarrow> bool" where
  "csrfEnforced rq pfx =
     (if \<not> isMutatingMethod (rq_Method rq) then False
      else case csrfRelativePaths (rq_Path rq) pfx of
        (rels, mounted) \<Rightarrow>
          if \<not> mounted then False
          else if (\<exists>rel\<in>set rels. (rq_Method rq, rel) \<in> set csrfManualCheckRoutes) then True
          else if (rq_Method rq, rels ! 0) \<in> set csrfExemptRoutes then False
          else CookieValue rq AccessTokenCookieName \<noteq> [])"

section \<open>The middleware\<close>

datatype verdict = Next | Refused HTTPError

text \<open>One request: the cookies set, the verdict, and the number of random reads made so far.\<close>

definition csrf_check :: "http_request \<Rightarrow> string \<Rightarrow> string \<Rightarrow> string \<Rightarrow> verdict" where
  "csrf_check rq pfx headerName token =
     (if usingBearerCredential rq \<or> \<not> csrfEnforced rq pfx then Next
      else (let headerToken = trim_space (header_get rq headerName) in
            if headerToken = [] \<or> \<not> secureEqual headerToken token
            then Refused HTTPErrCSRFInvalid else Next))"

definition CSRFMiddleware ::
  "crypto \<Rightarrow> HTTPConfig \<Rightarrow> http_request \<Rightarrow> nat \<Rightarrow> (set_cookie list \<times> verdict) \<times> nat" where
  "CSRFMiddleware c cfg rq k =
     (let cfg = resolve cfg 0 0;
          pfx = Prefix cfg;
          headerName = cs_HeaderName (hc_CSRF cfg);
          token = CookieValue rq (cs_CookieName (hc_CSRF cfg)) in
      if \<not> cs_Enabled (hc_CSRF cfg) then (([], Next), k)
      else if token = [] \<and> \<not> isBearerClient rq then
        (case randomHex c csrfTokenBytes k of
           (Inl e, k') \<Rightarrow> (([], Refused HTTPErrInternal), k')
         | (Inr fresh, k') \<Rightarrow>
             ((SetCSRFTokenCookie (hc_Cookies cfg) fresh [], csrf_check rq pfx headerName fresh), k'))
      else (([], csrf_check rq pfx headerName token), k))"

section \<open>The mount positions\<close>

text \<open>The loop collects the route below every occurrence of the prefix that ends on a segment
  boundary, leftmost first, overlapping occurrences included.\<close>

definition mount_at :: "string \<Rightarrow> string \<Rightarrow> nat \<Rightarrow> bool" where
  "mount_at path pfx i \<longleftrightarrow> prefix pfx (drop i path) \<and> at_boundary (drop (i + length pfx) path)"

definition route_at :: "string \<Rightarrow> string \<Rightarrow> nat \<Rightarrow> string" where
  "route_at path pfx i = trim_suffix ''/'' (drop (i + length pfx) path)"

definition mounts_from :: "string \<Rightarrow> string \<Rightarrow> nat \<Rightarrow> string list" where
  "mounts_from path pfx i = map (route_at path pfx) (filter (mount_at path pfx) [i..<Suc (length path)])"

lemma mount_at_length: "mount_at path pfx i \<Longrightarrow> pfx \<noteq> [] \<Longrightarrow> i + length pfx \<le> length path"
  by (cases pfx) (auto simp: mount_at_def dest!: prefix_length_le)

lemma mounts_from_end:
  assumes "pfx \<noteq> []" "\<not> i + length pfx \<le> length path"
  shows "mounts_from path pfx i = []"
proof -
  have "\<not> mount_at path pfx j" if "i \<le> j" for j
    using mount_at_length[of path pfx j] assms that by auto
  then show ?thesis by (auto simp: mounts_from_def filter_empty_conv)
qed

lemma mounts_from_none:
  "string_index pfx (drop i path) = None \<Longrightarrow> mounts_from path pfx i = []"
  using string_index_None[of pfx "drop i path" "j - i" for j]
  by (auto simp: mounts_from_def filter_empty_conv mount_at_def)
     (metis add.commute drop_drop le_add_diff_inverse)

lemma mounts_from_some:
  assumes "string_index pfx (drop i path) = Some d" "i \<le> length path"
  shows "mounts_from path pfx i =
    (if at_boundary (drop (i + d + length pfx) path) then [route_at path pfx (i + d)] else [])
      @ mounts_from path pfx (Suc (i + d))"
proof -
  note spec = string_index_Some[OF assms(1)]
  have "i + d < Suc (length path)" using spec assms(2) by auto
  then have split: "[i..<Suc (length path)] = [i..<i + d] @ (i + d) # [Suc (i + d)..<Suc (length path)]"
    by (metis le_add1 less_imp_le_nat le_Suc_ex upt_add_eq_append upt_conv_Cons)
  have none: "filter (mount_at path pfx) [i..<i + d] = []"
  proof -
    have "\<not> prefix pfx (drop j path)" if "i \<le> j" "j < i + d" for j
      using spec[THEN conjunct2, THEN conjunct2, rule_format, of "j - i"] that by (simp add: add.commute)
    then show ?thesis by (auto simp: filter_empty_conv mount_at_def)
  qed
  have "prefix pfx (drop (i + d) path)" using spec by (simp add: add.commute)
  then have "mount_at path pfx (i + d) = at_boundary (drop (i + d + length pfx) path)"
    by (simp add: mount_at_def)
  then show ?thesis
    unfolding mounts_from_def split filter_append none by simp
qed

lemma scan_mounts_spec: "pfx \<noteq> [] \<Longrightarrow> scan_mounts path pfx i rels = rels @ mounts_from path pfx i"
proof (induction path pfx i rels rule: scan_mounts.induct)
  case (1 path pfx i rels)
  show ?case
  proof (cases "i + length pfx \<le> length path")
    case False
    then show ?thesis using 1(2) by (subst scan_mounts.simps) (simp add: mounts_from_end)
  next
    case in_range: True
    show ?thesis
    proof (cases "string_index pfx (drop i path)")
      case None
      then show ?thesis using in_range by (subst scan_mounts.simps) (simp add: mounts_from_none)
    next
      case (Some d)
      show ?thesis
        using in_range 1 Some mounts_from_some[OF Some]
        by (subst scan_mounts.simps) (simp add: Let_def route_at_def)
    qed
  qed
qed

lemma csrfRelativePaths_spec:
  "pfx \<noteq> [] \<Longrightarrow> pfx \<noteq> ''/'' \<Longrightarrow>
   csrfRelativePaths path pfx = (mounts_from path pfx 0, mounts_from path pfx 0 \<noteq> [])"
  by (simp add: csrfRelativePaths_def Let_def scan_mounts_spec)

lemma mounts_from_mem:
  "pfx \<noteq> [] \<Longrightarrow> r \<in> set (mounts_from path pfx 0) \<longleftrightarrow> (\<exists>i. mount_at path pfx i \<and> r = route_at path pfx i)"
proof -
  assume "pfx \<noteq> []"
  then have "mount_at path pfx i \<Longrightarrow> i \<in> set [0..<Suc (length path)]" for i
    using mount_at_length[of path pfx i] by auto
  then have "set (filter (mount_at path pfx) [0..<Suc (length path)]) = {i. mount_at path pfx i}"
    unfolding set_filter by blast
  then show "r \<in> set (mounts_from path pfx 0) \<longleftrightarrow> (\<exists>i. mount_at path pfx i \<and> r = route_at path pfx i)"
    unfolding mounts_from_def set_map by blast
qed

text \<open>Wherever a host mounts the prefix, the route below that mount is one of the readings.\<close>

lemma mounted_route_found:
  assumes "pfx \<noteq> []" "at_boundary route"
  shows "trim_suffix ''/'' route \<in> set (mounts_from (base @ pfx @ route) pfx 0)"
proof -
  have "mount_at (base @ pfx @ route) pfx (length base)"
    and "route_at (base @ pfx @ route) pfx (length base) = trim_suffix ''/'' route"
    using assms(2) by (simp_all add: mount_at_def route_at_def)
  then show ?thesis unfolding mounts_from_mem[OF assms(1)] by metis
qed

section \<open>Enforcement\<close>

lemma csrfEnforced_safe_method: "rq_Method rq \<in> {''GET'', ''HEAD'', ''OPTIONS''} \<Longrightarrow> \<not> csrfEnforced rq pfx"
  by (simp add: csrfEnforced_def isMutatingMethod_def)

lemma link_request_enforced:
  assumes "pfx \<noteq> []" "pfx \<noteq> ''/''" "rq_Method rq = ''POST''"
    "rq_Path rq = base @ pfx @ ''/link-request''"
  shows "csrfEnforced rq pfx"
proof -
  let ?rels = "mounts_from (rq_Path rq) pfx 0"
  have "trim_suffix ''/'' ''/link-request'' = ''/link-request''"
    by (simp add: trim_suffix_def suffix_def)
  moreover have "at_boundary ''/link-request''" by (simp add: at_boundary_def)
  ultimately have mem: "''/link-request'' \<in> set ?rels"
    using mounted_route_found[OF assms(1), of "''/link-request''" base] assms(4) by metis
  then have "?rels \<noteq> []" by auto
  then show ?thesis
    using mem assms
    by (auto simp: csrfEnforced_def isMutatingMethod_def csrfRelativePaths_spec csrfManualCheckRoutes_def)
qed

text \<open>A protected route: mounted at the head of the path, not in the exempt table at its first
  reading, presented with an access-token cookie.\<close>

lemma protected_route_enforced:
  assumes "isMutatingMethod (rq_Method rq)" "csrfRelativePaths (rq_Path rq) pfx = (rel # rels, True)"
    "(rq_Method rq, rel) \<notin> set csrfExemptRoutes" "CookieValue rq AccessTokenCookieName \<noteq> []"
  shows "csrfEnforced rq pfx"
  using assms by (simp add: csrfEnforced_def)

text \<open>Only the first reading can exempt a request that carries the cookie.\<close>

lemma csrf_exempt_by_first:
  assumes "\<not> csrfEnforced rq pfx" "isMutatingMethod (rq_Method rq)"
    "CookieValue rq AccessTokenCookieName \<noteq> []" "csrfRelativePaths (rq_Path rq) pfx = (rels, True)"
  shows "(rq_Method rq, rels ! 0) \<in> set csrfExemptRoutes"
  using assms by (auto simp: csrfEnforced_def split: if_splits)

section \<open>What the middleware lets through\<close>

lemma Prefix_nonempty: "Prefix cfg \<noteq> []"
  by (simp add: Prefix_def Let_def DefaultAPIPrefix_def)

lemma csrf_check_Next:
  "csrf_check rq pfx h token = Next \<longleftrightarrow>
   usingBearerCredential rq \<or> \<not> csrfEnforced rq pfx \<or>
   (trim_space (header_get rq h) \<noteq> [] \<and> trim_space (header_get rq h) = token)"
  by (auto simp: csrf_check_def Let_def)

lemma csrf_check_Refused:
  "csrf_check rq pfx h token \<noteq> Next \<Longrightarrow> csrf_check rq pfx h token = Refused HTTPErrCSRFInvalid"
  by (simp add: csrf_check_def Let_def split: if_splits)

lemma resolve_enabled [simp]: "cs_Enabled (hc_CSRF (resolve cfg a r)) = cs_Enabled (hc_CSRF cfg)"
  by (simp add: resolve_def Let_def uiEnabled_def)

text \<open>The names under which the middleware looks for the token, and what it reads and writes.\<close>

abbreviation csrf_cookie :: "HTTPConfig \<Rightarrow> string" where
  "csrf_cookie cfg \<equiv> cs_CookieName (hc_CSRF (resolve cfg 0 0))"

abbreviation csrf_header :: "HTTPConfig \<Rightarrow> string" where
  "csrf_header cfg \<equiv> cs_HeaderName (hc_CSRF (resolve cfg 0 0))"

abbreviation csrf_prefix :: "HTTPConfig \<Rightarrow> string" where
  "csrf_prefix cfg \<equiv> Prefix (resolve cfg 0 0)"

lemma csrf_with_cookie:
  assumes "cs_Enabled (hc_CSRF cfg)" "CookieValue rq (csrf_cookie cfg) \<noteq> []"
  shows "CSRFMiddleware c cfg rq k =
    (([], csrf_check rq (csrf_prefix cfg) (csrf_header cfg) (CookieValue rq (csrf_cookie cfg))), k)"
  using assms by (simp add: CSRFMiddleware_def Let_def)

lemma csrf_without_cookie:
  assumes "cs_Enabled (hc_CSRF cfg)" "CookieValue rq (csrf_cookie cfg) = []" "\<not> isBearerClient rq"
    "c_rand c k 16 = Inr b"
  shows "CSRFMiddleware c cfg rq k =
    ((SetCSRFTokenCookie (hc_Cookies (resolve cfg 0 0)) (hex_encode b) [],
      csrf_check rq (csrf_prefix cfg) (csrf_header cfg) (hex_encode b)), Suc k)"
  using assms by (simp add: CSRFMiddleware_def randomHex_def csrfTokenBytes_def Let_def)

text \<open>A checked request passes only with the token of its own cookie in the header, or, without a
  cookie, with the token drawn while it is being answered.\<close>

lemma csrf_passes_only_with_token:
  assumes "cs_Enabled (hc_CSRF cfg)" "\<not> usingBearerCredential rq" "csrfEnforced rq (csrf_prefix cfg)"
    "CSRFMiddleware c cfg rq k = ((cs, Next), k')"
  shows "trim_space (header_get rq (csrf_header cfg)) \<noteq> [] \<and>
    (trim_space (header_get rq (csrf_header cfg)) = CookieValue rq (csrf_cookie cfg) \<or>
     CookieValue rq (csrf_cookie cfg) = [] \<and>
     (\<exists>b. c_rand c k 16 = Inr b \<and> trim_space (header_get rq (csrf_header cfg)) = hex_encode b))"
  using assms
  by (auto simp: CSRFMiddleware_def Let_def csrf_check_Next randomHex_def csrfTokenBytes_def
      split: if_splits sum.splits prod.splits)

text \<open>The token read back from the cookie it was sent in.\<close>

lemma hex_not_white: "trim_space (hex_encode b) = hex_encode b"
proof (rule trim_space_within)
  show "list_all (\<lambda>w. \<not> list_all (\<lambda>c. c \<in> set hex_alphabet) w) white_space" by code_simp
qed (use hex_encode_chars in blast)

lemma double_submit_roundtrip:
  assumes "cs_Enabled (hc_CSRF cfg)" "csrf_cookie cfg = CSRFTokenCookieName" "rand_length c"
    and first: "CookieValue rq (csrf_cookie cfg) = []" "\<not> isBearerClient rq"
      "CSRFMiddleware c cfg rq k = ((cs, v), k')" "v \<noteq> Refused HTTPErrInternal"
    and second: "\<And>sc. sc \<in> set cs \<Longrightarrow> rq_Cookies rq' = (sc_Name sc, sc_Value sc) # jar"
      "\<And>sc. sc \<in> set cs \<Longrightarrow> header_get rq' (csrf_header cfg) = sc_Value sc"
      "\<And>n. n \<in> cookie_variants CSRFTokenCookieName \<Longrightarrow>
         map_of jar n = None"
  shows "\<exists>t. cs = SetCSRFTokenCookie (hc_Cookies (resolve cfg 0 0)) t [] \<and> CSRFMiddleware c cfg rq' j = (([], Next), j)"
proof -
  obtain b where b: "c_rand c k 16 = Inr b" and cs: "cs = SetCSRFTokenCookie (hc_Cookies (resolve cfg 0 0)) (hex_encode b) []"
    using first assms(1)
    by (auto simp: CSRFMiddleware_def Let_def randomHex_def csrfTokenBytes_def split: sum.splits if_splits)
  let ?n = "CookieName (hc_Cookies (resolve cfg 0 0)) CSRFTokenCookieName"
  have ne: "hex_encode b \<noteq> []"
    using b assms(3) by (metis length_hex_encode list.size(3) mult_eq_0_iff rand_length_def zero_neq_numeral)
  have jar: "rq_Cookies rq' = (?n, hex_encode b) # jar" and h: "header_get rq' (csrf_header cfg) = hex_encode b"
    using second(1,2) by (simp_all add: cs SetCSRFTokenCookie_def)
  have n: "?n \<in> cookie_variants CSRFTokenCookieName" by (rule CookieName_variant)
  then have "?n \<noteq> []" by (auto simp: cookie_names)
  then have "request_cookie rq' ?n = Some (hex_encode b)" using jar by (simp add: request_cookie_def)
  moreover have "request_cookie rq' m = None" if "m \<in> cookie_variants CSRFTokenCookieName" "m \<noteq> ?n" for m
    using second(3)[OF that(1)] that(2) jar by (simp add: request_cookie_def)
  ultimately have v: "CookieValue rq' CSRFTokenCookieName = hex_encode b"
    using CookieValue_only[OF n, of rq' "hex_encode b"] ne unfolding hex_not_white by blast
  have "CSRFMiddleware c cfg rq' j = (([], Next), j)"
    using csrf_with_cookie[OF assms(1)] v ne h assms(2) by (simp add: csrf_check_Next hex_not_white)
  then show ?thesis using cs by blast
qed

text \<open>
  The cookie is always written under \<open>csrf-token\<close>, whatever \<open>CSRF.CookieName\<close> says: with another
  name configured, the cookie a client was sent is never read, a fresh token is drawn for every
  request, and the mirrored header cannot match it.
\<close>

lemma csrf_cookie_name_fixed:
  assumes "CSRFMiddleware c cfg rq k = ((cs, v), k')" "sc \<in> set cs"
  shows "sc_Name sc \<in> cookie_variants CSRFTokenCookieName"
proof -
  have "sc_Name sc = CookieName (hc_Cookies (resolve cfg 0 0)) CSRFTokenCookieName"
    using assms
    by (auto simp: CSRFMiddleware_def Let_def SetCSRFTokenCookie_def split: if_splits sum.splits prod.splits)
  then show ?thesis using CookieName_variant by metis
qed

lemma custom_csrf_cookie_refused:
  assumes "cs_Enabled (hc_CSRF cfg)" "\<not> isBearerClient rq" "csrfEnforced rq (csrf_prefix cfg)"
    and custom: "\<And>n. n \<in> cookie_variants (csrf_cookie cfg) \<Longrightarrow>
      map_of (rq_Cookies rq) n = None"
    and "c_rand c k 16 = Inr b" "trim_space (header_get rq (csrf_header cfg)) \<noteq> hex_encode b"
  shows "snd (fst (CSRFMiddleware c cfg rq k)) = Refused HTTPErrCSRFInvalid"
proof -
  have "CookieValue rq (csrf_cookie cfg) = []"
    unfolding CookieValue_absent using custom by (auto simp: request_cookie_def)
  moreover have "\<not> usingBearerCredential rq" using assms(2) by (simp add: isBearerClient_def)
  moreover have "csrf_check rq (csrf_prefix cfg) (csrf_header cfg) (hex_encode b) \<noteq> Next"
    using assms calculation by (simp add: csrf_check_Next)
  ultimately show ?thesis
    using csrf_without_cookie[OF assms(1) _ assms(2,5)] csrf_check_Refused by simp
qed

end
