(* ===== verification/Site_Links.thy ===== *)
theory Site_Links
  imports CSRF
begin

text \<open>
  The links the library mails and redirects to (\<open>wire.go\<close>, \<open>delivery.go\<close>,
  \<open>delivery_password_email.go\<close>, \<open>oauth_wire.go\<close>): which site a request may steer a link to, and the
  shape of each link. \<open>net/url.Parse\<close> is a parameter: \<open>parse s\<close> is the scheme, host and path of \<open>s\<close>,
  or \<open>None\<close> where it reports an error; nothing is assumed of it.
\<close>

record parsed_url =
  u_Scheme :: string
  u_Host :: string
  u_Path :: string

type_synonym url_parser = "string \<Rightarrow> parsed_url option"

section \<open>Links\<close>

definition UILink :: "HTTPConfig \<Rightarrow> string \<Rightarrow> string \<Rightarrow> string" where
  "UILink cfg siteURL path =
     (let pfx = trim_suffix ''/'' (Prefix cfg); path = trim_prefix ''/'' path in
      if uiEnabled cfg then siteURL @ pfx @ ''/ui/'' @ path else siteURL @ pfx @ ''/'' @ path)"

definition LinkBase :: "HTTPConfig \<Rightarrow> string \<Rightarrow> string" where
  "LinkBase cfg siteURL = (if siteURL = [] then [] else trim_suffix ''/'' (UILink cfg siteURL []))"

definition linkBaseOr :: "string \<Rightarrow> string \<Rightarrow> string" where
  "linkBaseOr perRequest static = (if perRequest \<noteq> [] then perRequest else static)"

definition resolveLang :: "string \<Rightarrow> string \<Rightarrow> string" where
  "resolveLang lang fallback = (if lang = ''it'' \<or> lang = ''en'' then lang else fallback)"

definition tokenLink :: "string \<Rightarrow> string \<Rightarrow> string \<Rightarrow> string" where
  "tokenLink base path token = trim_suffix ''/'' base @ path @ ''?token='' @ token"

definition MagicLinkVerifyPath :: string where "MagicLinkVerifyPath = ''/magic-link/verify''"
definition PasswordResetPath :: string where "PasswordResetPath = ''/reset-password''"
definition EmailVerificationPath :: string where "EmailVerificationPath = ''/verify-email''"
definition EmailChangeConfirmPath :: string where "EmailChangeConfirmPath = ''/change-email/confirm''"

definition MagicLinkURL :: "string \<Rightarrow> string \<Rightarrow> string" where
  "MagicLinkURL base token = tokenLink base MagicLinkVerifyPath token"

definition PasswordResetURL :: "string \<Rightarrow> string \<Rightarrow> string" where
  "PasswordResetURL base token = tokenLink base PasswordResetPath token"

definition EmailVerificationURL :: "string \<Rightarrow> string \<Rightarrow> string" where
  "EmailVerificationURL base token = tokenLink base EmailVerificationPath token"

definition EmailChangeConfirmURL :: "string \<Rightarrow> string \<Rightarrow> string" where
  "EmailChangeConfirmURL base token = tokenLink base EmailChangeConfirmPath token"

definition SMSCodeMessage :: "string \<Rightarrow> string" where
  "SMSCodeMessage code = ''Your verification code is: '' @ code"

section \<open>Query escaping\<close>

text \<open>\<open>url.QueryEscape\<close>.\<close>

definition query_safe :: "char \<Rightarrow> bool" where
  "query_safe c \<longleftrightarrow> (let n = of_char c :: nat in
     65 \<le> n \<and> n \<le> 90 \<or> 97 \<le> n \<and> n \<le> 122 \<or> 48 \<le> n \<and> n \<le> 57 \<or> c \<in> set ''-_.~'')"

definition query_escape :: "string \<Rightarrow> string" where
  "query_escape s = concat (map (\<lambda>c.
     if query_safe c then [c] else if c = CHR '' '' then ''+''
     else [CHR ''%'', ''0123456789ABCDEF'' ! (of_char c div 16), ''0123456789ABCDEF'' ! (of_char c mod 16)]) s)"

definition CodeOAuthAccountConflict :: string where
  "CodeOAuthAccountConflict = ''OAUTH_ACCOUNT_CONFLICT''"

definition AccountConflictLink :: "HTTPConfig \<Rightarrow> string \<Rightarrow> string \<Rightarrow> string \<Rightarrow> string" where
  "AccountConflictLink cfg siteURL provider email =
     (let path = ''/account-conflict?provider='' @ query_escape provider @ ''&code='' @ CodeOAuthAccountConflict;
          path = (if email \<noteq> [] then path @ ''&email='' @ query_escape email else path)
      in UILink cfg siteURL path)"

section \<open>Origins\<close>

text \<open>\<open>dedupeOrigins\<close>: the nested loops over the lists, with the origins seen so far.\<close>

fun dedupe_from :: "string list \<Rightarrow> string list \<Rightarrow> string list \<Rightarrow> string list" where
  "dedupe_from seen merged [] = merged"
| "dedupe_from seen merged (origin # rest) =
     (if origin \<in> set seen then dedupe_from seen merged rest
      else dedupe_from (origin # seen) (merged @ [origin]) rest)"

definition dedupeOrigins :: "string list list \<Rightarrow> string list" where
  "dedupeOrigins ls = dedupe_from [] [] (concat ls)"

definition originAllowed :: "string \<Rightarrow> string list \<Rightarrow> bool" where
  "originAllowed origin allowed =
     (if origin = [] then False else if allowed = [] then True else origin \<in> set allowed)"

text \<open>\<open>Auth.allowedOrigins\<close> and \<open>Auth.defaultSiteURL\<close>: \<open>siteURLs\<close> is \<open>Config.SiteURLs\<close>, \<open>oauth\<close> the
  wiring's \<open>AllowedOrigins\<close> and \<open>SiteURL\<close> when one is configured.\<close>

definition allowedOrigins :: "string list \<Rightarrow> (string list \<times> string) option \<Rightarrow> string list" where
  "allowedOrigins siteURLs oauth =
     dedupeOrigins [siteURLs, (case oauth of None \<Rightarrow> [] | Some (cors, _) \<Rightarrow> cors)]"

definition defaultSiteURL :: "string list \<Rightarrow> (string list \<times> string) option \<Rightarrow> string" where
  "defaultSiteURL siteURLs oauth = (case oauth of
     Some (_, site) \<Rightarrow> if site \<noteq> [] then site else (case siteURLs of [] \<Rightarrow> [] | u # _ \<Rightarrow> u)
   | None \<Rightarrow> (case siteURLs of [] \<Rightarrow> [] | u # _ \<Rightarrow> u))"

definition resolveSiteURL :: "url_parser \<Rightarrow> string \<Rightarrow> string \<Rightarrow> string list \<Rightarrow> string \<Rightarrow> string" where
  "resolveSiteURL parse origin referer allowed siteURL =
     (if allowed \<noteq> [] then
        (let candidate = trim_space origin in
         if originAllowed candidate allowed then candidate
         else case parse (trim_space referer) of
           None \<Rightarrow> siteURL
         | Some u \<Rightarrow>
             if u_Scheme u \<noteq> [] \<and> u_Host u \<noteq> [] then
               (let candidate = u_Scheme u @ ''://'' @ u_Host u in
                if originAllowed candidate allowed then candidate else siteURL)
             else siteURL)
      else siteURL)"

definition ResolveSiteURL ::
  "url_parser \<Rightarrow> string list \<Rightarrow> (string list \<times> string) option \<Rightarrow> http_request \<Rightarrow> string" where
  "ResolveSiteURL parse siteURLs oauth rq =
     resolveSiteURL parse (header_get rq ''Origin'') (header_get rq ''Referer'')
       (allowedOrigins siteURLs oauth) (defaultSiteURL siteURLs oauth)"

section \<open>OAuth redirects\<close>

record oauthState =
  os_N :: string
  os_O :: string
  os_P :: string
  os_T :: int

definition resolveOAuthRedirect :: "url_parser \<Rightarrow> oauthState \<Rightarrow> string list \<Rightarrow> string \<Rightarrow> string" where
  "resolveOAuthRedirect parse state allowed siteURL =
     (let fromState = os_O state in
      if fromState = [] \<or> \<not> originAllowed fromState allowed then siteURL
      else if os_P state = [] then fromState
      else (let cleanPath = (if \<not> prefix ''/'' (os_P state) then ''/'' @ os_P state else os_P state) in
        case parse fromState of
          None \<Rightarrow> fromState @ cleanPath
        | Some u \<Rightarrow>
            if u_Scheme u \<noteq> [] \<and> u_Host u \<noteq> [] then
              (let bp = trim_suffix ''/'' (u_Path u) in
               if bp \<noteq> [] \<and> bp \<noteq> ''/'' \<and> prefix bp cleanPath
               then u_Scheme u @ ''://'' @ u_Host u @ cleanPath
               else fromState @ cleanPath)
            else fromState @ cleanPath))"

section \<open>Laws\<close>

lemma dedupe_from_set: "set (dedupe_from seen merged xs) = set merged \<union> (set xs - set seen)"
  by (induction seen merged xs rule: dedupe_from.induct) auto

lemma dedupe_from_distinct:
  "distinct merged \<Longrightarrow> set merged \<subseteq> set seen \<Longrightarrow> distinct (dedupe_from seen merged xs)"
  by (induction seen merged xs rule: dedupe_from.induct) auto

lemma dedupeOrigins_set [simp]: "set (dedupeOrigins ls) = (\<Union>l\<in>set ls. set l)"
  by (simp add: dedupeOrigins_def dedupe_from_set)

lemma dedupeOrigins_distinct: "distinct (dedupeOrigins ls)"
  by (simp add: dedupeOrigins_def dedupe_from_distinct)

lemma resolveSiteURL_allowed: "resolveSiteURL parse o' r allowed site \<in> set allowed \<union> {site}"
  by (auto simp: resolveSiteURL_def originAllowed_def Let_def split: option.splits)

text \<open>No header of the request reaches a link: the site is a configured origin or the default.\<close>

lemma defaultSiteURL_configured:
  "defaultSiteURL siteURLs oauth \<in> insert [] (set siteURLs \<union> (case oauth of None \<Rightarrow> {} | Some (cors, site) \<Rightarrow> {site}))"
  by (simp add: defaultSiteURL_def split: option.splits list.splits)

lemma one_of_two:
  "r \<in> A \<union> {s} \<Longrightarrow> s \<in> insert e (S \<union> T) \<Longrightarrow> A = S \<union> U \<Longrightarrow> T \<union> U = V \<Longrightarrow> r \<in> insert e (S \<union> V)"
  by auto

lemma ResolveSiteURL_configured:
  "ResolveSiteURL parse siteURLs oauth rq \<in> insert []
     (set siteURLs \<union> (case oauth of None \<Rightarrow> {} | Some (cors, site) \<Rightarrow> insert site (set cors)))"
proof -
  let ?allowed = "allowedOrigins siteURLs oauth" and ?site = "defaultSiteURL siteURLs oauth"
  have "ResolveSiteURL parse siteURLs oauth rq \<in> set ?allowed \<union> {?site}"
    unfolding ResolveSiteURL_def by (rule resolveSiteURL_allowed)
  moreover have "?site \<in> insert [] (set siteURLs \<union> (case oauth of None \<Rightarrow> {} | Some (cors, site) \<Rightarrow> {site}))"
    by (rule defaultSiteURL_configured)
  moreover have "set ?allowed = set siteURLs \<union> (case oauth of None \<Rightarrow> {} | Some (cors, site) \<Rightarrow> set cors)"
    unfolding allowedOrigins_def dedupeOrigins_set by (cases oauth) auto
  moreover have "(case oauth of None \<Rightarrow> {} | Some (cors, site) \<Rightarrow> {site}) \<union>
      (case oauth of None \<Rightarrow> {} | Some (cors, site) \<Rightarrow> set cors) =
      (case oauth of None \<Rightarrow> {} | Some (cors, site) \<Rightarrow> insert site (set cors))"
    by (cases oauth) (simp_all add: case_prod_beta)
  ultimately show ?thesis by (rule one_of_two)
qed

text \<open>
  A redirect begins with an origin the list allows, or with that origin's scheme and host, or is
  the default site; with an empty list any origin of the state is taken, and that origin was
  signed by this instance.
\<close>

lemma resolveOAuthRedirect_shape:
  assumes "allowed \<noteq> []"
  shows "resolveOAuthRedirect parse state allowed siteURL = siteURL \<or>
    (\<exists>origin\<in>set allowed. origin = os_O state \<and>
       (prefix origin (resolveOAuthRedirect parse state allowed siteURL) \<or>
        (\<exists>u. parse origin = Some u \<and>
          prefix (u_Scheme u @ ''://'' @ u_Host u @ ''/'') (resolveOAuthRedirect parse state allowed siteURL))))"
proof (cases "os_O state = [] \<or> \<not> originAllowed (os_O state) allowed")
  case True
  then show ?thesis by (auto simp: resolveOAuthRedirect_def Let_def)
next
  case False
  then have mem: "os_O state \<in> set allowed" using assms by (simp add: originAllowed_def)
  have slash: "prefix ''/'' (if \<not> prefix ''/'' p then ''/'' @ p else p)" for p by simp
  have "prefix (os_O state) (resolveOAuthRedirect parse state allowed siteURL) \<or>
    (\<exists>u. parse (os_O state) = Some u \<and>
       prefix (u_Scheme u @ ''://'' @ u_Host u @ ''/'') (resolveOAuthRedirect parse state allowed siteURL))"
    using False slash[of "os_P state"]
    by (auto simp: resolveOAuthRedirect_def Let_def split: option.splits)
  then show ?thesis using mem by blast
qed

text \<open>Each link carries its token, and no separator of a URL can come from a token of the library's alphabet.\<close>

lemma tokenLink_token: "suffix (''?token='' @ token) (tokenLink base path token)"
  by (simp add: tokenLink_def suffix_def)

lemma tokenLink_inj: "tokenLink base path t = tokenLink base path t' \<longleftrightarrow> t = t'"
  by (simp add: tokenLink_def)

lemma LinkBase_no_slash:
  assumes "siteURL \<noteq> []" "uiEnabled cfg"
  shows "LinkBase cfg siteURL = siteURL @ trim_suffix ''/'' (Prefix cfg) @ ''/ui''"
proof -
  have "UILink cfg siteURL [] = (siteURL @ trim_suffix ''/'' (Prefix cfg) @ ''/ui'') @ ''/''"
    using assms(2) by (simp add: UILink_def trim_prefix_def)
  then show ?thesis using assms(1) unfolding LinkBase_def by (metis trim_suffix_append)
qed

lemma query_escape_safe: "c \<in> set (query_escape s) \<Longrightarrow> query_safe c \<or> c = CHR ''+'' \<or> c = CHR ''%''"
proof -
  have digits: "query_safe (''0123456789ABCDEF'' ! i)" if "i < 16" for i
  proof -
    have "list_all query_safe ''0123456789ABCDEF''" by code_simp
    then show ?thesis using that by (simp add: list_all_length)
  qed
  have "(of_char d :: nat) div 16 < 16" "(of_char d :: nat) mod 16 < 16" for d :: char
    by (simp_all add: less_mult_imp_div_less)
  then show "c \<in> set (query_escape s) \<Longrightarrow> query_safe c \<or> c = CHR ''+'' \<or> c = CHR ''%''"
    using digits by (auto simp: query_escape_def split: if_splits)
qed

lemma query_escape_id: "list_all query_safe s \<Longrightarrow> query_escape s = s"
  by (induction s) (auto simp: query_escape_def)

end
