(* ===== verification/Http_Service.thy ===== *)
theory Http_Service
  imports Site_Links Session_Laws Service_Account
begin

text \<open>
  The calls of \<open>wire.go\<close> that tie a request to the service: the delivery of a token pair, and the
  logout path of the adapters, which falls back from the refresh token to the access token.
\<close>

section \<open>Delivering tokens\<close>

record http_response =
  rs_Cookies :: "set_cookie list"
  rs_Status :: int
  rs_Body :: json_object

definition successBody :: "json_object \<Rightarrow> json_object" where
  "successBody extra = fmupd ''success'' (JBool True) fmempty ++\<^sub>f extra"

definition WriteTokens :: "HTTPConfig \<Rightarrow> http_request \<Rightarrow> int \<Rightarrow> AuthTokens \<Rightarrow> json_object \<Rightarrow> http_response" where
  "WriteTokens cfg rq status tokens extra =
     (let body = successBody extra in
      if IsBearerRequest rq then
        \<lparr>rs_Cookies = [], rs_Status = status,
         rs_Body = fmupd ''refreshToken'' (JStr (at_RefreshToken tokens))
           (fmupd ''accessToken'' (JStr (at_AccessToken tokens)) body)\<rparr>
      else
        (let cookies = hc_Cookies cfg;
             cookies = (if co_AccessTokenMaxAge cookies \<le> 0 \<and> at_ExpiresIn tokens > 0
                        then cookies\<lparr>co_AccessTokenMaxAge := at_ExpiresIn tokens\<rparr> else cookies)
         in \<lparr>rs_Cookies = SetRefreshTokenCookie cookies (at_RefreshToken tokens)
               (SetAccessTokenCookie cookies (at_AccessToken tokens) []),
             rs_Status = status, rs_Body = body\<rparr>))"

section \<open>Logging out\<close>

definition LogoutAccessToken :: "env \<Rightarrow> string \<Rightarrow> unit action" where
  "LogoutAccessToken v accessToken =
     thenDo (parseToken v accessToken ''access'') (\<lambda>claims.
     if trim_space (tc_Sid claims) = [] then failS ErrSessionNotFound
     else RevokeSessionByID_service v (tc_Sid claims))"

text \<open>\<open>Auth.LogoutRequest\<close>; \<open>body\<close> is the \<open>refreshToken\<close> member of the request body.\<close>

definition LogoutRequest :: "env \<Rightarrow> http_request \<Rightarrow> string \<Rightarrow> unit action" where
  "LogoutRequest v rq body =
     thenDo (let token = RefreshTokenFromRequest rq body in
             if token \<noteq> [] then thenDo (attempt (Logout v token)) (\<lambda>r. ret (is_ok r)) else ret False)
       (\<lambda>finished. if finished then ret () else
          (let token = AccessTokenFromRequest rq in
           if token \<noteq> [] then thenDo (attempt (LogoutAccessToken v token)) (\<lambda>_. ret ()) else ret ()))"

section \<open>Laws\<close>

lemma WriteTokens_bearer:
  "IsBearerRequest rq \<Longrightarrow> rs_Cookies (WriteTokens cfg rq st tk extra) = [] \<and>
     fmlookup (rs_Body (WriteTokens cfg rq st tk extra)) ''accessToken'' = Some (JStr (at_AccessToken tk)) \<and>
     fmlookup (rs_Body (WriteTokens cfg rq st tk extra)) ''refreshToken'' = Some (JStr (at_RefreshToken tk))"
  by (simp add: WriteTokens_def Let_def)

text \<open>A cookie client's body is the success envelope alone, and both tokens travel in cookies a
  script cannot read.\<close>

lemma WriteTokens_cookie:
  "\<not> IsBearerRequest rq \<Longrightarrow> rs_Body (WriteTokens cfg rq st tk extra) = successBody extra \<and>
     map sc_Value (rs_Cookies (WriteTokens cfg rq st tk extra)) = [at_AccessToken tk, at_RefreshToken tk] \<and>
     (\<forall>c\<in>set (rs_Cookies (WriteTokens cfg rq st tk extra)). sc_HttpOnly c \<and> cookie_accepted c)"
  using base_names_plain
  by (simp add: WriteTokens_def Let_def SetAccessTokenCookie_def SetRefreshTokenCookie_def named_cookie_accepted)

lemma LogoutRequest_never_fails: "is_ok (fst (LogoutRequest v rq body w))"
  by (auto simp: LogoutRequest_def thenDo_def attempt_def ret_def Let_def split: prod.splits sum.splits)

lemma inv_LogoutRequest [invs]:
  assumes "fresh_draws (e_crypto v)"
  shows "preserves (world_ok (e_crypto v)) (LogoutRequest v rq body)"
  unfolding LogoutRequest_def LogoutAccessToken_def RevokeSessionByID_service_def Let_def
  by (intro invs inv_session_calls assms)

lemma session_at_revoked:
  "session_at s i = Some x \<Longrightarrow>
   session_at (snd (RevokeSessionByID now i s)) i = Some (x\<lparr>s_RevokedAt := Some now\<rparr>)"
  by (simp add: RevokeSessionByID_def session_at_def)

lemma LogoutAccessToken_revokes:
  assumes "fst (parseToken v tok ''access'' w) = Ok claims" "trim_space (tc_Sid claims) \<noteq> []"
    "has_SessionAdminStore (e_caps v)" "session_at (w_sessions w) (tc_Sid claims) = Some x"
    "LogoutAccessToken v tok w = (r, w')"
  shows "\<exists>now. session_at (w_sessions w') (tc_Sid claims) = Some (x\<lparr>s_RevokedAt := Some now\<rparr>)"
proof -
  obtain w1 where p: "parseToken v tok ''access'' w = (Ok claims, w1)"
    using assms(1) by (cases "parseToken v tok ''access'' w") auto
  then have w1: "w1 = w\<lparr>w_tick := Suc (w_tick w)\<rparr>" by (simp add: parseToken_Ok)
  show ?thesis
    using assms(2-5) session_at_revoked[OF assms(4)]
    by (auto simp: LogoutAccessToken_def RevokeSessionByID_service_def thenDo_def p w1 if_supported_def
        wall_def tick_def sessions_do_def split: prod.splits sum.splits intro: exI)
      (metis snd_conv)
qed

text \<open>
  A browser whose refresh cookie is out of scope for the logout route presents the access token
  alone; afterwards that token opens nothing on a service that checks sessions on every call.
\<close>

lemma access_logout_ends_session:
  assumes mode: "sessionCheckMode (e_cfg v) = SessionCheckOnAllCalls" "has_SessionLookupStore (e_caps v)"
    "has_SessionAdminStore (e_caps v)"
    and rq: "RefreshTokenFromRequest rq body = []" "AccessTokenFromRequest rq = tok" "tok \<noteq> []"
    and live: "fst (parseToken v tok ''access'' w) = Ok claims" "trim_space (tc_Sid claims) \<noteq> []"
      "session_at (w_sessions w) (tc_Sid claims) = Some x"
    and out: "LogoutRequest v rq body w = (r, w')" and later: "w_sessions w2 = w_sessions w'"
  shows "\<not> is_ok (fst (Authenticate v tok w2))"
proof
  obtain r1 w1 where l: "LogoutAccessToken v tok w = (r1, w1)" by (cases "LogoutAccessToken v tok w")
  then have "w' = w1"
    using out rq by (auto simp: LogoutRequest_def thenDo_def attempt_def ret_def Let_def)
  then obtain now where gone: "session_at (w_sessions w2) (tc_Sid claims) = Some (x\<lparr>s_RevokedAt := Some now\<rparr>)"
    using LogoutAccessToken_revokes[OF live(1,2) mode(3) live(3) l] later by metis
  assume "is_ok (fst (Authenticate v tok w2))"
  then obtain u w3 where "Authenticate v tok w2 = (Ok u, w3)"
    by (cases "Authenticate v tok w2"; cases "fst (Authenticate v tok w2)") auto
  from Authenticate_all_calls[OF mode(1,2) this]
  obtain claims' y where "verified_claims (e_crypto v) (e_cfg v) tok = Some claims'"
    "session_at (w_sessions w2) (tc_Sid claims') = Some y" "s_RevokedAt y = None" by blast
  moreover have "verified_claims (e_crypto v) (e_cfg v) tok = Some claims"
    using live(1) by (cases "parseToken v tok ''access'' w") (auto simp: parseToken_Ok)
  ultimately show False using gone by simp
qed

text \<open>A token is read back from a cookie or a header as it was written: it holds no white space.\<close>

lemma jwt_not_white:
  "trim_space (buildHS256JWT c claims secret) = buildHS256JWT c claims secret"
proof (rule trim_space_within)
  show "list_all (\<lambda>w. \<not> list_all (\<lambda>c. c \<in> set (CHR ''.'' # b64_alphabet)) w) white_space" by code_simp
  show "set (buildHS256JWT c claims secret) \<subseteq> set (CHR ''.'' # b64_alphabet)"
    using base64url_encode_chars by (fastforce simp: buildHS256JWT_def Let_def sign_def)
qed

lemma jwt_nonempty: "buildHS256JWT c claims secret \<noteq> []"
  by (simp add: buildHS256JWT_def Let_def)

end
