(* ===== verification/Webhook_Store.thy ===== *)
theory Webhook_Store
  imports Security Paging
begin

text \<open>
  \<open>webhook_store.go\<close>: the outgoing webhook subscriptions, their matching rule, the patch and the
  in-memory store. A pointer field is an option; a nil slice is \<open>None\<close>. The store keeps the
  configurations by id and the ids in the order they were added.
\<close>

definition WebhookEventWildcard :: string where "WebhookEventWildcard = ''*''"
definition DefaultWebhookMaxRetries :: int where "DefaultWebhookMaxRetries = 3"
definition DefaultWebhookRetryDelay :: duration where "DefaultWebhookRetryDelay = second"

record WebhookConfig =
  wc_ID :: string
  wc_URL :: string
  wc_Events :: "string list option"
  wc_Secret :: string
  wc_IsActive :: "bool option"
  wc_TenantID :: string
  wc_MaxRetries :: "int option"
  wc_RetryDelayMs :: "int option"
  wc_Provider :: string
  wc_AllowedActions :: "string list option"
  wc_JSScript :: string

definition Active :: "WebhookConfig \<Rightarrow> bool" where
  "Active c = (case wc_IsActive c of None \<Rightarrow> True | Some b \<Rightarrow> b)"

definition Retries :: "WebhookConfig \<Rightarrow> int" where
  "Retries c = (case wc_MaxRetries c of None \<Rightarrow> DefaultWebhookMaxRetries | Some n \<Rightarrow> n)"

text \<open>A duration is a 64-bit number of nanoseconds.\<close>

definition RetryDelay :: "WebhookConfig \<Rightarrow> duration" where
  "RetryDelay c = (case wc_RetryDelayMs c of None \<Rightarrow> DefaultWebhookRetryDelay
     | Some ms \<Rightarrow> wrap64 (ms * 1000000))"

definition Matches :: "WebhookConfig \<Rightarrow> string \<Rightarrow> string \<Rightarrow> bool" where
  "Matches c event tenantID =
     (if \<not> Active c then False
      else if wc_TenantID c \<noteq> [] \<and> wc_TenantID c \<noteq> tenantID then False
      else list_ex (\<lambda>subscribed. subscribed = WebhookEventWildcard \<or> subscribed = event)
        (slice_elems (wc_Events c)))"

record WebhookPatch =
  wp_URL :: "string option"
  wp_Events :: "string list option"
  wp_Secret :: "string option"
  wp_IsActive :: "bool option"
  wp_TenantID :: "string option"
  wp_MaxRetries :: "int option"
  wp_RetryDelayMs :: "int option"
  wp_Provider :: "string option"
  wp_AllowedActions :: "string list option"
  wp_JSScript :: "string option"

abbreviation or_current :: "'a option \<Rightarrow> 'a \<Rightarrow> 'a" where
  "or_current p c \<equiv> (case p of None \<Rightarrow> c | Some x \<Rightarrow> x)"

definition applyTo :: "WebhookPatch \<Rightarrow> WebhookConfig \<Rightarrow> WebhookConfig" where
  "applyTo p c = \<lparr>wc_ID = wc_ID c, wc_URL = or_current (wp_URL p) (wc_URL c),
     wc_Events = (if wp_Events p \<noteq> None then wp_Events p else wc_Events c),
     wc_Secret = or_current (wp_Secret p) (wc_Secret c),
     wc_IsActive = (if wp_IsActive p \<noteq> None then wp_IsActive p else wc_IsActive c),
     wc_TenantID = or_current (wp_TenantID p) (wc_TenantID c),
     wc_MaxRetries = (if wp_MaxRetries p \<noteq> None then wp_MaxRetries p else wc_MaxRetries c),
     wc_RetryDelayMs = (if wp_RetryDelayMs p \<noteq> None then wp_RetryDelayMs p else wc_RetryDelayMs c),
     wc_Provider = or_current (wp_Provider p) (wc_Provider c),
     wc_AllowedActions = (if wp_AllowedActions p \<noteq> None then wp_AllowedActions p else wc_AllowedActions c),
     wc_JSScript = or_current (wp_JSScript p) (wc_JSScript c)\<rparr>"

section \<open>The store\<close>

record MemoryWebhookStore =
  ws_byID :: "(string, WebhookConfig) fmap"
  ws_order :: "string list"

definition NewMemoryWebhookStore :: MemoryWebhookStore where
  "NewMemoryWebhookStore = \<lparr>ws_byID = fmempty, ws_order = []\<rparr>"

text \<open>\<open>s.byID[id]\<close>: the zero value for an id the map does not hold.\<close>

definition zero_webhook :: WebhookConfig where
  "zero_webhook = \<lparr>wc_ID = [], wc_URL = [], wc_Events = None, wc_Secret = [], wc_IsActive = None,
     wc_TenantID = [], wc_MaxRetries = None, wc_RetryDelayMs = None, wc_Provider = [],
     wc_AllowedActions = None, wc_JSScript = []\<rparr>"

definition webhook_at :: "MemoryWebhookStore \<Rightarrow> string \<Rightarrow> WebhookConfig" where
  "webhook_at s i = (case fmlookup (ws_byID s) i of None \<Rightarrow> zero_webhook | Some c \<Rightarrow> c)"

definition hook_FindByEvent :: "string \<Rightarrow> string \<Rightarrow> MemoryWebhookStore \<Rightarrow> WebhookConfig list" where
  "hook_FindByEvent event tenantID s =
     filter (\<lambda>c. Matches c event tenantID) (map (webhook_at s) (ws_order s))"

definition ListWebhooks :: "int \<Rightarrow> int \<Rightarrow> MemoryWebhookStore \<Rightarrow> WebhookConfig list outcome" where
  "ListWebhooks limit offset s =
     (if limit \<le> 0 \<or> offset \<ge> int (length (ws_order s)) then Returns []
      else
        let offset = (if offset < 0 then 0 else offset);
            end = wrap64 (offset + limit);
            end = (if end > int (length (ws_order s)) then int (length (ws_order s)) else end)
        in map_outcome (map (webhook_at s)) (go_slice (ws_order s) offset end))"

definition AddWebhook ::
  "crypto \<Rightarrow> WebhookConfig \<Rightarrow> nat \<Rightarrow> MemoryWebhookStore \<Rightarrow> (WebhookConfig result \<times> nat) \<times> MemoryWebhookStore" where
  "AddWebhook c config k s = (case newID c ''whk'' k of
     (Inl e, k') \<Rightarrow> ((Inl e, k'), s)
   | (Inr i, k') \<Rightarrow>
       (let stored = config\<lparr>wc_ID := i\<rparr> in
        ((Ok stored, k'), s\<lparr>ws_byID := fmupd i stored (ws_byID s), ws_order := ws_order s @ [i]\<rparr>)))"

definition UpdateWebhook :: "string \<Rightarrow> WebhookPatch \<Rightarrow> MemoryWebhookStore \<Rightarrow> MemoryWebhookStore" where
  "UpdateWebhook i p s = (case fmlookup (ws_byID s) i of
     None \<Rightarrow> s
   | Some current \<Rightarrow> s\<lparr>ws_byID := fmupd i ((applyTo p current)\<lparr>wc_ID := i\<rparr>) (ws_byID s)\<rparr>)"

definition RemoveWebhook :: "string \<Rightarrow> MemoryWebhookStore \<Rightarrow> MemoryWebhookStore" where
  "RemoveWebhook i s = (case fmlookup (ws_byID s) i of
     None \<Rightarrow> s
   | Some _ \<Rightarrow> s\<lparr>ws_byID := fmdrop i (ws_byID s), ws_order := remove1 i (ws_order s)\<rparr>)"

definition hook_FindByProvider :: "string \<Rightarrow> MemoryWebhookStore \<Rightarrow> WebhookConfig option" where
  "hook_FindByProvider provider s =
     (if provider = [] then None
      else find (\<lambda>c. wc_Provider c = provider) (map (webhook_at s) (ws_order s)))"

section \<open>Invariant\<close>

definition webhook_store_ok :: "MemoryWebhookStore \<Rightarrow> bool" where
  "webhook_store_ok s \<longleftrightarrow> keyed wc_ID (ws_byID s) \<and> distinct (ws_order s) \<and>
     set (ws_order s) = fmdom' (ws_byID s)"

lemma NewMemoryWebhookStore_ok [store_intros]: "webhook_store_ok NewMemoryWebhookStore"
  by (simp add: webhook_store_ok_def NewMemoryWebhookStore_def)

lemma UpdateWebhook_ok [store_intros]: "webhook_store_ok s \<Longrightarrow> webhook_store_ok (UpdateWebhook i p s)"
proof (cases "fmlookup (ws_byID s) i")
  case (Some c)
  assume "webhook_store_ok s"
  moreover have "i \<in> fmdom' (ws_byID s)" using Some by (rule fmdom'I)
  ultimately show ?thesis using Some by (simp add: webhook_store_ok_def UpdateWebhook_def insert_absorb)
qed (simp add: UpdateWebhook_def)

lemma RemoveWebhook_ok [store_intros]: "webhook_store_ok s \<Longrightarrow> webhook_store_ok (RemoveWebhook i s)"
  by (cases "fmlookup (ws_byID s) i") (simp_all add: webhook_store_ok_def RemoveWebhook_def set_remove1_eq)

text \<open>An id drawn twice would be listed twice; a source that never repeats a draw excludes it.\<close>

lemma AddWebhook_ok [store_intros]:
  assumes "webhook_store_ok s" "\<And>b. c_rand c k 16 = Inr b \<Longrightarrow> ''whk_'' @ hex_encode b \<notin> fmdom' (ws_byID s)"
  shows "webhook_store_ok (snd (AddWebhook c config k s))"
proof (cases "c_rand c k 16")
  case (Inl e)
  then show ?thesis using assms(1) by (simp add: AddWebhook_def newID_def)
next
  case (Inr b)
  have "keyed wc_ID (fmupd i (config\<lparr>wc_ID := i\<rparr>) (ws_byID s))" for i
    using assms(1) by (simp add: webhook_store_ok_def keyed_upd)
  then show ?thesis
    using assms(1) assms(2)[OF Inr] Inr by (simp add: AddWebhook_def newID_def Let_def webhook_store_ok_def)
qed

section \<open>What an operation changes\<close>

text \<open>The subscriptions in the order they were added.\<close>

definition webhooks :: "MemoryWebhookStore \<Rightarrow> WebhookConfig list" where
  "webhooks s = map (webhook_at s) (ws_order s)"

lemma webhook_at_ID: "webhook_store_ok s \<Longrightarrow> i \<in> set (ws_order s) \<Longrightarrow> wc_ID (webhook_at s i) = i"
proof -
  assume "webhook_store_ok s" "i \<in> set (ws_order s)"
  then have "keyed wc_ID (ws_byID s)" and "i \<in> fmdom' (ws_byID s)" by (simp_all add: webhook_store_ok_def)
  then obtain c where "fmlookup (ws_byID s) i = Some c" "wc_ID c = i"
    by (auto simp: fmlookup_dom'_iff dest: keyedD)
  then show "wc_ID (webhook_at s i) = i" by (simp add: webhook_at_def)
qed

lemma webhooks_ids: "webhook_store_ok s \<Longrightarrow> map wc_ID (webhooks s) = ws_order s"
  unfolding webhooks_def map_map by (rule map_idI) (simp add: webhook_at_ID)

lemma RemoveWebhook_webhooks:
  assumes "webhook_store_ok s"
  shows "webhooks (RemoveWebhook i s) = filter (\<lambda>c. wc_ID c \<noteq> i) (webhooks s)"
proof (cases "fmlookup (ws_byID s) i")
  case None
  then have "i \<notin> set (ws_order s)" using assms by (auto simp: webhook_store_ok_def fmlookup_dom'_iff)
  then have "filter (\<lambda>c. wc_ID c \<noteq> i) (webhooks s) = webhooks s"
    using assms by (auto simp: webhooks_def filter_id_conv webhook_at_ID)
  then show ?thesis using None by (simp add: RemoveWebhook_def)
next
  case (Some c)
  have "remove1 i (ws_order s) = filter (\<lambda>j. j \<noteq> i) (ws_order s)"
    using assms by (simp add: webhook_store_ok_def distinct_remove1_removeAll removeAll_filter_not_eq
        eq_commute[of i])
  then have "webhooks (RemoveWebhook i s) = map (webhook_at s) (filter (\<lambda>j. j \<noteq> i) (ws_order s))"
    using Some by (simp add: webhooks_def RemoveWebhook_def webhook_at_def)
  also have "\<dots> = filter (\<lambda>c. wc_ID c \<noteq> i) (webhooks s)"
    unfolding webhooks_def filter_map comp_def
    by (rule arg_cong[where f = "map (webhook_at s)"], rule filter_cong) (simp_all add: webhook_at_ID assms)
  finally show ?thesis .
qed

lemma UpdateWebhook_webhooks:
  assumes "webhook_store_ok s"
  shows "webhooks (UpdateWebhook i p s) =
    map (\<lambda>c. if wc_ID c = i then (applyTo p c)\<lparr>wc_ID := i\<rparr> else c) (webhooks s)"
proof (cases "fmlookup (ws_byID s) i")
  case None
  then have "i \<notin> set (ws_order s)" using assms by (auto simp: webhook_store_ok_def fmlookup_dom'_iff)
  then show ?thesis using None assms by (auto simp: UpdateWebhook_def webhooks_def webhook_at_ID)
next
  case (Some c)
  then have at: "webhook_at (UpdateWebhook i p s) j =
      (if j = i then (applyTo p (webhook_at s j))\<lparr>wc_ID := i\<rparr> else webhook_at s j)" for j
    by (simp add: UpdateWebhook_def webhook_at_def)
  have "ws_order (UpdateWebhook i p s) = ws_order s" using Some by (simp add: UpdateWebhook_def)
  then have "webhooks (UpdateWebhook i p s) = map (webhook_at (UpdateWebhook i p s)) (ws_order s)"
    by (simp add: webhooks_def)
  also have "\<dots> = map (\<lambda>j. if wc_ID (webhook_at s j) = i then (applyTo p (webhook_at s j))\<lparr>wc_ID := i\<rparr>
      else webhook_at s j) (ws_order s)"
    by (rule map_cong) (simp_all add: at webhook_at_ID[OF assms])
  finally show ?thesis by (simp add: webhooks_def comp_def)
qed

lemma AddWebhook_webhooks:
  assumes ok: "webhook_store_ok s" and add: "AddWebhook c config k s = ((Ok stored, k'), s')"
    and new: "wc_ID stored \<notin> fmdom' (ws_byID s)"
  shows "stored = config\<lparr>wc_ID := wc_ID stored\<rparr>" "webhooks s' = webhooks s @ [stored]"
proof -
  obtain b where "c_rand c k 16 = Inr b"
    using add by (cases "c_rand c k 16") (simp_all add: AddWebhook_def newID_def)
  then obtain i where "newID c ''whk'' k = (Ok i, Suc k)" by (simp add: newID_def)
  then have stored: "stored = config\<lparr>wc_ID := i\<rparr>"
    and s': "s' = s\<lparr>ws_byID := fmupd i stored (ws_byID s), ws_order := ws_order s @ [i]\<rparr>"
    using add by (auto simp: AddWebhook_def Let_def)
  then show "stored = config\<lparr>wc_ID := wc_ID stored\<rparr>" by simp
  have "j \<noteq> i" if "j \<in> set (ws_order s)" for j
    using that new ok stored by (auto simp: webhook_store_ok_def)
  then have "map (webhook_at s') (ws_order s) = map (webhook_at s) (ws_order s)"
    by (intro map_cong) (auto simp: s' webhook_at_def)
  then show "webhooks s' = webhooks s @ [stored]"
    by (simp add: webhooks_def s') (simp add: webhook_at_def)
qed

lemma hook_FindByEvent_webhooks: "hook_FindByEvent e t s = filter (\<lambda>c. Matches c e t) (webhooks s)"
  by (simp add: hook_FindByEvent_def webhooks_def)

text \<open>An unsubscribed or deactivated subscription receives nothing.\<close>

lemma removed_webhook_silent:
  "webhook_store_ok s \<Longrightarrow> c \<in> set (hook_FindByEvent e t (RemoveWebhook i s)) \<Longrightarrow> wc_ID c \<noteq> i"
  by (simp add: hook_FindByEvent_webhooks RemoveWebhook_webhooks)

lemma deactivated_webhook_silent:
  assumes "webhook_store_ok s" "wp_IsActive p = Some False"
    "c \<in> set (hook_FindByEvent e t (UpdateWebhook i p s))"
  shows "wc_ID c \<noteq> i"
proof -
  have "c \<in> set (webhooks (UpdateWebhook i p s))" "Matches c e t"
    using assms(3) by (simp_all add: hook_FindByEvent_webhooks)
  moreover have "\<not> Matches ((applyTo p d)\<lparr>wc_ID := i\<rparr>) e t" for d
    using assms(2) by (simp add: Matches_def Active_def applyTo_def)
  moreover obtain d where "c = (if wc_ID d = i then (applyTo p d)\<lparr>wc_ID := i\<rparr> else d)"
    using calculation(1) unfolding UpdateWebhook_webhooks[OF assms(1)] set_map by blast
  ultimately show ?thesis by (cases "wc_ID d = i") simp_all
qed

text \<open>A page is the slice of the subscriptions, unless \<open>offset + limit\<close> overflows.\<close>

lemma ListWebhooks_take_drop:
  assumes "0 \<le> offset" "offset + limit \<le> max_int64"
  shows "ListWebhooks limit offset s = Returns (take (nat limit) (drop (nat offset) (webhooks s)))"
proof -
  let ?n = "int (length (ws_order s))"
  consider "limit \<le> 0" | "offset \<ge> ?n" | "0 < limit" "offset < ?n" by linarith
  then show ?thesis
  proof cases
    case 3
    have w: "wrap64 (offset + limit) = offset + limit"
      using assms 3 by (intro wrap64_id) (simp add: is_int64_def)
    show ?thesis
    proof (cases "offset + limit > ?n")
      case True
      then show ?thesis using assms 3 w
        by (simp add: ListWebhooks_def Let_def webhooks_def take_map drop_map nat_diff_distrib' go_slice_def)
    next
      case False
      then show ?thesis using assms 3 w
        by (simp add: ListWebhooks_def Let_def webhooks_def take_map drop_map go_slice_def)
    qed
  qed (simp_all add: ListWebhooks_def webhooks_def)
qed

lemma ListWebhooks_overflow:
  assumes "0 < offset" "offset < int (length (ws_order s))" "limit \<le> max_int64" "max_int64 < offset + limit"
    "int (length (ws_order s)) \<le> max_int64"
  shows "ListWebhooks limit offset s = Panics"
proof -
  have "wrap64 (offset + limit) < 0"
    using wrap64_add_cases[of offset limit] assms by auto
  then show ?thesis using assms by (auto simp: ListWebhooks_def Let_def go_slice_def)
qed

end
