(* ===== verification/Webhook_Sender.thy ===== *)
theory Webhook_Sender
  imports Webhook_Store Json Events
begin

text \<open>
  \<open>webhook_sender.go\<close>: the signed envelope, the retry loop of \<open>WebhookSender.Send\<close>, the
  verification a receiver does, and the fan-out of \<open>WebhookEmitter.Emit\<close>. The transport
  (\<open>WebhookDeliverer\<close>) is a function of the number of steps made so far and the attempt; the
  rendering of a timestamp (\<open>time.Format\<close>) is a parameter. A run leaves the attempts handed to the
  transport and the back-offs waited out, in order.
\<close>

section \<open>Signatures\<close>

definition signWebhookBody :: "crypto \<Rightarrow> string \<Rightarrow> string \<Rightarrow> string" where
  "signWebhookBody c secret body = ''sha256='' @ hex_encode (c_hmac_sha256 c secret body)"

text \<open>\<open>hex.DecodeString\<close>.\<close>

fun hex_decode :: "string \<Rightarrow> string option" where
  "hex_decode [] = Some []"
| "hex_decode [x] = None"
| "hex_decode (x # y # s) = (case (hex_value x, hex_value y, hex_decode s) of
     (Some a, Some b, Some r) \<Rightarrow> Some (chr (16 * a + b) # r)
   | _ \<Rightarrow> None)"

definition VerifyWebhookSignature :: "crypto \<Rightarrow> string \<Rightarrow> string \<Rightarrow> string \<Rightarrow> unit result" where
  "VerifyWebhookSignature c secret body sigHeader =
     (if length sigHeader < 7 \<or> take 7 sigHeader \<noteq> ''sha256='' then
        Inl (Message ''auth: invalid signature header format'')
      else case hex_decode (drop 7 sigHeader) of
        None \<Rightarrow> Inl (Message ''auth: invalid signature hex'')
      | Some got \<Rightarrow>
          if \<not> secureEqual got (c_hmac_sha256 c secret body)
          then Inl (Message ''auth: signature mismatch'') else Ok ())"

section \<open>Envelopes\<close>

record OutgoingWebhookEvent =
  ow_Event :: string
  ow_Version :: string
  ow_Timestamp :: string
  ow_Data :: json
  ow_Metadata :: "json_object option"

definition OutgoingWebhookVersion :: string where "OutgoingWebhookVersion = ''1''"

text \<open>\<open>Event.OutgoingWebhook\<close>; \<open>now\<close> is read for an event without a timestamp; a nil data map
  is sent as null.\<close>

definition OutgoingWebhook ::
  "(time \<Rightarrow> string) \<Rightarrow> time \<Rightarrow> string \<Rightarrow> Event \<Rightarrow> OutgoingWebhookEvent" where
  "OutgoingWebhook format now version e =
     (let version = (if version = [] then OutgoingWebhookVersion else version);
          t = (if ev_Timestamp e = zero_time then now else ev_Timestamp e)
      in \<lparr>ow_Event = ev_Name e, ow_Version = version, ow_Timestamp = format t,
          ow_Data = (case ev_Data e of None \<Rightarrow> JNull | Some m \<Rightarrow> json_of_object m),
          ow_Metadata = WebhookMetadata e\<rparr>)"

text \<open>\<open>json.Marshal\<close> of the envelope: the fields in their order, \<open>metadata\<close> omitted when nil.\<close>

definition marshal_envelope :: "OutgoingWebhookEvent \<Rightarrow> string" where
  "marshal_envelope e =
     ''{'' @ json_quote ''event'' @ '':'' @ json_quote (ow_Event e) @
     '','' @ json_quote ''version'' @ '':'' @ json_quote (ow_Version e) @
     '','' @ json_quote ''timestamp'' @ '':'' @ json_quote (ow_Timestamp e) @
     '','' @ json_quote ''data'' @ '':'' @ json_print (ow_Data e) @
     (case ow_Metadata e of None \<Rightarrow> []
      | Some m \<Rightarrow> '','' @ json_quote ''metadata'' @ '':'' @ json_print (json_of_object m)) @ ''}''"

section \<open>Delivery identifiers\<close>

text \<open>A version 4, variant 1 UUID from 16 random bytes.\<close>

definition uuid_of :: "string \<Rightarrow> string" where
  "uuid_of b =
     (let b = b[6 := chr (byte (b ! 6) mod 16 + 64)];
          b = b[8 := chr (byte (b ! 8) mod 64 + 128)];
          part = (\<lambda>i j. hex_encode (take (j - i) (drop i b)))
      in part 0 4 @ ''-'' @ part 4 6 @ ''-'' @ part 6 8 @ ''-'' @ part 8 10 @ ''-'' @ part 10 16)"

definition newUUIDv4 :: "crypto \<Rightarrow> string draws" where
  "newUUIDv4 c k = (case c_rand c k 16 of
     Inl e \<Rightarrow> (Inl (Wrapped ''auth: random uuid'' e), Suc k)
   | Inr b \<Rightarrow> (Ok (uuid_of b), Suc k))"

section \<open>Sending\<close>

record WebhookAttempt =
  wa_ConfigID :: string
  wa_URL :: string
  wa_Event :: string
  wa_DeliveryID :: string
  wa_Attempt :: int
  wa_Remaining :: int
  wa_Headers :: "(string \<times> string) list"
  wa_Body :: string

text \<open>The loop of \<open>webhookBackoff\<close>: one doubling per failure already counted.\<close>

definition backoff_ceiling :: duration where "backoff_ceiling = 2 ^ 62"

fun backoff_loop :: "nat \<Rightarrow> duration \<Rightarrow> duration" where
  "backoff_loop 0 d = d"
| "backoff_loop (Suc n) d = (if d > backoff_ceiling div 2 then backoff_ceiling else backoff_loop n (d * 2))"

definition webhookBackoff :: "duration \<Rightarrow> int \<Rightarrow> duration" where
  "webhookBackoff base attempt = (if base \<le> 0 then 0 else backoff_loop (nat attempt) base)"

definition attempt_headers :: "crypto \<Rightarrow> WebhookConfig \<Rightarrow> OutgoingWebhookEvent \<Rightarrow> string \<Rightarrow> string \<Rightarrow> (string \<times> string) list" where
  "attempt_headers c config event body deliveryID =
     [(''Content-Type'', ''application/json''), (''X-Webhook-Event'', ow_Event event),
      (''X-Webhook-Delivery'', deliveryID), (''X-Webhook-Timestamp'', ow_Timestamp event)] @
     (if wc_Secret config \<noteq> [] then [(''X-Webhook-Signature'', signWebhookBody c (wc_Secret config) body)] else [])"

record send_run =
  sr_attempts :: "WebhookAttempt list"
  sr_waits :: "duration list"
  sr_tick :: nat

definition send_where :: "WebhookConfig \<Rightarrow> OutgoingWebhookEvent \<Rightarrow> string" where
  "send_where config event =
     ''auth: webhook '' @ ow_Event event @ (if wc_ID config \<noteq> [] then '' to '' @ wc_ID config else [])"

text \<open>What the transport and the wait between attempts answer; a wait fails when its context ends.\<close>

record send_env =
  se_crypto :: crypto
  se_deliver :: "nat \<Rightarrow> WebhookAttempt \<Rightarrow> error option"
  se_sleep :: "nat \<Rightarrow> duration \<Rightarrow> error option"

definition attempt_of ::
  "send_env \<Rightarrow> WebhookConfig \<Rightarrow> OutgoingWebhookEvent \<Rightarrow> string \<Rightarrow> string \<Rightarrow> int \<Rightarrow> WebhookAttempt" where
  "attempt_of v config event body deliveryID attempt =
     \<lparr>wa_ConfigID = wc_ID config, wa_URL = wc_URL config, wa_Event = ow_Event event,
      wa_DeliveryID = deliveryID, wa_Attempt = attempt, wa_Remaining = Retries config - attempt,
      wa_Headers = attempt_headers (se_crypto v) config event body deliveryID, wa_Body = body\<rparr>"

function send_loop ::
  "send_env \<Rightarrow> WebhookConfig \<Rightarrow> OutgoingWebhookEvent \<Rightarrow> string \<Rightarrow> int \<Rightarrow> send_run \<Rightarrow> unit result \<times> send_run" where
  "send_loop v config event body attempt r =
     (if attempt \<le> Retries config then
        (case newUUIDv4 (se_crypto v) (sr_tick r) of
           (Inl e, k) \<Rightarrow> (Inl (Wrapped (send_where config event) e), r\<lparr>sr_tick := k\<rparr>)
         | (Inr deliveryID, k) \<Rightarrow>
             (let a = attempt_of v config event body deliveryID attempt;
                  r = r\<lparr>sr_attempts := sr_attempts r @ [a], sr_tick := Suc k\<rparr> in
              case se_deliver v k a of
                None \<Rightarrow> (Ok (), r)
              | Some e \<Rightarrow>
                  if attempt \<ge> Retries config
                  then (Inl (Wrapped (send_where config event @ '': gave up after '' @ decimal (attempt + 1) @ '' attempt(s)'') e), r)
                  else
                    (let d = webhookBackoff (RetryDelay config) attempt;
                         r' = r\<lparr>sr_waits := sr_waits r @ [d], sr_tick := Suc (sr_tick r)\<rparr> in
                     case se_sleep v (sr_tick r) d of
                       Some e \<Rightarrow> (Inl (Wrapped (send_where config event) e), r')
                     | None \<Rightarrow> send_loop v config event body (attempt + 1) r')))
      else (Ok (), r))"
  by pat_completeness auto
termination
  by (relation "measure (\<lambda>(v, config, event, body, attempt, r). nat (Retries config - attempt + 1))") auto

declare send_loop.simps [simp del]

definition Send :: "send_env \<Rightarrow> WebhookConfig \<Rightarrow> OutgoingWebhookEvent \<Rightarrow> nat \<Rightarrow> unit result \<times> send_run" where
  "Send v config event k =
     send_loop v config event (marshal_envelope event) 0 \<lparr>sr_attempts = [], sr_waits = [], sr_tick = k\<rparr>"

text \<open>\<open>WebhookEmitter.Emit\<close> over an in-memory store, whose lookup never fails: one run per matching
  subscription, each on its own goroutine. The runs share nothing but the random source; they
  are listed in the order the store gives the subscriptions. \<open>reads i\<close> is where the \<open>i\<close>-th run
  starts reading.\<close>

definition Emit ::
  "send_env \<Rightarrow> (time \<Rightarrow> string) \<Rightarrow> time \<Rightarrow> string \<Rightarrow> (nat \<Rightarrow> nat) \<Rightarrow> MemoryWebhookStore \<Rightarrow> Event \<Rightarrow>
     (WebhookConfig \<times> (unit result \<times> send_run)) list" where
  "Emit v format now version reads s e =
     (let configs = hook_FindByEvent (ev_Name e) (ev_TenantID e) s;
          envelope = OutgoingWebhook format now version e
      in map (\<lambda>(i, config). (config, Send v config envelope (reads i))) (enumerate 0 configs))"

section \<open>Laws of signatures\<close>

lemma hex_value_alphabet: "i < 16 \<Longrightarrow> hex_value (hex_alphabet ! i) = Some i"
proof -
  have "list_all (\<lambda>i. hex_value (hex_alphabet ! i) = Some i) [0..<16]" by code_simp
  then show "i < 16 \<Longrightarrow> hex_value (hex_alphabet ! i) = Some i" by (simp add: list_all_iff)
qed

lemma hex_decode_encode [simp]: "hex_decode (hex_encode b) = Some b"
proof (induction b)
  case (Cons x b)
  have "byte x div 16 < 16" "byte x mod 16 < 16" by (simp_all add: less_mult_imp_div_less)
  then show ?case using Cons by (simp add: hex_encode_def hex_value_alphabet)
qed (simp add: hex_encode_def)

lemma VerifyWebhookSignature_iff:
  "VerifyWebhookSignature c secret body h = Ok () \<longleftrightarrow>
     (\<exists>x. h = ''sha256='' @ x \<and> hex_decode x = Some (c_hmac_sha256 c secret body))"
proof -
  have "take 7 h = ''sha256='' \<longleftrightarrow> h = ''sha256='' @ drop 7 h"
    by (metis append_take_drop_id append_eq_conv_conj append_same_eq)
  then show ?thesis
    by (auto simp: VerifyWebhookSignature_def split: option.splits)
qed

lemma signed_body_verifies: "VerifyWebhookSignature c secret body (signWebhookBody c secret body) = Ok ()"
  unfolding VerifyWebhookSignature_iff signWebhookBody_def by (intro exI conjI) (rule refl, simp)

section \<open>Laws of the back-off\<close>

text \<open>The doubling saturates instead of overflowing: the wait is the exact power up to the ceiling.\<close>

lemma backoff_loop_min:
  "0 < d \<Longrightarrow> d \<le> backoff_ceiling \<Longrightarrow> backoff_loop n d = min (d * 2 ^ n) backoff_ceiling"
proof (induction n arbitrary: d)
  case (Suc n)
  show ?case
  proof (cases "d > backoff_ceiling div 2")
    case True
    then have "backoff_ceiling \<le> d * 2" by (simp add: backoff_ceiling_def)
    also have "\<dots> \<le> d * 2 * 2 ^ n" using Suc.prems(1) by simp
    finally show ?thesis using True by (simp add: min_def mult.assoc)
  next
    case False
    then have "d * 2 \<le> backoff_ceiling" by (simp add: backoff_ceiling_def)
    then show ?thesis using False Suc by (simp add: mult.assoc)
  qed
qed simp

lemma webhookBackoff_min:
  "0 < base \<Longrightarrow> base \<le> 2 ^ 62 \<Longrightarrow> webhookBackoff base attempt = min (base * 2 ^ nat attempt) (2 ^ 62)"
  by (simp add: webhookBackoff_def backoff_loop_min backoff_ceiling_def)

section \<open>Laws of sending\<close>

text \<open>What a run adds, started at attempt \<open>i\<close>: numbered attempts that carry the one body and its one signature; a wait
  of the back-off after every refusal but the last, slept to its end before the next attempt; success only by the
  transport's answer to the last attempt; failure only when every attempt was refused, the random source failed or a
  wait was cut short.\<close>

definition sent ::
  "send_env \<Rightarrow> WebhookConfig \<Rightarrow> OutgoingWebhookEvent \<Rightarrow> string \<Rightarrow> int \<Rightarrow> unit result \<Rightarrow>
     WebhookAttempt list \<Rightarrow> duration list \<Rightarrow> bool" where
  "sent v config event body i res as ws \<longleftrightarrow>
     map wa_Attempt as = map (\<lambda>j. i + int j) [0..<length as] \<and>
     int (length as) \<le> max 0 (Retries config - i + 1) \<and>
     (\<forall>a\<in>set as. wa_Body a = body \<and> wa_URL a = wc_URL config \<and>
        wa_Headers a = attempt_headers (se_crypto v) config event body (wa_DeliveryID a)) \<and>
     ws = map (\<lambda>j. webhookBackoff (RetryDelay config) (i + int j)) [0..<length ws] \<and>
     length ws \<le> length as \<and> length as \<le> Suc (length ws) \<and>
     (\<forall>j<length ws. \<exists>k. se_deliver v k (as ! j) \<noteq> None) \<and>
     (\<forall>j. Suc j < length as \<longrightarrow> (\<exists>k. se_sleep v k (ws ! j) = None)) \<and>
     (i \<le> Retries config \<longrightarrow> is_ok res \<longrightarrow> length as = Suc (length ws) \<and> (\<exists>k. se_deliver v k (last as) = None)) \<and>
     (\<not> is_ok res \<longrightarrow>
        int (length as) = Retries config - i + 1 \<and> length as = Suc (length ws) \<and> (\<exists>k. se_deliver v k (last as) \<noteq> None) \<or>
        (\<exists>k. \<not> is_ok (c_rand (se_crypto v) k 16)) \<or>
        ws \<noteq> [] \<and> length ws = length as \<and> (\<exists>k. se_sleep v k (last ws) \<noteq> None))"

lemma upt_shift: "map (\<lambda>j. i + int j) [0..<Suc n] = i # map (\<lambda>j. (i + 1) + int j) [0..<n]"
  by (induction n) auto

lemma sent_none:
  "\<not> is_ok res \<and> \<not> is_ok (c_rand (se_crypto v) k 16) \<or> is_ok res \<and> Retries config < i \<Longrightarrow>
   sent v config event body i res [] []"
  by (auto simp: sent_def)

lemma attempt_of_simps [simp]:
  "wa_Attempt (attempt_of v config event body d i) = i" "wa_Body (attempt_of v config event body d i) = body"
  "wa_URL (attempt_of v config event body d i) = wc_URL config"
  "wa_Headers (attempt_of v config event body d i) = attempt_headers (se_crypto v) config event body d"
  "wa_DeliveryID (attempt_of v config event body d i) = d"
  by (simp_all add: attempt_of_def)

lemma sent_last:
  assumes "i \<le> Retries config" "is_ok res \<longleftrightarrow> se_deliver v k (attempt_of v config event body d i) = None"
    and "\<not> is_ok res \<Longrightarrow> i = Retries config"
  shows "sent v config event body i res [attempt_of v config event body d i] []"
  using assms by (auto simp: sent_def)

lemma sent_interrupted:
  assumes "i \<le> Retries config" "\<not> is_ok res" "se_deliver v k (attempt_of v config event body d i) \<noteq> None"
    and "se_sleep v k' (webhookBackoff (RetryDelay config) i) \<noteq> None"
  shows "sent v config event body i res [attempt_of v config event body d i]
    [webhookBackoff (RetryDelay config) i]"
  using assms by (auto simp: sent_def)

lemma sent_again:
  assumes "i < Retries config" "se_deliver v k (attempt_of v config event body d i) \<noteq> None"
    and "se_sleep v k' (webhookBackoff (RetryDelay config) i) = None"
    and rest: "sent v config event body (i + 1) res as ws"
  shows "sent v config event body i res (attempt_of v config event body d i # as)
    (webhookBackoff (RetryDelay config) i # ws)"
proof -
  let ?a = "attempt_of v config event body d i" and ?w = "webhookBackoff (RetryDelay config) i"
  have num: "map wa_Attempt as = map (\<lambda>j. (i + 1) + int j) [0..<length as]"
    and count: "int (length as) \<le> max 0 (Retries config - (i + 1) + 1)"
    and same: "\<forall>a\<in>set as. wa_Body a = body \<and> wa_URL a = wc_URL config \<and>
        wa_Headers a = attempt_headers (se_crypto v) config event body (wa_DeliveryID a)"
    and ws: "ws = map (\<lambda>j. webhookBackoff (RetryDelay config) ((i + 1) + int j)) [0..<length ws]"
    and lens: "length ws \<le> length as" "length as \<le> Suc (length ws)"
    and r: "\<forall>j<length ws. \<exists>k. se_deliver v k (as ! j) \<noteq> None"
      "\<forall>j. Suc j < length as \<longrightarrow> (\<exists>k. se_sleep v k (ws ! j) = None)"
      "i + 1 \<le> Retries config \<longrightarrow> is_ok res \<longrightarrow> length as = Suc (length ws) \<and> (\<exists>k. se_deliver v k (last as) = None)"
      "\<not> is_ok res \<longrightarrow>
        int (length as) = Retries config - (i + 1) + 1 \<and> length as = Suc (length ws) \<and> (\<exists>k. se_deliver v k (last as) \<noteq> None) \<or>
        (\<exists>k. \<not> is_ok (c_rand (se_crypto v) k 16)) \<or>
        ws \<noteq> [] \<and> length ws = length as \<and> (\<exists>k. se_sleep v k (last ws) \<noteq> None)"
    using rest[unfolded sent_def] by blast+
  have "map (\<lambda>j. webhookBackoff (RetryDelay config) (i + int j)) [0..<Suc (length ws)] =
      webhookBackoff (RetryDelay config) i # map (\<lambda>j. webhookBackoff (RetryDelay config) ((i + 1) + int j)) [0..<length ws]"
    using arg_cong[OF upt_shift[of i "length ws"], of "map (webhookBackoff (RetryDelay config))"]
    by (simp add: comp_def)
  then have waits: "?w # ws = map (\<lambda>j. webhookBackoff (RetryDelay config) (i + int j)) [0..<length (?w # ws)]"
    using ws by (metis length_Cons)
  have refused: "\<forall>j<length (?w # ws). \<exists>k. se_deliver v k ((?a # as) ! j) \<noteq> None"
  proof (intro allI impI)
    fix j assume "j < length (?w # ws)"
    then show "\<exists>k. se_deliver v k ((?a # as) ! j) \<noteq> None" using assms(2) r by (cases j) auto
  qed
  have slept: "\<forall>j. Suc j < length (?a # as) \<longrightarrow> (\<exists>k. se_sleep v k ((?w # ws) ! j) = None)"
  proof (intro allI impI)
    fix j assume "Suc j < length (?a # as)"
    then show "\<exists>k. se_sleep v k ((?w # ws) ! j) = None" using assms(3) r by (cases j) auto
  qed
  have ok: "is_ok res \<longrightarrow> length as = Suc (length ws) \<and> as \<noteq> [] \<and> (\<exists>k. se_deliver v k (last as) = None)"
    using r(3) assms(1) by (cases as) auto
  have failed: "\<not> is_ok res \<longrightarrow>
        int (length (?a # as)) = Retries config - i + 1 \<and> length (?a # as) = Suc (length (?w # ws)) \<and>
          (\<exists>k. se_deliver v k (last (?a # as)) \<noteq> None) \<or>
        (\<exists>k. \<not> is_ok (c_rand (se_crypto v) k 16)) \<or>
        ?w # ws \<noteq> [] \<and> length (?w # ws) = length (?a # as) \<and> (\<exists>k. se_sleep v k (last (?w # ws)) \<noteq> None)"
  proof
    assume "\<not> is_ok res"
    then consider "int (length as) = Retries config - (i + 1) + 1" "length as = Suc (length ws)" "\<exists>k. se_deliver v k (last as) \<noteq> None"
      | "\<exists>k. \<not> is_ok (c_rand (se_crypto v) k 16)"
      | "ws \<noteq> []" "length ws = length as" "\<exists>k. se_sleep v k (last ws) \<noteq> None" using r(4) by blast
    then show "int (length (?a # as)) = Retries config - i + 1 \<and> length (?a # as) = Suc (length (?w # ws)) \<and>
          (\<exists>k. se_deliver v k (last (?a # as)) \<noteq> None) \<or>
        (\<exists>k. \<not> is_ok (c_rand (se_crypto v) k 16)) \<or>
        ?w # ws \<noteq> [] \<and> length (?w # ws) = length (?a # as) \<and> (\<exists>k. se_sleep v k (last (?w # ws)) \<noteq> None)"
      by cases (auto simp: last_ConsR)
  qed
  have "map wa_Attempt (?a # as) = map (\<lambda>j. i + int j) [0..<length (?a # as)]"
    unfolding length_Cons upt_shift using num by simp
  moreover have "i \<le> Retries config \<longrightarrow> is_ok res \<longrightarrow>
      length (?a # as) = Suc (length (?w # ws)) \<and> (\<exists>k. se_deliver v k (last (?a # as)) = None)"
    using ok by auto
  moreover have "int (length (?a # as)) \<le> max 0 (Retries config - i + 1)" using count assms(1) by simp
  moreover have "\<forall>a\<in>set (?a # as). wa_Body a = body \<and> wa_URL a = wc_URL config \<and>
      wa_Headers a = attempt_headers (se_crypto v) config event body (wa_DeliveryID a)" using same by simp
  moreover have "length (?w # ws) \<le> length (?a # as)" "length (?a # as) \<le> Suc (length (?w # ws))" using lens by simp_all
  ultimately show ?thesis unfolding sent_def using waits refused slept failed by (intro conjI)
qed

lemma send_loop_cases:
  assumes "send_loop v config event body i r = (res, r')"
  obtains (stop) "Retries config < i" "r' = r" "is_ok res"
  | (no_id) k where "\<not> is_ok res" "sr_attempts r' = sr_attempts r" "sr_waits r' = sr_waits r"
      "\<not> is_ok (c_rand (se_crypto v) k 16)"
  | (final) d k where "i \<le> Retries config"
      "sr_attempts r' = sr_attempts r @ [attempt_of v config event body d i]" "sr_waits r' = sr_waits r"
      "is_ok res \<longleftrightarrow> se_deliver v k (attempt_of v config event body d i) = None" "\<not> is_ok res \<longrightarrow> i = Retries config"
  | (interrupted) d k k' where "i \<le> Retries config" "\<not> is_ok res"
      "sr_attempts r' = sr_attempts r @ [attempt_of v config event body d i]"
      "sr_waits r' = sr_waits r @ [webhookBackoff (RetryDelay config) i]"
      "se_deliver v k (attempt_of v config event body d i) \<noteq> None"
      "se_sleep v k' (webhookBackoff (RetryDelay config) i) \<noteq> None"
  | (again) d k k' r2 where "i < Retries config"
      "sr_attempts r2 = sr_attempts r @ [attempt_of v config event body d i]"
      "sr_waits r2 = sr_waits r @ [webhookBackoff (RetryDelay config) i]"
      "se_deliver v k (attempt_of v config event body d i) \<noteq> None"
      "se_sleep v k' (webhookBackoff (RetryDelay config) i) = None"
      "send_loop v config event body (i + 1) r2 = (res, r')"
proof (cases "i \<le> Retries config")
  case False
  then show thesis using assms stop by (subst (asm) send_loop.simps) auto
next
  case True
  obtain u k where u: "newUUIDv4 (se_crypto v) (sr_tick r) = (u, k)" by fastforce
  show thesis
  proof (cases u)
    case (Inl e)
    then have "\<not> is_ok (c_rand (se_crypto v) (sr_tick r) 16)" using u by (auto simp: newUUIDv4_def split: sum.splits)
    then show thesis using assms True u Inl no_id by (subst (asm) send_loop.simps) auto
  next
    case (Inr d)
    let ?a = "attempt_of v config event body d i" and ?w = "webhookBackoff (RetryDelay config) i"
    note run = assms[unfolded send_loop.simps[of v config event body i r] u Inr, simplified True, simplified Let_def]
    consider (taken) "se_deliver v k ?a = None"
      | (given_up) e where "se_deliver v k ?a = Some e" "i = Retries config"
      | (cut_short) e e' where "se_deliver v k ?a = Some e" "i < Retries config" "se_sleep v (Suc k) ?w = Some e'"
      | (onward) e where "se_deliver v k ?a = Some e" "i < Retries config" "se_sleep v (Suc k) ?w = None"
      using True by fastforce
    then show thesis
    proof cases
      case taken
      then show thesis using run True by (intro final[of d k]) auto
    next
      case given_up
      then show thesis using run by (intro final[of d k]) auto
    next
      case cut_short
      then show thesis using run by (intro interrupted[of d k "Suc k"]) auto
    next
      case onward
      then show thesis using run by (intro again) auto
    qed
  qed
qed

lemma send_loop_sent:
  "send_loop v config event body i r = (res, r') \<Longrightarrow>
   \<exists>as ws. sr_attempts r' = sr_attempts r @ as \<and> sr_waits r' = sr_waits r @ ws \<and>
     sent v config event body i res as ws"
proof (induction "nat (Retries config - i + 1)" arbitrary: i r rule: less_induct)
  case less
  from less.prems show ?case
  proof (cases rule: send_loop_cases)
    case stop
    then show ?thesis using sent_none[of res v _ config i] by auto
  next
    case no_id
    then show ?thesis using sent_none[of res v _ config i] by auto
  next
    case (final d k)
    then show ?thesis using sent_last[of i config res v k event body d] by (metis append_Nil2)
  next
    case (interrupted d k k')
    then show ?thesis using sent_interrupted[of i config res v k event body d k'] by metis
  next
    case (again d k k' r2)
    then obtain as ws where "sr_attempts r' = sr_attempts r2 @ as" "sr_waits r' = sr_waits r2 @ ws"
      and s: "sent v config event body (i + 1) res as ws"
      using less.hyps[of "i + 1" r2] by auto
    then show ?thesis using again sent_again[OF again(1,4,5) s] by force
  qed
qed

lemma Send_sent:
  assumes "Send v config event k = (res, r')"
  shows "sent v config event (marshal_envelope event) 0 res (sr_attempts r') (sr_waits r')"
  using send_loop_sent[OF assms[unfolded Send_def]] by simp

lemma Send_told:
  assumes "Send v config event k = (res, r')"
  defines "as \<equiv> sr_attempts r'" and "ws \<equiv> sr_waits r'"
  shows "int (length as) \<le> max 0 (Retries config + 1) \<and> map wa_Attempt as = map int [0..<length as] \<and>
    (\<forall>a\<in>set as. wa_Body a = marshal_envelope event \<and> wa_URL a = wc_URL config \<and>
       wa_Headers a = attempt_headers (se_crypto v) config event (marshal_envelope event) (wa_DeliveryID a)) \<and>
    length as \<in> {length ws, Suc (length ws)} \<and>
    (\<forall>j<length ws. (\<exists>k. se_deliver v k (as ! j) \<noteq> None) \<and> ws ! j = webhookBackoff (RetryDelay config) (int j) \<and>
       (0 < RetryDelay config \<and> RetryDelay config \<le> 2 ^ 62 \<longrightarrow> ws ! j = min (RetryDelay config * 2 ^ j) (2 ^ 62))) \<and>
    (\<forall>j. Suc j < length as \<longrightarrow> (\<exists>k. se_sleep v k (ws ! j) = None)) \<and>
    (0 \<le> Retries config \<and> is_ok res \<longrightarrow> length as = Suc (length ws) \<and> (\<exists>k. se_deliver v k (last as) = None)) \<and>
    (\<not> is_ok res \<longrightarrow>
       int (length as) = Retries config + 1 \<and> length as = Suc (length ws) \<and> (\<exists>k. se_deliver v k (last as) \<noteq> None) \<or>
       (\<exists>k. \<not> is_ok (c_rand (se_crypto v) k 16)) \<or>
       ws \<noteq> [] \<and> length ws = length as \<and> (\<exists>k. se_sleep v k (last ws) \<noteq> None))"
proof -
  note s = Send_sent[OF assms(1), folded as_def ws_def, unfolded sent_def add_0 diff_0_right]
  have "ws = map (\<lambda>j. webhookBackoff (RetryDelay config) (int j)) [0..<length ws]" using s by blast
  then have w: "ws ! j = webhookBackoff (RetryDelay config) (int j)" if "j < length ws" for j
    using that by (metis add_0 diff_zero length_upt nth_map nth_upt)
  have waits: "\<forall>j<length ws. (\<exists>k. se_deliver v k (as ! j) \<noteq> None) \<and> ws ! j = webhookBackoff (RetryDelay config) (int j) \<and>
       (0 < RetryDelay config \<and> RetryDelay config \<le> 2 ^ 62 \<longrightarrow> ws ! j = min (RetryDelay config * 2 ^ j) (2 ^ 62))"
  proof (intro allI impI conjI)
    fix j assume j: "j < length ws"
    show "\<exists>k. se_deliver v k (as ! j) \<noteq> None" using s j by blast
    show "ws ! j = webhookBackoff (RetryDelay config) (int j)" by (rule w[OF j])
    assume "0 < RetryDelay config \<and> RetryDelay config \<le> 2 ^ 62"
    then show "ws ! j = min (RetryDelay config * 2 ^ j) (2 ^ 62)"
      using webhookBackoff_min[of "RetryDelay config" "int j"] w[OF j] by simp
  qed
  have "length ws \<le> length as \<and> length as \<le> Suc (length ws)" using s by blast
  then have lens: "length as \<in> {length ws, Suc (length ws)}" by auto
  from s have "0 \<le> Retries config \<and> is_ok res \<longrightarrow> length as = Suc (length ws) \<and> (\<exists>k. se_deliver v k (last as) = None)"
    by (elim conjE) (rule impI, elim conjE, simp)
  with s waits lens show ?thesis by (elim conjE) (intro conjI; assumption)
qed

lemma Send_bounded:
  "Send v config event k = (res, r') \<Longrightarrow> int (length (sr_attempts r')) \<le> max 0 (Retries config + 1)"
  using Send_sent[of v config event k res r'] by (simp add: sent_def)

lemma Send_nothing: "Retries config < 0 \<Longrightarrow> fst (Send v config event k) = Ok () \<and> sr_attempts (snd (Send v config event k)) = []"
  by (simp add: Send_def send_loop.simps)

text \<open>When the transport refuses everything and nothing else fails, every attempt is made.\<close>

lemma send_loop_exhausts:
  assumes down: "\<And>k a. se_deliver v k a \<noteq> None" and awake: "\<And>k d. se_sleep v k d = None"
    and ids: "\<And>k. is_ok (c_rand (se_crypto v) k 16)"
  shows "i \<le> Retries config \<Longrightarrow> send_loop v config event body i r = (res, r') \<Longrightarrow>
    \<not> is_ok res \<and> length (sr_attempts r') = length (sr_attempts r) + nat (Retries config - i + 1)"
proof (induction "nat (Retries config - i)" arbitrary: i r)
  case 0
  obtain b where "c_rand (se_crypto v) (sr_tick r) 16 = Inr b" using ids by (metis sum.collapse(2))
  moreover obtain e where "se_deliver v (Suc (sr_tick r)) (attempt_of v config event body (uuid_of b) i) = Some e"
    using down by blast
  ultimately show ?case using 0
    by (subst (asm) send_loop.simps) (auto simp: newUUIDv4_def Let_def)
next
  case (Suc n)
  obtain b where "c_rand (se_crypto v) (sr_tick r) 16 = Inr b" using ids by (metis sum.collapse(2))
  moreover have "i < Retries config" using Suc.hyps(2) by linarith
  moreover obtain e where "se_deliver v (Suc (sr_tick r)) (attempt_of v config event body (uuid_of b) i) = Some e"
    using down by blast
  ultimately obtain r2 where "send_loop v config event body (i + 1) r2 = (res, r')"
    "length (sr_attempts r2) = Suc (length (sr_attempts r))"
    using Suc.prems(2) awake that[of "r\<lparr>sr_attempts := as, sr_waits := ws, sr_tick := j\<rparr>" for as ws j]
    by (subst (asm) send_loop.simps) (auto simp: newUUIDv4_def Let_def)
  then show ?case
    using Suc.hyps(1)[of "i + 1" r2] Suc.hyps(2) \<open>i < Retries config\<close> by simp
qed

end
