(* ===== verification/Demo_Wire.thy ===== *)
theory Demo_Wire
  imports Demo_World Http_Service Webhook_Sender
begin

text \<open>Concrete requests, a transport and a subscription for the witnesses. Nothing here models code.\<close>

definition demo_post :: "string \<Rightarrow> (string \<times> string) list \<Rightarrow> (string \<times> string) list \<Rightarrow> http_request" where
  "demo_post path hs cs = \<lparr>rq_Method = ''POST'', rq_Path = path, rq_Headers = hs, rq_Cookies = cs\<rparr>"

abbreviation demo_form :: http_request where
  "demo_form \<equiv> demo_post ''/auth/change-password'' [(''X-CSRF-Token'', ''t0'')]
     [(''accessToken'', ''a''), (''csrf-token'', ''t0'')]"

abbreviation demo_forgery :: http_request where
  "demo_forgery \<equiv> demo_post ''/auth/auth/link-request'' [] []"

definition demo_renamed :: HTTPConfig where
  "demo_renamed = DefaultHTTPConfig\<lparr>hc_CSRF := DefaultCSRFConfig\<lparr>cs_CookieName := ''xsrf''\<rparr>\<rparr>"

text \<open>A receiver that refuses the first delivery and accepts the second.\<close>

definition demo_sender :: send_env where
  "demo_sender = \<lparr>se_crypto = demo_crypto [],
     se_deliver = (\<lambda>k a. if wa_Attempt a = 0 then Some (Message ''503'') else None),
     se_sleep = (\<lambda>k d. None)\<rparr>"

definition demo_event :: OutgoingWebhookEvent where
  "demo_event = \<lparr>ow_Event = ''user.created'', ow_Version = ''1'', ow_Timestamp = ''2024'', ow_Data = JNull,
     ow_Metadata = None\<rparr>"

abbreviation "demo_access \<equiv> at_AccessToken (demo_tokens demo_user 0)"

lemma demo_access_text: "trim_space demo_access = demo_access" "demo_access \<noteq> []"
  by (simp_all add: demo_tokens_def demo_token_def jwt_not_white jwt_nonempty)

lemma demo_logout_request:
  assumes "trim_space tok = tok" "tok \<noteq> []"
  shows "RefreshTokenFromRequest (demo_post p [] [(''accessToken'', tok)]) [] = []"
    "AccessTokenFromRequest (demo_post p [] [(''accessToken'', tok)]) = tok"
proof -
  have blank: "trim_space [] = []" by code_simp
  show "RefreshTokenFromRequest (demo_post p [] [(''accessToken'', tok)]) [] = []"
    "AccessTokenFromRequest (demo_post p [] [(''accessToken'', tok)]) = tok"
    using assms
    by (simp_all add: RefreshTokenFromRequest_def AccessTokenFromRequest_def CookieValue_def request_cookie_def
        demo_post_def cookie_names header_get_def BearerToken_def blank Let_def)
qed

end
