(* ===== verification/Profile_Map.thy ===== *)
theory Profile_Map
  imports Json Go_Paths
begin

text \<open>
  \<open>oauth_profile_map.go\<close>: the expression language that maps a provider's userinfo document to a
  profile, from its parser to its evaluation, and \<open>CompileProfileMap\<close>. A document is what
  \<open>json.Unmarshal\<close> leaves in a \<open>map[string]any\<close>: an object, or null for the nil map. A number keeps
  its literal; \<open>num\<close>, the JavaScript rendering of the float it stands for (\<open>jsNumberString\<close>), is a
  parameter. The texts of the error messages are not modelled, only which error it is.
\<close>

section \<open>Expressions\<close>

datatype pathSegment = Field string | Index int

record profileExpr =
  pe_source :: string
  pe_paths :: "pathSegment list list"
  pe_literal :: "string option"

datatype profile_error =
    EmptyExpression | EmptyAlternative | LiteralNotLast | SingleQuoted | NeitherPathNorLiteral
  | LoneQuestionMark | UnterminatedLiteral | TextAfterLiteral
  | WholeDocument | ExpectedField nat | ExpectedIndex nat | ExpectedClose nat | IndexOutOfRange
  | UnexpectedByte nat
  | UnknownKey string | LiteralNotBool | IdRequired | IdUnresolved | IdEmpty
  | NotScalar | NotBoolean

type_synonym 'a profile_result = "profile_error + 'a"

section \<open>Parsing\<close>

text \<open>The loop of \<open>splitProfileAlternatives\<close>: whether a quote is open, the current alternative and the
  finished ones.\<close>

fun split_alternatives :: "bool \<Rightarrow> string \<Rightarrow> string list \<Rightarrow> string \<Rightarrow> string list profile_result" where
  "split_alternatives inQuote cur out [] =
     (if inQuote then Inl UnterminatedLiteral else Inr (out @ [cur]))"
| "split_alternatives inQuote cur out (c # s) =
     (if c = CHR 0x22 then split_alternatives (\<not> inQuote) (cur @ [c]) out s
      else if \<not> inQuote \<and> c = CHR ''?'' then
        (case s of
           c2 # t \<Rightarrow> if c2 = CHR ''?'' then split_alternatives inQuote [] (out @ [cur]) t else Inl LoneQuestionMark
         | [] \<Rightarrow> Inl LoneQuestionMark)
      else split_alternatives inQuote (cur @ [c]) out s)"

definition splitProfileAlternatives :: "string \<Rightarrow> string list profile_result" where
  "splitProfileAlternatives s = split_alternatives False [] [] s"

text \<open>\<open>alt\<close> starts with a double quote.\<close>

definition parseProfileLiteral :: "string \<Rightarrow> string profile_result" where
  "parseProfileLiteral alt =
     (let body = tl alt; text = takeWhile (\<lambda>c. c \<noteq> CHR 0x22) body in
      if CHR 0x22 \<notin> set body then Inl UnterminatedLiteral
      else if trim_space (drop (length text + 1) body) \<noteq> [] then Inl TextAfterLiteral
      else Inr text)"

definition isProfileKeyChar :: "char \<Rightarrow> bool" where
  "isProfileKeyChar b \<longleftrightarrow> b = CHR ''_'' \<or> b = CHR ''-'' \<or> (97 \<le> byte b \<and> byte b \<le> 122) \<or>
     (65 \<le> byte b \<and> byte b \<le> 90) \<or> (48 \<le> byte b \<and> byte b \<le> 57)"

text \<open>The loop of \<open>parseProfilePath\<close>: the offset, the steps so far, and the rest of the path.\<close>

function parse_steps :: "nat \<Rightarrow> pathSegment list \<Rightarrow> string \<Rightarrow> pathSegment list profile_result" where
  "parse_steps i path [] = Inr path"
| "parse_steps i path (c # s) =
     (if c = CHR ''.'' then
        (let key = takeWhile isProfileKeyChar s in
         if key = [] then Inl (ExpectedField (i + 1))
         else parse_steps (i + 1 + length key) (path @ [Field key]) (dropWhile isProfileKeyChar s))
      else if c = CHR ''['' then
        (let digits = takeWhile ascii_digit s in
         if digits = [] then Inl (ExpectedIndex (i + 1))
         else (case dropWhile ascii_digit s of
           [] \<Rightarrow> Inl (ExpectedClose (i + 1 + length digits))
         | d # t \<Rightarrow>
             if d \<noteq> CHR '']'' then Inl (ExpectedClose (i + 1 + length digits))
             else if int (digits_value digits) > max_int64 then Inl IndexOutOfRange
             else parse_steps (i + 2 + length digits) (path @ [Index (int (digits_value digits))]) t))
      else Inl (UnexpectedByte i))"
  by pat_completeness auto
termination
proof (relation "measure (\<lambda>(_, _, s). length s)")
  fix i path c s x xa d t
  show "dropWhile ascii_digit s = d # t \<Longrightarrow> ((i', path', t), i, path, c # s) \<in> measure (\<lambda>(_, _, s). length s)" for i' path'
    using length_dropWhile_le[of ascii_digit s] by simp
qed (simp_all add: le_imp_less_Suc length_dropWhile_le)

declare parse_steps.simps(2) [simp del]

definition parseProfilePath :: "string \<Rightarrow> pathSegment list profile_result" where
  "parseProfilePath alt = (if alt = ''$'' then Inl WholeDocument else parse_steps 1 [] (drop 1 alt))"

text \<open>The loop of \<open>compileProfileExpr\<close> over the alternatives.\<close>

fun compile_alternatives :: "string list \<Rightarrow> profileExpr \<Rightarrow> profileExpr profile_result" where
  "compile_alternatives [] expr = Inr expr"
| "compile_alternatives (a # rest) expr =
     (let alt = trim_space a in
      if alt = [] then Inl EmptyAlternative
      else if hd alt = CHR 0x22 then
        (case parseProfileLiteral alt of
           Inl e \<Rightarrow> Inl e
         | Inr text \<Rightarrow>
             if rest \<noteq> [] then Inl LiteralNotLast
             else compile_alternatives rest (expr\<lparr>pe_literal := Some text\<rparr>))
      else if hd alt = CHR 0x27 then Inl SingleQuoted
      else if hd alt = CHR ''$'' then
        (case parseProfilePath alt of
           Inl e \<Rightarrow> Inl e
         | Inr path \<Rightarrow> compile_alternatives rest (expr\<lparr>pe_paths := pe_paths expr @ [path]\<rparr>))
      else Inl NeitherPathNorLiteral)"

definition compileProfileExpr :: "string \<Rightarrow> profileExpr profile_result" where
  "compileProfileExpr source =
     (let trimmed = trim_space source in
      if trimmed = [] then Inl EmptyExpression
      else case splitProfileAlternatives trimmed of
        Inl e \<Rightarrow> Inl e
      | Inr alternatives \<Rightarrow>
          compile_alternatives alternatives \<lparr>pe_source = source, pe_paths = [], pe_literal = None\<rparr>)"

section \<open>Evaluation\<close>

text \<open>An index that a parsed path holds is never negative.\<close>

fun resolve_from :: "json \<Rightarrow> pathSegment list \<Rightarrow> json option" where
  "resolve_from current [] = (if current = JNull then None else Some current)"
| "resolve_from current (Index i # path) = (case current of
     JArr vs \<Rightarrow> if i \<ge> int (length vs) then None else resolve_from (vs ! nat i) path
   | _ \<Rightarrow> None)"
| "resolve_from current (Field k # path) = (case current of
     JObj kvs \<Rightarrow> (case last_member k kvs of None \<Rightarrow> None | Some v \<Rightarrow> resolve_from v path)
   | _ \<Rightarrow> None)"

definition resolveProfilePath :: "json \<Rightarrow> pathSegment list \<Rightarrow> json option" where
  "resolveProfilePath raw path = resolve_from raw path"

fun first_resolved :: "json \<Rightarrow> pathSegment list list \<Rightarrow> json option" where
  "first_resolved raw [] = None"
| "first_resolved raw (path # paths) = (case resolveProfilePath raw path of
     Some v \<Rightarrow> Some v | None \<Rightarrow> first_resolved raw paths)"

definition eval :: "profileExpr \<Rightarrow> json \<Rightarrow> json option" where
  "eval e raw = (case first_resolved raw (pe_paths e) of
     Some v \<Rightarrow> Some v | None \<Rightarrow> map_option JStr (pe_literal e))"

definition profileString :: "(string \<Rightarrow> string) \<Rightarrow> json \<Rightarrow> string profile_result" where
  "profileString num v = (case v of
     JStr s \<Rightarrow> Inr s
   | JNum n \<Rightarrow> Inr (num n)
   | JBool b \<Rightarrow> Inr (if b then ''true'' else ''false'')
   | _ \<Rightarrow> Inl NotScalar)"

definition profileBool :: "json \<Rightarrow> bool profile_result" where
  "profileBool v = (case v of
     JBool b \<Rightarrow> Inr b
   | JStr s \<Rightarrow> if s = ''true'' then Inr True else if s = ''false'' then Inr False else Inl NotBoolean
   | _ \<Rightarrow> Inl NotBoolean)"

section \<open>Profiles\<close>

text \<open>\<open>EmailVerified\<close> is \<open>None\<close> when the provider said nothing; \<open>Raw\<close> is \<open>JNull\<close> for nil.\<close>

record OAuthUserInfo =
  oi_ProviderID :: string
  oi_Provider :: string
  oi_Email :: string
  oi_Name :: string
  oi_AvatarURL :: string
  oi_EmailVerified :: "bool option"
  oi_Raw :: json

definition empty_info :: "json \<Rightarrow> OAuthUserInfo" where
  "empty_info raw = \<lparr>oi_ProviderID = [], oi_Provider = [], oi_Email = [], oi_Name = [],
     oi_AvatarURL = [], oi_EmailVerified = None, oi_Raw = raw\<rparr>"

definition profileMapKeys :: "string list" where
  "profileMapKeys = [''id'', ''email'', ''emailVerified'', ''name'', ''picture'']"

definition isProfileMapKey :: "string \<Rightarrow> bool" where
  "isProfileMapKey key \<longleftrightarrow> key \<in> set profileMapKeys"

text \<open>The two loops of \<open>CompileProfileMap\<close>: over the sorted keys, and over \<open>profileMapKeys\<close>.\<close>

fun compile_keys :: "(string, string) fmap \<Rightarrow> string list \<Rightarrow> (string, profileExpr) fmap \<Rightarrow>
    (string, profileExpr) fmap profile_result" where
  "compile_keys m [] compiled = Inr compiled"
| "compile_keys m (key # keys) compiled =
     (if \<not> isProfileMapKey key then Inl (UnknownKey key)
      else case compileProfileExpr (the (fmlookup m key)) of
        Inl e \<Rightarrow> Inl e
      | Inr expr \<Rightarrow>
          if key = ''emailVerified'' \<and> (case pe_literal expr of
               None \<Rightarrow> False | Some t \<Rightarrow> isl (profileBool (JStr t)))
          then Inl LiteralNotBool
          else compile_keys m keys (fmupd key expr compiled))"

fun map_keys :: "(string \<Rightarrow> string) \<Rightarrow> (string, profileExpr) fmap \<Rightarrow> json \<Rightarrow> string list \<Rightarrow> OAuthUserInfo \<Rightarrow>
    OAuthUserInfo profile_result" where
  "map_keys num compiled raw [] info = Inr info"
| "map_keys num compiled raw (key # keys) info = (case fmlookup compiled key of
     None \<Rightarrow> map_keys num compiled raw keys info
   | Some expr \<Rightarrow> (case eval expr raw of
       None \<Rightarrow> if key = ''id'' then Inl IdUnresolved else map_keys num compiled raw keys info
     | Some v \<Rightarrow>
         if key = ''emailVerified'' then
           (case profileBool v of
              Inl e \<Rightarrow> Inl e
            | Inr b \<Rightarrow> map_keys num compiled raw keys (info\<lparr>oi_EmailVerified := Some b\<rparr>))
         else (case profileString num v of
              Inl e \<Rightarrow> Inl e
            | Inr text \<Rightarrow>
                if key = ''id'' then
                  (if text = [] then Inl IdEmpty
                   else map_keys num compiled raw keys (info\<lparr>oi_ProviderID := text\<rparr>))
                else if key = ''email'' then map_keys num compiled raw keys (info\<lparr>oi_Email := text\<rparr>)
                else if key = ''name'' then map_keys num compiled raw keys (info\<lparr>oi_Name := text\<rparr>)
                else if key = ''picture'' then map_keys num compiled raw keys (info\<lparr>oi_AvatarURL := text\<rparr>)
                else map_keys num compiled raw keys info)))"

definition CompileProfileMap ::
  "(string \<Rightarrow> string) \<Rightarrow> (string, string) fmap \<Rightarrow> (json \<Rightarrow> OAuthUserInfo profile_result) profile_result" where
  "CompileProfileMap num m = (case compile_keys m (range_keys m) fmempty of
     Inl e \<Rightarrow> Inl e
   | Inr compiled \<Rightarrow>
       if fmlookup compiled ''id'' = None then Inl IdRequired
       else Inr (\<lambda>raw. map_keys num compiled raw profileMapKeys (empty_info raw)))"

section \<open>Writing and reading back\<close>

fun write_step :: "pathSegment \<Rightarrow> string" where
  "write_step (Field k) = CHR ''.'' # k"
| "write_step (Index n) = CHR ''['' # decimal_nat (nat n) @ '']''"

fun step_ok :: "pathSegment \<Rightarrow> bool" where
  "step_ok (Field k) \<longleftrightarrow> k \<noteq> [] \<and> list_all isProfileKeyChar k"
| "step_ok (Index n) \<longleftrightarrow> 0 \<le> n \<and> n \<le> max_int64"

definition write_path :: "pathSegment list \<Rightarrow> string" where
  "write_path p = CHR ''$'' # concat (map write_step p)"

definition write_literal :: "string \<Rightarrow> string" where
  "write_literal t = CHR 0x22 # t @ [CHR 0x22]"

definition write_expr :: "pathSegment list list \<Rightarrow> string option \<Rightarrow> string" where
  "write_expr paths literal =
     join ''??'' (map write_path paths @ (case literal of None \<Rightarrow> [] | Some t \<Rightarrow> [write_literal t]))"

definition expr_ok :: "pathSegment list list \<Rightarrow> string option \<Rightarrow> bool" where
  "expr_ok paths literal \<longleftrightarrow> (paths \<noteq> [] \<or> literal \<noteq> None) \<and>
     (\<forall>p\<in>set paths. p \<noteq> [] \<and> list_all step_ok p) \<and>
     (case literal of None \<Rightarrow> True | Some t \<Rightarrow> CHR 0x22 \<notin> set t)"

text \<open>The bytes a written path is made of: visible ASCII, neither a quote nor a question mark.\<close>

definition path_char :: "char \<Rightarrow> bool" where
  "path_char c \<longleftrightarrow> 33 \<le> byte c \<and> byte c < 127 \<and> c \<noteq> CHR 0x22 \<and> c \<noteq> CHR ''?''"

lemma key_char_path: "isProfileKeyChar c \<Longrightarrow> path_char c"
  by (auto simp: isProfileKeyChar_def path_char_def)

lemma digit_char_path: "ascii_digit c \<Longrightarrow> path_char c"
  by (auto simp: ascii_digit_def path_char_def)

lemma write_step_chars: "step_ok st \<Longrightarrow> list_all path_char (write_step st)"
proof (cases st)
  case (Field k)
  then show "step_ok st \<Longrightarrow> ?thesis"
    using key_char_path by (auto simp: list_all_iff) (simp add: path_char_def)
next
  case (Index n)
  then show ?thesis
    using decimal_nat_digits[of "nat n"] digit_char_path by (auto simp: list_all_iff) (simp_all add: path_char_def)
qed

lemma write_path_chars: "list_all step_ok p \<Longrightarrow> list_all path_char (write_path p)"
  using write_step_chars by (fastforce simp: write_path_def list_all_iff path_char_def)

lemma trim_space_visible:
  assumes "s \<noteq> []" "33 \<le> byte (hd s)" "byte (hd s) < 127" "33 \<le> byte (last s)" "byte (last s) < 127"
  shows "trim_space s = s"
proof -
  have w: "list_all (\<lambda>w. w \<noteq> [] \<and> \<not> (33 \<le> byte (hd w) \<and> byte (hd w) < 127) \<and>
      \<not> (33 \<le> byte (last w) \<and> byte (last w) < 127)) white_space" by code_simp
  have "\<not> prefix v s" "\<not> suffix v s" if "v \<in> set white_space" for v
  proof -
    have v: "v \<noteq> []" "\<not> (33 \<le> byte (hd v) \<and> byte (hd v) < 127)" "\<not> (33 \<le> byte (last v) \<and> byte (last v) < 127)"
      using w that unfolding list_all_iff by blast+
    show "\<not> prefix v s" using v(1,2) assms(2,3) by (auto simp: prefix_def)
    show "\<not> suffix v s" using v(1,3) assms(4,5) by (auto simp: suffix_def)
  qed
  then show ?thesis by (intro trim_space_id) (auto simp: starts_white_def ends_white_def)
qed

lemma span_steps:
  assumes "list_all P k" "\<And>c. c = CHR ''.'' \<or> c = CHR ''['' \<Longrightarrow> \<not> P c"
  shows "takeWhile P (k @ concat (map write_step p)) = k"
    "dropWhile P (k @ concat (map write_step p)) = concat (map write_step p)"
proof -
  have "takeWhile P (concat (map write_step p)) = []"
  proof (cases p)
    case (Cons st p')
    then show ?thesis using assms(2) by (cases st) auto
  qed simp
  then show "takeWhile P (k @ concat (map write_step p)) = k"
    "dropWhile P (k @ concat (map write_step p)) = concat (map write_step p)"
    using assms(1) by (auto simp: takeWhile_append dropWhile_append list_all_iff takeWhile_eq_Nil_iff dropWhile_eq_self_iff)
qed

lemma parse_written_steps:
  "list_all step_ok p \<Longrightarrow> parse_steps i acc (concat (map write_step p)) = Inr (acc @ p)"
proof (induction p arbitrary: i acc)
  case (Cons st p)
  show ?case
  proof (cases st)
    case (Field k)
    have "\<not> isProfileKeyChar c" if "c = CHR ''.'' \<or> c = CHR ''[''" for c
      using that by (auto simp: isProfileKeyChar_def)
    then have "takeWhile isProfileKeyChar (k @ concat (map write_step p)) = k"
      "dropWhile isProfileKeyChar (k @ concat (map write_step p)) = concat (map write_step p)"
      using span_steps[of isProfileKeyChar k p] Cons.prems Field by auto
    then show ?thesis using Cons Field by (simp add: parse_steps.simps(2) Let_def)
  next
    case (Index n)
    let ?ds = "decimal_nat (nat n)" and ?rest = "CHR '']'' # concat (map write_step p)"
    have d: "?ds \<noteq> []" "list_all ascii_digit ?ds" using decimal_nat_digits by blast+
    have "\<not> ascii_digit (CHR '']'')" by (simp add: ascii_digit_def)
    then have "takeWhile ascii_digit (?ds @ ?rest) = ?ds" "dropWhile ascii_digit (?ds @ ?rest) = ?rest"
      using d(2) by (auto simp: takeWhile_append dropWhile_append list_all_iff)
    moreover have "int (digits_value ?ds) = n" using Index Cons.prems by (simp add: digits_value_decimal)
    ultimately show ?thesis using Cons Index d(1)
      by (simp add: parse_steps.simps(2) Let_def)
  qed
qed simp

lemma parse_written_path: "p \<noteq> [] \<Longrightarrow> list_all step_ok p \<Longrightarrow> parseProfilePath (write_path p) = Inr p"
proof -
  assume "p \<noteq> []" "list_all step_ok p"
  moreover have "concat (map write_step (st # q)) \<noteq> []" for st q by (cases st) simp_all
  ultimately have "concat (map write_step p) \<noteq> []" by (cases p) blast+
  then have "write_path p \<noteq> ''$''" by (simp add: write_path_def)
  then show "parseProfilePath (write_path p) = Inr p"
    using parse_written_steps[of p 1 "[]"] \<open>list_all step_ok p\<close> by (simp add: parseProfilePath_def write_path_def)
qed

lemma parse_written_literal: "CHR 0x22 \<notin> set t \<Longrightarrow> parseProfileLiteral (write_literal t) = Inr t"
proof -
  assume "CHR 0x22 \<notin> set t"
  then have "takeWhile (\<lambda>c. c \<noteq> CHR 0x22) (t @ [CHR 0x22]) = t" by (auto simp: takeWhile_append)
  moreover have "trim_space [] = []" by code_simp
  ultimately show ?thesis by (simp add: parseProfileLiteral_def write_literal_def Let_def)
qed

text \<open>Splitting finds the alternatives again: outside quotes a written alternative holds no question mark.\<close>

lemma split_outside:
  "list_all path_char seg \<Longrightarrow>
   split_alternatives False cur out (seg @ s) = split_alternatives False (cur @ seg) out s"
  by (induction seg arbitrary: cur) (auto simp: path_char_def)

lemma split_inside:
  "CHR 0x22 \<notin> set t \<Longrightarrow>
   split_alternatives True cur out (t @ s) = split_alternatives True (cur @ t) out s"
  by (induction t arbitrary: cur) auto

lemma split_literal:
  "CHR 0x22 \<notin> set t \<Longrightarrow> split_alternatives False cur out (write_literal t) = Inr (out @ [cur @ write_literal t])"
  using split_inside[of t "cur @ [CHR 0x22]" out "[CHR 0x22]"] by (simp add: write_literal_def)

lemma split_written:
  assumes "\<forall>p\<in>set paths. list_all path_char (write_path p)" "CHR 0x22 \<notin> set (case literal of None \<Rightarrow> [] | Some t \<Rightarrow> t)"
    "paths \<noteq> [] \<or> literal \<noteq> None"
  shows "split_alternatives False [] out (write_expr paths literal) =
    Inr (out @ map write_path paths @ (case literal of None \<Rightarrow> [] | Some t \<Rightarrow> [write_literal t]))"
  using assms
proof (induction paths arbitrary: out)
  case Nil
  then show ?case using split_literal[of _ "[]"] by (auto simp: write_expr_def)
next
  case (Cons p paths)
  let ?more = "map write_path paths @ (case literal of None \<Rightarrow> [] | Some t \<Rightarrow> [write_literal t])"
  have seg: "split_alternatives False [] out (write_path p @ s) = split_alternatives False (write_path p) out s" for s
    using split_outside[of "write_path p" "[]"] Cons.prems(1) by simp
  show ?case
  proof (cases "?more = []")
    case True
    then show ?thesis using seg[of "[]"] by (simp add: write_expr_def)
  next
    case False
    then have w: "write_expr (p # paths) literal = write_path p @ ''??'' @ write_expr paths literal"
      by (cases ?more) (simp_all add: write_expr_def)
    have "split_alternatives False [] out (write_expr (p # paths) literal) =
        split_alternatives False [] (out @ [write_path p]) (write_expr paths literal)"
      unfolding w seg by simp
    then show ?thesis using Cons.IH[of "out @ [write_path p]"] Cons.prems False
      by (simp split: option.splits)
  qed
qed

lemma written_trim:
  "list_all path_char s \<Longrightarrow> s \<noteq> [] \<Longrightarrow> trim_space s = s" "trim_space (write_literal t) = write_literal t"
proof -
  show "list_all path_char s \<Longrightarrow> s \<noteq> [] \<Longrightarrow> trim_space s = s"
    using hd_in_set[of s] last_in_set[of s] by (intro trim_space_visible) (auto simp: list_all_iff path_char_def)
  show "trim_space (write_literal t) = write_literal t"
    by (rule trim_space_visible) (simp_all add: write_literal_def)
qed

lemma compile_written:
  assumes "\<forall>p\<in>set paths. p \<noteq> [] \<and> list_all step_ok p" "\<And>t. literal = Some t \<Longrightarrow> CHR 0x22 \<notin> set t"
  shows "compile_alternatives (map write_path paths @ (case literal of None \<Rightarrow> [] | Some t \<Rightarrow> [write_literal t])) e =
    Inr (e\<lparr>pe_paths := pe_paths e @ paths, pe_literal := (case literal of None \<Rightarrow> pe_literal e | Some t \<Rightarrow> Some t)\<rparr>)"
  using assms(1)
proof (induction paths arbitrary: e)
  case Nil
  show ?case
  proof (cases literal)
    case (Some t)
    have "write_literal t \<noteq> []" "hd (write_literal t) = CHR 0x22" by (simp_all add: write_literal_def)
    then show ?thesis using parse_written_literal[OF assms(2)[OF Some]] Some
      by (simp add: written_trim(2) Let_def)
  qed simp
next
  case (Cons p paths)
  have "trim_space (write_path p) = write_path p" "parseProfilePath (write_path p) = Inr p"
    using written_trim(1)[OF write_path_chars] parse_written_path Cons.prems by (auto simp: write_path_def)
  then show ?case using Cons by (cases literal) (simp_all add: Let_def write_path_def)
qed

theorem profile_expr_round_trip:
  assumes "expr_ok paths literal"
  shows "compileProfileExpr (write_expr paths literal) =
    Inr \<lparr>pe_source = write_expr paths literal, pe_paths = paths, pe_literal = literal\<rparr>"
proof -
  have ok: "\<forall>p\<in>set paths. p \<noteq> [] \<and> list_all step_ok p" "paths \<noteq> [] \<or> literal \<noteq> None"
    "\<And>t. literal = Some t \<Longrightarrow> CHR 0x22 \<notin> set t"
    using assms by (auto simp: expr_ok_def)
  have chars: "\<forall>p\<in>set paths. list_all path_char (write_path p)" using ok(1) write_path_chars by blast
  let ?alts = "map write_path paths @ (case literal of None \<Rightarrow> [] | Some t \<Rightarrow> [write_literal t])"
  have visible: "a \<noteq> [] \<and> 33 \<le> byte (hd a) \<and> byte (hd a) < 127 \<and> 33 \<le> byte (last a) \<and> byte (last a) < 127"
    if "a \<in> set ?alts" for a
  proof -
    have "list_all path_char a \<and> a \<noteq> [] \<or> (\<exists>t. a = write_literal t)"
      using that chars by (auto simp: write_path_def split: option.splits)
    then show ?thesis
    proof
      assume a: "list_all path_char a \<and> a \<noteq> []"
      then have "path_char (hd a)" "path_char (last a)" by (auto simp: list_all_iff)
      then show ?thesis using a by (simp add: path_char_def)
    qed (auto simp: write_literal_def)
  qed
  have ends: "join sep as \<noteq> [] \<and> hd (join sep as) = hd (hd as) \<and> last (join sep as) = last (last as)"
    if "as \<noteq> []" "\<forall>a\<in>set as. a \<noteq> []" for sep and as :: "string list"
    using that by (induction sep as rule: join.induct) auto
  have ne: "?alts \<noteq> []" using ok(2) by auto
  have e: "write_expr paths literal \<noteq> []" "hd (write_expr paths literal) = hd (hd ?alts)"
    "last (write_expr paths literal) = last (last ?alts)"
    using ends[OF ne] visible unfolding write_expr_def by blast+
  then have "trim_space (write_expr paths literal) = write_expr paths literal"
    using visible[OF hd_in_set[OF ne]] visible[OF last_in_set[OF ne]] by (intro trim_space_visible) simp_all
  moreover note e(1)
  moreover have "CHR 0x22 \<notin> set (case literal of None \<Rightarrow> [] | Some t \<Rightarrow> t)" using ok(3) by (cases literal) auto
  ultimately show ?thesis
    using split_written[OF chars _ ok(2), of "[]"] compile_written[OF ok(1,3)]
    by (simp add: compileProfileExpr_def splitProfileAlternatives_def split: option.splits)
qed

end
