(* ===== verification/Linked_Accounts.thy ===== *)
theory Linked_Accounts
  imports Auth_Prelude Auth_Errors
begin

text \<open>
  The two stores of the OAuth flow: \<open>MemoryLinkedAccounts\<close> (\<open>oauth.go\<close>), which remembers which
  provider account belongs to which user, and \<open>MemoryPendingLinks\<close> (\<open>oauth_wire.go\<close>), the
  expiring stash behind the single use of a login state and of an account-link token. Every method
  holds the mutex for its whole body and is one step.
\<close>

section \<open>Linked accounts\<close>

record OAuthLinkedAccount =
  la_ID :: string
  la_UserID :: string
  la_Provider :: string
  la_ProviderID :: string
  la_Email :: string
  la_Name :: string
  la_Picture :: string
  la_CreatedAt :: time

record MemoryLinkedAccounts =
  ls_byID :: "(string, OAuthLinkedAccount) fmap"
  ls_byPrv :: "(string, (string, OAuthLinkedAccount) fmap) fmap"
  ls_byUsr :: "(string, OAuthLinkedAccount list) fmap"

definition NewMemoryLinkedAccounts :: MemoryLinkedAccounts where
  "NewMemoryLinkedAccounts = \<lparr>ls_byID = fmempty, ls_byPrv = fmempty, ls_byUsr = fmempty\<rparr>"

text \<open>Reading a missing slice or inner map gives the empty one.\<close>

definition links_of :: "MemoryLinkedAccounts \<Rightarrow> string \<Rightarrow> OAuthLinkedAccount list" where
  "links_of s u = (case fmlookup (ls_byUsr s) u of None \<Rightarrow> [] | Some ls \<Rightarrow> ls)"

definition accounts_of :: "MemoryLinkedAccounts \<Rightarrow> string \<Rightarrow> (string, OAuthLinkedAccount) fmap" where
  "accounts_of s p = (case fmlookup (ls_byPrv s) p of None \<Rightarrow> fmempty | Some m \<Rightarrow> m)"

text \<open>The loop of \<open>Save\<close>: the first entry of that id is overwritten, or the link is appended.\<close>

fun replace_or_append :: "OAuthLinkedAccount \<Rightarrow> OAuthLinkedAccount list \<Rightarrow> OAuthLinkedAccount list" where
  "replace_or_append link [] = [link]"
| "replace_or_append link (l # ls) =
     (if la_ID l = la_ID link then link # ls else l # replace_or_append link ls)"

definition link_Save :: "OAuthLinkedAccount \<Rightarrow> MemoryLinkedAccounts \<Rightarrow> MemoryLinkedAccounts" where
  "link_Save link s = s\<lparr>
     ls_byID := fmupd (la_ID link) link (ls_byID s),
     ls_byPrv := fmupd (la_Provider link)
       (fmupd (la_ProviderID link) link (accounts_of s (la_Provider link))) (ls_byPrv s),
     ls_byUsr := fmupd (la_UserID link)
       (replace_or_append link (links_of s (la_UserID link))) (ls_byUsr s)\<rparr>"

definition FindByProvider :: "string \<Rightarrow> string \<Rightarrow> MemoryLinkedAccounts \<Rightarrow> OAuthLinkedAccount option" where
  "FindByProvider provider providerID s = (case fmlookup (ls_byPrv s) provider of
     None \<Rightarrow> None
   | Some prv \<Rightarrow> fmlookup prv providerID)"

definition ListForUser :: "string \<Rightarrow> MemoryLinkedAccounts \<Rightarrow> OAuthLinkedAccount list" where
  "ListForUser userID s = links_of s userID"

definition link_Delete :: "string \<Rightarrow> MemoryLinkedAccounts \<Rightarrow> MemoryLinkedAccounts" where
  "link_Delete i s = (case fmlookup (ls_byID s) i of
     None \<Rightarrow> s
   | Some link \<Rightarrow> s\<lparr>
       ls_byID := fmdrop i (ls_byID s),
       ls_byPrv := (case fmlookup (ls_byPrv s) (la_Provider link) of
          None \<Rightarrow> ls_byPrv s
        | Some prv \<Rightarrow> fmupd (la_Provider link) (fmdrop (la_ProviderID link) prv) (ls_byPrv s)),
       ls_byUsr := fmupd (la_UserID link)
         (filter (\<lambda>l. la_ID l \<noteq> i) (links_of s (la_UserID link))) (ls_byUsr s)\<rparr>)"

section \<open>The routes over linked accounts\<close>

record PublicLinkedAccount =
  pl_Provider :: string
  pl_ProviderAccountID :: string
  pl_Email :: string
  pl_Name :: string
  pl_Picture :: string
  pl_LinkedAt :: time

definition public_link :: "OAuthLinkedAccount \<Rightarrow> PublicLinkedAccount" where
  "public_link link = \<lparr>pl_Provider = la_Provider link, pl_ProviderAccountID = la_ProviderID link,
     pl_Email = la_Email link, pl_Name = la_Name link, pl_Picture = la_Picture link,
     pl_LinkedAt = la_CreatedAt link\<rparr>"

definition ListLinkedAccounts :: "string \<Rightarrow> MemoryLinkedAccounts \<Rightarrow> PublicLinkedAccount list" where
  "ListLinkedAccounts userID s = map public_link (ListForUser userID s)"

definition UnlinkAccount :: "string \<Rightarrow> string \<Rightarrow> string \<Rightarrow> MemoryLinkedAccounts \<Rightarrow> MemoryLinkedAccounts" where
  "UnlinkAccount userID provider providerAccountID s = (case FindByProvider provider providerAccountID s of
     None \<Rightarrow> s
   | Some link \<Rightarrow> if la_UserID link \<noteq> userID then s else link_Delete (la_ID link) s)"

section \<open>Pending links\<close>

record OAuthPendingMeta =
  pm_Provider :: string
  pm_RedirectURL :: string
  pm_TenantID :: string
  pm_UserID :: string
  pm_Email :: string
  pm_ProviderAccountID :: string
  pm_ExpiresAt :: time

text \<open>An entry is its metadata and the deadline the store enforces, \<open>None\<close> for the zero time.\<close>

type_synonym MemoryPendingLinks = "(string, OAuthPendingMeta \<times> time option) fmap"

definition NewMemoryPendingLinks :: MemoryPendingLinks where
  "NewMemoryPendingLinks = fmempty"

definition pending_Save :: "time \<Rightarrow> string \<Rightarrow> OAuthPendingMeta \<Rightarrow> duration \<Rightarrow> MemoryPendingLinks \<Rightarrow> MemoryPendingLinks" where
  "pending_Save now key meta ttl s =
     fmupd key (meta, if ttl > 0 then Some (now + ttl) else None) s"

definition pending_Get :: "time \<Rightarrow> string \<Rightarrow> MemoryPendingLinks \<Rightarrow> OAuthPendingMeta option \<times> MemoryPendingLinks" where
  "pending_Get now key s = (case fmlookup s key of
     None \<Rightarrow> (None, s)
   | Some (meta, expiresAt) \<Rightarrow> (case expiresAt of
       Some e \<Rightarrow> if now > e then (None, fmdrop key s) else (Some meta, s)
     | None \<Rightarrow> (Some meta, s)))"

definition pending_Delete :: "string \<Rightarrow> MemoryPendingLinks \<Rightarrow> MemoryPendingLinks" where
  "pending_Delete key s = fmdrop key s"

section \<open>Laws of the pending links\<close>

lemma pending_Get_keeps: "key' \<noteq> key \<Longrightarrow> fmlookup (snd (pending_Get now key s)) key' = fmlookup s key'"
  by (auto simp: pending_Get_def split: option.splits)

lemma pending_Get_None: "fmlookup s key = None \<Longrightarrow> pending_Get now key s = (None, s)"
  by (simp add: pending_Get_def)

lemma pending_Get_Some:
  "pending_Get now key s = (Some meta, s') \<longleftrightarrow>
     s' = s \<and> (\<exists>e. fmlookup s key = Some (meta, e) \<and> (case e of None \<Rightarrow> True | Some d \<Rightarrow> now \<le> d))"
  by (auto simp: pending_Get_def split: option.splits)

lemma pending_lifetime:
  assumes "ttl > 0"
  shows "fst (pending_Get later key (pending_Save now key meta ttl s)) =
    (if later \<le> now + ttl then Some meta else None)"
  using assms by (simp add: pending_Get_def pending_Save_def)

lemma pending_single_use: "pending_Get now key (pending_Delete key s) = (None, pending_Delete key s)"
  by (simp add: pending_Get_def pending_Delete_def)

section \<open>Laws of the linked accounts\<close>

lemma FindByProvider_Save:
  "FindByProvider p x (link_Save l s) =
     (if p = la_Provider l \<and> x = la_ProviderID l then Some l else FindByProvider p x s)"
  by (auto simp: FindByProvider_def link_Save_def accounts_of_def split: option.splits)

lemma FindByProvider_Delete:
  "FindByProvider p x (link_Delete i s) = (case fmlookup (ls_byID s) i of
     None \<Rightarrow> FindByProvider p x s
   | Some l \<Rightarrow> if p = la_Provider l \<and> x = la_ProviderID l then None else FindByProvider p x s)"
  by (auto simp: FindByProvider_def link_Delete_def split: option.splits)

lemma replace_or_append_new: "la_ID l \<notin> la_ID ` set ls \<Longrightarrow> replace_or_append l ls = ls @ [l]"
  by (induction ls) auto

text \<open>
  The invariant: the listing of every user holds that user's links, once each, and agrees with the
  index by id; the index by provider account names links of the index by id, under their own key.
  Nothing says the converse: a listed link need not be the one its provider account leads to.
\<close>

definition linked_ok :: "MemoryLinkedAccounts \<Rightarrow> bool" where
  "linked_ok s \<longleftrightarrow>
     (\<forall>i l. fmlookup (ls_byID s) i = Some l \<longrightarrow> la_ID l = i \<and> l \<in> set (links_of s (la_UserID l))) \<and>
     (\<forall>u l. l \<in> set (links_of s u) \<longrightarrow> la_UserID l = u \<and> fmlookup (ls_byID s) (la_ID l) = Some l) \<and>
     (\<forall>u. distinct (map la_ID (links_of s u))) \<and>
     (\<forall>p x l. FindByProvider p x s = Some l \<longrightarrow>
        la_Provider l = p \<and> la_ProviderID l = x \<and> fmlookup (ls_byID s) (la_ID l) = Some l)"

lemma linked_okD:
  assumes "linked_ok s"
  shows "fmlookup (ls_byID s) i = Some l \<Longrightarrow> la_ID l = i \<and> l \<in> set (links_of s (la_UserID l))"
    "l \<in> set (links_of s u) \<Longrightarrow> la_UserID l = u \<and> fmlookup (ls_byID s) (la_ID l) = Some l"
    "distinct (map la_ID (links_of s u))"
    "FindByProvider p x s = Some l \<Longrightarrow>
       la_Provider l = p \<and> la_ProviderID l = x \<and> fmlookup (ls_byID s) (la_ID l) = Some l"
  using assms unfolding linked_ok_def by blast+

lemma linked_ok_new: "linked_ok NewMemoryLinkedAccounts"
  by (simp add: linked_ok_def NewMemoryLinkedAccounts_def links_of_def FindByProvider_def)

lemma known_id: "linked_ok s \<Longrightarrow> k \<in> set (links_of s u) \<Longrightarrow> la_ID k \<in> fmdom' (ls_byID s)"
  using linked_okD(2) by (blast intro: fmdom'I)

lemma links_of_Save:
  assumes "linked_ok s" "la_ID l \<notin> fmdom' (ls_byID s)"
  shows "links_of (link_Save l s) u = links_of s u @ (if u = la_UserID l then [l] else [])"
proof -
  have "la_ID l \<notin> la_ID ` set (links_of s u)" using known_id[OF assms(1)] assms(2) by auto
  moreover have "links_of (link_Save l s) u =
      (if u = la_UserID l then replace_or_append l (links_of s u) else links_of s u)"
    by (simp add: link_Save_def links_of_def)
  ultimately show ?thesis by (cases "u = la_UserID l") (simp_all add: replace_or_append_new)
qed

lemma links_of_Delete:
  assumes "linked_ok s"
  shows "links_of (link_Delete i s) u = filter (\<lambda>l. la_ID l \<noteq> i) (links_of s u)"
proof (cases "fmlookup (ls_byID s) i")
  case None
  have "la_ID l \<noteq> i" if "l \<in> set (links_of s u)" for l
    using linked_okD(2)[OF assms that] None by auto
  then show ?thesis using None by (simp add: link_Delete_def filter_id_conv[symmetric, THEN iffD1])
next
  case (Some k)
  have "la_ID l \<noteq> i" if "l \<in> set (links_of s u)" "u \<noteq> la_UserID k" for l
    using linked_okD(2)[OF assms that(1)] that(2) Some by auto
  then have "u \<noteq> la_UserID k \<Longrightarrow> filter (\<lambda>l. la_ID l \<noteq> i) (links_of s u) = links_of s u"
    by (simp add: filter_id_conv)
  then show ?thesis using Some by (auto simp: link_Delete_def links_of_def)
qed

lemma linked_ok_Save:
  assumes ok: "linked_ok s" and new: "la_ID l \<notin> fmdom' (ls_byID s)"
  shows "linked_ok (link_Save l s)"
proof -
  have byID: "fmlookup (ls_byID (link_Save l s)) i = (if i = la_ID l then Some l else fmlookup (ls_byID s) i)" for i
    by (simp add: link_Save_def)
  have other: "fmlookup (ls_byID s) i = Some k \<Longrightarrow> i \<noteq> la_ID l" for i k using new by (auto dest: fmdom'I)
  note links = links_of_Save[OF ok new]
  show ?thesis unfolding linked_ok_def
  proof (intro conjI allI impI)
    fix i k assume "fmlookup (ls_byID (link_Save l s)) i = Some k"
    then consider "k = l" "i = la_ID l" | "fmlookup (ls_byID s) i = Some k"
      unfolding byID by (metis option.inject)
    then have "la_ID k = i \<and> k \<in> set (links_of (link_Save l s) (la_UserID k))"
    proof cases
      case 2
      then show ?thesis using linked_okD(1)[OF ok 2] by (simp add: links)
    qed (simp add: links)
    then show "la_ID k = i" "k \<in> set (links_of (link_Save l s) (la_UserID k))" by blast+
  next
    fix u k assume "k \<in> set (links_of (link_Save l s) u)"
    then consider "k = l" "u = la_UserID l" | "k \<in> set (links_of s u)" by (auto simp: links split: if_splits)
    then have "la_UserID k = u \<and> fmlookup (ls_byID (link_Save l s)) (la_ID k) = Some k"
    proof cases
      case 2
      then show ?thesis using linked_okD(2)[OF ok 2] other by (simp add: byID)
    qed (simp add: byID)
    then show "la_UserID k = u" "fmlookup (ls_byID (link_Save l s)) (la_ID k) = Some k" by blast+
  next
    fix u show "distinct (map la_ID (links_of (link_Save l s) u))"
      using linked_okD(3)[OF ok, of u] known_id[OF ok, of _ u] new by (auto simp: links)
  next
    fix p x k assume "FindByProvider p x (link_Save l s) = Some k"
    then consider "k = l" "p = la_Provider l" "x = la_ProviderID l" | "FindByProvider p x s = Some k"
      unfolding FindByProvider_Save by (metis option.inject)
    then have "la_Provider k = p \<and> la_ProviderID k = x \<and> fmlookup (ls_byID (link_Save l s)) (la_ID k) = Some k"
    proof cases
      case 2
      then show ?thesis using linked_okD(4)[OF ok 2] other by (simp add: byID)
    qed (simp add: byID)
    then show "la_Provider k = p" "la_ProviderID k = x" "fmlookup (ls_byID (link_Save l s)) (la_ID k) = Some k"
      by blast+
  qed
qed

lemma linked_ok_Delete:
  assumes ok: "linked_ok s"
  shows "linked_ok (link_Delete i s)"
proof (cases "fmlookup (ls_byID s) i")
  case None
  then show ?thesis using ok by (simp add: link_Delete_def)
next
  case (Some l)
  have byID: "fmlookup (ls_byID (link_Delete i s)) j = (if j = i then None else fmlookup (ls_byID s) j)" for j
    using Some by (simp add: link_Delete_def)
  note links = links_of_Delete[OF ok]
  show ?thesis unfolding linked_ok_def
  proof (intro conjI allI impI; (elim conjE)?)
    fix j k assume "fmlookup (ls_byID (link_Delete i s)) j = Some k"
    then show "la_ID k = j" "k \<in> set (links_of (link_Delete i s) (la_UserID k))"
      using linked_okD(1)[OF ok] by (auto simp: byID links split: if_splits)
  next
    fix u k assume "k \<in> set (links_of (link_Delete i s) u)"
    then show "la_UserID k = u" "fmlookup (ls_byID (link_Delete i s)) (la_ID k) = Some k"
      using linked_okD(2)[OF ok] by (auto simp: byID links)
  next
    fix u show "distinct (map la_ID (links_of (link_Delete i s) u))"
      using linked_okD(3)[OF ok] by (simp add: links distinct_map_filter)
  next
    fix p x k assume f: "FindByProvider p x (link_Delete i s) = Some k"
    then have k: "FindByProvider p x s = Some k" "\<not> (p = la_Provider l \<and> x = la_ProviderID l)"
      using Some by (auto simp: FindByProvider_Delete split: if_splits)
    then have "la_ID k \<noteq> i" using linked_okD(4)[OF ok k(1)] Some by auto
    then show "la_Provider k = p" "la_ProviderID k = x" "fmlookup (ls_byID (link_Delete i s)) (la_ID k) = Some k"
      using linked_okD(4)[OF ok k(1)] by (simp_all add: byID)
  qed
qed

lemma linked_ok_Unlink: "linked_ok s \<Longrightarrow> linked_ok (UnlinkAccount u p x s)"
  by (simp add: UnlinkAccount_def linked_ok_Delete split: option.split)

section \<open>Unlinking\<close>

lemma Unlink_removes:
  assumes "linked_ok s" "FindByProvider p x s = Some l" "la_UserID l = u"
  shows "FindByProvider p x (UnlinkAccount u p x s) = None"
    "ListForUser u (UnlinkAccount u p x s) = filter (\<lambda>k. la_ID k \<noteq> la_ID l) (ListForUser u s)"
  using linked_okD(4)[OF assms(1,2)] assms
  by (auto simp: UnlinkAccount_def FindByProvider_Delete ListForUser_def links_of_Delete)

lemma Unlink_foreign:
  "FindByProvider p x s = Some l \<Longrightarrow> la_UserID l \<noteq> u \<Longrightarrow> UnlinkAccount u p x s = s"
  by (simp add: UnlinkAccount_def)

text \<open>
  A link whose provider account was linked again is stale: it stays in its owner's listing, and the
  index leads to the newer link. Since a link is only ever deleted through the index, nothing that is
  linked or unlinked afterwards removes it.
\<close>

definition stale :: "OAuthLinkedAccount \<Rightarrow> MemoryLinkedAccounts \<Rightarrow> bool" where
  "stale l s \<longleftrightarrow> l \<in> set (ListForUser (la_UserID l) s) \<and>
     FindByProvider (la_Provider l) (la_ProviderID l) s \<noteq> Some l"

datatype link_step = Linked OAuthLinkedAccount | Unlinked string string string

fun link_run :: "link_step list \<Rightarrow> MemoryLinkedAccounts \<Rightarrow> MemoryLinkedAccounts" where
  "link_run [] s = s"
| "link_run (Linked l # steps) s = link_run steps (link_Save l s)"
| "link_run (Unlinked u p x # steps) s = link_run steps (UnlinkAccount u p x s)"

text \<open>Every link is saved under an id of its own.\<close>

fun fresh_ids :: "link_step list \<Rightarrow> string set \<Rightarrow> bool" where
  "fresh_ids [] used = True"
| "fresh_ids (Linked l # steps) used \<longleftrightarrow> la_ID l \<notin> used \<and> fresh_ids steps (insert (la_ID l) used)"
| "fresh_ids (Unlinked u p x # steps) used = fresh_ids steps used"

lemma relinked_is_stale:
  assumes "linked_ok s" "l \<in> set (ListForUser (la_UserID l) s)" "la_ID k \<notin> fmdom' (ls_byID s)"
    "la_Provider k = la_Provider l" "la_ProviderID k = la_ProviderID l"
  shows "stale l (link_Save k s)"
proof -
  have "la_ID l \<noteq> la_ID k"
    using known_id[OF assms(1)] assms(2,3) unfolding ListForUser_def by metis
  then show ?thesis using assms
    by (auto simp: stale_def FindByProvider_Save ListForUser_def links_of_Save)
qed

lemma stale_step:
  assumes "linked_ok s" "stale l s"
  shows "la_ID k \<notin> fmdom' (ls_byID s) \<Longrightarrow> stale l (link_Save k s)"
    "stale l (UnlinkAccount u p x s)"
proof -
  have mem: "l \<in> set (links_of s (la_UserID l))" and nf: "FindByProvider (la_Provider l) (la_ProviderID l) s \<noteq> Some l"
    using assms(2) by (simp_all add: stale_def ListForUser_def)
  have byID: "fmlookup (ls_byID s) (la_ID l) = Some l" using linked_okD(2)[OF assms(1) mem] by simp
  show "stale l (link_Save k s)" if "la_ID k \<notin> fmdom' (ls_byID s)"
  proof -
    have "k \<noteq> l" using known_id[OF assms(1) mem] that by blast
    then show ?thesis using mem nf
      by (simp add: stale_def FindByProvider_Save ListForUser_def links_of_Save[OF assms(1) that])
  qed
  show "stale l (UnlinkAccount u p x s)"
  proof (cases "FindByProvider p x s")
    case (Some k)
    have k: "la_Provider k = p \<and> la_ProviderID k = x \<and> fmlookup (ls_byID s) (la_ID k) = Some k"
      using linked_okD(4)[OF assms(1) Some] .
    then have "la_ID k \<noteq> la_ID l" using byID nf Some by auto
    then have "stale l (link_Delete (la_ID k) s)" using k mem nf
      by (simp add: stale_def ListForUser_def links_of_Delete[OF assms(1)] FindByProvider_Delete)
    then show ?thesis using assms(2) Some by (simp add: UnlinkAccount_def)
  qed (use assms in \<open>simp add: UnlinkAccount_def\<close>)
qed

lemma Unlink_ids: "fmdom' (ls_byID (UnlinkAccount u p x s)) \<subseteq> fmdom' (ls_byID s)"
  by (auto simp: UnlinkAccount_def link_Delete_def split: option.splits)

lemma fresh_ids_mono: "fresh_ids steps used \<Longrightarrow> used' \<subseteq> used \<Longrightarrow> fresh_ids steps used'"
proof (induction steps used arbitrary: used' rule: fresh_ids.induct)
  case (2 l steps used)
  then have "la_ID l \<notin> used'" "fresh_ids steps (insert (la_ID l) used)" by auto
  then show ?case using "2.IH"[OF _ insert_mono[OF "2.prems"(2)]] by simp
qed auto

lemma stale_link_is_stuck:
  "linked_ok s \<Longrightarrow> stale l s \<Longrightarrow> fresh_ids steps (fmdom' (ls_byID s)) \<Longrightarrow> stale l (link_run steps s)"
proof (induction steps s rule: link_run.induct)
  case (2 k steps s)
  have "fmdom' (ls_byID (link_Save k s)) = insert (la_ID k) (fmdom' (ls_byID s))" by (simp add: link_Save_def)
  moreover have "la_ID k \<notin> fmdom' (ls_byID s)" using "2.prems"(3) by simp
  ultimately show ?case
    using "2.IH"[OF linked_ok_Save[OF "2.prems"(1)] stale_step(1)[OF "2.prems"(1,2)]] "2.prems"(3) by simp
next
  case (3 u p x steps s)
  have "fresh_ids steps (fmdom' (ls_byID (UnlinkAccount u p x s)))"
    using "3.prems"(3) fresh_ids_mono[OF _ Unlink_ids] by simp
  then show ?case
    using "3.IH"[OF linked_ok_Unlink[OF "3.prems"(1)] stale_step(2)[OF "3.prems"(1,2)]] by simp
qed simp

lemma link_Save_ids: "fmdom' (ls_byID (link_Save l s)) = insert (la_ID l) (fmdom' (ls_byID s))"
  by (simp add: link_Save_def)

end
