(* ===== verification/OAuth_Policy.thy ===== *)
theory OAuth_Policy
  imports Profile_Map Linked_Accounts CSRF
begin

text \<open>
  \<open>oauth_provisioning.go\<close> (who a provider identity may sign in, and what a created account takes from
  the profile), with the errors of \<open>oauth_wire.go\<close> and their HTTP answers. The package keeps its OAuth
  errors as unexported values beside the sentinels of \<open>errors.go\<close>; \<open>AuthFailure\<close> is any error of the
  service underneath, \<open>ProfileFailure\<close> one of the profile expressions.
\<close>

section \<open>Errors\<close>

datatype oauth_error =
    errOAuthStateInvalid | errOAuthTokenExchange | errOAuthProfile | errStoreNotConfigured
  | errEmailRequired | errTokenRequired | errLinkTokenInvalid | errLinkTokenExpired
  | errLinkUnauthorized | errTargetUserNotFound
  | errOAuthEmailNotVerified | errOAuthEmailDomainNotAllowed | errOAuthUserNotProvisioned
  | oauthNotConfigured string
  | OAuthAccountConflict string string string
  | ProviderConfig string profile_error
  | ProfileFailure profile_error
  | BadProvisioning
  | AuthFailure error

type_synonym 'a oauth_result = "oauth_error + 'a"

definition providerLabel :: "string \<Rightarrow> string" where
  "providerLabel provider =
     (let p = to_lower (trim_space provider) in
      if p = ''google'' then ''Google'' else if p = ''github'' then ''GitHub'' else provider)"

text \<open>Errors outside the table fall to \<open>HTTPErrorFor\<close>; a conflict and a configuration error are none of
  its sentinels and answer as an internal error.\<close>

definition OAuthHTTPError :: "oauth_error \<Rightarrow> HTTPError" where
  "OAuthHTTPError err = (case err of
     oauthNotConfigured provider \<Rightarrow> http_error 404 (providerLabel provider @ '' OAuth not configured'') []
   | errOAuthStateInvalid \<Rightarrow> http_error 401 ''Invalid or expired OAuth state'' ''OAUTH_STATE_INVALID''
   | errOAuthTokenExchange \<Rightarrow> http_error 401 ''OAuth token exchange failed'' ''OAUTH_TOKEN_EXCHANGE_FAILED''
   | errOAuthProfile \<Rightarrow> http_error 401 ''Failed to get OAuth user profile'' ''OAUTH_PROFILE_FAILED''
   | errStoreNotConfigured \<Rightarrow> HTTPErrNotImplemented
   | errEmailRequired \<Rightarrow> http_error 400 ''email is required'' ''EMAIL_REQUIRED''
   | errTokenRequired \<Rightarrow> http_error 400 ''token is required'' ''TOKEN_REQUIRED''
   | errLinkTokenInvalid \<Rightarrow> http_error 400 ''Invalid account-link token'' ''INVALID_LINK_TOKEN''
   | errLinkTokenExpired \<Rightarrow> http_error 400 ''Account-link token has expired'' ''LINK_TOKEN_EXPIRED''
   | errLinkUnauthorized \<Rightarrow>
       http_error 401 ''Authentication required or no pending link found'' ''UNAUTHORIZED''
   | errTargetUserNotFound \<Rightarrow> http_error 404 ''Target user not found'' ''USER_NOT_FOUND''
   | errOAuthEmailNotVerified \<Rightarrow> http_error 403 ''OAuth email address is not verified'' ''OAUTH_EMAIL_NOT_VERIFIED''
   | errOAuthEmailDomainNotAllowed \<Rightarrow>
       http_error 403 ''OAuth email domain is not allowed'' ''OAUTH_EMAIL_DOMAIN_NOT_ALLOWED''
   | errOAuthUserNotProvisioned \<Rightarrow>
       http_error 403 ''No account is provisioned for this OAuth identity'' ''OAUTH_USER_NOT_PROVISIONED''
   | AuthFailure e \<Rightarrow> HTTPErrorFor (Some e)
   | _ \<Rightarrow> HTTPErrInternal)"

section \<open>The policy\<close>

definition OAuthEmailMatchLink :: string where "OAuthEmailMatchLink = ''link''"
definition OAuthEmailMatchConflict :: string where "OAuthEmailMatchConflict = ''conflict''"
definition OAuthEmailMatchReject :: string where "OAuthEmailMatchReject = ''reject''"

lemmas email_match_defs = OAuthEmailMatchLink_def OAuthEmailMatchConflict_def OAuthEmailMatchReject_def

record OAuthProvisioning =
  op_AutoCreate :: bool
  op_AllowedEmailDomains :: "string list"
  op_RequireVerifiedEmail :: bool
  op_OnEmailMatch :: string
  op_FieldMap :: "(string, string) fmap"

definition DefaultOAuthProvisioning :: OAuthProvisioning where
  "DefaultOAuthProvisioning = \<lparr>op_AutoCreate = True, op_AllowedEmailDomains = [],
     op_RequireVerifiedEmail = False, op_OnEmailMatch = OAuthEmailMatchLink, op_FieldMap = fmempty\<rparr>"

definition normalized :: "OAuthProvisioning \<Rightarrow> OAuthProvisioning" where
  "normalized p = (if op_OnEmailMatch p = [] then p\<lparr>op_OnEmailMatch := OAuthEmailMatchLink\<rparr> else p)"

definition normalizeEmailDomain :: "string \<Rightarrow> string" where
  "normalizeEmailDomain domain = trim_prefix ''@'' (to_lower (trim_space domain))"

definition emailDomainAllowed :: "string \<Rightarrow> string list \<Rightarrow> bool" where
  "emailDomainAllowed email domains =
     (if domains = [] then True
      else if CHR ''@'' \<notin> set email \<or> after_last (CHR ''@'') email = [] then False
      else (let got = to_lower (trim_space (after_last (CHR ''@'') email)) in
        list_ex (\<lambda>domain. let n = normalizeEmailDomain domain in n \<noteq> [] \<and> n = got) domains))"

definition admit :: "OAuthProvisioning \<Rightarrow> OAuthUserInfo \<Rightarrow> unit oauth_result" where
  "admit p info =
     (if op_RequireVerifiedEmail p \<and> oi_EmailVerified info \<noteq> Some True then Inl errOAuthEmailNotVerified
      else if \<not> emailDomainAllowed (oi_Email info) (op_AllowedEmailDomains p)
      then Inl errOAuthEmailDomainNotAllowed
      else Inr ())"

definition emailVerifiedOnCreate :: "OAuthUserInfo \<Rightarrow> bool" where
  "emailVerifiedOnCreate info \<longleftrightarrow> oi_EmailVerified info \<noteq> Some False"

section \<open>The field map\<close>

definition userFieldMapTargets :: "(string \<times> (User \<Rightarrow> string \<Rightarrow> User)) list" where
  "userFieldMapTargets =
     [(''firstName'', \<lambda>u v. u\<lparr>u_FirstName := v\<rparr>), (''lastName'', \<lambda>u v. u\<lparr>u_LastName := v\<rparr>),
      (''phoneNumber'', \<lambda>u v. u\<lparr>u_PhoneNumber := v\<rparr>), (''role'', \<lambda>u v. u\<lparr>u_Role := v\<rparr>)]"

text \<open>A setter is its target and its expression. The loop runs over the sorted fields.\<close>

type_synonym userFieldSetter = "(User \<Rightarrow> string \<Rightarrow> User) \<times> profileExpr"

fun compile_fields :: "(string, string) fmap \<Rightarrow> string list \<Rightarrow> userFieldSetter list \<Rightarrow>
    userFieldSetter list oauth_result" where
  "compile_fields m [] setters = Inr setters"
| "compile_fields m (field # names) setters = (case map_of userFieldMapTargets field of
     None \<Rightarrow> Inl BadProvisioning
   | Some put \<Rightarrow> (case compileProfileExpr (the (fmlookup m field)) of
       Inl e \<Rightarrow> Inl (ProfileFailure e)
     | Inr expr \<Rightarrow> compile_fields m names (setters @ [(put, expr)])))"

definition compileUserFieldMap :: "(string, string) fmap \<Rightarrow> userFieldSetter list oauth_result" where
  "compileUserFieldMap m = compile_fields m (range_keys m) []"

fun applyUserFieldMap :: "(string \<Rightarrow> string) \<Rightarrow> userFieldSetter list \<Rightarrow> json \<Rightarrow> User \<Rightarrow> User oauth_result" where
  "applyUserFieldMap num [] raw user = Inr user"
| "applyUserFieldMap num ((put, expr) # setters) raw user = (case eval expr raw of
     None \<Rightarrow> applyUserFieldMap num setters raw user
   | Some v \<Rightarrow> (case profileString num v of
       Inl e \<Rightarrow> Inl (ProfileFailure e)
     | Inr text \<Rightarrow> applyUserFieldMap num setters raw (put user text)))"

definition validate_provisioning :: "OAuthProvisioning \<Rightarrow> oauth_error option" where
  "validate_provisioning p =
     (if op_OnEmailMatch p \<notin> {[], OAuthEmailMatchLink, OAuthEmailMatchConflict, OAuthEmailMatchReject}
      then Some BadProvisioning
      else if list_ex (\<lambda>domain. normalizeEmailDomain domain = []) (op_AllowedEmailDomains p)
      then Some BadProvisioning
      else (case compileUserFieldMap (op_FieldMap p) of Inl e \<Rightarrow> Some e | Inr _ \<Rightarrow> None))"

section \<open>Laws\<close>

text \<open>What the field map may write: names, phone number and role, never an identity, a credential or the
  admin flag.\<close>

definition unmapped :: "User \<Rightarrow> User" where
  "unmapped u = u\<lparr>u_FirstName := [], u_LastName := [], u_PhoneNumber := [], u_Role := []\<rparr>"

lemma setters_unmapped:
  assumes "(n, put) \<in> set userFieldMapTargets"
  shows "unmapped (put u v) = unmapped u"
  using assms by (auto simp: userFieldMapTargets_def unmapped_def)

lemma compiled_targets:
  "compile_fields m names setters = Inr result \<Longrightarrow> \<forall>(put, e)\<in>set setters. put \<in> snd ` set userFieldMapTargets \<Longrightarrow>
   \<forall>(put, e)\<in>set result. put \<in> snd ` set userFieldMapTargets"
proof (induction m names setters rule: compile_fields.induct)
  case (2 m field names setters)
  obtain put expr where c: "map_of userFieldMapTargets field = Some put"
    "compileProfileExpr (the (fmlookup m field)) = Inr expr"
    "compile_fields m names (setters @ [(put, expr)]) = Inr result"
    using "2.prems"(1) by (auto split: option.splits sum.splits)
  have "put \<in> snd ` set userFieldMapTargets" using map_of_SomeD[OF c(1)] by force
  then show ?case using "2.IH"[OF c] "2.prems"(2) by auto
qed simp

lemma applied_unmapped:
  "applyUserFieldMap num setters raw u = Inr u' \<Longrightarrow> \<forall>(put, e)\<in>set setters. put \<in> snd ` set userFieldMapTargets \<Longrightarrow>
   unmapped u' = unmapped u"
proof (induction num setters raw u rule: applyUserFieldMap.induct)
  case (2 num put expr setters raw user)
  have put: "unmapped (put user t) = unmapped user" for t
    using "2.prems"(2) setters_unmapped[of _ put user t] by auto
  show ?case
  proof (cases "eval expr raw")
    case None
    then show ?thesis using 2 by simp
  next
    case (Some v)
    then obtain t where "profileString num v = Inr t" using "2.prems"(1) by (auto split: sum.splits)
    then show ?thesis using "2.IH"(2)[OF Some] "2.prems" Some put by auto
  qed
qed simp

lemma field_map_harmless:
  assumes "compileUserFieldMap m = Inr setters" "applyUserFieldMap num setters raw u = Inr u'"
  shows "unmapped u' = unmapped u"
  using applied_unmapped[OF assms(2)] compiled_targets[OF assms(1)[unfolded compileUserFieldMap_def]] by simp

lemma admit_verified: "admit p info = Inr () \<Longrightarrow> op_RequireVerifiedEmail p \<Longrightarrow> oi_EmailVerified info = Some True"
  by (auto simp: admit_def split: if_splits)

lemma admit_domain:
  assumes "admit p info = Inr ()" "op_AllowedEmailDomains p \<noteq> []"
  shows "\<exists>name domain. oi_Email info = name @ CHR ''@'' # domain \<and> CHR ''@'' \<notin> set domain \<and>
    to_lower (trim_space domain) \<in> normalizeEmailDomain ` set (op_AllowedEmailDomains p)"
proof -
  have "emailDomainAllowed (oi_Email info) (op_AllowedEmailDomains p)"
    using assms(1) by (auto simp: admit_def split: if_splits)
  then have a: "CHR ''@'' \<in> set (oi_Email info)"
    and "\<exists>d\<in>set (op_AllowedEmailDomains p).
      normalizeEmailDomain d = to_lower (trim_space (after_last (CHR ''@'') (oi_Email info)))"
    using assms(2) by (auto simp: emailDomainAllowed_def list_ex_iff Let_def split: if_splits)
  then have d: "to_lower (trim_space (after_last (CHR ''@'') (oi_Email info)))
      \<in> normalizeEmailDomain ` set (op_AllowedEmailDomains p)" by (metis image_eqI)
  obtain name domain where e: "oi_Email info = name @ CHR ''@'' # domain" "CHR ''@'' \<notin> set domain"
    using split_list_last[OF a] by blast
  then show ?thesis using d by (auto simp: after_last_at)
qed

end
