(* ===== verification/OAuth_Exchange.thy ===== *)
theory OAuth_Exchange
  imports OAuth_Policy Site_Links Token
begin

text \<open>
  \<open>oauth.go\<close>: the configured providers, the authorization URL, and the exchange of a code for a
  profile. The HTTP client is a parameter: a function of the number of calls made so far and the
  call, answering nothing (\<open>NoReply\<close>), a status and a body, or that the URL is no URL. The two ways a
  JSON number is written (\<open>jsNumberString\<close>, \<open>FormatFloat 'f'\<close>) and \<open>url.Parse\<close> of the authorization
  endpoint are parameters too. What JSON the library reads is decoded as \<open>encoding/json\<close> does.
\<close>

section \<open>Providers\<close>

record OAuthProvider =
  pr_Name :: string
  pr_ClientID :: string
  pr_ClientSecret :: string
  pr_RedirectURL :: string
  pr_AuthURL :: string
  pr_TokenURL :: string
  pr_UserInfoURL :: string
  pr_Scopes :: "string list"
  pr_AdditionalAuthParams :: "(string, string) fmap"
  pr_GitHubEmailsURL :: string
  pr_MapProfile :: "(nat \<Rightarrow> json \<Rightarrow> error + OAuthUserInfo) option"
  pr_ProfileMap :: "(string, string) fmap"

record OAuthService =
  sv_providers :: "(string, OAuthProvider) fmap"
  sv_profileMaps :: "(string, json \<Rightarrow> OAuthUserInfo profile_result) fmap"
  sv_providerErrs :: "(string, oauth_error) fmap"

text \<open>One turn of the loop of \<open>newOAuthService\<close>.\<close>

definition add_provider :: "(string \<Rightarrow> string) \<Rightarrow> OAuthProvider \<Rightarrow> OAuthService \<Rightarrow> OAuthService" where
  "add_provider num p s =
     (let s = s\<lparr>sv_providers := fmupd (pr_Name p) p (sv_providers s),
                sv_profileMaps := fmdrop (pr_Name p) (sv_profileMaps s),
                sv_providerErrs := fmdrop (pr_Name p) (sv_providerErrs s)\<rparr> in
      if pr_ProfileMap p = fmempty then s
      else case CompileProfileMap num (pr_ProfileMap p) of
        Inl e \<Rightarrow> s\<lparr>sv_providerErrs := fmupd (pr_Name p) (ProviderConfig (pr_Name p) e) (sv_providerErrs s)\<rparr>
      | Inr mapper \<Rightarrow> s\<lparr>sv_profileMaps := fmupd (pr_Name p) mapper (sv_profileMaps s)\<rparr>)"

text \<open>The service, and the errors of its providers in the order of their names.\<close>

definition newOAuthService :: "(string \<Rightarrow> string) \<Rightarrow> OAuthProvider list \<Rightarrow> OAuthService \<times> oauth_error list" where
  "newOAuthService num ps =
     (let s = fold (add_provider num) ps
        \<lparr>sv_providers = fmempty, sv_profileMaps = fmempty, sv_providerErrs = fmempty\<rparr>
      in (s, range_values (sv_providerErrs s)))"

definition NewOAuthServiceWithConfig :: "(string \<Rightarrow> string) \<Rightarrow> OAuthProvider list \<Rightarrow> oauth_error list + OAuthService" where
  "NewOAuthServiceWithConfig num ps = (case newOAuthService num ps of
     (s, errs) \<Rightarrow> if errs \<noteq> [] then Inl errs else Inr s)"

definition Has :: "OAuthService option \<Rightarrow> string \<Rightarrow> bool" where
  "Has s name = (case s of None \<Rightarrow> False | Some sv \<Rightarrow> name \<in> fmdom' (sv_providers sv))"

definition GoogleProvider :: "string \<Rightarrow> string \<Rightarrow> string \<Rightarrow> OAuthProvider" where
  "GoogleProvider clientID clientSecret redirectURL = \<lparr>pr_Name = ''google'', pr_ClientID = clientID,
     pr_ClientSecret = clientSecret, pr_RedirectURL = redirectURL,
     pr_AuthURL = ''https://accounts.google.com/o/oauth2/v2/auth'',
     pr_TokenURL = ''https://oauth2.googleapis.com/token'',
     pr_UserInfoURL = ''https://www.googleapis.com/oauth2/v3/userinfo'',
     pr_Scopes = [''openid'', ''email'', ''profile''],
     pr_AdditionalAuthParams = fmap_of_list [(''access_type'', ''offline'')],
     pr_GitHubEmailsURL = [], pr_MapProfile = None, pr_ProfileMap = fmempty\<rparr>"

definition GitHubProvider :: "string \<Rightarrow> string \<Rightarrow> string \<Rightarrow> OAuthProvider" where
  "GitHubProvider clientID clientSecret redirectURL = \<lparr>pr_Name = ''github'', pr_ClientID = clientID,
     pr_ClientSecret = clientSecret, pr_RedirectURL = redirectURL,
     pr_AuthURL = ''https://github.com/login/oauth/authorize'',
     pr_TokenURL = ''https://github.com/login/oauth/access_token'',
     pr_UserInfoURL = ''https://api.github.com/user'', pr_Scopes = [''user:email''],
     pr_AdditionalAuthParams = fmempty,
     pr_GitHubEmailsURL = ''https://api.github.com/user/emails'', pr_MapProfile = None,
     pr_ProfileMap = fmempty\<rparr>"

section \<open>The authorization URL\<close>

text \<open>A query is \<open>url.Values\<close>: every key with its values. \<open>parse\<close> gives the query of the endpoint and
  how the URL is written with another.\<close>

type_synonym url_values = "(string, string list) fmap"
type_synonym endpoint_parser = "string \<Rightarrow> (url_values \<times> (url_values \<Rightarrow> string)) option"

definition set_param :: "string \<Rightarrow> string \<Rightarrow> url_values \<Rightarrow> url_values" where
  "set_param k v q = fmupd k [v] q"

definition authorize_query :: "OAuthProvider \<Rightarrow> string \<Rightarrow> string \<Rightarrow> url_values \<Rightarrow> url_values" where
  "authorize_query p state codeChallenge q =
     (let q = set_param ''client_id'' (pr_ClientID p) q;
          q = set_param ''redirect_uri'' (pr_RedirectURL p) q;
          q = set_param ''response_type'' ''code'' q;
          q = set_param ''scope'' (join '' '' (pr_Scopes p)) q;
          q = fold (\<lambda>(k, v). set_param k v) (sorted_list_of_fmap (pr_AdditionalAuthParams p)) q;
          q = set_param ''state'' state q
      in if codeChallenge \<noteq> []
         then set_param ''code_challenge_method'' ''S256'' (set_param ''code_challenge'' codeChallenge q)
         else q)"

definition AuthorizeURLPKCE ::
  "endpoint_parser \<Rightarrow> OAuthService \<Rightarrow> string \<Rightarrow> string \<Rightarrow> string \<Rightarrow> string oauth_result" where
  "AuthorizeURLPKCE parse s providerName state codeChallenge = (case fmlookup (sv_providers s) providerName of
     None \<Rightarrow> Inl (AuthFailure (Message ''auth: unknown oauth provider''))
   | Some p \<Rightarrow> (case parse (pr_AuthURL p) of
       None \<Rightarrow> Inl (AuthFailure (Message ''parse''))
     | Some (q, write) \<Rightarrow> Inr (write (authorize_query p state codeChallenge q))))"

section \<open>The HTTP calls\<close>

datatype oauth_call =
    TokenCall string string
  | UserInfoCall string string
  | EmailsCall string string

datatype reply = BadURL | NoReply | Reply int string

record oauth_io =
  io_http :: "nat \<Rightarrow> oauth_call \<Rightarrow> reply"
  io_js :: "string \<Rightarrow> string"
  io_plain :: "string \<Rightarrow> string"

text \<open>\<open>url.Values.Encode\<close> of single values: sorted by key.\<close>

definition form_encode :: "(string, string) fmap \<Rightarrow> string" where
  "form_encode m = join ''&'' (map (\<lambda>(k, v). query_escape k @ ''='' @ query_escape v) (sorted_list_of_fmap m))"

definition token_form :: "OAuthProvider \<Rightarrow> string \<Rightarrow> string \<Rightarrow> (string, string) fmap" where
  "token_form p code codeVerifier =
     (let data = fmap_of_list [(''grant_type'', ''authorization_code''), (''code'', code),
        (''redirect_uri'', pr_RedirectURL p), (''client_id'', pr_ClientID p),
        (''client_secret'', pr_ClientSecret p)]
      in if codeVerifier \<noteq> [] then fmupd ''code_verifier'' codeVerifier data else data)"

text \<open>A JSON object decoded into a struct: the members that land in a field, in document order.\<close>

definition field_values :: "string list \<Rightarrow> string \<Rightarrow> (string \<times> json) list \<Rightarrow> json list" where
  "field_values names f kvs = map snd (filter (\<lambda>kv. struct_field names (fst kv) = Some f) kvs)"

definition decode_bool :: "json \<Rightarrow> bool \<Rightarrow> bool option" where
  "decode_bool v old = (case v of JBool b \<Rightarrow> Some b | JNull \<Rightarrow> Some old | _ \<Rightarrow> None)"

definition token_fields :: "string list" where "token_fields = [''access_token'', ''error'']"

text \<open>The token response: access token and error.\<close>

definition decode_token :: "string \<Rightarrow> (string \<times> string) option" where
  "decode_token body = do {
     v \<leftarrow> json_parse body;
     kvs \<leftarrow> object_members v;
     t \<leftarrow> decode_each decode_string (field_values token_fields ''access_token'' kvs) [];
     e \<leftarrow> decode_each decode_string (field_values token_fields ''error'' kvs) [];
     Some (t, e)
   }"

definition email_fields :: "string list" where "email_fields = [''email'', ''primary'', ''verified'']"

definition decode_email_entry :: "json \<Rightarrow> (string \<times> bool \<times> bool) option" where
  "decode_email_entry v = do {
     kvs \<leftarrow> object_members v;
     e \<leftarrow> decode_each decode_string (field_values email_fields ''email'' kvs) [];
     p \<leftarrow> decode_each decode_bool (field_values email_fields ''primary'' kvs) False;
     c \<leftarrow> decode_each decode_bool (field_values email_fields ''verified'' kvs) False;
     Some (e, p, c)
   }"

definition decode_emails :: "string \<Rightarrow> (string \<times> bool \<times> bool) list option" where
  "decode_emails body = do {
     v \<leftarrow> json_parse body;
     (case v of JArr vs \<Rightarrow> those (map decode_email_entry vs) | JNull \<Rightarrow> Some [] | _ \<Rightarrow> None)
   }"

section \<open>Profiles\<close>

definition string_member :: "json \<Rightarrow> string \<Rightarrow> string" where
  "string_member raw k = (case raw of
     JObj kvs \<Rightarrow> (case last_member k kvs of Some (JStr s) \<Rightarrow> s | _ \<Rightarrow> [])
   | _ \<Rightarrow> [])"

definition raw_member :: "json \<Rightarrow> string \<Rightarrow> json option" where
  "raw_member raw k = (case raw of JObj kvs \<Rightarrow> last_member k kvs | _ \<Rightarrow> None)"

definition subjectID :: "(string \<Rightarrow> string) \<Rightarrow> json option \<Rightarrow> string" where
  "subjectID plain v = (case v of Some (JStr s) \<Rightarrow> s | Some (JNum n) \<Rightarrow> plain n | _ \<Rightarrow> [])"

definition optionalBool :: "json option \<Rightarrow> bool option" where
  "optionalBool v = (case v of Some (JBool b) \<Rightarrow> Some b | _ \<Rightarrow> None)"

definition githubEmailsURL :: "OAuthProvider \<Rightarrow> string" where
  "githubEmailsURL p = (if pr_GitHubEmailsURL p \<noteq> [] then pr_GitHubEmailsURL p
     else trim_suffix ''/'' (pr_UserInfoURL p) @ ''/emails'')"

definition choose_email :: "(string \<times> bool \<times> bool) list \<Rightarrow> string \<times> bool option" where
  "choose_email entries =
     (case (case find (\<lambda>(e, primary, verified). primary \<and> verified) entries of
              Some x \<Rightarrow> Some x | None \<Rightarrow> (case entries of [] \<Rightarrow> None | x # _ \<Rightarrow> Some x)) of
        None \<Rightarrow> ([], None) | Some (e, primary, verified) \<Rightarrow> (e, Some verified))"

definition githubEmailFallback :: "oauth_io \<Rightarrow> OAuthProvider \<Rightarrow> string \<Rightarrow> nat \<Rightarrow> (string \<times> bool option) \<times> nat" where
  "githubEmailFallback io p accessToken k =
     (case io_http io k (EmailsCall (githubEmailsURL p) accessToken) of
        Reply status body \<Rightarrow>
          if status \<ge> 400 then ([], None)
          else (case decode_emails body of None \<Rightarrow> ([], None) | Some entries \<Rightarrow> choose_email entries)
      | _ \<Rightarrow> ([], None), Suc k)"

definition defaultProfile :: "oauth_io \<Rightarrow> OAuthProvider \<Rightarrow> string \<Rightarrow> json \<Rightarrow> nat \<Rightarrow> OAuthUserInfo \<times> nat" where
  "defaultProfile io p accessToken raw k =
     (let info = (empty_info raw)\<lparr>oi_Provider := pr_Name p\<rparr> in
      if pr_Name p = ''google'' then
        (info\<lparr>oi_ProviderID := string_member raw ''sub'', oi_Email := string_member raw ''email'',
              oi_Name := string_member raw ''name'', oi_AvatarURL := string_member raw ''picture'',
              oi_EmailVerified := optionalBool (raw_member raw ''email_verified'')\<rparr>, k)
      else if pr_Name p = ''github'' then
        (let info = info\<lparr>oi_ProviderID := subjectID (io_plain io) (raw_member raw ''id''),
               oi_Email := string_member raw ''email'',
               oi_Name := (if string_member raw ''name'' = [] then string_member raw ''login''
                           else string_member raw ''name''),
               oi_AvatarURL := string_member raw ''avatar_url''\<rparr> in
         if oi_Email info = [] then
           (case githubEmailFallback io p accessToken k of ((e, verified), k') \<Rightarrow>
              (info\<lparr>oi_Email := e, oi_EmailVerified := verified\<rparr>, k'))
         else (info, k))
      else
        (let ids = map (\<lambda>n. subjectID (io_plain io) (raw_member raw n)) [''id'', ''sub'', ''user_id''] in
         (info\<lparr>oi_ProviderID := (case find (\<lambda>v. v \<noteq> []) ids of None \<Rightarrow> [] | Some v \<Rightarrow> v),
               oi_Email := string_member raw ''email'', oi_Name := string_member raw ''name'',
               oi_AvatarURL := string_member raw ''avatar_url'',
               oi_EmailVerified := optionalBool (raw_member raw ''email_verified'')\<rparr>, k)))"

text \<open>\<open>Raw\<close> is filled in when the mapping left it nil.\<close>

definition named_info :: "OAuthProvider \<Rightarrow> json \<Rightarrow> OAuthUserInfo \<Rightarrow> OAuthUserInfo" where
  "named_info p raw info =
     info\<lparr>oi_Provider := pr_Name p, oi_Raw := (if oi_Raw info = JNull then raw else oi_Raw info)\<rparr>"

definition mapProfile :: "oauth_io \<Rightarrow> OAuthService \<Rightarrow> OAuthProvider \<Rightarrow> string \<Rightarrow> json \<Rightarrow> nat \<Rightarrow>
    OAuthUserInfo option \<times> nat" where
  "mapProfile io s p accessToken raw k = (case pr_MapProfile p of
     Some mapHook \<Rightarrow> (case mapHook k raw of
       Inl e \<Rightarrow> (None, Suc k) | Inr info \<Rightarrow> (Some (named_info p raw info), Suc k))
   | None \<Rightarrow> (case fmlookup (sv_profileMaps s) (pr_Name p) of
       Some mapper \<Rightarrow> (case mapper raw of
         Inl e \<Rightarrow> (None, k) | Inr info \<Rightarrow> (Some (named_info p raw info), k))
     | None \<Rightarrow> (case defaultProfile io p accessToken raw k of
         (info, k') \<Rightarrow> (Some (named_info p raw info), k'))))"

section \<open>The exchange\<close>

definition bad_url :: oauth_error where "bad_url = AuthFailure (Message ''parse'')"

definition ExchangeCodePKCE :: "oauth_io \<Rightarrow> OAuthService \<Rightarrow> string \<Rightarrow> string \<Rightarrow> string \<Rightarrow> nat \<Rightarrow>
    OAuthUserInfo oauth_result \<times> nat" where
  "ExchangeCodePKCE io s providerName code codeVerifier k = (case fmlookup (sv_providers s) providerName of
     None \<Rightarrow> (Inl (AuthFailure (Message ''auth: unknown oauth provider'')), k)
   | Some p \<Rightarrow> (case fmlookup (sv_providerErrs s) providerName of
       Some e \<Rightarrow> (Inl e, k)
     | None \<Rightarrow> (case io_http io k (TokenCall (pr_TokenURL p) (form_encode (token_form p code codeVerifier))) of
         BadURL \<Rightarrow> (Inl bad_url, Suc k)
       | NoReply \<Rightarrow> (Inl errOAuthTokenExchange, Suc k)
       | Reply status body \<Rightarrow>
           if status \<ge> 400 then (Inl errOAuthTokenExchange, Suc k)
           else (case decode_token body of
             None \<Rightarrow> (Inl errOAuthTokenExchange, Suc k)
           | Some (accessToken, err) \<Rightarrow>
               if err \<noteq> [] \<or> accessToken = [] then (Inl errOAuthTokenExchange, Suc k)
               else (case io_http io (Suc k) (UserInfoCall (pr_UserInfoURL p) accessToken) of
                 BadURL \<Rightarrow> (Inl bad_url, Suc (Suc k))
               | NoReply \<Rightarrow> (Inl errOAuthProfile, Suc (Suc k))
               | Reply ustatus ubody \<Rightarrow>
                   if ustatus \<ge> 400 then (Inl errOAuthProfile, Suc (Suc k))
                   else (case json_parse ubody of
                     None \<Rightarrow> (Inl errOAuthProfile, Suc (Suc k))
                   | Some raw \<Rightarrow>
                       if object_members raw = None then (Inl errOAuthProfile, Suc (Suc k))
                       else (case mapProfile io s p accessToken raw (Suc (Suc k)) of
                         (None, k') \<Rightarrow> (Inl errOAuthProfile, k')
                       | (Some info, k') \<Rightarrow> (Inr info, k'))))))))"

section \<open>Laws\<close>

lemma set_param_lookup: "fmlookup (set_param k v q) k' = (if k = k' then Some [v] else fmlookup q k')"
  by (simp add: set_param_def)

text \<open>No configured parameter reaches the state or the code challenge.\<close>

lemma authorize_query_binding:
  assumes "codeChallenge \<noteq> []"
  shows "fmlookup (authorize_query p state codeChallenge q) ''state'' = Some [state]"
    "fmlookup (authorize_query p state codeChallenge q) ''code_challenge'' = Some [codeChallenge]"
    "fmlookup (authorize_query p state codeChallenge q) ''code_challenge_method'' = Some [''S256'']"
  unfolding authorize_query_def Let_def if_P[OF assms] set_param_lookup by simp_all

text \<open>The providers' own mappings decide the profile; the provider's name is never theirs to choose.\<close>

lemma ExchangeCodePKCE_provider:
  assumes "ExchangeCodePKCE io s name code verifier k = (Inr info, k')"
  shows "\<exists>p. fmlookup (sv_providers s) name = Some p \<and> oi_Provider info = pr_Name p \<and>
    fmlookup (sv_providerErrs s) name = None"
  using assms
  by (auto simp: ExchangeCodePKCE_def mapProfile_def named_info_def
      split: option.splits reply.splits prod.splits if_splits sum.splits)

text \<open>A profile is what the provider's own endpoint answered to the access token its token endpoint gave for the
  code.\<close>

lemma ExchangeCodePKCE_calls:
  assumes "ExchangeCodePKCE io s name code verifier k = (Inr info, k')"
  shows "\<exists>p status body token ustatus ubody raw. fmlookup (sv_providers s) name = Some p \<and>
    io_http io k (TokenCall (pr_TokenURL p) (form_encode (token_form p code verifier))) = Reply status body \<and>
    status < 400 \<and> decode_token body = Some (token, []) \<and> token \<noteq> [] \<and>
    io_http io (Suc k) (UserInfoCall (pr_UserInfoURL p) token) = Reply ustatus ubody \<and> ustatus < 400 \<and>
    json_parse ubody = Some raw \<and> fst (mapProfile io s p token raw (Suc (Suc k))) = Some info"
  using assms
  by (auto simp: ExchangeCodePKCE_def not_le split: option.splits reply.splits prod.splits if_splits)

lemma ExchangeCodePKCE_advances:
  "k \<le> snd (ExchangeCodePKCE io s name code verifier k)"
proof -
  have d: "j \<le> snd (defaultProfile io p t raw j)" for p t raw j
    by (simp add: defaultProfile_def githubEmailFallback_def Let_def split: prod.splits)
  have m: "j \<le> snd (mapProfile io s p t raw j)" for p t raw j
    using d[of j p t raw] by (auto simp: mapProfile_def split: option.split sum.split prod.split)
  have mapped: "snd (case x of (None, k') \<Rightarrow> (Inl e, k') | (Some i, k') \<Rightarrow> (Inr i, k')) = snd x"
    for x :: "OAuthUserInfo option \<times> nat" and e :: oauth_error
    by (simp split: prod.split option.split)
  have "k \<le> snd (mapProfile io s p t raw (Suc (Suc k)))" for p t raw
    using m[of "Suc (Suc k)" p t raw] by linarith
  then show ?thesis
    by (simp add: ExchangeCodePKCE_def mapped split: option.split reply.split prod.split)
qed

definition providers_named :: "OAuthService \<Rightarrow> bool" where
  "providers_named s \<longleftrightarrow> fmpred (\<lambda>n p. pr_Name p = n) (sv_providers s)"

lemma add_provider_names: "providers_named s \<Longrightarrow> providers_named (add_provider num p s)"
  by (auto simp: providers_named_def add_provider_def Let_def intro!: fmpred_upd split: sum.split)

lemma newOAuthService_names: "providers_named (fst (newOAuthService num ps))"
proof -
  have "providers_named s \<Longrightarrow> providers_named (fold (add_provider num) ps s)" for s
    by (induction ps arbitrary: s) (simp_all add: add_provider_names)
  then show ?thesis by (simp add: newOAuthService_def Let_def providers_named_def)
qed

text \<open>GitHub: only an address GitHub calls both primary and verified takes precedence, and the claim of
  verification is the chosen entry's own.\<close>

lemma choose_email_claim:
  "choose_email entries = (e, Some True) \<Longrightarrow> \<exists>primary. (e, primary, True) \<in> set entries"
  by (auto simp: choose_email_def find_Some_iff split: option.splits list.splits prod.splits) (metis nth_mem)

end
