(* ===== verification/OAuth_State.thy ===== *)
theory OAuth_State
  imports OAuth_Exchange Http_Request
begin

text \<open>
  The signed login state of \<open>oauth_wire.go\<close>: how it is written and read back, the PKCE pair derived
  from its nonce, and the keys under which the flow stashes its entries.
\<close>

section \<open>State\<close>

definition marshal_state :: "oauthState \<Rightarrow> string" where
  "marshal_state st = json_print (JObj (
     [(''n'', JStr (os_N st))] @
     (if os_O st \<noteq> [] then [(''o'', JStr (os_O st))] else []) @
     (if os_P st \<noteq> [] then [(''p'', JStr (os_P st))] else []) @
     [(''t'', JNum (decimal (os_T st)))]))"

definition encodeOAuthState :: "crypto \<Rightarrow> oauthState \<Rightarrow> string \<Rightarrow> string" where
  "encodeOAuthState c st secret =
     (let encoded = base64url_encode (marshal_state st) in encoded @ ''.'' @ sign c encoded secret)"

definition state_fields :: "string list" where "state_fields = [''n'', ''o'', ''p'', ''t'']"

definition unmarshal_state :: "string \<Rightarrow> oauthState option" where
  "unmarshal_state raw = do {
     v \<leftarrow> json_parse raw;
     kvs \<leftarrow> object_members v;
     n \<leftarrow> decode_each decode_string (field_values state_fields ''n'' kvs) [];
     origin \<leftarrow> decode_each decode_string (field_values state_fields ''o'' kvs) [];
     path \<leftarrow> decode_each decode_string (field_values state_fields ''p'' kvs) [];
     issued \<leftarrow> decode_each decode_int64 (field_values state_fields ''t'' kvs) 0;
     Some \<lparr>os_N = n, os_O = origin, os_P = path, os_T = issued\<rparr>
   }"

text \<open>\<open>since\<close> and \<open>until\<close> are the instants at which \<open>time.Since\<close> and \<open>time.Until\<close> read the clock.\<close>

definition decodeOAuthState ::
  "crypto \<Rightarrow> string \<Rightarrow> string \<Rightarrow> duration \<Rightarrow> time \<Rightarrow> time \<Rightarrow> oauthState oauth_result" where
  "decodeOAuthState c raw secret ttl since until = (case cut_at (CHR ''.'') (trim_space raw) of
     None \<Rightarrow> Inl errOAuthStateInvalid
   | Some (encoded, signature) \<Rightarrow>
       if encoded = [] \<or> signature = [] then Inl errOAuthStateInvalid
       else if \<not> secureEqual signature (sign c encoded secret) then Inl errOAuthStateInvalid
       else (case base64url_decode encoded of
         None \<Rightarrow> Inl errOAuthStateInvalid
       | Some payload \<Rightarrow> (case unmarshal_state payload of
           None \<Rightarrow> Inl errOAuthStateInvalid
         | Some state \<Rightarrow>
             if os_N state = [] then Inl errOAuthStateInvalid
             else if ttl > 0 \<and> (os_T state = 0 \<or> since - unix_time (os_T state) > ttl \<or>
                  unix_time (os_T state) - until > minute)
             then Inl errOAuthStateInvalid
             else Inr state)))"

section \<open>PKCE and keys\<close>

definition pkceVerifier :: "crypto \<Rightarrow> string \<Rightarrow> string \<Rightarrow> string" where
  "pkceVerifier c secret nonce = sign c (''pkce'' @ [CHR 0x00] @ nonce) secret"

definition pkceChallengeS256 :: "crypto \<Rightarrow> string \<Rightarrow> string" where
  "pkceChallengeS256 c verifier = base64url_encode (c_sha256 c verifier)"

definition oauthStateKey :: "string \<Rightarrow> string" where
  "oauthStateKey nonce = ''oauth-state:'' @ nonce"

definition linkTokenKey :: "crypto \<Rightarrow> string \<Rightarrow> string" where
  "linkTokenKey c token = ''link-token:'' @ hashToken c token"

definition pendingLinkKey :: "string \<Rightarrow> string \<Rightarrow> string" where
  "pendingLinkKey email provider =
     ''pending-link:'' @ normalizeEmail email @ ''|'' @ to_lower (trim_space provider)"

section \<open>Laws\<close>

lemma keys_apart:
  "oauthStateKey n \<noteq> linkTokenKey c t" "oauthStateKey n \<noteq> pendingLinkKey e p" "linkTokenKey c t \<noteq> pendingLinkKey e p"
  by (simp_all add: oauthStateKey_def linkTokenKey_def pendingLinkKey_def)

text \<open>A state is accepted only if it carries the MAC of its payload under the secret, and is young.\<close>

lemma decoded_state_signed:
  assumes "decodeOAuthState c raw secret ttl since until = Inr st"
  shows "\<exists>encoded payload. trim_space raw = encoded @ ''.'' @ sign c encoded secret \<and>
    base64url_decode encoded = Some payload \<and> unmarshal_state payload = Some st \<and> os_N st \<noteq> [] \<and>
    (ttl > 0 \<longrightarrow> since \<le> unix_time (os_T st) + ttl)"
proof -
  obtain encoded signature payload where d: "cut_at (CHR ''.'') (trim_space raw) = Some (encoded, signature)"
    "secureEqual signature (sign c encoded secret)" "base64url_decode encoded = Some payload"
    "unmarshal_state payload = Some st" "os_N st \<noteq> []"
    "\<not> (ttl > 0 \<and> (os_T st = 0 \<or> since - unix_time (os_T st) > ttl \<or> unix_time (os_T st) - until > minute))"
    using assms unfolding decodeOAuthState_def by (auto split: option.splits prod.splits if_splits)
  then show ?thesis using cut_at_Some[OF d(1)] by (auto simp: secureEqual_def)
qed

lemma state_round_trip_json:
  assumes "valid_utf8 (os_N st)" "valid_utf8 (os_O st)" "valid_utf8 (os_P st)" "is_int64 (os_T st)"
  shows "unmarshal_state (marshal_state st) = Some st"
proof -
  let ?kvs = "[(''n'', JStr (os_N st))] @ (if os_O st \<noteq> [] then [(''o'', JStr (os_O st))] else []) @
     (if os_P st \<noteq> [] then [(''p'', JStr (os_P st))] else []) @ [(''t'', JNum (decimal (os_T st)))]"
  have names: "valid_utf8 ''n''" "valid_utf8 ''o''" "valid_utf8 ''p''" "valid_utf8 ''t''"
    by (simp_all add: ascii_valid)
  have sorted: "''n'' \<le> ''o''" "''o'' \<le> ''p''" "''p'' \<le> ''t''" "''n'' \<le> ''p''" "''n'' \<le> ''t''" "''o'' \<le> ''t''"
    by code_simp+
  have "clean (JObj ?kvs)" using assms names sorted decimal_literal by simp
  moreover have "depth (JObj ?kvs) \<le> max_nesting" by (simp add: max_nesting_def)
  ultimately have "json_parse (marshal_state st) = Some (JObj ?kvs)"
    unfolding marshal_state_def by (rule json_round_trip)
  then show ?thesis using assms(4)
    by (auto simp: unmarshal_state_def object_members_def field_values_def state_fields_def struct_field_def
        decode_string_def decode_int64_def parse_int64_decimal)
qed

lemma state_text: "trim_space (encodeOAuthState c st secret) = encodeOAuthState c st secret"
proof (rule trim_space_within)
  show "list_all (\<lambda>w. \<not> list_all (\<lambda>c. c \<in> set (CHR ''.'' # b64_alphabet)) w) white_space" by code_simp
  show "set (encodeOAuthState c st secret) \<subseteq> set (CHR ''.'' # b64_alphabet)"
    using base64url_encode_chars by (fastforce simp: encodeOAuthState_def Let_def sign_def)
qed

lemma cut_at_first: "c \<notin> set a \<Longrightarrow> cut_at c (a @ c # b) = Some (a, b)"
  by (induction a) auto

lemma state_round_trip:
  assumes "valid_utf8 (os_N st)" "valid_utf8 (os_O st)" "valid_utf8 (os_P st)" "is_int64 (os_T st)"
    and "os_N st \<noteq> []" "os_T st \<noteq> 0" "c_hmac_sha256 c secret (base64url_encode (marshal_state st)) \<noteq> []"
    and "since \<le> unix_time (os_T st) + ttl" "unix_time (os_T st) \<le> until + minute"
  shows "decodeOAuthState c (encodeOAuthState c st secret) secret ttl since until = Inr st"
proof -
  let ?e = "base64url_encode (marshal_state st)"
  have cut: "cut_at (CHR ''.'') (trim_space (encodeOAuthState c st secret)) = Some (?e, sign c ?e secret)"
    using cut_at_first[OF base64url_no_dot] unfolding state_text by (simp add: encodeOAuthState_def Let_def)
  have "marshal_state st \<noteq> []" by (simp add: marshal_state_def)
  moreover have "base64url_encode bs \<noteq> []" if "bs \<noteq> []" for bs
    using that length_base64url_encode[of bs] by (cases bs) auto
  ultimately have ne: "?e \<noteq> []" "sign c ?e secret \<noteq> []" using assms(7) by (auto simp: sign_def)
  show ?thesis
    using assms(5,6,8,9) ne
    by (simp add: decodeOAuthState_def cut base64url_round_trip state_round_trip_json[OF assms(1-4)] secureEqual_def)
qed

end
