(* ===== verification/OAuth_Flow.thy ===== *)
theory OAuth_Flow
  imports OAuth_State Service_Account
begin

text \<open>
  The OAuth calls of \<open>oauth.go\<close> and \<open>oauth_wire.go\<close>: from the redirect to a provider to the session,
  and the confirmation by mail that links a provider account to an existing user. A call acts on the
  service's world and on the two OAuth stores; what is fixed at construction (the wiring, the HTTP
  client, the parsers) is in \<open>oauth_env\<close>. Only the in-memory stores are modelled, whose writes never
  fail.
\<close>

section \<open>Environment, state and sequencing\<close>

record LinkTokenDelivery =
  lt_Email :: string
  lt_Provider :: string
  lt_Token :: string
  lt_URL :: string
  lt_EmailLang :: string

text \<open>\<open>oe_wired\<close>: \<open>WithOAuth\<close> was used; \<open>oe_has_links\<close>, \<open>oe_has_pending\<close>: the optional stores are set.\<close>

record oauth_env =
  oe_env :: env
  oe_wired :: bool
  oe_service :: "OAuthService option"
  oe_has_links :: bool
  oe_has_pending :: bool
  oe_siteURLs :: "string list"
  oe_AllowedOrigins :: "string list"
  oe_SiteURL :: string
  oe_TenantID :: string
  oe_Provisioning :: "OAuthProvisioning option"
  oe_StateTTL :: duration
  oe_LinkTokenTTL :: duration
  oe_DeliverLinkToken :: "(nat \<Rightarrow> LinkTokenDelivery \<Rightarrow> error option) option"
  oe_io :: oauth_io
  oe_endpoint :: endpoint_parser
  oe_url :: url_parser

record oauth_world =
  ow_world :: world
  ow_links :: MemoryLinkedAccounts
  ow_pending :: MemoryPendingLinks
  ow_mails :: "LinkTokenDelivery list"

type_synonym 'a oaction = "oauth_world \<Rightarrow> 'a oauth_result \<times> oauth_world"

definition oret :: "'a \<Rightarrow> 'a oaction" where
  "oret x w = (Inr x, w)"

definition ofail :: "oauth_error \<Rightarrow> 'a oaction" where
  "ofail e w = (Inl e, w)"

definition odo :: "'a oaction \<Rightarrow> ('a \<Rightarrow> 'b oaction) \<Rightarrow> 'b oaction" where
  "odo m f w = (case m w of (Inl e, w') \<Rightarrow> (Inl e, w') | (Inr x, w') \<Rightarrow> f x w')"

definition otry :: "'a oaction \<Rightarrow> 'a oauth_result oaction" where
  "otry m w = (case m w of (r, w') \<Rightarrow> (Inr r, w'))"

text \<open>A step of the service underneath; its error, if any, is passed on.\<close>

definition lift :: "'a action \<Rightarrow> 'a oaction" where
  "lift m w = (case m (ow_world w) of
     (Inl e, w') \<Rightarrow> (Inl (AuthFailure e), w\<lparr>ow_world := w'\<rparr>)
   | (Inr x, w') \<Rightarrow> (Inr x, w\<lparr>ow_world := w'\<rparr>))"

definition oreturn :: "'a oauth_result \<Rightarrow> 'a oaction" where
  "oreturn r w = (r, w)"

definition links_get :: "(MemoryLinkedAccounts \<Rightarrow> 'a) \<Rightarrow> 'a oaction" where
  "links_get f w = (Inr (f (ow_links w)), w)"

definition links_do :: "(MemoryLinkedAccounts \<Rightarrow> MemoryLinkedAccounts) \<Rightarrow> unit oaction" where
  "links_do f w = (Inr (), w\<lparr>ow_links := f (ow_links w)\<rparr>)"

text \<open>The stash reads its own clock.\<close>

definition stash_save :: "oauth_env \<Rightarrow> string \<Rightarrow> OAuthPendingMeta \<Rightarrow> duration \<Rightarrow> unit oaction" where
  "stash_save v key meta ttl = odo (lift (wall (oe_env v))) (\<lambda>now. \<lambda>w.
     (Inr (), w\<lparr>ow_pending := pending_Save now key meta ttl (ow_pending w)\<rparr>))"

definition stash_get :: "oauth_env \<Rightarrow> string \<Rightarrow> OAuthPendingMeta option oaction" where
  "stash_get v key = odo (lift (wall (oe_env v))) (\<lambda>now. \<lambda>w.
     (case pending_Get now key (ow_pending w) of (m, s) \<Rightarrow> (Inr m, w\<lparr>ow_pending := s\<rparr>)))"

definition stash_delete :: "string \<Rightarrow> unit oaction" where
  "stash_delete key w = (Inr (), w\<lparr>ow_pending := pending_Delete key (ow_pending w)\<rparr>)"

section \<open>The wiring\<close>

definition stateTTL :: "oauth_env \<Rightarrow> duration" where
  "stateTTL v = (if oe_StateTTL v > 0 then oe_StateTTL v else 10 * minute)"

definition linkTokenTTL :: "oauth_env \<Rightarrow> duration" where
  "linkTokenTTL v = (if oe_LinkTokenTTL v > 0 then oe_LinkTokenTTL v else hour)"

definition provisioning :: "oauth_env \<Rightarrow> OAuthProvisioning" where
  "provisioning v = (case oe_Provisioning v of
     None \<Rightarrow> DefaultOAuthProvisioning | Some p \<Rightarrow> normalized p)"

definition OAuthConfigured :: "oauth_env \<Rightarrow> bool" where
  "OAuthConfigured v \<longleftrightarrow> oe_wired v \<and> oe_service v \<noteq> None"

definition requireProvider :: "oauth_env \<Rightarrow> string \<Rightarrow> OAuthService oauth_result" where
  "requireProvider v provider =
     (if \<not> OAuthConfigured v \<or> \<not> Has (oe_service v) provider then Inl (oauthNotConfigured provider)
      else Inr (the (oe_service v)))"

definition oauth_cors :: "oauth_env \<Rightarrow> (string list \<times> string) option" where
  "oauth_cors v = (if oe_wired v then Some (oe_AllowedOrigins v, oe_SiteURL v) else None)"

definition requestSiteURL :: "oauth_env \<Rightarrow> string \<Rightarrow> string \<Rightarrow> string" where
  "requestSiteURL v origin referer =
     resolveSiteURL (oe_url v) origin referer (allowedOrigins (oe_siteURLs v) (oauth_cors v))
       (defaultSiteURL (oe_siteURLs v) (oauth_cors v))"

definition zero_meta :: OAuthPendingMeta where
  "zero_meta = \<lparr>pm_Provider = [], pm_RedirectURL = [], pm_TenantID = [], pm_UserID = [], pm_Email = [],
     pm_ProviderAccountID = [], pm_ExpiresAt = zero_time\<rparr>"

abbreviation secret_of :: "oauth_env \<Rightarrow> string" where
  "secret_of v \<equiv> cf_Secret (e_cfg (oe_env v))"

abbreviation prims :: "oauth_env \<Rightarrow> crypto" where
  "prims v \<equiv> e_crypto (oe_env v)"

section \<open>Resolving the user\<close>

definition new_link :: "string \<Rightarrow> string \<Rightarrow> OAuthUserInfo \<Rightarrow> time \<Rightarrow> OAuthLinkedAccount" where
  "new_link linkID userID info now = \<lparr>la_ID = linkID, la_UserID = userID, la_Provider = oi_Provider info,
     la_ProviderID = oi_ProviderID info, la_Email = oi_Email info, la_Name = [], la_Picture = [],
     la_CreatedAt = now\<rparr>"

text \<open>\<open>linkID, _ := newID("lnk")\<close>: the empty string when the random source fails.\<close>

definition link_id :: "oauth_env \<Rightarrow> string oaction" where
  "link_id v = odo (otry (lift (draw (newID (prims v) ''lnk'')))) (\<lambda>r.
     oret (case r of Inl _ \<Rightarrow> [] | Inr i \<Rightarrow> i))"

definition sign_in :: "oauth_env \<Rightarrow> User \<Rightarrow> (User \<times> AuthTokens) oaction" where
  "sign_in v user = odo (lift (newSessionTokens (oe_env v) user)) (\<lambda>tokens. oret (user, tokens))"

text \<open>The user of a provider account that is linked already, or of the account named by the caller.\<close>

definition sign_in_by_id :: "oauth_env \<Rightarrow> string \<Rightarrow> string \<Rightarrow> (User \<times> AuthTokens) oaction" where
  "sign_in_by_id v userID tenantID =
     odo (otry (lift (users_get (GetUserByID userID tenantID)))) (\<lambda>r. case r of
       Inl _ \<Rightarrow> ofail (AuthFailure (Sentinel ErrInvalidCredentials))
     | Inr user \<Rightarrow> sign_in v user)"

text \<open>An account of that address exists.\<close>

definition on_email_match :: "oauth_env \<Rightarrow> OAuthProvisioning \<Rightarrow> OAuthUserInfo \<Rightarrow> User \<Rightarrow>
    (User \<times> AuthTokens) oaction" where
  "on_email_match v policy info user =
     (if op_OnEmailMatch policy = OAuthEmailMatchConflict
      then ofail (OAuthAccountConflict (oi_Provider info) (oi_Email info) (oi_ProviderID info))
      else if op_OnEmailMatch policy = OAuthEmailMatchReject then ofail errOAuthUserNotProvisioned
      else
        odo (link_id v) (\<lambda>linkID.
        odo (lift (wall (oe_env v))) (\<lambda>now.
        odo (links_do (link_Save (new_link linkID (u_ID user) info now))) (\<lambda>_.
        sign_in v user))))"

definition draft_user :: "string \<Rightarrow> string \<Rightarrow> OAuthUserInfo \<Rightarrow> time \<Rightarrow> User" where
  "draft_user userID tenantID info now = zero_user\<lparr>u_ID := userID, u_Email := oi_Email info,
     u_TenantID := tenantID, u_LoginProvider := oi_Provider info,
     u_IsEmailVerified := emailVerifiedOnCreate info, u_CreatedAt := now, u_UpdatedAt := now\<rparr>"

definition create_account :: "oauth_env \<Rightarrow> OAuthProvisioning \<Rightarrow> OAuthUserInfo \<Rightarrow> string \<Rightarrow>
    (User \<times> AuthTokens) oaction" where
  "create_account v policy info tenantID =
     (if \<not> op_AutoCreate policy then ofail errOAuthUserNotProvisioned
      else
        odo (oreturn (compileUserFieldMap (op_FieldMap policy))) (\<lambda>setters.
        odo (lift (draw (newID (prims v) ''usr''))) (\<lambda>userID.
        odo (lift (wall (oe_env v))) (\<lambda>now.
        odo (oreturn (applyUserFieldMap (io_js (oe_io v)) setters (oi_Raw info)
               (draft_user userID tenantID info now))) (\<lambda>draft.
        odo (lift (mapErr (Wrapped ''auth: create oauth user'') (users_do (CreateUser draft)))) (\<lambda>newUser.
        odo (link_id v) (\<lambda>linkID.
        odo (links_do (link_Save (new_link linkID (u_ID newUser) info now))) (\<lambda>_.
        sign_in v newUser))))))))"

definition HandleCallbackWithPolicy :: "oauth_env \<Rightarrow> OAuthUserInfo \<Rightarrow> string \<Rightarrow> string \<Rightarrow>
    OAuthProvisioning \<Rightarrow> (User \<times> AuthTokens) oaction" where
  "HandleCallbackWithPolicy v info tenantID linkToUserID policy0 =
     (let policy = normalized policy0 in
      odo (oreturn (admit policy info)) (\<lambda>_.
      if linkToUserID \<noteq> [] then
        odo (lift (draw (newID (prims v) ''lnk''))) (\<lambda>linkID.
        odo (lift (wall (oe_env v))) (\<lambda>now.
        odo (links_do (link_Save (new_link linkID linkToUserID info now))) (\<lambda>_.
        sign_in_by_id v linkToUserID tenantID)))
      else
        odo (links_get (FindByProvider (oi_Provider info) (oi_ProviderID info))) (\<lambda>found. case found of
          Some link \<Rightarrow> sign_in_by_id v (la_UserID link) tenantID
        | None \<Rightarrow>
            if oi_Email info = [] then create_account v policy info tenantID
            else odo (otry (lift (users_get (GetUserByEmail (oi_Email info) tenantID)))) (\<lambda>r. case r of
              Inr user \<Rightarrow> on_email_match v policy info user
            | Inl _ \<Rightarrow> create_account v policy info tenantID))))"

definition HandleCallback :: "oauth_env \<Rightarrow> OAuthUserInfo \<Rightarrow> string \<Rightarrow> string \<Rightarrow> (User \<times> AuthTokens) oaction" where
  "HandleCallback v info tenantID linkToUserID =
     HandleCallbackWithPolicy v info tenantID linkToUserID DefaultOAuthProvisioning"

section \<open>Begin\<close>

text \<open>From the nonce on; the nonce is recorded when a stash is configured.\<close>

definition begin_login :: "oauth_env \<Rightarrow> OAuthService \<Rightarrow> string \<Rightarrow> string \<Rightarrow> string \<Rightarrow> string \<Rightarrow> string \<Rightarrow>
    (string \<times> string) oaction" where
  "begin_login v service provider returnPath origin referer nonce =
     odo (lift (wall (oe_env v))) (\<lambda>issued.
     let site = requestSiteURL v origin referer;
         state = encodeOAuthState (prims v)
           \<lparr>os_N = nonce, os_O = site, os_P = returnPath, os_T = unix_of issued\<rparr> (secret_of v) in
     odo (oreturn (AuthorizeURLPKCE (oe_endpoint v) service provider state
            (pkceChallengeS256 (prims v) (pkceVerifier (prims v) (secret_of v) nonce)))) (\<lambda>authorizationURL.
     odo (if oe_has_pending v then
            odo (lift (wall (oe_env v))) (\<lambda>now.
            stash_save v (oauthStateKey nonce) (zero_meta\<lparr>pm_Provider := provider, pm_RedirectURL := site,
              pm_TenantID := oe_TenantID v, pm_ExpiresAt := now + stateTTL v\<rparr>) (stateTTL v))
          else oret ()) (\<lambda>_.
     oret (authorizationURL, state))))"

text \<open>Returns the authorization URL and the state.\<close>

definition OAuthBegin :: "oauth_env \<Rightarrow> string \<Rightarrow> string \<Rightarrow> string \<Rightarrow> string \<Rightarrow> (string \<times> string) oaction" where
  "OAuthBegin v provider returnPath origin referer =
     odo (oreturn (requireProvider v provider)) (\<lambda>service.
     odo (lift (draw (randomHex (prims v) 16)))
       (begin_login v service provider returnPath origin referer))"

section \<open>Complete\<close>

definition EventAuthOAuthSuccess :: string where "EventAuthOAuthSuccess = ''identity.auth.oauth.success''"
definition EventAuthOAuthConflict :: string where "EventAuthOAuthConflict = ''identity.auth.oauth.conflict''"

definition publishOAuthConflict :: "oauth_env \<Rightarrow> string \<Rightarrow> oauth_error \<Rightarrow> unit oaction" where
  "publishOAuthConflict v provider err = (case err of
     OAuthAccountConflict p email providerAccountID \<Rightarrow>
       lift (publish (oe_env v) (zero_event\<lparr>ev_Name := EventAuthOAuthConflict,
         ev_Data := Some (fmap_of_list [(''provider'', JStr provider), (''email'', JStr email),
           (''providerAccountId'', JStr providerAccountID)])\<rparr>))
   | _ \<Rightarrow> oret ())"

definition stashAccountConflict :: "oauth_env \<Rightarrow> string \<Rightarrow> string \<Rightarrow> oauth_error \<Rightarrow> unit oaction" where
  "stashAccountConflict v provider tenantID err = (case err of
     OAuthAccountConflict p email providerAccountID \<Rightarrow>
       if \<not> oe_has_pending v then oret ()
       else if email = [] \<or> providerAccountID = [] then oret ()
       else
         odo (lift (wall (oe_env v))) (\<lambda>now.
         stash_save v (pendingLinkKey email provider) (zero_meta\<lparr>pm_Provider := provider,
           pm_TenantID := tenantID, pm_Email := normalizeEmail email,
           pm_ProviderAccountID := providerAccountID, pm_ExpiresAt := now + linkTokenTTL v\<rparr>) (linkTokenTTL v))
   | _ \<Rightarrow> oret ())"

text \<open>The checks of \<open>OAuthComplete\<close> before the exchange: the state, and the nonce, which is consumed.
  They yield the state and the tenant.\<close>

definition accept_state :: "oauth_env \<Rightarrow> string \<Rightarrow> string \<Rightarrow> (oauthState \<times> string) oaction" where
  "accept_state v provider rawState =
     (if \<not> oe_has_links v then ofail errStoreNotConfigured
      else
        odo (lift (wall (oe_env v))) (\<lambda>since.
        odo (lift (wall (oe_env v))) (\<lambda>until.
        odo (oreturn (decodeOAuthState (prims v) rawState (secret_of v) (stateTTL v) since until)) (\<lambda>state.
        if \<not> oe_has_pending v then oret (state, oe_TenantID v)
        else
          odo (stash_get v (oauthStateKey (os_N state))) (\<lambda>stashed. case stashed of
            None \<Rightarrow> ofail errOAuthStateInvalid
          | Some meta \<Rightarrow>
              if pm_Provider meta \<noteq> [] \<and> pm_Provider meta \<noteq> provider then ofail errOAuthStateInvalid
              else
                odo (stash_delete (oauthStateKey (os_N state))) (\<lambda>_.
                oret (state, if pm_TenantID meta = [] then oe_TenantID v else pm_TenantID meta)))))))"

text \<open>\<open>ExchangeCodePKCE\<close>, threaded through the world's counter.\<close>

definition exchange :: "oauth_env \<Rightarrow> OAuthService \<Rightarrow> string \<Rightarrow> string \<Rightarrow> string \<Rightarrow> OAuthUserInfo oaction" where
  "exchange v service provider code verifier w =
     (case ExchangeCodePKCE (oe_io v) service provider code verifier (w_tick (ow_world w)) of
        (r, k) \<Rightarrow> (r, w\<lparr>ow_world := (ow_world w)\<lparr>w_tick := k\<rparr>\<rparr>))"

text \<open>The result: where to send the browser (empty when the call failed before that was known), and the
  session or the error.\<close>

definition OAuthComplete :: "oauth_env \<Rightarrow> string \<Rightarrow> string \<Rightarrow> string \<Rightarrow>
    (string \<times> (User \<times> AuthTokens) oauth_result) oaction" where
  "OAuthComplete v provider code rawState = (case requireProvider v provider of
     Inl e \<Rightarrow> oret ([], Inl e)
   | Inr service \<Rightarrow>
     odo (otry (accept_state v provider rawState)) (\<lambda>accepted. case accepted of
       Inl e \<Rightarrow> oret ([], Inl e)
     | Inr (state, tenantID) \<Rightarrow>
       let redirectTo = resolveOAuthRedirect (oe_url v) state (allowedOrigins (oe_siteURLs v) (oauth_cors v))
         (defaultSiteURL (oe_siteURLs v) (oauth_cors v)) in
       odo (otry (exchange v service provider code (pkceVerifier (prims v) (secret_of v) (os_N state)))) (\<lambda>profile.
       case profile of
         Inl e \<Rightarrow> oret (redirectTo, Inl e)
       | Inr info \<Rightarrow>
         odo (otry (HandleCallbackWithPolicy v info tenantID [] (provisioning v))) (\<lambda>handled. case handled of
           Inl e \<Rightarrow>
             odo (publishOAuthConflict v provider e) (\<lambda>_.
             odo (stashAccountConflict v provider tenantID e) (\<lambda>_.
             oret (redirectTo, Inl e)))
         | Inr (user, tokens) \<Rightarrow>
             odo (lift (sessionIDOf (oe_env v) tokens)) (\<lambda>sessionID.
             odo (lift (publish (oe_env v) (zero_event\<lparr>ev_Name := EventAuthOAuthSuccess,
               ev_UserID := u_ID user, ev_SessionID := sessionID,
               ev_Data := Some (fmap_of_list [(''provider'', JStr (if u_LoginProvider user = [] then provider
                  else u_LoginProvider user)), (''redirectTo'', JStr redirectTo)])\<rparr>))) (\<lambda>_.
             oret (redirectTo, Inr (user, tokens))))))))"

section \<open>Linked accounts\<close>

definition Auth_ListLinkedAccounts :: "oauth_env \<Rightarrow> string \<Rightarrow> PublicLinkedAccount list oaction" where
  "Auth_ListLinkedAccounts v userID =
     (if \<not> oe_wired v \<or> \<not> oe_has_links v then ofail errStoreNotConfigured
      else links_get (ListLinkedAccounts userID))"

definition Auth_UnlinkAccount :: "oauth_env \<Rightarrow> string \<Rightarrow> string \<Rightarrow> string \<Rightarrow> unit oaction" where
  "Auth_UnlinkAccount v userID provider providerAccountID =
     (if \<not> oe_wired v \<or> \<not> oe_has_links v then ofail errStoreNotConfigured
      else links_do (UnlinkAccount userID provider providerAccountID))"

section \<open>Linking by mail\<close>

definition IssueTokensForUser :: "oauth_env \<Rightarrow> string \<Rightarrow> string \<Rightarrow> (User \<times> AuthTokens) oaction" where
  "IssueTokensForUser v userID tenantID = sign_in_by_id v userID tenantID"

definition link_ready :: "oauth_env \<Rightarrow> bool" where
  "link_ready v \<longleftrightarrow> oe_wired v \<and> oe_has_links v \<and> oe_has_pending v"

text \<open>Who is linking: the user of a usable access token, else the account of the address for which a
  conflict is stashed. The result is the user id, the tenant and the provider account.\<close>

definition token_identity :: "oauth_env \<Rightarrow> string \<Rightarrow> (string \<times> string) option oaction" where
  "token_identity v accessToken =
     (let token = trim_space accessToken in
      if token = [] then oret None
      else odo (otry (lift (Authenticate (oe_env v) token))) (\<lambda>r.
        oret (case r of Inl _ \<Rightarrow> None | Inr user \<Rightarrow> Some (u_ID user, u_TenantID user))))"

definition link_identity :: "oauth_env \<Rightarrow> string \<Rightarrow> string \<Rightarrow> string \<Rightarrow> (string \<times> string \<times> string) oaction" where
  "link_identity v email provider accessToken =
     odo (token_identity v accessToken) (\<lambda>who.
     let userID = (case who of None \<Rightarrow> [] | Some (i, t) \<Rightarrow> i);
         tenantID = (case who of None \<Rightarrow> oe_TenantID v | Some (i, t) \<Rightarrow> t) in
     if userID \<noteq> [] then oret (userID, tenantID, [])
     else
       odo (stash_get v (pendingLinkKey email provider)) (\<lambda>stashed. case stashed of
         None \<Rightarrow> ofail errLinkUnauthorized
       | Some meta \<Rightarrow>
           let tenantID = (if pm_TenantID meta \<noteq> [] then pm_TenantID meta else tenantID) in
           odo (otry (lift (users_get (GetUserByEmail email tenantID)))) (\<lambda>r. case r of
             Inl _ \<Rightarrow> ofail errTargetUserNotFound
           | Inr user \<Rightarrow> oret (u_ID user, tenantID, pm_ProviderAccountID meta))))"

definition deliver_link :: "oauth_env \<Rightarrow> LinkTokenDelivery \<Rightarrow> unit oaction" where
  "deliver_link v d w = (case oe_DeliverLinkToken v of
     None \<Rightarrow> (Inr (), w)
   | Some f \<Rightarrow> (Inr (), w\<lparr>ow_world := (ow_world w)\<lparr>w_tick := Suc (w_tick (ow_world w))\<rparr>,
        ow_mails := ow_mails w @ [d]\<rparr>))"

text \<open>Arguments: the fields of \<open>LinkRequestInput\<close> in their order. Returns the token and the link.\<close>

definition LinkRequest :: "oauth_env \<Rightarrow> string \<Rightarrow> string \<Rightarrow> string \<Rightarrow> string \<Rightarrow> string \<Rightarrow> string \<Rightarrow> string \<Rightarrow>
    (string \<times> string) oaction" where
  "LinkRequest v email0 provider0 emailLang accessToken origin referer apiPrefix =
     (if \<not> link_ready v then ofail errStoreNotConfigured
      else
        (let email = normalizeEmail email0 in
         if email = [] then ofail errEmailRequired
         else
           (let provider = (if trim_space provider0 = [] then ''email'' else trim_space provider0) in
            odo (link_identity v email provider accessToken) (\<lambda>(userID, tenantID, providerAccountID).
            odo (lift (draw (randomHex (prims v) 32))) (\<lambda>token.
            odo (lift (wall (oe_env v))) (\<lambda>now.
            odo (stash_save v (linkTokenKey (prims v) token) (zero_meta\<lparr>pm_Provider := provider,
               pm_TenantID := tenantID, pm_UserID := userID, pm_Email := email,
               pm_ProviderAccountID := providerAccountID, pm_ExpiresAt := now + linkTokenTTL v\<rparr>)
               (linkTokenTTL v)) (\<lambda>_.
            let link = requestSiteURL v origin referer @ trim_suffix ''/'' (trim_space apiPrefix) @
              ''/link-verify?token='' @ query_escape token in
            odo (deliver_link v \<lparr>lt_Email = email, lt_Provider = provider, lt_Token = token,
              lt_URL = link, lt_EmailLang = emailLang\<rparr>) (\<lambda>_.
            oret (token, link)))))))))"

text \<open>From the stashed entry on. Returns the session when one was asked for.\<close>

definition confirm_link :: "oauth_env \<Rightarrow> string \<Rightarrow> bool \<Rightarrow> OAuthPendingMeta \<Rightarrow> (User \<times> AuthTokens) option oaction" where
  "confirm_link v key loginAfterLinking meta =
     odo (lift (wall (oe_env v))) (\<lambda>now.
     if pm_ExpiresAt meta \<noteq> zero_time \<and> now > pm_ExpiresAt meta
     then odo (stash_delete key) (\<lambda>_. ofail errLinkTokenExpired)
     else
       odo (lift (draw (newID (prims v) ''lnk''))) (\<lambda>linkID.
       odo (lift (wall (oe_env v))) (\<lambda>created.
       odo (links_do (link_Save \<lparr>la_ID = linkID, la_UserID = pm_UserID meta,
          la_Provider = pm_Provider meta,
          la_ProviderID = (if pm_ProviderAccountID meta = [] then pm_Email meta
                           else pm_ProviderAccountID meta),
          la_Email = pm_Email meta, la_Name = [], la_Picture = [], la_CreatedAt = created\<rparr>)) (\<lambda>_.
       odo (stash_delete key) (\<lambda>_.
       odo (stash_delete (pendingLinkKey (pm_Email meta) (pm_Provider meta))) (\<lambda>_.
       if \<not> loginAfterLinking then oret None
       else odo (IssueTokensForUser v (pm_UserID meta) (pm_TenantID meta)) (\<lambda>session.
         oret (Some session))))))))"

definition LinkVerify :: "oauth_env \<Rightarrow> string \<Rightarrow> bool \<Rightarrow> (User \<times> AuthTokens) option oaction" where
  "LinkVerify v token0 loginAfterLinking =
     (if \<not> link_ready v then ofail errStoreNotConfigured
      else
        (let token = trim_space token0 in
         if token = [] then ofail errTokenRequired
         else
           (let key = linkTokenKey (prims v) token in
            odo (stash_get v key) (\<lambda>found. case found of
              None \<Rightarrow> ofail errLinkTokenInvalid
            | Some meta \<Rightarrow> confirm_link v key loginAfterLinking meta))))"

end
