(* ===== verification/Service_Time.thy ===== *)
theory Service_Time
  imports Service_Invariants
begin

text \<open>
  Two facts the flows built on the service share: what opening a session keeps of the service's
  invariant, and that no call turns the service's counter back.
\<close>

lemma inv_newSessionTokens:
  assumes "fresh_draws (e_crypto v)"
  shows "preserves (world_ok (e_crypto v)) (newSessionTokens v u)"
  unfolding newSessionTokens_def by (intro invs inv_issueSession assms)

lemma inv_create_user [invs]: "preserves (world_ok c) (users_do (CreateUser u))"
  by (intro invs CreateUser_ok)

lemma inv_sessionIDOf [invs]: "preserves (world_ok c) (sessionIDOf v t)"
  unfolding sessionIDOf_def by (intro invs)

text \<open>The service's counter never goes back.\<close>

abbreviation past :: "nat \<Rightarrow> world \<Rightarrow> bool" where
  "past k w \<equiv> k \<le> w_tick w"

lemma past_tick: "past k w \<Longrightarrow> w_tick w \<le> j \<Longrightarrow> past k (w\<lparr>w_tick := j\<rparr>)"
  by simp

lemma past_steps [invs]:
  "preserves (past k) (tick f)" "preserves (past k) (hook h)" "preserves (past k) (clock v)"
  "preserves (past k) (wall v)" "preserves (past k) (publish v e)"
  "preserves (past k) (users_do g)" "preserves (past k) (sessions_do g')"
  by (auto simp: preserves_def tick_def hook_def clock_def wall_def publish_def users_do_def sessions_do_def
      split: prod.splits)

lemma past_draw [invs]: "(\<And>j. j \<le> snd (d j)) \<Longrightarrow> preserves (past k) (draw d)"
  by (auto simp: preserves_def draw_def split: prod.splits) (metis le_trans snd_conv)

lemma past_tokens [invs]:
  "preserves (past k) (parseToken v t ty)" "preserves (past k) (issueToken v u sid ty ttl)"
  unfolding parseToken_def issueToken_def custom_claims_def Let_def by (intro invs)+

lemma past_sessions [invs]:
  "preserves (past k) (newSessionTokens v u)" "preserves (past k) (sessionIDOf v t)"
  unfolding newSessionTokens_def issueSession_def sessionIDOf_def by (intro invs)+

lemma past_enrich [invs]: "preserves (past k) (enrich_action u)"
  by (simp add: preserves_def enrich_action_def)

lemma past_Authenticate [invs]: "preserves (past k) (Authenticate v t)"
  unfolding Authenticate_def validateSessionForAccess_def validateSessionState_def Let_def
  by (intro invs)

lemma past_loginFailed [invs]: "preserves (past k) (loginFailed v e err)"
  unfolding loginFailed_def by (intro invs)

lemma past_Login [invs]: "preserves (past k) (Login v e p t)"
  unfolding Login_def loginPassword_def verifyThroughPasswordVerifier_def completeLocalLogin_def
    issueSession_def Let_def
  by (intro invs)

end
