(* ===== verification/OAuth_Laws.thy ===== *)
theory OAuth_Laws
  imports OAuth_Flow Session_Laws Service_Time
begin

text \<open>
  What the OAuth calls keep and what they answer. \<open>always R m\<close> says that every run of the call relates
  the states before and after it by \<open>R\<close>; the locale \<open>frame\<close> proves once that a reflexive and transitive
  relation passes through the sequencing, and its interpretations are the relations used here: the
  service's invariant, the links being untouched, and a stash entry staying consumed.
\<close>

section \<open>Relations a call keeps\<close>

definition always :: "(oauth_world \<Rightarrow> oauth_world \<Rightarrow> bool) \<Rightarrow> 'a oaction \<Rightarrow> bool" where
  "always R m \<longleftrightarrow> (\<forall>w. R w (snd (m w)))"

lemma always_result: "always R m \<Longrightarrow> m w = (r, w') \<Longrightarrow> R w w'"
  by (metis always_def snd_conv)

lemma always_link_branches:
  "always R a \<Longrightarrow> always R b \<Longrightarrow> always R (if c then a else b)"
  "always R a \<Longrightarrow> (\<And>x. always R (f x)) \<Longrightarrow> always R (case y of None \<Rightarrow> a | Some x \<Rightarrow> f x)"
  "(\<And>x. always R (l x)) \<Longrightarrow> (\<And>x. always R (r x)) \<Longrightarrow> always R (case z of Inl x \<Rightarrow> l x | Inr x \<Rightarrow> r x)"
  "(\<And>x1 x2. always R (p x1 x2)) \<Longrightarrow> always R (case q of (x1, x2) \<Rightarrow> p x1 x2)"
  "(\<And>p' e' i. always R (g p' e' i)) \<Longrightarrow> always R a \<Longrightarrow>
     always R (case err of OAuthAccountConflict p' e' i \<Rightarrow> g p' e' i | _ \<Rightarrow> a)"
  by (auto split: option.splits sum.splits prod.splits oauth_error.splits)

locale frame =
  fixes R :: "oauth_world \<Rightarrow> oauth_world \<Rightarrow> bool"
  assumes here: "R w w"
    and onward: "R w w' \<Longrightarrow> R w' w'' \<Longrightarrow> R w w''"
begin

lemma simple: "always R (oret x)" "always R (ofail e)" "always R (oreturn r)" "always R (links_get f)"
  by (simp_all add: always_def oret_def ofail_def oreturn_def links_get_def here)

lemma sequence: "always R m \<Longrightarrow> (\<And>x. always R (f x)) \<Longrightarrow> always R (odo m f)"
  using onward by (auto simp: always_def odo_def split: prod.splits sum.splits) (metis snd_conv)+

lemma outcome: "always R m \<Longrightarrow> always R (otry m)"
  by (auto simp: always_def otry_def split: prod.splits) (metis snd_conv)

lemma stash:
  assumes "\<And>now. always R (\<lambda>w. (Inr (), w\<lparr>ow_pending := pending_Save now key meta ttl (ow_pending w)\<rparr>))"
    and "always R (lift (wall (oe_env v)))"
  shows "always R (stash_save v key meta ttl)"
  unfolding stash_save_def by (intro sequence assms)

lemma look:
  assumes "\<And>now w. R w (w\<lparr>ow_pending := snd (pending_Get now key (ow_pending w))\<rparr>)"
    and "always R (lift (wall (oe_env v)))"
  shows "always R (stash_get v key)"
proof -
  have "R w (w\<lparr>ow_pending := s\<rparr>)" if "pending_Get now key (ow_pending w) = (m, s)" for w now m s
    using assms(1)[of w now] that by simp
  then show ?thesis unfolding stash_get_def
    by (intro sequence[OF assms(2)]) (simp add: always_def split: prod.splits)
qed

end

text \<open>The two relations used: a predicate once true stays true, and the links are untouched.\<close>

definition along :: "(oauth_world \<Rightarrow> bool) \<Rightarrow> oauth_world \<Rightarrow> oauth_world \<Rightarrow> bool" where
  "along P w w' \<longleftrightarrow> (P w \<longrightarrow> P w')"

definition links_kept :: "oauth_world \<Rightarrow> oauth_world \<Rightarrow> bool" where
  "links_kept w w' \<longleftrightarrow> ow_links w' = ow_links w"

interpretation inv: frame "along P" for P
  by unfold_locales (auto simp: along_def)

interpretation lk: frame links_kept
  by unfold_locales (auto simp: links_kept_def)

named_theorems oinvs \<open>an OAuth action keeps a predicate\<close>

declare always_link_branches [oinvs] inv.simple [oinvs] inv.sequence [oinvs] inv.outcome [oinvs]

lemma along_lift [oinvs]:
  "preserves P m \<Longrightarrow> always (along (\<lambda>w. P (ow_world w))) (lift m)"
  by (simp add: always_def along_def lift_def preserves_def split: prod.splits sum.splits) (metis snd_conv)

text \<open>A predicate on the service's world that the counter may advance under.\<close>

lemma along_world:
  assumes "\<And>w k. P w \<Longrightarrow> w_tick w \<le> k \<Longrightarrow> P (w\<lparr>w_tick := k\<rparr>)"
  shows "always (along (\<lambda>w. P (ow_world w))) (links_do f)"
    "always (along (\<lambda>w. P (ow_world w))) (lift (wall (oe_env v)))"
    "always (along (\<lambda>w. P (ow_world w))) (stash_save v key meta ttl)"
    "always (along (\<lambda>w. P (ow_world w))) (stash_get v key)"
    "always (along (\<lambda>w. P (ow_world w))) (stash_delete key)"
    "always (along (\<lambda>w. P (ow_world w))) (deliver_link v d)"
    "always (along (\<lambda>w. P (ow_world w))) (exchange v s p code verifier)"
proof -
  let ?R = "along (\<lambda>w. P (ow_world w))"
  show clock: "always ?R (lift (wall (oe_env v)))"
    by (rule along_lift) (simp add: preserves_def wall_def tick_def assms)
  show "always ?R (stash_save v key meta ttl)" by (rule inv.stash[OF _ clock]) (simp add: always_def along_def)
  show "always ?R (stash_get v key)" by (rule inv.look[OF _ clock]) (simp add: along_def)
  show "always ?R (stash_delete key)" "always ?R (links_do f)"
    by (simp_all add: always_def along_def stash_delete_def links_do_def)
  show "always ?R (deliver_link v d)"
    by (simp add: always_def along_def deliver_link_def assms split: option.splits)
  have "P (w\<lparr>w_tick := k'\<rparr>)"
    if "P w" "ExchangeCodePKCE io s p code verifier (w_tick w) = (r, k')" for w io r k'
    using assms[OF that(1)] that(2) ExchangeCodePKCE_advances[of "w_tick w" io s p code verifier] by simp
  then show "always ?R (exchange v s p code verifier)"
    by (simp add: always_def along_def exchange_def split: prod.splits)
qed

text \<open>A predicate that every step of the calls keeps is kept by every call that stashes no login state.\<close>

locale kept =
  fixes v :: oauth_env and P :: "oauth_world \<Rightarrow> bool"
  assumes clock: "always (along P) (lift (wall (oe_env v)))"
    and ids: "always (along P) (lift (draw (newID (prims v) what)))"
    and bytes: "always (along P) (lift (draw (randomHex (prims v) n)))"
    and tokens: "always (along P) (lift (newSessionTokens (oe_env v) user))"
    and reading: "always (along P) (lift (users_get g :: User action))"
    and creation: "always (along P) (lift (mapErr e (users_do (CreateUser user))))"
    and publication: "always (along P) (lift (publish (oe_env v) ev))"
    and identity: "always (along P) (lift (sessionIDOf (oe_env v) toks))"
    and access: "always (along P) (lift (Authenticate (oe_env v) token))"
    and linking: "always (along P) (links_do f)"
    and mailing: "always (along P) (deliver_link v d)"
    and exchanging: "always (along P) (exchange v s p code verifier)"
    and looking: "always (along P) (stash_get v key)"
    and dropping: "always (along P) (stash_delete key)"
    and stashing: "(\<And>k. key \<noteq> oauthStateKey k) \<Longrightarrow> always (along P) (stash_save v key meta ttl)"
begin

lemmas steps = always_link_branches inv.simple inv.sequence inv.outcome clock ids bytes tokens reading creation
  publication identity access linking mailing exchanging looking dropping

lemma other_keys:
  "always (along P) (stash_save v (linkTokenKey c t) meta ttl)"
  "always (along P) (stash_save v (pendingLinkKey e p) meta ttl)"
  using stashing keys_apart by metis+

lemma sign_in_keeps: "always (along P) (sign_in v u)" "always (along P) (sign_in_by_id v i t)"
proof -
  show s: "always (along P) (sign_in v u)" for u
    unfolding sign_in_def by (intro steps)
  show "always (along P) (sign_in_by_id v i t)"
    unfolding sign_in_by_id_def by (intro steps s)
qed

lemma link_id_keeps: "always (along P) (link_id v)"
  unfolding link_id_def by (intro steps)

lemma callback_keeps: "always (along P) (HandleCallbackWithPolicy v info t i p)"
proof -
  have create: "always (along P) (create_account v p info t)" for p
    unfolding create_account_def by (intro steps sign_in_keeps link_id_keeps)
  have matched: "always (along P) (on_email_match v p info u)" for p u
    unfolding on_email_match_def by (intro steps sign_in_keeps link_id_keeps)
  show ?thesis
    unfolding HandleCallbackWithPolicy_def Let_def by (intro steps sign_in_keeps create matched)
qed

lemma accept_keeps: "always (along P) (accept_state v p raw)"
  unfolding accept_state_def by (intro steps)

lemma complete_keeps: "always (along P) (OAuthComplete v p code raw)"
proof -
  have conflict: "always (along P) (publishOAuthConflict v p e)"
    "always (along P) (stashAccountConflict v p t e)" for t e
    unfolding publishOAuthConflict_def stashAccountConflict_def by (intro steps other_keys)+
  show ?thesis
    unfolding OAuthComplete_def Let_def by (intro steps callback_keeps accept_keeps conflict)
qed

lemma link_keeps:
  "always (along P) (LinkRequest v e p l a h f x)" "always (along P) (LinkVerify v tok b)"
  "always (along P) (Auth_UnlinkAccount v u p i)"
proof -
  have who: "always (along P) (link_identity v e p a)" for e p
    unfolding link_identity_def token_identity_def Let_def by (intro steps)
  show "always (along P) (LinkRequest v e p l a h f x)"
    unfolding LinkRequest_def Let_def by (intro steps who other_keys)
  show "always (along P) (LinkVerify v tok b)"
    unfolding LinkVerify_def confirm_link_def IssueTokensForUser_def Let_def by (intro steps sign_in_keeps)
  show "always (along P) (Auth_UnlinkAccount v u p i)"
    unfolding Auth_UnlinkAccount_def by (intro steps)
qed

end

section \<open>The service's invariant\<close>

abbreviation service_ok :: "oauth_env \<Rightarrow> oauth_world \<Rightarrow> bool" where
  "service_ok v w \<equiv> world_ok (prims v) (ow_world w)"

lemma randomHex_advances [invs]: "k \<le> snd (randomHex c n k)"
  by (simp add: randomHex_def split: sum.splits)

lemma kept_world:
  assumes "fresh_draws (prims v)"
  shows "kept v (service_ok v)"
  by unfold_locales
    (rule along_world[where P = "world_ok (prims v)", OF world_ok_tick], assumption+
    | intro along_lift[where P = "world_ok (prims v)"] invs inv_newSessionTokens CreateUser_ok assms)+

lemma begin_keeps_world: "always (along (service_ok v)) (OAuthBegin v p r h f)"
  unfolding OAuthBegin_def begin_login_def Let_def
  by (intro oinvs invs along_world[where P = "world_ok (prims v)", OF world_ok_tick])

section \<open>Time\<close>

interpretation counter: kept v "\<lambda>w. past k (ow_world w)" for v k
  by unfold_locales
    (rule along_world[where P = "past k", OF past_tick], assumption+
    | intro along_lift[where P = "past k"] invs)+

lemma begin_keeps_counter: "always (along (\<lambda>w. past k (ow_world w))) (OAuthBegin v p r h f)"
  unfolding OAuthBegin_def begin_login_def Let_def
  by (intro oinvs invs along_world[where P = "past k", OF past_tick])

section \<open>A login state works once\<close>

text \<open>A stash entry that is gone; a nonce drawn by an earlier read of the random source.\<close>

definition consumed :: "string \<Rightarrow> oauth_world \<Rightarrow> bool" where
  "consumed n w \<longleftrightarrow> fmlookup (ow_pending w) (oauthStateKey n) = None"

definition drawn :: "crypto \<Rightarrow> string \<Rightarrow> oauth_world \<Rightarrow> bool" where
  "drawn c n w \<longleftrightarrow> (\<exists>k<w_tick (ow_world w). \<exists>b. c_rand c k 16 = Inr b \<and> n = hex_encode b)"

definition nonce_known :: "crypto \<Rightarrow> string \<Rightarrow> oauth_world \<Rightarrow> bool" where
  "nonce_known c n w \<longleftrightarrow> consumed n w \<or> drawn c n w"

definition spent :: "crypto \<Rightarrow> string \<Rightarrow> oauth_world \<Rightarrow> bool" where
  "spent c n w \<longleftrightarrow> consumed n w \<and> drawn c n w"

lemma drawn_later: "drawn c n w \<Longrightarrow> w_tick (ow_world w) \<le> w_tick (ow_world w') \<Longrightarrow> drawn c n w'"
  by (auto simp: drawn_def) (metis order_less_le_trans)

text \<open>A step that drops entries or keeps them, while time goes on.\<close>

definition no_new_state :: "string \<Rightarrow> oauth_world \<Rightarrow> oauth_world \<Rightarrow> bool" where
  "no_new_state n w w' \<longleftrightarrow> (consumed n w \<longrightarrow> consumed n w') \<and> w_tick (ow_world w) \<le> w_tick (ow_world w')"

lemma no_new_state_keeps:
  assumes "always (no_new_state n) m"
  shows "always (along (spent c n)) m" "always (along (nonce_known c n)) m"
  using assms drawn_later
  by (auto simp: always_def along_def no_new_state_def spent_def nonce_known_def)

interpretation nns: frame "no_new_state n" for n
  by unfold_locales (auto simp: no_new_state_def)

lemma lift_no_new:
  assumes "\<And>k. preserves (past k) m"
  shows "always (no_new_state n) (lift m)"
proof -
  have "w_tick (ow_world w) \<le> w_tick w'" if "m (ow_world w) = (r, w')" for w r w'
    using assms[of "w_tick (ow_world w)"] that unfolding preserves_def by (metis le_refl snd_conv)
  then show ?thesis
    by (auto simp: always_def no_new_state_def lift_def consumed_def split: prod.splits sum.splits)
qed

lemma steps_no_new:
  "always (no_new_state n) (links_do f)" "always (no_new_state n) (deliver_link v d)"
  "always (no_new_state n) (stash_delete key)"
  by (auto simp: always_def no_new_state_def consumed_def links_do_def deliver_link_def stash_delete_def
      pending_Delete_def split: option.splits)

lemma exchange_no_new: "always (no_new_state n) (exchange v s p code verifier)"
  using ExchangeCodePKCE_advances
  by (auto simp: always_def no_new_state_def consumed_def exchange_def split: prod.splits) (metis snd_conv)

lemma get_no_new: "always (no_new_state n) (stash_get v key)"
proof (rule nns.look)
  show "always (no_new_state n) (lift (wall (oe_env v)))" by (rule lift_no_new) (intro invs)
  show "no_new_state n w (w\<lparr>ow_pending := snd (pending_Get now key (ow_pending w))\<rparr>)" for now w
    by (auto simp: no_new_state_def consumed_def pending_Get_def split: option.splits)
qed

lemma save_no_new:
  assumes "key \<noteq> oauthStateKey n"
  shows "always (no_new_state n) (stash_save v key meta ttl)"
proof (rule nns.stash)
  show "always (no_new_state n) (lift (wall (oe_env v)))" by (rule lift_no_new) (intro invs)
  show "always (no_new_state n) (\<lambda>w. (Inr (), w\<lparr>ow_pending := pending_Save now key meta ttl (ow_pending w)\<rparr>))"
    for now
    using assms by (auto simp: always_def no_new_state_def consumed_def pending_Save_def)
qed

interpretation spent_stays: kept v "spent (prims v) n" for v n
  by unfold_locales
    (intro no_new_state_keeps lift_no_new steps_no_new exchange_no_new get_no_new save_no_new invs | metis)+

interpretation known_stays: kept v "nonce_known (prims v) n" for v n
  by unfold_locales
    (intro no_new_state_keeps lift_no_new steps_no_new exchange_no_new get_no_new save_no_new invs | metis)+

text \<open>What \<open>OAuthBegin\<close> does after its draw.\<close>

lemma oauthStateKey_inj [simp]: "oauthStateKey a = oauthStateKey b \<longleftrightarrow> a = b"
  by (simp add: oauthStateKey_def)

lemma begin_login_steps:
  "nonce \<noteq> n \<Longrightarrow> always (no_new_state n) (begin_login v service p r h f nonce)"
  "always (along (\<lambda>w. past k (ow_world w))) (begin_login v service p r h f nonce)"
  unfolding begin_login_def Let_def
  by (intro nns.sequence nns.simple always_link_branches lift_no_new save_no_new invs, simp)
    (intro oinvs invs along_world[where P = "past k", OF past_tick])

lemma begin_nonce:
  "no_new_state n w (snd (OAuthBegin v p r h f w)) \<or>
   (\<exists>b. c_rand (prims v) (w_tick (ow_world w)) 16 = Inr b \<and> n = hex_encode b \<and>
    w_tick (ow_world w) < w_tick (ow_world (snd (OAuthBegin v p r h f w))))" (is "?quiet (snd ?m) \<or> ?new (snd ?m)")
proof (cases "requireProvider v p")
  case (Inl e)
  then show ?thesis by (simp add: OAuthBegin_def odo_def oreturn_def nns.here)
next
  case (Inr service)
  let ?w1 = "w\<lparr>ow_world := (ow_world w)\<lparr>w_tick := Suc (w_tick (ow_world w))\<rparr>\<rparr>"
  have first: "no_new_state n w ?w1" by (simp add: no_new_state_def consumed_def)
  show ?thesis
  proof (cases "c_rand (prims v) (w_tick (ow_world w)) 16")
    case bad: (Inl e)
    then have "snd ?m = ?w1" by (simp add: OAuthBegin_def odo_def oreturn_def Inr lift_def draw_def randomHex_def)
    then show ?thesis using first by simp
  next
    case b: (Inr b)
    then have m: "?m = begin_login v service p r h f (hex_encode b) ?w1"
      by (simp add: OAuthBegin_def odo_def oreturn_def Inr lift_def draw_def randomHex_def)
    show ?thesis
    proof (cases "n = hex_encode b")
      case True
      have "past (Suc (w_tick (ow_world w))) (ow_world (snd ?m))"
        using begin_login_steps(2)[of "Suc (w_tick (ow_world w))"] by (simp add: m always_def along_def)
      then show ?thesis using True b by simp
    next
      case False
      then have "no_new_state n ?w1 (snd ?m)" using begin_login_steps(1) by (simp add: m always_def)
      then show ?thesis using nns.onward[OF first] by blast
    qed
  qed
qed

lemma begin_keeps_nonces:
  "always (along (nonce_known (prims v) n)) (OAuthBegin v p r h f)"
  "fresh_draws (prims v) \<Longrightarrow> always (along (spent (prims v) n)) (OAuthBegin v p r h f)"
proof -
  have quiet: "no_new_state n w w' \<Longrightarrow> nonce_known (prims v) n w \<Longrightarrow> nonce_known (prims v) n w'"
    "no_new_state n w w' \<Longrightarrow> spent (prims v) n w \<Longrightarrow> spent (prims v) n w'" for w w'
    using drawn_later by (auto simp: no_new_state_def nonce_known_def spent_def)
  show "always (along (nonce_known (prims v) n)) (OAuthBegin v p r h f)"
    unfolding always_def along_def
  proof (intro allI impI)
    fix w assume known: "nonce_known (prims v) n w"
    show "nonce_known (prims v) n (snd (OAuthBegin v p r h f w))"
      using begin_nonce[of n w v p r h f] quiet(1)[OF _ known] by (auto simp: nonce_known_def drawn_def)
  qed
  assume fresh: "fresh_draws (prims v)"
  show "always (along (spent (prims v) n)) (OAuthBegin v p r h f)"
    unfolding always_def along_def
  proof (intro allI impI)
    fix w assume spent: "spent (prims v) n w"
    have "False" if "c_rand (prims v) (w_tick (ow_world w)) 16 = Inr b" "n = hex_encode b" for b
    proof -
      obtain k b' where "k < w_tick (ow_world w)" "c_rand (prims v) k 16 = Inr b'" "n = hex_encode b'"
        using spent by (auto simp: spent_def drawn_def)
      then show False using fresh that hex_encode_inj unfolding fresh_draws_def by (metis less_irrefl)
    qed
    then show "spent (prims v) n (snd (OAuthBegin v p r h f w))"
      using begin_nonce[of n w v p r h f] quiet(2)[OF _ spent] by blast
  qed
qed

section \<open>Runs\<close>

text \<open>One OAuth call, on whatever arguments and with whatever answer, or anything the service underneath
  does, whose counter only grows.\<close>

inductive oauth_call :: "oauth_env \<Rightarrow> oauth_world \<Rightarrow> oauth_world \<Rightarrow> bool" for v where
  "oauth_call v w (snd (OAuthBegin v p r h f w))"
| "oauth_call v w (snd (OAuthComplete v p code raw w))"
| "oauth_call v w (snd (LinkRequest v e p l a h f x w))"
| "oauth_call v w (snd (LinkVerify v tok b w))"
| "oauth_call v w (snd (Auth_UnlinkAccount v u p i w))"

inductive oauth_step :: "oauth_env \<Rightarrow> oauth_world \<Rightarrow> oauth_world \<Rightarrow> bool" for v where
  call: "oauth_call v w w' \<Longrightarrow> oauth_step v w w'"
| service: "w_tick (ow_world w) \<le> w_tick s \<Longrightarrow> oauth_step v w (w\<lparr>ow_world := s\<rparr>)"

abbreviation oauth_run :: "oauth_env \<Rightarrow> oauth_world \<Rightarrow> oauth_world \<Rightarrow> bool" where
  "oauth_run v \<equiv> (oauth_step v)\<^sup>*\<^sup>*"

lemma always_along: "always (along P) m \<Longrightarrow> P w \<Longrightarrow> P (snd (m w))"
  by (simp add: always_def along_def)

lemma kept_call:
  assumes "kept v P" "\<And>p r h f. always (along P) (OAuthBegin v p r h f)" "oauth_call v w w'" "P w"
  shows "P w'"
  using assms(3,4)
  by (induction rule: oauth_call.induct)
    (blast intro: always_along assms(2) kept.complete_keeps[OF assms(1)] kept.link_keeps[OF assms(1)])+

lemma oauth_call_keeps_world:
  assumes "fresh_draws (prims v)" "oauth_call v w w'" "service_ok v w"
  shows "service_ok v w'"
  using kept_call[OF kept_world[OF assms(1)] begin_keeps_world assms(2,3)] .

lemma service_moves_on:
  assumes "w_tick (ow_world w) \<le> w_tick s"
  shows "nonce_known c n w \<Longrightarrow> nonce_known c n (w\<lparr>ow_world := s\<rparr>)"
    "spent c n w \<Longrightarrow> spent c n (w\<lparr>ow_world := s\<rparr>)"
  using assms drawn_later[of c n w "w\<lparr>ow_world := s\<rparr>"] by (auto simp: nonce_known_def spent_def consumed_def)

lemma nonces_step:
  assumes "oauth_step v w w'"
  shows "nonce_known (prims v) n w \<Longrightarrow> nonce_known (prims v) n w'"
    "fresh_draws (prims v) \<Longrightarrow> spent (prims v) n w \<Longrightarrow> spent (prims v) n w'"
  using assms
  by (cases rule: oauth_step.cases,
      blast intro: kept_call[OF known_stays.kept_axioms begin_keeps_nonces(1)]
        kept_call[OF spent_stays.kept_axioms begin_keeps_nonces(2)],
      metis service_moves_on)+

lemma nonces_run:
  assumes "oauth_run v w w'"
  shows "nonce_known (prims v) n w \<Longrightarrow> nonce_known (prims v) n w'"
    "fresh_draws (prims v) \<Longrightarrow> spent (prims v) n w \<Longrightarrow> spent (prims v) n w'"
  using assms by (induction; blast intro: nonces_step)+

section \<open>Replay\<close>

lemma decoded_twice:
  assumes "decodeOAuthState c raw secret ttl since until = Inr st"
  shows "decodeOAuthState c raw secret ttl since' until' \<in> {Inr st, Inl errOAuthStateInvalid}"
  using assms by (auto simp: decodeOAuthState_def Let_def split: option.splits prod.splits if_splits)

lemma wall_lift: "lift (wall e) w = (Inr (e_wall e (w_tick (ow_world w))),
    w\<lparr>ow_world := (ow_world w)\<lparr>w_tick := Suc (w_tick (ow_world w))\<rparr>\<rparr>)"
  by (simp add: lift_def wall_def tick_def)

lemma odo_Inr: "odo m f w = (Inr y, w') \<longleftrightarrow> (\<exists>x w1. m w = (Inr x, w1) \<and> f x w1 = (Inr y, w'))"
  by (auto simp: odo_def split: prod.splits sum.splits)

lemma odo_Inl:
  "odo m f w = (Inl e, w') \<longleftrightarrow> m w = (Inl e, w') \<or> (\<exists>x w1. m w = (Inr x, w1) \<and> f x w1 = (Inl e, w'))"
  by (auto simp: odo_def split: prod.splits sum.splits)

lemmas run_results = odo_Inr odo_Inl wall_lift oret_def ofail_def oreturn_def otry_def links_get_def links_do_def

definition ticked :: "nat \<Rightarrow> oauth_world \<Rightarrow> oauth_world" where
  "ticked n w = w\<lparr>ow_world := (ow_world w)\<lparr>w_tick := w_tick (ow_world w) + n\<rparr>\<rparr>"

lemma ticked_simps [simp]:
  "ow_pending (ticked n w) = ow_pending w" "ow_links (ticked n w) = ow_links w"
  "w_tick (ow_world (ticked n w)) = w_tick (ow_world w) + n" "ticked m (ticked n w) = ticked (m + n) w"
  by (simp_all add: ticked_def add.commute add.left_commute)

lemma wall_ticks: "lift (wall e) w = (Inr (e_wall e (w_tick (ow_world w))), ticked 1 w)"
  by (simp add: wall_lift ticked_def)

text \<open>What \<open>accept_state\<close> does when both stores are configured.\<close>

lemma accept_state_run:
  assumes "oe_has_links v" "oe_has_pending v"
  shows "accept_state v provider raw w =
    (case decodeOAuthState (prims v) raw (secret_of v) (stateTTL v)
        (e_wall (oe_env v) (w_tick (ow_world w))) (e_wall (oe_env v) (w_tick (ow_world w) + 1)) of
       Inl e \<Rightarrow> (Inl e, ticked 2 w)
     | Inr st \<Rightarrow>
       (case pending_Get (e_wall (oe_env v) (w_tick (ow_world w) + 2)) (oauthStateKey (os_N st)) (ow_pending w) of
          (None, s) \<Rightarrow> (Inl errOAuthStateInvalid, (ticked 3 w)\<lparr>ow_pending := s\<rparr>)
        | (Some meta, s) \<Rightarrow>
            if pm_Provider meta \<noteq> [] \<and> pm_Provider meta \<noteq> provider
            then (Inl errOAuthStateInvalid, (ticked 3 w)\<lparr>ow_pending := s\<rparr>)
            else (Inr (st, if pm_TenantID meta = [] then oe_TenantID v else pm_TenantID meta),
              (ticked 3 w)\<lparr>ow_pending := pending_Delete (oauthStateKey (os_N st)) s\<rparr>)))"
  using assms
  by (simp add: accept_state_def odo_def wall_ticks oreturn_def oret_def ofail_def stash_get_def
      stash_delete_def numeral_eq_Suc split: sum.splits option.splits prod.splits)

text \<open>An accepted state: its nonce was in the stash and is not any more.\<close>

lemma accept_state_Inr:
  assumes run: "accept_state v provider raw w = (Inr (st, tenant), w')" and stash: "oe_has_pending v"
  shows "\<exists>since until. decodeOAuthState (prims v) raw (secret_of v) (stateTTL v) since until = Inr st"
    "\<not> consumed (os_N st) w" "consumed (os_N st) w'" "w_tick (ow_world w) \<le> w_tick (ow_world w')"
    "ow_links w' = ow_links w"
proof -
  have links: "oe_has_links v" using run by (auto simp: accept_state_def ofail_def split: if_splits)
  obtain meta s where
    d: "decodeOAuthState (prims v) raw (secret_of v) (stateTTL v)
        (e_wall (oe_env v) (w_tick (ow_world w))) (e_wall (oe_env v) (w_tick (ow_world w) + 1)) = Inr st"
    and get: "pending_Get (e_wall (oe_env v) (w_tick (ow_world w) + 2)) (oauthStateKey (os_N st)) (ow_pending w) = (Some meta, s)"
    and w': "w' = (ticked 3 w)\<lparr>ow_pending := pending_Delete (oauthStateKey (os_N st)) s\<rparr>"
    using run unfolding accept_state_run[OF links stash]
    by (auto split: sum.splits option.splits prod.splits if_splits)
  show "\<exists>since until. decodeOAuthState (prims v) raw (secret_of v) (stateTTL v) since until = Inr st"
    using d by blast
  show "\<not> consumed (os_N st) w" using get by (auto simp: consumed_def pending_Get_Some)
  show "consumed (os_N st) w'" "w_tick (ow_world w) \<le> w_tick (ow_world w')" "ow_links w' = ow_links w"
    by (simp_all add: consumed_def w' pending_Delete_def)
qed

text \<open>A decoded state whose nonce is gone is refused, and nothing but the clock moves.\<close>

lemma accept_state_consumed:
  assumes "oe_has_links v" "oe_has_pending v"
    "\<And>since until. decodeOAuthState (prims v) raw (secret_of v) (stateTTL v) since until
       \<in> {Inr st, Inl errOAuthStateInvalid}"
    "consumed (os_N st) w"
  shows "\<exists>n. accept_state v provider raw w = (Inl errOAuthStateInvalid, ticked n w)"
proof -
  let ?d = "decodeOAuthState (prims v) raw (secret_of v) (stateTTL v)
    (e_wall (oe_env v) (w_tick (ow_world w))) (e_wall (oe_env v) (w_tick (ow_world w) + 1))"
  have gone: "pending_Get now (oauthStateKey (os_N st)) (ow_pending w) = (None, ow_pending w)" for now
    using assms(4) by (simp add: consumed_def pending_Get_None)
  have same: "(ticked 3 w)\<lparr>ow_pending := ow_pending w\<rparr> = ticked 3 w" by (simp add: ticked_def)
  show ?thesis
  proof (cases "?d = Inr st")
    case True
    then show ?thesis unfolding accept_state_run[OF assms(1,2)] by (auto simp: gone same)
  next
    case False
    then have "?d = Inl errOAuthStateInvalid" using assms(3) by blast
    then show ?thesis unfolding accept_state_run[OF assms(1,2)] by auto
  qed
qed

lemma nonce_single_use:
  assumes fresh: "fresh_draws (prims v)" and stash: "oe_has_links v" "oe_has_pending v"
    and start: "ow_pending w0 = fmempty" "oauth_run v w0 w"
    and first: "accept_state v provider raw w = (Inr (st, tenant), w1)"
    and run: "oauth_run v w1 w2"
  shows "\<exists>n. accept_state v provider' raw w2 = (Inl errOAuthStateInvalid, ticked n w2)"
proof (rule accept_state_consumed[OF stash])
  note facts = accept_state_Inr[OF first stash(2)]
  show "decodeOAuthState (prims v) raw (secret_of v) (stateTTL v) since until \<in> {Inr st, Inl errOAuthStateInvalid}"
    for since until
    using facts(1) decoded_twice by blast
  have "nonce_known (prims v) (os_N st) w0" by (simp add: nonce_known_def consumed_def start(1))
  then have "nonce_known (prims v) (os_N st) w" by (rule nonces_run(1)[OF start(2)])
  then have "spent (prims v) (os_N st) w1"
    using facts(2,3) drawn_later[OF _ facts(4)] by (simp add: nonce_known_def spent_def)
  then show "consumed (os_N st) w2" using nonces_run(2)[OF run fresh] by (simp add: spent_def)
qed

lemma OAuthComplete_refused:
  assumes "accept_state v provider raw w = (Inl e, w')"
  shows "OAuthComplete v provider code raw w =
    (case requireProvider v provider of Inl err \<Rightarrow> (Inr ([], Inl err), w) | Inr _ \<Rightarrow> (Inr ([], Inl e), w'))"
  using assms by (simp add: OAuthComplete_def odo_def otry_def oret_def split: sum.splits)

section \<open>The callback\<close>

text \<open>The answers that refuse an identity: the policy's, and the conflict.\<close>

fun refusal :: "oauth_error \<Rightarrow> bool" where
  "refusal errOAuthEmailNotVerified = True"
| "refusal errOAuthEmailDomainNotAllowed = True"
| "refusal errOAuthUserNotProvisioned = True"
| "refusal (OAuthAccountConflict p e i) = True"
| "refusal _ = False"

lemma lift_Inl: "lift m w = (Inl e, w') \<Longrightarrow> \<exists>f. e = AuthFailure f"
  by (auto simp: lift_def split: prod.splits sum.splits)

text \<open>An action whose errors are failures of the service or of the field map.\<close>

definition no_refusal :: "'a oaction \<Rightarrow> bool" where
  "no_refusal m \<longleftrightarrow> (\<forall>w e w'. m w = (Inl e, w') \<longrightarrow> \<not> refusal e)"

lemma no_refusals:
  "no_refusal (lift m)" "no_refusal (oret x)" "no_refusal (otry n)" "no_refusal (links_do f)"
  by (auto simp: no_refusal_def oret_def otry_def links_do_def dest!: lift_Inl split: prod.splits)

lemma no_refusal_odo: "no_refusal m \<Longrightarrow> (\<And>x. no_refusal (g x)) \<Longrightarrow> no_refusal (odo m g)"
  unfolding no_refusal_def odo_Inl by metis

lemma signing_in_never_refuses: "no_refusal (sign_in v u)" "no_refusal (sign_in_by_id v i t)" "no_refusal (link_id v)"
proof -
  show s: "no_refusal (sign_in v u)" for u unfolding sign_in_def by (intro no_refusals no_refusal_odo)
  have "no_refusal (case r of Inl _ \<Rightarrow> ofail (AuthFailure e) | Inr user \<Rightarrow> sign_in v user)" for r :: "'b + User" and e
    using s by (cases r) (auto simp: no_refusal_def ofail_def)
  then show "no_refusal (sign_in_by_id v i t)" unfolding sign_in_by_id_def by (intro no_refusals no_refusal_odo)
  show "no_refusal (link_id v)" unfolding link_id_def by (intro no_refusals no_refusal_odo)
qed

lemma field_maps_never_refuse:
  "no_refusal (oreturn (compileUserFieldMap m))" "no_refusal (oreturn (applyUserFieldMap num setters raw u))"
proof -
  have "compile_fields m names setters = Inl e \<Longrightarrow> \<not> refusal e" for m names setters e
    by (induction m names setters rule: compile_fields.induct) (auto split: option.splits sum.splits)
  then show "no_refusal (oreturn (compileUserFieldMap m))"
    by (auto simp: no_refusal_def oreturn_def compileUserFieldMap_def)
  have "applyUserFieldMap num setters raw u = Inl e \<Longrightarrow> \<not> refusal e" for e
    by (induction num setters raw u rule: applyUserFieldMap.induct) (auto split: option.splits sum.splits)
  then show "no_refusal (oreturn (applyUserFieldMap num setters raw u))"
    by (auto simp: no_refusal_def oreturn_def)
qed

text \<open>The two places that refuse do so before they touch anything.\<close>

lemma creation_refusal:
  assumes "create_account v p info t w = (Inl e, w')" "refusal e"
  shows "\<not> op_AutoCreate p \<and> w' = w"
proof (cases "op_AutoCreate p")
  case False
  then show ?thesis using assms(1) by (simp add: create_account_def ofail_def)
next
  case auto: True
  have "no_refusal (create_account v p info t)"
    unfolding create_account_def using auto
    by simp (intro no_refusals no_refusal_odo field_maps_never_refuse signing_in_never_refuses)
  then show ?thesis using assms unfolding no_refusal_def by blast
qed

lemma match_refusal:
  assumes "on_email_match v p info u w = (Inl e, w')" "refusal e"
  shows "op_OnEmailMatch p \<in> {OAuthEmailMatchConflict, OAuthEmailMatchReject} \<and> w' = w"
proof (cases "op_OnEmailMatch p \<in> {OAuthEmailMatchConflict, OAuthEmailMatchReject}")
  case True
  then show ?thesis using assms(1) by (auto simp: on_email_match_def ofail_def split: if_splits)
next
  case False
  have "no_refusal (on_email_match v p info u)"
    unfolding on_email_match_def using False
    by simp (intro no_refusals no_refusal_odo signing_in_never_refuses)
  then show ?thesis using assms unfolding no_refusal_def by blast
qed

lemma admit_refusal: "admit p info = Inl e \<Longrightarrow> op_RequireVerifiedEmail p \<or> op_AllowedEmailDomains p \<noteq> []"
  by (auto simp: admit_def emailDomainAllowed_def split: if_splits)

lemma users_read: "otry (lift (users_get g)) w = (Inr (case g (w_users (ow_world w)) of
    Inl e \<Rightarrow> Inl (AuthFailure e) | Inr x \<Rightarrow> Inr x), w)"
  by (simp add: otry_def lift_def users_get_def split: sum.splits)

lemma callback_refusal:
  assumes "HandleCallbackWithPolicy v info t i p w = (Inl e, w')" "refusal e"
  shows "w' = w" "op_RequireVerifiedEmail p \<or> op_AllowedEmailDomains p \<noteq> [] \<or> \<not> op_AutoCreate p \<or>
    op_OnEmailMatch p \<in> {OAuthEmailMatchConflict, OAuthEmailMatchReject}"
proof -
  let ?p = "normalized p"
  have norm: "op_RequireVerifiedEmail ?p = op_RequireVerifiedEmail p"
    "op_AllowedEmailDomains ?p = op_AllowedEmailDomains p" "op_AutoCreate ?p = op_AutoCreate p"
    "op_OnEmailMatch ?p \<in> {OAuthEmailMatchConflict, OAuthEmailMatchReject} \<Longrightarrow>
       op_OnEmailMatch p \<in> {OAuthEmailMatchConflict, OAuthEmailMatchReject}"
    by (auto simp: normalized_def email_match_defs split: if_splits)
  have linking: "no_refusal (odo (lift (draw d)) (\<lambda>linkID. odo (lift (wall s)) (\<lambda>now.
      odo (links_do (f linkID now)) (\<lambda>_. sign_in_by_id v i t))))" for d :: "string draws" and s and f
    by (intro no_refusals no_refusal_odo signing_in_never_refuses)
  have "w' = w \<and> (op_RequireVerifiedEmail p \<or> op_AllowedEmailDomains p \<noteq> [] \<or> \<not> op_AutoCreate p \<or>
    op_OnEmailMatch p \<in> {OAuthEmailMatchConflict, OAuthEmailMatchReject})"
  proof (cases "admit ?p info")
    case (Inl err)
    then have "err = e" "w' = w"
      using assms(1) by (simp_all add: HandleCallbackWithPolicy_def Let_def odo_def oreturn_def)
    then show ?thesis using admit_refusal[of ?p info e] Inl norm(1,2) by auto
  next
    case admitted: (Inr x)
    have "i = []"
    proof (rule ccontr)
      assume "i \<noteq> []"
      then have "odo (lift (draw (newID (prims v) ''lnk''))) (\<lambda>linkID. odo (lift (wall (oe_env v))) (\<lambda>now.
        odo (links_do (link_Save (new_link linkID i info now))) (\<lambda>_. sign_in_by_id v i t))) w = (Inl e, w')"
        using assms(1) admitted by (simp add: HandleCallbackWithPolicy_def Let_def odo_def[of "oreturn _"] oreturn_def)
      then show False
        using linking[of "newID (prims v) ''lnk''" "oe_env v" "\<lambda>linkID now. link_Save (new_link linkID i info now)"]
          assms(2) unfolding no_refusal_def by blast
    qed
    then consider (known) l :: OAuthLinkedAccount where "sign_in_by_id v (la_UserID l) t w = (Inl e, w')"
      | (create) "create_account v ?p info t w = (Inl e, w')"
      | (matched) u where "on_email_match v ?p info u w = (Inl e, w')"
      using assms(1) admitted
      by (auto simp: HandleCallbackWithPolicy_def Let_def odo_def oreturn_def links_get_def users_read
          split: sum.splits option.splits if_splits)
    then show ?thesis
    proof cases
      case (known l)
      then show ?thesis using assms(2) signing_in_never_refuses(2) unfolding no_refusal_def by metis
    next
      case create
      then show ?thesis using creation_refusal[OF _ assms(2)] norm by metis
    next
      case (matched u)
      then show ?thesis using match_refusal[OF _ assms(2)] norm(4) by blast
    qed
  qed
  then show "w' = w" "op_RequireVerifiedEmail p \<or> op_AllowedEmailDomains p \<noteq> [] \<or> \<not> op_AutoCreate p \<or>
    op_OnEmailMatch p \<in> {OAuthEmailMatchConflict, OAuthEmailMatchReject}" by blast+
qed

lemma defaults_never_refuse:
  assumes "HandleCallback v info t i w = (Inl e, w')"
  shows "\<not> refusal e"
  using callback_refusal(2)[OF assms[unfolded HandleCallback_def]]
  by (auto simp: DefaultOAuthProvisioning_def email_match_defs)

subsection \<open>Who is signed in\<close>

text \<open>A session of the user, live from now on, whose refresh token the caller holds.\<close>

definition session_opened :: "oauth_env \<Rightarrow> User \<Rightarrow> AuthTokens \<Rightarrow> oauth_world \<Rightarrow> oauth_world \<Rightarrow> bool" where
  "session_opened v user tokens w w' \<longleftrightarrow>
     (\<exists>x. w_sessions (ow_world w') = snd (CreateSession x (w_sessions (ow_world w))) \<and> s_UserID x = u_ID user \<and>
       s_TenantID x = u_TenantID user \<and> s_RevokedAt x = None \<and>
       s_RefreshTokenHash x = hashToken (prims v) (at_RefreshToken tokens))"

lemma sign_in_run:
  "sign_in v u w = (case issueSession (oe_env v) u (ow_world w) of
     (Inl e, s) \<Rightarrow> (Inl (AuthFailure e), w\<lparr>ow_world := s\<rparr>)
   | (Inr (tokens, sid), s) \<Rightarrow> (Inr (u, tokens), w\<lparr>ow_world := s\<rparr>))"
  by (simp add: sign_in_def odo_def lift_def newSessionTokens_def thenDo_def ret_def oret_def
      split: prod.splits sum.splits)

lemma sign_in_Inr:
  assumes "sign_in v u w = (Inr (user, tokens), w')"
  shows "user = u \<and> session_opened v user tokens w w' \<and> ow_links w' = ow_links w \<and>
    w_users (ow_world w') = w_users (ow_world w)"
proof -
  obtain sid s where i: "issueSession (oe_env v) u (ow_world w) = (Ok (tokens, sid), s)" "user = u"
    "w' = w\<lparr>ow_world := s\<rparr>"
    using assms by (auto simp: sign_in_run split: prod.splits sum.splits)
  have users: "w_users s = w_users (ow_world w)"
    by (rule keepsD[where f = w_users, OF keeps_issueSession i(1)]) simp_all
  obtain b w1 w2 w3 rexp now where s: "s = w3\<lparr>w_tick := Suc (w_tick w3), w_sessions := snd (CreateSession
      \<lparr>s_ID = sid, s_UserID = u_ID u, s_TenantID = u_TenantID u,
       s_RefreshTokenHash = hashToken (prims v) (at_RefreshToken tokens),
       s_CreatedAt = now, s_ExpiresAt = rexp, s_RevokedAt = None\<rparr> (w_sessions (ow_world w)))\<rparr>"
    using issueSession_Ok[OF i(1)] by blast
  have "session_opened v u tokens w w'" unfolding session_opened_def i(3) s
    by (rule exI[of _ "\<lparr>s_ID = sid, s_UserID = u_ID u, s_TenantID = u_TenantID u,
       s_RefreshTokenHash = hashToken (prims v) (at_RefreshToken tokens),
       s_CreatedAt = now, s_ExpiresAt = rexp, s_RevokedAt = None\<rparr>"]) simp
  then show ?thesis using users by (simp add: i(2,3))
qed

lemma sign_in_by_id_Inr:
  assumes "sign_in_by_id v i t w = (Inr (user, tokens), w')"
  shows "GetUserByID i t (w_users (ow_world w)) = Inr user \<and> session_opened v user tokens w w' \<and>
    ow_links w' = ow_links w \<and> w_users (ow_world w') = w_users (ow_world w)"
proof -
  obtain u where "GetUserByID i t (w_users (ow_world w)) = Inr u" "sign_in v u w = (Inr (user, tokens), w')"
    using assms unfolding sign_in_by_id_def odo_def users_read
    by (auto simp: ofail_def split: sum.splits)
  then show ?thesis using sign_in_Inr by blast
qed

lemma id_runs:
  "lift (draw (newID c p)) w = (Inr i, w') \<Longrightarrow> w' = ticked 1 w"
  "link_id v w = (Inr i, w') \<Longrightarrow> w' = ticked 1 w"
  by (auto simp: link_id_def odo_def otry_def oret_def lift_def draw_def newID_def ticked_def
      split: prod.splits sum.splits)

lemma creation_run:
  "lift (mapErr f (users_do g)) w = (Inr x, w') \<longleftrightarrow>
     (\<exists>s. g (w_users (ow_world w)) = (Inr x, s) \<and> w' = w\<lparr>ow_world := (ow_world w)\<lparr>w_users := s\<rparr>\<rparr>)"
  by (auto simp: lift_def mapErr_def users_do_def split: prod.splits sum.splits)

lemma tick_parts [simp]:
  "session_opened v u ts (ticked n w) w' \<longleftrightarrow> session_opened v u ts w w'"
  "w_users (ow_world (ticked n w)) = w_users (ow_world w)"
  by (simp_all add: session_opened_def ticked_def)

lemma session_opened_same:
  "w_sessions (ow_world a) = w_sessions (ow_world b) \<Longrightarrow> session_opened v u ts a w' \<Longrightarrow> session_opened v u ts b w'"
  by (simp add: session_opened_def)

lemma on_email_match_Inr:
  assumes "on_email_match v p info u w = (Inr (user, tokens), w')"
  shows "user = u \<and> op_OnEmailMatch p \<notin> {OAuthEmailMatchConflict, OAuthEmailMatchReject} \<and>
    session_opened v user tokens w w' \<and> w_users (ow_world w') = w_users (ow_world w) \<and>
    (\<exists>i now. ow_links w' = link_Save (new_link i (u_ID u) info now) (ow_links w))"
proof -
  obtain i now where policy: "op_OnEmailMatch p \<notin> {OAuthEmailMatchConflict, OAuthEmailMatchReject}"
    and run: "sign_in v u ((ticked 2 w)\<lparr>ow_links := link_Save (new_link i (u_ID u) info now) (ow_links w)\<rparr>)
      = (Inr (user, tokens), w')"
    using assms by (auto simp: on_email_match_def odo_Inr wall_ticks links_do_def ofail_def numeral_2_eq_2
        split: if_splits dest!: id_runs)
  have "session_opened v user tokens w w'"
    by (rule session_opened_same[OF _ conjunct1[OF conjunct2[OF sign_in_Inr[OF run]]]]) (simp add: ticked_def)
  then show ?thesis using sign_in_Inr[OF run] policy by auto
qed

text \<open>The draft of a created account: its identity, address, tenant and provider come from the call, and
  the field map fills in names, phone number and role only.\<close>

lemma create_account_Inr:
  assumes "create_account v p info t w = (Inr (user, tokens), w')"
  shows "op_AutoCreate p \<and> session_opened v user tokens w w' \<and>
    (\<exists>userID now draft i. unmapped draft = unmapped (draft_user userID t info now) \<and>
       CreateUser draft (w_users (ow_world w)) = (Inr user, w_users (ow_world w')) \<and>
       ow_links w' = link_Save (new_link i (u_ID user) info now) (ow_links w))"
proof -
  obtain setters userID now draft s newUser i w1 where auto: "op_AutoCreate p"
    and map: "compileUserFieldMap (op_FieldMap p) = Inr setters"
      "applyUserFieldMap (io_js (oe_io v)) setters (oi_Raw info) (draft_user userID t info now) = Inr draft"
    and created: "CreateUser draft (w_users (ow_world w)) = (Inr newUser, s)"
    and w1: "w1 = ticked 1 ((ticked 2 w)\<lparr>ow_world := (ow_world (ticked 2 w))\<lparr>w_users := s\<rparr>\<rparr>)"
    and run: "sign_in v newUser (w1\<lparr>ow_links := link_Save (new_link i (u_ID newUser) info now) (ow_links w)\<rparr>)
      = (Inr (user, tokens), w')"
    using assms
    by (auto simp: create_account_def odo_Inr wall_ticks oreturn_def links_do_def ofail_def creation_run numeral_2_eq_2
        split: if_splits dest!: id_runs)
  have same: "w_users (ow_world w1) = s" "w_sessions (ow_world w1) = w_sessions (ow_world w)"
    by (simp_all add: w1 ticked_def)
  note facts = sign_in_Inr[OF run]
  have user: "user = newUser" "w_users (ow_world w') = s"
    "ow_links w' = link_Save (new_link i (u_ID newUser) info now) (ow_links w)"
    using facts same by simp_all
  have "session_opened v user tokens w w'"
    by (rule session_opened_same[OF _ conjunct1[OF conjunct2[OF facts]]]) (simp add: same)
  then show ?thesis using auto created user field_map_harmless[OF map] by auto
qed

text \<open>Whose session a callback opens: the user of the provider account's link; else the account of the
  profile's address, when the policy links by address; else an account created for the profile.\<close>

definition callback_user :: "OAuthUserInfo \<Rightarrow> string \<Rightarrow> OAuthProvisioning \<Rightarrow> oauth_world \<Rightarrow> User \<Rightarrow> oauth_world \<Rightarrow> bool" where
  "callback_user info t p w user w' \<longleftrightarrow> (case FindByProvider (oi_Provider info) (oi_ProviderID info) (ow_links w) of
     Some l \<Rightarrow> GetUserByID (la_UserID l) t (w_users (ow_world w)) = Inr user \<and> ow_links w' = ow_links w
   | None \<Rightarrow> (\<exists>i now. ow_links w' = link_Save (new_link i (u_ID user) info now) (ow_links w)) \<and>
       (if oi_Email info \<noteq> [] \<and> (\<exists>u. GetUserByEmail (oi_Email info) t (w_users (ow_world w)) = Inr u)
        then GetUserByEmail (oi_Email info) t (w_users (ow_world w)) = Inr user \<and>
          op_OnEmailMatch p \<notin> {OAuthEmailMatchConflict, OAuthEmailMatchReject}
        else op_AutoCreate p \<and> (\<exists>userID now draft. unmapped draft = unmapped (draft_user userID t info now) \<and>
          CreateUser draft (w_users (ow_world w)) = (Inr user, w_users (ow_world w')))))"

lemma callback_signs_in:
  assumes "HandleCallbackWithPolicy v info t [] p w = (Inr (user, tokens), w')"
  shows "admit p info = Inr ()" "callback_user info t p w user w'" "session_opened v user tokens w w'"
proof -
  let ?p = "normalized p" and ?mail = "GetUserByEmail (oi_Email info) t (w_users (ow_world w))"
    and ?found = "FindByProvider (oi_Provider info) (oi_ProviderID info) (ow_links w)"
  have norm: "op_AutoCreate ?p = op_AutoCreate p" "admit ?p = admit p"
    "op_OnEmailMatch ?p \<notin> {OAuthEmailMatchConflict, OAuthEmailMatchReject} \<Longrightarrow>
       op_OnEmailMatch p \<notin> {OAuthEmailMatchConflict, OAuthEmailMatchReject}"
    by (auto simp: normalized_def email_match_defs admit_def fun_eq_iff split: if_splits)
  show admitted: "admit p info = Inr ()"
    using assms norm(2) by (auto simp: HandleCallbackWithPolicy_def Let_def odo_def oreturn_def split: sum.splits)
  have run: "(case ?found of Some l \<Rightarrow> sign_in_by_id v (la_UserID l) t w
    | None \<Rightarrow> if oi_Email info = [] then create_account v ?p info t w
        else (case ?mail of Inr user \<Rightarrow> on_email_match v ?p info user w
        | Inl _ \<Rightarrow> create_account v ?p info t w)) = (Inr (user, tokens), w')"
    using assms admitted norm(2)
    by (simp add: HandleCallbackWithPolicy_def Let_def odo_def oreturn_def links_get_def users_read
        split: option.splits sum.splits if_splits)
  consider (link) l where "?found = Some l" "sign_in_by_id v (la_UserID l) t w = (Inr (user, tokens), w')"
    | (matched) u where "?found = None" "oi_Email info \<noteq> []" "?mail = Inr u"
        "on_email_match v ?p info u w = (Inr (user, tokens), w')"
    | (create) "?found = None" "\<not> (oi_Email info \<noteq> [] \<and> (\<exists>u. ?mail = Inr u))"
        "create_account v ?p info t w = (Inr (user, tokens), w')"
    using run by (cases ?found; cases "oi_Email info = []"; cases ?mail) simp_all
  then have "session_opened v user tokens w w' \<and> callback_user info t p w user w'"
  proof cases
    case (link l)
    then show ?thesis using sign_in_by_id_Inr[OF link(2)] by (simp add: callback_user_def)
  next
    case (matched u)
    then show ?thesis using on_email_match_Inr[OF matched(4)] norm(3) by (auto simp: callback_user_def)
  next
    case create
    note facts = create_account_Inr[OF create(3)]
    show ?thesis unfolding callback_user_def if_not_P[OF create(2)] using facts create(1) norm(1) by auto
  qed
  then show "session_opened v user tokens w w'" "callback_user info t p w user w'" by blast+
qed

section \<open>A link to an account that is gone\<close>

text \<open>\<open>DeleteAccount\<close> leaves the provider links alone: the provider account is then answered as bad
  credentials, whatever the policy, and no account is created for it.\<close>

lemma orphaned_link:
  assumes "FindByProvider (oi_Provider info) (oi_ProviderID info) (ow_links w) = Some l"
    "GetUserByID (la_UserID l) t (w_users (ow_world w)) = Inl e" "admit (normalized p) info = Inr ()"
  shows "HandleCallbackWithPolicy v info t [] p w = (Inl (AuthFailure (Sentinel ErrInvalidCredentials)), w)"
  using assms by (simp add: HandleCallbackWithPolicy_def Let_def odo_def oreturn_def links_get_def
      sign_in_by_id_def users_read ofail_def)

text \<open>The user of a link is signed in without further question.\<close>

lemma callback_of_linked:
  assumes "FindByProvider (oi_Provider info) (oi_ProviderID info) (ow_links w) = Some l"
    "GetUserByID (la_UserID l) t (w_users (ow_world w)) = Inr user" "admit p info = Inr ()"
  shows "HandleCallbackWithPolicy v info t [] p w = sign_in v user w"
proof -
  have "admit (normalized p) = admit p" by (auto simp: admit_def normalized_def fun_eq_iff)
  then show ?thesis using assms by (simp add: HandleCallbackWithPolicy_def Let_def odo_def oreturn_def links_get_def
      sign_in_by_id_def users_read)
qed

section \<open>The link token\<close>

text \<open>A token that \<open>LinkVerify\<close> accepts was stashed, links what was stashed with it and nothing else,
  and is gone afterwards.\<close>

definition confirmed_link :: "string \<Rightarrow> OAuthPendingMeta \<Rightarrow> time \<Rightarrow> OAuthLinkedAccount" where
  "confirmed_link i meta now = \<lparr>la_ID = i, la_UserID = pm_UserID meta, la_Provider = pm_Provider meta,
     la_ProviderID = (if pm_ProviderAccountID meta = [] then pm_Email meta else pm_ProviderAccountID meta),
     la_Email = pm_Email meta, la_Name = [], la_Picture = [], la_CreatedAt = now\<rparr>"

lemma sign_in_stash:
  "sign_in_by_id v i t w = (r, w') \<Longrightarrow> ow_pending w' = ow_pending w"
  by (auto simp: sign_in_by_id_def odo_def users_read ofail_def sign_in_run split: sum.splits prod.splits)

lemma link_verify_Inr:
  assumes "LinkVerify v token login w = (Inr answer, w')"
  shows "link_ready v \<and> trim_space token \<noteq> [] \<and>
    fmlookup (ow_pending w') (linkTokenKey (prims v) (trim_space token)) = None \<and>
    (\<exists>meta expiry i now. fmlookup (ow_pending w) (linkTokenKey (prims v) (trim_space token)) = Some (meta, expiry) \<and>
      ow_links w' = link_Save (confirmed_link i meta now) (ow_links w))"
proof -
  let ?key = "linkTokenKey (prims v) (trim_space token)"
  obtain meta s where ready: "link_ready v" "trim_space token \<noteq> []"
    and get: "pending_Get (e_wall (oe_env v) (w_tick (ow_world w))) ?key (ow_pending w) = (Some meta, s)"
    and confirm: "confirm_link v ?key login meta ((ticked 1 w)\<lparr>ow_pending := s\<rparr>) = (Inr answer, w')"
    using assms
    by (auto simp: LinkVerify_def Let_def odo_def stash_get_def wall_ticks ofail_def
        split: if_splits option.splits prod.splits)
  obtain i now where rest: "(if \<not> login then oret None
        else odo (IssueTokensForUser v (pm_UserID meta) (pm_TenantID meta)) (\<lambda>session. oret (Some session)))
      ((ticked 4 w)\<lparr>ow_links := link_Save (confirmed_link i meta now) (ow_links w),
        ow_pending := pending_Delete (pendingLinkKey (pm_Email meta) (pm_Provider meta)) (pending_Delete ?key s)\<rparr>)
      = (Inr answer, w')"
  proof (cases "pm_ExpiresAt meta \<noteq> zero_time \<and> e_wall (oe_env v) (Suc (w_tick (ow_world w))) > pm_ExpiresAt meta")
    case True
    then show ?thesis using confirm by (simp add: confirm_link_def odo_def wall_ticks stash_delete_def ofail_def)
  next
    case False
    show ?thesis
      using confirm False that
      by (auto simp: confirm_link_def odo_Inr wall_ticks stash_delete_def links_do_def confirmed_link_def ticked_def
          numeral_eq_Suc split del: if_split dest!: id_runs)
  qed
  have links: "ow_links w' = link_Save (confirmed_link i meta now) (ow_links w)"
    and stash: "ow_pending w' = pending_Delete (pendingLinkKey (pm_Email meta) (pm_Provider meta)) (pending_Delete ?key s)"
    using rest sign_in_by_id_Inr sign_in_stash
    by (auto simp: IssueTokensForUser_def odo_Inr oret_def split: if_splits) 
  have "fmlookup (ow_pending w') ?key = None" by (simp add: stash pending_Delete_def)
  then show ?thesis using ready get links by (auto simp: pending_Get_Some)
qed

lemma link_verify_once:
  assumes "LinkVerify v token login w = (Inr answer, w')"
  shows "LinkVerify v token login' w' = (Inl errLinkTokenInvalid, ticked 1 w')"
proof -
  note facts = link_verify_Inr[OF assms]
  have gone: "pending_Get now (linkTokenKey (prims v) (trim_space token)) (ow_pending w') = (None, ow_pending w')" for now
    using facts by (simp add: pending_Get_None)
  have same: "(ticked 1 w')\<lparr>ow_pending := ow_pending w'\<rparr> = ticked 1 w'" by (simp add: ticked_def)
  show ?thesis using facts same
    by (simp add: LinkVerify_def Let_def odo_def stash_get_def wall_ticks gone ofail_def)
qed

section \<open>A completed login\<close>

definition same_stores :: "oauth_world \<Rightarrow> oauth_world \<Rightarrow> bool" where
  "same_stores w w' \<longleftrightarrow> ow_links w' = ow_links w \<and> w_users (ow_world w') = w_users (ow_world w) \<and>
     w_sessions (ow_world w') = w_sessions (ow_world w)"

interpretation ss: frame same_stores
  by unfold_locales (simp_all add: same_stores_def)

lemma same_lift: "keeps w_users m \<Longrightarrow> keeps w_sessions m \<Longrightarrow> always same_stores (lift m)"
  by (auto simp: always_def same_stores_def lift_def keeps_def split: prod.splits sum.splits) (metis snd_conv)+

lemma same_clock: "always same_stores (lift (wall e))"
  by (rule same_lift) (intro frames, simp)+

lemma same_closing:
  "always same_stores (lift (publish e ev))" "always same_stores (lift (sessionIDOf e toks))"
proof -
  show "always same_stores (lift (publish e ev))" by (rule same_lift) (simp_all add: keeps_def publish_def)
  show "always same_stores (lift (sessionIDOf e toks))"
    by (rule same_lift) (unfold sessionIDOf_def parseToken_def Let_def, (intro frames; simp)+)
qed

lemma same_exchange: "always same_stores (exchange v s p code verifier)"
  by (simp add: always_def same_stores_def exchange_def split: prod.splits)

lemma same_accept: "always same_stores (accept_state v provider raw)"
proof -
  have "always same_stores (stash_get v key)" for key
    by (rule ss.look[OF _ same_clock]) (simp add: same_stores_def)
  moreover have "always same_stores (stash_delete key)" for key
    by (simp add: always_def same_stores_def stash_delete_def)
  ultimately show ?thesis
    unfolding accept_state_def by (intro ss.sequence ss.simple always_link_branches same_clock)
qed

lemma accept_decodes:
  assumes "accept_state v provider raw w = (Inr (st, tenant), w')"
  shows "\<exists>since until. decodeOAuthState (prims v) raw (secret_of v) (stateTTL v) since until = Inr st"
proof (cases "oe_has_pending v")
  case True
  then show ?thesis using accept_state_Inr(1)[OF assms] by blast
next
  case False
  then show ?thesis using assms
    by (auto simp: accept_state_def odo_Inr wall_ticks oreturn_def oret_def ofail_def split: if_splits)
qed

lemma callback_user_same:
  assumes "same_stores a b" "same_stores c d"
  shows "callback_user i t p b u c = callback_user i t p a u d" "session_opened v u ts b c = session_opened v u ts a d"
proof -
  have eqs: "ow_links b = ow_links a" "w_users (ow_world b) = w_users (ow_world a)"
    "w_sessions (ow_world b) = w_sessions (ow_world a)" "ow_links d = ow_links c"
    "w_users (ow_world d) = w_users (ow_world c)" "w_sessions (ow_world d) = w_sessions (ow_world c)"
    using assms by (simp_all add: same_stores_def)
  show "callback_user i t p b u c = callback_user i t p a u d" "session_opened v u ts b c = session_opened v u ts a d"
    unfolding callback_user_def session_opened_def eqs by (rule refl)+
qed

lemma exchanged:
  "exchange v service provider code verifier w = (Inr info, w') \<Longrightarrow>
     ExchangeCodePKCE (oe_io v) service provider code verifier (w_tick (ow_world w)) = (Inr info, w_tick (ow_world w'))"
  by (auto simp: exchange_def split: prod.splits)

lemma OAuthComplete_Inr:
  assumes "OAuthComplete v provider code raw w = (Inr (site, Inr (user, tokens)), w')"
  shows "\<exists>service st tenant w1 info w2.
    requireProvider v provider = Inr service \<and> accept_state v provider raw w = (Inr (st, tenant), w1) \<and>
    exchange v service provider code (pkceVerifier (prims v) (secret_of v) (os_N st)) w1 = (Inr info, w2) \<and>
    admit (provisioning v) info = Inr () \<and> callback_user info tenant (provisioning v) w user w' \<and>
    session_opened v user tokens w w' \<and>
    site = resolveOAuthRedirect (oe_url v) st (allowedOrigins (oe_siteURLs v) (oauth_cors v))
       (defaultSiteURL (oe_siteURLs v) (oauth_cors v))"
proof -
  obtain service where s: "requireProvider v provider = Inr service"
    using assms by (auto simp: OAuthComplete_def oret_def split: sum.splits)
  obtain st tenant w1 where a: "accept_state v provider raw w = (Inr (st, tenant), w1)"
    using assms s by (auto simp: OAuthComplete_def odo_def otry_def oret_def split: sum.splits prod.splits)
  obtain info w2 where x: "exchange v service provider code (pkceVerifier (prims v) (secret_of v) (os_N st)) w1 = (Inr info, w2)"
    using assms s a by (auto simp: OAuthComplete_def Let_def odo_def otry_def oret_def split: sum.splits prod.splits)
  obtain u toks w3 where h: "HandleCallbackWithPolicy v info tenant [] (provisioning v) w2 = (Inr (u, toks), w3)"
    using assms s a x
    by (auto simp: OAuthComplete_def Let_def odo_def otry_def oret_def split: sum.splits prod.splits)
  obtain sid w4 where "lift (sessionIDOf (oe_env v) toks) w3 = (Inr sid, w4)"
    and "\<exists>ev q. lift (publish (oe_env v) ev) w4 = (q, w')"
    and ids: "u = user" "toks = tokens" "site = resolveOAuthRedirect (oe_url v) st
       (allowedOrigins (oe_siteURLs v) (oauth_cors v)) (defaultSiteURL (oe_siteURLs v) (oauth_cors v))"
    using assms s a x h
    by (auto simp: OAuthComplete_def Let_def odo_def otry_def oret_def split: sum.splits prod.splits)
  then have close: "same_stores w3 w'"
    using always_result[OF same_closing(2)] always_result[OF same_closing(1)] ss.onward by metis
  have start: "same_stores w w2"
    using always_result[OF same_accept a] always_result[OF same_exchange x] ss.onward by blast
  note facts = callback_signs_in[OF h[unfolded ids(1,2)], unfolded callback_user_same[OF start close]]
  show ?thesis using s a x facts ids(3) by blast
qed

end
