(* ===== verification/Demo_OAuth.thy ===== *)
theory Demo_OAuth
  imports OAuth_Laws Demo_World
begin

text \<open>
  A concrete provider and its answers, a login that was begun, and a link token in flight, for the
  witnesses. Nothing here models code.
\<close>

definition demo_info :: OAuthUserInfo where
  "demo_info = (empty_info (JObj []))\<lparr>oi_Provider := ''acme'', oi_ProviderID := ''42'', oi_Email := ''a@b.c'',
     oi_EmailVerified := Some True\<rparr>"

definition demo_provider :: OAuthProvider where
  "demo_provider = (GoogleProvider [] [] [])\<lparr>pr_Name := ''acme'', pr_MapProfile := Some (\<lambda>k raw. Inr demo_info)\<rparr>"

definition demo_service :: OAuthService where
  "demo_service = \<lparr>sv_providers = fmap_of_list [(''acme'', demo_provider)], sv_profileMaps = fmempty,
     sv_providerErrs = fmempty\<rparr>"

definition demo_io :: oauth_io where
  "demo_io = \<lparr>io_http = (\<lambda>k call. case call of
       TokenCall url form \<Rightarrow> Reply 200 (''{'' @ [CHR 0x22] @ ''access_token'' @ [CHR 0x22] @ '':'' @ [CHR 0x22] @ ''t'' @ [CHR 0x22] @ ''}'')
     | _ \<Rightarrow> Reply 200 ''{}''), io_js = id, io_plain = id\<rparr>"

definition demo_wiring :: "OAuthProvisioning \<Rightarrow> oauth_env" where
  "demo_wiring policy = \<lparr>oe_env = demo_host, oe_wired = True, oe_service = Some demo_service, oe_has_links = True,
     oe_has_pending = True, oe_siteURLs = [], oe_AllowedOrigins = [], oe_SiteURL = [], oe_TenantID = [],
     oe_Provisioning = Some policy, oe_StateTTL = 0, oe_LinkTokenTTL = 0, oe_DeliverLinkToken = None,
     oe_io = demo_io, oe_endpoint = (\<lambda>u. Some (fmempty, \<lambda>q. u)), oe_url = (\<lambda>u. None)\<rparr>"

abbreviation "demo_oauth \<equiv> demo_wiring DefaultOAuthProvisioning"

lemma demo_wiring_simps [simp]:
  "oe_env (demo_wiring p) = demo_host" "oe_wired (demo_wiring p)" "oe_service (demo_wiring p) = Some demo_service"
  "oe_has_links (demo_wiring p)" "oe_has_pending (demo_wiring p)" "oe_siteURLs (demo_wiring p) = []"
  "oe_AllowedOrigins (demo_wiring p) = []" "oe_SiteURL (demo_wiring p) = []" "oe_TenantID (demo_wiring p) = []"
  "oe_Provisioning (demo_wiring p) = Some p" "oe_io (demo_wiring p) = demo_io"
  "oe_endpoint (demo_wiring p) u = Some (fmempty, \<lambda>q. u)" "stateTTL (demo_wiring p) = 10 * minute"
  "provisioning (demo_wiring p) = normalized p" "requireProvider (demo_wiring p) ''acme'' = Inr demo_service"
  by (simp_all add: demo_wiring_def stateTTL_def provisioning_def requireProvider_def OAuthConfigured_def Has_def
      demo_service_def)

lemma demo_site: "requestSiteURL (demo_wiring p) [] [] = []" "allowedOrigins [] (oauth_cors (demo_wiring p)) = []"
  "defaultSiteURL [] (oauth_cors (demo_wiring p)) = []"
  by (simp_all add: requestSiteURL_def oauth_cors_def allowedOrigins_def defaultSiteURL_def resolveSiteURL_def
      dedupeOrigins_def)

section \<open>A login in flight\<close>

definition demo_ow :: oauth_world where
  "demo_ow = \<lparr>ow_world = demo_world, ow_links = NewMemoryLinkedAccounts, ow_pending = fmempty, ow_mails = []\<rparr>"

definition demo_state :: oauthState where
  "demo_state = \<lparr>os_N = hex_encode (demo_bytes 0 16), os_O = [], os_P = [], os_T = 1700000000\<rparr>"

definition demo_raw :: string where
  "demo_raw = encodeOAuthState (e_crypto demo_host) demo_state (cf_Secret demo_cfg)"

definition demo_meta :: OAuthPendingMeta where
  "demo_meta = zero_meta\<lparr>pm_Provider := ''acme'', pm_ExpiresAt := demo_now + 10 * minute\<rparr>"

definition demo_begun :: oauth_world where
  "demo_begun = (ticked 4 demo_ow)\<lparr>ow_pending :=
     pending_Save demo_now (oauthStateKey (os_N demo_state)) demo_meta (10 * minute) fmempty\<rparr>"

lemma demo_begins: "OAuthBegin (demo_wiring p) ''acme'' [] [] [] demo_ow = (Inr (pr_AuthURL demo_provider, demo_raw), demo_begun)"
proof -
  have unix: "unix_of demo_now = 1700000000" by (simp add: unix_of_def demo_now_def)
  have draw: "lift (draw (randomHex (demo_crypto m) 16)) demo_ow = (Inr (os_N demo_state), ticked 1 demo_ow)" for m
    by (simp add: lift_def draw_def randomHex_def demo_crypto_def demo_ow_def ticked_def demo_state_def)
  have state: "\<lparr>os_N = os_N demo_state, os_O = [], os_P = [], os_T = 1700000000\<rparr> = demo_state"
    by (simp add: demo_state_def)
  have url: "AuthorizeURLPKCE (oe_endpoint (demo_wiring p)) demo_service ''acme'' s c = Inr (pr_AuthURL demo_provider)" for s c
    by (simp add: AuthorizeURLPKCE_def demo_service_def)
  have meta: "zero_meta\<lparr>pm_Provider := ''acme'', pm_RedirectURL := [], pm_TenantID := [],
      pm_ExpiresAt := demo_now + 10 * minute\<rparr> = demo_meta"
    by (simp add: demo_meta_def zero_meta_def)
  show ?thesis
    by (simp add: OAuthBegin_def begin_login_def odo_def oreturn_def oret_def draw wall_ticks unix demo_site state url
        Let_def stash_save_def meta[simplified] demo_begun_def demo_raw_def del: One_nat_def)
      (simp add: demo_ow_def)
qed

lemma demo_decodes:
  "decodeOAuthState (demo_crypto demo_refresh_token) demo_raw (cf_Secret demo_cfg) (10 * minute) demo_now demo_now =
     Inr demo_state"
  unfolding demo_raw_def demo_env_simps
proof (rule state_round_trip)
  show "valid_utf8 (os_N demo_state)" "valid_utf8 (os_O demo_state)" "valid_utf8 (os_P demo_state)"
    unfolding demo_state_def demo_bytes_16 by code_simp+
  show "is_int64 (os_T demo_state)" "os_N demo_state \<noteq> []" "os_T demo_state \<noteq> 0"
    by (simp_all add: demo_state_def is_int64_def demo_bytes_16 hex_encode_def)
  show "demo_now \<le> unix_time (os_T demo_state) + 10 * minute" "unix_time (os_T demo_state) \<le> demo_now + minute"
    by (simp_all add: demo_state_def demo_now_def unix_time_def time_of_unix_def wrap64_def)
qed (simp add: demo_crypto_def)

definition demo_accepted :: oauth_world where
  "demo_accepted = (ticked 3 demo_begun)\<lparr>ow_pending := pending_Delete (oauthStateKey (os_N demo_state)) (ow_pending demo_begun)\<rparr>"

lemma demo_accepts: "accept_state (demo_wiring p) ''acme'' demo_raw demo_begun = (Inr (demo_state, []), demo_accepted)"
proof -
  have get: "pending_Get demo_now (oauthStateKey (os_N demo_state)) (ow_pending demo_begun) =
      (Some demo_meta, ow_pending demo_begun)"
    by (simp add: demo_begun_def pending_Save_def pending_Get_def)
  show ?thesis
    by (simp add: accept_state_run demo_decodes[simplified] get demo_accepted_def)
      (simp add: demo_meta_def zero_meta_def)
qed

section \<open>Its completion\<close>

lemma demo_exchange:
  "exchange (demo_wiring p) demo_service ''acme'' code verifier w = (Inr (demo_info\<lparr>oi_Raw := JObj []\<rparr>), ticked 3 w)"
proof -
  have token: "decode_token (''{'' @ [CHR 0x22] @ ''access_token'' @ [CHR 0x22] @ '':'' @ [CHR 0x22] @ ''t'' @ [CHR 0x22] @ ''}'')
      = Some (''t'', [])" by code_simp
  have body: "json_parse ''{}'' = Some (JObj [])" by code_simp
  show ?thesis
    by (simp add: exchange_def ExchangeCodePKCE_def demo_io_def demo_service_def token[simplified] body mapProfile_def
        demo_provider_def named_info_def object_members_def ticked_def demo_info_def empty_info_def eval_nat_numeral)
qed

abbreviation "demo_profile \<equiv> demo_info\<lparr>oi_Raw := JObj []\<rparr>"

lemma demo_info_simps [simp]:
  "oi_Provider demo_info = ''acme''" "oi_ProviderID demo_info = ''42''" "oi_Email demo_info = ''a@b.c''"
  "oi_EmailVerified demo_info = Some True"
  by (simp_all add: demo_info_def empty_info_def)

lemma demo_unlinked: "FindByProvider q x NewMemoryLinkedAccounts = None"
  by (simp add: FindByProvider_def NewMemoryLinkedAccounts_def)

lemma demo_admitted: "admit DefaultOAuthProvisioning demo_profile = Inr ()"
  by (simp add: admit_def DefaultOAuthProvisioning_def emailDomainAllowed_def)

lemma demo_default: "normalized DefaultOAuthProvisioning = DefaultOAuthProvisioning"
  "op_OnEmailMatch DefaultOAuthProvisioning = OAuthEmailMatchLink"
  by (simp_all add: normalized_def DefaultOAuthProvisioning_def OAuthEmailMatchLink_def)

text \<open>The provider's account has the address of the registered user.\<close>

lemma demo_matches:
  assumes "w_users (ow_world w) = w_users demo_world" "w_tick (ow_world w) < 200"
  shows "\<exists>tokens w'. on_email_match demo_oauth DefaultOAuthProvisioning demo_profile demo_user w = (Inr (demo_user, tokens), w')"
proof -
  have "\<exists>i. link_id demo_oauth w = (Inr i, ticked 1 w)"
    using assms(2) by (simp add: link_id_def odo_def otry_def lift_def draw_def demo_newID oret_def ticked_def)
  then show ?thesis using assms(2)
    by (auto simp: on_email_match_def odo_def demo_default email_match_defs wall_ticks links_do_def sign_in_run demo_issueSession)
qed

lemma demo_calls_back:
  assumes "w_users (ow_world w) = w_users demo_world" "w_tick (ow_world w) < 200" "ow_links w = NewMemoryLinkedAccounts"
  shows "\<exists>tokens w'. HandleCallbackWithPolicy demo_oauth demo_profile [] [] DefaultOAuthProvisioning w =
    (Inr (demo_user, tokens), w')"
  using demo_matches[OF assms(1,2)] assms
  by (simp add: HandleCallbackWithPolicy_def Let_def demo_default odo_def oreturn_def demo_admitted links_get_def
      demo_unlinked users_read)

lemma demo_completes:
  "\<exists>tokens w'. OAuthComplete demo_oauth ''acme'' ''code'' demo_raw demo_begun = (Inr ([], Inr (demo_user, tokens)), w')"
proof -
  have parts: "w_users (ow_world (ticked 3 demo_accepted)) = w_users demo_world" "w_tick (ow_world (ticked 3 demo_accepted)) = 10"
    "ow_links (ticked 3 demo_accepted) = NewMemoryLinkedAccounts"
    by (simp_all add: demo_accepted_def demo_begun_def demo_ow_def ticked_def)
  obtain tokens w1 where cb: "HandleCallbackWithPolicy demo_oauth demo_profile [] [] DefaultOAuthProvisioning
      (ticked 3 demo_accepted) = (Inr (demo_user, tokens), w1)"
    using demo_calls_back parts by fastforce
  have "\<exists>sid w2. lift (sessionIDOf demo_host tokens) w1 = (Inr sid, w2)"
    by (auto simp: lift_def sessionIDOf_def thenDo_def attempt_def ret_def split: prod.splits)
  then obtain sid w2 where "lift (sessionIDOf demo_host tokens) w1 = (Inr sid, w2)" by blast
  moreover have "lift (publish e ev) w = (Inr (), w\<lparr>ow_world := snd (publish e ev (ow_world w))\<rparr>)" for e ev w
    by (auto simp: lift_def publish_def)
  moreover have "resolveOAuthRedirect q demo_state [] [] = []" for q
    by (simp add: resolveOAuthRedirect_def demo_state_def)
  ultimately show ?thesis
    by (simp add: OAuthComplete_def odo_def otry_def demo_accepts demo_exchange demo_default cb demo_site Let_def oret_def)
qed

text \<open>The same profile where the policy asks for a confirmation by mail.\<close>

abbreviation "demo_careful \<equiv> DefaultOAuthProvisioning\<lparr>op_OnEmailMatch := OAuthEmailMatchConflict\<rparr>"

lemma demo_conflicts:
  "HandleCallbackWithPolicy demo_oauth demo_profile [] [] demo_careful demo_ow =
     (Inl (OAuthAccountConflict ''acme'' ''a@b.c'' ''42''), demo_ow)"
proof -
  have "normalized demo_careful = demo_careful" by (simp add: normalized_def email_match_defs)
  moreover have "admit demo_careful demo_profile = Inr ()"
    by (simp add: admit_def DefaultOAuthProvisioning_def emailDomainAllowed_def)
  ultimately show ?thesis
    by (simp add: HandleCallbackWithPolicy_def Let_def odo_def oreturn_def links_get_def demo_ow_def demo_unlinked
        users_read on_email_match_def ofail_def)
qed

section \<open>A link token in flight\<close>

definition demo_confirming :: oauth_world where
  "demo_confirming = demo_ow\<lparr>ow_pending := fmupd (linkTokenKey (e_crypto demo_host) ''link'')
     (zero_meta\<lparr>pm_Provider := ''acme'', pm_UserID := ''usr_1'', pm_Email := ''a@b.c'', pm_ProviderAccountID := ''42''\<rparr>, None)
     fmempty\<rparr>"

lemma demo_confirms: "\<exists>w'. LinkVerify demo_oauth ''link'' False demo_confirming = (Inr None, w')"
proof -
  have trim: "trim_space ''link'' = ''link''" by code_simp
  show ?thesis
    by (simp add: LinkVerify_def confirm_link_def Let_def trim odo_def stash_get_def wall_ticks demo_confirming_def
        pending_Get_def zero_meta_def demo_ow_def lift_def draw_def demo_newID ticked_def links_do_def stash_delete_def oret_def
        link_ready_def wall_def tick_def)
qed

section \<open>A linked account\<close>

definition demo_link :: OAuthLinkedAccount where
  "demo_link = new_link ''lnk_1'' ''usr_1'' demo_profile demo_now"

lemma demo_link_simps:
  "la_ID demo_link = ''lnk_1''" "la_UserID demo_link = ''usr_1''" "la_Provider demo_link = ''acme''"
  "la_ProviderID demo_link = ''42''" "ls_byID NewMemoryLinkedAccounts = fmempty"
  "ListForUser ''usr_1'' (link_Save demo_link NewMemoryLinkedAccounts) = [demo_link]"
  by (simp_all add: demo_link_def new_link_def NewMemoryLinkedAccounts_def ListForUser_def link_Save_def
      links_of_def accounts_of_def)

text \<open>Its user must use a second factor.\<close>

definition demo_linked_account :: oauth_world where
  "demo_linked_account = demo_ow\<lparr>ow_world := demo_strict, ow_links := link_Save demo_link NewMemoryLinkedAccounts\<rparr>"

lemma demo_link_found:
  "FindByProvider (oi_Provider demo_profile) (oi_ProviderID demo_profile) (ow_links demo_linked_account) = Some demo_link"
  by (simp add: demo_linked_account_def FindByProvider_Save demo_link_simps)

lemma demo_link_user:
  "GetUserByID (la_UserID demo_link) [] (w_users (ow_world demo_linked_account)) = Ok demo_strict_user"
proof -
  have "user_at (w_users demo_strict) ''usr_1'' = Some demo_strict_user"
    using demo_user_at
    by (simp add: demo_strict_def UpdateRequire2FA_def user_in_def user_at_def put_user_def split: option.splits)
  then show ?thesis by (simp add: demo_linked_account_def demo_link_simps GetUserByID_iff)
qed

lemma demo_link_strict:
  "requiresTwoFactor (e_cfg (oe_env demo_oauth)) demo_strict_user"
  "\<exists>tokens sid s. issueSession (oe_env demo_oauth) demo_strict_user (ow_world demo_linked_account) = (Ok (tokens, sid), s)"
  by (simp_all add: requiresTwoFactor_def demo_linked_account_def demo_issueSession demo_strict_def)

end
