(* ===== verification/Settings_Store.thy ===== *)
theory Settings_Store
  imports Json
begin

text \<open>
  \<open>settings_store.go\<close>: the runtime settings an administrator changes, merged shallowly, and their
  JSON. A Go pointer field is an option; the deep copies that keep the store's values apart from
  its callers' are the identity on values. \<open>EnabledWebhookActions\<close> keeps the difference between a
  nil slice (\<open>None\<close>) and an empty one.
\<close>

record UISettings =
  ui_PrimaryColor :: "string option"
  ui_SecondaryColor :: "string option"
  ui_LogoURL :: "string option"
  ui_SiteName :: "string option"
  ui_LogoPath :: "string option"
  ui_BgColor :: "string option"
  ui_BgImage :: "string option"
  ui_CardBg :: "string option"

record AuthSettings =
  as_RequireEmailVerification :: "bool option"
  as_EmailVerificationMode :: "string option"
  as_LazyEmailVerificationGracePeriodDays :: "int option"
  as_Require2FA :: "bool option"
  as_EnabledWebhookActions :: "string list option"
  as_UI :: "UISettings option"

definition zero_settings :: AuthSettings where
  "zero_settings = \<lparr>as_RequireEmailVerification = None, as_EmailVerificationMode = None,
     as_LazyEmailVerificationGracePeriodDays = None, as_Require2FA = None,
     as_EnabledWebhookActions = None, as_UI = None\<rparr>"

section \<open>Merging\<close>

definition keep_or :: "'a option \<Rightarrow> 'a option \<Rightarrow> 'a option" where
  "keep_or current patch = (case patch of None \<Rightarrow> current | Some x \<Rightarrow> Some x)"

definition MergeSettings :: "AuthSettings \<Rightarrow> AuthSettings \<Rightarrow> AuthSettings" where
  "MergeSettings current patch =
     \<lparr>as_RequireEmailVerification = keep_or (as_RequireEmailVerification current) (as_RequireEmailVerification patch),
      as_EmailVerificationMode = keep_or (as_EmailVerificationMode current) (as_EmailVerificationMode patch),
      as_LazyEmailVerificationGracePeriodDays =
        keep_or (as_LazyEmailVerificationGracePeriodDays current) (as_LazyEmailVerificationGracePeriodDays patch),
      as_Require2FA = keep_or (as_Require2FA current) (as_Require2FA patch),
      as_EnabledWebhookActions = keep_or (as_EnabledWebhookActions current) (as_EnabledWebhookActions patch),
      as_UI = keep_or (as_UI current) (as_UI patch)\<rparr>"

text \<open>The store is the one settings value.\<close>

type_synonym MemorySettingsStore = AuthSettings

definition NewMemorySettingsStore :: MemorySettingsStore where
  "NewMemorySettingsStore = zero_settings"

definition GetSettings :: "MemorySettingsStore \<Rightarrow> AuthSettings" where
  "GetSettings s = s"

definition UpdateSettings :: "AuthSettings \<Rightarrow> MemorySettingsStore \<Rightarrow> AuthSettings \<times> MemorySettingsStore" where
  "UpdateSettings patch s = (let s' = MergeSettings s patch in (s', s'))"

section \<open>JSON\<close>

definition json_member :: "string \<Rightarrow> ('a \<Rightarrow> json) \<Rightarrow> 'a option \<Rightarrow> (string \<times> json) list" where
  "json_member name f x = (case x of None \<Rightarrow> [] | Some y \<Rightarrow> [(name, f y)])"

definition marshal_ui :: "UISettings \<Rightarrow> json" where
  "marshal_ui u = JObj (
     json_member ''primaryColor'' JStr (ui_PrimaryColor u) @ json_member ''secondaryColor'' JStr (ui_SecondaryColor u) @
     json_member ''logoUrl'' JStr (ui_LogoURL u) @ json_member ''siteName'' JStr (ui_SiteName u) @
     json_member ''logoPath'' JStr (ui_LogoPath u) @ json_member ''bgColor'' JStr (ui_BgColor u) @
     json_member ''bgImage'' JStr (ui_BgImage u) @ json_member ''cardBg'' JStr (ui_CardBg u))"

text \<open>\<open>AuthSettings.MarshalJSON\<close>: the slice goes through a pointer, so an empty one is written.\<close>

definition MarshalJSON :: "AuthSettings \<Rightarrow> json" where
  "MarshalJSON s = JObj (
     json_member ''requireEmailVerification'' JBool (as_RequireEmailVerification s) @
     json_member ''emailVerificationMode'' JStr (as_EmailVerificationMode s) @
     json_member ''lazyEmailVerificationGracePeriodDays'' (\<lambda>d. JNum (decimal d)) (as_LazyEmailVerificationGracePeriodDays s) @
     json_member ''require2FA'' JBool (as_Require2FA s) @
     json_member ''enabledWebhookActions'' (\<lambda>xs. JArr (map JStr xs)) (as_EnabledWebhookActions s) @
     json_member ''ui'' marshal_ui (as_UI s))"

section \<open>Laws\<close>

lemma keep_or_simps [simp]:
  "keep_or c None = c" "keep_or c (Some x) = Some x" "keep_or None p = p"
  by (simp_all add: keep_or_def split: option.splits)

lemma keep_or_idem [simp]: "keep_or (keep_or a b) b = keep_or a b"
  by (cases b) simp_all

lemma keep_or_assoc: "keep_or (keep_or a b) c = keep_or a (keep_or b c)"
  by (cases c) simp_all

text \<open>Patches compose: two updates are one update by the merged patch, and the empty patch
  changes nothing.\<close>

lemma MergeSettings_assoc: "MergeSettings (MergeSettings a b) c = MergeSettings a (MergeSettings b c)"
  by (simp add: MergeSettings_def keep_or_assoc)

lemma MergeSettings_zero [simp]: "MergeSettings s zero_settings = s" "MergeSettings zero_settings s = s"
  by (simp_all add: MergeSettings_def zero_settings_def)

lemma MergeSettings_idem: "MergeSettings (MergeSettings s p) p = MergeSettings s p"
  by (simp add: MergeSettings_def)

text \<open>Replaying a history of patches is one merge of them all.\<close>

lemma settings_history:
  "fold (\<lambda>p s. snd (UpdateSettings p s)) ps s = MergeSettings s (foldr MergeSettings ps zero_settings)"
  by (induction ps arbitrary: s) (simp_all add: UpdateSettings_def Let_def MergeSettings_assoc)

text \<open>
  The encoding loses nothing: settings with the same JSON are the same, an empty action list and
  an absent one included.
\<close>

lemma map_of_member [simp]: "map_of (json_member n f x) k = (if k = n then map_option f x else None)"
  by (cases x) (auto simp: json_member_def)

lemma member_skip [simp]: "k \<noteq> n \<Longrightarrow> map_of (json_member n f x @ rest) k = map_of rest k"
  by (cases x) (auto simp: json_member_def)

lemma member_hit [simp]: "map_of rest k = None \<Longrightarrow> map_of (json_member k f x @ rest) k = map_option f x"
  by (cases x) (auto simp: json_member_def)

lemma map_option_JStr: "map_option JStr x = map_option JStr y \<Longrightarrow> x = y"
  by (cases x; cases y) simp_all

lemma marshal_ui_inj:
  assumes "marshal_ui u = marshal_ui v"
  shows "u = v"
proof -
  have eq: "map_of (case marshal_ui u of JObj ms \<Rightarrow> ms) k = map_of (case marshal_ui v of JObj ms \<Rightarrow> ms) k" for k
    using assms by simp
  note at = eq[unfolded marshal_ui_def json.case]
  have "ui_PrimaryColor u = ui_PrimaryColor v"
    using at[of "''primaryColor''"] by (intro map_option_JStr) (simp del: map_of_append)
  moreover have "ui_SecondaryColor u = ui_SecondaryColor v"
    using at[of "''secondaryColor''"] by (intro map_option_JStr) (simp del: map_of_append)
  moreover have "ui_LogoURL u = ui_LogoURL v" using at[of "''logoUrl''"] by (intro map_option_JStr) (simp del: map_of_append)
  moreover have "ui_SiteName u = ui_SiteName v" using at[of "''siteName''"] by (intro map_option_JStr) (simp del: map_of_append)
  moreover have "ui_LogoPath u = ui_LogoPath v" using at[of "''logoPath''"] by (intro map_option_JStr) (simp del: map_of_append)
  moreover have "ui_BgColor u = ui_BgColor v" using at[of "''bgColor''"] by (intro map_option_JStr) (simp del: map_of_append)
  moreover have "ui_BgImage u = ui_BgImage v" using at[of "''bgImage''"] by (intro map_option_JStr) (simp del: map_of_append)
  moreover have "ui_CardBg u = ui_CardBg v" using at[of "''cardBg''"] by (intro map_option_JStr) (simp del: map_of_append)
  ultimately show ?thesis by simp
qed

lemma JStr_map: "map JStr xs = map JStr ys \<Longrightarrow> xs = ys"
  by (erule map_injective) (simp add: inj_def)

lemma decimal_inj: "is_int64 a \<Longrightarrow> is_int64 b \<Longrightarrow> decimal a = decimal b \<Longrightarrow> a = b"
  by (metis option.inject parse_int64_decimal)

definition settings_int64 :: "AuthSettings \<Rightarrow> bool" where
  "settings_int64 s \<longleftrightarrow> (case as_LazyEmailVerificationGracePeriodDays s of None \<Rightarrow> True | Some d \<Rightarrow> is_int64 d)"

lemma MarshalJSON_inj:
  assumes "settings_int64 s" "settings_int64 t" "MarshalJSON s = MarshalJSON t"
  shows "s = t"
proof -
  have eq: "map_of (case MarshalJSON s of JObj ms \<Rightarrow> ms) k = map_of (case MarshalJSON t of JObj ms \<Rightarrow> ms) k" for k
    using assms(3) by simp
  note at = eq[unfolded MarshalJSON_def json.case]
  have "as_RequireEmailVerification s = as_RequireEmailVerification t"
    using at[of "''requireEmailVerification''"] by (auto simp del: map_of_append simp: map_option_case split: option.splits)
  moreover have "as_EmailVerificationMode s = as_EmailVerificationMode t"
    using at[of "''emailVerificationMode''"] by (auto simp del: map_of_append simp: map_option_case split: option.splits)
  moreover have "as_Require2FA s = as_Require2FA t"
    using at[of "''require2FA''"] by (auto simp del: map_of_append simp: map_option_case split: option.splits)
  moreover have "as_LazyEmailVerificationGracePeriodDays s = as_LazyEmailVerificationGracePeriodDays t"
    using at[of "''lazyEmailVerificationGracePeriodDays''"] assms(1,2)
    by (auto simp del: map_of_append simp: map_option_case split: option.splits simp: settings_int64_def dest: decimal_inj)
  moreover have "as_EnabledWebhookActions s = as_EnabledWebhookActions t"
    using at[of "''enabledWebhookActions''"]
    by (auto simp del: map_of_append simp: map_option_case split: option.splits dest!: JStr_map)
  moreover have "as_UI s = as_UI t"
    using at[of "''ui''"] by (auto simp del: map_of_append simp: map_option_case split: option.splits dest: marshal_ui_inj)
  ultimately show ?thesis by simp
qed

end
