(* ===== verification/Upload_Store.thy ===== *)
theory Upload_Store
  imports Json Go_Paths Auth_Errors "HOL-Library.Product_Lexorder"
begin

text \<open>
  \<open>upload_store.go\<close> and the upload routes of \<open>admin_upload.go\<close>: the grammar of object keys, the
  in-memory store, the key an upload is given, and the three handlers. The multipart parser and
  the reader of a body are \<open>net/http\<close>'s: an upload is the part's file name and its whole content.
\<close>

definition MaxUploadKeyLen :: nat where "MaxUploadKeyLen = 128"
definition UploadMaxBytes :: int where "UploadMaxBytes = 5 * 2 ^ 20"
definition adminUploadNameLimit :: nat where "adminUploadNameLimit = 40"

section \<open>Keys and names\<close>

definition lower_alnum :: "char \<Rightarrow> bool" where
  "lower_alnum c \<longleftrightarrow> 97 \<le> byte c \<and> byte c \<le> 122 \<or> 48 \<le> byte c \<and> byte c \<le> 57"

definition name_char :: "char \<Rightarrow> bool" where
  "name_char c \<longleftrightarrow> lower_alnum c \<or> 65 \<le> byte c \<and> byte c \<le> 90 \<or> c = CHR ''_'' \<or> c = CHR ''-''"

definition ValidUploadKey :: "string \<Rightarrow> bool" where
  "ValidUploadKey key =
     (if key = [] \<or> length key > MaxUploadKeyLen \<or> hd key = CHR ''.'' then False
      else list_all (\<lambda>c. name_char c \<or> c = CHR ''.'') key)"

definition uploadAllowedExtensions :: "string list" where
  "uploadAllowedExtensions = [''.png'', ''.jpg'', ''.jpeg'', ''.gif'', ''.svg'', ''.webp'', ''.ico'']"

definition UploadNameAllowed :: "string \<Rightarrow> bool" where
  "UploadNameAllowed name \<longleftrightarrow> list_ex (\<lambda>ext. suffix ext (to_lower name)) uploadAllowedExtensions"

text \<open>\<open>path.Ext\<close>: the suffix from the last dot of the last path element.\<close>

definition path_ext :: "string \<Rightarrow> string" where
  "path_ext s = (let e = after_last (CHR ''/'') s in
     if CHR ''.'' \<in> set e then CHR ''.'' # after_last (CHR ''.'') e else [])"

definition UploadContentType :: "string \<Rightarrow> string" where
  "UploadContentType key = (let ext = to_lower (path_ext key) in
     if ext = ''.png'' then ''image/png''
     else if ext = ''.jpg'' \<or> ext = ''.jpeg'' then ''image/jpeg''
     else if ext = ''.gif'' then ''image/gif''
     else if ext = ''.svg'' then ''image/svg+xml''
     else if ext = ''.webp'' then ''image/webp''
     else if ext = ''.ico'' then ''image/x-icon''
     else [])"

section \<open>The store\<close>

record UploadedFile =
  uf_Name :: string
  uf_Size :: int
  uf_ModTime :: time

type_synonym MemoryUploadStore = "(string, string \<times> time) fmap"

definition NewMemoryUploadStore :: MemoryUploadStore where
  "NewMemoryUploadStore = fmempty"

definition uploaded :: "string \<Rightarrow> string \<times> time \<Rightarrow> UploadedFile" where
  "uploaded key entry = \<lparr>uf_Name = key, uf_Size = int (length (fst entry)), uf_ModTime = snd entry\<rparr>"

text \<open>\<open>content\<close> is what reading the content whole answers.\<close>

definition upload_Put :: "time \<Rightarrow> string \<Rightarrow> string result \<Rightarrow> MemoryUploadStore \<Rightarrow> UploadedFile result \<times> MemoryUploadStore" where
  "upload_Put now key content s =
     (if \<not> ValidUploadKey key then (Inl (Message ''auth: invalid upload key''), s)
      else case content of
        Inl e \<Rightarrow> (Inl e, s)
      | Inr data \<Rightarrow> (Ok (uploaded key (data, now)), fmupd key (data, now) s))"

text \<open>Newest first, then by name: an ascending sort on this key.\<close>

definition upload_order :: "UploadedFile \<Rightarrow> int \<times> string" where
  "upload_order f = (- uf_ModTime f, uf_Name f)"

definition SortUploadedFiles :: "UploadedFile list \<Rightarrow> UploadedFile list" where
  "SortUploadedFiles fs = sort_key upload_order fs"

definition upload_List :: "MemoryUploadStore \<Rightarrow> UploadedFile list" where
  "upload_List s = SortUploadedFiles (map (\<lambda>(k, e). uploaded k e) (sorted_list_of_fmap s))"

definition upload_Open :: "string \<Rightarrow> MemoryUploadStore \<Rightarrow> (string \<times> UploadedFile) result" where
  "upload_Open key s = (case fmlookup s key of
     None \<Rightarrow> Err ErrUploadNotFound
   | Some e \<Rightarrow> Ok (fst e, uploaded key e))"

definition upload_Delete :: "string \<Rightarrow> MemoryUploadStore \<Rightarrow> unit result \<times> MemoryUploadStore" where
  "upload_Delete key s = (case fmlookup s key of
     None \<Rightarrow> (Err ErrUploadNotFound, s)
   | Some _ \<Rightarrow> (Ok (), fmdrop key s))"

section \<open>The key of an upload\<close>

text \<open>\<open>base[strings.LastIndexByte(base, '.'):]\<close>, but a leading dot starts no extension.\<close>

definition nodeExtname :: "string \<Rightarrow> string" where
  "nodeExtname base =
     (let e = after_last (CHR ''.'') base; i = length base - length e in
      if CHR ''.'' \<notin> set base \<or> i \<le> 1 \<or> base = ''..'' then [] else CHR ''.'' # e)"

text \<open>The UTF-16 units of a string: an ASCII unit as its byte, any other as \<open>None\<close>. An invalid
  byte decodes to the replacement character, one unit; a four-byte rune is two.\<close>

function utf16_units :: "string \<Rightarrow> char option list" where
  "utf16_units [] = []"
| "utf16_units (c # s) =
     (let n = rune_size (c # s) in
      if n = 1 then Some c # utf16_units s
      else if n = 4 then None # None # utf16_units (drop 3 s)
      else None # utf16_units (drop (n - 1) s))"
  by pat_completeness auto
termination by (relation "measure length") auto

definition adminUploadSanitiseName :: "string \<Rightarrow> string" where
  "adminUploadSanitiseName name =
     take adminUploadNameLimit (map (\<lambda>u. case u of
        Some c \<Rightarrow> if name_char c then c else CHR ''_'' | None \<Rightarrow> CHR ''_'') (utf16_units name))"

definition adminUploadSanitiseExt :: "string \<Rightarrow> string" where
  "adminUploadSanitiseExt ext = filter lower_alnum (to_lower ext)"

definition unix_milli :: "time \<Rightarrow> int" where
  "unix_milli t = t div 1000000"

definition adminUploadKey :: "string \<Rightarrow> time \<Rightarrow> string" where
  "adminUploadKey originalName now =
     (let base = after_last (CHR ''/'') originalName;
          ext = nodeExtname base
      in adminUploadSanitiseName (trim_suffix ext base) @ ''_'' @ decimal (unix_milli now) @ ''.'' @
         adminUploadSanitiseExt ext)"

section \<open>The routes\<close>

text \<open>An answer is a status with an error message, or what the route returns.\<close>

type_synonym 'a answer = "(int \<times> string) + 'a"

definition adminUploadErrorMessage :: "string \<Rightarrow> string \<Rightarrow> string" where
  "adminUploadErrorMessage message fallback = (if message \<noteq> [] then message else fallback)"

text \<open>\<open>uploadLimitedReader\<close> read to its end: a body of exactly the limit is accepted.\<close>

definition read_limited :: "string \<Rightarrow> string option" where
  "read_limited body = (if int (length body) > UploadMaxBytes then None else Some body)"

definition adminUploadFile ::
  "time \<Rightarrow> time \<Rightarrow> (string \<times> string) option \<Rightarrow> MemoryUploadStore \<Rightarrow> string answer \<times> MemoryUploadStore" where
  "adminUploadFile now wall part s = (case part of
     None \<Rightarrow> (Inl (400, ''No file uploaded''), s)
   | Some (filename, body) \<Rightarrow>
       if \<not> UploadNameAllowed filename then (Inl (400, ''Only image files are allowed''), s)
       else case read_limited body of
         None \<Rightarrow> (Inl (413, ''File too large''), s)
       | Some data \<Rightarrow>
           (let key = adminUploadKey filename now in
            case upload_Put wall key (Ok data) s of
              (Inl e, s') \<Rightarrow> (Inl (500, adminUploadErrorMessage ''auth: invalid upload key'' ''Could not store file''), s')
            | (Inr f, s') \<Rightarrow> (Inr key, s')))"

definition adminListUploads :: "MemoryUploadStore \<Rightarrow> UploadedFile list" where
  "adminListUploads s = SortUploadedFiles (filter (\<lambda>f. UploadNameAllowed (uf_Name f)) (upload_List s))"

definition adminDeleteUpload :: "string \<Rightarrow> MemoryUploadStore \<Rightarrow> unit answer \<times> MemoryUploadStore" where
  "adminDeleteUpload filename s =
     (if CHR ''/'' \<in> set filename \<or> CHR 0x5C \<in> set filename \<or> prefix ''.'' filename
      then (Inl (400, ''Invalid filename''), s)
      else if \<not> ValidUploadKey filename then (Inl (404, ''File not found''), s)
      else case upload_Delete filename s of
        (Inl e, s') \<Rightarrow> (Inl (404, ''File not found''), s')
      | (Inr _, s') \<Rightarrow> (Inr (), s'))"

section \<open>Keys cannot traverse\<close>

lemma lower_alnum_not_special: "lower_alnum c \<Longrightarrow> c \<noteq> CHR ''.'' \<and> c \<noteq> CHR ''/'' \<and> c \<noteq> CHR 0x5C \<and> c \<noteq> CHR '':''"
  by (auto simp: lower_alnum_def)

lemma name_char_not_special: "name_char c \<Longrightarrow> c \<noteq> CHR ''.'' \<and> c \<noteq> CHR ''/'' \<and> c \<noteq> CHR 0x5C \<and> c \<noteq> CHR '':''"
  using lower_alnum_not_special by (auto simp: name_char_def)

lemma ValidUploadKey_no_traversal:
  assumes "ValidUploadKey key"
  shows "key \<noteq> []" "hd key \<noteq> CHR ''.''" "c \<in> {CHR ''/'', CHR 0x5C, CHR '':''} \<Longrightarrow> c \<notin> set key"
proof -
  have all: "\<forall>c\<in>set key. name_char c \<or> c = CHR ''.''" and ne: "key \<noteq> []" "hd key \<noteq> CHR ''.''"
    using assms by (simp_all add: ValidUploadKey_def list_all_iff split: if_splits)
  show "key \<noteq> []" "hd key \<noteq> CHR ''.''" using ne by blast+
  show "c \<in> {CHR ''/'', CHR 0x5C, CHR '':''} \<Longrightarrow> c \<notin> set key"
    using all name_char_not_special[of c] by auto
qed

text \<open>A stored object always has a valid key.\<close>

definition upload_store_ok :: "MemoryUploadStore \<Rightarrow> bool" where
  "upload_store_ok s \<longleftrightarrow> fmpred (\<lambda>k _. ValidUploadKey k) s"

lemma upload_store_ok_ops:
  "upload_store_ok NewMemoryUploadStore"
  "upload_store_ok s \<Longrightarrow> upload_store_ok (snd (upload_Put now k d s))"
  "upload_store_ok s \<Longrightarrow> upload_store_ok (snd (upload_Delete k s))"
  by (auto simp: upload_store_ok_def NewMemoryUploadStore_def upload_Put_def upload_Delete_def
      split: sum.splits option.splits)

section \<open>The generated key is valid\<close>

lemma to_lower_append: "to_lower (a @ b) = to_lower a @ to_lower b"
  by (simp add: to_lower_def)

lemma to_lower_dot: "to_lower_byte c = CHR ''.'' \<longleftrightarrow> c = CHR ''.''" "to_lower_byte c = CHR ''/'' \<longleftrightarrow> c = CHR ''/''"
  by (rule to_lower_byte_eq; simp add: not_letter_def)+

lemma to_lower_mem: "CHR ''.'' \<in> set s \<longleftrightarrow> CHR ''.'' \<in> set (to_lower s)" "CHR ''/'' \<in> set s \<longleftrightarrow> CHR ''/'' \<in> set (to_lower s)"
  by (auto simp: to_lower_def image_iff to_lower_dot eq_commute[of "CHR ''.''"] eq_commute[of "CHR ''/''"])

lemma allowed_extension:
  assumes "UploadNameAllowed name"
  shows "\<exists>a z. name = a @ CHR ''.'' # z \<and> CHR ''.'' \<notin> set z \<and> CHR ''/'' \<notin> set z \<and> length z \<le> 4"
proof -
  obtain e where e: "e \<in> set uploadAllowedExtensions" and "suffix e (to_lower name)"
    using assms by (auto simp: UploadNameAllowed_def list_ex_iff)
  then obtain b where b: "to_lower name = b @ e" by (auto simp: suffix_def)
  have shape: "list_all (\<lambda>e. hd e = CHR ''.'' \<and> e \<noteq> [] \<and> CHR ''.'' \<notin> set (tl e) \<and> CHR ''/'' \<notin> set (tl e) \<and> length (tl e) \<le> 4)
      uploadAllowedExtensions"
    by code_simp
  have es: "hd e = CHR ''.''" "e \<noteq> []" "CHR ''.'' \<notin> set (tl e)" "CHR ''/'' \<notin> set (tl e)" "length (tl e) \<le> 4"
    using shape e unfolding list_all_iff by blast+
  define a where "a = take (length b) name"
  define y where "y = drop (length b) name"
  have "to_lower y = e" using b by (simp add: y_def to_lower_def drop_map[symmetric])
  moreover have "e = CHR ''.'' # tl e" using es(1,2) by (metis list.collapse)
  ultimately have lower: "map to_lower_byte y = CHR ''.'' # tl e" unfolding to_lower_def by (rule trans)
  then have "y \<noteq> []" by auto
  then obtain c z where yc: "y = c # z" by (auto simp only: neq_Nil_conv)
  then have y: "y = c # z" "to_lower_byte c = CHR ''.''" "to_lower z = tl e"
    using lower by (simp_all only: list.map list.inject to_lower_def)
  then have "c = CHR ''.''" by (simp add: to_lower_dot)
  moreover have "CHR ''.'' \<notin> set z" "CHR ''/'' \<notin> set z"
    by (subst to_lower_mem, unfold y(3), rule es)+
  moreover have "length z \<le> 4" using es(5) arg_cong[OF y(3), of length] by (simp add: to_lower_def)
  moreover have "name = a @ y" by (simp add: a_def y_def)
  ultimately show ?thesis using y(1) by blast
qed

lemma allowed_ext_short:
  assumes "UploadNameAllowed name"
  shows "length (nodeExtname (after_last (CHR ''/'') name)) \<le> 5"
proof -
  obtain a z where z: "name = a @ CHR ''.'' # z" "CHR ''.'' \<notin> set z" "CHR ''/'' \<notin> set z" "length z \<le> 4"
    using allowed_extension[OF assms] by blast
  then obtain b where "after_last (CHR ''/'') name = b @ CHR ''.'' # z"
    using after_last_append[of "CHR ''/''" "CHR ''.'' # z" a] by auto
  then show ?thesis using z by (simp add: nodeExtname_def Let_def after_last_at)
qed

lemma sanitised_name: "list_all name_char (adminUploadSanitiseName s)" "length (adminUploadSanitiseName s) \<le> 40"
proof -
  have "name_char (CHR ''_'')" by (simp add: name_char_def)
  then show "list_all name_char (adminUploadSanitiseName s)"
    by (auto simp: adminUploadSanitiseName_def list_all_iff dest!: in_set_takeD split: option.splits)
  show "length (adminUploadSanitiseName s) \<le> 40"
    by (simp add: adminUploadSanitiseName_def adminUploadNameLimit_def)
qed

lemma sanitised_ext: "list_all name_char (adminUploadSanitiseExt s)" "length (adminUploadSanitiseExt s) \<le> length s"
proof -
  show "list_all name_char (adminUploadSanitiseExt s)"
    by (simp add: adminUploadSanitiseExt_def list_all_iff name_char_def)
  show "length (adminUploadSanitiseExt s) \<le> length s"
    using length_filter_le[of lower_alnum "to_lower s"] by (simp add: adminUploadSanitiseExt_def to_lower_def)
qed

lemma decimal_name: "list_all name_char (decimal z)"
proof -
  have "list_all name_char (decimal_nat n)" for n
    using decimal_nat_digits[of n] by (auto simp: list_all_iff ascii_digit_def name_char_def lower_alnum_def)
  then show ?thesis by (simp add: decimal_def name_char_def)
qed

lemma decimal_int64_length:
  assumes "is_int64 z"
  shows "length (decimal z) \<le> 20"
proof -
  have "length (decimal_nat (nat y)) \<le> Suc 18" if "y \<le> 2 ^ 63" for y :: int
  proof (rule decimal_nat_length)
    have "y < 10 ^ Suc 18" using that by simp
    then show "nat y < 10 ^ Suc 18" by simp
  qed
  from this[of "- z"] this[of z] show ?thesis using assms by (auto simp: decimal_def is_int64_def)
qed

lemma upload_key_valid:
  assumes "UploadNameAllowed name" "is_int64 (unix_milli now)"
  shows "ValidUploadKey (adminUploadKey name now)"
proof -
  let ?ext = "nodeExtname (after_last (CHR ''/'') name)"
  let ?n = "adminUploadSanitiseName (trim_suffix ?ext (after_last (CHR ''/'') name))"
  have key: "adminUploadKey name now = ?n @ ''_'' @ decimal (unix_milli now) @ ''.'' @ adminUploadSanitiseExt ?ext"
    by (simp add: adminUploadKey_def Let_def)
  have "length (adminUploadKey name now) \<le> 128"
    using sanitised_name(2)[of "trim_suffix ?ext (after_last (CHR ''/'') name)"] sanitised_ext(2)[of ?ext]
      allowed_ext_short[OF assms(1)] decimal_int64_length[OF assms(2)]
    by (simp add: key)
  moreover have "hd (adminUploadKey name now) \<noteq> CHR ''.''"
    using sanitised_name(1)[of "trim_suffix ?ext (after_last (CHR ''/'') name)"] name_char_not_special
    by (cases ?n) (auto simp: key)
  moreover have "list_all (\<lambda>c. name_char c \<or> c = CHR ''.'') (adminUploadKey name now)"
    using sanitised_name(1)[of "trim_suffix ?ext (after_last (CHR ''/'') name)"] sanitised_ext(1)[of ?ext]
      decimal_name[of "unix_milli now"]
    by (auto simp: key list_all_iff name_char_def)
  ultimately show ?thesis by (simp add: ValidUploadKey_def MaxUploadKeyLen_def key)
qed

text \<open>So an accepted upload is stored, whatever its name, and is read back as it was sent.\<close>

lemma adminUploadFile_stores:
  assumes "UploadNameAllowed name" "is_int64 (unix_milli now)" "int (length body) \<le> UploadMaxBytes"
  shows "adminUploadFile now wall (Some (name, body)) s =
      (Inr (adminUploadKey name now), fmupd (adminUploadKey name now) (body, wall) s)"
  using assms upload_key_valid[OF assms(1,2)]
  by (simp add: adminUploadFile_def read_limited_def upload_Put_def Let_def)

lemma upload_roundtrip:
  assumes "adminUploadFile now wall (Some (name, body)) s = (Inr key, s')"
  shows "upload_Open key s' = Ok (body, uploaded key (body, wall))"
  using assms
  by (auto simp: adminUploadFile_def upload_Put_def upload_Open_def read_limited_def Let_def
      split: if_splits)

text \<open>Nothing a caller names reaches a store but a key, and a refused deletion changes nothing.\<close>

lemma adminDeleteUpload_spec:
  "adminDeleteUpload f s = (if ValidUploadKey f \<and> f \<in> fmdom' s then (Inr (), fmdrop f s)
     else (Inl (if CHR ''/'' \<in> set f \<or> CHR 0x5C \<in> set f \<or> prefix ''.'' f then (400, ''Invalid filename'')
       else (404, ''File not found'')), s))"
proof (cases "ValidUploadKey f")
  case True
  then have "\<not> (CHR ''/'' \<in> set f \<or> CHR 0x5C \<in> set f \<or> prefix ''.'' f)"
    using ValidUploadKey_no_traversal[OF True] by (cases f) auto
  then show ?thesis using True
    by (auto simp: adminDeleteUpload_def upload_Delete_def fmlookup_dom'_iff split: option.splits)
qed (simp add: adminDeleteUpload_def)

text \<open>The listing does not depend on the order the map yields its entries in.\<close>

lemma upload_List_any_order:
  assumes "mset es = mset (sorted_list_of_fmap s)"
  shows "SortUploadedFiles (map (\<lambda>(k, e). uploaded k e) es) = upload_List s"
proof -
  have "inj_on upload_order (set (map (\<lambda>(k, e). uploaded k e) es))"
  proof (rule inj_onI)
    fix x y assume xy: "x \<in> set (map (\<lambda>(k, e). uploaded k e) es)" "y \<in> set (map (\<lambda>(k, e). uploaded k e) es)"
      "upload_order x = upload_order y"
    have "set es = {(k, v). fmlookup s k = Some v}" using mset_eq_setD[OF assms] by simp
    then show "x = y" using xy by (auto simp: upload_order_def uploaded_def)
  qed
  moreover have "mset (map (\<lambda>(k, e). uploaded k e) es) = mset (map (\<lambda>(k, e). uploaded k e) (sorted_list_of_fmap s))"
    using assms by simp
  ultimately have "sort_key upload_order (map (\<lambda>(k, e). uploaded k e) (sorted_list_of_fmap s)) =
      sort_key upload_order (map (\<lambda>(k, e). uploaded k e) es)"
    by (intro sort_key_perm_eq) simp_all
  then show ?thesis by (simp add: SortUploadedFiles_def upload_List_def)
qed

end
