(* ===== verification/Mail_Templates.thy ===== *)
theory Mail_Templates
  imports Go_Paths Auth_Errors Auth_Models
begin

text \<open>
  \<open>template_store.go\<close> and the rendering half of \<open>mailer.go\<close>: the stored templates and
  phrases, the data a template sees, the interpolation of stored templates, and the choice
  between a stored and a registered one. A registered template is three functions of the data
  (subject, HTML and text, as \<open>html/template\<close> and \<open>text/template\<close> execute them); the built-in
  texts are not reproduced.
\<close>

type_synonym strings = "(string, string) fmap"
type_synonym phrases = "(string, strings) fmap"

section \<open>The store\<close>

record MailTemplate =
  mt_ID :: string
  mt_BaseHTML :: string
  mt_BaseText :: string
  mt_Translations :: phrases

record MailTemplatePatch =
  mp_BaseHTML :: "string option"
  mp_BaseText :: "string option"
  mp_Translations :: "phrases option"

record MemoryTemplateStore =
  ts_mail :: "(string, MailTemplate) fmap"
  ts_mailOrder :: "string list"
  ts_ui :: "(string, phrases) fmap"
  ts_uiOrder :: "string list"

definition NewMemoryTemplateStore :: MemoryTemplateStore where
  "NewMemoryTemplateStore = \<lparr>ts_mail = fmempty, ts_mailOrder = [], ts_ui = fmempty, ts_uiOrder = []\<rparr>"

definition GetMailTemplate :: "string \<Rightarrow> MemoryTemplateStore \<Rightarrow> MailTemplate option" where
  "GetMailTemplate i s = fmlookup (ts_mail s) i"

definition new_template :: "string \<Rightarrow> MailTemplate" where
  "new_template i = \<lparr>mt_ID = i, mt_BaseHTML = [], mt_BaseText = [], mt_Translations = fmempty\<rparr>"

definition mail_at :: "MemoryTemplateStore \<Rightarrow> string \<Rightarrow> MailTemplate" where
  "mail_at s i = (case fmlookup (ts_mail s) i of None \<Rightarrow> new_template [] | Some t \<Rightarrow> t)"

definition ListMailTemplates :: "MemoryTemplateStore \<Rightarrow> MailTemplate list" where
  "ListMailTemplates s = map (mail_at s) (ts_mailOrder s)"

definition apply_mail_patch :: "MailTemplatePatch \<Rightarrow> MailTemplate \<Rightarrow> MailTemplate" where
  "apply_mail_patch p t =
     (let t = (case mp_BaseHTML p of None \<Rightarrow> t | Some h \<Rightarrow> t\<lparr>mt_BaseHTML := h\<rparr>);
          t = (case mp_BaseText p of None \<Rightarrow> t | Some x \<Rightarrow> t\<lparr>mt_BaseText := x\<rparr>)
      in case mp_Translations p of None \<Rightarrow> t | Some m \<Rightarrow> t\<lparr>mt_Translations := m\<rparr>)"

definition UpdateMailTemplate ::
  "string \<Rightarrow> MailTemplatePatch \<Rightarrow> MemoryTemplateStore \<Rightarrow> MailTemplate \<times> MemoryTemplateStore" where
  "UpdateMailTemplate i p s =
     (let (current, order) = (case fmlookup (ts_mail s) i of
            None \<Rightarrow> (new_template i, ts_mailOrder s @ [i])
          | Some t \<Rightarrow> (t, ts_mailOrder s));
          t = apply_mail_patch p current
      in (t, s\<lparr>ts_mail := fmupd i t (ts_mail s), ts_mailOrder := order\<rparr>))"

definition GetUITranslations :: "string \<Rightarrow> MemoryTemplateStore \<Rightarrow> phrases option" where
  "GetUITranslations page s = fmlookup (ts_ui s) page"

definition ListUITranslations :: "MemoryTemplateStore \<Rightarrow> (string \<times> phrases) list" where
  "ListUITranslations s =
     map (\<lambda>p. (p, case fmlookup (ts_ui s) p of None \<Rightarrow> fmempty | Some m \<Rightarrow> m)) (ts_uiOrder s)"

definition UpdateUITranslations :: "string \<Rightarrow> phrases \<Rightarrow> MemoryTemplateStore \<Rightarrow> MemoryTemplateStore" where
  "UpdateUITranslations page m s =
     s\<lparr>ts_ui := fmupd page m (ts_ui s),
       ts_uiOrder := (if page \<in> fmdom' (ts_ui s) then ts_uiOrder s else ts_uiOrder s @ [page])\<rparr>"

section \<open>The data of a template\<close>

definition TemplatePasswordReset :: string where "TemplatePasswordReset = ''password-reset''"
definition TemplateMagicLink :: string where "TemplateMagicLink = ''magic-link''"
definition TemplateWelcome :: string where "TemplateWelcome = ''welcome''"
definition TemplateVerifyEmail :: string where "TemplateVerifyEmail = ''verify-email''"
definition TemplateEmailChanged :: string where "TemplateEmailChanged = ''email-changed''"
definition TemplateInvitation :: string where "TemplateInvitation = ''invitation''"

definition templateAliases :: "(string \<times> string) list" where
  "templateAliases = [(''reset_password'', TemplatePasswordReset), (''magic_link'', TemplateMagicLink),
     (''verify_email'', TemplateVerifyEmail), (''email_change'', TemplateVerifyEmail)]"

definition canonicalTemplateID :: "string \<Rightarrow> string" where
  "canonicalTemplateID i = (case map_of templateAliases i of None \<Rightarrow> i | Some c \<Rightarrow> c)"

text \<open>\<open>md_Extra\<close> holds each entry as \<open>fmt.Sprint\<close> renders it, \<open>None\<close> for a nil value.\<close>

record MailTemplateData =
  md_AppName :: string
  md_UserName :: string
  md_Token :: string
  md_URL :: string
  md_Code :: string
  md_NewEmail :: string
  md_OldEmail :: string
  md_Extra :: "(string, string option) fmap"

definition set_value :: "string \<Rightarrow> string \<Rightarrow> strings \<Rightarrow> strings" where
  "set_value k v m = (if v \<noteq> [] then fmupd k v m else m)"

definition mail_values :: "MailTemplateData \<Rightarrow> string \<Rightarrow> strings" where
  "mail_values d i =
     (let out = fmmap the (fmfilter (\<lambda>k. fmlookup (md_Extra d) k \<noteq> Some None) (md_Extra d));
          out = set_value ''appName'' (md_AppName d) out;
          out = set_value ''name'' (md_UserName d) out;
          out = set_value ''token'' (md_Token d) out;
          out = (if i = TemplateWelcome then set_value ''loginUrl'' (md_URL d) out
                 else set_value ''link'' (md_URL d) out);
          out = set_value ''code'' (md_Code d) out;
          out = set_value ''newEmail'' (md_NewEmail d) out
      in set_value ''oldEmail'' (md_OldEmail d) out)"

section \<open>Interpolation\<close>

text \<open>
  \<open>ReplaceAllStringFunc\<close> with the pattern \<open>open [^}]+ }}\<close>, where \<open>open\<close> is a literal: the leftmost
  matches, each handed to \<open>f\<close> by its key.
\<close>

definition key_at :: "string \<Rightarrow> string \<Rightarrow> string option" where
  "key_at mark s =
     (if prefix mark s then
        (let rest = drop (length mark) s; key = takeWhile (\<lambda>c. c \<noteq> CHR ''}'') rest in
         if key \<noteq> [] \<and> prefix ''}}'' (drop (length key) rest) then Some key else None)
      else None)"

function replace_keys :: "string \<Rightarrow> (string \<Rightarrow> string) \<Rightarrow> string \<Rightarrow> string" where
  "replace_keys mark f [] = []"
| "replace_keys mark f (c # s) = (case key_at mark (c # s) of
     Some key \<Rightarrow> f key @ replace_keys mark f (drop (length mark + length key + 2) (c # s))
   | None \<Rightarrow> c # replace_keys mark f s)"
  by pat_completeness auto
termination by (relation "measure (\<lambda>(_, _, s). length s)") auto

declare replace_keys.simps(2) [simp del]

definition bracketed :: "string \<Rightarrow> string" where
  "bracketed key = ''['' @ key @ '']''"

definition translation_text :: "strings \<Rightarrow> string \<Rightarrow> string" where
  "translation_text phrases key = (case fmlookup phrases key of
     None \<Rightarrow> bracketed key | Some v \<Rightarrow> if v \<noteq> [] then v else bracketed key)"

definition value_text :: "strings \<Rightarrow> string \<Rightarrow> string" where
  "value_text values key =
     (if prefix ''T.'' key then ''{{'' @ key @ ''}}''
      else case fmlookup values key of None \<Rightarrow> bracketed key | Some v \<Rightarrow> v)"

definition interpolateStored :: "string \<Rightarrow> strings \<Rightarrow> strings \<Rightarrow> string" where
  "interpolateStored s phrases values =
     replace_keys ''{{'' (value_text values) (replace_keys ''{{T.'' (translation_text phrases) s)"

section \<open>Rendering\<close>

record MailRendered =
  mr_Subject :: string
  mr_HTML :: string
  mr_Text :: string

record mailTemplate =
  rt_subject :: "strings \<Rightarrow> string result"
  rt_html :: "strings \<Rightarrow> string result"
  rt_text :: "strings \<Rightarrow> string result"
  rt_err :: "error option"

type_synonym MailTemplater = "(string, mailTemplate) fmap"

definition mail_lookup :: "MailTemplater \<Rightarrow> string \<Rightarrow> string \<Rightarrow> mailTemplate option" where
  "mail_lookup t locale i = (case fmlookup t (locale @ ''/'' @ i) of
     Some e \<Rightarrow> Some e | None \<Rightarrow> fmlookup t (''en/'' @ i))"

definition render_registered :: "mailTemplate \<Rightarrow> string \<Rightarrow> strings \<Rightarrow> MailRendered result" where
  "render_registered m i values = (case rt_err m of
     Some e \<Rightarrow> Inl e
   | None \<Rightarrow> (case rt_subject m values of
       Inl e \<Rightarrow> Inl (Wrapped ''auth: render mail template'' e)
     | Inr subject \<Rightarrow> (case rt_html m values of
         Inl e \<Rightarrow> Inl (Wrapped ''auth: render mail template'' e)
       | Inr html \<Rightarrow> (case rt_text m values of
           Inl e \<Rightarrow> Inl (Wrapped ''auth: render mail template'' e)
         | Inr text \<Rightarrow> Ok \<lparr>mr_Subject = subject, mr_HTML = html, mr_Text = text\<rparr>))))"

definition pickTranslations :: "phrases \<Rightarrow> string \<Rightarrow> strings" where
  "pickTranslations all locale = (case fmlookup all locale of
     Some m \<Rightarrow> m
   | None \<Rightarrow> (case fmlookup all ''en'' of Some m \<Rightarrow> m | None \<Rightarrow> fmempty))"

definition renderStoredTemplate ::
  "MailTemplate \<Rightarrow> string \<Rightarrow> strings \<Rightarrow> mailTemplate option \<Rightarrow> MailRendered result" where
  "renderStoredTemplate stored locale values registered =
     (let phrases = pickTranslations (mt_Translations stored) locale;
          subject = (case fmlookup phrases ''subject'' of None \<Rightarrow> [] | Some v \<Rightarrow> v);
          done = (\<lambda>subject. Ok \<lparr>mr_Subject = interpolateStored subject phrases values,
            mr_HTML = interpolateStored (mt_BaseHTML stored) phrases values,
            mr_Text = interpolateStored (mt_BaseText stored) phrases values\<rparr>)
      in if subject = [] then (case registered of
           None \<Rightarrow> done subject
         | Some m \<Rightarrow> (case rt_err m of
             Some e \<Rightarrow> Inl e
           | None \<Rightarrow> (case rt_subject m values of
               Inl e \<Rightarrow> Inl (Wrapped ''auth: render mail template'' e)
             | Inr fallback \<Rightarrow> done fallback)))
         else done subject)"

text \<open>\<open>store\<close> is the store \<open>storeFor\<close> finds, if any.\<close>

definition RenderMail ::
  "MailTemplater \<Rightarrow> string \<Rightarrow> MemoryTemplateStore option \<Rightarrow> string \<Rightarrow> string \<Rightarrow> MailTemplateData \<Rightarrow> MailRendered result" where
  "RenderMail t appName store locale i data =
     (let i = canonicalTemplateID i;
          values = mail_values (data\<lparr>md_AppName := appName\<rparr>) i;
          registered = mail_lookup t locale i;
          otherwise = (case registered of
            None \<Rightarrow> Inl (Message ''auth: mail template not found'')
          | Some m \<Rightarrow> render_registered m i values)
      in case store of
           None \<Rightarrow> otherwise
         | Some s \<Rightarrow> (case GetMailTemplate i s of
             None \<Rightarrow> otherwise
           | Some stored \<Rightarrow>
               if mt_BaseHTML stored \<noteq> [] \<and> mt_BaseText stored \<noteq> []
               then renderStoredTemplate stored locale values registered else otherwise))"

section \<open>Laws of the store\<close>

definition template_store_ok :: "MemoryTemplateStore \<Rightarrow> bool" where
  "template_store_ok s \<longleftrightarrow> keyed mt_ID (ts_mail s) \<and>
     distinct (ts_mailOrder s) \<and> set (ts_mailOrder s) = fmdom' (ts_mail s) \<and>
     distinct (ts_uiOrder s) \<and> set (ts_uiOrder s) = fmdom' (ts_ui s)"

lemma apply_mail_patch_ID [simp]: "mt_ID (apply_mail_patch p t) = mt_ID t"
  by (simp add: apply_mail_patch_def Let_def split: option.splits)

lemma new_template_ID [simp]: "mt_ID (new_template i) = i"
  by (simp add: new_template_def)

lemma template_store_ok_ops [store_intros]:
  "template_store_ok NewMemoryTemplateStore"
  "template_store_ok s \<Longrightarrow> template_store_ok (snd (UpdateMailTemplate i p s))"
  "template_store_ok s \<Longrightarrow> template_store_ok (UpdateUITranslations page m s)"
proof -
  show "template_store_ok NewMemoryTemplateStore"
    by (simp add: template_store_ok_def NewMemoryTemplateStore_def)
  show "template_store_ok (snd (UpdateMailTemplate i p s))" if ok: "template_store_ok s"
  proof (cases "fmlookup (ts_mail s) i")
    case None
    then have "i \<notin> fmdom' (ts_mail s)" by (simp add: fmlookup_dom'_iff)
    then show ?thesis using ok None by (simp add: template_store_ok_def UpdateMailTemplate_def Let_def)
  next
    case (Some t)
    then have "i \<in> fmdom' (ts_mail s)" "mt_ID t = i"
      using ok by (auto simp: template_store_ok_def fmlookup_dom'_iff dest: keyedD)
    then show ?thesis using ok Some by (simp add: template_store_ok_def UpdateMailTemplate_def insert_absorb Let_def)
  qed
  show "template_store_ok (UpdateUITranslations page m s)" if ok: "template_store_ok s"
    using ok by (cases "page \<in> fmdom' (ts_ui s)")
      (simp_all add: template_store_ok_def UpdateUITranslations_def insert_absorb)
qed

text \<open>A patch upserts: the template is afterwards the old one, or a new one, with the patch applied.\<close>

lemma GetMailTemplate_Update:
  "GetMailTemplate j (snd (UpdateMailTemplate i p s)) =
     (if j = i then Some (apply_mail_patch p (case GetMailTemplate i s of None \<Rightarrow> new_template i | Some t \<Rightarrow> t))
      else GetMailTemplate j s)"
  by (simp add: GetMailTemplate_def UpdateMailTemplate_def Let_def split: option.splits prod.splits)

section \<open>Laws of interpolation\<close>

text \<open>A template as the pieces its author wrote: literal text and data keys.\<close>

datatype piece = Lit string | Key string

fun write_piece :: "piece \<Rightarrow> string" where
  "write_piece (Lit s) = s"
| "write_piece (Key k) = ''{{'' @ k @ ''}}''"

fun piece_value :: "strings \<Rightarrow> piece \<Rightarrow> string" where
  "piece_value values (Lit s) = s"
| "piece_value values (Key k) = (case fmlookup values k of None \<Rightarrow> bracketed k | Some v \<Rightarrow> v)"

fun piece_ok :: "piece \<Rightarrow> bool" where
  "piece_ok (Lit s) \<longleftrightarrow> CHR ''{'' \<notin> set s"
| "piece_ok (Key k) \<longleftrightarrow> k \<noteq> [] \<and> CHR ''}'' \<notin> set k \<and> CHR ''{'' \<notin> set k \<and> \<not> prefix ''T.'' k"

lemma replace_keys_lit:
  assumes "mark \<noteq> []" "hd mark = CHR ''{''"
  shows "CHR ''{'' \<notin> set s \<Longrightarrow> replace_keys mark f (s @ r) = s @ replace_keys mark f r"
proof (induction s)
  case (Cons c s)
  have "\<not> prefix mark (c # s @ r)" using assms Cons.prems by (cases mark) auto
  then show ?case using Cons by (simp add: replace_keys.simps(2) key_at_def)
qed simp

lemma replace_keys_key:
  assumes "k \<noteq> []" "CHR ''}'' \<notin> set k"
  shows "replace_keys ''{{'' f (''{{'' @ k @ ''}}'' @ r) = f k @ replace_keys ''{{'' f r"
proof -
  have tw: "takeWhile (\<lambda>c. c \<noteq> CHR ''}'') (k @ ''}}'' @ r) = k"
    using assms(2) by (subst takeWhile_append2) auto
  then have "key_at ''{{'' (''{{'' @ k @ ''}}'' @ r) = Some k"
    using assms(1) by (simp add: key_at_def)
  moreover have "drop (length ''{{'' + length k + 2) (''{{'' @ k @ ''}}'' @ r) = r" by simp
  ultimately show ?thesis by (simp add: replace_keys.simps(2))
qed

lemma interpolate_values:
  "list_all piece_ok ps \<Longrightarrow>
   replace_keys ''{{'' (value_text values) (concat (map write_piece ps)) = concat (map (piece_value values) ps)"
proof (induction ps)
  case (Cons p ps)
  show ?case
  proof (cases p)
    case (Lit s)
    then show ?thesis using Cons replace_keys_lit[of "''{{''" s "value_text values"] by simp
  next
    case (Key k)
    then have "value_text values k = piece_value values p" using Cons.prems by (simp add: value_text_def)
    then show ?thesis using Cons Key replace_keys_key[of k "value_text values"] by simp
  qed
qed simp

text \<open>The translation pass does not touch pieces that are not phrases.\<close>

lemma translation_pass_key:
  assumes "\<not> prefix ''T.'' k" "CHR ''{'' \<notin> set k"
  shows "replace_keys ''{{T.'' f (''{{'' @ k @ ''}}'' @ r) = ''{{'' @ k @ ''}}'' @ replace_keys ''{{T.'' f r"
proof -
  have no1: "key_at ''{{T.'' (''{{'' @ k @ ''}}'' @ r) = None"
    using assms(1) by (cases k; cases "tl k") (auto simp: key_at_def)
  have no2: "key_at ''{{T.'' (CHR ''{'' # k @ ''}}'' @ r) = None"
    using assms(2) by (cases k) (auto simp: key_at_def)
  have "replace_keys ''{{T.'' f (k @ ''}}'' @ r) = k @ ''}}'' @ replace_keys ''{{T.'' f r"
    using replace_keys_lit[of "''{{T.''" "k @ ''}}''" f r] assms(2) by simp
  then show ?thesis
    using no1 no2 by (simp add: replace_keys.simps(2))
qed

lemma translation_pass:
  "list_all piece_ok ps \<Longrightarrow> replace_keys ''{{T.'' f (concat (map write_piece ps)) = concat (map write_piece ps)"
proof (induction ps)
  case (Cons p ps)
  then show ?case
    using replace_keys_lit[of "''{{T.''" _ f] translation_pass_key[of _ f]
    by (cases p) simp_all
qed simp

text \<open>
  A stored template of literals and data keys renders to its literals with each key replaced by its
  value as it is: a value is never read for placeholders of its own.
\<close>

lemma interpolateStored_pieces:
  "list_all piece_ok ps \<Longrightarrow>
   interpolateStored (concat (map write_piece ps)) phrases values = concat (map (piece_value values) ps)"
  by (simp add: interpolateStored_def translation_pass interpolate_values)

end
