(* ===== verification/RSA_Keys.thy ===== *)
theory RSA_Keys
  imports OAuth_Exchange
begin

text \<open>
  \<open>jwks.go\<close> and the JWK half of \<open>resource_server.go\<close>: RSA public keys as JWKs, the RS256 token
  builder, and the JWKS document as it is written and read. RSA itself is a parameter: a signer
  is what \<open>crypto.Signer\<close> offers, its \<open>Public\<close> (\<open>None\<close> for a key that is not RSA, or nil) and its
  \<open>Sign\<close>, which may answer differently every time; \<open>pem.Decode\<close> and the two \<open>x509\<close> parsers are
  parameters as well. A \<open>big.Int\<close> is an \<open>int\<close>, and \<open>Bytes\<close> its absolute value, most significant
  byte first.
\<close>

section \<open>Big-endian bytes\<close>

fun big_bytes :: "nat \<Rightarrow> string" where
  "big_bytes n = (if n = 0 then [] else big_bytes (n div 256) @ [chr (n mod 256)])"

declare big_bytes.simps [simp del]

definition big_of_bytes :: "string \<Rightarrow> nat" where
  "big_of_bytes s = foldl (\<lambda>n c. n * 256 + byte c) 0 s"

lemma big_bytes_0 [simp]: "big_bytes 0 = []"
  by (simp add: big_bytes.simps)

lemma big_of_bytes_snoc: "big_of_bytes (s @ [c]) = big_of_bytes s * 256 + byte c"
  by (simp add: big_of_bytes_def)

lemma big_round_trip: "big_of_bytes (big_bytes n) = n"
proof (induction n rule: big_bytes.induct)
  case (1 n)
  then show ?case
    by (cases "n = 0") (simp_all add: big_of_bytes_def big_bytes.simps[of n] big_of_bytes_snoc[unfolded big_of_bytes_def])
qed

lemma big_bytes_Nil_iff: "big_bytes n = [] \<longleftrightarrow> n = 0"
  by (subst big_bytes.simps) simp

lemma length_big_bytes: "n < 256 ^ k \<Longrightarrow> length (big_bytes n) \<le> k"
proof (induction k arbitrary: n)
  case (Suc k)
  then have "n div 256 < 256 ^ k" by (simp add: less_mult_imp_div_less mult.commute)
  then have "length (big_bytes (n div 256)) \<le> k" by (rule Suc.IH)
  then show ?case by (subst big_bytes.simps) simp
qed simp

section \<open>Keys and JWKs\<close>

record rsa_public =
  rk_N :: "int option"
  rk_E :: int

record JWK =
  jk_Kty :: string
  jk_Use :: string
  jk_Alg :: string
  jk_Kid :: string
  jk_N :: string
  jk_E :: string

definition rs256Alg :: string where "rs256Alg = ''RS256''"

text \<open>\<open>pub == nil || pub.N == nil\<close>.\<close>

definition usable_public :: "rsa_public option \<Rightarrow> bool" where
  "usable_public pub \<longleftrightarrow> (case pub of None \<Rightarrow> False | Some p \<Rightarrow> rk_N p \<noteq> None)"

definition NewRSAJWK :: "rsa_public option \<Rightarrow> string \<Rightarrow> JWK result" where
  "NewRSAJWK pub kid = (case pub of
     None \<Rightarrow> Inl (Message ''auth: idp: nil RSA public key'')
   | Some p \<Rightarrow> (case rk_N p of
       None \<Rightarrow> Inl (Message ''auth: idp: nil RSA public key'')
     | Some n \<Rightarrow> Ok \<lparr>jk_Kty = ''RSA'', jk_Use = ''sig'', jk_Alg = ''RS256'', jk_Kid = kid,
         jk_N = base64url_encode (big_bytes (nat \<bar>n\<bar>)),
         jk_E = base64url_encode (big_bytes (nat \<bar>rk_E p\<bar>))\<rparr>))"

lemma NewRSAJWK_Ok:
  "NewRSAJWK pub kid = Ok j \<Longrightarrow> usable_public pub \<and> jk_Kty j = ''RSA'' \<and> jk_Use j = ''sig'' \<and>
     jk_Alg j = ''RS256'' \<and> jk_Kid j = kid \<and>
     (\<exists>n e. jk_N j = base64url_encode n \<and> jk_E j = base64url_encode e)"
  by (auto simp: NewRSAJWK_def usable_public_def split: option.splits)

text \<open>\<open>JWK.RSAPublicKey\<close>. \<open>int64(^uint32(0)>>1)\<close> is \<open>2 ^ 31 - 1\<close>.\<close>

definition RSAPublicKey :: "JWK \<Rightarrow> rsa_public result" where
  "RSAPublicKey j =
     (if jk_Kty j \<noteq> ''RSA'' then Inl (Wrapped ''kty'' (Sentinel ErrInvalidToken))
      else if jk_Alg j \<noteq> [] \<and> jk_Alg j \<noteq> rs256Alg then Inl (Wrapped ''alg'' (Sentinel ErrInvalidToken))
      else case base64url_decode (jk_N j) of
        None \<Rightarrow> Inl (Wrapped ''modulus'' (Sentinel ErrInvalidToken))
      | Some n \<Rightarrow>
          if n = [] then Inl (Wrapped ''modulus'' (Sentinel ErrInvalidToken))
          else case base64url_decode (jk_E j) of
            None \<Rightarrow> Inl (Wrapped ''exponent'' (Sentinel ErrInvalidToken))
          | Some e \<Rightarrow>
              if e = [] \<or> length e > 8 then Inl (Wrapped ''exponent'' (Sentinel ErrInvalidToken))
              else (let exponent = int (big_of_bytes e) in
                if \<not> is_int64 exponent \<or> exponent > 2 ^ 31 - 1 \<or> exponent < 3
                then Inl (Wrapped ''exponent range'' (Sentinel ErrInvalidToken))
                else Ok \<lparr>rk_N = Some (int (big_of_bytes n)), rk_E = exponent\<rparr>))"

lemma RSAPublicKey_Ok:
  "RSAPublicKey j = Ok pub \<Longrightarrow>
     jk_Kty j = ''RSA'' \<and> (jk_Alg j = [] \<or> jk_Alg j = rs256Alg) \<and>
     (\<exists>n. rk_N pub = Some n \<and> n \<ge> 0) \<and> 3 \<le> rk_E pub \<and> rk_E pub \<le> 2 ^ 31 - 1"
  by (auto simp: RSAPublicKey_def Let_def split: if_splits option.splits)

lemma RSAPublicKey_error: "RSAPublicKey j = Inl e \<Longrightarrow> errors_is e ErrInvalidToken"
  by (auto simp: RSAPublicKey_def Let_def split: if_splits option.splits)

text \<open>A key with a positive modulus and an exponent in range comes back from its JWK.\<close>

definition sound_public :: "rsa_public \<Rightarrow> bool" where
  "sound_public p \<longleftrightarrow> (\<exists>n. rk_N p = Some n \<and> n > 0) \<and> 3 \<le> rk_E p \<and> rk_E p \<le> 2 ^ 31 - 1"

lemma JWK_round_trip:
  assumes "sound_public p" "NewRSAJWK (Some p) kid = Ok j"
  shows "RSAPublicKey j = Ok p" "jk_Kid j = kid"
proof -
  obtain n where n: "rk_N p = Some n" "n > 0" and e: "3 \<le> rk_E p" "rk_E p \<le> 2 ^ 31 - 1"
    using assms(1) by (auto simp: sound_public_def)
  have "nat \<bar>rk_E p\<bar> < 256 ^ 8" using e by simp
  then have "length (big_bytes (nat \<bar>rk_E p\<bar>)) \<le> 8" by (rule length_big_bytes)
  moreover have "is_int64 (rk_E p)" using e by (simp add: is_int64_def)
  moreover have "\<lparr>rk_N = Some n, rk_E = rk_E p\<rparr> = p" using n by simp
  ultimately show "RSAPublicKey j = Ok p" "jk_Kid j = kid"
    using assms(2) n e
    by (auto simp: NewRSAJWK_def RSAPublicKey_def base64url_round_trip big_round_trip big_bytes_Nil_iff
        rs256Alg_def Let_def)
qed

section \<open>Private keys in PEM\<close>

datatype 'k pkcs8_key = RSAPrivate 'k | OtherPrivate

text \<open>\<open>decode\<close> gives the block's type and bytes.\<close>

definition ParseRSAPrivateKeyPEM ::
    "(string \<Rightarrow> (string \<times> string) option) \<Rightarrow> (string \<Rightarrow> 'k result) \<Rightarrow> (string \<Rightarrow> 'k pkcs8_key result) \<Rightarrow>
     string \<Rightarrow> 'k result" where
  "ParseRSAPrivateKeyPEM decode pkcs1 pkcs8 pemText = (case decode pemText of
     None \<Rightarrow> Inl (Message ''auth: idp: no PEM block in private key'')
   | Some (ty, bytes) \<Rightarrow>
       if ty = ''RSA PRIVATE KEY'' then (case pkcs1 bytes of
           Inl e \<Rightarrow> Inl (Wrapped ''auth: idp: parse PKCS#1 private key'' e) | Inr key \<Rightarrow> Ok key)
       else if ty = ''PRIVATE KEY'' then (case pkcs8 bytes of
           Inl e \<Rightarrow> Inl (Wrapped ''auth: idp: parse PKCS#8 private key'' e)
         | Inr (RSAPrivate key) \<Rightarrow> Ok key
         | Inr OtherPrivate \<Rightarrow> Inl (Message ''auth: idp: PKCS#8 private key is not RSA''))
       else Inl (Message ''auth: idp: unsupported PEM block type''))"

section \<open>RS256 tokens\<close>

record signer =
  sg_Public :: "rsa_public option"
  sg_Sign :: "nat \<Rightarrow> string \<Rightarrow> string result"

definition rs256_header :: "string \<Rightarrow> string" where
  "rs256_header kid = json_print (JObj [(''alg'', JStr ''RS256''), (''kid'', JStr kid), (''typ'', JStr ''JWT'')])"

definition signing_input :: "string \<Rightarrow> json_object \<Rightarrow> string" where
  "signing_input kid claims =
     base64url_encode (rs256_header kid) @ ''.'' @ base64url_encode (json_print (json_of_object claims))"

definition BuildRS256JWT :: "crypto \<Rightarrow> signer option \<Rightarrow> string \<Rightarrow> json_object \<Rightarrow> string draws" where
  "BuildRS256JWT c s kid claims k = (case s of
     None \<Rightarrow> (Inl (Message ''auth: idp: nil signer''), k)
   | Some sg \<Rightarrow>
       if \<not> usable_public (sg_Public sg) then (Inl (Message ''auth: idp: signer public key is not RSA''), k)
       else (let sigInput = signing_input kid claims in
         case sg_Sign sg k (c_sha256 c sigInput) of
           Inl e \<Rightarrow> (Inl (Wrapped ''auth: idp rsa sign'' e), Suc k)
         | Inr sig \<Rightarrow> (Ok (sigInput @ ''.'' @ base64url_encode sig), Suc k)))"

lemma BuildRS256JWT_Ok:
  "BuildRS256JWT c s kid claims k = (Ok token, k') \<longleftrightarrow>
     (\<exists>sg sig. s = Some sg \<and> usable_public (sg_Public sg) \<and>
        sg_Sign sg k (c_sha256 c (signing_input kid claims)) = Ok sig \<and> k' = Suc k \<and>
        token = signing_input kid claims @ ''.'' @ base64url_encode sig)"
  by (auto simp: BuildRS256JWT_def Let_def split: option.splits sum.splits)

lemma BuildRS256JWT_advances: "k \<le> snd (BuildRS256JWT c s kid claims k)"
  by (simp add: BuildRS256JWT_def Let_def split: option.split sum.split)

section \<open>The JWKS document\<close>

text \<open>A struct is printed in the order of its fields; the endpoint answers the document on a line.\<close>

definition jwk_members :: "JWK \<Rightarrow> (string \<times> json) list" where
  "jwk_members j = [(''kty'', JStr (jk_Kty j)), (''use'', JStr (jk_Use j)), (''alg'', JStr (jk_Alg j)),
     (''kid'', JStr (jk_Kid j)), (''n'', JStr (jk_N j)), (''e'', JStr (jk_E j))]"

definition print_jwk :: "JWK \<Rightarrow> string" where
  "print_jwk j = ''{'' @ print_members (jwk_members j) @ ''}''"

definition print_jwks :: "JWK list \<Rightarrow> string" where
  "print_jwks keys = ''{'' @ json_quote ''keys'' @ '':['' @ join '','' (map print_jwk keys) @ '']}'' @ [CHR 0x0A]"

definition jwk_fields :: "string list" where
  "jwk_fields = [''kty'', ''use'', ''alg'', ''kid'', ''n'', ''e'']"

definition zero_jwk :: JWK where
  "zero_jwk = \<lparr>jk_Kty = [], jk_Use = [], jk_Alg = [], jk_Kid = [], jk_N = [], jk_E = []\<rparr>"

text \<open>Decoding one key into the element that is there.\<close>

definition decode_jwk :: "json \<Rightarrow> JWK \<Rightarrow> JWK option" where
  "decode_jwk v old = do {
     kvs \<leftarrow> object_members v;
     kty \<leftarrow> decode_each decode_string (field_values jwk_fields ''kty'' kvs) (jk_Kty old);
     use \<leftarrow> decode_each decode_string (field_values jwk_fields ''use'' kvs) (jk_Use old);
     alg \<leftarrow> decode_each decode_string (field_values jwk_fields ''alg'' kvs) (jk_Alg old);
     kid \<leftarrow> decode_each decode_string (field_values jwk_fields ''kid'' kvs) (jk_Kid old);
     n \<leftarrow> decode_each decode_string (field_values jwk_fields ''n'' kvs) (jk_N old);
     e \<leftarrow> decode_each decode_string (field_values jwk_fields ''e'' kvs) (jk_E old);
     Some \<lparr>jk_Kty = kty, jk_Use = use, jk_Alg = alg, jk_Kid = kid, jk_N = n, jk_E = e\<rparr>
   }"

fun decode_elems :: "json list \<Rightarrow> JWK list \<Rightarrow> JWK list option" where
  "decode_elems [] olds = Some []"
| "decode_elems (v # vs) olds =
     (case decode_jwk v (case olds of [] \<Rightarrow> zero_jwk | x # _ \<Rightarrow> x) of
        None \<Rightarrow> None | Some j \<Rightarrow> map_option (Cons j) (decode_elems vs (tl olds)))"

text \<open>The \<open>*[]JWK\<close>: null makes the pointer nil; a repeated member is decoded over the elements of
  the one before it.\<close>

definition decode_keys :: "json \<Rightarrow> JWK list option \<Rightarrow> JWK list option option" where
  "decode_keys v old = (case v of
     JNull \<Rightarrow> Some None
   | JArr vs \<Rightarrow> map_option Some (decode_elems vs (slice_elems old))
   | _ \<Rightarrow> None)"

definition decode_jwks :: "string \<Rightarrow> JWK list option option" where
  "decode_jwks body = do {
     v \<leftarrow> json_parse body;
     kvs \<leftarrow> object_members v;
     decode_each decode_keys (field_values [''keys''] ''keys'' kvs) None
   }"

subsection \<open>What is published is what is read\<close>

definition reads_as :: "nat \<Rightarrow> string \<Rightarrow> json \<Rightarrow> bool" where
  "reads_as h s v \<longleftrightarrow> (\<exists>c t. s = c # t \<and> \<not> json_space c \<and> c \<noteq> CHR '']'') \<and>
     (\<forall>n d r. 2 * length s \<le> Suc n \<and> d + h \<le> max_nesting \<and> delim r \<longrightarrow> parse_value n d (s @ r) = Some (v, r))"

lemma parse_elems_reads:
  assumes "ps \<noteq> []" "\<forall>(s, v)\<in>set ps. reads_as h s v" "2 * length (join '','' (map fst ps)) \<le> n"
    "d + h \<le> max_nesting"
  shows "parse_elems n d (join '','' (map fst ps) @ CHR '']'' # r) = Some (map snd ps, r)"
  using assms
proof (induction ps arbitrary: n)
  case (Cons p ps)
  obtain s v where p: "p = (s, v)" by (cases p)
  then have sv: "reads_as h s v" using Cons.prems(2) by simp
  obtain m where m: "n = Suc m"
    using Cons.prems(3) sv p by (cases n; cases ps) (auto simp: reads_as_def)
  show ?case
  proof (cases ps)
    case Nil
    have "parse_value m d (s @ CHR '']'' # r) = Some (v, CHR '']'' # r)"
      using sv Cons.prems(3,4) m p Nil by (auto simp: reads_as_def delim_def)
    then show ?thesis using m p Nil by (simp add: json_space_def)
  next
    case (Cons q qs)
    let ?rest = "join '','' (map fst ps)"
    have j: "join '','' (map fst (p # ps)) = s @ CHR '','' # ?rest" using Cons p by simp
    have le: "2 * length s \<le> Suc m" "2 * length ?rest \<le> m"
      using Cons.prems(3) m unfolding j by auto
    have "parse_value m d (s @ CHR '','' # ?rest @ CHR '']'' # r)
        = Some (v, CHR '','' # ?rest @ CHR '']'' # r)"
      using sv le(1) Cons.prems(4) by (auto simp: reads_as_def delim_def)
    moreover have "parse_elems m d (?rest @ CHR '']'' # r) = Some (map snd ps, r)"
      using Cons.IH[OF _ _ le(2)] Cons.prems(2,4) Cons by simp
    ultimately show ?thesis unfolding j using m p by (simp add: json_space_def)
  qed
qed simp

text \<open>Keys made of valid UTF-8.\<close>

definition jwk_utf8 :: "JWK \<Rightarrow> bool" where
  "jwk_utf8 j \<longleftrightarrow> list_all valid_utf8 [jk_Kty j, jk_Use j, jk_Alg j, jk_Kid j, jk_N j, jk_E j]"

lemma print_jwk_reads: "jwk_utf8 j \<Longrightarrow> reads_as 1 (print_jwk j) (JObj (jwk_members j))"
  unfolding reads_as_def
proof (intro conjI allI impI)
  show "\<exists>c t. print_jwk j = c # t \<and> \<not> json_space c \<and> c \<noteq> CHR '']''"
    by (simp add: print_jwk_def json_space_def)
  fix n d r
  assume u: "jwk_utf8 j" and n: "2 * length (print_jwk j) \<le> Suc n \<and> d + 1 \<le> max_nesting \<and> delim r"
  then obtain m where m: "n = Suc m" by (cases n) (auto simp: print_jwk_def)
  have "list_all valid_utf8 jwk_fields" by code_simp
  then have all: "\<forall>(k, v)\<in>set (jwk_members j). parses v \<and> clean v \<and> valid_utf8 k"
    using u by (auto simp: jwk_members_def jwk_utf8_def jwk_fields_def intro!: parse_print_step)
  have ne: "jwk_members j \<noteq> []" by (simp add: jwk_members_def)
  have "parse_members m (Suc d) (print_members (jwk_members j) @ CHR ''}'' # r) = Some (jwk_members j, r)"
    using n m by (intro parse_members_print[OF ne all]) (auto simp: print_jwk_def jwk_members_def)
  moreover have "\<exists>t. print_members (jwk_members j) = CHR 0x22 # t"
    by (simp add: jwk_members_def print_members_Cons)
  ultimately show "parse_value n d (print_jwk j @ r) = Some (JObj (jwk_members j), r)"
    using n m by (auto simp: print_jwk_def json_space_def)
qed

lemma decode_jwk_members: "decode_jwk (JObj (jwk_members j)) old = Some j"
proof -
  have "list_all (\<lambda>f. struct_field jwk_fields f = Some f) jwk_fields" by code_simp
  then have f: "struct_field jwk_fields ''kty'' = Some ''kty''" "struct_field jwk_fields ''use'' = Some ''use''"
    "struct_field jwk_fields ''alg'' = Some ''alg''" "struct_field jwk_fields ''kid'' = Some ''kid''"
    "struct_field jwk_fields ''n'' = Some ''n''" "struct_field jwk_fields ''e'' = Some ''e''"
    by (simp_all add: jwk_fields_def)
  show ?thesis
    by (simp add: decode_jwk_def object_members_def field_values_def jwk_members_def f decode_string_def)
qed

lemma decode_elems_members: "decode_elems (map (\<lambda>j. JObj (jwk_members j)) js) olds = Some js"
  by (induction js arbitrary: olds) (simp_all add: decode_jwk_members)

lemma print_jwks_parses:
  assumes "list_all jwk_utf8 keys"
  shows "json_parse (print_jwks keys) = Some (JObj [(''keys'', JArr (map (\<lambda>j. JObj (jwk_members j)) keys))])"
proof -
  let ?elems = "join '','' (map print_jwk keys)" and ?vs = "map (\<lambda>j. JObj (jwk_members j)) keys"
  let ?n = "2 * length (print_jwks keys) + 2"
  have max: "1 + 1 < max_nesting" by (simp add: max_nesting_def)
  have ps: "map fst (map (\<lambda>j. (print_jwk j, JObj (jwk_members j))) keys) = map print_jwk keys"
    "map snd (map (\<lambda>j. (print_jwk j, JObj (jwk_members j))) keys) = ?vs" by simp_all
  have arr: "parse_value m (Suc 0) (CHR ''['' # ?elems @ CHR '']'' # r) = Some (JArr ?vs, r)"
    if le: "2 * length ?elems + 1 \<le> m" for m r
  proof (cases "keys = []")
    case True
    then show ?thesis using le max by (cases m) (auto simp: json_space_def)
  next
    case False
    obtain k where m: "m = Suc k" "2 * length ?elems \<le> k" using le by (cases m) auto
    have reads: "\<forall>(s, v)\<in>set (map (\<lambda>j. (print_jwk j, JObj (jwk_members j))) keys). reads_as 1 s v"
      using assms print_jwk_reads by (auto simp: list_all_iff)
    have "parse_elems k (Suc 1) (?elems @ CHR '']'' # r) = Some (?vs, r)"
      using parse_elems_reads[OF _ reads, of k "Suc 1" r, unfolded ps] False m(2) max by simp
    moreover have "\<exists>t. ?elems = CHR ''{'' # t"
      using False by (cases keys rule: remdups_adj.cases) (auto simp: print_jwk_def)
    ultimately show ?thesis using m(1) max by (auto simp: json_space_def)
  qed
  have esc: "json_escape ''keys'' = ''keys''" by code_simp
  have "print_jwks keys = CHR ''{'' # CHR 0x22 # json_escape ''keys'' @ CHR 0x22 # CHR '':'' # CHR ''['' # ?elems @
      CHR '']'' # CHR ''}'' # [CHR 0x0A]"
    by (simp add: print_jwks_def json_quote_def)
  moreover have "valid_utf8 ''keys''" by code_simp
  moreover obtain m where m: "?n = Suc (Suc m)" "2 * length ?elems + 1 \<le> m"
    by (rule that[of "2 * length (print_jwks keys)"]) (simp_all add: print_jwks_def)
  ultimately show ?thesis
    using max by (simp add: json_parse_def json_space_def parse_quoted arr del: max_nesting_def)
qed

lemma jwks_round_trip: "list_all jwk_utf8 keys \<Longrightarrow> decode_jwks (print_jwks keys) = Some (Some keys)"
  using struct_field_def[of "[''keys'']" "''keys''"]
  by (simp add: decode_jwks_def print_jwks_parses object_members_def field_values_def decode_keys_def
      decode_elems_members)

end
