(* ===== verification/IDP_Server.thy ===== *)
theory IDP_Server
  imports RSA_Keys Service_Session
begin

text \<open>
  \<open>idp.go\<close>: the OIDC identity provider. An \<open>IDP\<close> is built once, over a service \<open>v\<close>; an IDP built
  without one, which mints the base claims alone, behaves as one over a service without a claims
  hook. A handler takes the request apart the way the code does and leaves an answer, changing
  the service's world and the store of authorization codes (the in-memory one). What
  \<open>ParseForm\<close> left in \<open>r.Form\<close> is a field of the request, nothing when it failed; \<open>url.Parse\<close> of
  the redirect URI and the writing of the URL back are a parameter. The key \<open>NewIDP\<close> generates
  when none is configured is what \<open>gen\<close> draws.
\<close>

section \<open>Configuration\<close>

definition DefaultIDPKeyID :: string where "DefaultIDPKeyID = ''provisioner-key-1''"
definition DefaultJWKSPath :: string where "DefaultJWKSPath = ''/.well-known/jwks.json''"
definition OIDCDiscoveryPath :: string where "OIDCDiscoveryPath = ''/.well-known/openid-configuration''"
definition OIDCAuthorizePath :: string where "OIDCAuthorizePath = ''/authorize''"
definition OIDCTokenPath :: string where "OIDCTokenPath = ''/token''"
definition OIDCUserInfoPath :: string where "OIDCUserInfoPath = ''/userinfo''"
definition defaultAuthCodeTTL :: duration where "defaultAuthCodeTTL = 5 * minute"
definition defaultIDPAccessTokenTTL :: duration where "defaultIDPAccessTokenTTL = 30 * 24 * hour"
definition defaultIDPRefreshTokenTTL :: duration where "defaultIDPRefreshTokenTTL = 90 * 24 * hour"
definition jwksCacheControl :: string where "jwksCacheControl = ''public, max-age=3600''"
definition jwksWildcardOrigin :: string where "jwksWildcardOrigin = ''*''"

record IDPConfig =
  ic_Issuer :: string
  ic_AccessTokenTTL :: duration
  ic_IDTokenTTL :: duration
  ic_Signer :: "signer option"
  ic_KeyID :: string
  ic_PublicKeys :: "JWK list"
  ic_RefreshTokenTTL :: duration
  ic_CodeTTL :: duration
  ic_JWKSPath :: string
  ic_JWKSCORSOrigins :: "string list option"
  ic_JWKSURL :: string

record IDPClient =
  cl_ClientID :: string
  cl_ClientSecret :: string
  cl_RedirectURIs :: "string list"
  cl_Name :: string

record IDP =
  ip_cfg :: IDPConfig
  ip_signer :: signer
  ip_signerJWK :: JWK
  ip_keyID :: string
  ip_clients :: "(string, IDPClient) fmap"
  ip_now :: "nat \<Rightarrow> time"

definition jwksReservedPaths :: "string list" where
  "jwksReservedPaths = [OIDCAuthorizePath, OIDCTokenPath, OIDCUserInfoPath, OIDCDiscoveryPath]"

definition validateJWKSPath :: "string \<Rightarrow> unit result" where
  "validateJWKSPath path =
     (if path = [] then Ok ()
      else if \<not> prefix ''/'' path then Inl (Message ''auth: idp: JWKSPath must start with /'')
      else if suffix ''/'' path then Inl (Message ''auth: idp: JWKSPath must not end with /'')
      else if list_ex (\<lambda>bad. sublist bad path) [''{'', ''}'', ''?'', ''#'', ''//'']
        then Inl (Message ''auth: idp: JWKSPath must not contain'')
      else if list_ex (\<lambda>reserved. path = reserved) jwksReservedPaths
        then Inl (Message ''auth: idp: JWKSPath is one of the four OIDC endpoints'')
      else Ok ())"

text \<open>\<open>clk\<close> is \<open>time.Now\<close>.\<close>

definition NewIDP ::
    "(nat \<Rightarrow> signer result) \<Rightarrow> (nat \<Rightarrow> time) \<Rightarrow> IDPConfig \<Rightarrow> IDPClient list \<Rightarrow> IDP draws" where
  "NewIDP gen clk cfg clients k = (case validateJWKSPath (ic_JWKSPath cfg) of
     Inl e \<Rightarrow> (Inl e, k)
   | Inr _ \<Rightarrow>
     (case (case ic_Signer cfg of Some sg \<Rightarrow> (Ok sg, k) | None \<Rightarrow> (gen k, Suc k)) of
       (Inl e, k') \<Rightarrow> (Inl (Wrapped ''auth: idp key generation'' e), k')
     | (Inr sg, k') \<Rightarrow>
         if \<not> usable_public (sg_Public sg)
         then (Inl (Message ''auth: idp: signer public key is not RSA''), k')
         else (let keyID = (if ic_KeyID cfg = [] then DefaultIDPKeyID else ic_KeyID cfg) in
           case NewRSAJWK (sg_Public sg) keyID of
             Inl e \<Rightarrow> (Inl e, k')
           | Inr j \<Rightarrow> (Ok \<lparr>ip_cfg = cfg, ip_signer = sg, ip_signerJWK = j, ip_keyID = keyID,
               ip_clients = fold (\<lambda>c. fmupd (cl_ClientID c) c) clients fmempty, ip_now = clk\<rparr>, k'))))"

definition codeTTL :: "IDP \<Rightarrow> duration" where
  "codeTTL idp = (if ic_CodeTTL (ip_cfg idp) \<le> 0 then defaultAuthCodeTTL else ic_CodeTTL (ip_cfg idp))"

definition accessTokenTTL :: "IDP \<Rightarrow> duration" where
  "accessTokenTTL idp = (if ic_AccessTokenTTL (ip_cfg idp) \<le> 0 then defaultIDPAccessTokenTTL
     else ic_AccessTokenTTL (ip_cfg idp))"

definition refreshTokenTTL :: "IDP \<Rightarrow> duration" where
  "refreshTokenTTL idp = (if ic_RefreshTokenTTL (ip_cfg idp) \<le> 0 then defaultIDPRefreshTokenTTL
     else ic_RefreshTokenTTL (ip_cfg idp))"

section \<open>Publishing the keys\<close>

definition IDP_JWKS :: "IDP \<Rightarrow> JWK list" where
  "IDP_JWKS idp = ip_signerJWK idp # ic_PublicKeys (ip_cfg idp)"

definition JWKSPath :: "IDP \<Rightarrow> string" where
  "JWKSPath idp = (if ic_JWKSPath (ip_cfg idp) = [] then DefaultJWKSPath else ic_JWKSPath (ip_cfg idp))"

definition jwksURI :: "IDP \<Rightarrow> string" where
  "jwksURI idp = (if ic_JWKSURL (ip_cfg idp) \<noteq> [] then ic_JWKSURL (ip_cfg idp)
     else trim_suffix ''/'' (ic_Issuer (ip_cfg idp)) @ JWKSPath idp)"

text \<open>The header's value, or that none is sent.\<close>

definition jwksAllowedOrigin :: "IDP \<Rightarrow> string \<Rightarrow> string option" where
  "jwksAllowedOrigin idp requestOrigin = (case ic_JWKSCORSOrigins (ip_cfg idp) of
     None \<Rightarrow> Some jwksWildcardOrigin
   | Some origins \<Rightarrow>
       if length origins = 1 \<and> origins ! 0 = jwksWildcardOrigin then Some jwksWildcardOrigin
       else (case find (\<lambda>origin. origin = requestOrigin) origins of
          Some _ \<Rightarrow> Some requestOrigin | None \<Rightarrow> None))"

record jwks_answer =
  ja_AllowOrigin :: "string option"
  ja_CacheControl :: string
  ja_Status :: int
  ja_Body :: string

definition JWKSHandler :: "IDP \<Rightarrow> string \<Rightarrow> jwks_answer" where
  "JWKSHandler idp origin = \<lparr>ja_AllowOrigin = jwksAllowedOrigin idp origin,
     ja_CacheControl = jwksCacheControl, ja_Status = 200, ja_Body = print_jwks (IDP_JWKS idp)\<rparr>"

section \<open>The RS256 pair\<close>

definition payloadClaims :: "env \<Rightarrow> User \<Rightarrow> json_object action" where
  "payloadClaims v user = thenDo (custom_claims v user) (\<lambda>custom. ret (base_claims user ++\<^sub>f custom))"

text \<open>\<open>iat\<close>, \<open>exp\<close> and \<open>kid\<close> dropped, the issuer set when there is one.\<close>

definition pair_claims :: "IDPConfig \<Rightarrow> json_object \<Rightarrow> json_object" where
  "pair_claims cfg claims =
     (let claims = fmdrop ''kid'' (fmdrop ''exp'' (fmdrop ''iat'' claims)) in
      if ic_Issuer cfg \<noteq> [] then fmupd ''iss'' (JStr (ic_Issuer cfg)) claims else claims)"

definition with_lifetime :: "json_object \<Rightarrow> time \<Rightarrow> duration \<Rightarrow> json_object" where
  "with_lifetime claims now ttl =
     fmupd ''exp'' (JNum (decimal (unix_of (now + ttl)))) (fmupd ''iat'' (JNum (decimal (unix_of now))) claims)"

definition signWithLifetime :: "env \<Rightarrow> IDP \<Rightarrow> json_object \<Rightarrow> time \<Rightarrow> duration \<Rightarrow> string action" where
  "signWithLifetime v idp claims now ttl =
     draw (BuildRS256JWT (e_crypto v) (Some (ip_signer idp)) (ip_keyID idp) (with_lifetime claims now ttl))"

definition IssueIdPTokenPair :: "env \<Rightarrow> IDP \<Rightarrow> User \<Rightarrow> AuthTokens action" where
  "IssueIdPTokenPair v idp user =
     thenDo (payloadClaims v user) (\<lambda>claims0.
     let claims = pair_claims (ip_cfg idp) claims0; accessTTL = accessTokenTTL idp in
     thenDo (tick (ip_now idp)) (\<lambda>now.
     thenDo (signWithLifetime v idp claims now accessTTL) (\<lambda>accessToken.
     thenDo (signWithLifetime v idp claims now (refreshTokenTTL idp)) (\<lambda>refreshToken.
     ret \<lparr>at_AccessToken = accessToken, at_RefreshToken = refreshToken, at_ExpiresIn = accessTTL\<rparr>))))"

definition id_token_claims :: "IDP \<Rightarrow> User \<Rightarrow> string \<Rightarrow> string \<Rightarrow> time \<Rightarrow> json_object" where
  "id_token_claims idp user audience nonce now =
     (let ttl = (if ic_IDTokenTTL (ip_cfg idp) \<le> 0 then hour else ic_IDTokenTTL (ip_cfg idp));
          claims = fmap_of_list [
            (''iss'', JStr (ic_Issuer (ip_cfg idp))), (''sub'', JStr (u_ID user)), (''aud'', JStr audience),
            (''iat'', JNum (decimal (unix_of now))), (''exp'', JNum (decimal (unix_of (now + ttl)))),
            (''email'', JStr (u_Email user))]
      in if nonce \<noteq> [] then fmupd ''nonce'' (JStr nonce) claims else claims)"

definition buildIDToken :: "env \<Rightarrow> IDP \<Rightarrow> User \<Rightarrow> string \<Rightarrow> string \<Rightarrow> string action" where
  "buildIDToken v idp user audience nonce =
     thenDo (tick (ip_now idp)) (\<lambda>now.
     draw (BuildRS256JWT (e_crypto v) (Some (ip_signer idp)) (ip_keyID idp)
       (id_token_claims idp user audience nonce now)))"

section \<open>The endpoints\<close>

datatype oidc_route = DiscoveryEndpoint | AuthorizeEndpoint | TokenEndpoint | UserInfoEndpoint | JWKSEndpoint

record OIDCMount =
  om_Path :: string
  om_Handler :: oidc_route
  om_ResourceServerGated :: bool

definition oidcResourceServerGated :: "(string, bool) fmap" where
  "oidcResourceServerGated = fmap_of_list [(OIDCAuthorizePath, True), (OIDCTokenPath, True)]"

definition OIDCMounts :: "OIDCMount list" where
  "OIDCMounts = map (\<lambda>(path, h). \<lparr>om_Path = path, om_Handler = h,
       om_ResourceServerGated = (case fmlookup oidcResourceServerGated path of None \<Rightarrow> False | Some b \<Rightarrow> b)\<rparr>)
     [(OIDCDiscoveryPath, DiscoveryEndpoint), (OIDCAuthorizePath, AuthorizeEndpoint),
      (OIDCTokenPath, TokenEndpoint), (OIDCUserInfoPath, UserInfoEndpoint)]"

text \<open>What \<open>RegisterHandlers\<close> hands to the mux, pattern by pattern.\<close>

definition RegisterHandlers :: "IDP \<Rightarrow> string \<Rightarrow> (string \<times> oidc_route) list" where
  "RegisterHandlers idp basePath0 =
     (let basePath = (if suffix ''/'' basePath0 then basePath0 else basePath0 @ ''/'');
          canonical = basePath @ trim_prefix ''/'' (JWKSPath idp);
          alias = basePath @ ''jwks''
      in (''GET '' @ canonical, JWKSEndpoint) #
         (if alias \<noteq> canonical then [(''GET '' @ alias, JWKSEndpoint)] else []) @
         map (\<lambda>m. (basePath @ trim_prefix ''/'' (om_Path m), om_Handler m)) OIDCMounts)"

record idp_world =
  iw_world :: world
  iw_codes :: MemoryAuthCodeStore

datatype idp_answer =
    PlainAnswer int string
  | LoginForm
  | RedirectAnswer string
  | JsonAnswer json_object

type_synonym idp_handler = "idp_world \<Rightarrow> idp_answer \<times> idp_world"

definition answer :: "idp_answer \<Rightarrow> idp_handler" where
  "answer a s = (a, s)"

definition on_service :: "'a action \<Rightarrow> idp_answer \<Rightarrow> ('a \<Rightarrow> idp_handler) \<Rightarrow> idp_handler" where
  "on_service m onError next s = (case m (iw_world s) of
     (Inl e, w) \<Rightarrow> (onError, s\<lparr>iw_world := w\<rparr>)
   | (Inr x, w) \<Rightarrow> next x (s\<lparr>iw_world := w\<rparr>))"

definition read_clock :: "(nat \<Rightarrow> time) \<Rightarrow> (time \<Rightarrow> idp_handler) \<Rightarrow> idp_handler" where
  "read_clock clk next s = (let k = w_tick (iw_world s) in
     next (clk k) (s\<lparr>iw_world := (iw_world s)\<lparr>w_tick := Suc k\<rparr>\<rparr>))"

definition save_code :: "env \<Rightarrow> AuthCode \<Rightarrow> idp_handler \<Rightarrow> idp_handler" where
  "save_code v code next = read_clock (e_wall v) (\<lambda>now s. next (s\<lparr>iw_codes := SaveCode now code (iw_codes s)\<rparr>))"

definition consume_code :: "env \<Rightarrow> string \<Rightarrow> (AuthCode result \<Rightarrow> idp_handler) \<Rightarrow> idp_handler" where
  "consume_code v h next = read_clock (e_wall v) (\<lambda>now s.
     (case ConsumeCode now h (iw_codes s) of (r, codes) \<Rightarrow> next r (s\<lparr>iw_codes := codes\<rparr>)))"

text \<open>\<open>url.Values.Get\<close>: the first value, or the empty string.\<close>

definition values_get :: "url_values \<Rightarrow> string \<Rightarrow> string" where
  "values_get q name = (case fmlookup q name of Some (x # _) \<Rightarrow> x | _ \<Rightarrow> [])"

definition idpMatchedRedirect :: "string list \<Rightarrow> string \<Rightarrow> string" where
  "idpMatchedRedirect allowed requested = (case find (\<lambda>u. u = requested) allowed of None \<Rightarrow> [] | Some u \<Rightarrow> u)"

subsection \<open>Discovery\<close>

definition json_strings :: "string list \<Rightarrow> json" where "json_strings xs = JArr (map JStr xs)"

definition handleDiscovery :: "IDP \<Rightarrow> idp_answer" where
  "handleDiscovery idp =
     (let base = trim_suffix ''/'' (ic_Issuer (ip_cfg idp)) in
      JsonAnswer (fmap_of_list [
        (''issuer'', JStr base),
        (''authorization_endpoint'', JStr (base @ OIDCAuthorizePath)),
        (''token_endpoint'', JStr (base @ OIDCTokenPath)),
        (''userinfo_endpoint'', JStr (base @ OIDCUserInfoPath)),
        (''jwks_uri'', JStr (jwksURI idp)),
        (''response_types_supported'', json_strings [''code'']),
        (''subject_types_supported'', json_strings [''public'']),
        (''id_token_signing_alg_values_supported'', json_strings [''RS256'']),
        (''scopes_supported'', json_strings [''openid'', ''email'', ''profile'']),
        (''token_endpoint_auth_methods_supported'', json_strings [''client_secret_post'']),
        (''claims_supported'', json_strings
           [''sub'', ''email'', ''name'', ''iat'', ''exp'', ''iss'', ''aud'', ''nonce''])]))"

subsection \<open>Authorize\<close>

record authorize_request =
  az_Method :: string
  az_Query :: url_values
  az_Form :: "url_values option"

definition badRequest :: idp_answer where "badRequest = PlainAnswer 400 ''bad request''"
definition internalError :: idp_answer where "internalError = PlainAnswer 500 ''internal error''"
definition invalidGrant :: idp_answer where "invalidGrant = PlainAnswer 400 ''invalid_grant''"
definition serverError :: idp_answer where "serverError = PlainAnswer 500 ''server_error''"
definition unauthorized :: idp_answer where "unauthorized = PlainAnswer 401 ''unauthorized''"

definition issued_code ::
    "crypto \<Rightarrow> IDP \<Rightarrow> url_values \<Rightarrow> string \<Rightarrow> User \<Rightarrow> string \<Rightarrow> time \<Rightarrow> AuthCode" where
  "issued_code c idp q canonicalRedirect user code now = \<lparr>ac_CodeHash = hashToken c code,
     ac_UserID = u_ID user, ac_TenantID = u_TenantID user, ac_ClientID = values_get q ''client_id'',
     ac_Nonce = values_get q ''nonce'', ac_RedirectURI = canonicalRedirect,
     ac_CodeChallenge = values_get q ''code_challenge'',
     ac_CodeChallengeMethod = values_get q ''code_challenge_method'',
     ac_Scope = values_get q ''scope'', ac_ExpiresAt = now + codeTTL idp\<rparr>"

definition redirect_with_code :: "endpoint_parser \<Rightarrow> string \<Rightarrow> string \<Rightarrow> string \<Rightarrow> idp_answer" where
  "redirect_with_code parse canonicalRedirect code state = (case parse canonicalRedirect of
     None \<Rightarrow> internalError
   | Some (rq, write) \<Rightarrow> RedirectAnswer (write
       (if state \<noteq> [] then set_param ''state'' state (set_param ''code'' code rq)
        else set_param ''code'' code rq)))"

definition authorize_post ::
    "env \<Rightarrow> endpoint_parser \<Rightarrow> IDP \<Rightarrow> url_values \<Rightarrow> string \<Rightarrow> url_values \<Rightarrow> idp_handler" where
  "authorize_post v parse idp q canonicalRedirect form =
     on_service (Login v (values_get form ''email'') (values_get form ''password'') (values_get form ''tenant_id''))
       (PlainAnswer 401 ''invalid credentials'') (\<lambda>(user, _).
     on_service (draw (randomToken (e_crypto v) 24)) internalError (\<lambda>code.
     read_clock (ip_now idp) (\<lambda>now.
     save_code v (issued_code (e_crypto v) idp q canonicalRedirect user code now)
       (answer (redirect_with_code parse canonicalRedirect code (values_get q ''state''))))))"

definition handleAuthorize :: "env \<Rightarrow> endpoint_parser \<Rightarrow> IDP \<Rightarrow> authorize_request \<Rightarrow> idp_handler" where
  "handleAuthorize v parse idp rq =
     (let q = az_Query rq in
      case fmlookup (ip_clients idp) (values_get q ''client_id'') of
        None \<Rightarrow> answer (PlainAnswer 400 ''unknown client'')
      | Some client \<Rightarrow>
          (let canonicalRedirect = idpMatchedRedirect (cl_RedirectURIs client) (values_get q ''redirect_uri'') in
           if canonicalRedirect = [] then answer (PlainAnswer 400 ''redirect_uri not allowed'')
           else if az_Method rq = ''POST'' then (case az_Form rq of
               None \<Rightarrow> answer badRequest
             | Some form \<Rightarrow> authorize_post v parse idp q canonicalRedirect form)
           else answer LoginForm))"

subsection \<open>Token and user info\<close>

text \<open>\<open>int(d.Seconds())\<close>: truncated toward zero.\<close>

definition whole_seconds :: "duration \<Rightarrow> int" where
  "whole_seconds d = (if d \<ge> 0 then d div second else - (- d div second))"

definition token_answer :: "AuthTokens \<Rightarrow> string \<Rightarrow> idp_answer" where
  "token_answer tokens idTok = JsonAnswer (fmap_of_list [
     (''access_token'', JStr (at_AccessToken tokens)), (''refresh_token'', JStr (at_RefreshToken tokens)),
     (''id_token'', JStr idTok), (''token_type'', JStr ''Bearer''),
     (''expires_in'', JNum (decimal (whole_seconds (at_ExpiresIn tokens))))])"

definition redeem :: "env \<Rightarrow> IDP \<Rightarrow> string \<Rightarrow> AuthCode \<Rightarrow> idp_handler" where
  "redeem v idp clientID meta =
     on_service (users_get (GetUserByID (ac_UserID meta) (ac_TenantID meta))) serverError (\<lambda>user.
     on_service (newSessionTokens v user) serverError (\<lambda>tokens.
     on_service (buildIDToken v idp user clientID (ac_Nonce meta)) serverError (\<lambda>idTok.
     answer (token_answer tokens idTok))))"

definition handleToken :: "env \<Rightarrow> IDP \<Rightarrow> url_values option \<Rightarrow> idp_handler" where
  "handleToken v idp form0 = (case form0 of
     None \<Rightarrow> answer badRequest
   | Some form \<Rightarrow>
       if values_get form ''grant_type'' \<noteq> ''authorization_code''
       then answer (PlainAnswer 400 ''unsupported_grant_type'')
       else (let clientID = values_get form ''client_id'' in
         case fmlookup (ip_clients idp) clientID of
           None \<Rightarrow> answer (PlainAnswer 401 ''invalid_client'')
         | Some client \<Rightarrow>
             if cl_ClientSecret client \<noteq> values_get form ''client_secret''
             then answer (PlainAnswer 401 ''invalid_client'')
             else consume_code v (hashToken (e_crypto v) (values_get form ''code'')) (\<lambda>r. case r of
                 Inl _ \<Rightarrow> answer invalidGrant
               | Inr meta \<Rightarrow> read_clock (ip_now idp) (\<lambda>now.
                   if now > ac_ExpiresAt meta then answer invalidGrant
                   else if ac_ClientID meta \<noteq> clientID then answer invalidGrant
                   else redeem v idp clientID meta))))"

definition handleUserInfo :: "env \<Rightarrow> string \<Rightarrow> idp_handler" where
  "handleUserInfo v authHeader =
     (if \<not> prefix ''Bearer '' authHeader then answer unauthorized
      else on_service (Authenticate v (trim_prefix ''Bearer '' authHeader)) unauthorized (\<lambda>user.
        answer (JsonAnswer (fmap_of_list [(''sub'', JStr (u_ID user)), (''email'', JStr (u_Email user)),
          (''name'', JStr (trim_space (u_FirstName user @ '' '' @ u_LastName user)))]))))"

end
