(* ===== verification/JWKS_Client.thy ===== *)
theory JWKS_Client
  imports RSA_Keys
begin

text \<open>
  \<open>resource_server.go\<close>, the key cache: \<open>JWKSClient\<close>, its stale-while-revalidate reads and its two
  invalidations. Every section the mutex guards is one step. A \<open>jwksFetch\<close> is named by its number;
  \<open>jc_done\<close> holds what each finished one was closed with, so a goroutine waiting for it reads the
  entry under its number. The answer of the HTTP client is a parameter of the fetch.
\<close>

section \<open>The client\<close>

definition DefaultJWKSCacheTTL :: duration where "DefaultJWKSCacheTTL = hour"
definition DefaultJWKSFetchTimeout :: duration where "DefaultJWKSFetchTimeout = 5 * second"
definition DefaultJWKSMinRefreshInterval :: duration where "DefaultJWKSMinRefreshInterval = 30 * second"
definition maxJWKSBytes :: nat where "maxJWKSBytes = 1048576"

record ResourceServerConfig =
  rc_JWKSURL :: string
  rc_Issuer :: string
  rc_CacheTTL :: duration
  rc_FetchTimeout :: duration
  rc_MinRefreshInterval :: duration

type_synonym JWKS = "JWK list"

record JWKSClient =
  jc_url :: string
  jc_cacheTTL :: duration
  jc_fetchTimeout :: duration
  jc_minRefresh :: duration
  jc_doc :: "JWKS option"
  jc_expiry :: time
  jc_fetchedAt :: time
  jc_inflight :: "nat option"
  jc_started :: nat
  jc_done :: "(nat, JWKS result) fmap"

text \<open>\<open>parse\<close> is \<open>url.Parse\<close>: scheme and host.\<close>

definition validateJWKSURL :: "(string \<Rightarrow> (string \<times> string) option) \<Rightarrow> string \<Rightarrow> unit result" where
  "validateJWKSURL parse raw =
     (if trim_space raw = [] then Inl (Message ''auth: ResourceServerConfig.JWKSURL is empty'')
      else case parse raw of
        None \<Rightarrow> Inl (Message ''auth: ResourceServerConfig.JWKSURL is not an absolute http or https URL'')
      | Some (scheme, host) \<Rightarrow>
          if host = [] \<or> (scheme \<noteq> ''http'' \<and> scheme \<noteq> ''https'')
          then Inl (Message ''auth: ResourceServerConfig.JWKSURL is not an absolute http or https URL'')
          else Ok ())"

definition NewJWKSClient :: "(string \<Rightarrow> (string \<times> string) option) \<Rightarrow> ResourceServerConfig \<Rightarrow> JWKSClient outcome" where
  "NewJWKSClient parse cfg = (case validateJWKSURL parse (rc_JWKSURL cfg) of
     Inl _ \<Rightarrow> Panics
   | Inr _ \<Rightarrow> Returns \<lparr>jc_url = rc_JWKSURL cfg,
       jc_cacheTTL = (if rc_CacheTTL cfg \<le> 0 then DefaultJWKSCacheTTL else rc_CacheTTL cfg),
       jc_fetchTimeout = (if rc_FetchTimeout cfg \<le> 0 then DefaultJWKSFetchTimeout else rc_FetchTimeout cfg),
       jc_minRefresh = (if rc_MinRefreshInterval cfg = 0 then DefaultJWKSMinRefreshInterval
                        else rc_MinRefreshInterval cfg),
       jc_doc = None, jc_expiry = zero_time, jc_fetchedAt = zero_time, jc_inflight = None,
       jc_started = 0, jc_done = fmempty\<rparr>)"

section \<open>One fetch\<close>

text \<open>The request could not be made or sent; a body that could not be read to its end; an answer.\<close>

datatype jwks_reply = NoAnswer | BrokenBody int | JwksReply int string

definition fetch :: "jwks_reply \<Rightarrow> JWKS result" where
  "fetch r = (case r of
     NoAnswer \<Rightarrow> Inl (Message ''auth: jwks fetch'')
   | BrokenBody status \<Rightarrow> (if status \<noteq> 200 then Inl (Message ''auth: jwks fetch failed with status'')
       else Inl (Message ''auth: jwks read''))
   | JwksReply status body \<Rightarrow>
       if status \<noteq> 200 then Inl (Message ''auth: jwks fetch failed with status'')
       else (case decode_jwks (take maxJWKSBytes body) of
         None \<Rightarrow> Inl (Message ''auth: invalid JWKS document: failed to parse JSON'')
       | Some None \<Rightarrow> Inl (Message ''auth: invalid JWKS document: missing keys array'')
       | Some (Some keys) \<Rightarrow> Ok keys))"

text \<open>The end of \<open>runFetch\<close>: fetch number \<open>i\<close> has its result, under the lock at \<open>now\<close>.\<close>

definition finish_fetch :: "nat \<Rightarrow> JWKS result \<Rightarrow> time \<Rightarrow> JWKSClient \<Rightarrow> JWKSClient" where
  "finish_fetch i r now c =
     (let c = (case r of
            Inl _ \<Rightarrow> c
          | Inr d \<Rightarrow> c\<lparr>jc_doc := Some d, jc_fetchedAt := now, jc_expiry := now + jc_cacheTTL c\<rparr>);
          c = c\<lparr>jc_done := fmupd i r (jc_done c)\<rparr>
      in if jc_inflight c = Some i then c\<lparr>jc_inflight := None\<rparr> else c)"

section \<open>Invalidation\<close>

definition invalidateLocked :: "JWKSClient \<Rightarrow> JWKSClient" where
  "invalidateLocked c = c\<lparr>jc_doc := None, jc_expiry := zero_time, jc_inflight := None\<rparr>"

definition Invalidate :: "JWKSClient \<Rightarrow> JWKSClient" where
  "Invalidate c = invalidateLocked c"

definition invalidateForRotation :: "time \<Rightarrow> JWKSClient \<Rightarrow> bool \<times> JWKSClient" where
  "invalidateForRotation now c =
     (if jc_doc c \<noteq> None \<and> jc_minRefresh c > 0 \<and> now - jc_fetchedAt c < jc_minRefresh c then (False, c)
      else (True, invalidateLocked c))"

section \<open>Reading the document\<close>

text \<open>The first locked section of \<open>Document\<close>: a fresh document is served; a fetch in flight is
  joined, the document of that moment kept for its failure; otherwise a fetch is begun.\<close>

datatype document_start = Serve JWKS | Join nat "JWKS option" | Started nat "JWKS option"

definition start_document :: "time \<Rightarrow> JWKSClient \<Rightarrow> document_start \<times> JWKSClient" where
  "start_document now c = (case jc_doc c of
     Some d \<Rightarrow> if now < jc_expiry c then (Serve d, c)
       else (case jc_inflight c of
           Some i \<Rightarrow> (Join i (Some d), c)
         | None \<Rightarrow> (Started (jc_started c) (Some d),
             c\<lparr>jc_inflight := Some (jc_started c), jc_started := Suc (jc_started c)\<rparr>))
   | None \<Rightarrow> (case jc_inflight c of
       Some i \<Rightarrow> (Join i None, c)
     | None \<Rightarrow> (Started (jc_started c) None,
         c\<lparr>jc_inflight := Some (jc_started c), jc_started := Suc (jc_started c)\<rparr>)))"

text \<open>
  \<open>await i c\<close> is a wait on fetch \<open>i\<close>: whether it ended before the request's context did, and the
  client at that moment, other goroutines having taken their steps meanwhile. The second component
  of \<open>await\<close>'s result is nothing when the context ended first.
\<close>

type_synonym waiting = "nat \<Rightarrow> JWKSClient \<Rightarrow> JWKS result option \<times> JWKSClient"

definition Document :: "waiting \<Rightarrow> time \<Rightarrow> JWKSClient \<Rightarrow> JWKS result \<times> JWKSClient" where
  "Document await now c = (case start_document now c of
     (Serve d, c) \<Rightarrow> (Ok d, c)
   | (Join i old, c) \<Rightarrow> (case await i c of
       (None, c) \<Rightarrow> (Err ErrContextCanceled, c)
     | (Some (Inl e), c) \<Rightarrow> (case old of Some d \<Rightarrow> (Ok d, c) | None \<Rightarrow> (Inl e, c))
     | (Some (Inr d), c) \<Rightarrow> (Ok d, c))
   | (Started i old, c) \<Rightarrow> (case old of
       Some d \<Rightarrow> (Ok d, c)
     | None \<Rightarrow> (case await i c of
         (None, c) \<Rightarrow> (Err ErrContextCanceled, c)
       | (Some r, c) \<Rightarrow> (r, c))))"

text \<open>\<open>errJWKSKeyNotFound\<close> is told apart from the other errors by its value.\<close>

definition errJWKSKeyNotFound :: error where
  "errJWKSKeyNotFound = Wrapped ''unknown signing key'' (Sentinel ErrInvalidToken)"

definition key_in :: "JWKS \<Rightarrow> string \<Rightarrow> rsa_public result" where
  "key_in doc kid = (case find (\<lambda>key. jk_Kid key = kid) doc of
     None \<Rightarrow> Inl errJWKSKeyNotFound | Some key \<Rightarrow> RSAPublicKey key)"

definition GetKey :: "waiting \<Rightarrow> time \<Rightarrow> string \<Rightarrow> JWKSClient \<Rightarrow> rsa_public result \<times> JWKSClient" where
  "GetKey await now kid c = (case Document await now c of
     (Inl e, c) \<Rightarrow> (Inl e, c) | (Inr doc, c) \<Rightarrow> (key_in doc kid, c))"

section \<open>Everything that can happen to a client\<close>

inductive client_step :: "JWKSClient \<Rightarrow> JWKSClient \<Rightarrow> bool" where
  read: "client_step c (snd (start_document now c))"
| finish: "i < jc_started c \<Longrightarrow> fmlookup (jc_done c) i = None \<Longrightarrow>
    client_step c (finish_fetch i (fetch reply) now c)"
| drop: "client_step c (Invalidate c)"
| rotate: "client_step c (snd (invalidateForRotation now c))"

inductive_cases client_stepE: "client_step c c'"

abbreviation client_steps :: "JWKSClient \<Rightarrow> JWKSClient \<Rightarrow> bool" where
  "client_steps \<equiv> client_step\<^sup>*\<^sup>*"

text \<open>
  A document in the cache is one a fetch brought, with the expiry of its arrival; a fetch in flight
  was begun and has not ended; only begun fetches have ended.
\<close>

definition client_ok :: "JWKSClient \<Rightarrow> bool" where
  "client_ok c \<longleftrightarrow>
     (\<forall>d. jc_doc c = Some d \<longrightarrow> (\<exists>i. fmlookup (jc_done c) i = Some (Inr d)) \<and>
        jc_expiry c = jc_fetchedAt c + jc_cacheTTL c) \<and>
     (\<forall>i. jc_inflight c = Some i \<longrightarrow> i < jc_started c \<and> fmlookup (jc_done c) i = None) \<and>
     (\<forall>i. fmlookup (jc_done c) i \<noteq> None \<longrightarrow> i < jc_started c)"

lemma new_client_ok: "NewJWKSClient parse cfg = Returns c \<Longrightarrow> client_ok c"
  by (auto simp: NewJWKSClient_def client_ok_def split: sum.splits)

lemma start_document_ok: "client_ok c \<Longrightarrow> client_ok (snd (start_document now c))"
  by (auto simp: client_ok_def start_document_def less_Suc_eq split: option.split)

lemma finish_fetch_ok:
  "client_ok c \<Longrightarrow> i < jc_started c \<Longrightarrow> fmlookup (jc_done c) i = None \<Longrightarrow> client_ok (finish_fetch i r now c)"
  by (auto simp: client_ok_def finish_fetch_def Let_def split: sum.split) (metis option.distinct(1))

lemma invalidate_ok: "client_ok c \<Longrightarrow> client_ok (invalidateLocked c)"
  by (simp add: client_ok_def invalidateLocked_def)

lemma client_step_ok: "client_step c c' \<Longrightarrow> client_ok c \<Longrightarrow> client_ok c'"
  by (induction rule: client_step.induct)
     (auto simp: start_document_ok finish_fetch_ok invalidate_ok Invalidate_def invalidateForRotation_def)

lemma client_steps_ok: "client_steps c c' \<Longrightarrow> client_ok c \<Longrightarrow> client_ok c'"
  by (induction rule: rtranclp_induct) (auto intro: client_step_ok)

text \<open>What was configured never changes, and a finished fetch keeps its result.\<close>

lemma client_step_mono:
  assumes "client_step c c'"
  shows "jc_cacheTTL c' = jc_cacheTTL c" "jc_minRefresh c' = jc_minRefresh c" "jc_started c \<le> jc_started c'"
    "fmlookup (jc_done c) i = Some r \<Longrightarrow> fmlookup (jc_done c') i = Some r"
  using assms
  by (induction rule: client_step.induct)
     (auto simp: start_document_def finish_fetch_def Invalidate_def invalidateForRotation_def
        invalidateLocked_def Let_def split: option.split sum.split)

lemma client_steps_done:
  "client_steps c c' \<Longrightarrow> fmlookup (jc_done c) i = Some r \<Longrightarrow> fmlookup (jc_done c') i = Some r"
  by (induction rule: rtranclp_induct) (auto dest: client_step_mono(4))

text \<open>The documents the issuer has served: what the finished fetches brought.\<close>

definition served :: "JWKSClient \<Rightarrow> JWKS set" where
  "served c = {d. \<exists>i. fmlookup (jc_done c) i = Some (Inr d)}"

lemma served_mono: "client_steps c c' \<Longrightarrow> served c \<subseteq> served c'"
  by (auto simp: served_def dest: client_steps_done)

lemma cached_was_served: "client_ok c \<Longrightarrow> jc_doc c = Some d \<Longrightarrow> d \<in> served c"
  by (auto simp: client_ok_def served_def)

section \<open>Waiting\<close>

text \<open>While a goroutine waits, only steps of the client happen, and a fetch that ended is read with
  the result it was closed with.\<close>

definition waits :: "waiting \<Rightarrow> bool" where
  "waits await \<longleftrightarrow> (\<forall>i c. client_steps c (snd (await i c)) \<and>
     (\<forall>r. fst (await i c) = Some r \<longrightarrow> fmlookup (jc_done (snd (await i c))) i = Some r))"

lemma waitsD:
  "waits await \<Longrightarrow> await i c = (a, c') \<Longrightarrow> client_steps c c'"
  "waits await \<Longrightarrow> await i c = (Some r, c') \<Longrightarrow> fmlookup (jc_done c') i = Some r"
  unfolding waits_def by (metis fst_conv snd_conv)+

lemma start_document_serves:
  "start_document now c = (Serve d, c') \<Longrightarrow> jc_doc c = Some d \<and> now < jc_expiry c \<and> c' = c"
  "start_document now c = (Join i old, c') \<Longrightarrow> jc_doc c = old \<and> jc_inflight c = Some i \<and> c' = c"
  "start_document now c = (Started i old, c') \<Longrightarrow> jc_doc c = old \<and> jc_inflight c = None \<and>
     i = jc_started c \<and> c' = c\<lparr>jc_inflight := Some i, jc_started := Suc i\<rparr>"
  by (auto simp: start_document_def split: option.splits if_splits)

lemma start_document_step: "start_document now c = (s, c') \<Longrightarrow> client_step c c'"
  using client_step.read[of c now] by simp

text \<open>Whatever happens while it waits, \<open>Document\<close> only answers a document the issuer has served.\<close>

lemma Document_served:
  assumes "waits await" "client_ok c" "Document await now c = (r, c')"
  shows "client_steps c c'" "client_ok c'" "r = Ok d \<Longrightarrow> d \<in> served c'"
proof -
  obtain s c1 where s: "start_document now c = (s, c1)" by fastforce
  have one: "client_steps c c1" using start_document_step[OF s] by simp
  have ok1: "client_ok c1" by (rule client_steps_ok[OF one assms(2)])
  have cached: "d \<in> served c2" if "jc_doc c = Some d" "client_steps c c2" for d c2
    using served_mono[OF that(2)] cached_was_served[OF assms(2) that(1)] by blast
  have waited: "client_steps c c2 \<and> (a = Some (Ok d) \<longrightarrow> d \<in> served c2)" if "await i c1 = (a, c2)" for i a c2 d
    using waitsD[OF assms(1), of i c1] that rtranclp_trans[OF one] by (auto simp: served_def)
  have "client_steps c c' \<and> (r = Ok d \<longrightarrow> d \<in> served c')"
  proof (cases s)
    case (Serve d0)
    then show ?thesis
      using s assms(3) start_document_serves(1)[of now c d0 c1] cached[OF _ one] one
      by (auto simp: Document_def)
  next
    case (Join i old)
    have st: "jc_doc c = old" using s Join start_document_serves(2) by blast
    obtain a c2 where a: "await i c1 = (a, c2)" by fastforce
    show ?thesis
      using s Join a assms(3) waited[OF a] st cached
      by (auto simp: Document_def split: option.splits sum.splits)
  next
    case (Started i old)
    have st: "jc_doc c = old" using s Started start_document_serves(3) by blast
    obtain a c2 where a: "await i c1 = (a, c2)" by fastforce
    show ?thesis
      using s Started a assms(3) waited[OF a] st cached one
      by (auto simp: Document_def split: option.splits sum.splits)
  qed
  then show "client_steps c c'" "r = Ok d \<Longrightarrow> d \<in> served c'" by auto
  then show "client_ok c'" using client_steps_ok assms(2) by blast
qed

section \<open>How many fetches\<close>

text \<open>Reads that arrive while a fetch is in flight begin none of their own: a burst of reads begins at
  most one.\<close>

abbreviation reads_at :: "time list \<Rightarrow> JWKSClient \<Rightarrow> JWKSClient" where
  "reads_at ts c \<equiv> fold (\<lambda>t c. snd (start_document t c)) ts c"

lemma read_joins: "jc_inflight c \<noteq> None \<Longrightarrow> snd (start_document t c) = c"
  by (auto simp: start_document_def split: option.split)

lemma reads_join: "jc_inflight c \<noteq> None \<Longrightarrow> reads_at ts c = c"
  by (induction ts) (simp_all add: read_joins)

lemma reads_coalesce: "jc_started (reads_at ts c) \<le> Suc (jc_started c)"
proof (induction ts)
  case (Cons t ts)
  consider "snd (start_document t c) = c"
    | "jc_inflight (snd (start_document t c)) \<noteq> None" "jc_started (snd (start_document t c)) = Suc (jc_started c)"
    by (cases "jc_doc c"; cases "jc_inflight c"; cases "t < jc_expiry c") (simp_all add: start_document_def)
  then show ?case
  proof cases
    case 1
    then show ?thesis using Cons by simp
  next
    case 2
    then show ?thesis by (simp add: reads_join)
  qed
qed simp

text \<open>A document inside its lifetime is served from memory; one past it is served at once, whatever
  becomes of the refresh; a failed refresh leaves it in place.\<close>

lemma Document_fresh:
  "jc_doc c = Some d \<Longrightarrow> now < jc_expiry c \<Longrightarrow> Document await now c = (Ok d, c)"
  by (simp add: Document_def start_document_def)

lemma Document_stale:
  assumes "jc_doc c = Some d" "\<not> now < jc_expiry c" "jc_inflight c = None"
  shows "Document await now c =
    (Ok d, c\<lparr>jc_inflight := Some (jc_started c), jc_started := Suc (jc_started c)\<rparr>)"
  using assms by (simp add: Document_def start_document_def)

lemma failed_refresh_keeps: "jc_doc (finish_fetch i (Inl e) now c) = jc_doc c"
  by (simp add: finish_fetch_def Let_def)

text \<open>A client waiting on nothing else: the fetch it began ends next, with \<open>reply\<close>, at \<open>now\<close>.\<close>

definition ends_with :: "jwks_reply \<Rightarrow> time \<Rightarrow> waiting" where
  "ends_with reply now i c = (Some (fetch reply), finish_fetch i (fetch reply) now c)"

lemma Document_cold:
  assumes "jc_doc c = None" "jc_inflight c = None"
  shows "Document (ends_with reply t) now c =
    (fetch reply, finish_fetch (jc_started c) (fetch reply) t
       (c\<lparr>jc_inflight := Some (jc_started c), jc_started := Suc (jc_started c)\<rparr>))"
  using assms by (simp add: Document_def start_document_def ends_with_def)

lemma fetch_published: "list_all jwk_utf8 keys \<Longrightarrow> length (print_jwks keys) \<le> maxJWKSBytes \<Longrightarrow>
   fetch (JwksReply 200 (print_jwks keys)) = Ok keys"
  by (simp add: fetch_def jwks_round_trip)

end
