(* ===== verification/Resource_Server.thy ===== *)
theory Resource_Server
  imports JWKS_Client Http_Request Service_Session
begin

text \<open>
  \<open>resource_server.go\<close>, the verifier: \<open>VerifyRS256\<close>, the principal it gives, the middleware and the
  routes a resource server leaves unmounted. \<open>rsa.VerifyPKCS1v15\<close> over a SHA-256 digest is a
  parameter (\<open>rv_verify\<close>), and so is \<open>int64(f)\<close> of the float a JSON number literal stands for
  (\<open>rv_num\<close>, nothing for a literal that no float holds, which \<open>json.Unmarshal\<close> refuses). \<open>rv_now\<close>
  answers the reads of the clock of one verification, in their order.
\<close>

record verifier =
  rv_verify :: "rsa_public \<Rightarrow> string \<Rightarrow> string \<Rightarrow> bool"
  rv_num :: "string \<Rightarrow> int option"
  rv_sha256 :: "string \<Rightarrow> string"
  rv_await :: waiting
  rv_now :: "nat \<Rightarrow> time"

section \<open>Errors\<close>

definition errRSInvalidTokenFormat :: error where
  "errRSInvalidTokenFormat = Wrapped ''Invalid token format'' (Sentinel ErrInvalidToken)"
definition errRSMissingKid :: error where
  "errRSMissingKid = Wrapped ''Token missing kid header'' (Sentinel ErrInvalidToken)"
definition errRSUnknownKey :: error where
  "errRSUnknownKey = Wrapped ''Unknown signing key'' (Sentinel ErrInvalidToken)"
definition errRSInvalidOrExpired :: error where
  "errRSInvalidOrExpired = Wrapped ''Invalid or expired token'' (Sentinel ErrInvalidToken)"
definition errRSIssuerMismatch :: error where
  "errRSIssuerMismatch = Wrapped ''Token issuer mismatch'' (Sentinel ErrInvalidToken)"

definition HTTPErrInvalidTokenRS :: HTTPError where
  "HTTPErrInvalidTokenRS = http_error 401 ''Invalid or expired access token'' ''INVALID_TOKEN''"

definition HTTPErrNoAccessToken :: HTTPError where
  "HTTPErrNoAccessToken = http_error 403 ''No access token provided'' []"

section \<open>Reading a token\<close>

text \<open>The \<open>kid\<close> member of the header, matched exactly.\<close>

definition headerKid :: "string \<Rightarrow> string option" where
  "headerKid rawHeader = do {
     h \<leftarrow> json_parse rawHeader;
     members \<leftarrow> object_members h;
     raw \<leftarrow> last_member ''kid'' members;
     decode_string raw []
   }"

text \<open>\<open>json.Unmarshal\<close> into a \<open>map[string]any\<close>: every number must be one a float holds.\<close>

fun numbers_ok :: "(string \<Rightarrow> int option) \<Rightarrow> json \<Rightarrow> bool" where
  "numbers_ok num (JNum x) \<longleftrightarrow> num x \<noteq> None"
| "numbers_ok num (JArr vs) \<longleftrightarrow> list_all (numbers_ok num) vs"
| "numbers_ok num (JObj kvs) \<longleftrightarrow> list_all (\<lambda>(k, v). numbers_ok num v) kvs"
| "numbers_ok num v \<longleftrightarrow> True"

definition unmarshal_object :: "(string \<Rightarrow> int option) \<Rightarrow> string \<Rightarrow> json_object option" where
  "unmarshal_object num raw = do {
     v \<leftarrow> json_parse raw;
     members \<leftarrow> object_members v;
     if numbers_ok num v then Some (fold (\<lambda>(k, x). fmupd k x) members fmempty) else None
   }"

definition numericClaim :: "(string \<Rightarrow> int option) \<Rightarrow> json_object \<Rightarrow> string \<Rightarrow> int option" where
  "numericClaim num claims name = (case fmlookup claims name of Some (JNum x) \<Rightarrow> num x | _ \<Rightarrow> None)"

definition claim_string :: "json_object \<Rightarrow> string \<Rightarrow> string" where
  "claim_string claims name = (case fmlookup claims name of Some (JStr s) \<Rightarrow> s | _ \<Rightarrow> [])"

definition claim_bool :: "json_object \<Rightarrow> string \<Rightarrow> bool" where
  "claim_bool claims name = (case fmlookup claims name of Some (JBool b) \<Rightarrow> b | _ \<Rightarrow> False)"

section \<open>Verification\<close>

text \<open>The lookup of the key, with its one retry; the clock is read at 0, 1 and 2.\<close>

definition lookup_key :: "verifier \<Rightarrow> string \<Rightarrow> JWKSClient \<Rightarrow> rsa_public result \<times> JWKSClient" where
  "lookup_key rv kid c = (case GetKey (rv_await rv) (rv_now rv 0) kid c of
     (r, c) \<Rightarrow>
       if r \<noteq> Inl errJWKSKeyNotFound then (r, c)
       else (case invalidateForRotation (rv_now rv 1) c of
         (False, c) \<Rightarrow> (Inl errRSUnknownKey, c)
       | (True, c) \<Rightarrow> (case GetKey (rv_await rv) (rv_now rv 2) kid c of
           (r, c) \<Rightarrow> if r = Inl errJWKSKeyNotFound then (Inl errRSUnknownKey, c) else (r, c))))"

text \<open>What is checked once the key is there; \<open>now\<close> is \<open>time.Now()\<close>.\<close>

definition check_claims :: "verifier \<Rightarrow> string \<Rightarrow> time \<Rightarrow> json_object \<Rightarrow> json_object result" where
  "check_claims rv expectedIssuer now claims =
     (if (case numericClaim (rv_num rv) claims ''exp'' of Some e \<Rightarrow> \<not> now < unix_time e | None \<Rightarrow> False)
      then Inl errRSInvalidOrExpired
      else if (case numericClaim (rv_num rv) claims ''nbf'' of Some n \<Rightarrow> now < unix_time n | None \<Rightarrow> False)
      then Inl errRSInvalidOrExpired
      else if expectedIssuer \<noteq> [] \<and> claim_string claims ''iss'' \<noteq> expectedIssuer
      then Inl errRSIssuerMismatch
      else Ok claims)"

definition check_signed ::
    "verifier \<Rightarrow> string \<Rightarrow> rsa_public \<Rightarrow> string \<Rightarrow> string \<Rightarrow> string \<Rightarrow> json_object result" where
  "check_signed rv expectedIssuer key header payload sig = (case base64url_decode sig of
     None \<Rightarrow> Inl errRSInvalidOrExpired
   | Some rawSig \<Rightarrow>
       if \<not> rv_verify rv key (rv_sha256 rv (header @ ''.'' @ payload)) rawSig then Inl errRSInvalidOrExpired
       else (case base64url_decode payload of
         None \<Rightarrow> Inl errRSInvalidOrExpired
       | Some rawPayload \<Rightarrow> (case unmarshal_object (rv_num rv) rawPayload of
           None \<Rightarrow> Inl errRSInvalidOrExpired
         | Some claims \<Rightarrow> check_claims rv expectedIssuer (rv_now rv 3) claims)))"

text \<open>The key id a token names, once its shape and its algorithm are accepted.\<close>

definition token_kid :: "string \<Rightarrow> error + (string \<times> string \<times> string \<times> string)" where
  "token_kid token = (case splitToken token of
     Inl _ \<Rightarrow> Inl errRSInvalidTokenFormat
   | Inr (header, payload, sig) \<Rightarrow> (case base64url_decode header of
       None \<Rightarrow> Inl errRSInvalidTokenFormat
     | Some rawHeader \<Rightarrow> (case headerKid rawHeader of
         None \<Rightarrow> Inl errRSMissingKid
       | Some kid \<Rightarrow>
           if kid = [] then Inl errRSMissingKid
           else if headerAlg rawHeader \<noteq> Some rs256Alg then Inl errRSInvalidOrExpired
           else Ok (kid, header, payload, sig))))"

definition VerifyRS256 ::
    "verifier \<Rightarrow> string \<Rightarrow> string \<Rightarrow> JWKSClient \<Rightarrow> json_object result \<times> JWKSClient" where
  "VerifyRS256 rv token expectedIssuer c = (case token_kid token of
     Inl e \<Rightarrow> (Inl e, c)
   | Inr (kid, header, payload, sig) \<Rightarrow> (case lookup_key rv kid c of
       (Inl e, c) \<Rightarrow> (Inl e, c)
     | (Inr key, c) \<Rightarrow> (check_signed rv expectedIssuer key header payload sig, c)))"

section \<open>The principal\<close>

definition UserFromRS256Claims :: "json_object \<Rightarrow> User" where
  "UserFromRS256Claims claims = zero_user\<lparr>
     u_ID := claim_string claims ''sub'', u_Email := claim_string claims ''email'',
     u_TenantID := claim_string claims ''tid'', u_Role := claim_string claims ''role'',
     u_LoginProvider := claim_string claims ''loginProvider'',
     u_IsEmailVerified := claim_bool claims ''isEmailVerified'',
     u_IsTOTPEnabled := claim_bool claims ''isTotpEnabled'',
     u_CustomClaims := claims\<rparr>"

text \<open>\<open>Service.verifyLocalAccessToken\<close>: the token's own checks, and no store.\<close>

definition verifyLocalAccessToken :: "env \<Rightarrow> (string \<Rightarrow> int option) \<Rightarrow> string \<Rightarrow> json_object action" where
  "verifyLocalAccessToken v num token =
     thenDo (parseToken v token ''access'') (\<lambda>_.
     case splitToken token of
       Inl _ \<Rightarrow> failS ErrInvalidToken
     | Inr (_, payload, _) \<Rightarrow> (case base64url_decode payload of
         None \<Rightarrow> failS ErrInvalidToken
       | Some raw \<Rightarrow> (case unmarshal_object num raw of
           None \<Rightarrow> failS ErrInvalidToken | Some claims \<Rightarrow> ret claims)))"

definition bearerPrefix :: string where "bearerPrefix = ''Bearer ''"

text \<open>\<open>a\<close> is nothing for a nil \<open>*Auth\<close>. The state is the client and the world of the local service.\<close>

definition resourceServerPrincipal ::
    "verifier \<Rightarrow> env option \<Rightarrow> string \<Rightarrow> http_request \<Rightarrow> JWKSClient \<times> world \<Rightarrow>
     (HTTPError + User) \<times> JWKSClient \<times> world" where
  "resourceServerPrincipal rv a issuer rq cw = (case cw of (c, w) \<Rightarrow>
     (let header = header_get rq ''Authorization'';
          usingBearer = prefix bearerPrefix header;
          token = (if usingBearer then drop (length bearerPrefix) header
                   else CookieValue rq AccessTokenCookieName)
      in if token = [] then (Inl HTTPErrNoAccessToken, c, w)
         else if usingBearer then
           (case VerifyRS256 rv token issuer c of
              (Inl _, c) \<Rightarrow> (Inl HTTPErrInvalidTokenRS, c, w)
            | (Inr claims, c) \<Rightarrow> (Inr (UserFromRS256Claims claims), c, w))
         else (case a of
              None \<Rightarrow> (Inl HTTPErrInvalidTokenRS, c, w)
            | Some v \<Rightarrow> (case verifyLocalAccessToken v (rv_num rv) token w of
                (Inl _, w) \<Rightarrow> (Inl HTTPErrInvalidTokenRS, c, w)
              | (Inr claims, w) \<Rightarrow> (Inr (UserFromRS256Claims claims), c, w)))))"

text \<open>\<open>ResourceServerMiddleware\<close>: the host's handler sees the principal, or the refusal is written.\<close>

definition ResourceServerMiddleware ::
    "verifier \<Rightarrow> env option \<Rightarrow> string \<Rightarrow> (User \<Rightarrow> 'r) \<Rightarrow> (HTTPError \<Rightarrow> 'r) \<Rightarrow> http_request \<Rightarrow>
     JWKSClient \<times> world \<Rightarrow> 'r \<times> JWKSClient \<times> world" where
  "ResourceServerMiddleware rv a issuer next refuse rq cw =
     (case resourceServerPrincipal rv a issuer rq cw of
        (Inl e, cw) \<Rightarrow> (refuse e, cw) | (Inr user, cw) \<Rightarrow> (next user, cw))"

section \<open>Routes left unmounted\<close>

definition ResourceServerGatedRoutes :: "(string, string) fmap" where
  "ResourceServerGatedRoutes = fmap_of_list [
     (''/register'', ''POST''), (''/login'', ''POST''), (''/refresh'', ''POST''), (''/logout'', ''POST''),
     (''/forgot-password'', ''POST''), (''/reset-password'', ''POST''), (''/change-password'', ''POST''),
     (''/send-verification-email'', ''POST''), (''/verify-email'', ''GET''),
     (''/change-email/request'', ''POST''), (''/change-email/confirm'', ''POST''),
     (''/magic-link/send'', ''POST''), (''/magic-link/verify'', ''POST''), (''/sms/send'', ''POST''),
     (''/sms/verify'', ''POST''), (''/2fa/setup'', ''POST''), (''/2fa/verify-setup'', ''POST''),
     (''/2fa/verify'', ''POST''), (''/2fa/disable'', ''POST'')]"

end
