(* ===== verification/RS256_Laws.thy ===== *)
theory RS256_Laws
  imports IDP_Server Resource_Server
begin

text \<open>
  What the two halves of the identity provider mean together: a token the verifier accepts was
  signed under a key the issuer served, and a token the provider issues is accepted by a
  resource server that reads the provider's own JWKS endpoint. Then the key cache under a
  rotation, under junk key ids and under an outage.
\<close>

section \<open>Soundness\<close>

lemma key_in_Ok: "key_in doc kid = Ok key \<Longrightarrow> \<exists>j\<in>set doc. jk_Kid j = kid \<and> RSAPublicKey j = Ok key"
  by (auto simp: key_in_def find_Some_iff split: option.splits)

definition served_key :: "JWKSClient \<Rightarrow> string \<Rightarrow> rsa_public \<Rightarrow> bool" where
  "served_key c kid key \<longleftrightarrow> (\<exists>d\<in>served c. \<exists>j\<in>set d. jk_Kid j = kid \<and> RSAPublicKey j = Ok key)"

lemma served_key_mono: "client_steps c c' \<Longrightarrow> served_key c kid key \<Longrightarrow> served_key c' kid key"
  unfolding served_key_def using served_mono by blast

lemma GetKey_served:
  assumes "waits await" "client_ok c" "GetKey await now kid c = (r, c')"
  shows "client_steps c c' \<and> client_ok c' \<and> (\<forall>key. r = Ok key \<longrightarrow> served_key c' kid key)"
proof -
  obtain d c1 where d: "Document await now c = (d, c1)" by fastforce
  note doc = Document_served[OF assms(1,2) d]
  show ?thesis
  proof (cases d)
    case (Inl e)
    then show ?thesis using assms(3) d doc(1,2) by (auto simp: GetKey_def)
  next
    case (Inr keys)
    then have "r = key_in keys kid" "c' = c1" "keys \<in> served c1"
      using assms(3) d doc(3) by (auto simp: GetKey_def)
    then show ?thesis using doc(1,2) key_in_Ok[of keys kid] by (auto simp: served_key_def)
  qed
qed

lemma rotation_step: "client_step c (snd (invalidateForRotation now c))"
  by (rule client_step.rotate)

lemma lookup_key_served:
  assumes w: "waits (rv_await rv)" and ok: "client_ok c" and l: "lookup_key rv kid c = (r, c')"
  shows "client_steps c c' \<and> client_ok c' \<and> (\<forall>key. r = Ok key \<longrightarrow> served_key c' kid key)"
proof -
  obtain r1 c1 where g1: "GetKey (rv_await rv) (rv_now rv 0) kid c = (r1, c1)" by fastforce
  note s1 = GetKey_served[OF w ok g1]
  obtain b c2 where i: "invalidateForRotation (rv_now rv 1) c1 = (b, c2)" by fastforce
  then have step: "client_step c1 c2" using rotation_step[of c1 "rv_now rv 1"] by simp
  then have ok2: "client_ok c2" "client_steps c c2" using s1 client_step_ok by auto
  obtain r3 c3 where g3: "GetKey (rv_await rv) (rv_now rv 2) kid c2 = (r3, c3)" by fastforce
  note s3 = GetKey_served[OF w ok2(1) g3]
  then have st3: "client_steps c c3" using ok2(2) by (meson rtranclp_trans)
  show ?thesis
    using l s1 s3 ok2 st3 g1 i g3 by (auto simp: lookup_key_def split: if_splits bool.splits)
qed

lemma token_kid_Ok:
  assumes "token_kid token = Ok (kid, h, p, s)"
  shows "token = h @ ''.'' @ p @ ''.'' @ s" "Option.bind (base64url_decode h) headerKid = Some kid"
    "Option.bind (base64url_decode h) headerAlg = Some rs256Alg" "kid \<noteq> []"
  using assms splitToken_Ok[of token]
  by (auto simp: token_kid_def split: sum.splits option.splits if_splits)

lemma check_claims_Ok:
  "check_claims rv iss now claims = Ok claims' \<longleftrightarrow>
     claims' = claims \<and>
     (\<forall>e. numericClaim (rv_num rv) claims ''exp'' = Some e \<longrightarrow> now < unix_time e) \<and>
     (\<forall>n. numericClaim (rv_num rv) claims ''nbf'' = Some n \<longrightarrow> unix_time n \<le> now) \<and>
     (iss = [] \<or> claim_string claims ''iss'' = iss)"
  by (auto simp: check_claims_def split: option.splits if_splits)

lemma check_signed_Ok:
  assumes "check_signed rv iss key h p s = Ok claims"
  shows "\<exists>raw. base64url_decode s = Some raw \<and> rv_verify rv key (rv_sha256 rv (h @ ''.'' @ p)) raw"
    "Option.bind (base64url_decode p) (unmarshal_object (rv_num rv)) = Some claims"
    "check_claims rv iss (rv_now rv 3) claims = Ok claims"
  using assms by (auto simp: check_signed_def check_claims_Ok split: option.splits if_splits)

text \<open>An accepted token is RS256, names a key, and carries a signature that verifies under the key
  the issuer served by that name; it has not expired, and it is the expected issuer's.\<close>

lemma VerifyRS256_sound:
  assumes w: "waits (rv_await rv)" and ok: "client_ok c"
    and v: "VerifyRS256 rv token iss c = (Ok claims, c')"
  shows "\<exists>h p s raw kid key. token = h @ ''.'' @ p @ ''.'' @ s \<and>
    Option.bind (base64url_decode h) headerAlg = Some rs256Alg \<and>
    Option.bind (base64url_decode h) headerKid = Some kid \<and> served_key c' kid key \<and>
    base64url_decode s = Some raw \<and> rv_verify rv key (rv_sha256 rv (h @ ''.'' @ p)) raw \<and>
    Option.bind (base64url_decode p) (unmarshal_object (rv_num rv)) = Some claims"
    and "\<And>e. numericClaim (rv_num rv) claims ''exp'' = Some e \<Longrightarrow> rv_now rv 3 < unix_time e"
    and "iss \<noteq> [] \<Longrightarrow> claim_string claims ''iss'' = iss"
    and "client_ok c'"
proof -
  obtain kid h p s where k: "token_kid token = Ok (kid, h, p, s)"
    using v by (auto simp: VerifyRS256_def split: sum.splits)
  obtain key where l: "lookup_key rv kid c = (Ok key, c')"
    and s: "check_signed rv iss key h p s = Ok claims"
    using v k by (auto simp: VerifyRS256_def split: prod.splits sum.splits)
  note key = lookup_key_served[OF w ok l]
  note tok = token_kid_Ok[OF k] and sg = check_signed_Ok[OF s]
  show "\<exists>h p s raw kid key. token = h @ ''.'' @ p @ ''.'' @ s \<and>
    Option.bind (base64url_decode h) headerAlg = Some rs256Alg \<and>
    Option.bind (base64url_decode h) headerKid = Some kid \<and> served_key c' kid key \<and>
    base64url_decode s = Some raw \<and> rv_verify rv key (rv_sha256 rv (h @ ''.'' @ p)) raw \<and>
    Option.bind (base64url_decode p) (unmarshal_object (rv_num rv)) = Some claims"
    using tok(1-3) sg(1,2) key by blast
  show "rv_now rv 3 < unix_time e" if "numericClaim (rv_num rv) claims ''exp'' = Some e" for e
    using sg(3) that by (simp add: check_claims_Ok)
  show "claim_string claims ''iss'' = iss" if "iss \<noteq> []"
    using sg(3) that by (simp add: check_claims_Ok)
  show "client_ok c'" using key by simp
qed

text \<open>A refusal of the token wraps \<open>ErrInvalidToken\<close>; a failure to read the keys does not.\<close>

lemma refused_before_lookup: "token_kid token = Inl e \<Longrightarrow> errors_is e ErrInvalidToken"
  by (auto simp: token_kid_def errRSInvalidTokenFormat_def errRSMissingKid_def errRSInvalidOrExpired_def
      split: sum.splits option.splits if_splits)

lemma refused_after_lookup: "check_signed rv iss key h p s = Inl e \<Longrightarrow> errors_is e ErrInvalidToken"
  by (auto simp: check_signed_def check_claims_def errRSInvalidOrExpired_def errRSIssuerMismatch_def
      split: option.splits if_splits)

lemma fetch_error_is_no_refusal: "fetch reply = Inl e \<Longrightarrow> \<not> errors_is e s"
  by (auto simp: fetch_def split: jwks_reply.splits if_splits option.splits)

section \<open>A token that was built\<close>

lemma rs256_header_parses:
  assumes "valid_utf8 kid"
  shows "Option.bind (base64url_decode (base64url_encode (rs256_header kid))) headerAlg = Some rs256Alg"
    "Option.bind (base64url_decode (base64url_encode (rs256_header kid))) headerKid = Some kid"
proof -
  let ?h = "JObj [(''alg'', JStr ''RS256''), (''kid'', JStr kid), (''typ'', JStr ''JWT'')]"
  have "list_all valid_utf8 [''alg'', ''kid'', ''typ'', ''RS256'', ''JWT'']" "sorted [''alg'', ''kid'', ''typ'']"
    by code_simp+
  then have "clean ?h" using assms by simp
  moreover have "depth ?h \<le> max_nesting" by (simp add: max_nesting_def)
  ultimately have "json_parse (rs256_header kid) = Some ?h"
    unfolding rs256_header_def by (rule json_round_trip)
  then show "Option.bind (base64url_decode (base64url_encode (rs256_header kid))) headerAlg = Some rs256Alg"
    "Option.bind (base64url_decode (base64url_encode (rs256_header kid))) headerKid = Some kid"
    by (simp_all add: base64url_round_trip headerAlg_def headerKid_def object_members_def last_member_def
        decode_string_def rs256Alg_def)
qed

lemma token_kid_built:
  assumes "valid_utf8 kid" "kid \<noteq> []"
  shows "token_kid (signing_input kid m @ ''.'' @ base64url_encode sig) =
    Ok (kid, base64url_encode (rs256_header kid), base64url_encode (json_print (json_of_object m)),
      base64url_encode sig)"
proof -
  have "splitToken (signing_input kid m @ ''.'' @ base64url_encode sig) =
    Ok (base64url_encode (rs256_header kid), base64url_encode (json_print (json_of_object m)), base64url_encode sig)"
    using splitToken_parts[OF base64url_no_dot base64url_no_dot base64url_no_dot]
    by (simp add: signing_input_def)
  then show ?thesis
    using rs256_header_parses[OF assms(1)] assms(2)
    by (simp add: token_kid_def base64url_round_trip)
qed

text \<open>The signer's own key accepts what it signs; a float holds the integers up to \<open>2 ^ 53\<close>.\<close>

definition signs_for :: "verifier \<Rightarrow> signer \<Rightarrow> bool" where
  "signs_for rv sg \<longleftrightarrow> (\<forall>pub k d sig. sg_Public sg = Some pub \<longrightarrow> sg_Sign sg k d = Ok sig \<longrightarrow> rv_verify rv pub d sig)"

definition floats_exact :: "(string \<Rightarrow> int option) \<Rightarrow> bool" where
  "floats_exact num \<longleftrightarrow> (\<forall>z. \<bar>z\<bar> \<le> 2 ^ 53 \<longrightarrow> num (decimal z) = Some z)"

definition numbers_fit :: "(string \<Rightarrow> int option) \<Rightarrow> json_object \<Rightarrow> bool" where
  "numbers_fit num m \<longleftrightarrow> fmpred (\<lambda>_. numbers_ok num) m"

lemma fold_fmupd_lookup:
  "fmlookup (fold (\<lambda>(k, x). fmupd k x) kvs m) k =
     (case map_of (rev kvs) k of None \<Rightarrow> fmlookup m k | Some x \<Rightarrow> Some x)"
  by (induction kvs arbitrary: m) (auto simp: map_add_def split: option.splits)

lemma fold_sorted_list: "fold (\<lambda>(k, x). fmupd k x) (sorted_list_of_fmap m) fmempty = m"
proof (rule fmap_ext)
  fix k
  have d: "distinct (map fst (sorted_list_of_fmap m))"
    using distinct_range_keys[of m] by (simp add: range_keys_def)
  have "map_of (rev (sorted_list_of_fmap m)) k = Some x \<longleftrightarrow> map_of (sorted_list_of_fmap m) k = Some x" for x
    unfolding map_of_eq_Some_iff[OF d] by (subst map_of_eq_Some_iff) (simp_all add: d flip: rev_map)
  then have "map_of (rev (sorted_list_of_fmap m)) k = map_of (sorted_list_of_fmap m) k"
    by (metis not_None_eq)
  then show "fmlookup (fold (\<lambda>(k, x). fmupd k x) (sorted_list_of_fmap m) fmempty) k = fmlookup m k"
    by (simp add: fold_fmupd_lookup map_of_sorted_fmap split: option.splits)
qed

lemma unmarshal_printed:
  assumes "printable m" "numbers_fit num m"
  shows "unmarshal_object num (json_print (json_of_object m)) = Some m"
  using assms(2)
  by (auto simp: unmarshal_object_def printable_round_trip[OF assms(1)] object_members_def fold_sorted_list
      numbers_fit_def list_all_iff fmpred_iff)

lemma verify_built:
  assumes b: "BuildRS256JWT c (Some sg) kid m k = (Ok token, k')"
    and m: "printable m" "numbers_fit (rv_num rv) m"
    and kid: "valid_utf8 kid" "kid \<noteq> []"
    and rv: "rv_sha256 rv = c_sha256 c" "signs_for rv sg"
    and key: "sg_Public sg = Some pub" "lookup_key rv kid cl = (Ok pub, cl')"
  shows "VerifyRS256 rv token iss cl = (check_claims rv iss (rv_now rv 3) m, cl')"
proof -
  obtain sig where sig: "sg_Sign sg k (c_sha256 c (signing_input kid m)) = Ok sig"
    and token: "token = signing_input kid m @ ''.'' @ base64url_encode sig"
    using b by (auto simp: BuildRS256JWT_Ok)
  have "rv_verify rv pub (c_sha256 c (signing_input kid m)) sig"
    using rv(2) key(1) sig by (simp add: signs_for_def)
  then have "check_signed rv iss pub (base64url_encode (rs256_header kid))
      (base64url_encode (json_print (json_of_object m))) (base64url_encode sig)
    = check_claims rv iss (rv_now rv 3) m"
    by (simp add: check_signed_def base64url_round_trip rv(1) unmarshal_printed[OF m] signing_input_def)
  then show ?thesis
    unfolding VerifyRS256_def token token_kid_built[OF kid] by (simp add: key(2))
qed

section \<open>The pair a provider issues\<close>

text \<open>A provider \<open>NewIDP\<close> returned publishes its signer's key under the id it signs with.\<close>

definition idp_ok :: "IDP \<Rightarrow> bool" where
  "idp_ok idp \<longleftrightarrow> usable_public (sg_Public (ip_signer idp)) \<and> ip_keyID idp \<noteq> [] \<and>
     NewRSAJWK (sg_Public (ip_signer idp)) (ip_keyID idp) = Ok (ip_signerJWK idp)"

lemma NewIDP_Ok:
  assumes "NewIDP gen clk cfg clients k = (Ok idp, k')"
  shows "idp_ok idp" "ip_cfg idp = cfg" "ip_now idp = clk"
    "ip_clients idp = fold (\<lambda>c. fmupd (cl_ClientID c) c) clients fmempty"
    "ip_keyID idp = (if ic_KeyID cfg = [] then DefaultIDPKeyID else ic_KeyID cfg)"
    "\<And>sg. ic_Signer cfg = Some sg \<Longrightarrow> ip_signer idp = sg"
  using assms
  by (auto simp: NewIDP_def idp_ok_def Let_def DefaultIDPKeyID_def
      split: sum.splits option.splits if_splits prod.splits)

lemma published_key:
  assumes "idp_ok idp" "sg_Public (ip_signer idp) = Some pub" "sound_public pub"
  shows "key_in (IDP_JWKS idp) (ip_keyID idp) = Ok pub"
proof -
  have "NewRSAJWK (Some pub) (ip_keyID idp) = Ok (ip_signerJWK idp)" using assms(1,2) by (simp add: idp_ok_def)
  then show ?thesis using JWK_round_trip[OF assms(3)] by (simp add: key_in_def IDP_JWKS_def)
qed

lemma own_key_utf8:
  assumes "idp_ok idp" "valid_utf8 (ip_keyID idp)"
  shows "jwk_utf8 (ip_signerJWK idp)"
proof -
  have "list_all (\<lambda>c. byte c < 128) b64_alphabet" by code_simp
  then have b64: "valid_utf8 (base64url_encode s)" for s
    using base64url_encode_chars by (intro ascii_valid) (auto simp: list_all_iff)
  have "list_all valid_utf8 [''RSA'', ''sig'', ''RS256'']" by code_simp
  then show ?thesis using assms b64 NewRSAJWK_Ok[of "sg_Public (ip_signer idp)" "ip_keyID idp"]
    by (auto simp: idp_ok_def jwk_utf8_def)
qed

text \<open>A resource server that has just been started, or whose cache was dropped: nothing cached,
  nothing in flight; its first read fetches what the provider's endpoint answers.\<close>

definition cold :: "JWKSClient \<Rightarrow> bool" where
  "cold c \<longleftrightarrow> jc_doc c = None \<and> jc_inflight c = None"

lemma lookup_key_cold:
  assumes "cold c" "rv_await rv = ends_with reply t" "fetch reply = Ok doc" "key_in doc kid = Ok pub"
  shows "lookup_key rv kid c = (Ok pub, finish_fetch (jc_started c) (Ok doc) t
    (c\<lparr>jc_inflight := Some (jc_started c), jc_started := Suc (jc_started c)\<rparr>))"
  using assms by (simp add: lookup_key_def GetKey_def Document_cold cold_def)

lemma lookup_key_cached:
  assumes "jc_doc c = Some doc" "rv_now rv 0 < jc_expiry c" "key_in doc kid = Ok pub"
  shows "lookup_key rv kid c = (Ok pub, c)"
  using assms by (simp add: lookup_key_def GetKey_def Document_fresh)

lemma IssueIdPTokenPair_Ok:
  assumes "IssueIdPTokenPair v idp user w = (Ok tokens, w')"
  shows "\<exists>custom k1 k1' k2 k2' w1. custom_claims v user w = (Ok custom, w1) \<and>
    BuildRS256JWT (e_crypto v) (Some (ip_signer idp)) (ip_keyID idp)
      (with_lifetime (pair_claims (ip_cfg idp) (base_claims user ++\<^sub>f custom)) (ip_now idp (w_tick w1))
        (accessTokenTTL idp)) k1 = (Ok (at_AccessToken tokens), k1') \<and>
    BuildRS256JWT (e_crypto v) (Some (ip_signer idp)) (ip_keyID idp)
      (with_lifetime (pair_claims (ip_cfg idp) (base_claims user ++\<^sub>f custom)) (ip_now idp (w_tick w1))
        (refreshTokenTTL idp)) k2 = (Ok (at_RefreshToken tokens), k2')"
  using assms
  by (simp add: IssueIdPTokenPair_def payloadClaims_def signWithLifetime_def action_Ok Let_def)
     (metis AuthTokens.simps(1,2))

text \<open>The provider and the verifier agree: the signer's key is sound and checks its signatures, both hash
  alike, and the verifier's floats are exact where IEEE doubles are.\<close>

definition federated :: "verifier \<Rightarrow> env \<Rightarrow> IDP \<Rightarrow> rsa_public \<Rightarrow> bool" where
  "federated rv v idp pub \<longleftrightarrow> idp_ok idp \<and> sg_Public (ip_signer idp) = Some pub \<and> sound_public pub \<and>
     valid_utf8 (ip_keyID idp) \<and> valid_utf8 (ic_Issuer (ip_cfg idp)) \<and>
     rv_sha256 rv = c_sha256 (e_crypto v) \<and> signs_for rv (ip_signer idp) \<and> floats_exact (rv_num rv)"

text \<open>An instant whose seconds a float holds exactly.\<close>

definition near :: "time \<Rightarrow> bool" where
  "near t \<longleftrightarrow> \<bar>unix_of t\<bar> \<le> 2 ^ 53"

lemma near_plausible: "near t \<Longrightarrow> plausible t"
  by (auto simp: near_def plausible_def is_int64_def)

lemma pair_claims_all:
  assumes "fmpred P claims" "ic_Issuer cfg \<noteq> [] \<Longrightarrow> P ''iss'' (JStr (ic_Issuer cfg))"
    "P ''iat'' (JNum (decimal (unix_of now)))" "P ''exp'' (JNum (decimal (unix_of (now + ttl))))"
  shows "fmpred P (with_lifetime (pair_claims cfg claims) now ttl)"
  using assms unfolding with_lifetime_def pair_claims_def Let_def
  by (auto intro!: fmpred_upd fmpred_drop)

lemma base_claims_all:
  assumes "P ''sub'' (JStr (u_ID user))" "P ''email'' (JStr (u_Email user))" "P ''role'' (JStr (u_Role user))"
    "P ''loginProvider'' (JStr (loginProviderOrLocal user))"
    "P ''isEmailVerified'' (JBool (u_IsEmailVerified user))" "P ''isTotpEnabled'' (JBool (u_IsTOTPEnabled user))"
  shows "fmpred P (base_claims user)"
  unfolding base_claims_def using assms by (auto intro!: fmpred_upd)

lemma printable_pair:
  assumes "user_printable user" "printable custom" "valid_utf8 (ic_Issuer cfg)"
  shows "printable (with_lifetime (pair_claims cfg (base_claims user ++\<^sub>f custom)) now ttl)"
proof -
  have names: "list_all valid_utf8 [''sub'', ''email'', ''role'', ''loginProvider'',
      ''isEmailVerified'', ''isTotpEnabled'', ''iss'', ''iat'', ''exp'']" by code_simp
  have l: "valid_utf8 (loginProviderOrLocal user)"
    using assms(1) ascii_valid[of "''local''"]
    by (simp add: loginProviderOrLocal_def user_printable_def LoginProviderLocal_def)
  have d: "depth (JStr s) < max_nesting" "depth (JBool b) < max_nesting" "depth (JNum n) < max_nesting" for s b n
    by (simp_all add: max_nesting_def)
  show ?thesis
    using assms names l unfolding printable_def user_printable_def
    by (intro pair_claims_all fmpred_add base_claims_all) (auto simp: d decimal_literal simp del: depth.simps)
qed

lemma numbers_fit_pair:
  assumes "floats_exact num" "near now" "near (now + ttl)" "numbers_fit num custom"
  shows "numbers_fit num (with_lifetime (pair_claims cfg (base_claims user ++\<^sub>f custom)) now ttl)"
  using assms unfolding numbers_fit_def
  by (intro pair_claims_all fmpred_add base_claims_all) (auto simp: floats_exact_def near_def)

lemma check_pair:
  assumes "floats_exact num" "near (now + ttl)" "rv_num rv = num"
    and "fmlookup custom ''nbf'' = None" "t < time_of_unix (unix_of (now + ttl))"
    and "iss \<in> {[], ic_Issuer cfg}"
  shows "check_claims rv iss t (with_lifetime (pair_claims cfg (base_claims user ++\<^sub>f custom)) now ttl)
    = Ok (with_lifetime (pair_claims cfg (base_claims user ++\<^sub>f custom)) now ttl)"
proof -
  let ?m = "with_lifetime (pair_claims cfg (base_claims user ++\<^sub>f custom)) now ttl"
  have "fmlookup ?m ''exp'' = Some (JNum (decimal (unix_of (now + ttl))))"
    by (simp add: with_lifetime_def)
  then have "numericClaim num ?m ''exp'' = Some (unix_of (now + ttl))"
    using assms(1,2) by (simp add: numericClaim_def floats_exact_def near_def)
  moreover have "fmlookup ?m ''nbf'' = None"
    using assms(4) by (auto simp: with_lifetime_def pair_claims_def Let_def base_claims_def
        fmlookup_of_list fmlookup_dom_iff)
  then have "numericClaim num ?m ''nbf'' = None" by (simp add: numericClaim_def)
  moreover have "iss \<noteq> [] \<Longrightarrow> claim_string ?m ''iss'' = iss"
    using assms(6) by (auto simp: claim_string_def with_lifetime_def pair_claims_def)
  ultimately show ?thesis
    using assms(3,5) unix_time_plausible[OF near_plausible[OF assms(2)]]
    by (auto simp: check_claims_Ok)
qed

text \<open>Whichever way the verifier comes by the key, either token of the pair is accepted until its
  lifetime is over, and its claims are the ones it was issued with.\<close>

lemma built_pair_verifies:
  assumes fed: "federated rv v idp pub"
    and b: "BuildRS256JWT (e_crypto v) (Some (ip_signer idp)) (ip_keyID idp)
      (with_lifetime (pair_claims (ip_cfg idp) (base_claims user ++\<^sub>f custom)) now ttl) k = (Ok token, k')"
    and user: "user_printable user" "printable custom" "numbers_fit (rv_num rv) custom"
      "fmlookup custom ''nbf'' = None"
    and times: "near now" "near (now + ttl)" "rv_now rv 3 < time_of_unix (unix_of (now + ttl))"
    and key: "lookup_key rv (ip_keyID idp) cl = (Ok pub, cl')"
    and iss: "iss \<in> {[], ic_Issuer (ip_cfg idp)}"
  shows "VerifyRS256 rv token iss cl =
    (Ok (with_lifetime (pair_claims (ip_cfg idp) (base_claims user ++\<^sub>f custom)) now ttl), cl')"
proof -
  let ?m = "with_lifetime (pair_claims (ip_cfg idp) (base_claims user ++\<^sub>f custom)) now ttl"
  have f: "sg_Public (ip_signer idp) = Some pub" "valid_utf8 (ip_keyID idp)" "ip_keyID idp \<noteq> []"
    "rv_sha256 rv = c_sha256 (e_crypto v)" "signs_for rv (ip_signer idp)" "floats_exact (rv_num rv)"
    "valid_utf8 (ic_Issuer (ip_cfg idp))"
    using fed by (auto simp: federated_def idp_ok_def)
  have "VerifyRS256 rv token iss cl = (check_claims rv iss (rv_now rv 3) ?m, cl')"
    using printable_pair[OF user(1,2) f(7)] numbers_fit_pair[OF f(6) times(1,2) user(3)]
    by (rule verify_built[OF b _ _ f(2,3) f(4,5) f(1) key])
  then show ?thesis
    using check_pair[OF f(6) times(2) refl user(4) times(3) iss] by simp
qed

text \<open>What the principal of a pair without a claims hook is: the user, without the tenant.\<close>

lemma pair_principal:
  "let u = UserFromRS256Claims (with_lifetime (pair_claims cfg (base_claims user)) now ttl) in
   u_ID u = u_ID user \<and> u_Email u = u_Email user \<and> u_Role u = u_Role user \<and>
   u_LoginProvider u = loginProviderOrLocal user \<and> u_IsEmailVerified u = u_IsEmailVerified user \<and>
   u_IsTOTPEnabled u = u_IsTOTPEnabled user \<and> u_TenantID u = []"
  by (simp add: UserFromRS256Claims_def claim_string_def claim_bool_def with_lifetime_def pair_claims_def
      base_claims_def fmlookup_of_list Let_def)

text \<open>The wire: what the endpoint prints, the resource server's first fetch reads.\<close>

definition endpoint_reply :: "IDP \<Rightarrow> string \<Rightarrow> jwks_reply" where
  "endpoint_reply idp origin = JwksReply (ja_Status (JWKSHandler idp origin)) (ja_Body (JWKSHandler idp origin))"

definition publishable :: "IDP \<Rightarrow> bool" where
  "publishable idp \<longleftrightarrow> list_all jwk_utf8 (ic_PublicKeys (ip_cfg idp)) \<and>
     length (print_jwks (IDP_JWKS idp)) \<le> maxJWKSBytes"

lemma fetch_endpoint:
  assumes "idp_ok idp" "valid_utf8 (ip_keyID idp)" "publishable idp"
  shows "fetch (endpoint_reply idp origin) = Ok (IDP_JWKS idp)"
proof -
  have "list_all jwk_utf8 (IDP_JWKS idp)"
    using own_key_utf8[OF assms(1,2)] assms(3) by (simp add: publishable_def IDP_JWKS_def)
  then show ?thesis
    using assms(3) fetch_published by (simp add: endpoint_reply_def JWKSHandler_def publishable_def)
qed

lemma pair_accepted_end_to_end:
  assumes fed: "federated rv v idp pub" and pb: "publishable idp" and nohook: "e_claims v = None"
    and issue: "IssueIdPTokenPair v idp user w = (Ok tokens, w')" and user: "user_printable user"
    and net: "cold cl" "rv_await rv = ends_with (endpoint_reply idp origin) t"
    and now: "now = ip_now idp (w_tick w)" "near now" "near (now + ttl)"
    and tok: "(token, ttl) \<in> {(at_AccessToken tokens, accessTokenTTL idp), (at_RefreshToken tokens, refreshTokenTTL idp)}"
    and time: "rv_now rv 3 < time_of_unix (unix_of (now + ttl))"
    and iss: "iss \<in> {[], ic_Issuer (ip_cfg idp)}"
  shows "fst (VerifyRS256 rv token iss cl) = Ok (with_lifetime (pair_claims (ip_cfg idp) (base_claims user)) now ttl)"
proof -
  have custom: "custom_claims v user w = (Ok fmempty, w)" using nohook by (simp add: custom_claims_def ret_def)
  have "\<exists>k k'. BuildRS256JWT (e_crypto v) (Some (ip_signer idp)) (ip_keyID idp)
      (with_lifetime (pair_claims (ip_cfg idp) (base_claims user ++\<^sub>f fmempty)) now ttl) k = (Ok token, k')"
    using IssueIdPTokenPair_Ok[OF issue] tok now(1) custom by auto
  then obtain k k' where b: "BuildRS256JWT (e_crypto v) (Some (ip_signer idp)) (ip_keyID idp)
      (with_lifetime (pair_claims (ip_cfg idp) (base_claims user ++\<^sub>f fmempty)) now ttl) k = (Ok token, k')"
    by blast
  have f: "idp_ok idp" "valid_utf8 (ip_keyID idp)" "sg_Public (ip_signer idp) = Some pub" "sound_public pub"
    using fed by (auto simp: federated_def)
  obtain cl' where l: "lookup_key rv (ip_keyID idp) cl = (Ok pub, cl')"
    using lookup_key_cold[OF net fetch_endpoint[OF f(1,2) pb] published_key[OF f(1,3,4)]] by blast
  have "VerifyRS256 rv token iss cl =
      (Ok (with_lifetime (pair_claims (ip_cfg idp) (base_claims user ++\<^sub>f fmempty)) now ttl), cl')"
    by (rule built_pair_verifies[OF fed b user _ _ _ now(2,3) time l iss])
       (simp_all add: printable_def numbers_fit_def)
  then show ?thesis by simp
qed

section \<open>Rotation, junk and outage\<close>

text \<open>A cached document that does not carry the key.\<close>

lemma lookup_unknown:
  assumes "jc_doc c = Some doc" "rv_now rv 0 < jc_expiry c" "key_in doc kid = Inl errJWKSKeyNotFound"
  shows "lookup_key rv kid c = (case invalidateForRotation (rv_now rv 1) c of
      (False, c) \<Rightarrow> (Inl errRSUnknownKey, c)
    | (True, c) \<Rightarrow> (case GetKey (rv_await rv) (rv_now rv 2) kid c of
        (r, c) \<Rightarrow> if r = Inl errJWKSKeyNotFound then (Inl errRSUnknownKey, c) else (r, c)))"
  using assms by (simp add: lookup_key_def GetKey_def Document_fresh)

text \<open>While the document is young, junk key ids cost nothing: the client is left as it was.\<close>

lemma junk_kid_is_free:
  assumes "jc_doc c = Some doc" "rv_now rv 0 < jc_expiry c" "jc_minRefresh c > 0"
    "rv_now rv 1 - jc_fetchedAt c < jc_minRefresh c"
    "token_kid token = Ok (kid, h, p, s)" "key_in doc kid = Inl errJWKSKeyNotFound"
  shows "VerifyRS256 rv token iss c = (Inl errRSUnknownKey, c)"
  using assms lookup_unknown[OF assms(1,2,6)] by (simp add: VerifyRS256_def invalidateForRotation_def)

text \<open>An older document is dropped for one refetch, and the key the issuer publishes now is found.\<close>

lemma lookup_refetches:
  assumes "jc_doc c = Some doc" "rv_now rv 0 < jc_expiry c" "key_in doc kid = Inl errJWKSKeyNotFound"
    "jc_minRefresh c \<le> rv_now rv 1 - jc_fetchedAt c" "rv_await rv = ends_with reply t"
  shows "lookup_key rv kid c =
    (case fetch reply of Inl e \<Rightarrow> Inl e
       | Inr doc' \<Rightarrow> (if key_in doc' kid = Inl errJWKSKeyNotFound then Inl errRSUnknownKey else key_in doc' kid),
     finish_fetch (jc_started c) (fetch reply) t
       (c\<lparr>jc_doc := None, jc_expiry := zero_time, jc_inflight := Some (jc_started c),
          jc_started := Suc (jc_started c)\<rparr>))"
proof -
  have "fetch reply \<noteq> Inl errJWKSKeyNotFound"
    using fetch_error_is_no_refusal[of reply errJWKSKeyNotFound ErrInvalidToken]
    by (auto simp: errJWKSKeyNotFound_def)
  then show ?thesis
    unfolding lookup_unknown[OF assms(1-3)] using assms(4,5)
    by (auto simp: invalidateForRotation_def invalidateLocked_def GetKey_def Document_cold split: sum.split)
qed

text \<open>When that refetch fails the document is gone, although the issuer had served it and it had not
  expired: every other token is then refused as well, and each of them begins a fetch.\<close>

lemma junk_kid_evicts:
  assumes "jc_doc c = Some doc" "rv_now rv 0 < jc_expiry c" "key_in doc kid = Inl errJWKSKeyNotFound"
    "jc_minRefresh c \<le> rv_now rv 1 - jc_fetchedAt c" "rv_await rv = ends_with NoAnswer t"
    "token_kid token = Ok (kid, h, p, s)" "VerifyRS256 rv token iss c = (r, c')"
  shows "cold c'" "r = Inl (Message ''auth: jwks fetch'')" "jc_started c' = Suc (jc_started c)"
  using assms(6,7) lookup_refetches[OF assms(1-5)]
  by (auto simp: VerifyRS256_def fetch_def finish_fetch_def cold_def Let_def)

lemma cold_outage_refuses:
  assumes "cold c" "rv_await rv = ends_with NoAnswer t" "VerifyRS256 rv token iss c = (r, c')"
  shows "cold c'" "\<not> is_ok r" "is_ok (token_kid token) \<Longrightarrow> jc_started c' = Suc (jc_started c)"
  using assms
  by (auto simp: VerifyRS256_def lookup_key_def GetKey_def Document_cold cold_def fetch_def finish_fetch_def
      errJWKSKeyNotFound_def Let_def split: sum.splits)

text \<open>An outage alone changes nothing: however many reads begin and however many fetches fail, a key of the
  document the client holds is found in it, expired or not.\<close>

datatype outage_event = ReadAt time | FailedAt nat error time

fun outage :: "outage_event \<Rightarrow> JWKSClient \<Rightarrow> JWKSClient" where
  "outage (ReadAt now) c = snd (start_document now c)"
| "outage (FailedAt i e now) c = finish_fetch i (Inl e) now c"

lemma outage_keeps_document: "jc_doc (fold outage evs c) = jc_doc c"
proof (induction evs arbitrary: c)
  case (Cons x evs)
  then show ?case
    by (cases x) (auto simp: failed_refresh_keeps start_document_def split: option.split)
qed simp

lemma Document_outage:
  assumes "jc_doc c = Some d"
  shows "fst (Document (ends_with NoAnswer t) now c) = Ok d"
  using assms by (auto simp: Document_def start_document_def ends_with_def fetch_def split: option.split)

lemma lookup_key_outage:
  assumes "jc_doc c = Some d" "key_in d kid = Ok key" "rv_await rv = ends_with NoAnswer t"
  shows "fst (lookup_key rv kid c) = Ok key"
  using Document_outage[OF assms(1), of t "rv_now rv 0"] assms(2,3)
  by (auto simp: lookup_key_def GetKey_def split: prod.split sum.splits)

section \<open>The local cookie\<close>

text \<open>No store decides: two worlds that agree on the number of clock reads answer alike.\<close>

lemma verifyLocalAccessToken_stateless:
  assumes "w_tick w = w_tick w2"
  shows "fst (verifyLocalAccessToken v num tok w) = fst (verifyLocalAccessToken v num tok w2)"
  using assms
  by (auto simp: verifyLocalAccessToken_def parseToken_def thenDo_def clock_def tick_def failWith_def ret_def
      split: option.splits sum.splits prod.splits)

lemma verifyLocalAccessToken_Ok:
  "verifyLocalAccessToken v num tok w = (Ok claims, w') \<Longrightarrow>
     \<exists>tc. parseToken v tok ''access'' w = (Ok tc, w')"
  by (auto simp: verifyLocalAccessToken_def action_Ok split: sum.splits option.splits)

end
