(* ===== verification/IDP_Laws.thy ===== *)
theory IDP_Laws
  imports RS256_Laws Service_Time Session_Laws
begin

text \<open>
  The endpoints of the provider. The locale \<open>idp_contract\<close> says what the handlers do to the state,
  call by call; a predicate that every such call keeps is kept by the handlers. It is interpreted
  for the service's invariant, and for an authorization code being spent. Then what an answer of
  each endpoint tells of the request and of the state.
\<close>

section \<open>What the handlers keep\<close>

definition after :: "'a action \<Rightarrow> idp_world \<Rightarrow> idp_world" where
  "after m s = s\<lparr>iw_world := snd (m (iw_world s))\<rparr>"

definition ticked_on :: "idp_world \<Rightarrow> idp_world" where
  "ticked_on s = s\<lparr>iw_world := (iw_world s)\<lparr>w_tick := Suc (w_tick (iw_world s))\<rparr>\<rparr>"

lemma on_service_after:
  "on_service m a next s = (case fst (m (iw_world s)) of Inl e \<Rightarrow> (a, after m s) | Inr x \<Rightarrow> next x (after m s))"
  by (simp add: on_service_def after_def split: prod.split sum.split)

lemma read_clock_ticked: "read_clock clk next s = next (clk (w_tick (iw_world s))) (ticked_on s)"
  by (simp add: read_clock_def ticked_on_def Let_def)

lemma codes_after [simp]:
  "iw_codes (after m s) = iw_codes s" "iw_codes (ticked_on s) = iw_codes s"
  "iw_world (after m s) = snd (m (iw_world s))" "w_tick (iw_world (ticked_on s)) = Suc (w_tick (iw_world s))"
  by (simp_all add: after_def ticked_on_def)

locale idp_contract =
  fixes v :: env and P :: "idp_world \<Rightarrow> bool"
  assumes ticking: "P s \<Longrightarrow> P (ticked_on s)"
    and login: "P s \<Longrightarrow> P (after (Login v e p t) s)"
    and drawing: "P s \<Longrightarrow> P (after (draw (randomToken (e_crypto v) 24)) s)"
    and reading: "P s \<Longrightarrow> P (after (users_get (GetUserByID i t)) s)"
    and sessions: "P s \<Longrightarrow> P (after (newSessionTokens v user) s)"
    and signing: "P s \<Longrightarrow> P (after (buildIDToken v idp user aud nonce) s)"
    and access: "P s \<Longrightarrow> P (after (Authenticate v token) s)"
    and issuing: "P s \<Longrightarrow> c_rand (e_crypto v) (w_tick (iw_world s)) 24 = Inr b \<Longrightarrow>
      ac_CodeHash x = hashToken (e_crypto v) (base64url_encode b) \<Longrightarrow>
      P ((ticked_on (ticked_on (after (draw (randomToken (e_crypto v) 24)) s)))
        \<lparr>iw_codes := SaveCode now x (iw_codes s)\<rparr>)"
    and consuming: "P s \<Longrightarrow> P (s\<lparr>iw_codes := snd (ConsumeCode now h (iw_codes s))\<rparr>)"
begin

lemma redeem_keeps: "P s \<Longrightarrow> P (snd (redeem v idp cid meta s))"
  by (auto simp: redeem_def on_service_after answer_def reading sessions signing split: sum.split)

lemma token_keeps: "P s \<Longrightarrow> P (snd (handleToken v idp form s))"
proof -
  have consumed: "P (t\<lparr>iw_codes := codes\<rparr>)" if "P t" "ConsumeCode now h (iw_codes t) = (r, codes)"
    for t r codes now h
    using consuming[OF that(1), of now h] that(2) by simp
  assume "P s"
  then show ?thesis
    by (auto simp: handleToken_def answer_def consume_code_def read_clock_ticked Let_def
        intro!: redeem_keeps ticking consumed[OF ticking] split: option.split sum.split prod.split)
qed

lemma post_keeps: "P s \<Longrightarrow> P (snd (authorize_post v parse idp q red form s))"
proof -
  assume s: "P s"
  let ?l = "Login v (values_get form ''email'') (values_get form ''password'') (values_get form ''tenant_id'')"
  let ?r = "draw (randomToken (e_crypto v) 24)"
  show ?thesis
  proof (cases "fst (?l (iw_world s))")
    case (Inl e)
    then show ?thesis using s by (simp add: authorize_post_def on_service_after login)
  next
    case (Inr x)
    obtain user toks where x: "x = (user, toks)" by (cases x)
    let ?s1 = "after ?l s"
    let ?s2 = "after ?r ?s1"
    have P1: "P ?s1" using s by (rule login)
    then have P2: "P ?s2" by (rule drawing)
    show ?thesis
    proof (cases "fst (?r (iw_world ?s1))")
      case (Inl e)
      then show ?thesis using Inr x P2 by (simp add: authorize_post_def on_service_after)
    next
      case code: (Inr code)
      let ?s3 = "ticked_on (ticked_on ?s2)"
      obtain b where b: "c_rand (e_crypto v) (w_tick (iw_world ?s1)) 24 = Inr b" "code = base64url_encode b"
        using code by (auto simp: draw_def randomToken_def split: prod.splits sum.splits)
      have "P (?s3\<lparr>iw_codes := SaveCode now (issued_code (e_crypto v) idp q red user code t0) (iw_codes ?s3)\<rparr>)"
        for now t0
        using issuing[OF P1 b(1)] b(2) by (simp add: issued_code_def)
      then show ?thesis
        using Inr x code
        by (simp add: authorize_post_def on_service_after read_clock_ticked save_code_def answer_def)
    qed
  qed
qed

lemma authorize_keeps: "P s \<Longrightarrow> P (snd (handleAuthorize v parse idp rq s))"
  by (auto simp: handleAuthorize_def answer_def Let_def intro: post_keeps split: option.split)

lemma userinfo_keeps: "P s \<Longrightarrow> P (snd (handleUserInfo v hdr s))"
  by (auto simp: handleUserInfo_def on_service_after answer_def access split: sum.split)

end

text \<open>The service's invariant, on a service whose ids are drawn afresh.\<close>

definition idp_world_ok :: "env \<Rightarrow> idp_world \<Rightarrow> bool" where
  "idp_world_ok v s \<longleftrightarrow> (fresh_draws (e_crypto v) \<longrightarrow> world_ok (e_crypto v) (iw_world s))"

lemma inv_buildIDToken [invs]: "preserves (world_ok c) (buildIDToken v idp user aud nonce)"
  unfolding buildIDToken_def by (intro invs BuildRS256JWT_advances)

lemma past_buildIDToken [invs]: "preserves (past k) (buildIDToken v idp user aud nonce)"
  unfolding buildIDToken_def by (intro invs BuildRS256JWT_advances)

interpretation idp_inv: idp_contract v "idp_world_ok v" for v
proof unfold_locales
  have keep: "idp_world_ok v (after m s)"
    if "fresh_draws (e_crypto v) \<Longrightarrow> preserves (world_ok (e_crypto v)) m" "idp_world_ok v s"
    for m :: "'x action" and s
    using that by (auto simp: idp_world_ok_def preserves_def)
  have tk: "idp_world_ok v (ticked_on s)" if "idp_world_ok v s" for s
    using that world_ok_tick[of "e_crypto v" "iw_world s"] by (simp add: idp_world_ok_def ticked_on_def)
  fix s :: idp_world
  assume s: "idp_world_ok v s"
  show "idp_world_ok v (ticked_on s)" by (rule tk[OF s])
  show "idp_world_ok v (after (Login v e p t) s)" for e p t by (rule keep[OF inv_session_calls(2) s])
  show dr: "idp_world_ok v (after (draw (randomToken (e_crypto v) 24)) s)"
    by (rule keep[OF _ s]) (intro invs)
  show "idp_world_ok v ((ticked_on (ticked_on (after (draw (randomToken (e_crypto v) 24)) s)))
      \<lparr>iw_codes := SaveCode now x (iw_codes s)\<rparr>)" for x now
    using tk[OF tk[OF dr]] by (simp add: idp_world_ok_def)
  show "idp_world_ok v (after (users_get (GetUserByID i t)) s)" for i t by (rule keep[OF _ s]) (intro invs)
  show "idp_world_ok v (after (newSessionTokens v user) s)" for user
    by (rule keep[OF inv_newSessionTokens s])
  show "idp_world_ok v (after (buildIDToken v idp user aud nonce) s)" for idp user aud nonce
    by (rule keep[OF _ s]) (intro invs)
  show "idp_world_ok v (after (Authenticate v token) s)" for token by (rule keep[OF _ s]) (intro invs)
qed (simp_all add: idp_world_ok_def)

section \<open>A code works once\<close>

text \<open>The hash belongs to a code that was drawn, and no entry of the store carries it.\<close>

definition code_drawn :: "env \<Rightarrow> string \<Rightarrow> idp_world \<Rightarrow> bool" where
  "code_drawn v h s \<longleftrightarrow> (\<exists>j<w_tick (iw_world s). \<exists>b. c_rand (e_crypto v) j 24 = Inr b \<and>
     h = hashToken (e_crypto v) (base64url_encode b))"

text \<open>No code is drawn twice, even up to its hash.\<close>

definition fresh_codes :: "env \<Rightarrow> bool" where
  "fresh_codes v \<longleftrightarrow> (\<forall>j k b b'. c_rand (e_crypto v) j 24 = Inr b \<longrightarrow> c_rand (e_crypto v) k 24 = Inr b' \<longrightarrow>
     hashToken (e_crypto v) (base64url_encode b) = hashToken (e_crypto v) (base64url_encode b') \<longrightarrow> j = k)"

text \<open>Every stored code was drawn.\<close>

definition codes_drawn :: "env \<Rightarrow> idp_world \<Rightarrow> bool" where
  "codes_drawn v s \<longleftrightarrow> (\<forall>h. fmlookup (iw_codes s) h \<noteq> None \<longrightarrow> code_drawn v h s)"

lemma code_drawn_later:
  "code_drawn v h s \<Longrightarrow> w_tick (iw_world s) \<le> w_tick (iw_world s') \<Longrightarrow> code_drawn v h s'"
  by (auto simp: code_drawn_def) (metis order_less_le_trans)

lemma ticks_on:
  "w_tick (iw_world s) \<le> w_tick (iw_world (ticked_on s))"
  "(\<And>k. preserves (past k) m) \<Longrightarrow> w_tick (iw_world s) \<le> w_tick (iw_world (after m s))"
  by (simp_all add: preserves_def)

lemma codes_drawn_later:
  "codes_drawn v s \<Longrightarrow> iw_codes s' = iw_codes s \<Longrightarrow> w_tick (iw_world s) \<le> w_tick (iw_world s') \<Longrightarrow>
   codes_drawn v s'"
  unfolding codes_drawn_def using code_drawn_later by metis

interpretation codes_stay_drawn: idp_contract v "codes_drawn v" for v
proof unfold_locales
  fix s :: idp_world
  assume s: "codes_drawn v s"
  show "codes_drawn v ((ticked_on (ticked_on (after (draw (randomToken (e_crypto v) 24)) s)))
      \<lparr>iw_codes := SaveCode now x (iw_codes s)\<rparr>)"
    if b: "c_rand (e_crypto v) (w_tick (iw_world s)) 24 = Inr b"
      "ac_CodeHash x = hashToken (e_crypto v) (base64url_encode b)" for b x now
  proof -
    let ?s' = "ticked_on (ticked_on (after (draw (randomToken (e_crypto v) 24)) s))"
    have tick: "w_tick (iw_world s) < w_tick (iw_world ?s')"
      by (simp add: draw_def randomToken_def b(1))
    have "code_drawn v (ac_CodeHash x) ?s'" using tick b by (auto simp: code_drawn_def)
    moreover have "codes_drawn v ?s'" using tick by (intro codes_drawn_later[OF s]) simp_all
    ultimately show ?thesis
      by (auto simp: codes_drawn_def code_drawn_def SaveCode_lookup split: if_splits option.splits)
  qed
  show "codes_drawn v (s\<lparr>iw_codes := snd (ConsumeCode now h (iw_codes s))\<rparr>)" for now h
    using s by (simp add: codes_drawn_def code_drawn_def ConsumeCode_store)
qed (erule codes_drawn_later, simp, rule ticks_on, (intro invs)?)+

text \<open>A drawn code whose entry is gone stays gone, codes being drawn afresh.\<close>

definition code_spent :: "env \<Rightarrow> string \<Rightarrow> idp_world \<Rightarrow> bool" where
  "code_spent v h s \<longleftrightarrow> (fresh_codes v \<longrightarrow> fmlookup (iw_codes s) h = None \<and> code_drawn v h s)"

lemma code_spent_later:
  "code_spent v h s \<Longrightarrow> iw_codes s' = iw_codes s \<Longrightarrow> w_tick (iw_world s) \<le> w_tick (iw_world s') \<Longrightarrow>
   code_spent v h s'"
  unfolding code_spent_def using code_drawn_later by metis

interpretation spent_codes: idp_contract v "code_spent v h" for v h
proof unfold_locales
  fix s :: idp_world
  assume s: "code_spent v h s"
  show "code_spent v h ((ticked_on (ticked_on (after (draw (randomToken (e_crypto v) 24)) s)))
      \<lparr>iw_codes := SaveCode now x (iw_codes s)\<rparr>)"
    if b: "c_rand (e_crypto v) (w_tick (iw_world s)) 24 = Inr b"
      "ac_CodeHash x = hashToken (e_crypto v) (base64url_encode b)" for b x now
  proof -
    let ?s' = "ticked_on (ticked_on (after (draw (randomToken (e_crypto v) 24)) s))"
    have "code_spent v h ?s'"
      by (rule code_spent_later[OF s]) (simp_all add: draw_def randomToken_def b(1))
    moreover have "ac_CodeHash x \<noteq> h" if f: "fresh_codes v"
    proof
      assume "ac_CodeHash x = h"
      then obtain j b' where "j < w_tick (iw_world s)" "c_rand (e_crypto v) j 24 = Inr b'"
        "hashToken (e_crypto v) (base64url_encode b') = hashToken (e_crypto v) (base64url_encode b)"
        using s f b(2) by (auto simp: code_spent_def code_drawn_def)
      then show False using f b(1) unfolding fresh_codes_def by (metis less_irrefl)
    qed
    ultimately show ?thesis
      by (auto simp: code_spent_def code_drawn_def SaveCode_lookup split: option.splits)
  qed
  show "code_spent v h (s\<lparr>iw_codes := snd (ConsumeCode now g (iw_codes s))\<rparr>)" for now g
    using s by (simp add: code_spent_def code_drawn_def ConsumeCode_store)
qed (erule code_spent_later, simp, rule ticks_on, (intro invs)?)+

subsection \<open>Runs\<close>

text \<open>What happens to a provider: its handlers, and whatever the service does between them.\<close>

inductive idp_step :: "env \<Rightarrow> idp_world \<Rightarrow> idp_world \<Rightarrow> bool" for v where
  authorize: "idp_step v s (snd (handleAuthorize v parse idp rq s))"
| token: "idp_step v s (snd (handleToken v idp form s))"
| userinfo: "idp_step v s (snd (handleUserInfo v hdr s))"
| service: "service_step v (iw_world s) w' \<Longrightarrow> w_tick (iw_world s) \<le> w_tick w' \<Longrightarrow>
    idp_step v s (s\<lparr>iw_world := w'\<rparr>)"

abbreviation idp_run :: "env \<Rightarrow> idp_world \<Rightarrow> idp_world \<Rightarrow> bool" where
  "idp_run v \<equiv> (idp_step v)\<^sup>*\<^sup>*"

lemma idp_step_ok:
  assumes "idp_step v s s'" "fresh_draws (e_crypto v)" "sha256_size (e_crypto v)" "idp_world_ok v s"
  shows "idp_world_ok v s'"
  using assms
proof (induction rule: idp_step.induct)
  case (service s w')
  then show ?case using service_step_ok[OF service(1)] by (simp add: idp_world_ok_def)
qed (blast intro: idp_inv.authorize_keeps idp_inv.token_keeps idp_inv.userinfo_keeps)+

lemma idp_run_ok:
  assumes "idp_run v s s'" "fresh_draws (e_crypto v)" "sha256_size (e_crypto v)" "idp_world_ok v s"
  shows "idp_world_ok v s'"
  using assms by (induction rule: rtranclp_induct) (auto intro: idp_step_ok)

lemma idp_run_drawn: "idp_run v s s' \<Longrightarrow> codes_drawn v s \<Longrightarrow> codes_drawn v s'"
proof (induction rule: rtranclp_induct)
  case (step s' s'')
  then have drawn: "codes_drawn v s'" by simp
  show ?case using step(2)
  proof cases
    case (service w')
    then show ?thesis using drawn by (auto intro: codes_drawn_later)
  qed (use drawn codes_stay_drawn.authorize_keeps codes_stay_drawn.token_keeps
      codes_stay_drawn.userinfo_keeps in blast)+
qed simp

lemma idp_run_spent: "idp_run v s s' \<Longrightarrow> code_spent v h s \<Longrightarrow> code_spent v h s'"
proof (induction rule: rtranclp_induct)
  case (step s' s'')
  then have spent: "code_spent v h s'" by simp
  show ?case using step(2)
  proof cases
    case (service w')
    then show ?thesis using spent by (auto intro: code_spent_later)
  qed (use spent spent_codes.authorize_keeps spent_codes.token_keeps spent_codes.userinfo_keeps in blast)+
qed simp

section \<open>What an answer tells\<close>

lemma on_service_not:
  "on_service m a next s = (x, s') \<Longrightarrow> x \<noteq> a \<Longrightarrow>
   \<exists>y. fst (m (iw_world s)) = Ok y \<and> next y (after m s) = (x, s')"
  by (auto simp: on_service_after split: sum.splits)

lemma redirect_with_code_cases:
  "redirect_with_code parse red code st = RedirectAnswer url \<Longrightarrow>
     \<exists>rq wr. parse red = Some (rq, wr) \<and> url = wr
       (if st \<noteq> [] then set_param ''state'' st (set_param ''code'' code rq) else set_param ''code'' code rq)"
  by (auto simp: redirect_with_code_def internalError_def split: option.splits if_splits)

text \<open>A redirect carries a code only after a login with the password, for a registered client, to one
  of the addresses registered for it; the store holds the code's hash alone, bound to the client,
  the user and the nonce.\<close>

lemma authorize_post_redirect:
  assumes "authorize_post v parse idp q red form s = (RedirectAnswer url, s')"
  shows "\<exists>user toks w1 b t0 now rq wr.
    Login v (values_get form ''email'') (values_get form ''password'') (values_get form ''tenant_id'')
      (iw_world s) = (Ok (user, toks), w1) \<and>
    c_rand (e_crypto v) (w_tick w1) 24 = Inr b \<and>
    iw_codes s' = SaveCode now (issued_code (e_crypto v) idp q red user (base64url_encode b) t0) (iw_codes s) \<and>
    t0 = ip_now idp (Suc (w_tick w1)) \<and>
    iw_world s' = w1\<lparr>w_tick := Suc (Suc (Suc (w_tick w1)))\<rparr> \<and> parse red = Some (rq, wr) \<and>
    url = wr (if values_get q ''state'' \<noteq> []
      then set_param ''state'' (values_get q ''state'') (set_param ''code'' (base64url_encode b) rq)
      else set_param ''code'' (base64url_encode b) rq)"
proof -
  let ?l = "Login v (values_get form ''email'') (values_get form ''password'') (values_get form ''tenant_id'')"
  obtain y where l: "fst (?l (iw_world s)) = Ok y"
    using assms by (auto simp: authorize_post_def dest: on_service_not)
  obtain user toks where y: "y = (user, toks)" by (cases y)
  obtain w1 where w1: "?l (iw_world s) = (Ok (user, toks), w1)" using l y by (cases "?l (iw_world s)") simp
  have r: "on_service (draw (randomToken (e_crypto v) 24)) internalError (\<lambda>code.
      read_clock (ip_now idp) (\<lambda>now. save_code v (issued_code (e_crypto v) idp q red user code now)
        (answer (redirect_with_code parse red code (values_get q ''state'')))))
      (s\<lparr>iw_world := w1\<rparr>) = (RedirectAnswer url, s')"
    using assms by (simp add: authorize_post_def on_service_def w1)
  obtain code where code: "randomToken (e_crypto v) 24 (w_tick w1) = (Ok code, Suc (w_tick w1))"
    using r by (cases "c_rand (e_crypto v) (w_tick w1) 24")
      (auto simp: on_service_def draw_def randomToken_def internalError_def)
  then obtain b where b: "c_rand (e_crypto v) (w_tick w1) 24 = Inr b" "code = base64url_encode b"
    by (auto simp: randomToken_Ok)
  have fin: "redirect_with_code parse red code (values_get q ''state'') = RedirectAnswer url"
    "s' = s\<lparr>iw_world := w1\<lparr>w_tick := Suc (Suc (Suc (w_tick w1)))\<rparr>,
      iw_codes := SaveCode (e_wall v (Suc (Suc (w_tick w1))))
        (issued_code (e_crypto v) idp q red user code (ip_now idp (Suc (w_tick w1)))) (iw_codes s)\<rparr>"
    using r by (auto simp: on_service_def draw_def code read_clock_def save_code_def answer_def Let_def)
  obtain rq wr where "parse red = Some (rq, wr)" "url = wr (if values_get q ''state'' \<noteq> []
      then set_param ''state'' (values_get q ''state'') (set_param ''code'' code rq)
      else set_param ''code'' code rq)"
    using redirect_with_code_cases[OF fin(1)] by blast
  then show ?thesis using w1 b fin(2) by auto
qed

lemma handleAuthorize_redirect:
  assumes "handleAuthorize v parse idp rq s = (RedirectAnswer url, s')"
  shows "\<exists>client form. fmlookup (ip_clients idp) (values_get (az_Query rq) ''client_id'') = Some client \<and>
    values_get (az_Query rq) ''redirect_uri'' \<in> set (cl_RedirectURIs client) \<and>
    az_Method rq = ''POST'' \<and> az_Form rq = Some form \<and>
    authorize_post v parse idp (az_Query rq) (values_get (az_Query rq) ''redirect_uri'') form s
      = (RedirectAnswer url, s')"
proof -
  have m: "idpMatchedRedirect allowed u \<noteq> [] \<Longrightarrow> idpMatchedRedirect allowed u = u \<and> u \<in> set allowed" for allowed u
    by (induction allowed) (auto simp: idpMatchedRedirect_def split: if_splits option.splits)
  obtain client where c: "fmlookup (ip_clients idp) (values_get (az_Query rq) ''client_id'') = Some client"
    using assms by (auto simp: handleAuthorize_def answer_def Let_def split: option.splits)
  define r where "r = idpMatchedRedirect (cl_RedirectURIs client) (values_get (az_Query rq) ''redirect_uri'')"
  have p: "r \<noteq> []" "\<exists>form. az_Method rq = ''POST'' \<and> az_Form rq = Some form \<and>
      authorize_post v parse idp (az_Query rq) r form s = (RedirectAnswer url, s')"
    using assms c by (auto simp: handleAuthorize_def answer_def badRequest_def Let_def r_def
        split: option.splits if_splits)
  have "r = values_get (az_Query rq) ''redirect_uri''"
    "values_get (az_Query rq) ''redirect_uri'' \<in> set (cl_RedirectURIs client)"
    using m p(1) unfolding r_def by blast+
  then show ?thesis using c p(2) by blast
qed

lemma consume_code_Ok:
  "consume_code v h next s = next (fst (ConsumeCode (e_wall v (w_tick (iw_world s))) h (iw_codes s)))
     (ticked_on (s\<lparr>iw_codes := fmdrop h (iw_codes s)\<rparr>))"
  by (cases s) (simp add: consume_code_def read_clock_ticked ticked_on_def case_prod_beta ConsumeCode_store)

text \<open>Tokens are answered for a code that was stored, unexpired, for the client that presents it with
  its secret; the code is gone, and the tokens open a session for the user it was issued to.\<close>

lemma handleToken_answers:
  assumes "handleToken v idp form0 s = (JsonAnswer body, s')"
  shows "\<exists>form client meta user tokens idTok w1 w2 w3.
    form0 = Some form \<and> values_get form ''grant_type'' = ''authorization_code'' \<and>
    fmlookup (ip_clients idp) (values_get form ''client_id'') = Some client \<and>
    cl_ClientSecret client = values_get form ''client_secret'' \<and>
    fmlookup (iw_codes s) (hashToken (e_crypto v) (values_get form ''code'')) = Some meta \<and>
    ac_ClientID meta = values_get form ''client_id'' \<and>
    e_wall v (w_tick (iw_world s)) \<le> ac_ExpiresAt meta \<and>
    iw_codes s' = fmdrop (hashToken (e_crypto v) (values_get form ''code'')) (iw_codes s) \<and>
    GetUserByID (ac_UserID meta) (ac_TenantID meta) (w_users (iw_world s)) = Ok user \<and>
    w1 = (iw_world s)\<lparr>w_tick := Suc (Suc (w_tick (iw_world s)))\<rparr> \<and>
    newSessionTokens v user w1 = (Ok tokens, w2) \<and>
    buildIDToken v idp user (ac_ClientID meta) (ac_Nonce meta) w2 = (Ok idTok, w3) \<and>
    iw_world s' = w3 \<and> token_answer tokens idTok = JsonAnswer body"
proof -
  obtain form client where f: "form0 = Some form" "values_get form ''grant_type'' = ''authorization_code''"
    "fmlookup (ip_clients idp) (values_get form ''client_id'') = Some client"
    "cl_ClientSecret client = values_get form ''client_secret''"
    using assms by (auto simp: handleToken_def answer_def badRequest_def Let_def split: option.splits if_splits)
  let ?h = "hashToken (e_crypto v) (values_get form ''code'')"
  let ?s1 = "ticked_on (s\<lparr>iw_codes := fmdrop ?h (iw_codes s)\<rparr>)"
  have run: "(case fst (ConsumeCode (e_wall v (w_tick (iw_world s))) ?h (iw_codes s)) of
      Inl _ \<Rightarrow> (invalidGrant, ?s1)
    | Inr meta \<Rightarrow> (if ip_now idp (w_tick (iw_world ?s1)) > ac_ExpiresAt meta then answer invalidGrant
        else if ac_ClientID meta \<noteq> values_get form ''client_id'' then answer invalidGrant
        else redeem v idp (values_get form ''client_id'') meta) (ticked_on ?s1)) = (JsonAnswer body, s')"
    using assms f
    by (cases "fst (ConsumeCode (e_wall v (w_tick (iw_world s))) ?h (iw_codes s))")
       (simp_all add: handleToken_def consume_code_Ok read_clock_ticked answer_def Let_def)
  obtain meta where m: "fst (ConsumeCode (e_wall v (w_tick (iw_world s))) ?h (iw_codes s)) = Ok meta"
    "ac_ClientID meta = values_get form ''client_id''"
    "redeem v idp (values_get form ''client_id'') meta (ticked_on ?s1) = (JsonAnswer body, s')"
    using run by (auto simp: invalidGrant_def answer_def split: sum.splits if_splits)
  have st: "fmlookup (iw_codes s) ?h = Some meta" "e_wall v (w_tick (iw_world s)) \<le> ac_ExpiresAt meta"
    using m(1) by (simp_all add: ConsumeCode_result)
  let ?w1 = "iw_world (ticked_on ?s1)"
  have w1: "?w1 = (iw_world s)\<lparr>w_tick := Suc (Suc (w_tick (iw_world s)))\<rparr>" "iw_codes (ticked_on ?s1) = fmdrop ?h (iw_codes s)"
    by (simp_all add: ticked_on_def)
  have rd: "\<exists>user tokens idTok w2 w3. GetUserByID (ac_UserID meta) (ac_TenantID meta) (w_users ?w1) = Ok user \<and>
      newSessionTokens v user ?w1 = (Ok tokens, w2) \<and>
      buildIDToken v idp user (ac_ClientID meta) (ac_Nonce meta) w2 = (Ok idTok, w3) \<and>
      s' = (ticked_on ?s1)\<lparr>iw_world := w3\<rparr> \<and> token_answer tokens idTok = JsonAnswer body"
    using m(3)
    by (auto simp: redeem_def on_service_def users_get_def answer_def serverError_def m(2)
        split: prod.splits sum.splits)
  then show ?thesis using f m(2) st w1 by auto
qed

lemma handleToken_unknown:
  assumes "fmlookup (iw_codes s) (hashToken (e_crypto v) (values_get form ''code'')) = None"
  shows "fst (handleToken v idp (Some form) s) \<in> {PlainAnswer 400 ''unsupported_grant_type'',
    PlainAnswer 401 ''invalid_client'', invalidGrant}"
  using assms
  by (auto simp: handleToken_def consume_code_Ok ConsumeCode_def answer_def Let_def split: option.splits)

text \<open>A code that was redeemed is never redeemed again, whoever presents it.\<close>

lemma code_works_once:
  assumes fresh: "fresh_codes v" and start: "codes_drawn v s0" "idp_run v s0 s"
    and first: "handleToken v idp (Some form) s = (JsonAnswer body, s1)"
    and run: "idp_run v s1 s2"
    and again: "values_get form' ''code'' = values_get form ''code''"
  shows "\<not> (\<exists>b. fst (handleToken v idp' (Some form') s2) = JsonAnswer b)"
proof -
  let ?h = "hashToken (e_crypto v) (values_get form ''code'')"
  obtain meta where meta: "fmlookup (iw_codes s) ?h = Some meta" and gone: "iw_codes s1 = fmdrop ?h (iw_codes s)"
    using handleToken_answers[OF first] by auto
  have "code_drawn v ?h s" using idp_run_drawn[OF start(2,1)] meta by (simp add: codes_drawn_def)
  moreover have "w_tick (iw_world s) \<le> w_tick (iw_world s1)"
  proof -
    let ?w1 = "(iw_world s)\<lparr>w_tick := Suc (Suc (w_tick (iw_world s)))\<rparr>"
    obtain user tokens idTok w2 where t: "newSessionTokens v user ?w1 = (Ok tokens, w2)"
      "buildIDToken v idp user (ac_ClientID meta) (ac_Nonce meta) w2 = (Ok idTok, iw_world s1)"
      using handleToken_answers[OF first] meta by auto
    have "past (w_tick (iw_world s)) w2" by (rule preservesD[OF past_sessions(1) _ t(1)]) simp
    then show ?thesis by (rule preservesD[OF past_buildIDToken _ t(2)])
  qed
  ultimately have "code_spent v ?h s1" using gone by (simp add: code_spent_def code_drawn_later)
  then have "code_spent v ?h s2" by (rule idp_run_spent[OF run])
  then have "fmlookup (iw_codes s2) (hashToken (e_crypto v) (values_get form' ''code'')) = None"
    using fresh again by (simp add: code_spent_def)
  from handleToken_unknown[OF this, of idp'] show ?thesis by (auto simp: invalidGrant_def)
qed

text \<open>From the form to the tokens: whoever redeems the code a login produced gets a session and an ID
  token of that user, for the client and with the nonce of the request.\<close>

lemma code_carries_the_login:
  assumes auth: "handleAuthorize v parse idp rq s = (RedirectAnswer url, s1)"
    and code: "c_rand (e_crypto v) (w_tick w1) 24 = Inr b"
      "Login v e p t (iw_world s) = (Ok (user, toks), w1)"
      "az_Form rq = Some lf" "e = values_get lf ''email''" "p = values_get lf ''password''"
      "t = values_get lf ''tenant_id''" "values_get form ''code'' = base64url_encode b"
    and kept: "fmlookup (iw_codes s2) (hashToken (e_crypto v) (base64url_encode b)) =
      fmlookup (iw_codes s1) (hashToken (e_crypto v) (base64url_encode b))"
    and tok: "handleToken v idp' (Some form) s2 = (JsonAnswer body, s3)"
  shows "\<exists>user' tokens idTok w2 w3 w4. user_at (w_users (iw_world s2)) (u_ID user) = Some user' \<and>
    u_TenantID user' = u_TenantID user \<and> newSessionTokens v user' w2 = (Ok tokens, w3) \<and>
    buildIDToken v idp' user' (values_get (az_Query rq) ''client_id'') (values_get (az_Query rq) ''nonce'') w3
      = (Ok idTok, w4) \<and>
    token_answer tokens idTok = JsonAnswer body \<and>
    values_get form ''client_id'' = values_get (az_Query rq) ''client_id''"
proof -
  obtain client lf' where a: "az_Form rq = Some lf'"
    "authorize_post v parse idp (az_Query rq) (values_get (az_Query rq) ''redirect_uri'') lf' s
      = (RedirectAnswer url, s1)"
    using handleAuthorize_redirect[OF auth] by blast
  then have lf: "lf' = lf" using code(3) by simp
  obtain red now t0 where "iw_codes s1 = SaveCode now (issued_code (e_crypto v) idp (az_Query rq) red user
      (base64url_encode b) t0) (iw_codes s)"
    using authorize_post_redirect[OF a(2)] code lf by auto
  then have stored: "fmlookup (iw_codes s2) (hashToken (e_crypto v) (values_get form ''code'')) =
      Some (issued_code (e_crypto v) idp (az_Query rq) red user (base64url_encode b) t0)"
    using kept code(7) by (simp add: SaveCode_lookup issued_code_def)
  let ?meta = "issued_code (e_crypto v) idp (az_Query rq) red user (base64url_encode b) t0"
  have meta: "ac_ClientID ?meta = values_get (az_Query rq) ''client_id''" "ac_UserID ?meta = u_ID user"
    "ac_Nonce ?meta = values_get (az_Query rq) ''nonce''" "ac_TenantID ?meta = u_TenantID user"
    by (simp_all add: issued_code_def)
  obtain user' tokens idTok w2 w3 w4 where r: "ac_ClientID ?meta = values_get form ''client_id''"
    "GetUserByID (ac_UserID ?meta) (ac_TenantID ?meta) (w_users (iw_world s2)) = Ok user'"
    "newSessionTokens v user' w2 = (Ok tokens, w3)"
    "buildIDToken v idp' user' (ac_ClientID ?meta) (ac_Nonce ?meta) w3 = (Ok idTok, w4)"
    "token_answer tokens idTok = JsonAnswer body"
    using handleToken_answers[OF tok] stored by auto
  show ?thesis using r(2-) r(1)[symmetric] unfolding meta GetUserByID_iff by blast
qed

text \<open>The login behind \<open>/authorize\<close> opens a session of its own, whose tokens nobody is given.\<close>

lemma authorize_leaves_a_session:
  assumes "e_verifier v = None" "handleAuthorize v parse idp rq s = (RedirectAnswer url, s')"
  shows "\<exists>x. w_sessions (iw_world s') = snd (CreateSession x (w_sessions (iw_world s))) \<and> s_RevokedAt x = None"
proof -
  obtain lf where "authorize_post v parse idp (az_Query rq) (values_get (az_Query rq) ''redirect_uri'') lf s
      = (RedirectAnswer url, s')"
    using handleAuthorize_redirect[OF assms(2)] by blast
  then obtain user toks w1 where l: "Login v (values_get lf ''email'') (values_get lf ''password'')
      (values_get lf ''tenant_id'') (iw_world s) = (Ok (user, toks), w1)"
    and w: "iw_world s' = w1\<lparr>w_tick := Suc (Suc (Suc (w_tick w1)))\<rparr>"
    using authorize_post_redirect by blast
  show ?thesis using Login_sound(6)[OF assms(1) l] w by fastforce
qed

section \<open>The surface\<close>

text \<open>The patterns handed to the mux are pairwise distinct on a base path that is a path, whatever the
  JWKS path is: a JWKS pattern carries its method, the four endpoints' do not.\<close>

lemma patterns_distinct:
  assumes "base = CHR ''/'' # rest"
  shows "distinct (map fst (RegisterHandlers idp base))"
proof -
  have paths: "map (\<lambda>m. trim_prefix ''/'' (om_Path m)) OIDCMounts =
      [''.well-known/openid-configuration'', ''authorize'', ''token'', ''userinfo'']" by code_simp
  have mounts: "distinct (map (\<lambda>m. x @ trim_prefix ''/'' (om_Path m)) OIDCMounts)" for x
  proof -
    have "map (\<lambda>m. x @ trim_prefix ''/'' (om_Path m)) OIDCMounts =
        map (append x) (map (\<lambda>m. trim_prefix ''/'' (om_Path m)) OIDCMounts)" by simp
    then show ?thesis unfolding paths by simp
  qed
  have sep: "\<And>m y. ''GET '' @ y \<noteq> (CHR ''/'' # x) @ trim_prefix ''/'' (om_Path m)" for x by simp
  show ?thesis
    using mounts assms
    by (auto simp: RegisterHandlers_def Let_def comp_def)
qed

lemma gated_endpoints: "map om_Path (filter om_ResourceServerGated OIDCMounts) = [OIDCAuthorizePath, OIDCTokenPath]"
  by code_simp

end
