(* ===== verification/Demo_IDP.thy ===== *)
theory Demo_IDP
  imports IDP_Laws Demo_World
begin

text \<open>
  A concrete identity provider with one client, a resource server that reads its keys, and a login
  through \<open>/authorize\<close> and \<open>/token\<close>, for the witnesses. The signature is the digest itself and the
  digest the message: lawful, not secure. Nothing here models code.
\<close>

definition demo_sha :: crypto where
  "demo_sha = (demo_crypto [])\<lparr>c_sha256 := (\<lambda>t. t)\<rparr>"

definition demo_idp_env :: env where
  "demo_idp_env = (demo_env [])\<lparr>e_crypto := demo_sha\<rparr>"

lemma demo_idp_env_simps [simp]:
  "e_cfg demo_idp_env = demo_cfg" "e_crypto demo_idp_env = demo_sha" "e_clock demo_idp_env k = demo_now"
  "e_wall demo_idp_env k = demo_now" "e_claims demo_idp_env = None" "e_verifier demo_idp_env = None"
  by (simp_all add: demo_idp_env_def)

lemma demo_sha_simps [simp]:
  "c_rand demo_sha = c_rand (demo_crypto [])" "c_sha256 demo_sha t = t"
  "newID demo_sha = newID (demo_crypto [])" "verifyPassword demo_sha = verifyPassword (demo_crypto [])"
  by (auto simp: demo_sha_def newID_def verifyPassword_def fun_eq_iff split: sum.splits)

section \<open>The provider\<close>

definition demo_public :: rsa_public where
  "demo_public = \<lparr>rk_N = Some 3233, rk_E = 17\<rparr>"

definition demo_signer :: signer where
  "demo_signer = \<lparr>sg_Public = Some demo_public, sg_Sign = (\<lambda>k d. Ok d)\<rparr>"

definition demo_idp_cfg :: IDPConfig where
  "demo_idp_cfg = \<lparr>ic_Issuer = ''https://i'', ic_AccessTokenTTL = 0, ic_IDTokenTTL = 0,
     ic_Signer = Some demo_signer, ic_KeyID = ''k1'', ic_PublicKeys = [], ic_RefreshTokenTTL = 0, ic_CodeTTL = 0,
     ic_JWKSPath = [], ic_JWKSCORSOrigins = None, ic_JWKSURL = []\<rparr>"

definition demo_client :: IDPClient where
  "demo_client = \<lparr>cl_ClientID = ''app'', cl_ClientSecret = ''secret'', cl_RedirectURIs = [''https://app/cb''],
     cl_Name = ''App''\<rparr>"

definition demo_jwk :: JWK where
  "demo_jwk = \<lparr>jk_Kty = ''RSA'', jk_Use = ''sig'', jk_Alg = ''RS256'', jk_Kid = ''k1'',
     jk_N = base64url_encode (big_bytes 3233), jk_E = base64url_encode (big_bytes 17)\<rparr>"

definition demo_idp :: IDP where
  "demo_idp = \<lparr>ip_cfg = demo_idp_cfg, ip_signer = demo_signer, ip_signerJWK = demo_jwk, ip_keyID = ''k1'',
     ip_clients = fmap_of_list [(''app'', demo_client)], ip_now = (\<lambda>k. demo_now)\<rparr>"

lemma demo_NewIDP: "NewIDP gen (\<lambda>k. demo_now) demo_idp_cfg [demo_client] k = (Ok demo_idp, k)"
  by (simp add: NewIDP_def validateJWKSPath_def demo_idp_cfg_def demo_signer_def demo_public_def usable_public_def
      NewRSAJWK_def demo_idp_def demo_jwk_def demo_client_def Let_def)

lemma demo_idp_ok: "idp_ok demo_idp"
  by (rule NewIDP_Ok(1)[OF demo_NewIDP])

definition demo_verifier :: "jwks_reply \<Rightarrow> verifier" where
  "demo_verifier reply = \<lparr>rv_verify = (\<lambda>pub d s. d = s), rv_num = parse_int64, rv_sha256 = (\<lambda>t. t),
     rv_await = ends_with reply demo_now, rv_now = (\<lambda>k. demo_now)\<rparr>"

lemma demo_federated: "federated (demo_verifier reply) demo_idp_env demo_idp demo_public"
proof -
  have "valid_utf8 ''k1''" "valid_utf8 ''https://i''" by code_simp+
  moreover have "is_int64 z" if "\<bar>z\<bar> \<le> 2 ^ 53" for z using that by (auto simp: is_int64_def)
  then have "floats_exact parse_int64" by (simp add: floats_exact_def parse_int64_decimal)
  ultimately show ?thesis
    using demo_idp_ok
    by (simp add: federated_def demo_idp_def demo_idp_cfg_def demo_signer_def demo_verifier_def sound_public_def
        demo_public_def signs_for_def fun_eq_iff)
qed

lemma demo_publishable: "publishable demo_idp"
proof -
  have "length (print_jwks [demo_jwk]) \<le> 200" by code_simp
  then show ?thesis by (simp add: publishable_def IDP_JWKS_def demo_idp_def demo_idp_cfg_def maxJWKSBytes_def)
qed

lemma demo_near: "near demo_now" "near (demo_now + accessTokenTTL demo_idp)" "near (demo_now + refreshTokenTTL demo_idp)"
  by (simp_all add: near_def demo_now_def unix_of_def accessTokenTTL_def refreshTokenTTL_def demo_idp_def
      demo_idp_cfg_def defaultIDPAccessTokenTTL_def defaultIDPRefreshTokenTTL_def)

lemma demo_pair: "\<exists>tokens w'. IssueIdPTokenPair demo_idp_env demo_idp demo_user demo_world = (Ok tokens, w')"
  by (simp add: IssueIdPTokenPair_def payloadClaims_def custom_claims_def thenDo_def ret_def tick_def
      signWithLifetime_def draw_def BuildRS256JWT_def demo_idp_def demo_signer_def demo_public_def
      usable_public_def Let_def)

definition demo_jwks_client :: JWKSClient where
  "demo_jwks_client = \<lparr>jc_url = ''https://i/jwks'', jc_cacheTTL = hour, jc_fetchTimeout = 5 * second,
     jc_minRefresh = 30 * second, jc_doc = None, jc_expiry = zero_time, jc_fetchedAt = zero_time,
     jc_inflight = None, jc_started = 0, jc_done = fmempty\<rparr>"

lemma demo_cold: "cold demo_jwks_client" "client_ok demo_jwks_client"
  by (simp_all add: cold_def demo_jwks_client_def client_ok_def)

text \<open>Waiting for the demo fetch only takes steps of the client.\<close>

lemma ends_with_waits:
  assumes "client_ok c" "jc_doc c = None" "jc_inflight c = None"
  shows "client_steps c (finish_fetch (jc_started c) (fetch reply) t
    (c\<lparr>jc_inflight := Some (jc_started c), jc_started := Suc (jc_started c)\<rparr>))"
proof -
  let ?c = "c\<lparr>jc_inflight := Some (jc_started c), jc_started := Suc (jc_started c)\<rparr>"
  have "client_step c ?c" using client_step.read[of c 0] assms(2,3) by (simp add: start_document_def)
  moreover have "fmlookup (jc_done c) (jc_started c) = None"
    using assms(1) unfolding client_ok_def by (metis less_irrefl)
  then have "client_step ?c (finish_fetch (jc_started c) (fetch reply) t ?c)"
    by (intro client_step.finish) simp_all
  ultimately show ?thesis by simp
qed

text \<open>A client that holds the document, verifiers at chosen times, one that never waits, and a token of a
  key nobody published.\<close>

definition demo_warm :: JWKSClient where
  "demo_warm = demo_jwks_client\<lparr>jc_doc := Some [demo_jwk], jc_expiry := demo_now + hour,
     jc_fetchedAt := demo_now, jc_started := 1, jc_done := fmap_of_list [(0, Ok [demo_jwk])]\<rparr>"

definition demo_at :: "time \<Rightarrow> verifier" where
  "demo_at t = (demo_verifier NoAnswer)\<lparr>rv_now := \<lambda>k. t\<rparr>"

definition demo_hasty :: verifier where
  "demo_hasty = (demo_verifier NoAnswer)\<lparr>rv_await := \<lambda>i c. (None, c)\<rparr>"

definition demo_junk_token :: string where
  "demo_junk_token = signing_input ''k9'' fmempty @ ''.'' @ base64url_encode ''x''"

lemma demo_warm_simps [simp]:
  "jc_doc demo_warm = Some [demo_jwk]" "jc_expiry demo_warm = demo_now + hour" "jc_fetchedAt demo_warm = demo_now"
  "jc_minRefresh demo_warm = 30 * second" "jc_started demo_warm = 1"
  by (simp_all add: demo_warm_def demo_jwks_client_def)

lemma demo_warm_ok: "client_ok demo_warm"
  by (auto simp: client_ok_def demo_warm_def demo_jwks_client_def fmlookup_of_list split: if_split_asm)

lemma demo_rsa_key: "key_in [demo_jwk] ''k1'' = Ok demo_public" "key_in [demo_jwk] ''k9'' = Inl errJWKSKeyNotFound"
proof -
  have "sg_Public (ip_signer demo_idp) = Some demo_public" "sound_public demo_public"
    by (simp_all add: demo_idp_def demo_signer_def sound_public_def demo_public_def)
  from published_key[OF demo_idp_ok this] show "key_in [demo_jwk] ''k1'' = Ok demo_public"
    by (simp add: IDP_JWKS_def demo_idp_def demo_idp_cfg_def)
qed (simp add: key_in_def demo_jwk_def)

lemma demo_junk: "token_kid demo_junk_token = Ok (''k9'', base64url_encode (rs256_header ''k9''),
    base64url_encode (json_print (json_of_object fmempty)), base64url_encode ''x'')"
proof -
  have "valid_utf8 ''k9''" by code_simp
  then show ?thesis unfolding demo_junk_token_def by (rule token_kid_built) simp
qed

lemma demo_printable: "user_printable demo_user"
  by code_simp

lemma demo_hasty_verifies:
  "\<exists>token claims. VerifyRS256 demo_hasty token ''https://i'' demo_warm = (Ok claims, demo_warm)"
proof -
  obtain tokens w' where i: "IssueIdPTokenPair demo_idp_env demo_idp demo_user demo_world = (Ok tokens, w')"
    using demo_pair by blast
  obtain k k' custom w1 where b: "custom_claims demo_idp_env demo_user demo_world = (Ok custom, w1)"
    "BuildRS256JWT (e_crypto demo_idp_env) (Some (ip_signer demo_idp)) (ip_keyID demo_idp)
      (with_lifetime (pair_claims (ip_cfg demo_idp) (base_claims demo_user ++\<^sub>f custom))
        (ip_now demo_idp (w_tick w1)) (accessTokenTTL demo_idp)) k = (Ok (at_AccessToken tokens), k')"
    using IssueIdPTokenPair_Ok[OF i] by blast
  have c: "custom = fmempty" using b(1) by (simp add: custom_claims_def ret_def)
  have fed: "federated demo_hasty demo_idp_env demo_idp demo_public"
    using demo_federated[of NoAnswer] by (simp add: federated_def demo_hasty_def signs_for_def)
  have t: "ip_now demo_idp n = demo_now" "ip_keyID demo_idp = ''k1''" "rv_now demo_hasty n = demo_now" for n
    by (simp_all add: demo_idp_def demo_hasty_def demo_verifier_def)
  have "lookup_key demo_hasty ''k1'' demo_warm = (Ok demo_public, demo_warm)"
    using lookup_key_cached[of demo_warm "[demo_jwk]" demo_hasty] demo_rsa_key(1) by (simp add: t)
  moreover have "user_printable demo_user" "demo_now < time_of_unix (unix_of (demo_now + accessTokenTTL demo_idp))"
    "ic_Issuer (ip_cfg demo_idp) = ''https://i''"
    by (simp_all add: demo_printable demo_now_def unix_of_def time_of_unix_def accessTokenTTL_def
        demo_idp_def demo_idp_cfg_def defaultIDPAccessTokenTTL_def)
  ultimately show ?thesis
    using built_pair_verifies[OF fed b(2), of demo_warm demo_warm "''https://i''"] demo_near(1,2)
    by (auto simp: c t printable_def numbers_fit_def)
qed

section \<open>A login\<close>

lemma demo_idp_token:
  assumes "w_tick w < 255"
  shows "\<exists>tok ex. issueToken demo_idp_env u sid typ ttl w = (Ok (tok, ex), w\<lparr>w_tick := Suc (Suc (w_tick w))\<rparr>)"
  using assms
  by (simp add: issueToken_def Let_def thenDo_def clock_def tick_def draw_def demo_newID custom_claims_def ret_def)

lemma demo_idp_session:
  assumes "w_tick w < 250"
  shows "\<exists>tokens sid s. issueSession demo_idp_env u w =
    (Ok (tokens, sid), w\<lparr>w_tick := w_tick w + 6, w_sessions := s\<rparr>)"
proof -
  let ?k = "w_tick w" and ?sid = "''ses'' @ ''_'' @ hex_encode (demo_bytes (w_tick w) 16)"
  obtain a x where a: "issueToken demo_idp_env u ?sid ''refresh'' (cf_RefreshTokenTTL demo_cfg) (w\<lparr>w_tick := Suc ?k\<rparr>)
      = (Ok (a, x), w\<lparr>w_tick := Suc (Suc (Suc ?k))\<rparr>)"
    using demo_idp_token[of "w\<lparr>w_tick := Suc ?k\<rparr>"] assms by fastforce
  obtain b y where b: "issueToken demo_idp_env u ?sid ''access'' (cf_AccessTokenTTL demo_cfg) (w\<lparr>w_tick := Suc (Suc (Suc ?k))\<rparr>)
      = (Ok (b, y), w\<lparr>w_tick := Suc (Suc (Suc (Suc (Suc ?k))))\<rparr>)"
    using demo_idp_token[of "w\<lparr>w_tick := Suc (Suc (Suc ?k))\<rparr>"] assms by fastforce
  have n: "newID (demo_crypto []) ''ses'' ?k = (Ok ?sid, Suc ?k)" using assms by (simp add: demo_newID)
  have six: "?k + 6 = Suc (Suc (Suc (Suc (Suc (Suc ?k)))))" by simp
  show ?thesis
    unfolding six
    by (simp add: issueSession_def thenDo_def draw_def n[simplified] a[simplified] b[simplified] clock_def tick_def
        sessions_do_def CreateSession_def ret_def) (rule exI, rule refl)
qed

definition demo_login_form :: url_values where
  "demo_login_form = fmap_of_list [(''email'', [''a@b.c'']), (''password'', [''password''])]"

definition demo_query :: url_values where
  "demo_query = fmap_of_list [(''client_id'', [''app'']), (''redirect_uri'', [''https://app/cb'']), (''nonce'', [''n''])]"

definition demo_authorize :: authorize_request where
  "demo_authorize = \<lparr>az_Method = ''POST'', az_Query = demo_query, az_Form = Some demo_login_form\<rparr>"

definition demo_grant :: "string \<Rightarrow> url_values" where
  "demo_grant code = fmap_of_list [(''grant_type'', [''authorization_code'']), (''client_id'', [''app'']),
     (''client_secret'', [''secret'']), (''code'', [code])]"

definition demo_idp_start :: idp_world where
  "demo_idp_start = \<lparr>iw_world = demo_world, iw_codes = fmempty\<rparr>"

definition demo_code_bytes :: string where "demo_code_bytes = demo_bytes 6 24"

lemma demo_forms:
  "values_get demo_login_form ''email'' = ''a@b.c''" "values_get demo_login_form ''password'' = ''password''"
  "values_get demo_login_form ''tenant_id'' = []" "values_get demo_query ''client_id'' = ''app''"
  "values_get demo_query ''redirect_uri'' = ''https://app/cb''" "values_get demo_query ''nonce'' = ''n''"
  "values_get demo_query ''state'' = []" "values_get (demo_grant c) ''grant_type'' = ''authorization_code''"
  "values_get (demo_grant c) ''client_id'' = ''app''" "values_get (demo_grant c) ''client_secret'' = ''secret''"
  "values_get (demo_grant c) ''code'' = c"
  by (simp_all add: values_get_def demo_login_form_def demo_query_def demo_grant_def fmlookup_of_list)

lemma demo_idp_logs_in:
  "\<exists>tokens w. Login demo_idp_env ''a@b.c'' ''password'' [] demo_world = (Ok (demo_user, tokens), w) \<and>
     w_tick w = 6 \<and> w_users w = w_users demo_world"
proof -
  obtain tokens sid s where "issueSession demo_idp_env demo_user demo_world =
      (Ok (tokens, sid), demo_world\<lparr>w_tick := 6, w_sessions := s\<rparr>)"
    using demo_idp_session[of demo_world demo_user] by auto
  moreover have "loginPassword demo_idp_env ''a@b.c'' ''password'' [] demo_world = (Ok (demo_user, False), demo_world)"
    by (simp add: loginPassword_def demo_email demo_password demo_no_second_factor thenDo_def ret_def attempt_def
        users_get_def)
  ultimately show ?thesis
    by (simp add: Login_def thenDo_def completeLocalLogin_def publish_def ret_def)
qed

definition demo_endpoint_parser :: endpoint_parser where "demo_endpoint_parser u = Some (fmempty, \<lambda>q. u)"

lemma demo_authorizes:
  "\<exists>s. handleAuthorize demo_idp_env demo_endpoint_parser demo_idp demo_authorize demo_idp_start =
      (RedirectAnswer ''https://app/cb'', s) \<and> w_users (iw_world s) = w_users demo_world \<and>
     w_tick (iw_world s) = 9 \<and>
     fmlookup (iw_codes s) (hashToken demo_sha (base64url_encode demo_code_bytes)) =
       Some (issued_code demo_sha demo_idp demo_query ''https://app/cb'' demo_user (base64url_encode demo_code_bytes) demo_now)"
proof -
  obtain tokens w where l: "Login demo_idp_env ''a@b.c'' ''password'' [] demo_world = (Ok (demo_user, tokens), w)"
    "w_tick w = 6" "w_users w = w_users demo_world" using demo_idp_logs_in by blast
  have r: "randomToken demo_sha 24 6 = (Ok (base64url_encode demo_code_bytes), 7)"
    by (simp add: randomToken_def demo_crypto_def demo_code_bytes_def)
  have c: "fmlookup (ip_clients demo_idp) ''app'' = Some demo_client"
    by (simp add: demo_idp_def fmlookup_of_list)
  have m: "idpMatchedRedirect (cl_RedirectURIs demo_client) ''https://app/cb'' = ''https://app/cb''"
    by (simp add: idpMatchedRedirect_def demo_client_def)
  have t: "ip_now demo_idp k = demo_now" for k by (simp add: demo_idp_def)
  show ?thesis
    by (simp add: handleAuthorize_def demo_authorize_def demo_forms c m authorize_post_def demo_idp_start_def
        on_service_def l draw_def r read_clock_def save_code_def answer_def Let_def redirect_with_code_def
        demo_endpoint_parser_def SaveCode_lookup issued_code_def t)
qed

lemma demo_redeems:
  assumes "w_users (iw_world s) = w_users demo_world" "w_tick (iw_world s) = 9"
    "fmlookup (iw_codes s) (hashToken demo_sha code) = Some (issued_code demo_sha demo_idp demo_query u0 demo_user code demo_now)"
  shows "\<exists>body s'. handleToken demo_idp_env demo_idp (Some (demo_grant code)) s = (JsonAnswer body, s')"
proof -
  let ?m = "issued_code demo_sha demo_idp demo_query u0 demo_user code demo_now"
  have m: "ac_UserID ?m = ''usr_1''" "ac_TenantID ?m = []" "ac_ClientID ?m = ''app''" "demo_now \<le> ac_ExpiresAt ?m"
    by (simp_all add: issued_code_def demo_forms codeTTL_def demo_idp_def demo_idp_cfg_def defaultAuthCodeTTL_def)
  have c: "fmlookup (ip_clients demo_idp) ''app'' = Some demo_client" "cl_ClientSecret demo_client = ''secret''"
    by (simp_all add: demo_idp_def fmlookup_of_list demo_client_def)
  have t: "ip_now demo_idp k = demo_now" for k by (simp add: demo_idp_def)
  have consumed: "fst (ConsumeCode demo_now (hashToken demo_sha code) (iw_codes s)) = Ok ?m"
    using assms(3) m(4) by (simp add: ConsumeCode_result)
  obtain tokens sid ss where i: "issueSession demo_idp_env demo_user ((iw_world s)\<lparr>w_tick := 11\<rparr>) =
      (Ok (tokens, sid), (iw_world s)\<lparr>w_tick := 17, w_sessions := ss\<rparr>)"
    using demo_idp_session[of "(iw_world s)\<lparr>w_tick := 11\<rparr>" demo_user] by auto
  have b: "\<exists>tok w'. buildIDToken demo_idp_env demo_idp u a n w = (Ok tok, w')" for u a n w
    by (simp add: buildIDToken_def thenDo_def tick_def draw_def BuildRS256JWT_def demo_idp_def demo_signer_def
        demo_public_def usable_public_def Let_def)
  obtain tok w' where b: "buildIDToken demo_idp_env demo_idp demo_user ''app'' (ac_Nonce ?m)
      ((iw_world s)\<lparr>w_tick := 17, w_sessions := ss\<rparr>) = (Ok tok, w')"
    using b by blast
  show ?thesis
    using assms(1,2) m c consumed
    by (simp add: handleToken_def demo_forms consume_code_Ok read_clock_def ticked_on_def t redeem_def
        on_service_def users_get_def newSessionTokens_def thenDo_def i ret_def b answer_def token_answer_def Let_def)
qed

lemma demo_fresh_codes: "fresh_codes demo_idp_env"
proof -
  have "take 1 (demo_bytes k 24) = [chr k]" for k by (simp add: demo_bytes_def)
  then have "j = k" if "demo_bytes j 24 = demo_bytes k 24" "j < 256" "k < 256" for j k
    using that by (metis byte_chr list.inject)
  then show ?thesis
    by (auto simp: fresh_codes_def hashToken_eq demo_crypto_def dest!: base64url_encode_inj split: if_split_asm)
qed

end
