(* ===== verification/Event_Stream.thy ===== *)
theory Event_Stream
  imports Webhook_Sender
begin

text \<open>
  The frames of \<open>sse.go\<close>: JSON as \<open>sseMarshal\<close> writes it (no HTML escapes), the events and the bytes
  of a frame, and how a browser reads a stream of frames (the \<open>EventSource\<close> rules), which the round
  trip at the end is against. A value given as \<open>json.RawMessage\<close> stands for the value it encodes, so
  the compaction of indented input has nothing to do here.
\<close>

section \<open>JSON without HTML escapes\<close>

definition escape_plain :: "char \<Rightarrow> string" where
  "escape_plain c = (if c = CHR ''<'' \<or> c = CHR ''>'' \<or> c = CHR ''&'' then [c] else escape_ascii c)"

function json_escape_plain :: "string \<Rightarrow> string" where
  "json_escape_plain [] = []"
| "json_escape_plain (c # s) =
     (if byte c < 128 then escape_plain c @ json_escape_plain s
      else let n = rune_size (c # s) in
        if n = 0 then CHR 0x5C # ''ufffd'' @ json_escape_plain s
        else if take 3 (c # s) = [CHR 0xE2, CHR 0x80, CHR 0xA8]
          then CHR 0x5C # ''u2028'' @ json_escape_plain (drop n (c # s))
        else if take 3 (c # s) = [CHR 0xE2, CHR 0x80, CHR 0xA9]
          then CHR 0x5C # ''u2029'' @ json_escape_plain (drop n (c # s))
        else take n (c # s) @ json_escape_plain (drop n (c # s)))"
  by pat_completeness auto
termination by (relation "measure length") auto

declare json_escape_plain.simps(2) [simp del]

definition quote_plain :: "string \<Rightarrow> string" where
  "quote_plain s = CHR 0x22 # json_escape_plain s @ [CHR 0x22]"

text \<open>An object whose members are printed in the order given, as a struct's fields are.\<close>

definition members_plain :: "(string \<times> string) list \<Rightarrow> string" where
  "members_plain kvs = ''{'' @ join '','' (map (\<lambda>(k, v). quote_plain k @ '':'' @ v) kvs) @ ''}''"

fun json_plain :: "json \<Rightarrow> string" where
  "json_plain JNull = ''null''"
| "json_plain (JBool b) = (if b then ''true'' else ''false'')"
| "json_plain (JNum n) = n"
| "json_plain (JStr s) = quote_plain s"
| "json_plain (JArr vs) = ''['' @ join '','' (map json_plain vs) @ '']''"
| "json_plain (JObj kvs) = members_plain (sort_key fst (map (\<lambda>(k, v). (k, json_plain v)) kvs))"

text \<open>A payload: a value, a struct with its fields in order, or something the encoder refuses.\<close>

datatype payload = Value json | Struct "(string \<times> json) list" | Unencodable

definition struct_plain :: "(string \<times> json) list \<Rightarrow> string" where
  "struct_plain fs = members_plain (map (\<lambda>(k, v). (k, json_plain v)) fs)"

definition marshal_payload :: "payload \<Rightarrow> string option" where
  "marshal_payload p = (case p of
     Value v \<Rightarrow> Some (json_plain v) | Struct fs \<Rightarrow> Some (struct_plain fs) | Unencodable \<Rightarrow> None)"

section \<open>Frames\<close>

record StreamEvent =
  sv_ID :: string
  sv_Type :: string
  sv_Timestamp :: string
  sv_Data :: payload
  sv_UserID :: string
  sv_TenantID :: string
  sv_Topic :: string
  sv_Metadata :: "json_object option"

abbreviation newline :: string where "newline \<equiv> [CHR 0x0A]"

definition sse_lines :: "string \<Rightarrow> string \<Rightarrow> string \<Rightarrow> string" where
  "sse_lines i eventType data =
     ''id: '' @ i @ newline @ ''event: '' @ eventType @ newline @ ''data: '' @ data @ newline @ newline"

text \<open>A string member with \<open>omitzero\<close>.\<close>

definition omit_empty :: "string \<Rightarrow> string \<Rightarrow> (string \<times> string) list" where
  "omit_empty k s = (if s = [] then [] else [(k, quote_plain s)])"

definition sseFrame :: "StreamEvent \<Rightarrow> string option" where
  "sseFrame ev = map_option (\<lambda>raw. members_plain (
     [(''id'', quote_plain (sv_ID ev)), (''timestamp'', quote_plain (sv_Timestamp ev)),
      (''topic'', quote_plain (sv_Topic ev)), (''type'', quote_plain (sv_Type ev))] @
     omit_empty ''userId'' (sv_UserID ev) @ omit_empty ''tenantId'' (sv_TenantID ev) @
     (case sv_Metadata ev of None \<Rightarrow> [] | Some m \<Rightarrow> [(''metadata'', json_plain (json_of_object m))]) @
     [(''rawData'', raw)])) (marshal_payload (sv_Data ev))"

definition event_frame :: "StreamEvent \<Rightarrow> string option" where
  "event_frame ev = map_option (sse_lines (sv_ID ev) (sv_Type ev)) (sseFrame ev)"

definition connected_frame :: "string \<Rightarrow> string \<Rightarrow> string \<Rightarrow> string list \<Rightarrow> string" where
  "connected_frame eventID timestamp connectionID topics = sse_lines eventID ''connected'' (members_plain [
     (''id'', quote_plain eventID), (''type'', quote_plain ''connected''),
     (''timestamp'', quote_plain timestamp), (''topic'', quote_plain ''meta''),
     (''rawData'', struct_plain [(''connectionId'', JStr connectionID), (''topics'', JArr (map JStr topics))])])"

definition sseHeartbeatFrame :: string where
  "sseHeartbeatFrame = '': heartbeat'' @ newline @ newline"

section \<open>Reading a stream\<close>

text \<open>Lines end at a line feed, a carriage return, or both; an unfinished last line is not read.\<close>

function stream_lines :: "string \<Rightarrow> string \<Rightarrow> string list" where
  "stream_lines acc [] = []"
| "stream_lines acc (c # s) =
     (if c = CHR 0x0A then acc # stream_lines [] s
      else if c = CHR 0x0D then acc # stream_lines [] (if take 1 s = newline then drop 1 s else s)
      else stream_lines (acc @ [c]) s)"
  by pat_completeness auto
termination by (relation "measure (\<lambda>(acc, s). length s)") auto

definition stream_field :: "string \<Rightarrow> string \<times> string" where
  "stream_field l = (case cut_at CHR '':'' l of
     None \<Rightarrow> (l, []) | Some (name, v) \<Rightarrow> (name, if take 1 v = '' '' then drop 1 v else v))"

text \<open>The messages a stream dispatches: last event id, event type, data.\<close>

fun stream_messages :: "string \<Rightarrow> string \<Rightarrow> string list \<Rightarrow> string list \<Rightarrow> (string \<times> string \<times> string) list" where
  "stream_messages i e ds [] = []"
| "stream_messages i e ds (l # ls) =
     (if l = [] then (if ds = [] then [] else [(i, e, join newline ds)]) @ stream_messages i [] [] ls
      else if hd l = CHR '':'' then stream_messages i e ds ls
      else (case stream_field l of (name, v) \<Rightarrow>
        if name = ''id'' then stream_messages v e ds ls
        else if name = ''event'' then stream_messages i v ds ls
        else if name = ''data'' then stream_messages i e (ds @ [v]) ls
        else stream_messages i e ds ls))"

definition read_stream :: "string \<Rightarrow> (string \<times> string \<times> string) list" where
  "read_stream s = stream_messages [] [] [] (stream_lines [] s)"

section \<open>Laws\<close>

definition one_line :: "string \<Rightarrow> bool" where
  "one_line s \<longleftrightarrow> CHR 0x0A \<notin> set s \<and> CHR 0x0D \<notin> set s"

lemma one_line_simps [simp]:
  "one_line []" "one_line (s @ t) \<longleftrightarrow> one_line s \<and> one_line t"
  "one_line (c # s) \<longleftrightarrow> c \<noteq> CHR 0x0A \<and> c \<noteq> CHR 0x0D \<and> one_line s"
  by (auto simp: one_line_def)

subsection \<open>Encoded values are one line\<close>

lemma one_line_escape_plain: "one_line (escape_plain c)"
proof -
  have "hex_alphabet ! i \<noteq> CHR 0x0A \<and> hex_alphabet ! i \<noteq> CHR 0x0D" if "i < 16" for i
  proof -
    have "list_all (\<lambda>i. hex_alphabet ! i \<noteq> CHR 0x0A \<and> hex_alphabet ! i \<noteq> CHR 0x0D) [0..<16]" by code_simp
    then show ?thesis using that by (simp add: list_all_iff)
  qed
  then have "one_line (hex4 n)" for n by (simp add: hex4_def)
  then show ?thesis by (simp add: escape_plain_def escape_ascii_def)
qed

lemma one_line_rune:
  assumes "\<not> byte c < 128" "rune_size (c # s) = n"
  shows "one_line (take n (c # s))"
proof -
  have high: "d \<noteq> CHR 0x0A \<and> d \<noteq> CHR 0x0D" if "128 \<le> byte d" for d using that by auto
  have "128 \<le> byte d" if "cont d" for d using that by (simp add: cont_def)
  moreover have "128 \<le> byte d" if "second_ok b d" for b d
    using that by (auto simp: second_ok_def cont_def in_bytes_def split: if_splits)
  ultimately have "\<forall>d\<in>set (take n (c # s)). 128 \<le> byte d"
    using assms by (auto simp: rune_size_def Let_def split: if_splits list.splits)
  then show ?thesis using high by (auto simp: one_line_def)
qed

lemma one_line_json_escape_plain: "one_line (json_escape_plain s)"
proof (induction s rule: json_escape_plain.induct)
  case (2 c s)
  then show ?case
    using one_line_rune[of c s "rune_size (c # s)"]
    by (simp add: json_escape_plain.simps(2) one_line_escape_plain Let_def del: drop_Suc_Cons take_Suc_Cons)
qed simp

lemma one_line_quote [simp]: "one_line (quote_plain s)"
  by (simp add: quote_plain_def one_line_json_escape_plain)

lemma one_line_join: "one_line sep \<Longrightarrow> \<forall>x\<in>set xs. one_line x \<Longrightarrow> one_line (join sep xs)"
  by (induction sep xs rule: join.induct) auto

lemma one_line_members: "\<forall>(k, v)\<in>set kvs. one_line v \<Longrightarrow> one_line (members_plain kvs)"
  unfolding members_plain_def by (auto 0 4 intro!: one_line_join dest: bspec)

text \<open>Numbers are the text the encoder writes for them.\<close>

fun plain_numbers :: "json \<Rightarrow> bool" where
  "plain_numbers (JNum x) \<longleftrightarrow> one_line x"
| "plain_numbers (JArr vs) \<longleftrightarrow> list_all plain_numbers vs"
| "plain_numbers (JObj kvs) \<longleftrightarrow> list_all (\<lambda>(k, v). plain_numbers v) kvs"
| "plain_numbers v \<longleftrightarrow> True"

lemma one_line_json: "plain_numbers v \<Longrightarrow> one_line (json_plain v)"
proof (induction v rule: json_plain.induct)
  case (5 vs)
  then show ?case by (auto simp: list_all_iff intro!: one_line_join)
next
  case (6 kvs)
  then show ?case by (fastforce simp: list_all_iff intro!: one_line_members)
qed auto

fun plain_payload :: "payload \<Rightarrow> bool" where
  "plain_payload (Value v) \<longleftrightarrow> plain_numbers v"
| "plain_payload (Struct fs) \<longleftrightarrow> list_all (\<lambda>(k, v). plain_numbers v) fs"
| "plain_payload Unencodable \<longleftrightarrow> True"

lemma one_line_struct: "list_all (\<lambda>(k, v). plain_numbers v) fs \<Longrightarrow> one_line (struct_plain fs)"
  unfolding struct_plain_def by (rule one_line_members) (auto simp: list_all_iff one_line_json)

lemma one_line_payload: "plain_payload p \<Longrightarrow> marshal_payload p = Some d \<Longrightarrow> one_line d"
  by (cases p) (auto simp: marshal_payload_def one_line_json one_line_struct)

text \<open>A frame with metadata or data that encode is one line of data, and its identifier and topic are quoted in it.\<close>

definition plain_event :: "StreamEvent \<Rightarrow> bool" where
  "plain_event ev \<longleftrightarrow> plain_payload (sv_Data ev) \<and>
     (\<forall>m. sv_Metadata ev = Some m \<longrightarrow> plain_numbers (json_of_object m))"

lemma one_line_sseFrame:
  assumes "plain_event ev" "sseFrame ev = Some d"
  shows "one_line d"
proof -
  obtain raw where raw: "marshal_payload (sv_Data ev) = Some raw" using assms(2) by (auto simp: sseFrame_def)
  have "one_line raw" using one_line_payload[OF _ raw] assms(1) by (simp add: plain_event_def)
  moreover have "one_line (json_plain (json_of_object m))" if "sv_Metadata ev = Some m" for m
    using one_line_json assms(1) that by (simp add: plain_event_def)
  ultimately show ?thesis
    using assms(2) raw
    by (auto simp: sseFrame_def omit_empty_def intro!: one_line_members split: option.splits if_splits)
qed

subsection \<open>Reading what was written\<close>

lemma stream_lines_line: "one_line l \<Longrightarrow> stream_lines acc (l @ CHR 0x0A # r) = (acc @ l) # stream_lines [] r"
  by (induction l arbitrary: acc) auto

lemma stream_lines_frame:
  assumes "one_line i" "one_line t" "one_line d"
  shows "stream_lines [] (sse_lines i t d @ r) =
    [''id: '' @ i, ''event: '' @ t, ''data: '' @ d, []] @ stream_lines [] r"
  by (simp add: sse_lines_def stream_lines_line assms)

lemma read_frame:
  assumes "one_line i" "one_line t" "one_line d"
  shows "stream_messages i0 [] [] (stream_lines [] (sse_lines i t d @ r)) =
    (i, t, d) # stream_messages i [] [] (stream_lines [] r)"
  unfolding stream_lines_frame[OF assms] by (simp add: stream_field_def)

lemma read_heartbeat:
  "stream_messages i [] [] (stream_lines [] (sseHeartbeatFrame @ r)) = stream_messages i [] [] (stream_lines [] r)"
  by (simp add: sseHeartbeatFrame_def)

text \<open>An event's frame is read back as one message that carries its identifier, its type and its record,
  provided neither identifier nor type has a line break.\<close>

lemma event_frame_read_back:
  assumes "event_frame ev = Some f" "plain_event ev" "one_line (sv_ID ev)" "one_line (sv_Type ev)"
  shows "\<exists>d. sseFrame ev = Some d \<and> stream_messages i [] [] (stream_lines [] (f @ r)) =
    (sv_ID ev, sv_Type ev, d) # stream_messages (sv_ID ev) [] [] (stream_lines [] r)"
  using assms one_line_sseFrame[OF assms(2)] read_frame by (fastforce simp: event_frame_def)

text \<open>Without that proviso a type can carry a message of its own.\<close>

definition forging_type :: "string \<Rightarrow> string \<Rightarrow> string \<Rightarrow> string \<Rightarrow> string" where
  "forging_type t d i t' = t @ newline @ ''data: '' @ d @ newline @ newline @ ''id: '' @ i @ newline @ ''event: '' @ t'"

lemma forged_frame:
  "sse_lines i (forging_type t d i' t') d' = sse_lines i t d @ sse_lines i' t' d'"
  by (simp add: sse_lines_def forging_type_def)

end
