(* ===== verification/Sse_Hub.thy ===== *)
theory Sse_Hub
  imports Event_Stream
begin

text \<open>
  \<open>SseManager\<close> of \<open>sse.go\<close>: the registry of open streams, the broadcast, and the loop of \<open>Serve\<close>. A
  connection is shared: the registry, broadcasts under way and its own loop hold it, so connections live in a
  store of addresses (\<open>sm_heap\<close>) and the registry maps an identifier to an address. \<open>cn_out\<close> is the channel
  of frames, \<open>cn_done\<close> says that the \<open>done\<close> channel is closed, \<open>cn_wire\<close> is what the loop has written to
  the response, \<open>cn_serving\<close> that the loop still runs.
\<close>

section \<open>State\<close>

record sse_connection =
  cn_id :: string
  cn_topics :: "string fset"
  cn_userID :: string
  cn_tenantID :: string
  cn_out :: "string list"
  cn_done :: bool
  cn_lastEventID :: string
  cn_wire :: "string list"
  cn_serving :: bool

record SseConnectionMeta =
  sn_UserID :: string
  sn_TenantID :: string

text \<open>The distributor is the host's; \<open>Publish\<close> may answer differently every time.\<close>

record SseManager =
  sm_heartbeat :: duration
  sm_deduplicate :: bool
  sm_sendBuffer :: int
  sm_distributor :: "(nat \<Rightarrow> string \<Rightarrow> StreamEvent \<Rightarrow> error option) option"
  sm_connections :: "(string, nat) fmap"
  sm_heap :: "sse_connection list"

text \<open>Randomness, the format of instants, the clock, and which ready case a \<open>select\<close> takes.\<close>

record sse_env =
  ss_crypto :: crypto
  ss_format :: "time \<Rightarrow> string"
  ss_clock :: "nat \<Rightarrow> time"
  ss_pick :: "nat \<Rightarrow> nat \<Rightarrow> bool"

definition DefaultSseHeartbeatInterval :: duration where "DefaultSseHeartbeatInterval = 30 * second"
definition defaultSseSendBuffer :: int where "defaultSseSendBuffer = 64"

definition ErrSseStreamingUnsupported :: error where
  "ErrSseStreamingUnsupported = Message ''auth: response writer does not support streaming''"

type_synonym SseOption = "SseManager \<Rightarrow> SseManager"

definition WithSseHeartbeat :: "duration \<Rightarrow> SseOption" where
  "WithSseHeartbeat d m = m\<lparr>sm_heartbeat := d\<rparr>"

definition WithSseDeduplicate :: "bool \<Rightarrow> SseOption" where
  "WithSseDeduplicate on m = m\<lparr>sm_deduplicate := on\<rparr>"

definition WithSseDistributor :: "(nat \<Rightarrow> string \<Rightarrow> StreamEvent \<Rightarrow> error option) option \<Rightarrow> SseOption" where
  "WithSseDistributor d m = m\<lparr>sm_distributor := d\<rparr>"

definition WithSseSendBuffer :: "int \<Rightarrow> SseOption" where
  "WithSseSendBuffer n m = m\<lparr>sm_sendBuffer := n\<rparr>"

text \<open>A nil option is skipped; \<open>subscribed\<close> is what the distributor's \<open>Subscribe\<close> answers.\<close>

definition NewSseManager :: "error option \<Rightarrow> SseOption option list \<Rightarrow> SseManager result" where
  "NewSseManager subscribed opts =
     (let m = \<lparr>sm_heartbeat = DefaultSseHeartbeatInterval, sm_deduplicate = True,
            sm_sendBuffer = defaultSseSendBuffer, sm_distributor = None, sm_connections = fmempty, sm_heap = []\<rparr>;
          m = fold (\<lambda>opt m. case opt of None \<Rightarrow> m | Some f \<Rightarrow> f m) opts m;
          m = (if sm_heartbeat m < 0 then m\<lparr>sm_heartbeat := 0\<rparr> else m);
          m = (if sm_sendBuffer m < 1 then m\<lparr>sm_sendBuffer := 1\<rparr> else m)
      in if sm_distributor m \<noteq> None then (case subscribed of
             Some e \<Rightarrow> Inl (Wrapped ''auth: sse distributor subscribe'' e)
           | None \<Rightarrow> Ok m)
         else Ok m)"

definition ConnectionCount :: "SseManager \<Rightarrow> nat" where
  "ConnectionCount m = fcard (fmdom (sm_connections m))"

abbreviation conn :: "SseManager \<Rightarrow> nat \<Rightarrow> sse_connection" where
  "conn m a \<equiv> sm_heap m ! a"

definition set_conn :: "nat \<Rightarrow> sse_connection \<Rightarrow> SseManager \<Rightarrow> SseManager" where
  "set_conn a c m = m\<lparr>sm_heap := (sm_heap m)[a := c]\<rparr>"

section \<open>Disconnecting\<close>

definition Disconnect :: "string \<Rightarrow> SseManager \<Rightarrow> SseManager" where
  "Disconnect connectionID m = (case fmlookup (sm_connections m) connectionID of
     None \<Rightarrow> m
   | Some a \<Rightarrow> set_conn a ((conn m a)\<lparr>cn_done := True\<rparr>)
       (m\<lparr>sm_connections := fmdrop connectionID (sm_connections m)\<rparr>))"

section \<open>Broadcasting\<close>

text \<open>Who an event on a topic is for: the holders of the topic, except those of another tenant.\<close>

definition entitled :: "string \<Rightarrow> StreamEvent \<Rightarrow> sse_connection \<Rightarrow> bool" where
  "entitled topic ev c \<longleftrightarrow> topic |\<in>| cn_topics c \<and>
     \<not> (sv_TenantID ev \<noteq> [] \<and> cn_tenantID c \<noteq> [] \<and> cn_tenantID c \<noteq> sv_TenantID ev)"

text \<open>The registry is read in key order; \<open>Sse_Laws\<close> shows that the order makes no difference.\<close>

definition targets :: "string \<Rightarrow> StreamEvent \<Rightarrow> SseManager \<Rightarrow> nat list" where
  "targets topic ev m =
     filter (\<lambda>a. entitled topic ev (conn m a)) (map snd (sorted_list_of_fmap (sm_connections m)))"

text \<open>\<open>pick\<close> says that the \<open>select\<close> takes the closed \<open>done\<close> channel although the queue has room.\<close>

definition enqueue :: "bool \<Rightarrow> string \<Rightarrow> string \<Rightarrow> bool \<Rightarrow> int \<Rightarrow> sse_connection \<Rightarrow> bool \<times> sse_connection" where
  "enqueue pick eventID frame deduplicate room c =
     (let suppress = (deduplicate \<and> eventID = cn_lastEventID c);
          c = c\<lparr>cn_lastEventID := eventID\<rparr>
      in if suppress then (True, c)
         else if int (length (cn_out c)) < room \<and> \<not> (cn_done c \<and> pick)
         then (True, c\<lparr>cn_out := cn_out c @ [frame]\<rparr>)
         else if cn_done c then (True, c)
         else (False, c))"

definition deliver_frame :: "(nat \<Rightarrow> bool) \<Rightarrow> string \<Rightarrow> string \<Rightarrow> nat \<Rightarrow> SseManager \<Rightarrow> SseManager" where
  "deliver_frame pick eventID frame a m =
     (case enqueue (pick a) eventID frame (sm_deduplicate m) (sm_sendBuffer m) (conn m a) of
        (ok, c) \<Rightarrow> let m = set_conn a c m in if \<not> ok then Disconnect (cn_id c) m else m)"

definition broadcastLocal :: "(nat \<Rightarrow> bool) \<Rightarrow> string \<Rightarrow> StreamEvent \<Rightarrow> SseManager \<Rightarrow> SseManager" where
  "broadcastLocal pick topic ev m = (case event_frame ev of
     None \<Rightarrow> fold (\<lambda>a m. Disconnect (cn_id (conn m a)) m) (targets topic ev m) m
   | Some frame \<Rightarrow> fold (deliver_frame pick (sv_ID ev) frame) (targets topic ev m) m)"

text \<open>An absent identifier and timestamp are filled in; the second component counts what was drawn.\<close>

definition fill_event :: "sse_env \<Rightarrow> string \<Rightarrow> StreamEvent \<Rightarrow> nat \<Rightarrow> StreamEvent \<times> nat" where
  "fill_event v topic ev k =
     (let (ev, k) = (if sv_ID ev = [] then (case newUUIDv4 (ss_crypto v) k of
              (Inl _, k) \<Rightarrow> (ev, k) | (Inr i, k) \<Rightarrow> (ev\<lparr>sv_ID := i\<rparr>, k)) else (ev, k));
          (ev, k) = (if sv_Timestamp ev = [] then (ev\<lparr>sv_Timestamp := ss_format v (ss_clock v k)\<rparr>, Suc k)
            else (ev, k))
      in (ev\<lparr>sv_Topic := topic\<rparr>, k))"

definition Broadcast :: "sse_env \<Rightarrow> string \<Rightarrow> StreamEvent \<Rightarrow> nat \<times> SseManager \<Rightarrow> nat \<times> SseManager" where
  "Broadcast v topic ev km = (case km of (k, m) \<Rightarrow> case fill_event v topic ev k of (ev, k) \<Rightarrow>
     case sm_distributor m of
       None \<Rightarrow> (Suc k, broadcastLocal (ss_pick v k) topic ev m)
     | Some publish \<Rightarrow> (case publish k topic ev of
         None \<Rightarrow> (Suc k, m)
       | Some _ \<Rightarrow> (Suc k, broadcastLocal (ss_pick v k) topic ev m)))"

section \<open>Serving\<close>

text \<open>The start of \<open>Serve\<close>: \<open>flushes\<close> says that the response can be flushed, \<open>written\<close> what the write of
  the first frame answers. The frame is written before the connection is registered.\<close>

definition new_connection :: "string \<Rightarrow> string list \<Rightarrow> SseConnectionMeta \<Rightarrow> string \<Rightarrow> sse_connection" where
  "new_connection i topics meta frame = \<lparr>cn_id = i, cn_topics = fset_of_list topics, cn_userID = sn_UserID meta,
     cn_tenantID = sn_TenantID meta, cn_out = [], cn_done = False, cn_lastEventID = [], cn_wire = [frame],
     cn_serving = True\<rparr>"

definition serve_open ::
    "sse_env \<Rightarrow> bool \<Rightarrow> error option \<Rightarrow> string list \<Rightarrow> SseConnectionMeta \<Rightarrow> nat \<times> SseManager \<Rightarrow>
       nat result \<times> nat \<times> SseManager" where
  "serve_open v flushes written topics meta km = (case km of (k, m) \<Rightarrow>
     if \<not> flushes then (Inl ErrSseStreamingUnsupported, k, m)
     else case newUUIDv4 (ss_crypto v) k of
       (Inl e, k) \<Rightarrow> (Inl e, k, m)
     | (Inr i, k) \<Rightarrow> (case newUUIDv4 (ss_crypto v) k of
         (Inl e, k) \<Rightarrow> (Inl e, k, m)
       | (Inr eventID, k) \<Rightarrow>
           (let frame = connected_frame eventID (ss_format v (ss_clock v k)) i topics in
            case written of
              Some e \<Rightarrow> (Inl e, Suc k, m)
            | None \<Rightarrow> (Ok (length (sm_heap m)), Suc k,
                m\<lparr>sm_heap := sm_heap m @ [new_connection i topics meta frame],
                  sm_connections := fmupd i (length (sm_heap m)) (sm_connections m)\<rparr>))))"

text \<open>The loop returns: its deferred \<open>Disconnect\<close> runs, whatever ended it.\<close>

definition serve_end :: "nat \<Rightarrow> SseManager \<Rightarrow> SseManager" where
  "serve_end a m = Disconnect (cn_id (conn m a)) (set_conn a ((conn m a)\<lparr>cn_serving := False\<rparr>) m)"

text \<open>The three cases of the loop that write: a queued frame, a heartbeat; \<open>written\<close> is the write's answer.\<close>

definition serve_frame :: "error option \<Rightarrow> nat \<Rightarrow> SseManager \<Rightarrow> SseManager" where
  "serve_frame written a m = (case cn_out (conn m a) of
     [] \<Rightarrow> m
   | frame # rest \<Rightarrow> (let c = (conn m a)\<lparr>cn_out := rest\<rparr> in case written of
       Some _ \<Rightarrow> serve_end a (set_conn a c m)
     | None \<Rightarrow> set_conn a (c\<lparr>cn_wire := cn_wire c @ [frame]\<rparr>) m))"

definition serve_beat :: "error option \<Rightarrow> nat \<Rightarrow> SseManager \<Rightarrow> SseManager" where
  "serve_beat written a m =
     (if sm_heartbeat m \<le> 0 then m
      else case written of
        Some _ \<Rightarrow> serve_end a m
      | None \<Rightarrow> set_conn a ((conn m a)\<lparr>cn_wire := cn_wire (conn m a) @ [sseHeartbeatFrame]\<rparr>) m)"

section \<open>The bridge from the bus\<close>

text \<open>The handler of \<open>BridgeEventBus\<close>; \<open>topics\<close> is nothing for a nil resolver.\<close>

definition bridged_event :: "sse_env \<Rightarrow> string \<Rightarrow> Event \<Rightarrow> StreamEvent" where
  "bridged_event v i ev = \<lparr>sv_ID = i, sv_Type = ev_Name ev, sv_Timestamp = ss_format v (ev_Timestamp ev),
     sv_Data = Value (case ev_Data ev of None \<Rightarrow> JNull | Some m \<Rightarrow> json_of_object m),
     sv_UserID = ev_UserID ev, sv_TenantID = ev_TenantID ev, sv_Topic = [], sv_Metadata = None\<rparr>"

definition BridgeEventBus ::
    "sse_env \<Rightarrow> (Event \<Rightarrow> string list) option \<Rightarrow> Event \<Rightarrow> nat \<times> SseManager \<Rightarrow> nat \<times> SseManager" where
  "BridgeEventBus v topics ev km =
     (let names = (case topics of None \<Rightarrow> [] | Some f \<Rightarrow> f ev) in
      if names = [] then km
      else (case newUUIDv4 (ss_crypto v) (fst km) of (r, k) \<Rightarrow>
        fold (\<lambda>topic. Broadcast v topic (bridged_event v (case r of Inl _ \<Rightarrow> [] | Inr i \<Rightarrow> i) ev)) names (k, snd km)))"

end
