(* ===== verification/Auth_Tools.thy ===== *)
theory Auth_Tools
  imports Sse_Hub User_Store
begin

text \<open>
  \<open>telemetry.go\<close> and \<open>auth_tools.go\<close>: the store of telemetry events and its query, the topics of an event and
  of a connection, and the facade that feeds the store, the bus, the event stream and the webhooks from one
  call, or one user by stream, mail and text message.
\<close>

section \<open>The telemetry store\<close>

record TelemetryEvent =
  te_ID :: string
  te_EventName :: string
  te_UserID :: string
  te_TenantID :: string
  te_SessionID :: string
  te_CorrelationID :: string
  te_IP :: string
  te_UserAgent :: string
  te_Success :: bool
  te_Error :: string
  te_Timestamp :: time
  te_Meta :: "json_object option"

record TelemetryFilter =
  tf_UserID :: string
  tf_TenantID :: string
  tf_SessionID :: string
  tf_EventName :: string
  tf_Since :: time
  tf_Until :: time
  tf_Limit :: int
  tf_Offset :: int

type_synonym MemoryTelemetryStore = "TelemetryEvent list"

definition Record :: "TelemetryEvent \<Rightarrow> MemoryTelemetryStore \<Rightarrow> MemoryTelemetryStore" where
  "Record event events = events @ [event]"

text \<open>The tests of the loop that skip an event.\<close>

definition telemetry_matches :: "TelemetryFilter \<Rightarrow> TelemetryEvent \<Rightarrow> bool" where
  "telemetry_matches f e \<longleftrightarrow>
     \<not> (tf_UserID f \<noteq> [] \<and> te_UserID e \<noteq> tf_UserID f) \<and>
     \<not> (tf_TenantID f \<noteq> [] \<and> te_TenantID e \<noteq> tf_TenantID f) \<and>
     \<not> (tf_SessionID f \<noteq> [] \<and> te_SessionID e \<noteq> tf_SessionID f) \<and>
     \<not> (tf_EventName f \<noteq> [] \<and> te_EventName e \<noteq> tf_EventName f) \<and>
     \<not> (tf_Since f \<noteq> zero_time \<and> te_Timestamp e < tf_Since f) \<and>
     \<not> (tf_Until f \<noteq> zero_time \<and> te_Timestamp e > tf_Until f)"

text \<open>The loop, with the events skipped and the answer so far.\<close>

fun query_loop :: "TelemetryFilter \<Rightarrow> int \<Rightarrow> TelemetryEvent list \<Rightarrow> TelemetryEvent list \<Rightarrow> TelemetryEvent list" where
  "query_loop f skipped out [] = out"
| "query_loop f skipped out (e # es) =
     (if \<not> telemetry_matches f e then query_loop f skipped out es
      else if skipped < tf_Offset f then query_loop f (skipped + 1) out es
      else (let out = out @ [e] in
        if tf_Limit f > 0 \<and> int (length out) \<ge> tf_Limit f then out else query_loop f skipped out es))"

definition Query :: "TelemetryFilter \<Rightarrow> MemoryTelemetryStore \<Rightarrow> TelemetryEvent list" where
  "Query f events = query_loop f 0 [] events"

section \<open>Topics\<close>

definition SseTopicGlobal :: string where "SseTopicGlobal = ''global''"
definition SseTopicTenantPrefix :: string where "SseTopicTenantPrefix = ''tenant:''"
definition SseTopicUserPrefix :: string where "SseTopicUserPrefix = ''user:''"
definition SseTopicSessionPrefix :: string where "SseTopicSessionPrefix = ''session:''"

lemmas topic_defs = SseTopicGlobal_def SseTopicTenantPrefix_def SseTopicUserPrefix_def SseTopicSessionPrefix_def

definition EventTopics :: "Event \<Rightarrow> string list" where
  "EventTopics ev = SseTopicGlobal #
     (if ev_TenantID ev \<noteq> [] then [SseTopicTenantPrefix @ ev_TenantID ev] else []) @
     (if ev_UserID ev \<noteq> [] then [SseTopicUserPrefix @ ev_UserID ev] else []) @
     (if ev_SessionID ev \<noteq> [] then [SseTopicSessionPrefix @ ev_SessionID ev] else [])"

definition StreamTopics :: "string \<Rightarrow> string \<Rightarrow> string list \<Rightarrow> string list" where
  "StreamTopics userID tenantID requested =
     (let authorised = SseTopicGlobal # (if tenantID \<noteq> [] then [SseTopicTenantPrefix @ tenantID] else []) @
            (if userID \<noteq> [] then [SseTopicUserPrefix @ userID] else [])
      in if requested = [] then authorised
         else filter (\<lambda>want. list_ex (\<lambda>t. want = t) authorised) requested)"

section \<open>The record on the wire\<close>

definition omitted_member :: "string \<Rightarrow> string \<Rightarrow> (string \<times> json) list" where
  "omitted_member k s = (if s = [] then [] else [(k, JStr s)])"

text \<open>\<open>trackedRecord\<close>: the fields in their order, the optional ones left out when absent.\<close>

definition newTrackedRecord :: "(time \<Rightarrow> string) \<Rightarrow> TelemetryEvent \<Rightarrow> (string \<times> json) list" where
  "newTrackedRecord format r =
     [(''id'', JStr (te_ID r)), (''event'', JStr (te_EventName r)), (''timestamp'', JStr (format (te_Timestamp r)))] @
     (case te_Meta r of None \<Rightarrow> [] | Some m \<Rightarrow> [(''data'', json_of_object m)]) @
     omitted_member ''userId'' (te_UserID r) @ omitted_member ''tenantId'' (te_TenantID r) @
     omitted_member ''sessionId'' (te_SessionID r) @ omitted_member ''correlationId'' (te_CorrelationID r) @
     omitted_member ''ip'' (te_IP r) @ omitted_member ''userAgent'' (te_UserAgent r)"

section \<open>The facade\<close>

record MailMessage =
  ml_To :: string
  ml_Subject :: string
  ml_Body :: string
  ml_IsHTML :: bool
  ml_Text :: string

text \<open>
  What the facade acts on: the stores and the stream when configured, the events handed to the bus, the runs
  of the webhook sender, the messages handed to the transports, and the failures reported to \<open>OnError\<close>.
\<close>

record tools_world =
  tw_telemetry :: "MemoryTelemetryStore option"
  tw_bus :: "Event list"
  tw_sse :: "SseManager option"
  tw_webhooks :: "MemoryWebhookStore option"
  tw_sent :: "(WebhookConfig \<times> (unit result \<times> send_run)) list"
  tw_mails :: "MailMessage list"
  tw_texts :: "(string \<times> string) list"
  tw_reports :: "error list"
  tw_tick :: nat

text \<open>
  What is fixed or foreign: \<open>tl_record\<close> is the failure of a host's telemetry store (which then keeps nothing),
  \<open>tl_subscribers\<close> what the subscribers of the bus do with an event, \<open>tl_users\<close> the lookup of the user store,
  \<open>tl_mail\<close> and \<open>tl_sms\<close> the answers of the transports, \<open>tl_reads\<close> where the sender's runs read.
\<close>

record AuthTools =
  tl_sse :: sse_env
  tl_send :: send_env
  tl_reads :: "nat \<Rightarrow> nat \<Rightarrow> nat"
  tl_version :: string
  tl_record :: "nat \<Rightarrow> error option"
  tl_subscribers :: "Event \<Rightarrow> tools_world \<Rightarrow> tools_world"
  tl_users :: "(nat \<Rightarrow> string \<Rightarrow> string \<Rightarrow> User result) option"
  tl_mail :: "(nat \<Rightarrow> MailMessage \<Rightarrow> error option) option"
  tl_sms :: "(nat \<Rightarrow> string \<Rightarrow> string \<Rightarrow> error option) option"
  tl_onError :: bool

record TrackOptions =
  to_UserID :: string
  to_TenantID :: string
  to_SessionID :: string
  to_CorrelationID :: string
  to_IP :: string
  to_UserAgent :: string

text \<open>The constructor: whether there is a bus, whether a stream is wanted, and the stream's own constructor.\<close>

definition NewAuthTools :: "bool \<Rightarrow> bool \<Rightarrow> error option \<Rightarrow> SseOption option list \<Rightarrow> SseManager option result" where
  "NewAuthTools bus sse subscribed opts =
     (if \<not> bus then Inl (Message ''auth: event bus is required'')
      else if sse then (case NewSseManager subscribed opts of
          Inl e \<Rightarrow> Inl (Wrapped ''auth: auth tools sse'' e) | Inr m \<Rightarrow> Ok (Some m))
      else Ok None)"

abbreviation tick_tools :: "tools_world \<Rightarrow> tools_world" where
  "tick_tools w \<equiv> w\<lparr>tw_tick := Suc (tw_tick w)\<rparr>"

definition reportError :: "AuthTools \<Rightarrow> error \<Rightarrow> tools_world \<Rightarrow> tools_world" where
  "reportError t e w = (if tl_onError t then w\<lparr>tw_reports := tw_reports w @ [e]\<rparr> else w)"

definition record_telemetry :: "AuthTools \<Rightarrow> TelemetryEvent \<Rightarrow> tools_world \<Rightarrow> tools_world" where
  "record_telemetry t r w = (case tw_telemetry w of
     None \<Rightarrow> w
   | Some events \<Rightarrow> (case tl_record t (tw_tick w) of
       Some e \<Rightarrow> reportError t (Wrapped ''auth: telemetry record'' e) (tick_tools w)
     | None \<Rightarrow> (tick_tools w)\<lparr>tw_telemetry := Some (Record r events)\<rparr>))"

text \<open>The event on the stream, once for each of its topics, under one identifier.\<close>

definition stream_event :: "AuthTools \<Rightarrow> string \<Rightarrow> TelemetryEvent \<Rightarrow> Event \<Rightarrow> StreamEvent" where
  "stream_event t i r ev = \<lparr>sv_ID = i, sv_Type = ev_Name ev, sv_Timestamp = ss_format (tl_sse t) (ev_Timestamp ev),
     sv_Data = Struct (newTrackedRecord (ss_format (tl_sse t)) r), sv_UserID = ev_UserID ev,
     sv_TenantID = ev_TenantID ev, sv_Topic = [], sv_Metadata = None\<rparr>"

definition on_stream :: "(nat \<times> SseManager \<Rightarrow> nat \<times> SseManager) \<Rightarrow> tools_world \<Rightarrow> tools_world" where
  "on_stream f w = (case tw_sse w of
     None \<Rightarrow> w
   | Some m \<Rightarrow> (case f (tw_tick w, m) of (k, m) \<Rightarrow> w\<lparr>tw_tick := k, tw_sse := Some m\<rparr>))"

text \<open>The emitter: what its runs fail with is reported with the subscription's identifier.\<close>

definition emit :: "AuthTools \<Rightarrow> Event \<Rightarrow> tools_world \<Rightarrow> tools_world" where
  "emit t ev w = (case tw_webhooks w of
     None \<Rightarrow> w
   | Some s \<Rightarrow>
       (let runs = Emit (tl_send t) (ss_format (tl_sse t)) (ss_clock (tl_sse t) (tw_tick w)) (tl_version t)
              (tl_reads t (tw_tick w)) s ev;
            w = (tick_tools w)\<lparr>tw_sent := tw_sent w @ runs\<rparr>
        in fold (\<lambda>(config, r, _). case r of
             Inl e \<Rightarrow> reportError t (if wc_ID config = [] then e else Wrapped (''auth: webhook '' @ wc_ID config) e)
           | Inr _ \<Rightarrow> id) runs w))"

definition telemetry_of :: "string \<Rightarrow> Event \<Rightarrow> TelemetryEvent" where
  "telemetry_of i ev = \<lparr>te_ID = i, te_EventName = ev_Name ev, te_UserID = ev_UserID ev, te_TenantID = ev_TenantID ev,
     te_SessionID = ev_SessionID ev, te_CorrelationID = ev_CorrelationID ev, te_IP = ev_IP ev,
     te_UserAgent = ev_UserAgent ev, te_Success = False, te_Error = [], te_Timestamp = ev_Timestamp ev,
     te_Meta = ev_Data ev\<rparr>"

definition fanOut :: "AuthTools \<Rightarrow> Event \<Rightarrow> bool \<Rightarrow> tools_world \<Rightarrow> tools_world" where
  "fanOut t ev publishOnBus w =
     (case newUUIDv4 (ss_crypto (tl_sse t)) (tw_tick w) of (drawn, k) \<Rightarrow>
      let i = (case drawn of Inl _ \<Rightarrow> [] | Inr i \<Rightarrow> i);
          w = w\<lparr>tw_tick := k\<rparr>;
          (ev, w) = (if ev_Timestamp ev = zero_time
            then (ev\<lparr>ev_Timestamp := ss_clock (tl_sse t) (tw_tick w)\<rparr>, tick_tools w) else (ev, w));
          r = telemetry_of i ev;
          w = record_telemetry t r w;
          w = (if publishOnBus then tl_subscribers t ev (w\<lparr>tw_bus := tw_bus w @ [ev]\<rparr>) else w);
          w = on_stream (fold (\<lambda>topic. Broadcast (tl_sse t) topic (stream_event t i r ev)) (EventTopics ev)) w
      in emit t ev w)"

text \<open>\<open>t\<close> is nothing for a nil facade; \<open>ctx\<close> is the event context of the call.\<close>

definition tracked_event :: "EventContext option \<Rightarrow> time \<Rightarrow> string \<Rightarrow> json_object option \<Rightarrow> TrackOptions \<Rightarrow> Event" where
  "tracked_event ctx now eventName data opts = WithRequestContext ctx
     \<lparr>ev_Name = eventName, ev_UserID = to_UserID opts, ev_TenantID = to_TenantID opts, ev_Timestamp = now,
      ev_Data = data, ev_SessionID = to_SessionID opts, ev_CorrelationID = to_CorrelationID opts,
      ev_IP = to_IP opts, ev_UserAgent = to_UserAgent opts\<rparr>"

definition Track ::
    "AuthTools option \<Rightarrow> EventContext option \<Rightarrow> string \<Rightarrow> json_object option \<Rightarrow> TrackOptions \<Rightarrow> tools_world \<Rightarrow> tools_world" where
  "Track t ctx eventName data opts w = (case t of
     None \<Rightarrow> w
   | Some t \<Rightarrow> fanOut t (tracked_event ctx (ss_clock (tl_sse t) (tw_tick w)) eventName data opts) True (tick_tools w))"

text \<open>The handler \<open>Bridge\<close> subscribes to every event of the bus.\<close>

definition bridge_handler :: "AuthTools \<Rightarrow> Event \<Rightarrow> tools_world \<Rightarrow> tools_world" where
  "bridge_handler t ev w = fanOut t ev False w"

section \<open>Notifications\<close>

datatype NotifyChannel = NotifyChannelSSE | NotifyChannelEmail | NotifyChannelSMS | OtherChannel string

record NotifyOptions =
  no_Type :: string
  no_TenantID :: string
  no_UserID :: string
  no_Metadata :: "json_object option"
  no_Channels :: "NotifyChannel list"
  no_EmailSubject :: string
  no_SMSMessage :: string

definition hasChannel :: "NotifyChannel list \<Rightarrow> NotifyChannel \<Rightarrow> bool" where
  "hasChannel channels want \<longleftrightarrow> list_ex (\<lambda>c. c = want) channels"

text \<open>JSON as \<open>SetIndent("", "  ")\<close> lays it out, at a depth.\<close>

definition indent :: "nat \<Rightarrow> string" where
  "indent d = newline @ concat (replicate d ''  '')"

definition brackets :: "string \<Rightarrow> string \<Rightarrow> nat \<Rightarrow> string list \<Rightarrow> string" where
  "brackets l r d items = (if items = [] then l @ r
     else l @ indent (Suc d) @ join ('','' @ indent (Suc d)) items @ indent d @ r)"

fun json_pretty :: "nat \<Rightarrow> json \<Rightarrow> string" where
  "json_pretty d (JArr vs) = brackets ''['' '']'' d (map (json_pretty (Suc d)) vs)"
| "json_pretty d (JObj kvs) = brackets ''{'' ''}'' d (map (\<lambda>(k, v). quote_plain k @ '': '' @ v)
     (sort_key fst (map (\<lambda>(k, v). (k, json_pretty (Suc d) v)) kvs)))"
| "json_pretty d v = json_plain v"

text \<open>A string is sent as it is; nothing for a value that does not encode.\<close>

definition notifyBody :: "json option \<Rightarrow> bool \<Rightarrow> string option" where
  "notifyBody data indented = (case data of
     None \<Rightarrow> None
   | Some (JStr s) \<Rightarrow> Some s
   | Some v \<Rightarrow> Some (if indented then json_pretty 0 v else json_plain v))"

definition errUnencodable :: error where "errUnencodable = Message ''json: unsupported value''"

definition notify_mail :: "string \<Rightarrow> string \<Rightarrow> NotifyOptions \<Rightarrow> MailMessage" where
  "notify_mail address body opts =
     (let subject = (if no_EmailSubject opts = [] then no_Type opts else no_EmailSubject opts);
          subject = (if subject = [] then ''Notification'' else subject)
      in \<lparr>ml_To = address, ml_Subject = subject,
          ml_Body = ''<p>'' @ concat (map (\<lambda>c. if c = CHR 0x0A then ''<br>'' else [c]) body) @ ''</p>'',
          ml_IsHTML = True, ml_Text = body\<rparr>)"

text \<open>The first step: the stream.\<close>

definition notify_stream :: "AuthTools \<Rightarrow> string \<Rightarrow> json option \<Rightarrow> NotifyOptions \<Rightarrow> tools_world \<Rightarrow> tools_world" where
  "notify_stream t target data opts = on_stream (Broadcast (tl_sse t) target
     \<lparr>sv_ID = [], sv_Type = (if no_Type opts = [] then ''notification'' else no_Type opts), sv_Timestamp = [],
      sv_Data = (case data of None \<Rightarrow> Unencodable | Some v \<Rightarrow> Value v), sv_UserID = no_UserID opts,
      sv_TenantID = no_TenantID opts, sv_Topic = [], sv_Metadata = no_Metadata opts\<rparr>)"

text \<open>The second: mail, on its own goroutine, to a user with an address.\<close>

definition notify_email :: "AuthTools \<Rightarrow> User \<Rightarrow> json option \<Rightarrow> NotifyOptions \<Rightarrow> tools_world \<Rightarrow> tools_world" where
  "notify_email t user data opts w = (case tl_mail t of
     None \<Rightarrow> w
   | Some send \<Rightarrow>
       if u_Email user = [] then w
       else (case notifyBody data True of
         None \<Rightarrow> reportError t (Wrapped ''auth: notify email body'' errUnencodable) w
       | Some body \<Rightarrow>
           (let msg = notify_mail (u_Email user) body opts;
                w' = (tick_tools w)\<lparr>tw_mails := tw_mails w @ [msg]\<rparr> in
            case send (tw_tick w) msg of
              None \<Rightarrow> w'
            | Some e \<Rightarrow> reportError t (Wrapped (''auth: notify email to user '' @ no_UserID opts) e) w')))"

text \<open>The third: a text message, to a user with a number.\<close>

definition notify_text :: "AuthTools \<Rightarrow> User \<Rightarrow> json option \<Rightarrow> NotifyOptions \<Rightarrow> tools_world \<Rightarrow> tools_world" where
  "notify_text t user data opts w = (case tl_sms t of
     None \<Rightarrow> w
   | Some send \<Rightarrow>
       if u_PhoneNumber user = [] then w
       else (case (if no_SMSMessage opts = [] then notifyBody data False else Some (no_SMSMessage opts)) of
         None \<Rightarrow> reportError t (Wrapped ''auth: notify sms body'' errUnencodable) w
       | Some message \<Rightarrow>
           (let w' = (tick_tools w)\<lparr>tw_texts := tw_texts w @ [(u_PhoneNumber user, message)]\<rparr> in
            case send (tw_tick w) (u_PhoneNumber user) message of
              None \<Rightarrow> w'
            | Some e \<Rightarrow> reportError t (Wrapped (''auth: notify sms to user '' @ no_UserID opts) e) w')))"

definition Notify ::
    "AuthTools option \<Rightarrow> string \<Rightarrow> json option \<Rightarrow> NotifyOptions \<Rightarrow> tools_world \<Rightarrow> tools_world" where
  "Notify facade target data opts w = (case facade of
     None \<Rightarrow> w
   | Some t \<Rightarrow>
       (let channels = (if no_Channels opts = [] then [NotifyChannelSSE] else no_Channels opts);
            w = (if hasChannel channels NotifyChannelSSE then notify_stream t target data opts w else w);
            wantEmail = hasChannel channels NotifyChannelEmail;
            wantSMS = hasChannel channels NotifyChannelSMS
        in if (\<not> wantEmail \<and> \<not> wantSMS) \<or> no_UserID opts = [] then w
           else (case tl_users t of
             None \<Rightarrow> w
           | Some lookup \<Rightarrow> (case lookup (tw_tick w) (no_UserID opts) (no_TenantID opts) of
               Inl e \<Rightarrow> reportError t (Wrapped (''auth: notify lookup for user '' @ no_UserID opts) e) (tick_tools w)
             | Inr user \<Rightarrow>
                 (let w = tick_tools w;
                      w = (if wantEmail then notify_email t user data opts w else w)
                  in if wantSMS then notify_text t user data opts w else w)))))"

end
