(* ===== verification/Tools_Router.thy ===== *)
theory Tools_Router
  imports Auth_Tools Resource_Server CSRF
begin

text \<open>
  The tools router: \<open>tools.go\<close> (which routes are mounted, and behind which guard), \<open>tools_track_notify.go\<close>,
  \<open>tools_stream.go\<close> and \<open>tools_telemetry.go\<close>. A handler takes a request and the world of the facade to an
  answer and the world it leaves; the guard of the host is any function from handlers to handlers.
\<close>

section \<open>Requests and answers\<close>

text \<open>A request with what \<open>net/http\<close> and \<open>net/url\<close> made of it: the escaped path, the query, the body (nothing
  for no body), the address of the peer, and the user that a guard put into its context.\<close>

record tools_request = http_request +
  tq_EscapedPath :: string
  tq_Query :: url_values
  tq_Body :: "string option"
  tq_RemoteAddr :: string
  tq_User :: "User option"
  tq_Context :: "EventContext option"

datatype tools_answer =
    ToolsError HTTPError
  | ToolsOK int
  | ToolsData "(string \<times> json) list list"
  | ToolsStreaming nat
  | ToolsCommitted
  | ToolsSpec
  | ToolsPage
  | ToolsNotFound

type_synonym tools_handler = "tools_request \<Rightarrow> tools_world \<Rightarrow> tools_answer \<times> tools_world"

text \<open>The host's and the library's functions the routes use: \<open>tc_split\<close> is \<open>net.SplitHostPort\<close>, \<open>tc_number\<close> what a
  JSON number is printed as after it was read as a float, \<open>tc_layout\<close> \<open>time.Parse\<close> in one of the four layouts.\<close>

record tools_libs =
  tc_ClientIP :: "(tools_request \<Rightarrow> string) option"
  tc_split :: "string \<Rightarrow> (string \<times> string) option"
  tc_number :: "string \<Rightarrow> string option"
  tc_layout :: "nat \<Rightarrow> string \<Rightarrow> time option"

record ToolsAccess =
  ta_Middleware :: "(tools_handler \<Rightarrow> tools_handler) option"

record ToolsOptions =
  tp_Enabled :: bool
  tp_AuthTools :: "AuthTools option"
  tp_Access :: "ToolsAccess option"
  tp_DisableTelemetry :: bool
  tp_DisableNotify :: bool
  tp_DisableStream :: bool
  tp_DisableWebhook :: bool
  tp_Docs_Enabled :: bool
  tp_TelemetryStore :: "(nat \<Rightarrow> TelemetryFilter \<Rightarrow> TelemetryEvent list result) option"

record ToolsFeatures =
  tf_Telemetry :: bool
  tf_Notify :: bool
  tf_Stream :: bool
  tf_Webhook :: bool

definition ToolsProtected :: "(tools_handler \<Rightarrow> tools_handler) option \<Rightarrow> ToolsAccess option" where
  "ToolsProtected mw = (if mw = None then None else Some \<lparr>ta_Middleware = mw\<rparr>)"

definition ToolsPublic :: "ToolsAccess option" where
  "ToolsPublic = Some \<lparr>ta_Middleware = None\<rparr>"

definition Features :: "ToolsOptions \<Rightarrow> ToolsFeatures" where
  "Features o' = \<lparr>tf_Telemetry = \<not> tp_DisableTelemetry o', tf_Notify = \<not> tp_DisableNotify o',
     tf_Stream = \<not> tp_DisableStream o', tf_Webhook = \<not> tp_DisableWebhook o'\<rparr>"

definition ToolsMounted :: "ToolsOptions \<Rightarrow> bool" where
  "ToolsMounted o' \<longleftrightarrow> tp_Enabled o' \<and> tp_AuthTools o' \<noteq> None \<and> tp_Access o' \<noteq> None"

definition ToolsProtectMiddleware :: "ToolsOptions \<Rightarrow> tools_handler \<Rightarrow> tools_handler" where
  "ToolsProtectMiddleware o' = (case tp_Access o' of
     None \<Rightarrow> (\<lambda>next. next)
   | Some access \<Rightarrow> (case ta_Middleware access of None \<Rightarrow> (\<lambda>next. next) | Some mw \<Rightarrow> mw))"

section \<open>Paths\<close>

definition ToolsTrackPath :: string where "ToolsTrackPath = ''/track''"
definition ToolsNotifyPath :: string where "ToolsNotifyPath = ''/notify''"
definition ToolsStreamPath :: string where "ToolsStreamPath = ''/stream''"
definition ToolsTelemetryPath :: string where "ToolsTelemetryPath = ''/telemetry''"
definition ToolsWebhookPath :: string where "ToolsWebhookPath = ''/webhook''"
definition DocsSpecPath :: string where "DocsSpecPath = ''/openapi.json''"
definition DocsUIPath :: string where "DocsUIPath = ''/docs''"

lemmas tools_paths = ToolsTrackPath_def ToolsNotifyPath_def ToolsStreamPath_def ToolsTelemetryPath_def
  ToolsWebhookPath_def DocsSpecPath_def DocsUIPath_def

definition toolsRelativePath :: "string \<Rightarrow> string \<Rightarrow> string" where
  "toolsRelativePath p mount = (if p = mount then ''/''
     else if prefix (mount @ ''/'') p then drop (length mount) p else p)"

text \<open>\<open>url.PathUnescape\<close>.\<close>

fun path_unescape :: "string \<Rightarrow> string option" where
  "path_unescape [] = Some []"
| "path_unescape (c # s) =
     (if c = CHR 0x25 then (case s of
          a # b # s' \<Rightarrow> (case (hex_value a, hex_value b) of
            (Some x, Some y) \<Rightarrow> map_option (Cons (chr (16 * x + y))) (path_unescape s')
          | _ \<Rightarrow> None)
        | _ \<Rightarrow> None)
      else map_option (Cons c) (path_unescape s))"

definition toolsPathParam :: "string \<Rightarrow> tools_request \<Rightarrow> string \<Rightarrow> string" where
  "toolsPathParam mount rq pre =
     (let rel = toolsRelativePath (tq_EscapedPath rq) mount in
      if \<not> prefix (pre @ ''/'') rel then []
      else (let segment = drop (length pre + 1) rel in
        if segment = [] \<or> CHR ''/'' \<in> set segment then []
        else (case path_unescape segment of None \<Rightarrow> [] | Some s \<Rightarrow> s)))"

definition isToolsRead :: "tools_request \<Rightarrow> bool" where
  "isToolsRead rq \<longleftrightarrow> rq_Method rq = ''GET'' \<or> rq_Method rq = ''HEAD''"

definition toolsRouterPath :: "string \<Rightarrow> tools_request \<Rightarrow> string" where
  "toolsRouterPath mount rq = toolsRelativePath (rq_Path rq) mount"

section \<open>Bodies\<close>

text \<open>\<open>json.Decoder.Decode\<close>: the first value of the body; \<open>Some None\<close> is a body that is absent or blank.\<close>

definition first_value :: "string option \<Rightarrow> json option option" where
  "first_value body = (case body of
     None \<Rightarrow> Some None
   | Some s \<Rightarrow> if skip s = [] then Some None
       else map_option (\<lambda>(v, _). Some v) (parse_value (2 * length s + 2) 0 s))"

text \<open>A value read into an \<open>any\<close>: numbers through a float, the last of repeated members.\<close>

fun read_any :: "(string \<Rightarrow> string option) \<Rightarrow> json \<Rightarrow> json option" where
  "read_any num (JNum x) = map_option JNum (num x)"
| "read_any num (JArr vs) = map_option JArr (those (map (read_any num) vs))"
| "read_any num (JObj kvs) = map_option (\<lambda>vs. json_of_object (fold (\<lambda>(k, v). fmupd k v) (zip (map fst kvs) vs) fmempty))
     (those (map (\<lambda>(k, v). read_any num v) kvs))"
| "read_any num v = Some v"

text \<open>A \<open>map[string]any\<close> target: null makes it nil, an object is added to what is there.\<close>

definition read_map :: "(string \<Rightarrow> string option) \<Rightarrow> json \<Rightarrow> json_object option \<Rightarrow> json_object option option" where
  "read_map num v old = (case v of
     JNull \<Rightarrow> Some None
   | JObj kvs \<Rightarrow> map_option (\<lambda>vs. Some (fold (\<lambda>(k, x). fmupd k x) (zip (map fst kvs) vs)
         (case old of None \<Rightarrow> fmempty | Some m \<Rightarrow> m))) (those (map (\<lambda>(k, x). read_any num x) kvs))
   | _ \<Rightarrow> None)"

definition decode_pointer :: "json \<Rightarrow> string option \<Rightarrow> string option option" where
  "decode_pointer v old = (case v of JNull \<Rightarrow> Some None | JStr s \<Rightarrow> Some (Some s) | _ \<Rightarrow> None)"

record track_body =
  tb_Data :: "json_object option"
  tb_UserID :: "string option"
  tb_TenantID :: string
  tb_SessionID :: string
  tb_CorrelationID :: string

definition track_fields :: "string list" where
  "track_fields = [''data'', ''userId'', ''tenantId'', ''sessionId'', ''correlationId'']"

definition decode_track :: "(string \<Rightarrow> string option) \<Rightarrow> string option \<Rightarrow> track_body option" where
  "decode_track num body = do {
     first \<leftarrow> first_value body;
     kvs \<leftarrow> (case first of None \<Rightarrow> Some [] | Some v \<Rightarrow> object_members v);
     data \<leftarrow> decode_each (read_map num) (field_values track_fields ''data'' kvs) None;
     userID \<leftarrow> decode_each decode_pointer (field_values track_fields ''userId'' kvs) None;
     tenantID \<leftarrow> decode_each decode_string (field_values track_fields ''tenantId'' kvs) [];
     sessionID \<leftarrow> decode_each decode_string (field_values track_fields ''sessionId'' kvs) [];
     correlationID \<leftarrow> decode_each decode_string (field_values track_fields ''correlationId'' kvs) [];
     Some \<lparr>tb_Data = data, tb_UserID = userID, tb_TenantID = tenantID, tb_SessionID = sessionID,
       tb_CorrelationID = correlationID\<rparr>
   }"

record notify_body =
  nb_Data :: json
  nb_Type :: string
  nb_TenantID :: string
  nb_UserID :: string
  nb_Metadata :: "json_object option"

definition notify_fields :: "string list" where
  "notify_fields = [''data'', ''type'', ''tenantId'', ''userId'', ''metadata'']"

definition decode_notify :: "(string \<Rightarrow> string option) \<Rightarrow> string option \<Rightarrow> notify_body option" where
  "decode_notify num body = do {
     first \<leftarrow> first_value body;
     kvs \<leftarrow> (case first of None \<Rightarrow> Some [] | Some v \<Rightarrow> object_members v);
     data \<leftarrow> decode_each (\<lambda>v _. read_any num v) (field_values notify_fields ''data'' kvs) JNull;
     ty \<leftarrow> decode_each decode_string (field_values notify_fields ''type'' kvs) [];
     tenantID \<leftarrow> decode_each decode_string (field_values notify_fields ''tenantId'' kvs) [];
     userID \<leftarrow> decode_each decode_string (field_values notify_fields ''userId'' kvs) [];
     metadata \<leftarrow> decode_each (read_map num) (field_values notify_fields ''metadata'' kvs) None;
     Some \<lparr>nb_Data = data, nb_Type = ty, nb_TenantID = tenantID, nb_UserID = userID, nb_Metadata = metadata\<rparr>
   }"

section \<open>The routes\<close>

text \<open>\<open>HTTPConfig.clientIP\<close> and \<open>firstHeaderValue\<close> of \<open>event_context.go\<close>.\<close>

definition clientIP :: "tools_libs \<Rightarrow> tools_request \<Rightarrow> string" where
  "clientIP cfg rq = (case tc_ClientIP cfg of
     Some f \<Rightarrow> f rq
   | None \<Rightarrow> (case tc_split cfg (tq_RemoteAddr rq) of
       Some (host, _) \<Rightarrow> if host \<noteq> [] then host else tq_RemoteAddr rq
     | None \<Rightarrow> tq_RemoteAddr rq))"

definition firstHeaderValue :: "tools_request \<Rightarrow> string \<Rightarrow> string" where
  "firstHeaderValue rq name =
     (case find (\<lambda>(k, v). to_lower k = to_lower name) (rq_Headers rq) of None \<Rightarrow> [] | Some (k, v) \<Rightarrow> v)"

definition CorrelationIDHeader :: string where "CorrelationIDHeader = ''X-Correlation-Id''"

definition EventContextFromRequest :: "tools_libs \<Rightarrow> tools_request \<Rightarrow> EventContext" where
  "EventContextFromRequest cfg rq = \<lparr>ec_CorrelationID = firstHeaderValue rq CorrelationIDHeader,
     ec_IP = clientIP cfg rq, ec_UserAgent = firstHeaderValue rq ''User-Agent''\<rparr>"

definition EventContextMiddleware :: "tools_libs \<Rightarrow> tools_handler \<Rightarrow> tools_handler" where
  "EventContextMiddleware cfg next rq = next (rq\<lparr>tq_Context := Some (EventContextFromRequest cfg rq)\<rparr>)"

definition toolsInvalidBody :: HTTPError where
  "toolsInvalidBody = http_error 400 ''Invalid request body'' []"

definition toolsTrackHandler :: "tools_libs \<Rightarrow> ToolsOptions \<Rightarrow> string \<Rightarrow> tools_handler" where
  "toolsTrackHandler cfg o' mount rq w = (case decode_track (tc_number cfg) (tq_Body rq) of
     None \<Rightarrow> (ToolsError toolsInvalidBody, w)
   | Some body \<Rightarrow>
       (let userID = (case tb_UserID body of
              Some u \<Rightarrow> u
            | None \<Rightarrow> (case tq_User rq of Some user \<Rightarrow> u_ID user | None \<Rightarrow> []))
        in (ToolsOK 202, Track (tp_AuthTools o') (tq_Context rq) (toolsPathParam mount rq ToolsTrackPath) (tb_Data body)
          \<lparr>to_UserID = userID, to_TenantID = tb_TenantID body, to_SessionID = tb_SessionID body,
           to_CorrelationID = tb_CorrelationID body, to_IP = clientIP cfg rq,
           to_UserAgent = firstHeaderValue rq ''User-Agent''\<rparr> w)))"

definition toolsNotifyHandler :: "tools_libs \<Rightarrow> ToolsOptions \<Rightarrow> string \<Rightarrow> tools_handler" where
  "toolsNotifyHandler cfg o' mount rq w = (case decode_notify (tc_number cfg) (tq_Body rq) of
     None \<Rightarrow> (ToolsError toolsInvalidBody, w)
   | Some body \<Rightarrow> (ToolsOK 202, Notify (tp_AuthTools o') (toolsPathParam mount rq ToolsNotifyPath) (Some (nb_Data body))
       \<lparr>no_Type = nb_Type body, no_TenantID = nb_TenantID body, no_UserID = nb_UserID body,
        no_Metadata = nb_Metadata body, no_Channels = [], no_EmailSubject = [], no_SMSMessage = []\<rparr> w))"

subsection \<open>The stream\<close>

definition ToolsStreamTokenParam :: string where "ToolsStreamTokenParam = ''token''"
definition ToolsStreamTopicsParam :: string where "ToolsStreamTopicsParam = ''topics''"

definition HTTPErrSseNotEnabled :: HTTPError where
  "HTTPErrSseNotEnabled = http_error 503 ''SSE not enabled'' []"

definition query_values :: "tools_request \<Rightarrow> string \<Rightarrow> string list" where
  "query_values rq name = (case fmlookup (tq_Query rq) name of None \<Rightarrow> [] | Some vs \<Rightarrow> vs)"

definition toolsSseQueryToken :: "tools_request \<Rightarrow> string option" where
  "toolsSseQueryToken rq = (case query_values rq ToolsStreamTokenParam of
     [v] \<Rightarrow> if v = [] then None else Some v
   | _ \<Rightarrow> None)"

text \<open>\<open>Header.Set\<close> replaces every line of the name.\<close>

definition header_set :: "string \<Rightarrow> string \<Rightarrow> (string \<times> string) list \<Rightarrow> (string \<times> string) list" where
  "header_set name value headers = (name, value) # filter (\<lambda>(k, v). to_lower k \<noteq> to_lower name) headers"

definition ToolsSseTokenMiddleware :: "tools_handler \<Rightarrow> tools_handler" where
  "ToolsSseTokenMiddleware next rq w = (case toolsSseQueryToken rq of
     None \<Rightarrow> next rq w
   | Some token \<Rightarrow> next (rq\<lparr>rq_Headers := header_set ''Authorization'' (''Bearer '' @ token) (rq_Headers rq)\<rparr>) w)"

definition toolsStreamRequestedTopics :: "string list \<Rightarrow> string list" where
  "toolsStreamRequestedTopics values = (case values of
     [v] \<Rightarrow> filter (\<lambda>t. t \<noteq> []) (map trim_space (split_on (CHR '','') v))
   | _ \<Rightarrow> [])"

text \<open>The stream opens (its loop is the manager's); \<open>flushes\<close> and \<open>written\<close> are the response's.\<close>

definition toolsStreamHandler :: "ToolsOptions \<Rightarrow> bool \<Rightarrow> error option \<Rightarrow> tools_handler" where
  "toolsStreamHandler o' flushes written rq w = (case tp_AuthTools o' of
     None \<Rightarrow> (ToolsError HTTPErrSseNotEnabled, w)
   | Some t \<Rightarrow> (case tw_sse w of
       None \<Rightarrow> (ToolsError HTTPErrSseNotEnabled, w)
     | Some m \<Rightarrow>
         (let user = (case tq_User rq of Some u \<Rightarrow> u | None \<Rightarrow> zero_user);
              topics = StreamTopics (u_ID user) (u_TenantID user)
                (toolsStreamRequestedTopics (query_values rq ToolsStreamTopicsParam))
          in case serve_open (tl_sse t) flushes written topics
                 \<lparr>sn_UserID = u_ID user, sn_TenantID = u_TenantID user\<rparr> (tw_tick w, m) of
            (r, k, m) \<Rightarrow> (case r of
                Inr a \<Rightarrow> ToolsStreaming a
              | Inl e \<Rightarrow> if e = ErrSseStreamingUnsupported then ToolsError HTTPErrInternal else ToolsCommitted,
              w\<lparr>tw_tick := k, tw_sse := Some m\<rparr>))))"

subsection \<open>The telemetry query\<close>

definition HTTPErrTelemetryQueryUnsupported :: HTTPError where
  "HTTPErrTelemetryQueryUnsupported = http_error 501 ''Telemetry query not supported by the configured store'' []"

text \<open>\<open>strconv.Atoi\<close> of the leading sign and digits, or the default.\<close>

definition adminQueryInt :: "string \<Rightarrow> int \<Rightarrow> int" where
  "adminQueryInt raw def =
     (let s = trim_space raw in
      if s = [] then def
      else (let start = (if hd s = CHR ''+'' \<or> hd s = CHR ''-'' then 1 else 0);
                digits = takeWhile ascii_digit (drop start s);
                n = (if hd s = CHR ''-'' then - int (digits_value digits) else int (digits_value digits))
            in if digits = [] then def else if is_int64 n then n else def))"

fun first_layout :: "(nat \<Rightarrow> string \<Rightarrow> time option) \<Rightarrow> nat list \<Rightarrow> string \<Rightarrow> time" where
  "first_layout parse [] raw = zero_time"
| "first_layout parse (i # is) raw = (case parse i raw of Some t \<Rightarrow> t | None \<Rightarrow> first_layout parse is raw)"

definition toolsTelemetryTime :: "(nat \<Rightarrow> string \<Rightarrow> time option) \<Rightarrow> string \<Rightarrow> time" where
  "toolsTelemetryTime parse raw = (if raw = [] then zero_time else first_layout parse [0, 1, 2, 3] raw)"

definition toolsTelemetryFilter :: "(nat \<Rightarrow> string \<Rightarrow> time option) \<Rightarrow> url_values \<Rightarrow> TelemetryFilter" where
  "toolsTelemetryFilter parse query =
     (let get = (\<lambda>name. case fmlookup query name of Some (v # _) \<Rightarrow> v | _ \<Rightarrow> []) in
      \<lparr>tf_UserID = get ''userId'', tf_TenantID = get ''tenantId'', tf_SessionID = [], tf_EventName = get ''event'',
       tf_Since = toolsTelemetryTime parse (get ''from''), tf_Until = toolsTelemetryTime parse (get ''to''),
       tf_Limit = adminQueryInt (get ''limit'') 0, tf_Offset = adminQueryInt (get ''offset'') 0\<rparr>)"

definition toolsTelemetryHandler :: "tools_libs \<Rightarrow> ToolsOptions \<Rightarrow> (time \<Rightarrow> string) \<Rightarrow> tools_handler" where
  "toolsTelemetryHandler cfg o' format rq w = (case tp_TelemetryStore o' of
     None \<Rightarrow> (ToolsError HTTPErrTelemetryQueryUnsupported, w)
   | Some query \<Rightarrow>
       (case query (tw_tick w) (toolsTelemetryFilter (tc_layout cfg) (tq_Query rq)) of
          Inl e \<Rightarrow> (ToolsError HTTPErrInternal, tick_tools w)
        | Inr events \<Rightarrow> (ToolsData (map (newTrackedRecord format) events), tick_tools w)))"

end
