(* ===== verification/Tools_Webhook.thy ===== *)
theory Tools_Webhook
  imports Tools_Router Settings_Store
begin

text \<open>
  \<open>tools_webhook.go\<close>: the route of inbound webhooks, which no guard covers, and the dispatch of the whole
  router (\<open>ToolsHandler\<close> of \<open>tools.go\<close>). The runner of scripts, the store of configurations, the settings and
  the host's hook are parameters that may answer differently every time.
\<close>

section \<open>Inbound webhooks\<close>

record InboundScriptRequest =
  iq_Provider :: string
  iq_WebhookID :: string
  iq_Script :: string
  iq_Body :: string
  iq_Actions :: "string list"

record InboundScriptResult =
  ir_Event :: string
  ir_Data :: "json_object option"
  ir_UserID :: string
  ir_TenantID :: string

record inbound =
  ib_store :: "(nat \<Rightarrow> string \<Rightarrow> WebhookConfig option result) option"
  ib_runner :: "(nat \<Rightarrow> InboundScriptRequest \<Rightarrow> (InboundScriptResult \<times> bool) result) option"
  ib_hook :: "(nat \<Rightarrow> tools_request \<Rightarrow> string \<Rightarrow> string \<Rightarrow> (InboundScriptResult \<times> bool) result) option"
  ib_settings :: "(nat \<Rightarrow> AuthSettings result) option"
  ib_maxBytes :: int

definition DefaultInboundWebhookMaxBytes :: int where "DefaultInboundWebhookMaxBytes = 100 * 1024"

definition HTTPErrWebhookFailed :: HTTPError where
  "HTTPErrWebhookFailed = http_error 400 ''Webhook processing failed'' []"

definition toolsInboundMounted :: "ToolsOptions \<Rightarrow> inbound \<Rightarrow> bool" where
  "toolsInboundMounted o' ib \<longleftrightarrow> tf_Webhook (Features o') \<and> (ib_hook ib \<noteq> None \<or> ib_store ib \<noteq> None)"

subsection \<open>The body\<close>

definition trimJSONSpace :: "string \<Rightarrow> string" where
  "trimJSONSpace b = rev (dropWhile json_space (rev (dropWhile json_space b)))"

definition toolsInboundBody :: "inbound \<Rightarrow> string option \<Rightarrow> string result" where
  "toolsInboundBody ib body =
     (let limit = (if ib_maxBytes ib \<le> 0 then DefaultInboundWebhookMaxBytes else ib_maxBytes ib) in
      case body of
        None \<Rightarrow> Ok ''{}''
      | Some b \<Rightarrow>
          if int (length b) > limit then Inl (Message ''http: request body too large'')
          else (let trimmed = trimJSONSpace b in
            if trimmed = [] then Ok ''{}''
            else if hd trimmed \<noteq> CHR ''{'' \<and> hd trimmed \<noteq> CHR ''['' then Inl (Message ''body is not a JSON object or array'')
            else if json_parse trimmed = None then Inl (Message ''body is not valid JSON'')
            else Ok trimmed))"

subsection \<open>Which actions a script may take\<close>

text \<open>The loop over the allowed actions, with those seen and those kept so far.\<close>

fun resolve_loop :: "string fset \<Rightarrow> string fset \<Rightarrow> string list \<Rightarrow> string list \<Rightarrow> string list" where
  "resolve_loop enabled seen resolved [] = resolved"
| "resolve_loop enabled seen resolved (i # is) =
     (if i |\<notin>| enabled then resolve_loop enabled seen resolved is
      else if i |\<in>| seen then resolve_loop enabled seen resolved is
      else resolve_loop enabled (finsert i seen) (resolved @ [i]) is)"

definition resolveInboundActions :: "string list \<Rightarrow> string list \<Rightarrow> string list" where
  "resolveInboundActions enabled allowed =
     (if enabled = [] \<or> allowed = [] then []
      else resolve_loop (fset_of_list enabled) {||} [] allowed)"

text \<open>A settings store that fails enables nothing. The second component counts the read.\<close>

definition inboundEnabledActions :: "inbound \<Rightarrow> nat \<Rightarrow> string list \<times> nat" where
  "inboundEnabledActions ib k = (case ib_settings ib of
     None \<Rightarrow> ([], k)
   | Some get \<Rightarrow> (case get k of
       Inl _ \<Rightarrow> ([], Suc k)
     | Inr settings \<Rightarrow> (case as_EnabledWebhookActions settings of None \<Rightarrow> [] | Some xs \<Rightarrow> xs, Suc k)))"

subsection \<open>The route\<close>

definition errNoRunner :: error where
  "errNoRunner = Message ''a webhook script is configured and ToolsOptions.ScriptRunner is nil''"

definition runInboundScript ::
    "inbound \<Rightarrow> string \<Rightarrow> WebhookConfig \<Rightarrow> string \<Rightarrow> nat \<Rightarrow> (InboundScriptResult option) result \<times> nat" where
  "runInboundScript ib provider config body k =
     (case inboundEnabledActions ib k of (enabled, k) \<Rightarrow>
      let actions = resolveInboundActions enabled (case wc_AllowedActions config of None \<Rightarrow> [] | Some xs \<Rightarrow> xs) in
      case ib_runner ib of
        None \<Rightarrow> (Inl errNoRunner, k)
      | Some run \<Rightarrow> (case run k \<lparr>iq_Provider = provider, iq_WebhookID = wc_ID config, iq_Script = wc_JSScript config,
            iq_Body = body, iq_Actions = actions\<rparr> of
          Inl e \<Rightarrow> (Inl e, Suc k)
        | Inr (r, emits) \<Rightarrow> (Ok (if emits then Some r else None), Suc k)))"

text \<open>The host's hook, where no script declared anything.\<close>

definition inbound_fallback ::
    "inbound \<Rightarrow> tools_request \<Rightarrow> string \<Rightarrow> string \<Rightarrow> nat \<Rightarrow> (InboundScriptResult option) result \<times> nat" where
  "inbound_fallback ib rq provider body k = (case ib_hook ib of
     None \<Rightarrow> (Ok None, k)
   | Some hook' \<Rightarrow> (case hook' k rq provider body of
       Inl e \<Rightarrow> (Inl e, Suc k)
     | Inr (r, emits) \<Rightarrow> (Ok (if emits then Some r else None), Suc k)))"

definition toolsInboundResult ::
    "inbound \<Rightarrow> tools_request \<Rightarrow> string \<Rightarrow> string \<Rightarrow> nat \<Rightarrow> (InboundScriptResult option) result \<times> nat" where
  "toolsInboundResult ib rq provider body k = (case ib_store ib of
     None \<Rightarrow> inbound_fallback ib rq provider body k
   | Some find' \<Rightarrow> (case find' k provider of
       Inl e \<Rightarrow> (Inl e, Suc k)
     | Inr None \<Rightarrow> inbound_fallback ib rq provider body (Suc k)
     | Inr (Some config) \<Rightarrow>
         if wc_JSScript config = [] then inbound_fallback ib rq provider body (Suc k)
         else (case runInboundScript ib provider config body (Suc k) of
           (Inl e, k) \<Rightarrow> (Inl e, k)
         | (Inr (Some r), k) \<Rightarrow> (Ok (Some r), k)
         | (Inr None, k) \<Rightarrow> inbound_fallback ib rq provider body k)))"

definition toolsInboundWebhookHandler :: "ToolsOptions \<Rightarrow> inbound \<Rightarrow> string \<Rightarrow> tools_handler" where
  "toolsInboundWebhookHandler o' ib mount rq w =
     (let provider = toolsPathParam mount rq ToolsWebhookPath in
      if provider = [] then (ToolsError HTTPErrWebhookFailed, w)
      else (case toolsInboundBody ib (tq_Body rq) of
        Inl e \<Rightarrow> (ToolsError HTTPErrWebhookFailed, w)
      | Inr body \<Rightarrow> (case toolsInboundResult ib rq provider body (tw_tick w) of
          (Inl e, k) \<Rightarrow> (ToolsError HTTPErrWebhookFailed, w\<lparr>tw_tick := k\<rparr>)
        | (Inr None, k) \<Rightarrow> (ToolsOK 200, w\<lparr>tw_tick := k\<rparr>)
        | (Inr (Some r), k) \<Rightarrow> (ToolsOK 200, Track (tp_AuthTools o') (tq_Context rq) (ir_Event r) (ir_Data r)
            \<lparr>to_UserID = ir_UserID r, to_TenantID = ir_TenantID r, to_SessionID = [], to_CorrelationID = [],
             to_IP = [], to_UserAgent = []\<rparr> (w\<lparr>tw_tick := k\<rparr>)))))"

section \<open>The router\<close>

text \<open>What serves a response: whether it can be flushed, and what its first write answers.\<close>

definition ToolsHandler ::
    "tools_libs \<Rightarrow> ToolsOptions \<Rightarrow> inbound \<Rightarrow> string \<Rightarrow> (time \<Rightarrow> string) \<Rightarrow> bool \<Rightarrow> error option \<Rightarrow> tools_handler" where
  "ToolsHandler cfg o' ib mount format flushes written rq w =
     (let protect = ToolsProtectMiddleware o'; f = Features o'; rel = toolsRouterPath mount rq;
          post = (\<lambda>pre. rq_Method rq = ''POST'' \<and> toolsPathParam mount rq pre \<noteq> [])
      in if tf_Telemetry f \<and> post ToolsTrackPath then protect (toolsTrackHandler cfg o' mount) rq w
         else if tf_Notify f \<and> post ToolsNotifyPath then protect (toolsNotifyHandler cfg o' mount) rq w
         else if tf_Stream f \<and> rel = ToolsStreamPath \<and> isToolsRead rq
         then ToolsSseTokenMiddleware (protect (toolsStreamHandler o' flushes written)) rq w
         else if tf_Telemetry f \<and> tp_TelemetryStore o' \<noteq> None \<and> rel = ToolsTelemetryPath \<and> isToolsRead rq
         then protect (toolsTelemetryHandler cfg o' format) rq w
         else if toolsInboundMounted o' ib \<and> post ToolsWebhookPath then toolsInboundWebhookHandler o' ib mount rq w
         else if tp_Docs_Enabled o' \<and> rel = DocsSpecPath \<and> isToolsRead rq then (ToolsSpec, w)
         else if tp_Docs_Enabled o' \<and> rel = DocsUIPath \<and> isToolsRead rq then (ToolsPage, w)
         else (ToolsNotFound, w))"

end
