(* ===== verification/Sse_Laws.thy ===== *)
theory Sse_Laws
  imports Sse_Hub "HOL-Library.Sublist" "HOL-Library.Multiset"
begin

text \<open>
  What the event stream guarantees. A locale holds the relations that deliveries and disconnections
  respect; it is interpreted for what they leave alone, for the invariant, and for reachability. Then the
  broadcast in closed form (so the order in which the registry is walked makes no difference), and the
  interleaving of many broadcasts, loops and disconnections.
\<close>

lemma conn_set_conn [simp]:
  "a < length (sm_heap m) \<Longrightarrow> conn (set_conn b c m) a = (if a = b then c else conn m a)"
  "sm_connections (set_conn b c m) = sm_connections m" "length (sm_heap (set_conn b c m)) = length (sm_heap m)"
  "sm_sendBuffer (set_conn b c m) = sm_sendBuffer m" "sm_deduplicate (set_conn b c m) = sm_deduplicate m"
  "sm_heartbeat (set_conn b c m) = sm_heartbeat m" "sm_distributor (set_conn b c m) = sm_distributor m"
  by (auto simp: set_conn_def nth_list_update)

section \<open>Relations that broadcasts respect\<close>

locale hub_relation =
  fixes R :: "SseManager \<Rightarrow> SseManager \<Rightarrow> bool"
  assumes same: "R m m" and trans: "R m1 m2 \<Longrightarrow> R m2 m3 \<Longrightarrow> R m1 m3"
    and disconnecting: "R m (Disconnect i m)"
    and delivering: "R m (deliver_frame pick eventID frame a m)"
begin

lemma folding: "(\<And>x m. R m (f x m)) \<Longrightarrow> R m (fold f xs m)"
  by (induction xs arbitrary: m) (auto intro: same trans)

lemma broadcasting: "R m (broadcastLocal pick topic ev m)"
  unfolding broadcastLocal_def
  by (auto split: option.split intro: folding disconnecting delivering)

lemma Broadcasting: "R (snd km) (snd (Broadcast v topic ev km))"
  by (auto simp: Broadcast_def split: prod.split option.split intro: same broadcasting)

lemma Broadcasts: "R (snd km) (snd (fold (\<lambda>topic. Broadcast v topic ev) topics km))"
proof (induction topics arbitrary: km)
  case (Cons topic topics)
  show ?case using trans[OF Broadcasting[of km v topic ev] Cons.IH] by simp
qed (simp add: same)

lemma bridging: "R (snd km) (snd (BridgeEventBus v topics ev km))"
  using Broadcasts[of "(snd (newUUIDv4 (ss_crypto v) (fst km)), snd km)"]
  by (auto simp: BridgeEventBus_def Let_def same split: prod.split)

end

text \<open>The parts of a connection that are fixed when it is opened, and all it was ever given.\<close>

definition identity :: "sse_connection \<Rightarrow> string \<times> string fset \<times> string \<times> string" where
  "identity c = (cn_id c, cn_topics c, cn_userID c, cn_tenantID c)"

definition given :: "sse_connection \<Rightarrow> string list" where
  "given c = cn_wire c @ cn_out c"

definition only_queues :: "SseManager \<Rightarrow> SseManager \<Rightarrow> bool" where
  "only_queues m m' \<longleftrightarrow> length (sm_heap m') = length (sm_heap m) \<and>
     (\<forall>a<length (sm_heap m). identity (conn m' a) = identity (conn m a) \<and> cn_wire (conn m' a) = cn_wire (conn m a) \<and>
        cn_serving (conn m' a) = cn_serving (conn m a) \<and> prefix (cn_out (conn m a)) (cn_out (conn m' a)) \<and>
        (cn_done (conn m a) \<longrightarrow> cn_done (conn m' a))) \<and>
     (\<forall>i a. fmlookup (sm_connections m') i = Some a \<longrightarrow> fmlookup (sm_connections m) i = Some a) \<and>
     sm_sendBuffer m' = sm_sendBuffer m \<and> sm_deduplicate m' = sm_deduplicate m \<and>
     sm_heartbeat m' = sm_heartbeat m \<and> sm_distributor m' = sm_distributor m"

text \<open>Registered connections are those of their identifier and are not closed; no queue exceeds its room.\<close>

definition hub_ok :: "SseManager \<Rightarrow> bool" where
  "hub_ok m \<longleftrightarrow> 1 \<le> sm_sendBuffer m \<and>
     (\<forall>i a. fmlookup (sm_connections m) i = Some a \<longrightarrow>
        a < length (sm_heap m) \<and> cn_id (conn m a) = i \<and> \<not> cn_done (conn m a)) \<and>
     (\<forall>a<length (sm_heap m). int (length (cn_out (conn m a))) \<le> sm_sendBuffer m)"

lemma Disconnect_conn:
  assumes "a < length (sm_heap m)"
  shows "conn (Disconnect i m) a =
    (if fmlookup (sm_connections m) i = Some a then (conn m a)\<lparr>cn_done := True\<rparr> else conn m a)"
  using assms by (auto simp: Disconnect_def set_conn_def nth_list_update split: option.split)

lemma Disconnect_simps [simp]:
  "length (sm_heap (Disconnect i m)) = length (sm_heap m)" "sm_connections (Disconnect i m) = fmdrop i (sm_connections m)"
  "sm_sendBuffer (Disconnect i m) = sm_sendBuffer m" "sm_deduplicate (Disconnect i m) = sm_deduplicate m"
  "sm_heartbeat (Disconnect i m) = sm_heartbeat m" "sm_distributor (Disconnect i m) = sm_distributor m"
proof -
  have "fmdrop i (sm_connections m) = sm_connections m" if "fmlookup (sm_connections m) i = None"
    using that by (intro fmap_ext) (auto simp: fmdrop_lookup)
  then show "sm_connections (Disconnect i m) = fmdrop i (sm_connections m)"
    by (auto simp: Disconnect_def split: option.split)
qed (auto simp: Disconnect_def split: option.split)

lemma only_queues_refl: "only_queues m m"
  by (simp add: only_queues_def)

lemma only_queues_trans: "only_queues m1 m2 \<Longrightarrow> only_queues m2 m3 \<Longrightarrow> only_queues m1 m3"
  unfolding only_queues_def by (auto intro: prefix_order.trans)

lemma only_queues_Disconnect: "only_queues m (Disconnect i m)"
  by (simp add: only_queues_def Disconnect_conn identity_def fmdrop_lookup)

lemma enqueue_fixed:
  assumes "enqueue pick i f d n c = (ok, c')"
  shows "identity c' = identity c" "cn_wire c' = cn_wire c" "cn_serving c' = cn_serving c" "cn_done c' = cn_done c"
    "cn_out c' = cn_out c \<or> cn_out c' = cn_out c @ [f] \<and> int (length (cn_out c)) < n" "cn_lastEventID c' = i"
    "\<not> ok \<Longrightarrow> cn_out c' = cn_out c \<and> n \<le> int (length (cn_out c)) \<and> \<not> cn_done c"
  using assms by (auto simp: enqueue_def identity_def Let_def split: if_split_asm)

lemma only_queues_set_conn:
  assumes "identity c = identity (conn m a)" "cn_wire c = cn_wire (conn m a)" "cn_serving c = cn_serving (conn m a)"
    "cn_done c = cn_done (conn m a)" "prefix (cn_out (conn m a)) (cn_out c)"
  shows "only_queues m (set_conn a c m)"
  using assms by (simp add: only_queues_def)

interpretation queues: hub_relation only_queues
proof unfold_locales
  fix m :: SseManager and pick eventID frame a
  obtain ok c where e: "enqueue (pick a) eventID frame (sm_deduplicate m) (sm_sendBuffer m) (conn m a) = (ok, c)"
    by fastforce
  have "only_queues m (set_conn a c m)"
    using enqueue_fixed(1-5)[OF e] by (intro only_queues_set_conn) auto
  then show "only_queues m (deliver_frame pick eventID frame a m)"
    using e only_queues_Disconnect only_queues_trans by (auto simp: deliver_frame_def Let_def)
qed (auto intro: only_queues_refl only_queues_trans only_queues_Disconnect)

lemma hub_ok_registered:
  "hub_ok m \<Longrightarrow> fmlookup (sm_connections m) i = Some a \<Longrightarrow>
     a < length (sm_heap m) \<and> cn_id (conn m a) = i \<and> \<not> cn_done (conn m a)"
  by (simp add: hub_ok_def)

lemma hub_ok_Disconnect:
  assumes "hub_ok m"
  shows "hub_ok (Disconnect i m)"
proof -
  have "a < length (sm_heap m) \<and> cn_id (conn (Disconnect i m) a) = j \<and> \<not> cn_done (conn (Disconnect i m) a)"
    if "fmlookup (sm_connections m) j = Some a" "j \<noteq> i" for j a
    using hub_ok_registered[OF assms] that by (metis Disconnect_conn)
  then show ?thesis using assms by (auto simp: hub_ok_def Disconnect_conn fmdrop_lookup split: if_split_asm)
qed

lemma hub_ok_set_conn:
  assumes "hub_ok m" "cn_id c = cn_id (conn m a)" "cn_done c = cn_done (conn m a)"
    "int (length (cn_out c)) \<le> sm_sendBuffer m"
  shows "hub_ok (set_conn a c m)"
  using assms unfolding hub_ok_def by auto

lemma hub_ok_deliver:
  assumes "hub_ok m"
  shows "hub_ok (deliver_frame pick eventID frame a m)"
proof -
  obtain ok c where e: "enqueue (pick a) eventID frame (sm_deduplicate m) (sm_sendBuffer m) (conn m a) = (ok, c)"
    by fastforce
  have "hub_ok (set_conn a c m)"
  proof (cases "a < length (sm_heap m)")
    case True
    then have "int (length (cn_out (conn m a))) \<le> sm_sendBuffer m" using assms by (simp add: hub_ok_def)
    then show ?thesis
      using enqueue_fixed(1,4,5)[OF e] assms by (intro hub_ok_set_conn) (auto simp: identity_def)
  next
    case False
    then have "set_conn a c m = m" by (simp add: set_conn_def list_update_beyond)
    then show ?thesis using assms by simp
  qed
  then show ?thesis using e by (auto simp: deliver_frame_def Let_def intro: hub_ok_Disconnect)
qed

interpretation stays_ok: hub_relation "\<lambda>m m'. hub_ok m \<longrightarrow> hub_ok m'"
  by unfold_locales (auto intro: hub_ok_Disconnect hub_ok_deliver)

section \<open>A broadcast in closed form\<close>

text \<open>What one delivery makes of a registered connection, and whether the connection keeps up.\<close>

definition delivered :: "(nat \<Rightarrow> bool) \<Rightarrow> string \<Rightarrow> string \<Rightarrow> SseManager \<Rightarrow> nat \<Rightarrow> sse_connection" where
  "delivered pick i f m a =
     (case enqueue (pick a) i f (sm_deduplicate m) (sm_sendBuffer m) (conn m a) of
        (ok, c) \<Rightarrow> if ok then c else c\<lparr>cn_done := True\<rparr>)"

definition keeps_up :: "(nat \<Rightarrow> bool) \<Rightarrow> string \<Rightarrow> string \<Rightarrow> SseManager \<Rightarrow> nat \<Rightarrow> bool" where
  "keeps_up pick i f m a \<longleftrightarrow> fst (enqueue (pick a) i f (sm_deduplicate m) (sm_sendBuffer m) (conn m a))"

definition registered :: "SseManager \<Rightarrow> nat \<Rightarrow> bool" where
  "registered m a \<longleftrightarrow> a < length (sm_heap m) \<and> fmlookup (sm_connections m) (cn_id (conn m a)) = Some a"

lemma enqueue_id: "cn_id (snd (enqueue p i f d n c)) = cn_id c"
  by (simp add: enqueue_def Let_def)

lemma deliver_registered:
  assumes "registered m a"
  shows "b < length (sm_heap m) \<Longrightarrow> conn (deliver_frame pick i f a m) b = (if b = a then delivered pick i f m a else conn m b)"
    "fmlookup (sm_connections (deliver_frame pick i f a m)) j =
       (if j = cn_id (conn m a) \<and> \<not> keeps_up pick i f m a then None else fmlookup (sm_connections m) j)"
  using assms enqueue_id[of "pick a" i f "sm_deduplicate m" "sm_sendBuffer m" "conn m a"]
  by (auto simp: deliver_frame_def delivered_def keeps_up_def registered_def Disconnect_conn fmdrop_lookup Let_def
      split: prod.split)

lemma deliver_settings [simp]:
  "length (sm_heap (deliver_frame pick i f a m)) = length (sm_heap m)"
  "sm_sendBuffer (deliver_frame pick i f a m) = sm_sendBuffer m" "sm_deduplicate (deliver_frame pick i f a m) = sm_deduplicate m"
  "sm_heartbeat (deliver_frame pick i f a m) = sm_heartbeat m" "sm_distributor (deliver_frame pick i f a m) = sm_distributor m"
  using queues.delivering[of m pick i f a] by (auto simp: only_queues_def)

lemma fold_deliver:
  assumes "distinct ts" "\<forall>a\<in>set ts. registered m a"
  shows "length (sm_heap (fold (deliver_frame pick i f) ts m)) = length (sm_heap m)"
    "b < length (sm_heap m) \<Longrightarrow> conn (fold (deliver_frame pick i f) ts m) b =
       (if b \<in> set ts then delivered pick i f m b else conn m b)"
    "fmlookup (sm_connections (fold (deliver_frame pick i f) ts m)) j =
       (if \<exists>a\<in>set ts. cn_id (conn m a) = j \<and> \<not> keeps_up pick i f m a then None else fmlookup (sm_connections m) j)"
proof -
  have "length (sm_heap (fold (deliver_frame pick i f) ts m)) = length (sm_heap m) \<and>
    (\<forall>b<length (sm_heap m). conn (fold (deliver_frame pick i f) ts m) b =
       (if b \<in> set ts then delivered pick i f m b else conn m b)) \<and>
    (\<forall>j. fmlookup (sm_connections (fold (deliver_frame pick i f) ts m)) j =
       (if \<exists>a\<in>set ts. cn_id (conn m a) = j \<and> \<not> keeps_up pick i f m a then None else fmlookup (sm_connections m) j))"
    using assms
  proof (induction ts arbitrary: m)
    case (Cons a ts)
    let ?m = "deliver_frame pick i f a m"
    have a: "registered m a" using Cons.prems by simp
    have same: "conn ?m b = conn m b" if "b \<in> set ts" for b
      using that Cons.prems deliver_registered(1)[OF a, of b] by (auto simp: registered_def)
    have ids: "cn_id (conn m b) \<noteq> cn_id (conn m a)" if "b \<in> set ts" for b
      using that Cons.prems by (force simp: registered_def)
    have "\<forall>b\<in>set ts. registered ?m b"
      using Cons.prems same ids deliver_registered(2)[OF a] by (auto simp: registered_def)
    note IH = Cons.IH[OF _ this]
    have k: "delivered pick i f ?m b = delivered pick i f m b" "keeps_up pick i f ?m b = keeps_up pick i f m b"
      if "b \<in> set ts" for b
      using same[OF that] by (simp_all add: delivered_def keeps_up_def)
    show ?case
      using IH Cons.prems(1) k same deliver_registered[OF a] by (auto simp: fun_eq_iff)
  qed simp
  then show "length (sm_heap (fold (deliver_frame pick i f) ts m)) = length (sm_heap m)"
    "b < length (sm_heap m) \<Longrightarrow> conn (fold (deliver_frame pick i f) ts m) b =
       (if b \<in> set ts then delivered pick i f m b else conn m b)"
    "fmlookup (sm_connections (fold (deliver_frame pick i f) ts m)) j =
       (if \<exists>a\<in>set ts. cn_id (conn m a) = j \<and> \<not> keeps_up pick i f m a then None else fmlookup (sm_connections m) j)"
    by blast+
qed

lemma set_targets:
  "a \<in> set (targets topic ev m) \<longleftrightarrow>
     (\<exists>i. fmlookup (sm_connections m) i = Some a) \<and> entitled topic ev (conn m a)"
  by (force simp: targets_def sorted_list_of_fmap_def fmlookup_dom_iff image_iff)

lemma targets_registered: "hub_ok m \<Longrightarrow> a \<in> set (targets topic ev m) \<Longrightarrow> registered m a"
  using hub_ok_registered by (force simp: set_targets registered_def)

lemma distinct_targets:
  assumes "hub_ok m"
  shows "distinct (targets topic ev m)"
proof -
  have "inj_on (\<lambda>i. the (fmlookup (sm_connections m) i)) (fset (fmdom (sm_connections m)))"
  proof (rule inj_onI)
    fix i j
    assume "i \<in> fset (fmdom (sm_connections m))" "j \<in> fset (fmdom (sm_connections m))"
      and e: "the (fmlookup (sm_connections m) i) = the (fmlookup (sm_connections m) j)"
    then obtain a b where "fmlookup (sm_connections m) i = Some a" "fmlookup (sm_connections m) j = Some b"
      by (auto simp: fmlookup_dom_iff)
    then show "i = j" using e hub_ok_registered[OF assms] by (metis option.sel)
  qed
  then show ?thesis
    by (simp add: targets_def sorted_list_of_fmap_def distinct_map comp_def sorted_list_of_fset.rep_eq)
qed

text \<open>The order in which the registry is walked makes no difference.\<close>

lemma broadcast_any_order:
  assumes "hub_ok m" "event_frame ev = Some f" "distinct ts" "set ts = set (targets topic ev m)"
  shows "fold (deliver_frame pick (sv_ID ev) f) ts m = broadcastLocal pick topic ev m"
proof -
  let ?us = "targets topic ev m"
  have reg: "\<forall>a\<in>set ts. registered m a" "\<forall>a\<in>set ?us. registered m a"
    using targets_registered[OF assms(1)] assms(4) by auto
  note t = fold_deliver[OF assms(3) reg(1), where pick=pick and i="sv_ID ev" and f=f]
  note u = fold_deliver[OF distinct_targets[OF assms(1)] reg(2), where pick=pick and i="sv_ID ev" and f=f]
  have q: "only_queues m (fold (deliver_frame pick (sv_ID ev) f) xs m)" for xs
    by (rule queues.folding) (rule queues.delivering)
  have "fold (deliver_frame pick (sv_ID ev) f) ts m = fold (deliver_frame pick (sv_ID ev) f) ?us m"
    using q[of ts] q[of ?us] t u assms(4)
    by (intro SseManager.equality nth_equalityI fmap_ext) (auto simp: only_queues_def)
  then show ?thesis using assms(2) by (simp add: broadcastLocal_def)
qed

lemma broadcast_registered:
  assumes "hub_ok m" "registered m a" "event_frame ev = Some f"
  shows "conn (broadcastLocal pick topic ev m) a =
      (if entitled topic ev (conn m a) then delivered pick (sv_ID ev) f m a else conn m a)"
    "entitled topic ev (conn m a) \<Longrightarrow> keeps_up pick (sv_ID ev) f m a \<Longrightarrow> registered (broadcastLocal pick topic ev m) a"
    "\<not> entitled topic ev (conn m a) \<Longrightarrow> registered (broadcastLocal pick topic ev m) a"
proof -
  let ?ts = "targets topic ev m"
  have reg: "\<forall>b\<in>set ?ts. registered m b" using targets_registered[OF assms(1)] by blast
  note t = fold_deliver[OF distinct_targets[OF assms(1)] reg, where pick=pick and i="sv_ID ev" and f=f]
  have a: "a < length (sm_heap m)" "a \<in> set ?ts \<longleftrightarrow> entitled topic ev (conn m a)"
    using assms(2) by (auto simp: registered_def set_targets)
  have b: "broadcastLocal pick topic ev m = fold (deliver_frame pick (sv_ID ev) f) ?ts m"
    using assms(3) by (simp add: broadcastLocal_def)
  show c: "conn (broadcastLocal pick topic ev m) a =
      (if entitled topic ev (conn m a) then delivered pick (sv_ID ev) f m a else conn m a)"
    using t(2)[OF a(1)] a(2) b by simp
  have other: "cn_id (conn m x) \<noteq> cn_id (conn m a)" if "x \<in> set ?ts" "x \<noteq> a" for x
    using reg that assms(2) by (force simp: registered_def)
  have d: "cn_id (delivered pick (sv_ID ev) f m a) = cn_id (conn m a)"
    using enqueue_id[of "pick a" "sv_ID ev" f "sm_deduplicate m" "sm_sendBuffer m" "conn m a"]
    by (auto simp: delivered_def split: prod.split)
  have r: "fmlookup (sm_connections (broadcastLocal pick topic ev m)) (cn_id (conn m a)) =
      (if a \<in> set ?ts \<and> \<not> keeps_up pick (sv_ID ev) f m a then None else Some a)"
    using t(3) b other assms(2) by (auto simp: registered_def)
  show "registered (broadcastLocal pick topic ev m) a"
    if "entitled topic ev (conn m a)" "keeps_up pick (sv_ID ev) f m a"
    using that r a c d t(1) b by (simp add: registered_def)
  show "registered (broadcastLocal pick topic ev m) a" if "\<not> entitled topic ev (conn m a)"
    using that r a c t(1) b by (simp add: registered_def)
qed

section \<open>One event on several topics\<close>

definition complete :: "StreamEvent \<Rightarrow> bool" where
  "complete ev \<longleftrightarrow> sv_ID ev \<noteq> [] \<and> sv_Timestamp ev \<noteq> [] \<and> marshal_payload (sv_Data ev) \<noteq> None"

lemma complete_frame: "complete ev \<Longrightarrow> \<exists>f. event_frame (ev\<lparr>sv_Topic := topic\<rparr>) = Some f"
  by (auto simp: complete_def event_frame_def sseFrame_def)

lemma Broadcast_complete:
  assumes "complete ev" "sm_distributor m = None"
  shows "Broadcast v topic ev (k, m) = (Suc k, broadcastLocal (ss_pick v k) topic (ev\<lparr>sv_Topic := topic\<rparr>) m)"
  using assms by (simp add: Broadcast_def fill_event_def complete_def)

lemma entitled_topic [simp]: "entitled topic (ev\<lparr>sv_Topic := t\<rparr>) = entitled topic ev"
  by (simp add: entitled_def fun_eq_iff)

text \<open>Once it has the event, a connection is left as it is.\<close>

lemma broadcast_again:
  assumes "hub_ok m" "registered m a" "complete ev" "sm_deduplicate m" "cn_lastEventID (conn m a) = sv_ID ev"
  shows "conn (broadcastLocal pick topic (ev\<lparr>sv_Topic := topic\<rparr>) m) a = conn m a"
    "registered (broadcastLocal pick topic (ev\<lparr>sv_Topic := topic\<rparr>) m) a"
proof -
  obtain f where f: "event_frame (ev\<lparr>sv_Topic := topic\<rparr>) = Some f" using complete_frame[OF assms(3)] by blast
  have "enqueue (pick a) (sv_ID ev) f (sm_deduplicate m) (sm_sendBuffer m) (conn m a) = (True, conn m a)"
    using assms(4,5) by (simp add: enqueue_def Let_def)
  then have "delivered pick (sv_ID ev) f m a = conn m a" "keeps_up pick (sv_ID ev) f m a"
    by (simp_all add: delivered_def keeps_up_def)
  then show "conn (broadcastLocal pick topic (ev\<lparr>sv_Topic := topic\<rparr>) m) a = conn m a"
    "registered (broadcastLocal pick topic (ev\<lparr>sv_Topic := topic\<rparr>) m) a"
    using broadcast_registered[OF assms(1,2) f, where pick=pick and topic=topic] by auto
qed

lemma broadcasts_again:
  assumes "hub_ok m" "registered m a" "complete ev" "sm_deduplicate m" "sm_distributor m = None"
    "cn_lastEventID (conn m a) = sv_ID ev"
  shows "conn (snd (fold (\<lambda>topic. Broadcast v topic ev) topics (k, m))) a = conn m a"
  using assms
proof (induction topics arbitrary: k m)
  case (Cons topic topics)
  let ?m = "broadcastLocal (ss_pick v k) topic (ev\<lparr>sv_Topic := topic\<rparr>) m"
  have "conn ?m a = conn m a" "registered ?m a" using broadcast_again[OF Cons.prems(1-4,6)] by blast+
  moreover have "hub_ok ?m" using stays_ok.broadcasting Cons.prems(1) by blast
  moreover have "sm_deduplicate ?m" "sm_distributor ?m = None"
    using queues.broadcasting[of m "ss_pick v k" topic "ev\<lparr>sv_Topic := topic\<rparr>"] Cons.prems(4,5)
    by (auto simp: only_queues_def)
  ultimately show ?case
    using Cons.IH[of ?m "Suc k"] Cons.prems by (simp add: Broadcast_complete[OF Cons.prems(3,5)])
qed simp

text \<open>A connection that keeps up is given the event once, under the first of its topics the event goes to.\<close>

lemma broadcasts_once:
  assumes "hub_ok m" "registered m a" "complete ev" "sm_deduplicate m" "sm_distributor m = None"
    and "cn_lastEventID (conn m a) \<noteq> sv_ID ev" "int (length (cn_out (conn m a))) < sm_sendBuffer m"
  shows "cn_out (conn (snd (fold (\<lambda>topic. Broadcast v topic ev) topics (k, m))) a) = cn_out (conn m a) @
    (case find (\<lambda>topic. entitled topic ev (conn m a)) topics of
       None \<Rightarrow> [] | Some topic \<Rightarrow> [the (event_frame (ev\<lparr>sv_Topic := topic\<rparr>))])"
  using assms
proof (induction topics arbitrary: k m)
  case (Cons topic topics)
  let ?m = "broadcastLocal (ss_pick v k) topic (ev\<lparr>sv_Topic := topic\<rparr>) m"
  obtain f where f: "event_frame (ev\<lparr>sv_Topic := topic\<rparr>) = Some f" using complete_frame[OF Cons.prems(3)] by blast
  note b = broadcast_registered[OF Cons.prems(1,2) f, where pick="ss_pick v k" and topic=topic]
  have ok: "hub_ok ?m" using stays_ok.broadcasting Cons.prems(1) by blast
  have set: "sm_deduplicate ?m" "sm_distributor ?m = None" "sm_sendBuffer ?m = sm_sendBuffer m"
    using queues.broadcasting[of m "ss_pick v k" topic "ev\<lparr>sv_Topic := topic\<rparr>"] Cons.prems(4,5)
    by (auto simp: only_queues_def)
  show ?case
  proof (cases "entitled topic ev (conn m a)")
    case True
    have not_done: "\<not> cn_done (conn m a)"
      using hub_ok_registered[OF Cons.prems(1)] Cons.prems(2) by (auto simp: registered_def)
    have e: "enqueue (ss_pick v k a) (sv_ID ev) f (sm_deduplicate m) (sm_sendBuffer m) (conn m a) =
        (True, (conn m a)\<lparr>cn_lastEventID := sv_ID ev, cn_out := cn_out (conn m a) @ [f]\<rparr>)"
      using Cons.prems(4,6,7) not_done by (simp add: enqueue_def Let_def)
    then have d: "delivered (ss_pick v k) (sv_ID ev) f m a =
        (conn m a)\<lparr>cn_lastEventID := sv_ID ev, cn_out := cn_out (conn m a) @ [f]\<rparr>"
      "keeps_up (ss_pick v k) (sv_ID ev) f m a"
      by (simp_all add: delivered_def keeps_up_def)
    have c: "conn ?m a = (conn m a)\<lparr>cn_lastEventID := sv_ID ev, cn_out := cn_out (conn m a) @ [f]\<rparr>"
      using b(1) True d(1) by simp
    have "registered ?m a" using b(2) True d(2) by simp
    then show ?thesis
      using broadcasts_again[OF ok _ Cons.prems(3) set(1,2), of a v topics "Suc k"] c True f
      by (simp add: Broadcast_complete[OF Cons.prems(3,5)])
  next
    case False
    then have "conn ?m a = conn m a" "registered ?m a" using b(1,3) by simp_all
    then show ?thesis
      using Cons.IH[OF ok _ Cons.prems(3) set(1,2), of "Suc k"] Cons.prems(6,7) set(3) False
      by (simp add: Broadcast_complete[OF Cons.prems(3,5)])
  qed
qed simp

section \<open>Everything that can happen\<close>

text \<open>
  Broadcasts overlap: one has chosen its targets, and what it has still to queue is pending, while others
  choose theirs, streams open, loops write and connections end. \<open>hub_run v H P m\<close>: the manager is \<open>m\<close> after
  some such interleaving, \<open>H\<close> is what has been broadcast locally so far and \<open>P\<close> what is pending.
\<close>

type_synonym pending = "nat \<times> string \<times> string"

inductive hub_run :: "sse_env \<Rightarrow> (string \<times> StreamEvent) set \<Rightarrow> pending multiset \<Rightarrow> SseManager \<Rightarrow> bool" for v where
  start: "NewSseManager subscribed opts = Ok m \<Longrightarrow> sm_connections m = fmempty \<Longrightarrow> sm_heap m = [] \<Longrightarrow>
    hub_run v {} {#} m"
| opened: "hub_run v H P m \<Longrightarrow> serve_open v flushes written topics meta (k, m) = (r, k', m') \<Longrightarrow> hub_run v H P m'"
| choose: "hub_run v H P m \<Longrightarrow> event_frame ev = Some f \<Longrightarrow>
    hub_run v (insert (topic, ev) H) (P + image_mset (\<lambda>a. (a, sv_ID ev, f)) (mset (targets topic ev m))) m"
| queue: "hub_run v H (add_mset (a, i, f) P) m \<Longrightarrow> hub_run v H P (deliver_frame pick i f a m)"
| disconnect: "hub_run v H P m \<Longrightarrow> hub_run v H P (Disconnect i m)"
| frame: "hub_run v H P m \<Longrightarrow> a < length (sm_heap m) \<Longrightarrow> cn_serving (conn m a) \<Longrightarrow> hub_run v H P (serve_frame written a m)"
| beat: "hub_run v H P m \<Longrightarrow> a < length (sm_heap m) \<Longrightarrow> cn_serving (conn m a) \<Longrightarrow> hub_run v H P (serve_beat written a m)"
| ended: "hub_run v H P m \<Longrightarrow> a < length (sm_heap m) \<Longrightarrow> cn_serving (conn m a) \<Longrightarrow> hub_run v H P (serve_end a m)"

text \<open>A whole broadcast is one such run.\<close>

lemma hub_run_deliveries:
  "hub_run v H (P + image_mset (\<lambda>a. (a, i, f)) (mset ts)) m \<Longrightarrow> hub_run v H P (fold (deliver_frame pick i f) ts m)"
proof (induction ts arbitrary: m)
  case (Cons a ts)
  then have "hub_run v H (add_mset (a, i, f) (P + image_mset (\<lambda>a. (a, i, f)) (mset ts))) m" by simp
  then show ?case using Cons.IH hub_run.queue by fastforce
qed simp

lemma hub_run_disconnects: "hub_run v H P m \<Longrightarrow> hub_run v H P (fold (\<lambda>a m. Disconnect (cn_id (conn m a)) m) ts m)"
  by (induction ts arbitrary: m) (auto intro: hub_run.disconnect)

lemma hub_run_broadcast:
  assumes "hub_run v H P m"
  shows "\<exists>H'. H \<subseteq> H' \<and> hub_run v H' P (broadcastLocal pick topic ev m)"
proof (cases "event_frame ev")
  case None
  then have "broadcastLocal pick topic ev m = fold (\<lambda>a m. Disconnect (cn_id (conn m a)) m) (targets topic ev m) m"
    by (simp add: broadcastLocal_def)
  then show ?thesis using hub_run_disconnects[OF assms, of "targets topic ev m"] by auto
next
  case (Some f)
  have "hub_run v (insert (topic, ev) H) P (broadcastLocal pick topic ev m)"
    using hub_run_deliveries[OF hub_run.choose[OF assms Some]] Some by (simp add: broadcastLocal_def)
  then show ?thesis by blast
qed

subsection \<open>What a stream carries\<close>

text \<open>A frame a connection may be given: a heartbeat, the one that opened it, or that of an event broadcast on
  a topic it holds and not withheld for its tenant.\<close>

definition meant_for :: "(string \<times> StreamEvent) set \<Rightarrow> sse_connection \<Rightarrow> string \<Rightarrow> bool" where
  "meant_for H c f \<longleftrightarrow> (\<exists>(topic, ev)\<in>H. entitled topic ev c \<and> event_frame ev = Some f)"

definition may_carry :: "(string \<times> StreamEvent) set \<Rightarrow> sse_connection \<Rightarrow> string \<Rightarrow> bool" where
  "may_carry H c f \<longleftrightarrow> f = sseHeartbeatFrame \<or>
     (\<exists>e t ts. f = connected_frame e t (cn_id c) ts \<and> fset_of_list ts = cn_topics c) \<or> meant_for H c f"

lemma meant_for_same: "identity c' = identity c \<Longrightarrow> meant_for H c' = meant_for H c"
  by (simp add: meant_for_def identity_def entitled_def fun_eq_iff)

lemma may_carry_same: "identity c' = identity c \<Longrightarrow> may_carry H c' = may_carry H c"
  using meant_for_same[of c' c H] by (auto simp: may_carry_def identity_def fun_eq_iff)

lemma may_carry_mono: "may_carry H c f \<Longrightarrow> H \<subseteq> H' \<Longrightarrow> may_carry H' c f" "meant_for H c f \<Longrightarrow> H \<subseteq> H' \<Longrightarrow> meant_for H' c f"
  unfolding may_carry_def meant_for_def by blast+

text \<open>What one step adds to the streams.\<close>

definition adds :: "(nat \<Rightarrow> string set) \<Rightarrow> SseManager \<Rightarrow> SseManager \<Rightarrow> bool" where
  "adds F m m' \<longleftrightarrow> length (sm_heap m') = length (sm_heap m) \<and>
     (\<forall>a<length (sm_heap m). identity (conn m' a) = identity (conn m a) \<and>
        set (given (conn m' a)) \<subseteq> set (given (conn m a)) \<union> F a)"

lemma adds_Disconnect: "adds F m m1 \<Longrightarrow> adds F m (Disconnect i m1)"
  by (auto simp: adds_def Disconnect_conn identity_def given_def)

lemma adds_set_conn:
  "identity c = identity (conn m a) \<Longrightarrow> set (given c) \<subseteq> set (given (conn m a)) \<union> F a \<Longrightarrow> adds F m (set_conn a c m)"
  by (auto simp: adds_def)

lemma adds_deliver: "adds (\<lambda>b. if b = a then {f} else {}) m (deliver_frame pick i f a m)"
proof -
  obtain ok c where e: "enqueue (pick a) i f (sm_deduplicate m) (sm_sendBuffer m) (conn m a) = (ok, c)"
    by fastforce
  have "adds (\<lambda>b. if b = a then {f} else {}) m (set_conn a c m)"
    using enqueue_fixed(1,2,5)[OF e] by (intro adds_set_conn) (auto simp: given_def)
  then show ?thesis using e by (auto simp: deliver_frame_def Let_def intro: adds_Disconnect)
qed

lemma adds_serve_end: "adds (\<lambda>b. {}) m (serve_end a m)"
  unfolding serve_end_def by (intro adds_Disconnect adds_set_conn) (auto simp: identity_def given_def)

lemma adds_trans:
  assumes "adds F m m1" "adds F m1 m2"
  shows "adds F m m2"
proof -
  have "set (given (conn m2 a)) \<subseteq> set (given (conn m a)) \<union> F a" if "a < length (sm_heap m)" for a
  proof -
    have "set (given (conn m2 a)) \<subseteq> set (given (conn m1 a)) \<union> F a"
      "set (given (conn m1 a)) \<subseteq> set (given (conn m a)) \<union> F a"
      using assms that by (simp_all add: adds_def)
    then show ?thesis by blast
  qed
  then show ?thesis using assms by (simp add: adds_def)
qed

lemma adds_serve_frame: "adds (\<lambda>b. {}) m (serve_frame written a m)"
proof (cases "cn_out (conn m a)")
  case Nil
  then show ?thesis by (simp add: serve_frame_def adds_def)
next
  case (Cons f fs)
  have "adds (\<lambda>b. {}) m (set_conn a ((conn m a)\<lparr>cn_out := fs\<rparr>) m)"
    "adds (\<lambda>b. {}) m (set_conn a ((conn m a)\<lparr>cn_out := fs, cn_wire := cn_wire (conn m a) @ [f]\<rparr>) m)"
    using Cons by (intro adds_set_conn; auto simp: identity_def given_def)+
  then show ?thesis
    using Cons adds_trans[OF _ adds_serve_end] by (auto simp: serve_frame_def Let_def split: option.split)
qed

lemma adds_serve_beat: "adds (\<lambda>b. {sseHeartbeatFrame}) m (serve_beat written a m)"
proof -
  have "adds (\<lambda>b. {sseHeartbeatFrame}) m m" by (simp add: adds_def subset_insertI2)
  moreover have "adds (\<lambda>b. {sseHeartbeatFrame}) m (serve_end a m)"
    using adds_serve_end[of m a] unfolding adds_def by blast
  moreover have "adds (\<lambda>b. {sseHeartbeatFrame}) m
      (set_conn a ((conn m a)\<lparr>cn_wire := cn_wire (conn m a) @ [sseHeartbeatFrame]\<rparr>) m)"
    by (rule adds_set_conn) (auto simp: identity_def given_def)
  ultimately show ?thesis by (auto simp: serve_beat_def split: option.split)
qed

definition streams_ok :: "(string \<times> StreamEvent) set \<Rightarrow> pending multiset \<Rightarrow> SseManager \<Rightarrow> bool" where
  "streams_ok H P m \<longleftrightarrow>
     (\<forall>a<length (sm_heap m). \<forall>f\<in>set (given (conn m a)). may_carry H (conn m a) f) \<and>
     (\<forall>(a, i, f)\<in>#P. a < length (sm_heap m) \<and> meant_for H (conn m a) f)"

lemma streams_ok_adds:
  assumes "streams_ok H P m" "adds F m m'" "P' \<subseteq># P"
    and "\<And>a f. a < length (sm_heap m) \<Longrightarrow> f \<in> F a \<Longrightarrow> may_carry H (conn m a) f"
  shows "streams_ok H P' m'"
proof -
  have len: "length (sm_heap m') = length (sm_heap m)"
    and at: "a < length (sm_heap m) \<Longrightarrow> identity (conn m' a) = identity (conn m a) \<and>
      set (given (conn m' a)) \<subseteq> set (given (conn m a)) \<union> F a" for a
    using assms(2) by (auto simp: adds_def)
  have "may_carry H (conn m' a) f" if "a < length (sm_heap m)" "f \<in> set (given (conn m' a))" for a f
  proof -
    have "may_carry H (conn m a) f" using that at[OF that(1)] assms(1,4) by (auto simp: streams_ok_def)
    then show ?thesis using may_carry_same at[OF that(1)] by metis
  qed
  moreover have "a < length (sm_heap m) \<and> meant_for H (conn m' a) f" if "(a, i, f) \<in># P'" for a i f
  proof -
    have "(a, i, f) \<in># P" using that assms(3) by (meson mset_subset_eqD)
    then have "a < length (sm_heap m)" "meant_for H (conn m a) f" using assms(1) by (auto simp: streams_ok_def)
    then show ?thesis using meant_for_same at by metis
  qed
  ultimately show ?thesis using len by (auto simp: streams_ok_def)
qed

lemma new_manager_ok:
  "NewSseManager subscribed opts = Ok m \<Longrightarrow> sm_connections m = fmempty \<Longrightarrow> sm_heap m = [] \<Longrightarrow> hub_ok m"
  by (auto simp: NewSseManager_def hub_ok_def Let_def split: if_split_asm option.split_asm)

text \<open>A stream opens at a new address, or nothing changes.\<close>

lemma serve_open_cases:
  assumes "serve_open v flushes written topics meta (k, m) = (r, k', m')"
  shows "m' = m \<and> \<not> is_ok r \<or> (\<exists>i e t. r = Ok (length (sm_heap m)) \<and>
    m' = m\<lparr>sm_heap := sm_heap m @ [new_connection i topics meta (connected_frame e t i topics)],
      sm_connections := fmupd i (length (sm_heap m)) (sm_connections m)\<rparr>)"
  using assms by (auto simp: serve_open_def Let_def split: if_split_asm prod.split_asm sum.split_asm option.split_asm)

lemma hub_ok_open:
  assumes "hub_ok m" "serve_open v flushes written topics meta (k, m) = (r, k', m')"
  shows "hub_ok m'"
  using serve_open_cases[OF assms(2)] assms(1)
  by (auto simp: hub_ok_def nth_append new_connection_def less_Suc_eq split: if_split_asm)

lemma streams_ok_open:
  assumes "streams_ok H P m" "serve_open v flushes written topics meta (k, m) = (r, k', m')"
  shows "streams_ok H P m'"
proof -
  have "may_carry H (new_connection i topics meta (connected_frame e t i topics)) (connected_frame e t i topics)" for i e t
    by (auto simp: may_carry_def new_connection_def)
  then show ?thesis
    using serve_open_cases[OF assms(2)] assms(1)
    by (auto simp: streams_ok_def nth_append given_def new_connection_def less_Suc_eq split: if_split_asm)
qed

lemma hub_ok_conn:
  assumes "hub_ok m" "cn_id c = cn_id (conn m a)" "cn_done c = cn_done (conn m a)"
    "length (cn_out c) \<le> length (cn_out (conn m a))"
  shows "hub_ok (set_conn a c m)"
proof (cases "a < length (sm_heap m)")
  case True
  then have "int (length (cn_out (conn m a))) \<le> sm_sendBuffer m" using assms(1) by (simp add: hub_ok_def)
  then show ?thesis using assms by (intro hub_ok_set_conn) auto
qed (use assms(1) in \<open>simp add: set_conn_def list_update_beyond\<close>)

lemma hub_ok_serve:
  assumes "hub_ok m"
  shows "hub_ok (serve_end a m)" "hub_ok (serve_frame written a m)" "hub_ok (serve_beat written a m)"
proof -
  have e: "hub_ok (serve_end a m')" if "hub_ok m'" for m'
    unfolding serve_end_def by (intro hub_ok_Disconnect hub_ok_conn) (use that in auto)
  show "hub_ok (serve_end a m)" using e assms by blast
  show "hub_ok (serve_frame written a m)"
    using assms by (auto simp: serve_frame_def Let_def split: list.split option.split intro!: e hub_ok_conn)
  show "hub_ok (serve_beat written a m)"
    using assms by (auto simp: serve_beat_def split: option.split intro!: e hub_ok_conn)
qed

lemma hub_run_ok: "hub_run v H P m \<Longrightarrow> hub_ok m"
  by (induction rule: hub_run.induct)
    (auto intro: new_manager_ok hub_ok_open hub_ok_deliver hub_ok_Disconnect hub_ok_serve)

lemma hub_run_streams: "hub_run v H P m \<Longrightarrow> streams_ok H P m"
proof (induction rule: hub_run.induct)
  case (start subscribed opts m)
  then show ?case by (simp add: streams_ok_def)
next
  case (opened H P m flushes written topics meta k r k' m')
  then show ?case by (blast intro: streams_ok_open)
next
  case (choose H P m ev f topic)
  have "a < length (sm_heap m) \<and> meant_for (insert (topic, ev) H) (conn m a) f" if "a \<in> set (targets topic ev m)" for a
    using that targets_registered[OF hub_run_ok[OF choose.hyps(1)] that] choose.hyps(2)
    by (auto simp: meant_for_def registered_def set_targets)
  then show ?case
    using choose.IH may_carry_mono[OF _ subset_insertI] by (auto simp: streams_ok_def)
next
  case (queue H a i f P m pick)
  have "may_carry H (conn m a) f" using queue.IH by (auto simp: streams_ok_def may_carry_def)
  then show ?case
    by (intro streams_ok_adds[OF queue.IH adds_deliver]) (auto split: if_split_asm)
next
  case (disconnect H P m i)
  then show ?case by (intro streams_ok_adds[OF disconnect.IH adds_Disconnect[of "\<lambda>_. {}"]]) (auto simp: adds_def)
next
  case (frame H P m a written)
  then show ?case by (intro streams_ok_adds[OF frame.IH adds_serve_frame]) auto
next
  case (beat H P m a written)
  then show ?case by (intro streams_ok_adds[OF beat.IH adds_serve_beat]) (auto simp: may_carry_def)
next
  case (ended H P m a)
  then show ?case by (intro streams_ok_adds[OF ended.IH adds_serve_end]) auto
qed

text \<open>Whoever holds a tenant sees, of the events that name a tenant, only that tenant's.\<close>

lemma stream_tenant:
  assumes "hub_run v H P m" "a < length (sm_heap m)" "f \<in> set (cn_wire (conn m a))"
  shows "may_carry H (conn m a) f"
  using hub_run_streams[OF assms(1)] assms(2,3) by (auto simp: streams_ok_def given_def)

subsection \<open>A slow consumer\<close>

text \<open>A delivery queues the frame, suppresses a repetition, or drops a connection whose queue is full.\<close>

lemma deliver_outcome:
  assumes "hub_ok m" "registered m a"
  shows "let m' = deliver_frame pick i f a m in
    cn_out (conn m' a) = cn_out (conn m a) @ [f] \<and> registered m' a \<or>
    sm_deduplicate m \<and> cn_lastEventID (conn m a) = i \<and> cn_out (conn m' a) = cn_out (conn m a) \<and> registered m' a \<or>
    int (length (cn_out (conn m a))) = sm_sendBuffer m \<and> cn_done (conn m' a) \<and>
      fmlookup (sm_connections m') (cn_id (conn m a)) = None"
proof -
  have "\<not> cn_done (conn m a)" "int (length (cn_out (conn m a))) \<le> sm_sendBuffer m"
    using assms hub_ok_registered[OF assms(1)] by (auto simp: registered_def hub_ok_def)
  then show ?thesis
    using assms(2) deliver_registered[OF assms(2), where pick=pick and i=i and f=f]
    by (auto simp: delivered_def keeps_up_def enqueue_def registered_def Let_def split: if_split_asm)
qed

subsection \<open>Order\<close>

text \<open>A delivery adds at the end of what a connection is given, and its loop writes from the front.\<close>

lemma stream_in_order:
  assumes "a < length (sm_heap m)"
  shows "given (conn (deliver_frame pick i f b m) a) \<in> {given (conn m a), given (conn m a) @ [f]}"
    "given (conn (serve_frame None a m) a) = given (conn m a)"
proof -
  have "prefix (cn_out (conn m a)) (cn_out (conn (deliver_frame pick i f b m) a))"
    "cn_wire (conn (deliver_frame pick i f b m) a) = cn_wire (conn m a)"
    using queues.delivering[of m pick i f b] assms by (auto simp: only_queues_def)
  moreover obtain ok c where e: "enqueue (pick b) i f (sm_deduplicate m) (sm_sendBuffer m) (conn m b) = (ok, c)"
    by fastforce
  ultimately show "given (conn (deliver_frame pick i f b m) a) \<in> {given (conn m a), given (conn m a) @ [f]}"
    using enqueue_fixed(5)[OF e] assms
    by (auto simp: given_def deliver_frame_def e Let_def Disconnect_conn)
  show "given (conn (serve_frame None a m) a) = given (conn m a)"
    using assms by (auto simp: serve_frame_def given_def split: list.split)
qed

end
