(* ===== verification/Tools_Laws.thy ===== *)
theory Tools_Laws
  imports Tools_Webhook Sse_Laws
begin

text \<open>
  What the tools guarantee: the pages of the telemetry query, who receives a tracked event and how often, the
  independence of its sinks, what a guard covers and what it does not, and which actions a webhook's script is
  given.
\<close>

section \<open>The telemetry query\<close>

lemma query_loop_page:
  "tf_Limit f \<le> 0 \<or> int (length out) < tf_Limit f \<Longrightarrow> query_loop f s out es = out @
     (if tf_Limit f \<le> 0 then id else take (nat (tf_Limit f) - length out))
       (drop (nat (tf_Offset f - s)) (filter (telemetry_matches f) es))"
proof (induction es arbitrary: s out)
  case (Cons e es)
  consider "\<not> telemetry_matches f e" | "telemetry_matches f e" "s < tf_Offset f"
    | "telemetry_matches f e" "\<not> s < tf_Offset f" by blast
  then show ?case
  proof cases
    case 2
    then have "nat (tf_Offset f - s) = Suc (nat (tf_Offset f - (s + 1)))" by simp
    then show ?thesis using 2 Cons by simp
  next
    case 3
    have n: "nat (tf_Offset f - s) = 0" using 3 by simp
    consider "tf_Limit f \<le> 0" | "tf_Limit f = int (length out) + 1" | "int (length out) + 1 < tf_Limit f"
      using Cons.prems by linarith
    then show ?thesis
    proof cases
      case 2
      then have "nat (tf_Limit f) = Suc (length out)" by linarith
      then show ?thesis using 3 n 2 by (simp add: Let_def)
    next
      case b: 3
      then have "nat (tf_Limit f) - length out = Suc (nat (tf_Limit f) - Suc (length out))" by linarith
      then show ?thesis using 3 n b Cons.IH[of "out @ [e]" s] by (simp add: Let_def)
    qed (use 3 n Cons.IH[of "out @ [e]" s] in \<open>simp add: Let_def\<close>)
  qed (use Cons in simp)
qed simp

text \<open>The query is the page of the matching events, in the order they were recorded.\<close>

lemma Query_page:
  "Query f events = (let found = drop (nat (tf_Offset f)) (filter (telemetry_matches f) events) in
     if tf_Limit f \<le> 0 then found else take (nat (tf_Limit f)) found)"
  using query_loop_page[of f "[]" 0 events] by (auto simp: Query_def Let_def)

lemma telemetry_matches_page [simp]:
  "telemetry_matches (f\<lparr>tf_Offset := i, tf_Limit := n\<rparr>) = telemetry_matches f"
  by (simp add: telemetry_matches_def fun_eq_iff)

text \<open>Successive pages together are a prefix of the matching events: none is lost and none repeated.\<close>

lemma pages_are_a_prefix:
  assumes "n > 0"
  shows "concat (map (\<lambda>i. Query (f\<lparr>tf_Offset := int (i * n), tf_Limit := int n\<rparr>) events) [0..<m]) =
    take (m * n) (filter (telemetry_matches f) events)"
proof (induction m)
  case (Suc m)
  have "Query (f\<lparr>tf_Offset := int (m * n), tf_Limit := int n\<rparr>) events =
      take n (drop (m * n) (filter (telemetry_matches f) events))"
    using assms by (simp add: Query_page Let_def nat_mult_distrib)
  moreover have "Suc m * n = m * n + n" by simp
  ultimately show ?case using Suc by (simp only: upt_Suc take_add) simp
qed simp

section \<open>Topics\<close>

lemma StreamTopics_authorised:
  "topic \<in> set (StreamTopics u t requested) \<Longrightarrow>
     topic = SseTopicGlobal \<or> t \<noteq> [] \<and> topic = SseTopicTenantPrefix @ t \<or> u \<noteq> [] \<and> topic = SseTopicUserPrefix @ u"
  by (auto simp: StreamTopics_def Let_def list_ex_iff split: if_split_asm)

text \<open>A principal shares a topic with an event only as everybody, as its tenant, or as its user.\<close>

lemma shared_topic:
  assumes "topic \<in> set (EventTopics ev)" "topic \<in> set (StreamTopics u t requested)"
  shows "topic = SseTopicGlobal \<or> t \<noteq> [] \<and> ev_TenantID ev = t \<or> u \<noteq> [] \<and> ev_UserID ev = u"
  using StreamTopics_authorised[OF assms(2)] assms(1)
  by (auto simp: EventTopics_def topic_defs split: if_split_asm)

lemma EventTopics_global: "EventTopics ev = SseTopicGlobal # tl (EventTopics ev)"
  by (simp add: EventTopics_def)

section \<open>The sinks of an event\<close>

lemma reportError_simps [simp]:
  "tw_telemetry (reportError t e w) = tw_telemetry w" "tw_bus (reportError t e w) = tw_bus w"
  "tw_sse (reportError t e w) = tw_sse w" "tw_webhooks (reportError t e w) = tw_webhooks w"
  "tw_sent (reportError t e w) = tw_sent w" "tw_mails (reportError t e w) = tw_mails w"
  "tw_texts (reportError t e w) = tw_texts w" "tw_tick (reportError t e w) = tw_tick w"
  by (simp_all add: reportError_def)

definition report_runs :: "AuthTools \<Rightarrow> (WebhookConfig \<times> (unit result \<times> send_run)) list \<Rightarrow> tools_world \<Rightarrow> tools_world" where
  "report_runs t = fold (\<lambda>(config, r, _). case r of
     Inl e \<Rightarrow> reportError t (if wc_ID config = [] then e else Wrapped (''auth: webhook '' @ wc_ID config) e)
   | Inr _ \<Rightarrow> id)"

lemma report_runs_simps [simp]:
  "tw_sse (report_runs t runs w) = tw_sse w" "tw_telemetry (report_runs t runs w) = tw_telemetry w"
  "tw_bus (report_runs t runs w) = tw_bus w" "tw_sent (report_runs t runs w) = tw_sent w"
proof -
  have "tw_sse (report_runs t runs w) = tw_sse w \<and> tw_telemetry (report_runs t runs w) = tw_telemetry w \<and>
      tw_bus (report_runs t runs w) = tw_bus w \<and> tw_sent (report_runs t runs w) = tw_sent w"
    unfolding report_runs_def by (induction runs arbitrary: w) (auto split: sum.split)
  then show "tw_sse (report_runs t runs w) = tw_sse w" "tw_telemetry (report_runs t runs w) = tw_telemetry w"
    "tw_bus (report_runs t runs w) = tw_bus w" "tw_sent (report_runs t runs w) = tw_sent w" by blast+
qed

lemma emit_simps [simp]:
  "tw_sse (emit t ev w) = tw_sse w" "tw_telemetry (emit t ev w) = tw_telemetry w" "tw_bus (emit t ev w) = tw_bus w"
  by (simp_all add: emit_def Let_def report_runs_def[symmetric] split: option.split)

lemma record_telemetry_simps [simp]:
  "tw_sse (record_telemetry t r w) = tw_sse w" "tw_webhooks (record_telemetry t r w) = tw_webhooks w"
  "tw_sent (record_telemetry t r w) = tw_sent w" "tw_bus (record_telemetry t r w) = tw_bus w"
  by (simp_all add: record_telemetry_def split: option.split)

text \<open>One identifier and one instant for all four.\<close>

definition event_id :: "AuthTools \<Rightarrow> tools_world \<Rightarrow> string" where
  "event_id t w = (case fst (newUUIDv4 (ss_crypto (tl_sse t)) (tw_tick w)) of Inl _ \<Rightarrow> [] | Inr i \<Rightarrow> i)"

lemma newUUIDv4_tick: "snd (newUUIDv4 c k) = Suc k"
  by (simp add: newUUIDv4_def split: sum.split)

lemma fanOut_dated:
  assumes "ev_Timestamp ev \<noteq> zero_time"
  shows "fanOut t ev b w =
    (let r = telemetry_of (event_id t w) ev;
         w1 = record_telemetry t r (tick_tools w);
         w2 = (if b then tl_subscribers t ev (w1\<lparr>tw_bus := tw_bus w1 @ [ev]\<rparr>) else w1)
     in emit t ev (on_stream (fold (\<lambda>topic. Broadcast (tl_sse t) topic (stream_event t (event_id t w) r ev))
          (EventTopics ev)) w2))"
  using assms newUUIDv4_tick[of "ss_crypto (tl_sse t)" "tw_tick w"]
  by (auto simp: fanOut_def event_id_def Let_def split: prod.split)

text \<open>The subscribers of the bus run when the record is in the store.\<close>

lemma subscriber_sees_record:
  assumes "ev_Timestamp ev \<noteq> zero_time" "tw_telemetry w = Some events" "tl_record t (Suc (tw_tick w)) = None"
  shows "\<exists>w1 rest. fanOut t ev True w = rest (tl_subscribers t ev w1) \<and>
    tw_telemetry w1 = Some (events @ [telemetry_of (event_id t w) ev]) \<and> tw_bus w1 = tw_bus w @ [ev] \<and> tw_sse w1 = tw_sse w"
  using assms
  by (intro exI[of _ "(record_telemetry t (telemetry_of (event_id t w) ev) (tick_tools w))\<lparr>tw_bus := tw_bus w @ [ev]\<rparr>"]
      exI[of _ "\<lambda>w2. emit t ev (on_stream (fold (\<lambda>topic. Broadcast (tl_sse t) topic
        (stream_event t (event_id t w) (telemetry_of (event_id t w) ev) ev)) (EventTopics ev)) w2)"])
    (simp add: fanOut_dated Let_def record_telemetry_def Record_def)

lemma on_stream_Some:
  "tw_sse w = Some m \<Longrightarrow> tw_sse (on_stream f w) = Some (snd (f (tw_tick w, m)))"
  by (simp add: on_stream_def split: prod.split)

lemma stream_event_complete:
  "event_id t w \<noteq> [] \<Longrightarrow> ss_format (tl_sse t) (ev_Timestamp ev) \<noteq> [] \<Longrightarrow> complete (stream_event t (event_id t w) r ev)"
  by (simp add: complete_def stream_event_def marshal_payload_def)

text \<open>A tracked event reaches each open connection of its topics exactly once, whatever the store does.\<close>

lemma fanOut_once:
  assumes "ev_Timestamp ev \<noteq> zero_time" "ss_format (tl_sse t) (ev_Timestamp ev) \<noteq> []" "event_id t w \<noteq> []"
    and "tw_sse w = Some m" "hub_ok m" "registered m a" "sm_deduplicate m" "sm_distributor m = None"
    and "cn_lastEventID (conn m a) \<noteq> event_id t w" "int (length (cn_out (conn m a))) < sm_sendBuffer m"
    and "\<And>w'. b \<Longrightarrow> tw_sse (tl_subscribers t ev w') = tw_sse w'"
  shows "\<exists>m'. tw_sse (fanOut t ev b w) = Some m' \<and> cn_out (conn m' a) = cn_out (conn m a) @
    (let se = stream_event t (event_id t w) (telemetry_of (event_id t w) ev) ev in
     case find (\<lambda>topic. entitled topic se (conn m a)) (EventTopics ev) of
       None \<Rightarrow> [] | Some topic \<Rightarrow> [the (event_frame (se\<lparr>sv_Topic := topic\<rparr>))])"
proof -
  let ?se = "stream_event t (event_id t w) (telemetry_of (event_id t w) ev) ev"
  let ?w1 = "record_telemetry t (telemetry_of (event_id t w) ev) (tick_tools w)"
  define w2 where "w2 = (if b then tl_subscribers t ev (?w1\<lparr>tw_bus := tw_bus ?w1 @ [ev]\<rparr>) else ?w1)"
  have c: "complete ?se" by (rule stream_event_complete[OF assms(3,2)])
  have i: "sv_ID ?se = event_id t w" by (simp add: stream_event_def)
  have "tw_sse w2 = Some m" using assms(4,11) by (simp add: w2_def)
  note o' = on_stream_Some[OF this, of "fold (\<lambda>topic. Broadcast (tl_sse t) topic ?se) (EventTopics ev)"]
  have "cn_out (conn (snd (fold (\<lambda>topic. Broadcast (tl_sse t) topic ?se) (EventTopics ev) (tw_tick w2, m))) a) =
      cn_out (conn m a) @ (case find (\<lambda>topic. entitled topic ?se (conn m a)) (EventTopics ev) of
         None \<Rightarrow> [] | Some topic \<Rightarrow> [the (event_frame (?se\<lparr>sv_Topic := topic\<rparr>))])"
    using assms(9) i by (intro broadcasts_once[OF assms(5,6) c assms(7,8) _ assms(10)]) simp
  then show ?thesis
    using o' by (auto simp: fanOut_dated[OF assms(1)] Let_def w2_def[symmetric])
qed

text \<open>A default stream (no topics requested) holds \<open>global\<close>, so it gets every event of a compatible tenant.\<close>

lemma find_global:
  assumes "SseTopicGlobal |\<in>| cn_topics c" "sv_TenantID se = [] \<or> cn_tenantID c = [] \<or> cn_tenantID c = sv_TenantID se"
  shows "find (\<lambda>topic. entitled topic se c) (EventTopics ev) = Some SseTopicGlobal"
  using assms by (subst EventTopics_global) (auto simp: entitled_def)

section \<open>Reachability of the stream\<close>

lemma hub_run_Broadcast:
  assumes "hub_run v H P m"
  shows "\<exists>H'. hub_run v H' P (snd (Broadcast v' topic ev (k, m)))"
proof -
  have "\<exists>H'. hub_run v H' P (broadcastLocal pick topic e m)" for pick e
    using hub_run_broadcast[OF assms] by metis
  then show ?thesis using assms by (auto simp: Broadcast_def split: prod.split option.split)
qed

lemma hub_run_Broadcasts:
  "hub_run v H P m \<Longrightarrow> \<exists>H'. hub_run v H' P (snd (fold (\<lambda>topic. Broadcast v' topic ev) topics (k, m)))"
proof (induction topics arbitrary: H k m)
  case (Cons topic topics)
  obtain k' m' where b: "Broadcast v' topic ev (k, m) = (k', m')" by fastforce
  obtain H' where "hub_run v H' P m'" using hub_run_Broadcast[OF Cons.prems, of v' topic ev k] b by auto
  then show ?case using Cons.IH b by simp
qed auto

lemma hub_run_fanOut:
  assumes "hub_run v H P m" "tw_sse w = Some m"
  shows "\<exists>H' m'. hub_run v H' P m' \<and> tw_sse (fanOut t ev False w) = Some m'"
proof -
  obtain r k where d: "newUUIDv4 (ss_crypto (tl_sse t)) (tw_tick w) = (r, k)" by fastforce
  have "\<exists>H'. hub_run v H' P (snd (fold (\<lambda>topic. Broadcast (tl_sse t) topic se) ts (n, m)))" for se ts n
    using hub_run_Broadcasts[OF assms(1)] by blast
  then show ?thesis
    using assms(2) by (auto simp: fanOut_def d Let_def on_stream_Some split: sum.split)
qed

section \<open>Event names from the path\<close>

text \<open>Every byte string reaches the handler as an event name: percent-encoded, it contains no slash.\<close>

definition percent_encode :: "string \<Rightarrow> string" where
  "percent_encode s = concat (map (\<lambda>c. CHR 0x25 # hex_encode [c]) s)"

lemma hex_encode_one: "hex_encode [c] = [hex_alphabet ! (byte c div 16), hex_alphabet ! (byte c mod 16)]"
  by (simp add: hex_encode_def)

lemma percent_encode_back: "path_unescape (percent_encode s) = Some s"
proof (induction s)
  case (Cons c s)
  have "byte c div 16 < 16" "byte c mod 16 < 16" by (simp_all add: less_mult_imp_div_less)
  then show ?case using Cons by (simp add: percent_encode_def hex_encode_one hex_value_alphabet)
qed (simp add: percent_encode_def)

lemma percent_encode_no_slash: "CHR ''/'' \<notin> set (percent_encode s)"
proof -
  have "list_all (\<lambda>i. hex_alphabet ! i \<noteq> CHR ''/'') [0..<16]" by code_simp
  then have "hex_alphabet ! i \<noteq> CHR ''/''" if "i < 16" for i using that by (simp add: list_all_iff)
  moreover have "byte c div 16 < 16" "byte c mod 16 < 16" for c by (simp_all add: less_mult_imp_div_less)
  ultimately have h: "hex_alphabet ! (byte c div 16) \<noteq> CHR ''/''" "hex_alphabet ! (byte c mod 16) \<noteq> CHR ''/''" for c
    by blast+
  show ?thesis
  proof (induction s)
    case (Cons c s)
    then show ?case using h(1,2)[of c, symmetric] by (simp add: percent_encode_def hex_encode_one)
  qed (simp add: percent_encode_def)
qed

lemma any_event_name:
  assumes "tq_EscapedPath rq = mount @ pre @ ''/'' @ percent_encode s" "prefix ''/'' pre" "s \<noteq> []"
  shows "toolsPathParam mount rq pre = s"
proof -
  obtain r where "pre = CHR ''/'' # r" using assms(2) by (auto simp: prefix_def)
  then have "toolsRelativePath (tq_EscapedPath rq) mount = pre @ ''/'' @ percent_encode s"
    using assms(1) by (simp add: toolsRelativePath_def)
  moreover have "percent_encode s \<noteq> []" using assms(3) by (cases s) (simp_all add: percent_encode_def)
  ultimately show ?thesis
    by (simp add: toolsPathParam_def percent_encode_no_slash percent_encode_back)
qed

text \<open>An event name with line breaks makes the frame two messages, the first entirely of the caller's making.\<close>

lemma one_line_hex: "one_line (hex_encode b)"
proof -
  have "list_all (\<lambda>i. one_line [hex_alphabet ! i]) [0..<16]" by code_simp
  then have h: "one_line [hex_alphabet ! i]" if "i < 16" for i using that by (simp only: list_all_iff) simp
  have "byte c div 16 < 16" "byte c mod 16 < 16" for c by (simp_all add: less_mult_imp_div_less)
  then show ?thesis using h by (induction b) (simp_all add: hex_encode_def)
qed

lemma one_line_uuid: "newUUIDv4 c k = (Ok i, k') \<Longrightarrow> one_line i \<and> i \<noteq> []"
  by (auto simp: newUUIDv4_def uuid_of_def Let_def one_line_hex split: sum.split_asm)

lemma event_frame_forged:
  assumes "event_frame ev = Some f" "plain_event ev" "one_line (sv_ID ev)"
    and "sv_Type ev = forging_type t d i t'" "one_line t" "one_line d" "one_line i" "one_line t'"
  shows "\<exists>d'. stream_messages i0 [] [] (stream_lines [] (f @ r)) =
    (sv_ID ev, t, d) # (i, t', d') # stream_messages i [] [] (stream_lines [] r)"
proof -
  obtain d' where d': "sseFrame ev = Some d'" "f = sse_lines (sv_ID ev) (sv_Type ev) d'"
    using assms(1) by (auto simp: event_frame_def)
  have "one_line d'" using one_line_sseFrame[OF assms(2) d'(1)] .
  then show ?thesis
    unfolding d'(2) assms(4) forged_frame append_assoc
    using read_frame[OF assms(3,5,6)] read_frame[OF assms(7,8)] by fastforce
qed

lemma plain_record: "te_Meta r = None \<Longrightarrow> plain_event (stream_event t i r ev)"
  by (auto simp: plain_event_def stream_event_def newTrackedRecord_def omitted_member_def)

lemma WithRequestContext_simps [simp]:
  "ev_Name (WithRequestContext ctx e) = ev_Name e" "ev_TenantID (WithRequestContext ctx e) = ev_TenantID e"
  "ev_Timestamp (WithRequestContext ctx e) = ev_Timestamp e" "ev_Data (WithRequestContext ctx e) = ev_Data e"
  by (simp_all add: WithRequestContext_def split: option.split)

text \<open>What the track route does to a stream that holds \<open>global\<close>: one frame, of the event the request describes.\<close>

lemma track_route_frame:
  assumes t: "tp_AuthTools o' = Some t" and b: "decode_track (tc_number cfg) (tq_Body rq) = Some body"
    and date: "ss_clock (tl_sse t) (tw_tick w) \<noteq> zero_time" "ss_format (tl_sse t) (ss_clock (tl_sse t) (tw_tick w)) \<noteq> []"
    and k: "newUUIDv4 (ss_crypto (tl_sse t)) (Suc (tw_tick w)) = (Ok k, n)"
    and quiet: "\<And>ev w'. tw_sse (tl_subscribers t ev w') = tw_sse w'"
    and m: "tw_sse w = Some m" "hub_ok m" "registered m a" "sm_deduplicate m" "sm_distributor m = None"
      "cn_lastEventID (conn m a) \<noteq> k" "int (length (cn_out (conn m a))) < sm_sendBuffer m"
    and global: "SseTopicGlobal |\<in>| cn_topics (conn m a)"
      "tb_TenantID body = [] \<or> cn_tenantID (conn m a) = [] \<or> cn_tenantID (conn m a) = tb_TenantID body"
  shows "\<exists>w' m' ev f. toolsTrackHandler cfg o' mount rq w = (ToolsOK 202, w') \<and> tw_sse w' = Some m' \<and>
    cn_out (conn m' a) = cn_out (conn m a) @ [f] \<and> ev_Name ev = toolsPathParam mount rq ToolsTrackPath \<and>
    ev_Data ev = tb_Data body \<and> event_frame ((stream_event t k (telemetry_of k ev) ev)\<lparr>sv_Topic := SseTopicGlobal\<rparr>) = Some f"
proof -
  obtain opts where track: "toolsTrackHandler cfg o' mount rq w =
      (ToolsOK 202, Track (Some t) (tq_Context rq) (toolsPathParam mount rq ToolsTrackPath) (tb_Data body) opts w)"
    and opts: "to_TenantID opts = tb_TenantID body"
    by (simp add: toolsTrackHandler_def b t Let_def)
  define ev where "ev = tracked_event (tq_Context rq) (ss_clock (tl_sse t) (tw_tick w))
    (toolsPathParam mount rq ToolsTrackPath) (tb_Data body) opts"
  have ev: "ev_Name ev = toolsPathParam mount rq ToolsTrackPath" "ev_Data ev = tb_Data body"
    "ev_Timestamp ev = ss_clock (tl_sse t) (tw_tick w)" "ev_TenantID ev = tb_TenantID body"
    by (simp_all add: ev_def tracked_event_def opts)
  have i: "event_id t (tick_tools w) = k" using k by (simp add: event_id_def)
  have "k \<noteq> []" using one_line_uuid[OF k] by simp
  let ?se = "stream_event t k (telemetry_of k ev) ev"
  have found: "find (\<lambda>topic. entitled topic ?se (conn m a)) (EventTopics ev) = Some SseTopicGlobal"
    using global ev(4) by (intro find_global) (auto simp: stream_event_def)
  have "event_frame (?se\<lparr>sv_Topic := SseTopicGlobal\<rparr>) \<noteq> None"
    using complete_frame[of ?se] stream_event_complete[of t "tick_tools w" ev] \<open>k \<noteq> []\<close> date(2) ev(3) i by simp
  then obtain f where f: "event_frame (?se\<lparr>sv_Topic := SseTopicGlobal\<rparr>) = Some f" by blast
  have "tw_sse (tick_tools w) = Some m" using m(1) by simp
  from fanOut_once[of ev t "tick_tools w" m a True, unfolded i ev(3), OF date \<open>k \<noteq> []\<close> this m(2-7) quiet] found f
  obtain m' where "tw_sse (fanOut t ev True (tick_tools w)) = Some m'" "cn_out (conn m' a) = cn_out (conn m a) @ [f]"
    by (auto simp: Let_def)
  moreover have "Track (Some t) (tq_Context rq) (toolsPathParam mount rq ToolsTrackPath) (tb_Data body) opts w =
      fanOut t ev True (tick_tools w)" by (simp add: Track_def ev_def)
  ultimately show ?thesis using track ev(1,2) f by metis
qed

section \<open>The guard\<close>

text \<open>What a guard refuses, the router refuses, and nothing happens; inbound webhooks and documents have no guard. On
  the stream route the guard sees the request with the query's token in place of the credential.\<close>

lemma guard_covers:
  assumes "tp_Access o' = ToolsProtected (Some mw)" "\<And>next. mw next rq w = (denied, w)"
    and "\<And>token next. toolsSseQueryToken rq = Some token \<Longrightarrow> toolsRouterPath mount rq = ToolsStreamPath \<Longrightarrow>
      mw next (rq\<lparr>rq_Headers := header_set ''Authorization'' (''Bearer '' @ token) (rq_Headers rq)\<rparr>) w = (denied', w)"
    and "\<not> (toolsInboundMounted o' ib \<and> rq_Method rq = ''POST'' \<and> toolsPathParam mount rq ToolsWebhookPath \<noteq> [])"
  shows "snd (ToolsHandler cfg o' ib mount format flushes written rq w) = w"
    "fst (ToolsHandler cfg o' ib mount format flushes written rq w) \<in> {denied, denied', ToolsSpec, ToolsPage, ToolsNotFound}"
proof -
  have mw: "ToolsProtectMiddleware o' = mw" using assms(1) by (simp add: ToolsProtectMiddleware_def ToolsProtected_def)
  then have p: "ToolsProtectMiddleware o' next rq w = (denied, w)" for "next" using assms(2) by simp
  have "\<exists>d. d \<in> {denied, denied'} \<and> (\<forall>next. toolsRouterPath mount rq = ToolsStreamPath \<longrightarrow>
      ToolsSseTokenMiddleware (ToolsProtectMiddleware o' next) rq w = (d, w))"
    using assms(2,3) mw
    by (intro exI[of _ "if toolsSseQueryToken rq = None then denied else denied'"])
      (auto simp: ToolsSseTokenMiddleware_def split: option.split)
  then obtain d where d: "d \<in> {denied, denied'}" "\<And>next. toolsRouterPath mount rq = ToolsStreamPath \<Longrightarrow>
      ToolsSseTokenMiddleware (ToolsProtectMiddleware o' next) rq w = (d, w)" by blast
  then show "snd (ToolsHandler cfg o' ib mount format flushes written rq w) = w"
    "fst (ToolsHandler cfg o' ib mount format flushes written rq w) \<in> {denied, denied', ToolsSpec, ToolsPage, ToolsNotFound}"
    using p by (simp_all add: ToolsHandler_def Let_def if_not_P[OF assms(4)]) auto
qed

text \<open>A token in the query replaces whatever credential the request's headers carried.\<close>

lemma query_token_wins:
  assumes "toolsSseQueryToken rq = Some token"
  shows "ToolsSseTokenMiddleware next rq w =
      next (rq\<lparr>rq_Headers := header_set ''Authorization'' (''Bearer '' @ token) (rq_Headers rq)\<rparr>) w"
    "firstHeaderValue (rq\<lparr>rq_Headers := header_set ''Authorization'' (''Bearer '' @ token) (rq_Headers rq)\<rparr>)
      ''Authorization'' = ''Bearer '' @ token"
  using assms by (simp_all add: ToolsSseTokenMiddleware_def firstHeaderValue_def header_set_def)

section \<open>The actions of a script\<close>

lemma resolve_loop_set:
  "set (resolve_loop E S R is) = set R \<union> {i \<in> set is. i |\<in>| E \<and> i |\<notin>| S}"
  by (induction E S R "is" rule: resolve_loop.induct) auto

lemma resolve_loop_distinct:
  "distinct R \<Longrightarrow> set R \<subseteq> fset S \<Longrightarrow> distinct (resolve_loop E S R is)"
  by (induction E S R "is" rule: resolve_loop.induct) auto

lemma resolve_loop_subseq: "\<exists>xs. resolve_loop E S R is = R @ xs \<and> subseq xs is"
proof (induction E S R "is" rule: resolve_loop.induct)
  case (2 E S R i "is")
  then show ?case by (auto intro: subseq_Cons2)
qed auto

text \<open>Exactly the actions both lists name, once each, in the order of the webhook's list.\<close>

lemma resolved_actions:
  "set (resolveInboundActions enabled allowed) = set enabled \<inter> set allowed"
  "distinct (resolveInboundActions enabled allowed)" "subseq (resolveInboundActions enabled allowed) allowed"
  using resolve_loop_set[of "fset_of_list enabled" "{||}" "[]" allowed]
    resolve_loop_distinct[of "[]" "{||}" "fset_of_list enabled" allowed]
    resolve_loop_subseq[of "fset_of_list enabled" "{||}" "[]" allowed]
  by (auto simp: resolveInboundActions_def fset_of_list.rep_eq)

text \<open>Whatever the runner is asked to run, it is told of no action the administrator has not enabled; and
  when the settings cannot be read, of none.\<close>

lemma script_actions:
  assumes "ib_runner ib = Some run" "runInboundScript ib provider config body k = (r, k')"
  shows "\<exists>q n. set (iq_Actions q) \<subseteq> set (fst (inboundEnabledActions ib k)) \<and>
    set (iq_Actions q) \<subseteq> set (case wc_AllowedActions config of None \<Rightarrow> [] | Some xs \<Rightarrow> xs) \<and>
    r = map_sum id (\<lambda>(x, emits). if emits then Some x else None) (run n q) \<and> iq_Script q = wc_JSScript config"
proof -
  obtain enabled n where e: "inboundEnabledActions ib k = (enabled, n)" by fastforce
  define q where "q = \<lparr>iq_Provider = provider, iq_WebhookID = wc_ID config, iq_Script = wc_JSScript config,
    iq_Body = body, iq_Actions = resolveInboundActions enabled (case wc_AllowedActions config of None \<Rightarrow> [] | Some xs \<Rightarrow> xs)\<rparr>"
  have "r = map_sum id (\<lambda>(x, emits). if emits then Some x else None) (run n q)"
    using assms e by (auto simp: runInboundScript_def Let_def q_def[symmetric] split: sum.split_asm)
  then show ?thesis
    using e by (intro exI[of _ q] exI[of _ n]) (simp add: q_def resolved_actions)
qed

lemma no_settings_no_actions:
  "ib_settings ib = None \<or> (\<exists>get e. ib_settings ib = Some get \<and> get k = Inl e) \<Longrightarrow> fst (inboundEnabledActions ib k) = []"
  by (auto simp: inboundEnabledActions_def)

text \<open>A script that cannot be run is refused, not acknowledged, and nothing is tracked.\<close>

lemma script_without_runner:
  assumes "toolsPathParam mount rq ToolsWebhookPath \<noteq> []" "ib_store ib = Some find'" "ib_runner ib = None"
    and "find' (tw_tick w) (toolsPathParam mount rq ToolsWebhookPath) = Inr (Some config)" "wc_JSScript config \<noteq> []"
  shows "fst (toolsInboundWebhookHandler o' ib mount rq w) = ToolsError HTTPErrWebhookFailed"
    "\<exists>k. snd (toolsInboundWebhookHandler o' ib mount rq w) = w\<lparr>tw_tick := k\<rparr>"
  using assms
  by (auto simp: toolsInboundWebhookHandler_def toolsInboundResult_def runInboundScript_def Let_def
      split: sum.split prod.split intro: exI[of _ "tw_tick w"])

text \<open>Deactivating a webhook does not stop its script: the route never reads the flag.\<close>

lemma inactive_script_runs:
  "runInboundScript ib provider (config\<lparr>wc_IsActive := a\<rparr>) body k = runInboundScript ib provider config body k"
  by (auto simp: runInboundScript_def Let_def split: prod.split option.split)

section \<open>Notifications\<close>

text \<open>A notification without a user, or for one the store does not find, sends no mail and no text message.\<close>

lemma notify_stream_quiet [simp]:
  "tw_mails (notify_stream t target data opts w) = tw_mails w" "tw_texts (notify_stream t target data opts w) = tw_texts w"
  by (auto simp: notify_stream_def on_stream_def split: option.split prod.split)

definition no_recipient :: "AuthTools \<Rightarrow> NotifyOptions \<Rightarrow> bool" where
  "no_recipient t opts \<longleftrightarrow> no_UserID opts = [] \<or> (case tl_users t of None \<Rightarrow> True
     | Some lookup \<Rightarrow> \<forall>k. \<not> is_ok (lookup k (no_UserID opts) (no_TenantID opts)))"

lemma notify_needs_user:
  assumes "no_recipient t opts"
  shows "tw_mails (Notify (Some t) target data opts w) = tw_mails w \<and> tw_texts (Notify (Some t) target data opts w) = tw_texts w"
proof (cases "no_UserID opts = [] \<or> tl_users t = None")
  case True
  then show ?thesis by (auto simp: Notify_def Let_def)
next
  case False
  then obtain lookup where l: "tl_users t = Some lookup" by auto
  have "\<exists>e. lookup k (no_UserID opts) (no_TenantID opts) = Inl e" for k
    using assms False l by (simp add: no_recipient_def isl_def)
  then obtain e where "\<And>k. lookup k (no_UserID opts) (no_TenantID opts) = Inl (e k)" by metis
  then show ?thesis using l False by (auto simp: Notify_def Let_def)
qed

text \<open>The route's notifications reach the stream only: it sets no channel.\<close>

lemma notify_route_streams_only:
  "tw_mails (snd (toolsNotifyHandler cfg o' mount rq w)) = tw_mails w"
  "tw_texts (snd (toolsNotifyHandler cfg o' mount rq w)) = tw_texts w"
  by (simp_all add: toolsNotifyHandler_def Notify_def hasChannel_def Let_def split: option.split)

end
