(* ===== verification/Demo_Tools.thy ===== *)
theory Demo_Tools
  imports Tools_Laws Demo_World
begin

text \<open>
  A concrete facade with one stream, a tracked event, a request with a forged event name and an inbound
  webhook, for the witnesses. Nothing here models code.
\<close>

section \<open>A stream and an event\<close>

definition demo_sse :: sse_env where
  "demo_sse = \<lparr>ss_crypto = demo_crypto [], ss_format = (\<lambda>t. ''t''), ss_clock = (\<lambda>k. demo_now), ss_pick = (\<lambda>k a. False)\<rparr>"

definition demo_manager :: SseManager where
  "demo_manager = \<lparr>sm_heartbeat = DefaultSseHeartbeatInterval, sm_deduplicate = True,
     sm_sendBuffer = defaultSseSendBuffer, sm_distributor = None, sm_connections = fmempty, sm_heap = []\<rparr>"

lemma demo_NewSseManager: "NewSseManager None [] = Ok demo_manager"
  by (simp add: NewSseManager_def demo_manager_def DefaultSseHeartbeatInterval_def defaultSseSendBuffer_def)

lemma demo_started: "hub_run demo_sse {} {#} demo_manager"
  using demo_NewSseManager by (rule hub_run.start) (simp_all add: demo_manager_def)

text \<open>Somebody of tenant \<open>t\<close> listens, and an event of that tenant is broadcast and written.\<close>

definition demo_sse_meta :: SseConnectionMeta where "demo_sse_meta = \<lparr>sn_UserID = ''u'', sn_TenantID = ''t''\<rparr>"

definition demo_id :: "nat \<Rightarrow> string" where "demo_id k = uuid_of (demo_bytes k 16)"

definition demo_listening :: SseManager where
  "demo_listening = demo_manager\<lparr>
     sm_heap := [new_connection (demo_id 0) (StreamTopics ''u'' ''t'' []) demo_sse_meta
       (connected_frame (demo_id 1) ''t'' (demo_id 0) (StreamTopics ''u'' ''t'' []))],
     sm_connections := fmupd (demo_id 0) 0 fmempty\<rparr>"

lemma demo_uuid: "newUUIDv4 (demo_crypto []) k = (Ok (demo_id k), Suc k)" if "k < 256"
  using that by (simp add: newUUIDv4_def demo_crypto_def demo_id_def)

lemma demo_opens:
  "serve_open demo_sse True None (StreamTopics ''u'' ''t'' []) demo_sse_meta (0, demo_manager) = (Ok 0, 3, demo_listening)"
  by (simp add: serve_open_def demo_sse_def demo_uuid demo_listening_def Let_def demo_manager_def)

lemma demo_listening_run: "hub_run demo_sse {} {#} demo_listening"
  using demo_started demo_opens by (rule hub_run.opened)

definition demo_stream_event :: StreamEvent where
  "demo_stream_event = \<lparr>sv_ID = ''e'', sv_Type = ''x'', sv_Timestamp = ''t'', sv_Data = Value JNull, sv_UserID = [],
     sv_TenantID = ''t'', sv_Topic = SseTopicGlobal, sv_Metadata = None\<rparr>"

definition demo_frame :: string where "demo_frame = the (event_frame demo_stream_event)"

lemma demo_event_frame: "event_frame demo_stream_event = Some demo_frame"
  by (simp add: demo_frame_def event_frame_def sseFrame_def marshal_payload_def demo_stream_event_def)

lemma demo_hub_ok: "hub_ok demo_listening"
  by (rule hub_run_ok[OF demo_listening_run])

lemma demo_registered: "registered demo_listening 0"
  "cn_topics (conn demo_listening 0) = fset_of_list (StreamTopics ''u'' ''t'' [])" "cn_tenantID (conn demo_listening 0) = ''t''"
  "cn_lastEventID (conn demo_listening 0) = []" "cn_out (conn demo_listening 0) = []"
  "sm_deduplicate demo_listening" "sm_distributor demo_listening = None" "sm_sendBuffer demo_listening = 64"
  by (simp_all add: registered_def demo_listening_def new_connection_def demo_manager_def demo_sse_meta_def
      defaultSseSendBuffer_def)

text \<open>The event reaches the queue, and the loop writes it.\<close>

definition demo_heard :: SseManager where
  "demo_heard = serve_frame None 0 (broadcastLocal (\<lambda>_. False) SseTopicGlobal demo_stream_event demo_listening)"

lemma demo_entitled: "entitled SseTopicGlobal demo_stream_event (conn demo_listening 0)"
  by (simp add: entitled_def demo_registered(2,3) StreamTopics_def demo_stream_event_def)

lemma demo_heard_run: "\<exists>H. hub_run demo_sse H {#} demo_heard"
proof -
  let ?m = "broadcastLocal (\<lambda>_. False) SseTopicGlobal demo_stream_event demo_listening"
  obtain H where run: "hub_run demo_sse H {#} ?m" using hub_run_broadcast[OF demo_listening_run] by metis
  have q: "only_queues demo_listening ?m" by (rule queues.broadcasting)
  have "length (sm_heap demo_listening) = 1" "cn_serving (conn demo_listening 0)"
    by (simp_all add: demo_listening_def new_connection_def)
  then have "0 < length (sm_heap ?m)" "cn_serving (conn ?m 0)" using q by (simp_all add: only_queues_def)
  from hub_run.frame[OF run this] show ?thesis unfolding demo_heard_def by blast
qed

lemma demo_heard_wire: "demo_frame \<in> set (cn_wire (conn demo_heard 0))" "0 < length (sm_heap demo_heard)"
  "cn_tenantID (conn demo_heard 0) = ''t''"
proof -
  let ?m = "broadcastLocal (\<lambda>_. False) SseTopicGlobal demo_stream_event demo_listening"
  have c: "conn ?m 0 = delivered (\<lambda>_. False) ''e'' demo_frame demo_listening 0"
    using broadcast_registered(1)[OF demo_hub_ok demo_registered(1) demo_event_frame] demo_entitled
    by (simp add: demo_stream_event_def)
  have out: "cn_out (conn ?m 0) = [demo_frame]" "cn_tenantID (conn ?m 0) = ''t''"
    unfolding c by (simp_all add: delivered_def enqueue_def demo_registered Let_def)
  have len: "length (sm_heap ?m) = 1"
    using queues.broadcasting[of demo_listening "\<lambda>_. False" SseTopicGlobal demo_stream_event]
    by (simp add: only_queues_def demo_listening_def)
  show "demo_frame \<in> set (cn_wire (conn demo_heard 0))" "0 < length (sm_heap demo_heard)"
    "cn_tenantID (conn demo_heard 0) = ''t''"
    using out len by (simp_all add: demo_heard_def serve_frame_def Let_def)
qed

section \<open>A facade\<close>

definition demo_tools :: AuthTools where
  "demo_tools = \<lparr>tl_sse = demo_sse,
     tl_send = \<lparr>se_crypto = demo_crypto [], se_deliver = (\<lambda>k a. None), se_sleep = (\<lambda>k d. None)\<rparr>,
     tl_reads = (\<lambda>k i. 0), tl_version = [], tl_record = (\<lambda>k. None), tl_subscribers = (\<lambda>ev w. w), tl_users = None,
     tl_mail = None, tl_sms = None, tl_onError = False\<rparr>"

definition demo_tools_world :: tools_world where
  "demo_tools_world = \<lparr>tw_telemetry = Some [], tw_bus = [], tw_sse = Some demo_listening, tw_webhooks = None,
     tw_sent = [], tw_mails = [], tw_texts = [], tw_reports = [], tw_tick = 3\<rparr>"

definition demo_tracked :: "string \<Rightarrow> Event" where
  "demo_tracked name = zero_event\<lparr>ev_Name := name, ev_TenantID := ''t'', ev_Timestamp := demo_now\<rparr>"

lemma demo_event_id: "event_id demo_tools demo_tools_world = demo_id 3"
  by (simp add: event_id_def demo_tools_def demo_sse_def demo_tools_world_def demo_uuid)

lemma demo_id_nonempty: "demo_id k \<noteq> []" "one_line (demo_id k)"
  by (simp_all add: demo_id_def uuid_of_def Let_def one_line_hex)

definition demo_tools_request :: "string \<Rightarrow> tools_request" where
  "demo_tools_request name = \<lparr>rq_Method = ''POST'', rq_Path = [], rq_Headers = [], rq_Cookies = [],
     tq_EscapedPath = ''/tools'' @ ToolsTrackPath @ ''/'' @ percent_encode name, tq_Query = fmempty, tq_Body = None,
     tq_RemoteAddr = ''10.0.0.1:80'', tq_User = None, tq_Context = None\<rparr>"

definition demo_libs :: tools_libs where
  "demo_libs = \<lparr>tc_ClientIP = None, tc_split = (\<lambda>a. None), tc_number = Some, tc_layout = (\<lambda>i s. None)\<rparr>"

definition demo_options :: ToolsOptions where
  "demo_options = \<lparr>tp_Enabled = True, tp_AuthTools = Some demo_tools,
     tp_Access = ToolsProtected (Some (\<lambda>next rq w. (ToolsError HTTPErrInvalidAccessToken, w))),
     tp_DisableTelemetry = False, tp_DisableNotify = False, tp_DisableStream = False, tp_DisableWebhook = False,
     tp_Docs_Enabled = True, tp_TelemetryStore = None\<rparr>"

definition demo_runner :: "nat \<Rightarrow> InboundScriptRequest \<Rightarrow> (InboundScriptResult \<times> bool) result" where
  "demo_runner k q = Ok (\<lparr>ir_Event = ''e'', ir_Data = None, ir_UserID = [], ir_TenantID = []\<rparr>, False)"

definition demo_inbound :: inbound where
  "demo_inbound = \<lparr>ib_store = None, ib_runner = Some demo_runner, ib_hook = None, ib_settings = None, ib_maxBytes = 0\<rparr>"

definition demo_script :: WebhookConfig where
  "demo_script = zero_webhook\<lparr>wc_JSScript := ''s'', wc_AllowedActions := Some [''a'']\<rparr>"

end
