(* ===== verification/Admin_Guard.thy ===== *)
theory Admin_Guard
  imports Tools_Router Site_Links Service_Account
begin

text \<open>
  The guard of the admin console (\<open>admin.go\<close>): the policies, who a request comes from, the token of the
  console and its cookie, the login and the logout. What a host supplies is a parameter: a predicate may answer
  differently every time it is asked. The clock is the service's.
\<close>

section \<open>Policies and options\<close>

datatype AdminPolicyKind = AdminPolicyOpen | AdminPolicyFirstUser | AdminPolicyIsAdminFlag | AdminPolicyOther string

type_synonym AdminPolicyFunc = "nat \<Rightarrow> User \<Rightarrow> MemoryRolesPermissionsStore option \<Rightarrow> bool result"

record AdminAccessPolicy =
  ap_Kind :: AdminPolicyKind
  ap_Predicate :: "AdminPolicyFunc option"

definition AdminOpen :: AdminAccessPolicy where
  "AdminOpen = \<lparr>ap_Kind = AdminPolicyOpen, ap_Predicate = None\<rparr>"

definition AdminFirstUser :: AdminAccessPolicy where
  "AdminFirstUser = \<lparr>ap_Kind = AdminPolicyFirstUser, ap_Predicate = None\<rparr>"

definition AdminIsAdminFlag :: AdminAccessPolicy where
  "AdminIsAdminFlag = \<lparr>ap_Kind = AdminPolicyIsAdminFlag, ap_Predicate = None\<rparr>"

definition AdminPredicate :: "AdminPolicyFunc \<Rightarrow> AdminAccessPolicy" where
  "AdminPredicate fn = \<lparr>ap_Kind = AdminPolicyOther [], ap_Predicate = Some fn\<rparr>"

record AdminRootUser =
  ar_Email :: string
  ar_PasswordHash :: string

text \<open>\<open>AdminOptions\<close> less its path, which \<open>HTTPConfig\<close> has, and less the rate limiter, which the router takes.\<close>

record AdminOptions =
  ao_Enabled :: bool
  ao_AccessPolicy :: "AdminAccessPolicy option"
  ao_Secret :: string
  ao_JWTSecret :: string
  ao_LoginPath :: string
  ao_CookiePrefix :: "string option"
  ao_RootUser :: "AdminRootUser option"
  ao_AuthAPIPrefix :: string
  ao_UploadBaseURL :: string
  ao_Docs_Enabled :: bool

record admin_config =
  ax_http :: HTTPConfig
  ax_admin :: AdminOptions

definition AdminMounted :: "admin_config \<Rightarrow> bool" where
  "AdminMounted cfg \<longleftrightarrow> ao_Enabled (ax_admin cfg) \<and>
     (ao_AccessPolicy (ax_admin cfg) \<noteq> None \<or> trim_space (ao_Secret (ax_admin cfg)) \<noteq> [])"

definition adminAuthAPIPrefix :: "admin_config \<Rightarrow> string" where
  "adminAuthAPIPrefix cfg = (let p = trim_space (ao_AuthAPIPrefix (ax_admin cfg)) in
     if p \<noteq> [] then p else Prefix (ax_http cfg))"

section \<open>The guard\<close>

record admin_guard =
  ag_policy :: "AdminAccessPolicy option"
  ag_secret :: string
  ag_jwtSecret :: string
  ag_sessionBased :: bool

definition AdminGuard :: "env \<Rightarrow> admin_config \<Rightarrow> admin_guard" where
  "AdminGuard v cfg =
     (let opts = ax_admin cfg; jwt = trim_space (ao_JWTSecret opts);
          jwt = (if jwt = [] then cf_Secret (e_cfg v) else jwt)
      in case ao_AccessPolicy opts of
        Some p \<Rightarrow> \<lparr>ag_policy = Some p, ag_secret = [], ag_jwtSecret = jwt,
          ag_sessionBased = (\<not> (ap_Predicate p = None \<and> ap_Kind p = AdminPolicyOpen))\<rparr>
      | None \<Rightarrow> \<lparr>ag_policy = None, ag_secret = trim_space (ao_Secret opts), ag_jwtSecret = jwt,
          ag_sessionBased = False\<rparr>)"

definition LoginRoutesMounted :: "admin_guard \<Rightarrow> bool" where
  "LoginRoutesMounted g \<longleftrightarrow> ag_sessionBased g \<and> ag_jwtSecret g \<noteq> []"

section \<open>The console's token\<close>

definition adminTokenType :: string where "adminTokenType = ''admin''"
definition adminAccessTokenType :: string where "adminAccessTokenType = ''access''"
definition adminSessionTTL :: duration where "adminSessionTTL = 24 * hour"

record adminClaims =
  dc_Sub :: string
  dc_Email :: string
  dc_IsRoot :: bool
  dc_Tid :: string
  dc_Typ :: string
  dc_Iss :: string
  dc_Iat :: int
  dc_Exp :: int

definition admin_claim_names :: "string list" where
  "admin_claim_names = [''sub'', ''email'', ''isRoot'', ''tid'', ''typ'', ''iss'', ''iat'', ''exp'']"

definition decode_admin_claims :: "(string \<times> json) list \<Rightarrow> adminClaims option" where
  "decode_admin_claims kvs = do {
     sub \<leftarrow> decode_each decode_string (field_values admin_claim_names ''sub'' kvs) [];
     email \<leftarrow> decode_each decode_string (field_values admin_claim_names ''email'' kvs) [];
     isRoot \<leftarrow> decode_each decode_bool (field_values admin_claim_names ''isRoot'' kvs) False;
     tid \<leftarrow> decode_each decode_string (field_values admin_claim_names ''tid'' kvs) [];
     ty \<leftarrow> decode_each decode_string (field_values admin_claim_names ''typ'' kvs) [];
     iss \<leftarrow> decode_each decode_string (field_values admin_claim_names ''iss'' kvs) [];
     iat \<leftarrow> decode_each decode_int64 (field_values admin_claim_names ''iat'' kvs) 0;
     ex \<leftarrow> decode_each decode_int64 (field_values admin_claim_names ''exp'' kvs) 0;
     Some \<lparr>dc_Sub = sub, dc_Email = email, dc_IsRoot = isRoot, dc_Tid = tid, dc_Typ = ty, dc_Iss = iss,
           dc_Iat = iat, dc_Exp = ex\<rparr>
   }"

text \<open>The steps before the claims are judged: shape, algorithm, signature, payload.\<close>

definition signed_admin_claims :: "crypto \<Rightarrow> string \<Rightarrow> string \<Rightarrow> adminClaims option" where
  "signed_admin_claims c secret raw = (case splitToken raw of
     Inl _ \<Rightarrow> None
   | Inr (header, payload, sig) \<Rightarrow> do {
       rawHeader \<leftarrow> base64url_decode header;
       alg \<leftarrow> headerAlg rawHeader;
       if alg \<noteq> tokenAlg then None
       else if \<not> secureEqual (sign c (header @ ''.'' @ payload) secret) sig then None
       else do {
         rawPayload \<leftarrow> base64url_decode payload;
         value \<leftarrow> json_parse rawPayload;
         kvs \<leftarrow> object_members value;
         decode_admin_claims kvs
       }
     })"

text \<open>An access token never says that its holder is root. The second component counts the clock.\<close>

definition verifyToken :: "env \<Rightarrow> admin_guard \<Rightarrow> string \<Rightarrow> nat \<Rightarrow> adminClaims option \<times> nat" where
  "verifyToken v g raw k = (case signed_admin_claims (e_crypto v) (ag_jwtSecret g) raw of
     None \<Rightarrow> (None, k)
   | Some claims \<Rightarrow>
       if dc_Typ claims \<noteq> adminTokenType \<and> dc_Typ claims \<noteq> adminAccessTokenType then (None, k)
       else (let claims = (if dc_Typ claims = adminTokenType then claims else claims\<lparr>dc_IsRoot := False\<rparr>) in
         if dc_Iss claims \<noteq> cf_Issuer (e_cfg v) then (None, k)
         else if e_clock v k > unix_time (dc_Exp claims) + cf_ClockSkew (e_cfg v) then (None, Suc k)
         else (Some claims, Suc k)))"

definition admin_token :: "admin_guard \<Rightarrow> admin_config \<Rightarrow> http_request \<Rightarrow> string" where
  "admin_token g cfg rq =
     (let raw = BearerToken (header_get rq ''Authorization'') in
      if raw \<noteq> [] then raw
      else case ao_CookiePrefix (ax_admin cfg) of
        Some pre \<Rightarrow> (case request_cookie rq (pre @ AccessTokenCookieName) of None \<Rightarrow> [] | Some c \<Rightarrow> trim_space c)
      | None \<Rightarrow> CookieValue rq AccessTokenCookieName)"

definition readToken ::
    "env \<Rightarrow> admin_guard \<Rightarrow> admin_config \<Rightarrow> http_request \<Rightarrow> nat \<Rightarrow> adminClaims option \<times> nat" where
  "readToken v g cfg rq k =
     (if ag_jwtSecret g = [] then (None, k)
      else if admin_token g cfg rq = [] then (None, k)
      else verifyToken v g (admin_token g cfg rq) k)"

text \<open>\<open>mintAdminToken\<close> passes the claims through a \<open>map[string]any\<close>, where numbers are floats; \<open>num\<close> is what
  a number is printed as after that.\<close>

definition admin_claim_members :: "adminClaims \<Rightarrow> (string \<times> json) list" where
  "admin_claim_members claims =
     [(''sub'', JStr (dc_Sub claims)), (''email'', JStr (dc_Email claims)), (''isRoot'', JBool (dc_IsRoot claims))] @
     (if dc_Tid claims = [] then [] else [(''tid'', JStr (dc_Tid claims))]) @
     [(''typ'', JStr (dc_Typ claims)), (''iss'', JStr (dc_Iss claims)), (''iat'', JNum (decimal (dc_Iat claims))),
      (''exp'', JNum (decimal (dc_Exp claims)))]"

definition marshal_admin_claims :: "adminClaims \<Rightarrow> string" where
  "marshal_admin_claims claims = ''{'' @ print_members (admin_claim_members claims) @ ''}''"

definition mintAdminToken ::
    "env \<Rightarrow> (string \<Rightarrow> string option) \<Rightarrow> admin_guard \<Rightarrow> adminClaims \<Rightarrow> nat \<Rightarrow> string option \<times> nat" where
  "mintAdminToken v num g claims k =
     (let now = e_clock v k;
          claims = claims\<lparr>dc_Typ := adminTokenType, dc_Iss := cf_Issuer (e_cfg v), dc_Iat := unix_of now,
            dc_Exp := unix_of (now + adminSessionTTL)\<rparr>
      in (do {
            value \<leftarrow> json_parse (marshal_admin_claims claims);
            read \<leftarrow> read_map num value None;
            members \<leftarrow> read;
            Some (buildHS256JWT (e_crypto v) members (ag_jwtSecret g))
          }, Suc k))"

section \<open>Who may enter\<close>

datatype admin_outcome =
    AdminGranted "User option"
  | AdminNeedsLoginForm
  | AdminError int string
  | AdminRedirect string
  | AdminGuardPanics

text \<open>\<open>evaluate\<close>: the answer of the policy, and whether the store lacks the listing that it needs. The second part is a
  panic where the listing of the store panics.\<close>

definition evaluate :: "env \<Rightarrow> AdminAccessPolicy \<Rightarrow> User \<Rightarrow> world \<Rightarrow> (bool \<times> bool outcome) \<times> world" where
  "evaluate v p user w = (case ap_Predicate p of
     Some predicate \<Rightarrow>
       ((predicate (w_tick w) user (w_rbac w) = Ok True, Returns False), w\<lparr>w_tick := Suc (w_tick w)\<rparr>)
   | None \<Rightarrow> (case ap_Kind p of
       AdminPolicyIsAdminFlag \<Rightarrow> ((u_IsAdmin user, Returns False), w)
     | AdminPolicyFirstUser \<Rightarrow> (case ListUsers_service v [] 1 0 w of
         (Inl e, w) \<Rightarrow> ((False, Returns (errors_is e ErrFeatureNotSupported)), w)
       | (Inr Panics, w) \<Rightarrow> ((False, Panics), w)
       | (Inr (Returns first), w) \<Rightarrow> ((first \<noteq> [] \<and> u_ID (hd first) = u_ID user, Returns False), w))
     | _ \<Rightarrow> ((False, Returns False), w)))"

text \<open>A request that carries no valid token: a redirect, the login form, or 401.\<close>

definition unauthenticated :: "admin_config \<Rightarrow> tools_request \<Rightarrow> admin_outcome" where
  "unauthenticated cfg rq =
     (if string_index ''text/html'' (header_get (http_request.truncate rq) ''Accept'') = None
      then AdminError 401 ''Unauthorized''
      else if trim_space (ao_LoginPath (ax_admin cfg)) \<noteq> [] then AdminRedirect
        (trim_space (ao_LoginPath (ax_admin cfg)) @ ''?redirect='' @
         query_escape (AdminPath (ax_http cfg) @ toolsRelativePath (rq_Path rq) (AdminPath (ax_http cfg))))
      else if rq_Method rq = ''GET'' then AdminNeedsLoginForm
      else AdminError 401 ''Unauthorized'')"

definition root_user :: "adminClaims \<Rightarrow> User" where
  "root_user claims = zero_user\<lparr>u_ID := dc_Sub claims,
     u_Email := (if dc_Email claims = [] then ''root@admin'' else dc_Email claims), u_IsAdmin := True\<rparr>"

text \<open>The principal of a valid token, and the policy on it.\<close>

definition admit_claims :: "env \<Rightarrow> AdminAccessPolicy \<Rightarrow> adminClaims \<Rightarrow> world \<Rightarrow> admin_outcome \<times> world" where
  "admit_claims v p claims w =
     (if dc_Sub claims = [] then (AdminError 401 ''Unauthorized'', w)
      else if dc_IsRoot claims then (AdminGranted (Some (root_user claims)), w)
      else case GetUserByID (dc_Sub claims) (dc_Tid claims) (w_users w) of
        Inl _ \<Rightarrow> (AdminError 401 ''Unauthorized'', w)
      | Inr user \<Rightarrow> (case evaluate v p user w of
          ((granted, missing), w) \<Rightarrow>
            (if missing = Panics then AdminGuardPanics
             else if missing = Returns True then
               AdminError 500 ''accessPolicy: first-user requires IUserStore.listUsers to be implemented''
             else if \<not> granted then AdminError 403 ''Forbidden''
             else AdminGranted (Some user), w)))"

definition authorise ::
    "env \<Rightarrow> admin_config \<Rightarrow> admin_guard \<Rightarrow> tools_request \<Rightarrow> world \<Rightarrow> admin_outcome \<times> world" where
  "authorise v cfg g rq w = (case ag_policy g of
     None \<Rightarrow>
       (let token = BearerToken (header_get (http_request.truncate rq) ''Authorization'') in
        (if token = [] then AdminError 401 ''Unauthorized''
         else if \<not> secureEqual token (ag_secret g) then AdminError 403 ''Forbidden''
         else AdminGranted None, w))
   | Some p \<Rightarrow>
       if ap_Predicate p = None \<and> ap_Kind p = AdminPolicyOpen then (AdminGranted None, w)
       else (case readToken v g cfg (http_request.truncate rq) (w_tick w) of
         (None, k) \<Rightarrow> (unauthenticated cfg rq, w\<lparr>w_tick := k\<rparr>)
       | (Some claims, k) \<Rightarrow> admit_claims v p claims (w\<lparr>w_tick := k\<rparr>)))"

section \<open>The cookie, the login, the logout\<close>

definition adminCookieName :: "admin_config \<Rightarrow> string" where
  "adminCookieName cfg = (case ao_CookiePrefix (ax_admin cfg) of
     Some pre \<Rightarrow> pre @ AccessTokenCookieName
   | None \<Rightarrow> CookieName (hc_Cookies (ax_http cfg)) AccessTokenCookieName)"

definition adminCookie :: "admin_config \<Rightarrow> string \<Rightarrow> duration \<Rightarrow> set_cookie" where
  "adminCookie cfg value maxAge =
     (let name = adminCookieName cfg; opts = hc_Cookies (ax_http cfg);
          c = \<lparr>sc_Name = name, sc_Value = value, sc_Path = basePath opts, sc_Domain = co_Domain opts, sc_MaxAge = 0,
               sc_HttpOnly = True, sc_Secure = co_Secure opts, sc_SameSite = co_SameSite opts\<rparr>;
          c = (if sc_SameSite c = SameSiteUnset then c\<lparr>sc_SameSite := SameSiteLaxMode\<rparr> else c);
          c = (if prefix hostCookiePrefix name then c\<lparr>sc_Secure := True, sc_Path := ''/'', sc_Domain := []\<rparr> else c)
      in if maxAge > 0 then c\<lparr>sc_MaxAge := maxAge div second\<rparr>
         else if maxAge < 0 then c\<lparr>sc_MaxAge := -1\<rparr> else c)"

subsection \<open>Bodies that may not decode\<close>

text \<open>The routes of the console ignore the error of the decoder: a body that is no JSON leaves every field as it
  was, a member of the wrong type leaves its own.\<close>

definition body_members :: "string option \<Rightarrow> (string \<times> json) list" where
  "body_members body = (case first_value body of
     Some (Some v) \<Rightarrow> (case object_members v of Some kvs \<Rightarrow> kvs | None \<Rightarrow> [])
   | _ \<Rightarrow> [])"

definition leniently :: "(json \<Rightarrow> 'a \<Rightarrow> 'a option) \<Rightarrow> json list \<Rightarrow> 'a \<Rightarrow> 'a" where
  "leniently d vs x = fold (\<lambda>v x. case d v x of None \<Rightarrow> x | Some y \<Rightarrow> y) vs x"

definition login_body :: "string option \<Rightarrow> string \<times> string" where
  "login_body body =
     (let kvs = body_members body; names = [''email'', ''password''] in
      (leniently decode_string (field_values names ''email'' kvs) [],
       leniently decode_string (field_values names ''password'' kvs) []))"

subsection \<open>Logging in\<close>

text \<open>The three sources of credentials, in order.\<close>

definition login_claims :: "string \<Rightarrow> string \<Rightarrow> bool \<Rightarrow> string \<Rightarrow> adminClaims" where
  "login_claims sub email isRoot tid = \<lparr>dc_Sub = sub, dc_Email = email, dc_IsRoot = isRoot, dc_Tid = tid,
     dc_Typ = [], dc_Iss = [], dc_Iat = 0, dc_Exp = 0\<rparr>"

definition login_root :: "env \<Rightarrow> AdminOptions \<Rightarrow> string \<Rightarrow> string \<Rightarrow> adminClaims option" where
  "login_root v opts email password = (case ao_RootUser opts of
     None \<Rightarrow> None
   | Some root \<Rightarrow>
       if email = ar_Email root \<and> verifyPassword (e_crypto v) password (ar_PasswordHash root)
       then Some (login_claims ''root'' (ar_Email root) True []) else None)"

definition login_secret :: "AdminOptions \<Rightarrow> string \<Rightarrow> string \<Rightarrow> adminClaims option" where
  "login_secret opts email password =
     (if ao_Secret opts \<noteq> [] \<and> (email = [] \<or> email = ''admin'') \<and> secureEqual password (ao_Secret opts)
      then Some (login_claims ''admin'' ''admin@bootstrap'' True []) else None)"

definition login_stored :: "env \<Rightarrow> MemoryUserStore \<Rightarrow> string \<Rightarrow> string \<Rightarrow> adminClaims option" where
  "login_stored v users email password =
     (if email = [] then None
      else case GetUserByEmail email [] users of
        Inl _ \<Rightarrow> None
      | Inr user \<Rightarrow>
          if u_PasswordHash user \<noteq> [] \<and> verifyPassword (e_crypto v) password (u_PasswordHash user)
          then Some (login_claims (u_ID user) (u_Email user) False (u_TenantID user)) else None)"

definition login_with :: "env \<Rightarrow> AdminOptions \<Rightarrow> MemoryUserStore \<Rightarrow> string \<Rightarrow> string \<Rightarrow> adminClaims option" where
  "login_with v opts users email password = (case login_root v opts email password of
     Some c \<Rightarrow> Some c
   | None \<Rightarrow> (case login_secret opts email password of
       Some c \<Rightarrow> Some c
     | None \<Rightarrow> login_stored v users email password))"

text \<open>The answer is the cookie to set, or an error.\<close>

definition adminLogin ::
    "env \<Rightarrow> (string \<Rightarrow> string option) \<Rightarrow> admin_config \<Rightarrow> admin_guard \<Rightarrow> tools_request \<Rightarrow> world \<Rightarrow>
       ((int \<times> string) + set_cookie) \<times> world" where
  "adminLogin v num cfg g rq w =
     (let (email, password) = login_body (tq_Body rq) in
      if password = [] then (Inl (400, ''Password required''), w)
      else case login_with v (ax_admin cfg) (w_users w) email password of
        None \<Rightarrow> (Inl (401, ''Invalid credentials''), w)
      | Some claims \<Rightarrow> (case mintAdminToken v num g claims (w_tick w) of
          (None, k) \<Rightarrow> (Inl (500, ''Invalid credentials''), w\<lparr>w_tick := k\<rparr>)
        | (Some token, k) \<Rightarrow> (Inr (adminCookie cfg token adminSessionTTL), w\<lparr>w_tick := k\<rparr>)))"

definition adminLogout :: "admin_config \<Rightarrow> set_cookie" where
  "adminLogout cfg = adminCookie cfg [] (-1)"

end
