(* ===== verification/Admin_Read.thy ===== *)
theory Admin_Read
  imports Admin_Guard Settings_Store Mail_Templates Webhook_Store API_Keys Upload_Store Linked_Accounts
begin

text \<open>
  What the routes of the console act on, and the read routes (\<open>admin_read.go\<close>): which route a path names, the
  rows a listing shows, the paging around the service's listings.
\<close>

section \<open>The console's state\<close>

text \<open>The service with the optional stores the console also reaches; nothing stands for a store not configured.\<close>

record admin_world =
  aw_service :: world
  aw_settings :: "MemorySettingsStore option"
  aw_templates :: "MemoryTemplateStore option"
  aw_uploads :: "MemoryUploadStore option"
  aw_keys :: "MemoryAPIKeyStore option"
  aw_webhooks :: "MemoryWebhookStore option"
  aw_links :: "MemoryLinkedAccounts option"

text \<open>What is fixed: the service's environment, the configuration, the library functions, which optional
  interfaces the stores implement beyond those of the service, and how a multipart body is read.\<close>

record admin_env =
  ae_env :: env
  ae_cfg :: admin_config
  ae_libs :: tools_libs
  ae_part :: "tools_request \<Rightarrow> (string \<times> string) option"
  ae_has_TwoFactorPolicyStore :: bool
  ae_has_AdminFlagStore :: bool
  ae_has_APIKeyAdminStore :: bool
  ae_has_APIKeyDeleteStore :: bool
  ae_has_WebhookAdminStore :: bool

definition on_service :: "'a action \<Rightarrow> admin_world \<Rightarrow> 'a result \<times> admin_world" where
  "on_service m w = (case m (aw_service w) of (r, s) \<Rightarrow> (r, w\<lparr>aw_service := s\<rparr>))"

section \<open>Rows\<close>

text \<open>A time that is zero is left out.\<close>

definition shown_time :: "time \<Rightarrow> time option" where
  "shown_time t = (if t = zero_time then None else Some t)"

record adminUserRow =
  ur_ID :: string
  ur_Email :: string
  ur_Role :: string
  ur_IsEmailVerified :: bool
  ur_IsTOTPEnabled :: bool
  ur_Require2FA :: bool
  ur_PhoneNumber :: string
  ur_CreatedAt :: "time option"

definition newAdminUserRow :: "User \<Rightarrow> adminUserRow" where
  "newAdminUserRow user = \<lparr>ur_ID = u_ID user, ur_Email = u_Email user, ur_Role = u_Role user,
     ur_IsEmailVerified = u_IsEmailVerified user, ur_IsTOTPEnabled = u_IsTOTPEnabled user,
     ur_Require2FA = u_Require2FA user, ur_PhoneNumber = u_PhoneNumber user,
     ur_CreatedAt = shown_time (u_CreatedAt user)\<rparr>"

record adminUserDetail =
  ud_ID :: string
  ud_Email :: string
  ud_Role :: string
  ud_IsEmailVerified :: bool
  ud_IsTOTPEnabled :: bool

record adminTenantRow =
  tr_ID :: string
  tr_Name :: string
  tr_IsActive :: bool
  tr_Config :: json_object
  tr_CreatedAt :: "time option"

definition newAdminTenantRow :: "Tenant \<Rightarrow> adminTenantRow" where
  "newAdminTenantRow t = \<lparr>tr_ID = t_ID t, tr_Name = t_Name t, tr_IsActive = t_IsActive t, tr_Config = t_Config t,
     tr_CreatedAt = shown_time (t_CreatedAt t)\<rparr>"

record adminAPIKeyRow =
  kr_ID :: string
  kr_Name :: string
  kr_KeyPrefix :: string
  kr_ServiceID :: string
  kr_Scopes :: "string list"
  kr_AllowedIPs :: "string list option"
  kr_IsActive :: bool
  kr_ExpiresAt :: "time option"
  kr_CreatedAt :: time
  kr_LastUsedAt :: "time option"

record adminWebhookRow =
  wr_ID :: string
  wr_URL :: string
  wr_Events :: "string list"
  wr_IsActive :: "bool option"
  wr_TenantID :: string
  wr_MaxRetries :: "int option"
  wr_RetryDelayMs :: "int option"
  wr_Secret :: string

record adminFeatureSet =
  fs_Sessions :: bool
  fs_Roles :: bool
  fs_Tenants :: bool
  fs_Metadata :: bool
  fs_TwoFAPolicy :: bool
  fs_Control :: bool
  fs_LinkedAccounts :: bool
  fs_APIKeys :: bool
  fs_Webhooks :: bool
  fs_Templates :: bool
  fs_Upload :: bool

text \<open>\<open>AdminUnlisted\<close> is a 501 that also carries an empty page; the other answers are the bodies written.\<close>

datatype admin_answer =
    AdminFailed int string
  | AdminUnlisted string
  | AdminSuccess
  | AdminNote string
  | AdminRedirected string
  | AdminCookie set_cookie
  | AdminPing adminFeatureSet
  | AdminShell bool
  | AdminAsset string
  | AdminUsers "adminUserRow list" int
  | AdminUser adminUserDetail
  | AdminMetadata json_object
  | AdminLinks "PublicLinkedAccount list"
  | AdminUserRoles "string list"
  | AdminTenantIDs "string list"
  | AdminActions
  | AdminSettings AuthSettings
  | AdminSessions "PublicSession list" int
  | AdminRoles "(string \<times> string list) list"
  | AdminTenants "adminTenantRow list"
  | AdminTenant adminTenantRow
  | AdminUserIDs "string list"
  | AdminMailTemplates "MailTemplate list"
  | AdminUITranslations "(string \<times> phrases) list"
  | AdminUpdated int
  | AdminPromoted string
  | AdminKeys "adminAPIKeyRow list" int
  | AdminKeyCreated string adminAPIKeyRow
  | AdminWebhooks "adminWebhookRow list" int
  | AdminWebhook WebhookConfig
  | AdminUploaded string string
  | AdminUploads "UploadedFile list"
  | AdminSpec
  | AdminDocsPage
  | AdminNotFound
  | AdminPanics

type_synonym admin_handler = "tools_request \<Rightarrow> admin_world \<Rightarrow> admin_answer \<times> admin_world"

abbreviation internalError :: admin_answer where
  "internalError \<equiv> AdminFailed 500 ''Internal server error''"

section \<open>Which route a path names\<close>

definition AdminUsersPath :: string where "AdminUsersPath = ''/api/users''"
definition AdminActionsPath :: string where "AdminActionsPath = ''/api/actions''"
definition AdminSettingsPath :: string where "AdminSettingsPath = ''/api/settings''"
definition AdminSessionsPath :: string where "AdminSessionsPath = ''/api/sessions''"
definition AdminRolesPath :: string where "AdminRolesPath = ''/api/roles''"
definition AdminTenantsPath :: string where "AdminTenantsPath = ''/api/tenants''"
definition AdminMailTemplatesPath :: string where "AdminMailTemplatesPath = ''/api/templates/mail''"
definition AdminUITemplatesPath :: string where "AdminUITemplatesPath = ''/api/templates/ui''"

datatype adminReadRoute =
    adminRouteNone | adminRouteUsers | adminRouteUserByID | adminRouteUserMetadata | adminRouteUserLinkedAccounts
  | adminRouteUserRoles | adminRouteUserTenants | adminRouteActions | adminRouteSettings | adminRouteSessions
  | adminRouteRoles | adminRouteTenants | adminRouteTenantUsers | adminRouteMailTemplates | adminRouteUITemplates

text \<open>One decoded segment below a prefix, and what follows it.\<close>

definition adminPathParam :: "string \<Rightarrow> string \<Rightarrow> (string \<times> string) option" where
  "adminPathParam rel pre =
     (if \<not> prefix (pre @ ''/'') rel then None
      else (let rest = drop (length pre + 1) rel;
                segment = takeWhile (\<lambda>c. c \<noteq> CHR ''/'') rest;
                tail = drop (length segment) rest
            in if segment = [] then None else map_option (\<lambda>s. (s, tail)) (path_unescape segment)))"

definition matchAdminRead :: "string \<Rightarrow> adminReadRoute \<times> string" where
  "matchAdminRead rel =
     (if rel = AdminUsersPath then (adminRouteUsers, [])
      else if rel = AdminActionsPath then (adminRouteActions, [])
      else if rel = AdminSettingsPath then (adminRouteSettings, [])
      else if rel = AdminSessionsPath then (adminRouteSessions, [])
      else if rel = AdminRolesPath then (adminRouteRoles, [])
      else if rel = AdminTenantsPath then (adminRouteTenants, [])
      else if rel = AdminMailTemplatesPath then (adminRouteMailTemplates, [])
      else if rel = AdminUITemplatesPath then (adminRouteUITemplates, [])
      else (case adminPathParam rel AdminUsersPath of
        Some (i, tail) \<Rightarrow>
          (if tail = [] then (adminRouteUserByID, i)
           else if tail = ''/metadata'' then (adminRouteUserMetadata, i)
           else if tail = ''/linked-accounts'' then (adminRouteUserLinkedAccounts, i)
           else if tail = ''/roles'' then (adminRouteUserRoles, i)
           else if tail = ''/tenants'' then (adminRouteUserTenants, i)
           else (adminRouteNone, []))
      | None \<Rightarrow> (case adminPathParam rel AdminTenantsPath of
          Some (i, tail) \<Rightarrow> if tail = ''/users'' then (adminRouteTenantUsers, i) else (adminRouteNone, [])
        | None \<Rightarrow> (adminRouteNone, []))))"

definition adminReadRegistered :: "admin_world \<Rightarrow> adminReadRoute \<Rightarrow> bool" where
  "adminReadRegistered w route =
     (if route = adminRouteNone then False
      else if route \<in> {adminRouteMailTemplates, adminRouteUITemplates} then aw_templates w \<noteq> None
      else True)"

section \<open>Paging\<close>

text \<open>The sum may wrap; the conversions are between equal widths.\<close>

definition adminSliceBounds :: "int \<Rightarrow> int \<Rightarrow> int \<Rightarrow> int \<times> int" where
  "adminSliceBounds n start limit =
     (let begin' = (if start < - n then 0 else if start < 0 then start + n else if start > n then n else start);
          end' = wrap64 (begin' + limit);
          end' = (if end' < begin' then begin' else if end' > n then n else end')
      in (begin', end'))"

text \<open>What a listing asks for: limit, offset, filter.\<close>

definition query_get :: "tools_request \<Rightarrow> string \<Rightarrow> string" where
  "query_get rq name = (case query_values rq name of [] \<Rightarrow> [] | v # _ \<Rightarrow> v)"

definition page_limit :: "tools_request \<Rightarrow> int" where
  "page_limit rq = (let limit = adminQueryInt (query_get rq ''limit'') 20 in if limit > 100 then 100 else limit)"

definition page_offset :: "tools_request \<Rightarrow> int" where
  "page_offset rq = adminQueryInt (query_get rq ''offset'') 0"

definition page_filter :: "tools_request \<Rightarrow> string" where
  "page_filter rq = trim_space (to_lower (query_get rq ''filter''))"

text \<open>What is fetched: with a filter, the first 500.\<close>

definition page_batch :: "tools_request \<Rightarrow> int \<times> int" where
  "page_batch rq = (if page_filter rq \<noteq> [] then (500, 0) else (page_limit rq, page_offset rq))"

definition page_total :: "int \<Rightarrow> int \<Rightarrow> int \<Rightarrow> int" where
  "page_total rows offset limit = (let total = wrap64 (rows + offset) in if rows = limit then wrap64 (total + 1) else total)"

definition contains_text :: "string \<Rightarrow> string \<Rightarrow> bool" where
  "contains_text s part \<longleftrightarrow> string_index part s \<noteq> None"

text \<open>The page of the fetched rows, and the total: \<open>matches\<close> is the test of the filter. The slice \<open>matched[low:high]\<close>
  panics where the bounds are out of range.\<close>

definition filtered_page :: "tools_request \<Rightarrow> ('a \<Rightarrow> bool) \<Rightarrow> 'a list \<Rightarrow> ('a list \<times> int) outcome" where
  "filtered_page rq matches rows =
     (if page_filter rq \<noteq> [] then
        (let matched = filter matches rows;
             (low, high) = adminSliceBounds (int (length matched)) (page_offset rq) (page_limit rq)
         in map_outcome (\<lambda>page. (page, int (length matched))) (go_slice matched low high))
      else Returns (rows, page_total (int (length rows)) (page_offset rq) (page_limit rq)))"

section \<open>The read routes\<close>

definition adminListUsers :: "admin_env \<Rightarrow> admin_handler" where
  "adminListUsers v rq w =
     (case on_service (ListUsers_service (ae_env v) [] (fst (page_batch rq)) (snd (page_batch rq))) w of
       (Inl e, w) \<Rightarrow> (if errors_is e ErrFeatureNotSupported then AdminUnlisted ''IUserStore.listUsers is not implemented''
          else internalError, w)
     | (Inr Panics, w) \<Rightarrow> (AdminPanics, w)
     | (Inr (Returns users), w) \<Rightarrow>
         (case filtered_page rq
                (\<lambda>row. contains_text (to_lower (ur_Email row)) (page_filter rq) \<or>
                       contains_text (to_lower (ur_ID row)) (page_filter rq)) (map newAdminUserRow users) of
            Panics \<Rightarrow> (AdminPanics, w)
          | Returns (rows, n) \<Rightarrow> (AdminUsers rows n, w)))"

definition adminGetUser :: "string \<Rightarrow> admin_handler" where
  "adminGetUser i rq w = (case GetUserByID i [] (w_users (aw_service w)) of
     Inl _ \<Rightarrow> (AdminFailed 404 ''User not found'', w)
   | Inr user \<Rightarrow> (AdminUser \<lparr>ud_ID = u_ID user, ud_Email = u_Email user, ud_Role = u_Role user,
       ud_IsEmailVerified = u_IsEmailVerified user, ud_IsTOTPEnabled = u_IsTOTPEnabled user\<rparr>, w))"

definition adminGetUserMetadata :: "string \<Rightarrow> admin_handler" where
  "adminGetUserMetadata i rq w = (case w_metadata (aw_service w) of
     None \<Rightarrow> (AdminFailed 404 ''User metadata store not configured'', w)
   | Some s \<Rightarrow> (AdminMetadata (GetMetadata i s), w))"

definition adminGetUserLinkedAccounts :: "string \<Rightarrow> admin_handler" where
  "adminGetUserLinkedAccounts i rq w = (case aw_links w of
     None \<Rightarrow> (AdminFailed 404 ''Linked accounts store not configured'', w)
   | Some s \<Rightarrow> (AdminLinks (ListLinkedAccounts i s), w))"

definition adminGetUserRoles :: "string \<Rightarrow> admin_handler" where
  "adminGetUserRoles i rq w = (case w_rbac (aw_service w) of
     None \<Rightarrow> (AdminFailed 404 ''RBAC store not configured'', w)
   | Some s \<Rightarrow> (AdminUserRoles (GetRolesForUser i [] s), w))"

definition adminGetUserTenants :: "string \<Rightarrow> admin_handler" where
  "adminGetUserTenants i rq w = (case w_tenants (aw_service w) of
     None \<Rightarrow> (AdminFailed 404 ''Tenant store not configured'', w)
   | Some s \<Rightarrow> (AdminTenantIDs (map t_ID (GetTenantsForUser i s)), w))"

definition adminListActions :: admin_handler where
  "adminListActions rq w = (AdminActions, w)"

definition adminGetSettings :: admin_handler where
  "adminGetSettings rq w = (case aw_settings w of
     None \<Rightarrow> (AdminFailed 404 ''Settings store not configured'', w)
   | Some s \<Rightarrow> (AdminSettings (GetSettings s), w))"

definition adminListSessions :: "admin_env \<Rightarrow> admin_handler" where
  "adminListSessions v rq w =
     (case on_service (ListAllSessions (ae_env v) (fst (page_batch rq)) (snd (page_batch rq))) w of
       (Inl e, w) \<Rightarrow> (if errors_is e ErrFeatureNotSupported
          then AdminUnlisted ''ISessionStore.getAllSessions is not implemented'' else internalError, w)
     | (Inr Panics, w) \<Rightarrow> (AdminPanics, w)
     | (Inr (Returns sessions), w) \<Rightarrow>
         (case filtered_page rq (\<lambda>row. contains_text (to_lower (ps_UserID row)) (page_filter rq))
                (NewPublicSessions sessions) of
            Panics \<Rightarrow> (AdminPanics, w)
          | Returns (rows, n) \<Rightarrow> (AdminSessions rows n, w)))"

definition adminListRoles :: "admin_env \<Rightarrow> admin_handler" where
  "adminListRoles v rq w = (case w_rbac (aw_service w) of
     None \<Rightarrow> (AdminFailed 404 ''RBAC store not configured'', w)
   | Some s \<Rightarrow> (case on_service (ListAllRoles (ae_env v)) w of
       (Inl e, w) \<Rightarrow> (if errors_is e ErrFeatureNotSupported
          then AdminUnlisted ''IRolesPermissionsStore.getAllRoles is not implemented'' else internalError, w)
     | (Inr names, w) \<Rightarrow> (AdminRoles (map (\<lambda>name. (name, GetPermissionsForRole name s)) names), w)))"

definition adminListTenants :: admin_handler where
  "adminListTenants rq w = (case w_tenants (aw_service w) of
     None \<Rightarrow> (AdminFailed 404 ''Tenant store not configured'', w)
   | Some s \<Rightarrow> (AdminTenants (map newAdminTenantRow (GetAllTenants s)), w))"

text \<open>The tenant's id is decoded a second time.\<close>

definition adminListTenantUsers :: "string \<Rightarrow> admin_handler" where
  "adminListTenantUsers i rq w = (case w_tenants (aw_service w) of
     None \<Rightarrow> (AdminFailed 404 ''Tenant store not configured'', w)
   | Some s \<Rightarrow> (case path_unescape i of
       None \<Rightarrow> (internalError, w)
     | Some tenantID \<Rightarrow> (AdminUserIDs (GetUsersForTenant tenantID s), w)))"

definition adminListMailTemplates :: admin_handler where
  "adminListMailTemplates rq w = (case aw_templates w of
     None \<Rightarrow> (AdminPanics, w) | Some s \<Rightarrow> (AdminMailTemplates (ListMailTemplates s), w))"

definition adminListUITranslations :: admin_handler where
  "adminListUITranslations rq w = (case aw_templates w of
     None \<Rightarrow> (AdminPanics, w) | Some s \<Rightarrow> (AdminUITranslations (ListUITranslations s), w))"

definition serveAdminRead :: "admin_env \<Rightarrow> adminReadRoute \<Rightarrow> string \<Rightarrow> admin_handler" where
  "serveAdminRead v route i = (case route of
     adminRouteUsers \<Rightarrow> adminListUsers v
   | adminRouteUserByID \<Rightarrow> adminGetUser i
   | adminRouteUserMetadata \<Rightarrow> adminGetUserMetadata i
   | adminRouteUserLinkedAccounts \<Rightarrow> adminGetUserLinkedAccounts i
   | adminRouteUserRoles \<Rightarrow> adminGetUserRoles i
   | adminRouteUserTenants \<Rightarrow> adminGetUserTenants i
   | adminRouteActions \<Rightarrow> adminListActions
   | adminRouteSettings \<Rightarrow> adminGetSettings
   | adminRouteSessions \<Rightarrow> adminListSessions v
   | adminRouteRoles \<Rightarrow> adminListRoles v
   | adminRouteTenants \<Rightarrow> adminListTenants
   | adminRouteTenantUsers \<Rightarrow> adminListTenantUsers i
   | adminRouteMailTemplates \<Rightarrow> adminListMailTemplates
   | adminRouteUITemplates \<Rightarrow> adminListUITranslations
   | adminRouteNone \<Rightarrow> (\<lambda>rq w. (AdminNotFound, w)))"

end
