(* ===== verification/Admin_Write.thy ===== *)
theory Admin_Write
  imports Admin_Read
begin

text \<open>
  The write routes of the console (\<open>admin_write.go\<close>) and the promotion (\<open>admin_promote.go\<close>). Each ignores the
  decoder's error, so what a body leaves in the fields is modelled member by member, as \<open>encoding/json\<close> does it:
  a pointer is set before the type of its value is looked at. (A slice member given three times, longer, then
  shorter, then longer again, would show stale elements; that is not modelled.)
\<close>

section \<open>What a body leaves in the fields\<close>

text \<open>A number beyond the floats becomes null inside a value and leaves a field as it was.\<close>

fun lenient_any :: "(string \<Rightarrow> string option) \<Rightarrow> json \<Rightarrow> json" where
  "lenient_any num (JNum x) = (case num x of None \<Rightarrow> JNull | Some y \<Rightarrow> JNum y)"
| "lenient_any num (JArr vs) = JArr (map (lenient_any num) vs)"
| "lenient_any num (JObj kvs) =
     json_of_object (fold (\<lambda>(k, v). fmupd k v) (map (\<lambda>(k, v). (k, lenient_any num v)) kvs) fmempty)"
| "lenient_any num v = v"

definition decode_any :: "(string \<Rightarrow> string option) \<Rightarrow> json \<Rightarrow> json \<Rightarrow> json option" where
  "decode_any num v old = (case v of JNum x \<Rightarrow> map_option JNum (num x) | _ \<Rightarrow> Some (lenient_any num v))"

text \<open>A pointer: null clears it; any other value allocates it first, and then may not fit.\<close>

definition decode_allocated :: "(json \<Rightarrow> 'a \<Rightarrow> 'a option) \<Rightarrow> 'a \<Rightarrow> json \<Rightarrow> 'a option \<Rightarrow> 'a option option" where
  "decode_allocated d zero v old = (case v of
     JNull \<Rightarrow> Some None
   | _ \<Rightarrow> (let x = (case old of None \<Rightarrow> zero | Some x \<Rightarrow> x) in
       Some (Some (case d v x of None \<Rightarrow> x | Some y \<Rightarrow> y))))"

text \<open>A slice of strings: an element of another type leaves what was at its place.\<close>

definition decode_names :: "json \<Rightarrow> string list option \<Rightarrow> string list option option" where
  "decode_names v old = (case v of
     JNull \<Rightarrow> Some None
   | JArr vs \<Rightarrow> (let olds = (case old of None \<Rightarrow> [] | Some xs \<Rightarrow> xs) in
       Some (Some (map (\<lambda>(i, x). case x of JStr s \<Rightarrow> s | _ \<Rightarrow> if i < length olds then olds ! i else [])
         (enumerate 0 vs))))
   | _ \<Rightarrow> None)"

definition lenient_strings :: "json \<Rightarrow> strings" where
  "lenient_strings v = (case v of
     JObj kvs \<Rightarrow> fold (\<lambda>(k, x). fmupd k (case x of JStr s \<Rightarrow> s | _ \<Rightarrow> [])) kvs fmempty
   | _ \<Rightarrow> fmempty)"

definition decode_phrases :: "json \<Rightarrow> phrases option \<Rightarrow> phrases option option" where
  "decode_phrases v old = (case v of
     JNull \<Rightarrow> Some None
   | JObj kvs \<Rightarrow> Some (Some (fold (\<lambda>(k, x). fmupd k (lenient_strings x)) kvs
       (case old of None \<Rightarrow> fmempty | Some m \<Rightarrow> m)))
   | _ \<Rightarrow> None)"

definition body_value :: "(json \<Rightarrow> 'a \<Rightarrow> 'a option) \<Rightarrow> string list \<Rightarrow> string \<Rightarrow> (string \<times> json) list \<Rightarrow> 'a \<Rightarrow> 'a" where
  "body_value d names f kvs x = leniently d (field_values names f kvs) x"

definition ui_names :: "string list" where
  "ui_names = [''primaryColor'', ''secondaryColor'', ''logoUrl'', ''siteName'', ''logoPath'', ''bgColor'', ''bgImage'',
     ''cardBg'']"

definition zero_ui :: UISettings where
  "zero_ui = \<lparr>ui_PrimaryColor = None, ui_SecondaryColor = None, ui_LogoURL = None, ui_SiteName = None,
     ui_LogoPath = None, ui_BgColor = None, ui_BgImage = None, ui_CardBg = None\<rparr>"

definition decode_ui :: "(string \<times> json) list \<Rightarrow> UISettings \<Rightarrow> UISettings" where
  "decode_ui kvs u =
     (let field = (\<lambda>name old. body_value (decode_allocated decode_string []) ui_names name kvs old) in
      \<lparr>ui_PrimaryColor = field ''primaryColor'' (ui_PrimaryColor u),
       ui_SecondaryColor = field ''secondaryColor'' (ui_SecondaryColor u),
       ui_LogoURL = field ''logoUrl'' (ui_LogoURL u), ui_SiteName = field ''siteName'' (ui_SiteName u),
       ui_LogoPath = field ''logoPath'' (ui_LogoPath u), ui_BgColor = field ''bgColor'' (ui_BgColor u),
       ui_BgImage = field ''bgImage'' (ui_BgImage u), ui_CardBg = field ''cardBg'' (ui_CardBg u)\<rparr>)"

definition decode_ui_value :: "json \<Rightarrow> UISettings \<Rightarrow> UISettings option" where
  "decode_ui_value v u = (case v of JObj kvs \<Rightarrow> Some (decode_ui kvs u) | _ \<Rightarrow> None)"

definition settings_names :: "string list" where
  "settings_names = [''requireEmailVerification'', ''emailVerificationMode'', ''lazyEmailVerificationGracePeriodDays'',
     ''require2FA'', ''enabledWebhookActions'', ''ui'']"

definition decode_settings :: "(string \<times> json) list \<Rightarrow> AuthSettings" where
  "decode_settings kvs =
     \<lparr>as_RequireEmailVerification =
        body_value (decode_allocated decode_bool False) settings_names ''requireEmailVerification'' kvs None,
      as_EmailVerificationMode =
        body_value (decode_allocated decode_string []) settings_names ''emailVerificationMode'' kvs None,
      as_LazyEmailVerificationGracePeriodDays =
        body_value (decode_allocated decode_int64 0) settings_names ''lazyEmailVerificationGracePeriodDays'' kvs None,
      as_Require2FA = body_value (decode_allocated decode_bool False) settings_names ''require2FA'' kvs None,
      as_EnabledWebhookActions = body_value decode_names settings_names ''enabledWebhookActions'' kvs None,
      as_UI = body_value (decode_allocated decode_ui_value zero_ui) settings_names ''ui'' kvs None\<rparr>"

section \<open>Which route a request names\<close>

definition AdminTwoFAPolicyPath :: string where "AdminTwoFAPolicyPath = ''/api/2fa-policy''"
definition AdminSettingsUIPath :: string where "AdminSettingsUIPath = ''/api/settings/ui''"

datatype adminWriteRoute =
    adminWriteNone | adminWriteDeleteUser | adminWriteTwoFAPolicy | adminWriteUserMetadata | adminWriteAddUserRole
  | adminWriteRemoveUserRole | adminWriteSettings | adminWriteSettingsUI | adminWriteRevokeSession
  | adminWriteCreateRole | adminWriteDeleteRole | adminWriteCreateTenant | adminWriteDeleteTenant
  | adminWriteAddTenantUser | adminWriteRemoveTenantUser | adminWriteMailTemplate | adminWriteUITemplate

text \<open>\<open>adminWriteParams\<close> is the pair of the id and the second parameter.\<close>

definition adminSubParam :: "string \<Rightarrow> string \<Rightarrow> string option" where
  "adminSubParam tail pre = (case adminPathParam tail pre of
     Some (param, rest) \<Rightarrow> if rest = [] then Some param else None
   | None \<Rightarrow> None)"

definition match_delete :: "string \<Rightarrow> adminWriteRoute \<times> string \<times> string" where
  "match_delete rel = (case adminPathParam rel AdminUsersPath of
     Some (i, tail) \<Rightarrow>
       if tail = [] then (adminWriteDeleteUser, i, [])
       else (case adminSubParam tail ''/roles'' of
         Some role \<Rightarrow> (adminWriteRemoveUserRole, i, role)
       | None \<Rightarrow> (adminWriteNone, [], []))
   | None \<Rightarrow> (case adminPathParam rel AdminSessionsPath of
       Some (handle, []) \<Rightarrow> (adminWriteRevokeSession, handle, [])
     | _ \<Rightarrow> (case adminPathParam rel AdminRolesPath of
         Some (name, []) \<Rightarrow> (adminWriteDeleteRole, name, [])
       | _ \<Rightarrow> (case adminPathParam rel AdminTenantsPath of
           Some (i, tail) \<Rightarrow>
             if tail = [] then (adminWriteDeleteTenant, i, [])
             else (case adminSubParam tail ''/users'' of
               Some userID \<Rightarrow> (adminWriteRemoveTenantUser, i, userID)
             | None \<Rightarrow> (adminWriteNone, [], []))
         | None \<Rightarrow> (adminWriteNone, [], [])))))"

definition match_post :: "string \<Rightarrow> adminWriteRoute \<times> string \<times> string" where
  "match_post rel =
     (if rel = AdminTwoFAPolicyPath then (adminWriteTwoFAPolicy, [], [])
      else if rel = AdminRolesPath then (adminWriteCreateRole, [], [])
      else if rel = AdminTenantsPath then (adminWriteCreateTenant, [], [])
      else if rel = AdminMailTemplatesPath then (adminWriteMailTemplate, [], [])
      else if rel = AdminUITemplatesPath then (adminWriteUITemplate, [], [])
      else if map_option snd (adminPathParam rel AdminUsersPath) = Some ''/roles''
        then (adminWriteAddUserRole, fst (the (adminPathParam rel AdminUsersPath)), [])
      else if map_option snd (adminPathParam rel AdminTenantsPath) = Some ''/users''
        then (adminWriteAddTenantUser, fst (the (adminPathParam rel AdminTenantsPath)), [])
      else (adminWriteNone, [], []))"

definition matchAdminWrite :: "string \<Rightarrow> string \<Rightarrow> adminWriteRoute \<times> string \<times> string" where
  "matchAdminWrite method rel =
     (if method = ''POST'' then match_post rel
      else if method = ''PUT'' then
        (if rel = AdminSettingsPath then (adminWriteSettings, [], [])
         else if map_option snd (adminPathParam rel AdminUsersPath) = Some ''/metadata''
           then (adminWriteUserMetadata, fst (the (adminPathParam rel AdminUsersPath)), [])
         else (adminWriteNone, [], []))
      else if method = ''PATCH'' then
        (if rel = AdminSettingsUIPath then (adminWriteSettingsUI, [], []) else (adminWriteNone, [], []))
      else if method = ''DELETE'' then match_delete rel
      else (adminWriteNone, [], []))"

definition adminWriteRegistered :: "admin_world \<Rightarrow> adminWriteRoute \<Rightarrow> bool" where
  "adminWriteRegistered w route =
     (if route = adminWriteNone then False
      else if route \<in> {adminWriteMailTemplate, adminWriteUITemplate} then aw_templates w \<noteq> None
      else True)"

section \<open>The write routes\<close>

definition publishAdminEvent :: "admin_env \<Rightarrow> tools_request \<Rightarrow> Event \<Rightarrow> admin_world \<Rightarrow> admin_world" where
  "publishAdminEvent v rq ev w =
     (if \<not> e_bus (ae_env v) then w
      else w\<lparr>aw_service := (aw_service w)\<lparr>w_events := w_events (aw_service w) @
        [WithRequestContext (Some (EventContextFromRequest (ae_libs v) rq)) ev]\<rparr>\<rparr>)"

text \<open>How the routes answer a call of a store: an error is 500.\<close>

definition answering :: "'a result \<times> admin_world \<Rightarrow> admin_answer \<times> admin_world" where
  "answering r = (case r of (Inl _, w) \<Rightarrow> (internalError, w) | (Inr _, w) \<Rightarrow> (AdminSuccess, w))"

text \<open>A parameter decoded a second time.\<close>

definition adminDecodeAgain :: "string \<Rightarrow> string result" where
  "adminDecodeAgain raw = (case path_unescape raw of
     None \<Rightarrow> Inl (Message ''invalid URL escape'') | Some s \<Rightarrow> Ok s)"

subsection \<open>Users\<close>

definition adminDeleteUser :: "admin_env \<Rightarrow> string \<Rightarrow> admin_handler" where
  "adminDeleteUser v i rq w =
     (if \<not> has_UserAccountStore (e_caps (ae_env v))
      then (AdminFailed 501 ''IUserStore.deleteUser is not implemented'', w)
      else answering (on_service (users_do (DeleteUser i [])) w))"

definition adminTwoFAPolicyBatchSize :: int where "adminTwoFAPolicyBatchSize = 100"

text \<open>One page of the walk: it stops at the first error.\<close>

fun update_page :: "bool \<Rightarrow> User list \<Rightarrow> unit action" where
  "update_page required [] w = (Ok (), w)"
| "update_page required (u # us) w =
     (case users_do (UpdateRequire2FA (u_ID u) (u_TenantID u) required) w of
        (Inl e, w) \<Rightarrow> (Inl e, w)
      | (Inr _, w) \<Rightarrow> update_page required us w)"

definition stored_users :: "world \<Rightarrow> nat" where
  "stored_users w = card (fmdom' (us_byID (w_users w)))"

lemma update_require_count:
  "fmdom' (us_byID (snd (UpdateRequire2FA i t r s))) = fmdom' (us_byID s)"
  by (auto simp: UpdateRequire2FA_def user_in_def put_user_def insert_absorb fmdom'I
      split: option.splits if_splits)

lemma update_page_count: "stored_users (snd (update_page required us w)) = stored_users w"
proof (induction us arbitrary: w)
  case (Cons u us)
  let ?r = "UpdateRequire2FA (u_ID u) (u_TenantID u) required (w_users w)"
  have one: "stored_users (w\<lparr>w_users := snd ?r\<rparr>) = stored_users w"
    by (simp add: stored_users_def update_require_count)
  obtain r s where r: "?r = (r, s)" by (cases ?r)
  show ?case using one Cons.IH[of "w\<lparr>w_users := s\<rparr>"] r by (cases r) (simp_all add: users_do_def)
qed simp

lemma page_within: "pageOf items limit offset = Returns page \<Longrightarrow> page \<noteq> [] \<Longrightarrow> offset < int (length items)"
  by (auto simp: pageOf_def split: if_splits)

lemma listed_within:
  "ListUsers [] limit offset (w_users w) = Returns page \<Longrightarrow> page \<noteq> [] \<Longrightarrow> offset < int (stored_users w)"
  unfolding ListUsers_def by (drule page_within) (simp_all add: stored_users_def length_range_values)

lemma listing_state:
  "ListUsers_service v t l n w = (Inr us, w') \<Longrightarrow> w' = w \<and> us = ListUsers t l n (w_users w)"
  by (auto simp: ListUsers_service_def if_supported_def users_get_def failWith_def split: if_splits)

lemma walk_progress:
  assumes "(Inr (Returns batch), w1) = ListUsers_service v t l offset w" "t = []" "batch \<noteq> []"
    and "(r, w2) = update_page required batch w1"
  shows "offset < int (stored_users w)" "stored_users w2 = stored_users w"
proof -
  have "w1 = w" "ListUsers [] l offset (w_users w) = Returns batch"
    using listing_state[OF assms(1)[symmetric]] assms(2) by simp_all
  then show "offset < int (stored_users w)" "stored_users w2 = stored_users w"
    using listed_within assms(3) update_page_count[of required batch w1] assms(4)[symmetric] by auto
qed

text \<open>The walk over all users, a page at a time; \<open>Returns None\<close> is the 500. It ends because no update adds a user.\<close>

function two_factor_walk :: "admin_env \<Rightarrow> bool \<Rightarrow> int \<Rightarrow> int \<Rightarrow> world \<Rightarrow>
    int option outcome \<times> world" where
  "two_factor_walk v required offset updated w =
     (case ListUsers_service (ae_env v) [] adminTwoFAPolicyBatchSize offset w of
       (Inl e, w) \<Rightarrow> (Returns None, w)
     | (Inr Panics, w) \<Rightarrow> (Panics, w)
     | (Inr (Returns batch), w) \<Rightarrow>
         if batch = [] then (Returns (Some updated), w)
         else (case update_page required batch w of
           (Inl e, w) \<Rightarrow> (Returns None, w)
         | (Inr _, w) \<Rightarrow>
             if int (length batch) < adminTwoFAPolicyBatchSize then (Returns (Some (updated + int (length batch))), w)
             else two_factor_walk v required (offset + adminTwoFAPolicyBatchSize) (updated + int (length batch)) w))"
  by pat_completeness auto

termination
  by (relation "measure (\<lambda>(v, required, offset, updated, w). nat (int (stored_users w) - offset))")
    (auto simp: adminTwoFAPolicyBatchSize_def dest: walk_progress)

declare two_factor_walk.simps [simp del]

definition adminSetTwoFAPolicy :: "admin_env \<Rightarrow> admin_handler" where
  "adminSetTwoFAPolicy v rq w =
     (case body_value (decode_any (tc_number (ae_libs v))) [''required''] ''required'' (body_members (tq_Body rq)) JNull of
       JBool required \<Rightarrow>
         if \<not> ae_has_TwoFactorPolicyStore v
         then (AdminFailed 501 ''IUserStore.updateRequire2FA is not implemented'', w)
         else if \<not> has_AdminUserStore (e_caps (ae_env v))
         then (AdminFailed 501 ''IUserStore.listUsers is not implemented'', w)
         else (case two_factor_walk v required 0 0 (aw_service w) of
           (Panics, s) \<Rightarrow> (AdminPanics, w\<lparr>aw_service := s\<rparr>)
         | (Returns None, s) \<Rightarrow> (internalError, w\<lparr>aw_service := s\<rparr>)
         | (Returns (Some updated), s) \<Rightarrow> (AdminUpdated updated, w\<lparr>aw_service := s\<rparr>))
     | _ \<Rightarrow> (AdminFailed 400 (CHR 0x22 # ''required'' @ CHR 0x22 # '' must be a boolean''), w))"

definition metadata_body :: "(string \<Rightarrow> string option) \<Rightarrow> string option \<Rightarrow> json_object" where
  "metadata_body num body = (case first_value body of
     Some (Some (JObj kvs)) \<Rightarrow> fold (\<lambda>(k, v). fmupd k v) (map (\<lambda>(k, v). (k, lenient_any num v)) kvs) fmempty
   | _ \<Rightarrow> fmempty)"

definition adminUpdateUserMetadata :: "admin_env \<Rightarrow> string \<Rightarrow> admin_handler" where
  "adminUpdateUserMetadata v i rq w =
     (if w_metadata (aw_service w) = None then (AdminFailed 404 ''User metadata store not configured'', w)
      else answering (on_service (metadata_call (\<lambda>s.
        ((), UpdateMetadata i (metadata_body (tc_number (ae_libs v)) (tq_Body rq)) s))) w))"

definition role_event :: "string \<Rightarrow> string \<Rightarrow> string \<Rightarrow> json_object \<Rightarrow> Event" where
  "role_event name i tenantID data = zero_event\<lparr>ev_Name := name, ev_UserID := i, ev_TenantID := tenantID,
     ev_Data := Some data\<rparr>"

definition adminAddUserRole :: "admin_env \<Rightarrow> string \<Rightarrow> admin_handler" where
  "adminAddUserRole v i rq w =
     (if w_rbac (aw_service w) = None then (AdminFailed 404 ''RBAC store not configured'', w)
      else let field = (\<lambda>f. body_value decode_string [''role'', ''tenantId''] f (body_members (tq_Body rq)) []);
               role = field ''role''; tenantID = field ''tenantId''
      in if role = [] then (AdminFailed 400 ''role is required'', w)
         else case on_service (rbac_call (AddRoleToUser i role tenantID)) w of
           (Inl e, w) \<Rightarrow> (internalError, w)
         | (Inr _, w) \<Rightarrow> (AdminSuccess, publishAdminEvent v rq
             (role_event ''identity.role.assigned'' i tenantID (fmap_of_list [(''role'', JStr role)])) w))"

definition adminRemoveUserRole :: "admin_env \<Rightarrow> string \<Rightarrow> string \<Rightarrow> admin_handler" where
  "adminRemoveUserRole v i rawRole rq w =
     (if w_rbac (aw_service w) = None then (AdminFailed 404 ''RBAC store not configured'', w)
      else case adminDecodeAgain rawRole of
        Inl _ \<Rightarrow> (internalError, w)
      | Inr role \<Rightarrow> (case on_service (rbac_call (RemoveRoleFromUser i role [])) w of
          (Inl e, w) \<Rightarrow> (internalError, w)
        | (Inr _, w) \<Rightarrow> (AdminSuccess, publishAdminEvent v rq
            (role_event ''identity.role.revoked'' i [] (fmap_of_list [(''role'', JStr role)])) w)))"

subsection \<open>Settings\<close>

definition adminUpdateSettings :: admin_handler where
  "adminUpdateSettings rq w = (case aw_settings w of
     None \<Rightarrow> (AdminFailed 404 ''Settings store not configured'', w)
   | Some s \<Rightarrow> (AdminSuccess, w\<lparr>aw_settings :=
       Some (snd (UpdateSettings (decode_settings (body_members (tq_Body rq))) s))\<rparr>))"

definition mergeUISettings :: "UISettings option \<Rightarrow> UISettings \<Rightarrow> UISettings" where
  "mergeUISettings current patch =
     (let merged = (case current of None \<Rightarrow> zero_ui | Some u \<Rightarrow> u) in
      \<lparr>ui_PrimaryColor = keep_or (ui_PrimaryColor merged) (ui_PrimaryColor patch),
       ui_SecondaryColor = keep_or (ui_SecondaryColor merged) (ui_SecondaryColor patch),
       ui_LogoURL = keep_or (ui_LogoURL merged) (ui_LogoURL patch),
       ui_SiteName = keep_or (ui_SiteName merged) (ui_SiteName patch),
       ui_LogoPath = keep_or (ui_LogoPath merged) (ui_LogoPath patch),
       ui_BgColor = keep_or (ui_BgColor merged) (ui_BgColor patch),
       ui_BgImage = keep_or (ui_BgImage merged) (ui_BgImage patch),
       ui_CardBg = keep_or (ui_CardBg merged) (ui_CardBg patch)\<rparr>)"

definition adminPatchSettingsUI :: admin_handler where
  "adminPatchSettingsUI rq w = (case aw_settings w of
     None \<Rightarrow> (AdminFailed 404 ''Settings store not configured'', w)
   | Some s \<Rightarrow> (AdminSuccess, w\<lparr>aw_settings := Some (snd (UpdateSettings
       (zero_settings\<lparr>as_UI := Some (mergeUISettings (as_UI (GetSettings s)) (decode_ui (body_members (tq_Body rq)) zero_ui))\<rparr>)
       s))\<rparr>))"

subsection \<open>Sessions, roles, tenants\<close>

definition adminRevokeSession :: "admin_env \<Rightarrow> string \<Rightarrow> admin_handler" where
  "adminRevokeSession v rawHandle rq w = (case adminDecodeAgain rawHandle of
     Inl _ \<Rightarrow> (internalError, w)
   | Inr handle \<Rightarrow> answering (on_service (RevokeSessionByID_service (ae_env v) handle) w))"

definition adminCreateRole :: admin_handler where
  "adminCreateRole rq w =
     (if w_rbac (aw_service w) = None then (AdminFailed 404 ''RBAC store not configured'', w)
      else let names = [''name'', ''permissions'']; kvs = body_members (tq_Body rq);
               name = body_value decode_string names ''name'' kvs [];
               permissions = body_value decode_names names ''permissions'' kvs None
      in if name = [] then (AdminFailed 400 ''name is required'', w)
         else answering (on_service (rbac_call (\<lambda>s. (Ok (), CreateRole name (slice_elems permissions) s))) w))"

definition adminDeleteRole :: "string \<Rightarrow> admin_handler" where
  "adminDeleteRole rawName rq w =
     (if w_rbac (aw_service w) = None then (AdminFailed 404 ''RBAC store not configured'', w)
      else case adminDecodeAgain rawName of
        Inl _ \<Rightarrow> (internalError, w)
      | Inr name \<Rightarrow> answering (on_service (rbac_call (\<lambda>s. (Ok (), DeleteRole name s))) w))"

definition adminCreateTenant :: "admin_env \<Rightarrow> admin_handler" where
  "adminCreateTenant v rq w =
     (if w_tenants (aw_service w) = None then (AdminFailed 404 ''Tenant store not configured'', w)
      else let names = [''name'', ''isActive'']; kvs = body_members (tq_Body rq);
               name = body_value decode_string names ''name'' kvs [];
               isActive = (case body_value (decode_any (tc_number (ae_libs v))) names ''isActive'' kvs JNull of
                 JBool b \<Rightarrow> b | _ \<Rightarrow> True)
      in if name = [] then (AdminFailed 400 ''name is required'', w)
         else case on_service (thenDo (draw (newID (e_crypto (ae_env v)) ''tnt'')) (\<lambda>i.
             thenDo (clock (ae_env v)) (\<lambda>now. tenants_call (CreateTenant
               \<lparr>t_ID = i, t_Name = name, t_IsActive = isActive, t_Config = fmempty, t_CreatedAt = now\<rparr>)))) w of
           (Inl e, w) \<Rightarrow> (internalError, w)
         | (Inr tenant, w) \<Rightarrow> (AdminTenant (newAdminTenantRow tenant), w))"

definition adminDeleteTenant :: "string \<Rightarrow> admin_handler" where
  "adminDeleteTenant rawID rq w =
     (if w_tenants (aw_service w) = None then (AdminFailed 404 ''Tenant store not configured'', w)
      else case adminDecodeAgain rawID of
        Inl _ \<Rightarrow> (internalError, w)
      | Inr i \<Rightarrow> answering (on_service (tenants_call (\<lambda>s. (Ok (), DeleteTenant i s))) w))"

definition adminAddTenantUser :: "string \<Rightarrow> admin_handler" where
  "adminAddTenantUser rawID rq w =
     (if w_tenants (aw_service w) = None then (AdminFailed 404 ''Tenant store not configured'', w)
      else let userID = body_value decode_string [''userId''] ''userId'' (body_members (tq_Body rq)) []
      in if userID = [] then (AdminFailed 400 ''userId is required'', w)
         else case adminDecodeAgain rawID of
           Inl _ \<Rightarrow> (internalError, w)
         | Inr tenantID \<Rightarrow> answering (on_service (tenants_call (AssociateUserWithTenant userID tenantID)) w))"

definition adminRemoveTenantUser :: "string \<Rightarrow> string \<Rightarrow> admin_handler" where
  "adminRemoveTenantUser rawID rawUserID rq w =
     (if w_tenants (aw_service w) = None then (AdminFailed 404 ''Tenant store not configured'', w)
      else case (adminDecodeAgain rawUserID, adminDecodeAgain rawID) of
        (Inr userID, Inr tenantID) \<Rightarrow>
          answering (on_service (tenants_call (\<lambda>s. (Ok (), DisassociateUserFromTenant userID tenantID s))) w)
      | _ \<Rightarrow> (internalError, w))"

subsection \<open>Templates\<close>

definition template_names :: "string list" where
  "template_names = [''id'', ''baseHtml'', ''baseText'', ''translations'']"

definition adminUpdateMailTemplate :: admin_handler where
  "adminUpdateMailTemplate rq w =
     (let kvs = body_members (tq_Body rq); field = (\<lambda>f. body_value decode_string template_names f kvs []);
          translations = body_value decode_phrases template_names ''translations'' kvs None
      in if field ''id'' = [] then (AdminFailed 400 ''id is required'', w)
         else case aw_templates w of
           None \<Rightarrow> (AdminPanics, w)
         | Some s \<Rightarrow> (AdminSuccess, w\<lparr>aw_templates := Some (snd (UpdateMailTemplate (field ''id'')
             \<lparr>mp_BaseHTML = Some (field ''baseHtml''), mp_BaseText = Some (field ''baseText''),
              mp_Translations = Some (case translations of None \<Rightarrow> fmempty | Some m \<Rightarrow> m)\<rparr> s))\<rparr>))"

definition adminUpdateUITranslations :: admin_handler where
  "adminUpdateUITranslations rq w =
     (let kvs = body_members (tq_Body rq); names = [''page'', ''translations''];
          page = body_value decode_string names ''page'' kvs [];
          translations = body_value decode_phrases names ''translations'' kvs None
      in if page = [] \<or> translations = None then (AdminFailed 400 ''page and translations are required'', w)
         else case aw_templates w of
           None \<Rightarrow> (AdminPanics, w)
         | Some s \<Rightarrow> (AdminSuccess, w\<lparr>aw_templates := Some (UpdateUITranslations page (the translations) s)\<rparr>))"

subsection \<open>Dispatch\<close>

definition serveAdminWrite :: "admin_env \<Rightarrow> adminWriteRoute \<Rightarrow> string \<Rightarrow> string \<Rightarrow> admin_handler" where
  "serveAdminWrite v route i sub = (case route of
     adminWriteDeleteUser \<Rightarrow> adminDeleteUser v i
   | adminWriteTwoFAPolicy \<Rightarrow> adminSetTwoFAPolicy v
   | adminWriteUserMetadata \<Rightarrow> adminUpdateUserMetadata v i
   | adminWriteAddUserRole \<Rightarrow> adminAddUserRole v i
   | adminWriteRemoveUserRole \<Rightarrow> adminRemoveUserRole v i sub
   | adminWriteSettings \<Rightarrow> adminUpdateSettings
   | adminWriteSettingsUI \<Rightarrow> adminPatchSettingsUI
   | adminWriteRevokeSession \<Rightarrow> adminRevokeSession v i
   | adminWriteCreateRole \<Rightarrow> adminCreateRole
   | adminWriteDeleteRole \<Rightarrow> adminDeleteRole i
   | adminWriteCreateTenant \<Rightarrow> adminCreateTenant v
   | adminWriteDeleteTenant \<Rightarrow> adminDeleteTenant i
   | adminWriteAddTenantUser \<Rightarrow> adminAddTenantUser i
   | adminWriteRemoveTenantUser \<Rightarrow> adminRemoveTenantUser i sub
   | adminWriteMailTemplate \<Rightarrow> adminUpdateMailTemplate
   | adminWriteUITemplate \<Rightarrow> adminUpdateUITranslations
   | adminWriteNone \<Rightarrow> (\<lambda>rq w. (AdminNotFound, w)))"

section \<open>Promotion\<close>

definition AdminPromoteUsersPath :: string where "AdminPromoteUsersPath = ''/users''"
definition AdminPromoteSuffix :: string where "AdminPromoteSuffix = ''/promote''"
definition adminPromoteRole :: string where "adminPromoteRole = ''admin''"
definition adminPromoteMethodFlag :: string where "adminPromoteMethodFlag = ''flag''"
definition adminPromoteMethodRole :: string where "adminPromoteMethodRole = ''role''"

definition matchAdminPromote :: "string \<Rightarrow> string \<Rightarrow> string option" where
  "matchAdminPromote method rel =
     (if method \<noteq> ''POST'' then None
      else case adminPathParam rel AdminPromoteUsersPath of
        Some (i, tail) \<Rightarrow> if tail = AdminPromoteSuffix then Some i else None
      | None \<Rightarrow> None)"

definition promote_event :: "string \<Rightarrow> string \<Rightarrow> Event" where
  "promote_event i how = role_event ''identity.role.assigned'' i []
     (fmap_of_list [(''role'', JStr adminPromoteRole), (''method'', JStr how)])"

definition adminPromoteUser :: "admin_env \<Rightarrow> string \<Rightarrow> admin_handler" where
  "adminPromoteUser v i rq w =
     (let method' = (case body_value (decode_allocated decode_string []) [''method''] ''method''
              (body_members (tq_Body rq)) None of None \<Rightarrow> adminPromoteMethodRole | Some m \<Rightarrow> m)
      in if method' = adminPromoteMethodFlag then
           (if \<not> ae_has_AdminFlagStore v then (AdminFailed 501 ''IUserStore.update is required for method=flag'', w)
            else case on_service (users_do (UpdateIsAdmin i [] True)) w of
              (Inl e, w) \<Rightarrow> (internalError, w)
            | (Inr _, w) \<Rightarrow> (AdminPromoted method',
                publishAdminEvent v rq (promote_event i adminPromoteMethodFlag) w))
         else if w_rbac (aw_service w) = None then (AdminFailed 404 ''RBAC store not configured'', w)
         else case on_service (thenDo (rbac_call (\<lambda>s. (Ok (), CreateRole adminPromoteRole [] s))) (\<lambda>_.
             rbac_call (AddRoleToUser i adminPromoteRole []))) w of
           (Inl e, w) \<Rightarrow> (internalError, w)
         | (Inr _, w) \<Rightarrow> (AdminPromoted method',
             publishAdminEvent v rq (promote_event i adminPromoteMethodRole) w))"

end
