(* ===== verification/Admin_Credentials.thy ===== *)
theory Admin_Credentials
  imports Admin_Write
begin

text \<open>
  The routes of the console that handle credentials (\<open>admin_credentials.go\<close>): API keys and webhooks, whose
  secrets are shown once or not at all; the upload routes around \<open>Upload_Store\<close>; and the middleware that
  asks for an API key (\<open>api_keys.go\<close>).
\<close>

section \<open>Routes\<close>

definition AdminAPIKeysPath :: string where "AdminAPIKeysPath = ''/api/api-keys''"
definition AdminWebhooksPath :: string where "AdminWebhooksPath = ''/api/webhooks''"
definition adminWebhookMask :: string where "adminWebhookMask = ''***''"

datatype adminCredentialRoute =
    adminCredentialNone | adminCredentialListAPIKeys | adminCredentialCreateAPIKey | adminCredentialRevokeAPIKey
  | adminCredentialDeleteAPIKey | adminCredentialListWebhooks | adminCredentialCreateWebhook
  | adminCredentialUpdateWebhook | adminCredentialDeleteWebhook

definition matchAdminCredential :: "string \<Rightarrow> string \<Rightarrow> adminCredentialRoute \<times> string" where
  "matchAdminCredential method rel =
     (if method = ''GET'' \<or> method = ''HEAD'' then
        (if rel = AdminAPIKeysPath then (adminCredentialListAPIKeys, [])
         else if rel = AdminWebhooksPath then (adminCredentialListWebhooks, [])
         else (adminCredentialNone, []))
      else if method = ''POST'' then
        (if rel = AdminAPIKeysPath then (adminCredentialCreateAPIKey, [])
         else if rel = AdminWebhooksPath then (adminCredentialCreateWebhook, [])
         else (adminCredentialNone, []))
      else if method = ''PATCH'' then
        (case adminPathParam rel AdminWebhooksPath of
          Some (i, []) \<Rightarrow> (adminCredentialUpdateWebhook, i)
        | _ \<Rightarrow> (adminCredentialNone, []))
      else if method = ''DELETE'' then
        (case adminPathParam rel AdminAPIKeysPath of
          Some (i, tail) \<Rightarrow>
            (if tail = [] then (adminCredentialDeleteAPIKey, i)
             else if tail = ''/revoke'' then (adminCredentialRevokeAPIKey, i)
             else (adminCredentialNone, []))
        | None \<Rightarrow> (case adminPathParam rel AdminWebhooksPath of
            Some (i, []) \<Rightarrow> (adminCredentialDeleteWebhook, i)
          | _ \<Rightarrow> (adminCredentialNone, [])))
      else (adminCredentialNone, []))"

section \<open>API keys\<close>

definition newAdminAPIKeyRow :: "APIKeyRecord \<Rightarrow> adminAPIKeyRow" where
  "newAdminAPIKeyRow r = \<lparr>kr_ID = ak_ID r, kr_Name = ak_Name r, kr_KeyPrefix = ak_Prefix r, kr_ServiceID = ak_ServiceID r,
     kr_Scopes = slice_elems (ak_Scopes r), kr_AllowedIPs = ak_AllowedIPs r, kr_IsActive = ak_IsActive r,
     kr_ExpiresAt = ak_ExpiresAt r, kr_CreatedAt = ak_CreatedAt r, kr_LastUsedAt = ak_LastUsedAt r\<rparr>"

definition adminListAPIKeys :: "admin_env \<Rightarrow> admin_handler" where
  "adminListAPIKeys v rq w = (case aw_keys w of
     None \<Rightarrow> (AdminFailed 404 ''API key store not configured'', w)
   | Some s \<Rightarrow>
       if \<not> ae_has_APIKeyAdminStore v then (AdminUnlisted ''IApiKeyStore.listAll is not implemented'', w)
       else (case key_ListAll (fst (page_batch rq)) (snd (page_batch rq)) s of
         Panics \<Rightarrow> (AdminPanics, w)
       | Returns ks \<Rightarrow>
           (case filtered_page rq
                  (\<lambda>row. list_ex (\<lambda>t. contains_text (to_lower t) (page_filter rq))
                     [kr_Name row, kr_ServiceID row, kr_KeyPrefix row]) (map newAdminAPIKeyRow ks) of
              Panics \<Rightarrow> (AdminPanics, w)
            | Returns (rows, n) \<Rightarrow> (AdminKeys rows n, w))))"

text \<open>An expiry that does not parse is dropped. The key itself is in this answer only.\<close>

definition adminCreateAPIKey :: "admin_env \<Rightarrow> admin_handler" where
  "adminCreateAPIKey v rq w = (case aw_keys w of
     None \<Rightarrow> (AdminFailed 404 ''API key store not configured'', w)
   | Some s \<Rightarrow>
       (let names = [''name'', ''serviceId'', ''scopes'', ''allowedIps'', ''expiresAt'']; kvs = body_members (tq_Body rq);
            field = (\<lambda>f. body_value decode_string names f kvs []);
            slice = (\<lambda>f. slice_elems (body_value decode_names names f kvs None));
            expiresAt = (if field ''expiresAt'' = [] then None else tc_layout (ae_libs v) 0 (field ''expiresAt''));
            k = w_tick (aw_service w)
        in if field ''name'' = [] then (AdminFailed 400 ''name is required'', w)
           else (case key_Create (e_crypto (ae_env v)) (cf_BcryptCost (e_cfg (ae_env v))) (e_wall (ae_env v) k)
               (field ''name'') (field ''serviceId'') (slice ''scopes'') (slice ''allowedIps'') expiresAt (Suc k, s) of
             (r, k, s) \<Rightarrow>
               (let w = w\<lparr>aw_service := (aw_service w)\<lparr>w_tick := k\<rparr>, aw_keys := Some s\<rparr> in case r of
                  Inl _ \<Rightarrow> (internalError, w)
                | Inr (rawKey, record') \<Rightarrow> (AdminKeyCreated rawKey (newAdminAPIKeyRow record'), w)))))"

definition adminRevokeAPIKey :: "string \<Rightarrow> admin_handler" where
  "adminRevokeAPIKey i rq w = (case aw_keys w of
     None \<Rightarrow> (AdminFailed 404 ''API key store not configured'', w)
   | Some s \<Rightarrow> (AdminSuccess, w\<lparr>aw_keys := Some (key_Revoke i s)\<rparr>))"

definition adminDeleteAPIKey :: "admin_env \<Rightarrow> string \<Rightarrow> admin_handler" where
  "adminDeleteAPIKey v i rq w = (case aw_keys w of
     None \<Rightarrow> (AdminFailed 404 ''API key store not configured'', w)
   | Some s \<Rightarrow>
       if ae_has_APIKeyDeleteStore v then (AdminSuccess, w\<lparr>aw_keys := Some (key_Delete i s)\<rparr>)
       else (AdminNote ''IApiKeyStore.delete not implemented; key was revoked instead'',
         w\<lparr>aw_keys := Some (key_Revoke i s)\<rparr>))"

section \<open>Webhooks\<close>

definition newAdminWebhookRow :: "WebhookConfig \<Rightarrow> adminWebhookRow" where
  "newAdminWebhookRow c = \<lparr>wr_ID = wc_ID c, wr_URL = wc_URL c, wr_Events = slice_elems (wc_Events c),
     wr_IsActive = wc_IsActive c, wr_TenantID = wc_TenantID c, wr_MaxRetries = wc_MaxRetries c,
     wr_RetryDelayMs = wc_RetryDelayMs c, wr_Secret = (if wc_Secret c \<noteq> [] then adminWebhookMask else [])\<rparr>"

definition adminMaskedWebhook :: "WebhookConfig \<Rightarrow> WebhookConfig" where
  "adminMaskedWebhook c = (if wc_Secret c \<noteq> [] then c\<lparr>wc_Secret := adminWebhookMask\<rparr> else c)"

definition adminListWebhooks :: "admin_env \<Rightarrow> admin_handler" where
  "adminListWebhooks v rq w = (case aw_webhooks w of
     None \<Rightarrow> (AdminFailed 404 ''Webhook store not configured'', w)
   | Some s \<Rightarrow>
       if \<not> ae_has_WebhookAdminStore v then (AdminUnlisted ''IWebhookStore.listAll is not implemented'', w)
       else (case ListWebhooks (page_limit rq) (page_offset rq) s of
         Panics \<Rightarrow> (AdminPanics, w)
       | Returns cs \<Rightarrow> (AdminWebhooks (map newAdminWebhookRow cs)
           (page_total (int (length cs)) (page_offset rq) (page_limit rq)), w)))"

definition webhook_names :: "string list" where
  "webhook_names = [''url'', ''events'', ''secret'', ''tenantId'', ''isActive'', ''maxRetries'', ''retryDelayMs'']"

definition adminCreateWebhook :: "admin_env \<Rightarrow> admin_handler" where
  "adminCreateWebhook v rq w = (case aw_webhooks w of
     None \<Rightarrow> (AdminFailed 404 ''Webhook store not configured'', w)
   | Some s \<Rightarrow>
       (let kvs = body_members (tq_Body rq); field = (\<lambda>f. body_value decode_string webhook_names f kvs []);
            number = (\<lambda>f. body_value (decode_allocated decode_int64 0) webhook_names f kvs None);
            events = body_value decode_names webhook_names ''events'' kvs None;
            active = body_value (decode_allocated decode_bool False) webhook_names ''isActive'' kvs None;
            config = zero_webhook\<lparr>wc_URL := field ''url'',
              wc_Events := (if events = None then Some [WebhookEventWildcard] else events), wc_Secret := field ''secret'',
              wc_TenantID := field ''tenantId'', wc_IsActive := (if active = None then Some True else active),
              wc_MaxRetries := number ''maxRetries'', wc_RetryDelayMs := number ''retryDelayMs''\<rparr>
        in if field ''url'' = [] then (AdminFailed 400 ''url is required'', w)
           else if \<not> ae_has_WebhookAdminStore v then (AdminFailed 501 ''IWebhookStore.add is not implemented'', w)
           else (case AddWebhook (e_crypto (ae_env v)) config (w_tick (aw_service w)) s of
             ((r, k), s) \<Rightarrow>
               (let w = w\<lparr>aw_service := (aw_service w)\<lparr>w_tick := k\<rparr>, aw_webhooks := Some s\<rparr> in case r of
                  Inl e \<Rightarrow> (if errors_is e ErrFeatureNotSupported
                    then AdminFailed 501 ''IWebhookStore.add is not implemented'' else internalError, w)
                | Inr stored \<Rightarrow> (AdminWebhook (adminMaskedWebhook stored), w)))))"

definition webhook_patch_names :: "string list" where
  "webhook_patch_names = [''url'', ''events'', ''secret'', ''isActive'', ''tenantId'', ''maxRetries'', ''retryDelayMs'',
     ''provider'', ''allowedActions'', ''jsScript'']"

definition webhook_patch :: "(string \<times> json) list \<Rightarrow> WebhookPatch" where
  "webhook_patch kvs =
     (let field = (\<lambda>f. body_value (decode_allocated decode_string []) webhook_patch_names f kvs None);
          number = (\<lambda>f. body_value (decode_allocated decode_int64 0) webhook_patch_names f kvs None);
          slice = (\<lambda>f. body_value decode_names webhook_patch_names f kvs None)
      in \<lparr>wp_URL = field ''url'', wp_Events = slice ''events'', wp_Secret = field ''secret'',
          wp_IsActive = body_value (decode_allocated decode_bool False) webhook_patch_names ''isActive'' kvs None,
          wp_TenantID = field ''tenantId'', wp_MaxRetries = number ''maxRetries'',
          wp_RetryDelayMs = number ''retryDelayMs'', wp_Provider = field ''provider'',
          wp_AllowedActions = slice ''allowedActions'', wp_JSScript = field ''jsScript''\<rparr>)"

definition adminUpdateWebhook :: "admin_env \<Rightarrow> string \<Rightarrow> admin_handler" where
  "adminUpdateWebhook v i rq w = (case aw_webhooks w of
     None \<Rightarrow> (AdminFailed 404 ''Webhook store not configured'', w)
   | Some s \<Rightarrow>
       if \<not> ae_has_WebhookAdminStore v then (AdminFailed 501 ''IWebhookStore.update is not implemented'', w)
       else (AdminSuccess, w\<lparr>aw_webhooks := Some (UpdateWebhook i (webhook_patch (body_members (tq_Body rq))) s)\<rparr>))"

definition adminDeleteWebhook :: "admin_env \<Rightarrow> string \<Rightarrow> admin_handler" where
  "adminDeleteWebhook v i rq w = (case aw_webhooks w of
     None \<Rightarrow> (AdminFailed 404 ''Webhook store not configured'', w)
   | Some s \<Rightarrow>
       if \<not> ae_has_WebhookAdminStore v then (AdminFailed 501 ''IWebhookStore.remove is not implemented'', w)
       else (AdminSuccess, w\<lparr>aw_webhooks := Some (RemoveWebhook i s)\<rparr>))"

definition serveAdminCredential :: "admin_env \<Rightarrow> adminCredentialRoute \<Rightarrow> string \<Rightarrow> admin_handler" where
  "serveAdminCredential v route i = (case route of
     adminCredentialListAPIKeys \<Rightarrow> adminListAPIKeys v
   | adminCredentialCreateAPIKey \<Rightarrow> adminCreateAPIKey v
   | adminCredentialRevokeAPIKey \<Rightarrow> adminRevokeAPIKey i
   | adminCredentialDeleteAPIKey \<Rightarrow> adminDeleteAPIKey v i
   | adminCredentialListWebhooks \<Rightarrow> adminListWebhooks v
   | adminCredentialCreateWebhook \<Rightarrow> adminCreateWebhook v
   | adminCredentialUpdateWebhook \<Rightarrow> adminUpdateWebhook v i
   | adminCredentialDeleteWebhook \<Rightarrow> adminDeleteWebhook v i
   | adminCredentialNone \<Rightarrow> (\<lambda>rq w. (AdminNotFound, w)))"

section \<open>Uploads\<close>

definition AdminUploadLogoPath :: string where "AdminUploadLogoPath = ''/api/upload/logo''"
definition AdminUploadBGImagePath :: string where "AdminUploadBGImagePath = ''/api/upload/bg-image''"
definition AdminUploadFilesPath :: string where "AdminUploadFilesPath = ''/api/upload/files''"
definition AdminUploadPath :: string where "AdminUploadPath = ''/api/upload''"

datatype adminUploadRoute =
    adminUploadNone | adminUploadLogo | adminUploadBGImage | adminUploadList | adminUploadDelete

definition matchAdminUpload :: "string \<Rightarrow> string \<Rightarrow> adminUploadRoute \<times> string" where
  "matchAdminUpload method rel =
     (if method = ''POST'' then
        (if rel = AdminUploadLogoPath then (adminUploadLogo, [])
         else if rel = AdminUploadBGImagePath then (adminUploadBGImage, []) else (adminUploadNone, []))
      else if method = ''GET'' \<or> method = ''HEAD'' then
        (if rel = AdminUploadFilesPath then (adminUploadList, []) else (adminUploadNone, []))
      else if method = ''DELETE'' then
        (case adminPathParam rel AdminUploadPath of
          Some (name, []) \<Rightarrow> (adminUploadDelete, name)
        | _ \<Rightarrow> (adminUploadNone, []))
      else (adminUploadNone, []))"

definition adminUploadRegistered :: "admin_world \<Rightarrow> adminUploadRoute \<Rightarrow> bool" where
  "adminUploadRegistered w route \<longleftrightarrow> route \<noteq> adminUploadNone \<and> aw_uploads w \<noteq> None"

definition UIRoute :: string where "UIRoute = ''/ui''"

definition adminUploadBaseURL :: "admin_env \<Rightarrow> admin_world \<Rightarrow> string" where
  "adminUploadBaseURL v w =
     (let base = trim_space (ao_UploadBaseURL (ax_admin (ae_cfg v))) in
      if base \<noteq> [] then base
      else if aw_uploads w = None then []
      else trim_suffix ''/'' (adminAuthAPIPrefix (ae_cfg v)) @ UIRoute @ ''/assets/uploads'')"

text \<open>\<open>url.PathEscape\<close>.\<close>

definition path_escape :: "string \<Rightarrow> string" where
  "path_escape s = concat (map (\<lambda>c.
     if query_safe c \<or> c \<in> set ''$&+:=@'' then [c]
     else [CHR ''%'', ''0123456789ABCDEF'' ! (of_char c div 16), ''0123456789ABCDEF'' ! (of_char c mod 16)]) s)"

definition adminUploadURL :: "admin_env \<Rightarrow> admin_world \<Rightarrow> string \<Rightarrow> string" where
  "adminUploadURL v w key =
     (let base = adminUploadBaseURL v w in
      if base = [] then key else trim_suffix ''/'' base @ ''/'' @ path_escape key)"

text \<open>The clock is read once the file is accepted.\<close>

definition serveAdminUpload :: "admin_env \<Rightarrow> adminUploadRoute \<Rightarrow> string \<Rightarrow> admin_handler" where
  "serveAdminUpload v route name rq w = (case aw_uploads w of
     None \<Rightarrow> (AdminPanics, w)
   | Some s \<Rightarrow>
       if route = adminUploadLogo \<or> route = adminUploadBGImage then
         (let k = w_tick (aw_service w) in
          case adminUploadFile (e_clock (ae_env v) k) (e_wall (ae_env v) (Suc k)) (ae_part v rq) s of
            (Inl (code, message), s) \<Rightarrow> (AdminFailed code message,
              if code = 500 then w\<lparr>aw_service := (aw_service w)\<lparr>w_tick := k + 2\<rparr>, aw_uploads := Some s\<rparr> else w)
          | (Inr key, s) \<Rightarrow> (AdminUploaded key (adminUploadURL v w key),
              w\<lparr>aw_service := (aw_service w)\<lparr>w_tick := k + 2\<rparr>, aw_uploads := Some s\<rparr>))
       else if route = adminUploadList then (AdminUploads (adminListUploads s), w)
       else if route = adminUploadDelete then (case adminDeleteUpload name s of
           (Inl (code, message), s) \<Rightarrow> (AdminFailed code message, w\<lparr>aw_uploads := Some s\<rparr>)
         | (Inr _, s) \<Rightarrow> (AdminSuccess, w\<lparr>aw_uploads := Some s\<rparr>))
       else (AdminNotFound, w))"

section \<open>The API key middleware\<close>

text \<open>\<open>APIKeyMiddleware\<close>: whether the request goes on, and the store it leaves; \<open>split\<close> is \<open>net.SplitHostPort\<close>.\<close>

definition APIKeyMiddleware ::
    "crypto \<Rightarrow> (string \<Rightarrow> (string \<times> string) option) \<Rightarrow> string list \<Rightarrow> time \<Rightarrow> tools_request \<Rightarrow> MemoryAPIKeyStore \<Rightarrow>
       bool \<times> MemoryAPIKeyStore" where
  "APIKeyMiddleware c split' requiredScopes now rq s =
     (let raw = extractAPIKey (header_get (http_request.truncate rq)) in
      if raw = [] then (False, s)
      else (let ip = (case split' (tq_RemoteAddr rq) of None \<Rightarrow> [] | Some (host, _) \<Rightarrow> host);
                ip = (if ip = [] then tq_RemoteAddr rq else ip)
            in case key_Verify c now raw ip requiredScopes s of
              (Inl _, s) \<Rightarrow> (False, s)
            | (Inr _, s) \<Rightarrow> (True, s)))"

end
