(* ===== verification/Admin_Router.thy ===== *)
theory Admin_Router
  imports Admin_Credentials
begin

text \<open>
  The console's router (\<open>AdminHandler\<close> of \<open>admin.go\<close>): which request reaches which route, and which routes are
  behind the guard. The vendored assets, the page's text, and the generated documents are constant answers.
\<close>

definition AdminLoginPath :: string where "AdminLoginPath = ''/login''"
definition AdminLogoutPath :: string where "AdminLogoutPath = ''/logout''"
definition AdminCSSPath :: string where "AdminCSSPath = ''/assets/admin.css''"
definition AdminJSPath :: string where "AdminJSPath = ''/assets/admin.js''"
definition AdminShellPath :: string where "AdminShellPath = ''/''"
definition AdminPingPath :: string where "AdminPingPath = ''/api/ping''"
definition AdminOpenAPIPath :: string where "AdminOpenAPIPath = ''/api'' @ DocsSpecPath"
definition AdminDocsPath :: string where "AdminDocsPath = ''/api'' @ DocsUIPath"

section \<open>The guard around a route\<close>

definition Protect :: "admin_env \<Rightarrow> admin_guard \<Rightarrow> admin_handler \<Rightarrow> admin_handler" where
  "Protect v g next rq w = (case authorise (ae_env v) (ae_cfg v) g rq (aw_service w) of
     (outcome, s) \<Rightarrow> (let w = w\<lparr>aw_service := s\<rparr> in case outcome of
         AdminGranted _ \<Rightarrow> next rq w
       | AdminNeedsLoginForm \<Rightarrow> (AdminFailed 401 ''Unauthorized'', w)
       | AdminError code message \<Rightarrow> (AdminFailed code message, w)
       | AdminRedirect target \<Rightarrow> (AdminRedirected target, w)
       | AdminGuardPanics \<Rightarrow> (AdminPanics, w)))"

text \<open>The page alone is also served to a browser that must log in first; \<open>next\<close> is told so.\<close>

definition ProtectShell :: "admin_env \<Rightarrow> admin_guard \<Rightarrow> (bool \<Rightarrow> admin_handler) \<Rightarrow> admin_handler" where
  "ProtectShell v g next rq w = (case authorise (ae_env v) (ae_cfg v) g rq (aw_service w) of
     (outcome, s) \<Rightarrow> (let w = w\<lparr>aw_service := s\<rparr> in case outcome of
         AdminGranted _ \<Rightarrow> next False rq w
       | AdminNeedsLoginForm \<Rightarrow> next True rq w
       | AdminError code message \<Rightarrow> (AdminFailed code message, w)
       | AdminRedirect target \<Rightarrow> (AdminRedirected target, w)
       | AdminGuardPanics \<Rightarrow> (AdminPanics, w)))"

definition shellHandler :: "admin_env \<Rightarrow> admin_guard \<Rightarrow> admin_handler" where
  "shellHandler v g =
     (let page = (\<lambda>needsAuth rq w. (AdminShell needsAuth, w)) in
      if ag_sessionBased g then ProtectShell v g page else page False)"

section \<open>Features\<close>

definition adminFeatures :: "admin_env \<Rightarrow> admin_world \<Rightarrow> adminFeatureSet" where
  "adminFeatures v w =
     (let svc = aw_service w; caps = e_caps (ae_env v) in
      \<lparr>fs_Sessions = has_SessionLister caps, fs_Roles = (w_rbac svc \<noteq> None), fs_Tenants = (w_tenants svc \<noteq> None),
       fs_Metadata = (w_metadata svc \<noteq> None),
       fs_TwoFAPolicy = (has_AdminUserStore caps \<and> ae_has_TwoFactorPolicyStore v),
       fs_Control = (aw_settings w \<noteq> None), fs_LinkedAccounts = (aw_links w \<noteq> None),
       fs_APIKeys = (aw_keys w \<noteq> None), fs_Webhooks = (aw_webhooks w \<noteq> None),
       fs_Templates = (aw_templates w \<noteq> None), fs_Upload = (aw_uploads w \<noteq> None)\<rparr>)"

text \<open>What the page is told: nothing of the features or the upload base before a login.\<close>

definition shell_features :: "admin_env \<Rightarrow> bool \<Rightarrow> admin_world \<Rightarrow> adminFeatureSet" where
  "shell_features v needsAuth w =
     (if needsAuth then \<lparr>fs_Sessions = False, fs_Roles = False, fs_Tenants = False, fs_Metadata = False,
        fs_TwoFAPolicy = False, fs_Control = False, fs_LinkedAccounts = False, fs_APIKeys = False,
        fs_Webhooks = False, fs_Templates = False, fs_Upload = False\<rparr>
      else adminFeatures v w)"

section \<open>The router\<close>

definition isAdminRead :: "tools_request \<Rightarrow> bool" where
  "isAdminRead rq \<longleftrightarrow> rq_Method rq = ''GET'' \<or> rq_Method rq = ''HEAD''"

definition adminRelativePath :: "string \<Rightarrow> string \<Rightarrow> string" where
  "adminRelativePath p mount = (if p = mount then ''/''
     else if prefix (mount @ ''/'') p then drop (length mount) p else p)"

definition login_answer :: "((int \<times> string) + set_cookie) \<times> world \<Rightarrow> admin_world \<Rightarrow> admin_answer \<times> admin_world" where
  "login_answer r w = (case r of
     (Inl (code, message), s) \<Rightarrow> (AdminFailed code message, w\<lparr>aw_service := s\<rparr>)
   | (Inr c, s) \<Rightarrow> (AdminCookie c, w\<lparr>aw_service := s\<rparr>))"

definition admin_login_route :: "admin_env \<Rightarrow> admin_guard \<Rightarrow> admin_handler" where
  "admin_login_route v g rq w =
     (if \<not> LoginRoutesMounted g then (AdminNotFound, w)
      else login_answer (adminLogin (ae_env v) (tc_number (ae_libs v)) (ae_cfg v) g rq (aw_service w)) w)"

text \<open>The routes behind the guard; nothing when the request names none of them.\<close>

definition guarded_route :: "admin_env \<Rightarrow> admin_guard \<Rightarrow> (admin_handler \<Rightarrow> admin_handler) option \<Rightarrow>
    tools_request \<Rightarrow> admin_world \<Rightarrow> admin_handler option" where
  "guarded_route v g limiter rq w =
     (let mount = AdminPath (ax_http (ae_cfg v)); rel = adminRelativePath (rq_Path rq) mount;
          escaped = adminRelativePath (tq_EscapedPath rq) mount;
          (read, readParam) = matchAdminRead escaped;
          (wroute, wid, wsub) = matchAdminWrite (rq_Method rq) escaped;
          (credential, credentialParam) = matchAdminCredential (rq_Method rq) escaped;
          (upload, uploadParam) = matchAdminUpload (rq_Method rq) escaped
      in if rel = AdminPingPath \<and> isAdminRead rq
         then Some (Protect v g (\<lambda>rq w. (AdminPing (adminFeatures v w), w)))
         else if isAdminRead rq \<and> adminReadRegistered w read
         then Some (Protect v g (serveAdminRead v read readParam))
         else if adminWriteRegistered w wroute then Some (Protect v g (serveAdminWrite v wroute wid wsub))
         else if credential \<noteq> adminCredentialNone
         then Some (Protect v g (serveAdminCredential v credential credentialParam))
         else if adminUploadRegistered w upload then Some (Protect v g (serveAdminUpload v upload uploadParam))
         else (case matchAdminPromote (rq_Method rq) escaped of
           Some i \<Rightarrow> Some ((case limiter of None \<Rightarrow> id | Some f \<Rightarrow> f) (Protect v g (adminPromoteUser v i)))
         | None \<Rightarrow> None))"

definition AdminHandler :: "admin_env \<Rightarrow> (admin_handler \<Rightarrow> admin_handler) option \<Rightarrow> admin_handler" where
  "AdminHandler v limiter rq w =
     (let g = AdminGuard (ae_env v) (ae_cfg v);
          rel = adminRelativePath (rq_Path rq) (AdminPath (ax_http (ae_cfg v)));
          docs = ao_Docs_Enabled (ax_admin (ae_cfg v))
      in if rel = AdminLoginPath \<and> rq_Method rq = ''POST'' then admin_login_route v g rq w
         else if rel = AdminLogoutPath \<and> rq_Method rq = ''POST''
         then (if LoginRoutesMounted g then (AdminCookie (adminLogout (ae_cfg v)), w) else (AdminNotFound, w))
         else if rel = AdminCSSPath \<and> isAdminRead rq then (AdminAsset ''admin.css'', w)
         else if rel = AdminJSPath \<and> isAdminRead rq then (AdminAsset ''admin.js'', w)
         else if rel = AdminShellPath \<and> isAdminRead rq then shellHandler v g rq w
         else case guarded_route v g limiter rq w of
           Some route \<Rightarrow> route rq w
         | None \<Rightarrow>
             if docs \<and> rel = AdminOpenAPIPath \<and> isAdminRead rq then (AdminSpec, w)
             else if docs \<and> rel = AdminDocsPath \<and> isAdminRead rq then (AdminDocsPage, w)
             else (AdminNotFound, w))"

end
