(* ===== verification/Admin_Laws.thy ===== *)
theory Admin_Laws
  imports Admin_Router RS256_Laws
begin

text \<open>
  What the console guarantees: who the guard lets in; that a login is followed by an entry; that the walk over the
  users reaches each once; that nothing behind the guard happens without it; that no route panics.
\<close>

section \<open>Who enters\<close>

lemma verifyToken_Some:
  assumes "verifyToken v g raw k = (Some claims, k')"
  shows "\<exists>signed. signed_admin_claims (e_crypto v) (ag_jwtSecret g) raw = Some signed \<and>
    (claims = signed \<and> dc_Typ signed = adminTokenType \<or>
     claims = signed\<lparr>dc_IsRoot := False\<rparr> \<and> dc_Typ signed = adminAccessTokenType) \<and>
    dc_Iss claims = cf_Issuer (e_cfg v) \<and>
    e_clock v k \<le> unix_time (dc_Exp claims) + cf_ClockSkew (e_cfg v) \<and> k' = Suc k"
  using assms by (auto simp: verifyToken_def Let_def adminTokenType_def adminAccessTokenType_def
      split: option.splits if_splits)

lemma signed_admin_claims_Some:
  assumes "signed_admin_claims c secret raw = Some claims"
  shows "\<exists>h p. raw = h @ ''.'' @ p @ ''.'' @ sign c (h @ ''.'' @ p) secret"
proof -
  obtain h p s where t: "splitToken raw = Ok (h, p, s)"
    using assms by (auto simp: signed_admin_claims_def split: sum.splits)
  then have "s = sign c (h @ ''.'' @ p) secret"
    using assms by (auto simp: signed_admin_claims_def split: Option.bind_splits if_splits)
  then show ?thesis using splitToken_Ok[OF t] by auto
qed

lemma page_first: "pageOf xs 1 0 = Returns (take 1 xs)"
  by (cases xs) (simp_all add: pageOf_def go_slice_def wrap64_id is_int64_def)

text \<open>The guard asks for one user at offset zero: that listing does not panic.\<close>

lemma evaluate_no_panic: "snd (fst (evaluate v p u w)) \<noteq> Panics"
  by (simp add: evaluate_def ListUsers_service_def ListUsers_def page_first if_supported_def users_get_def failWith_def
      split: option.split AdminPolicyKind.split)

lemma authorise_no_panic: "authorise v cfg g rq w \<noteq> (AdminGuardPanics, w')"
proof -
  have "evaluate v p u w \<noteq> ((granted, Panics), w')" for p u w granted w'
    using evaluate_no_panic[of v p u w] by auto
  then have "fst (admit_claims v p claims w) \<noteq> AdminGuardPanics" for p claims w
    by (auto simp: admit_claims_def split: sum.split prod.split)
  then have "admit_claims v p claims w \<noteq> (AdminGuardPanics, w')" for p claims w by (metis fst_conv)
  then show ?thesis
    by (auto simp: authorise_def Let_def unauthenticated_def split: option.split prod.split)
qed

text \<open>The guard changes no store: it only counts what it asked the clock and the policy.\<close>

definition only_ticks :: "world \<Rightarrow> world \<Rightarrow> bool" where
  "only_ticks w w' \<longleftrightarrow> (\<exists>k. w' = w\<lparr>w_tick := k\<rparr>)"

lemma only_ticks_simps [simp]: "only_ticks w w" "only_ticks w (w\<lparr>w_tick := k\<rparr>)"
  unfolding only_ticks_def by (metis world.surjective world.update_convs(8)) blast

lemma only_ticks_later: "only_ticks (w\<lparr>w_tick := k\<rparr>) w' \<Longrightarrow> only_ticks w w'"
  by (auto simp: only_ticks_def)

lemma evaluate_world: "evaluate v p u w = (r, w') \<Longrightarrow> only_ticks w w'"
  by (auto simp: evaluate_def ListUsers_service_def if_supported_def users_get_def failWith_def
      split: option.splits AdminPolicyKind.splits if_splits outcome.splits)

lemma admit_claims_Granted:
  assumes "admit_claims v p claims w = (AdminGranted u, w')"
  shows "dc_Sub claims \<noteq> [] \<and>
    (dc_IsRoot claims \<and> u = Some (root_user claims) \<or>
     \<not> dc_IsRoot claims \<and> (\<exists>user missing. u = Some user \<and>
        GetUserByID (dc_Sub claims) (dc_Tid claims) (w_users w) = Ok user \<and>
        fst (evaluate v p user w) = (True, missing)))"
  using assms by (auto simp: admit_claims_def split: if_splits sum.splits prod.splits)

lemma admit_claims_world: "admit_claims v p claims w = (r, w') \<Longrightarrow> only_ticks w w'"
  by (auto simp: admit_claims_def split: if_splits sum.splits prod.splits dest: evaluate_world)

lemma authorise_world: "authorise v cfg g rq w = (r, w') \<Longrightarrow> only_ticks w w'"
  by (auto simp: authorise_def Let_def split: option.splits if_splits prod.splits
      dest!: admit_claims_world only_ticks_later)

lemma readToken_Some:
  assumes "readToken v g cfg rq k = (Some claims, k')"
  shows "ag_jwtSecret g \<noteq> [] \<and> admin_token g cfg rq \<noteq> [] \<and>
    verifyToken v g (admin_token g cfg rq) k = (Some claims, k')"
  using assms by (auto simp: readToken_def split: if_splits)

lemma entry_earned:
  assumes "authorise v cfg g rq w = (AdminGranted (Some u), w')"
  shows "\<exists>p claims h b. ag_policy g = Some p \<and> ag_jwtSecret g \<noteq> [] \<and>
    admin_token g cfg (http_request.truncate rq) = h @ ''.'' @ b @ ''.'' @ sign (e_crypto v) (h @ ''.'' @ b) (ag_jwtSecret g) \<and>
    signed_admin_claims (e_crypto v) (ag_jwtSecret g) (admin_token g cfg (http_request.truncate rq)) = Some claims \<and>
    dc_Iss claims = cf_Issuer (e_cfg v) \<and> dc_Sub claims \<noteq> [] \<and>
    e_clock v (w_tick w) \<le> unix_time (dc_Exp claims) + cf_ClockSkew (e_cfg v) \<and>
    (dc_Typ claims = adminTokenType \<and> dc_IsRoot claims \<and> u = root_user claims \<or>
     dc_Typ claims \<in> {adminTokenType, adminAccessTokenType} \<and>
     GetUserByID (dc_Sub claims) (dc_Tid claims) (w_users w) = Ok u \<and>
     fst (fst (evaluate v p u (w\<lparr>w_tick := Suc (w_tick w)\<rparr>)))) \<and>
    only_ticks w w'"
proof -
  obtain p where p: "ag_policy g = Some p" using assms by (auto simp: authorise_def Let_def split: option.splits if_splits)
  then obtain read k where r: "readToken v g cfg (http_request.truncate rq) (w_tick w) = (Some read, k)"
      and a: "admit_claims v p read (w\<lparr>w_tick := k\<rparr>) = (AdminGranted (Some u), w')"
    using assms by (auto simp: authorise_def unauthenticated_def split: option.splits if_splits prod.splits)
  note t = readToken_Some[OF r]
  obtain claims where c: "signed_admin_claims (e_crypto v) (ag_jwtSecret g) (admin_token g cfg (http_request.truncate rq)) = Some claims"
      "read = claims \<and> dc_Typ claims = adminTokenType \<or>
       read = claims\<lparr>dc_IsRoot := False\<rparr> \<and> dc_Typ claims = adminAccessTokenType"
      "dc_Iss read = cf_Issuer (e_cfg v)"
      "e_clock v (w_tick w) \<le> unix_time (dc_Exp read) + cf_ClockSkew (e_cfg v)" "k = Suc (w_tick w)"
    using verifyToken_Some[of v g "admin_token g cfg (http_request.truncate rq)" "w_tick w"] t by blast
  obtain h b where shape: "admin_token g cfg (http_request.truncate rq) =
      h @ ''.'' @ b @ ''.'' @ sign (e_crypto v) (h @ ''.'' @ b) (ag_jwtSecret g)"
    using signed_admin_claims_Some[OF c(1)] by blast
  have who: "dc_Typ claims = adminTokenType \<and> dc_IsRoot claims \<and> u = root_user claims \<or>
     dc_Typ claims \<in> {adminTokenType, adminAccessTokenType} \<and>
     GetUserByID (dc_Sub claims) (dc_Tid claims) (w_users w) = Ok u \<and>
     fst (fst (evaluate v p u (w\<lparr>w_tick := Suc (w_tick w)\<rparr>)))"
    using admit_claims_Granted[OF a] c(2,5) by auto
  have "dc_Sub claims \<noteq> []" "dc_Iss claims = cf_Issuer (e_cfg v)"
    "e_clock v (w_tick w) \<le> unix_time (dc_Exp claims) + cf_ClockSkew (e_cfg v)"
    using admit_claims_Granted[OF a] c(2,3,4) by auto
  then show ?thesis using p t shape c(1) who authorise_world[OF assms] by blast
qed

lemma evaluate_stores:
  "fst (evaluate v p u (w\<lparr>w_sessions := s\<rparr>)) = fst (evaluate v p u w)"
  by (auto simp: evaluate_def ListUsers_service_def if_supported_def users_get_def failWith_def
      split: option.splits AdminPolicyKind.splits outcome.splits)

lemma fst_admit_claims:
  "fst (admit_claims v p claims w) =
     (if dc_Sub claims = [] then AdminError 401 ''Unauthorized''
      else if dc_IsRoot claims then AdminGranted (Some (root_user claims))
      else case GetUserByID (dc_Sub claims) (dc_Tid claims) (w_users w) of
        Inl _ \<Rightarrow> AdminError 401 ''Unauthorized''
      | Inr user \<Rightarrow> (let r = fst (evaluate v p user w) in
          if snd r = Panics then AdminGuardPanics
          else if snd r = Returns True then AdminError 500 ''accessPolicy: first-user requires IUserStore.listUsers to be implemented''
          else if \<not> fst r then AdminError 403 ''Forbidden'' else AdminGranted (Some user)))"
  by (simp add: admit_claims_def Let_def split: sum.splits prod.splits)

text \<open>The guard never looks at a session.\<close>

lemma authorise_no_sessions:
  "fst (authorise v cfg g rq (w\<lparr>w_sessions := s\<rparr>)) = fst (authorise v cfg g rq w)"
proof -
  have "fst (admit_claims v p claims (w\<lparr>w_sessions := s, w_tick := k\<rparr>)) = fst (admit_claims v p claims (w\<lparr>w_tick := k\<rparr>))"
    for p claims k
  proof -
    have order: "w\<lparr>w_sessions := s, w_tick := k\<rparr> = w\<lparr>w_tick := k, w_sessions := s\<rparr>" by simp
    show ?thesis unfolding order by (simp add: fst_admit_claims evaluate_stores split: sum.splits)
  qed
  then show ?thesis by (simp add: authorise_def Let_def split: option.splits prod.splits)
qed

section \<open>The walk over the users\<close>

text \<open>The store with the flag set for the users of some ids.\<close>

definition flagged :: "bool \<Rightarrow> string set \<Rightarrow> User \<Rightarrow> User" where
  "flagged required ids u = (if u_ID u \<in> ids then u\<lparr>u_Require2FA := required\<rparr> else u)"

definition with_flags :: "bool \<Rightarrow> string set \<Rightarrow> MemoryUserStore \<Rightarrow> MemoryUserStore" where
  "with_flags required ids s = s\<lparr>us_byID := fmmap (flagged required ids) (us_byID s)\<rparr>"

lemma flagged_simps [simp]: "u_ID (flagged r ids u) = u_ID u" "u_TenantID (flagged r ids u) = u_TenantID u"
  by (simp_all add: flagged_def)

lemma with_flags_none: "with_flags r {} s = s"
proof -
  have "flagged r {} = id" by (auto simp: flagged_def)
  then show ?thesis by (simp add: with_flags_def fmap.map_id0)
qed

lemma range_values_fmmap: "range_values (fmmap f m) = map f (range_values m)"
  by (auto simp: range_values_conv range_keys_def sorted_list_of_fmap_def fmlookup_dom_iff)

lemma sort_key_map: "(\<And>x. k (f x) = k x) \<Longrightarrow> sort_key k (map f xs) = map f (sort_key k xs)"
proof (induction xs)
  case (Cons x xs)
  have "insort_key k (f x) (map f ys) = map f (insort_key k x ys)" for ys
    by (induction ys) (simp_all add: Cons.prems)
  then show ?case using Cons by simp
qed simp

lemma listed_with_flags: "listed_users [] (with_flags r ids s) = map (flagged r ids) (listed_users [] s)"
  by (simp add: listed_users_def with_flags_def range_values_fmmap sort_key_map)

lemma flag_one:
  assumes "keyed u_ID (us_byID s)" "fmlookup (us_byID s) i = Some u" "u_TenantID u = t"
  shows "UpdateRequire2FA i t r (with_flags r ids s) = (Ok (), with_flags r (insert i ids) s)"
proof -
  have i: "u_ID u = i" using keyedD[OF assms(1,2)] .
  have "fmupd i ((flagged r ids u)\<lparr>u_Require2FA := r\<rparr>) (fmmap (flagged r ids) (us_byID s)) =
      fmmap (flagged r (insert i ids)) (us_byID s)"
  proof (rule fmap_ext)
    fix k
    show "fmlookup (fmupd i ((flagged r ids u)\<lparr>u_Require2FA := r\<rparr>) (fmmap (flagged r ids) (us_byID s))) k =
        fmlookup (fmmap (flagged r (insert i ids)) (us_byID s)) k"
    proof (cases "k = i")
      case True
      then show ?thesis using assms(2) i by (simp add: flagged_def)
    next
      case False
      then have "flagged r (insert i ids) x = flagged r ids x" if "fmlookup (us_byID s) k = Some x" for x
        using keyedD[OF assms(1) that] by (simp add: flagged_def)
      then show ?thesis using False by (cases "fmlookup (us_byID s) k") simp_all
    qed
  qed
  then show ?thesis
    using assms(2,3) by (simp add: UpdateRequire2FA_def user_in_def with_flags_def put_user_def)
qed

lemma flag_page:
  assumes "keyed u_ID (us_byID s)" "\<forall>u\<in>set us. \<exists>u'. fmlookup (us_byID s) (u_ID u) = Some u' \<and> u_TenantID u' = u_TenantID u"
  shows "update_page r us (w\<lparr>w_users := with_flags r ids s\<rparr>) =
    (Ok (), w\<lparr>w_users := with_flags r (u_ID ` set us \<union> ids) s\<rparr>)"
  using assms(2)
proof (induction us arbitrary: ids)
  case (Cons u us)
  obtain u' where u': "fmlookup (us_byID s) (u_ID u) = Some u'" "u_TenantID u' = u_TenantID u" using Cons.prems by auto
  then show ?case
    using Cons.IH[of "insert (u_ID u) ids"] Cons.prems by (simp add: users_do_def flag_one[OF assms(1) u'])
qed simp

lemma walk_from:
  assumes ok: "user_store_ok s" and has: "has_AdminUserStore (e_caps (ae_env v))"
    and size: "int (length (listed_users [] s)) \<le> max_int64 - 100"
    and j: "j \<le> length (listed_users [] s)"
  shows "two_factor_walk v r (int j) (int j)
      (w\<lparr>w_users := with_flags r (u_ID ` set (take j (listed_users [] s))) s\<rparr>) =
    (Returns (Some (int (length (listed_users [] s)))), w\<lparr>w_users := with_flags r (u_ID ` set (listed_users [] s)) s\<rparr>)"
  using j
proof (induction "length (listed_users [] s) - j" arbitrary: j rule: less_induct)
  case less
  let ?L = "listed_users [] s" and ?s = "with_flags r (u_ID ` set (take j (listed_users [] s))) s"
  let ?batch = "map (flagged r (u_ID ` set (take j ?L))) (take 100 (drop j ?L))"
  have k: "keyed u_ID (us_byID s)" using ok by (simp add: user_store_ok_def)
  have "ListUsers [] 100 (int j) ?s = Returns (take (nat 100) (drop (nat (int j)) (listed_users [] ?s)))"
    by (rule user_lister.page_take_drop) (use size less.prems in \<open>auto simp: is_int64_def listed_with_flags\<close>)
  then have page: "ListUsers_service (ae_env v) [] adminTwoFAPolicyBatchSize (int j) (w\<lparr>w_users := ?s\<rparr>) =
      (Inr (Returns ?batch), w\<lparr>w_users := ?s\<rparr>)"
    by (simp add: ListUsers_service_def if_supported_def has users_get_def adminTwoFAPolicyBatchSize_def
        listed_with_flags take_map drop_map)
  define batch where "batch = ?batch"
  have ids: "u_ID ` set batch \<union> u_ID ` set (take j ?L) = u_ID ` set (take (j + 100) ?L)"
    by (auto simp: batch_def take_add image_Un image_image)
  have "\<exists>u'. fmlookup (us_byID s) (u_ID u) = Some u' \<and> u_TenantID u' = u_TenantID u" if "u \<in> set batch" for u
  proof -
    from that obtain x where x: "x \<in> set ?L" "u_ID u = u_ID x" "u_TenantID u = u_TenantID x"
      by (auto simp: batch_def dest!: in_set_takeD in_set_dropD)
    then obtain i where "fmlookup (us_byID s) i = Some x" by (auto simp: listed_users_def)
    then show ?thesis using keyedD[OF k] x by auto
  qed
  then have upd: "update_page r batch (w\<lparr>w_users := ?s\<rparr>) =
      (Ok (), w\<lparr>w_users := with_flags r (u_ID ` set (take (j + 100) ?L)) s\<rparr>)"
    using flag_page[OF k, where us = batch and r = r and w = w and ids = "u_ID ` set (take j ?L)"] unfolding ids by blast
  have len: "length batch = min (length ?L - j) 100" by (simp add: batch_def)
  note step = two_factor_walk.simps[of v r "int j" "int j" "w\<lparr>w_users := ?s\<rparr>", unfolded page[folded batch_def]]
  show ?case
  proof (cases "j + 100 \<le> length ?L")
    case True
    then have "length batch = 100" "batch \<noteq> []" using len by auto
    then have "two_factor_walk v r (int j) (int j) (w\<lparr>w_users := ?s\<rparr>) =
        two_factor_walk v r (int (j + 100)) (int (j + 100)) (w\<lparr>w_users := with_flags r (u_ID ` set (take (j + 100) ?L)) s\<rparr>)"
      unfolding step by (simp add: upd adminTwoFAPolicyBatchSize_def)
    then show ?thesis using less.hyps[of "j + 100"] True by simp
  next
    case False
    then have n: "length batch = length ?L - j" "take (j + 100) ?L = ?L" using len by auto
    show ?thesis
    proof (cases "batch = []")
      case True
      then have "j = length ?L" using n less.prems by simp
      then show ?thesis unfolding step using True by simp
    next
      case ne: False
      have "int j + int (length batch) = int (length ?L)" using n less.prems by simp
      then show ?thesis
        unfolding step using ne n False by (simp add: upd adminTwoFAPolicyBatchSize_def)
    qed
  qed
qed

text \<open>So the walk ends, counts every user, and changes the flag of every user and nothing else.\<close>

lemma walk_all:
  assumes "user_store_ok (w_users w)" "has_AdminUserStore (e_caps (ae_env v))"
    and "int (stored_users w) \<le> max_int64 - 100"
  shows "two_factor_walk v r 0 0 w = (Returns (Some (int (stored_users w))),
    w\<lparr>w_users := (w_users w)\<lparr>us_byID := fmmap (\<lambda>u. u\<lparr>u_Require2FA := r\<rparr>) (us_byID (w_users w))\<rparr>\<rparr>)"
proof -
  let ?s = "w_users w" and ?L = "listed_users [] (w_users w)"
  have n: "length ?L = stored_users w" by (simp add: listed_users_def stored_users_def length_range_values)
  have "fmmap (flagged r (u_ID ` set ?L)) (us_byID ?s) = fmmap (\<lambda>u. u\<lparr>u_Require2FA := r\<rparr>) (us_byID ?s)"
  proof (rule fmap_ext)
    fix k
    have "u_ID u \<in> u_ID ` set ?L" if "fmlookup (us_byID ?s) k = Some u" for u
    proof -
      have "u \<in> set ?L" using that by (auto simp: listed_users_def)
      then show ?thesis by (rule imageI)
    qed
    then show "fmlookup (fmmap (flagged r (u_ID ` set ?L)) (us_byID ?s)) k =
        fmlookup (fmmap (\<lambda>u. u\<lparr>u_Require2FA := r\<rparr>) (us_byID ?s)) k"
      by (cases "fmlookup (us_byID ?s) k") (simp_all add: flagged_def)
  qed
  then have "with_flags r (u_ID ` set ?L) ?s = ?s\<lparr>us_byID := fmmap (\<lambda>u. u\<lparr>u_Require2FA := r\<rparr>) (us_byID ?s)\<rparr>"
    by (simp add: with_flags_def)
  then show ?thesis
    using walk_from[OF assms(1,2), of 0 r w] assms(3) n by (simp add: with_flags_none)
qed

section \<open>Nothing happens behind the guard without it\<close>

text \<open>Answers that show nothing of the stores.\<close>

fun public_answer :: "admin_answer \<Rightarrow> bool" where
  "public_answer (AdminFailed _ _) = True"
| "public_answer (AdminRedirected _) = True"
| "public_answer (AdminCookie _) = True"
| "public_answer (AdminShell _) = True"
| "public_answer (AdminAsset _) = True"
| "public_answer AdminSpec = True"
| "public_answer AdminDocsPage = True"
| "public_answer AdminNotFound = True"
| "public_answer _ = False"

definition admin_quiet :: "admin_world \<Rightarrow> admin_answer \<times> admin_world \<Rightarrow> bool" where
  "admin_quiet w r \<longleftrightarrow> public_answer (fst r) \<and> (\<exists>s. snd r = w\<lparr>aw_service := s\<rparr> \<and> only_ticks (aw_service w) s)"

definition admin_granted :: "admin_env \<Rightarrow> tools_request \<Rightarrow> admin_world \<Rightarrow> bool" where
  "admin_granted v rq w \<longleftrightarrow> (\<exists>u. fst (authorise (ae_env v) (ae_cfg v) (AdminGuard (ae_env v) (ae_cfg v)) rq
     (aw_service w)) = AdminGranted u)"

text \<open>A rate limiter refuses on its own, or passes the request on.\<close>

definition limiter_ok :: "(admin_handler \<Rightarrow> admin_handler) option \<Rightarrow> bool" where
  "limiter_ok limiter \<longleftrightarrow> (\<forall>f. limiter = Some f \<longrightarrow>
     (\<forall>h rq w. f h rq w = h rq w \<or> public_answer (fst (f h rq w)) \<and> snd (f h rq w) = w))"

lemma quiet_same: "public_answer a \<Longrightarrow> admin_quiet w (a, w)"
  unfolding admin_quiet_def by (rule conjI, simp, rule exI[of _ "aw_service w"]) simp

lemma quiet_ticks: "public_answer a \<Longrightarrow> only_ticks (aw_service w) s \<Longrightarrow> admin_quiet w (a, w\<lparr>aw_service := s\<rparr>)"
  by (auto simp: admin_quiet_def)

lemma Protect_quiet:
  "admin_quiet w (Protect v (AdminGuard (ae_env v) (ae_cfg v)) next' rq w) \<or> admin_granted v rq w"
proof -
  obtain out s where a: "authorise (ae_env v) (ae_cfg v) (AdminGuard (ae_env v) (ae_cfg v)) rq (aw_service w) = (out, s)"
    by (cases "authorise (ae_env v) (ae_cfg v) (AdminGuard (ae_env v) (ae_cfg v)) rq (aw_service w)")
  note q = quiet_ticks[OF _ authorise_world[OF a]]
  show ?thesis using a authorise_no_panic by (cases out) (simp_all add: Protect_def admin_granted_def q)
qed

lemma shell_quiet: "admin_quiet w (shellHandler v (AdminGuard (ae_env v) (ae_cfg v)) rq w)"
proof -
  obtain out s where a: "authorise (ae_env v) (ae_cfg v) (AdminGuard (ae_env v) (ae_cfg v)) rq (aw_service w) = (out, s)"
    by (cases "authorise (ae_env v) (ae_cfg v) (AdminGuard (ae_env v) (ae_cfg v)) rq (aw_service w)")
  note q = quiet_ticks[OF _ authorise_world[OF a]]
  show ?thesis using a authorise_no_panic by (cases out) (simp_all add: shellHandler_def ProtectShell_def q quiet_same)
qed

lemma mint_world: "adminLogin v num cfg g rq w = (r, w') \<Longrightarrow> only_ticks w w'"
  by (auto simp: adminLogin_def split: prod.splits if_splits option.splits)

lemma login_route_quiet: "admin_quiet w (admin_login_route v g rq w)"
proof -
  obtain r s where l: "adminLogin (ae_env v) (tc_number (ae_libs v)) (ae_cfg v) g rq (aw_service w) = (r, s)"
    by (cases "adminLogin (ae_env v) (tc_number (ae_libs v)) (ae_cfg v) g rq (aw_service w)")
  note q = quiet_ticks[OF _ mint_world[OF l]]
  show ?thesis
    by (cases r) (auto simp: admin_login_route_def login_answer_def l q quiet_same)
qed

lemma guarded_quiet:
  assumes "limiter_ok limiter" "guarded_route v (AdminGuard (ae_env v) (ae_cfg v)) limiter rq w = Some route"
  shows "admin_quiet w (route rq w) \<or> admin_granted v rq w"
proof -
  let ?g = "AdminGuard (ae_env v) (ae_cfg v)"
  have "\<exists>h. route = Protect v ?g h \<or> (\<exists>f. limiter = Some f \<and> route = f (Protect v ?g h))"
    using assms(2) unfolding guarded_route_def Let_def by (fastforce split: prod.splits if_splits option.splits)
  then obtain h where "route = Protect v ?g h \<or> (\<exists>f. limiter = Some f \<and> route = f (Protect v ?g h))" by blast
  then have "route rq w = Protect v ?g h rq w \<or> public_answer (fst (route rq w)) \<and> snd (route rq w) = w"
    using assms(1) unfolding limiter_ok_def by blast
  moreover have "public_answer (fst (route rq w)) \<and> snd (route rq w) = w \<Longrightarrow> admin_quiet w (route rq w)"
    using quiet_same[of "fst (route rq w)" w] by (cases "route rq w") simp
  ultimately show ?thesis using Protect_quiet[of w v h rq] by metis
qed

lemma handler_guarded:
  assumes "limiter_ok limiter"
  shows "admin_quiet w (AdminHandler v limiter rq w) \<or> admin_granted v rq w"
proof (cases "guarded_route v (AdminGuard (ae_env v) (ae_cfg v)) limiter rq w")
  case None
  then show ?thesis by (simp add: AdminHandler_def Let_def shell_quiet login_route_quiet quiet_same)
next
  case (Some route)
  then show ?thesis using guarded_quiet[OF assms Some]
    by (simp add: AdminHandler_def Let_def shell_quiet login_route_quiet quiet_same)
qed

section \<open>Who is the first user\<close>

text \<open>The least id: a user registered later takes the console once his random id is smaller.\<close>

lemma evaluate_first:
  assumes "has_AdminUserStore (e_caps v)"
  shows "evaluate v AdminFirstUser u w =
    ((listed_users [] (w_users w) \<noteq> [] \<and> u_ID (hd (listed_users [] (w_users w))) = u_ID u, Returns False), w)"
proof -
  have "ListUsers [] 1 0 (w_users w) = Returns (take 1 (listed_users [] (w_users w)))"
    by (simp add: ListUsers_def listed_users_def page_first)
  then show ?thesis using assms
    by (cases "listed_users [] (w_users w)")
      (simp_all add: evaluate_def AdminFirstUser_def ListUsers_service_def if_supported_def users_get_def)
qed

lemma first_user_least:
  assumes ok: "user_store_ok (w_users w)" and has: "has_AdminUserStore (e_caps v)"
    and u: "user_at (w_users w) (u_ID u) = Some u"
  shows "fst (fst (evaluate v AdminFirstUser u w)) \<longleftrightarrow> (\<forall>i x. user_at (w_users w) i = Some x \<longrightarrow> u_ID u \<le> i)"
proof -
  let ?L = "listed_users [] (w_users w)"
  have k: "keyed u_ID (us_byID (w_users w))" using ok by (simp add: user_store_ok_def)
  have L: "?L = range_values (us_byID (w_users w))" using listed_users_filter[OF ok, of "[]"] by simp
  have "map u_ID ?L = range_keys (us_byID (w_users w))" by (simp add: L keyed_map_key[OF k])
  then have s: "sorted (map u_ID ?L)" by simp
  have mem: "x \<in> set ?L \<longleftrightarrow> user_at (w_users w) (u_ID x) = Some x" for x
    using keyedD[OF k] by (auto simp: L user_at_def)
  then have "u \<in> set ?L" using u by blast
  then obtain y ys where y: "?L = y # ys" by (cases ?L) auto
  then have least: "\<forall>x\<in>set ?L. u_ID y \<le> u_ID x" using s by auto
  have "y \<in> set ?L" by (simp add: y)
  then have at: "user_at (w_users w) (u_ID y) = Some y" using mem by blast
  have each: "u_ID y \<le> i" if "user_at (w_users w) i = Some x" for i x
  proof -
    have "u_ID x = i" using keyedD[OF k] that by (simp add: user_at_def)
    then show ?thesis using least mem[of x] that by auto
  qed
  have "u_ID u \<in> u_ID ` set ?L" using \<open>u \<in> set ?L\<close> by simp
  then have "u_ID y \<le> u_ID u" using least by auto
  then have "u_ID y = u_ID u \<longleftrightarrow> (\<forall>i x. user_at (w_users w) i = Some x \<longrightarrow> u_ID u \<le> i)"
    using at each by (metis order_antisym)
  then show ?thesis by (simp add: evaluate_first[OF has] y)
qed

lemma later_user_is_first:
  assumes ok: "user_store_ok (w_users w)" and has: "has_AdminUserStore (e_caps v)"
    and u: "user_at (w_users w) (u_ID u) = Some u" "fst (fst (evaluate v AdminFirstUser u w))"
    and new: "CreateUser later (w_users w) = (Ok later, s)" "u_ID later < u_ID u"
  shows "fst (fst (evaluate v AdminFirstUser later (w\<lparr>w_users := s\<rparr>)))"
    and "\<not> fst (fst (evaluate v AdminFirstUser u (w\<lparr>w_users := s\<rparr>)))"
proof -
  let ?w = "w\<lparr>w_users := s\<rparr>"
  have s: "user_store_ok (w_users ?w)" using CreateUser_ok[OF ok, of later] new(1) by simp
  have at: "user_at s i = (if i = u_ID later then Some later else user_at (w_users w) i)" for i
    using new(1) by (auto simp: CreateUser_def Let_def user_at_def split: if_splits)
  have least: "u_ID u \<le> i" if "user_at (w_users w) i = Some x" for i x
    using first_user_least[OF ok has u(1)] u(2) that by blast
  have "u_ID later \<le> i" if "user_at s i = Some x" for i x
    using that least new(2) by (auto simp: at split: if_splits intro: less_imp_le less_le_trans)
  then show "fst (fst (evaluate v AdminFirstUser later ?w))"
    using first_user_least[OF s has, of later] by (simp add: at)
  show "\<not> fst (fst (evaluate v AdminFirstUser u ?w))"
    using first_user_least[OF s has, of u] u(1) new(2) at[of "u_ID later"] at[of "u_ID u"]
    by (auto simp: not_le[symmetric])
qed

section \<open>No route panics\<close>

lemma slice_within:
  assumes "0 \<le> n" "is_int64 start" "limit \<le> 100" "is_int64 limit" "n \<le> max_int64 - 100"
    and "adminSliceBounds n start limit = (low, high)"
  shows "0 \<le> low \<and> low \<le> high \<and> high \<le> n"
proof -
  have w: "wrap64 (b + limit) = b + limit" if "0 \<le> b" "b \<le> n" for b
    using that assms by (intro wrap64_id) (auto simp: is_int64_def)
  define b where "b = (if start < - n then 0 else if start < 0 then start + n else if start > n then n else start)"
  have b: "0 \<le> b" "b \<le> n" using assms(1) by (auto simp: b_def)
  have "adminSliceBounds n start limit =
      (b, if b + limit < b then b else if b + limit > n then n else b + limit)"
    unfolding adminSliceBounds_def Let_def b_def[symmetric] w[OF b] ..
  then show ?thesis using b assms(6) by auto
qed

lemma query_int_fits: "is_int64 def \<Longrightarrow> is_int64 (adminQueryInt raw def)"
  by (simp add: adminQueryInt_def Let_def)

lemma page_limit_small: "page_limit rq \<le> 100"
  by (simp add: page_limit_def Let_def)

lemma page_batch_small: "fst (page_batch rq) \<le> 500"
  using page_limit_small[of rq] by (auto simp: page_batch_def)

lemma page_fits: "is_int64 (page_limit rq)" "is_int64 (page_offset rq)"
  "is_int64 (fst (page_batch rq))" "is_int64 (snd (page_batch rq))"
proof -
  show *: "is_int64 (page_limit rq)" "is_int64 (page_offset rq)"
    using query_int_fits[of 20] query_int_fits[of 0]
    by (auto simp: page_limit_def page_offset_def Let_def is_int64_def)
  then show "is_int64 (fst (page_batch rq))" "is_int64 (snd (page_batch rq))"
    by (auto simp: page_batch_def is_int64_def)
qed

text \<open>A filtered listing cuts its page out of at most 500 rows, so the bounds cannot wrap and lie inside.\<close>

lemma map_outcome_panics [simp]: "map_outcome f r = Panics \<longleftrightarrow> r = Panics"
  by (cases r) simp_all

lemma filtered_page_returns:
  assumes "page_filter rq \<noteq> [] \<Longrightarrow> length rows \<le> 500"
  shows "filtered_page rq matches rows \<noteq> Panics"
proof (cases "page_filter rq = []")
  case False
  have n: "int (length (filter matches rows)) \<le> 500" using assms[OF False] length_filter_le[of matches rows] by linarith
  obtain low high where b: "adminSliceBounds (int (length (filter matches rows))) (page_offset rq) (page_limit rq) = (low, high)"
    by fastforce
  show ?thesis
    using slice_within[OF _ page_fits(2) page_limit_small page_fits(1) _ b] n False
    by (simp add: filtered_page_def Let_def b go_slice_panics)
qed (simp add: filtered_page_def)

text \<open>A listing answers at most what it was asked for.\<close>

lemma listed_fits:
  assumes "int (length items) \<le> max_int64"
  shows "\<exists>xs. pageOf items (fst (page_batch rq)) (snd (page_batch rq)) = Returns xs \<and>
    (page_filter rq \<noteq> [] \<longrightarrow> length xs \<le> 500)"
  using pageOf_take_drop[OF page_fits(3,4) assms] by (simp add: page_batch_def)

lemma key_ListAll_returns:
  assumes "limit \<le> 500" "int (card (fmdom' (ks_byID s))) \<le> max_int64 - 500"
  shows "\<exists>xs. key_ListAll limit offset s = Returns xs \<and> length xs \<le> 500"
proof -
  let ?o = "if offset < 0 then 0 else offset" and ?l = "if limit < 0 then 0 else limit"
  let ?n = "int (length (key_snapshot (\<lambda>_. True) s))"
  show ?thesis
  proof (cases "?o < ?n")
    case True
    have "?o + ?l \<le> max_int64" using True assms by (auto simp: length_key_snapshot)
    then have "key_ListAll ?l ?o s = Returns (take (nat ?l) (drop (nat ?o) (key_snapshot (\<lambda>_. True) s)))"
      by (intro key_ListAll_page) auto
    moreover have "key_ListAll ?l ?o s = key_ListAll limit offset s" by (simp add: key_ListAll_def Let_def)
    ultimately show ?thesis using assms(1) by auto
  qed (auto simp: key_ListAll_def Let_def)
qed

lemma ListWebhooks_returns:
  assumes "limit \<le> 100" "int (length (ws_order s)) \<le> max_int64 - 100"
  shows "ListWebhooks limit offset s \<noteq> Panics"
proof (cases "limit \<le> 0 \<or> offset \<ge> int (length (ws_order s))")
  case False
  define b where "b = (if offset < 0 then 0 else offset)"
  have b: "0 \<le> b" "b \<le> int (length (ws_order s))" using False by (auto simp: b_def)
  then have "wrap64 (b + limit) = b + limit" using False assms by (intro wrap64_id) (auto simp: is_int64_def)
  then show ?thesis using False b
    unfolding ListWebhooks_def Let_def b_def[symmetric] by (auto simp: go_slice_panics)
qed (simp add: ListWebhooks_def)

text \<open>The walk of the two-factor policy asks for its pages from an offset inside the list.\<close>

lemma walk_no_panic:
  "0 \<le> offset \<Longrightarrow> int (stored_users w) \<le> max_int64 - 100 \<Longrightarrow> fst (two_factor_walk v r offset n w) \<noteq> Panics"
proof (induction v r offset n w rule: two_factor_walk.induct)
  case (1 v r offset n w)
  have len: "int (length (listed_users [] (w_users w))) = int (stored_users w)"
    by (simp add: listed_users_def stored_users_def length_range_values)
  have page: "ListUsers [] 100 offset (w_users w) \<noteq> Panics"
  proof (cases "offset \<ge> int (length (listed_users [] (w_users w)))")
    case True
    then show ?thesis unfolding ListUsers_def listed_users_def[symmetric] by (simp add: pageOf_def)
  next
    case False
    then show ?thesis using "1.prems" len
      by (subst user_lister.page_take_drop) (auto simp: is_int64_def)
  qed
  obtain r1 w1 where l: "ListUsers_service (ae_env v) [] adminTwoFAPolicyBatchSize offset w = (r1, w1)" by fastforce
  show ?case
  proof (cases r1)
    case (Inl e)
    then show ?thesis by (subst two_factor_walk.simps) (simp add: l)
  next
    case (Inr out)
    have s: "w1 = w" "out \<noteq> Panics" using listing_state l Inr page by (auto simp: adminTwoFAPolicyBatchSize_def)
    then obtain batch where b: "out = Returns batch" by (cases out) auto
    obtain r2 w2 where u: "update_page r batch w = (r2, w2)" by fastforce
    have "int (stored_users w2) \<le> max_int64 - 100" using update_page_count[of r batch w] u "1.prems" by simp
    then show ?thesis
      using "1.IH"[OF l[symmetric] Inr b _ , of r2 w2] "1.prems"(1) s u b l Inr
      by (subst two_factor_walk.simps) (auto simp: adminTwoFAPolicyBatchSize_def split: sum.split)
  qed
qed

text \<open>Stores far below the largest integer.\<close>

definition admin_sizes :: "admin_world \<Rightarrow> bool" where
  "admin_sizes w \<longleftrightarrow> (\<forall>s. aw_keys w = Some s \<longrightarrow> int (card (fmdom' (ks_byID s))) \<le> max_int64 - 500) \<and>
     (\<forall>s. aw_webhooks w = Some s \<longrightarrow> int (length (ws_order s)) \<le> max_int64 - 100) \<and>
     int (stored_users (aw_service w)) \<le> max_int64 - 100 \<and>
     int (card (fmdom' (ss_byID (w_sessions (aw_service w))))) \<le> max_int64"

lemma admin_sizes_ticks: "only_ticks (aw_service w) s \<Longrightarrow> admin_sizes (w\<lparr>aw_service := s\<rparr>) = admin_sizes w"
  by (auto simp: admin_sizes_def only_ticks_def stored_users_def)

lemma answering_no_panic [simp]: "fst (answering r) \<noteq> AdminPanics"
  by (auto simp: answering_def split: prod.splits sum.splits)

lemma Protect_no_panic:
  assumes "\<And>s. only_ticks (aw_service w) s \<Longrightarrow> fst (h rq (w\<lparr>aw_service := s\<rparr>)) \<noteq> AdminPanics"
  shows "fst (Protect v g h rq w) \<noteq> AdminPanics"
proof -
  obtain out s where a: "authorise (ae_env v) (ae_cfg v) g rq (aw_service w) = (out, s)" by fastforce
  show ?thesis using assms[OF authorise_world[OF a]] a authorise_no_panic by (cases out) (simp_all add: Protect_def)
qed

lemma users_no_panic:
  assumes "admin_sizes w"
  shows "fst (adminListUsers v rq w) \<noteq> AdminPanics"
proof -
  let ?s = "w_users (aw_service w)"
  have "length (listed_users [] ?s) = stored_users (aw_service w)"
    by (simp add: listed_users_def stored_users_def length_range_values)
  then obtain xs where xs: "ListUsers [] (fst (page_batch rq)) (snd (page_batch rq)) ?s = Returns xs"
      "page_filter rq \<noteq> [] \<longrightarrow> length xs \<le> 500"
    using listed_fits[of "listed_users [] ?s" rq] assms by (auto simp: ListUsers_def listed_users_def admin_sizes_def)
  have "filtered_page rq m (map newAdminUserRow xs) \<noteq> Panics" for m
    using xs(2) by (intro filtered_page_returns) simp
  then show ?thesis
    by (auto simp: adminListUsers_def Admin_Read.on_service_def ListUsers_service_def if_supported_def users_get_def failWith_def xs(1)
        split: outcome.splits)
qed

lemma sessions_no_panic:
  assumes "admin_sizes w"
  shows "fst (adminListSessions v rq w) \<noteq> AdminPanics"
proof -
  let ?s = "w_sessions (aw_service w)"
  have "length (all_sessions ?s) = card (fmdom' (ss_byID ?s))" by (simp add: all_sessions_def length_range_values)
  then obtain xs where xs: "GetAllSessions (fst (page_batch rq)) (snd (page_batch rq)) ?s = Returns xs"
      "page_filter rq \<noteq> [] \<longrightarrow> length xs \<le> 500"
    using listed_fits[of "all_sessions ?s" rq] assms by (auto simp: GetAllSessions_def all_sessions_def admin_sizes_def)
  have "filtered_page rq m (NewPublicSessions xs) \<noteq> Panics" for m
    using xs(2) by (intro filtered_page_returns) (simp add: NewPublicSessions_def)
  then show ?thesis
    by (auto simp: adminListSessions_def Admin_Read.on_service_def ListAllSessions_def if_supported_def sessions_get_def failWith_def xs(1)
        split: outcome.splits)
qed

lemma read_no_panic:
  assumes "adminReadRegistered w route" "admin_sizes w"
  shows "fst (serveAdminRead v route i rq w) \<noteq> AdminPanics"
proof -
  have t: "aw_templates w \<noteq> None" if "route = adminRouteMailTemplates \<or> route = adminRouteUITemplates"
    using assms(1) that by (auto simp: adminReadRegistered_def)
  have "fst (adminListUsers v rq w) \<noteq> AdminPanics" "fst (adminListSessions v rq w) \<noteq> AdminPanics"
    "fst (adminListRoles v rq w) \<noteq> AdminPanics"
    using users_no_panic[OF assms(2)] sessions_no_panic[OF assms(2)]
    by (auto simp: adminListRoles_def split: prod.splits sum.splits option.splits)
  moreover have "fst (adminGetUser i rq w) \<noteq> AdminPanics" "fst (adminGetUserMetadata i rq w) \<noteq> AdminPanics"
    "fst (adminGetUserLinkedAccounts i rq w) \<noteq> AdminPanics" "fst (adminGetUserRoles i rq w) \<noteq> AdminPanics"
    "fst (adminGetUserTenants i rq w) \<noteq> AdminPanics" "fst (adminListActions rq w) \<noteq> AdminPanics"
    "fst (adminGetSettings rq w) \<noteq> AdminPanics" "fst (adminListTenants rq w) \<noteq> AdminPanics"
    "fst (adminListTenantUsers i rq w) \<noteq> AdminPanics"
    by (auto simp: adminGetUser_def adminGetUserMetadata_def adminGetUserLinkedAccounts_def adminGetUserRoles_def
        adminGetUserTenants_def adminListActions_def adminGetSettings_def adminListTenants_def adminListTenantUsers_def
        split: option.splits sum.splits)
  ultimately show ?thesis using t
    by (cases route) (auto simp: serveAdminRead_def adminListMailTemplates_def adminListUITranslations_def)
qed

lemma write_no_panic:
  assumes "adminWriteRegistered w route" "admin_sizes w"
  shows "fst (serveAdminWrite v route i sub rq w) \<noteq> AdminPanics"
proof -
  have t: "aw_templates w \<noteq> None" if "route = adminWriteMailTemplate \<or> route = adminWriteUITemplate"
    using assms(1) that by (auto simp: adminWriteRegistered_def)
  have "fst (adminDeleteUser v i rq w) \<noteq> AdminPanics" "fst (adminUpdateUserMetadata v i rq w) \<noteq> AdminPanics"
    "fst (adminRevokeSession v i rq w) \<noteq> AdminPanics" "fst (adminDeleteRole i rq w) \<noteq> AdminPanics"
    "fst (adminDeleteTenant i rq w) \<noteq> AdminPanics" "fst (adminRemoveTenantUser i sub rq w) \<noteq> AdminPanics"
    by (auto simp: adminDeleteUser_def adminUpdateUserMetadata_def adminRevokeSession_def adminDeleteRole_def
        adminDeleteTenant_def adminRemoveTenantUser_def split: sum.splits)
  moreover have "fst (adminSetTwoFAPolicy v rq w) \<noteq> AdminPanics"
  proof -
    have "fst (two_factor_walk v r 0 0 (aw_service w)) \<noteq> Panics" for r
      using assms(2) by (intro walk_no_panic) (simp_all add: admin_sizes_def)
    then show ?thesis
      by (auto simp: adminSetTwoFAPolicy_def split: json.splits prod.splits outcome.splits option.splits) (metis fst_conv)+
  qed
  moreover have "fst (adminAddUserRole v i rq w) \<noteq> AdminPanics" "fst (adminRemoveUserRole v i sub rq w) \<noteq> AdminPanics"
    by (auto simp: adminAddUserRole_def adminRemoveUserRole_def Let_def split: sum.splits prod.splits option.splits)
  moreover have "fst (adminUpdateSettings rq w) \<noteq> AdminPanics" "fst (adminPatchSettingsUI rq w) \<noteq> AdminPanics"
    "fst (adminCreateRole rq w) \<noteq> AdminPanics" "fst (adminAddTenantUser i rq w) \<noteq> AdminPanics"
    by (auto simp: adminUpdateSettings_def adminPatchSettingsUI_def adminCreateRole_def adminAddTenantUser_def Let_def
        split: option.splits sum.splits)
  moreover have "fst (adminCreateTenant v rq w) \<noteq> AdminPanics"
    by (auto simp: adminCreateTenant_def Let_def split: sum.splits prod.splits)
  ultimately show ?thesis using t
    by (cases route) (auto simp: serveAdminWrite_def adminUpdateMailTemplate_def adminUpdateUITranslations_def Let_def)
qed

lemma credential_no_panic:
  assumes "admin_sizes w"
  shows "fst (serveAdminCredential v route i rq w) \<noteq> AdminPanics"
proof -
  have "fst (adminListAPIKeys v rq w) \<noteq> AdminPanics"
  proof (cases "aw_keys w")
    case (Some s)
    obtain ks where ks: "key_ListAll (fst (page_batch rq)) (snd (page_batch rq)) s = Returns ks" "length ks \<le> 500"
      using assms Some key_ListAll_returns[OF page_batch_small, of s rq] by (auto simp: admin_sizes_def)
    have "filtered_page rq m (map newAdminAPIKeyRow ks) \<noteq> Panics" for m
      using ks(2) by (intro filtered_page_returns) simp
    then show ?thesis by (auto simp: adminListAPIKeys_def Some ks(1) split: outcome.splits)
  qed (simp add: adminListAPIKeys_def)
  moreover have "fst (adminListWebhooks v rq w) \<noteq> AdminPanics"
    using assms ListWebhooks_returns[OF page_limit_small]
    by (auto simp: adminListWebhooks_def admin_sizes_def split: option.splits outcome.splits)
  moreover have "fst (adminCreateAPIKey v rq w) \<noteq> AdminPanics" "fst (adminCreateWebhook v rq w) \<noteq> AdminPanics"
    by (auto simp: adminCreateAPIKey_def adminCreateWebhook_def Let_def split: option.splits sum.splits prod.splits)
  ultimately show ?thesis
    by (cases route) (auto simp: serveAdminCredential_def adminRevokeAPIKey_def adminDeleteAPIKey_def
        adminUpdateWebhook_def adminDeleteWebhook_def split: option.splits)
qed

lemma upload_no_panic:
  assumes "aw_uploads w \<noteq> None"
  shows "fst (serveAdminUpload v route name rq w) \<noteq> AdminPanics"
proof -
  obtain s where s: "aw_uploads w = Some s" using assms by blast
  let ?k = "w_tick (aw_service w)"
  obtain r s' where f: "adminUploadFile (e_clock (ae_env v) ?k) (e_wall (ae_env v) (Suc ?k)) (ae_part v rq) s = (r, s')"
    by (cases "adminUploadFile (e_clock (ae_env v) ?k) (e_wall (ae_env v) (Suc ?k)) (ae_part v rq) s")
  obtain r2 s2 where d: "adminDeleteUpload name s = (r2, s2)" by (cases "adminDeleteUpload name s")
  show ?thesis
    by (cases r; cases r2) (auto simp: serveAdminUpload_def Let_def s f d)
qed

lemma promote_no_panic: "fst (adminPromoteUser v i rq w) \<noteq> AdminPanics"
  by (auto simp: adminPromoteUser_def Let_def split: sum.splits prod.splits)

lemma guarded_no_panic:
  assumes l: "limiter_ok limiter" and w: "admin_sizes w" and r: "guarded_route v g limiter rq w = Some route"
  shows "fst (route rq w) \<noteq> AdminPanics"
proof -
  have reg: "adminReadRegistered (w\<lparr>aw_service := s\<rparr>) = adminReadRegistered w"
    "adminWriteRegistered (w\<lparr>aw_service := s\<rparr>) = adminWriteRegistered w" for s
    by (simp_all add: fun_eq_iff adminReadRegistered_def adminWriteRegistered_def)
  have prom: "fst ((case limiter of None \<Rightarrow> id | Some f \<Rightarrow> f) (Protect v g (adminPromoteUser v i)) rq w) \<noteq> AdminPanics" for i
  proof (cases limiter)
    case None
    then show ?thesis by (simp add: Protect_no_panic promote_no_panic)
  next
    case (Some f)
    then have "f (Protect v g (adminPromoteUser v i)) rq w = Protect v g (adminPromoteUser v i) rq w \<or>
        public_answer (fst (f (Protect v g (adminPromoteUser v i)) rq w))" using l by (auto simp: limiter_ok_def)
    moreover have "fst (Protect v g (adminPromoteUser v i) rq w) \<noteq> AdminPanics"
      by (simp add: Protect_no_panic promote_no_panic)
    ultimately show ?thesis using Some by auto
  qed
  have "adminReadRegistered w rt \<Longrightarrow> fst (Protect v g (serveAdminRead v rt i) rq w) \<noteq> AdminPanics"
    "adminWriteRegistered w wt \<Longrightarrow> fst (Protect v g (serveAdminWrite v wt i sub) rq w) \<noteq> AdminPanics"
    "fst (Protect v g (serveAdminCredential v ct i) rq w) \<noteq> AdminPanics"
    "aw_uploads w \<noteq> None \<Longrightarrow> fst (Protect v g (serveAdminUpload v ut i) rq w) \<noteq> AdminPanics"
    "fst (Protect v g (adminPromoteUser v i) rq w) \<noteq> AdminPanics" for rt wt ct ut i sub
    by (rule Protect_no_panic; (rule read_no_panic write_no_panic credential_no_panic upload_no_panic promote_no_panic)?;
        simp add: reg w admin_sizes_ticks)+
  moreover have "fst (Protect v g (\<lambda>rq w. (AdminPing (adminFeatures v w), w)) rq w) \<noteq> AdminPanics"
    by (rule Protect_no_panic) simp
  ultimately show ?thesis using r prom unfolding guarded_route_def Let_def
    by (auto split: prod.splits if_splits option.splits simp: adminUploadRegistered_def)
qed

lemma handler_no_panic:
  assumes "limiter_ok limiter" "admin_sizes w"
  shows "fst (AdminHandler v limiter rq w) \<noteq> AdminPanics"
proof -
  have public: "admin_quiet w r \<Longrightarrow> fst r \<noteq> AdminPanics" for r by (auto simp: admin_quiet_def)
  show ?thesis
    using guarded_no_panic[OF assms, of v "AdminGuard (ae_env v) (ae_cfg v)" rq]
      public[OF shell_quiet[of w v rq]] public[OF login_route_quiet[of w v "AdminGuard (ae_env v) (ae_cfg v)" rq]]
    by (auto simp: AdminHandler_def Let_def split: option.splits)
qed

section \<open>A setting of the wrong type\<close>

text \<open>The decoder's error is dropped after it allocated the pointer: a string where a boolean belongs stores false.\<close>

lemma mistyped_member:
  assumes "field_values settings_names ''require2FA'' kvs = [JStr x]"
  shows "as_Require2FA (decode_settings kvs) = Some False"
  unfolding decode_settings_def AuthSettings.simps body_value_def assms
  by (simp add: leniently_def decode_allocated_def decode_bool_def)

lemma merged_require: "as_Require2FA (MergeSettings s p) = keep_or (as_Require2FA s) (as_Require2FA p)"
  by (simp add: MergeSettings_def Let_def)

lemma mistyped_setting:
  assumes "aw_settings w = Some s" "field_values settings_names ''require2FA'' (body_members (tq_Body rq)) = [JStr x]"
  shows "\<exists>s'. adminUpdateSettings rq w = (AdminSuccess, w\<lparr>aw_settings := Some s'\<rparr>) \<and>
    as_Require2FA (GetSettings s') = Some False"
proof -
  let ?s = "MergeSettings s (decode_settings (body_members (tq_Body rq)))"
  have "as_Require2FA ?s = Some False" unfolding merged_require mistyped_member[OF assms(2)] by (simp add: keep_or_def)
  then show ?thesis unfolding adminUpdateSettings_def assms(1) option.case UpdateSettings_def Let_def snd_conv GetSettings_def
    by blast
qed

end
