(* ===== verification/Admin_Entry.thy ===== *)
theory Admin_Entry
  imports Admin_Laws Http_Service
begin

text \<open>
  The console's token and its cookie: what the login signs is what the guard reads, through the map and the JSON in
  between, and the request that carries the cookie is judged by the claims of the login.
\<close>

section \<open>The console's token\<close>

lemma members_parse:
  assumes "kvs \<noteq> []" "\<forall>(k, v)\<in>set kvs. clean v \<and> valid_utf8 k \<and> depth v < max_nesting"
  shows "json_parse (''{'' @ print_members kvs @ ''}'') = Some (JObj kvs)"
proof -
  let ?s = "''{'' @ print_members kvs @ ''}''"
  let ?n = "2 * length ?s + 1"
  have all: "\<forall>(k, v)\<in>set kvs. parses v \<and> clean v \<and> valid_utf8 k"
    using assms(2) by (auto intro: parse_print_step)
  have "parse_members ?n 1 (print_members kvs @ CHR ''}'' # []) = Some (kvs, [])"
    using assms(2) by (intro parse_members_print[OF assms(1) all]) auto
  moreover obtain t where "print_members kvs = CHR 0x22 # t"
    using assms(1) by (cases kvs rule: remdups_adj.cases) (auto simp: print_members_Cons)
  ultimately have "parse_value (Suc ?n) 0 ?s = Some (JObj kvs, [])"
    by (simp add: json_space_def max_nesting_def)
  then show ?thesis by (simp add: json_parse_def)
qed

lemma field_values_fmap:
  assumes "fmpred (\<lambda>k _. k \<in> set names) m" "f \<in> set names"
  shows "field_values names f (sorted_list_of_fmap m) = (case fmlookup m f of None \<Rightarrow> [] | Some x \<Rightarrow> [x])"
proof -
  have "filter (\<lambda>kv. struct_field names (fst kv) = Some f) (sorted_list_of_fmap m)
      = filter (\<lambda>kv. fst kv = f) (sorted_list_of_fmap m)"
  proof (rule filter_cong)
    fix kv assume "kv \<in> set (sorted_list_of_fmap m)"
    moreover obtain k x where "kv = (k, x)" by (cases kv)
    ultimately have "fmlookup m (fst kv) = Some (snd kv)" by simp
    then have "fst kv \<in> set names" using fmpredD[OF assms(1)] by blast
    then show "struct_field names (fst kv) = Some f \<longleftrightarrow> fst kv = f" by (simp add: struct_field_def)
  qed simp
  then show ?thesis
    using distinct_range_keys[of m]
    by (simp add: field_values_def filter_key range_keys_def map_of_sorted_fmap)
qed

lemma signed_built:
  assumes "printable m"
  shows "signed_admin_claims c secret (buildHS256JWT c m secret) = decode_admin_claims (sorted_list_of_fmap m)"
proof -
  have "splitToken (buildHS256JWT c m secret) =
      Ok (base64url_encode jwt_header, base64url_encode (json_print (json_of_object m)),
        sign c (base64url_encode jwt_header @ ''.'' @ base64url_encode (json_print (json_of_object m))) secret)"
    using splitToken_parts[OF base64url_no_dot base64url_no_dot, of _ jwt_header]
    by (simp add: buildHS256JWT_def Let_def sign_def base64url_no_dot)
  then show ?thesis
    using header_parses printable_round_trip[OF assms]
    by (simp add: signed_admin_claims_def base64url_round_trip object_members_def)
qed

text \<open>A number survives the float it is read as.\<close>

definition number_kept :: "(string \<Rightarrow> string option) \<Rightarrow> int \<Rightarrow> bool" where
  "number_kept num z \<longleftrightarrow> num (decimal z) = Some (decimal z)"

definition claims_printable :: "adminClaims \<Rightarrow> bool" where
  "claims_printable claims \<longleftrightarrow> valid_utf8 (dc_Sub claims) \<and> valid_utf8 (dc_Email claims) \<and> valid_utf8 (dc_Tid claims) \<and>
     valid_utf8 (dc_Typ claims) \<and> valid_utf8 (dc_Iss claims)"

lemma claims_through_map:
  assumes c: "claims_printable claims" and n: "number_kept num (dc_Iat claims)" "number_kept num (dc_Exp claims)"
    and r: "is_int64 (dc_Iat claims)" "is_int64 (dc_Exp claims)"
  defines "m \<equiv> fold (\<lambda>(k, x). fmupd k x) (admin_claim_members claims) fmempty"
  shows "json_parse (marshal_admin_claims claims) = Some (JObj (admin_claim_members claims))"
    and "read_map num (JObj (admin_claim_members claims)) None = Some (Some m)"
    and "printable m" and "decode_admin_claims (sorted_list_of_fmap m) = Some claims"
proof -
  have names: "valid_utf8 ''sub''" "valid_utf8 ''email''" "valid_utf8 ''isRoot''" "valid_utf8 ''tid''" "valid_utf8 ''typ''"
    "valid_utf8 ''iss''" "valid_utf8 ''iat''" "valid_utf8 ''exp''"
    by (rule ascii_valid; simp)+
  have each: "\<forall>(k, v)\<in>set (admin_claim_members claims). clean v \<and> valid_utf8 k \<and> depth v < max_nesting"
    using c by (auto simp: admin_claim_members_def claims_printable_def decimal_literal max_nesting_def names)
  then show "json_parse (marshal_admin_claims claims) = Some (JObj (admin_claim_members claims))"
    unfolding marshal_admin_claims_def by (intro members_parse) (simp_all add: admin_claim_members_def)
  show "read_map num (JObj (admin_claim_members claims)) None = Some (Some m)"
    using n by (simp add: read_map_def admin_claim_members_def m_def number_kept_def)
  have lk: "fmlookup m k = map_of (rev (admin_claim_members claims)) k" for k
    by (simp add: m_def fold_fmupd_lookup split: option.splits)
  show "printable m" unfolding printable_def
  proof (rule fmpredI)
    fix k x assume "fmlookup m k = Some x"
    then have "(k, x) \<in> set (admin_claim_members claims)" unfolding lk by (auto dest: map_of_SomeD)
    then show "valid_utf8 k \<and> clean x \<and> depth x < max_nesting" using each by auto
  qed
  have dom: "fmpred (\<lambda>k _. k \<in> set admin_claim_names) m"
  proof (rule fmpredI)
    fix k x assume "fmlookup m k = Some x"
    then have "(k, x) \<in> set (admin_claim_members claims)" unfolding lk by (auto dest: map_of_SomeD)
    then show "k \<in> set admin_claim_names" by (auto simp: admin_claim_members_def admin_claim_names_def split: if_splits)
  qed
  have get: "fmlookup m ''sub'' = Some (JStr (dc_Sub claims))" "fmlookup m ''email'' = Some (JStr (dc_Email claims))"
    "fmlookup m ''isRoot'' = Some (JBool (dc_IsRoot claims))"
    "fmlookup m ''tid'' = (if dc_Tid claims = [] then None else Some (JStr (dc_Tid claims)))"
    "fmlookup m ''typ'' = Some (JStr (dc_Typ claims))" "fmlookup m ''iss'' = Some (JStr (dc_Iss claims))"
    "fmlookup m ''iat'' = Some (JNum (decimal (dc_Iat claims)))" "fmlookup m ''exp'' = Some (JNum (decimal (dc_Exp claims)))"
    unfolding lk by (simp_all add: admin_claim_members_def)
  have fv: "field_values admin_claim_names f (sorted_list_of_fmap m) = (case fmlookup m f of None \<Rightarrow> [] | Some x \<Rightarrow> [x])"
    if "f \<in> set admin_claim_names" for f by (rule field_values_fmap[OF dom that])
  have mem: "''sub'' \<in> set admin_claim_names" "''email'' \<in> set admin_claim_names" "''isRoot'' \<in> set admin_claim_names"
    "''tid'' \<in> set admin_claim_names" "''typ'' \<in> set admin_claim_names" "''iss'' \<in> set admin_claim_names"
    "''iat'' \<in> set admin_claim_names" "''exp'' \<in> set admin_claim_names"
    by (simp_all add: admin_claim_names_def)
  show "decode_admin_claims (sorted_list_of_fmap m) = Some claims"
    unfolding decode_admin_claims_def
    by (simp add: fv mem get decode_string_def decode_bool_def decode_int64_def parse_int64_decimal r)
qed

text \<open>What a login writes is accepted until its 24 hours and the clock skew are over.\<close>

definition minted_claims :: "env \<Rightarrow> adminClaims \<Rightarrow> time \<Rightarrow> adminClaims" where
  "minted_claims v claims now = claims\<lparr>dc_Typ := adminTokenType, dc_Iss := cf_Issuer (e_cfg v),
     dc_Iat := unix_of now, dc_Exp := unix_of (now + adminSessionTTL)\<rparr>"

definition mint_time_ok :: "(string \<Rightarrow> string option) \<Rightarrow> time \<Rightarrow> bool" where
  "mint_time_ok num now \<longleftrightarrow> plausible now \<and> plausible (now + adminSessionTTL) \<and>
     number_kept num (unix_of now) \<and> number_kept num (unix_of (now + adminSessionTTL))"

lemma mint_minted:
  assumes c: "valid_utf8 (dc_Sub claims)" "valid_utf8 (dc_Email claims)" "valid_utf8 (dc_Tid claims)"
      "valid_utf8 (cf_Issuer (e_cfg v))"
    and t: "mint_time_ok num (e_clock v k)"
  shows "\<exists>m. mintAdminToken v num g claims k = (Some (buildHS256JWT (e_crypto v) m (ag_jwtSecret g)), Suc k) \<and>
    signed_admin_claims (e_crypto v) (ag_jwtSecret g) (buildHS256JWT (e_crypto v) m (ag_jwtSecret g)) =
      Some (minted_claims v claims (e_clock v k))"
proof -
  let ?c = "minted_claims v claims (e_clock v k)"
  have p: "claims_printable ?c" using c ascii_valid[of adminTokenType]
    by (simp add: claims_printable_def minted_claims_def adminTokenType_def)
  have n: "number_kept num (dc_Iat ?c)" "number_kept num (dc_Exp ?c)" "is_int64 (dc_Iat ?c)" "is_int64 (dc_Exp ?c)"
    using t by (simp_all add: minted_claims_def mint_time_ok_def plausible_def)
  note through = claims_through_map[OF p n]
  let ?m = "fold (\<lambda>(k, x). fmupd k x) (admin_claim_members ?c) fmempty"
  have "mintAdminToken v num g claims k = (Some (buildHS256JWT (e_crypto v) ?m (ag_jwtSecret g)), Suc k)"
    using through(1,2) by (simp add: mintAdminToken_def Let_def flip: minted_claims_def)
  moreover have "signed_admin_claims (e_crypto v) (ag_jwtSecret g) (buildHS256JWT (e_crypto v) ?m (ag_jwtSecret g)) = Some ?c"
    unfolding signed_built[OF through(3)] by (rule through(4))
  ultimately show ?thesis by (intro exI[of _ ?m] conjI)
qed

lemma mint_accepted:
  assumes c: "valid_utf8 (dc_Sub claims)" "valid_utf8 (dc_Email claims)" "valid_utf8 (dc_Tid claims)"
      "valid_utf8 (cf_Issuer (e_cfg v))"
    and t: "mint_time_ok num (e_clock v k)"
    and now: "e_clock v j \<le> time_of_unix (unix_of (e_clock v k + adminSessionTTL)) + cf_ClockSkew (e_cfg v)"
  shows "\<exists>m. mintAdminToken v num g claims k = (Some (buildHS256JWT (e_crypto v) m (ag_jwtSecret g)), Suc k) \<and>
    verifyToken v g (buildHS256JWT (e_crypto v) m (ag_jwtSecret g)) j = (Some (minted_claims v claims (e_clock v k)), Suc j)"
proof -
  obtain m where m: "mintAdminToken v num g claims k = (Some (buildHS256JWT (e_crypto v) m (ag_jwtSecret g)), Suc k)"
      "signed_admin_claims (e_crypto v) (ag_jwtSecret g) (buildHS256JWT (e_crypto v) m (ag_jwtSecret g)) =
        Some (minted_claims v claims (e_clock v k))"
    using mint_minted[OF c t] by blast
  have "plausible (e_clock v k + adminSessionTTL)" using t by (simp add: mint_time_ok_def)
  then have "verifyToken v g (buildHS256JWT (e_crypto v) m (ag_jwtSecret g)) j =
      (Some (minted_claims v claims (e_clock v k)), Suc j)"
    using now unfolding verifyToken_def m(2) by (simp add: minted_claims_def unix_time_plausible)
  then show ?thesis using m(1) by blast
qed

section \<open>A login opens the console\<close>

lemma adminCookie_simps [simp]:
  "sc_Name (adminCookie cfg t age) = adminCookieName cfg" "sc_Value (adminCookie cfg t age) = t"
  by (simp_all add: adminCookie_def Let_def)

text \<open>A request that carries that cookie and no bearer token.\<close>

definition carries :: "set_cookie \<Rightarrow> tools_request \<Rightarrow> bool" where
  "carries c rq \<longleftrightarrow> rq_Cookies rq = [(sc_Name c, sc_Value c)] \<and>
     BearerToken (header_get (http_request.truncate rq) ''Authorization'') = []"

lemma carried_token:
  assumes "carries (adminCookie cfg t age) rq" "trim_space t = t" "t \<noteq> []"
  shows "admin_token g cfg (http_request.truncate rq) = t"
proof -
  have only: "request_cookie (http_request.truncate rq) n = (if n = adminCookieName cfg then Some t else None)"
    if "n \<noteq> []" for n using assms(1) that by (auto simp: carries_def request_cookie_def http_request.defs)
  have some: "pre @ AccessTokenCookieName \<noteq> []" for pre by (simp add: AccessTokenCookieName_def)
  show ?thesis
  proof (cases "ao_CookiePrefix (ax_admin cfg)")
    case None
    then have name: "adminCookieName cfg = CookieName (hc_Cookies (ax_http cfg)) AccessTokenCookieName"
      by (simp add: adminCookieName_def)
    have "CookieValue (http_request.truncate rq) AccessTokenCookieName = trim_space t"
    proof (rule CookieValue_only)
      show in': "adminCookieName cfg \<in> cookie_variants AccessTokenCookieName" unfolding name by (rule CookieName_variant)
      then have "adminCookieName cfg \<noteq> []" by (auto simp: AccessTokenCookieName_def)
      then show "request_cookie (http_request.truncate rq) (adminCookieName cfg) = Some t" by (simp add: only)
      show "trim_space t \<noteq> []" using assms by simp
      show "request_cookie (http_request.truncate rq) m = None"
        if "m \<in> cookie_variants AccessTokenCookieName" "m \<noteq> adminCookieName cfg" for m
        using that(2) only[of m] that(1) by (auto simp: AccessTokenCookieName_def)
    qed
    then show ?thesis using assms None by (simp add: admin_token_def carries_def)
  next
    case (Some pre)
    then have "adminCookieName cfg = pre @ AccessTokenCookieName" by (simp add: adminCookieName_def)
    then have "request_cookie (http_request.truncate rq) (pre @ AccessTokenCookieName) = Some t"
      using only[OF some] by simp
    then show ?thesis using assms Some by (simp add: admin_token_def carries_def)
  qed
qed

lemma login_authorises:
  assumes log: "adminLogin v num cfg (AdminGuard v cfg) rq w = (Inr c, w1)"
    and pol: "ao_AccessPolicy (ax_admin cfg) = Some p" "ap_Predicate p \<noteq> None \<or> ap_Kind p \<noteq> AdminPolicyOpen"
    and secret: "ag_jwtSecret (AdminGuard v cfg) \<noteq> []"
    and claims: "login_with v (ax_admin cfg) (w_users w) (fst (login_body (tq_Body rq))) (snd (login_body (tq_Body rq))) = Some claims"
    and utf8: "valid_utf8 (dc_Sub claims)" "valid_utf8 (dc_Email claims)" "valid_utf8 (dc_Tid claims)"
      "valid_utf8 (cf_Issuer (e_cfg v))"
    and t: "mint_time_ok num (e_clock v (w_tick w))"
    and later: "carries c rq2"
      "e_clock v (w_tick w2) \<le> time_of_unix (unix_of (e_clock v (w_tick w) + adminSessionTTL)) + cf_ClockSkew (e_cfg v)"
  shows "authorise v cfg (AdminGuard v cfg) rq2 w2 =
    admit_claims v p (minted_claims v claims (e_clock v (w_tick w))) (w2\<lparr>w_tick := Suc (w_tick w2)\<rparr>)"
proof -
  let ?g = "AdminGuard v cfg"
  obtain m where m: "mintAdminToken v num ?g claims (w_tick w) = (Some (buildHS256JWT (e_crypto v) m (ag_jwtSecret ?g)), Suc (w_tick w))"
      "verifyToken v ?g (buildHS256JWT (e_crypto v) m (ag_jwtSecret ?g)) (w_tick w2) =
        (Some (minted_claims v claims (e_clock v (w_tick w))), Suc (w_tick w2))"
    using mint_accepted[OF utf8 t later(2), of ?g] by blast
  let ?t = "buildHS256JWT (e_crypto v) m (ag_jwtSecret ?g)"
  have c: "c = adminCookie cfg ?t adminSessionTTL"
    using log claims m(1) by (auto simp: adminLogin_def split: prod.splits if_splits)
  have tok: "admin_token ?g cfg (http_request.truncate rq2) = ?t"
    using carried_token[OF later(1)[unfolded c] jwt_not_white jwt_nonempty] .
  have "readToken v ?g cfg (http_request.truncate rq2) (w_tick w2) =
      (Some (minted_claims v claims (e_clock v (w_tick w))), Suc (w_tick w2))"
    using secret m(2) by (simp add: readToken_def tok jwt_nonempty)
  moreover have "ag_policy ?g = Some p" using pol by (simp add: AdminGuard_def Let_def)
  ultimately show ?thesis using pol(2) by (auto simp: authorise_def)
qed

text \<open>The password is enough: nobody asks for the second factor that the user has or must have.\<close>

lemma password_opens_console:
  assumes pol: "ao_AccessPolicy (ax_admin cfg) = Some AdminIsAdminFlag"
    and only: "ao_RootUser (ax_admin cfg) = None" "ao_Secret (ax_admin cfg) = []"
    and secret: "ag_jwtSecret (AdminGuard v cfg) \<noteq> []"
    and body: "login_body (tq_Body rq) = (email, password)" "email \<noteq> []" "password \<noteq> []"
    and user: "GetUserByEmail email [] (w_users w) = Ok u" "u_PasswordHash u \<noteq> []" "u_ID u \<noteq> []"
      "verifyPassword (e_crypto v) password (u_PasswordHash u)"
    and utf8: "valid_utf8 (u_ID u)" "valid_utf8 (u_Email u)" "valid_utf8 (u_TenantID u)" "valid_utf8 (cf_Issuer (e_cfg v))"
    and t: "mint_time_ok num (e_clock v (w_tick w))"
  shows "\<exists>c w1. adminLogin v num cfg (AdminGuard v cfg) rq w = (Inr c, w1) \<and>
    (\<forall>rq2 w2 u2. carries c rq2 \<and>
       e_clock v (w_tick w2) \<le> time_of_unix (unix_of (e_clock v (w_tick w) + adminSessionTTL)) + cf_ClockSkew (e_cfg v) \<and>
       GetUserByID (u_ID u) (u_TenantID u) (w_users w2) = Ok u2 \<and> u_IsAdmin u2 \<longrightarrow>
       fst (authorise v cfg (AdminGuard v cfg) rq2 w2) = AdminGranted (Some u2))"
proof -
  let ?g = "AdminGuard v cfg" and ?claims = "login_claims (u_ID u) (u_Email u) False (u_TenantID u)"
  have claims: "login_with v (ax_admin cfg) (w_users w) email password = Some ?claims"
    using only body user by (simp add: login_with_def login_root_def login_secret_def login_stored_def)
  have u8: "valid_utf8 (dc_Sub ?claims)" "valid_utf8 (dc_Email ?claims)" "valid_utf8 (dc_Tid ?claims)"
    using utf8 by (simp_all add: login_claims_def)
  obtain m where "mintAdminToken v num ?g ?claims (w_tick w) = (Some (buildHS256JWT (e_crypto v) m (ag_jwtSecret ?g)), Suc (w_tick w))"
    using mint_minted[OF u8 utf8(4) t, of ?g] by blast
  then obtain c w1 where log: "adminLogin v num cfg ?g rq w = (Inr c, w1)"
    using body claims by (simp add: adminLogin_def)
  have "fst (authorise v cfg ?g rq2 w2) = AdminGranted (Some u2)"
    if h: "carries c rq2"
      "e_clock v (w_tick w2) \<le> time_of_unix (unix_of (e_clock v (w_tick w) + adminSessionTTL)) + cf_ClockSkew (e_cfg v)"
      "GetUserByID (u_ID u) (u_TenantID u) (w_users w2) = Ok u2" "u_IsAdmin u2" for rq2 w2 u2
  proof -
    have "authorise v cfg ?g rq2 w2 =
        admit_claims v AdminIsAdminFlag (minted_claims v ?claims (e_clock v (w_tick w))) (w2\<lparr>w_tick := Suc (w_tick w2)\<rparr>)"
      using body claims by (intro login_authorises[OF log pol _ secret _ u8 utf8(4) t h(1,2)])
        (simp_all add: AdminIsAdminFlag_def)
    then show ?thesis using h(3,4) user(3)
      by (simp add: fst_admit_claims minted_claims_def login_claims_def evaluate_def AdminIsAdminFlag_def)
  qed
  then show ?thesis using log by blast
qed

end
