(* ===== verification/Demo_Admin.thy ===== *)
theory Demo_Admin
  imports Admin_Entry Demo_World
begin

text \<open>A console with one administrator, who has and must have a second factor. Nothing here models code.\<close>

definition demo_options_admin :: AdminOptions where
  "demo_options_admin = \<lparr>ao_Enabled = True, ao_AccessPolicy = Some AdminIsAdminFlag, ao_Secret = [], ao_JWTSecret = [],
     ao_LoginPath = [], ao_CookiePrefix = None, ao_RootUser = None, ao_AuthAPIPrefix = [], ao_UploadBaseURL = [],
     ao_Docs_Enabled = False\<rparr>"

definition demo_console :: admin_config where
  "demo_console = \<lparr>ax_http = DefaultHTTPConfig, ax_admin = demo_options_admin\<rparr>"

definition demo_admin :: User where
  "demo_admin = demo_user\<lparr>u_IsAdmin := True, u_IsTOTPEnabled := True, u_Require2FA := True\<rparr>"

definition demo_admin_world :: world where
  "demo_admin_world = empty_world\<lparr>w_users := snd (CreateUser demo_admin NewMemoryUserStore)\<rparr>"

lemma demo_admin_simps [simp]:
  "u_ID demo_admin = ''usr_1''" "u_TenantID demo_admin = []" "u_Email demo_admin = ''a@b.c''"
  "u_PasswordHash demo_admin = ''hash:password''" "u_IsAdmin demo_admin" "u_Require2FA demo_admin"
  by (simp_all add: demo_admin_def demo_user_def zero_user_def)

lemma demo_admin_created: "CreateUser demo_admin NewMemoryUserStore = (Ok demo_admin, w_users demo_admin_world)"
  by (simp add: demo_admin_world_def CreateUser_def NewMemoryUserStore_def)

lemma demo_admin_lookup [simp]:
  "GetUserByEmail ''a@b.c'' [] (w_users demo_admin_world) = Ok demo_admin"
  "GetUserByID ''usr_1'' [] (w_users demo_admin_world) = Ok demo_admin"
  using GetUserByEmail_create[OF demo_admin_created] by simp_all

lemma demo_admin_ok: "user_store_ok (w_users demo_admin_world)"
  using CreateUser_ok[OF user_store_ok_new, of demo_admin] by (simp add: demo_admin_created)

lemma demo_admin_stored: "us_byID (w_users demo_admin_world) = fmupd ''usr_1'' demo_admin fmempty"
  by (simp add: demo_admin_world_def CreateUser_def NewMemoryUserStore_def)

definition demo_admin_libs :: tools_libs where
  "demo_admin_libs = \<lparr>tc_ClientIP = None, tc_split = (\<lambda>a. None), tc_number = Some, tc_layout = (\<lambda>i s. None)\<rparr>"

definition demo_admin_env :: admin_env where
  "demo_admin_env = \<lparr>ae_env = demo_env [], ae_cfg = demo_console, ae_libs = demo_admin_libs, ae_part = (\<lambda>rq. None),
     ae_has_TwoFactorPolicyStore = True, ae_has_AdminFlagStore = True, ae_has_APIKeyAdminStore = True,
     ae_has_APIKeyDeleteStore = True, ae_has_WebhookAdminStore = True\<rparr>"

definition demo_admin_state :: admin_world where
  "demo_admin_state = \<lparr>aw_service = demo_admin_world, aw_settings = Some NewMemorySettingsStore, aw_templates = None,
     aw_uploads = None, aw_keys = None, aw_webhooks = None, aw_links = None\<rparr>"

text \<open>A request of the console: method, path, cookies, body.\<close>

definition demo_console_request ::
    "string \<Rightarrow> string \<Rightarrow> (string \<times> string) list \<Rightarrow> (string \<times> json) list \<Rightarrow> tools_request" where
  "demo_console_request m p cs kvs = \<lparr>rq_Method = m, rq_Path = p, rq_Headers = [], rq_Cookies = cs,
     tq_EscapedPath = p, tq_Query = fmempty, tq_Body = Some (''{'' @ print_members kvs @ ''}''),
     tq_RemoteAddr = ''10.0.0.1:80'', tq_User = None, tq_Context = None\<rparr>"

lemma demo_console_body:
  assumes "kvs \<noteq> []" "\<forall>(k, v)\<in>set kvs. clean v \<and> valid_utf8 k \<and> depth v < max_nesting"
  shows "body_members (tq_Body (demo_console_request m p cs kvs)) = kvs"
proof -
  define s where "s = ''{'' @ print_members kvs @ ''}''"
  have "json_parse s = Some (JObj kvs)" unfolding s_def using assms by (rule members_parse)
  then obtain r where r: "parse_value (2 * length s + 2) 0 s = Some (JObj kvs, r)"
    by (auto simp: json_parse_def simp del: parse_value.simps split: option.splits if_splits)
  moreover have "skip s \<noteq> []" by (simp add: s_def json_space_def)
  moreover have "tq_Body (demo_console_request m p cs kvs) = Some s" by (simp add: demo_console_request_def s_def)
  ultimately show ?thesis
    by (auto simp: body_members_def first_value_def object_members_def simp del: parse_value.simps)
qed

definition demo_login :: tools_request where
  "demo_login = demo_console_request ''POST'' ''/admin/login'' []
     [(''email'', JStr ''a@b.c''), (''password'', JStr ''password'')]"

lemma demo_login_body: "login_body (tq_Body demo_login) = (''a@b.c'', ''password'')"
proof -
  have u: "valid_utf8 ''email''" "valid_utf8 ''password''" "valid_utf8 ''a@b.c''" by code_simp+
  have "body_members (tq_Body demo_login) = [(''email'', JStr ''a@b.c''), (''password'', JStr ''password'')]"
    unfolding demo_login_def by (rule demo_console_body) (simp_all add: u max_nesting_def)
  then show ?thesis
    by (simp add: login_body_def field_values_def struct_field_def leniently_def decode_string_def Let_def)
qed

lemma demo_console_secret: "ag_jwtSecret (AdminGuard (demo_env []) demo_console) \<noteq> []"
proof -
  have "trim_space [] = []" by code_simp
  then show ?thesis by (simp add: AdminGuard_def Let_def demo_console_def demo_options_admin_def demo_defs)
qed

lemma demo_mint_time: "mint_time_ok Some demo_now"
  by (simp add: mint_time_ok_def plausible_def number_kept_def demo_now_def unix_of_def adminSessionTTL_def is_int64_def)

lemma demo_admin_utf8: "valid_utf8 ''usr_1''" "valid_utf8 ''a@b.c''" "valid_utf8 []"
  by code_simp+


text \<open>The request that carries the cookie of a login.\<close>

definition demo_carrying :: "set_cookie \<Rightarrow> tools_request" where
  "demo_carrying c = demo_console_request ''GET'' ''/admin/api/users'' [(sc_Name c, sc_Value c)] []"

lemma demo_carries: "carries c (demo_carrying c)"
proof -
  have "trim_space [] = []" by code_simp
  then show ?thesis
    by (simp add: carries_def demo_carrying_def demo_console_request_def http_request.defs header_get_def BearerToken_def)
qed

lemma demo_console_policy: "ao_AccessPolicy (ax_admin demo_console) = Some AdminIsAdminFlag"
  "ao_RootUser (ax_admin demo_console) = None" "ao_Secret (ax_admin demo_console) = []"
  by (simp_all add: demo_console_def demo_options_admin_def)

lemma demo_admin_world_simps [simp]: "w_tick demo_admin_world = 0"
  by (simp add: demo_admin_world_def empty_world_def)

lemma demo_in_time: "demo_now \<le> time_of_unix (unix_of (demo_now + adminSessionTTL)) + cf_ClockSkew demo_cfg"
  by (simp add: time_of_unix_def unix_of_def demo_now_def adminSessionTTL_def demo_defs)

lemma demo_console_entry:
  "\<exists>c w1. adminLogin (demo_env []) Some demo_console (AdminGuard (demo_env []) demo_console) demo_login
       demo_admin_world = (Inr c, w1) \<and>
     fst (authorise (demo_env []) demo_console (AdminGuard (demo_env []) demo_console) (demo_carrying c)
       demo_admin_world) = AdminGranted (Some demo_admin)"
proof -
  have "verifyPassword (demo_crypto []) ''password'' (u_PasswordHash demo_admin)"
    by (simp add: verifyPassword_def demo_crypto_def)
  then show ?thesis
    using password_opens_console[OF demo_console_policy demo_console_secret demo_login_body, where w = demo_admin_world and
        u = demo_admin and num = Some] demo_admin_utf8 demo_issuer demo_mint_time demo_carries demo_in_time
    by fastforce
qed

lemma demo_carried:
  assumes "adminLogin (demo_env []) Some demo_console g rq w = (Inr c, w1)"
  shows "admin_token g demo_console (http_request.truncate (demo_carrying c)) = sc_Value c"
proof -
  obtain t where c: "c = adminCookie demo_console t adminSessionTTL" and t: "trim_space t = t" "t \<noteq> []"
    using assms by (auto simp: adminLogin_def mintAdminToken_def Let_def jwt_not_white jwt_nonempty
        split: prod.splits if_splits option.splits Option.bind_splits)
  show ?thesis using carried_token[OF demo_carries[of c, unfolded c] t] by (simp add: c)
qed


lemma demo_login_refused:
  "fst (authorise (demo_env []) demo_console g demo_login w) \<noteq> AdminGranted (Some u)"
  "fst (authorise (demo_env []) demo_console (AdminGuard (demo_env []) demo_console) demo_login w) \<noteq> AdminGranted r"
proof -
  have t: "trim_space [] = []" by code_simp
  have tok: "admin_token g demo_console (http_request.truncate demo_login) = []" for g
    by (simp add: admin_token_def demo_console_def demo_options_admin_def demo_login_def demo_console_request_def
        http_request.defs header_get_def BearerToken_def t CookieValue_def request_cookie_def)
  have no: "readToken (demo_env []) g demo_console (http_request.truncate demo_login) k = (None, k)" for g k
    by (simp add: readToken_def tok)
  have un: "unauthenticated demo_console demo_login \<noteq> AdminGranted r" for r by (simp add: unauthenticated_def)
  show "fst (authorise (demo_env []) demo_console g demo_login w) \<noteq> AdminGranted (Some u)"
    by (auto simp: authorise_def Let_def no un split: option.splits)
  show "fst (authorise (demo_env []) demo_console (AdminGuard (demo_env []) demo_console) demo_login w) \<noteq> AdminGranted r"
    by (simp add: authorise_def no un AdminGuard_def Let_def demo_console_policy AdminIsAdminFlag_def)
qed

text \<open>Somebody who registers later with a smaller id.\<close>

definition demo_rival :: User where "demo_rival = zero_user\<lparr>u_ID := ''usr_0'', u_Email := ''x@y.z''\<rparr>"

lemma demo_rival_less: "u_ID demo_rival < u_ID demo_admin" "user_at (w_users demo_admin_world) ''usr_1'' = Some demo_admin"
  "has_AdminUserStore memory_caps"
  by (simp_all add: demo_rival_def user_at_def demo_admin_stored memory_caps_def)

lemma demo_rival_created:
  "CreateUser demo_rival (w_users demo_admin_world) = (Ok demo_rival, snd (CreateUser demo_rival (w_users demo_admin_world)))"
proof -
  have "userEmailKey ''x@y.z'' [] \<noteq> userEmailKey ''a@b.c'' []" by code_simp
  then show ?thesis
    by (simp add: CreateUser_def demo_admin_world_def NewMemoryUserStore_def demo_rival_def zero_user_def)
qed

lemma demo_admin_first: "fst (fst (evaluate (demo_env []) AdminFirstUser demo_admin demo_admin_world))"
  using first_user_least[OF demo_admin_ok, of "demo_env []" demo_admin]
  by (simp add: demo_rival_less(3)) (simp add: user_at_def demo_admin_stored)

end
