(* ===== verification/Claims_Builders.thy ===== *)
theory Claims_Builders
  imports Token Tools_Router
begin

text \<open>
  The builders of token claims (\<open>claims.go\<close>): fixed claims, claims read from the user, and their chain; and what
  the claims webhook (\<open>claims_webhook.go\<close>) makes of a response. A builder may answer differently every time it is
  called, as the hook of the service does. Maps are values, so the defensive copies are identities.
\<close>

section \<open>Builders\<close>

type_synonym TokenClaimsBuilder = "nat \<Rightarrow> User \<Rightarrow> json_object result"

definition copyClaims :: "json_object \<Rightarrow> json_object" where
  "copyClaims claims = fold (\<lambda>(name, value). fmupd name value) (sorted_list_of_fmap claims) fmempty"

definition StaticClaims :: "json_object \<Rightarrow> TokenClaimsBuilder" where
  "StaticClaims claims = (\<lambda>k user. Ok (copyClaims (copyClaims claims)))"

definition userClaimFields :: "(string \<times> (User \<Rightarrow> json)) list" where
  "userClaimFields = [
     (''id'', \<lambda>u. JStr (u_ID u)),
     (''email'', \<lambda>u. JStr (u_Email u)),
     (''role'', \<lambda>u. JStr (u_Role u)),
     (''tenantId'', \<lambda>u. JStr (u_TenantID u)),
     (''firstName'', \<lambda>u. JStr (u_FirstName u)),
     (''lastName'', \<lambda>u. JStr (u_LastName u)),
     (''phoneNumber'', \<lambda>u. JStr (u_PhoneNumber u)),
     (''isEmailVerified'', \<lambda>u. JBool (u_IsEmailVerified u)),
     (''isTotpEnabled'', \<lambda>u. JBool (u_IsTOTPEnabled u)),
     (''loginProvider'', \<lambda>u. JStr (loginProviderOrLocal u))]"

text \<open>The checks of one mapping; the iteration order matters only for the text of the error.\<close>

definition claim_reader :: "string \<Rightarrow> string \<Rightarrow> (User \<Rightarrow> json) option" where
  "claim_reader claim field =
     (if trim_space claim = [] then None
      else if isReservedClaim claim then None
      else map_of userClaimFields field)"

definition UserFieldClaims :: "(string, string) fmap \<Rightarrow> TokenClaimsBuilder result" where
  "UserFieldClaims mapping =
     (if list_ex (\<lambda>(claim, field). claim_reader claim field = None) (sorted_list_of_fmap mapping)
      then Inl (Message ''auth: user field claims'')
      else Ok (\<lambda>k user. Ok (fold (\<lambda>(claim, field) claims. fmupd claim (the (claim_reader claim field) user) claims)
        (sorted_list_of_fmap mapping) fmempty)))"

text \<open>A nil builder is skipped; an error stops the chain; a later claim wins.\<close>

fun chain_from :: "TokenClaimsBuilder option list \<Rightarrow> json_object \<Rightarrow> TokenClaimsBuilder" where
  "chain_from [] merged k user = Ok merged"
| "chain_from (None # builders) merged k user = chain_from builders merged k user"
| "chain_from (Some build # builders) merged k user = (case build k user of
     Inl e \<Rightarrow> Inl e
   | Inr claims \<Rightarrow> chain_from builders
       (fold (\<lambda>(name, value). fmupd name value) (sorted_list_of_fmap claims) merged) k user)"

definition ChainClaims :: "TokenClaimsBuilder option list \<Rightarrow> TokenClaimsBuilder" where
  "ChainClaims builders = chain_from builders fmempty"

section \<open>The response of the claims webhook\<close>

definition maxClaimsWebhookResponse :: int where "maxClaimsWebhookResponse = 65536"

text \<open>The status and the body of a response, as the transport hands them over; at most one byte beyond the bound is
  read. The claims are the last member under exactly that name, and null is none.\<close>

definition claims_of_response :: "(string \<Rightarrow> string option) \<Rightarrow> int \<Rightarrow> string \<Rightarrow> json_object option" where
  "claims_of_response num status body =
     (if status < 200 \<or> status \<ge> 300 then None
      else if int (length body) > maxClaimsWebhookResponse then None
      else do {
        value \<leftarrow> json_parse body;
        envelope \<leftarrow> object_members value;
        claims \<leftarrow> last_member ''claims'' envelope;
        if claims = JNull then None
        else do {
          read \<leftarrow> read_map num claims None;
          read
        }
      })"

section \<open>Laws\<close>

lemma fold_fmupd_distinct:
  "distinct (map fst kvs) \<Longrightarrow> fmlookup (fold (\<lambda>(k, x). fmupd k (f k x)) kvs m) k =
     (case map_of kvs k of None \<Rightarrow> fmlookup m k | Some x \<Rightarrow> Some (f k x))"
proof (induction kvs arbitrary: m)
  case (Cons p kvs)
  obtain k' x where "p = (k', x)" by (cases p)
  then show ?case using Cons by (auto simp: map_of_eq_None_iff[THEN iffD2] split: option.splits)
qed simp

lemma distinct_sorted_list: "distinct (map fst (sorted_list_of_fmap m))"
  using distinct_range_keys[of m] by (simp add: range_keys_def)

lemma fold_onto: "fmlookup (fold (\<lambda>(k, x). fmupd k x) (sorted_list_of_fmap m) m0) k =
    (case fmlookup m k of None \<Rightarrow> fmlookup m0 k | Some x \<Rightarrow> Some x)"
  using fold_fmupd_distinct[OF distinct_sorted_list, of "\<lambda>k x. x" m m0 k] by (simp add: map_of_sorted_fmap)

lemma copyClaims_id [simp]: "copyClaims m = m"
  by (rule fmap_ext) (simp add: copyClaims_def fold_onto split: option.splits)

lemma fold_is_fmadd: "fold (\<lambda>(k, x). fmupd k x) (sorted_list_of_fmap m) m0 = m0 ++\<^sub>f m"
  by (rule fmap_ext) (auto simp: fold_onto fmlookup_dom_iff split: option.splits)

text \<open>What the host passed is added to every token.\<close>

lemma StaticClaims_constant: "StaticClaims m k user = Ok m"
  by (simp add: StaticClaims_def)

text \<open>Accepted means: no name is blank or reserved, and every field exists. Then each mint has each claim with what
  the field holds, empty or not, and no other.\<close>

lemma claim_reader_iff:
  "claim_reader claim field = Some r \<longleftrightarrow>
     trim_space claim \<noteq> [] \<and> \<not> isReservedClaim claim \<and> map_of userClaimFields field = Some r"
  by (auto simp: claim_reader_def)

lemma UserFieldClaims_accepts:
  "is_ok (UserFieldClaims mapping) \<longleftrightarrow>
     (\<forall>claim field. fmlookup mapping claim = Some field \<longrightarrow>
        trim_space claim \<noteq> [] \<and> \<not> isReservedClaim claim \<and> map_of userClaimFields field \<noteq> None)"
  by (auto simp: UserFieldClaims_def list_ex_iff claim_reader_def)

lemma UserFieldClaims_values:
  assumes "UserFieldClaims mapping = Ok build"
  shows "\<exists>claims. build k user = Ok claims \<and> (\<forall>claim. fmlookup claims claim =
    (case fmlookup mapping claim of None \<Rightarrow> None | Some field \<Rightarrow> Some (the (map_of userClaimFields field) user)))"
proof -
  have ok: "claim_reader claim field = map_of userClaimFields field" if "fmlookup mapping claim = Some field" for claim field
    using UserFieldClaims_accepts[of mapping] assms that by (simp add: claim_reader_def)
  let ?m = "fold (\<lambda>(claim, field) claims. fmupd claim (the (claim_reader claim field) user) claims) (sorted_list_of_fmap mapping) fmempty"
  have "build k user = Ok ?m" using assms by (auto simp: UserFieldClaims_def split: if_splits)
  moreover have "fmlookup ?m claim = (case fmlookup mapping claim of None \<Rightarrow> None
      | Some field \<Rightarrow> Some (the (map_of userClaimFields field) user))" for claim
    using fold_fmupd_distinct[OF distinct_sorted_list, of "\<lambda>claim field. the (claim_reader claim field) user" mapping fmempty claim] ok
    by (auto simp: map_of_sorted_fmap split: option.splits)
  ultimately show ?thesis by blast
qed

text \<open>No mapping is discarded when the token is minted.\<close>

lemma UserFieldClaims_not_reserved:
  assumes "UserFieldClaims mapping = Ok build" "build k user = Ok claims" "fmlookup claims claim = Some x"
  shows "\<not> isReservedClaim claim"
proof -
  obtain field where "fmlookup mapping claim = Some field"
    using UserFieldClaims_values[OF assms(1), of k user] assms(2,3) by (auto split: option.splits)
  then show ?thesis using UserFieldClaims_accepts[of mapping] assms(1) by auto
qed

text \<open>A chain of builders that answer is the sum of their answers, the later ones on top.\<close>

lemma chain_from_sum:
  assumes "list_all2 (\<lambda>b m. case b of None \<Rightarrow> m = fmempty | Some build \<Rightarrow> build k user = Ok m) builders ms"
  shows "chain_from builders merged k user = Ok (foldl (++\<^sub>f) merged ms)"
  using assms
proof (induction builders ms arbitrary: merged rule: list_all2_induct)
  case (Cons b bs m ms)
  then show ?case by (cases b) (simp_all add: fold_is_fmadd)
qed simp

lemma ChainClaims_sum:
  "list_all2 (\<lambda>b m. case b of None \<Rightarrow> m = fmempty | Some build \<Rightarrow> build k user = Ok m) builders ms \<Longrightarrow>
     ChainClaims builders k user = Ok (foldl (++\<^sub>f) fmempty ms)"
  by (simp add: ChainClaims_def chain_from_sum)

lemma chain_from_append:
  "chain_from (bs @ bs') merged k user = (case chain_from bs merged k user of
     Inl e \<Rightarrow> Inl e | Inr m \<Rightarrow> chain_from bs' m k user)"
  by (induction bs merged k user rule: chain_from.induct) (simp_all split: sum.splits)

text \<open>The first error is the answer, whatever comes after it.\<close>

lemma ChainClaims_error:
  assumes "ChainClaims bs k user = Ok m" "build k user = Inl e"
  shows "ChainClaims (bs @ Some build # bs') k user = Inl e"
  using assms by (simp add: ChainClaims_def chain_from_append)

text \<open>A response that is accepted was a success, within the bound, and carried an object of claims.\<close>

lemma claims_of_response_Some:
  assumes "claims_of_response num status body = Some claims"
  shows "200 \<le> status \<and> status < 300 \<and> int (length body) \<le> maxClaimsWebhookResponse \<and>
    (\<exists>envelope kvs. json_parse body = Some (JObj envelope) \<and> last_member ''claims'' envelope = Some (JObj kvs) \<and>
       fset (fmdom claims) = fst ` set kvs)"
proof -
  obtain v envelope c where p: "json_parse body = Some v" "object_members v = Some envelope"
      "last_member ''claims'' envelope = Some c" "c \<noteq> JNull" "read_map num c None = Some (Some claims)"
      "200 \<le> status" "status < 300" "int (length body) \<le> maxClaimsWebhookResponse"
    using assms by (auto simp: claims_of_response_def split: if_splits Option.bind_splits)
  have "envelope \<noteq> []" using p(3) by (auto simp: last_member_def)
  then have v: "v = JObj envelope" using p(2) by (auto simp: object_members_def split: json.splits)
  obtain kvs vs where kvs: "c = JObj kvs" "those (map (\<lambda>(k, x). read_any num x) kvs) = Some vs"
      "claims = fold (\<lambda>(k, x). fmupd k x) (zip (map fst kvs) vs) fmempty"
    using p(4,5) by (auto simp: read_map_def split: json.splits)
  have "length vs = length kvs" using kvs(2)
  proof (induction kvs arbitrary: vs)
    case (Cons p kvs)
    then show ?case by (auto split: option.splits prod.splits)
  qed simp
  moreover have "fset (fmdom (fold (\<lambda>(k, x). fmupd k x) xs m)) = fset (fmdom m) \<union> fst ` set xs"
    for xs :: "(string \<times> json) list" and m
    by (induction xs arbitrary: m) auto
  ultimately have "fset (fmdom claims) = fst ` set kvs"
    unfolding kvs(3) by (simp flip: set_map)
  then show ?thesis using p v kvs(1) by blast
qed

end
