(* ===== verification/Spec2Isabelle.thy ===== *)
theory Spec2Isabelle
  imports Demo_Wire Demo_OAuth Settings_Store Upload_Store Mail_Templates Net_IP Demo_IDP Demo_Tools Demo_Admin Claims_Builders
begin

text \<open>
  A verification library for \<open>awesome-go-auth\<close>: the Go package \<open>auth\<close> (\<open>src/*.go\<close>), an authentication
  service with passwords, magic links, SMS codes, TOTP, rotating sessions, roles, tenants, API keys and an
  event bus, over stores the host can replace and in-memory stores the package ships.

  \<^bold>\<open>The program.\<close> A \<open>Service\<close> (\<open>service.go\<close>) holds a configuration, a user store, a session store, optional
  stores for metadata, roles and tenants, and hooks. Each exported call reads the stores, draws randomness,
  writes the stores, hands a credential to a sender and publishes an event. Access and refresh tokens are
  HS256 JWTs (\<open>token.go\<close>); a refresh token is stored only as its hash, and the session it belongs to is
  rotated at each refresh. The stores (\<open>memory_store.go\<close>, \<open>feature_stores.go\<close>,
  \<open>memory_api_key_store.go\<close>) are maps with secondary indexes behind a mutex.

  \<^bold>\<open>The theories.\<close>
  \<^item> \<open>Auth_Prelude\<close>, \<open>Go_Strings\<close>, \<open>Codec\<close>, \<open>Json\<close>, \<open>Net_IP\<close>: time, 64-bit integers, and what the code uses of the
    Go library: strings as bytes, hex, base64url, base32, \<open>encoding/json\<close>, \<open>net.ParseIP\<close>. The round trips are
    proved there.
  \<^item> \<open>Auth_Errors\<close>: \<open>errors.go\<close> and the tables of \<open>wire.go\<close>, \<open>passwordless.go\<close>, \<open>wire_password_email.go\<close> from an
    error to an HTTP answer. \<open>Auth_Models\<close>: \<open>models.go\<close> and the public projections.
  \<^item> \<open>One_Time_Token\<close>: the interface behind the four token families of the user store, as a locale.
    \<open>User_Store\<close>: \<open>MemoryUserStore\<close>, its invariant, and the four interpretations. \<open>Paging\<close>: \<open>pageOf\<close> and the
    interface of a paged listing. \<open>Session_Store\<close>: \<open>MemorySessionStore\<close>, and the interface of token rotation.
    \<open>Feature_Stores\<close>, \<open>Tenant_Store\<close>: metadata, roles, authorisation codes, tenants; each operation is
    specified on the relation the nested maps stand for.
  \<^item> \<open>API_Keys\<close>: \<open>api_keys.go\<close> and its store, and the steps in a key's life. \<open>Security\<close>: \<open>security.go\<close>. \<open>Totp\<close>: \<open>totp.go\<close>. \<open>Config\<close>: \<open>config.go\<close>.
    \<open>Events\<close>: \<open>events.go\<close>, \<open>event_context.go\<close>, \<open>event_names.go\<close>.
  \<^item> \<open>Environment\<close>: what a call acts on (\<open>env\<close>, fixed at construction; \<open>world\<close>, what a call may change) and the
    sequencing of its effects. \<open>Token\<close>, \<open>Service_Session\<close>, \<open>Service_Credentials\<close>, \<open>Service_Account\<close>: the methods
    of \<open>Service\<close>, one definition per method, in the order of the source.
  \<^item> \<open>Service_Invariants\<close>: the invariant of the whole state, one step per call, reachability.
    \<open>Session_Laws\<close>, \<open>Credential_Laws\<close>: what the calls achieve. \<open>Spent_Tokens\<close>: no call brings back the hash of a
    refresh token that was replaced.
  \<^item> \<open>Go_Paths\<close>, \<open>Http_Request\<close>, \<open>Cookies\<close>, \<open>CSRF\<close>, \<open>Site_Links\<close>, \<open>Http_Service\<close>: \<open>wire.go\<close>, \<open>csrf.go\<close> and the links
    of \<open>delivery*.go\<close>: which credential a request presents, the cookies a response sets and clears, the double
    submit, the site a link points to, the delivery of tokens and the logout route.
  \<^item> \<open>Settings_Store\<close>, \<open>Mail_Templates\<close> (\<open>template_store.go\<close>, \<open>mailer.go\<close>), \<open>Webhook_Store\<close>, \<open>Webhook_Sender\<close>,
    \<open>Upload_Store\<close> (with \<open>admin_upload.go\<close>): the remaining in-memory stores and what is built on them.
  \<^item> \<open>Linked_Accounts\<close>, \<open>Profile_Map\<close>, \<open>OAuth_Policy\<close>, \<open>OAuth_Exchange\<close>, \<open>OAuth_State\<close>, \<open>OAuth_Flow\<close>: the OAuth client
    (\<open>oauth*.go\<close>): its two stores, the language of profile expressions, the provisioning policy, the exchange
    of a code, the signed state, and the calls from the redirect to the session and to a confirmed link.
    \<open>OAuth_Laws\<close>: what those calls keep (through a locale for relations that hold along a call) and achieve.
  \<^item> \<open>RSA_Keys\<close> (\<open>jwks.go\<close>): a public key as a JWK and back, the printed document and its decoding, RS256
    signing. \<open>IDP_Server\<close> (\<open>idp.go\<close>): the identity provider, its token pair and its four endpoints. \<open>JWKS_Client\<close>,
    \<open>Resource_Server\<close> (\<open>resource_server.go\<close>): the key cache as a step relation, the verification of an RS256
    token, the principal, the middleware. \<open>Service_Time\<close>: no call turns the clock counter back. \<open>IDP_Laws\<close> (one
    locale for what every endpoint keeps, interpreted for the invariant, for drawn and for spent codes) and
    \<open>RS256_Laws\<close>: what the endpoints and the verification achieve.
  \<^item> \<open>Event_Stream\<close>, \<open>Sse_Hub\<close> (\<open>sse.go\<close>): the frames of an event stream and how a browser reads them; the manager
    of the open streams, its broadcast and the loop of one stream. \<open>Sse_Laws\<close>: their interleavings as a step
    relation, the broadcast in closed form. \<open>Auth_Tools\<close> (\<open>auth_tools.go\<close>, \<open>telemetry.go\<close>): tracking, notifying and
    the telemetry store. \<open>Tools_Router\<close>, \<open>Tools_Webhook\<close> (\<open>tools*.go\<close>, \<open>event_context.go\<close>): the routes of the tools,
    their guard, inbound webhooks and the actions of their scripts. \<open>Tools_Laws\<close>: what these achieve.
  \<^item> \<open>Admin_Guard\<close> (\<open>admin.go\<close>): who may enter the admin console, its login, its token and its cookie.
    \<open>Admin_Read\<close>, \<open>Admin_Write\<close>, \<open>Admin_Credentials\<close> (\<open>admin_read.go\<close>, \<open>admin_write.go\<close>, \<open>admin_promote.go\<close>,
    \<open>admin_credentials.go\<close>, \<open>admin_upload.go\<close>, \<open>APIKeyMiddleware\<close>): its routes, one definition each, on the service and
    the optional stores (\<open>admin_world\<close>), with what a body leaves in the fields when its decoder's error is ignored.
    \<open>Admin_Router\<close>: which request reaches which route, and which routes the guard protects. \<open>Admin_Laws\<close>, \<open>Admin_Entry\<close>:
    who is let in, what needs the guard, the walk over the users, the absence of panics, the life of the token.
  \<^item> \<open>Claims_Builders\<close> (\<open>claims.go\<close>, the response side of \<open>claims_webhook.go\<close>): the builders of token claims and
    their chain.
  \<^item> \<open>Demo_World\<close>, \<open>Demo_Wire\<close>, \<open>Demo_OAuth\<close>, \<open>Demo_IDP\<close>, \<open>Demo_Tools\<close>, \<open>Demo_Admin\<close>: a concrete host, requests, a
    provider, a resource server, an open stream and a console for the witnesses; they model no code.

  \<^bold>\<open>Conventions.\<close> A Go map is a finite map, a struct a record (fields prefixed), a slice a list (an option of a
  list where nil and empty differ), an instant the number of nanoseconds since 1970. A method that locks a
  mutex for its body is one step. An error is a value of \<open>error\<close> (a sentinel, a wrapped or joined error, or a
  message); a call returns \<open>Inl error\<close> or \<open>Ok x\<close>, and the state it leaves, on the error paths too. A slice
  expression of a listing is \<open>go_slice\<close>, which panics when its bounds are out of range; the listings, the policies
  and the routes of the console hand the panic on. Clock,
  randomness, hooks and senders may answer differently every time: each is a function of the number of such
  calls so far (\<open>w_tick\<close>). bcrypt, SHA-256 and HMAC are parameters; what a theorem needs of them is a named
  hypothesis (\<open>bcrypt_correct\<close>, \<open>sha256_size\<close>, \<open>fresh_draws\<close>: two 16-byte reads of randomness differ). A service
  call is one atomic step: calls that overlap in time are not interleaved. The recursion of the JSON
  decoder is bounded by fuel twice the length of its input, which its round trip shows to be enough; loops
  that are not structural (the search for mount points, the retries of a webhook, the scan of a template)
  are functions with a measure. So is the console's walk over the users, which ends because no update adds a user.

  \<^bold>\<open>Not modelled.\<close> Logging; the text of wrapped errors; case mapping outside ASCII; panics of hooks; the
  encoding of responses, the service's own routes and the adapters; the user interface, the console's page and the documents; the
  decoding of multipart bodies; the senders of mails, messages and delivery webhooks.
  \<open>net/url.Parse\<close>, \<open>time.Format\<close>, RSA, the reading of a JSON number as a float, Go's template engines and every
  transport are parameters. A request that waits for a fetch of keys is a parameter too: an arbitrary run of
  other steps of the client, ended by the fetch or by the request's context.

  \<^bold>\<open>What is shown.\<close> Below: the invariant of every reachable state, what a login proves, the life of a session
  and of each one-time credential, what an account deletion leaves, the soundness and round trip of tokens,
  the laws of the stores and of API keys; then the protection of requests, the links, the login through a
  provider, authorization codes and RS256 tokens, the event stream, the tools and inbound webhooks, the admin
  console, and the guarantees of webhooks and uploads. Seven of them (the shared index key of tenant and address,
  the link that cannot be removed, the key id that empties the cache, the event name that forges a message, the
  console's login without a second factor, the later user who takes the console, the mistyped setting) are defects
  of the code, stated as the code behaves. More are lemmas of their theories: the overflow in the listing of keys
  (\<open>API_Keys\<close>), the name of the CSRF cookie (\<open>CSRF\<close>), the second factor that a provider login skips (\<open>OAuth_Laws\<close>),
  the guard of the console that looks at no session (\<open>Admin_Laws\<close>). The laws of events, TOTP, profile
  expressions, settings, links and templates are lemmas of their theories.
\<close>

section \<open>The whole service\<close>

text \<open>C1: whatever sequence of service calls is made from empty stores, with whatever arguments and
  answers, every store keeps its invariant (users under their id, each index entry backed by a record
  that carries its key, no role assignment to an undefined role, the two membership maps inverse to each
  other) and every session id was drawn from the random source.\<close>

theorem service_keeps_invariants:
  assumes "service_reachable v w" "fresh_draws (e_crypto v)" "sha256_size (e_crypto v)"
  shows "user_store_ok (w_users w) \<and> session_store_ok (w_sessions w) \<and>
    (\<forall>s. w_rbac w = Some s \<longrightarrow> rbac_ok s) \<and> (\<forall>s. w_tenants w = Some s \<longrightarrow> tenant_store_ok s) \<and>
    session_ids_drawn (e_crypto v) w"
  using service_reachable_ok[OF assms] unfolding world_ok_def .

theorem service_keeps_invariants_witness:
  "user_store_ok (w_users (snd (Register demo_host ''a@b.c'' ''password'' [] empty_world)))"
  using service_keeps_invariants[OF service_reachable.step[OF service_reachable.start Register_step]
      demo_fresh[of demo_refresh_token, folded demo_env_simps(2)]] demo_lawful(2)
  by simp

section \<open>Logging in\<close>

text \<open>C2: without a migration hook a completed login means: the email names that user in the tenant, the
  password matches the stored hash, the address is verified (or verification is lazy), no second factor is
  owed; and all it did was to open one session, for that user, under the hash of the refresh token it
  returned.\<close>

theorem login_is_earned:
  assumes "e_verifier v = None" "Login v e p t w = (Ok (u, tokens), w')"
  shows "GetUserByEmail e t (w_users w) = Ok u \<and> verifyPassword (e_crypto v) p (u_PasswordHash u) \<and>
    (u_IsEmailVerified u \<or> emailVerificationMode (e_cfg v) = EmailVerificationModeLazy) \<and>
    \<not> requiresTwoFactor (e_cfg v) u \<and> w_users w' = w_users w \<and>
    (\<exists>sid now ex. w_sessions w' = snd (CreateSession \<lparr>s_ID = sid, s_UserID = u_ID u,
       s_TenantID = u_TenantID u, s_RefreshTokenHash = hashToken (e_crypto v) (at_RefreshToken tokens),
       s_CreatedAt = now, s_ExpiresAt = ex, s_RevokedAt = None\<rparr> (w_sessions w)))"
  by (intro conjI; rule Login_sound[OF assms])

theorem login_is_earned_witness:
  "\<exists>w'. Login demo_host ''a@b.c'' ''password'' [] demo_world = (Ok (demo_user, demo_tokens demo_user 0), w') \<and>
     GetUserByEmail ''a@b.c'' [] (w_users demo_world) = Ok demo_user \<and>
     verifyPassword (demo_crypto demo_refresh_token) ''password'' (u_PasswordHash demo_user)"
proof -
  obtain w' where l: "Login demo_host ''a@b.c'' ''password'' [] demo_world =
      (Ok (demo_user, demo_tokens demo_user 0), w')" using demo_logs_in by blast
  show ?thesis using login_is_earned[OF _ l] l by auto
qed

text \<open>C3: an unknown address and a wrong password are answered alike, by all three ways in: the error says invalid
  credentials, the state changes by exactly one event (none without a bus), and that event holds the address as
  it was submitted and nothing else, so neither tells which addresses exist. (No external password verifier is
  configured: one is handed the user it is to verify.)\<close>

theorem login_is_no_oracle:
  assumes "e_verifier v = None"
    and "GetUserByEmail e t (w_users w) = Inl err \<or>
      (\<exists>u. GetUserByEmail e t (w_users w) = Ok u \<and> \<not> verifyPassword (e_crypto v) p (u_PasswordHash u))"
  shows "let failed = zero_event\<lparr>ev_Name := ''identity.auth.login.failed'',
           ev_Data := Some (fmap_of_list [(''method'', JStr ''local''), (''email'', JStr e)])\<rparr>;
         w' = w\<lparr>w_events := w_events w @ (if e_bus v then [WithRequestContext (e_ctx v) failed] else [])\<rparr>
       in loginPassword v e p t w = (Err ErrInvalidCredentials, w') \<and>
          Login v e p t w = (Err ErrInvalidCredentials, w') \<and>
          LoginWithChallenge v e p t w = (Err ErrInvalidCredentials, w')"
  using loginPassword_refused[OF assms]
  by (simp add: Login_def LoginWithChallenge_def thenDo_def loginFailed_credentials EventAuthLoginFailed_def
      loginMethodLocal_def Let_def)

theorem login_is_no_oracle_witness:
  "e_bus demo_host \<and> length (w_events (snd (Login demo_host ''a@b.c'' ''wrong'' [] demo_world))) =
     Suc (length (w_events demo_world)) \<and>
   Login demo_host ''a@b.c'' ''wrong'' [] demo_world =
     (Err ErrInvalidCredentials, snd (Login demo_host ''a@b.c'' ''worse'' [] demo_world))"
proof -
  have "\<not> verifyPassword (demo_crypto demo_refresh_token) p (u_PasswordHash demo_user)" if "p \<in> {''wrong'', ''worse''}" for p
    using that by (auto simp: verifyPassword_def demo_crypto_def)
  then have "GetUserByEmail ''a@b.c'' [] (w_users demo_world) = Inl undefined \<or>
      (\<exists>u. GetUserByEmail ''a@b.c'' [] (w_users demo_world) = Ok u \<and>
        \<not> verifyPassword (e_crypto demo_host) p (u_PasswordHash u))" if "p \<in> {''wrong'', ''worse''}" for p
    using that by simp
  note refused = login_is_no_oracle[rotated, OF this]
  have "e_bus demo_host" by simp
  then show ?thesis using refused[of "''wrong''"] refused[of "''worse''"] by (simp add: Let_def)
qed

text \<open>C4: the temporary token of a second-factor challenge is no session: asking for it opens none, and
  presented as an access or a refresh token, at any later time and in any later state, it is an invalid
  token.\<close>

theorem challenge_opens_nothing:
  assumes "LoginWithChallenge v e p t w = (Ok r, w')" "lr_Outcome r = Inl challenge"
    and "hook_ok v (lr_User r)" "user_printable (lr_User r)" "valid_utf8 (cf_Issuer (e_cfg v))" "sane_clock v"
  shows "w_sessions w' = w_sessions w \<and>
    fst (Authenticate v (tf_TempToken challenge) w2) = Err ErrInvalidToken \<and>
    fst (Refresh v (tf_TempToken challenge) w2) = Err ErrInvalidToken"
proof -
  have "\<And>k. plausible (e_clock v k)" "\<And>k. plausible (e_clock v k + cf_TempTokenTTL (e_cfg v))"
    using assms(6) by (simp_all add: sane_clock_def)
  note c = challenge_is_no_session[OF assms(1-5) this]
  show ?thesis by (intro conjI c)
qed

theorem challenge_opens_nothing_witness:
  "\<exists>r w' challenge. LoginWithChallenge demo_host ''a@b.c'' ''password'' [] demo_strict = (Ok r, w') \<and>
     lr_Outcome r = Inl challenge \<and> fst (Refresh demo_host (tf_TempToken challenge) demo_open) = Err ErrInvalidToken"
proof -
  obtain r w' challenge where c: "LoginWithChallenge demo_host ''a@b.c'' ''password'' [] demo_strict = (Ok r, w')"
    "lr_Outcome r = Inl challenge" "lr_User r = demo_strict_user" using demo_challenged by blast
  have "user_printable (lr_User r)" using demo_user_printable c(3) by (simp add: user_printable_def)
  then have "fst (Refresh demo_host (tf_TempToken challenge) demo_open) = Err ErrInvalidToken"
    using challenge_opens_nothing[OF c(1,2) demo_hook _ _ demo_sane, of demo_open] demo_issuer by simp
  then show ?thesis using c(1,2) by blast
qed

text \<open>C5: what one call registered, the next logs in: after a registration the same address and password pass the
  password login, as the registered user (unless verification is strict), and a second factor is owed only
  when the configuration asks it of everybody.\<close>

theorem registered_user_logs_in:
  assumes "bcrypt_correct (e_crypto v)"
    and "emailVerificationMode (e_cfg v) \<in> {EmailVerificationModeNone, EmailVerificationModeLazy}"
    and "Register v e p t w = (Ok (u, tokens), w')" "w_users w2 = w_users w'"
  shows "loginPassword v e p t w2 = (Ok (u, cf_Require2FA (e_cfg v)), w2)"
  using assms by (rule register_then_login)

theorem registered_user_logs_in_witness:
  "\<exists>u tokens w'. Register demo_host ''c@d.e'' ''password'' [] demo_world = (Ok (u, tokens), w') \<and>
     loginPassword demo_host ''c@d.e'' ''password'' [] w' = (Ok (u, False), w')"
proof -
  obtain u tokens w' where r: "Register demo_host ''c@d.e'' ''password'' [] demo_world = (Ok (u, tokens), w')"
    using demo_registers by blast
  have "loginPassword demo_host ''c@d.e'' ''password'' [] w' = (Ok (u, cf_Require2FA demo_cfg), w')"
    using registered_user_logs_in[OF _ _ r refl] demo_lawful(1) by (simp add: demo_modes)
  moreover have "\<not> cf_Require2FA demo_cfg" by (simp add: demo_defs)
  ultimately show ?thesis using r by auto
qed

section \<open>Sessions\<close>

text \<open>C6: the access token of a fresh session authenticates its user, under whichever session check is
  configured, for as long as its lifetime lasts.\<close>

theorem opened_session_works:
  assumes "issueSession v u w = (Ok (tokens, sid), w')"
    and "hook_ok v u" "user_printable u" "valid_utf8 (cf_Issuer (e_cfg v))" "sane_clock v"
    and "w_sessions w2 = w_sessions w'" "w_users w2 = w_users w'"
    and "GetUserByID (u_ID u) (u_TenantID u) (w_users w) = Ok u0"
    and "has_SessionLookupStore (e_caps v)"
    and "\<And>k. w_tick w \<le> k \<Longrightarrow> T \<le> e_clock v k"
      "\<And>k. e_clock v k \<le> T + cf_AccessTokenTTL (e_cfg v) - second + cf_ClockSkew (e_cfg v)"
      "\<And>k. e_clock v k \<le> T + cf_RefreshTokenTTL (e_cfg v) + cf_ClockSkew (e_cfg v)"
  shows "fst (Authenticate v (at_AccessToken tokens) w2) = Ok (enrichFromStores u0 w2)"
  using assms by (rule opened_session_authenticates)

theorem opened_session_works_witness:
  "fst (Authenticate demo_host (at_AccessToken (demo_tokens demo_user 0)) demo_open) =
     Ok (enrichFromStores demo_user demo_open)"
  by (rule opened_session_works[OF demo_opened demo_hook demo_user_printable _ demo_sane, where T = demo_now])
     (simp_all add: demo_issuer memory_caps_def, simp_all add: demo_defs)

text \<open>C7: with the session check on every call, an access token is accepted only while the session it names
  is stored, not revoked, and still the same user's in the same tenant; what is returned is that user.\<close>

theorem access_needs_live_session:
  assumes "sessionCheckMode (e_cfg v) = SessionCheckOnAllCalls" "has_SessionLookupStore (e_caps v)"
    and "Authenticate v tok w = (Ok u, w')"
  shows "\<exists>claims x. verified_claims (e_crypto v) (e_cfg v) tok = Some claims \<and>
    tc_Typ claims = ''access'' \<and> session_at (w_sessions w) (tc_Sid claims) = Some x \<and>
    s_RevokedAt x = None \<and> s_UserID x = tc_Sub claims \<and> s_TenantID x = tc_Tid claims \<and>
    (\<exists>u0. GetUserByID (tc_Sub claims) (tc_Tid claims) (w_users w) = Ok u0 \<and> u = enrichFromStores u0 w)"
  using assms by (rule Authenticate_all_calls)

theorem access_needs_live_session_witness:
  "\<exists>claims x. verified_claims (demo_crypto demo_refresh_token) demo_cfg (at_AccessToken (demo_tokens demo_user 0)) =
      Some claims \<and> session_at (w_sessions demo_open) (tc_Sid claims) = Some x \<and> s_RevokedAt x = None"
proof -
  obtain u w' where a: "Authenticate demo_host (at_AccessToken (demo_tokens demo_user 0)) demo_open = (Ok u, w')"
    using demo_authenticates by blast
  show ?thesis using access_needs_live_session[OF _ _ a] by (auto simp: demo_modes memory_caps_def)
qed

text \<open>C8: a refresh replaces the token. After it, and after whatever calls of the service follow it (logins,
  further refreshes, logouts, revocations, clean-ups, by anyone), the old token is refused; the new one finds
  the same session of the same user, not revoked. The two tokens must have different hashes, no token issued
  later may have the hash of the old one, and the draws of the session ids must be fresh.\<close>

theorem refresh_replaces_token:
  assumes "fresh_draws (e_crypto v)" "sha256_size (e_crypto v)" "world_ok (e_crypto v) w"
    and "Refresh v rt w = (Ok tokens, w')"
    and "hashToken (e_crypto v) (at_RefreshToken tokens) \<noteq> hashToken (e_crypto v) rt"
    and "never_issued v (hashToken (e_crypto v) rt) (w_tick w')"
    and "(service_step v)\<^sup>*\<^sup>* w' w2"
  shows "fst (Refresh v rt w2) \<in> {Err ErrSessionNotFound, Err ErrInvalidToken} \<and>
    (\<exists>old new. GetSessionByRefreshTokenHash (hashToken (e_crypto v) rt) (w_sessions w) = Ok old \<and>
      GetSessionByRefreshTokenHash (hashToken (e_crypto v) (at_RefreshToken tokens)) (w_sessions w') = Ok new \<and>
      s_ID new = s_ID old \<and> s_UserID new = s_UserID old \<and> s_RevokedAt new = None)"
proof -
  note r = refreshed_unhashed[OF assms(1,3-5)]
  have "from_on (w_tick w') (unhashed (hashToken (e_crypto v) rt)) w2"
    using unhashed_run[OF assms(7,6,1,2)] r by blast
  then show ?thesis
    using Refresh_unknown[OF unhashed_not_found] refresh_rotates(2)[OF assms(3-5)] by blast
qed

theorem refresh_replaces_token_witness:
  "\<exists>tokens w'. Refresh other_host other_token demo_open = (Ok tokens, w') \<and>
     fst (Refresh other_host other_token (snd (Login other_host ''a@b.c'' ''password'' [] w')))
       \<in> {Err ErrSessionNotFound, Err ErrInvalidToken}"
proof -
  obtain tokens w' where r: "Refresh other_host other_token demo_open = (Ok tokens, w')"
      "at_RefreshToken tokens \<noteq> other_token" using other_refreshes by blast
  have step: "(service_step other_host)\<^sup>*\<^sup>* w' (snd (Login other_host ''a@b.c'' ''password'' [] w'))"
    by (rule r_into_rtranclp) (rule Login_step)
  show ?thesis
    using refresh_replaces_token[OF _ _ _ r(1) _ _ step] r demo_fresh demo_lawful(2) other_open_ok other_never_issued
    by (auto simp: demo_hash)
qed

section \<open>One-time credentials\<close>

text \<open>C9: a password reset sets the password of the user the token was issued to, keeps the address, and spends
  the token: whoever presents it again, with whatever password, resets nothing.\<close>

theorem reset_token_is_spent:
  assumes "world_ok c w" "bcrypt_correct (e_crypto v)" "ResetPassword v tok p w = (Ok x, w')"
    and "w_users w2 = w_users w'"
  shows "(\<exists>u u'. GetUserByResetTokenHash (hashToken (e_crypto v) tok) (w_users w) = Ok u \<and>
      user_at (w_users w') (u_ID u) = Some u' \<and> u_Email u' = u_Email u \<and>
      verifyPassword (e_crypto v) p (u_PasswordHash u')) \<and>
    fst (ResetPassword v tok q w2) \<in> {Err ErrInvalidToken, Err ErrWeakPassword}"
  using reset_password_once[OF assms(1-3)] assms(4) by blast

theorem reset_token_is_spent_witness:
  "\<exists>w'. ResetPassword demo_host ''link'' ''new password'' demo_reset = (Ok (), w') \<and>
     fst (ResetPassword demo_host ''link'' ''another one'' w') \<in> {Err ErrInvalidToken, Err ErrWeakPassword}"
proof -
  obtain w' where r: "ResetPassword demo_host ''link'' ''new password'' demo_reset = (Ok (), w')"
    using demo_resets by blast
  show ?thesis using reset_token_is_spent[OF demo_reset_ok _ r refl] demo_lawful(1) r by auto
qed

section \<open>The user's own account\<close>

text \<open>C10: an account deletion that succeeds leaves nothing of the user: no record, no live session, no role in the
  tenant, no tenant membership, no metadata; and every other user's record, roles, memberships and metadata
  are as they were.\<close>

theorem deleted_account_is_gone:
  assumes "world_ok c w" "has_SessionAdminStore (e_caps v)" "DeleteAccount v i tn w = (Ok (), w')"
  shows "(\<forall>j. user_at (w_users w') j = (if j = i then None else user_at (w_users w) j)) \<and>
    (\<forall>j x. session_at (w_sessions w') j = Some x \<longrightarrow> s_UserID x = i \<longrightarrow> s_TenantID x = tn \<longrightarrow> s_RevokedAt x \<noteq> None) \<and>
    (\<forall>s s'. w_rbac w = Some s \<longrightarrow> w_rbac w' = Some s' \<longrightarrow>
       holds s' = {(u, t, r) \<in> holds s. \<not> (u = i \<and> t = tn)}) \<and>
    (\<forall>s s'. w_tenants w = Some s \<longrightarrow> w_tenants w' = Some s' \<longrightarrow> member s' = {(u, t) \<in> member s. u \<noteq> i}) \<and>
    (\<forall>s s' u. w_metadata w = Some s \<longrightarrow> w_metadata w' = Some s' \<longrightarrow>
       GetMetadata u s' = (if u = i then fmempty else GetMetadata u s))"
  using delete_account_wipes[OF assms] by simp

theorem deleted_account_is_gone_witness:
  "\<exists>w'. DeleteAccount demo_host ''usr_1'' [] demo_open = (Ok (), w') \<and> user_at (w_users w') ''usr_1'' = None \<and>
     (\<forall>j x. session_at (w_sessions w') j = Some x \<longrightarrow> s_UserID x = ''usr_1'' \<longrightarrow> s_TenantID x = [] \<longrightarrow>
       s_RevokedAt x \<noteq> None)"
proof -
  obtain w' where d: "DeleteAccount demo_host ''usr_1'' [] demo_open = (Ok (), w')" using demo_deletes by blast
  show ?thesis using deleted_account_is_gone[OF demo_open_ok _ d] d by (auto simp: memory_caps_def)
qed

section \<open>Tokens\<close>

text \<open>C11: round trip: a token the service issued is read back as exactly the claims of its issue, by every later
  check of its type, until its lifetime and the clock skew are over; as any other type it is invalid. (The
  claims hook must not add a reserved claim and must add printable values.)\<close>

theorem issued_token_reads_back:
  assumes "issueToken v user sid typ ttl w = (Ok (token, ex), w1)"
    and "hook_ok v user" "user_printable user" "valid_utf8 sid" "valid_utf8 typ"
      "valid_utf8 (cf_Issuer (e_cfg v))" "plausible (e_clock v (w_tick w))" "plausible ex"
  shows "\<exists>jti now. parseToken v token ty w2 =
    (if ty \<noteq> typ \<or> e_clock v (w_tick w2) > time_of_unix (unix_of ex) + cf_ClockSkew (e_cfg v)
     then Err ErrInvalidToken
     else Ok (issued_claims (e_cfg v) user sid jti typ now ex), w2\<lparr>w_tick := Suc (w_tick w2)\<rparr>)"
  using assms by (rule parse_issued)

theorem issued_token_reads_back_witness:
  "fst (parseToken demo_host (demo_token demo_user [] 1 ''temp'' (cf_TempTokenTTL demo_cfg)) ''access'' demo_world) =
     Err ErrInvalidToken"
proof -
  have i: "issueToken demo_host demo_user [] ''temp'' (cf_TempTokenTTL demo_cfg) demo_world =
      (Ok (demo_token demo_user [] 1 ''temp'' (cf_TempTokenTTL demo_cfg), demo_now + cf_TempTokenTTL demo_cfg),
       demo_world\<lparr>w_tick := Suc (Suc 0)\<rparr>)" by (simp add: demo_issueToken)
  have "plausible demo_now" "plausible (demo_now + cf_TempTokenTTL demo_cfg)"
    using demo_sane[of "[]"] by (auto simp: sane_clock_def)
  moreover have "valid_utf8 ''temp''" by (rule ascii_valid) simp
  ultimately show ?thesis
    using issued_token_reads_back[OF i demo_hook demo_user_printable, of "''access''" demo_world] demo_issuer by auto
qed

text \<open>C12: nothing is read out of a token before its signature is checked: whatever claims the verifier returns, the
  token is a header naming exactly HS256 and a payload, followed by the signature of the two under the
  configured secret, and the claims are the payload's.\<close>

theorem verified_tokens_are_signed:
  assumes "verified_claims c cfg token = Some claims"
  shows "\<exists>h p. token = h @ ''.'' @ p @ ''.'' @ sign c (h @ ''.'' @ p) (cf_Secret cfg) \<and>
    Option.bind (base64url_decode h) headerAlg = Some tokenAlg \<and>
    Option.bind (base64url_decode p) unmarshal_claims = Some claims"
  using assms by (rule verified_claims_sound)

theorem verified_tokens_are_signed_witness:
  "\<exists>h p. demo_refresh_token = h @ ''.'' @ p @ ''.'' @
     sign (demo_crypto demo_refresh_token) (h @ ''.'' @ p) (replicate 32 (CHR ''s''))"
proof -
  obtain claims where "parseToken demo_host demo_refresh_token ''refresh'' demo_world =
      (Ok claims, demo_world\<lparr>w_tick := Suc (w_tick demo_world)\<rparr>)"
    using demo_parse_refresh[of demo_world] by blast
  then have "verified_claims (demo_crypto demo_refresh_token) demo_cfg demo_refresh_token = Some claims"
    by (simp add: parseToken_Ok)
  from verified_tokens_are_signed[OF this] show ?thesis by (auto simp: demo_defs)
qed

section \<open>The stores\<close>

text \<open>C13: tenants are not kept apart by address. The tenant and the address make one index key and neither is escaped,
  so a user whose address reads \<open>b:e\<close> in a tenant is what a lookup of \<open>e\<close> finds in the other tenant \<open>t:b\<close>: that
  address is refused there as taken, and whoever knows the password is let in there, as the user of the first
  tenant.\<close>

theorem email_lookup_crosses_tenants:
  assumes "CreateUser u s = (Ok u, s')"
    and "normalizeEmail (u_Email u) = b @ '':'' @ normalizeEmail e"
  shows "let other = u_TenantID u @ '':'' @ b in
    other \<noteq> u_TenantID u \<and> GetUserByEmail e other s' = Ok u \<and>
    (\<forall>x. u_Email x = e \<and> u_TenantID x = other \<longrightarrow> CreateUser x s' = (Err ErrUserExists, s')) \<and>
    (\<forall>v p w. w_users w = s' \<and> verifyPassword (e_crypto v) p (u_PasswordHash u) \<and> u_IsEmailVerified u \<longrightarrow>
       loginPassword v e p other w = (Ok (u, requiresTwoFactor (e_cfg v) u), w))"
proof -
  have key: "userEmailKey e (u_TenantID u @ '':'' @ b) = userEmailKey (u_Email u) (u_TenantID u)"
    using assms(2) by (simp add: userEmailKey_def)
  then have found: "GetUserByEmail e (u_TenantID u @ '':'' @ b) s' = Ok u"
    using GetUserByEmail_create[OF assms(1)] by (simp add: GetUserByEmail_def)
  then show ?thesis using email_taken loginPassword_known by (simp add: Let_def)
qed

theorem email_lookup_crosses_tenants_witness:
  "let u = demo_user\<lparr>u_Email := ''Team:Ann@x.org'', u_TenantID := ''acme''\<rparr>;
       w = demo_world\<lparr>w_users := snd (CreateUser u NewMemoryUserStore)\<rparr>
   in GetUserByEmail '' ann@X.org'' ''acme:team'' (w_users w) = Ok u"
proof -
  let ?u = "demo_user\<lparr>u_Email := ''Team:Ann@x.org'', u_TenantID := ''acme''\<rparr>"
  have "normalizeEmail ''Team:Ann@x.org'' = ''team'' @ '':'' @ normalizeEmail '' ann@X.org''" by code_simp
  then show ?thesis
    using email_lookup_crosses_tenants[of ?u NewMemoryUserStore _ "''team''" "'' ann@X.org''"]
    by (simp add: Let_def CreateUser_def NewMemoryUserStore_def)
qed

text \<open>C14: the nested maps of the role store implement three relations: the defined roles, which permission a role
  grants, which user holds which role in which tenant. Each of the six operations is stated on all three, what it
  leaves alone included: deleting a role takes it from everyone and drops what it granted, creating one again
  replaces what it grants, granting a permission defines the role. The permission check is the composition, and
  the listings hold exactly what is related.\<close>

theorem roles_refine_relations:
  "fst (AddRoleToUser u r t s) = (if r \<in> defined_roles s then Ok () else Err ErrRoleNotFound) \<and>
   (defined_roles (snd (AddRoleToUser u r t s)), grants (snd (AddRoleToUser u r t s)),
    holds (snd (AddRoleToUser u r t s))) =
     (defined_roles s, grants s, holds s \<union> (if r \<in> defined_roles s then {(u, t, r)} else {})) \<and>
   fst (RemoveRoleFromUser u r t s) = Ok () \<and>
   (defined_roles (snd (RemoveRoleFromUser u r t s)), grants (snd (RemoveRoleFromUser u r t s)),
    holds (snd (RemoveRoleFromUser u r t s))) = (defined_roles s, grants s, holds s - {(u, t, r)}) \<and>
   (defined_roles (CreateRole r ps s), grants (CreateRole r ps s), holds (CreateRole r ps s)) =
     (insert r (defined_roles s), {(r', p) \<in> grants s. r' \<noteq> r} \<union> {r} \<times> set ps, holds s) \<and>
   (defined_roles (DeleteRole r s), grants (DeleteRole r s), holds (DeleteRole r s)) =
     (defined_roles s - {r}, {(r', p) \<in> grants s. r' \<noteq> r}, {(u, t, r') \<in> holds s. r' \<noteq> r}) \<and>
   (defined_roles (AddPermissionToRole r p s), grants (AddPermissionToRole r p s), holds (AddPermissionToRole r p s)) =
     (insert r (defined_roles s), insert (r, p) (grants s), holds s) \<and>
   (defined_roles (RemovePermissionFromRole r p s), grants (RemovePermissionFromRole r p s),
    holds (RemovePermissionFromRole r p s)) = (defined_roles s, grants s - {(r, p)}, holds s) \<and>
   (UserHasPermission u p t s \<longleftrightarrow> (\<exists>r. (u, t, r) \<in> holds s \<and> (r, p) \<in> grants s)) \<and>
   set (GetRolesForUser u t s) = {r. (u, t, r) \<in> holds s} \<and>
   set (GetPermissionsForRole r s) = {p. (r, p) \<in> grants s}"
  by (simp only: AddRoleToUser_spec RemoveRoleFromUser_spec CreateRole_spec DeleteRole_spec AddPermissionToRole_spec
      RemovePermissionFromRole_spec UserHasPermission_iff GetRolesForUser_spec GetPermissionsForRole_spec simp_thms)

section \<open>API keys\<close>



section \<open>Requests and links\<close>

text \<open>C16: a request without a bearer credential that the protection covers reaches the next handler only if its
  header repeats the token: the one in the token cookie, or, when there is no cookie, the one drawn while
  answering it, which the client cannot know.\<close>

theorem csrf_needs_the_token:
  assumes "cs_Enabled (hc_CSRF cfg)" "\<not> usingBearerCredential rq" "csrfEnforced rq (csrf_prefix cfg)"
    and "CSRFMiddleware c cfg rq k = ((cs, Next), k')"
  shows "trim_space (header_get rq (csrf_header cfg)) \<noteq> [] \<and>
    (trim_space (header_get rq (csrf_header cfg)) = CookieValue rq (csrf_cookie cfg) \<or>
     CookieValue rq (csrf_cookie cfg) = [] \<and>
     (\<exists>b. c_rand c k 16 = Inr b \<and> trim_space (header_get rq (csrf_header cfg)) = hex_encode b))"
  using assms by (rule csrf_passes_only_with_token)

theorem csrf_needs_the_token_witness:
  "CSRFMiddleware (demo_crypto []) DefaultHTTPConfig demo_form 0 = (([], Next), 0) \<and>
   trim_space (header_get demo_form (csrf_header DefaultHTTPConfig)) \<noteq> []"
proof -
  have "cs_Enabled (hc_CSRF DefaultHTTPConfig)" "\<not> usingBearerCredential demo_form"
    "csrfEnforced demo_form (csrf_prefix DefaultHTTPConfig)" by code_simp+
  moreover have "CSRFMiddleware (demo_crypto []) DefaultHTTPConfig demo_form 0 = (([], Next), 0)" by code_simp
  ultimately show ?thesis using csrf_needs_the_token by blast
qed

section \<open>Signing in through a provider\<close>

text \<open>C17: what a completed provider login means: the state carries the MAC of its payload under the secret and was
  accepted; the token endpoint of the configured provider of that name was given the code, with the verifier that
  belongs to the state's own nonce, and answered with an access token; its profile endpoint was given that token, and
  the profile is the mapping of the document it answered, under the provider's name; the profile passes the policy; the
  session opened belongs to the user the provider account is linked to in the state's tenant, else (by the policy) to
  the account of the profile's address, else to an account created for this profile; and no link but this one was
  added.\<close>

theorem oauth_login_is_earned:
  assumes "OAuthComplete v provider code raw w = (Inr (site, Inr (user, tokens)), w')"
  shows "\<exists>encoded service q st tenant w1 status body token ustatus ubody doc info.
    trim_space raw = encoded @ ''.'' @ sign (prims v) encoded (secret_of v) \<and>
    accept_state v provider raw w = (Inr (st, tenant), w1) \<and>
    requireProvider v provider = Inr service \<and> fmlookup (sv_providers service) provider = Some q \<and>
    (let io = oe_io v; k = w_tick (ow_world w1); verifier = pkceVerifier (prims v) (secret_of v) (os_N st) in
      io_http io k (TokenCall (pr_TokenURL q) (form_encode (token_form q code verifier))) = Reply status body \<and>
      status < 400 \<and> decode_token body = Some (token, []) \<and> token \<noteq> [] \<and>
      io_http io (Suc k) (UserInfoCall (pr_UserInfoURL q) token) = Reply ustatus ubody \<and> ustatus < 400 \<and>
      json_parse ubody = Some doc \<and> fst (mapProfile io service q token doc (Suc (Suc k))) = Some info) \<and>
    oi_Provider info = pr_Name q \<and> admit (provisioning v) info = Inr () \<and>
    callback_user info tenant (provisioning v) w user w' \<and> session_opened v user tokens w w'"
proof -
  obtain service st tenant w1 info w2 where run: "requireProvider v provider = Inr service"
    "accept_state v provider raw w = (Inr (st, tenant), w1)"
    "exchange v service provider code (pkceVerifier (prims v) (secret_of v) (os_N st)) w1 = (Inr info, w2)"
    "admit (provisioning v) info = Inr ()" "callback_user info tenant (provisioning v) w user w'"
    "session_opened v user tokens w w'"
    using OAuthComplete_Inr[OF assms] by blast
  obtain encoded where "trim_space raw = encoded @ ''.'' @ sign (prims v) encoded (secret_of v)"
    using accept_decodes[OF run(2)] decoded_state_signed by blast
  moreover obtain q where q: "fmlookup (sv_providers service) provider = Some q" "oi_Provider info = pr_Name q"
    using ExchangeCodePKCE_provider[OF exchanged[OF run(3)]] by blast
  ultimately show ?thesis
    using run ExchangeCodePKCE_calls[OF exchanged[OF run(3)], unfolded q(1) option.inject] unfolding Let_def by blast
qed

theorem oauth_login_is_earned_witness:
  "\<exists>tokens w' info. OAuthComplete demo_oauth ''acme'' ''code'' demo_raw demo_begun = (Inr ([], Inr (demo_user, tokens)), w') \<and>
     session_opened demo_oauth demo_user tokens demo_begun w'"
proof -
  obtain tokens w' where c: "OAuthComplete demo_oauth ''acme'' ''code'' demo_raw demo_begun =
      (Inr ([], Inr (demo_user, tokens)), w')" using demo_completes by blast
  then show ?thesis using oauth_login_is_earned[OF c] by blast
qed

text \<open>C18: with the stash configured a login state works once: when it has been accepted, whatever calls follow
  (other logins, links, anything the service does), presenting it again is refused before the provider is
  asked, and changes nothing.\<close>

theorem login_state_works_once:
  assumes "fresh_draws (prims v)" "oe_has_links v" "oe_has_pending v"
    "ow_pending w0 = fmempty" "oauth_run v w0 w"
    "accept_state v provider raw w = (Inr (st, tenant), w1)" "oauth_run v w1 w2"
    "requireProvider v provider' = Inr service"
  shows "\<exists>n. OAuthComplete v provider' code raw w2 = (Inr ([], Inl errOAuthStateInvalid), ticked n w2)"
proof -
  obtain n where "accept_state v provider' raw w2 = (Inl errOAuthStateInvalid, ticked n w2)"
    using nonce_single_use[OF assms(1-7)] by blast
  from OAuthComplete_refused[OF this] show ?thesis using assms(8) by auto
qed

theorem login_state_works_once_witness:
  "\<exists>n. OAuthComplete demo_oauth ''acme'' ''code'' demo_raw demo_accepted =
     (Inr ([], Inl errOAuthStateInvalid), ticked n demo_accepted)"
proof -
  have run: "oauth_run demo_oauth demo_ow demo_begun"
    using oauth_step.call[OF oauth_call.intros(1)[of demo_oauth demo_ow "''acme''" "[]" "[]" "[]"]]
    by (simp add: demo_begins)
  show ?thesis
    by (rule login_state_works_once[OF _ _ _ _ run demo_accepts rtranclp.rtrancl_refl, of "''acme''" demo_service])
      (simp_all add: demo_fresh demo_ow_def)
qed

text \<open>C19: a link token works once: a confirmation that succeeds adds exactly the link that was requested, to the
  user it was stashed for, and the same token presented again is invalid.\<close>

theorem link_token_works_once:
  assumes "LinkVerify v token login w = (Inr outcome, w')"
  shows "(\<exists>meta expiry i now. fmlookup (ow_pending w) (linkTokenKey (prims v) (trim_space token)) = Some (meta, expiry) \<and>
      ow_links w' = link_Save (confirmed_link i meta now) (ow_links w)) \<and>
    LinkVerify v token login' w' = (Inl errLinkTokenInvalid, ticked 1 w')"
  using link_verify_Inr[OF assms] link_verify_once[OF assms] by blast

theorem link_token_works_once_witness:
  "\<exists>w'. LinkVerify demo_oauth ''link'' False demo_confirming = (Inr None, w') \<and>
     LinkVerify demo_oauth ''link'' True w' = (Inl errLinkTokenInvalid, ticked 1 w')"
proof -
  obtain w' where c: "LinkVerify demo_oauth ''link'' False demo_confirming = (Inr None, w')"
    using demo_confirms by blast
  then show ?thesis using link_token_works_once[OF c, of True] by blast
qed

text \<open>C20: when a provider account is linked a second time, its older link can never be removed: it stays in
  its owner's listing through whatever is linked and unlinked afterwards.\<close>

theorem relinked_account_is_stuck:
  assumes "linked_ok s" "l \<in> set (ListForUser (la_UserID l) s)" "la_ID k \<notin> fmdom' (ls_byID s)"
    "la_Provider k = la_Provider l" "la_ProviderID k = la_ProviderID l"
    "fresh_ids steps (insert (la_ID k) (fmdom' (ls_byID s)))"
  shows "l \<in> set (ListForUser (la_UserID l) (link_run steps (link_Save k s)))"
proof -
  have "stale l (link_run steps (link_Save k s))"
    using stale_link_is_stuck[OF linked_ok_Save[OF assms(1,3)] relinked_is_stale[OF assms(1-5)], of steps] assms(6)
    by (simp add: link_Save_ids)
  then show ?thesis by (simp add: stale_def)
qed

theorem relinked_account_is_stuck_witness:
  "demo_link \<in> set (ListForUser ''usr_1'' (UnlinkAccount ''usr_1'' ''acme'' ''42''
     (link_Save (demo_link\<lparr>la_ID := ''lnk_2''\<rparr>) (link_Save demo_link NewMemoryLinkedAccounts))))"
  using relinked_account_is_stuck[OF linked_ok_Save[OF linked_ok_new], of demo_link demo_link "demo_link\<lparr>la_ID := ''lnk_2''\<rparr>"
      "[Unlinked ''usr_1'' ''acme'' ''42'']"]
  by (simp add: demo_link_simps link_Save_ids)

section \<open>The identity provider and its resource servers\<close>

text \<open>C21: an authorization code works once: when \<open>/token\<close> has answered for a code, no later request with that
  code is answered, whatever authorizations, exchanges and service calls come in between, by whichever client.
  The provider started without codes it did not draw, and two draws do not give one code hash.\<close>

theorem authorization_code_works_once:
  assumes "fresh_codes v" "codes_drawn v s0" "idp_run v s0 s"
    and "handleToken v idp (Some form) s = (JsonAnswer body, s1)" "idp_run v s1 s2"
    and "values_get form' ''code'' = values_get form ''code''"
  shows "\<nexists>b. fst (handleToken v idp' (Some form') s2) = JsonAnswer b"
  using code_works_once[OF assms] .

theorem authorization_code_works_once_witness:
  "\<exists>s1. \<nexists>b. fst (handleToken demo_idp_env demo_idp
      (Some (demo_grant (base64url_encode demo_code_bytes))) s1) = JsonAnswer b"
proof -
  obtain s where s: "handleAuthorize demo_idp_env demo_endpoint_parser demo_idp demo_authorize demo_idp_start =
      (RedirectAnswer ''https://app/cb'', s)" "w_users (iw_world s) = w_users demo_world" "w_tick (iw_world s) = 9"
    "fmlookup (iw_codes s) (hashToken demo_sha (base64url_encode demo_code_bytes)) =
       Some (issued_code demo_sha demo_idp demo_query ''https://app/cb'' demo_user
         (base64url_encode demo_code_bytes) demo_now)"
    using demo_authorizes by blast
  obtain body s1 where t: "handleToken demo_idp_env demo_idp (Some (demo_grant (base64url_encode demo_code_bytes))) s =
      (JsonAnswer body, s1)"
    using demo_redeems[OF s(2-4)] by blast
  have run: "idp_run demo_idp_env demo_idp_start s"
    using idp_step.authorize[of demo_idp_env demo_idp_start demo_endpoint_parser demo_idp demo_authorize] s(1) by auto
  have "codes_drawn demo_idp_env demo_idp_start" by (simp add: codes_drawn_def demo_idp_start_def)
  from authorization_code_works_once[OF demo_fresh_codes this run t rtranclp.rtrancl_refl refl] show ?thesis by blast
qed

text \<open>C22: what a resource server accepts under RS256 was signed with a key the issuer published: the header says
  RS256, the key was in a document that a completed fetch returned under the key id of the header, the signature is
  over exactly the presented header and payload, the claims are those of the payload, not expired, and of the
  expected issuer when one is configured.\<close>

theorem rs256_token_is_signed:
  assumes "waits (rv_await rv)" "client_ok c" "VerifyRS256 rv token iss c = (Ok claims, c')"
  shows "(\<exists>h p s raw kid key. token = h @ ''.'' @ p @ ''.'' @ s \<and>
      Option.bind (base64url_decode h) headerAlg = Some rs256Alg \<and>
      Option.bind (base64url_decode h) headerKid = Some kid \<and>
      (\<exists>d\<in>served c'. \<exists>j\<in>set d. jk_Kid j = kid \<and> RSAPublicKey j = Ok key) \<and>
      base64url_decode s = Some raw \<and> rv_verify rv key (rv_sha256 rv (h @ ''.'' @ p)) raw \<and>
      Option.bind (base64url_decode p) (unmarshal_object (rv_num rv)) = Some claims) \<and>
    (\<forall>e. numericClaim (rv_num rv) claims ''exp'' = Some e \<longrightarrow> rv_now rv 3 < unix_time e) \<and>
    (iss = [] \<or> claim_string claims ''iss'' = iss)"
  using VerifyRS256_sound[OF assms] unfolding served_key_def by blast

theorem rs256_token_is_signed_witness:
  "\<exists>claims h p s. VerifyRS256 demo_hasty (h @ ''.'' @ p @ ''.'' @ s) ''https://i'' demo_warm = (Ok claims, demo_warm) \<and>
     base64url_decode s = Some (h @ ''.'' @ p)"
proof -
  obtain token claims where t: "VerifyRS256 demo_hasty token ''https://i'' demo_warm = (Ok claims, demo_warm)"
    using demo_hasty_verifies by blast
  have "waits (rv_await demo_hasty)" by (simp add: waits_def demo_hasty_def)
  from rs256_token_is_signed[OF this demo_warm_ok t] obtain h p s raw key where
    "token = h @ ''.'' @ p @ ''.'' @ s" "base64url_decode s = Some raw"
    "rv_verify demo_hasty key (rv_sha256 demo_hasty (h @ ''.'' @ p)) raw" by blast
  moreover from this(3) have "raw = h @ ''.'' @ p" by (simp add: demo_hasty_def demo_verifier_def)
  ultimately show ?thesis using t by blast
qed

text \<open>C23: round trip through the network, in a deployment without a claims hook (one may overwrite any claim): either
  token of a pair the identity provider issued verifies at a resource server that trusts the provider's own endpoint
  and has fetched nothing yet, until the token expires, and the principal is the user the pair was issued for: the id,
  the address, the role, the provider and both flags; but never the tenant. (The user's fields and the published keys
  are valid UTF-8, the signing key is sound, and the clock is within the range a claim can hold.)\<close>

theorem issued_pair_is_accepted:
  assumes "federated rv v idp pub" "publishable idp" "e_claims v = None"
    and "IssueIdPTokenPair v idp user w = (Ok tokens, w')" "user_printable user"
    and "cold cl" "rv_await rv = ends_with (endpoint_reply idp origin) t"
    and "now = ip_now idp (w_tick w)" "near now" "near (now + ttl)"
    and "(token, ttl) \<in> {(at_AccessToken tokens, accessTokenTTL idp), (at_RefreshToken tokens, refreshTokenTTL idp)}"
    and "rv_now rv 3 < time_of_unix (unix_of (now + ttl))" "iss \<in> {[], ic_Issuer (ip_cfg idp)}"
  shows "\<exists>claims. fst (VerifyRS256 rv token iss cl) = Ok claims \<and>
    (let u = UserFromRS256Claims claims in
     u_ID u = u_ID user \<and> u_Email u = u_Email user \<and> u_Role u = u_Role user \<and>
     u_LoginProvider u = loginProviderOrLocal user \<and> u_IsEmailVerified u = u_IsEmailVerified user \<and>
     u_IsTOTPEnabled u = u_IsTOTPEnabled user \<and> u_TenantID u = [])"
  using pair_accepted_end_to_end[OF assms] pair_principal by blast

theorem issued_pair_is_accepted_witness:
  "\<exists>token claims. fst (VerifyRS256 (demo_verifier (endpoint_reply demo_idp [])) token ''https://i'' demo_jwks_client)
     = Ok claims \<and> u_ID (UserFromRS256Claims claims) = ''usr_1''"
proof -
  obtain tokens w' where i: "IssueIdPTokenPair demo_idp_env demo_idp demo_user demo_world = (Ok tokens, w')"
    using demo_pair by blast
  have t: "ip_now demo_idp k = demo_now" for k by (simp add: demo_idp_def)
  have "rv_await (demo_verifier (endpoint_reply demo_idp [])) = ends_with (endpoint_reply demo_idp []) demo_now"
    "rv_now (demo_verifier (endpoint_reply demo_idp [])) 3 <
       time_of_unix (unix_of (demo_now + accessTokenTTL demo_idp))"
    "''https://i'' \<in> {[], ic_Issuer (ip_cfg demo_idp)}"
    by (simp_all add: demo_verifier_def demo_now_def unix_of_def time_of_unix_def accessTokenTTL_def demo_idp_def
        demo_idp_cfg_def defaultIDPAccessTokenTTL_def)
  from issued_pair_is_accepted[OF demo_federated demo_publishable demo_idp_env_simps(5) i demo_printable demo_cold(1) this(1)
      t[symmetric] demo_near(1,2) _ this(2,3), of "at_AccessToken tokens"]
  show ?thesis by (auto simp: Let_def demo_user_def)
qed

text \<open>C24: an outage of the issuer alone does not stop a resource server: whatever reads begin and whatever fetches
  fail meanwhile, a key of the document it last fetched is still found in it, even after the document expired.\<close>

theorem outage_serves_stale_keys:
  assumes "jc_doc c = Some d" "key_in d kid = Ok key" "rv_await rv = ends_with NoAnswer t"
  shows "fst (lookup_key rv kid (fold outage evs c)) = Ok key"
  by (rule lookup_key_outage[OF _ assms(2,3)]) (simp add: outage_keeps_document assms(1))

theorem outage_serves_stale_keys_witness:
  "fst (lookup_key (demo_at (demo_now + 9 * hour)) ''k1''
     (fold outage [ReadAt (demo_now + 2 * hour), FailedAt 1 (Message ''down'') (demo_now + 2 * hour)] demo_warm))
   = Ok demo_public"
  by (rule outage_serves_stale_keys[OF _ demo_rsa_key(1)]) (simp_all add: demo_at_def demo_verifier_def)

text \<open>C25: but one token with a made-up key id does: during an outage, and once the cached document is older than the
  minimal interval between refreshes, it makes the client drop a document that has not expired. A key that was found
  before is then refused, and every later token begins a fetch of its own.\<close>

theorem junk_key_id_evicts_keys:
  assumes "jc_doc c = Some d" "key_in d kid = Ok key" "key_in d junk = Inl errJWKSKeyNotFound"
    and "rv_now rv 0 < jc_expiry c" "jc_minRefresh c \<le> rv_now rv 1 - jc_fetchedAt c"
    and "rv_await rv = ends_with NoAnswer t" "rv_await rv' = ends_with NoAnswer t'"
    and "token_kid bad = Ok (junk, h, p, s)" "VerifyRS256 rv bad iss c = (r, c')"
    and "token_kid good = Ok (kid, h', p', s')" "VerifyRS256 rv' good iss c' = (r', c'')"
  shows "lookup_key rv kid c = (Ok key, c) \<and> \<not> is_ok r \<and> \<not> is_ok r' \<and> jc_doc c'' = None \<and>
    jc_started c'' = Suc (Suc (jc_started c))"
proof -
  note e = junk_kid_evicts[OF assms(1,4,3,5,6,8,9)]
  show ?thesis
    using lookup_key_cached[OF assms(1,4,2)] e(2,3) cold_outage_refuses[OF e(1) assms(7,11)] assms(10)
    by (simp add: cold_def)
qed

theorem junk_key_id_evicts_keys_witness:
  "let c' = snd (VerifyRS256 (demo_at (demo_now + minute)) demo_junk_token [] demo_warm)
   in jc_doc (snd (VerifyRS256 (demo_at (demo_now + minute)) (signing_input ''k1'' fmempty @ ''.'' @ []) [] c')) = None"
proof -
  have k: "token_kid (signing_input ''k1'' fmempty @ ''.'' @ base64url_encode []) = Ok (''k1'',
      base64url_encode (rs256_header ''k1''), base64url_encode (json_print (json_of_object fmempty)), base64url_encode [])"
    using demo_federated[of NoAnswer] by (intro token_kid_built) (simp_all add: federated_def demo_idp_def)
  have e: "base64url_encode [] = []" by code_simp
  have a: "rv_await (demo_at t) = ends_with NoAnswer demo_now" "rv_now (demo_at t) n = t" for t n
    by (simp_all add: demo_at_def demo_verifier_def)
  show ?thesis
    using junk_key_id_evicts_keys[OF _ demo_rsa_key _ _ a(1) a(1) demo_junk prod.collapse[symmetric] k[unfolded e]
        prod.collapse[symmetric], of demo_warm "demo_now + minute" "[]"]
    by (simp add: a Let_def)
qed

section \<open>The tools: event stream, telemetry, inbound webhooks\<close>

text \<open>C26: however broadcasts, opening streams, writing loops and disconnections interleave, everything ever written
  to a stream that belongs to a tenant is a heartbeat, the frame that opened it, or the frame of an event that
  was broadcast on a topic the stream holds and that names no tenant or that very tenant.\<close>

theorem stream_keeps_tenants_apart:
  assumes "hub_run v H P m" "a < length (sm_heap m)" "f \<in> set (cn_wire (conn m a))" "cn_tenantID (conn m a) \<noteq> []"
  shows "f = sseHeartbeatFrame \<or> (\<exists>e t ts. f = connected_frame e t (cn_id (conn m a)) ts) \<or>
    (\<exists>(topic, ev)\<in>H. topic |\<in>| cn_topics (conn m a) \<and> event_frame ev = Some f \<and>
       sv_TenantID ev \<in> {[], cn_tenantID (conn m a)})"
proof -
  from stream_tenant[OF assms(1-3)] consider "f = sseHeartbeatFrame" | e t ts where "f = connected_frame e t (cn_id (conn m a)) ts"
    | topic ev where "(topic, ev) \<in> H" "entitled topic ev (conn m a)" "event_frame ev = Some f"
    unfolding may_carry_def meant_for_def by blast
  then show ?thesis using assms(4) by cases (auto simp: entitled_def)
qed

theorem stream_keeps_tenants_apart_witness:
  "\<exists>f\<in>set (cn_wire (conn demo_heard 0)). \<exists>H. f = sseHeartbeatFrame \<or>
    (\<exists>e t ts. f = connected_frame e t (cn_id (conn demo_heard 0)) ts) \<or>
    (\<exists>(topic, ev)\<in>H. topic |\<in>| cn_topics (conn demo_heard 0) \<and> event_frame ev = Some f \<and> sv_TenantID ev \<in> {[], ''t''})"
proof -
  obtain H where run: "hub_run demo_sse H {#} demo_heard" using demo_heard_run by blast
  have "cn_tenantID (conn demo_heard 0) \<noteq> []" using demo_heard_wire(3) by simp
  from stream_keeps_tenants_apart[OF run demo_heard_wire(2,1) this] show ?thesis
    using demo_heard_wire(1) unfolding demo_heard_wire(3) by blast
qed

text \<open>C27: where the hub removes duplicates and no distributor relays, a stream opened without asking for topics, whose
  queue has room, gets a bridged event of its tenant, or of none, exactly once, under \<open>global\<close>, although the event goes
  out on up to four topics; the identifier, the name and the whole record of the event are in the frame. (The
  event carries a time, its identifier could be drawn, and the stream was not sent that identifier last.)\<close>

theorem tracked_event_arrives_once:
  assumes "ev_Timestamp ev \<noteq> zero_time" "ss_format (tl_sse t) (ev_Timestamp ev) \<noteq> []" "event_id t w \<noteq> []"
    and "tw_sse w = Some m" "hub_ok m" "registered m a" "sm_deduplicate m" "sm_distributor m = None"
    and "cn_lastEventID (conn m a) \<noteq> event_id t w" "int (length (cn_out (conn m a))) < sm_sendBuffer m"
    and "cn_topics (conn m a) = fset_of_list (StreamTopics user tenant [])" "cn_tenantID (conn m a) = tenant"
    and "ev_TenantID ev = [] \<or> tenant = [] \<or> ev_TenantID ev = tenant"
  shows "\<exists>m' f. tw_sse (bridge_handler t ev w) = Some m' \<and> cn_out (conn m' a) = cn_out (conn m a) @ [f] \<and>
    event_frame ((stream_event t (event_id t w) (telemetry_of (event_id t w) ev) ev)\<lparr>sv_Topic := SseTopicGlobal\<rparr>) = Some f"
proof -
  let ?se = "stream_event t (event_id t w) (telemetry_of (event_id t w) ev) ev"
  have "SseTopicGlobal |\<in>| cn_topics (conn m a)" using assms(11) by (simp add: StreamTopics_def Let_def)
  then have g: "find (\<lambda>topic. entitled topic ?se (conn m a)) (EventTopics ev) = Some SseTopicGlobal"
    using assms(12,13) by (intro find_global) (auto simp: stream_event_def)
  have "event_frame (?se\<lparr>sv_Topic := SseTopicGlobal\<rparr>) \<noteq> None"
    using complete_frame[OF stream_event_complete[OF assms(3,2)]] by blast
  then show ?thesis
    using fanOut_once[where b = False, OF assms(1-10)] g by (auto simp: bridge_handler_def Let_def)
qed

theorem tracked_event_arrives_once_witness:
  "\<exists>m' f. tw_sse (bridge_handler demo_tools (demo_tracked ''x'') demo_tools_world) = Some m' \<and> cn_out (conn m' 0) = [f]"
proof -
  have e: "ev_Timestamp (demo_tracked ''x'') \<noteq> zero_time" "ss_format (tl_sse demo_tools) k \<noteq> []"
    "tw_sse demo_tools_world = Some demo_listening" "ev_TenantID (demo_tracked ''x'') = ''t''" for k
    by (simp_all add: demo_tracked_def zero_event_def demo_now_def zero_time_def demo_tools_def demo_sse_def demo_tools_world_def)
  have i: "event_id demo_tools demo_tools_world \<noteq> []"
    "cn_lastEventID (conn demo_listening 0) \<noteq> event_id demo_tools demo_tools_world"
    unfolding demo_event_id demo_registered(4) using demo_id_nonempty(1)[of 3] by simp_all
  have r: "int (length (cn_out (conn demo_listening 0))) < sm_sendBuffer demo_listening"
    by (simp add: demo_registered)
  from tracked_event_arrives_once[OF e(1,2) i(1) e(3) demo_hub_ok demo_registered(1,6,7) i(2) r demo_registered(2,3)]
  show ?thesis using e(4) demo_registered(5) by auto
qed

text \<open>C28: the name of a tracked event is taken from the path and written to the stream as it is. One request to the track
  route, with encoded line breaks in the name, is answered 202 and puts one frame into the queue of a listening stream
  that every browser reads as two messages: the first with a type and data of the caller's choice under the genuine
  identifier, the second under an identifier of the caller's choice. (The guard lets the caller in; the stream is as in
  the delivery of one event, and no subscriber of the bus touches the hub.)\<close>

theorem event_name_forges_message:
  assumes "tq_EscapedPath rq = mount @ ToolsTrackPath @ ''/'' @ percent_encode (forging_type t d i t')" "rq_Method rq = ''POST''"
    and "one_line t" "one_line d" "one_line i" "one_line t'"
    and "tf_Telemetry (Features o')" "ToolsProtectMiddleware o' (toolsTrackHandler cfg o' mount) = toolsTrackHandler cfg o' mount"
    and "tp_AuthTools o' = Some facade" "decode_track (tc_number cfg) (tq_Body rq) = Some body" "tb_Data body = None"
    and "ss_clock (tl_sse facade) (tw_tick w) \<noteq> zero_time"
      "ss_format (tl_sse facade) (ss_clock (tl_sse facade) (tw_tick w)) \<noteq> []"
    and "newUUIDv4 (ss_crypto (tl_sse facade)) (Suc (tw_tick w)) = (Ok k, n)"
    and "\<And>ev w'. tw_sse (tl_subscribers facade ev w') = tw_sse w'"
    and "tw_sse w = Some m" "hub_ok m" "registered m a" "sm_deduplicate m" "sm_distributor m = None"
      "cn_lastEventID (conn m a) \<noteq> k" "int (length (cn_out (conn m a))) < sm_sendBuffer m"
    and "SseTopicGlobal |\<in>| cn_topics (conn m a)"
      "tb_TenantID body = [] \<or> cn_tenantID (conn m a) = [] \<or> cn_tenantID (conn m a) = tb_TenantID body"
  shows "\<exists>w' m' f d'. ToolsHandler cfg o' ib mount format flushes written rq w = (ToolsOK 202, w') \<and>
    tw_sse w' = Some m' \<and> cn_out (conn m' a) = cn_out (conn m a) @ [f] \<and> read_stream f = [(k, t, d), (i, t', d')]"
proof -
  have name: "toolsPathParam mount rq ToolsTrackPath = forging_type t d i t'"
    using assms(1) by (rule any_event_name) (simp_all add: ToolsTrackPath_def forging_type_def)
  obtain w' m' ev f where run: "toolsTrackHandler cfg o' mount rq w = (ToolsOK 202, w')" "tw_sse w' = Some m'"
    "cn_out (conn m' a) = cn_out (conn m a) @ [f]" "ev_Name ev = forging_type t d i t'" "ev_Data ev = None"
    "event_frame ((stream_event facade k (telemetry_of k ev) ev)\<lparr>sv_Topic := SseTopicGlobal\<rparr>) = Some f"
    using track_route_frame[OF assms(9,10,12-24), of mount] unfolding name assms(11) by blast
  let ?se = "(stream_event facade k (telemetry_of k ev) ev)\<lparr>sv_Topic := SseTopicGlobal\<rparr>"
  have plain: "plain_event ?se"
    using plain_record[of "telemetry_of k ev"] run(5) by (simp add: plain_event_def telemetry_of_def)
  have "\<exists>d'. read_stream f = [(k, t, d), (i, t', d')]"
    using event_frame_forged[OF run(6) plain, of t d i t' "[]" "[]"] assms(3-6) run(4) one_line_uuid[OF assms(14)]
    by (simp add: stream_event_def read_stream_def)
  moreover have "ToolsHandler cfg o' ib mount format flushes written rq w = (ToolsOK 202, w')"
    using assms(2,7,8) name run(1) by (simp add: ToolsHandler_def Let_def forging_type_def)
  ultimately show ?thesis using run(2,3) by blast
qed

theorem event_name_forges_message_witness:
  "\<exists>w' m' f d'. ToolsHandler demo_libs (demo_options\<lparr>tp_Access := None\<rparr>) demo_inbound ''/tools'' (\<lambda>t. []) True None
       (demo_tools_request (forging_type ''alert'' ''1'' ''j'' ''y'')) demo_tools_world = (ToolsOK 202, w') \<and>
     tw_sse w' = Some m' \<and> cn_out (conn m' 0) = [f] \<and> read_stream f = [(demo_id 4, ''alert'', ''1''), (''j'', ''y'', d')]"
proof -
  let ?rq = "demo_tools_request (forging_type ''alert'' ''1'' ''j'' ''y'')" and ?o = "demo_options\<lparr>tp_Access := None\<rparr>"
  let ?body = "\<lparr>tb_Data = None, tb_UserID = None, tb_TenantID = [], tb_SessionID = [], tb_CorrelationID = []\<rparr>"
  have rq: "tq_EscapedPath ?rq = ''/tools'' @ ToolsTrackPath @ ''/'' @ percent_encode (forging_type ''alert'' ''1'' ''j'' ''y'')"
    "rq_Method ?rq = ''POST''" "tq_Body ?rq = None" by (simp_all add: demo_tools_request_def)
  have o': "tf_Telemetry (Features ?o)" "ToolsProtectMiddleware ?o h = h" "tp_AuthTools ?o = Some demo_tools" for h
    by (simp_all add: Features_def demo_options_def ToolsProtectMiddleware_def)
  have body: "decode_track (tc_number demo_libs) (tq_Body ?rq) = Some ?body"
    by (simp add: rq(3) decode_track_def first_value_def field_values_def)
  have t: "ss_clock (tl_sse demo_tools) n \<noteq> zero_time" "ss_format (tl_sse demo_tools) n' \<noteq> []"
    "ss_crypto (tl_sse demo_tools) = demo_crypto []" "tl_subscribers demo_tools ev w' = w'"
    "tw_sse demo_tools_world = Some demo_listening" "tw_tick demo_tools_world = 3" for n n' ev w'
    by (simp_all add: demo_tools_def demo_sse_def demo_now_def zero_time_def demo_tools_world_def)
  have k: "newUUIDv4 (ss_crypto (tl_sse demo_tools)) (Suc (tw_tick demo_tools_world)) = (Ok (demo_id 4), 5)"
    using demo_uuid[of 4] by (simp add: t)
  show ?thesis
    using event_name_forges_message[OF rq(1,2) _ _ _ _ o'(1,2,3) body _ t(1,2) k _ t(5) demo_hub_ok demo_registered(1,6,7),
        where ib = demo_inbound and format = "\<lambda>t. []" and flushes = True and written = None]
      demo_id_nonempty(1)[of 4, symmetric]
    by (simp add: t(4) demo_registered(2-5,8) StreamTopics_def Let_def)
qed

text \<open>C29: the loop that answers a telemetry query is the page of the matching events: the filter in the order of
  recording, the offset dropped, the limit taken; successive pages lose and repeat nothing.\<close>

theorem telemetry_query_is_a_page:
  "Query f events = (let found = drop (nat (tf_Offset f)) (filter (telemetry_matches f) events) in
     if tf_Limit f \<le> 0 then found else take (nat (tf_Limit f)) found) \<and>
   concat (map (\<lambda>i. Query (f\<lparr>tf_Offset := int (i * Suc n), tf_Limit := int (Suc n)\<rparr>) events) [0..<m]) =
     take (m * Suc n) (filter (telemetry_matches f) events)"
  using Query_page pages_are_a_prefix[of "Suc n"] by (intro conjI) simp_all

text \<open>C30: a request that the host's guard refuses has no effect through the tools router, on any route but the inbound
  webhook's, whichever features are on; and the answer is the guard's, a document, or not found. A token in the query
  gets around the guard on no route: on the stream route alone it takes the place of the request's credential, and it
  is the guard that is asked again.\<close>

theorem tools_guard_covers:
  assumes "tp_Access o' = ToolsProtected (Some mw)" "\<And>next. mw next rq w = (denied, w)"
    and "\<And>token next. toolsSseQueryToken rq = Some token \<Longrightarrow> toolsRouterPath mount rq = ToolsStreamPath \<Longrightarrow>
      mw next (rq\<lparr>rq_Headers := header_set ''Authorization'' (''Bearer '' @ token) (rq_Headers rq)\<rparr>) w = (denied', w)"
    and "\<not> (toolsInboundMounted o' ib \<and> rq_Method rq = ''POST'' \<and> toolsPathParam mount rq ToolsWebhookPath \<noteq> [])"
  shows "snd (ToolsHandler cfg o' ib mount format flushes written rq w) = w \<and>
    fst (ToolsHandler cfg o' ib mount format flushes written rq w) \<in> {denied, denied', ToolsSpec, ToolsPage, ToolsNotFound}"
  using guard_covers[OF assms] by blast

theorem tools_guard_covers_witness:
  "let rq = (demo_tools_request ''x'')\<lparr>tq_Query := fmap_of_list [(''token'', [''stolen''])]\<rparr>
   in toolsSseQueryToken rq = Some ''stolen'' \<and>
      snd (ToolsHandler demo_libs demo_options demo_inbound ''/tools'' (\<lambda>t. []) True None rq demo_tools_world) = demo_tools_world"
proof -
  let ?rq = "(demo_tools_request ''x'')\<lparr>tq_Query := fmap_of_list [(''token'', [''stolen''])]\<rparr>"
  have o': "tp_Access demo_options = ToolsProtected (Some (\<lambda>next rq w. (ToolsError HTTPErrInvalidAccessToken, w)))"
    and q: "toolsSseQueryToken ?rq = Some ''stolen''" and i: "\<not> toolsInboundMounted demo_options demo_inbound"
    by (simp_all add: demo_options_def toolsSseQueryToken_def query_values_def demo_tools_request_def
        toolsInboundMounted_def demo_inbound_def ToolsStreamTokenParam_def)
  show ?thesis using tools_guard_covers[OF o' refl refl, where rq = ?rq] i q by (simp add: Let_def)
qed

text \<open>C31: the runner of a webhook's script is told of no action that the administrator has not enabled or that the
  webhook is not assigned, and of none at all when the settings are missing or cannot be read.\<close>

theorem script_gets_allowed_actions:
  assumes "ib_runner ib = Some run" "runInboundScript ib provider config body k = (r, k')"
  shows "\<exists>q n. r = map_sum id (\<lambda>(x, emits). if emits then Some x else None) (run n q) \<and> iq_Script q = wc_JSScript config \<and>
    set (iq_Actions q) \<subseteq> set (case wc_AllowedActions config of None \<Rightarrow> [] | Some xs \<Rightarrow> xs) \<and>
    (case ib_settings ib of
       None \<Rightarrow> iq_Actions q = []
     | Some get \<Rightarrow> (case get k of
         Inl _ \<Rightarrow> iq_Actions q = []
       | Inr s \<Rightarrow> set (iq_Actions q) \<subseteq> set (case as_EnabledWebhookActions s of None \<Rightarrow> [] | Some xs \<Rightarrow> xs)))"
proof -
  obtain q n where "set (iq_Actions q) \<subseteq> set (fst (inboundEnabledActions ib k))"
    "set (iq_Actions q) \<subseteq> set (case wc_AllowedActions config of None \<Rightarrow> [] | Some xs \<Rightarrow> xs)"
    "r = map_sum id (\<lambda>(x, emits). if emits then Some x else None) (run n q)" "iq_Script q = wc_JSScript config"
    using script_actions[OF assms] by blast
  then show ?thesis
    by (intro exI[of _ q] exI[of _ n]) (auto simp: inboundEnabledActions_def split: option.splits sum.splits)
qed

theorem script_gets_allowed_actions_witness:
  "\<exists>q n. Inr None = map_sum id (\<lambda>(x, emits). if emits then Some x else None) (demo_runner n q) \<and> iq_Actions q = []"
  using script_gets_allowed_actions[of demo_inbound demo_runner "''p''" demo_script "[]" 0 "Inr None" 1]
  by (auto simp: runInboundScript_def demo_inbound_def inboundEnabledActions_def demo_runner_def Let_def)

section \<open>The console\<close>

text \<open>C32: whoever the console's guard lets in as somebody presented a token signed under the console's secret with
  HMAC-SHA-256, by this issuer and not yet expired. He is root only by a token that the console itself issued; any
  other is a stored user, and the policy grants him entry. The guard changes nothing but the count of clock readings.\<close>

theorem admin_entry_is_earned:
  assumes "authorise v cfg g rq w = (AdminGranted (Some u), w')"
  shows "\<exists>p claims h b. ag_policy g = Some p \<and> ag_jwtSecret g \<noteq> [] \<and>
    admin_token g cfg (http_request.truncate rq) = h @ ''.'' @ b @ ''.'' @ sign (e_crypto v) (h @ ''.'' @ b) (ag_jwtSecret g) \<and>
    signed_admin_claims (e_crypto v) (ag_jwtSecret g) (admin_token g cfg (http_request.truncate rq)) = Some claims \<and>
    dc_Iss claims = cf_Issuer (e_cfg v) \<and> dc_Sub claims \<noteq> [] \<and>
    e_clock v (w_tick w) \<le> unix_time (dc_Exp claims) + cf_ClockSkew (e_cfg v) \<and>
    (dc_Typ claims = adminTokenType \<and> dc_IsRoot claims \<and> u = root_user claims \<or>
     dc_Typ claims \<in> {adminTokenType, adminAccessTokenType} \<and>
     GetUserByID (dc_Sub claims) (dc_Tid claims) (w_users w) = Ok u \<and>
     fst (fst (evaluate v p u (w\<lparr>w_tick := Suc (w_tick w)\<rparr>)))) \<and>
    only_ticks w w'"
  using assms by (rule entry_earned)

theorem admin_entry_is_earned_witness:
  "\<exists>c w1 rq2 claims. adminLogin (demo_env []) Some demo_console (AdminGuard (demo_env []) demo_console) demo_login
       demo_admin_world = (Inr c, w1) \<and> carries c rq2 \<and>
     signed_admin_claims (demo_crypto []) (ag_jwtSecret (AdminGuard (demo_env []) demo_console)) (sc_Value c) = Some claims"
proof -
  obtain c w1 where l: "adminLogin (demo_env []) Some demo_console (AdminGuard (demo_env []) demo_console) demo_login
       demo_admin_world = (Inr c, w1)"
    and g: "fst (authorise (demo_env []) demo_console (AdminGuard (demo_env []) demo_console) (demo_carrying c)
       demo_admin_world) = AdminGranted (Some demo_admin)"
    using demo_console_entry by blast
  then obtain w' where "authorise (demo_env []) demo_console (AdminGuard (demo_env []) demo_console) (demo_carrying c)
       demo_admin_world = (AdminGranted (Some demo_admin), w')" by (metis prod.collapse)
  from admin_entry_is_earned[OF this] show ?thesis using l demo_carries[of c] demo_carried[OF l] by fastforce
qed


text \<open>C33: the password of an administrator is enough to enter the console. The login asks for no second factor, whether
  or not he has one or must have one, and the cookie it sets, alone, is let in until it expires as the user it was
  issued to, as long as he is an administrator.\<close>

theorem admin_password_suffices:
  assumes "ao_AccessPolicy (ax_admin cfg) = Some AdminIsAdminFlag" "ao_RootUser (ax_admin cfg) = None"
    and "ao_Secret (ax_admin cfg) = []" "ag_jwtSecret (AdminGuard v cfg) \<noteq> []"
    and "login_body (tq_Body rq) = (email, password)" "email \<noteq> []" "password \<noteq> []"
    and "GetUserByEmail email [] (w_users w) = Ok u" "u_PasswordHash u \<noteq> []" "u_ID u \<noteq> []"
      "verifyPassword (e_crypto v) password (u_PasswordHash u)"
    and "valid_utf8 (u_ID u)" "valid_utf8 (u_Email u)" "valid_utf8 (u_TenantID u)" "valid_utf8 (cf_Issuer (e_cfg v))"
    and "mint_time_ok num (e_clock v (w_tick w))"
  shows "\<exists>c w1. adminLogin v num cfg (AdminGuard v cfg) rq w = (Inr c, w1) \<and>
    (\<forall>rq2 w2 u2. carries c rq2 \<and>
       e_clock v (w_tick w2) \<le> time_of_unix (unix_of (e_clock v (w_tick w) + adminSessionTTL)) + cf_ClockSkew (e_cfg v) \<and>
       GetUserByID (u_ID u) (u_TenantID u) (w_users w2) = Ok u2 \<and> u_IsAdmin u2 \<longrightarrow>
       fst (authorise v cfg (AdminGuard v cfg) rq2 w2) = AdminGranted (Some u2))"
  using assms by (rule password_opens_console)

theorem admin_password_suffices_witness:
  "\<exists>c w1. adminLogin (demo_env []) Some demo_console (AdminGuard (demo_env []) demo_console) demo_login
       demo_admin_world = (Inr c, w1) \<and> requiresTwoFactor demo_cfg demo_admin \<and>
     fst (authorise (demo_env []) demo_console (AdminGuard (demo_env []) demo_console) (demo_carrying c)
       demo_admin_world) = AdminGranted (Some demo_admin)"
proof -
  have "verifyPassword (demo_crypto []) ''password'' (u_PasswordHash demo_admin)"
    by (simp add: verifyPassword_def demo_crypto_def)
  then show ?thesis
    using admin_password_suffices[OF demo_console_policy demo_console_secret demo_login_body, where w = demo_admin_world and
        u = demo_admin and num = Some] demo_admin_utf8 demo_issuer demo_mint_time demo_carries demo_in_time
    by (fastforce simp: requiresTwoFactor_def)
qed

text \<open>C34: a request that the guard does not admit changes nothing of the console's stores, whatever route it names, and
  is told nothing of them: the answers left are errors, redirects, the login cookie, the page, its assets and the
  documents.\<close>

theorem admin_guard_covers:
  assumes "limiter_ok limiter"
    and "\<And>u. fst (authorise (ae_env v) (ae_cfg v) (AdminGuard (ae_env v) (ae_cfg v)) rq (aw_service w)) \<noteq> AdminGranted u"
  shows "public_answer (fst (AdminHandler v limiter rq w)) \<and>
    (\<exists>k. snd (AdminHandler v limiter rq w) = w\<lparr>aw_service := (aw_service w)\<lparr>w_tick := k\<rparr>\<rparr>)"
  using handler_guarded[OF assms(1), of w v rq] assms(2)
  by (auto simp: admin_granted_def admin_quiet_def only_ticks_def)

theorem admin_guard_covers_witness:
  "\<exists>k. snd (AdminHandler demo_admin_env None demo_login demo_admin_state) =
     demo_admin_state\<lparr>aw_service := (aw_service demo_admin_state)\<lparr>w_tick := k\<rparr>\<rparr>"
proof -
  have "fst (authorise (ae_env demo_admin_env) (ae_cfg demo_admin_env)
      (AdminGuard (ae_env demo_admin_env) (ae_cfg demo_admin_env)) demo_login (aw_service demo_admin_state)) \<noteq> AdminGranted u" for u
    using demo_login_refused by (simp add: demo_admin_env_def demo_admin_state_def)
  then show ?thesis using admin_guard_covers[of None demo_admin_env demo_login demo_admin_state]
    by (simp add: limiter_ok_def)
qed

text \<open>C35: setting the second-factor policy comes to an end and reaches every user once: the walk over the pages answers
  the number of users, and leaves each with the flag asked for and otherwise as he was.\<close>

theorem two_factor_policy_reaches_everyone:
  assumes "user_store_ok (w_users w)" "has_AdminUserStore (e_caps (ae_env v))"
    and "int (stored_users w) \<le> max_int64 - 100"
  shows "two_factor_walk v r 0 0 w = (Returns (Some (int (card (fmdom' (us_byID (w_users w)))))),
    w\<lparr>w_users := (w_users w)\<lparr>us_byID := fmmap (\<lambda>u. u\<lparr>u_Require2FA := r\<rparr>) (us_byID (w_users w))\<rparr>\<rparr>)"
  using walk_all[OF assms] by (simp add: stored_users_def)

theorem two_factor_policy_reaches_everyone_witness:
  "fst (two_factor_walk demo_admin_env False 0 0 demo_admin_world) = Returns (Some 1)"
proof -
  have "has_AdminUserStore (e_caps (ae_env demo_admin_env))" "int (stored_users demo_admin_world) \<le> max_int64 - 100"
    by (simp_all add: demo_admin_env_def memory_caps_def stored_users_def demo_admin_stored)
  from two_factor_policy_reaches_everyone[OF demo_admin_ok this] show ?thesis by (simp add: demo_admin_stored)
qed

text \<open>C36: no request makes the console panic, whatever limit, offset, filter or body it carries: every slice expression
  a listing evaluates, in the stores and over the filtered rows, has its bounds in range, since what is asked for
  has the width of an \<open>int\<close> and a filtered listing cuts its page out of at most 500 rows. (The stores are smaller
  than the largest \<open>int\<close> by at least the size of a page.)\<close>

theorem admin_routes_never_panic:
  assumes "limiter_ok limiter"
    and "\<And>s. aw_keys w = Some s \<Longrightarrow> int (card (fmdom' (ks_byID s))) \<le> max_int64 - 500"
    and "\<And>s. aw_webhooks w = Some s \<Longrightarrow> int (length (ws_order s)) \<le> max_int64 - 100"
    and "int (card (fmdom' (us_byID (w_users (aw_service w))))) \<le> max_int64 - 100"
    and "int (card (fmdom' (ss_byID (w_sessions (aw_service w))))) \<le> max_int64"
  shows "fst (AdminHandler v limiter rq w) \<noteq> AdminPanics"
  using handler_no_panic[OF assms(1)] assms(2-5) by (simp add: admin_sizes_def stored_users_def)

theorem admin_routes_never_panic_witness:
  "fst (AdminHandler demo_admin_env None (demo_carrying (adminCookie demo_console ''t'' 1)) demo_admin_state) \<noteq> AdminPanics"
proof -
  have "card (fmdom' (us_byID (w_users demo_admin_world))) = 1" "card (fmdom' (ss_byID (w_sessions demo_admin_world))) = 0"
    by (simp_all add: demo_admin_stored) (simp add: demo_admin_world_def empty_world_def NewMemorySessionStore_def)
  then show ?thesis by (intro admin_routes_never_panic) (simp_all add: limiter_ok_def demo_admin_state_def)
qed

text \<open>C37: under the first-user policy the console belongs to the user with the least id. Ids are random, so a user
  who registers later with a smaller one takes the console, and whoever had it is shut out.\<close>

theorem later_user_takes_console:
  assumes "user_store_ok (w_users w)" "has_AdminUserStore (e_caps v)" "user_at (w_users w) (u_ID u) = Some u"
    and "fst (fst (evaluate v AdminFirstUser u w))"
    and "CreateUser later (w_users w) = (Ok later, s)" "u_ID later < u_ID u"
  shows "fst (fst (evaluate v AdminFirstUser later (w\<lparr>w_users := s\<rparr>))) \<and>
    \<not> fst (fst (evaluate v AdminFirstUser u (w\<lparr>w_users := s\<rparr>)))"
  using later_user_is_first[OF assms] by blast

theorem later_user_takes_console_witness:
  "\<not> fst (fst (evaluate (demo_env []) AdminFirstUser demo_admin
     (demo_admin_world\<lparr>w_users := snd (CreateUser demo_rival (w_users demo_admin_world))\<rparr>)))"
  using later_user_takes_console[OF demo_admin_ok _ _ demo_admin_first demo_rival_created demo_rival_less(1)]
    demo_rival_less(2,3) by simp

text \<open>C38: the update of the settings drops the decoder's error, after the decoder has allocated the pointer: a string
  where a boolean belongs switches the second factor off and is answered with success.\<close>

theorem mistyped_setting_disables_2fa:
  assumes "aw_settings w = Some s" "field_values settings_names ''require2FA'' (body_members (tq_Body rq)) = [JStr x]"
  shows "\<exists>s'. adminUpdateSettings rq w = (AdminSuccess, w\<lparr>aw_settings := Some s'\<rparr>) \<and>
    as_Require2FA (GetSettings s') = Some False"
  using assms by (rule mistyped_setting)

theorem mistyped_setting_disables_2fa_witness:
  "fst (adminUpdateSettings (demo_console_request ''PUT'' ''/admin/api/settings'' [] [(''require2FA'', JStr ''true'')])
     demo_admin_state) = AdminSuccess"
proof -
  have "valid_utf8 ''require2FA''" "valid_utf8 ''true''" by code_simp+
  then have "body_members (tq_Body (demo_console_request ''PUT'' ''/admin/api/settings'' [] [(''require2FA'', JStr ''true'')])) =
      [(''require2FA'', JStr ''true'')]"
    by (intro demo_console_body) (simp_all add: max_nesting_def)
  then show ?thesis
    using mistyped_setting_disables_2fa[of demo_admin_state NewMemorySettingsStore
        "demo_console_request ''PUT'' ''/admin/api/settings'' [] [(''require2FA'', JStr ''true'')]" "''true''"]
    by (auto simp: demo_admin_state_def field_values_def struct_field_def settings_names_def)
qed

section \<open>Webhooks and uploads\<close>

text \<open>C39: sending a webhook always comes to an end: there are at most as many attempts as retries plus one, numbered
  from zero, each with the same body and, when there is a secret, the HMAC of exactly that body under it. Every retry
  comes after a refusal and after the whole wait due, which doubles from the configured delay up to a ceiling. A
  success means the receiver accepted the last attempt; a failure means that every attempt was made and refused, that
  the random source failed, or that the last wait was cut short. With a negative number of retries nothing is
  sent, and that counts as a success.\<close>

theorem webhook_attempts_are_bounded:
  assumes "Send v config event k = (res, run)"
  shows "let as = sr_attempts run; ws = sr_waits run; body = marshal_envelope event; delay = RetryDelay config in
    int (length as) \<le> max 0 (Retries config + 1) \<and> map wa_Attempt as = map int [0..<length as] \<and>
    (\<forall>a\<in>set as. wa_Body a = body \<and> wa_URL a = wc_URL config \<and> wa_Headers a =
       [(''Content-Type'', ''application/json''), (''X-Webhook-Event'', ow_Event event),
        (''X-Webhook-Delivery'', wa_DeliveryID a), (''X-Webhook-Timestamp'', ow_Timestamp event)] @
       (if wc_Secret config \<noteq> []
        then [(''X-Webhook-Signature'', ''sha256='' @ hex_encode (c_hmac_sha256 (se_crypto v) (wc_Secret config) body))]
        else [])) \<and>
    length as \<in> {length ws, Suc (length ws)} \<and>
    (\<forall>j<length ws. (\<exists>k. se_deliver v k (as ! j) \<noteq> None) \<and> ws ! j = webhookBackoff delay (int j) \<and>
       (0 < delay \<and> delay \<le> 2 ^ 62 \<longrightarrow> ws ! j = min (delay * 2 ^ j) (2 ^ 62))) \<and>
    (\<forall>j. Suc j < length as \<longrightarrow> (\<exists>k. se_sleep v k (ws ! j) = None)) \<and>
    (0 \<le> Retries config \<and> is_ok res \<longrightarrow>
       length as = Suc (length ws) \<and> (\<exists>k. se_deliver v k (last as) = None)) \<and>
    (\<not> is_ok res \<longrightarrow>
       int (length as) = Retries config + 1 \<and> length as = Suc (length ws) \<and> (\<exists>k. se_deliver v k (last as) \<noteq> None) \<or>
       (\<exists>k. \<not> is_ok (c_rand (se_crypto v) k 16)) \<or>
       ws \<noteq> [] \<and> length ws = length as \<and> (\<exists>k. se_sleep v k (last ws) \<noteq> None)) \<and>
    (Retries config < 0 \<longrightarrow> is_ok res \<and> as = [])"
proof -
  have "is_ok res \<and> sr_attempts run = []" if "Retries config < 0"
    using Send_nothing[OF that, of v event k] assms by auto
  then show ?thesis
    using Send_told[OF assms, unfolded attempt_headers_def signWebhookBody_def] unfolding Let_def by blast
qed

theorem webhook_attempts_are_bounded_witness:
  "fst (Send demo_sender zero_webhook demo_event 0) = Ok () \<and>
   length (sr_attempts (snd (Send demo_sender zero_webhook demo_event 0))) =
     Suc (length (sr_waits (snd (Send demo_sender zero_webhook demo_event 0))))"
proof -
  have ok: "fst (Send demo_sender zero_webhook demo_event 0) = Ok ()" by code_simp
  have r: "0 \<le> Retries zero_webhook" by code_simp
  have "Send demo_sender zero_webhook demo_event 0 =
      (Ok (), snd (Send demo_sender zero_webhook demo_event 0))" using ok by (metis prod.collapse)
  from webhook_attempts_are_bounded[OF this] ok r show ?thesis by (simp add: Let_def)
qed

text \<open>C40: an upload with an allowed name is stored under a key that names no other directory and no hidden file,
  whatever the client called it, and opening that key gives back the bytes sent.\<close>

theorem upload_is_contained:
  assumes "UploadNameAllowed name" "is_int64 (unix_milli now)" "int (length body) \<le> UploadMaxBytes"
  shows "\<exists>key s'. adminUploadFile now written (Some (name, body)) s = (Inr key, s') \<and>
    ValidUploadKey key \<and> hd key \<noteq> CHR ''.'' \<and> CHR ''/'' \<notin> set key \<and> CHR 0x5C \<notin> set key \<and> CHR '':'' \<notin> set key \<and>
    upload_Open key s' = Ok (body, uploaded key (body, written))"
proof -
  let ?key = "adminUploadKey name now" and ?s = "fmupd (adminUploadKey name now) (body, written) s"
  have put: "adminUploadFile now written (Some (name, body)) s = (Inr ?key, ?s)"
    by (rule adminUploadFile_stores[OF assms])
  show ?thesis
    using put upload_roundtrip[OF put] upload_key_valid[OF assms(1,2)]
      ValidUploadKey_no_traversal[OF upload_key_valid[OF assms(1,2)]] by blast
qed

theorem upload_is_contained_witness:
  "\<exists>key s. adminUploadFile 5000000 7 (Some (''../../etc/logo.PNG'', ''xyz'')) NewMemoryUploadStore = (Inr key, s) \<and>
     CHR ''/'' \<notin> set key"
proof -
  have "UploadNameAllowed ''../../etc/logo.PNG''" "is_int64 (unix_milli 5000000)" "int (length ''xyz'') \<le> UploadMaxBytes"
    by code_simp+
  from upload_is_contained[OF this] show ?thesis by blast
qed

end
